(* ===== verification/Cubic_Prelude.thy ===== *)
theory Cubic_Prelude
  imports Main "HOL-Library.Word"
begin

text \<open>
  Shared vocabulary of the development: the machine integer types of the Rust sources, the
  checked arithmetic on \<open>usize\<close> (64 bits), big-endian byte conversion, the state-and-error
  type every fallible operation has, and the generic lemmas about them.

  An operation of the code that takes \<open>&mut self\<close> and returns \<open>Result\<close> is a function from the
  state to a pair of its result and the state it leaves behind. The state is returned on the
  error path too, because Rust keeps the mutations made before an early return.
\<close>

unbundle bit_operations_syntax

section \<open>Machine integers\<close>

type_synonym u8 = "8 word"
type_synonym u16 = "16 word"
type_synonym u32 = "32 word"
type_synonym u64 = "64 word"
type_synonym i8 = "8 word"
type_synonym i16 = "16 word"
type_synonym i32 = "32 word"
type_synonym i64 = "64 word"

text \<open>\<open>usize\<close> values are natural numbers below \<open>2 ^ 64\<close>.\<close>

definition usize_MAX :: nat where
  "usize_MAX = 2 ^ 64 - 1"

definition i32_MAX :: nat where
  "i32_MAX = 2 ^ 31 - 1"

definition u16_MAX :: nat where
  "u16_MAX = 2 ^ 16 - 1"

definition checked_add :: "nat \<Rightarrow> nat \<Rightarrow> nat option" where
  "checked_add a b = (if a + b \<le> usize_MAX then Some (a + b) else None)"

definition checked_mul :: "nat \<Rightarrow> nat \<Rightarrow> nat option" where
  "checked_mul a b = (if a * b \<le> usize_MAX then Some (a * b) else None)"

definition saturating_add :: "nat \<Rightarrow> nat \<Rightarrow> nat" where
  "saturating_add a b = min (a + b) usize_MAX"

definition div_ceil :: "nat \<Rightarrow> nat \<Rightarrow> nat" where
  "div_ceil a b = (a + b - 1) div b"

lemma checked_add_Some [simp]: "checked_add a b = Some c \<longleftrightarrow> c = a + b \<and> a + b \<le> usize_MAX"
  by (auto simp: checked_add_def)

lemma checked_add_None [simp]: "checked_add a b = None \<longleftrightarrow> usize_MAX < a + b"
  by (auto simp: checked_add_def)

lemma checked_mul_Some [simp]: "checked_mul a b = Some c \<longleftrightarrow> c = a * b \<and> a * b \<le> usize_MAX"
  by (auto simp: checked_mul_def)

lemma checked_mul_None [simp]: "checked_mul a b = None \<longleftrightarrow> usize_MAX < a * b"
  by (auto simp: checked_mul_def)

section \<open>Results\<close>

text \<open>\<open>and_also r f\<close> is \<open>let x = r?; f(x)\<close> on a \<open>Result\<close>.\<close>

definition and_also :: "'e + 'a \<Rightarrow> ('a \<Rightarrow> 'e + 'b) \<Rightarrow> 'e + 'b" where
  "and_also r f = (case r of Inl e \<Rightarrow> Inl e | Inr a \<Rightarrow> f a)"

lemma and_also_Inr [simp]: "and_also r f = Inr b \<longleftrightarrow> (\<exists>a. r = Inr a \<and> f a = Inr b)"
  by (cases r) (auto simp: and_also_def)

text \<open>\<open>iter.map(f).collect::<Result<Vec<_>, _>>()\<close>: the first error ends the iteration.\<close>

fun try_each :: "('a \<Rightarrow> 'e + 'b) \<Rightarrow> 'a list \<Rightarrow> 'e + 'b list" where
  "try_each f [] = Inr []"
| "try_each f (x # xs) = and_also (f x) (\<lambda>y. and_also (try_each f xs) (\<lambda>ys. Inr (y # ys)))"

lemma try_each_Inr: "try_each f xs = Inr ys \<longleftrightarrow> list_all2 (\<lambda>x y. f x = Inr y) xs ys"
  by (induction xs arbitrary: ys) (auto simp: list_all2_Cons1)

text \<open>\<open>for x in xs { f(x)?; }\<close>\<close>

fun for_each :: "('a \<Rightarrow> 'e + unit) \<Rightarrow> 'a list \<Rightarrow> 'e + unit" where
  "for_each f [] = Inr ()"
| "for_each f (x # xs) = and_also (f x) (\<lambda>_. for_each f xs)"

lemma for_each_Inr [simp]: "for_each f xs = Inr u \<longleftrightarrow> list_all (\<lambda>x. f x = Inr ()) xs"
  by (induction xs) auto

section \<open>Results with state\<close>

type_synonym ('s, 'e, 'a) fallible = "'s \<Rightarrow> ('e + 'a) \<times> 's"

definition ok :: "'a \<Rightarrow> ('s, 'e, 'a) fallible" where
  "ok a = (\<lambda>s. (Inr a, s))"

definition fail :: "'e \<Rightarrow> ('s, 'e, 'a) fallible" where
  "fail e = (\<lambda>s. (Inl e, s))"

text \<open>\<open>and_then m k\<close> is \<open>let x = m?; k(x)\<close>: the error of \<open>m\<close> returns early.\<close>

definition and_then ::
  "('s, 'e, 'a) fallible \<Rightarrow> ('a \<Rightarrow> ('s, 'e, 'b) fallible) \<Rightarrow> ('s, 'e, 'b) fallible" where
  "and_then m k = (\<lambda>s. case m s of (Inl e, s') \<Rightarrow> (Inl e, s') | (Inr a, s') \<Rightarrow> k a s')"

text \<open>\<open>map_err f m\<close> is \<open>m.map_err(f)\<close>, also written by \<open>?\<close> through a \<open>From\<close> instance.\<close>

definition map_err :: "('e \<Rightarrow> 'f) \<Rightarrow> ('s, 'e, 'a) fallible \<Rightarrow> ('s, 'f, 'a) fallible" where
  "map_err f m = (\<lambda>s. case m s of (Inl e, s') \<Rightarrow> (Inl (f e), s') | (Inr a, s') \<Rightarrow> (Inr a, s'))"

text \<open>\<open>ensure c e\<close> is \<open>if !c { return Err(e); }\<close>.\<close>

definition ensure :: "bool \<Rightarrow> 'e \<Rightarrow> ('s, 'e, unit) fallible" where
  "ensure c e = (if c then ok () else fail e)"

text \<open>A stateless \<open>Result\<close> used inside an operation with \<open>?\<close>.\<close>

definition lift_result :: "'e + 'a \<Rightarrow> ('s, 'e, 'a) fallible" where
  "lift_result r = (\<lambda>s. (r, s))"

text \<open>\<open>for _ in 0..n { out.push(m?); }\<close>\<close>

fun read_n :: "nat \<Rightarrow> ('s, 'e, 'a) fallible \<Rightarrow> ('s, 'e, 'a list) fallible" where
  "read_n 0 m = ok []"
| "read_n (Suc n) m = and_then m (\<lambda>x. and_then (read_n n m) (\<lambda>xs. ok (x # xs)))"

named_theorems run_simps \<open>equations that run an operation on a given state\<close>

lemma and_then_cong [fundef_cong]:
  assumes "m1 s2 = m2 s2"
    and "\<And>a s'. m2 s2 = (Inr a, s') \<Longrightarrow> k1 a s' = k2 a s'"
    and "s1 = s2"
  shows "and_then m1 k1 s1 = and_then m2 k2 s2"
  using assms by (auto simp: and_then_def split: prod.splits sum.splits)

lemma ok_apply [run_simps]: "ok a s = (Inr a, s)"
  by (simp add: ok_def)

lemma fail_apply [run_simps]: "fail e s = (Inl e, s)"
  by (simp add: fail_def)

lemma lift_result_apply [run_simps]: "lift_result r s = (r, s)"
  by (simp add: lift_result_def)

lemma ensure_apply [run_simps]: "ensure c e s = (if c then (Inr (), s) else (Inl e, s))"
  by (simp add: ensure_def run_simps)

lemma and_then_ok [simp]: "and_then (ok a) k = k a"
  by (simp add: and_then_def fun_eq_iff run_simps)

lemma and_then_Inr: "m s = (Inr a, s') \<Longrightarrow> and_then m k s = k a s'"
  by (simp add: and_then_def)

lemma and_then_Inl: "m s = (Inl e, s') \<Longrightarrow> and_then m k s = (Inl e, s')"
  by (simp add: and_then_def)

lemma and_then_InrE:
  assumes "and_then m k s = (Inr b, s'')"
  obtains a s' where "m s = (Inr a, s')" and "k a s' = (Inr b, s'')"
  using assms by (auto simp: and_then_def split: prod.splits sum.splits)

lemma and_then_ensure: "and_then (ensure c e) k s = (if c then k () s else (Inl e, s))"
  by (simp add: and_then_def run_simps)

lemma and_then_lift_result:
  "and_then (lift_result r) k s = (case r of Inl e \<Rightarrow> (Inl e, s) | Inr a \<Rightarrow> k a s)"
  by (simp add: and_then_def run_simps split: sum.splits)

lemma map_err_Inr: "map_err f m s = (Inr a, s') \<longleftrightarrow> m s = (Inr a, s')"
  by (auto simp: map_err_def split: prod.splits sum.splits)

lemma map_err_InrI: "m s = (Inr a, s') \<Longrightarrow> map_err f m s = (Inr a, s')"
  by (simp add: map_err_Inr)

lemma snd_map_err: "snd (map_err f m s) = snd (m s)"
  by (simp add: map_err_def split: prod.splits sum.splits)

lemma read_n_length: "read_n n m s = (Inr xs, s') \<Longrightarrow> length xs = n"
  by (induction n arbitrary: xs s s') (auto simp: run_simps elim!: and_then_InrE)

section \<open>Big-endian bytes\<close>

definition to_be_bytes :: "'a::len word \<Rightarrow> u8 list" where
  "to_be_bytes w = map (\<lambda>i. ucast (drop_bit (8 * i) w)) (rev [0..<LENGTH('a) div 8])"

definition from_be_bytes :: "u8 list \<Rightarrow> 'a::len word" where
  "from_be_bytes bs = foldl (\<lambda>acc b. push_bit 8 acc OR ucast b) 0 bs"

lemma length_to_be_bytes [simp]: "length (to_be_bytes (w :: 'a::len word)) = LENGTH('a) div 8"
  by (simp add: to_be_bytes_def)

lemma bit_from_be_bytes:
  "bit (from_be_bytes bs :: 'a::len word) n \<longleftrightarrow>
     n < LENGTH('a) \<and> n div 8 < length bs \<and> bit (bs ! (length bs - 1 - n div 8)) (n mod 8)"
proof (induction bs arbitrary: n rule: rev_induct)
  case Nil
  then show ?case by (simp add: from_be_bytes_def)
next
  case (snoc b bs)
  have step: "from_be_bytes (bs @ [b]) = push_bit 8 (from_be_bytes bs) OR (ucast b :: 'a word)"
    by (simp add: from_be_bytes_def)
  show ?case
  proof (cases "n < 8")
    case True
    then show ?thesis
      by (simp add: step bit_simps nth_append)
  next
    case False
    then obtain k where n: "n = k + 8"
      by (metis add.commute le_add_diff_inverse not_less)
    have "\<not> bit b n" using False bit_imp_le_length[of b n] by auto
    moreover have "(k + 8) div 8 = Suc (k div 8)" by simp
    ultimately show ?thesis
      using snoc.IH[of k] by (auto simp: step bit_simps n nth_append)
  qed
qed

lemma from_to_be_bytes [simp]:
  assumes "8 dvd LENGTH('a)"
  shows "from_be_bytes (to_be_bytes w) = (w :: 'a::len word)"
proof (rule bit_word_eqI)
  fix n assume n: "n < LENGTH('a)"
  then have k: "n div 8 < LENGTH('a) div 8"
    using assms by (metis div_less_mono zero_less_numeral less_mult_imp_div_less dvd_div_mult_self)
  have "LENGTH('a) div 8 - 1 - (LENGTH('a) div 8 - 1 - n div 8) = n div 8"
    using k by simp
  then have "to_be_bytes w ! (LENGTH('a) div 8 - 1 - n div 8) = ucast (drop_bit (8 * (n div 8)) w)"
    using k by (simp add: to_be_bytes_def rev_nth)
  then show "bit (from_be_bytes (to_be_bytes w) :: 'a word) n = bit w n"
    using n k by (simp add: bit_from_be_bytes bit_simps)
qed

lemma to_from_be_bytes [simp]:
  assumes "8 dvd LENGTH('a)" and "length bs = LENGTH('a) div 8"
  shows "to_be_bytes (from_be_bytes bs :: 'a::len word) = bs"
proof (rule nth_equalityI)
  show "length (to_be_bytes (from_be_bytes bs :: 'a word)) = length bs"
    using assms by simp
next
  fix i assume "i < length (to_be_bytes (from_be_bytes bs :: 'a word))"
  then have i: "i < length bs" using assms by simp
  define j where "j = length bs - 1 - i"
  have j: "to_be_bytes (from_be_bytes bs :: 'a word) ! i = ucast (drop_bit (8 * j) (from_be_bytes bs :: 'a word))"
    using i assms by (simp add: to_be_bytes_def rev_nth j_def)
  have "ucast (drop_bit (8 * j) (from_be_bytes bs :: 'a word)) = bs ! i"
  proof (rule bit_word_eqI)
    fix n assume n: "n < LENGTH(8)"
    obtain m where "LENGTH('a) = 8 * m" using assms(1) by (rule dvdE)
    then have "8 * j + n < LENGTH('a)"
      using assms(2) i n by (simp add: j_def)
    moreover have "(8 * j + n) div 8 = j" and "(8 * j + n) mod 8 = n"
      using n by simp_all
    moreover have "j < length bs" and "length bs - Suc j = i"
      using i by (auto simp: j_def)
    ultimately show "bit (ucast (drop_bit (8 * j) (from_be_bytes bs :: 'a word)) :: u8) n = bit (bs ! i) n"
      using n by (simp add: bit_simps bit_from_be_bytes)
  qed
  with j show "to_be_bytes (from_be_bytes bs :: 'a word) ! i = bs ! i" by simp
qed

text \<open>
  Reading bit manipulations as arithmetic: masks as remainders, shifts as products and
  quotients, an or of disjoint parts as a sum.
\<close>

named_theorems unat_arith \<open>bit operations on words as arithmetic on naturals\<close>

lemma nat_or_add:
  assumes "2 ^ k dvd (a :: nat)" and "b < 2 ^ k"
  shows "a OR b = a + b"
proof -
  have "\<not> bit a n \<or> \<not> bit b n" for n
  proof (cases "n < k")
    case True
    obtain q where "a = 2 ^ k * q" using assms(1) by (rule dvdE)
    then have "a = push_bit k q" by (simp add: push_bit_eq_mult mult.commute)
    then show ?thesis using True by (simp add: bit_push_bit_iff)
  next
    case False
    then have "b < 2 ^ n" using assms(2) by (meson less_le_trans not_less one_le_numeral power_increasing)
    then show ?thesis by (simp add: bit_iff_odd)
  qed
  then show ?thesis using disjunctive_add[of a b] by simp
qed

lemma unat_or_add:
  assumes "2 ^ k dvd unat a" and "unat b < 2 ^ k"
  shows "unat (a OR b) = unat a + unat b"
  by (simp add: unsigned_or_eq nat_or_add[OF assms])

lemma unat_and_mask [unat_arith]: "unat (w AND mask k) = unat w mod 2 ^ k"
  unfolding take_bit_eq_mask[symmetric] unsigned_take_bit_eq by (rule take_bit_eq_mod)

lemma unat_drop_bit [unat_arith]: "unat (drop_bit k w) = unat w div 2 ^ k"
  unfolding unat_drop_bit_eq by (rule drop_bit_eq_div)

lemma unat_push_bit:
  "unat (w :: 'a::len word) * 2 ^ k < 2 ^ LENGTH('a) \<Longrightarrow> unat (push_bit k w) = unat w * 2 ^ k"
  by (simp only: unsigned_push_bit_eq) (simp add: push_bit_eq_mult take_bit_nat_eq_self)

lemma unat_ucast: "unat (ucast w :: 'b::len word) = unat w mod 2 ^ LENGTH('b)"
  by (simp add: unsigned_ucast_eq take_bit_eq_mod)

lemma unat_ucast_up: "unat w < 2 ^ LENGTH('b) \<Longrightarrow> unat (ucast w :: 'b::len word) = unat w"
  by (simp add: unat_ucast)

lemma mask_numerals:
  "(0x1f :: 'a::len word) = mask 5" "(0x3f :: 'a::len word) = mask 6" "(0x0f :: 'a::len word) = mask 4"
  by (simp_all add: mask_eq_exp_minus_1)

text \<open>
  Invariants of operations that thread a state: \<open>keeps I m\<close> says that \<open>m\<close> leads from states with \<open>I\<close> to states with
  \<open>I\<close>, also when it stops with an error.
\<close>

definition keeps :: "('s \<Rightarrow> bool) \<Rightarrow> ('s, 'e, 'a) fallible \<Rightarrow> bool" where
  "keeps I m \<longleftrightarrow> (\<forall>s. I s \<longrightarrow> I (snd (m s)))"

named_theorems keeps_intros \<open>operations that keep an invariant\<close>

lemma keepsI: "(\<And>s. I s \<Longrightarrow> I (snd (m s))) \<Longrightarrow> keeps I m"
  by (simp add: keeps_def)

lemma keepsD: "keeps I m \<Longrightarrow> I s \<Longrightarrow> I (snd (m s))"
  by (simp add: keeps_def)

lemma keeps_run: "keeps I m \<Longrightarrow> I s \<Longrightarrow> m s = (r, s') \<Longrightarrow> I s'"
  using keepsD[of I m s] by simp

lemma keeps_ok [keeps_intros]: "keeps I (ok x)"
  by (simp add: keeps_def ok_def)

lemma keeps_fail [keeps_intros]: "keeps I (fail e)"
  by (simp add: keeps_def fail_def)

lemma keeps_lift [keeps_intros]: "keeps I (lift_result r)"
  by (simp add: keeps_def lift_result_def)

declare snd_map_err [simp]

lemma keeps_map_err [keeps_intros]: "keeps I m \<Longrightarrow> keeps I (map_err f m)"
  by (simp add: keeps_def)

lemma keeps_pair [keeps_intros]: "keeps I (\<lambda>s. (r s, s))"
  by (simp add: keeps_def)

lemma keeps_and_then [keeps_intros]:
  assumes "keeps I m" and "\<And>x. keeps I (k x)"
  shows "keeps I (and_then m k)"
proof (rule keepsI)
  fix s assume s: "I s"
  show "I (snd (and_then m k s))"
  proof (cases "m s")
    case (Pair r t)
    then have "I t" using keeps_run[OF assms(1) s] by simp
    then show ?thesis using keepsD[OF assms(2)] by (cases r) (simp_all add: and_then_def Pair)
  qed
qed

lemma keeps_if [keeps_intros]: "keeps I m \<Longrightarrow> keeps I n \<Longrightarrow> keeps I (if b then m else n)"
  by simp

lemma keeps_option [keeps_intros]:
  "keeps I m \<Longrightarrow> (\<And>x. keeps I (k x)) \<Longrightarrow> keeps I (case v of None \<Rightarrow> m | Some x \<Rightarrow> k x)"
  by (cases v) simp_all

text \<open>\<open>str::ends_with\<close> and \<open>str::contains\<close>.\<close>

definition ends_with :: "string \<Rightarrow> string \<Rightarrow> bool" where
  "ends_with name suffix = (length suffix \<le> length name \<and> drop (length name - length suffix) name = suffix)"

fun contains :: "string \<Rightarrow> string \<Rightarrow> bool" where
  "contains [] p = (p = [])"
| "contains (x # xs) p = (take (length p) (x # xs) = p \<or> contains xs p)"

end
