(* ===== verification/Codec_Reader.thy ===== *)
theory Codec_Reader
  imports Cubic_Prelude
begin

text \<open>
  \<open>cubic-protocol\<close>: the structured codec errors (\<open>error.rs\<close>) and the cursor over untrusted
  bytes with its fixed-width reads (\<open>reader.rs\<close>, \<open>CodecReader\<close>). The length-prefixed reads,
  which need the VarInt codec, are in \<open>Codec_Strings\<close>.

  Two predicates carry every proof about readers: \<open>advances m\<close> says that \<open>m\<close> never changes
  the input, never moves the cursor backwards and never moves it past the end, whatever the
  bytes are; \<open>decodes m bs v\<close> says that \<open>m\<close>, met with \<open>bs\<close> anywhere in an input, consumes
  exactly \<open>bs\<close> and returns \<open>v\<close>. Both are closed under \<open>and_then\<close>.
\<close>

section \<open>Errors\<close>

datatype length_kind =
  LengthKind_String | LengthKind_ByteArray | LengthKind_BitSet | LengthKind_Frame

datatype codec_error =
    UnexpectedEnd string nat nat
  | MalformedVarInt
  | MalformedVarLong
  | MalformedLengthPrefix length_kind
  | NegativeLength length_kind i32
  | ValueOutOfRange string int int int
  | InvalidUtf8 nat
  | StringTooLong nat nat
  | EncodedStringTooLong nat nat
  | ByteArrayTooLong nat nat
  | BitSetTooManyWords nat nat
  | BitSetBitOutOfRange nat nat
  | FrameTooLong nat nat
  | FrameBufferTooLong nat nat
  | InvalidBlockPosition string i32 i32 i32
  | AllocationFailed string nat

text \<open>
  The allocator answers a \<open>try_reserve\<close> of a number of elements; it is the environment's, so
  the operations that allocate take it as an argument.
\<close>

type_synonym allocator = "nat \<Rightarrow> bool"

section \<open>The cursor\<close>

record codec_reader =
  input :: "u8 list"
  position :: nat

type_synonym 'a reader_op = "(codec_reader, codec_error, 'a) fallible"

definition new_reader :: "u8 list \<Rightarrow> codec_reader" where
  "new_reader bytes = \<lparr>input = bytes, position = 0\<rparr>"

definition remaining :: "codec_reader \<Rightarrow> nat" where
  "remaining r = length (input r) - position r"

text \<open>\<open>slice.get(a..b)\<close>: absent when the range is not inside the slice.\<close>

definition get_range :: "'a list \<Rightarrow> nat \<Rightarrow> nat \<Rightarrow> 'a list option" where
  "get_range xs a b = (if a \<le> b \<and> b \<le> length xs then Some (take (b - a) (drop a xs)) else None)"

definition consumed_since :: "codec_reader \<Rightarrow> nat \<Rightarrow> codec_error + u8 list" where
  "consumed_since r start =
     (case get_range (input r) start (position r) of
        Some bytes \<Rightarrow> Inr bytes
      | None \<Rightarrow> Inl (ValueOutOfRange ''reader cursor snapshot'' (int start) 0 (int (position r))))"

definition read_remaining :: "codec_reader \<Rightarrow> u8 list \<times> codec_reader" where
  "read_remaining r =
     ((if position r \<le> length (input r) then drop (position r) (input r) else []),
      r\<lparr>position := length (input r)\<rparr>)"

definition read_bytes :: "nat \<Rightarrow> string \<Rightarrow> u8 list reader_op" where
  "read_bytes len ctx r =
     (let rem = remaining r in
      case checked_add (position r) len of
        None \<Rightarrow> (Inl (ValueOutOfRange ''reader byte length'' (int len) 0 (int usize_MAX)), r)
      | Some end_pos \<Rightarrow>
          (case get_range (input r) (position r) end_pos of
             None \<Rightarrow> (Inl (UnexpectedEnd ctx len rem), r)
           | Some bytes \<Rightarrow> (Inr bytes, r\<lparr>position := end_pos\<rparr>)))"

definition read_byte_with_context :: "string \<Rightarrow> u8 reader_op" where
  "read_byte_with_context ctx =
     and_then (read_bytes 1 ctx)
       (\<lambda>bytes. case bytes of b # _ \<Rightarrow> ok b | [] \<Rightarrow> fail (UnexpectedEnd ctx 1 0))"

definition read_array :: "nat \<Rightarrow> string \<Rightarrow> u8 list reader_op" where
  "read_array n ctx =
     and_then (read_bytes n ctx)
       (\<lambda>bytes. if length bytes = n then ok bytes else fail (UnexpectedEnd ctx n (length bytes)))"

definition read_i8 :: "i8 reader_op" where
  "read_i8 = and_then (read_byte_with_context ''i8'') (\<lambda>b. ok (from_be_bytes [b]))"

definition read_u8 :: "u8 reader_op" where
  "read_u8 = read_byte_with_context ''u8''"

definition read_i16 :: "i16 reader_op" where
  "read_i16 = and_then (read_array 2 ''i16'') (\<lambda>bs. ok (from_be_bytes bs))"

definition read_u16 :: "u16 reader_op" where
  "read_u16 = and_then (read_array 2 ''u16'') (\<lambda>bs. ok (from_be_bytes bs))"

definition read_i32 :: "i32 reader_op" where
  "read_i32 = and_then (read_array 4 ''i32'') (\<lambda>bs. ok (from_be_bytes bs))"

definition read_u32 :: "u32 reader_op" where
  "read_u32 = and_then (read_array 4 ''u32'') (\<lambda>bs. ok (from_be_bytes bs))"

definition read_i64 :: "i64 reader_op" where
  "read_i64 = and_then (read_array 8 ''i64'') (\<lambda>bs. ok (from_be_bytes bs))"

definition read_u64 :: "u64 reader_op" where
  "read_u64 = and_then (read_array 8 ''u64'') (\<lambda>bs. ok (from_be_bytes bs))"

text \<open>A float is carried as its bit pattern (\<open>from_bits\<close>, \<open>to_bits\<close>).\<close>

definition read_f32 :: "u32 reader_op" where
  "read_f32 = read_u32"

definition read_f64 :: "u64 reader_op" where
  "read_f64 = read_u64"

definition read_bool :: "bool reader_op" where
  "read_bool = and_then read_u8 (\<lambda>b. ok (b \<noteq> 0))"

section \<open>Reads never leave the input\<close>

definition reader_wf :: "codec_reader \<Rightarrow> bool" where
  "reader_wf r \<longleftrightarrow> position r \<le> length (input r) \<and> length (input r) \<le> usize_MAX"

definition advances :: "(codec_reader, 'e, 'a) fallible \<Rightarrow> bool" where
  "advances m \<longleftrightarrow> (\<forall>r. reader_wf r \<longrightarrow>
     (let r' = snd (m r) in
        input r' = input r \<and> position r \<le> position r' \<and> position r' \<le> length (input r)))"

named_theorems advances_intros \<open>operations that keep the cursor inside the input\<close>

lemma advancesI:
  assumes "\<And>r res r'. reader_wf r \<Longrightarrow> m r = (res, r') \<Longrightarrow>
     input r' = input r \<and> position r \<le> position r' \<and> position r' \<le> length (input r)"
  shows "advances m"
  unfolding advances_def Let_def using assms by (metis prod.collapse)

lemma advancesD:
  assumes "advances m" and "reader_wf r" and "m r = (res, r')"
  shows "input r' = input r" and "position r \<le> position r'" and "reader_wf r'"
proof -
  have "input r' = input r \<and> position r \<le> position r' \<and> position r' \<le> length (input r)"
    using assms by (auto simp: advances_def Let_def)
  then show "input r' = input r" and "position r \<le> position r'" and "reader_wf r'"
    using assms(2) by (auto simp: reader_wf_def)
qed

lemma advances_ok [advances_intros]: "advances (ok a)"
  by (simp add: advances_def reader_wf_def run_simps)

lemma advances_fail [advances_intros]: "advances (fail e)"
  by (simp add: advances_def reader_wf_def run_simps)

lemma advances_lift_result [advances_intros]: "advances (lift_result e)"
  by (simp add: advances_def reader_wf_def run_simps)

lemma advances_ensure [advances_intros]: "advances (ensure c e)"
  by (simp add: ensure_def advances_ok advances_fail)

lemma advances_and_then [advances_intros]:
  assumes m: "advances m" and k: "\<And>a. advances (k a)"
  shows "advances (and_then m k)"
proof (rule advancesI)
  fix r res r'' assume wf: "reader_wf r" and run: "and_then m k r = (res, r'')"
  obtain x r1 where mr: "m r = (x, r1)" by fastforce
  note step = advancesD[OF m wf mr]
  show "input r'' = input r \<and> position r \<le> position r'' \<and> position r'' \<le> length (input r)"
  proof (cases x)
    case (Inl e)
    then show ?thesis using run mr step by (auto simp: and_then_def reader_wf_def)
  next
    case (Inr a)
    then have "k a r1 = (res, r'')" using run mr by (simp add: and_then_def)
    from advancesD[OF k step(3) this] step show ?thesis by (auto simp: reader_wf_def)
  qed
qed

lemma advances_if [advances_intros]:
  "(c \<Longrightarrow> advances a) \<Longrightarrow> (\<not> c \<Longrightarrow> advances b) \<Longrightarrow> advances (if c then a else b)"
  by simp

lemma advances_option [advances_intros]:
  "advances a \<Longrightarrow> (\<And>x. advances (b x)) \<Longrightarrow> advances (case v of None \<Rightarrow> a | Some x \<Rightarrow> b x)"
  by (cases v) auto

lemma advances_map_err [advances_intros]: "advances m \<Longrightarrow> advances (map_err f m)"
  by (simp add: advances_def snd_map_err)

lemma advances_read_n [advances_intros]: "advances m \<Longrightarrow> advances (read_n n m)"
  by (induction n) (auto intro!: advances_intros)

lemma advances_read_bytes [advances_intros]: "advances (read_bytes len ctx)"
  by (rule advancesI)
    (auto simp: read_bytes_def get_range_def Let_def reader_wf_def split: option.splits if_splits)

lemma advances_read_byte [advances_intros]: "advances (read_byte_with_context ctx)"
  unfolding read_byte_with_context_def
  by (rule advances_and_then[OF advances_read_bytes]) (auto intro: advances_intros split: list.split)

lemma advances_read_array [advances_intros]: "advances (read_array n ctx)"
  unfolding read_array_def by (intro advances_intros)

lemma advances_fixed_width [advances_intros]:
  "advances read_i8" "advances read_u8" "advances read_i16" "advances read_u16"
  "advances read_i32" "advances read_u32" "advances read_i64" "advances read_u64"
  "advances read_f32" "advances read_f64" "advances read_bool"
  unfolding read_i8_def read_u8_def read_i16_def read_u16_def read_i32_def read_u32_def
    read_i64_def read_u64_def read_f32_def read_f64_def read_bool_def
  by (intro advances_intros)+

section \<open>Exact decoding\<close>

text \<open>The reader whose consumed part is \<open>pre\<close> and whose unread part is \<open>rest\<close>.\<close>

definition reader_at :: "u8 list \<Rightarrow> u8 list \<Rightarrow> codec_reader" where
  "reader_at pre rest = \<lparr>input = pre @ rest, position = length pre\<rparr>"

definition decodes :: "(codec_reader, 'e, 'a) fallible \<Rightarrow> u8 list \<Rightarrow> 'a \<Rightarrow> bool" where
  "decodes m bs v \<longleftrightarrow>
     (\<forall>pre rest. length (pre @ bs @ rest) \<le> usize_MAX \<longrightarrow>
        m (reader_at pre (bs @ rest)) = (Inr v, reader_at (pre @ bs) rest))"

named_theorems decodes_intros \<open>what an operation reads back\<close>

lemma reader_wf_reader_at [simp]: "reader_wf (reader_at pre rest) \<longleftrightarrow> length (pre @ rest) \<le> usize_MAX"
  by (simp add: reader_wf_def reader_at_def)

lemma remaining_reader_at [simp]: "remaining (reader_at pre rest) = length rest"
  by (simp add: remaining_def reader_at_def)

lemma position_reader_at [simp]: "position (reader_at pre rest) = length pre"
  by (simp add: reader_at_def)

lemma input_reader_at [simp]: "input (reader_at pre rest) = pre @ rest"
  by (simp add: reader_at_def)

lemma new_reader_eq: "new_reader bytes = reader_at [] bytes"
  by (simp add: new_reader_def reader_at_def)

lemma reader_wf_cases:
  assumes "reader_wf r"
  obtains pre rest where "r = reader_at pre rest" and "length (pre @ rest) \<le> usize_MAX"
proof
  show "r = reader_at (take (position r) (input r)) (drop (position r) (input r))"
    using assms by (simp add: reader_at_def reader_wf_def)
  show "length (take (position r) (input r) @ drop (position r) (input r)) \<le> usize_MAX"
    using assms by (simp add: reader_wf_def)
qed

lemma read_remaining_reader_at:
  "read_remaining (reader_at pre rest) = (rest, reader_at (pre @ rest) [])"
  by (simp add: read_remaining_def reader_at_def)

lemma decodesI:
  assumes "\<And>pre rest. length (pre @ bs @ rest) \<le> usize_MAX \<Longrightarrow>
     m (reader_at pre (bs @ rest)) = (Inr v, reader_at (pre @ bs) rest)"
  shows "decodes m bs v"
  using assms by (simp add: decodes_def)

lemma decodesD:
  "decodes m bs v \<Longrightarrow> length (pre @ bs @ rest) \<le> usize_MAX \<Longrightarrow>
     m (reader_at pre (bs @ rest)) = (Inr v, reader_at (pre @ bs) rest)"
  by (simp add: decodes_def)

lemma decodes_complete:
  "decodes m bs v \<Longrightarrow> length bs \<le> usize_MAX \<Longrightarrow> m (new_reader bs) = (Inr v, reader_at bs [])"
  using decodesD[of m bs v "[]" "[]"] by (simp add: new_reader_eq)

lemma decodes_ok [decodes_intros]: "decodes (ok v) [] v"
  by (simp add: decodes_def run_simps)

lemma decodes_and_then:
  assumes "decodes m bs a" and "decodes (k a) bs' v"
  shows "decodes (and_then m k) (bs @ bs') v"
proof (rule decodesI)
  fix pre rest assume len: "length (pre @ (bs @ bs') @ rest) \<le> usize_MAX"
  have "m (reader_at pre (bs @ bs' @ rest)) = (Inr a, reader_at (pre @ bs) (bs' @ rest))"
    using len by (intro decodesD[OF assms(1)]) simp
  moreover have "k a (reader_at (pre @ bs) (bs' @ rest)) = (Inr v, reader_at ((pre @ bs) @ bs') rest)"
    using len by (intro decodesD[OF assms(2)]) simp
  ultimately show "and_then m k (reader_at pre ((bs @ bs') @ rest)) = (Inr v, reader_at (pre @ bs @ bs') rest)"
    by (simp add: and_then_def)
qed

lemma decodes_and_then_ok:
  "decodes m bs a \<Longrightarrow> v = f a \<Longrightarrow> decodes (and_then m (\<lambda>x. ok (f x))) bs v"
  using decodes_and_then[of m bs a "\<lambda>x. ok (f x)" "[]" v] by (simp add: decodes_ok)

lemma decodes_map_err [decodes_intros]: "decodes m bs v \<Longrightarrow> decodes (map_err f m) bs v"
  by (simp add: decodes_def map_err_Inr)

lemma decodes_ensure: "c \<Longrightarrow> decodes (k ()) bs v \<Longrightarrow> decodes (and_then (ensure c e) k) bs v"
  by (simp add: ensure_def)

lemma decodes_read_bytes [decodes_intros]:
  "n = length bs \<Longrightarrow> decodes (read_bytes n ctx) bs bs"
  by (rule decodesI) (auto simp: read_bytes_def get_range_def reader_at_def Let_def split: option.split)

lemma decodes_read_byte [decodes_intros]: "decodes (read_byte_with_context ctx) [b] b"
  unfolding read_byte_with_context_def
  using decodes_and_then[OF decodes_read_bytes[of 1 "[b]" ctx],
      of "\<lambda>bytes. case bytes of b # _ \<Rightarrow> ok b | [] \<Rightarrow> fail (UnexpectedEnd ctx 1 0)" "[]" b]
  by (simp add: decodes_ok)

lemma decodes_byte_then:
  "decodes (k b) bs v \<Longrightarrow> decodes (and_then (read_byte_with_context ctx) k) (b # bs) v"
  using decodes_and_then[OF decodes_read_byte, of k b bs v ctx] by simp

lemma decodes_read_array [decodes_intros]: "n = length bs \<Longrightarrow> decodes (read_array n ctx) bs bs"
  unfolding read_array_def
  using decodes_and_then[OF decodes_read_bytes[of n bs ctx],
      of "\<lambda>bytes. if length bytes = n then ok bytes else fail (UnexpectedEnd ctx n (length bytes))" "[]" bs]
  by (simp add: decodes_ok)

lemma decodes_word:
  assumes "8 dvd LENGTH('a)" and "n = LENGTH('a) div 8"
  shows "decodes (and_then (read_array n ctx) (\<lambda>bs. ok (from_be_bytes bs))) (to_be_bytes w) (w :: 'a::len word)"
  using assms by (intro decodes_and_then_ok[OF decodes_read_array]) simp_all

lemma decodes_fixed_width [decodes_intros]:
  fixes w8 :: u8 and w16 :: u16 and w32 :: u32 and w64 :: u64
  shows "decodes read_u8 [w8] w8"
    and "decodes read_i8 [w8] w8"
    and "decodes read_i16 (to_be_bytes w16) w16"
    and "decodes read_u16 (to_be_bytes w16) w16"
    and "decodes read_i32 (to_be_bytes w32) w32"
    and "decodes read_u32 (to_be_bytes w32) w32"
    and "decodes read_i64 (to_be_bytes w64) w64"
    and "decodes read_u64 (to_be_bytes w64) w64"
    and "decodes read_f32 (to_be_bytes w32) w32"
    and "decodes read_f64 (to_be_bytes w64) w64"
  unfolding read_i8_def read_u8_def read_i16_def read_u16_def read_i32_def read_u32_def
    read_i64_def read_u64_def read_f32_def read_f64_def
  by ((rule decodes_word | rule decodes_and_then_ok[OF decodes_read_byte] | rule decodes_read_byte);
      simp add: from_be_bytes_def)+

lemma decodes_read_bool [decodes_intros]: "decodes read_bool [if b then 1 else 0] b"
  unfolding read_bool_def by (rule decodes_and_then_ok[OF decodes_fixed_width(1)]) simp

lemma decodes_read_n [decodes_intros]:
  "n = length vs \<Longrightarrow> (\<And>v. v \<in> set vs \<Longrightarrow> decodes m (enc v) v) \<Longrightarrow>
     decodes (read_n n m) (concat (map enc vs)) vs"
proof (induction vs arbitrary: n)
  case Nil
  then show ?case by (simp add: decodes_ok)
next
  case (Cons v vs)
  have tail: "decodes (read_n (length vs) m) (concat (map enc vs)) vs"
    using Cons by simp
  have "decodes (and_then m (\<lambda>x. and_then (read_n (length vs) m) (\<lambda>xs. ok (x # xs))))
          (enc v @ concat (map enc vs)) (v # vs)"
    using Cons.prems(2) by (intro decodes_and_then decodes_and_then_ok[OF tail]) simp_all
  then show ?case using Cons.prems(1) by simp
qed

end
