(* ===== verification/Codec_Writer.thy ===== *)
theory Codec_Writer
  imports Codec_Reader
begin

text \<open>
  \<open>cubic-protocol\<close>: the deterministic writer with its fixed-width writes (\<open>writer.rs\<close>,
  \<open>CodecWriter\<close>), and the interface \<open>wire_codec\<close> between a writer and a reader of the same
  values. The length-prefixed writes, which need the VarInt codec, are in \<open>Codec_Strings\<close>.
\<close>

record codec_writer =
  out_bytes :: "u8 list"

type_synonym writer_op = "(codec_writer, codec_error, unit) fallible"

definition new_writer :: codec_writer where
  "new_writer = \<lparr>out_bytes = []\<rparr>"

definition with_capacity :: "nat \<Rightarrow> codec_writer" where
  "with_capacity capacity = \<lparr>out_bytes = []\<rparr>"

definition writer_len :: "codec_writer \<Rightarrow> nat" where
  "writer_len w = length (out_bytes w)"

definition writer_is_empty :: "codec_writer \<Rightarrow> bool" where
  "writer_is_empty w = (out_bytes w = [])"

definition write_bytes :: "u8 list \<Rightarrow> codec_writer \<Rightarrow> codec_writer" where
  "write_bytes bytes w = w\<lparr>out_bytes := out_bytes w @ bytes\<rparr>"

definition write_i8 :: "i8 \<Rightarrow> codec_writer \<Rightarrow> codec_writer" where
  "write_i8 v = write_bytes (to_be_bytes v)"

definition write_u8 :: "u8 \<Rightarrow> codec_writer \<Rightarrow> codec_writer" where
  "write_u8 v w = w\<lparr>out_bytes := out_bytes w @ [v]\<rparr>"

definition write_i16 :: "i16 \<Rightarrow> codec_writer \<Rightarrow> codec_writer" where
  "write_i16 v = write_bytes (to_be_bytes v)"

definition write_u16 :: "u16 \<Rightarrow> codec_writer \<Rightarrow> codec_writer" where
  "write_u16 v = write_bytes (to_be_bytes v)"

definition write_i32 :: "i32 \<Rightarrow> codec_writer \<Rightarrow> codec_writer" where
  "write_i32 v = write_bytes (to_be_bytes v)"

definition write_u32 :: "u32 \<Rightarrow> codec_writer \<Rightarrow> codec_writer" where
  "write_u32 v = write_bytes (to_be_bytes v)"

definition write_i64 :: "i64 \<Rightarrow> codec_writer \<Rightarrow> codec_writer" where
  "write_i64 v = write_bytes (to_be_bytes v)"

definition write_u64 :: "u64 \<Rightarrow> codec_writer \<Rightarrow> codec_writer" where
  "write_u64 v = write_bytes (to_be_bytes v)"

definition write_f32 :: "u32 \<Rightarrow> codec_writer \<Rightarrow> codec_writer" where
  "write_f32 bits = write_u32 bits"

definition write_f64 :: "u64 \<Rightarrow> codec_writer \<Rightarrow> codec_writer" where
  "write_f64 bits = write_u64 bits"

definition write_bool :: "bool \<Rightarrow> codec_writer \<Rightarrow> codec_writer" where
  "write_bool b = write_u8 (if b then 1 else 0)"

text \<open>An infallible write inside a function that returns \<open>Result\<close>.\<close>

definition emit :: "(codec_writer \<Rightarrow> codec_writer) \<Rightarrow> (codec_writer, 'e, unit) fallible" where
  "emit f = (\<lambda>w. (Inr (), f w))"

text \<open>\<open>for value in values { writer.write_x(*value); }\<close>\<close>

fun write_each :: "('a \<Rightarrow> codec_writer \<Rightarrow> codec_writer) \<Rightarrow> 'a list \<Rightarrow> codec_writer \<Rightarrow> codec_writer" where
  "write_each f [] w = w"
| "write_each f (x # xs) w = write_each f xs (f x w)"

section \<open>What a write appends\<close>

definition appends :: "(codec_writer, 'e, unit) fallible \<Rightarrow> u8 list \<Rightarrow> bool" where
  "appends m bs \<longleftrightarrow> (\<forall>w. m w = (Inr (), w\<lparr>out_bytes := out_bytes w @ bs\<rparr>))"

named_theorems appends_intros \<open>what an operation writes\<close>

lemma appendsI: "(\<And>w. m w = (Inr (), w\<lparr>out_bytes := out_bytes w @ bs\<rparr>)) \<Longrightarrow> appends m bs"
  by (simp add: appends_def)

lemma appendsD: "appends m bs \<Longrightarrow> m w = (Inr (), w\<lparr>out_bytes := out_bytes w @ bs\<rparr>)"
  by (simp add: appends_def)

lemma appends_and_then [appends_intros]:
  "appends m bs \<Longrightarrow> appends (k ()) bs' \<Longrightarrow> appends (and_then m k) (bs @ bs')"
  by (simp add: appends_def and_then_def)

lemma appends_ensure [appends_intros]:
  "c \<Longrightarrow> appends (k ()) bs \<Longrightarrow> appends (and_then (ensure c e) k) bs"
  by (simp add: ensure_def)

lemma appends_ok [appends_intros]: "appends (ok ()) []"
  by (simp add: appends_def run_simps)

lemma appends_map_err [appends_intros]: "appends m bs \<Longrightarrow> appends (map_err f m) bs"
  by (simp add: appends_def map_err_Inr)

lemma appends_emit_write_bytes [appends_intros]: "appends (emit (write_bytes bs)) bs"
  by (simp add: appends_def emit_def write_bytes_def)

lemma appends_emit_write_u8 [appends_intros]: "appends (emit (write_u8 b)) [b]"
  by (simp add: appends_def emit_def write_u8_def)

lemma to_be_bytes_8: "to_be_bytes (b :: u8) = [b]"
  by (simp add: to_be_bytes_def)

lemma appends_emit_fixed_width [appends_intros]:
  "appends (emit (write_i8 a)) [a]"
  "appends (emit (write_i16 b)) (to_be_bytes b)" "appends (emit (write_u16 b)) (to_be_bytes b)"
  "appends (emit (write_i32 c)) (to_be_bytes c)" "appends (emit (write_u32 c)) (to_be_bytes c)"
  "appends (emit (write_i64 d)) (to_be_bytes d)" "appends (emit (write_u64 d)) (to_be_bytes d)"
  "appends (emit (write_f32 c)) (to_be_bytes c)" "appends (emit (write_f64 d)) (to_be_bytes d)"
  "appends (emit (write_bool t)) [if t then 1 else 0]"
  by (simp_all add: appends_def emit_def write_i8_def write_i16_def write_u16_def write_i32_def
      write_u32_def write_i64_def write_u64_def write_f32_def write_f64_def write_bool_def
      write_bytes_def write_u8_def to_be_bytes_8)

lemma output_write_each:
  assumes "\<And>x w. f x w = w\<lparr>out_bytes := out_bytes w @ enc x\<rparr>"
  shows "write_each f xs w = w\<lparr>out_bytes := out_bytes w @ concat (map enc xs)\<rparr>"
  by (induction xs arbitrary: w) (simp_all add: assms)

lemma appends_emit_write_each [appends_intros]:
  assumes "\<And>x. appends (emit (f x) :: (codec_writer, 'e, unit) fallible) (enc x)"
  shows "appends (emit (write_each f xs) :: (codec_writer, 'e, unit) fallible) (concat (map enc xs))"
  using assms output_write_each[of f enc xs] by (simp add: appends_def emit_def)

section \<open>The codec interface\<close>

text \<open>
  A wire codec is a writer and a reader of the same values: on every valid value the writer
  appends the encoding, and the reader, met with the encoding anywhere, consumes exactly it
  and returns the value. Everything a client of a codec needs follows: round trips,
  injectivity, and that no encoding is a proper prefix of another, so that values can be
  written one after the other without separators.
\<close>

locale wire_codec =
  fixes put :: "'a \<Rightarrow> (codec_writer, codec_error, unit) fallible"
    and get :: "(codec_reader, codec_error, 'a) fallible"
    and enc :: "'a \<Rightarrow> u8 list"
    and valid :: "'a \<Rightarrow> bool"
  assumes put_appends: "valid v \<Longrightarrow> appends (put v) (enc v)"
    and get_decodes: "valid v \<Longrightarrow> decodes get (enc v) v"
    and enc_bounded: "valid v \<Longrightarrow> length (enc v) \<le> usize_MAX"
    and get_advances: "advances get"
begin

lemma put_get:
  assumes "valid v"
  shows "fst (put v new_writer) = Inr ()"
    and "get (new_reader (out_bytes (snd (put v new_writer)))) = (Inr v, reader_at (enc v) [])"
  using appendsD[OF put_appends[OF assms], of new_writer]
    decodes_complete[OF get_decodes[OF assms] enc_bounded[OF assms]]
  by (simp_all add: new_writer_def)

lemma put_get_stream:
  assumes "valid v" and "length (out_bytes w @ enc v @ rest) \<le> usize_MAX"
  shows "get (reader_at (out_bytes w) (enc v @ rest)) = (Inr v, reader_at (out_bytes (snd (put v w))) rest)"
  using appendsD[OF put_appends[OF assms(1)], of w] decodesD[OF get_decodes[OF assms(1)] assms(2)]
  by simp

lemma unique_prefix:
  assumes "valid v" and "valid v'" and "enc v @ xs = enc v' @ ys" and "length (enc v @ xs) \<le> usize_MAX"
  shows "v = v'" and "xs = ys"
proof -
  have "get (reader_at [] (enc v @ xs)) = (Inr v, reader_at (enc v) xs)"
    using decodesD[OF get_decodes[OF assms(1)], of "[]" xs] assms(4) by simp
  moreover have "get (reader_at [] (enc v @ xs)) = (Inr v', reader_at (enc v') ys)"
    using decodesD[OF get_decodes[OF assms(2)], of "[]" ys] assms(3,4) by simp
  ultimately show "v = v'" and "xs = ys" using assms(3) by (auto simp: reader_at_def)
qed

lemma enc_inj: "valid v \<Longrightarrow> valid v' \<Longrightarrow> enc v = enc v' \<Longrightarrow> v = v'"
  using unique_prefix(1)[of v v' "[]" "[]"] enc_bounded by simp

lemma get_sequence:
  "\<forall>v \<in> set vs. valid v \<Longrightarrow> decodes (read_n (length vs) get) (concat (map enc vs)) vs"
  by (rule decodes_read_n) (simp_all add: get_decodes)

end

interpretation u64_codec: wire_codec "\<lambda>v. emit (write_u64 v)" read_u64 to_be_bytes "\<lambda>_. True"
  by unfold_locales
    (auto intro: decodes_intros appends_intros advances_intros simp: usize_MAX_def)

interpretation i64_codec: wire_codec "\<lambda>v. emit (write_i64 v)" read_i64 to_be_bytes "\<lambda>_. True"
  by unfold_locales
    (auto intro: decodes_intros appends_intros advances_intros simp: usize_MAX_def)

interpretation i32_codec: wire_codec "\<lambda>v. emit (write_i32 v)" read_i32 to_be_bytes "\<lambda>_. True"
  by unfold_locales
    (auto intro: decodes_intros appends_intros advances_intros simp: usize_MAX_def)

interpretation u16_codec: wire_codec "\<lambda>v. emit (write_u16 v)" read_u16 to_be_bytes "\<lambda>_. True"
  by unfold_locales
    (auto intro: decodes_intros appends_intros advances_intros simp: usize_MAX_def)

interpretation bool_codec: wire_codec "\<lambda>v. emit (write_bool v)" read_bool
    "\<lambda>b. [if b then 1 else 0]" "\<lambda>_. True"
  by unfold_locales
    (rule decodes_read_bool appends_emit_fixed_width advances_fixed_width | simp add: usize_MAX_def)+

end
