(* ===== verification/Varint.thy ===== *)
theory Varint
  imports Codec_Writer
begin

text \<open>
  \<open>cubic-protocol/src/varint.rs\<close>: VarInt and VarLong, little-endian groups of seven bits with a
  continuation bit, at most five and ten bytes, over the two's-complement bit pattern; and the
  incremental \<open>decode_partial_var_int\<close> the frame decoder polls.

  The two widths run the same loop in the source, written out twice; the loops here are generic
  in the word type and instantiated at 32 and 64 bits.
\<close>

definition MAX_VAR_INT_BYTES :: nat where
  "MAX_VAR_INT_BYTES = 5"

definition MAX_VAR_LONG_BYTES :: nat where
  "MAX_VAR_LONG_BYTES = 10"

datatype partial_var_int = Complete i32 nat | NeedMore | Malformed

function read_var_loop ::
  "nat \<Rightarrow> string \<Rightarrow> codec_error \<Rightarrow> nat \<Rightarrow> 'a::len word \<Rightarrow> 'a word reader_op" where
  "read_var_loop max_bytes ctx malformed index result =
     (if index < max_bytes
      then and_then (read_byte_with_context ctx)
             (\<lambda>byte. let result' = result OR push_bit (index * 7) (ucast (byte AND 0x7f)) in
                if byte AND 0x80 = 0 then ok result'
                else read_var_loop max_bytes ctx malformed (Suc index) result')
      else fail malformed)"
  by pat_completeness auto
termination
  by (relation "measure (\<lambda>(m, _, _, i, _). m - i)") auto

declare read_var_loop.simps [simp del]

definition read_var_int :: "i32 reader_op" where
  "read_var_int = read_var_loop MAX_VAR_INT_BYTES ''VarInt'' MalformedVarInt 0 0"

definition read_var_long :: "i64 reader_op" where
  "read_var_long = read_var_loop MAX_VAR_LONG_BYTES ''VarLong'' MalformedVarLong 0 0"

lemma and_not_low_eq: "(x :: 'a::len word) AND NOT (mask n) = push_bit n (drop_bit n x)"
  by (rule bit_word_eqI) (auto simp: bit_simps)

lemma unat_drop_bit_7: "unat (drop_bit 7 (x :: 'a::len word)) = unat x div 128"
  by (simp only: unat_drop_bit_eq) (simp add: drop_bit_eq_div)

lemma mask_7_eq: "(0x7f :: 'a::len word) = mask 7"
  by (simp add: mask_eq_exp_minus_1)

lemma continuation_iff: "(x :: 'a::len word) AND NOT 0x7f = 0 \<longleftrightarrow> unat x < 128"
proof
  assume "x AND NOT 0x7f = 0"
  then have "push_bit 7 (drop_bit 7 x) = 0" by (simp only: mask_7_eq and_not_low_eq)
  then have "take_bit 7 x = x" using bits_ident[of 7 x] by simp
  then have "unat x = take_bit 7 (unat x)" by (metis unsigned_take_bit_eq)
  also have "\<dots> < 2 ^ 7" by (rule take_bit_nat_less_exp)
  finally show "unat x < 128" by simp
next
  assume "unat x < 128"
  then have "unat (drop_bit 7 x) = 0" by (simp add: unat_drop_bit_7)
  then show "x AND NOT 0x7f = 0" by (simp only: mask_7_eq and_not_low_eq) (simp add: unat_eq_zero)
qed

lemma continuation_iff' [simp]: "(x :: 'a::len word) AND - 128 = 0 \<longleftrightarrow> unat x < 128"
  using continuation_iff[of x] by simp

function write_var_loop :: "'a::len word \<Rightarrow> codec_writer \<Rightarrow> codec_writer" where
  "write_var_loop rem w =
     (if rem AND NOT 0x7f = 0 then write_u8 (ucast rem) w
      else write_var_loop (drop_bit 7 rem) (write_u8 (ucast ((rem AND 0x7f) OR 0x80)) w))"
  by pat_completeness auto
termination
  by (relation "measure (\<lambda>(rem, _). unat rem)") (auto simp: unat_drop_bit_7)

declare write_var_loop.simps [simp del]

definition write_var_int :: "i32 \<Rightarrow> codec_writer \<Rightarrow> codec_writer" where
  "write_var_int v = write_var_loop v"

definition write_var_long :: "i64 \<Rightarrow> codec_writer \<Rightarrow> codec_writer" where
  "write_var_long v = write_var_loop v"

text \<open>The loop over \<open>input.iter().copied().take(MAX_VAR_INT_BYTES).enumerate()\<close>.\<close>

fun partial_loop :: "u8 list \<Rightarrow> nat \<Rightarrow> u32 \<Rightarrow> (i32 \<times> nat) option" where
  "partial_loop [] index result = None"
| "partial_loop (byte # bytes) index result =
     (let result' = result OR push_bit (index * 7) (ucast (byte AND 0x7f)) in
      if byte AND 0x80 = 0 then Some (result', index + 1)
      else partial_loop bytes (Suc index) result')"

definition decode_partial_var_int :: "u8 list \<Rightarrow> partial_var_int" where
  "decode_partial_var_int inp =
     (case partial_loop (take MAX_VAR_INT_BYTES inp) 0 0 of
        Some (v, n) \<Rightarrow> Complete v n
      | None \<Rightarrow> if length inp \<ge> MAX_VAR_INT_BYTES then Malformed else NeedMore)"

section \<open>The encoding\<close>

function enc_var :: "'a::len word \<Rightarrow> u8 list" where
  "enc_var rem =
     (if unat rem < 128 then [ucast rem]
      else ucast ((rem AND 0x7f) OR 0x80) # enc_var (drop_bit 7 rem))"
  by pat_completeness auto
termination
  by (relation "measure unat") (auto simp: unat_drop_bit_7)

declare enc_var.simps [simp del]

lemma write_var_loop_eq: "write_var_loop v w = w\<lparr>out_bytes := out_bytes w @ enc_var v\<rparr>"
proof (induction v w rule: write_var_loop.induct)
  case (1 rem w)
  show ?case
    using 1 by (subst write_var_loop.simps, subst enc_var.simps)
      (simp add: write_u8_def)
qed

lemma length_enc_var:
  "unat v < 128 ^ n \<Longrightarrow> 0 < n \<Longrightarrow> length (enc_var v) \<le> n"
proof (induction n arbitrary: v)
  case 0
  then show ?case by simp
next
  case (Suc n)
  show ?case
  proof (cases "unat v < 128")
    case True
    then show ?thesis by (subst enc_var.simps) simp
  next
    case False
    then have "0 < n" using Suc.prems by (cases n) auto
    moreover have "unat (drop_bit 7 v) < 128 ^ n"
      using Suc.prems by (simp add: unat_drop_bit_7 less_mult_imp_div_less)
    ultimately have "length (enc_var (drop_bit 7 v)) \<le> n" using Suc.IH by blast
    with False show ?thesis by (subst enc_var.simps) simp
  qed
qed

lemma length_enc_var_int: "length (enc_var (v :: i32)) \<le> 5"
proof -
  have "unat v < 2 ^ LENGTH(32)" by (rule unsigned_less)
  then show ?thesis by (intro length_enc_var) simp_all
qed

lemma length_enc_var_long: "length (enc_var (v :: i64)) \<le> 10"
proof -
  have "unat v < 2 ^ LENGTH(64)" by (rule unsigned_less)
  then show ?thesis by (intro length_enc_var) simp_all
qed

lemma enc_var_nonempty [simp]: "enc_var v \<noteq> []"
  by (subst enc_var.simps) simp

section \<open>Groups of seven bits\<close>

lemma bit_int_128: "bit (0x80 :: int) n \<longleftrightarrow> n = 7"
proof -
  have "(0x80 :: int) = 2 ^ 7" by simp
  then show ?thesis by (simp only: bit_exp_iff) simp
qed

lemma bit_int_127: "bit (0x7f :: int) n \<longleftrightarrow> n < 7"
proof -
  have "(0x7f :: int) = mask 7" by (simp add: mask_eq_exp_minus_1)
  then show ?thesis by (simp only: bit_mask_iff) simp
qed

lemma and_128_eq_0_iff: "(b :: u8) AND 0x80 = 0 \<longleftrightarrow> \<not> bit b 7"
  by (simp only: bit_eq_iff[of _ "0 :: u8"]) (auto simp: bit_simps bit_int_128 dest: spec[of _ 7])

lemma high_group:
  fixes rem :: "'a::len word"
  assumes b: "b = (ucast ((rem AND 0x7f) OR 0x80) :: u8)" and "8 \<le> LENGTH('a)"
  shows "b AND 0x80 \<noteq> 0" and "ucast (b AND 0x7f) = rem AND mask 7"
proof -
  show "b AND 0x80 \<noteq> 0"
    using assms by (simp only: and_128_eq_0_iff) (simp add: bit_simps bit_int_128)
  show "ucast (b AND 0x7f) = rem AND mask 7"
    using assms by (intro bit_word_eqI) (auto simp: bit_simps bit_int_128 bit_int_127)
qed

lemma bits_below_7:
  assumes "unat (rem :: 'a::len word) < 128" and "bit rem n"
  shows "n < 7"
proof (rule ccontr)
  assume "\<not> n < 7"
  have "unat (drop_bit 7 rem) = 0" using assms(1) by (simp only: unat_drop_bit_7 div_less)
  then have "drop_bit 7 rem = 0" by (simp only: unsigned_eq_0_iff)
  moreover have "bit (drop_bit 7 rem) (n - 7)" using assms(2) \<open>\<not> n < 7\<close> by (simp only: bit_drop_bit_eq) simp
  ultimately show False by (simp only: bit_0_eq bot_apply bot_bool_def)
qed

lemma low_group:
  fixes rem :: "'a::len word"
  assumes "8 \<le> LENGTH('a)" and "unat rem < 128"
  shows "(ucast rem :: u8) AND 0x80 = 0" and "ucast ((ucast rem :: u8) AND 0x7f) = rem"
proof -
  note high = bits_below_7[OF assms(2)]
  show "(ucast rem :: u8) AND 0x80 = 0"
    using high[of 7] unfolding and_128_eq_0_iff by (auto simp: bit_simps)
  show "ucast ((ucast rem :: u8) AND 0x7f) = rem"
  proof (rule bit_word_eqI)
    fix n assume "n < LENGTH('a)"
    then show "bit (ucast ((ucast rem :: u8) AND 0x7f) :: 'a word) n = bit rem n"
      using assms(1) high[of n] by (auto simp: bit_simps bit_int_127)
  qed
qed

lemma group_split:
  "push_bit k (rem AND mask 7) OR push_bit (k + 7) (drop_bit 7 rem) = push_bit k (rem :: 'a::len word)"
proof (rule bit_word_eqI)
  fix n assume "n < LENGTH('a)"
  then show "bit (push_bit k (rem AND mask 7) OR push_bit (k + 7) (drop_bit 7 rem)) n = bit (push_bit k rem) n"
    by (cases "n < k + 7") (auto simp: bit_simps)
qed

lemma decodes_read_var_loop:
  fixes rem :: "'a::len word"
  assumes "8 \<le> LENGTH('a)"
  shows "index + length (enc_var rem) \<le> max_bytes \<Longrightarrow>
    decodes (read_var_loop max_bytes ctx malformed index acc) (enc_var rem)
      (acc OR push_bit (index * 7) rem)"
proof (induction rem arbitrary: index acc rule: enc_var.induct)
  case (1 rem)
  show ?case
  proof (cases "unat rem < 128")
    case True
    then have enc: "enc_var rem = [ucast rem]" by (subst enc_var.simps) simp
    with 1 have "index < max_bytes" by simp
    then show ?thesis
      using low_group[OF assms True] enc
      by (subst read_var_loop.simps) (auto intro!: decodes_byte_then decodes_ok simp: Let_def)
  next
    case False
    let ?b = "ucast ((rem AND 0x7f) OR 0x80) :: u8"
    let ?acc = "acc OR push_bit (index * 7) (rem AND mask 7)"
    from False have enc: "enc_var rem = ?b # enc_var (drop_bit 7 rem)" by (subst enc_var.simps) simp
    with 1 have i: "Suc index + length (enc_var (drop_bit 7 rem)) \<le> max_bytes" by simp
    have "decodes (read_var_loop max_bytes ctx malformed (Suc index) ?acc) (enc_var (drop_bit 7 rem))
        (?acc OR push_bit (Suc index * 7) (drop_bit 7 rem))"
      by (rule "1.IH"[OF False i])
    also have "?acc OR push_bit (Suc index * 7) (drop_bit 7 rem) = acc OR push_bit (index * 7) rem"
      using group_split[of "index * 7" rem] by (simp add: or.assoc add.commute)
    finally show ?thesis
      using i high_group[OF refl assms, of rem] enc
      by (subst read_var_loop.simps) (auto intro!: decodes_byte_then simp: Let_def)
  qed
qed

lemma decodes_read_var_int [decodes_intros]: "decodes read_var_int (enc_var v) v"
  using decodes_read_var_loop[of 0 v MAX_VAR_INT_BYTES _ _ 0] length_enc_var_int[of v]
  by (simp add: read_var_int_def MAX_VAR_INT_BYTES_def)

lemma decodes_read_var_long [decodes_intros]: "decodes read_var_long (enc_var v) v"
  using decodes_read_var_loop[of 0 v MAX_VAR_LONG_BYTES _ _ 0] length_enc_var_long[of v]
  by (simp add: read_var_long_def MAX_VAR_LONG_BYTES_def)

lemma appends_write_var [appends_intros]:
  "appends (emit (write_var_int v)) (enc_var v)" "appends (emit (write_var_long x)) (enc_var x)"
  by (simp_all add: appends_def emit_def write_var_int_def write_var_long_def write_var_loop_eq)

lemma advances_read_var_loop [advances_intros]: "advances (read_var_loop m c e i acc)"
proof (induction m c e i acc rule: read_var_loop.induct)
  case (1 m c e i acc)
  then show ?case
    by (subst read_var_loop.simps) (auto intro!: advances_intros simp: Let_def)
qed

lemma advances_read_var [advances_intros]: "advances read_var_int" "advances read_var_long"
  by (simp_all add: read_var_int_def read_var_long_def advances_read_var_loop)

interpretation var_int_codec: wire_codec "\<lambda>v. emit (write_var_int v)" read_var_int enc_var "\<lambda>_. True"
  by unfold_locales
    (auto intro: decodes_intros appends_intros advances_intros order.trans[OF length_enc_var_int]
       simp: usize_MAX_def)

interpretation var_long_codec: wire_codec "\<lambda>v. emit (write_var_long v)" read_var_long enc_var "\<lambda>_. True"
  by unfold_locales
    (auto intro: decodes_intros appends_intros advances_intros order.trans[OF length_enc_var_long]
       simp: usize_MAX_def)

section \<open>Properties\<close>

text \<open>
  Every 32-bit value is written in at most five bytes and every 64-bit value in at most ten,
  and reading them back, whatever follows them in the input, returns the value and stops exactly
  behind it.
\<close>

theorem var_int_round_trip:
  assumes "length rest + 10 \<le> usize_MAX"
  shows "(let bytes = out_bytes (write_var_int v new_writer) in
      length bytes \<le> MAX_VAR_INT_BYTES \<and>
      read_var_int (new_reader (bytes @ rest)) = (Inr v, \<lparr>input = bytes @ rest, position = length bytes\<rparr>)) \<and>
    (let bytes = out_bytes (write_var_long x new_writer) in
      length bytes \<le> MAX_VAR_LONG_BYTES \<and>
      read_var_long (new_reader (bytes @ rest)) = (Inr x, \<lparr>input = bytes @ rest, position = length bytes\<rparr>))"
proof -
  have "out_bytes (write_var_int v new_writer) = enc_var v" "out_bytes (write_var_long x new_writer) = enc_var x"
    by (simp_all add: write_var_int_def write_var_long_def write_var_loop_eq new_writer_def)
  moreover have "length (enc_var v @ rest) \<le> usize_MAX" "length (enc_var x @ rest) \<le> usize_MAX"
    using length_enc_var_int[of v] length_enc_var_long[of x] assms by simp_all
  ultimately show ?thesis
    using length_enc_var_int[of v] length_enc_var_long[of x]
      decodesD[OF decodes_read_var_int, of "[]" v rest] decodesD[OF decodes_read_var_long, of "[]" x rest]
    by (simp add: Let_def new_reader_eq reader_at_def MAX_VAR_INT_BYTES_def MAX_VAR_LONG_BYTES_def)
qed

lemma var_int_round_trip_witness:
  "read_var_int (new_reader (out_bytes (write_var_int (- 1) new_writer) @ [7])) =
     (Inr (- 1), \<lparr>input = out_bytes (write_var_int (- 1) new_writer) @ [7],
       position = length (out_bytes (write_var_int (- 1) new_writer))\<rparr>)"
  using var_int_round_trip[of "[7]" "- 1" 0] by (simp add: Let_def usize_MAX_def)

end
