(* ===== verification/Utf8.thy ===== *)
theory Utf8
  imports Codec_Writer
begin

text \<open>
  Rust strings. A \<open>str\<close> is a list of Unicode scalar values; its bytes are its UTF-8 encoding
  (\<open>str::as_bytes\<close>), \<open>std::str::from_utf8\<close> validates bytes and reports the length of the valid
  prefix, \<open>encode_utf16().count()\<close> is the Java length. Encoding and validation are inverse to each
  other, in both directions.
\<close>

type_synonym rust_str = "nat list"

definition is_scalar_value :: "nat \<Rightarrow> bool" where
  "is_scalar_value c \<longleftrightarrow> c < 0xD800 \<or> (0xE000 \<le> c \<and> c \<le> 0x10FFFF)"

definition is_str :: "rust_str \<Rightarrow> bool" where
  "is_str s = list_all is_scalar_value s"

definition utf8_char :: "nat \<Rightarrow> nat list" where
  "utf8_char c =
     (if c < 0x80 then [c]
      else if c < 0x800 then [0xC0 + c div 64, 0x80 + c mod 64]
      else if c < 0x10000 then [0xE0 + c div 4096, 0x80 + c div 64 mod 64, 0x80 + c mod 64]
      else [0xF0 + c div 262144, 0x80 + c div 4096 mod 64, 0x80 + c div 64 mod 64, 0x80 + c mod 64])"

definition as_bytes :: "rust_str \<Rightarrow> u8 list" where
  "as_bytes s = map of_nat (concat (map utf8_char s))"

definition str_len :: "rust_str \<Rightarrow> nat" where
  "str_len s = length (as_bytes s)"

definition utf16_count :: "rust_str \<Rightarrow> nat" where
  "utf16_count s = sum_list (map (\<lambda>c. if c < 0x10000 then 1 else 2) s)"

text \<open>\<open>char::is_control\<close>: the general category Cc.\<close>

definition is_control :: "nat \<Rightarrow> bool" where
  "is_control c \<longleftrightarrow> c \<le> 0x1f \<or> 0x7f \<le> c \<and> c \<le> 0x9f"

definition continuation_byte :: "nat \<Rightarrow> bool" where
  "continuation_byte b \<longleftrightarrow> 0x80 \<le> b \<and> b \<le> 0xBF"

text \<open>One scalar value, by the table of \<open>core::str::validations\<close>.\<close>

fun utf8_next :: "nat list \<Rightarrow> (nat \<times> nat list) option" where
  "utf8_next [] = None"
| "utf8_next (b0 # bs) =
     (if b0 < 0x80 then Some (b0, bs)
      else if 0xC2 \<le> b0 \<and> b0 \<le> 0xDF then
        (case bs of
           b1 # rest \<Rightarrow>
             if continuation_byte b1 then Some ((b0 - 0xC0) * 64 + (b1 - 0x80), rest) else None
         | _ \<Rightarrow> None)
      else if 0xE0 \<le> b0 \<and> b0 \<le> 0xEF then
        (case bs of
           b1 # b2 # rest \<Rightarrow>
             if continuation_byte b1 \<and> continuation_byte b2
                \<and> (b0 = 0xE0 \<longrightarrow> 0xA0 \<le> b1) \<and> (b0 = 0xED \<longrightarrow> b1 \<le> 0x9F)
             then Some ((b0 - 0xE0) * 4096 + (b1 - 0x80) * 64 + (b2 - 0x80), rest) else None
         | _ \<Rightarrow> None)
      else if 0xF0 \<le> b0 \<and> b0 \<le> 0xF4 then
        (case bs of
           b1 # b2 # b3 # rest \<Rightarrow>
             if continuation_byte b1 \<and> continuation_byte b2 \<and> continuation_byte b3
                \<and> (b0 = 0xF0 \<longrightarrow> 0x90 \<le> b1) \<and> (b0 = 0xF4 \<longrightarrow> b1 \<le> 0x8F)
             then Some ((b0 - 0xF0) * 262144 + (b1 - 0x80) * 4096 + (b2 - 0x80) * 64 + (b3 - 0x80), rest)
             else None
         | _ \<Rightarrow> None)
      else None)"

lemma utf8_next_shorter: "utf8_next bs = Some (c, rest) \<Longrightarrow> length rest < length bs"
  by (cases bs) (auto split: if_splits list.splits)

text \<open>The error is \<open>Utf8Error::valid_up_to\<close>.\<close>

function from_utf8_loop :: "nat \<Rightarrow> nat list \<Rightarrow> nat + rust_str" where
  "from_utf8_loop offset bs =
     (if bs = [] then Inr []
      else case utf8_next bs of
        None \<Rightarrow> Inl offset
      | Some (c, rest) \<Rightarrow>
          (case from_utf8_loop (offset + (length bs - length rest)) rest of
             Inl e \<Rightarrow> Inl e
           | Inr s \<Rightarrow> Inr (c # s)))"
  by pat_completeness auto
termination
  by (relation "measure (\<lambda>(_, bs). length bs)") (auto dest: utf8_next_shorter)

declare from_utf8_loop.simps [simp del]

definition from_utf8 :: "u8 list \<Rightarrow> nat + rust_str" where
  "from_utf8 bytes = from_utf8_loop 0 (map unat bytes)"

section \<open>One scalar value\<close>

lemma mod_digit: "(c::nat) mod (64 * m) = c div m mod 64 * m + c mod m"
  by (metis mod_mult2_eq mult.commute)

lemma digits:
  assumes "(y::nat) < 64" "z < 64"
  shows "(x * 4096 + y * 64 + z) div 4096 = x" "(x * 4096 + y * 64 + z) div 64 mod 64 = y"
    "(x * 4096 + y * 64 + z) mod 64 = z"
proof -
  have split: "x * 4096 + y * 64 + z = (x * 64 + y) * 64 + z" by simp
  have low: "(a * 64 + b) div 64 = a \<and> (a * 64 + b) mod 64 = b" if "b < 64" for a b :: nat
    using that by simp
  have "(x * 4096 + y * 64 + z) div 64 = x * 64 + y" "(x * 4096 + y * 64 + z) mod 64 = z"
    using low[OF assms(2), of "x * 64 + y"] by (simp_all only: split)
  moreover have "(x * 4096 + y * 64 + z) div 4096 = (x * 4096 + y * 64 + z) div 64 div 64"
    by (simp add: div_mult2_eq)
  ultimately show "(x * 4096 + y * 64 + z) div 4096 = x" "(x * 4096 + y * 64 + z) div 64 mod 64 = y"
    "(x * 4096 + y * 64 + z) mod 64 = z"
    using low[OF assms(1)] by simp_all
qed

lemma mod_64_le: "(x::nat) mod 64 \<le> 63"
  by presburger

lemma utf8_char_byte: "is_scalar_value c \<Longrightarrow> b \<in> set (utf8_char c) \<Longrightarrow> b < 256"
  by (auto simp: utf8_char_def is_scalar_value_def split: if_splits)

lemma utf8_char_nonempty [simp]: "utf8_char c \<noteq> []"
  by (simp add: utf8_char_def)

lemma length_utf8_char: "length (utf8_char c) \<le> 4" "c < 0x10000 \<Longrightarrow> length (utf8_char c) \<le> 3"
  by (simp_all add: utf8_char_def)

lemma utf8_next_char:
  assumes "is_scalar_value c"
  shows "utf8_next (utf8_char c @ rest) = Some (c, rest)"
proof -
  have split3: "c div 4096 * 4096 + c div 64 mod 64 * 64 + c mod 64 = c"
    using mod_digit[of c 64] div_mult_mod_eq[of c 4096] by simp
  have split4: "c div 262144 * 262144 + c div 4096 mod 64 * 4096 + c div 64 mod 64 * 64 + c mod 64 = c"
    using mod_digit[of c 64] mod_digit[of c 4096] div_mult_mod_eq[of c 262144] by simp
  consider "c < 0x80" | "0x80 \<le> c" "c < 0x800" | "0x800 \<le> c" "c < 0x10000" | "0x10000 \<le> c"
    by linarith
  then show ?thesis
  proof cases
    case 1
    then show ?thesis by (simp add: utf8_char_def)
  next
    case 2
    then have "2 \<le> c div 64" "c div 64 < 32" by auto
    then show ?thesis using 2 by (simp add: utf8_char_def continuation_byte_def)
  next
    case 3
    define y where "y = c div 64"
    have div: "c div 4096 = y div 64" by (simp add: y_def flip: div_mult2_eq)
    have "32 \<le> y" "y < 1024" using 3 div_le_mono[of 2048 c 64] by (auto simp: y_def)
    then have "c div 4096 < 16" "c div 4096 = 0 \<Longrightarrow> 32 \<le> c div 64 mod 64"
      unfolding div y_def[symmetric] using div_mult_mod_eq[of y 64] by linarith+
    moreover have "y < 864 \<or> 896 \<le> y"
      using assms div_le_mono[of 57344 c 64] by (auto simp: is_scalar_value_def y_def)
    then have "c div 4096 = 13 \<Longrightarrow> c div 64 mod 64 \<le> 31"
      unfolding div y_def[symmetric] using div_mult_mod_eq[of y 64] by linarith
    ultimately show ?thesis using 3 split3 by (simp add: utf8_char_def continuation_byte_def mod_64_le)
  next
    case 4
    with assms have c: "c \<le> 0x10FFFF" by (simp add: is_scalar_value_def)
    define y where "y = c div 4096"
    have div: "c div 262144 = y div 64" by (simp add: y_def flip: div_mult2_eq)
    have "16 \<le> y" "y \<le> 271" using 4 c div_le_mono[of 65536 c 4096] div_le_mono[of c 1114111 4096]
      by (auto simp: y_def)
    then have "c div 262144 \<le> 4" "c div 262144 = 0 \<Longrightarrow> 16 \<le> c div 4096 mod 64"
      "c div 262144 = 4 \<Longrightarrow> c div 4096 mod 64 \<le> 15"
      unfolding div y_def[symmetric] using div_mult_mod_eq[of y 64] by linarith+
    then show ?thesis using 4 split4 by (simp add: utf8_char_def continuation_byte_def mod_64_le)
  qed
qed

lemma utf8_next_sound:
  assumes "utf8_next bs = Some (c, rest)"
  shows "is_scalar_value c \<and> bs = utf8_char c @ rest"
proof (cases bs)
  case Nil
  then show ?thesis using assms by simp
next
  case (Cons b0 tl)
  consider "b0 < 0x80" | "0xC2 \<le> b0" "b0 \<le> 0xDF" | "0xE0 \<le> b0" "b0 \<le> 0xEF" | "0xF0 \<le> b0" "b0 \<le> 0xF4"
    using assms Cons by (auto split: if_splits)
  then show ?thesis
  proof cases
    case 1
    then show ?thesis using assms Cons by (auto simp: utf8_char_def is_scalar_value_def)
  next
    case 2
    then obtain b1 where tl: "tl = b1 # rest" "continuation_byte b1" and c: "c = (b0 - 0xC0) * 64 + (b1 - 0x80)"
      using assms Cons by (auto split: list.splits if_splits)
    define x y where "x = b0 - 0xC0" and "y = b1 - 0x80"
    have "2 \<le> x" "x < 32" "y < 64" "b0 = 0xC0 + x" "b1 = 0x80 + y" "c = x * 64 + y"
      using 2 tl c by (auto simp: x_def y_def continuation_byte_def)
    then show ?thesis using Cons tl by (simp add: utf8_char_def is_scalar_value_def)
  next
    case 3
    then obtain b1 b2 where tl: "tl = b1 # b2 # rest" "continuation_byte b1" "continuation_byte b2"
      "b0 = 0xE0 \<longrightarrow> 0xA0 \<le> b1" "b0 = 0xED \<longrightarrow> b1 \<le> 0x9F"
      and c: "c = (b0 - 0xE0) * 4096 + (b1 - 0x80) * 64 + (b2 - 0x80)"
      using assms Cons by (auto split: list.splits if_splits)
    define x y z where "x = b0 - 0xE0" and "y = b1 - 0x80" and "z = b2 - 0x80"
    have v: "x < 16" "y < 64" "z < 64" "b0 = 0xE0 + x" "b1 = 0x80 + y" "b2 = 0x80 + z"
      "c = x * 4096 + y * 64 + z" "x = 0 \<longrightarrow> 32 \<le> y" "x = 13 \<longrightarrow> y \<le> 31"
      using 3 tl c by (auto simp: x_def y_def z_def continuation_byte_def)
    then have "0x800 \<le> c" by (cases "x = 0") auto
    moreover have "c < 0x10000" using v by auto
    moreover have "is_scalar_value c"
      using v unfolding is_scalar_value_def by (cases "x \<le> 12"; cases "x = 13") auto
    moreover have "c div 4096 = x" "c div 64 mod 64 = y" "c mod 64 = z"
      using digits[OF v(2,3)] v(7) by simp_all
    ultimately show ?thesis using Cons tl v(4-6) by (simp add: utf8_char_def)
  next
    case 4
    then obtain b1 b2 b3 where tl: "tl = b1 # b2 # b3 # rest" "continuation_byte b1" "continuation_byte b2"
      "continuation_byte b3" "b0 = 0xF0 \<longrightarrow> 0x90 \<le> b1" "b0 = 0xF4 \<longrightarrow> b1 \<le> 0x8F"
      and c: "c = (b0 - 0xF0) * 262144 + (b1 - 0x80) * 4096 + (b2 - 0x80) * 64 + (b3 - 0x80)"
      using assms Cons by (auto split: list.splits if_splits)
    define x y z u where "x = b0 - 0xF0" and "y = b1 - 0x80" and "z = b2 - 0x80" and "u = b3 - 0x80"
    have v: "x \<le> 4" "y < 64" "z < 64" "u < 64" "b0 = 0xF0 + x" "b1 = 0x80 + y" "b2 = 0x80 + z" "b3 = 0x80 + u"
      "c = x * 262144 + y * 4096 + z * 64 + u" "x = 0 \<longrightarrow> 16 \<le> y" "x = 4 \<longrightarrow> y \<le> 15"
      using 4 tl c by (auto simp: x_def y_def z_def u_def continuation_byte_def)
    then have "0x10000 \<le> c" by (cases "x = 0") auto
    moreover have "c \<le> 0x10FFFF" using v by (cases "x = 4") auto
    moreover have eq: "c = (x * 64 + y) * 4096 + z * 64 + u" using v(9) by simp
    have d: "c div 4096 = x * 64 + y" "c div 64 mod 64 = z" "c mod 64 = u"
      unfolding eq by (rule digits[OF v(3,4)])+
    moreover have "c div 262144 = c div 4096 div 64" by (simp add: div_mult2_eq)
    then have "c div 262144 = x" using d(1) v(2) by simp
    moreover have "c div 4096 mod 64 = y" using d(1) v(2) by simp
    ultimately show ?thesis using Cons tl v(5-8) by (simp add: utf8_char_def is_scalar_value_def)
  qed
qed

section \<open>Strings\<close>

lemma from_utf8_loop_encode:
  "is_str s \<Longrightarrow> from_utf8_loop n (concat (map utf8_char s)) = Inr s"
proof (induction s arbitrary: n)
  case Nil
  then show ?case by (subst from_utf8_loop.simps) simp
next
  case (Cons c s)
  then show ?case
    by (subst from_utf8_loop.simps) (simp add: utf8_next_char is_str_def)
qed

lemma from_utf8_loop_sound:
  "from_utf8_loop n bs = Inr s \<Longrightarrow> is_str s \<and> bs = concat (map utf8_char s)"
proof (induction n bs arbitrary: s rule: from_utf8_loop.induct)
  case (1 n bs)
  show ?case
  proof (cases "bs = []")
    case True
    then show ?thesis using 1 by (subst (asm) from_utf8_loop.simps) (simp add: is_str_def)
  next
    case False
    then obtain c rest s' where next_eq: "utf8_next bs = Some (c, rest)"
      and rec: "from_utf8_loop (n + (length bs - length rest)) rest = Inr s'" and s: "s = c # s'"
      using 1(2) by (subst (asm) (2) from_utf8_loop.simps) (auto split: option.splits sum.splits)
    show ?thesis
      using "1.IH"[OF False next_eq refl rec] utf8_next_sound[OF next_eq] s by (simp add: is_str_def)
  qed
qed

lemma str_bytes_small: "is_str s \<Longrightarrow> b \<in> set (concat (map utf8_char s)) \<Longrightarrow> b < 256"
  by (auto simp: is_str_def list_all_iff dest: utf8_char_byte)

lemma from_utf8_as_bytes [simp]:
  assumes "is_str s"
  shows "from_utf8 (as_bytes s) = Inr s"
proof -
  have "map unat (as_bytes s) = map (\<lambda>b. take_bit 8 b) (concat (map utf8_char s))"
    by (simp add: as_bytes_def unsigned_of_nat del: map_concat)
  also have "\<dots> = concat (map utf8_char s)"
    using str_bytes_small[OF assms] by (intro map_idI) (simp add: take_bit_nat_eq_self)
  finally show ?thesis using assms by (simp add: from_utf8_def from_utf8_loop_encode)
qed

lemma from_utf8_sound:
  assumes "from_utf8 bytes = Inr s"
  shows "is_str s" and "as_bytes s = bytes"
proof -
  from assms have s: "is_str s" "map unat bytes = concat (map utf8_char s)"
    using from_utf8_loop_sound[of 0 "map unat bytes" s] by (simp_all add: from_utf8_def)
  then show "is_str s" by simp
  show "as_bytes s = bytes"
    unfolding as_bytes_def s(2)[symmetric] by (simp add: map_idI)
qed

lemma as_bytes_inj: "is_str s \<Longrightarrow> is_str t \<Longrightarrow> as_bytes s = as_bytes t \<Longrightarrow> s = t"
  by (metis from_utf8_as_bytes sum.inject(2))

lemma str_len_Cons: "str_len (c # s) = length (utf8_char c) + str_len s"
  by (simp add: str_len_def as_bytes_def)

lemma utf16_count_Cons: "utf16_count (c # s) = (if c < 0x10000 then 1 else 2) + utf16_count s"
  by (simp add: utf16_count_def)

lemma str_len_le: "str_len s \<le> 3 * utf16_count s"
proof (induction s)
  case Nil
  then show ?case by (simp add: str_len_def as_bytes_def)
next
  case (Cons c s)
  have "length (utf8_char c) \<le> 3 * (if c < 0x10000 then 1 else 2)"
    using length_utf8_char[of c] by (cases "c < 0x10000") simp_all
  with Cons show ?case by (simp add: str_len_Cons utf16_count_Cons split: if_splits)
qed

end
