(* ===== verification/Codec_Strings.thy ===== *)
theory Codec_Strings
  imports Varint Utf8
begin

text \<open>
  \<open>cubic-protocol\<close>: length prefixes, bounded strings and bounded byte arrays of the reader and
  the writer (\<open>reader.rs\<close>, \<open>writer.rs\<close>), with \<open>StringLimits\<close>.
\<close>

record string_limits =
  sl_max_utf16_units :: nat
  sl_max_encoded_bytes :: nat

definition string_limits_new :: "nat \<Rightarrow> nat \<Rightarrow> string_limits" where
  "string_limits_new units bytes = \<lparr>sl_max_utf16_units = units, sl_max_encoded_bytes = bytes\<rparr>"

definition max_utf16_units :: "string_limits \<Rightarrow> nat" where
  "max_utf16_units l = sl_max_utf16_units l"

definition max_encoded_bytes :: "string_limits \<Rightarrow> nat" where
  "max_encoded_bytes l =
     (case checked_mul (sl_max_utf16_units l) 3 of
        Some protocol_max \<Rightarrow>
          if protocol_max < sl_max_encoded_bytes l then protocol_max else sl_max_encoded_bytes l
      | None \<Rightarrow> sl_max_encoded_bytes l)"

section \<open>Reading\<close>

definition length_prefix_error :: "length_kind \<Rightarrow> codec_error \<Rightarrow> codec_error" where
  "length_prefix_error kind e = (case e of MalformedVarInt \<Rightarrow> MalformedLengthPrefix kind | _ \<Rightarrow> e)"

definition read_length :: "length_kind \<Rightarrow> nat reader_op" where
  "read_length kind =
     and_then (map_err (length_prefix_error kind) read_var_int)
       (\<lambda>val. if val <s 0 then fail (NegativeLength kind val) else ok (unat val))"

definition read_string :: "string_limits \<Rightarrow> rust_str reader_op" where
  "read_string limits =
     and_then (read_length LengthKind_String) (\<lambda>len.
     and_then (ensure (len \<le> max_encoded_bytes limits)
                 (EncodedStringTooLong len (max_encoded_bytes limits))) (\<lambda>_.
     and_then (read_bytes len ''string bytes'') (\<lambda>bytes.
     and_then (case from_utf8 bytes of
                 Inl valid_up_to \<Rightarrow> fail (InvalidUtf8 valid_up_to)
               | Inr val \<Rightarrow> ok val) (\<lambda>val.
     and_then (ensure (utf16_count val \<le> max_utf16_units limits)
                 (StringTooLong (utf16_count val) (max_utf16_units limits))) (\<lambda>_.
     ok val)))))"

definition read_byte_array :: "nat \<Rightarrow> u8 list reader_op" where
  "read_byte_array max_length =
     and_then (read_length LengthKind_ByteArray) (\<lambda>len.
     and_then (ensure (len \<le> max_length) (ByteArrayTooLong len max_length)) (\<lambda>_.
     read_bytes len ''byte array''))"

section \<open>Writing\<close>

definition write_length :: "nat \<Rightarrow> string \<Rightarrow> writer_op" where
  "write_length len ctx =
     and_then (ensure (len \<le> i32_MAX) (ValueOutOfRange ctx (int len) 0 (int i32_MAX))) (\<lambda>_.
     emit (write_var_int (of_nat len)))"

definition write_string :: "string_limits \<Rightarrow> rust_str \<Rightarrow> writer_op" where
  "write_string limits val =
     and_then (ensure (utf16_count val \<le> max_utf16_units limits)
                 (StringTooLong (utf16_count val) (max_utf16_units limits))) (\<lambda>_.
     and_then (ensure (str_len val \<le> max_encoded_bytes limits)
                 (EncodedStringTooLong (str_len val) (max_encoded_bytes limits))) (\<lambda>_.
     and_then (write_length (str_len val) ''string length'') (\<lambda>_.
     emit (write_bytes (as_bytes val)))))"

definition write_byte_array :: "nat \<Rightarrow> u8 list \<Rightarrow> writer_op" where
  "write_byte_array max_length val =
     and_then (ensure (length val \<le> max_length) (ByteArrayTooLong (length val) max_length)) (\<lambda>_.
     and_then (write_length (length val) ''byte array length'') (\<lambda>_.
     emit (write_bytes val)))"

section \<open>Lengths on the wire\<close>

definition enc_length :: "nat \<Rightarrow> u8 list" where
  "enc_length n = enc_var (of_nat n :: i32)"

lemma length_enc_length: "length (enc_length n) \<le> 5"
  by (simp add: enc_length_def length_enc_var_int)

lemma nonneg_i32_iff: "\<not> (v :: i32) <s 0 \<longleftrightarrow> unat v \<le> i32_MAX"
proof -
  have "v <s 0 \<longleftrightarrow> sint v < 0" by (simp add: word_sless_alt)
  also have "\<dots> \<longleftrightarrow> bit (uint v) 31" by (simp add: sint_uint signed_take_bit_negative_iff)
  also have "\<dots> \<longleftrightarrow> bit (unat v) 31" by (simp only: bit_unsigned_iff) simp
  also have "\<dots> \<longleftrightarrow> odd (unat v div 2 ^ 31)" by (rule bit_iff_odd)
  also have "\<dots> \<longleftrightarrow> 2 ^ 31 \<le> unat v"
  proof -
    have "unat v < 2 ^ 32" using unsigned_less[of v] by simp
    then have "unat v div 2 ^ 31 = 0 \<or> unat v div 2 ^ 31 = 1" by auto
    then show ?thesis by (auto simp: div_eq_0_iff)
  qed
  finally show ?thesis by (auto simp: i32_MAX_def)
qed

lemma unat_of_nat_i32: "n \<le> i32_MAX \<Longrightarrow> unat (of_nat n :: i32) = n"
  by (simp add: i32_MAX_def unsigned_of_nat take_bit_nat_eq_self)

lemma of_nat_nonneg_i32: "n \<le> i32_MAX \<Longrightarrow> \<not> (of_nat n :: i32) <s 0"
  by (simp add: nonneg_i32_iff unat_of_nat_i32)

lemma decodes_read_length [decodes_intros]:
  assumes "n \<le> i32_MAX"
  shows "decodes (read_length kind) (enc_length n) n"
proof -
  have "decodes (read_length kind) (enc_length n @ []) n"
    unfolding read_length_def enc_length_def
    by (rule decodes_and_then[OF decodes_map_err[OF decodes_read_var_int]])
      (simp add: of_nat_nonneg_i32 unat_of_nat_i32 assms decodes_ok)
  then show ?thesis by simp
qed

lemma advances_read_length [advances_intros]: "advances (read_length kind)"
  unfolding read_length_def by (intro advances_intros)

lemma appends_write_length [appends_intros]:
  "n \<le> i32_MAX \<Longrightarrow> appends (write_length n ctx) (enc_length n)"
  unfolding write_length_def enc_length_def by (intro appends_intros)

lemma read_length_bound:
  assumes "read_length kind r = (Inr n, r')"
  shows "n \<le> i32_MAX"
  using assms by (auto simp: read_length_def nonneg_i32_iff run_simps split: if_splits elim!: and_then_InrE)

section \<open>Byte arrays\<close>

definition enc_byte_array :: "u8 list \<Rightarrow> u8 list" where
  "enc_byte_array bs = enc_length (length bs) @ bs"

lemma decodes_read_byte_array [decodes_intros]:
  "length bs \<le> max_length \<Longrightarrow> length bs \<le> i32_MAX \<Longrightarrow>
     decodes (read_byte_array max_length) (enc_byte_array bs) bs"
  unfolding read_byte_array_def enc_byte_array_def
  by (rule decodes_and_then[OF decodes_read_length] decodes_ensure decodes_read_bytes | simp)+

lemma appends_write_byte_array [appends_intros]:
  "length bs \<le> max_length \<Longrightarrow> length bs \<le> i32_MAX \<Longrightarrow>
     appends (write_byte_array max_length bs) (enc_byte_array bs)"
  unfolding write_byte_array_def enc_byte_array_def by (intro appends_intros)

lemma advances_read_byte_array [advances_intros]: "advances (read_byte_array m)"
  unfolding read_byte_array_def by (intro advances_intros)

lemma i32_usize: "n \<le> i32_MAX \<Longrightarrow> n + 64 \<le> usize_MAX"
  by (simp add: i32_MAX_def usize_MAX_def)

interpretation byte_array_codec:
  wire_codec "write_byte_array max_length" "read_byte_array max_length" enc_byte_array
    "\<lambda>bs. length bs \<le> max_length \<and> length bs \<le> i32_MAX" for max_length
proof unfold_locales
  fix v :: "u8 list" assume "length v \<le> max_length \<and> length v \<le> i32_MAX"
  then show "length (enc_byte_array v) \<le> usize_MAX"
    using length_enc_length[of "length v"] i32_usize[of "length v"] by (simp add: enc_byte_array_def)
qed (auto intro: decodes_intros appends_intros advances_intros)

section \<open>Strings\<close>

definition enc_string :: "rust_str \<Rightarrow> u8 list" where
  "enc_string s = enc_length (str_len s) @ as_bytes s"

definition valid_string :: "string_limits \<Rightarrow> rust_str \<Rightarrow> bool" where
  "valid_string limits s \<longleftrightarrow>
     is_str s \<and> utf16_count s \<le> max_utf16_units limits \<and> str_len s \<le> max_encoded_bytes limits \<and>
     str_len s \<le> i32_MAX"

lemma advances_sum [advances_intros]:
  "(\<And>x. advances (a x)) \<Longrightarrow> (\<And>x. advances (b x)) \<Longrightarrow> advances (case v of Inl x \<Rightarrow> a x | Inr x \<Rightarrow> b x)"
  by (cases v) auto

lemma advances_read_string [advances_intros]: "advances (read_string limits)"
  unfolding read_string_def by (intro advances_intros)

lemma decodes_read_string [decodes_intros]:
  assumes "valid_string limits s"
  shows "decodes (read_string limits) (enc_string s) s"
proof -
  have len: "str_len s \<le> i32_MAX" "str_len s \<le> max_encoded_bytes limits" "length (as_bytes s) = str_len s"
    and s: "from_utf8 (as_bytes s) = Inr s" "utf16_count s \<le> max_utf16_units limits"
    using assms by (simp_all add: valid_string_def str_len_def)
  have "decodes (read_string limits) (enc_length (str_len s) @ as_bytes s @ []) s"
    unfolding read_string_def
    by (rule decodes_and_then[OF decodes_read_length[OF len(1)]] decodes_ensure[OF len(2)]
          decodes_and_then[OF decodes_read_bytes[OF len(3)[symmetric]]])+
      (simp add: s(1) ensure_def s(2) decodes_ok)
  then show ?thesis by (simp add: enc_string_def)
qed

lemma appends_write_string [appends_intros]:
  "valid_string limits s \<Longrightarrow> appends (write_string limits s) (enc_string s)"
  unfolding write_string_def enc_string_def valid_string_def by (intro appends_intros) simp_all

interpretation string_codec:
  wire_codec "write_string limits" "read_string limits" enc_string "valid_string limits" for limits
proof unfold_locales
  fix v assume "valid_string limits v"
  then show "length (enc_string v) \<le> usize_MAX"
    using length_enc_length[of "str_len v"] i32_usize[of "str_len v"]
    by (simp add: enc_string_def valid_string_def str_len_def)
qed (auto intro: decodes_intros appends_intros advances_intros)

text \<open>A string that was read is within both limits, whatever the bytes were.\<close>

lemma read_string_sound:
  assumes "read_string limits r = (Inr s, r')"
  shows "valid_string limits s"
proof -
  from assms obtain len r1 r2 bytes where
    len: "read_length LengthKind_String r = (Inr len, r1)" "len \<le> max_encoded_bytes limits"
    and bytes: "read_bytes len ''string bytes'' r1 = (Inr bytes, r2)" "from_utf8 bytes = Inr s"
    and units: "utf16_count s \<le> max_utf16_units limits"
    unfolding read_string_def
    by (auto elim!: and_then_InrE simp: run_simps split: if_splits sum.splits)
  have "length bytes = len"
    using bytes(1) by (auto simp: read_bytes_def get_range_def Let_def split: option.splits if_splits)
  then show ?thesis
    using from_utf8_sound[OF bytes(2)] units len(2) read_length_bound[OF len(1)]
    by (simp add: valid_string_def str_len_def)
qed

lemma max_encoded_bytes_le: "max_encoded_bytes l \<le> sl_max_encoded_bytes l"
  by (auto simp: max_encoded_bytes_def split: option.split)

text \<open>The two limits are one: a string within the Java limit never trips the \<open>n * 3\<close> byte limit.\<close>

lemma max_encoded_bytes_redundant:
  assumes "utf16_count s \<le> max_utf16_units l" and "str_len s \<le> sl_max_encoded_bytes l"
  shows "str_len s \<le> max_encoded_bytes l"
  using assms str_len_le[of s]
  by (auto simp: max_encoded_bytes_def max_utf16_units_def split: option.split)

section \<open>Properties\<close>

text \<open>
  A string is accepted by the writer under given limits exactly when it is within both of
  them, and the bytes written read back, under the same limits and whatever follows, as the same
  string; so no string the client writes is misread or rejected by a peer with the same limits.
\<close>

theorem string_round_trip:
  assumes "is_str s" and "str_len s \<le> i32_MAX" and "length rest + 5 + str_len s \<le> usize_MAX"
  shows "(fst (write_string limits s new_writer) = Inr () \<longleftrightarrow>
      utf16_count s \<le> max_utf16_units limits \<and> str_len s \<le> sl_max_encoded_bytes limits) \<and>
    (fst (write_string limits s new_writer) = Inr () \<longrightarrow>
      (let bytes = out_bytes (snd (write_string limits s new_writer)) in
        read_string limits (new_reader (bytes @ rest)) =
          (Inr s, \<lparr>input = bytes @ rest, position = length bytes\<rparr>)))"
proof -
  have valid: "valid_string limits s \<longleftrightarrow>
      utf16_count s \<le> max_utf16_units limits \<and> str_len s \<le> sl_max_encoded_bytes limits"
    using assms(1,2) max_encoded_bytes_redundant[of s limits] max_encoded_bytes_le[of limits]
    by (auto simp: valid_string_def)
  have accepted: "fst (write_string limits s new_writer) = Inr () \<longleftrightarrow> valid_string limits s"
  proof (cases "valid_string limits s")
    case True
    then show ?thesis using string_codec.put_get(1) by simp
  next
    case False
    then have "\<not> (utf16_count s \<le> max_utf16_units limits \<and> str_len s \<le> max_encoded_bytes limits)"
      using assms(1,2) by (simp add: valid_string_def)
    then show ?thesis using False by (auto simp: write_string_def and_then_ensure)
  qed
  moreover have "read_string limits (new_reader (bytes @ rest)) = (Inr s, \<lparr>input = bytes @ rest, position = length bytes\<rparr>)"
    if "valid_string limits s" "bytes = out_bytes (snd (write_string limits s new_writer))" for bytes
  proof -
    have "bytes = enc_string s"
      using appendsD[OF appends_write_string[OF that(1)], of new_writer] that(2) by (simp add: new_writer_def)
    moreover have "length (enc_string s @ rest) \<le> usize_MAX"
      using assms(3) length_enc_length[of "str_len s"] by (simp add: enc_string_def str_len_def)
    ultimately show ?thesis
      using string_codec.put_get_stream[OF that(1), of new_writer rest] decodesD[OF decodes_read_string[OF that(1)], of "[]" rest]
      by (simp add: new_reader_eq reader_at_def)
  qed
  ultimately show ?thesis using valid by (simp add: Let_def)
qed

lemma string_round_trip_witness:
  "fst (write_string (string_limits_new 4 12) [0x43, 0x1F600] new_writer) = Inr () \<longleftrightarrow>
     utf16_count [0x43, 0x1F600] \<le> max_utf16_units (string_limits_new 4 12) \<and>
     str_len [0x43, 0x1F600] \<le> sl_max_encoded_bytes (string_limits_new 4 12)"
  using string_round_trip[of "[0x43, 0x1F600]" "[]" "string_limits_new 4 12"]
  by (simp add: is_str_def is_scalar_value_def str_len_def as_bytes_def utf8_char_def i32_MAX_def usize_MAX_def)

text \<open>
  A string that was read is valid Unicode within both limits and is exactly the bytes it
  was read from: no overlong or surrogate encoding, and no other string, passes for it.
\<close>

theorem read_string_validates:
  assumes "reader_wf r" and "read_string limits r = (Inr s, r')"
  shows "is_str s \<and> utf16_count s \<le> max_utf16_units limits \<and> str_len s \<le> max_encoded_bytes limits \<and>
    reader_wf r' \<and> input r' = input r \<and>
    as_bytes s = drop (position r' - str_len s) (take (position r') (input r))"
proof -
  from assms(2) obtain len r1 bytes where
    len: "read_length LengthKind_String r = (Inr len, r1)" and bytes: "read_bytes len ''string bytes'' r1 = (Inr bytes, r')"
    and utf8: "from_utf8 bytes = Inr s"
    unfolding read_string_def
    by (auto elim!: and_then_InrE simp: run_simps split: if_splits sum.splits)
  have r1: "input r1 = input r" "reader_wf r1" using advancesD[OF advances_read_length assms(1) len] by simp_all
  have s: "as_bytes s = bytes" using from_utf8_sound[OF utf8] by simp
  have b: "position r' = position r1 + len" "input r' = input r1" "bytes = take len (drop (position r1) (input r1))"
    "position r1 + len \<le> length (input r1)"
    using bytes r1(2)
    by (auto simp: read_bytes_def get_range_def Let_def reader_wf_def split: option.splits if_splits)
  then have "str_len s = len" using s by (simp add: str_len_def)
  then show ?thesis
    using read_string_sound[OF assms(2)] advancesD[OF advances_read_string assms] b r1 s
    by (auto simp: valid_string_def drop_take)
qed

lemma read_string_validates_witness:
  "as_bytes [0x43, 0x20AC] = drop (5 - str_len [0x43, 0x20AC]) (take 5 (enc_string [0x43, 0x20AC]))"
proof -
  let ?s = "[0x43, 0x20AC] :: nat list"
  have valid: "valid_string (string_limits_new 4 12) ?s"
    by (simp add: valid_string_def is_str_def is_scalar_value_def utf16_count_def str_len_def as_bytes_def
        utf8_char_def max_utf16_units_def max_encoded_bytes_def string_limits_new_def checked_mul_def
        usize_MAX_def i32_MAX_def)
  have len: "length (enc_string ?s) = 5"
    by (simp add: enc_string_def enc_length_def str_len_def as_bytes_def utf8_char_def enc_var.simps)
  then have read: "read_string (string_limits_new 4 12) (new_reader (enc_string ?s)) =
      (Inr ?s, reader_at (enc_string ?s) [])"
    by (intro decodes_complete decodes_read_string valid) (simp add: usize_MAX_def)
  have "reader_wf (new_reader (enc_string ?s))" using len by (simp add: new_reader_eq usize_MAX_def)
  from read_string_validates[OF this read] show ?thesis
    using len by (simp add: new_reader_def)
qed

end
