(* ===== verification/Framing.thy ===== *)
theory Framing
  imports Codec_Strings
begin

text \<open>
  \<open>cubic-protocol/src/frame.rs\<close>: the incremental frame decoder (a byte buffer with a read offset,
  compacted when useful), \<open>encode_frame\<close> and \<open>split_raw_packet\<close>.

  The decoder refines a queue of bytes: \<open>pending\<close> is the queue, \<open>push\<close> appends to it, \<open>next_frame\<close>
  takes one complete frame off its head (\<open>next_frame_refines\<close>), and the offset and the compaction
  are invisible. The interface \<open>frame_source\<close> states what a client of the decoder relies on.
\<close>

definition MINECRAFT_MAX_FRAME_SIZE :: nat where
  "MINECRAFT_MAX_FRAME_SIZE = 2 ^ 21 - 1"

definition DEFAULT_MAX_FRAME_SIZE :: nat where
  "DEFAULT_MAX_FRAME_SIZE = MINECRAFT_MAX_FRAME_SIZE"

definition DEFAULT_MAX_BUFFERED_BYTES :: nat where
  "DEFAULT_MAX_BUFFERED_BYTES = 8 * 1024 * 1024"

definition MAX_FRAME_LENGTH_PREFIX_BYTES :: nat where
  "MAX_FRAME_LENGTH_PREFIX_BYTES = 3"

record frame_limits =
  max_frame_size :: nat
  max_buffered_bytes :: nat

definition frame_limits_new :: "nat \<Rightarrow> nat \<Rightarrow> codec_error + frame_limits" where
  "frame_limits_new frame_size buffered_bytes =
     (if MINECRAFT_MAX_FRAME_SIZE < frame_size
      then Inl (FrameTooLong frame_size MINECRAFT_MAX_FRAME_SIZE)
      else case checked_add frame_size MAX_FRAME_LENGTH_PREFIX_BYTES of
        None \<Rightarrow> Inl (ValueOutOfRange ''frame buffer limit'' (int frame_size) 0 (int usize_MAX))
      | Some minimum_buffer \<Rightarrow>
          if buffered_bytes < minimum_buffer
          then Inl (ValueOutOfRange ''maximum buffered frame bytes'' (int buffered_bytes)
                     (int minimum_buffer) (int usize_MAX))
          else Inr \<lparr>max_frame_size = frame_size, max_buffered_bytes = buffered_bytes\<rparr>)"

definition frame_limits_default :: frame_limits where
  "frame_limits_default =
     \<lparr>max_frame_size = DEFAULT_MAX_FRAME_SIZE, max_buffered_bytes = DEFAULT_MAX_BUFFERED_BYTES\<rparr>"

record frame_decoder =
  limits :: frame_limits
  buffer :: "u8 list"
  read_offset :: nat

definition frame_decoder_new :: "frame_limits \<Rightarrow> frame_decoder" where
  "frame_decoder_new l = \<lparr>limits = l, buffer = [], read_offset = 0\<rparr>"

definition pending :: "frame_decoder \<Rightarrow> u8 list" where
  "pending d = (if read_offset d \<le> length (buffer d) then drop (read_offset d) (buffer d) else [])"

definition pending_len :: "frame_decoder \<Rightarrow> nat" where
  "pending_len d = length (buffer d) - read_offset d"

definition buffered_len :: "frame_decoder \<Rightarrow> nat" where
  "buffered_len d = pending_len d"

definition compact_if_useful :: "frame_decoder \<Rightarrow> frame_decoder" where
  "compact_if_useful d =
     (if read_offset d = 0 then d
      else let rem = pending_len d in
        if 4096 \<le> read_offset d \<or> rem \<le> read_offset d
        then d\<lparr>buffer := take rem (drop (read_offset d) (buffer d)), read_offset := 0\<rparr>
        else d)"

definition push :: "allocator \<Rightarrow> u8 list \<Rightarrow> (frame_decoder, codec_error, unit) fallible" where
  "push try_reserve bytes d0 =
     (let d = compact_if_useful d0; max = max_buffered_bytes (limits d) in
      case checked_add (pending_len d) (length bytes) of
        None \<Rightarrow> (Inl (FrameBufferTooLong usize_MAX max), d)
      | Some buffered \<Rightarrow>
          if max < buffered then (Inl (FrameBufferTooLong buffered max), d)
          else if \<not> try_reserve (length bytes)
          then (Inl (AllocationFailed ''frame input buffer'' buffered), d)
          else (Inr (), d\<lparr>buffer := buffer d @ bytes\<rparr>))"

definition next_frame :: "allocator \<Rightarrow> (frame_decoder, codec_error, u8 list option) fallible" where
  "next_frame try_reserve d =
     (let max = max_frame_size (limits d) in
      case decode_partial_var_int (pending d) of
        NeedMore \<Rightarrow> (Inr None, d)
      | Malformed \<Rightarrow> (Inl (MalformedLengthPrefix LengthKind_Frame), d)
      | Complete len_word prefix_bytes \<Rightarrow>
          if len_word <s 0 then (Inl (NegativeLength LengthKind_Frame len_word), d)
          else if MAX_FRAME_LENGTH_PREFIX_BYTES < prefix_bytes
          then (Inl (MalformedLengthPrefix LengthKind_Frame), d)
          else let frame_length = unat len_word in
            if max < frame_length then (Inl (FrameTooLong frame_length max), d)
            else case checked_add prefix_bytes frame_length of
              None \<Rightarrow>
                (Inl (ValueOutOfRange ''complete frame length'' (int frame_length) 0 (int usize_MAX)), d)
            | Some total_length \<Rightarrow>
                if length (pending d) < total_length then (Inr None, d)
                else case get_range (pending d) prefix_bytes total_length of
                  None \<Rightarrow>
                    (Inl (UnexpectedEnd ''frame body'' frame_length (length (pending d) - prefix_bytes)), d)
                | Some body \<Rightarrow>
                    if \<not> try_reserve frame_length
                    then (Inl (AllocationFailed ''completed frame body'' frame_length), d)
                    else let offset = read_offset d + total_length in
                      (Inr (Some body),
                       if offset = length (buffer d) then d\<lparr>buffer := [], read_offset := 0\<rparr>
                       else d\<lparr>read_offset := offset\<rparr>))"

definition encode_frame :: "u8 list \<Rightarrow> nat \<Rightarrow> codec_error + u8 list" where
  "encode_frame body max_size =
     (let effective_max = min max_size MINECRAFT_MAX_FRAME_SIZE in
      if effective_max < length body then Inl (FrameTooLong (length body) effective_max)
      else case write_length (length body) ''frame length''
                  (with_capacity (saturating_add (length body) 3)) of
        (Inl e, _) \<Rightarrow> Inl e
      | (Inr _, w) \<Rightarrow> Inr (out_bytes (write_bytes body w)))"

record raw_packet =
  packet_id :: i32
  payload :: "u8 list"

definition split_raw_packet :: "u8 list \<Rightarrow> codec_error + raw_packet" where
  "split_raw_packet frame =
     (case read_var_int (new_reader frame) of
        (Inl e, _) \<Rightarrow> Inl e
      | (Inr pid, r) \<Rightarrow> Inr \<lparr>packet_id = pid, payload = fst (read_remaining r)\<rparr>)"

section \<open>The incremental VarInt is the VarInt\<close>

lemma read_byte_at:
  "length (pre @ b # rest) \<le> usize_MAX \<Longrightarrow>
     read_byte_with_context ctx (reader_at pre (b # rest)) = (Inr b, reader_at (pre @ [b]) rest)"
  using decodesD[OF decodes_read_byte, of pre b rest ctx] by simp

lemma read_byte_empty:
  "length pre < usize_MAX \<Longrightarrow>
     read_byte_with_context ctx (reader_at pre []) = (Inl (UnexpectedEnd ctx 1 0), reader_at pre [])"
  by (simp add: read_byte_with_context_def read_bytes_def and_then_def get_range_def Let_def
      checked_add_def reader_at_def remaining_def)

lemma partial_loop_read_var_loop:
  assumes "length (pre @ bs) < usize_MAX"
  shows "case partial_loop (take (5 - index) bs) index acc of
      Some (v, n) \<Rightarrow>
        \<exists>pre' rest. read_var_loop 5 ctx malformed index acc (reader_at pre bs) = (Inr v, reader_at pre' rest)
          \<and> length pre' + index = length pre + n \<and> index < n \<and> n \<le> 5
    | None \<Rightarrow>
        if 5 - index \<le> length bs
        then fst (read_var_loop 5 ctx malformed index acc (reader_at pre bs)) = Inl malformed
        else fst (read_var_loop 5 ctx malformed index acc (reader_at pre bs)) = Inl (UnexpectedEnd ctx 1 0)"
  using assms
proof (induction "5 - index" arbitrary: index acc bs pre)
  case 0
  then show ?case by (subst read_var_loop.simps) (simp add: run_simps)
next
  case (Suc k)
  then have i: "index < 5" "5 - index = Suc k" "k = 5 - Suc index" by auto
  show ?case
  proof (cases bs)
    case Nil
    then show ?thesis
      using Suc.prems i by (subst read_var_loop.simps) (simp add: and_then_def read_byte_empty)
  next
    case (Cons b bs')
    let ?acc = "acc OR push_bit (index * 7) (ucast (b AND 0x7f))"
    have len: "length (pre @ b # bs') \<le> usize_MAX" using Suc.prems Cons by simp
    have step: "read_var_loop 5 ctx malformed index acc (reader_at pre bs) =
        (if b AND 0x80 = 0 then (Inr ?acc, reader_at (pre @ [b]) bs')
         else read_var_loop 5 ctx malformed (Suc index) ?acc (reader_at (pre @ [b]) bs'))"
      using i by (subst read_var_loop.simps) (simp add: Cons and_then_def read_byte_at[OF len] run_simps)
    show ?thesis
    proof (cases "b AND 0x80 = 0")
      case True
      then have "read_var_loop 5 ctx malformed index acc (reader_at pre bs) =
          (Inr ?acc, reader_at (pre @ [b]) bs')" using step by simp
      moreover have "partial_loop (take (5 - index) bs) index acc = Some (?acc, index + 1)"
        using i Cons True by (simp add: Let_def)
      ultimately show ?thesis
        using i by simp (intro exI conjI, rule refl, simp)
    next
      case False
      then have "read_var_loop 5 ctx malformed index acc (reader_at pre bs) =
          read_var_loop 5 ctx malformed (Suc index) ?acc (reader_at (pre @ [b]) bs')"
        using step by simp
      moreover have "partial_loop (take (5 - index) bs) index acc =
          partial_loop (take (5 - Suc index) bs') (Suc index) ?acc"
        using i Cons False by (simp add: Let_def)
      moreover note Suc.hyps(1)[of "Suc index" "pre @ [b]" bs' ?acc]
      ultimately show ?thesis
        using Suc.prems Cons i by (auto split: option.splits if_splits) fastforce+
    qed
  qed
qed


lemma decode_partial_var_int_eq:
  assumes "length bs < usize_MAX"
  shows "decode_partial_var_int bs =
    (case read_var_int (new_reader bs) of
       (Inr v, r) \<Rightarrow> Complete v (position r)
     | (Inl e, _) \<Rightarrow> if e = MalformedVarInt then Malformed else NeedMore)"
proof -
  let ?run = "read_var_loop 5 ''VarInt'' MalformedVarInt 0 0 (reader_at [] bs) :: (codec_error + i32) \<times> codec_reader"
  have run: "read_var_int (new_reader bs) = ?run"
    by (simp add: read_var_int_def MAX_VAR_INT_BYTES_def new_reader_eq)
  have len: "length ([] @ bs) < usize_MAX" using assms by simp
  note spec = partial_loop_read_var_loop[OF len, where index = 0 and acc = "0 :: i32" and
      ctx = "''VarInt''" and malformed = MalformedVarInt]
  show ?thesis
  proof (cases "partial_loop (take 5 bs) 0 0")
    case None
    then show ?thesis
      using spec unfolding run
      by (cases ?run) (simp add: decode_partial_var_int_def MAX_VAR_INT_BYTES_def split: if_splits)
  next
    case (Some vn)
    obtain v n where vn: "vn = (v, n)" by (cases vn)
    from spec Some vn obtain pre' rest where "?run = (Inr v, reader_at pre' rest)" "length pre' = n"
      by auto
    then show ?thesis
      unfolding run using Some vn by (simp add: decode_partial_var_int_def MAX_VAR_INT_BYTES_def)
  qed
qed

lemma decode_partial_complete:
  assumes "length (enc_var v @ rest) < usize_MAX"
  shows "decode_partial_var_int (enc_var v @ rest) = Complete v (length (enc_var v))"
  using decode_partial_var_int_eq[OF assms] decodesD[OF decodes_read_var_int, of "[]" v rest] assms
  by (simp add: new_reader_eq)

lemma enc_var_continues:
  fixes v :: "'a::len word"
  assumes "8 \<le> LENGTH('a)"
  shows "enc_var v = xs @ y # ys \<Longrightarrow> b \<in> set xs \<Longrightarrow> b AND 0x80 \<noteq> 0"
proof (induction v arbitrary: xs rule: enc_var.induct)
  case (1 v)
  show ?case
  proof (cases "unat v < 128")
    case True
    then have "enc_var v = [ucast v]" by (subst enc_var.simps) simp
    then show ?thesis using 1 by (cases xs) auto
  next
    case False
    let ?c = "ucast ((v AND 0x7f) OR 0x80) :: u8"
    from False have enc: "enc_var v = ?c # enc_var (drop_bit 7 v)" by (subst enc_var.simps) simp
    then obtain xs' where xs: "xs = ?c # xs'" and tail: "enc_var (drop_bit 7 v) = xs' @ y # ys"
      using 1(2,3) by (cases xs) auto
    have "?c AND 0x80 \<noteq> 0" by (rule high_group(1)[OF refl assms])
    then show ?thesis using "1.IH"[OF False tail] 1(3) xs by auto
  qed
qed

lemma partial_loop_continues: "\<forall>b\<in>set bs. b AND 0x80 \<noteq> 0 \<Longrightarrow> partial_loop bs i acc = None"
  by (induction bs arbitrary: i acc) (auto simp: Let_def)

lemma decode_partial_prefix:
  assumes "enc_var (v :: i32) = bs @ missing" and "missing \<noteq> []"
  shows "decode_partial_var_int bs = NeedMore"
proof -
  obtain y ys where missing: "missing = y # ys" using assms(2) by (cases missing) auto
  have "\<forall>b\<in>set bs. b AND 0x80 \<noteq> 0" using enc_var_continues[of v bs y ys] assms(1) missing by auto
  moreover have "length bs < 5" using length_enc_var_int[of v] assms(1) missing by simp
  ultimately show ?thesis
    by (simp add: decode_partial_var_int_def MAX_VAR_INT_BYTES_def partial_loop_continues)
qed

section \<open>The decoder as a queue of bytes\<close>

definition frame_limits_wf :: "frame_limits \<Rightarrow> bool" where
  "frame_limits_wf l \<longleftrightarrow>
     max_frame_size l \<le> MINECRAFT_MAX_FRAME_SIZE \<and>
     max_frame_size l + MAX_FRAME_LENGTH_PREFIX_BYTES \<le> max_buffered_bytes l \<and>
     max_buffered_bytes l + 4096 < usize_MAX"

definition frame_decoder_wf :: "frame_decoder \<Rightarrow> bool" where
  "frame_decoder_wf d \<longleftrightarrow>
     frame_limits_wf (limits d) \<and> read_offset d \<le> length (buffer d) \<and>
     pending_len d \<le> max_buffered_bytes (limits d) \<and>
     length (buffer d) < max_buffered_bytes (limits d) + 4096"

lemma frame_limits_new_wf:
  "frame_limits_new frame_size buffered = Inr l \<Longrightarrow> buffered + 4096 < usize_MAX \<Longrightarrow> frame_limits_wf l"
  by (auto simp: frame_limits_new_def frame_limits_wf_def split: if_splits option.splits)

lemma frame_limits_default_wf [simp]: "frame_limits_wf frame_limits_default"
  by (simp add: frame_limits_wf_def frame_limits_default_def DEFAULT_MAX_FRAME_SIZE_def
      DEFAULT_MAX_BUFFERED_BYTES_def MINECRAFT_MAX_FRAME_SIZE_def MAX_FRAME_LENGTH_PREFIX_BYTES_def
      usize_MAX_def)

lemma frame_decoder_new_wf: "frame_limits_wf l \<Longrightarrow> frame_decoder_wf (frame_decoder_new l)"
  by (simp add: frame_decoder_wf_def frame_decoder_new_def pending_len_def)

lemma pending_new [simp]: "pending (frame_decoder_new l) = []" "limits (frame_decoder_new l) = l"
  by (simp_all add: pending_def frame_decoder_new_def)

lemma length_pending [simp]: "length (pending d) = pending_len d"
  by (simp add: pending_def pending_len_def)

lemma compact_pending:
  assumes "frame_decoder_wf d"
  shows "pending (compact_if_useful d) = pending d" and "limits (compact_if_useful d) = limits d"
    and "read_offset (compact_if_useful d) < 4096"
    and "read_offset (compact_if_useful d) \<le> length (buffer (compact_if_useful d))"
  using assms
  by (auto simp: compact_if_useful_def pending_def pending_len_def frame_decoder_wf_def Let_def)

lemma buffer_length: "read_offset d \<le> length (buffer d) \<Longrightarrow> length (buffer d) = read_offset d + pending_len d"
  by (simp add: pending_len_def)

lemma push_ok:
  assumes wf: "frame_decoder_wf d" and room: "pending_len d + length bs \<le> max_buffered_bytes (limits d)"
    and alloc: "try_reserve (length bs)"
  obtains d' where "push try_reserve bs d = (Inr (), d')" and "frame_decoder_wf d'"
    and "pending d' = pending d @ bs" and "limits d' = limits d"
proof -
  define c where "c = compact_if_useful d"
  note c = compact_pending[OF wf, folded c_def]
  have len: "pending_len c = pending_len d" using c(1) length_pending by metis
  let ?d' = "c\<lparr>buffer := buffer c @ bs\<rparr>"
  have "pending_len d + length bs \<le> usize_MAX"
    using wf room by (simp add: frame_decoder_wf_def frame_limits_wf_def)
  then have "push try_reserve bs d = (Inr (), ?d')"
    using room alloc c(2) len by (simp add: push_def c_def[symmetric] Let_def checked_add_def)
  moreover have pend: "pending ?d' = pending d @ bs" using c(1,4) by (simp add: pending_def)
  moreover have "pending_len ?d' = pending_len d + length bs" using pend length_pending by (metis length_append)
  then have "frame_decoder_wf ?d'"
    using wf c room len buffer_length[of c] by (simp add: frame_decoder_wf_def)
  ultimately show ?thesis using c(2) by (intro that[of ?d']) simp_all
qed

lemma push_error:
  assumes wf: "frame_decoder_wf d" and run: "push try_reserve bs d = (r, d')"
  shows "frame_decoder_wf d'" and "limits d' = limits d"
    and "r \<noteq> Inr () \<Longrightarrow> pending d' = pending d"
proof -
  define c where "c = compact_if_useful d"
  note c = compact_pending[OF wf, folded c_def]
  have len: "pending_len c = pending_len d" using c(1) length_pending by metis
  have c_wf: "frame_decoder_wf c"
    using wf c len buffer_length[of c] by (simp add: frame_decoder_wf_def)
  have cases: "d' = c \<or> (r = Inr () \<and> pending_len d + length bs \<le> max_buffered_bytes (limits d) \<and> try_reserve (length bs))"
    using run len c(2) by (auto simp: push_def c_def[symmetric] Let_def split: option.splits if_splits)
  have both: "frame_decoder_wf d' \<and> limits d' = limits d"
  proof (cases "d' = c")
    case True
    then show ?thesis using c_wf c(2) by simp
  next
    case False
    with cases obtain d'' where "push try_reserve bs d = (Inr (), d'')" "frame_decoder_wf d''" "limits d'' = limits d"
      using push_ok[OF wf] by blast
    then show ?thesis using run by simp
  qed
  then show "frame_decoder_wf d'" "limits d' = limits d" by simp_all
  show "pending d' = pending d" if "r \<noteq> Inr ()" using cases that c(1) by auto
qed

definition enc_frame :: "u8 list \<Rightarrow> u8 list" where
  "enc_frame body = enc_length (length body) @ body"

lemma enc_length_3:
  assumes "n \<le> MINECRAFT_MAX_FRAME_SIZE"
  shows "length (enc_length n) \<le> 3"
proof -
  have "n \<le> i32_MAX" using assms by (simp add: MINECRAFT_MAX_FRAME_SIZE_def i32_MAX_def)
  then have "unat (of_nat n :: i32) = n" by (rule unat_of_nat_i32)
  then show ?thesis
    using assms unfolding enc_length_def MINECRAFT_MAX_FRAME_SIZE_def
    by (intro length_enc_var) simp_all
qed

lemma encode_frame_ok:
  assumes "length body \<le> max_size" and "length body \<le> MINECRAFT_MAX_FRAME_SIZE"
  shows "encode_frame body max_size = Inr (enc_frame body)"
proof -
  have "length body \<le> i32_MAX" using assms(2) by (simp add: MINECRAFT_MAX_FRAME_SIZE_def i32_MAX_def)
  from appendsD[OF appends_write_length[OF this]]
  show ?thesis
    using assms by (simp add: encode_frame_def with_capacity_def write_bytes_def enc_frame_def Let_def)
qed

lemma encode_frame_iff:
  "encode_frame body max_size = Inr bs \<longleftrightarrow>
     length body \<le> max_size \<and> length body \<le> MINECRAFT_MAX_FRAME_SIZE \<and> bs = enc_frame body"
  using encode_frame_ok[of body max_size]
  by (auto simp: encode_frame_def Let_def split: if_splits)

lemma partial_loop_bytes: "partial_loop bs i acc = Some (v, n) \<Longrightarrow> i < n"
  by (induction bs arbitrary: i acc) (auto simp: Let_def split: if_splits dest: Suc_lessD)

lemma decode_partial_bytes: "decode_partial_var_int bs = Complete v n \<Longrightarrow> 0 < n"
  by (auto simp: decode_partial_var_int_def split: option.splits if_splits dest: partial_loop_bytes)

lemma next_frame_cases:
  assumes "frame_decoder_wf d" and "next_frame try_reserve d = (r, d')"
  obtains (unchanged) "d' = d" "\<And>body. r \<noteq> Inr (Some body)"
  | (frame) len_word n where
      "decode_partial_var_int (pending d) = Complete len_word n" "0 < n" "n \<le> 3"
      "\<not> len_word <s 0" "unat len_word \<le> max_frame_size (limits d)"
      "n + unat len_word \<le> pending_len d"
      "r = Inr (Some (take (unat len_word) (drop n (pending d))))"
      "d' = (if read_offset d + (n + unat len_word) = length (buffer d)
             then d\<lparr>buffer := [], read_offset := 0\<rparr>
             else d\<lparr>read_offset := read_offset d + (n + unat len_word)\<rparr>)"
proof (cases "\<exists>body. r = Inr (Some body)")
  case False
  then have "d' = d"
    using assms(2) by (auto simp: next_frame_def Let_def split: partial_var_int.splits if_splits option.splits)
  then show ?thesis using False unchanged by blast
next
  case True
  then obtain w n where c: "decode_partial_var_int (pending d) = Complete w n"
    using assms(2) by (auto simp: next_frame_def Let_def split: partial_var_int.splits)
  show ?thesis
    using assms(2) True decode_partial_bytes[OF c]
    by (intro frame[OF c])
      (auto simp: next_frame_def Let_def c get_range_def MAX_FRAME_LENGTH_PREFIX_BYTES_def
        split: if_splits option.splits)
qed

lemma pending_advance:
  assumes "frame_decoder_wf d" and "k \<le> pending_len d"
    and "d' = (if read_offset d + k = length (buffer d)
             then d\<lparr>buffer := [], read_offset := 0\<rparr> else d\<lparr>read_offset := read_offset d + k\<rparr>)"
  shows "frame_decoder_wf d'" and "pending d' = drop k (pending d)" and "limits d' = limits d"
proof -
  have "read_offset d \<le> length (buffer d)" using assms(1) by (simp add: frame_decoder_wf_def)
  then show "frame_decoder_wf d'" "pending d' = drop k (pending d)" "limits d' = limits d"
    using assms by (auto simp: frame_decoder_wf_def pending_def pending_len_def add.commute)
qed

lemma next_frame_wf:
  assumes "frame_decoder_wf d" and "next_frame try_reserve d = (r, d')"
  shows "frame_decoder_wf d'" and "limits d' = limits d"
proof -
  have "frame_decoder_wf d' \<and> limits d' = limits d"
  proof (cases rule: next_frame_cases[OF assms])
    case 1
    then show ?thesis using assms(1) by simp
  next
    case (2 w n)
    then show ?thesis using pending_advance[OF assms(1) 2(6,8)] by simp
  qed
  then show "frame_decoder_wf d'" "limits d' = limits d" by simp_all
qed

lemma next_frame_some:
  assumes "frame_decoder_wf d" and "next_frame try_reserve d = (Inr (Some body), d')"
  shows "\<exists>prefix. pending d = prefix @ body @ pending d' \<and> prefix \<noteq> [] \<and> length prefix \<le> 3 \<and>
    length body \<le> max_frame_size (limits d)"
proof (cases rule: next_frame_cases[OF assms])
  case 1
  then show ?thesis by blast
next
  case frame: (2 w n)
  have pend: "pending d' = drop (n + unat w) (pending d)"
    by (rule pending_advance(2)[OF assms(1) frame(6,8)])
  have "pending d = take n (pending d) @ body @ drop (n + unat w) (pending d)"
    using frame(7) by (simp add: add.commute) (metis append_take_drop_id drop_drop add.commute)
  moreover have "length (pending d) = pending_len d" by simp
  then have "take n (pending d) \<noteq> []" using frame by (metis add_is_0 le_zero_eq length_0_conv length_greater_0_conv take_eq_Nil)
  ultimately show ?thesis using pend frame by (intro exI[of _ "take n (pending d)"]) simp
qed

lemma next_frame_other:
  assumes "frame_decoder_wf d" and "next_frame try_reserve d = (r, d')" and "\<And>body. r \<noteq> Inr (Some body)"
  shows "d' = d"
  by (rule next_frame_cases[OF assms(1,2)]) (use assms(3) in auto)

lemma next_frame_complete:
  assumes wf: "frame_decoder_wf d" and pend: "pending d = enc_frame body @ rest"
    and size: "length body \<le> max_frame_size (limits d)" and alloc: "try_reserve (length body)"
  obtains d' where "next_frame try_reserve d = (Inr (Some body), d')" and "frame_decoder_wf d'"
    and "pending d' = rest" and "limits d' = limits d"
proof -
  let ?w = "of_nat (length body) :: i32" and ?n = "length (enc_length (length body))"
  let ?k = "?n + length body"
  have max: "length body \<le> MINECRAFT_MAX_FRAME_SIZE"
    using wf size by (simp add: frame_decoder_wf_def frame_limits_wf_def)
  then have i32: "length body \<le> i32_MAX" by (simp add: MINECRAFT_MAX_FRAME_SIZE_def i32_MAX_def)
  have len: "pending_len d = ?k + length rest" using pend length_pending[of d] by (simp add: enc_frame_def)
  have small: "pending_len d < usize_MAX"
    using wf by (simp add: frame_decoder_wf_def frame_limits_wf_def)
  have "decode_partial_var_int (pending d) = Complete ?w ?n"
    unfolding pend enc_frame_def enc_length_def append_assoc
    using small pend length_pending[of d] by (intro decode_partial_complete) (simp add: enc_frame_def enc_length_def)
  moreover have "get_range (pending d) ?n ?k = Some body"
    by (simp add: get_range_def pend enc_frame_def)
  moreover have "?n \<le> 3" by (rule enc_length_3[OF max])
  ultimately have run: "next_frame try_reserve d = (Inr (Some body),
      if read_offset d + ?k = length (buffer d) then d\<lparr>buffer := [], read_offset := 0\<rparr>
      else d\<lparr>read_offset := read_offset d + ?k\<rparr>)"
    using i32 size alloc len small
    by (simp add: next_frame_def of_nat_nonneg_i32 unat_of_nat_i32 MAX_FRAME_LENGTH_PREFIX_BYTES_def
        checked_add_def Let_def)
  have "?k \<le> pending_len d" using len by simp
  note adv = pending_advance[OF wf this refl]
  have "drop ?k (pending d) = rest" by (simp add: pend enc_frame_def)
  then show ?thesis using that[OF run adv(1)] adv(2,3) by simp
qed

lemma next_frame_partial:
  assumes wf: "frame_decoder_wf d" and pend: "enc_frame body = pending d @ missing" and "missing \<noteq> []"
    and size: "length body \<le> max_frame_size (limits d)"
  shows "next_frame try_reserve d = (Inr None, d)"
proof -
  let ?w = "of_nat (length body) :: i32" and ?n = "length (enc_length (length body))"
  have max: "length body \<le> MINECRAFT_MAX_FRAME_SIZE"
    using wf size by (simp add: frame_decoder_wf_def frame_limits_wf_def)
  then have i32: "length body \<le> i32_MAX" by (simp add: MINECRAFT_MAX_FRAME_SIZE_def i32_MAX_def)
  have small: "pending_len d < usize_MAX"
    using wf by (simp add: frame_decoder_wf_def frame_limits_wf_def)
  show ?thesis
  proof (cases "length (pending d) < ?n")
    case True
    define us where "us = drop (length (pending d)) (enc_length (length body))"
    have "pending d = take (length (pending d)) (enc_length (length body) @ body)"
      using pend unfolding enc_frame_def by (metis append_eq_conv_conj)
    then have "enc_length (length body) = pending d @ us"
      using True by (simp add: us_def)
    moreover have "us \<noteq> []" using True by (simp add: us_def)
    ultimately have "decode_partial_var_int (pending d) = NeedMore"
      using decode_partial_prefix unfolding enc_length_def by blast
    then show ?thesis by (simp add: next_frame_def)
  next
    case False
    obtain us where "enc_length (length body) = pending d @ us \<and> us @ body = missing \<or>
        enc_length (length body) @ us = pending d \<and> body = us @ missing"
      using pend unfolding enc_frame_def append_eq_append_conv2 by blast
    then obtain us where us: "pending d = enc_length (length body) @ us" "body = us @ missing"
    proof (elim disjE conjE)
      assume "enc_length (length body) = pending d @ us" "us @ body = missing"
      then show ?thesis using False that[of "[]"] by simp
    next
      assume "enc_length (length body) @ us = pending d" "body = us @ missing"
      then show ?thesis using that[of us] by (simp only:)
    qed
    have "decode_partial_var_int (pending d) = Complete ?w ?n"
      unfolding us(1) enc_length_def using small us(1) length_pending[of d]
      by (intro decode_partial_complete) (simp add: enc_length_def)
    moreover have "pending_len d = ?n + length us" using us(1) length_pending[of d] by simp
    then have "pending_len d < ?n + length body" using us(2) assms(3) by (simp flip: length_greater_0_conv)
    moreover have "?n + length body \<le> usize_MAX"
      using enc_length_3[OF max] i32_usize[OF i32] by simp
    moreover have "?n \<le> 3" by (rule enc_length_3[OF max])
    ultimately show ?thesis
      using i32 size
      by (simp add: next_frame_def of_nat_nonneg_i32 unat_of_nat_i32 MAX_FRAME_LENGTH_PREFIX_BYTES_def
          checked_add_def Let_def)
  qed
qed

section \<open>Taking every complete frame\<close>

text \<open>
  \<open>while let Some(frame) = decoder.next_frame()? { frames.push(frame) }\<close>: the frames taken before the
  decoder asks for more bytes or fails.
\<close>

lemma next_frame_shrinks:
  assumes "next_frame try_reserve d = (Inr (Some body), d')"
  shows "pending_len d' < pending_len d"
proof -
  from assms obtain w n where c: "decode_partial_var_int (pending d) = Complete w n"
    by (auto simp: next_frame_def Let_def split: partial_var_int.splits)
  show ?thesis
    using assms decode_partial_bytes[OF c]
    by (auto simp: next_frame_def Let_def c pending_len_def split: if_splits option.splits)
qed

function drain_frames ::
  "allocator \<Rightarrow> frame_decoder \<Rightarrow> u8 list list \<times> codec_error option \<times> frame_decoder" where
  "drain_frames try_reserve d =
     (case next_frame try_reserve d of
        (Inl e, d') \<Rightarrow> ([], Some e, d')
      | (Inr None, d') \<Rightarrow> ([], None, d')
      | (Inr (Some body), d') \<Rightarrow>
          (case drain_frames try_reserve d' of (bodies, e, d'') \<Rightarrow> (body # bodies, e, d'')))"
  by pat_completeness auto
termination
  by (relation "measure (\<lambda>(_, d). pending_len d)") (auto dest: next_frame_shrinks[OF sym])

declare drain_frames.simps [simp del]

text \<open>Pushing fragments one by one, taking the complete frames after each.\<close>

fun receive_fragments ::
  "allocator \<Rightarrow> u8 list list \<Rightarrow> frame_decoder \<Rightarrow> u8 list list \<times> codec_error option \<times> frame_decoder" where
  "receive_fragments try_reserve [] d = ([], None, d)"
| "receive_fragments try_reserve (fragment # fragments) d =
     (case push try_reserve fragment d of
        (Inl e, d1) \<Rightarrow> ([], Some e, d1)
      | (Inr _, d1) \<Rightarrow>
          (case drain_frames try_reserve d1 of
             (bodies, Some e, d2) \<Rightarrow> (bodies, Some e, d2)
           | (bodies, None, d2) \<Rightarrow>
               (case receive_fragments try_reserve fragments d2 of
                  (bodies', e, d3) \<Rightarrow> (bodies @ bodies', e, d3))))"

section \<open>The interface of a frame source\<close>

text \<open>
  What a client of an incremental decoder relies on: bytes pushed are appended to a queue, a
  complete frame at the head of the queue is taken off it, and a proper prefix of a frame is
  kept for later. \<open>whole_frames\<close> is what every client needs: a queue that starts with complete
  frames and ends in a part of one yields exactly those frames and keeps the part.
\<close>

locale frame_source =
  fixes queue :: "'d \<Rightarrow> u8 list"
    and inv :: "'d \<Rightarrow> bool"
    and room :: "'d \<Rightarrow> nat"
    and accepts :: "'d \<Rightarrow> u8 list \<Rightarrow> bool"
    and enc :: "u8 list \<Rightarrow> u8 list"
    and append_bytes :: "u8 list \<Rightarrow> ('d, codec_error, unit) fallible"
    and take_frame :: "('d, codec_error, u8 list option) fallible"
    and drain :: "'d \<Rightarrow> u8 list list \<times> codec_error option \<times> 'd"
  assumes append_law: "inv d \<Longrightarrow> length (queue d) + length bs \<le> room d \<Longrightarrow>
      \<exists>d'. append_bytes bs d = (Inr (), d') \<and> inv d' \<and> queue d' = queue d @ bs \<and>
        room d' = room d \<and> accepts d' = accepts d"
    and complete_law: "inv d \<Longrightarrow> accepts d body \<Longrightarrow> queue d = enc body @ rest \<Longrightarrow>
      \<exists>d'. take_frame d = (Inr (Some body), d') \<and> inv d' \<and> queue d' = rest \<and>
        room d' = room d \<and> accepts d' = accepts d"
    and partial_law: "inv d \<Longrightarrow> accepts d body \<Longrightarrow> enc body = queue d @ missing \<Longrightarrow> missing \<noteq> [] \<Longrightarrow>
      take_frame d = (Inr None, d)"
    and drain_law: "drain d = (case take_frame d of
        (Inl e, d') \<Rightarrow> ([], Some e, d')
      | (Inr None, d') \<Rightarrow> ([], None, d')
      | (Inr (Some body), d') \<Rightarrow> (case drain d' of (bodies, e, d'') \<Rightarrow> (body # bodies, e, d'')))"
begin

lemma whole_frames:
  assumes "inv d" and "\<forall>body\<in>set bodies. accepts d body"
    and "queue d = concat (map enc bodies) @ part"
    and "\<exists>body missing. accepts d body \<and> enc body = part @ missing \<and> missing \<noteq> []"
  shows "\<exists>d'. drain d = (bodies, None, d') \<and> inv d' \<and> queue d' = part \<and> room d' = room d \<and> accepts d' = accepts d"
  using assms
proof (induction bodies arbitrary: d)
  case Nil
  obtain body missing where "accepts d body" "enc body = part @ missing" "missing \<noteq> []"
    using Nil(4) by blast
  then have "take_frame d = (Inr None, d)" using Nil partial_law[of d body missing] by simp
  then show ?case using Nil by (subst drain_law) simp
next
  case (Cons body bodies)
  obtain d' where d': "take_frame d = (Inr (Some body), d')" "inv d'"
    "queue d' = concat (map enc bodies) @ part" "room d' = room d" "accepts d' = accepts d"
    using complete_law[of d body "concat (map enc bodies) @ part"] Cons.prems by auto
  then obtain d'' where "drain d' = (bodies, None, d'')" "inv d''" "queue d'' = part"
    "room d'' = room d" "accepts d'' = accepts d"
    using Cons.IH[of d'] Cons.prems by auto
  then show ?case by (subst drain_law) (simp add: d')
qed

end

interpretation frame_queue:
  frame_source pending frame_decoder_wf "\<lambda>d. max_buffered_bytes (limits d)"
    "\<lambda>d body. length body \<le> max_frame_size (limits d)" enc_frame
    "push (\<lambda>_. True)" "next_frame (\<lambda>_. True)" "drain_frames (\<lambda>_. True)"
proof unfold_locales
  show "\<exists>d'. push (\<lambda>_. True) bs d = (Inr (), d') \<and> frame_decoder_wf d' \<and> pending d' = pending d @ bs \<and>
      max_buffered_bytes (limits d') = max_buffered_bytes (limits d) \<and>
      (\<lambda>body. length body \<le> max_frame_size (limits d')) = (\<lambda>body. length body \<le> max_frame_size (limits d))"
    if "frame_decoder_wf d" "length (pending d) + length bs \<le> max_buffered_bytes (limits d)" for d bs
    using push_ok[of d bs "\<lambda>_. True"] that by simp metis
  show "\<exists>d'. next_frame (\<lambda>_. True) d = (Inr (Some body), d') \<and> frame_decoder_wf d' \<and> pending d' = rest \<and>
      max_buffered_bytes (limits d') = max_buffered_bytes (limits d) \<and>
      (\<lambda>body. length body \<le> max_frame_size (limits d')) = (\<lambda>body. length body \<le> max_frame_size (limits d))"
    if "frame_decoder_wf d" "length body \<le> max_frame_size (limits d)" "pending d = enc_frame body @ rest"
    for d body rest
    using next_frame_complete[of d body rest "\<lambda>_. True"] that by simp metis
qed (auto intro: next_frame_partial, rule drain_frames.simps)

text \<open>
  Cutting a stream of encoded bodies after any number of bytes: whole frames, then a part of
  the next one.
\<close>

lemma enc_frame_nonempty [simp]: "enc_frame body \<noteq> []"
  by (simp add: enc_frame_def enc_length_def)

lemma split_stream:
  assumes "a @ b = concat (map enc_frame bodies)"
  obtains complete part todo where
    "bodies = complete @ todo" "a = concat (map enc_frame complete) @ part"
    "concat (map enc_frame todo) = part @ b"
    "part = [] \<or> (\<exists>body\<in>set todo. \<exists>missing. enc_frame body = part @ missing \<and> missing \<noteq> [])"
  using assms
proof (induction bodies arbitrary: a thesis)
  case Nil
  then show ?case by simp
next
  case (Cons body bodies)
  have split: "a @ b = enc_frame body @ concat (map enc_frame bodies)" using Cons.prems(2) by simp
  show ?case
  proof (cases "length a < length (enc_frame body)")
    case True
    define missing where "missing = drop (length a) (enc_frame body)"
    have "a = take (length a) (enc_frame body @ concat (map enc_frame bodies))"
      using split unfolding append_eq_conv_conj by (rule conjunct1)
    then have "a = take (length a) (enc_frame body)" using True by simp
    then have "enc_frame body = a @ missing" unfolding missing_def by (metis append_take_drop_id)
    moreover have "missing \<noteq> []" using True by (simp add: missing_def)
    ultimately show ?thesis
      using split by (intro Cons.prems(1)[of "[]" "body # bodies" a] disjI2 bexI[of _ body]) auto
  next
    case False
    define a' where "a' = drop (length (enc_frame body)) a"
    have "take (length (enc_frame body)) (a @ b) = enc_frame body"
      "drop (length (enc_frame body)) (a @ b) = concat (map enc_frame bodies)"
      unfolding split by simp_all
    then have a: "a = enc_frame body @ a'" "a' @ b = concat (map enc_frame bodies)"
      using False by (simp_all add: a'_def) (metis append_take_drop_id)
    obtain complete part todo where "bodies = complete @ todo"
      "a' = concat (map enc_frame complete) @ part" "concat (map enc_frame todo) = part @ b"
      "part = [] \<or> (\<exists>body\<in>set todo. \<exists>missing. enc_frame body = part @ missing \<and> missing \<noteq> [])"
      using Cons.IH[OF _ a(2)] by blast
    then show ?thesis using a Cons.prems(1)[of "body # complete" todo part] by simp
  qed
qed

section \<open>Any fragmentation\<close>

definition partial_frame :: "frame_limits \<Rightarrow> u8 list \<Rightarrow> bool" where
  "partial_frame l part \<longleftrightarrow>
     (\<exists>body missing. length body \<le> max_frame_size l \<and> enc_frame body = part @ missing \<and> missing \<noteq> [])"

lemma partial_frame_Nil [simp]: "partial_frame l []"
  unfolding partial_frame_def by (intro exI[of _ "[]"] exI[of _ "enc_frame []"]) simp

lemma partial_frame_short:
  assumes "partial_frame l part" and "frame_limits_wf l"
  shows "length part < max_frame_size l + 3"
proof -
  from assms(1) obtain body missing where *: "length body \<le> max_frame_size l"
    "enc_frame body = part @ missing" "missing \<noteq> []" by (auto simp: partial_frame_def)
  have "length (enc_frame body) \<le> 3 + length body"
    using enc_length_3[of "length body"] *(1) assms(2) by (simp add: enc_frame_def frame_limits_wf_def)
  moreover have "length part < length (enc_frame body)" using *(2,3) by simp
  ultimately show ?thesis using *(1) by linarith
qed

lemma partial_frame_no_frame:
  assumes wf: "frame_decoder_wf d" and part: "partial_frame (limits d) (pending d)"
    and frames: "pending d = concat (map enc_frame bodies)"
    and size: "\<forall>body\<in>set bodies. length body \<le> max_frame_size (limits d)"
  shows "bodies = []"
proof (cases bodies)
  case (Cons body rest)
  from part obtain other missing where "length other \<le> max_frame_size (limits d)"
    "enc_frame other = pending d @ missing" "missing \<noteq> []" by (auto simp: partial_frame_def)
  then have "next_frame (\<lambda>_. True) d = (Inr None, d)" using next_frame_partial[OF wf] by blast
  moreover have "pending d = enc_frame body @ concat (map enc_frame rest)" using frames Cons by simp
  then have "\<exists>d'. next_frame (\<lambda>_. True) d = (Inr (Some body), d')"
    using next_frame_complete[OF wf, of body _ "\<lambda>_. True"] size Cons by (metis list.set_intros(1))
  ultimately show ?thesis by simp
qed simp

lemma receive_fragments_correct:
  assumes "frame_decoder_wf d" and "partial_frame (limits d) (pending d)"
    and "pending d @ concat fragments = concat (map enc_frame bodies)"
    and "\<forall>body\<in>set bodies. length body \<le> max_frame_size (limits d)"
    and "\<forall>f\<in>set fragments. max_frame_size (limits d) + 3 + length f \<le> max_buffered_bytes (limits d)"
  shows "\<exists>d'. receive_fragments (\<lambda>_. True) fragments d = (bodies, None, d') \<and> frame_decoder_wf d' \<and> pending d' = []"
  using assms
proof (induction fragments arbitrary: d bodies)
  case Nil
  then have "bodies = []" using partial_frame_no_frame[of d bodies] by simp
  then show ?case using Nil by simp
next
  case (Cons fragment fragments)
  let ?l = "limits d"
  have l_wf: "frame_limits_wf ?l" using Cons.prems(1) by (simp add: frame_decoder_wf_def)
  have "pending_len d + length fragment \<le> max_buffered_bytes ?l"
    using partial_frame_short[OF Cons.prems(2) l_wf] Cons.prems(5) by simp
  then obtain d1 where d1: "push (\<lambda>_. True) fragment d = (Inr (), d1)" "frame_decoder_wf d1"
    "pending d1 = pending d @ fragment" "limits d1 = ?l"
    by (rule push_ok[OF Cons.prems(1), where bs = fragment and try_reserve = "\<lambda>_. True"]) simp
  obtain complete part todo where cut: "bodies = complete @ todo"
    "pending d1 = concat (map enc_frame complete) @ part"
    "concat (map enc_frame todo) = part @ concat fragments"
    "part = [] \<or> (\<exists>body\<in>set todo. \<exists>missing. enc_frame body = part @ missing \<and> missing \<noteq> [])"
    by (rule split_stream[of "pending d1" "concat fragments" bodies]) (use Cons.prems(3) d1(3) in simp_all)
  have part: "partial_frame ?l part"
    using cut(4)
  proof
    assume "\<exists>body\<in>set todo. \<exists>missing. enc_frame body = part @ missing \<and> missing \<noteq> []"
    then obtain body missing where *: "body \<in> set todo" "enc_frame body = part @ missing" "missing \<noteq> []"
      by blast
    have "length body \<le> max_frame_size ?l" using Cons.prems(4) cut(1) *(1) by simp
    then show ?thesis using *(2,3) unfolding partial_frame_def by blast
  qed simp
  have missing: "\<exists>body missing. length body \<le> max_frame_size (limits d1) \<and> enc_frame body = part @ missing \<and> missing \<noteq> []"
    using part d1(4) unfolding partial_frame_def by simp
  have accepted: "\<forall>body\<in>set complete. length body \<le> max_frame_size (limits d1)"
    using Cons.prems(4) cut(1) d1(4) by simp
  obtain d2 where d2: "drain_frames (\<lambda>_. True) d1 = (complete, None, d2)" "frame_decoder_wf d2"
    "pending d2 = part" "max_buffered_bytes (limits d2) = max_buffered_bytes (limits d1)"
    "(\<lambda>body :: u8 list. length body \<le> max_frame_size (limits d2)) =
      (\<lambda>body. length body \<le> max_frame_size (limits d1))"
    using frame_queue.whole_frames[OF d1(2) accepted cut(2) missing] by (elim exE conjE) (rule that)
  note d2 = d2[unfolded d1(4)]
  have "max_frame_size (limits d2) = max_frame_size ?l"
  proof (rule antisym)
    show "max_frame_size (limits d2) \<le> max_frame_size ?l"
      using fun_cong[OF d2(5), of "replicate (max_frame_size (limits d2)) 0"] by simp
    show "max_frame_size ?l \<le> max_frame_size (limits d2)"
      using fun_cong[OF d2(5), of "replicate (max_frame_size ?l) 0"] by simp
  qed
  then have same: "limits d2 = ?l" using d2(4) by (metis frame_limits.surjective old.unit.exhaust)
  obtain d3 where "receive_fragments (\<lambda>_. True) fragments d2 = (todo, None, d3)"
    "frame_decoder_wf d3" "pending d3 = []"
    using Cons.IH[of d2 todo] d2 part cut Cons.prems same by auto
  then show ?case using d1 d2 cut(1) by simp
qed

section \<open>Properties\<close>

text \<open>
  C1: however the network splits a stream of encoded frames, the decoder returns exactly the
  bodies that were framed, in order, with no error, and ends empty.
\<close>

theorem fragmentation_is_invisible:
  assumes "frame_limits_wf l"
    and "list_all2 (\<lambda>body frame. encode_frame body (max_frame_size l) = Inr frame) bodies frames"
    and "concat fragments = concat frames"
    and "\<forall>f\<in>set fragments. max_frame_size l + 3 + length f \<le> max_buffered_bytes l"
  shows "\<exists>d. receive_fragments (\<lambda>_. True) fragments (frame_decoder_new l) = (bodies, None, d) \<and> buffered_len d = 0"
proof -
  have "frames = map enc_frame bodies \<and> (\<forall>body\<in>set bodies. length body \<le> max_frame_size l)"
    using assms(2) by (induction rule: list_all2_induct) (auto simp: encode_frame_iff)
  then obtain d where "receive_fragments (\<lambda>_. True) fragments (frame_decoder_new l) = (bodies, None, d)"
    "pending d = []"
    using receive_fragments_correct[of "frame_decoder_new l" fragments bodies] assms(1,3,4)
      frame_decoder_new_wf[OF assms(1)]
    by auto
  then show ?thesis using length_pending[of d] by (auto simp: buffered_len_def)
qed

lemma enc_length_1: "n < 128 \<Longrightarrow> enc_length n = [of_nat n]"
  using unat_of_nat_i32[of n]
  by (simp add: enc_length_def i32_MAX_def enc_var.simps[of "of_nat n"] unsigned_of_nat take_bit_nat_eq_self)

lemma fragmentation_is_invisible_witness:
  "\<exists>d. receive_fragments (\<lambda>_. True) [[2, 7], [8, 1], [], [9]] (frame_decoder_new frame_limits_default)
     = ([[7, 8], [9]], None, d) \<and> buffered_len d = 0"
proof (rule fragmentation_is_invisible[where frames = "[[2, 7, 8], [1, 9]]"])
  show "list_all2 (\<lambda>body frame. encode_frame body (max_frame_size frame_limits_default) = Inr frame)
      [[7, 8], [9]] [[2, 7, 8], [1, 9]]"
    by (simp add: encode_frame_iff enc_frame_def enc_length_1 frame_limits_default_def
        DEFAULT_MAX_FRAME_SIZE_def MINECRAFT_MAX_FRAME_SIZE_def)
qed (rule frame_limits_default_wf, simp_all add: frame_limits_default_def DEFAULT_MAX_FRAME_SIZE_def
    DEFAULT_MAX_BUFFERED_BYTES_def MINECRAFT_MAX_FRAME_SIZE_def)

inductive decoder_step :: "frame_decoder \<Rightarrow> frame_decoder \<Rightarrow> bool" where
  push_step: "push try_reserve bytes d = (r, d') \<Longrightarrow> decoder_step d d'"
| next_step: "next_frame try_reserve d = (r, d') \<Longrightarrow> decoder_step d d'"

text \<open>
  C13: whatever bytes a peer sends, in whatever fragments, and whether or not allocations succeed,
  the unread input is at most the configured bound and the buffer is less than 4096 bytes larger.
\<close>

theorem buffered_input_bounded:
  assumes "frame_limits_wf l" and "decoder_step\<^sup>*\<^sup>* (frame_decoder_new l) d"
  shows "buffered_len d \<le> max_buffered_bytes l \<and> length (buffer d) < max_buffered_bytes l + 4096"
proof -
  from assms(2) have "frame_decoder_wf d \<and> limits d = l"
  proof (induction rule: rtranclp_induct)
    case base
    then show ?case using assms(1) frame_decoder_new_wf by simp
  next
    case (step d d')
    from step(2) show ?case using step(3) push_error(1,2) next_frame_wf by cases metis+
  qed
  then show ?thesis by (auto simp: frame_decoder_wf_def buffered_len_def)
qed

lemma buffered_input_bounded_witness:
  "buffered_len (snd (push (\<lambda>_. True) [1, 2, 3] (frame_decoder_new frame_limits_default)))
     \<le> max_buffered_bytes frame_limits_default"
proof -
  let ?d = "snd (push (\<lambda>_. True) [1, 2, 3] (frame_decoder_new frame_limits_default))"
  have "decoder_step (frame_decoder_new frame_limits_default) ?d"
    by (rule push_step) (rule prod.collapse[symmetric])
  then show ?thesis
    using buffered_input_bounded[OF frame_limits_default_wf, of ?d] by blast
qed

text \<open>
  A frame length is rejected exactly as the protocol demands: a negative length, a prefix
  longer than three bytes and a length above the limit are errors that leave the decoder as it was.
\<close>

theorem bad_frame_length_rejected:
  assumes "frame_decoder_wf d" and "pending d = enc_var v @ rest"
    and "v <s 0 \<or> 3 < length (enc_var v) \<or> max_frame_size (limits d) < unat v"
  shows "next_frame try_reserve d =
      (Inl (if v <s 0 then NegativeLength LengthKind_Frame v
            else if 3 < length (enc_var v) then MalformedLengthPrefix LengthKind_Frame
            else FrameTooLong (unat v) (max_frame_size (limits d))), d)"
proof -
  have "pending_len d < usize_MAX" using assms(1) by (simp add: frame_decoder_wf_def frame_limits_wf_def)
  then have "decode_partial_var_int (pending d) = Complete v (length (enc_var v))"
    unfolding assms(2) using assms(2) length_pending[of d] by (intro decode_partial_complete) simp
  then show ?thesis
    using assms(3) by (auto simp: next_frame_def MAX_FRAME_LENGTH_PREFIX_BYTES_def Let_def)
qed

lemma bad_frame_length_rejected_witness:
  defines "d \<equiv> frame_decoder_new frame_limits_default\<lparr>buffer := enc_var (2097152 :: i32)\<rparr>"
  shows "next_frame (\<lambda>_. True) d = (Inl (MalformedLengthPrefix LengthKind_Frame), d)"
proof -
  have len: "length (enc_var (2097152 :: i32)) = 4"
    by (simp add: enc_var.simps[of "_ :: i32"])
  have "frame_decoder_wf d"
    using len frame_limits_default_wf
    by (simp add: d_def frame_decoder_wf_def pending_len_def frame_decoder_new_def)
      (simp add: frame_limits_default_def DEFAULT_MAX_BUFFERED_BYTES_def)
  moreover have "pending d = enc_var (2097152 :: i32) @ []"
    by (simp add: d_def pending_def frame_decoder_new_def)
  ultimately show ?thesis
    using bad_frame_length_rejected[of d 2097152 "[]" "\<lambda>_. True"] len nonneg_i32_iff[of 2097152]
    by (simp add: i32_MAX_def)
qed

text \<open>
  The incremental VarInt of the frame decoder and the VarInt of the reader are the same
  function: one completes, asks for more or rejects exactly when the other returns, runs out
  of input or rejects.
\<close>

theorem incremental_var_int_agrees:
  assumes "length bs < usize_MAX"
  shows "decode_partial_var_int bs =
    (case read_var_int (new_reader bs) of
       (Inr v, r) \<Rightarrow> Complete v (position r)
     | (Inl e, _) \<Rightarrow> if e = MalformedVarInt then Malformed else NeedMore)"
  by (rule decode_partial_var_int_eq[OF assms])

lemma incremental_var_int_agrees_witness:
  "decode_partial_var_int [0x80, 0x80] =
    (case read_var_int (new_reader [0x80, 0x80]) of
       (Inr v, r) \<Rightarrow> Complete v (position r)
     | (Inl e, _) \<Rightarrow> if e = MalformedVarInt then Malformed else NeedMore)"
  by (rule incremental_var_int_agrees) (simp add: usize_MAX_def)

lemma split_raw_packet_enc:
  "length (enc_var pid @ bytes) \<le> usize_MAX \<Longrightarrow>
     split_raw_packet (enc_var pid @ bytes) = Inr \<lparr>packet_id = pid, payload = bytes\<rparr>"
  using decodesD[OF decodes_read_var_int, of "[]" pid bytes]
  by (simp add: split_raw_packet_def new_reader_eq read_remaining_reader_at)

end
