(* ===== verification/Bitset.thy ===== *)
theory Bitset
  imports Codec_Strings
begin

text \<open>
  \<open>cubic-protocol/src/bitset.rs\<close>: the Java-compatible variable bit set, little-indexed 64-bit
  words without trailing zero words, under independent limits on words and bits.
\<close>

record bitset_limits =
  bl_max_words :: nat
  bl_max_bits :: nat

definition maximum_encoded_words :: "bitset_limits \<Rightarrow> nat" where
  "maximum_encoded_words l =
     (let by_bits = div_ceil (bl_max_bits l) 64 in
      if by_bits < bl_max_words l then by_bits else bl_max_words l)"

record bitset =
  words :: "u64 list"

definition leading_zeros :: "'a::len word \<Rightarrow> nat" where
  "leading_zeros w = length (takeWhile (\<lambda>i. \<not> bit w i) (rev [0..<LENGTH('a)]))"

text \<open>\<open>find_map\<close> over \<open>iter().enumerate().rev()\<close>.\<close>

fun find_map :: "('a \<Rightarrow> 'b option) \<Rightarrow> 'a list \<Rightarrow> 'b option" where
  "find_map f [] = None"
| "find_map f (x # xs) = (case f x of Some y \<Rightarrow> Some y | None \<Rightarrow> find_map f xs)"

definition highest_set_bit :: "u64 list \<Rightarrow> nat option" where
  "highest_set_bit ws =
     find_map
       (\<lambda>(index, word).
          if word = 0 then None
          else let within_word = 63 - leading_zeros word in
            Option.bind (checked_mul index 64) (\<lambda>base. checked_add base within_word))
       (rev (enumerate 0 ws))"

definition validate_words :: "u64 list \<Rightarrow> bitset_limits \<Rightarrow> codec_error + unit" where
  "validate_words ws l =
     (if maximum_encoded_words l < length ws
      then Inl (BitSetTooManyWords (length ws) (maximum_encoded_words l))
      else case highest_set_bit ws of
        Some b \<Rightarrow> if bl_max_bits l \<le> b then Inl (BitSetBitOutOfRange b (bl_max_bits l)) else Inr ()
      | None \<Rightarrow> Inr ())"

text \<open>\<open>while words.last().is_some_and(|word| *word == 0) { words.pop(); }\<close>\<close>

function pop_zeros :: "u64 list \<Rightarrow> u64 list" where
  "pop_zeros ws = (if ws \<noteq> [] \<and> last ws = 0 then pop_zeros (butlast ws) else ws)"
  by pat_completeness auto
termination
  by (relation "measure length") auto

declare pop_zeros.simps [simp del]

definition from_words :: "u64 list \<Rightarrow> bitset_limits \<Rightarrow> codec_error + bitset" where
  "from_words ws l =
     (case validate_words ws l of Inl e \<Rightarrow> Inl e | Inr _ \<Rightarrow> Inr \<lparr>words = pop_zeros ws\<rparr>)"

definition is_set :: "bitset \<Rightarrow> nat \<Rightarrow> bool" where
  "is_set s n =
     (if n div 64 < length (words s)
      then (words s ! (n div 64)) AND push_bit (n mod 64) 1 \<noteq> 0 else False)"

definition bitset_decode :: "allocator \<Rightarrow> bitset_limits \<Rightarrow> bitset reader_op" where
  "bitset_decode try_reserve l =
     and_then (read_length LengthKind_BitSet) (\<lambda>word_count.
     and_then (ensure (word_count \<le> maximum_encoded_words l)
                 (BitSetTooManyWords word_count (maximum_encoded_words l))) (\<lambda>_.
     and_then (ensure (try_reserve word_count) (AllocationFailed ''BitSet words'' word_count)) (\<lambda>_.
     and_then (read_n word_count read_u64) (\<lambda>ws.
     lift_result (from_words ws l)))))"

definition bitset_encode :: "bitset_limits \<Rightarrow> bitset \<Rightarrow> writer_op" where
  "bitset_encode l s =
     and_then (lift_result (validate_words (words s) l)) (\<lambda>_.
     and_then (write_length (length (words s)) ''BitSet word count'') (\<lambda>_.
     emit (write_each write_u64 (words s))))"

section \<open>The highest bit\<close>

lemma find_map_None: "find_map f xs = None \<longleftrightarrow> (\<forall>x\<in>set xs. f x = None)"
  by (induction xs) (auto split: option.splits)

lemma takeWhile_rev_upt:
  assumes "bit w k" "\<forall>j. k < j \<and> j < n \<longrightarrow> \<not> bit w j" "k < n"
  shows "length (takeWhile (\<lambda>i. \<not> bit w i) (rev [0..<n])) = n - 1 - k"
proof -
  have "[0..<n] = [0..<k] @ k # [Suc k..<n]"
    using upt_add_eq_append[of 0 k "n - k"] assms(3) by (simp add: upt_conv_Cons)
  then have "rev [0..<n] = rev [Suc k..<n] @ k # rev [0..<k]" by simp
  moreover have "\<forall>i\<in>set (rev [Suc k..<n]). \<not> bit w i" using assms(2) by auto
  ultimately show ?thesis using assms(1) by (simp add: takeWhile_append)
qed

lemma highest_bit_of_word:
  assumes "(w :: u64) \<noteq> 0"
  shows "bit w (63 - leading_zeros w)" and "\<forall>j. 63 - leading_zeros w < j \<longrightarrow> \<not> bit w j"
    and "63 - leading_zeros w < 64"
proof -
  from assms obtain i where "bit w i" using bit_eq_iff[of w 0] by auto
  define k where "k = Max {i. bit w i}"
  have fin: "finite {i. bit w i}"
    by (rule finite_subset[of _ "{..<64}"]) (auto dest: bit_imp_le_length)
  have k: "bit w k" using Max_in[OF fin] \<open>bit w i\<close> by (auto simp: k_def)
  have above: "\<forall>j. k < j \<longrightarrow> \<not> bit w j" using Max_ge[OF fin] by (fastforce simp: k_def not_le[symmetric])
  have "k < 64" using bit_imp_le_length[OF k] by simp
  then have "leading_zeros w = 63 - k"
    using takeWhile_rev_upt[OF k, of 64] above by (simp add: leading_zeros_def)
  then have "63 - leading_zeros w = k" using \<open>k < 64\<close> by simp
  then show "bit w (63 - leading_zeros w)" "\<forall>j. 63 - leading_zeros w < j \<longrightarrow> \<not> bit w j"
    "63 - leading_zeros w < 64"
    using k above \<open>k < 64\<close> by simp_all
qed

definition bit_at :: "u64 list \<Rightarrow> nat \<Rightarrow> bool" where
  "bit_at ws n \<longleftrightarrow> n div 64 < length ws \<and> bit (ws ! (n div 64)) (n mod 64)"

lemma is_set_iff: "is_set s n \<longleftrightarrow> bit_at (words s) n"
proof -
  have "(w AND push_bit m 1 \<noteq> 0) \<longleftrightarrow> bit w m" if "m < 64" for w :: u64 and m
    using that by (simp add: and_exp_eq_0_iff_not_bit push_bit_eq_mult)
  then show ?thesis by (simp add: is_set_def bit_at_def)
qed

text \<open>Word counts whose bit indices fit a \<open>usize\<close>: every vector the allocator can hold.\<close>

definition small :: "u64 list \<Rightarrow> bool" where
  "small ws \<longleftrightarrow> length ws * 64 \<le> usize_MAX"

lemma highest_set_bit_snoc:
  assumes "small (ws @ [w])"
  shows "highest_set_bit (ws @ [w]) =
    (if w = 0 then highest_set_bit ws else Some (length ws * 64 + (63 - leading_zeros w)))"
proof (cases "w = 0")
  case True
  then show ?thesis by (simp add: highest_set_bit_def enumerate_append_eq)
next
  case False
  have "length ws * 64 + 64 \<le> usize_MAX" using assms by (simp add: small_def)
  then have "length ws * 64 + (63 - leading_zeros w) \<le> usize_MAX" by linarith
  then show ?thesis
    using False by (simp add: highest_set_bit_def enumerate_append_eq checked_mul_def checked_add_def Let_def)
qed

lemma bit_at_snoc:
  "bit_at (ws @ [w]) n \<longleftrightarrow> bit_at ws n \<or> (n div 64 = length ws \<and> bit w (n mod 64))"
  by (auto simp: bit_at_def nth_append)

lemma highest_set_bit_spec:
  assumes "small ws"
  shows "case highest_set_bit ws of
      None \<Rightarrow> \<forall>n. \<not> bit_at ws n
    | Some b \<Rightarrow> bit_at ws b \<and> (\<forall>n. bit_at ws n \<longrightarrow> n \<le> b)"
  using assms
proof (induction ws rule: rev_induct)
  case Nil
  then show ?case by (simp add: highest_set_bit_def bit_at_def)
next
  case (snoc w ws)
  have small: "small ws" using snoc.prems by (simp add: small_def)
  show ?case
  proof (cases "w = 0")
    case True
    then have "bit_at (ws @ [w]) = bit_at ws" by (auto simp: bit_at_snoc fun_eq_iff)
    then show ?thesis
      using snoc.IH[OF small] unfolding highest_set_bit_snoc[OF snoc.prems] by (simp only: True if_True simp_thms)
  next
    case False
    define b where "b = 63 - leading_zeros w"
    note top = highest_bit_of_word[OF False, folded b_def]
    have "bit_at (ws @ [w]) (length ws * 64 + b)"
      using top by (simp add: bit_at_def)
    moreover have "n \<le> length ws * 64 + b" if "bit_at (ws @ [w]) n" for n
    proof (cases "bit_at ws n")
      case True
      then have "n div 64 < length ws" by (simp add: bit_at_def)
      then show ?thesis by simp
    next
      case False
      then have "n div 64 = length ws" "bit w (n mod 64)" using that by (auto simp: bit_at_snoc)
      then have "n mod 64 \<le> b" using top(2) not_less by blast
      then show ?thesis using \<open>n div 64 = length ws\<close> div_mult_mod_eq[of n 64] by linarith
    qed
    ultimately show ?thesis
      using False highest_set_bit_snoc[OF snoc.prems] by (simp add: b_def)
  qed
qed

section \<open>Canonical sets\<close>

lemma bit_at_pop_zeros [simp]: "bit_at (pop_zeros ws) n \<longleftrightarrow> bit_at ws n"
proof (induction ws rule: pop_zeros.induct)
  case (1 ws)
  show ?case
  proof (cases "ws \<noteq> [] \<and> last ws = 0")
    case True
    then have "ws = butlast ws @ [0]" by (metis append_butlast_last_id)
    then have "bit_at ws n \<longleftrightarrow> bit_at (butlast ws) n"
      using bit_at_snoc[of "butlast ws" 0 n] by simp
    then show ?thesis using 1 True by (subst pop_zeros.simps) simp
  next
    case False
    then show ?thesis by (subst pop_zeros.simps) auto
  qed
qed

lemma pop_zeros_canonical: "pop_zeros ws = [] \<or> last (pop_zeros ws) \<noteq> 0"
proof (induction ws rule: pop_zeros.induct)
  case (1 ws)
  then show ?case
    using pop_zeros.simps[of ws] by (cases "ws \<noteq> [] \<and> last ws = 0") auto
qed

lemma length_pop_zeros: "length (pop_zeros ws) \<le> length ws"
proof (induction ws rule: pop_zeros.induct)
  case (1 ws)
  then show ?case
    using pop_zeros.simps[of ws] by (cases "ws \<noteq> [] \<and> last ws = 0") auto
qed

lemma pop_zeros_id: "ws = [] \<or> last ws \<noteq> 0 \<Longrightarrow> pop_zeros ws = ws"
  by (subst pop_zeros.simps) auto

definition bitset_wf :: "bitset_limits \<Rightarrow> bitset \<Rightarrow> bool" where
  "bitset_wf l s \<longleftrightarrow>
     length (words s) \<le> maximum_encoded_words l \<and>
     (words s = [] \<or> last (words s) \<noteq> 0) \<and>
     (\<forall>n. is_set s n \<longrightarrow> n < bl_max_bits l)"

lemma validate_words_iff:
  assumes "small ws"
  shows "validate_words ws l = Inr () \<longleftrightarrow>
    length ws \<le> maximum_encoded_words l \<and> (\<forall>n. bit_at ws n \<longrightarrow> n < bl_max_bits l)"
  using highest_set_bit_spec[OF assms]
  by (auto simp: validate_words_def not_le not_less split: option.splits)

lemma from_words_wf:
  assumes "small ws" and "from_words ws l = Inr s"
  shows "bitset_wf l s" and "is_set s n \<longleftrightarrow> bit_at ws n"
proof -
  have "validate_words ws l = Inr ()" and s: "s = \<lparr>words = pop_zeros ws\<rparr>"
    using assms(2) by (auto simp: from_words_def split: sum.splits)
  then have valid: "length ws \<le> maximum_encoded_words l" "\<forall>n. bit_at ws n \<longrightarrow> n < bl_max_bits l"
    using validate_words_iff[OF assms(1)] by blast+
  then show "bitset_wf l s" "is_set s n \<longleftrightarrow> bit_at ws n"
    using pop_zeros_canonical[of ws] length_pop_zeros[of ws] s
    by (simp_all add: bitset_wf_def is_set_iff)
qed

lemma from_words_accepts:
  assumes "small ws"
  shows "(\<exists>s. from_words ws l = Inr s) \<longleftrightarrow>
    length ws \<le> maximum_encoded_words l \<and> (\<forall>n. bit_at ws n \<longrightarrow> n < bl_max_bits l)"
  using validate_words_iff[OF assms, of l]
  by (auto simp: from_words_def split: sum.splits)

lemma from_words_canonical:
  assumes "small (words s)" and "bitset_wf l s"
  shows "from_words (words s) l = Inr s"
proof -
  have "validate_words (words s) l = Inr ()"
    using assms validate_words_iff by (simp add: bitset_wf_def is_set_iff)
  then show ?thesis using assms(2) by (simp add: from_words_def bitset_wf_def pop_zeros_id)
qed

section \<open>On the wire\<close>

definition enc_bitset :: "bitset \<Rightarrow> u8 list" where
  "enc_bitset s = enc_length (length (words s)) @ concat (map to_be_bytes (words s))"

definition valid_bitset :: "allocator \<Rightarrow> bitset_limits \<Rightarrow> bitset \<Rightarrow> bool" where
  "valid_bitset try_reserve l s \<longleftrightarrow>
     bitset_wf l s \<and> length (words s) \<le> i32_MAX \<and> try_reserve (length (words s))"

lemma small_i32: "length ws \<le> i32_MAX \<Longrightarrow> small ws"
  by (simp add: small_def i32_MAX_def usize_MAX_def)

lemma decodes_lift_result: "r = Inr v \<Longrightarrow> decodes (lift_result r) [] v"
  by (simp add: decodes_def run_simps)

lemma decodes_bitset [decodes_intros]:
  assumes "valid_bitset try_reserve l s"
  shows "decodes (bitset_decode try_reserve l) (enc_bitset s) s"
proof -
  have len: "length (words s) \<le> i32_MAX" "length (words s) \<le> maximum_encoded_words l"
    "try_reserve (length (words s))"
    and canon: "from_words (words s) l = Inr s"
    using assms from_words_canonical small_i32 by (auto simp: valid_bitset_def bitset_wf_def)
  have "decodes (bitset_decode try_reserve l)
      (enc_length (length (words s)) @ concat (map to_be_bytes (words s)) @ []) s"
    unfolding bitset_decode_def
    by (rule decodes_and_then[OF decodes_read_length[OF len(1)]] decodes_ensure[OF len(2)]
          decodes_ensure[OF len(3)] decodes_and_then[OF u64_codec.get_sequence]
          decodes_lift_result[OF canon] | simp)+
  then show ?thesis by (simp add: enc_bitset_def)
qed

lemma appends_bitset [appends_intros]:
  assumes "valid_bitset try_reserve l s"
  shows "appends (bitset_encode l s) (enc_bitset s)"
proof -
  have len: "length (words s) \<le> i32_MAX" and "validate_words (words s) l = Inr ()"
    using assms validate_words_iff[OF small_i32] by (auto simp: valid_bitset_def bitset_wf_def is_set_iff)
  then have "bitset_encode l s = and_then (write_length (length (words s)) ''BitSet word count'')
      (\<lambda>_. emit (write_each write_u64 (words s)))"
    by (simp add: bitset_encode_def and_then_lift_result fun_eq_iff)
  then show ?thesis unfolding enc_bitset_def by (auto intro!: appends_intros len)
qed

lemma advances_bitset [advances_intros]: "advances (bitset_decode try_reserve l)"
  unfolding bitset_decode_def by (intro advances_intros)

lemma length_concat_u64 [simp]: "length (concat (map to_be_bytes (ws :: u64 list))) = 8 * length ws"
  by (induction ws) auto

interpretation bitset_codec:
  wire_codec "bitset_encode l" "bitset_decode try_reserve l" enc_bitset "valid_bitset try_reserve l"
  for try_reserve l
proof unfold_locales
  fix s assume "valid_bitset try_reserve l s"
  then have "length (words s) \<le> i32_MAX" by (simp add: valid_bitset_def)
  then show "length (enc_bitset s) \<le> usize_MAX"
    using length_enc_length[of "length (words s)"]
    by (simp add: enc_bitset_def i32_MAX_def usize_MAX_def)
qed (auto intro: decodes_intros appends_intros advances_intros)

text \<open>Whatever bytes arrive, a decoded set is canonical and within its limits.\<close>

lemma bitset_decode_wf:
  assumes "bitset_decode try_reserve l r = (Inr s, r')"
  shows "bitset_wf l s"
proof -
  from assms obtain n r1 ws r2 where n: "read_length LengthKind_BitSet r = (Inr n, r1)"
    and ws: "read_n n read_u64 r1 = (Inr ws, r2)" and s: "from_words ws l = Inr s"
    unfolding bitset_decode_def
    by (auto elim!: and_then_InrE simp: run_simps split: if_splits)
  have "small ws" using read_length_bound[OF n] read_n_length[OF ws] by (intro small_i32) simp
  then show ?thesis using from_words_wf(1) s by blast
qed

section \<open>Properties\<close>

text \<open>
  Whatever words are offered, \<open>from_words\<close> accepts them exactly when they are within the word
  and bit limits, and the set it builds answers every bit query as the words do, answers false
  from the bit limit on, and has no trailing zero word, so that equal sets are equal values.
\<close>

theorem bitset_from_words_correct:
  assumes "length ws * 64 \<le> usize_MAX"
  shows "(case from_words ws l of
      Inr s \<Rightarrow> length ws \<le> maximum_encoded_words l \<and>
        (\<forall>n. is_set s n = (n div 64 < length ws \<and> bit (ws ! (n div 64)) (n mod 64))) \<and>
        (\<forall>n. is_set s n \<longrightarrow> n < bl_max_bits l) \<and> (words s = [] \<or> last (words s) \<noteq> 0)
    | Inl e \<Rightarrow> maximum_encoded_words l < length ws \<or>
        (\<exists>n \<ge> bl_max_bits l. n div 64 < length ws \<and> bit (ws ! (n div 64)) (n mod 64)))"
proof (cases "from_words ws l")
  case (Inl e)
  then show ?thesis
    using from_words_accepts[of ws l] assms by (auto simp: small_def bit_at_def not_less not_le)
next
  case (Inr s)
  then show ?thesis
    using from_words_wf[of ws l s] from_words_accepts[of ws l] assms
    by (auto simp: small_def bit_at_def bitset_wf_def)
qed

lemma five_canonical: "from_words [5] \<lparr>bl_max_words = 4, bl_max_bits = 100\<rparr> = Inr \<lparr>words = [5]\<rparr>"
  using from_words_canonical[of "\<lparr>words = [5]\<rparr>" "\<lparr>bl_max_words = 4, bl_max_bits = 100\<rparr>"]
  by (auto simp: small_def usize_MAX_def bitset_wf_def maximum_encoded_words_def div_ceil_def
      is_set_iff bit_at_def div_eq_0_iff)

lemma bitset_from_words_correct_witness:
  "is_set \<lparr>words = [5]\<rparr> 2 = (2 div 64 < length [5 :: u64] \<and> bit ([5 :: u64] ! (2 div 64)) (2 mod 64))"
  using bitset_from_words_correct[of "[5]" "\<lparr>bl_max_words = 4, bl_max_bits = 100\<rparr>"]
  unfolding five_canonical by (simp add: usize_MAX_def)

text \<open>
  Any bit set the decoder returns, whatever the bytes were, is canonical and within both
  limits, and encoding it under the same limits and decoding the result returns it again.
\<close>

theorem bitset_decode_encode:
  assumes "bitset_decode try_reserve l r = (Inr s, r')" and "try_reserve (length (words s))"
  shows "bitset_wf l s \<and> fst (bitset_encode l s new_writer) = Inr () \<and>
    fst (bitset_decode try_reserve l (new_reader (out_bytes (snd (bitset_encode l s new_writer))))) = Inr s"
proof -
  have wf: "bitset_wf l s" by (rule bitset_decode_wf[OF assms(1)])
  obtain n r1 ws r2 where n: "read_length LengthKind_BitSet r = (Inr n, r1)"
    and ws: "read_n n read_u64 r1 = (Inr ws, r2)" and s: "from_words ws l = Inr s"
    using assms(1) unfolding bitset_decode_def
    by (auto elim!: and_then_InrE simp: run_simps split: if_splits)
  have "length (words s) \<le> length ws"
    using s length_pop_zeros[of ws] by (auto simp: from_words_def split: sum.splits)
  then have "length (words s) \<le> i32_MAX"
    using read_length_bound[OF n] read_n_length[OF ws] by simp
  then have "valid_bitset try_reserve l s" using wf assms(2) by (simp add: valid_bitset_def)
  from bitset_codec.put_get[OF this] wf show ?thesis by simp
qed

lemma bitset_decode_encode_witness:
  "bitset_wf \<lparr>bl_max_words = 4, bl_max_bits = 100\<rparr> \<lparr>words = [5]\<rparr>"
proof -
  let ?l = "\<lparr>bl_max_words = 4, bl_max_bits = 100\<rparr>"
  have "valid_bitset (\<lambda>_. True) ?l \<lparr>words = [5]\<rparr>"
    using from_words_wf(1)[OF _ five_canonical] by (simp add: valid_bitset_def small_def usize_MAX_def i32_MAX_def)
  from bitset_codec.put_get(2)[OF this] bitset_decode_encode show ?thesis by blast
qed

end
