(* ===== verification/Block_Position.thy ===== *)
theory Block_Position
  imports Codec_Strings
begin

text \<open>
  \<open>cubic-protocol\<close>: \<open>position.rs\<close> (block positions packed into 26, 26 and 12 bits) and
  \<open>uuid.rs\<close> (128 raw bits), with the reads and writes of \<open>reader.rs\<close> and \<open>writer.rs\<close> for them.
\<close>

section \<open>Packed block positions\<close>

record block_position =
  bp_x :: i32
  bp_y :: i32
  bp_z :: i32

definition MIN_XZ :: i32 where "MIN_XZ = - (push_bit 25 1)"
definition MAX_XZ :: i32 where "MAX_XZ = push_bit 25 1 - 1"
definition MIN_Y :: i32 where "MIN_Y = - (push_bit 11 1)"
definition MAX_Y :: i32 where "MAX_Y = push_bit 11 1 - 1"

definition validate_coordinate :: "string \<Rightarrow> i32 \<Rightarrow> i32 \<Rightarrow> i32 \<Rightarrow> codec_error + unit" where
  "validate_coordinate axis val lo hi =
     (if lo <=s val \<and> val <=s hi then Inr () else Inl (InvalidBlockPosition axis val lo hi))"

definition block_position_new :: "i32 \<Rightarrow> i32 \<Rightarrow> i32 \<Rightarrow> codec_error + block_position" where
  "block_position_new x y z =
     (case validate_coordinate ''x'' x MIN_XZ MAX_XZ of Inl e \<Rightarrow> Inl e | Inr _ \<Rightarrow>
     (case validate_coordinate ''y'' y MIN_Y MAX_Y of Inl e \<Rightarrow> Inl e | Inr _ \<Rightarrow>
     (case validate_coordinate ''z'' z MIN_XZ MAX_XZ of Inl e \<Rightarrow> Inl e | Inr _ \<Rightarrow>
      Inr \<lparr>bp_x = x, bp_y = y, bp_z = z\<rparr>)))"

definition to_packed :: "block_position \<Rightarrow> u64" where
  "to_packed p =
     (let x = scast (bp_x p) AND 0x03ffffff;
          z = scast (bp_z p) AND 0x03ffffff;
          y = scast (bp_y p) AND 0x0fff
      in push_bit 38 x OR push_bit 12 z OR y)"

definition sign_extend :: "u32 \<Rightarrow> nat \<Rightarrow> i32" where
  "sign_extend val bits = (let shift = 32 - bits in signed_drop_bit shift (push_bit shift val))"

definition from_packed :: "u64 \<Rightarrow> block_position" where
  "from_packed val =
     \<lparr>bp_x = sign_extend (ucast (drop_bit 38 val)) 26,
      bp_y = sign_extend (ucast (val AND 0x0fff)) 12,
      bp_z = sign_extend (ucast (drop_bit 12 val AND 0x03ffffff)) 26\<rparr>"

definition read_block_position :: "block_position reader_op" where
  "read_block_position = and_then read_u64 (\<lambda>val. ok (from_packed val))"

definition write_block_position :: "i32 \<Rightarrow> i32 \<Rightarrow> i32 \<Rightarrow> writer_op" where
  "write_block_position x y z =
     and_then (lift_result (block_position_new x y z)) (\<lambda>p. emit (write_u64 (to_packed p)))"

subsection \<open>Sign-extended fields\<close>

lemma mask_26_eq: "(0x03ffffff :: 'a::len word) = mask 26" "(0x0fff :: 'a::len word) = mask 12"
  by (simp_all add: mask_eq_exp_minus_1)

definition fits :: "nat \<Rightarrow> i32 \<Rightarrow> bool" where
  "fits n v \<longleftrightarrow> (\<forall>k. n \<le> k \<and> k < 32 \<longrightarrow> bit v k = bit v n)"

lemma bit_sint: "bit (sint (v :: i32)) k \<longleftrightarrow> bit v (min 31 k)"
  by (simp add: sint_uint bit_signed_take_bit_iff bit_unsigned_iff min_def)

lemma fits_iff:
  assumes "n < 32"
  shows "fits n v \<longleftrightarrow> - (2 ^ n) \<le> sint v \<and> sint v < 2 ^ n"
proof -
  have "- (2 ^ n) \<le> sint v \<and> sint v < 2 ^ n \<longleftrightarrow> signed_take_bit n (sint v) = sint v"
    by (simp add: signed_take_bit_int_eq_self_iff)
  also have "\<dots> \<longleftrightarrow> (\<forall>k. bit v (min 31 (min n k)) = bit v (min 31 k))"
    by (simp only: bit_eq_iff bit_signed_take_bit_iff bit_sint possible_bit_int simp_thms)
  also have "\<dots> \<longleftrightarrow> fits n v"
  proof
    assume *: "\<forall>k. bit v (min 31 (min n k)) = bit v (min 31 k)"
    show "fits n v" unfolding fits_def
    proof (intro allI impI)
      fix k assume "n \<le> k \<and> k < 32"
      then have "min 31 k = k" "min 31 (min n k) = n" by auto
      then show "bit v k = bit v n" using *[rule_format, of k] by simp
    qed
  next
    assume *: "fits n v"
    show "\<forall>k. bit v (min 31 (min n k)) = bit v (min 31 k)"
    proof
      fix k
      show "bit v (min 31 (min n k)) = bit v (min 31 k)"
      proof (cases "n \<le> k")
        case True
        then show ?thesis
          using *[unfolded fits_def, rule_format, of k] *[unfolded fits_def, rule_format, of 31] assms
          by (cases "k < 32") (simp_all add: min_absorb2 min_absorb1)
      next
        case False
        then show ?thesis by (simp add: min_def)
      qed
    qed
  qed
  finally show ?thesis by simp
qed

lemma bit_sign_extend:
  assumes "0 < bits" "bits \<le> 32" "k < 32"
  shows "bit (sign_extend v bits) k \<longleftrightarrow> bit v (min k (bits - 1))"
proof -
  have "bit (sign_extend v bits) k \<longleftrightarrow>
      bit (push_bit (32 - bits) v) (if LENGTH(32) - (32 - bits) \<le> k \<and> k < LENGTH(32)
        then LENGTH(32) - 1 else 32 - bits + k)"
    unfolding sign_extend_def Let_def by (rule bit_signed_drop_bit_iff)
  also have "\<dots> \<longleftrightarrow> bit v (min k (bits - 1))"
  proof (cases "bits \<le> k")
    case True
    then have "min k (bits - 1) = bits - 1" "31 - (32 - bits) = bits - 1" "32 - bits \<le> 31"
      using assms by auto
    then show ?thesis using assms True by (simp add: bit_push_bit_iff)
  next
    case False
    then have "min k (bits - 1) = k" "32 - bits + k < 32" using assms by auto
    moreover have "32 - bits \<le> 32 + k - bits" by simp
    ultimately show ?thesis using assms False by (simp add: bit_push_bit_iff)
  qed
  finally show ?thesis .
qed

lemma fits_sign_extend: "0 < bits \<Longrightarrow> bits \<le> 32 \<Longrightarrow> fits (bits - 1) (sign_extend v bits)"
  by (auto simp: fits_def bit_sign_extend min_def)

lemma bit_scast_i32: "k < 64 \<Longrightarrow> bit (scast (v :: i32) :: u64) k \<longleftrightarrow> bit v (min 31 k)"
  by (auto simp: bit_signed_iff min_def)

lemma sign_extend_field:
  assumes "0 < bits" "bits \<le> 32" "fits (bits - 1) v" "\<And>k. k < bits \<Longrightarrow> bit f k = bit v k"
  shows "sign_extend f bits = v"
proof (rule bit_word_eqI)
  fix k assume "k < LENGTH(32)"
  then have k: "k < 32" by simp
  show "bit (sign_extend f bits) k = bit v k"
  proof (cases "k < bits")
    case True
    then have "min k (bits - 1) = k" by simp
    then show ?thesis using assms(4)[OF True] bit_sign_extend[OF assms(1,2) k, of f] by simp
  next
    case False
    then have "min k (bits - 1) = bits - 1" "bits - 1 < bits" "bits - 1 \<le> k" using assms(1) by simp_all
    then show ?thesis
      using assms(3) k assms(4)[of "bits - 1"] bit_sign_extend[OF assms(1,2) k, of f]
      unfolding fits_def by metis
  qed
qed

lemma bit_to_packed:
  assumes "k < 64"
  shows "bit (to_packed p) k \<longleftrightarrow>
    (if k < 12 then bit (bp_y p) k
     else if k < 38 then bit (bp_z p) (k - 12)
     else bit (bp_x p) (k - 38))"
  using assms
  by (auto simp: to_packed_def Let_def mask_26_eq bit_or_iff bit_and_iff bit_push_bit_iff
      bit_mask_iff bit_scast_i32 min_def)

lemma range_fits:
  "MIN_XZ <=s v \<and> v <=s MAX_XZ \<longleftrightarrow> fits 25 v" "MIN_Y <=s v \<and> v <=s MAX_Y \<longleftrightarrow> fits 11 v"
  by (simp_all add: word_sle_eq fits_iff MIN_XZ_def MAX_XZ_def MIN_Y_def MAX_Y_def) linarith+

definition valid_position :: "block_position \<Rightarrow> bool" where
  "valid_position p \<longleftrightarrow> fits 25 (bp_x p) \<and> fits 11 (bp_y p) \<and> fits 25 (bp_z p)"

lemma block_position_new_eq:
  "block_position_new x y z = Inr p \<longleftrightarrow> p = \<lparr>bp_x = x, bp_y = y, bp_z = z\<rparr> \<and> valid_position p"
  by (auto simp: block_position_new_def validate_coordinate_def range_fits valid_position_def
      split: if_splits)

lemma valid_from_packed [simp]: "valid_position (from_packed w)"
  using fits_sign_extend[of 26] fits_sign_extend[of 12]
  by (simp add: valid_position_def from_packed_def)

lemma from_to_packed [simp]:
  assumes "valid_position p"
  shows "from_packed (to_packed p) = p"
proof -
  have "sign_extend (ucast (drop_bit 38 (to_packed p))) 26 = bp_x p"
    using assms by (intro sign_extend_field) (auto simp: valid_position_def bit_simps bit_to_packed)
  moreover have "sign_extend (ucast (to_packed p AND 0x0fff)) 12 = bp_y p"
    unfolding mask_26_eq
    using assms by (intro sign_extend_field) (auto simp: valid_position_def bit_simps bit_to_packed)
  moreover have "sign_extend (ucast (drop_bit 12 (to_packed p) AND 0x03ffffff)) 26 = bp_z p"
    unfolding mask_26_eq
    using assms by (intro sign_extend_field) (auto simp: valid_position_def bit_simps bit_to_packed)
  ultimately show ?thesis by (simp add: from_packed_def)
qed

lemma to_from_packed [simp]: "to_packed (from_packed w) = w"
proof (rule bit_word_eqI)
  fix k assume "k < LENGTH(64)"
  then have k: "k < 64" by simp
  show "bit (to_packed (from_packed w)) k = bit w k"
    unfolding bit_to_packed[OF k] from_packed_def mask_26_eq using k
    by (auto simp: bit_sign_extend bit_simps min_def)
qed

lemma read_write_block_position:
  assumes "block_position_new x y z = Inr p"
  shows "appends (write_block_position x y z) (to_be_bytes (to_packed p))"
    and "decodes read_block_position (to_be_bytes (to_packed p)) p"
proof -
  have "and_then (lift_result (Inr p)) k = k p" for k :: "block_position \<Rightarrow> writer_op"
    by (simp add: fun_eq_iff and_then_lift_result)
  then show "appends (write_block_position x y z) (to_be_bytes (to_packed p))"
    using assms by (auto simp: write_block_position_def intro: appends_intros)
  show "decodes read_block_position (to_be_bytes (to_packed p)) p"
    unfolding read_block_position_def
  proof (rule decodes_and_then_ok[OF decodes_fixed_width(8)])
    have "valid_position p" using assms block_position_new_eq by blast
    then show "p = from_packed (to_packed p)" by simp
  qed
qed

interpretation block_position_codec:
  wire_codec "\<lambda>p. write_block_position (bp_x p) (bp_y p) (bp_z p)" read_block_position
    "\<lambda>p. to_be_bytes (to_packed p)" valid_position
proof unfold_locales
  fix p assume "valid_position p"
  then have new: "block_position_new (bp_x p) (bp_y p) (bp_z p) = Inr p"
    by (simp add: block_position_new_eq)
  show "appends (write_block_position (bp_x p) (bp_y p) (bp_z p)) (to_be_bytes (to_packed p))"
    and "decodes read_block_position (to_be_bytes (to_packed p)) p"
    using read_write_block_position[OF new] .
qed (auto simp: usize_MAX_def read_block_position_def intro: advances_intros)

section \<open>UUIDs\<close>

type_synonym u128 = "128 word"

text \<open>\<open>ProtocolUuid\<close> is its 16 bytes, ordered as bytes.\<close>

datatype protocol_uuid = ProtocolUuid (to_bytes: "u8 list")

definition uuid_from_u128 :: "u128 \<Rightarrow> protocol_uuid" where
  "uuid_from_u128 val = ProtocolUuid (to_be_bytes val)"

definition as_u128 :: "protocol_uuid \<Rightarrow> u128" where
  "as_u128 u = from_be_bytes (to_bytes u)"

definition uuid_wf :: "protocol_uuid \<Rightarrow> bool" where
  "uuid_wf u \<longleftrightarrow> length (to_bytes u) = 16"

definition read_uuid :: "protocol_uuid reader_op" where
  "read_uuid = and_then (read_array 16 ''UUID'') (\<lambda>bytes. ok (ProtocolUuid bytes))"

definition write_uuid :: "protocol_uuid \<Rightarrow> codec_writer \<Rightarrow> codec_writer" where
  "write_uuid u = write_bytes (to_bytes u)"

lemma uuid_u128_inverse:
  "as_u128 (uuid_from_u128 v) = v" "uuid_wf u \<Longrightarrow> uuid_from_u128 (as_u128 u) = u"
  by (simp_all add: as_u128_def uuid_from_u128_def uuid_wf_def)

lemma uuid_wf_from_u128 [simp]: "uuid_wf (uuid_from_u128 v)"
  by (simp add: uuid_wf_def uuid_from_u128_def)

interpretation uuid_codec: wire_codec "\<lambda>u. emit (write_uuid u)" read_uuid to_bytes uuid_wf
  by unfold_locales
    (auto simp: write_uuid_def read_uuid_def uuid_wf_def usize_MAX_def
      intro!: appends_intros advances_intros decodes_and_then_ok decodes_intros)

section \<open>Properties\<close>

text \<open>
  C14: packing is a bijection between the positions the constructor accepts and all 64-bit words:
  exactly the coordinates in range are accepted, each packs to a word that unpacks to it, and
  every word a server sends unpacks to an accepted position that packs to that word.
\<close>

theorem block_position_bijection:
  "(case block_position_new x y z of
      Inr p \<Rightarrow> p = \<lparr>bp_x = x, bp_y = y, bp_z = z\<rparr> \<and> from_packed (to_packed p) = p \<and>
        sint x \<in> {- (2 ^ 25) ..< 2 ^ 25} \<and> sint y \<in> {- (2 ^ 11) ..< 2 ^ 11} \<and> sint z \<in> {- (2 ^ 25) ..< 2 ^ 25}
    | Inl e \<Rightarrow> \<not> (sint x \<in> {- (2 ^ 25) ..< 2 ^ 25} \<and> sint y \<in> {- (2 ^ 11) ..< 2 ^ 11} \<and>
        sint z \<in> {- (2 ^ 25) ..< 2 ^ 25})) \<and>
   (let p = from_packed w in
      block_position_new (bp_x p) (bp_y p) (bp_z p) = Inr p \<and> to_packed p = w)"
proof -
  let ?p = "\<lparr>bp_x = x, bp_y = y, bp_z = z\<rparr>"
  have range: "valid_position ?p \<longleftrightarrow> sint x \<in> {- (2 ^ 25) ..< 2 ^ 25} \<and> sint y \<in> {- (2 ^ 11) ..< 2 ^ 11} \<and>
      sint z \<in> {- (2 ^ 25) ..< 2 ^ 25}"
    unfolding valid_position_def by (simp only: fits_iff block_position.simps) auto
  have "block_position_new (bp_x q) (bp_y q) (bp_z q) = Inr q" if "valid_position q" for q :: block_position
    using that by (simp add: block_position_new_eq)
  then have w: "let p = from_packed w in block_position_new (bp_x p) (bp_y p) (bp_z p) = Inr p \<and> to_packed p = w"
    by (simp add: Let_def)
  show ?thesis
  proof (cases "block_position_new x y z")
    case (Inl e)
    then have "\<not> valid_position ?p" using block_position_new_eq[of x y z ?p] by auto
    then show ?thesis using Inl w range by simp
  next
    case (Inr p)
    then have p: "p = ?p" "valid_position p" using block_position_new_eq[of x y z p] by auto
    then have "from_packed (to_packed p) = p" by simp
    then show ?thesis using Inr w range p by auto
  qed
qed

end
