(* ===== verification/Transport.thy ===== *)
theory Transport
  imports Framing
begin

text \<open>
  \<open>cubic-network\<close>: the packet transforms (\<open>transforms.rs\<close>: compression threshold, zlib, AES-CFB8) and
  the connection's frame loop (\<open>connection.rs\<close>), over the frame decoder of \<open>Framing\<close>.

  The zlib and CFB8 implementations are crates: they are the fields of a record of parameters,
  and \<open>crates_behave\<close> states what their documentation promises. The socket is the list of the
  results its reads will have; an operation that would wait beyond them has no result (\<open>None\<close>).
\<close>

section \<open>Transforms\<close>

text \<open>
  \<open>inflate_take n\<close> is \<open>ZlibDecoder::new(..).take(n).read_to_end(..)\<close>; \<open>deflate\<close> is \<open>ZlibEncoder\<close> with
  \<open>write_all\<close> and \<open>finish\<close>. The ciphers return the bytes and their next state.
\<close>

record ('io, 'enc, 'dec) crates =
  deflate :: "u8 list \<Rightarrow> 'io + u8 list"
  inflate_take :: "nat \<Rightarrow> u8 list \<Rightarrow> 'io + u8 list"
  new_encryptor :: "u8 list \<Rightarrow> u8 list \<Rightarrow> 'enc option"
  new_decryptor :: "u8 list \<Rightarrow> u8 list \<Rightarrow> 'dec option"
  cfb8_encrypt :: "'enc \<Rightarrow> u8 list \<Rightarrow> u8 list \<times> 'enc"
  cfb8_decrypt :: "'dec \<Rightarrow> u8 list \<Rightarrow> u8 list \<times> 'dec"

datatype 'io transform_error =
    InvalidSecret
  | InvalidOutboundFrame
  | InvalidCompressionThreshold i32
  | NegativeDecompressedLength i32
  | DecompressedTooLarge nat nat
  | DecompressedLengthMismatch nat nat
  | CompressedBelowThreshold nat nat
  | Compression 'io
  | TransformFraming codec_error

record ('enc, 'dec) wire_transforms =
  encryptor :: "'enc option"
  decryptor :: "'dec option"
  compression_threshold :: "nat option"
  transform_limits :: frame_limits

definition wire_transforms_new :: "frame_limits \<Rightarrow> ('enc, 'dec) wire_transforms" where
  "wire_transforms_new l =
     \<lparr>encryptor = None, decryptor = None, compression_threshold = None, transform_limits = l\<rparr>"

definition enable_encryption ::
  "('io, 'enc, 'dec) crates \<Rightarrow> u8 list \<Rightarrow> (('enc, 'dec) wire_transforms, 'io transform_error, unit) fallible" where
  "enable_encryption env secret t =
     (case new_encryptor env secret secret of
        None \<Rightarrow> (Inl InvalidSecret, t)
      | Some e \<Rightarrow>
          let t = t\<lparr>encryptor := Some e\<rparr> in
          case new_decryptor env secret secret of
            None \<Rightarrow> (Inl InvalidSecret, t)
          | Some d \<Rightarrow> (Inr (), t\<lparr>decryptor := Some d\<rparr>))"

definition enable_compression ::
  "i32 \<Rightarrow> (('enc, 'dec) wire_transforms, 'io transform_error, unit) fallible" where
  "enable_compression threshold t =
     (if threshold <s 0 then (Inl (InvalidCompressionThreshold threshold), t)
      else (Inr (), t\<lparr>compression_threshold := Some (unat threshold)\<rparr>))"

definition decrypt_in_place ::
  "('io, 'enc, 'dec) crates \<Rightarrow> u8 list \<Rightarrow> ('enc, 'dec) wire_transforms \<Rightarrow> u8 list \<times> ('enc, 'dec) wire_transforms" where
  "decrypt_in_place env bytes t =
     (case decryptor t of
        None \<Rightarrow> (bytes, t)
      | Some d \<Rightarrow> (case cfb8_decrypt env d bytes of (plain, d') \<Rightarrow> (plain, t\<lparr>decryptor := Some d'\<rparr>)))"

definition extract_single_frame ::
  "allocator \<Rightarrow> u8 list \<Rightarrow> frame_limits \<Rightarrow> 'io transform_error + u8 list" where
  "extract_single_frame try_reserve bytes l =
     (case push try_reserve bytes (frame_decoder_new l) of
        (Inl e, _) \<Rightarrow> Inl (TransformFraming e)
      | (Inr _, d) \<Rightarrow>
          (case next_frame try_reserve d of
             (Inl e, _) \<Rightarrow> Inl (TransformFraming e)
           | (Inr None, _) \<Rightarrow> Inl InvalidOutboundFrame
           | (Inr (Some frame), d') \<Rightarrow>
               if buffered_len d' \<noteq> 0 then Inl InvalidOutboundFrame else Inr frame))"

definition compressed_payload ::
  "('io, 'enc, 'dec) crates \<Rightarrow> u8 list \<Rightarrow> nat \<Rightarrow> nat \<Rightarrow> 'io transform_error + u8 list" where
  "compressed_payload env body threshold max_size =
     (if threshold \<le> length body then
        (if i32_MAX < length body then Inl (DecompressedTooLarge (length body) max_size)
         else case deflate env body of
           Inl e \<Rightarrow> Inl (Compression e)
         | Inr compressed \<Rightarrow>
             Inr (out_bytes (write_bytes compressed (write_var_int (of_nat (length body)) new_writer))))
      else Inr (out_bytes (write_bytes body (write_var_int 0 new_writer))))"

definition encode_compressed ::
  "('io, 'enc, 'dec) crates \<Rightarrow> u8 list \<Rightarrow> nat \<Rightarrow> nat \<Rightarrow> 'io transform_error + u8 list" where
  "encode_compressed env body threshold max_size =
     (case compressed_payload env body threshold max_size of
        Inl e \<Rightarrow> Inl e
      | Inr bytes \<Rightarrow> (case encode_frame bytes max_size of Inl e \<Rightarrow> Inl (TransformFraming e) | Inr f \<Rightarrow> Inr f))"

definition decode_compressed ::
  "('io, 'enc, 'dec) crates \<Rightarrow> u8 list \<Rightarrow> nat \<Rightarrow> nat \<Rightarrow> 'io transform_error + u8 list" where
  "decode_compressed env bytes threshold max_size =
     (case read_var_int (new_reader bytes) of
        (Inl e, _) \<Rightarrow> Inl (TransformFraming e)
      | (Inr declared_word, r) \<Rightarrow>
          if declared_word <s 0 then Inl (NegativeDecompressedLength declared_word)
          else let compressed = fst (read_remaining r) in
            if declared_word = 0 then
              (if threshold \<le> length compressed
               then Inl (DecompressedLengthMismatch 0 (length compressed))
               else Inr compressed)
            else let declared = unat declared_word in
              if max_size < declared then Inl (DecompressedTooLarge declared max_size)
              else if declared < threshold then Inl (CompressedBelowThreshold declared threshold)
              else case inflate_take env (saturating_add max_size 1) compressed of
                Inl e \<Rightarrow> Inl (Compression e)
              | Inr out \<Rightarrow>
                  if length out \<noteq> declared then Inl (DecompressedLengthMismatch declared (length out))
                  else Inr out)"

definition encode_outbound ::
  "('io, 'enc, 'dec) crates \<Rightarrow> allocator \<Rightarrow> u8 list \<Rightarrow>
     (('enc, 'dec) wire_transforms, 'io transform_error, u8 list) fallible" where
  "encode_outbound env try_reserve framed t =
     (case extract_single_frame try_reserve framed (transform_limits t) of
        Inl e \<Rightarrow> (Inl e, t)
      | Inr body \<Rightarrow>
          (case (case compression_threshold t of
                   Some threshold \<Rightarrow> encode_compressed env body threshold (max_frame_size (transform_limits t))
                 | None \<Rightarrow> Inr framed) of
             Inl e \<Rightarrow> (Inl e, t)
           | Inr out \<Rightarrow>
               (case encryptor t of
                  None \<Rightarrow> (Inr out, t)
                | Some e \<Rightarrow> (case cfb8_encrypt env e out of (cipher, e') \<Rightarrow> (Inr cipher, t\<lparr>encryptor := Some e'\<rparr>)))))"

definition decode_frame_body ::
  "('io, 'enc, 'dec) crates \<Rightarrow> ('enc, 'dec) wire_transforms \<Rightarrow> u8 list \<Rightarrow> 'io transform_error + u8 list" where
  "decode_frame_body env t body =
     (case compression_threshold t of
        None \<Rightarrow> Inr body
      | Some threshold \<Rightarrow> decode_compressed env body threshold (max_frame_size (transform_limits t)))"

section \<open>The connection\<close>

definition READ_BUFFER_SIZE :: nat where
  "READ_BUFFER_SIZE = 8 * 1024"

datatype 'io connection_error =
    Io string 'io
  | PrematureDisconnect string nat
  | ConnectionFraming codec_error
  | Transform "'io transform_error"

record ('enc, 'dec) minecraft_connection =
  decoder :: frame_decoder
  transforms :: "('enc, 'dec) wire_transforms"

definition connection_new :: "frame_limits \<Rightarrow> ('enc, 'dec) minecraft_connection" where
  "connection_new l = \<lparr>decoder = frame_decoder_new l, transforms = wire_transforms_new l\<rparr>"

definition connection_enable_encryption ::
  "('io, 'enc, 'dec) crates \<Rightarrow> u8 list \<Rightarrow> (('enc, 'dec) minecraft_connection, 'io connection_error, unit) fallible" where
  "connection_enable_encryption env secret c =
     (case enable_encryption env secret (transforms c) of
        (Inl e, t) \<Rightarrow> (Inl (Transform e), c\<lparr>transforms := t\<rparr>)
      | (Inr _, t) \<Rightarrow> (Inr (), c\<lparr>transforms := t\<rparr>))"

definition connection_enable_compression ::
  "i32 \<Rightarrow> (('enc, 'dec) minecraft_connection, 'io connection_error, unit) fallible" where
  "connection_enable_compression threshold c =
     (case enable_compression threshold (transforms c) of
        (Inl e, t) \<Rightarrow> (Inl (Transform e), c\<lparr>transforms := t\<rparr>)
      | (Inr _, t) \<Rightarrow> (Inr (), c\<lparr>transforms := t\<rparr>))"

text \<open>
  The bytes a write puts on the socket (a failed or timed-out socket write is the environment's),
  and the loop that reads until a frame is complete. The result is paired with the reads that
  were not used.
\<close>

definition write_all ::
  "('io, 'enc, 'dec) crates \<Rightarrow> allocator \<Rightarrow> u8 list \<Rightarrow>
     (('enc, 'dec) minecraft_connection, 'io connection_error, u8 list) fallible" where
  "write_all env try_reserve bytes c =
     (case encode_outbound env try_reserve bytes (transforms c) of
        (Inl e, t) \<Rightarrow> (Inl (Transform e), c\<lparr>transforms := t\<rparr>)
      | (Inr out, t) \<Rightarrow> (Inr out, c\<lparr>transforms := t\<rparr>))"

fun read_next_frame ::
  "('io, 'enc, 'dec) crates \<Rightarrow> allocator \<Rightarrow> string \<Rightarrow> ('io + u8 list) list \<Rightarrow> ('enc, 'dec) minecraft_connection \<Rightarrow>
     (('io connection_error + u8 list) \<times> ('io + u8 list) list \<times> ('enc, 'dec) minecraft_connection) option" where
  "read_next_frame env try_reserve phase reads c =
     (case next_frame try_reserve (decoder c) of
        (Inl e, d) \<Rightarrow> Some (Inl (ConnectionFraming e), reads, c\<lparr>decoder := d\<rparr>)
      | (Inr (Some frame), d) \<Rightarrow>
          Some (case decode_frame_body env (transforms c) frame of
                  Inl e \<Rightarrow> Inl (Transform e) | Inr body \<Rightarrow> Inr body, reads, c\<lparr>decoder := d\<rparr>)
      | (Inr None, d) \<Rightarrow>
          (let c = c\<lparr>decoder := d\<rparr> in
           case reads of
             [] \<Rightarrow> None
           | Inl e # reads' \<Rightarrow> Some (Inl (Io phase e), reads', c)
           | Inr bytes # reads' \<Rightarrow>
               if bytes = [] then Some (Inl (PrematureDisconnect phase (buffered_len d)), reads', c)
               else if READ_BUFFER_SIZE < length bytes
               then Some (Inl (PrematureDisconnect phase (buffered_len d)), reads', c)
               else case decrypt_in_place env bytes (transforms c) of
                 (plain, t) \<Rightarrow>
                   (case push try_reserve plain d of
                      (Inl e, d') \<Rightarrow> Some (Inl (ConnectionFraming e), reads', c\<lparr>decoder := d', transforms := t\<rparr>)
                    | (Inr _, d') \<Rightarrow>
                        read_next_frame env try_reserve phase reads' (c\<lparr>decoder := d', transforms := t\<rparr>))))"

declare read_next_frame.simps [simp del]

text \<open>Reading frame after frame, as the protocol loops do, until one fails or the reads run out.\<close>

fun read_frames ::
  "('io, 'enc, 'dec) crates \<Rightarrow> allocator \<Rightarrow> string \<Rightarrow> nat \<Rightarrow> ('io + u8 list) list \<Rightarrow>
     ('enc, 'dec) minecraft_connection \<Rightarrow> u8 list list" where
  "read_frames env try_reserve phase 0 reads c = []"
| "read_frames env try_reserve phase (Suc n) reads c =
     (case read_next_frame env try_reserve phase reads c of
        Some (Inr body, reads', c') \<Rightarrow> body # read_frames env try_reserve phase n reads' c'
      | _ \<Rightarrow> [])"

text \<open>Framing and writing packet after packet; \<open>None\<close> when one is refused.\<close>

fun write_frames ::
  "('io, 'enc, 'dec) crates \<Rightarrow> allocator \<Rightarrow> u8 list list \<Rightarrow> ('enc, 'dec) minecraft_connection \<Rightarrow>
     (u8 list \<times> ('enc, 'dec) minecraft_connection) option" where
  "write_frames env try_reserve [] c = Some ([], c)"
| "write_frames env try_reserve (body # bodies) c =
     (case encode_frame body (max_frame_size (transform_limits (transforms c))) of
        Inl e \<Rightarrow> None
      | Inr framed \<Rightarrow>
          (case write_all env try_reserve framed c of
             (Inl e, c') \<Rightarrow> None
           | (Inr out, c') \<Rightarrow>
               (case write_frames env try_reserve bodies c' of
                  None \<Rightarrow> None
                | Some (outs, c'') \<Rightarrow> Some (out @ outs, c''))))"

section \<open>What the crates promise\<close>

text \<open>
  Inflating what was deflated returns it when the limit allows; CFB8 keeps lengths, works on a
  stream (splitting the ciphertext changes nothing), and a decryptor made from the same secret
  undoes an encryptor as long as both have seen the same bytes. \<open>linked\<close> relates two such states.
\<close>

definition crates_behave :: "('io, 'enc, 'dec) crates \<Rightarrow> ('enc \<Rightarrow> 'dec \<Rightarrow> bool) \<Rightarrow> bool" where
  "crates_behave env linked \<longleftrightarrow>
     (\<forall>b c n. deflate env b = Inr c \<longrightarrow> length b \<le> n \<longrightarrow> inflate_take env n c = Inr b) \<and>
     (\<forall>secret e d. new_encryptor env secret secret = Some e \<longrightarrow> new_decryptor env secret secret = Some d \<longrightarrow>
        linked e d) \<and>
     (\<forall>e d b. linked e d \<longrightarrow>
        (case cfb8_encrypt env e b of (cipher, e') \<Rightarrow>
         case cfb8_decrypt env d cipher of (plain, d') \<Rightarrow> plain = b \<and> linked e' d')) \<and>
     (\<forall>d. cfb8_decrypt env d [] = ([], d)) \<and>
     (\<forall>d xs. length (fst (cfb8_decrypt env d xs)) = length xs) \<and>
     (\<forall>d xs ys. cfb8_decrypt env d (xs @ ys) =
        (case cfb8_decrypt env d xs of (p, d') \<Rightarrow>
         case cfb8_decrypt env d' ys of (q, d'') \<Rightarrow> (p @ q, d'')))"

lemma inflate_deflate:
  "crates_behave env linked \<Longrightarrow> deflate env b = Inr c \<Longrightarrow> length b \<le> n \<Longrightarrow> inflate_take env n c = Inr b"
  by (simp add: crates_behave_def)

lemma decrypt_encrypt:
  assumes "crates_behave env linked" and "linked e d"
    and "cfb8_encrypt env e b = (cipher, e')" and "cfb8_decrypt env d cipher = (p, d')"
  shows "p = b \<and> linked e' d'"
proof -
  have "case cfb8_encrypt env e b of (cipher, e') \<Rightarrow>
      case cfb8_decrypt env d cipher of (plain, d') \<Rightarrow> plain = b \<and> linked e' d'"
    using assms(1)[unfolded crates_behave_def, THEN conjunct2, THEN conjunct2, THEN conjunct1,
      rule_format, OF assms(2), of b] .
  then show ?thesis using assms(3,4) by simp
qed

definition decrypt_stream :: "('io, 'enc, 'dec) crates \<Rightarrow> 'dec option \<Rightarrow> u8 list \<Rightarrow> u8 list \<times> 'dec option" where
  "decrypt_stream env d xs =
     (case d of None \<Rightarrow> (xs, None) | Some s \<Rightarrow> (case cfb8_decrypt env s xs of (p, s') \<Rightarrow> (p, Some s')))"

lemma decrypt_in_place_eq:
  "decrypt_in_place env bytes t =
     (case decrypt_stream env (decryptor t) bytes of (p, d) \<Rightarrow> (p, t\<lparr>decryptor := d\<rparr>))"
  by (cases "decryptor t") (auto simp: decrypt_in_place_def decrypt_stream_def split: prod.split)

lemma decrypt_stream_Nil: "crates_behave env linked \<Longrightarrow> decrypt_stream env d [] = ([], d)"
  by (cases d) (simp_all add: decrypt_stream_def crates_behave_def)

lemma cfb8_decrypt_length: "crates_behave env linked \<Longrightarrow> length (fst (cfb8_decrypt env d xs)) = length xs"
  unfolding crates_behave_def by blast

lemma decrypt_stream_length: "crates_behave env linked \<Longrightarrow> length (fst (decrypt_stream env d xs)) = length xs"
  using cfb8_decrypt_length[of env linked] by (cases d) (auto simp: decrypt_stream_def case_prod_beta)

lemma decrypt_stream_append:
  assumes "crates_behave env linked" and "decrypt_stream env d xs = (p, d')"
  shows "decrypt_stream env d (xs @ ys) =
    (case decrypt_stream env d' ys of (q, d'') \<Rightarrow> (p @ q, d''))"
  using assms by (cases d) (auto simp: decrypt_stream_def crates_behave_def split: prod.splits)

definition same_key :: "('enc \<Rightarrow> 'dec \<Rightarrow> bool) \<Rightarrow> 'enc option \<Rightarrow> 'dec option \<Rightarrow> bool" where
  "same_key linked e d \<longleftrightarrow>
     (case (e, d) of (None, None) \<Rightarrow> True | (Some e, Some d) \<Rightarrow> linked e d | _ \<Rightarrow> False)"

section \<open>Sending\<close>

lemma extract_single_frame_enc:
  assumes "extract_single_frame try_reserve (enc_frame body) l = Inr b" and "frame_limits_wf l"
    and "length body \<le> max_frame_size l"
  shows "b = body"
proof -
  from assms(1) obtain d d' where push: "push try_reserve (enc_frame body) (frame_decoder_new l) = (Inr (), d)"
    and next_eq: "next_frame try_reserve d = (Inr (Some b), d')"
    by (auto simp: extract_single_frame_def split: prod.splits sum.splits option.splits if_splits)
  have max: "length body \<le> MINECRAFT_MAX_FRAME_SIZE" using assms(2,3) by (simp add: frame_limits_wf_def)
  have "pending d = enc_frame body" "limits d = l"
    using push by (auto simp: push_def compact_if_useful_def frame_decoder_new_def Let_def pending_def
        split: option.splits if_splits)
  moreover have "frame_decoder_wf d" using push_error(1)[OF frame_decoder_new_wf[OF assms(2)] push] .
  ultimately obtain d'' where "next_frame (\<lambda>_. True) d = (Inr (Some body), d'')"
    using next_frame_complete[of d body "[]" "\<lambda>_. True"] assms(3) by auto
  moreover have "next_frame (\<lambda>_. True) d = (Inr (Some b), d')"
    using next_eq by (auto simp: next_frame_def Let_def split: partial_var_int.splits option.splits if_splits)
  ultimately show ?thesis by simp
qed

lemma extract_single_frame_ok:
  assumes "frame_limits_wf l" and "length body \<le> max_frame_size l"
  shows "extract_single_frame (\<lambda>_. True) (enc_frame body) l = Inr body"
proof -
  have new: "frame_decoder_wf (frame_decoder_new l)" by (rule frame_decoder_new_wf[OF assms(1)])
  have "length (enc_length (length body)) \<le> 3"
    using assms by (intro enc_length_3) (simp add: frame_limits_wf_def)
  then have "pending_len (frame_decoder_new l) + length (enc_frame body) \<le> max_buffered_bytes (limits (frame_decoder_new l))"
    using assms by (simp add: enc_frame_def frame_limits_wf_def MAX_FRAME_LENGTH_PREFIX_BYTES_def
        pending_len_def frame_decoder_new_def)
  then obtain d where d: "push (\<lambda>_. True) (enc_frame body) (frame_decoder_new l) = (Inr (), d)" "frame_decoder_wf d"
    "pending d = enc_frame body" "limits d = l"
    by (rule push_ok[OF new, where try_reserve = "\<lambda>_. True"]) simp_all
  then obtain d' where "next_frame (\<lambda>_. True) d = (Inr (Some body), d')" "pending d' = []"
    using next_frame_complete[of d body "[]" "\<lambda>_. True"] assms(2) by auto
  then show ?thesis
    using d(1) length_pending[of d'] by (simp add: extract_single_frame_def buffered_len_def)
qed

lemma payload_round_trip:
  assumes behave: "crates_behave env linked"
    and payload: "compressed_payload env body threshold m = Inr bytes"
    and "length body \<le> max_size" and "max_size \<le> MINECRAFT_MAX_FRAME_SIZE" and "length bytes \<le> max_size"
    and "body \<noteq> [] \<or> 0 < threshold"
  shows "decode_compressed env bytes threshold max_size = Inr body"
proof -
  have small: "length bytes \<le> usize_MAX"
    using assms(4,5) by (simp add: MINECRAFT_MAX_FRAME_SIZE_def usize_MAX_def)
  have i32: "length body \<le> i32_MAX"
    using assms(3,4) by (simp add: MINECRAFT_MAX_FRAME_SIZE_def i32_MAX_def)
  have run: "read_var_int (new_reader (enc_var v @ data)) = (Inr v, reader_at (enc_var v) data)"
    if "length (enc_var v @ data) \<le> usize_MAX" for v data
    using decodesD[OF decodes_read_var_int, of "[]" v data] that by (simp add: new_reader_eq)
  have out: "out_bytes (write_bytes data (write_var_int v new_writer)) = enc_var v @ data" for data v
    by (simp add: write_bytes_def write_var_int_def write_var_loop_eq new_writer_def)
  show ?thesis
  proof (cases "threshold \<le> length body")
    case False
    then have "bytes = enc_var (0 :: i32) @ body" using payload by (simp add: compressed_payload_def out)
    then show ?thesis
      using False small by (simp add: decode_compressed_def run read_remaining_reader_at Let_def)
  next
    case True
    then obtain c where c: "deflate env body = Inr c" "bytes = enc_var (of_nat (length body) :: i32) @ c"
      using payload i32 by (auto simp: compressed_payload_def out split: if_splits sum.splits)
    have n: "unat (of_nat (length body) :: i32) = length body" by (rule unat_of_nat_i32[OF i32])
    have "length body \<noteq> 0" using True assms(6) by auto
    then have "(of_nat (length body) :: i32) \<noteq> 0" using n by (metis unsigned_0)
    moreover have "inflate_take env (saturating_add max_size 1) c = Inr body"
      using assms(3,4) by (intro inflate_deflate[OF behave c(1)])
        (simp add: saturating_add_def MINECRAFT_MAX_FRAME_SIZE_def usize_MAX_def)
    ultimately show ?thesis
      using True small assms(3) c(2) of_nat_nonneg_i32[OF i32]
      by (simp add: decode_compressed_def run read_remaining_reader_at Let_def n)
  qed
qed

text \<open>What one packet becomes on the plain wire.\<close>

definition carries :: "('io, 'enc, 'dec) crates \<Rightarrow> ('enc, 'dec) wire_transforms \<Rightarrow> u8 list \<Rightarrow> u8 list \<Rightarrow> bool" where
  "carries env t w body \<longleftrightarrow> length w \<le> max_frame_size (transform_limits t) \<and> decode_frame_body env t w = Inr body"

lemma encode_outbound_carries:
  fixes env :: "('io, 'enc, 'dec) crates"
  assumes behave: "crates_behave env linked" and wf: "frame_limits_wf (transform_limits t)"
    and frame: "encode_frame body (max_frame_size (transform_limits t)) = Inr framed"
    and run: "encode_outbound env try_reserve framed t = (Inr out, t')"
    and key: "same_key linked (encryptor t) d"
    and nonempty: "body \<noteq> [] \<or> compression_threshold t \<noteq> Some 0"
  shows "\<exists>w d'. decrypt_stream env d out = (enc_frame w, d') \<and> carries env t w body \<and>
    same_key linked (encryptor t') d' \<and> transform_limits t' = transform_limits t \<and>
    compression_threshold t' = compression_threshold t"
proof -
  let ?l = "transform_limits t" let ?max = "max_frame_size ?l"
  from frame have size: "length body \<le> ?max" and framed: "framed = enc_frame body"
    by (simp_all add: encode_frame_iff)
  let ?plain = "\<lambda>b. case compression_threshold t of
      Some th \<Rightarrow> encode_compressed env b th ?max | None \<Rightarrow> Inr framed"
  obtain b where b: "(extract_single_frame try_reserve framed ?l :: 'io transform_error + u8 list) = Inr b"
    using run by (cases "extract_single_frame try_reserve framed ?l :: 'io transform_error + u8 list")
      (simp_all add: encode_outbound_def)
  obtain plain where plain: "?plain b = Inr plain"
    using run b by (cases "?plain b") (simp_all add: encode_outbound_def)
  have out: "(Inr out :: 'io transform_error + u8 list, t') = (case encryptor t of None \<Rightarrow> (Inr plain, t)
      | Some e \<Rightarrow> (case cfb8_encrypt env e plain of (cipher, e') \<Rightarrow> (Inr cipher, t\<lparr>encryptor := Some e'\<rparr>)))"
    using run b plain by (simp add: encode_outbound_def)
  have b: "b = body" using extract_single_frame_enc[OF b[unfolded framed] wf size] .
  have max: "?max \<le> MINECRAFT_MAX_FRAME_SIZE" using wf by (simp add: frame_limits_wf_def)
  obtain w where w: "plain = enc_frame w" "carries env t w body"
  proof (cases "compression_threshold t")
    case None
    then show ?thesis using plain that[of body] size framed by (simp add: carries_def decode_frame_body_def)
  next
    case (Some th)
    then obtain w where pay: "compressed_payload env body th ?max = Inr w" "encode_frame w ?max = Inr plain"
      using plain b by (auto simp: encode_compressed_def split: sum.splits)
    have w: "length w \<le> ?max" "plain = enc_frame w" using pay(2) by (simp_all add: encode_frame_iff)
    have "decode_compressed env w th ?max = Inr body"
      using payload_round_trip[OF behave pay(1) size max w(1)] nonempty Some by auto
    then show ?thesis using that[of w] w Some by (simp add: carries_def decode_frame_body_def)
  qed
  show ?thesis
  proof (cases "encryptor t")
    case None
    then have "d = None" using key by (cases d) (simp_all add: same_key_def)
    then show ?thesis using None out w key by (auto simp: decrypt_stream_def)
  next
    case (Some e)
    then obtain s where s: "d = Some s" "linked e s" using key by (cases d) (simp_all add: same_key_def)
    obtain cipher e' where enc: "cfb8_encrypt env e plain = (cipher, e')" by fastforce
    obtain p s' where dec: "cfb8_decrypt env s cipher = (p, s')" by fastforce
    have "p = plain \<and> linked e' s'"
      by (rule decrypt_encrypt[OF behave s(2) enc dec])
    then show ?thesis using Some out enc dec s(1) w by (auto simp: decrypt_stream_def same_key_def)
  qed
qed

definition nonempty_or_uncompressed :: "('enc, 'dec) wire_transforms \<Rightarrow> u8 list \<Rightarrow> bool" where
  "nonempty_or_uncompressed t body \<longleftrightarrow> body \<noteq> [] \<or> compression_threshold t \<noteq> Some 0"

lemma decode_frame_body_cong:
  "transform_limits t' = transform_limits t \<Longrightarrow> compression_threshold t' = compression_threshold t \<Longrightarrow>
     decode_frame_body env t' = decode_frame_body env t"
  by (simp add: decode_frame_body_def fun_eq_iff split: option.split)

lemma carries_cong:
  "transform_limits t' = transform_limits t \<Longrightarrow> compression_threshold t' = compression_threshold t \<Longrightarrow>
     carries env t' = carries env t"
  by (simp add: carries_def fun_eq_iff decode_frame_body_cong[of t' t])

lemma write_frames_carries:
  assumes behave: "crates_behave env linked" and wf: "frame_limits_wf (transform_limits (transforms c))"
    and key: "same_key linked (encryptor (transforms c)) d"
    and run: "write_frames env try_reserve bodies c = Some (out, c')"
    and bodies: "\<forall>body\<in>set bodies. nonempty_or_uncompressed (transforms c) body"
  shows "\<exists>ws d'. decrypt_stream env d out = (concat (map enc_frame ws), d') \<and>
    list_all2 (carries env (transforms c)) ws bodies"
  using wf key run bodies
proof (induction bodies arbitrary: c d out)
  case Nil
  then show ?case using decrypt_stream_Nil[OF behave, of d] by (intro exI[of _ "[]"]) simp
next
  case (Cons body bodies)
  let ?t = "transforms c"
  obtain framed where framed: "encode_frame body (max_frame_size (transform_limits ?t)) = Inr framed"
    using Cons.prems(3) by (cases "encode_frame body (max_frame_size (transform_limits ?t))") simp_all
  obtain res c1 where w: "write_all env try_reserve framed c = (res, c1)" by fastforce
  obtain o1 where "res = Inr o1" using Cons.prems(3) framed w by (cases res) simp_all
  with w have o1: "write_all env try_reserve framed c = (Inr o1, c1)" by simp
  obtain os where os: "write_frames env try_reserve bodies c1 = Some (os, c')" "out = o1 @ os"
    using Cons.prems(3) framed o1 by (auto split: option.splits)
  obtain t1 where t1: "encode_outbound env try_reserve framed ?t = (Inr o1, t1)" "c1 = c\<lparr>transforms := t1\<rparr>"
    using o1 by (auto simp: write_all_def split: prod.splits sum.splits)
  obtain w1 d1 where w1: "decrypt_stream env d o1 = (enc_frame w1, d1)" "carries env ?t w1 body"
    "same_key linked (encryptor t1) d1" "transform_limits t1 = transform_limits ?t"
    "compression_threshold t1 = compression_threshold ?t"
    using encode_outbound_carries[OF behave Cons.prems(1) framed t1(1) Cons.prems(2)] Cons.prems(4)
    by (auto simp: nonempty_or_uncompressed_def)
  have same: "carries env (transforms c1) = carries env ?t"
    using t1(2) w1(4,5) by (intro carries_cong) simp_all
  obtain ws d2 where ws: "decrypt_stream env d1 os = (concat (map enc_frame ws), d2)"
    "list_all2 (carries env ?t) ws bodies"
    using Cons.IH[of c1 d1 os] os(1) Cons.prems w1 t1(2) unfolding same
    by (auto simp: nonempty_or_uncompressed_def)
  have "decrypt_stream env d out = (concat (map enc_frame (w1 # ws)), d2)"
    using decrypt_stream_append[OF behave w1(1), of os] ws(1) os(2) by simp
  then show ?case using ws(2) w1(2) by (intro exI[of _ "w1 # ws"] exI[of _ d2]) simp
qed

section \<open>Receiving\<close>

definition receiving :: "frame_limits \<Rightarrow> ('enc, 'dec) minecraft_connection \<Rightarrow> bool" where
  "receiving l c \<longleftrightarrow> frame_decoder_wf (decoder c) \<and> limits (decoder c) = l \<and>
     transform_limits (transforms c) = l \<and>
     max_frame_size l + 3 + READ_BUFFER_SIZE \<le> max_buffered_bytes l"

text \<open>The plain bytes the connection holds or will still read.\<close>

definition arriving :: "('io, 'enc, 'dec) crates \<Rightarrow> ('enc, 'dec) minecraft_connection \<Rightarrow> u8 list list \<Rightarrow> u8 list" where
  "arriving env c chunks =
     pending (decoder c) @ fst (decrypt_stream env (decryptor (transforms c)) (concat chunks))"

lemma read_next_frame_arriving:
  assumes behave: "crates_behave env linked"
  shows "receiving l c \<Longrightarrow> \<forall>bs\<in>set chunks. bs \<noteq> [] \<and> length bs \<le> READ_BUFFER_SIZE \<Longrightarrow>
    arriving env c chunks = enc_frame w @ rest \<Longrightarrow> length w \<le> max_frame_size l \<Longrightarrow>
    \<exists>chunks' c'. read_next_frame env (\<lambda>_. True) phase (map Inr chunks) c =
        Some (case decode_frame_body env (transforms c) w of Inl e \<Rightarrow> Inl (Transform e) | Inr body \<Rightarrow> Inr body,
          map Inr chunks', c') \<and>
      receiving l c' \<and> set chunks' \<subseteq> set chunks \<and> arriving env c' chunks' = rest \<and>
      compression_threshold (transforms c') = compression_threshold (transforms c)"
proof (induction chunks arbitrary: c)
  case Nil
  have wf: "frame_decoder_wf (decoder c)" "length w \<le> max_frame_size (limits (decoder c))"
    using Nil.prems by (simp_all add: receiving_def)
  have "pending (decoder c) = enc_frame w @ rest"
    using Nil.prems(3) decrypt_stream_length[OF behave, of "decryptor (transforms c)" "[]"] by (simp add: arriving_def)
  from next_frame_complete[OF wf(1) this wf(2), of "\<lambda>_. True"] obtain d where
    d: "next_frame (\<lambda>_. True) (decoder c) = (Inr (Some w), d)" "frame_decoder_wf d" "pending d = rest"
    "limits d = limits (decoder c)" by blast
  then show ?case
    using Nil.prems(1) decrypt_stream_length[OF behave, of "decryptor (transforms c)" "[]"]
    by (intro exI[of _ "[]"] exI[of _ "c\<lparr>decoder := d\<rparr>"])
      (simp add: read_next_frame.simps receiving_def arriving_def)
next
  case (Cons chunk chunks)
  let ?d = "decoder c" let ?t = "transforms c"
  have wf: "frame_decoder_wf ?d" "length w \<le> max_frame_size (limits ?d)" and l: "limits ?d = l"
    using Cons.prems by (simp_all add: receiving_def)
  show ?case
  proof (cases "length (enc_frame w) \<le> length (pending ?d)")
    case True
    define us where "us = drop (length (enc_frame w)) (pending ?d)"
    define later where "later = fst (decrypt_stream env (decryptor ?t) (concat (chunk # chunks)))"
    have arr: "pending ?d @ later = enc_frame w @ rest"
      using Cons.prems(3) by (simp add: arriving_def later_def)
    then have "take (length (enc_frame w)) (pending ?d) = enc_frame w"
      using True by (metis append_eq_conv_conj take_append take_all_iff diff_is_0_eq take_0 append_Nil2)
    then have pend: "pending ?d = enc_frame w @ us" unfolding us_def by (metis append_take_drop_id)
    then have rest: "rest = us @ later" using arr by simp
    from next_frame_complete[OF wf(1) pend wf(2), of "\<lambda>_. True"] obtain d where
      d: "next_frame (\<lambda>_. True) ?d = (Inr (Some w), d)" "frame_decoder_wf d" "pending d = us" "limits d = limits ?d"
      by blast
    then show ?thesis
      using Cons.prems(1) rest
      by (intro exI[of _ "chunk # chunks"] exI[of _ "c\<lparr>decoder := d\<rparr>"])
        (simp add: read_next_frame.simps receiving_def arriving_def later_def)
  next
    case False
    obtain p s where p: "decrypt_stream env (decryptor ?t) chunk = (p, s)" by fastforce
    have arr: "pending ?d @ p @ fst (decrypt_stream env s (concat chunks)) = enc_frame w @ rest"
      using Cons.prems(3) decrypt_stream_append[OF behave p, of "concat chunks"]
      by (simp add: arriving_def case_prod_beta)
    define missing where "missing = drop (length (pending ?d)) (enc_frame w)"
    have "take (length (pending ?d)) (enc_frame w @ rest) = pending ?d"
      by (metis arr append_eq_conv_conj)
    then have enc: "enc_frame w = pending ?d @ missing"
      using False unfolding missing_def by (metis append_take_drop_id take_append diff_is_0_eq nat_le_linear take_0 append_Nil2)
    have "missing \<noteq> []" using False by (simp add: missing_def)
    note none = next_frame_partial[OF wf(1) enc this wf(2), of "\<lambda>_. True"]
    have part: "partial_frame l (pending ?d)"
      using enc \<open>missing \<noteq> []\<close> wf(2) l unfolding partial_frame_def by blast
    have l_wf: "frame_limits_wf l" using wf(1) l by (simp add: frame_decoder_wf_def)
    have chunk: "chunk \<noteq> []" "length chunk \<le> READ_BUFFER_SIZE" using Cons.prems(2) by simp_all
    have "length p = length chunk" using decrypt_stream_length[OF behave, of "decryptor ?t" chunk] p by simp
    then have "pending_len ?d + length p \<le> max_buffered_bytes (limits ?d)"
      using partial_frame_short[OF part l_wf] chunk Cons.prems(1) l by (simp add: receiving_def)
    then obtain d1 where d1: "push (\<lambda>_. True) p ?d = (Inr (), d1)" "frame_decoder_wf d1"
      "pending d1 = pending ?d @ p" "limits d1 = limits ?d"
      by (rule push_ok[OF wf(1), where try_reserve = "\<lambda>_. True"]) simp
    let ?c = "c\<lparr>decoder := d1, transforms := ?t\<lparr>decryptor := s\<rparr>\<rparr>"
    have step: "read_next_frame env (\<lambda>_. True) phase (map Inr (chunk # chunks)) c =
        read_next_frame env (\<lambda>_. True) phase (map Inr chunks) ?c"
      using none chunk d1(1) p by (subst read_next_frame.simps) (simp add: decrypt_in_place_eq not_less)
    have "receiving l ?c" using Cons.prems(1) d1 by (simp add: receiving_def)
    moreover have "arriving env ?c chunks = enc_frame w @ rest" using arr d1(3) by (simp add: arriving_def)
    moreover have "decode_frame_body env (transforms ?c) = decode_frame_body env ?t"
      by (rule decode_frame_body_cong) simp_all
    ultimately show ?thesis
      using Cons.IH[of ?c] Cons.prems(2,4) unfolding step by (simp, blast)
  qed
qed

lemma read_frames_arriving:
  assumes behave: "crates_behave env linked"
  shows "receiving l c \<Longrightarrow> \<forall>bs\<in>set chunks. bs \<noteq> [] \<and> length bs \<le> READ_BUFFER_SIZE \<Longrightarrow>
    arriving env c chunks = concat (map enc_frame ws) \<Longrightarrow>
    list_all2 (carries env t) ws bodies \<Longrightarrow> transform_limits t = l \<Longrightarrow>
    compression_threshold (transforms c) = compression_threshold t \<Longrightarrow>
    read_frames env (\<lambda>_. True) phase (length bodies) (map Inr chunks) c = bodies"
proof (induction bodies arbitrary: ws chunks c)
  case Nil
  then show ?case by simp
next
  case (Cons body bodies)
  then obtain w ws' where ws: "ws = w # ws'" "carries env t w body" "list_all2 (carries env t) ws' bodies"
    by (auto simp: list_all2_Cons2)
  have arr: "arriving env c chunks = enc_frame w @ concat (map enc_frame ws')" using Cons.prems(3) ws(1) by simp
  have size: "length w \<le> max_frame_size l" using ws(2) Cons.prems(5) by (simp add: carries_def)
  have dec: "decode_frame_body env (transforms c) w = Inr body"
    using ws(2) Cons.prems(1,5,6) decode_frame_body_cong[of "transforms c" t env]
    by (simp add: carries_def receiving_def)
  obtain chunks' c' where next_eq: "read_next_frame env (\<lambda>_. True) phase (map Inr chunks) c =
      Some (Inr body, map Inr chunks', c')" and c': "receiving l c'" "set chunks' \<subseteq> set chunks"
    "arriving env c' chunks' = concat (map enc_frame ws')"
    "compression_threshold (transforms c') = compression_threshold (transforms c)"
    using read_next_frame_arriving[OF behave Cons.prems(1,2) arr size, of phase] dec by auto
  have "read_frames env (\<lambda>_. True) phase (length bodies) (map Inr chunks') c' = bodies"
    using Cons.IH[OF c'(1) _ c'(3) ws(3) Cons.prems(5)] c'(2,4) Cons.prems(2,6) by auto
  then show ?case using next_eq by simp
qed

section \<open>Two ends of a connection\<close>

text \<open>The transforms both ends of a connection enable in the login phase, before any play packet.\<close>

definition negotiate ::
  "('io, 'enc, 'dec) crates \<Rightarrow> u8 list option \<Rightarrow> i32 option \<Rightarrow>
     (('enc, 'dec) minecraft_connection, 'io connection_error, unit) fallible" where
  "negotiate env secret threshold =
     and_then (case secret of None \<Rightarrow> ok () | Some s \<Rightarrow> connection_enable_encryption env s) (\<lambda>_.
     case threshold of None \<Rightarrow> ok () | Some n \<Rightarrow> connection_enable_compression n)"

lemma connection_enable_encryption_ok:
  assumes "connection_enable_encryption env secret c = (Inr (), c')"
  shows "decoder c' = decoder c \<and> transform_limits (transforms c') = transform_limits (transforms c) \<and>
    compression_threshold (transforms c') = compression_threshold (transforms c) \<and>
    (\<exists>e d. new_encryptor env secret secret = Some e \<and> new_decryptor env secret secret = Some d \<and>
      encryptor (transforms c') = Some e \<and> decryptor (transforms c') = Some d)"
  using assms
  by (auto simp: connection_enable_encryption_def enable_encryption_def Let_def
      split: option.splits prod.splits sum.splits)

lemma connection_enable_compression_ok:
  assumes "connection_enable_compression n c = (Inr (), c')"
  shows "decoder c' = decoder c \<and> transform_limits (transforms c') = transform_limits (transforms c) \<and>
    encryptor (transforms c') = encryptor (transforms c) \<and> decryptor (transforms c') = decryptor (transforms c) \<and>
    \<not> n <s 0 \<and> compression_threshold (transforms c') = Some (unat n)"
  using assms
  by (auto simp: connection_enable_compression_def enable_compression_def split: prod.splits sum.splits if_splits)

lemma negotiate_ok:
  fixes env :: "('io, 'enc, 'dec) crates"
  assumes behave: "crates_behave env linked" and run: "negotiate env secret threshold (connection_new l) = (Inr (), c)"
  shows "decoder c = frame_decoder_new l \<and> transform_limits (transforms c) = l \<and>
    same_key linked (encryptor (transforms c)) (decryptor (transforms c)) \<and>
    compression_threshold (transforms c) = map_option unat threshold"
proof -
  obtain c1 where c1: "(case secret of None \<Rightarrow> ok () | Some s \<Rightarrow> connection_enable_encryption env s) (connection_new l)
      = (Inr () :: 'io connection_error + unit, c1)"
    and c: "(case threshold of None \<Rightarrow> ok () | Some n \<Rightarrow> connection_enable_compression n) c1
      = (Inr () :: 'io connection_error + unit, c)"
    using run unfolding negotiate_def by (elim and_then_InrE) simp
  have link: "linked e d" if "new_encryptor env s s = Some e" "new_decryptor env s s = Some d" for s e d
    using behave that unfolding crates_behave_def by blast
  have c1: "decoder c1 = frame_decoder_new l \<and> transform_limits (transforms c1) = l \<and>
      same_key linked (encryptor (transforms c1)) (decryptor (transforms c1)) \<and>
      compression_threshold (transforms c1) = None"
  proof (cases secret)
    case None
    then show ?thesis using c1
      by (simp add: run_simps connection_new_def wire_transforms_new_def same_key_def) (metis minecraft_connection.select_convs wire_transforms.select_convs option.simps(4))
  next
    case (Some s)
    then have "connection_enable_encryption env s (connection_new l) = (Inr () :: 'io connection_error + unit, c1)"
      using c1 by simp
    from connection_enable_encryption_ok[OF this] show ?thesis
      using link[of s] by (auto simp: connection_new_def wire_transforms_new_def same_key_def)
  qed
  show ?thesis
  proof (cases threshold)
    case None
    then show ?thesis using c c1 by (simp add: run_simps)
  next
    case (Some n)
    then have "connection_enable_compression n c1 = (Inr () :: 'io connection_error + unit, c)" using c by simp
    from connection_enable_compression_ok[OF this] show ?thesis using c1 Some by simp
  qed
qed

text \<open>
  C10: when both ends of a connection have enabled the same encryption and compression, every
  packet one end manages to write is read by the other exactly as it was written, in order, and
  however the socket splits the bytes into reads. (A packet has at least its id, so it is empty
  only for a caller that sends none; such a body is refused by the receiver at threshold 0.)
\<close>

theorem transport_delivers:
  assumes "crates_behave env linked" and "frame_limits_wf l"
    and "max_frame_size l + 3 + READ_BUFFER_SIZE \<le> max_buffered_bytes l"
    and "negotiate env secret threshold (connection_new l) = (Inr (), c)"
    and "write_frames env try_reserve bodies c = Some (out, c')"
    and "\<forall>body\<in>set bodies. body \<noteq> []"
    and "concat chunks = out" and "\<forall>bs\<in>set chunks. bs \<noteq> [] \<and> length bs \<le> READ_BUFFER_SIZE"
  shows "read_frames env (\<lambda>_. True) phase (length bodies) (map Inr chunks) c = bodies"
proof -
  note c = negotiate_ok[OF assms(1,4)]
  have "\<forall>body\<in>set bodies. nonempty_or_uncompressed (transforms c) body"
    using assms(6) by (simp add: nonempty_or_uncompressed_def)
  then obtain ws d where ws: "decrypt_stream env (decryptor (transforms c)) out = (concat (map enc_frame ws), d)"
    "list_all2 (carries env (transforms c)) ws bodies"
    using write_frames_carries[OF assms(1) _ _ assms(5)] assms(2) c by blast
  have "receiving l c" using c assms(2,3) by (simp add: receiving_def frame_decoder_new_wf)
  moreover have "arriving env c chunks = concat (map enc_frame ws)"
    using c ws(1) assms(7) by (simp add: arriving_def)
  ultimately show ?thesis
    using read_frames_arriving[OF assms(1) _ assms(8) _ ws(2)] c by simp
qed

text \<open>Crates to witness the theorem: a cipher with ciphertext feedback over one byte, no compression.\<close>

fun feedback_encrypt :: "u8 \<Rightarrow> u8 list \<Rightarrow> u8 list \<times> u8" where
  "feedback_encrypt s [] = ([], s)"
| "feedback_encrypt s (x # xs) =
     (case feedback_encrypt (x XOR s) xs of (cipher, s') \<Rightarrow> ((x XOR s) # cipher, s'))"

fun feedback_decrypt :: "u8 \<Rightarrow> u8 list \<Rightarrow> u8 list \<times> u8" where
  "feedback_decrypt s [] = ([], s)"
| "feedback_decrypt s (x # xs) =
     (case feedback_decrypt x xs of (plain, s') \<Rightarrow> ((x XOR s) # plain, s'))"

definition feedback_crates :: "(unit, u8, u8) crates" where
  "feedback_crates =
     \<lparr>deflate = Inr, inflate_take = (\<lambda>n b. Inr (take n b)),
      new_encryptor = (\<lambda>key iv. Some (hd (iv @ [0]))), new_decryptor = (\<lambda>key iv. Some (hd (iv @ [0]))),
      cfb8_encrypt = feedback_encrypt, cfb8_decrypt = feedback_decrypt\<rparr>"

lemma feedback_decrypt_encrypt:
  "feedback_decrypt s (fst (feedback_encrypt s b)) = (b, snd (feedback_encrypt s b))"
  by (induction s b rule: feedback_encrypt.induct) (auto simp: case_prod_beta xor.assoc)

lemma feedback_decrypt_append:
  "feedback_decrypt s (xs @ ys) =
     (case feedback_decrypt s xs of (p, s') \<Rightarrow> case feedback_decrypt s' ys of (q, s'') \<Rightarrow> (p @ q, s''))"
  by (induction s xs rule: feedback_decrypt.induct) (auto simp: case_prod_beta)

lemma feedback_decrypt_length: "length (fst (feedback_decrypt s xs)) = length xs"
  by (induction s xs rule: feedback_decrypt.induct) (auto simp: case_prod_beta)

lemma feedback_crates_behave: "crates_behave feedback_crates (=)"
  by (auto simp: crates_behave_def feedback_crates_def feedback_decrypt_length case_prod_beta
      feedback_decrypt_encrypt feedback_decrypt_append)

lemma transport_delivers_witness:
  defines "c \<equiv> snd (negotiate feedback_crates (Some [7]) None (connection_new frame_limits_default))"
  defines "out \<equiv> fst (feedback_encrypt 7 [2, 7, 8])"
  shows "read_frames feedback_crates (\<lambda>_. True) ''play'' (length [[7 :: u8, 8]]) (map Inr [take 2 out, drop 2 out]) c = [[7, 8]]"
proof (rule transport_delivers[OF feedback_crates_behave frame_limits_default_wf])
  let ?l = frame_limits_default
  let ?t = "\<lparr>encryptor = Some 7, decryptor = Some 7, compression_threshold = None, transform_limits = ?l\<rparr> :: (u8, u8) wire_transforms"
  have run: "negotiate feedback_crates (Some [7]) None (connection_new ?l) =
      (Inr (), \<lparr>decoder = frame_decoder_new ?l, transforms = ?t\<rparr>)"
    by (simp add: negotiate_def connection_enable_encryption_def enable_encryption_def and_then_def run_simps
        connection_new_def wire_transforms_new_def feedback_crates_def Let_def)
  then have c: "c = \<lparr>decoder = frame_decoder_new ?l, transforms = ?t\<rparr>" by (simp add: c_def)
  show "negotiate feedback_crates (Some [7]) None (connection_new ?l) = (Inr (), c)" using run c by simp
  have size: "length [7 :: u8, 8] \<le> max_frame_size ?l" "max_frame_size ?l \<le> MINECRAFT_MAX_FRAME_SIZE"
    by (simp_all add: frame_limits_default_def DEFAULT_MAX_FRAME_SIZE_def MINECRAFT_MAX_FRAME_SIZE_def)
  have enc: "enc_frame [7, 8] = [2, 7, 8]" by (simp add: enc_frame_def enc_length_1)
  have "encode_frame [7, 8] (max_frame_size ?l) = Inr [2, 7, 8]"
    using encode_frame_ok[of "[7, 8]" "max_frame_size ?l"] size enc by simp
  moreover have "extract_single_frame (\<lambda>_. True) [2, 7, 8] ?l = (Inr [7, 8] :: unit transform_error + u8 list)"
    using extract_single_frame_ok[OF frame_limits_default_wf size(1)] enc by simp
  ultimately show "write_frames feedback_crates (\<lambda>_. True) [[7, 8]] c =
      Some (out, c\<lparr>transforms := ?t\<lparr>encryptor := Some (snd (feedback_encrypt 7 [2, 7, 8]))\<rparr>\<rparr>)"
    by (simp add: c write_all_def encode_outbound_def feedback_crates_def out_def case_prod_beta)
  show "concat [take 2 out, drop 2 out] = out" by simp
qed (simp_all add: out_def frame_limits_default_def DEFAULT_MAX_FRAME_SIZE_def DEFAULT_MAX_BUFFERED_BYTES_def
    MINECRAFT_MAX_FRAME_SIZE_def READ_BUFFER_SIZE_def)

text \<open>
  No accepted frame grows beyond the configured frame size: whatever a peer declares and
  however well its data compresses, a decoded packet is at most \<open>max_frame_size\<close> bytes (or it is
  the frame body itself), and at most one byte more than that is ever inflated.
\<close>

theorem decoded_packet_bounded:
  assumes "decode_frame_body env t body = Inr packet" and "length body \<le> usize_MAX"
  shows "(case compression_threshold t of
      None \<Rightarrow> packet = body
    | Some threshold \<Rightarrow>
        (length packet < threshold \<and> length packet < length body) \<or>
        (threshold \<le> length packet \<and> length packet \<le> max_frame_size (transform_limits t) \<and>
         (\<exists>compressed. inflate_take env (saturating_add (max_frame_size (transform_limits t)) 1) compressed = Inr packet)))"
proof (cases "compression_threshold t")
  case None
  then show ?thesis using assms by (simp add: decode_frame_body_def)
next
  case (Some threshold)
  then have run: "decode_compressed env body threshold (max_frame_size (transform_limits t)) = Inr packet"
    using assms by (simp add: decode_frame_body_def)
  then obtain w r where r: "read_var_int (new_reader body) = (Inr w, r)"
    by (auto simp: decode_compressed_def split: prod.splits sum.splits)
  have wf: "reader_wf (new_reader body)" using assms(2) by (simp add: new_reader_eq)
  have adv: "input r = body" "position r \<le> length body"
    using advancesD[OF advances_read_var(1) wf r] by (simp_all add: new_reader_def reader_wf_def)
  have "0 < position r"
    using r
    by (auto simp: read_var_int_def MAX_VAR_INT_BYTES_def new_reader_def read_var_loop.simps[of 5]
        read_byte_with_context_def read_bytes_def Let_def get_range_def run_simps
        elim!: and_then_InrE split: option.splits if_splits list.splits)
  then have "length (fst (read_remaining r)) < length body"
    using adv by (simp add: read_remaining_def)
  then show ?thesis
    using run r Some by (auto simp: decode_compressed_def Let_def split: if_splits sum.splits)
qed

lemma decoded_packet_bounded_witness:
  "length ([9] :: u8 list) < 4 \<and> length ([9] :: u8 list) < length ([0, 9] :: u8 list) \<or>
    4 \<le> length ([9] :: u8 list)"
proof -
  let ?t = "\<lparr>encryptor = None, decryptor = None, compression_threshold = Some 4,
    transform_limits = frame_limits_default\<rparr> :: (u8, u8) wire_transforms"
  have "enc_var (0 :: i32) = [0]" by (simp add: enc_var.simps)
  then have "read_var_int (new_reader [0, 9]) = (Inr 0, reader_at [0] [9])"
    using decodesD[OF decodes_read_var_int, of "[]" 0 "[9]"] by (simp add: new_reader_eq usize_MAX_def)
  then have "decode_frame_body feedback_crates ?t [0, 9] = Inr [9]"
    by (simp add: decode_frame_body_def decode_compressed_def read_remaining_reader_at Let_def)
  from decoded_packet_bounded[OF this] show ?thesis by (simp add: usize_MAX_def)
qed

end
