(* ===== verification/Status.thy ===== *)
theory Status
  imports Framing
begin

text \<open>
  \<open>cubic-protocol\<close>: the handshake packet (\<open>handshake.rs\<close>) and the server list ping (\<open>status.rs\<close>).
  The JSON crate is a parameter: \<open>json_from_str\<close> parses a text into a value or reports line and
  column, \<open>json_from_value\<close> reads a value into the wire structure.
\<close>

section \<open>Handshake\<close>

definition HANDSHAKE_PACKET_ID :: i32 where "HANDSHAKE_PACKET_ID = 0"
definition MAX_HANDSHAKE_HOST_UTF16_UNITS :: nat where "MAX_HANDSHAKE_HOST_UTF16_UNITS = 255"

datatype handshake_next_state = NextState_Status | NextState_Login

definition next_state_id :: "handshake_next_state \<Rightarrow> i32" where
  "next_state_id s = (case s of NextState_Status \<Rightarrow> 1 | NextState_Login \<Rightarrow> 2)"

record handshake =
  hs_protocol_version :: i32
  hs_server_address :: rust_str
  hs_server_port :: u16
  hs_next_state :: handshake_next_state

text \<open>Running a writer and framing what it wrote.\<close>

definition frame_of_writer :: "writer_op \<Rightarrow> nat \<Rightarrow> codec_error + u8 list" where
  "frame_of_writer m max_size =
     (case m new_writer of (Inl e, _) \<Rightarrow> Inl e | (Inr _, w) \<Rightarrow> encode_frame (out_bytes w) max_size)"

definition handshake_limits :: string_limits where
  "handshake_limits =
     string_limits_new MAX_HANDSHAKE_HOST_UTF16_UNITS (MAX_HANDSHAKE_HOST_UTF16_UNITS * 3)"

definition encode_handshake :: "handshake \<Rightarrow> nat \<Rightarrow> codec_error + u8 list" where
  "encode_handshake h max_size =
     frame_of_writer
       (and_then (emit (write_var_int HANDSHAKE_PACKET_ID)) (\<lambda>_.
        and_then (emit (write_var_int (hs_protocol_version h))) (\<lambda>_.
        and_then (write_string handshake_limits (hs_server_address h)) (\<lambda>_.
        and_then (emit (write_u16 (hs_server_port h))) (\<lambda>_.
        emit (write_var_int (next_state_id (hs_next_state h)))))))) max_size"

section \<open>Server status\<close>

definition STATUS_REQUEST_PACKET_ID :: i32 where "STATUS_REQUEST_PACKET_ID = 0"
definition STATUS_RESPONSE_PACKET_ID :: i32 where "STATUS_RESPONSE_PACKET_ID = 0"
definition PING_PACKET_ID :: i32 where "PING_PACKET_ID = 1"
definition PONG_PACKET_ID :: i32 where "PONG_PACKET_ID = 1"
definition MAX_STATUS_JSON_UTF16_UNITS :: nat where "MAX_STATUS_JSON_UTF16_UNITS = 32767"
definition MAX_STATUS_JSON_ENCODED_BYTES :: nat where
  "MAX_STATUS_JSON_ENCODED_BYTES = MAX_STATUS_JSON_UTF16_UNITS * 3"
definition MAX_STATUS_FRAME_SIZE :: nat where "MAX_STATUS_FRAME_SIZE = 128 * 1024"
definition MAX_STATUS_SAMPLE_ENTRIES :: nat where "MAX_STATUS_SAMPLE_ENTRIES = 100"
definition MAX_STATUS_FAVICON_BYTES :: nat where "MAX_STATUS_FAVICON_BYTES = 32 * 1024"
definition MAX_STATUS_TEXT_FIELD_BYTES :: nat where "MAX_STATUS_TEXT_FIELD_BYTES = 4 * 1024"

record status_handshake =
  sh_protocol_version :: i32
  sh_server_address :: rust_str
  sh_server_port :: u16

record status_version =
  version_name :: rust_str
  version_protocol :: i32

record status_player_sample =
  sample_name :: rust_str
  sample_id :: rust_str

record status_players =
  players_max :: i32
  players_online :: i32
  players_sample :: "status_player_sample list"

record 'v wire_status_response =
  ws_version :: status_version
  ws_players :: status_players
  ws_description :: 'v
  ws_favicon :: "rust_str option"
  ws_additional_fields :: "(rust_str \<times> 'v) list"

record 'v status_response =
  st_version :: status_version
  st_players :: status_players
  st_description :: 'v
  st_favicon :: "rust_str option"
  st_additional_fields :: "(rust_str \<times> 'v) list"
  st_raw_json :: rust_str

record status_json_limits =
  max_sample_entries :: nat
  max_favicon_bytes :: nat
  max_text_field_bytes :: nat

definition status_json_limits_default :: status_json_limits where
  "status_json_limits_default =
     \<lparr>max_sample_entries = MAX_STATUS_SAMPLE_ENTRIES, max_favicon_bytes = MAX_STATUS_FAVICON_BYTES,
      max_text_field_bytes = MAX_STATUS_TEXT_FIELD_BYTES\<rparr>"

datatype status_protocol_error =
    StatusCodec codec_error
  | UnexpectedPacketId i32 i32
  | TrailingPacketData nat
  | MalformedJson nat nat
  | InvalidStatusData
  | InvalidPlayerCounts i32 i32
  | PlayerSampleTooLarge nat nat
  | TextFieldTooLarge string nat nat
  | PongMismatch i64 i64

record 'v json_crate =
  json_from_str :: "rust_str \<Rightarrow> (nat \<times> nat) + 'v"
  json_from_value :: "'v \<Rightarrow> 'v wire_status_response option"

definition encode_status_handshake :: "status_handshake \<Rightarrow> codec_error + u8 list" where
  "encode_status_handshake h =
     encode_handshake
       \<lparr>hs_protocol_version = sh_protocol_version h, hs_server_address = sh_server_address h,
        hs_server_port = sh_server_port h, hs_next_state = NextState_Status\<rparr> MAX_STATUS_FRAME_SIZE"

definition encode_status_request :: "codec_error + u8 list" where
  "encode_status_request = frame_of_writer (emit (write_var_int STATUS_REQUEST_PACKET_ID)) MAX_STATUS_FRAME_SIZE"

definition require_packet_id :: "i32 \<Rightarrow> i32 \<Rightarrow> status_protocol_error + unit" where
  "require_packet_id expected actual =
     (if actual = expected then Inr () else Inl (UnexpectedPacketId expected actual))"

definition require_consumed :: "codec_reader \<Rightarrow> status_protocol_error + unit" where
  "require_consumed r = (if remaining r = 0 then Inr () else Inl (TrailingPacketData (remaining r)))"

definition check_text :: "string \<Rightarrow> rust_str \<Rightarrow> nat \<Rightarrow> status_protocol_error + unit" where
  "check_text field val m =
     (if m < str_len val then Inl (TextFieldTooLarge field (str_len val) m) else Inr ())"

fun check_samples :: "status_player_sample list \<Rightarrow> nat \<Rightarrow> status_protocol_error + unit" where
  "check_samples [] m = Inr ()"
| "check_samples (s # ss) m =
     (case check_text ''player sample name'' (sample_name s) m of Inl e \<Rightarrow> Inl e | Inr _ \<Rightarrow>
     (case check_text ''player sample ID'' (sample_id s) m of Inl e \<Rightarrow> Inl e | Inr _ \<Rightarrow> check_samples ss m))"

definition parse_status_json ::
  "'v json_crate \<Rightarrow> rust_str \<Rightarrow> status_json_limits \<Rightarrow> status_protocol_error + 'v status_response" where
  "parse_status_json json text l =
     (case json_from_str json text of
        Inl (line, column) \<Rightarrow> Inl (MalformedJson line column)
      | Inr raw_value \<Rightarrow>
     (case json_from_value json raw_value of
        None \<Rightarrow> Inl InvalidStatusData
      | Some wire \<Rightarrow>
          let players = ws_players wire in
          if players_online players <s 0 \<or> players_max players <s 0
          then Inl (InvalidPlayerCounts (players_online players) (players_max players))
          else if max_sample_entries l < length (players_sample players)
          then Inl (PlayerSampleTooLarge (length (players_sample players)) (max_sample_entries l))
          else
     (case check_text ''version name'' (version_name (ws_version wire)) (max_text_field_bytes l) of
        Inl e \<Rightarrow> Inl e | Inr _ \<Rightarrow>
     (case check_samples (players_sample players) (max_text_field_bytes l) of
        Inl e \<Rightarrow> Inl e | Inr _ \<Rightarrow>
     (case (case ws_favicon wire of
              Some favicon \<Rightarrow> check_text ''favicon'' favicon (max_favicon_bytes l) | None \<Rightarrow> Inr ()) of
        Inl e \<Rightarrow> Inl e | Inr _ \<Rightarrow>
      Inr \<lparr>st_version = ws_version wire, st_players = players, st_description = ws_description wire,
           st_favicon = ws_favicon wire, st_additional_fields = ws_additional_fields wire,
           st_raw_json = text\<rparr>)))))"

definition status_string_limits :: string_limits where
  "status_string_limits = string_limits_new MAX_STATUS_JSON_UTF16_UNITS MAX_STATUS_JSON_ENCODED_BYTES"

definition decode_status_response ::
  "'v json_crate \<Rightarrow> u8 list \<Rightarrow> status_json_limits \<Rightarrow> status_protocol_error + 'v status_response" where
  "decode_status_response json frame l =
     (case split_raw_packet frame of Inl e \<Rightarrow> Inl (StatusCodec e) | Inr packet \<Rightarrow>
     (case require_packet_id STATUS_RESPONSE_PACKET_ID (packet_id packet) of Inl e \<Rightarrow> Inl e | Inr _ \<Rightarrow>
     (case read_string status_string_limits (new_reader (payload packet)) of
        (Inl e, _) \<Rightarrow> Inl (StatusCodec e)
      | (Inr text, r) \<Rightarrow>
     (case require_consumed r of Inl e \<Rightarrow> Inl e | Inr _ \<Rightarrow>
      parse_status_json json text l))))"

definition encode_status_ping :: "i64 \<Rightarrow> codec_error + u8 list" where
  "encode_status_ping nonce =
     frame_of_writer (and_then (emit (write_var_int PING_PACKET_ID)) (\<lambda>_. emit (write_i64 nonce)))
       MAX_STATUS_FRAME_SIZE"

definition decode_status_pong :: "u8 list \<Rightarrow> i64 \<Rightarrow> status_protocol_error + unit" where
  "decode_status_pong frame expected_nonce =
     (case split_raw_packet frame of Inl e \<Rightarrow> Inl (StatusCodec e) | Inr packet \<Rightarrow>
     (case require_packet_id PONG_PACKET_ID (packet_id packet) of Inl e \<Rightarrow> Inl e | Inr _ \<Rightarrow>
     (case read_i64 (new_reader (payload packet)) of
        (Inl e, _) \<Rightarrow> Inl (StatusCodec e)
      | (Inr actual, r) \<Rightarrow>
     (case require_consumed r of Inl e \<Rightarrow> Inl e | Inr _ \<Rightarrow>
      if actual \<noteq> expected_nonce then Inl (PongMismatch expected_nonce actual) else Inr ()))))"

definition status_within :: "status_json_limits \<Rightarrow> 'v status_response \<Rightarrow> bool" where
  "status_within l s \<longleftrightarrow>
     \<not> players_online (st_players s) <s 0 \<and> \<not> players_max (st_players s) <s 0 \<and>
     length (players_sample (st_players s)) \<le> max_sample_entries l \<and>
     str_len (version_name (st_version s)) \<le> max_text_field_bytes l \<and>
     (\<forall>p\<in>set (players_sample (st_players s)).
        str_len (sample_name p) \<le> max_text_field_bytes l \<and> str_len (sample_id p) \<le> max_text_field_bytes l) \<and>
     (case st_favicon s of Some f \<Rightarrow> str_len f \<le> max_favicon_bytes l | None \<Rightarrow> True)"

lemma check_samples_ok:
  "check_samples ss m = Inr u \<Longrightarrow> \<forall>p\<in>set ss. str_len (sample_name p) \<le> m \<and> str_len (sample_id p) \<le> m"
  by (induction ss) (auto simp: check_text_def split: if_splits sum.splits)

lemma parse_status_json_within:
  assumes "parse_status_json json text l = Inr s"
  shows "status_within l s \<and> st_raw_json s = text"
  using assms check_samples_ok
  by (auto simp: parse_status_json_def status_within_def Let_def check_text_def
      split: sum.splits option.splits if_splits prod.splits)

lemma frame_of_writer_ok:
  assumes "appends m bs" and "length bs \<le> max_size" and "length bs \<le> MINECRAFT_MAX_FRAME_SIZE"
  shows "frame_of_writer m max_size = Inr (enc_frame bs)"
  using appendsD[OF assms(1), of new_writer] encode_frame_ok[OF assms(2,3)]
  by (simp add: frame_of_writer_def new_writer_def)

lemma decode_status_pong_enc:
  assumes "length (enc_var pid @ data) \<le> usize_MAX"
  shows "decode_status_pong (enc_var pid @ data) nonce = Inr () \<longleftrightarrow> pid = PONG_PACKET_ID \<and> data = to_be_bytes nonce"
proof -
  have "decode_status_pong (enc_var PONG_PACKET_ID @ to_be_bytes nonce) nonce = Inr ()"
    using split_raw_packet_enc[of PONG_PACKET_ID "to_be_bytes nonce"] assms
      decodes_complete[OF decodes_fixed_width(7), of nonce] length_enc_var_int[of PONG_PACKET_ID]
    by (simp add: decode_status_pong_def require_packet_id_def require_consumed_def usize_MAX_def)
  moreover have "pid = PONG_PACKET_ID \<and> data = to_be_bytes nonce"
    if ok: "decode_status_pong (enc_var pid @ data) nonce = Inr ()"
  proof -
    have "split_raw_packet (enc_var pid @ data) = Inr \<lparr>packet_id = pid, payload = data\<rparr>"
      by (rule split_raw_packet_enc[OF assms])
    then obtain r where r: "read_i64 (new_reader data) = (Inr nonce, r)" "remaining r = 0" and pid: "pid = PONG_PACKET_ID"
      using ok by (auto simp: decode_status_pong_def require_packet_id_def require_consumed_def
          split: if_splits prod.splits sum.splits)
    from r(1) obtain bytes where "read_array 8 ''i64'' (new_reader data) = (Inr bytes, r)" "nonce = from_be_bytes bytes"
      unfolding read_i64_def by (auto elim!: and_then_InrE simp: run_simps)
    then have "bytes = take 8 data" "length bytes = 8" "position r = 8" "input r = data" "nonce = from_be_bytes bytes"
      "8 \<le> length data"
      by (auto simp: read_array_def read_bytes_def new_reader_def Let_def get_range_def run_simps
          elim!: and_then_InrE split: option.splits if_splits)
    then show ?thesis using pid r(2) by (simp add: remaining_def)
  qed
  ultimately show ?thesis by blast
qed

section \<open>Properties\<close>

text \<open>
  A status response that is accepted, whatever the frame and the JSON were, has non-negative
  player counts and every list and text within the limits, and keeps the text it was parsed from,
  itself valid and within the string limits of the packet.
\<close>

theorem status_response_within_limits:
  assumes "decode_status_response json frame l = Inr s"
  shows "status_within l s \<and> is_str (st_raw_json s) \<and>
    utf16_count (st_raw_json s) \<le> MAX_STATUS_JSON_UTF16_UNITS \<and>
    str_len (st_raw_json s) \<le> MAX_STATUS_JSON_ENCODED_BYTES"
proof -
  from assms obtain data content r where
    content: "read_string status_string_limits (new_reader data) = (Inr content, r)"
    and s: "parse_status_json json content l = Inr s"
    by (auto simp: decode_status_response_def split: sum.splits prod.splits)
  have "max_utf16_units status_string_limits = MAX_STATUS_JSON_UTF16_UNITS"
    "sl_max_encoded_bytes status_string_limits = MAX_STATUS_JSON_ENCODED_BYTES"
    by (simp_all add: status_string_limits_def string_limits_new_def max_utf16_units_def)
  then show ?thesis
    using read_string_sound[OF content] parse_status_json_within[OF s]
      max_encoded_bytes_le[of status_string_limits]
    by (auto simp: valid_string_def)
qed

text \<open>
  A pong is accepted exactly when its packet id is the pong id and its payload is the eight
  bytes of the nonce that was sent, no more and no fewer; and the body of the ping the client
  sends with a nonce is accepted as its pong.
\<close>

theorem pong_accepted_iff:
  assumes "length data + 5 \<le> usize_MAX"
  shows "(decode_status_pong (enc_var pid @ data) nonce = Inr () \<longleftrightarrow>
      pid = PONG_PACKET_ID \<and> data = to_be_bytes nonce) \<and>
    (\<exists>body. encode_status_ping nonce = Inr (enc_frame body) \<and> decode_status_pong body nonce = Inr ())"
proof -
  let ?body = "enc_var PING_PACKET_ID @ to_be_bytes nonce"
  have len: "length ?body \<le> 13" using length_enc_var_int[of PING_PACKET_ID] by simp
  have "appends (and_then (emit (write_var_int PING_PACKET_ID)) (\<lambda>_. emit (write_i64 nonce))) ?body"
    by (intro appends_intros)
  then have "encode_status_ping nonce = Inr (enc_frame ?body)"
    unfolding encode_status_ping_def using len
    by (intro frame_of_writer_ok) (simp_all add: MAX_STATUS_FRAME_SIZE_def MINECRAFT_MAX_FRAME_SIZE_def)
  moreover have "decode_status_pong ?body nonce = Inr ()"
    using decode_status_pong_enc[of PING_PACKET_ID "to_be_bytes nonce" nonce] len
    by (simp add: PING_PACKET_ID_def PONG_PACKET_ID_def usize_MAX_def)
  ultimately show ?thesis
    using decode_status_pong_enc[of pid data nonce] length_enc_var_int[of pid] assms by auto
qed

lemma pong_accepted_iff_witness:
  "decode_status_pong (enc_var (1 :: i32) @ to_be_bytes (9 :: i64)) 9 = Inr ()"
  using pong_accepted_iff[of "to_be_bytes (9 :: i64)" 1 9] by (simp add: PONG_PACKET_ID_def usize_MAX_def)

text \<open>A JSON crate that accepts every text, to witness the first property.\<close>

definition witness_wire :: "unit wire_status_response" where
  "witness_wire =
     \<lparr>ws_version = \<lparr>version_name = [0x31], version_protocol = 775\<rparr>,
      ws_players = \<lparr>players_max = 20, players_online = 1, players_sample = []\<rparr>,
      ws_description = (), ws_favicon = None, ws_additional_fields = []\<rparr>"

definition witness_json :: "unit json_crate" where
  "witness_json = \<lparr>json_from_str = (\<lambda>_. Inr ()), json_from_value = (\<lambda>_. Some witness_wire)\<rparr>"

lemma witness_status_decodes:
  "\<exists>s. decode_status_response witness_json (enc_var STATUS_RESPONSE_PACKET_ID @ enc_string [0x7B, 0x7D])
     status_json_limits_default = Inr s"
proof -
  let ?text = "[0x7B, 0x7D] :: nat list"
  have valid: "valid_string status_string_limits ?text"
    by (simp add: valid_string_def is_str_def is_scalar_value_def utf16_count_def str_len_def as_bytes_def
        utf8_char_def max_utf16_units_def max_encoded_bytes_def status_string_limits_def string_limits_new_def
        checked_mul_def MAX_STATUS_JSON_UTF16_UNITS_def MAX_STATUS_JSON_ENCODED_BYTES_def usize_MAX_def i32_MAX_def)
  have len: "length (enc_string ?text) \<le> 7"
    using length_enc_length[of "Suc (Suc 0)"] by (simp add: enc_string_def str_len_def as_bytes_def utf8_char_def)
  have "read_string status_string_limits (new_reader (enc_string ?text)) = (Inr ?text, reader_at (enc_string ?text) [])"
    using len by (intro decodes_complete decodes_read_string valid) (simp add: usize_MAX_def)
  moreover have "split_raw_packet (enc_var STATUS_RESPONSE_PACKET_ID @ enc_string ?text) =
      Inr \<lparr>packet_id = STATUS_RESPONSE_PACKET_ID, payload = enc_string ?text\<rparr>"
    using len length_enc_var_int[of STATUS_RESPONSE_PACKET_ID]
    by (intro split_raw_packet_enc) (simp add: usize_MAX_def)
  moreover have "parse_status_json witness_json ?text status_json_limits_default =
      Inr \<lparr>st_version = ws_version witness_wire, st_players = ws_players witness_wire, st_description = (),
        st_favicon = None, st_additional_fields = [], st_raw_json = ?text\<rparr>"
    by (simp add: parse_status_json_def witness_json_def witness_wire_def check_text_def
        status_json_limits_default_def MAX_STATUS_SAMPLE_ENTRIES_def MAX_STATUS_TEXT_FIELD_BYTES_def
        str_len_def as_bytes_def utf8_char_def word_sless_alt)
  ultimately show ?thesis
    by (simp add: decode_status_response_def require_packet_id_def require_consumed_def)
qed

lemma status_response_within_limits_witness:
  "\<exists>s. decode_status_response witness_json (enc_var STATUS_RESPONSE_PACKET_ID @ enc_string [0x7B, 0x7D])
     status_json_limits_default = Inr s \<and> status_within status_json_limits_default s"
proof -
  obtain s where s: "decode_status_response witness_json (enc_var STATUS_RESPONSE_PACKET_ID @ enc_string [0x7B, 0x7D])
      status_json_limits_default = Inr s"
    using witness_status_decodes by blast
  then show ?thesis using status_response_within_limits[OF s] by blast
qed

end
