(* ===== verification/Nbt_Tag.thy ===== *)
theory Nbt_Tag
  imports Bitset Cubic_Prelude "HOL-Library.List_Lexorder"
begin

text \<open>
  \<open>cubic-protocol/src/nbt\<close>: the limits (\<open>limits.rs\<close>), the errors (\<open>error.rs\<close>), Java strings in Modified
  UTF-8 (\<open>string.rs\<close>) and the tag values (\<open>tag.rs\<close>). Strings are lists of UTF-16 code units, in any
  combination; a compound is a map with sorted keys, like the \<open>BTreeMap\<close> it models.
\<close>

section \<open>Tag types, errors and limits\<close>

datatype nbt_tag_type =
    Type_End | Type_Byte | Type_Short | Type_Int | Type_Long | Type_Float | Type_Double
  | Type_ByteArray | Type_String | Type_List | Type_Compound | Type_IntArray | Type_LongArray

definition type_from_id :: "u8 \<Rightarrow> nbt_tag_type option" where
  "type_from_id n =
     (if n = 0 then Some Type_End else if n = 1 then Some Type_Byte
      else if n = 2 then Some Type_Short else if n = 3 then Some Type_Int
      else if n = 4 then Some Type_Long else if n = 5 then Some Type_Float
      else if n = 6 then Some Type_Double else if n = 7 then Some Type_ByteArray
      else if n = 8 then Some Type_String else if n = 9 then Some Type_List
      else if n = 10 then Some Type_Compound else if n = 11 then Some Type_IntArray
      else if n = 12 then Some Type_LongArray else None)"

definition type_id :: "nbt_tag_type \<Rightarrow> u8" where
  "type_id t =
     (case t of Type_End \<Rightarrow> 0 | Type_Byte \<Rightarrow> 1 | Type_Short \<Rightarrow> 2 | Type_Int \<Rightarrow> 3 | Type_Long \<Rightarrow> 4
      | Type_Float \<Rightarrow> 5 | Type_Double \<Rightarrow> 6 | Type_ByteArray \<Rightarrow> 7 | Type_String \<Rightarrow> 8 | Type_List \<Rightarrow> 9
      | Type_Compound \<Rightarrow> 10 | Type_IntArray \<Rightarrow> 11 | Type_LongArray \<Rightarrow> 12)"

lemma type_from_id_id [simp]: "type_from_id (type_id t) = Some t"
  by (cases t) (simp_all add: type_from_id_def type_id_def)

lemma type_id_from_id: "type_from_id n = Some t \<Longrightarrow> type_id t = n"
  by (auto simp: type_from_id_def type_id_def split: if_splits)

lemma type_id_inj [simp]: "type_id a = type_id b \<longleftrightarrow> a = b"
  by (metis option.inject type_from_id_id)

datatype nbt_collection_kind = Kind_ByteArray | Kind_IntArray | Kind_LongArray | Kind_List | Kind_Compound

datatype nbt_error =
    NbtCodec codec_error
  | InvalidTagId u8
  | UnexpectedEndTag string
  | InvalidRootType u8
  | MalformedModifiedUtf8 nat
  | NbtStringTooLong nat nat
  | NegativeCollectionLength nbt_collection_kind i32
  | CollectionTooLarge nbt_collection_kind nat nat
  | CollectionSizeOverflow nbt_collection_kind nat nat
  | DepthLimitExceeded nat nat
  | TotalTagLimitExceeded nat nat
  | AllocationBudgetExceeded nat nat
  | NbtAllocationFailed string nat
  | HeterogeneousList nbt_tag_type nbt_tag_type nat
  | EndListWithElements
  | TrailingData nat

record nbt_limits =
  nl_max_depth :: nat
  nl_max_total_tags :: nat
  nl_max_compound_entries :: nat
  nl_max_list_elements :: nat
  nl_max_array_elements :: nat
  nl_max_string_encoded_bytes :: nat
  nl_max_total_allocated_bytes :: nat

definition max_string_encoded_bytes :: "nbt_limits \<Rightarrow> nat" where
  "max_string_encoded_bytes l =
     (if nl_max_string_encoded_bytes l < u16_MAX then nl_max_string_encoded_bytes l else u16_MAX)"

definition nbt_limits_default :: nbt_limits where
  "nbt_limits_default =
     \<lparr>nl_max_depth = 64, nl_max_total_tags = 65536, nl_max_compound_entries = 4096,
      nl_max_list_elements = 65536, nl_max_array_elements = 1048576,
      nl_max_string_encoded_bytes = u16_MAX, nl_max_total_allocated_bytes = 16 * 1024 * 1024\<rparr>"

section \<open>Modified UTF-8\<close>

type_synonym nbt_string = "u16 list"

text \<open>
  Decoding charges a budget of bytes; the state of the NBT decoder is the reader with the two
  counters of \<open>DecodeContext\<close>, and \<open>on_reader\<close> runs a read inside it (\<open>?\<close> through \<open>NbtError::Codec\<close>).
\<close>

record nbt_state =
  nbt_reader :: codec_reader
  total_tags :: nat
  allocated_bytes :: nat

type_synonym 'a nbt_op = "(nbt_state, nbt_error, 'a) fallible"

definition on_reader :: "'a reader_op \<Rightarrow> 'a nbt_op" where
  "on_reader m s =
     (case m (nbt_reader s) of
        (Inl e, r) \<Rightarrow> (Inl (NbtCodec e), s\<lparr>nbt_reader := r\<rparr>)
      | (Inr a, r) \<Rightarrow> (Inr a, s\<lparr>nbt_reader := r\<rparr>))"

definition charge_budget :: "nat \<Rightarrow> nat \<Rightarrow> nbt_limits \<Rightarrow> nbt_error + nat" where
  "charge_budget budget amount l =
     (case checked_add budget amount of
        None \<Rightarrow> Inl (AllocationBudgetExceeded usize_MAX (nl_max_total_allocated_bytes l))
      | Some attempted \<Rightarrow>
          if nl_max_total_allocated_bytes l < attempted
          then Inl (AllocationBudgetExceeded attempted (nl_max_total_allocated_bytes l))
          else Inr attempted)"

definition charge :: "nbt_limits \<Rightarrow> nat \<Rightarrow> unit nbt_op" where
  "charge l amount s =
     (case charge_budget (allocated_bytes s) amount l of
        Inl e \<Rightarrow> (Inl e, s) | Inr b \<Rightarrow> (Inr (), s\<lparr>allocated_bytes := b\<rparr>))"

definition unit_width :: "u16 \<Rightarrow> nat" where
  "unit_width unit = (if 0x0001 \<le> unit \<and> unit \<le> 0x007f then 1 else if unit \<le> 0x07ff then 2 else 3)"

definition encoded_len :: "nbt_string \<Rightarrow> nat" where
  "encoded_len s = sum_list (map unit_width s)"

definition validate_encoded_length :: "nat \<Rightarrow> nbt_limits \<Rightarrow> nbt_error + unit" where
  "validate_encoded_length n l =
     (if max_string_encoded_bytes l < n then Inl (NbtStringTooLong n (max_string_encoded_bytes l)) else Inr ())"

definition continuation :: "u8 list \<Rightarrow> nat \<Rightarrow> nat \<Rightarrow> nbt_error + u8" where
  "continuation bytes start relative =
     (case checked_add start relative of
        None \<Rightarrow> Inl (MalformedModifiedUtf8 start)
      | Some offset \<Rightarrow>
          if offset < length bytes then
            (let byte = bytes ! offset in
             if byte AND 0xc0 = 0x80 then Inr byte else Inl (MalformedModifiedUtf8 offset))
          else Inl (MalformedModifiedUtf8 offset))"

text \<open>The code unit that starts at an offset, and its width.\<close>

definition decode_unit :: "u8 list \<Rightarrow> nat \<Rightarrow> nbt_error + u16 \<times> nat" where
  "decode_unit bytes offset =
     (let first = bytes ! offset in
      if first \<le> 0x7f then Inr (ucast first, 1)
      else if 0xc0 \<le> first \<and> first \<le> 0xdf then
        (case continuation bytes offset 1 of
           Inl e \<Rightarrow> Inl e
         | Inr second \<Rightarrow> Inr (push_bit 6 (ucast (first AND 0x1f)) OR ucast (second AND 0x3f), 2))
      else if 0xe0 \<le> first \<and> first \<le> 0xef then
        (case continuation bytes offset 1 of
           Inl e \<Rightarrow> Inl e
         | Inr second \<Rightarrow>
             (case continuation bytes offset 2 of
                Inl e \<Rightarrow> Inl e
              | Inr third \<Rightarrow>
                  Inr (push_bit 12 (ucast (first AND 0x0f)) OR push_bit 6 (ucast (second AND 0x3f)) OR
                       ucast (third AND 0x3f), 3)))
      else Inl (MalformedModifiedUtf8 offset))"

lemma decode_unit_width: "decode_unit bytes offset = Inr (u, w) \<Longrightarrow> 0 < w"
  by (auto simp: decode_unit_def Let_def split: if_splits sum.splits)

function decode_units :: "u8 list \<Rightarrow> nat \<Rightarrow> nbt_string \<Rightarrow> nbt_error + nbt_string" where
  "decode_units bytes offset units =
     (if offset < length bytes then
        (case decode_unit bytes offset of
           Inl e \<Rightarrow> Inl e
         | Inr (unit, width) \<Rightarrow>
             (case checked_add offset width of
                None \<Rightarrow> Inl (MalformedModifiedUtf8 offset)
              | Some offset' \<Rightarrow> decode_units bytes offset' (units @ [unit])))
      else Inr units)"
  by pat_completeness auto
termination
  by (relation "measure (\<lambda>(bytes, offset, _). length bytes - offset)")
    (auto dest!: decode_unit_width)

declare decode_units.simps [simp del]

text \<open>\<open>size_of::<u16>()\<close> is 2; \<open>try_reserve_exact\<close> asks the allocator.\<close>

definition decode_string :: "allocator \<Rightarrow> nbt_limits \<Rightarrow> nbt_string nbt_op" where
  "decode_string try_reserve l =
     and_then (on_reader read_u16) (\<lambda>len_word.
     let encoded_length = unat len_word in
     and_then (lift_result (validate_encoded_length encoded_length l)) (\<lambda>_.
     and_then (on_reader (read_bytes encoded_length ''NBT Modified UTF-8 bytes'')) (\<lambda>bytes.
     and_then (case checked_mul encoded_length 2 of
                 None \<Rightarrow> fail (AllocationBudgetExceeded usize_MAX (nl_max_total_allocated_bytes l))
               | Some allocation \<Rightarrow> charge l allocation) (\<lambda>_.
     and_then (ensure (try_reserve encoded_length)
                 (NbtAllocationFailed ''NBT string UTF-16 units'' encoded_length)) (\<lambda>_.
     lift_result (decode_units bytes 0 []))))))"

definition write_unit :: "u16 \<Rightarrow> codec_writer \<Rightarrow> codec_writer" where
  "write_unit unit w =
     (if 0x0001 \<le> unit \<and> unit \<le> 0x007f then write_u8 (ucast unit) w
      else if unit \<le> 0x07ff then
        write_u8 (ucast (0x80 OR (unit AND 0x3f))) (write_u8 (ucast (0xc0 OR drop_bit 6 unit)) w)
      else
        write_u8 (ucast (0x80 OR (unit AND 0x3f)))
          (write_u8 (ucast (0x80 OR (drop_bit 6 unit AND 0x3f)))
            (write_u8 (ucast (0xe0 OR drop_bit 12 unit)) w)))"

type_synonym nbt_writer_op = "(codec_writer, nbt_error, unit) fallible"

definition encode_string :: "nbt_limits \<Rightarrow> nbt_string \<Rightarrow> nbt_writer_op" where
  "encode_string l s =
     and_then (lift_result (validate_encoded_length (encoded_len s) l)) (\<lambda>_.
     and_then (ensure (encoded_len s \<le> u16_MAX) (NbtStringTooLong (encoded_len s) u16_MAX)) (\<lambda>_.
     and_then (emit (write_u16 (of_nat (encoded_len s)))) (\<lambda>_.
     emit (write_each write_unit s))))"

subsection \<open>One code unit\<close>

definition enc_unit :: "u16 \<Rightarrow> u8 list" where
  "enc_unit unit =
     (if 0x0001 \<le> unit \<and> unit \<le> 0x007f then [ucast unit]
      else if unit \<le> 0x07ff then [ucast (0xc0 OR drop_bit 6 unit), ucast (0x80 OR (unit AND 0x3f))]
      else [ucast (0xe0 OR drop_bit 12 unit), ucast (0x80 OR (drop_bit 6 unit AND 0x3f)),
            ucast (0x80 OR (unit AND 0x3f))])"

lemma write_unit_eq: "write_unit u w = w\<lparr>out_bytes := out_bytes w @ enc_unit u\<rparr>"
  by (simp add: write_unit_def enc_unit_def write_u8_def)

lemma length_enc_unit: "length (enc_unit u) = unit_width u"
  by (simp add: enc_unit_def unit_width_def)

lemma length_enc_units: "length (concat (map enc_unit s)) = encoded_len s"
  by (induction s) (simp_all add: encoded_len_def length_enc_unit)

lemma unat_prefix_bits:
  fixes x :: u16
  assumes "2 ^ k dvd unat c" and "unat x < 2 ^ k" and "unat c + unat x < 256"
  shows "unat (ucast (c OR x) :: u8) = unat c + unat x"
  using assms by (simp add: unat_ucast unat_or_add[of k])

lemma continuation_byte_iff: "(b :: u8) AND 0xc0 = 0x80 \<longleftrightarrow> unat b div 64 = 2"
proof -
  have high: "(0xc0 :: u8) = NOT (mask 6)" by (simp add: mask_eq_exp_minus_1)
  have "b AND 0xc0 = push_bit 6 (drop_bit 6 b)" unfolding high by (rule and_not_low_eq)
  moreover have "unat (drop_bit 6 b) < 4" using unsigned_less[of b, where ?'a = nat] by (simp only: unat_arith) simp
  then have "unat (push_bit 6 (drop_bit 6 b)) = unat (drop_bit 6 b) * 2 ^ 6" by (intro unat_push_bit) simp
  ultimately have "unat (b AND 0xc0) = unat b div 64 * 64" by (simp only: unat_arith) simp
  moreover have "b AND 0xc0 = 0x80 \<longleftrightarrow> unat (b AND 0xc0) = unat (0x80 :: u8)"
    by (rule word_unat_eq_iff)
  ultimately show ?thesis by auto
qed

lemma continuation_hit:
  assumes "start + k \<le> usize_MAX" and "start + k < length bytes" and "unat (bytes ! (start + k)) div 64 = 2"
  shows "continuation bytes start k = Inr (bytes ! (start + k))"
proof -
  have "bytes ! (start + k) AND 0xc0 = 0x80" using assms(3) by (simp only: continuation_byte_iff)
  then show ?thesis using assms(1,2) by (simp add: continuation_def checked_add_def Let_def)
qed

lemma unat_low_6: "unat (ucast ((b :: u8) AND 0x3f) :: u16) = unat b mod 64"
  by (simp only: mask_numerals unat_ucast unat_and_mask) simp

lemma drop_append_nth: "drop offset bytes = x # xs \<Longrightarrow> offset < length bytes \<and> bytes ! offset = x \<and> drop (offset + 1) bytes = xs"
  by (metis Cons_nth_drop_Suc Suc_eq_plus1 drop_all list.inject list.simps(3) not_le)

lemma prefix_mod:
  "q < 32 \<Longrightarrow> (192 + q) mod 32 = (q :: nat)" "q < 16 \<Longrightarrow> (224 + q) mod 16 = (q :: nat)"
  "q < 64 \<Longrightarrow> (128 + q) mod 64 = (q :: nat)"
  using mod_mult_self1[of q 6 32] mod_mult_self1[of q 14 16] mod_mult_self1[of q 2 64]
  by (simp_all add: add.commute)

lemma decode_enc_unit:
  assumes at: "drop offset bytes = enc_unit u @ rest" and small: "length bytes \<le> usize_MAX"
  shows "decode_unit bytes offset = Inr (u, unit_width u)"
proof -
  let ?n = "unat u"
  have n: "?n < 65536" using unsigned_less[of u, where ?'a = nat] by simp
  consider (one) "0x0001 \<le> u" "u \<le> 0x007f"
    | (two) "\<not> (0x0001 \<le> u \<and> u \<le> 0x007f)" "u \<le> 0x07ff" | (three) "\<not> u \<le> 0x07ff"
    by blast
  then show ?thesis
  proof cases
    case one
    then have "?n < 128" by (simp add: word_le_nat_alt)
    then have "unat (ucast u :: u8) = ?n" by (simp add: unat_ucast)
    moreover have "bytes ! offset = ucast u" using drop_append_nth[of offset bytes] at one by (simp add: enc_unit_def)
    moreover have "ucast (ucast u :: u8) = u" using \<open>?n < 128\<close>
      by (simp add: word_unat_eq_iff unat_ucast)
    ultimately show ?thesis
      using one \<open>?n < 128\<close> by (simp add: decode_unit_def Let_def word_le_nat_alt unit_width_def)
  next
    case two
    let ?b1 = "ucast (0xc0 OR drop_bit 6 u) :: u8" and ?b2 = "ucast (0x80 OR (u AND 0x3f)) :: u8"
    have n2: "?n < 2048" using two by (simp add: word_le_nat_alt)
    have "unat (drop_bit 6 u) = ?n div 64" by (simp only: unat_drop_bit) simp
    then have b1: "unat ?b1 = 192 + ?n div 64"
      using n2 unat_prefix_bits[of 5 "0xc0" "drop_bit 6 u"] by simp
    have "unat (u AND 0x3f) = ?n mod 64" by (simp only: mask_numerals unat_and_mask) simp
    then have b2: "unat ?b2 = 128 + ?n mod 64" using unat_prefix_bits[of 6 "0x80" "u AND 0x3f"] by simp
    have "enc_unit u = [?b1, ?b2]" using two by (simp add: enc_unit_def)
    then have nth: "bytes ! offset = ?b1" "bytes ! (offset + 1) = ?b2" "offset + 1 < length bytes"
      using at drop_append_nth[of offset bytes ?b1 "?b2 # rest"] drop_append_nth[of "offset + 1" bytes ?b2 rest]
      by simp_all
    have "unat (bytes ! (offset + 1)) div 64 = 2" using b2 nth(2) by simp
    then have cont: "continuation bytes offset 1 = Inr ?b2"
      using continuation_hit[of offset 1 bytes] nth small by simp
    have "?n div 64 < 32" using n2 by simp
    then have "unat (ucast (?b1 AND 0x1f) :: u16) = ?n div 64"
      using b1 by (simp only: mask_numerals unat_ucast[of "_ AND _"] unat_and_mask) (simp add: prefix_mod)
    then have hi: "unat (push_bit 6 (ucast (?b1 AND 0x1f)) :: u16) = ?n div 64 * 64"
      using n2 unat_push_bit[of "ucast (?b1 AND 0x1f) :: u16" 6] by simp
    have "unat (push_bit 6 (ucast (?b1 AND 0x1f)) OR ucast (?b2 AND 0x3f) :: u16) = ?n"
      using unat_or_add[of 6 "push_bit 6 (ucast (?b1 AND 0x1f)) :: u16" "ucast (?b2 AND 0x3f)"] hi b2
      by (simp add: unat_low_6 prefix_mod(3))
    then have "push_bit 6 (ucast (?b1 AND 0x1f)) OR ucast (?b2 AND 0x3f) = u" by (simp only: word_unat_eq_iff)
    moreover have "\<not> ?b1 \<le> 0x7f" "0xc0 \<le> ?b1" "?b1 \<le> 0xdf"
      using b1 n2 by (simp_all add: word_le_nat_alt)
    ultimately show ?thesis
      using two nth(1) cont by (simp add: decode_unit_def Let_def unit_width_def)
  next
    case three
    let ?b1 = "ucast (0xe0 OR drop_bit 12 u) :: u8" and ?b2 = "ucast (0x80 OR (drop_bit 6 u AND 0x3f)) :: u8"
      and ?b3 = "ucast (0x80 OR (u AND 0x3f)) :: u8"
    have "unat (drop_bit 12 u) = ?n div 4096" by (simp only: unat_drop_bit) simp
    then have b1: "unat ?b1 = 224 + ?n div 4096"
      using n unat_prefix_bits[of 4 "0xe0" "drop_bit 12 u"] by simp
    have "unat (drop_bit 6 u AND 0x3f) = ?n div 64 mod 64"
      by (simp only: mask_numerals unat_and_mask unat_drop_bit) simp
    then have b2: "unat ?b2 = 128 + ?n div 64 mod 64"
      using unat_prefix_bits[of 6 "0x80" "drop_bit 6 u AND 0x3f"] by simp
    have "unat (u AND 0x3f) = ?n mod 64" by (simp only: mask_numerals unat_and_mask) simp
    then have b3: "unat ?b3 = 128 + ?n mod 64" using unat_prefix_bits[of 6 "0x80" "u AND 0x3f"] by simp
    have "enc_unit u = [?b1, ?b2, ?b3]" using three by (auto simp: enc_unit_def word_le_nat_alt)
    then have nth: "bytes ! offset = ?b1" "bytes ! (offset + 1) = ?b2" "bytes ! (offset + 2) = ?b3"
        "offset + 1 < length bytes" "offset + 2 < length bytes"
      using at drop_append_nth[of offset bytes ?b1 "?b2 # ?b3 # rest"]
        drop_append_nth[of "offset + 1" bytes ?b2 "?b3 # rest"] drop_append_nth[of "offset + 2" bytes ?b3 rest]
      by simp_all
    have "unat (bytes ! (offset + 1)) div 64 = 2" "unat (bytes ! (offset + 2)) div 64 = 2"
      using b2 b3 nth(2,3) by simp_all
    then have cont: "continuation bytes offset 1 = Inr ?b2" "continuation bytes offset 2 = Inr ?b3"
      using continuation_hit[of offset 1 bytes] continuation_hit[of offset 2 bytes] nth small by simp_all
    have "?n div 4096 < 16" using n by simp
    then have "unat (ucast (?b1 AND 0x0f) :: u16) = ?n div 4096"
      using b1 by (simp only: mask_numerals unat_ucast[of "_ AND _"] unat_and_mask) (simp add: prefix_mod)
    then have hi: "unat (push_bit 12 (ucast (?b1 AND 0x0f)) :: u16) = ?n div 4096 * 4096"
      using n unat_push_bit[of "ucast (?b1 AND 0x0f) :: u16" 12] by simp
    have mid: "unat (push_bit 6 (ucast (?b2 AND 0x3f)) :: u16) = ?n div 64 mod 64 * 64"
      using b2 unat_push_bit[of "ucast (?b2 AND 0x3f) :: u16" 6] by (simp add: unat_low_6 prefix_mod(3))
    have low: "unat (push_bit 6 (ucast (?b2 AND 0x3f)) OR ucast (?b3 AND 0x3f) :: u16) = ?n mod 4096"
      using unat_or_add[of 6 "push_bit 6 (ucast (?b2 AND 0x3f)) :: u16" "ucast (?b3 AND 0x3f)"] mid b3
        mod_digit[of ?n 64] by (simp add: unat_low_6 prefix_mod(3))
    have "unat (push_bit 12 (ucast (?b1 AND 0x0f)) OR (push_bit 6 (ucast (?b2 AND 0x3f)) OR ucast (?b3 AND 0x3f)) :: u16) = ?n"
      using unat_or_add[of 12 "push_bit 12 (ucast (?b1 AND 0x0f)) :: u16"] hi low by simp
    then have "push_bit 12 (ucast (?b1 AND 0x0f)) OR push_bit 6 (ucast (?b2 AND 0x3f)) OR ucast (?b3 AND 0x3f) = u"
      by (simp only: word_unat_eq_iff or.assoc)
    moreover have "\<not> ?b1 \<le> 0x7f" "\<not> ?b1 \<le> 0xdf" "0xe0 \<le> ?b1" "?b1 \<le> 0xef"
      using b1 n by (simp_all add: word_le_nat_alt)
    moreover have "unit_width u = 3" using three by (auto simp: unit_width_def word_le_nat_alt)
    ultimately show ?thesis
      using nth(1) cont by (simp add: decode_unit_def Let_def)
  qed
qed

subsection \<open>Strings\<close>

lemma decode_units_enc:
  "drop offset bytes = concat (map enc_unit us) \<Longrightarrow> length bytes \<le> usize_MAX \<Longrightarrow>
     decode_units bytes offset acc = Inr (acc @ us)"
proof (induction us arbitrary: offset acc)
  case Nil
  then show ?case by (subst decode_units.simps) simp
next
  case (Cons u us)
  have at: "drop offset bytes = enc_unit u @ concat (map enc_unit us)" using Cons.prems(1) by simp
  have "enc_unit u \<noteq> []" by (simp add: enc_unit_def)
  then have len: "offset < length bytes" using at by (metis drop_all append_is_Nil_conv not_le)
  have "length bytes - offset = unit_width u + length (concat (map enc_unit us))"
    using arg_cong[OF at, of length] by (simp add: length_enc_unit)
  then have fits: "offset + unit_width u \<le> usize_MAX" using len Cons.prems(2) by linarith
  have "drop (offset + unit_width u) bytes = drop (unit_width u) (drop offset bytes)" by (simp add: add.commute)
  also have "\<dots> = concat (map enc_unit us)" unfolding at by (simp flip: length_enc_unit)
  finally have "decode_units bytes (offset + unit_width u) (acc @ [u]) = Inr ((acc @ [u]) @ us)"
    using Cons.IH Cons.prems(2) by blast
  then show ?case
    using len fits decode_enc_unit[OF at Cons.prems(2)]
    by (subst decode_units.simps) (simp add: checked_add_def)
qed

definition nbt_at :: "codec_reader \<Rightarrow> nat \<Rightarrow> nat \<Rightarrow> nbt_state" where
  "nbt_at r tags bytes = \<lparr>nbt_reader = r, total_tags = tags, allocated_bytes = bytes\<rparr>"

text \<open>
  \<open>nbt_decodes m bs (t, b) (t', b') v\<close>: met with \<open>bs\<close>, the operation consumes exactly \<open>bs\<close>, returns
  \<open>v\<close> and takes the tag and byte counters from \<open>(t, b)\<close> to \<open>(t', b')\<close>.
\<close>

definition nbt_decodes :: "'a nbt_op \<Rightarrow> u8 list \<Rightarrow> nat \<times> nat \<Rightarrow> nat \<times> nat \<Rightarrow> 'a \<Rightarrow> bool" where
  "nbt_decodes m bs c c' v \<longleftrightarrow>
     (\<forall>pre rest. length (pre @ bs @ rest) \<le> usize_MAX \<longrightarrow>
        m (nbt_at (reader_at pre (bs @ rest)) (fst c) (snd c)) =
          (Inr v, nbt_at (reader_at (pre @ bs) rest) (fst c') (snd c')))"

named_theorems nbt_intros \<open>what an NBT operation reads back\<close>

lemma nbt_decodesI:
  assumes "\<And>pre rest. length (pre @ bs @ rest) \<le> usize_MAX \<Longrightarrow>
     m (nbt_at (reader_at pre (bs @ rest)) (fst c) (snd c)) =
       (Inr v, nbt_at (reader_at (pre @ bs) rest) (fst c') (snd c'))"
  shows "nbt_decodes m bs c c' v"
  using assms by (simp add: nbt_decodes_def)

lemma nbt_decodesD:
  "nbt_decodes m bs c c' v \<Longrightarrow> length (pre @ bs @ rest) \<le> usize_MAX \<Longrightarrow>
     m (nbt_at (reader_at pre (bs @ rest)) (fst c) (snd c)) =
       (Inr v, nbt_at (reader_at (pre @ bs) rest) (fst c') (snd c'))"
  by (simp add: nbt_decodes_def)

lemma nbt_decodes_ok: "nbt_decodes (ok v) [] c c v"
  by (simp add: nbt_decodes_def run_simps)

lemma nbt_decodes_and_then:
  assumes "nbt_decodes m bs c c1 a" and "nbt_decodes (k a) bs' c1 c2 v"
  shows "nbt_decodes (and_then m k) (bs @ bs') c c2 v"
proof (rule nbt_decodesI)
  fix pre rest assume len: "length (pre @ (bs @ bs') @ rest) \<le> usize_MAX"
  have "m (nbt_at (reader_at pre (bs @ bs' @ rest)) (fst c) (snd c)) =
      (Inr a, nbt_at (reader_at (pre @ bs) (bs' @ rest)) (fst c1) (snd c1))"
    using len by (intro nbt_decodesD[OF assms(1)]) simp
  moreover have "k a (nbt_at (reader_at (pre @ bs) (bs' @ rest)) (fst c1) (snd c1)) =
      (Inr v, nbt_at (reader_at ((pre @ bs) @ bs') rest) (fst c2) (snd c2))"
    using len by (intro nbt_decodesD[OF assms(2)]) simp
  ultimately show "and_then m k (nbt_at (reader_at pre ((bs @ bs') @ rest)) (fst c) (snd c)) =
      (Inr v, nbt_at (reader_at (pre @ bs @ bs') rest) (fst c2) (snd c2))"
    by (simp add: and_then_def)
qed

text \<open>A first step that reads nothing.\<close>

lemma nbt_decodes_step:
  "nbt_decodes m [] c c1 a \<Longrightarrow> nbt_decodes (k a) bs c1 c2 v \<Longrightarrow> nbt_decodes (and_then m k) bs c c2 v"
  using nbt_decodes_and_then[of m "[]"] by simp

lemma nbt_decodes_last:
  "nbt_decodes m bs c c' a \<Longrightarrow> v = f a \<Longrightarrow> nbt_decodes (and_then m (\<lambda>x. ok (f x))) bs c c' v"
  using nbt_decodes_and_then[of m bs c c' a "\<lambda>x. ok (f x)" "[]" c' v] by (simp add: nbt_decodes_ok)

lemma nbt_decodes_on_reader: "decodes m bs v \<Longrightarrow> nbt_decodes (on_reader m) bs c c v"
  by (simp add: nbt_decodes_def decodes_def on_reader_def nbt_at_def)

lemma nbt_decodes_ensure: "p \<Longrightarrow> nbt_decodes (ensure p e) [] c c ()"
  by (simp add: nbt_decodes_def run_simps)

lemma nbt_decodes_lift_result: "r = Inr v \<Longrightarrow> nbt_decodes (lift_result r) [] c c v"
  by (simp add: nbt_decodes_def run_simps)

lemma nbt_decodes_charge:
  "charge_budget b n l = Inr b' \<Longrightarrow> nbt_decodes (charge l n) [] (t, b) (t, b') ()"
  by (simp add: nbt_decodes_def charge_def nbt_at_def)

lemma charge_budget_iff:
  "charge_budget b n l = Inr b' \<longleftrightarrow> b' = b + n \<and> b' \<le> usize_MAX \<and> b' \<le> nl_max_total_allocated_bytes l"
  by (auto simp: charge_budget_def split: option.splits)

definition valid_nbt_string :: "nbt_limits \<Rightarrow> nbt_string \<Rightarrow> bool" where
  "valid_nbt_string l s \<longleftrightarrow> encoded_len s \<le> max_string_encoded_bytes l"

definition enc_nbt_string :: "nbt_string \<Rightarrow> u8 list" where
  "enc_nbt_string s = to_be_bytes (of_nat (encoded_len s) :: u16) @ concat (map enc_unit s)"

lemma max_string_u16: "max_string_encoded_bytes l \<le> u16_MAX"
  by (simp add: max_string_encoded_bytes_def)

lemma unat_encoded_len: "valid_nbt_string l s \<Longrightarrow> unat (of_nat (encoded_len s) :: u16) = encoded_len s"
  using max_string_u16[of l]
  by (simp add: valid_nbt_string_def u16_MAX_def unsigned_of_nat take_bit_nat_eq_self)

lemma nbt_decodes_string:
  assumes valid: "valid_nbt_string l s" and charge: "charge_budget b (2 * encoded_len s) l = Inr b'"
    and alloc: "try_reserve (encoded_len s)"
  shows "nbt_decodes (decode_string try_reserve l) (enc_nbt_string s) (t, b) (t, b') s"
proof -
  let ?n = "encoded_len s" and ?bytes = "concat (map enc_unit s)"
  have n: "?n \<le> u16_MAX" using valid max_string_u16[of l] by (simp add: valid_nbt_string_def)
  have check: "validate_encoded_length ?n l = Inr ()"
    using valid by (simp add: validate_encoded_length_def valid_nbt_string_def)
  have bytes: "?n = length ?bytes" by (simp only: length_enc_units)
  have "length ?bytes \<le> usize_MAX" using n unfolding length_enc_units by (simp add: u16_MAX_def usize_MAX_def)
  then have units: "decode_units ?bytes 0 [] = Inr s" using decode_units_enc[of 0 ?bytes s "[]"] by simp
  have mul: "checked_mul ?n 2 = Some (2 * ?n)" using n by (simp add: u16_MAX_def usize_MAX_def)
  have "nbt_decodes (decode_string try_reserve l) (to_be_bytes (of_nat ?n :: u16) @ ?bytes @ []) (t, b) (t, b') s"
    unfolding decode_string_def Let_def
  proof (rule nbt_decodes_and_then[OF nbt_decodes_on_reader[OF decodes_fixed_width(4)]], unfold unat_encoded_len[OF valid])
    show "nbt_decodes
       (and_then (lift_result (validate_encoded_length ?n l)) (\<lambda>_.
        and_then (on_reader (read_bytes ?n ''NBT Modified UTF-8 bytes'')) (\<lambda>bytes.
        and_then (case checked_mul ?n 2 of
                    None \<Rightarrow> fail (AllocationBudgetExceeded usize_MAX (nl_max_total_allocated_bytes l))
                  | Some allocation \<Rightarrow> charge l allocation) (\<lambda>_.
        and_then (ensure (try_reserve ?n) (NbtAllocationFailed ''NBT string UTF-16 units'' ?n)) (\<lambda>_.
        lift_result (decode_units bytes 0 []))))))
       (?bytes @ []) (t, b) (t, b') s"
      unfolding mul option.case
      by (rule nbt_decodes_step[OF nbt_decodes_lift_result[OF check]]
            nbt_decodes_and_then[OF nbt_decodes_on_reader[OF decodes_read_bytes[OF bytes]]]
            nbt_decodes_step[OF nbt_decodes_charge[OF charge]] nbt_decodes_step[OF nbt_decodes_ensure[OF alloc]]
            nbt_decodes_lift_result[OF units])+
  qed
  then show ?thesis by (simp add: enc_nbt_string_def)
qed

lemma appends_lift_result_then: "r = Inr () \<Longrightarrow> appends (k ()) bs \<Longrightarrow> appends (and_then (lift_result r) k) bs"
  by (simp add: appends_def and_then_lift_result)

lemma appends_write_units [appends_intros]: "appends (emit (write_each write_unit s)) (concat (map enc_unit s))"
  by (rule appends_emit_write_each) (simp add: appends_def emit_def write_unit_eq)

lemma appends_encode_string [appends_intros]:
  assumes "valid_nbt_string l s"
  shows "appends (encode_string l s) (enc_nbt_string s)"
proof -
  have "encoded_len s \<le> u16_MAX" using assms max_string_u16[of l] by (simp add: valid_nbt_string_def)
  then show ?thesis
    using assms unfolding encode_string_def enc_nbt_string_def
    by (intro appends_lift_result_then appends_intros)
      (simp_all add: valid_nbt_string_def validate_encoded_length_def)
qed

section \<open>Tags\<close>

text \<open>
  \<open>NbtList\<close> is its element type id and its elements; \<open>NbtCompound\<close> is the list of its entries in key
  order, as the \<open>BTreeMap\<close> iterates them. Floats are their bit patterns, which is how the code
  compares them.
\<close>

datatype nbt_tag =
    Tag_Byte i8
  | Tag_Short i16
  | Tag_Int i32
  | Tag_Long i64
  | Tag_Float u32
  | Tag_Double u64
  | Tag_ByteArray "u8 list"
  | Tag_String nbt_string
  | Tag_List u8 "nbt_tag list"
  | Tag_Compound "(nbt_string \<times> nbt_tag) list"
  | Tag_IntArray "i32 list"
  | Tag_LongArray "i64 list"

type_synonym nbt_compound = "(nbt_string \<times> nbt_tag) list"

record named_nbt_root =
  root_name :: nbt_string
  root_compound :: nbt_compound

definition tag_type :: "nbt_tag \<Rightarrow> nbt_tag_type" where
  "tag_type t =
     (case t of Tag_Byte _ \<Rightarrow> Type_Byte | Tag_Short _ \<Rightarrow> Type_Short | Tag_Int _ \<Rightarrow> Type_Int
      | Tag_Long _ \<Rightarrow> Type_Long | Tag_Float _ \<Rightarrow> Type_Float | Tag_Double _ \<Rightarrow> Type_Double
      | Tag_ByteArray _ \<Rightarrow> Type_ByteArray | Tag_String _ \<Rightarrow> Type_String | Tag_List _ _ \<Rightarrow> Type_List
      | Tag_Compound _ \<Rightarrow> Type_Compound | Tag_IntArray _ \<Rightarrow> Type_IntArray | Tag_LongArray _ \<Rightarrow> Type_LongArray)"

fun first_mismatch :: "nbt_tag_type \<Rightarrow> nat \<Rightarrow> nbt_tag list \<Rightarrow> (nat \<times> nbt_tag_type) option" where
  "first_mismatch expected i [] = None"
| "first_mismatch expected i (t # ts) =
     (if tag_type t \<noteq> expected then Some (i, tag_type t) else first_mismatch expected (Suc i) ts)"

definition validate_list :: "u8 \<Rightarrow> nbt_tag list \<Rightarrow> nbt_error + unit" where
  "validate_list element_type_id elements =
     (if elements = [] then Inr ()
      else case type_from_id element_type_id of
        None \<Rightarrow> Inl (InvalidTagId element_type_id)
      | Some expected \<Rightarrow>
          if expected = Type_End then Inl EndListWithElements
          else case first_mismatch expected 0 elements of
            Some (index, found) \<Rightarrow> Inl (HeterogeneousList expected found index)
          | None \<Rightarrow> Inr ())"

definition nbt_list_new :: "nbt_tag_type \<Rightarrow> nbt_tag list \<Rightarrow> nbt_error + nbt_tag" where
  "nbt_list_new element_type elements =
     (case validate_list (type_id element_type) elements of
        Inl e \<Rightarrow> Inl e | Inr _ \<Rightarrow> Inr (Tag_List (type_id element_type) elements))"

definition empty_with_type_id :: "u8 \<Rightarrow> nbt_tag" where
  "empty_with_type_id n = Tag_List n []"

text \<open>\<open>BTreeMap::insert\<close>, and the lookups of \<open>NbtCompound\<close>.\<close>

fun compound_insert :: "nbt_string \<Rightarrow> nbt_tag \<Rightarrow> nbt_compound \<Rightarrow> nbt_compound" where
  "compound_insert k v [] = [(k, v)]"
| "compound_insert k v ((k', v') # es) =
     (if k < k' then (k, v) # (k', v') # es
      else if k = k' then (k, v) # es
      else (k', v') # compound_insert k v es)"

definition compound_get :: "nbt_string \<Rightarrow> nbt_compound \<Rightarrow> nbt_tag option" where
  "compound_get k c = map_of c k"

text \<open>The UTF-16 code units of a Rust string (\<open>encode_utf16\<close>).\<close>

definition encode_utf16 :: "rust_str \<Rightarrow> u16 list" where
  "encode_utf16 s = concat (map (\<lambda>c.
     if c < 0x10000 then [of_nat c]
     else [of_nat (0xD800 + (c - 0x10000) div 1024), of_nat (0xDC00 + (c - 0x10000) mod 1024)]) s)"

definition get_str :: "rust_str \<Rightarrow> nbt_compound \<Rightarrow> nbt_tag option" where
  "get_str name c = find_map (\<lambda>(candidate, val). if candidate = encode_utf16 name then Some val else None) c"

definition get_int :: "rust_str \<Rightarrow> nbt_compound \<Rightarrow> i32 option" where
  "get_int name c = (case get_str name c of Some (Tag_Int v) \<Rightarrow> Some v | _ \<Rightarrow> None)"

definition get_string :: "rust_str \<Rightarrow> nbt_compound \<Rightarrow> nbt_string option" where
  "get_string name c = (case get_str name c of Some (Tag_String v) \<Rightarrow> Some v | _ \<Rightarrow> None)"

definition sorted_keys :: "nbt_compound \<Rightarrow> bool" where
  "sorted_keys c = sorted_wrt (<) (map fst c)"

lemma compound_insert_keys: "fst ` set (compound_insert k v c) = insert k (fst ` set c)"
  by (induction k v c rule: compound_insert.induct) auto

lemma compound_insert_sorted: "sorted_keys c \<Longrightarrow> sorted_keys (compound_insert k v c)"
proof (induction k v c rule: compound_insert.induct)
  case (1 k v)
  then show ?case by (simp add: sorted_keys_def)
next
  case (2 k v k' v' es)
  have "\<forall>x\<in>fst ` set (compound_insert k v es). k' < x" if "k' < k" "\<forall>x\<in>fst ` set es. k' < x"
    using that by (simp add: compound_insert_keys)
  with 2 show ?case by (auto simp: sorted_keys_def)
qed

lemma compound_insert_last:
  "\<forall>k'\<in>fst ` set c. k' < k \<Longrightarrow> compound_insert k v c = c @ [(k, v)]"
  by (induction c) auto

lemma compound_get_insert:
  assumes "sorted_keys c"
  shows "compound_get k' (compound_insert k v c) = (if k' = k then Some v else compound_get k' c)"
  using assms
proof (induction k v c rule: compound_insert.induct)
  case (1 k v)
  then show ?case by (simp add: compound_get_def)
next
  case (2 k v k1 v1 es)
  then show ?case by (auto simp: compound_get_def sorted_keys_def)
qed

lemma first_mismatch_None: "first_mismatch expected i ts = None \<longleftrightarrow> (\<forall>t\<in>set ts. tag_type t = expected)"
  by (induction ts arbitrary: i) auto

lemma first_mismatch_Some: "first_mismatch expected i ts = Some m \<Longrightarrow> \<exists>t\<in>set ts. tag_type t \<noteq> expected"
  using first_mismatch_None[of expected i ts] by auto

lemma validate_list_ok:
  "validate_list n elements = Inr () \<longleftrightarrow>
     elements = [] \<or> (\<exists>ty. n = type_id ty \<and> ty \<noteq> Type_End \<and> (\<forall>t\<in>set elements. tag_type t = ty))"
  using type_id_from_id[of n]
  by (auto simp: validate_list_def first_mismatch_None split: option.splits dest!: first_mismatch_Some)

lemma tag_type_not_End [simp]: "tag_type t \<noteq> Type_End"
  by (cases t) (simp_all add: tag_type_def)

end
