(* ===== verification/Nbt_Decode.thy ===== *)
theory Nbt_Decode
  imports Nbt_Tag
begin

text \<open>
  \<open>cubic-protocol/src/nbt/decode.rs\<close>: the bounded NBT decoder. \<open>nbt_env\<close> holds what the code takes
  from its environment: the in-memory sizes the compiler gives \<open>NbtTag\<close> and \<open>NbtString\<close>, used in the
  budget, and the allocator. The recursion ends because every nested value is one deeper and a
  depth is a \<open>usize\<close>.
\<close>

record nbt_env =
  sizeof_tag :: nat
  sizeof_string :: nat
  try_reserve_exact :: allocator

definition compound_entry_budget :: "nbt_env \<Rightarrow> nat" where
  "compound_entry_budget env = sizeof_string env + sizeof_tag env + 4 * 8"

section \<open>The decoder\<close>

definition read_type_id :: "string \<Rightarrow> u8 nbt_op" where
  "read_type_id ctx =
     and_then (on_reader (read_bytes 1 ctx))
       (\<lambda>bytes. case bytes of b # _ \<Rightarrow> ok b | [] \<Rightarrow> fail (NbtCodec (UnexpectedEnd ctx 1 0)))"

definition next_depth :: "nat \<Rightarrow> nbt_limits \<Rightarrow> nbt_error + nat" where
  "next_depth depth l =
     (case checked_add depth 1 of
        Some d \<Rightarrow> Inr d | None \<Rightarrow> Inl (DepthLimitExceeded usize_MAX (nl_max_depth l)))"

definition checked_collection_bytes :: "nbt_collection_kind \<Rightarrow> nat \<Rightarrow> nat \<Rightarrow> nbt_error + nat" where
  "checked_collection_bytes kind len element_size =
     (case checked_mul len element_size of
        Some n \<Rightarrow> Inr n | None \<Rightarrow> Inl (CollectionSizeOverflow kind len element_size))"

definition check_collection_limit :: "nbt_collection_kind \<Rightarrow> nat \<Rightarrow> nat \<Rightarrow> nbt_error + unit" where
  "check_collection_limit kind len m = (if m < len then Inl (CollectionTooLarge kind len m) else Inr ())"

definition check_array_length :: "nbt_limits \<Rightarrow> nat \<Rightarrow> nbt_collection_kind \<Rightarrow> nat \<Rightarrow> nbt_error + nat" where
  "check_array_length l len kind element_size =
     (case check_collection_limit kind len (nl_max_array_elements l) of
        Inl e \<Rightarrow> Inl e | Inr _ \<Rightarrow> checked_collection_bytes kind len element_size)"

definition read_collection_length :: "nbt_collection_kind \<Rightarrow> nat nbt_op" where
  "read_collection_length kind =
     and_then (on_reader read_i32)
       (\<lambda>v. if v <s 0 then fail (NegativeCollectionLength kind v) else ok (unat v))"

definition reserve :: "nbt_env \<Rightarrow> nat \<Rightarrow> string \<Rightarrow> unit nbt_op" where
  "reserve env len ctx = ensure (try_reserve_exact env len) (NbtAllocationFailed ctx len)"

definition add_tag :: "nbt_limits \<Rightarrow> nat \<Rightarrow> unit nbt_op" where
  "add_tag l depth s =
     (if nl_max_depth l < depth then (Inl (DepthLimitExceeded depth (nl_max_depth l)), s)
      else case checked_add (total_tags s) 1 of
        None \<Rightarrow> (Inl (TotalTagLimitExceeded usize_MAX (nl_max_total_tags l)), s)
      | Some count \<Rightarrow>
          if nl_max_total_tags l < count
          then (Inl (TotalTagLimitExceeded count (nl_max_total_tags l)), s)
          else (Inr (), s\<lparr>total_tags := count\<rparr>))"

definition decode_byte_array :: "nbt_env \<Rightarrow> nbt_limits \<Rightarrow> nbt_tag nbt_op" where
  "decode_byte_array env l =
     and_then (read_collection_length Kind_ByteArray) (\<lambda>len.
     and_then (lift_result (check_array_length l len Kind_ByteArray 1)) (\<lambda>_.
     and_then (on_reader (read_bytes len ''TAG_Byte_Array payload'')) (\<lambda>bytes.
     and_then (charge l len) (\<lambda>_.
     and_then (reserve env len ''TAG_Byte_Array elements'') (\<lambda>_.
     ok (Tag_ByteArray bytes))))))"

text \<open>Reading the elements of an array from its own bytes with a second reader.\<close>

definition read_array_elements :: "nat \<Rightarrow> 'a reader_op \<Rightarrow> u8 list \<Rightarrow> 'a list nbt_op" where
  "read_array_elements len m bytes s =
     (case read_n len m (new_reader bytes) of
        (Inl e, _) \<Rightarrow> (Inl (NbtCodec e), s) | (Inr xs, _) \<Rightarrow> (Inr xs, s))"

definition decode_int_array :: "nbt_env \<Rightarrow> nbt_limits \<Rightarrow> nbt_tag nbt_op" where
  "decode_int_array env l =
     and_then (read_collection_length Kind_IntArray) (\<lambda>len.
     and_then (lift_result (check_array_length l len Kind_IntArray 4)) (\<lambda>byte_length.
     and_then (on_reader (read_bytes byte_length ''TAG_Int_Array payload'')) (\<lambda>bytes.
     and_then (charge l byte_length) (\<lambda>_.
     and_then (reserve env len ''TAG_Int_Array elements'') (\<lambda>_.
     and_then (read_array_elements len read_i32 bytes) (\<lambda>xs.
     ok (Tag_IntArray xs)))))))"

definition decode_long_array :: "nbt_env \<Rightarrow> nbt_limits \<Rightarrow> nbt_tag nbt_op" where
  "decode_long_array env l =
     and_then (read_collection_length Kind_LongArray) (\<lambda>len.
     and_then (lift_result (check_array_length l len Kind_LongArray 8)) (\<lambda>byte_length.
     and_then (on_reader (read_bytes byte_length ''TAG_Long_Array payload'')) (\<lambda>bytes.
     and_then (charge l byte_length) (\<lambda>_.
     and_then (reserve env len ''TAG_Long_Array elements'') (\<lambda>_.
     and_then (read_array_elements len read_i64 bytes) (\<lambda>xs.
     ok (Tag_LongArray xs)))))))"

text \<open>\<open>NbtTagType::from_id(id).ok_or(..)\<close>, and the count of entries in \<open>decode_compound\<close>.\<close>

definition require_type :: "u8 \<Rightarrow> nbt_error + nbt_tag_type" where
  "require_type n = (case type_from_id n of None \<Rightarrow> Inl (InvalidTagId n) | Some ty \<Rightarrow> Inr ty)"

definition count_entry :: "nat \<Rightarrow> nbt_limits \<Rightarrow> nbt_error + nat" where
  "count_entry wire_entries l =
     (case checked_add wire_entries 1 of
        None \<Rightarrow> Inl (CollectionTooLarge Kind_Compound usize_MAX (nl_max_compound_entries l))
      | Some w \<Rightarrow> Inr w)"

text \<open>What \<open>decode_list\<close> checks between the length and the elements.\<close>

definition check_list_header :: "nbt_env \<Rightarrow> nbt_limits \<Rightarrow> u8 \<Rightarrow> nat \<Rightarrow> nbt_tag_type nbt_op" where
  "check_list_header env l element_type_id len =
     and_then (lift_result (check_collection_limit Kind_List len (nl_max_list_elements l))) (\<lambda>_.
     and_then (lift_result (require_type element_type_id)) (\<lambda>element_type.
     and_then (ensure (element_type \<noteq> Type_End) EndListWithElements) (\<lambda>_.
     and_then (lift_result (checked_collection_bytes Kind_List len (sizeof_tag env))) (\<lambda>allocation.
     and_then (charge l allocation) (\<lambda>_.
     and_then (reserve env len ''TAG_List elements'') (\<lambda>_.
     ok element_type))))))"

lemma next_depth_ok: "next_depth d l = Inr c \<longleftrightarrow> c = d + 1 \<and> c \<le> usize_MAX"
  by (auto simp: next_depth_def split: option.splits)

text \<open>
  The mutual recursion of \<open>decode_payload\<close>, the loop of \<open>decode_list\<close> over its elements and the loop
  of \<open>decode_compound\<close> over its entries.
\<close>

function (sequential)
  decode_payload :: "nbt_env \<Rightarrow> nbt_limits \<Rightarrow> nbt_tag_type \<Rightarrow> nat \<Rightarrow> nbt_tag nbt_op" and
  decode_elements :: "nbt_env \<Rightarrow> nbt_limits \<Rightarrow> nbt_tag_type \<Rightarrow> nat \<Rightarrow> nat \<Rightarrow> nbt_tag list nbt_op" and
  decode_entries :: "nbt_env \<Rightarrow> nbt_limits \<Rightarrow> nat \<Rightarrow> nat \<Rightarrow> nbt_compound \<Rightarrow> nbt_compound nbt_op"
where
  "decode_payload env l ty depth s =
     and_then (add_tag l depth) (\<lambda>_ s.
       case ty of
         Type_End \<Rightarrow> fail (UnexpectedEndTag ''NBT payload'') s
       | Type_Byte \<Rightarrow> and_then (on_reader read_i8) (\<lambda>v. ok (Tag_Byte v)) s
       | Type_Short \<Rightarrow> and_then (on_reader read_i16) (\<lambda>v. ok (Tag_Short v)) s
       | Type_Int \<Rightarrow> and_then (on_reader read_i32) (\<lambda>v. ok (Tag_Int v)) s
       | Type_Long \<Rightarrow> and_then (on_reader read_i64) (\<lambda>v. ok (Tag_Long v)) s
       | Type_Float \<Rightarrow> and_then (on_reader read_f32) (\<lambda>v. ok (Tag_Float v)) s
       | Type_Double \<Rightarrow> and_then (on_reader read_f64) (\<lambda>v. ok (Tag_Double v)) s
       | Type_ByteArray \<Rightarrow> decode_byte_array env l s
       | Type_String \<Rightarrow> and_then (decode_string (try_reserve_exact env) l) (\<lambda>v. ok (Tag_String v)) s
       | Type_List \<Rightarrow>
           and_then (read_type_id ''TAG_List element type'') (\<lambda>element_type_id.
           and_then (on_reader read_i32) (\<lambda>signed_length s.
           if signed_length <=s 0 then ok (empty_with_type_id element_type_id) s
           else
             and_then (check_list_header env l element_type_id (unat signed_length)) (\<lambda>element_type.
             and_then (lift_result (next_depth depth l)) (\<lambda>child_depth.
             and_then (decode_elements env l element_type child_depth (unat signed_length)) (\<lambda>elements.
             lift_result (nbt_list_new element_type elements)))) s)) s
       | Type_Compound \<Rightarrow> and_then (decode_entries env l depth 0 []) (\<lambda>c. ok (Tag_Compound c)) s
       | Type_IntArray \<Rightarrow> decode_int_array env l s
       | Type_LongArray \<Rightarrow> decode_long_array env l s) s"
| "decode_elements env l ty depth 0 s = ok [] s"
| "decode_elements env l ty depth (Suc n) s =
     and_then (decode_payload env l ty depth) (\<lambda>x.
     and_then (decode_elements env l ty depth n) (\<lambda>xs. ok (x # xs))) s"
| "decode_entries env l depth wire_entries compound s =
     and_then (read_type_id ''TAG_Compound child type'') (\<lambda>tid s.
       if tid = type_id Type_End then ok compound s
       else
         and_then (lift_result (count_entry wire_entries l)) (\<lambda>wire.
         and_then (lift_result (check_collection_limit Kind_Compound wire (nl_max_compound_entries l))) (\<lambda>_.
         and_then (lift_result (require_type tid)) (\<lambda>ty.
         and_then (charge l (compound_entry_budget env)) (\<lambda>_.
         and_then (decode_string (try_reserve_exact env) l) (\<lambda>name.
         and_then (lift_result (next_depth depth l)) (\<lambda>child_depth.
         and_then (decode_payload env l ty child_depth) (\<lambda>val.
         decode_entries env l depth wire (compound_insert name val compound)))))))) s) s"
  by pat_completeness auto
termination
  by (relation "measures
      [\<lambda>x. case x of Inl (env, l, ty, depth, s) \<Rightarrow> usize_MAX + 1 - depth
         | Inr (Inl (env, l, ty, depth, n, s)) \<Rightarrow> usize_MAX + 1 - depth
         | Inr (Inr (env, l, depth, w, c, s)) \<Rightarrow> usize_MAX + 1 - depth,
       \<lambda>x. case x of Inl _ \<Rightarrow> 1 | Inr (Inl _) \<Rightarrow> 2 | Inr (Inr _) \<Rightarrow> 0,
       \<lambda>x. case x of Inl _ \<Rightarrow> 0 | Inr (Inl (env, l, ty, depth, n, s)) \<Rightarrow> n
         | Inr (Inr (env, l, depth, w, c, s)) \<Rightarrow> nl_max_compound_entries l + 1 - w]")
    (auto simp: next_depth_ok check_collection_limit_def count_entry_def run_simps
      split: if_splits option.splits)

declare decode_payload.simps [simp del] decode_entries.simps [simp del]

section \<open>Documents\<close>

text \<open>A fresh \<open>DecodeContext\<close> over the caller's reader.\<close>

definition with_context :: "'a nbt_op \<Rightarrow> (codec_reader, nbt_error, 'a) fallible" where
  "with_context m r = (case m (nbt_at r 0 0) of (res, s) \<Rightarrow> (res, nbt_reader s))"

definition require_compound_root :: "unit nbt_op" where
  "require_compound_root =
     and_then (read_type_id ''NBT root type'') (\<lambda>n.
     and_then (ensure (n \<noteq> type_id Type_End) (UnexpectedEndTag ''NBT root'')) (\<lambda>_.
     ensure (n = type_id Type_Compound) (InvalidRootType n)))"

definition decode_compound :: "nbt_env \<Rightarrow> nbt_limits \<Rightarrow> nat \<Rightarrow> nbt_compound nbt_op" where
  "decode_compound env l depth = decode_entries env l depth 0 []"

definition decode_named_root :: "nbt_env \<Rightarrow> nbt_limits \<Rightarrow> (codec_reader, nbt_error, named_nbt_root) fallible" where
  "decode_named_root env l = with_context
     (and_then require_compound_root (\<lambda>_.
      and_then (add_tag l 0) (\<lambda>_.
      and_then (decode_string (try_reserve_exact env) l) (\<lambda>name.
      and_then (decode_compound env l 0) (\<lambda>c.
      ok \<lparr>root_name = name, root_compound = c\<rparr>)))))"

definition decode_unnamed_network_root :: "nbt_env \<Rightarrow> nbt_limits \<Rightarrow> (codec_reader, nbt_error, nbt_compound) fallible" where
  "decode_unnamed_network_root env l = with_context
     (and_then require_compound_root (\<lambda>_.
      and_then (add_tag l 0) (\<lambda>_.
      decode_compound env l 0)))"

definition decode_unnamed_network_tag :: "nbt_env \<Rightarrow> nbt_limits \<Rightarrow> (codec_reader, nbt_error, nbt_tag) fallible" where
  "decode_unnamed_network_tag env l = with_context
     (and_then (read_type_id ''NBT root type'') (\<lambda>n.
      and_then (ensure (n \<noteq> type_id Type_End) (UnexpectedEndTag ''NBT root'')) (\<lambda>_.
      and_then (lift_result (require_type n)) (\<lambda>ty.
      decode_payload env l ty 0))))"

definition reject_trailing :: "codec_reader \<Rightarrow> nbt_error + unit" where
  "reject_trailing r = (if remaining r = 0 then Inr () else Inl (TrailingData (remaining r)))"

definition complete :: "(codec_reader, nbt_error, 'a) fallible \<Rightarrow> u8 list \<Rightarrow> nbt_error + 'a" where
  "complete m bytes =
     (case m (new_reader bytes) of
        (Inl e, _) \<Rightarrow> Inl e
      | (Inr root, r) \<Rightarrow> (case reject_trailing r of Inl e \<Rightarrow> Inl e | Inr _ \<Rightarrow> Inr root))"

definition decode_named_root_complete :: "nbt_env \<Rightarrow> nbt_limits \<Rightarrow> u8 list \<Rightarrow> nbt_error + named_nbt_root" where
  "decode_named_root_complete env l = complete (decode_named_root env l)"

definition decode_unnamed_network_root_complete :: "nbt_env \<Rightarrow> nbt_limits \<Rightarrow> u8 list \<Rightarrow> nbt_error + nbt_compound" where
  "decode_unnamed_network_root_complete env l = complete (decode_unnamed_network_root env l)"

definition decode_unnamed_network_tag_complete :: "nbt_env \<Rightarrow> nbt_limits \<Rightarrow> u8 list \<Rightarrow> nbt_error + nbt_tag" where
  "decode_unnamed_network_tag_complete env l = complete (decode_unnamed_network_tag env l)"

section \<open>The steps of the decoder\<close>

lemma add_tag_ok:
  "add_tag l d s = (Inr (), s') \<longleftrightarrow>
     d \<le> nl_max_depth l \<and> total_tags s + 1 \<le> usize_MAX \<and> total_tags s + 1 \<le> nl_max_total_tags l \<and>
     s' = s\<lparr>total_tags := total_tags s + 1\<rparr>"
  by (auto simp: add_tag_def split: option.splits if_splits)

lemma nbt_decodes_add_tag:
  assumes "d \<le> nl_max_depth l" "t + 1 \<le> usize_MAX" "t + 1 \<le> nl_max_total_tags l"
  shows "nbt_decodes (add_tag l d) [] (t, b) (t + 1, b) ()"
proof -
  have "add_tag l d (nbt_at r t b) = (Inr (), nbt_at r (t + 1) b)" for r
    using assms add_tag_ok[of l d "nbt_at r t b"] by (simp add: nbt_at_def)
  then show ?thesis by (simp add: nbt_decodes_def)
qed

lemma nbt_decodes_read_type_id: "nbt_decodes (read_type_id ctx) [n] c c n"
proof -
  have "nbt_decodes (and_then (on_reader (read_bytes 1 ctx))
      (\<lambda>bytes. case bytes of b # _ \<Rightarrow> ok b | [] \<Rightarrow> fail (NbtCodec (UnexpectedEnd ctx 1 0)))) ([n] @ []) c c n"
    by (rule nbt_decodes_and_then[OF nbt_decodes_on_reader[OF decodes_read_bytes]]) (simp_all add: nbt_decodes_ok)
  then show ?thesis by (simp add: read_type_id_def)
qed

lemma nbt_decodes_read_collection_length:
  assumes "n \<le> i32_MAX"
  shows "nbt_decodes (read_collection_length kind) (to_be_bytes (of_nat n :: i32)) c c n"
proof -
  have "nbt_decodes (read_collection_length kind) (to_be_bytes (of_nat n :: i32) @ []) c c n"
    unfolding read_collection_length_def
    by (rule nbt_decodes_and_then[OF nbt_decodes_on_reader[OF decodes_fixed_width(5)]])
      (simp add: of_nat_nonneg_i32 unat_of_nat_i32 assms nbt_decodes_ok)
  then show ?thesis by simp
qed

lemma nbt_decodes_read_array_elements:
  assumes "decodes (read_n len m) bytes xs" and "length bytes \<le> usize_MAX"
  shows "nbt_decodes (read_array_elements len m bytes) [] c c xs"
  using decodes_complete[OF assms] by (simp add: nbt_decodes_def read_array_elements_def)

lemma decode_payload_eq:
  "decode_payload env l Type_Byte d = and_then (add_tag l d) (\<lambda>_. and_then (on_reader read_i8) (\<lambda>v. ok (Tag_Byte v)))"
  "decode_payload env l Type_Short d = and_then (add_tag l d) (\<lambda>_. and_then (on_reader read_i16) (\<lambda>v. ok (Tag_Short v)))"
  "decode_payload env l Type_Int d = and_then (add_tag l d) (\<lambda>_. and_then (on_reader read_i32) (\<lambda>v. ok (Tag_Int v)))"
  "decode_payload env l Type_Long d = and_then (add_tag l d) (\<lambda>_. and_then (on_reader read_i64) (\<lambda>v. ok (Tag_Long v)))"
  "decode_payload env l Type_Float d = and_then (add_tag l d) (\<lambda>_. and_then (on_reader read_f32) (\<lambda>v. ok (Tag_Float v)))"
  "decode_payload env l Type_Double d = and_then (add_tag l d) (\<lambda>_. and_then (on_reader read_f64) (\<lambda>v. ok (Tag_Double v)))"
  "decode_payload env l Type_ByteArray d = and_then (add_tag l d) (\<lambda>_. decode_byte_array env l)"
  "decode_payload env l Type_String d =
     and_then (add_tag l d) (\<lambda>_. and_then (decode_string (try_reserve_exact env) l) (\<lambda>v. ok (Tag_String v)))"
  "decode_payload env l Type_Compound d =
     and_then (add_tag l d) (\<lambda>_. and_then (decode_entries env l d 0 []) (\<lambda>c. ok (Tag_Compound c)))"
  "decode_payload env l Type_IntArray d = and_then (add_tag l d) (\<lambda>_. decode_int_array env l)"
  "decode_payload env l Type_LongArray d = and_then (add_tag l d) (\<lambda>_. decode_long_array env l)"
  by (rule ext, subst decode_payload.simps, simp)+

definition decode_list :: "nbt_env \<Rightarrow> nbt_limits \<Rightarrow> nat \<Rightarrow> nbt_tag nbt_op" where
  "decode_list env l depth =
     and_then (read_type_id ''TAG_List element type'') (\<lambda>element_type_id.
     and_then (on_reader read_i32) (\<lambda>signed_length.
     if signed_length <=s 0 then ok (empty_with_type_id element_type_id)
     else
       and_then (check_list_header env l element_type_id (unat signed_length)) (\<lambda>element_type.
       and_then (lift_result (next_depth depth l)) (\<lambda>child_depth.
       and_then (decode_elements env l element_type child_depth (unat signed_length)) (\<lambda>elements.
       lift_result (nbt_list_new element_type elements))))))"

lemma decode_payload_list_eq:
  "decode_payload env l Type_List d = and_then (add_tag l d) (\<lambda>_. decode_list env l d)"
proof -
  have push: "(\<lambda>s. if c then f s else g s) = (if c then f else g)" for c and f g :: "'a nbt_op" by auto
  show ?thesis by (rule ext, subst decode_payload.simps) (simp add: decode_list_def push)
qed

definition decode_entry :: "nbt_env \<Rightarrow> nbt_limits \<Rightarrow> nat \<Rightarrow> nat \<Rightarrow> nbt_compound \<Rightarrow> u8 \<Rightarrow> nbt_compound nbt_op" where
  "decode_entry env l depth wire_entries compound tid =
     and_then (lift_result (count_entry wire_entries l)) (\<lambda>wire.
     and_then (lift_result (check_collection_limit Kind_Compound wire (nl_max_compound_entries l))) (\<lambda>_.
     and_then (lift_result (require_type tid)) (\<lambda>ty.
     and_then (charge l (compound_entry_budget env)) (\<lambda>_.
     and_then (decode_string (try_reserve_exact env) l) (\<lambda>name.
     and_then (lift_result (next_depth depth l)) (\<lambda>child_depth.
     and_then (decode_payload env l ty child_depth) (\<lambda>val.
     decode_entries env l depth wire (compound_insert name val compound))))))))"

lemma decode_entries_eq:
  "decode_entries env l d w c =
     and_then (read_type_id ''TAG_Compound child type'') (\<lambda>tid.
       if tid = type_id Type_End then ok c else decode_entry env l d w c tid)"
proof -
  have push: "(\<lambda>s. if c then f s else g s) = (if c then f else g)" for c and f g :: "'a nbt_op" by auto
  show ?thesis by (rule ext, subst decode_entries.simps) (simp only: decode_entry_def push)
qed

lemma decode_elements_eq:
  "decode_elements env l ty d 0 = ok []"
  "decode_elements env l ty d (Suc n) =
     and_then (decode_payload env l ty d) (\<lambda>x. and_then (decode_elements env l ty d n) (\<lambda>xs. ok (x # xs)))"
  by (rule ext, simp)+

end
