(* ===== verification/Nbt_Encode.thy ===== *)
theory Nbt_Encode
  imports Nbt_Decode
begin

text \<open>
  \<open>cubic-protocol/src/nbt/encode.rs\<close>: the encoder, which first validates a value against the limits
  with the counters of \<open>EncodeContext\<close> and then writes it. The counters of the validation are those
  of the decoder: a value that passes validation is read back with exactly the same counts
  (\<open>validated_tag_decodes\<close>), which gives the round trips.
\<close>

section \<open>Validation\<close>

record encode_context =
  enc_total_tags :: nat
  resource_bytes :: nat

type_synonym validate_op = "(encode_context, nbt_error, unit) fallible"

definition encode_context_new :: encode_context where
  "encode_context_new = \<lparr>enc_total_tags = 0, resource_bytes = 0\<rparr>"

definition validate_add_tag :: "nbt_limits \<Rightarrow> nat \<Rightarrow> validate_op" where
  "validate_add_tag l depth s =
     (if nl_max_depth l < depth then (Inl (DepthLimitExceeded depth (nl_max_depth l)), s)
      else case checked_add (enc_total_tags s) 1 of
        None \<Rightarrow> (Inl (TotalTagLimitExceeded usize_MAX (nl_max_total_tags l)), s)
      | Some count \<Rightarrow>
          if nl_max_total_tags l < count
          then (Inl (TotalTagLimitExceeded count (nl_max_total_tags l)), s)
          else (Inr (), s\<lparr>enc_total_tags := count\<rparr>))"

definition validate_charge :: "nbt_limits \<Rightarrow> nat \<Rightarrow> validate_op" where
  "validate_charge l amount s =
     (case charge_budget (resource_bytes s) amount l of
        Inl e \<Rightarrow> (Inl e, s) | Inr b \<Rightarrow> (Inr (), s\<lparr>resource_bytes := b\<rparr>))"

definition validate_collection_length :: "nbt_collection_kind \<Rightarrow> nat \<Rightarrow> nat \<Rightarrow> nbt_error + unit" where
  "validate_collection_length kind len configured_max =
     (let m = min configured_max i32_MAX in
      if m < len then Inl (CollectionTooLarge kind len m) else Inr ())"

definition validate_array :: "nbt_limits \<Rightarrow> nat \<Rightarrow> nbt_collection_kind \<Rightarrow> nat \<Rightarrow> validate_op" where
  "validate_array l len kind element_size =
     and_then (lift_result (validate_collection_length kind len (nl_max_array_elements l))) (\<lambda>_.
     and_then (lift_result (checked_collection_bytes kind len element_size)) (\<lambda>bytes.
     validate_charge l bytes))"

definition validate_string :: "nbt_limits \<Rightarrow> nbt_string \<Rightarrow> validate_op" where
  "validate_string l s =
     and_then (lift_result (validate_encoded_length (encoded_len s) l)) (\<lambda>_.
     and_then (case checked_mul (encoded_len s) 2 of
                 None \<Rightarrow> fail (AllocationBudgetExceeded usize_MAX (nl_max_total_allocated_bytes l))
               | Some n \<Rightarrow> ok n) (\<lambda>allocation.
     validate_charge l allocation))"

fun
  validate_tag :: "nbt_env \<Rightarrow> nbt_limits \<Rightarrow> nbt_tag \<Rightarrow> nat \<Rightarrow> validate_op" and
  validate_elements :: "nbt_env \<Rightarrow> nbt_limits \<Rightarrow> nbt_tag list \<Rightarrow> nat \<Rightarrow> validate_op" and
  validate_entries :: "nbt_env \<Rightarrow> nbt_limits \<Rightarrow> (nbt_string \<times> nbt_tag) list \<Rightarrow> nat \<Rightarrow> validate_op"
where
  "validate_tag env l (Tag_ByteArray xs) depth =
     and_then (validate_add_tag l depth) (\<lambda>_. validate_array l (length xs) Kind_ByteArray 1)"
| "validate_tag env l (Tag_String s) depth =
     and_then (validate_add_tag l depth) (\<lambda>_. validate_string l s)"
| "validate_tag env l (Tag_List element_type_id elements) depth =
     and_then (validate_add_tag l depth) (\<lambda>_.
     and_then (lift_result (validate_list element_type_id elements)) (\<lambda>_.
     and_then (lift_result (validate_collection_length Kind_List (length elements) (nl_max_list_elements l))) (\<lambda>_.
     and_then (lift_result (checked_collection_bytes Kind_List (length elements) (sizeof_tag env))) (\<lambda>allocation.
     and_then (validate_charge l allocation) (\<lambda>_.
     and_then (lift_result (next_depth depth l)) (\<lambda>child_depth.
     validate_elements env l elements child_depth))))))"
| "validate_tag env l (Tag_Compound c) depth =
     and_then (validate_add_tag l depth) (\<lambda>_.
     and_then (lift_result (validate_collection_length Kind_Compound (length c) (nl_max_compound_entries l))) (\<lambda>_.
     and_then (lift_result (next_depth depth l)) (\<lambda>child_depth.
     validate_entries env l c child_depth)))"
| "validate_tag env l (Tag_IntArray xs) depth =
     and_then (validate_add_tag l depth) (\<lambda>_. validate_array l (length xs) Kind_IntArray 4)"
| "validate_tag env l (Tag_LongArray xs) depth =
     and_then (validate_add_tag l depth) (\<lambda>_. validate_array l (length xs) Kind_LongArray 8)"
| "validate_tag env l t depth = validate_add_tag l depth"
| "validate_elements env l [] depth = ok ()"
| "validate_elements env l (t # ts) depth =
     and_then (validate_tag env l t depth) (\<lambda>_. validate_elements env l ts depth)"
| "validate_entries env l [] depth = ok ()"
| "validate_entries env l ((name, val) # es) depth =
     and_then (validate_charge l (compound_entry_budget env)) (\<lambda>_.
     and_then (validate_string l name) (\<lambda>_.
     and_then (validate_tag env l val depth) (\<lambda>_.
     validate_entries env l es depth)))"

definition validate_compound :: "nbt_env \<Rightarrow> nbt_limits \<Rightarrow> nbt_compound \<Rightarrow> nat \<Rightarrow> validate_op" where
  "validate_compound env l c depth =
     and_then (lift_result (validate_collection_length Kind_Compound (length c) (nl_max_compound_entries l))) (\<lambda>_.
     and_then (lift_result (next_depth depth l)) (\<lambda>child_depth.
     validate_entries env l c child_depth))"

definition validate_root :: "nbt_env \<Rightarrow> nbt_limits \<Rightarrow> nbt_compound \<Rightarrow> nbt_string option \<Rightarrow> validate_op" where
  "validate_root env l root name =
     and_then (validate_add_tag l 0) (\<lambda>_.
     and_then (case name of None \<Rightarrow> ok () | Some n \<Rightarrow> validate_string l n) (\<lambda>_.
     validate_compound env l root 0))"

section \<open>Writing\<close>

definition collection_length :: "nat \<Rightarrow> nbt_collection_kind \<Rightarrow> nbt_error + i32" where
  "collection_length len kind =
     (if len \<le> i32_MAX then Inr (of_nat len) else Inl (CollectionTooLarge kind len i32_MAX))"

definition write_collection_length :: "nat \<Rightarrow> nbt_collection_kind \<Rightarrow> nbt_writer_op" where
  "write_collection_length len kind =
     and_then (lift_result (collection_length len kind)) (\<lambda>n. emit (write_i32 n))"

fun
  encode_payload :: "nbt_limits \<Rightarrow> nbt_tag \<Rightarrow> nbt_writer_op" and
  encode_elements :: "nbt_limits \<Rightarrow> nbt_tag list \<Rightarrow> nbt_writer_op" and
  encode_entries :: "nbt_limits \<Rightarrow> (nbt_string \<times> nbt_tag) list \<Rightarrow> nbt_writer_op"
where
  "encode_payload l (Tag_Byte v) = emit (write_i8 v)"
| "encode_payload l (Tag_Short v) = emit (write_i16 v)"
| "encode_payload l (Tag_Int v) = emit (write_i32 v)"
| "encode_payload l (Tag_Long v) = emit (write_i64 v)"
| "encode_payload l (Tag_Float v) = emit (write_f32 v)"
| "encode_payload l (Tag_Double v) = emit (write_f64 v)"
| "encode_payload l (Tag_ByteArray xs) =
     and_then (write_collection_length (length xs) Kind_ByteArray) (\<lambda>_. emit (write_bytes xs))"
| "encode_payload l (Tag_String s) = encode_string l s"
| "encode_payload l (Tag_List element_type_id elements) =
     and_then (emit (write_u8 element_type_id)) (\<lambda>_.
     and_then (write_collection_length (length elements) Kind_List) (\<lambda>_.
     encode_elements l elements))"
| "encode_payload l (Tag_Compound c) =
     and_then (encode_entries l c) (\<lambda>_. emit (write_u8 (type_id Type_End)))"
| "encode_payload l (Tag_IntArray xs) =
     and_then (write_collection_length (length xs) Kind_IntArray) (\<lambda>_. emit (write_each write_i32 xs))"
| "encode_payload l (Tag_LongArray xs) =
     and_then (write_collection_length (length xs) Kind_LongArray) (\<lambda>_. emit (write_each write_i64 xs))"
| "encode_elements l [] = ok ()"
| "encode_elements l (t # ts) = and_then (encode_payload l t) (\<lambda>_. encode_elements l ts)"
| "encode_entries l [] = ok ()"
| "encode_entries l ((name, val) # es) =
     and_then (emit (write_u8 (type_id (tag_type val)))) (\<lambda>_.
     and_then (encode_string l name) (\<lambda>_.
     and_then (encode_payload l val) (\<lambda>_.
     encode_entries l es)))"

definition encode_compound :: "nbt_limits \<Rightarrow> nbt_compound \<Rightarrow> nbt_writer_op" where
  "encode_compound l c = and_then (encode_entries l c) (\<lambda>_. emit (write_u8 (type_id Type_End)))"

text \<open>Validating with a fresh context, then writing into a fresh writer.\<close>

definition validated_output :: "validate_op \<Rightarrow> nbt_writer_op \<Rightarrow> nbt_error + u8 list" where
  "validated_output v m =
     (case v encode_context_new of
        (Inl e, _) \<Rightarrow> Inl e
      | (Inr _, _) \<Rightarrow> (case m new_writer of (Inl e, _) \<Rightarrow> Inl e | (Inr _, w) \<Rightarrow> Inr (out_bytes w)))"

definition encode_named_root :: "nbt_env \<Rightarrow> nbt_limits \<Rightarrow> named_nbt_root \<Rightarrow> nbt_error + u8 list" where
  "encode_named_root env l root =
     validated_output (validate_root env l (root_compound root) (Some (root_name root)))
       (and_then (emit (write_u8 (type_id Type_Compound))) (\<lambda>_.
        and_then (encode_string l (root_name root)) (\<lambda>_.
        encode_compound l (root_compound root))))"

definition encode_unnamed_network_root :: "nbt_env \<Rightarrow> nbt_limits \<Rightarrow> nbt_compound \<Rightarrow> nbt_error + u8 list" where
  "encode_unnamed_network_root env l root =
     validated_output (validate_root env l root None)
       (and_then (emit (write_u8 (type_id Type_Compound))) (\<lambda>_. encode_compound l root))"

definition encode_unnamed_network_tag :: "nbt_env \<Rightarrow> nbt_limits \<Rightarrow> nbt_tag \<Rightarrow> nbt_error + u8 list" where
  "encode_unnamed_network_tag env l t =
     validated_output (validate_tag env l t 0)
       (and_then (emit (write_u8 (type_id (tag_type t)))) (\<lambda>_. encode_payload l t))"

section \<open>The bytes of a tag\<close>

definition enc_count :: "nat \<Rightarrow> u8 list" where
  "enc_count n = to_be_bytes (of_nat n :: i32)"

fun
  enc_payload :: "nbt_tag \<Rightarrow> u8 list" and
  enc_elements :: "nbt_tag list \<Rightarrow> u8 list" and
  enc_entries :: "(nbt_string \<times> nbt_tag) list \<Rightarrow> u8 list"
where
  "enc_payload (Tag_Byte v) = [v]"
| "enc_payload (Tag_Short v) = to_be_bytes v"
| "enc_payload (Tag_Int v) = to_be_bytes v"
| "enc_payload (Tag_Long v) = to_be_bytes v"
| "enc_payload (Tag_Float v) = to_be_bytes v"
| "enc_payload (Tag_Double v) = to_be_bytes v"
| "enc_payload (Tag_ByteArray xs) = enc_count (length xs) @ xs"
| "enc_payload (Tag_String s) = enc_nbt_string s"
| "enc_payload (Tag_List n ts) = [n] @ enc_count (length ts) @ enc_elements ts"
| "enc_payload (Tag_Compound c) = enc_entries c @ [type_id Type_End]"
| "enc_payload (Tag_IntArray xs) = enc_count (length xs) @ concat (map to_be_bytes xs)"
| "enc_payload (Tag_LongArray xs) = enc_count (length xs) @ concat (map to_be_bytes xs)"
| "enc_elements [] = []"
| "enc_elements (t # ts) = enc_payload t @ enc_elements ts"
| "enc_entries [] = []"
| "enc_entries ((name, val) # es) =
     [type_id (tag_type val)] @ enc_nbt_string name @ enc_payload val @ enc_entries es"

text \<open>Compounds are maps: sorted keys, everywhere.\<close>

fun
  sorted_tag :: "nbt_tag \<Rightarrow> bool" and
  sorted_elements :: "nbt_tag list \<Rightarrow> bool" and
  sorted_entries :: "(nbt_string \<times> nbt_tag) list \<Rightarrow> bool"
where
  "sorted_tag (Tag_List n ts) = sorted_elements ts"
| "sorted_tag (Tag_Compound c) = (sorted_keys c \<and> sorted_entries c)"
| "sorted_tag t = True"
| "sorted_elements [] = True"
| "sorted_elements (t # ts) = (sorted_tag t \<and> sorted_elements ts)"
| "sorted_entries [] = True"
| "sorted_entries ((name, val) # es) = (sorted_tag val \<and> sorted_entries es)"

section \<open>What validation guarantees\<close>

definition enc_at :: "nat \<Rightarrow> nat \<Rightarrow> encode_context" where
  "enc_at t b = \<lparr>enc_total_tags = t, resource_bytes = b\<rparr>"

lemma validate_add_tag_iff:
  "validate_add_tag l d (enc_at t b) = (Inr (), s') \<longleftrightarrow>
     d \<le> nl_max_depth l \<and> t + 1 \<le> usize_MAX \<and> t + 1 \<le> nl_max_total_tags l \<and> s' = enc_at (t + 1) b"
  by (auto simp: validate_add_tag_def enc_at_def split: option.splits if_splits)

lemma validate_charge_iff:
  "validate_charge l n (enc_at t b) = (Inr (), s') \<longleftrightarrow> (\<exists>b'. charge_budget b n l = Inr b' \<and> s' = enc_at t b')"
  by (auto simp: validate_charge_def enc_at_def split: sum.splits)

lemma and_then_lift_result_Inr:
  "and_then (lift_result r) k s = (Inr v, s') \<longleftrightarrow> (\<exists>a. r = Inr a \<and> k a s = (Inr v, s'))"
  by (auto simp: and_then_lift_result split: sum.splits)

lemma and_then_Inr_iff:
  "and_then m k s = (Inr v, s') \<longleftrightarrow> (\<exists>a s1. m s = (Inr a, s1) \<and> k a s1 = (Inr v, s'))"
  by (auto simp: and_then_def split: prod.splits sum.splits)

lemma validate_string_iff:
  "validate_string l s (enc_at t b) = (Inr (), s') \<longleftrightarrow>
     valid_nbt_string l s \<and> (\<exists>b'. charge_budget b (2 * encoded_len s) l = Inr b' \<and> s' = enc_at t b')"
proof (cases "valid_nbt_string l s")
  case True
  then have "encoded_len s \<le> u16_MAX" using max_string_u16[of l] by (simp add: valid_nbt_string_def)
  then have "encoded_len s * 2 \<le> usize_MAX" by (simp add: u16_MAX_def usize_MAX_def)
  then show ?thesis
    using True by (simp add: validate_string_def and_then_lift_result_Inr validate_encoded_length_def
        valid_nbt_string_def validate_charge_iff checked_mul_def mult.commute)
next
  case False
  then show ?thesis
    by (simp add: validate_string_def and_then_lift_result_Inr validate_encoded_length_def valid_nbt_string_def)
qed

lemma validate_collection_length_iff:
  "validate_collection_length kind n m = Inr () \<longleftrightarrow> n \<le> m \<and> n \<le> i32_MAX"
  by (auto simp: validate_collection_length_def Let_def)

lemma checked_collection_bytes_iff:
  "checked_collection_bytes kind n size = Inr k \<longleftrightarrow> k = n * size \<and> n * size \<le> usize_MAX" for size
  by (auto simp: checked_collection_bytes_def split: option.splits)

lemma validate_array_iff:
  "validate_array l n kind size (enc_at t b) = (Inr (), s') \<longleftrightarrow>
     n \<le> nl_max_array_elements l \<and> n \<le> i32_MAX \<and> n * size \<le> usize_MAX \<and>
     (\<exists>b'. charge_budget b (n * size) l = Inr b' \<and> s' = enc_at t b')" for size
  by (auto simp: validate_array_def and_then_lift_result_Inr validate_collection_length_iff
      checked_collection_bytes_iff validate_charge_iff)

section \<open>What was validated is read back\<close>

lemma nbt_decodes_array:
  fixes size :: nat
  assumes n: "n \<le> nl_max_array_elements l" "n \<le> i32_MAX" "n * size \<le> usize_MAX" "n * size = length bytes"
    and charge: "charge_budget b (n * size) l = Inr b'"
    and alloc: "try_reserve_exact env n"
    and tail: "nbt_decodes (k n bytes) [] (t, b') (t, b') v"
  shows "nbt_decodes
     (and_then (read_collection_length kind) (\<lambda>len.
      and_then (lift_result (check_array_length l len kind size)) (\<lambda>byte_length.
      and_then (on_reader (read_bytes byte_length ctx)) (\<lambda>bytes.
      and_then (charge l byte_length) (\<lambda>_.
      and_then (reserve env len ctx') (\<lambda>_. k len bytes))))))
     (enc_count n @ bytes) (t, b) (t, b') v"
proof -
  have check: "check_array_length l n kind size = Inr (n * size)"
    using n by (simp add: check_array_length_def check_collection_limit_def checked_collection_bytes_iff)
  have res: "nbt_decodes (reserve env n ctx') [] (t, b') (t, b') ()"
    unfolding reserve_def by (rule nbt_decodes_ensure[where p = "try_reserve_exact env n", OF alloc])
  have "nbt_decodes
     (and_then (read_collection_length kind) (\<lambda>len.
      and_then (lift_result (check_array_length l len kind size)) (\<lambda>byte_length.
      and_then (on_reader (read_bytes byte_length ctx)) (\<lambda>bytes.
      and_then (charge l byte_length) (\<lambda>_.
      and_then (reserve env len ctx') (\<lambda>_. k len bytes))))))
     (to_be_bytes (of_nat n :: i32) @ bytes @ []) (t, b) (t, b') v"
    by (rule nbt_decodes_and_then[OF nbt_decodes_read_collection_length[OF n(2)]]
          nbt_decodes_step[OF nbt_decodes_lift_result[OF check]]
          nbt_decodes_and_then[OF nbt_decodes_on_reader[OF decodes_read_bytes[OF n(4)]]]
          nbt_decodes_step[OF nbt_decodes_charge[OF charge]] nbt_decodes_step[OF res] tail)+
  then show ?thesis by (simp add: enc_count_def)
qed

lemma nbt_decodes_byte_array:
  assumes n: "length bytes \<le> nl_max_array_elements l" "length bytes \<le> i32_MAX" "length bytes \<le> usize_MAX"
    and charge: "charge_budget b (length bytes) l = Inr b'" and alloc: "try_reserve_exact env (length bytes)"
  shows "nbt_decodes (decode_byte_array env l) (enc_count (length bytes) @ bytes) (t, b) (t, b') (Tag_ByteArray bytes)"
proof -
  let ?n = "length bytes"
  have check: "check_array_length l ?n Kind_ByteArray 1 = Inr ?n"
    using n by (simp add: check_array_length_def check_collection_limit_def checked_collection_bytes_iff)
  have res: "nbt_decodes (reserve env ?n ctx) [] (t, b') (t, b') ()" for ctx
    unfolding reserve_def by (rule nbt_decodes_ensure[where p = "try_reserve_exact env ?n", OF alloc])
  have "nbt_decodes (decode_byte_array env l) (to_be_bytes (of_nat ?n :: i32) @ bytes @ []) (t, b) (t, b') (Tag_ByteArray bytes)"
    unfolding decode_byte_array_def
    by (rule nbt_decodes_and_then[OF nbt_decodes_read_collection_length[OF n(2)]]
          nbt_decodes_step[OF nbt_decodes_lift_result[OF check]]
          nbt_decodes_and_then[OF nbt_decodes_on_reader[OF decodes_read_bytes[OF refl]]]
          nbt_decodes_step[OF nbt_decodes_charge[OF charge]] nbt_decodes_step[OF res] nbt_decodes_ok)+
  then show ?thesis by (simp add: enc_count_def)
qed

lemma length_concat_be_32 [simp]: "length (concat (map to_be_bytes (xs :: i32 list))) = length xs * 4"
  by (induction xs) simp_all

lemma length_concat_be_64: "length (concat (map to_be_bytes (xs :: i64 list))) = length xs * 8"
  by (induction xs) simp_all

lemma nbt_decodes_int_array:
  assumes n: "length xs \<le> nl_max_array_elements l" "length xs \<le> i32_MAX" "length xs * 4 \<le> usize_MAX"
    and charge: "charge_budget b (length xs * 4) l = Inr b'" and alloc: "try_reserve_exact env (length xs)"
  shows "nbt_decodes (decode_int_array env l) (enc_count (length xs) @ concat (map to_be_bytes xs)) (t, b) (t, b')
    (Tag_IntArray xs)"
  unfolding decode_int_array_def
proof (rule nbt_decodes_array[OF n _ charge alloc])
  have "decodes (read_n (length xs) read_i32) (concat (map to_be_bytes xs)) xs"
    by (rule i32_codec.get_sequence) simp
  from nbt_decodes_read_array_elements[OF this]
  have "nbt_decodes (read_array_elements (length xs) read_i32 (concat (map to_be_bytes xs))) [] (t, b') (t, b') xs"
    using n(3) by simp
  then show "nbt_decodes (and_then (read_array_elements (length xs) read_i32 (concat (map to_be_bytes xs)))
      (\<lambda>xs. ok (Tag_IntArray xs))) [] (t, b') (t, b') (Tag_IntArray xs)"
    by (rule nbt_decodes_last) simp
qed simp

lemma nbt_decodes_long_array:
  assumes n: "length xs \<le> nl_max_array_elements l" "length xs \<le> i32_MAX" "length xs * 8 \<le> usize_MAX"
    and charge: "charge_budget b (length xs * 8) l = Inr b'" and alloc: "try_reserve_exact env (length xs)"
  shows "nbt_decodes (decode_long_array env l) (enc_count (length xs) @ concat (map to_be_bytes xs)) (t, b) (t, b')
    (Tag_LongArray xs)"
  unfolding decode_long_array_def
proof (rule nbt_decodes_array[OF n _ charge alloc])
  have "decodes (read_n (length xs) read_i64) (concat (map to_be_bytes xs)) xs"
    by (rule i64_codec.get_sequence) simp
  from nbt_decodes_read_array_elements[OF this]
  have "nbt_decodes (read_array_elements (length xs) read_i64 (concat (map to_be_bytes xs))) [] (t, b') (t, b') xs"
    using n(3) by (simp add: length_concat_be_64)
  then show "nbt_decodes (and_then (read_array_elements (length xs) read_i64 (concat (map to_be_bytes xs)))
      (\<lambda>xs. ok (Tag_LongArray xs))) [] (t, b') (t, b') (Tag_LongArray xs)"
    by (rule nbt_decodes_last) simp
qed (simp add: length_concat_be_64)

text \<open>The induction hypotheses, one per kind of value.\<close>

definition reads_back :: "nbt_env \<Rightarrow> nbt_limits \<Rightarrow> nbt_tag \<Rightarrow> bool" where
  "reads_back env l x \<longleftrightarrow> (\<forall>d t b s'. sorted_tag x \<longrightarrow> validate_tag env l x d (enc_at t b) = (Inr (), s') \<longrightarrow>
     (\<exists>t' b'. s' = enc_at t' b' \<and>
       nbt_decodes (decode_payload env l (tag_type x) d) (enc_payload x) (t, b) (t', b') x))"

definition elements_read_back :: "nbt_env \<Rightarrow> nbt_limits \<Rightarrow> nbt_tag list \<Rightarrow> bool" where
  "elements_read_back env l xs \<longleftrightarrow> (\<forall>ty d t b s'. sorted_elements xs \<longrightarrow> (\<forall>x\<in>set xs. tag_type x = ty) \<longrightarrow>
     validate_elements env l xs d (enc_at t b) = (Inr (), s') \<longrightarrow>
     (\<exists>t' b'. s' = enc_at t' b' \<and>
       nbt_decodes (decode_elements env l ty d (length xs)) (enc_elements xs) (t, b) (t', b') xs))"

definition entries_read_back :: "nbt_env \<Rightarrow> nbt_limits \<Rightarrow> nbt_compound \<Rightarrow> bool" where
  "entries_read_back env l es \<longleftrightarrow> (\<forall>d w acc t b s'.
     sorted_entries es \<longrightarrow> sorted_keys (acc @ es) \<longrightarrow> d + 1 \<le> usize_MAX \<longrightarrow>
     w + length es \<le> nl_max_compound_entries l \<longrightarrow> w + length es \<le> usize_MAX \<longrightarrow>
     validate_entries env l es (d + 1) (enc_at t b) = (Inr (), s') \<longrightarrow>
     (\<exists>t' b'. s' = enc_at t' b' \<and>
       nbt_decodes (decode_entries env l d w acc) (enc_entries es @ [type_id Type_End]) (t, b) (t', b') (acc @ es)))"

lemma reads_backI:
  assumes "\<And>d t b s'. sorted_tag x \<Longrightarrow> validate_tag env l x d (enc_at t b) = (Inr (), s') \<Longrightarrow>
     \<exists>t' b'. s' = enc_at t' b' \<and> nbt_decodes (decode_payload env l (tag_type x) d) (enc_payload x) (t, b) (t', b') x"
  shows "reads_back env l x"
  using assms by (simp add: reads_back_def)

text \<open>A value whose payload one step reads after the tag is counted.\<close>

lemma reads_back_leaf:
  assumes step: "decode_payload env l (tag_type x) d = and_then (add_tag l d) (\<lambda>_. m)"
    and valid: "validate_add_tag l d (enc_at t b) = (Inr (), enc_at (t + 1) b)"
    and m: "nbt_decodes m (enc_payload x) (t + 1, b) c x"
  shows "nbt_decodes (decode_payload env l (tag_type x) d) (enc_payload x) (t, b) c x"
proof -
  have "nbt_decodes (add_tag l d) [] (t, b) (t + 1, b) ()"
    using valid by (intro nbt_decodes_add_tag) (simp_all add: validate_add_tag_iff)
  then show ?thesis unfolding step by (rule nbt_decodes_step[OF _ m])
qed

lemma reads_back_numbers:
  "reads_back env l (Tag_Byte v8)" "reads_back env l (Tag_Short v16)" "reads_back env l (Tag_Int v32)"
  "reads_back env l (Tag_Long v64)" "reads_back env l (Tag_Float v32)" "reads_back env l (Tag_Double v64)"
proof -
  have num: "\<exists>t' b'. s' = enc_at t' b' \<and>
      nbt_decodes (decode_payload env l (tag_type x) d) (enc_payload x) (t, b) (t', b') x"
    if "validate_add_tag l d (enc_at t b) = (Inr (), s')"
      and "decode_payload env l (tag_type x) d = and_then (add_tag l d) (\<lambda>_. and_then (on_reader m) (\<lambda>v. ok (f v)))"
      and "decodes m (enc_payload x) v" and "x = f v"
    for x d t b s' v and m :: "'w reader_op" and f
  proof -
    have s': "s' = enc_at (t + 1) b" using that(1) by (simp add: validate_add_tag_iff)
    have "nbt_decodes (and_then (on_reader m) (\<lambda>v. ok (f v))) (enc_payload x) (t + 1, b) (t + 1, b) x"
      by (rule nbt_decodes_last[where f = f and a = v])
        (rule nbt_decodes_on_reader[OF that(3)], rule that(4))
    from reads_back_leaf[OF that(2) that(1)[unfolded s'] this] show ?thesis using s' by blast
  qed
  show "reads_back env l (Tag_Byte v8)"
    by (rule reads_backI, rule num[where m = read_i8 and f = Tag_Byte and v = v8])
      (simp_all add: tag_type_def decode_payload_eq decodes_fixed_width)
  show "reads_back env l (Tag_Short v16)"
    by (rule reads_backI, rule num[where m = read_i16 and f = Tag_Short and v = v16])
      (simp_all add: tag_type_def decode_payload_eq decodes_fixed_width)
  show "reads_back env l (Tag_Int v32)"
    by (rule reads_backI, rule num[where m = read_i32 and f = Tag_Int and v = v32])
      (simp_all add: tag_type_def decode_payload_eq decodes_fixed_width)
  show "reads_back env l (Tag_Long v64)"
    by (rule reads_backI, rule num[where m = read_i64 and f = Tag_Long and v = v64])
      (simp_all add: tag_type_def decode_payload_eq decodes_fixed_width)
  show "reads_back env l (Tag_Float v32)"
    by (rule reads_backI, rule num[where m = read_f32 and f = Tag_Float and v = v32])
      (simp_all add: tag_type_def decode_payload_eq decodes_fixed_width)
  show "reads_back env l (Tag_Double v64)"
    by (rule reads_backI, rule num[where m = read_f64 and f = Tag_Double and v = v64])
      (simp_all add: tag_type_def decode_payload_eq decodes_fixed_width)
qed

lemma validate_leaf:
  assumes "and_then (validate_add_tag l d) (\<lambda>_. m) (enc_at t b) = (Inr (), s')"
  shows "validate_add_tag l d (enc_at t b) = (Inr (), enc_at (t + 1) b)" and "m (enc_at (t + 1) b) = (Inr (), s')"
  using assms by (auto simp: and_then_Inr_iff validate_add_tag_iff)

lemma reads_back_arrays:
  assumes alloc: "try_reserve_exact env = (\<lambda>_. True)"
  shows "reads_back env l (Tag_ByteArray bytes)" and "reads_back env l (Tag_String s)"
    and "reads_back env l (Tag_IntArray xs)" and "reads_back env l (Tag_LongArray ys)"
proof -
  show "reads_back env l (Tag_ByteArray bytes)"
  proof (rule reads_backI)
    fix d t b s' assume "validate_tag env l (Tag_ByteArray bytes) d (enc_at t b) = (Inr (), s')"
    then have v: "and_then (validate_add_tag l d) (\<lambda>_. validate_array l (length bytes) Kind_ByteArray 1) (enc_at t b) = (Inr (), s')"
      by simp
    note v = validate_leaf[OF v]
    then obtain b' where b': "charge_budget b (length bytes) l = Inr b'" "s' = enc_at (t + 1) b'"
      and n: "length bytes \<le> nl_max_array_elements l" "length bytes \<le> i32_MAX" "length bytes \<le> usize_MAX"
      by (auto simp: validate_array_iff)
    have "nbt_decodes (decode_byte_array env l) (enc_payload (Tag_ByteArray bytes)) (t + 1, b) (t + 1, b') (Tag_ByteArray bytes)"
      using nbt_decodes_byte_array[OF n b'(1)] alloc by simp
    from reads_back_leaf[OF _ v(1) this] b'(2)
    show "\<exists>t' b'. s' = enc_at t' b' \<and> nbt_decodes (decode_payload env l (tag_type (Tag_ByteArray bytes)) d)
        (enc_payload (Tag_ByteArray bytes)) (t, b) (t', b') (Tag_ByteArray bytes)"
      by (auto simp: tag_type_def decode_payload_eq)
  qed
  show "reads_back env l (Tag_String s)"
  proof (rule reads_backI)
    fix d t b s' assume "validate_tag env l (Tag_String s) d (enc_at t b) = (Inr (), s')"
    then have v: "and_then (validate_add_tag l d) (\<lambda>_. validate_string l s) (enc_at t b) = (Inr (), s')" by simp
    note v = validate_leaf[OF v]
    then obtain b' where b': "charge_budget b (2 * encoded_len s) l = Inr b'" "s' = enc_at (t + 1) b'"
      and valid: "valid_nbt_string l s" by (auto simp: validate_string_iff)
    have "nbt_decodes (and_then (decode_string (try_reserve_exact env) l) (\<lambda>v. ok (Tag_String v)))
        (enc_payload (Tag_String s)) (t + 1, b) (t + 1, b') (Tag_String s)"
      using nbt_decodes_string[OF valid b'(1)] alloc by (intro nbt_decodes_last[where a = s]) simp_all
    from reads_back_leaf[OF _ v(1) this] b'(2)
    show "\<exists>t' b'. s' = enc_at t' b' \<and> nbt_decodes (decode_payload env l (tag_type (Tag_String s)) d)
        (enc_payload (Tag_String s)) (t, b) (t', b') (Tag_String s)"
      by (auto simp: tag_type_def decode_payload_eq)
  qed
  show "reads_back env l (Tag_IntArray xs)"
  proof (rule reads_backI)
    fix d t b s' assume "validate_tag env l (Tag_IntArray xs) d (enc_at t b) = (Inr (), s')"
    then have v: "and_then (validate_add_tag l d) (\<lambda>_. validate_array l (length xs) Kind_IntArray 4) (enc_at t b) = (Inr (), s')"
      by simp
    note v = validate_leaf[OF v]
    then obtain b' where b': "charge_budget b (length xs * 4) l = Inr b'" "s' = enc_at (t + 1) b'"
      and n: "length xs \<le> nl_max_array_elements l" "length xs \<le> i32_MAX" "length xs * 4 \<le> usize_MAX"
      by (auto simp: validate_array_iff)
    have "nbt_decodes (decode_int_array env l) (enc_payload (Tag_IntArray xs)) (t + 1, b) (t + 1, b') (Tag_IntArray xs)"
      using nbt_decodes_int_array[OF n b'(1)] alloc by simp
    from reads_back_leaf[OF _ v(1) this] b'(2)
    show "\<exists>t' b'. s' = enc_at t' b' \<and> nbt_decodes (decode_payload env l (tag_type (Tag_IntArray xs)) d)
        (enc_payload (Tag_IntArray xs)) (t, b) (t', b') (Tag_IntArray xs)"
      by (auto simp: tag_type_def decode_payload_eq)
  qed
  show "reads_back env l (Tag_LongArray ys)"
  proof (rule reads_backI)
    fix d t b s' assume "validate_tag env l (Tag_LongArray ys) d (enc_at t b) = (Inr (), s')"
    then have v: "and_then (validate_add_tag l d) (\<lambda>_. validate_array l (length ys) Kind_LongArray 8) (enc_at t b) = (Inr (), s')"
      by simp
    note v = validate_leaf[OF v]
    then obtain b' where b': "charge_budget b (length ys * 8) l = Inr b'" "s' = enc_at (t + 1) b'"
      and n: "length ys \<le> nl_max_array_elements l" "length ys \<le> i32_MAX" "length ys * 8 \<le> usize_MAX"
      by (auto simp: validate_array_iff)
    have "nbt_decodes (decode_long_array env l) (enc_payload (Tag_LongArray ys)) (t + 1, b) (t + 1, b') (Tag_LongArray ys)"
      using nbt_decodes_long_array[OF n b'(1)] alloc by simp
    from reads_back_leaf[OF _ v(1) this] b'(2)
    show "\<exists>t' b'. s' = enc_at t' b' \<and> nbt_decodes (decode_payload env l (tag_type (Tag_LongArray ys)) d)
        (enc_payload (Tag_LongArray ys)) (t, b) (t', b') (Tag_LongArray ys)"
      by (auto simp: tag_type_def decode_payload_eq)
  qed
qed

lemma reads_back_list:
  assumes alloc: "try_reserve_exact env = (\<lambda>_. True)" and IH: "elements_read_back env l xs"
  shows "reads_back env l (Tag_List n xs)"
proof (rule reads_backI)
  fix d t b s'
  assume sorted: "sorted_tag (Tag_List n xs)" and "validate_tag env l (Tag_List n xs) d (enc_at t b) = (Inr (), s')"
  then have v: "and_then (validate_add_tag l d) (\<lambda>_.
     and_then (lift_result (validate_list n xs)) (\<lambda>_.
     and_then (lift_result (validate_collection_length Kind_List (length xs) (nl_max_list_elements l))) (\<lambda>_.
     and_then (lift_result (checked_collection_bytes Kind_List (length xs) (sizeof_tag env))) (\<lambda>allocation.
     and_then (validate_charge l allocation) (\<lambda>_.
     and_then (lift_result (next_depth d l)) (\<lambda>child_depth.
     validate_elements env l xs child_depth)))))) (enc_at t b) = (Inr (), s')"
    by simp
  note v = validate_leaf[OF v]
  obtain b1 where list: "validate_list n xs = Inr ()" and len: "length xs \<le> nl_max_list_elements l" "length xs \<le> i32_MAX"
    and size: "length xs * sizeof_tag env \<le> usize_MAX" and b1: "charge_budget b (length xs * sizeof_tag env) l = Inr b1"
    and depth: "d + 1 \<le> usize_MAX" and elems: "validate_elements env l xs (d + 1) (enc_at (t + 1) b1) = (Inr (), s')"
    using v(2) by (auto simp: and_then_Inr_iff lift_result_apply validate_charge_iff
        validate_collection_length_iff checked_collection_bytes_iff next_depth_ok)
  have w: "unat (of_nat (length xs) :: i32) = length xs" by (rule unat_of_nat_i32[OF len(2)])
  show "\<exists>t' b'. s' = enc_at t' b' \<and> nbt_decodes (decode_payload env l (tag_type (Tag_List n xs)) d)
      (enc_payload (Tag_List n xs)) (t, b) (t', b') (Tag_List n xs)"
  proof (cases "xs = []")
    case True
    then have s': "s' = enc_at (t + 1) b" using elems b1 by (simp add: run_simps charge_budget_iff)
    have "nbt_decodes (decode_list env l d) ([n] @ to_be_bytes (0 :: i32) @ []) (t + 1, b) (t + 1, b) (Tag_List n [])"
      unfolding decode_list_def
      by (rule nbt_decodes_and_then[OF nbt_decodes_read_type_id]
            nbt_decodes_and_then[OF nbt_decodes_on_reader[OF decodes_fixed_width(5)]])+
        (simp add: nbt_decodes_ok empty_with_type_id_def word_sle_eq)
    then have "nbt_decodes (decode_list env l d) (enc_payload (Tag_List n xs)) (t + 1, b) (t + 1, b) (Tag_List n xs)"
      using True by (simp add: enc_count_def)
    from reads_back_leaf[OF _ v(1) this] s' show ?thesis
      by (auto simp: tag_type_def decode_payload_list_eq)
  next
    case False
    then obtain ty where ty: "n = type_id ty" "ty \<noteq> Type_End" "\<forall>x\<in>set xs. tag_type x = ty"
      using list by (auto simp: validate_list_ok)
    obtain t2 b2 where s': "s' = enc_at t2 b2" and
      rd: "nbt_decodes (decode_elements env l ty (d + 1) (length xs)) (enc_elements xs) (t + 1, b1) (t2, b2) xs"
      using IH[unfolded elements_read_back_def, rule_format, OF _ _ elems, of ty] sorted ty(3) by auto
    have pos: "\<not> (of_nat (length xs) :: i32) <=s 0"
    proof -
      have "(of_nat (length xs) :: i32) \<noteq> 0" using w False by (metis length_0_conv unsigned_0)
      then show ?thesis using of_nat_nonneg_i32[OF len(2)] by (simp add: word_sle_eq word_sless_alt)
        (metis dual_order.antisym not_less sint_0 signed_word_eqI)
    qed
    have lim: "check_collection_limit Kind_List (length xs) (nl_max_list_elements l) = Inr ()"
      using len by (simp add: check_collection_limit_def)
    have req: "require_type n = Inr ty" using ty(1) by (simp add: require_type_def)
    have bytes: "checked_collection_bytes Kind_List (length xs) (sizeof_tag env) = Inr (length xs * sizeof_tag env)"
      using size by (simp add: checked_collection_bytes_iff)
    have res: "nbt_decodes (reserve env k ctx) [] c c ()" for k ctx c
      unfolding reserve_def alloc by (rule nbt_decodes_ensure) simp
    have ne: "ty \<noteq> Type_End" by (rule ty(2))
    have header: "nbt_decodes (check_list_header env l n (length xs)) [] (t + 1, b) (t + 1, b1) ty"
      unfolding check_list_header_def
      by (rule nbt_decodes_step[OF nbt_decodes_lift_result[OF lim]] nbt_decodes_step[OF nbt_decodes_lift_result[OF req]]
            nbt_decodes_step[OF nbt_decodes_ensure[where p = "ty \<noteq> Type_End", OF ne]]
            nbt_decodes_step[OF nbt_decodes_lift_result[OF bytes]] nbt_decodes_step[OF nbt_decodes_charge[OF b1]]
            nbt_decodes_step[OF res] nbt_decodes_ok)+
    have nd: "next_depth d l = Inr (d + 1)" using depth by (simp add: next_depth_ok)
    have new: "nbt_list_new ty xs = Inr (Tag_List n xs)"
      using list ty(1) by (simp add: nbt_list_new_def)
    have "nbt_decodes (and_then (check_list_header env l n (length xs)) (\<lambda>element_type.
         and_then (lift_result (next_depth d l)) (\<lambda>child_depth.
         and_then (decode_elements env l element_type child_depth (length xs)) (\<lambda>elements.
         lift_result (nbt_list_new element_type elements))))) (enc_elements xs @ []) (t + 1, b) (t2, b2) (Tag_List n xs)"
      by (rule nbt_decodes_step[OF header] nbt_decodes_step[OF nbt_decodes_lift_result[OF nd]]
            nbt_decodes_and_then[OF rd] nbt_decodes_lift_result[OF new])+
    then have "nbt_decodes (decode_list env l d) ([n] @ to_be_bytes (of_nat (length xs) :: i32) @ enc_elements xs @ [])
        (t + 1, b) (t2, b2) (Tag_List n xs)"
      unfolding decode_list_def
      by (intro nbt_decodes_and_then[OF nbt_decodes_read_type_id]
            nbt_decodes_and_then[OF nbt_decodes_on_reader[OF decodes_fixed_width(5)]]) (simp add: pos w)
    then have m: "nbt_decodes (decode_list env l d) (enc_payload (Tag_List n xs)) (t + 1, b) (t2, b2) (Tag_List n xs)"
      by (simp add: enc_count_def)
    from reads_back_leaf[OF _ v(1) m] s' show ?thesis
      by (auto simp: tag_type_def decode_payload_list_eq)
  qed
qed

lemma elements_read_back_all:
  assumes "\<forall>x\<in>set xs. reads_back env l x"
  shows "elements_read_back env l xs"
  using assms
proof (induction xs)
  case Nil
  show ?case
    unfolding elements_read_back_def
  proof (intro allI impI)
    fix ty d t b s' assume "validate_elements env l [] d (enc_at t b) = (Inr (), s')"
    then show "\<exists>t' b'. s' = enc_at t' b' \<and>
        nbt_decodes (decode_elements env l ty d (length [])) (enc_elements []) (t, b) (t', b') []"
      by (intro exI[of _ t] exI[of _ b]) (simp add: run_simps decode_elements_eq nbt_decodes_ok)
  qed
next
  case (Cons x xs)
  show ?case
    unfolding elements_read_back_def
  proof (intro allI impI)
    fix ty d t b s'
    assume sorted: "sorted_elements (x # xs)" and ty: "\<forall>y\<in>set (x # xs). tag_type y = ty"
      and v: "validate_elements env l (x # xs) d (enc_at t b) = (Inr (), s')"
    obtain s1 where v1: "validate_tag env l x d (enc_at t b) = (Inr (), s1)"
      and v2: "validate_elements env l xs d s1 = (Inr (), s')"
      using v by (auto simp: and_then_Inr_iff)
    obtain t1 b1 where s1: "s1 = enc_at t1 b1"
      and rd1: "nbt_decodes (decode_payload env l ty d) (enc_payload x) (t, b) (t1, b1) x"
      using Cons.prems sorted v1 ty unfolding reads_back_def by force
    obtain t2 b2 where s2: "s' = enc_at t2 b2"
      and rd2: "nbt_decodes (decode_elements env l ty d (length xs)) (enc_elements xs) (t1, b1) (t2, b2) xs"
      using Cons sorted v2 ty unfolding elements_read_back_def s1 by force
    have "nbt_decodes (decode_elements env l ty d (length (x # xs))) (enc_payload x @ enc_elements xs) (t, b) (t2, b2) (x # xs)"
      unfolding length_Cons decode_elements_eq
      by (rule nbt_decodes_and_then[OF rd1 nbt_decodes_last[OF rd2]]) simp
    then show "\<exists>t' b'. s' = enc_at t' b' \<and>
        nbt_decodes (decode_elements env l ty d (length (x # xs))) (enc_elements (x # xs)) (t, b) (t', b') (x # xs)"
      using s2 by auto
  qed
qed

lemma sorted_keys_append_last:
  "sorted_keys (acc @ (k, v) # es) \<Longrightarrow> \<forall>k'\<in>fst ` set acc. k' < k"
  by (auto simp: sorted_keys_def sorted_wrt_append)

lemma entries_read_back_all:
  assumes alloc: "try_reserve_exact env = (\<lambda>_. True)"
  shows "\<forall>e\<in>set es. reads_back env l (snd e) \<Longrightarrow> entries_read_back env l es"
proof (induction es)
  case Nil
  have finish: "nbt_decodes (decode_entries env l d w acc) ([type_id Type_End] @ []) c c acc" for d w acc c
    unfolding decode_entries_eq by (rule nbt_decodes_and_then[OF nbt_decodes_read_type_id]) (simp add: nbt_decodes_ok)
  show ?case
    unfolding entries_read_back_def
  proof (intro allI impI)
    fix d w acc t b s' assume "validate_entries env l [] (d + 1) (enc_at t b) = (Inr (), s')"
    then show "\<exists>t' b'. s' = enc_at t' b' \<and>
        nbt_decodes (decode_entries env l d w acc) (enc_entries [] @ [type_id Type_End]) (t, b) (t', b') (acc @ [])"
      using finish[of d w acc "(t, b)"] by (intro exI[of _ t] exI[of _ b]) (simp add: run_simps)
  qed
next
  case (Cons e es)
  obtain name x where e: "e = (name, x)" by fastforce
  show ?case
    unfolding entries_read_back_def
  proof (intro allI impI)
    fix d w acc t b s'
    assume sorted: "sorted_entries (e # es)" and keys: "sorted_keys (acc @ e # es)" and depth: "d + 1 \<le> usize_MAX"
      and lim: "w + length (e # es) \<le> nl_max_compound_entries l" and small: "w + length (e # es) \<le> usize_MAX"
      and v: "validate_entries env l (e # es) (d + 1) (enc_at t b) = (Inr (), s')"
    obtain b1 b2 s1 where b1: "charge_budget b (compound_entry_budget env) l = Inr b1"
      and name: "valid_nbt_string l name" "charge_budget b1 (2 * encoded_len name) l = Inr b2"
      and v1: "validate_tag env l x (d + 1) (enc_at t b2) = (Inr (), s1)"
      and v2: "validate_entries env l es (d + 1) s1 = (Inr (), s')"
      using v e by (auto simp: and_then_Inr_iff validate_charge_iff validate_string_iff)
    obtain t3 b3 where s1: "s1 = enc_at t3 b3"
      and rd: "nbt_decodes (decode_payload env l (tag_type x) (d + 1)) (enc_payload x) (t, b2) (t3, b3) x"
      using Cons.prems sorted v1 e unfolding reads_back_def by force
    have insert: "compound_insert name x acc = acc @ [(name, x)]"
      using sorted_keys_append_last[of acc name x es] keys e by (intro compound_insert_last) simp
    obtain t4 b4 where s': "s' = enc_at t4 b4" and rest:
      "nbt_decodes (decode_entries env l d (w + 1) (acc @ [(name, x)])) (enc_entries es @ [type_id Type_End])
         (t3, b3) (t4, b4) ((acc @ [(name, x)]) @ es)"
    proof -
      have ih: "entries_read_back env l es" using Cons by simp
      have "sorted_entries es" "sorted_keys ((acc @ [(name, x)]) @ es)"
        "w + 1 + length es \<le> nl_max_compound_entries l" "w + 1 + length es \<le> usize_MAX"
        using sorted keys lim small e by simp_all
      from ih[unfolded entries_read_back_def, rule_format, OF this(1,2) depth this(3,4) v2[unfolded s1]]
      show thesis by (elim exE conjE) (rule that)
    qed
    have rest': "nbt_decodes (decode_entries env l d (w + 1) (compound_insert name x acc))
        (enc_entries es @ [type_id Type_End]) (t3, b3) (t4, b4) ((acc @ [(name, x)]) @ es)"
      using rest unfolding insert .
    have count: "count_entry w l = Inr (w + 1)"
      using small by (simp add: count_entry_def checked_add_def)
    have check: "check_collection_limit Kind_Compound (w + 1) (nl_max_compound_entries l) = Inr ()"
      using lim by (simp add: check_collection_limit_def)
    have req: "require_type (type_id (tag_type x)) = Inr (tag_type x)" by (simp add: require_type_def)
    have nd: "next_depth d l = Inr (d + 1)" using depth by (simp add: next_depth_ok)
    have str: "nbt_decodes (decode_string (try_reserve_exact env) l) (enc_nbt_string name) (t, b1) (t, b2) name"
      using nbt_decodes_string[OF name] alloc by simp
    have "nbt_decodes (decode_entry env l d w acc (type_id (tag_type x)))
        (enc_nbt_string name @ enc_payload x @ enc_entries es @ [type_id Type_End]) (t, b) (t4, b4) ((acc @ [(name, x)]) @ es)"
      unfolding decode_entry_def
      by (rule nbt_decodes_step[OF nbt_decodes_lift_result[OF count]] nbt_decodes_step[OF nbt_decodes_lift_result[OF check]]
            nbt_decodes_step[OF nbt_decodes_lift_result[OF req]] nbt_decodes_step[OF nbt_decodes_charge[OF b1]]
            nbt_decodes_and_then[OF str] nbt_decodes_step[OF nbt_decodes_lift_result[OF nd]]
            nbt_decodes_and_then[OF rd] rest')+
    then have "nbt_decodes (decode_entries env l d w acc)
        ([type_id (tag_type x)] @ enc_nbt_string name @ enc_payload x @ enc_entries es @ [type_id Type_End])
        (t, b) (t4, b4) ((acc @ [(name, x)]) @ es)"
      unfolding decode_entries_eq by (intro nbt_decodes_and_then[OF nbt_decodes_read_type_id]) simp
    then show "\<exists>t' b'. s' = enc_at t' b' \<and> nbt_decodes (decode_entries env l d w acc)
        (enc_entries (e # es) @ [type_id Type_End]) (t, b) (t', b') (acc @ e # es)"
      using s' e by auto
  qed
qed

lemma decode_compound_reads_back:
  assumes "entries_read_back env l c" and "sorted_keys c" "sorted_entries c" and "d + 1 \<le> usize_MAX"
    and "validate_collection_length Kind_Compound (length c) (nl_max_compound_entries l) = Inr ()"
    and "validate_entries env l c (d + 1) (enc_at t b) = (Inr (), s')"
  shows "\<exists>t' b'. s' = enc_at t' b' \<and>
    nbt_decodes (decode_compound env l d) (enc_entries c @ [type_id Type_End]) (t, b) (t', b') c"
proof -
  have "length c \<le> nl_max_compound_entries l" "length c \<le> usize_MAX"
    using assms(5) by (auto simp: validate_collection_length_iff i32_MAX_def usize_MAX_def)
  then show ?thesis
    using assms(1)[unfolded entries_read_back_def, rule_format, of "[]" d 0] assms(2-4,6)
    by (auto simp: decode_compound_def)
qed

lemma reads_back_compound:
  assumes IH: "entries_read_back env l c"
  shows "reads_back env l (Tag_Compound c)"
proof (rule reads_backI)
  fix d t b s'
  assume sorted: "sorted_tag (Tag_Compound c)" and "validate_tag env l (Tag_Compound c) d (enc_at t b) = (Inr (), s')"
  then have v: "and_then (validate_add_tag l d) (\<lambda>_.
     and_then (lift_result (validate_collection_length Kind_Compound (length c) (nl_max_compound_entries l))) (\<lambda>_.
     and_then (lift_result (next_depth d l)) (\<lambda>child_depth.
     validate_entries env l c child_depth))) (enc_at t b) = (Inr (), s')"
    by simp
  note v = validate_leaf[OF v]
  have parts: "validate_collection_length Kind_Compound (length c) (nl_max_compound_entries l) = Inr ()"
    "d + 1 \<le> usize_MAX" "validate_entries env l c (d + 1) (enc_at (t + 1) b) = (Inr (), s')"
    using v(2) by (auto simp: and_then_Inr_iff lift_result_apply next_depth_ok)
  obtain t1 b1 where s': "s' = enc_at t1 b1"
    and c: "nbt_decodes (decode_compound env l d) (enc_entries c @ [type_id Type_End]) (t + 1, b) (t1, b1) c"
    using decode_compound_reads_back[OF IH _ _ parts(2,1,3)] sorted by auto
  have m: "nbt_decodes (and_then (decode_entries env l d 0 []) (\<lambda>c. ok (Tag_Compound c)))
      (enc_payload (Tag_Compound c)) (t + 1, b) (t1, b1) (Tag_Compound c)"
    using nbt_decodes_last[OF c[unfolded decode_compound_def], of "Tag_Compound c" Tag_Compound] by simp
  from reads_back_leaf[OF _ v(1) m] s'
  show "\<exists>t' b'. s' = enc_at t' b' \<and> nbt_decodes (decode_payload env l (tag_type (Tag_Compound c)) d)
      (enc_payload (Tag_Compound c)) (t, b) (t', b') (Tag_Compound c)"
    by (auto simp: tag_type_def decode_payload_eq)
qed

lemma validated_tag_decodes:
  assumes alloc: "try_reserve_exact env = (\<lambda>_. True)"
  shows "reads_back env l x"
proof (induction x)
  case (Tag_List n xs)
  then show ?case using reads_back_list[OF alloc elements_read_back_all] by blast
next
  case (Tag_Compound c)
  have "\<forall>e\<in>set c. reads_back env l (snd e)"
    using Tag_Compound by (auto intro: snds.intros)
  then show ?case by (intro reads_back_compound entries_read_back_all[OF alloc])
qed (simp_all add: reads_back_numbers reads_back_arrays[OF alloc])

end
