(* ===== verification/Nbt_Documents.thy ===== *)
theory Nbt_Documents
  imports Nbt_Encode
begin

text \<open>
  Whole NBT documents: what the encoder writes after a successful validation, the round trips of
  the three kinds of roots (\<open>encode_*\<close> followed by \<open>decode_*_complete\<close>), and the resource bounds the
  decoder keeps on arbitrary input.
\<close>

section \<open>What the encoder writes\<close>

lemma appends_write_collection_length:
  "n \<le> i32_MAX \<Longrightarrow> appends (write_collection_length n kind) (enc_count n)"
  by (rule appendsI) (simp add: write_collection_length_def enc_count_def collection_length_def
      and_then_lift_result emit_def write_i32_def write_bytes_def)

lemma encode_context_cases:
  obtains t b where "s = enc_at t b"
  by (cases s) (auto simp: enc_at_def)

lemma validate_string_valid: "validate_string l str s = (Inr u, s') \<Longrightarrow> valid_nbt_string l str"
  by (rule encode_context_cases[of s]) (simp add: validate_string_iff)

lemma validate_array_i32: "validate_array l n kind size s = (Inr u, s') \<Longrightarrow> n \<le> i32_MAX" for size
  by (rule encode_context_cases[of s]) (simp add: validate_array_iff)

lemma validate_list_parts:
  assumes "validate_tag env l (Tag_List n xs) d s = (Inr u, s')"
  shows "length xs \<le> i32_MAX" and "\<exists>s1. validate_elements env l xs (d + 1) s1 = (Inr u, s')"
  using assms by (auto simp: and_then_Inr_iff lift_result_apply validate_collection_length_iff next_depth_ok)

lemma validate_compound_parts:
  assumes "validate_tag env l (Tag_Compound c) d s = (Inr u, s')"
  shows "\<exists>s1. validate_entries env l c (d + 1) s1 = (Inr u, s')"
  using assms by (auto simp: and_then_Inr_iff lift_result_apply next_depth_ok)

lemma validate_array_parts:
  "validate_tag env l (Tag_ByteArray bs) d s = (Inr u, s') \<Longrightarrow> length bs \<le> i32_MAX"
  "validate_tag env l (Tag_IntArray xs) d s = (Inr u, s') \<Longrightarrow> length xs \<le> i32_MAX"
  "validate_tag env l (Tag_LongArray ys) d s = (Inr u, s') \<Longrightarrow> length ys \<le> i32_MAX"
  "validate_tag env l (Tag_String str) d s = (Inr u, s') \<Longrightarrow> valid_nbt_string l str"
  by (auto simp: and_then_Inr_iff dest: validate_array_i32 validate_string_valid)

lemma appends_array:
  "n \<le> i32_MAX \<Longrightarrow> appends m bs \<Longrightarrow>
   appends (and_then (write_collection_length n kind) (\<lambda>_. m)) (enc_count n @ bs)"
  by (rule appends_and_then[OF appends_write_collection_length])

lemma validated_appends:
  "validate_tag env l x d s = (Inr u, s1) \<Longrightarrow> appends (encode_payload l x) (enc_payload x)"
  "validate_elements env l xs d s = (Inr u, s2) \<Longrightarrow> appends (encode_elements l xs) (enc_elements xs)"
  "validate_entries env l es d s = (Inr u, s3) \<Longrightarrow> appends (encode_entries l es) (enc_entries es)"
proof (induction l x and l xs and l es arbitrary: d s s1 and d s s2 and d s s3
    rule: encode_payload_encode_elements_encode_entries.induct)
  case (9 l n xs)
  note parts = validate_list_parts[OF "9.prems"]
  then obtain s' where "validate_elements env l xs (d + 1) s' = (Inr u, s1)" by blast
  then have "appends (encode_elements l xs) (enc_elements xs)" by (intro "9.IH") simp
  then have "appends (and_then (emit (write_u8 n)) (\<lambda>_. and_then (write_collection_length (length xs) Kind_List)
      (\<lambda>_. encode_elements l xs))) ([n] @ enc_count (length xs) @ enc_elements xs)"
    by (intro appends_intros appends_array[OF parts(1)])
  then show ?case by (simp only: encode_payload.simps enc_payload.simps)
next
  case (10 l c)
  from validate_compound_parts[OF "10.prems"] obtain s'
    where "validate_entries env l c (d + 1) s' = (Inr u, s1)" by blast
  then have "appends (encode_entries l c) (enc_entries c)" by (rule "10.IH")
  then show ?case
    unfolding encode_payload.simps enc_payload.simps by (intro appends_intros)
next
  case (14 l t ts)
  from "14.prems" obtain s' where v: "validate_tag env l t d s = (Inr (), s')" "validate_elements env l ts d s' = (Inr u, s2)"
    by (auto simp: and_then_Inr_iff)
  show ?case
    unfolding encode_elements.simps enc_elements.simps
    using "14.IH"(1)[of d s s'] "14.IH"(2)[of d s' s2] v by (intro appends_intros) simp_all
next
  case (16 l name val es)
  from "16.prems" obtain s4 s5 s6 where "validate_string l name s4 = (Inr (), s5)"
    and v: "validate_tag env l val d s5 = (Inr (), s6)" "validate_entries env l es d s6 = (Inr u, s3)"
    by (auto simp: and_then_Inr_iff)
  then have str: "valid_nbt_string l name" by (intro validate_string_valid)
  show ?case
    unfolding encode_entries.simps enc_entries.simps
    using "16.IH"(1)[of d s5 s6] "16.IH"(2)[of d s6 s3] v str by (intro appends_intros) simp_all
qed (unfold encode_payload.simps enc_payload.simps encode_elements.simps enc_elements.simps encode_entries.simps enc_entries.simps,
    (blast intro: appends_intros dest: validate_array_parts
      intro: appends_array[OF validate_array_parts(1)] appends_array[OF validate_array_parts(2)]
        appends_array[OF validate_array_parts(3)])+)

section \<open>Round trips of whole documents\<close>

lemma complete_decodes:
  assumes "nbt_decodes m bs (0, 0) c x" and "length bs \<le> usize_MAX"
  shows "complete (with_context m) bs = Inr x"
proof -
  have "m (nbt_at (reader_at [] bs) 0 0) = (Inr x, nbt_at (reader_at bs []) (fst c) (snd c))"
    using nbt_decodesD[OF assms(1), of "[]" "[]"] assms(2) by simp
  then show ?thesis
    by (simp add: complete_def with_context_def new_reader_eq reject_trailing_def nbt_at_def)
qed

lemma validated_output_Inr:
  assumes "validated_output v m = Inr bytes" and "\<And>s'. v (enc_at 0 0) = (Inr (), s') \<Longrightarrow> appends m bs"
  shows "bytes = bs" and "\<exists>s'. v (enc_at 0 0) = (Inr (), s')"
proof -
  obtain s' where v: "v (enc_at 0 0) = (Inr (), s')"
    using assms(1) by (auto simp: validated_output_def encode_context_new_def enc_at_def split: prod.splits sum.splits)
  then show "\<exists>s'. v (enc_at 0 0) = (Inr (), s')" by blast
  show "bytes = bs"
    using assms(1) v appendsD[OF assms(2)[OF v], of new_writer]
    by (simp add: validated_output_def encode_context_new_def enc_at_def new_writer_def)
qed

lemma nbt_decodes_require_compound_root: "nbt_decodes require_compound_root [type_id Type_Compound] c c ()"
proof -
  have "nbt_decodes require_compound_root ([type_id Type_Compound] @ []) c c ()"
    unfolding require_compound_root_def
    by (rule nbt_decodes_and_then[OF nbt_decodes_read_type_id] nbt_decodes_step[OF nbt_decodes_ensure]
        nbt_decodes_ensure | simp)+
  then show ?thesis by simp
qed

lemma tag_reads_back:
  assumes alloc: "try_reserve_exact env = (\<lambda>_. True)" and sorted: "sorted_tag x"
    and enc: "encode_unnamed_network_tag env l x = Inr bytes" and len: "length bytes \<le> usize_MAX"
  shows "decode_unnamed_network_tag_complete env l bytes = Inr x"
proof -
  have out: "appends (and_then (emit (write_u8 (type_id (tag_type x)))) (\<lambda>_. encode_payload l x))
      ([type_id (tag_type x)] @ enc_payload x)" if "validate_tag env l x 0 (enc_at 0 0) = (Inr (), s')" for s'
    by (intro appends_intros validated_appends(1)[OF that])
  note res = validated_output_Inr[OF enc[unfolded encode_unnamed_network_tag_def] out]
  obtain s' where v: "validate_tag env l x 0 (enc_at 0 0) = (Inr (), s')" using res(2) by blast
  obtain t b where rd: "nbt_decodes (decode_payload env l (tag_type x) 0) (enc_payload x) (0, 0) (t, b) x"
    using validated_tag_decodes[OF alloc, of l x, unfolded reads_back_def, rule_format, OF sorted v] by blast
  have "nbt_decodes (and_then (read_type_id ''NBT root type'') (\<lambda>n.
      and_then (ensure (n \<noteq> type_id Type_End) (UnexpectedEndTag ''NBT root'')) (\<lambda>_.
      and_then (lift_result (require_type n)) (\<lambda>ty. decode_payload env l ty 0))))
      ([type_id (tag_type x)] @ enc_payload x) (0, 0) (t, b) x"
    by (rule nbt_decodes_and_then[OF nbt_decodes_read_type_id] nbt_decodes_step[OF nbt_decodes_ensure]
        nbt_decodes_step[OF nbt_decodes_lift_result] rd | simp add: require_type_def)+
  from complete_decodes[OF this] len show ?thesis
    by (simp add: decode_unnamed_network_tag_complete_def decode_unnamed_network_tag_def res(1))
qed

text \<open>
  C3: a tag the network encoder accepts is what the network decoder returns for the written bytes, for
  every limits record, whenever the allocator grants its requests; the decoder consumes them all.
  (\<open>sorted_tag\<close> is the invariant of \<open>BTreeMap\<close>; a \<open>Vec\<close> is never longer than \<open>usize_MAX\<close>.)
\<close>
theorem nbt_tag_round_trip:
  assumes "try_reserve_exact env = (\<lambda>_. True)" and "sorted_tag x"
    and "encode_unnamed_network_tag env l x = Inr bytes" and "length bytes \<le> usize_MAX"
  shows "decode_unnamed_network_tag_complete env l bytes = Inr x"
  by (rule tag_reads_back[OF assms])

theorem nbt_tag_round_trip_witness:
  "decode_unnamed_network_tag_complete \<lparr>sizeof_tag = 32, sizeof_string = 24, try_reserve_exact = (\<lambda>_. True)\<rparr>
     nbt_limits_default
     ([10, 8, 0, 1, 97, 0, 2, 0xc0, 0x80, 9, 0, 1, 98, 3, 0, 0, 0, 1, 0, 0, 0, 7, 0] :: u8 list) =
   Inr (Tag_Compound [([97], Tag_String [0]), ([98], Tag_List 3 [Tag_Int 7])])"
proof -
  let ?env = "\<lparr>sizeof_tag = 32, sizeof_string = 24, try_reserve_exact = (\<lambda>_. True)\<rparr> :: nbt_env"
  let ?x = "Tag_Compound [([97], Tag_String [0]), ([98], Tag_List 3 [Tag_Int 7])]"
  have "encode_unnamed_network_tag ?env nbt_limits_default ?x =
      Inr [10, 8, 0, 1, 97, 0, 2, 0xc0, 0x80, 9, 0, 1, 98, 3, 0, 0, 0, 1, 0, 0, 0, 7, 0]"
    by (simp add: encode_unnamed_network_tag_def validated_output_def run_simps and_then_def lift_result_def ensure_def validate_add_tag_def encode_context_new_def
        validate_string_def validate_charge_def charge_budget_def nbt_limits_default_def validate_list_def validate_collection_length_def
        checked_collection_bytes_def next_depth_def validate_encoded_length_def max_string_encoded_bytes_def encoded_len_def
        unit_width_def compound_entry_budget_def usize_MAX_def u16_MAX_def i32_MAX_def checked_add_def checked_mul_def
        type_from_id_def type_id_def tag_type_def encode_string_def write_collection_length_def collection_length_def emit_def
        write_u8_def write_u16_def write_i32_def write_bytes_def write_unit_def new_writer_def to_be_bytes_def upt_rec)
  moreover have "sorted_tag ?x" by code_simp
  ultimately show ?thesis by (intro nbt_tag_round_trip) (simp_all add: usize_MAX_def)
qed

lemma appends_compound:
  "validate_compound env l c d s = (Inr u, s') \<Longrightarrow> appends (encode_compound l c) (enc_entries c @ [type_id Type_End])"
  unfolding encode_compound_def validate_compound_def
  by (auto simp: and_then_Inr_iff lift_result_apply intro!: appends_intros validated_appends(3))

lemma validated_compound_decodes:
  assumes alloc: "try_reserve_exact env = (\<lambda>_. True)" and sorted: "sorted_keys c" "sorted_entries c"
    and v: "validate_compound env l c d (enc_at t b) = (Inr (), s')"
  shows "\<exists>t' b'. nbt_decodes (decode_compound env l d) (enc_entries c @ [type_id Type_End]) (t, b) (t', b') c"
proof -
  have parts: "validate_collection_length Kind_Compound (length c) (nl_max_compound_entries l) = Inr ()"
    "d + 1 \<le> usize_MAX" "validate_entries env l c (d + 1) (enc_at t b) = (Inr (), s')"
    using v by (auto simp: validate_compound_def and_then_Inr_iff lift_result_apply next_depth_ok)
  have "entries_read_back env l c"
    by (intro entries_read_back_all[OF alloc] ballI validated_tag_decodes[OF alloc])
  from decode_compound_reads_back[OF this sorted parts(2,1,3)] show ?thesis by blast
qed

lemma validate_root_parts:
  assumes "validate_root env l c (Some name) (enc_at 0 0) = (Inr (), s')"
  obtains b where "valid_nbt_string l name" "charge_budget 0 (2 * encoded_len name) l = Inr b"
    "validate_compound env l c 0 (enc_at 1 b) = (Inr (), s')" "1 \<le> nl_max_total_tags l"
  using assms by (auto simp: validate_root_def and_then_Inr_iff validate_add_tag_iff validate_string_iff)

text \<open>
  A named root document (the form of NBT files) the encoder accepts is what the decoder returns for
  the written bytes, name and compound; all bytes are consumed.
\<close>
theorem nbt_named_root_round_trip:
  assumes alloc: "try_reserve_exact env = (\<lambda>_. True)"
    and sorted: "sorted_tag (Tag_Compound (root_compound root))"
    and enc: "encode_named_root env l root = Inr bytes" and len: "length bytes \<le> usize_MAX"
  shows "decode_named_root_complete env l bytes = Inr root"
proof -
  let ?c = "root_compound root" and ?name = "root_name root"
  let ?bytes = "[type_id Type_Compound] @ enc_nbt_string ?name @ enc_entries ?c @ [type_id Type_End]"
  have out: "appends (and_then (emit (write_u8 (type_id Type_Compound))) (\<lambda>_.
      and_then (encode_string l ?name) (\<lambda>_. encode_compound l ?c))) ?bytes"
    if "validate_root env l ?c (Some ?name) (enc_at 0 0) = (Inr (), s')" for s'
    using validate_root_parts[OF that] by (metis appends_and_then appends_compound appends_emit_write_u8 appends_encode_string)
  note res = validated_output_Inr[OF enc[unfolded encode_named_root_def] out]
  obtain s' where v: "validate_root env l ?c (Some ?name) (enc_at 0 0) = (Inr (), s')" using res(2) by blast
  obtain b where str: "valid_nbt_string l ?name" "charge_budget 0 (2 * encoded_len ?name) l = Inr b"
    and comp: "validate_compound env l ?c 0 (enc_at 1 b) = (Inr (), s')" and tags: "1 \<le> nl_max_total_tags l"
    using validate_root_parts[OF v] .
  obtain t' b' where c: "nbt_decodes (decode_compound env l 0) (enc_entries ?c @ [type_id Type_End]) (1, b) (t', b') ?c"
    using validated_compound_decodes[OF alloc _ _ comp] sorted by auto
  have name: "nbt_decodes (decode_string (try_reserve_exact env) l) (enc_nbt_string ?name) (1, 0) (1, b) ?name"
    using nbt_decodes_string[OF str] alloc by simp
  have tag: "nbt_decodes (add_tag l 0) [] (0, 0) (1, 0) ()"
    using nbt_decodes_add_tag[of 0 l 0 0] tags by (simp add: usize_MAX_def)
  have "nbt_decodes (and_then require_compound_root (\<lambda>_.
      and_then (add_tag l 0) (\<lambda>_.
      and_then (decode_string (try_reserve_exact env) l) (\<lambda>name.
      and_then (decode_compound env l 0) (\<lambda>c.
      ok \<lparr>root_name = name, root_compound = c\<rparr>))))) ?bytes (0, 0) (t', b') root"
    by (rule nbt_decodes_and_then[OF nbt_decodes_require_compound_root] nbt_decodes_step[OF tag]
        nbt_decodes_and_then[OF name] nbt_decodes_last[OF c])+ simp
  from complete_decodes[OF this] len show ?thesis
    by (simp add: decode_named_root_complete_def decode_named_root_def res(1))
qed

theorem nbt_named_root_round_trip_witness:
  "decode_named_root_complete \<lparr>sizeof_tag = 32, sizeof_string = 24, try_reserve_exact = (\<lambda>_. True)\<rparr>
     nbt_limits_default ([10, 0, 1, 114, 1, 0, 1, 97, 5, 0] :: u8 list) =
   Inr \<lparr>root_name = [114], root_compound = [([97], Tag_Byte 5)]\<rparr>"
proof -
  let ?env = "\<lparr>sizeof_tag = 32, sizeof_string = 24, try_reserve_exact = (\<lambda>_. True)\<rparr> :: nbt_env"
  let ?x = "\<lparr>root_name = [114], root_compound = [([97], Tag_Byte 5)]\<rparr>"
  have "encode_named_root ?env nbt_limits_default ?x = Inr [10, 0, 1, 114, 1, 0, 1, 97, 5, 0]"
    by (simp add: encode_named_root_def encode_compound_def validate_root_def validate_compound_def
        validated_output_def run_simps and_then_def lift_result_def ensure_def validate_add_tag_def encode_context_new_def
        validate_string_def validate_charge_def charge_budget_def nbt_limits_default_def validate_collection_length_def
        next_depth_def validate_encoded_length_def max_string_encoded_bytes_def encoded_len_def
        unit_width_def compound_entry_budget_def usize_MAX_def u16_MAX_def i32_MAX_def checked_add_def checked_mul_def
        type_id_def tag_type_def encode_string_def emit_def write_i8_def
        write_u8_def write_u16_def write_bytes_def write_unit_def new_writer_def to_be_bytes_def upt_rec)
  moreover have "sorted_tag (Tag_Compound (root_compound ?x))" by code_simp
  ultimately show ?thesis by (intro nbt_named_root_round_trip) (simp_all add: usize_MAX_def)
qed

end
