(* ===== verification/Nbt_Bounds.thy ===== *)
theory Nbt_Bounds
  imports Nbt_Documents
begin

text \<open>
  What the NBT decoder promises on arbitrary input: whatever the bytes are, a value it returns is within
  the limits it was given (nesting, number of tags, memory charged to the budget) and well formed
  (homogeneous lists, sorted compounds).
\<close>

section \<open>Measures of a value\<close>

fun
  tag_count :: "nbt_tag \<Rightarrow> nat" and
  elements_count :: "nbt_tag list \<Rightarrow> nat" and
  entries_count :: "(nbt_string \<times> nbt_tag) list \<Rightarrow> nat"
where
  "tag_count (Tag_List n ts) = Suc (elements_count ts)"
| "tag_count (Tag_Compound c) = Suc (entries_count c)"
| "tag_count t = 1"
| "elements_count [] = 0"
| "elements_count (t # ts) = tag_count t + elements_count ts"
| "entries_count [] = 0"
| "entries_count ((name, val) # es) = tag_count val + entries_count es"

fun
  tag_height :: "nbt_tag \<Rightarrow> nat" and
  elements_height :: "nbt_tag list \<Rightarrow> nat" and
  entries_height :: "(nbt_string \<times> nbt_tag) list \<Rightarrow> nat"
where
  "tag_height (Tag_List n ts) = elements_height ts"
| "tag_height (Tag_Compound c) = entries_height c"
| "tag_height t = 0"
| "elements_height [] = 0"
| "elements_height (t # ts) = max (Suc (tag_height t)) (elements_height ts)"
| "entries_height [] = 0"
| "entries_height ((name, val) # es) = max (Suc (tag_height val)) (entries_height es)"

fun
  footprint :: "nbt_env \<Rightarrow> nbt_tag \<Rightarrow> nat" and
  elements_footprint :: "nbt_env \<Rightarrow> nbt_tag list \<Rightarrow> nat" and
  entries_footprint :: "nbt_env \<Rightarrow> (nbt_string \<times> nbt_tag) list \<Rightarrow> nat"
where
  "footprint env (Tag_ByteArray xs) = length xs"
| "footprint env (Tag_String s) = 2 * length s"
| "footprint env (Tag_List n ts) = length ts * sizeof_tag env + elements_footprint env ts"
| "footprint env (Tag_Compound c) = entries_footprint env c"
| "footprint env (Tag_IntArray xs) = 4 * length xs"
| "footprint env (Tag_LongArray xs) = 8 * length xs"
| "footprint env t = 0"
| "elements_footprint env [] = 0"
| "elements_footprint env (t # ts) = footprint env t + elements_footprint env ts"
| "entries_footprint env [] = 0"
| "entries_footprint env ((name, val) # es) =
     compound_entry_budget env + 2 * length name + footprint env val + entries_footprint env es"

fun
  well_formed_tag :: "nbt_tag \<Rightarrow> bool" and
  well_formed_elements :: "nbt_tag list \<Rightarrow> bool" and
  well_formed_entries :: "(nbt_string \<times> nbt_tag) list \<Rightarrow> bool"
where
  "well_formed_tag (Tag_List n ts) = (validate_list n ts = Inr () \<and> well_formed_elements ts)"
| "well_formed_tag (Tag_Compound c) = (sorted_keys c \<and> well_formed_entries c)"
| "well_formed_tag t = True"
| "well_formed_elements [] = True"
| "well_formed_elements (t # ts) = (well_formed_tag t \<and> well_formed_elements ts)"
| "well_formed_entries [] = True"
| "well_formed_entries ((name, val) # es) = (well_formed_tag val \<and> well_formed_entries es)"

text \<open>An insertion adds at most its own entry, and replaces one whose key it has.\<close>

lemma compound_insert_measures:
  "entries_count (compound_insert k v c) \<le> tag_count v + entries_count c"
  "entries_height (compound_insert k v c) \<le> max (Suc (tag_height v)) (entries_height c)"
  "entries_footprint env (compound_insert k v c) \<le>
     compound_entry_budget env + 2 * length k + footprint env v + entries_footprint env c"
  "well_formed_tag v \<Longrightarrow> well_formed_entries c \<Longrightarrow> well_formed_entries (compound_insert k v c)"
  by (induction k v c rule: compound_insert.induct) (auto simp: max_def)

section \<open>What each step does to the counters\<close>

text \<open>The tags and bytes counted from a state to a later one.\<close>

definition counted :: "nbt_limits \<Rightarrow> nbt_state \<Rightarrow> nbt_state \<Rightarrow> nat \<Rightarrow> nat \<Rightarrow> bool" where
  "counted l s s' tags bytes \<longleftrightarrow>
     total_tags s + tags \<le> total_tags s' \<and> allocated_bytes s + bytes \<le> allocated_bytes s' \<and>
     (total_tags s \<le> nl_max_total_tags l \<longrightarrow> total_tags s' \<le> nl_max_total_tags l) \<and>
     (allocated_bytes s \<le> nl_max_total_allocated_bytes l \<longrightarrow> allocated_bytes s' \<le> nl_max_total_allocated_bytes l)"

lemma counted_refl: "counted l s s 0 0"
  by (simp add: counted_def)

lemma counted_trans: "counted l s s1 t b \<Longrightarrow> counted l s1 s2 t' b' \<Longrightarrow> counted l s s2 (t + t') (b + b')"
  by (auto simp: counted_def)

lemma counted_mono: "counted l s s' t b \<Longrightarrow> t' \<le> t \<Longrightarrow> b' \<le> b \<Longrightarrow> counted l s s' t' b'"
  by (auto simp: counted_def)

lemma counted_on_reader: "on_reader m s = (Inr v, s') \<Longrightarrow> counted l s s' 0 0"
  by (auto simp: on_reader_def counted_def split: prod.splits sum.splits)

lemma counted_read_type_id: "read_type_id ctx s = (Inr v, s') \<Longrightarrow> counted l s s' 0 0"
  unfolding read_type_id_def and_then_Inr_iff
  by (elim exE conjE) (auto simp: run_simps split: list.splits dest: counted_on_reader)

lemma counted_charge: "charge l n s = (Inr u, s') \<Longrightarrow> counted l s s' 0 n"
  by (auto simp: charge_def charge_budget_iff counted_def split: sum.splits)

lemma counted_add_tag: "add_tag l d s = (Inr u, s') \<Longrightarrow> counted l s s' 1 0 \<and> d \<le> nl_max_depth l"
  by (auto simp: add_tag_ok counted_def)

lemma ensure_Inr: "ensure p e s = (Inr u, s') \<longleftrightarrow> p \<and> s' = s"
  by (auto simp: ensure_def run_simps)

lemma decode_units_length:
  "decode_units bytes offset acc = Inr r \<Longrightarrow> length r \<le> length acc + (length bytes - offset)"
proof (induction bytes offset acc rule: decode_units.induct)
  case (1 bytes offset acc)
  show ?case
  proof (cases "offset < length bytes")
    case True
    with "1.prems" obtain u w offset' where unit: "decode_unit bytes offset = Inr (u, w)"
      and o: "checked_add offset w = Some offset'" and rest: "decode_units bytes offset' (acc @ [u]) = Inr r"
      by (subst (asm) decode_units.simps) (auto split: sum.splits option.splits)
    have "offset' = offset + w" "0 < w" using o decode_unit_width[OF unit] by simp_all
    with "1.IH"[OF True unit refl o rest] True show ?thesis by simp
  next
    case False
    with "1.prems" show ?thesis by (subst (asm) decode_units.simps) simp
  qed
qed

lemma on_reader_read_bytes: "on_reader (read_bytes n ctx) s = (Inr bs, s') \<Longrightarrow> length bs = n"
  by (auto simp: on_reader_def read_bytes_def get_range_def Let_def split: prod.splits sum.splits option.splits if_splits)

lemma counted_decode_string:
  assumes "decode_string try_reserve l s = (Inr v, s')"
  shows "counted l s s' 0 (2 * length v)"
proof -
  obtain w s1 bs s2 s3 where len: "on_reader read_u16 s = (Inr w, s1)"
    and bs: "on_reader (read_bytes (unat w) ''NBT Modified UTF-8 bytes'') s1 = (Inr bs, s2)"
    and charge: "(case checked_mul (unat w) 2 of
                 None \<Rightarrow> fail (AllocationBudgetExceeded usize_MAX (nl_max_total_allocated_bytes l))
               | Some allocation \<Rightarrow> charge l allocation) s2 = (Inr (), s3)"
    and units: "decode_units bs 0 [] = Inr v" "s' = s3"
    using assms unfolding decode_string_def Let_def and_then_Inr_iff lift_result_apply ensure_Inr by auto
  have "counted l s2 s3 0 (unat w * 2)"
    using charge by (auto simp: run_simps split: option.splits dest: counted_charge)
  then have "counted l s s' 0 (unat w * 2)"
    using counted_trans[OF counted_on_reader[OF len] counted_trans[OF counted_on_reader[OF bs]]] units(2) by fastforce
  moreover have "length v \<le> unat w"
    using decode_units_length[OF units(1)] on_reader_read_bytes[OF bs] by simp
  ultimately show ?thesis by (elim counted_mono) simp_all
qed

lemma counted_reserve: "reserve env n ctx s = (Inr u, s') \<Longrightarrow> s' = s"
  by (simp add: reserve_def ensure_Inr)

lemma counted_read_collection_length: "read_collection_length kind s = (Inr n, s') \<Longrightarrow> counted l s s' 0 0"
  by (auto simp: read_collection_length_def and_then_Inr_iff run_simps split: if_splits dest: counted_on_reader)

lemma read_array_elements_Inr:
  "read_array_elements n m bytes s = (Inr xs, s') \<Longrightarrow> s' = s \<and> length xs = n"
  by (auto simp: read_array_elements_def split: prod.splits sum.splits dest: read_n_length)

lemma check_array_length_Inr: "check_array_length l n kind k = Inr m \<Longrightarrow> m = n * k"
  by (auto simp: check_array_length_def checked_collection_bytes_iff split: sum.splits)

lemma counted_arrays:
  "decode_byte_array env l s = (Inr x, s') \<Longrightarrow> \<exists>xs. x = Tag_ByteArray xs \<and> counted l s s' 0 (length xs)"
  "decode_int_array env l s = (Inr x, s') \<Longrightarrow> \<exists>xs. x = Tag_IntArray xs \<and> counted l s s' 0 (4 * length xs)"
  "decode_long_array env l s = (Inr x, s') \<Longrightarrow> \<exists>xs. x = Tag_LongArray xs \<and> counted l s s' 0 (8 * length xs)"
proof -
  have chain: "counted l s s' 0 k"
    if "read_collection_length kind s = (Inr n, s1)" "on_reader m s1 = (Inr bs, s2)" "charge l k s2 = (Inr (), s')"
    for kind n s1 s2 k and bs :: "u8 list" and m
    using counted_trans[OF counted_read_collection_length[OF that(1)]
        counted_trans[OF counted_on_reader[OF that(2)] counted_charge[OF that(3)]]] by simp
  show "\<exists>xs. x = Tag_ByteArray xs \<and> counted l s s' 0 (length xs)" if "decode_byte_array env l s = (Inr x, s')"
    using that unfolding decode_byte_array_def and_then_Inr_iff lift_result_apply
    by (auto simp: run_simps dest!: counted_reserve dest: on_reader_read_bytes intro: chain)
  show "\<exists>xs. x = Tag_IntArray xs \<and> counted l s s' 0 (4 * length xs)" if "decode_int_array env l s = (Inr x, s')"
    using that unfolding decode_int_array_def and_then_Inr_iff lift_result_apply
    by (auto simp: run_simps mult.commute dest!: counted_reserve read_array_elements_Inr check_array_length_Inr intro: chain)
  show "\<exists>xs. x = Tag_LongArray xs \<and> counted l s s' 0 (8 * length xs)" if "decode_long_array env l s = (Inr x, s')"
    using that unfolding decode_long_array_def and_then_Inr_iff lift_result_apply
    by (auto simp: run_simps mult.commute dest!: counted_reserve read_array_elements_Inr check_array_length_Inr intro: chain)
qed

section \<open>Every value the decoder returns\<close>

definition payload_bounded :: "nbt_env \<Rightarrow> nbt_limits \<Rightarrow> nat \<Rightarrow> bool" where
  "payload_bounded env l d \<longleftrightarrow> (\<forall>ty s x s'. decode_payload env l ty d s = (Inr x, s') \<longrightarrow>
     tag_type x = ty \<and> well_formed_tag x \<and> d + tag_height x \<le> nl_max_depth l \<and>
     counted l s s' (tag_count x) (footprint env x))"

lemma payload_boundedD:
  assumes "payload_bounded env l d" and "decode_payload env l ty d s = (Inr x, s')"
  shows "tag_type x = ty" "well_formed_tag x" "d + tag_height x \<le> nl_max_depth l"
    "counted l s s' (tag_count x) (footprint env x)"
  using assms by (auto simp: payload_bounded_def)

lemma elements_bounded:
  assumes payload: "payload_bounded env l (Suc d)" and d: "d \<le> nl_max_depth l"
  shows "decode_elements env l ty (Suc d) n s = (Inr xs, s') \<Longrightarrow>
    length xs = n \<and> (\<forall>x\<in>set xs. tag_type x = ty) \<and> well_formed_elements xs \<and>
    d + elements_height xs \<le> nl_max_depth l \<and> counted l s s' (elements_count xs) (elements_footprint env xs)"
proof (induction n arbitrary: s xs)
  case 0
  then show ?case using d by (auto simp: ok_def counted_refl)
next
  case (Suc n)
  then obtain x s1 ys where x: "decode_payload env l ty (Suc d) s = (Inr x, s1)"
    and ys: "decode_elements env l ty (Suc d) n s1 = (Inr ys, s')" and xs: "xs = x # ys"
    unfolding decode_elements_eq and_then_Inr_iff ok_apply by auto
  note IH = Suc.IH[OF ys] and px = payload_boundedD[OF payload x]
  have "counted l s s' (elements_count xs) (elements_footprint env xs)"
    using counted_trans[OF px(4), of s' "elements_count ys" "elements_footprint env ys"] IH xs by simp
  then show ?case using IH px(1-3) xs by auto
qed

lemma entries_bounded:
  assumes payload: "Suc d \<le> usize_MAX \<Longrightarrow> payload_bounded env l (Suc d)"
  shows "decode_entries env l d w acc s = (Inr c, s') \<Longrightarrow> sorted_keys acc \<Longrightarrow> well_formed_entries acc \<Longrightarrow>
    d + entries_height acc \<le> nl_max_depth l \<Longrightarrow>
    sorted_keys c \<and> well_formed_entries c \<and> d + entries_height c \<le> nl_max_depth l \<and>
    (\<exists>t b. counted l s s' t b \<and> entries_count c \<le> entries_count acc + t \<and>
       entries_footprint env c \<le> entries_footprint env acc + b)"
proof (induction "nl_max_compound_entries l + 1 - w" arbitrary: w acc s rule: less_induct)
  case less
  obtain tid s1 where tid: "read_type_id ''TAG_Compound child type'' s = (Inr tid, s1)"
    and rest: "(if tid = type_id Type_End then ok acc else decode_entry env l d w acc tid) s1 = (Inr c, s')"
    using less.prems(1) unfolding decode_entries_eq and_then_Inr_iff by blast
  note c1 = counted_read_type_id[OF tid, of l]
  show ?case
  proof (cases "tid = type_id Type_End")
    case True
    then show ?thesis using rest less.prems c1 by (auto simp: ok_apply intro!: exI[of _ 0])
  next
    case False
    then obtain ty s2 name s3 x s4 where w: "w + 1 \<le> nl_max_compound_entries l" and fits: "Suc d \<le> usize_MAX"
      and charged: "charge l (compound_entry_budget env) s1 = (Inr (), s2)"
      and name: "decode_string (try_reserve_exact env) l s2 = (Inr name, s3)"
      and x: "decode_payload env l ty (Suc d) s3 = (Inr x, s4)"
      and tail: "decode_entries env l d (w + 1) (compound_insert name x acc) s4 = (Inr c, s')"
      using rest unfolding decode_entry_def
      by (auto simp: and_then_Inr_iff lift_result_apply count_entry_def check_collection_limit_def next_depth_ok
          split: option.splits if_splits)
    note px = payload_boundedD[OF payload[OF fits] x]
    let ?acc = "compound_insert name x acc"
    have acc: "sorted_keys ?acc" "well_formed_entries ?acc"
      using less.prems(2,3) px(2) by (simp_all add: compound_insert_sorted compound_insert_measures)
    have "d + entries_height ?acc \<le> nl_max_depth l"
      using compound_insert_measures(2)[of name x acc] less.prems(4) px(3) by (simp add: max_def split: if_splits)
    moreover have "nl_max_compound_entries l + 1 - (w + 1) < nl_max_compound_entries l + 1 - w" using w by simp
    ultimately obtain t b where IH: "sorted_keys c" "well_formed_entries c"
      "d + entries_height c \<le> nl_max_depth l" "counted l s4 s' t b" "entries_count c \<le> entries_count ?acc + t"
      "entries_footprint env c \<le> entries_footprint env ?acc + b"
      using less.hyps[OF _ tail acc] by blast
    have "counted l s s' (0 + (0 + (0 + (tag_count x + t))))
        (0 + (compound_entry_budget env + (2 * length name + (footprint env x + b))))"
      by (rule counted_trans[OF c1] counted_trans[OF counted_charge[OF charged]]
          counted_trans[OF counted_decode_string[OF name]] counted_trans[OF px(4)] IH(4))+
    moreover have "entries_count c \<le> entries_count acc + (0 + (0 + (0 + (tag_count x + t))))"
      using IH(5) compound_insert_measures(1)[of name x acc] by simp
    moreover have "entries_footprint env c \<le> entries_footprint env acc +
        (0 + (compound_entry_budget env + (2 * length name + (footprint env x + b))))"
      using IH(6) compound_insert_measures(3)[of env name x acc] by simp
    ultimately show ?thesis using IH(1-3) by blast
  qed
qed

lemma list_bounded:
  assumes payload: "Suc d \<le> usize_MAX \<Longrightarrow> payload_bounded env l (Suc d)" and d: "d \<le> nl_max_depth l"
    and run: "decode_list env l d s = (Inr x, s')"
  shows "tag_type x = Type_List \<and> well_formed_tag x \<and> d + tag_height x \<le> nl_max_depth l \<and>
    (\<exists>t. counted l s s' t (footprint env x) \<and> tag_count x = Suc t)"
proof -
  obtain n s1 len s2 where n: "read_type_id ''TAG_List element type'' s = (Inr n, s1)"
    and len: "on_reader read_i32 s1 = (Inr len, s2)"
    and rest: "(if len <=s 0 then ok (empty_with_type_id n)
     else
       and_then (check_list_header env l n (unat len)) (\<lambda>element_type.
       and_then (lift_result (next_depth d l)) (\<lambda>child_depth.
       and_then (decode_elements env l element_type child_depth (unat len)) (\<lambda>elements.
       lift_result (nbt_list_new element_type elements))))) s2 = (Inr x, s')"
    using run unfolding decode_list_def and_then_Inr_iff by blast
  have c: "counted l s s2 0 0"
    using counted_trans[OF counted_read_type_id[OF n] counted_on_reader[OF len]] by simp
  show ?thesis
  proof (cases "len <=s 0")
    case True
    then show ?thesis using rest c d
      by (auto simp: ok_apply empty_with_type_id_def tag_type_def validate_list_def intro!: exI[of _ 0])
  next
    case False
    then obtain ty s3 xs where header: "check_list_header env l n (unat len) s2 = (Inr ty, s3)"
      and fits: "Suc d \<le> usize_MAX" and xs: "decode_elements env l ty (Suc d) (unat len) s3 = (Inr xs, s')"
      and new: "nbt_list_new ty xs = Inr x"
      using rest by (auto simp: and_then_Inr_iff lift_result_apply next_depth_ok)
    note el = elements_bounded[OF payload[OF fits] d xs]
    have x: "x = Tag_List (type_id ty) xs" "validate_list (type_id ty) xs = Inr ()"
      using new by (auto simp: nbt_list_new_def split: sum.splits)
    have "counted l s2 s3 0 (unat len * sizeof_tag env)"
      using header unfolding check_list_header_def and_then_Inr_iff lift_result_apply checked_collection_bytes_iff
      by (auto simp: ensure_Inr ok_apply checked_collection_bytes_iff reserve_def dest: counted_charge)
    then have "counted l s s' (0 + (0 + elements_count xs)) (0 + (unat len * sizeof_tag env + elements_footprint env xs))"
      using el by (intro counted_trans[OF c] counted_trans) auto
    then show ?thesis using el x by (auto simp: tag_type_def)
  qed
qed

lemma decode_payload_End: "decode_payload env l Type_End d s \<noteq> (Inr x, s')"
  by (simp add: decode_payload.simps and_then_Inr_iff run_simps)

lemma payload_bounded_all: "payload_bounded env l d"
proof (induction "usize_MAX + 1 - d" arbitrary: d rule: less_induct)
  case less
  have sub: "payload_bounded env l (Suc d)" if "Suc d \<le> usize_MAX"
    using that by (intro less) simp
  show ?case
    unfolding payload_bounded_def
  proof (intro allI impI)
    fix ty s x s' assume run: "decode_payload env l ty d s = (Inr x, s')"
    let ?thesis = "tag_type x = ty \<and> well_formed_tag x \<and> d + tag_height x \<le> nl_max_depth l \<and>
        counted l s s' (tag_count x) (footprint env x)"
    have leaf: ?thesis if "add_tag l d s = (Inr (), s1)" "counted l s1 s' 0 (footprint env x)"
      "tag_count x = 1" "tag_height x = 0" "well_formed_tag x" "tag_type x = ty" for s1
      using counted_add_tag[OF that(1)] counted_trans[OF conjunct1[OF counted_add_tag[OF that(1)]] that(2)] that(3-6) by simp
    have number: ?thesis if h: "and_then (add_tag l d) (\<lambda>_. and_then (on_reader m) (\<lambda>v. ok (f v))) s = (Inr x, s')"
      "\<And>v. tag_count (f v) = 1 \<and> tag_height (f v) = 0 \<and> well_formed_tag (f v) \<and> tag_type (f v) = ty \<and> footprint env (f v) = 0"
      for m :: "'w reader_op" and f
    proof -
      obtain s1 v where "add_tag l d s = (Inr (), s1)" "on_reader m s1 = (Inr v, s')" "x = f v"
        using h(1) by (auto simp: and_then_Inr_iff ok_apply)
      then show ?thesis using h(2)[of v] counted_on_reader[of m s1 v s' l] by (intro leaf[of s1]) simp_all
    qed
    show ?thesis
    proof (cases ty)
      case Type_End
      then show ?thesis using run decode_payload_End by blast
    next
      case Type_Byte
      then show ?thesis using run
        by (intro number[where f = Tag_Byte and m = read_i8]) (simp_all add: tag_type_def decode_payload_eq)
    next
      case Type_Short
      then show ?thesis using run
        by (intro number[where f = Tag_Short and m = read_i16]) (simp_all add: tag_type_def decode_payload_eq)
    next
      case Type_Int
      then show ?thesis using run
        by (intro number[where f = Tag_Int and m = read_i32]) (simp_all add: tag_type_def decode_payload_eq)
    next
      case Type_Long
      then show ?thesis using run
        by (intro number[where f = Tag_Long and m = read_i64]) (simp_all add: tag_type_def decode_payload_eq)
    next
      case Type_Float
      then show ?thesis using run
        by (intro number[where f = Tag_Float and m = read_f32]) (simp_all add: tag_type_def decode_payload_eq)
    next
      case Type_Double
      then show ?thesis using run
        by (intro number[where f = Tag_Double and m = read_f64]) (simp_all add: tag_type_def decode_payload_eq)
    next
      case Type_ByteArray
      then obtain s1 where add: "add_tag l d s = (Inr (), s1)" and rd: "decode_byte_array env l s1 = (Inr x, s')"
        using run by (auto simp: decode_payload_eq and_then_Inr_iff)
      from counted_arrays(1)[OF rd] Type_ByteArray show ?thesis
        by (elim exE conjE) (rule leaf[OF add], simp_all add: tag_type_def)
    next
      case Type_IntArray
      then obtain s1 where add: "add_tag l d s = (Inr (), s1)" and rd: "decode_int_array env l s1 = (Inr x, s')"
        using run by (auto simp: decode_payload_eq and_then_Inr_iff)
      from counted_arrays(2)[OF rd] Type_IntArray show ?thesis
        by (elim exE conjE) (rule leaf[OF add], simp_all add: tag_type_def)
    next
      case Type_LongArray
      then obtain s1 where add: "add_tag l d s = (Inr (), s1)" and rd: "decode_long_array env l s1 = (Inr x, s')"
        using run by (auto simp: decode_payload_eq and_then_Inr_iff)
      from counted_arrays(3)[OF rd] Type_LongArray show ?thesis
        by (elim exE conjE) (rule leaf[OF add], simp_all add: tag_type_def)
    next
      case Type_String
      then obtain s1 str where add: "add_tag l d s = (Inr (), s1)" and x: "x = Tag_String str"
        and rd: "decode_string (try_reserve_exact env) l s1 = (Inr str, s')"
        using run by (auto simp: decode_payload_eq and_then_Inr_iff ok_apply)
      from counted_decode_string[OF rd] Type_String show ?thesis
        by (intro leaf[OF add]) (simp_all add: x tag_type_def)
    next
      case Type_List
      then obtain s1 where add: "add_tag l d s = (Inr (), s1)" and list: "decode_list env l d s1 = (Inr x, s')"
        using run by (auto simp: decode_payload_list_eq and_then_Inr_iff)
      note a = counted_add_tag[OF add]
      from list_bounded[OF sub _ list] a obtain t where x: "tag_type x = Type_List" "well_formed_tag x"
        "d + tag_height x \<le> nl_max_depth l" "counted l s1 s' t (footprint env x)" "tag_count x = Suc t" by auto
      with counted_trans[OF conjunct1[OF a] x(4)] Type_List show ?thesis by simp
    next
      case Type_Compound
      then obtain s1 c where add: "add_tag l d s = (Inr (), s1)" and x: "x = Tag_Compound c"
        and c: "decode_entries env l d 0 [] s1 = (Inr c, s')"
        using run by (auto simp: decode_payload_eq and_then_Inr_iff ok_apply)
      note a = counted_add_tag[OF add]
      from entries_bounded[OF sub c] a obtain t b where b: "sorted_keys c" "well_formed_entries c"
        "d + entries_height c \<le> nl_max_depth l" "counted l s1 s' t b" "entries_count c \<le> t" "entries_footprint env c \<le> b"
        by (auto simp: sorted_keys_def)
      have "counted l s s' (1 + t) (0 + b)" using counted_trans[OF conjunct1[OF a] b(4)] .
      then have "counted l s s' (Suc (entries_count c)) (entries_footprint env c)"
        by (rule counted_mono) (use b in simp_all)
      then show ?thesis using b x Type_Compound by (simp add: tag_type_def)
    qed
  qed
qed

lemma complete_Inr:
  assumes "complete (with_context m) bytes = Inr x"
  shows "\<exists>s'. m (nbt_at (new_reader bytes) 0 0) = (Inr x, s')"
  using assms by (auto simp: complete_def with_context_def split: prod.splits sum.splits)

text \<open>
  C8: whatever bytes arrive, a tag the network decoder returns is inside every limit it was given:
  nesting at most \<open>max_depth\<close>, at most \<open>max_total_tags\<close> values, at most \<open>max_total_allocated_bytes\<close> of
  charged memory; its lists hold one type of element, and its compounds are sorted by key.
\<close>
theorem nbt_decoding_bounded:
  assumes "decode_unnamed_network_tag_complete env l bytes = Inr x"
  shows "tag_height x \<le> nl_max_depth l \<and> tag_count x \<le> nl_max_total_tags l \<and>
    footprint env x \<le> nl_max_total_allocated_bytes l \<and> well_formed_tag x"
proof -
  obtain ty s s' where "decode_payload env l ty 0 s = (Inr x, s')" and "total_tags s = 0" "allocated_bytes s = 0"
    using complete_Inr[OF assms[unfolded decode_unnamed_network_tag_complete_def decode_unnamed_network_tag_def]]
    by (auto simp: and_then_Inr_iff lift_result_apply ensure_Inr nbt_at_def read_type_id_def on_reader_def run_simps
        split: prod.splits sum.splits list.splits if_splits)
  then show ?thesis
    using payload_boundedD[OF payload_bounded_all, of env l ty 0 s x s'] by (auto simp: counted_def)
qed

theorem nbt_decoding_bounded_witness:
  "decode_unnamed_network_tag_complete \<lparr>sizeof_tag = 32, sizeof_string = 24, try_reserve_exact = (\<lambda>_. True)\<rparr>
     (nbt_limits_default\<lparr>nl_max_total_tags := 1\<rparr>) ([1, 7] :: u8 list) = Inr (Tag_Byte 7) \<and>
   tag_count (Tag_Byte 7) \<le> 1"
proof -
  let ?env = "\<lparr>sizeof_tag = 32, sizeof_string = 24, try_reserve_exact = (\<lambda>_. True)\<rparr> :: nbt_env"
    and ?l = "nbt_limits_default\<lparr>nl_max_total_tags := 1\<rparr>"
  have "decode_unnamed_network_tag_complete ?env ?l [1, 7] = Inr (Tag_Byte 7)"
    by (simp add: decode_unnamed_network_tag_complete_def decode_unnamed_network_tag_def complete_def with_context_def
        and_then_def read_type_id_def on_reader_def read_bytes_def get_range_def remaining_def new_reader_def nbt_at_def
        checked_add_def usize_MAX_def ensure_def lift_result_def require_type_def type_from_id_def type_id_def
        decode_payload_eq add_tag_def nbt_limits_default_def read_i8_def read_byte_with_context_def run_simps
        from_be_bytes_def reject_trailing_def)
  with nbt_decoding_bounded[OF this] show ?thesis by simp
qed

end
