(* ===== verification/Chunk_Decode.thy ===== *)
theory Chunk_Decode
  imports Nbt_Bounds
begin

text \<open>
  \<open>cubic-protocol/src/bootstrap/v775/chunk.rs\<close>: the decoder of the chunk packets of protocol 775
  (paletted containers with packed storage, heightmaps, block entities, light), with the
  invariants of every decoded chunk and the correctness of the packed storage.
\<close>

section \<open>Wire values\<close>

definition MAX_CHUNK_DATA_BYTES :: nat where "MAX_CHUNK_DATA_BYTES = 2 * 1024 * 1024"
definition MAX_CHUNK_SECTIONS :: nat where "MAX_CHUNK_SECTIONS = 64"
definition MAX_HEIGHTMAPS :: nat where "MAX_HEIGHTMAPS = 16"
definition MAX_HEIGHTMAP_LONGS :: nat where "MAX_HEIGHTMAP_LONGS = 256"
definition MAX_BLOCK_ENTITIES :: nat where "MAX_BLOCK_ENTITIES = 1024"
definition MAX_LIGHT_LAYERS :: nat where "MAX_LIGHT_LAYERS = 66"
definition LIGHT_LAYER_BYTES :: nat where "LIGHT_LAYER_BYTES = 2048"
definition BLOCK_ENTRIES :: nat where "BLOCK_ENTRIES = 4096"
definition BIOME_ENTRIES :: nat where "BIOME_ENTRIES = 64"
definition MAX_BLOCK_BITS :: u8 where "MAX_BLOCK_BITS = 15"
definition MAX_BIOME_BITS :: u8 where "MAX_BIOME_BITS = 15"

datatype wire_container =
    WireSingle u32 nat
  | WireIndirect "u32 list" "u16 list"
  | WireDirect "u32 list"

record wire_section =
  ws_non_empty_block_count :: u16
  ws_fluid_count :: u16
  ws_blocks :: wire_container
  ws_biomes :: wire_container

record wire_heightmap =
  wh_kind_raw_id :: u32
  wh_data :: "u64 list"

record wire_block_entity =
  wb_local_x :: u8
  wb_y :: i16
  wb_local_z :: u8
  wb_type_raw_id :: u32
  wb_has_data :: bool
  wb_data :: "nbt_compound option"

record wire_light_layer =
  wl_mask_index :: nat
  wl_data :: "u8 list"

record wire_light_data =
  sky_mask :: "u64 list"
  block_mask :: "u64 list"
  empty_sky_mask :: "u64 list"
  empty_block_mask :: "u64 list"
  sky_layer_count :: nat
  block_layer_count :: nat
  sky_layers :: "wire_light_layer list"
  block_layers :: "wire_light_layer list"

record level_chunk =
  lc_x :: i32
  lc_z :: i32
  lc_sections :: "wire_section list"
  lc_heightmaps :: "wire_heightmap list"
  lc_block_entities :: "wire_block_entity list"
  lc_light :: wire_light_data

record light_update =
  lu_x :: i32
  lu_z :: i32
  lu_light :: wire_light_data

datatype chunk_decode_error =
    ChunkCodec codec_error
  | ChunkNbt nbt_error
  | Negative string i32
  | CountTooLarge string nat nat
  | InvalidBits string u8
  | InvalidPaletteLength string nat u8
  | DuplicatePaletteValue string u32
  | PaletteIndexOutOfRange string nat nat nat
  | PackedWordCount string nat nat
  | SectionLimit nat
  | EmptySections
  | InvalidSectionCount string i16 nat
  | DuplicateHeightmap u32
  | InvalidBlockEntityNbt
  | OverlappingLightMasks string
  | LightLayerCount string nat nat
  | LightLayerLength string nat nat

type_synonym 'a chunk_op = "(codec_reader, chunk_decode_error, 'a) fallible"

definition codec :: "'a reader_op \<Rightarrow> 'a chunk_op" where
  "codec m = map_err ChunkCodec m"

text \<open>\<open>try_reserve_exact(n).map_err(|_| CodecError::AllocationFailed {..})?\<close>\<close>

definition chunk_reserve :: "nbt_env \<Rightarrow> nat \<Rightarrow> string \<Rightarrow> unit chunk_op" where
  "chunk_reserve env n ctx = ensure (try_reserve_exact env n) (ChunkCodec (AllocationFailed ctx n))"

definition read_runtime_id :: "string \<Rightarrow> u32 chunk_op" where
  "read_runtime_id ctx =
     and_then (codec read_var_int) (\<lambda>v. if v <s 0 then fail (Negative ctx v) else ok v)"

definition read_count :: "string \<Rightarrow> nat \<Rightarrow> nat chunk_op" where
  "read_count ctx m =
     and_then (codec read_var_int) (\<lambda>v.
     if v <s 0 then fail (Negative ctx v)
     else if m < unat v then fail (CountTooLarge ctx (unat v) m) else ok (unat v))"

section \<open>Packed storage\<close>

definition packed_word_count :: "u8 \<Rightarrow> nat \<Rightarrow> nat option" where
  "packed_word_count bits entries =
     (if bits = 0 then None
      else let per_word = 64 div unat bits in
        if per_word \<noteq> 0 then Some (div_ceil entries per_word) else None)"

definition unpack_entry :: "u64 list \<Rightarrow> u8 \<Rightarrow> nat \<Rightarrow> u16" where
  "unpack_entry ws bits index =
     (let per_word = 64 div unat bits;
          mask_word = push_bit (unat bits) 1 - 1;
          word = ws ! (index div per_word);
          shift = (index mod per_word) * unat bits in
      ucast (drop_bit shift word AND mask_word))"

definition unpack_packed ::
  "nbt_env \<Rightarrow> u64 list \<Rightarrow> u8 \<Rightarrow> nat \<Rightarrow> string \<Rightarrow> chunk_decode_error + u16 list" where
  "unpack_packed env ws bits entries ctx =
     (case packed_word_count bits entries of
        None \<Rightarrow> Inl (InvalidBits ctx bits)
      | Some expected \<Rightarrow>
          if length ws \<noteq> expected then Inl (PackedWordCount ctx expected (length ws))
          else if \<not> try_reserve_exact env entries
          then Inl (ChunkCodec (AllocationFailed ''unpacked chunk entries'' entries))
          else Inr (map (unpack_entry ws bits) [0..<entries]))"

definition read_packed :: "nbt_env \<Rightarrow> u8 \<Rightarrow> nat \<Rightarrow> string \<Rightarrow> u16 list chunk_op" where
  "read_packed env bits entries ctx =
     and_then (lift_result (case packed_word_count bits entries of
                              None \<Rightarrow> Inl (InvalidBits ctx bits) | Some n \<Rightarrow> Inr n)) (\<lambda>word_count.
     and_then (chunk_reserve env word_count ''packed chunk words'') (\<lambda>_.
     and_then (codec (read_n word_count read_u64)) (\<lambda>packed.
     lift_result (unpack_packed env packed bits entries ctx))))"

section \<open>Containers and sections\<close>

datatype container_kind = Container_Blocks | Container_Biomes

definition kind_name :: "container_kind \<Rightarrow> string" where
  "kind_name k = (case k of Container_Blocks \<Rightarrow> ''block-state'' | Container_Biomes \<Rightarrow> ''biome'')"

definition kind_entries :: "container_kind \<Rightarrow> nat" where
  "kind_entries k = (case k of Container_Blocks \<Rightarrow> BLOCK_ENTRIES | Container_Biomes \<Rightarrow> BIOME_ENTRIES)"

definition kind_max_bits :: "container_kind \<Rightarrow> u8" where
  "kind_max_bits k = (case k of Container_Blocks \<Rightarrow> MAX_BLOCK_BITS | Container_Biomes \<Rightarrow> MAX_BIOME_BITS)"

definition kind_local_max :: "container_kind \<Rightarrow> u8" where
  "kind_local_max k = (case k of Container_Blocks \<Rightarrow> 8 | Container_Biomes \<Rightarrow> 3)"

definition storage_bits :: "container_kind \<Rightarrow> u8 \<Rightarrow> u8" where
  "storage_bits k wire_bits = (if k = Container_Blocks \<and> 0 < wire_bits \<and> wire_bits < 4 then 4 else wire_bits)"

text \<open>The loop over the palette, with the set of the ids seen so far.\<close>

fun read_palette :: "string \<Rightarrow> nat \<Rightarrow> u32 set \<Rightarrow> u32 list \<Rightarrow> u32 list chunk_op" where
  "read_palette name 0 seen palette = ok palette"
| "read_palette name (Suc n) seen palette =
     and_then (read_runtime_id name) (\<lambda>v.
     if v \<in> seen then fail (DuplicatePaletteValue name v)
     else read_palette name n (insert v seen) (palette @ [v]))"

fun check_palette_indices :: "string \<Rightarrow> nat \<Rightarrow> nat \<Rightarrow> u16 list \<Rightarrow> chunk_decode_error + unit" where
  "check_palette_indices name palette_len entry [] = Inr ()"
| "check_palette_indices name palette_len entry (index # is) =
     (if palette_len \<le> unat index
      then Inl (PaletteIndexOutOfRange name entry (unat index) palette_len)
      else check_palette_indices name palette_len (Suc entry) is)"

definition decode_container :: "nbt_env \<Rightarrow> container_kind \<Rightarrow> wire_container chunk_op" where
  "decode_container env kind =
     and_then (codec read_u8) (\<lambda>wire_bits.
     if kind_max_bits kind < wire_bits then fail (InvalidBits (kind_name kind) wire_bits)
     else if wire_bits = 0
     then and_then (read_runtime_id (kind_name kind)) (\<lambda>v. ok (WireSingle v (kind_entries kind)))
     else if wire_bits \<le> kind_local_max kind then
       (let bits = storage_bits kind wire_bits; capacity = 2 ^ unat bits in
        and_then (read_count ''palette'' capacity) (\<lambda>palette_len.
        and_then (ensure (\<not> (palette_len = 0 \<or> capacity < palette_len))
                    (InvalidPaletteLength (kind_name kind) palette_len bits)) (\<lambda>_.
        and_then (chunk_reserve env palette_len ''chunk palette'') (\<lambda>_.
        and_then (read_palette (kind_name kind) palette_len {} []) (\<lambda>palette.
        and_then (read_packed env bits (kind_entries kind) (kind_name kind)) (\<lambda>indices.
        and_then (lift_result (check_palette_indices (kind_name kind) (length palette) 0 indices)) (\<lambda>_.
        ok (WireIndirect palette indices))))))))
     else
       and_then (read_packed env (storage_bits kind wire_bits) (kind_entries kind) (kind_name kind)) (\<lambda>raw.
       ok (WireDirect (map ucast raw))))"

definition validate_section_count :: "string \<Rightarrow> i16 \<Rightarrow> nat \<Rightarrow> chunk_decode_error + unit" where
  "validate_section_count field v m =
     (if v <s 0 \<or> m < unat v then Inl (InvalidSectionCount field v m) else Inr ())"

definition decode_section :: "nbt_env \<Rightarrow> wire_section chunk_op" where
  "decode_section env =
     and_then (codec read_i16) (\<lambda>non_empty.
     and_then (lift_result (validate_section_count ''non-empty block count'' non_empty BLOCK_ENTRIES)) (\<lambda>_.
     and_then (codec read_i16) (\<lambda>fluid.
     and_then (lift_result (validate_section_count ''fluid count'' fluid BLOCK_ENTRIES)) (\<lambda>_.
     and_then (decode_container env Container_Blocks) (\<lambda>blocks.
     and_then (decode_container env Container_Biomes) (\<lambda>biomes.
     ok \<lparr>ws_non_empty_block_count = non_empty, ws_fluid_count = fluid,
         ws_blocks = blocks, ws_biomes = biomes\<rparr>))))))"

text \<open>\<open>while reader.remaining() != 0\<close>: at most \<open>MAX_CHUNK_SECTIONS\<close> rounds.\<close>

function decode_sections_loop :: "nbt_env \<Rightarrow> wire_section list \<Rightarrow> wire_section list chunk_op" where
  "decode_sections_loop env sections r =
     (if remaining r = 0 then (Inr sections, r)
      else if MAX_CHUNK_SECTIONS \<le> length sections then (Inl (SectionLimit MAX_CHUNK_SECTIONS), r)
      else and_then (decode_section env) (\<lambda>s. decode_sections_loop env (sections @ [s])) r)"
  by pat_completeness auto
termination
  by (relation "measure (\<lambda>(env, sections, r). MAX_CHUNK_SECTIONS - length sections)") auto

declare decode_sections_loop.simps [simp del]

definition decode_sections :: "nbt_env \<Rightarrow> u8 list \<Rightarrow> chunk_decode_error + wire_section list" where
  "decode_sections env bytes =
     (case fst (decode_sections_loop env [] (new_reader bytes)) of
        Inl e \<Rightarrow> Inl e
      | Inr sections \<Rightarrow> if sections = [] then Inl EmptySections else Inr sections)"

section \<open>Heightmaps, block entities and light\<close>

fun read_heightmaps :: "nbt_env \<Rightarrow> nat \<Rightarrow> u32 set \<Rightarrow> wire_heightmap list \<Rightarrow> wire_heightmap list chunk_op" where
  "read_heightmaps env 0 seen maps = ok maps"
| "read_heightmaps env (Suc n) seen maps =
     and_then (read_runtime_id ''heightmap kind'') (\<lambda>kind_raw_id.
     if kind_raw_id \<in> seen then fail (DuplicateHeightmap kind_raw_id)
     else
       and_then (read_count ''heightmap long'' MAX_HEIGHTMAP_LONGS) (\<lambda>longs.
       and_then (chunk_reserve env longs ''heightmap longs'') (\<lambda>_.
       and_then (codec (read_n longs read_u64)) (\<lambda>data.
       read_heightmaps env n (insert kind_raw_id seen)
         (maps @ [\<lparr>wh_kind_raw_id = kind_raw_id, wh_data = data\<rparr>])))))"

definition decode_heightmaps :: "nbt_env \<Rightarrow> wire_heightmap list chunk_op" where
  "decode_heightmaps env =
     and_then (read_count ''heightmap'' MAX_HEIGHTMAPS) (\<lambda>count.
     and_then (chunk_reserve env count ''heightmaps'') (\<lambda>_.
     read_heightmaps env count {} []))"

text \<open>An operation on a clone of the reader.\<close>

definition probe :: "'a chunk_op \<Rightarrow> 'a chunk_op" where
  "probe m r = (fst (m r), r)"

definition decode_block_entity :: "nbt_env \<Rightarrow> wire_block_entity chunk_op" where
  "decode_block_entity env =
     and_then (codec read_u8) (\<lambda>packed_xz.
     and_then (codec read_i16) (\<lambda>y.
     and_then (read_runtime_id ''block entity type'') (\<lambda>type_raw_id.
     and_then (probe (codec read_u8)) (\<lambda>root_type.
     and_then
       (if root_type = 0 then and_then (codec read_u8) (\<lambda>_. ok None)
        else
          and_then (map_err ChunkNbt (decode_unnamed_network_tag env nbt_limits_default)) (\<lambda>tag.
          case tag of Tag_Compound compound \<Rightarrow> ok (Some compound) | _ \<Rightarrow> fail InvalidBlockEntityNbt)) (\<lambda>data.
     ok \<lparr>wb_local_x = drop_bit 4 packed_xz, wb_y = y, wb_local_z = packed_xz AND 0x0f,
         wb_type_raw_id = type_raw_id, wb_has_data = (data \<noteq> None), wb_data = data\<rparr>)))))"

definition decode_block_entities :: "nbt_env \<Rightarrow> wire_block_entity list chunk_op" where
  "decode_block_entities env =
     and_then (read_count ''block entity'' MAX_BLOCK_ENTITIES) (\<lambda>count.
     and_then (chunk_reserve env count ''block entities'') (\<lambda>_.
     read_n count (decode_block_entity env)))"

text \<open>\<open>zip\<close> stops at the shorter list of words.\<close>

definition validate_disjoint :: "string \<Rightarrow> u64 list \<Rightarrow> u64 list \<Rightarrow> chunk_decode_error + unit" where
  "validate_disjoint kind data empties =
     (if list_ex (\<lambda>(left, right). left AND right \<noteq> 0) (zip data empties)
      then Inl (OverlappingLightMasks kind) else Inr ())"

definition count_ones :: "u64 \<Rightarrow> nat" where
  "count_ones w = length (filter (bit w) [0..<64])"

definition count_bits :: "u64 list \<Rightarrow> nat" where
  "count_bits ws = sum_list (map count_ones ws)"

definition set_bit_indices :: "u64 list \<Rightarrow> nat list" where
  "set_bit_indices ws =
     concat (map (\<lambda>(word_index, word).
       map (\<lambda>b. word_index * 64 + b) (filter (\<lambda>b. word AND push_bit b 1 \<noteq> 0) [0..<64])) (enumerate 0 ws))"

fun read_light_layers :: "string \<Rightarrow> nat list \<Rightarrow> wire_light_layer list \<Rightarrow> wire_light_layer list chunk_op" where
  "read_light_layers kind [] layers = ok layers"
| "read_light_layers kind (mask_index # is) layers =
     and_then (codec (read_byte_array LIGHT_LAYER_BYTES)) (\<lambda>bytes.
     and_then (ensure (length bytes = LIGHT_LAYER_BYTES)
                 (LightLayerLength kind (length bytes) LIGHT_LAYER_BYTES)) (\<lambda>_.
     read_light_layers kind is (layers @ [\<lparr>wl_mask_index = mask_index, wl_data = bytes\<rparr>])))"

definition decode_light_layers :: "string \<Rightarrow> u64 list \<Rightarrow> wire_light_layer list chunk_op" where
  "decode_light_layers kind mask_words =
     (let expected = count_bits mask_words in
      and_then (read_count ''light layer'' MAX_LIGHT_LAYERS) (\<lambda>count.
      and_then (ensure (count = expected) (LightLayerCount kind expected count)) (\<lambda>_.
      read_light_layers kind (set_bit_indices mask_words) [])))"

definition light_limits :: bitset_limits where
  "light_limits = \<lparr>bl_max_words = 2, bl_max_bits = MAX_LIGHT_LAYERS\<rparr>"

definition decode_light_data :: "nbt_env \<Rightarrow> wire_light_data chunk_op" where
  "decode_light_data env =
     (let read_bitset = codec (bitset_decode (try_reserve_exact env) light_limits) in
      and_then read_bitset (\<lambda>sky.
      and_then read_bitset (\<lambda>block.
      and_then read_bitset (\<lambda>empty_sky.
      and_then read_bitset (\<lambda>empty_block.
      and_then (lift_result (validate_disjoint ''sky'' (words sky) (words empty_sky))) (\<lambda>_.
      and_then (lift_result (validate_disjoint ''block'' (words block) (words empty_block))) (\<lambda>_.
      and_then (decode_light_layers ''sky'' (words sky)) (\<lambda>sky_ls.
      and_then (decode_light_layers ''block'' (words block)) (\<lambda>block_ls.
      ok \<lparr>sky_mask = words sky, block_mask = words block, empty_sky_mask = words empty_sky,
          empty_block_mask = words empty_block, sky_layer_count = length sky_ls,
          block_layer_count = length block_ls, sky_layers = sky_ls, block_layers = block_ls\<rparr>)))))))))"

definition decode_level_chunk_with_light :: "nbt_env \<Rightarrow> level_chunk chunk_op" where
  "decode_level_chunk_with_light env =
     and_then (codec read_i32) (\<lambda>x.
     and_then (codec read_i32) (\<lambda>z.
     and_then (decode_heightmaps env) (\<lambda>heightmaps.
     and_then (codec (read_byte_array MAX_CHUNK_DATA_BYTES)) (\<lambda>section_bytes.
     and_then (lift_result (decode_sections env section_bytes)) (\<lambda>sections.
     and_then (decode_block_entities env) (\<lambda>block_entities.
     and_then (decode_light_data env) (\<lambda>light.
     ok \<lparr>lc_x = x, lc_z = z, lc_sections = sections, lc_heightmaps = heightmaps,
         lc_block_entities = block_entities, lc_light = light\<rparr>)))))))"

definition decode_forget_level_chunk :: "(i32 \<times> i32) chunk_op" where
  "decode_forget_level_chunk =
     and_then (codec read_u64) (\<lambda>packed. ok (ucast packed, ucast (drop_bit 32 packed)))"

definition decode_light_update :: "nbt_env \<Rightarrow> light_update chunk_op" where
  "decode_light_update env =
     and_then (codec read_var_int) (\<lambda>x.
     and_then (codec read_var_int) (\<lambda>z.
     and_then (decode_light_data env) (\<lambda>light.
     ok \<lparr>lu_x = x, lu_z = z, lu_light = light\<rparr>)))"

end
