(* ===== verification/Chunk_Valid.thy ===== *)
theory Chunk_Valid
  imports Chunk_Decode
begin

text \<open>
  What the chunk decoder promises: every chunk it returns satisfies the invariants the client relies
  on, whatever the server sent, and the packed storage and the paletted containers of the wire
  format are read as what they encode.
\<close>

section \<open>The invariants of a decoded chunk\<close>

definition container_valid :: "container_kind \<Rightarrow> wire_container \<Rightarrow> bool" where
  "container_valid kind c =
     (case c of
        WireSingle v n \<Rightarrow> n = kind_entries kind \<and> unat v \<le> i32_MAX
      | WireIndirect palette indices \<Rightarrow>
          palette \<noteq> [] \<and> length palette \<le> 2 ^ unat (kind_local_max kind) \<and> distinct palette \<and>
          (\<forall>v\<in>set palette. unat v \<le> i32_MAX) \<and> length indices = kind_entries kind \<and>
          (\<forall>i\<in>set indices. unat i < length palette)
      | WireDirect vs \<Rightarrow> length vs = kind_entries kind \<and> (\<forall>v\<in>set vs. unat v < 2 ^ 15))"

definition section_valid :: "wire_section \<Rightarrow> bool" where
  "section_valid s \<longleftrightarrow> unat (ws_non_empty_block_count s) \<le> BLOCK_ENTRIES \<and> unat (ws_fluid_count s) \<le> BLOCK_ENTRIES \<and>
     container_valid Container_Blocks (ws_blocks s) \<and> container_valid Container_Biomes (ws_biomes s)"

definition heightmaps_valid :: "wire_heightmap list \<Rightarrow> bool" where
  "heightmaps_valid hs \<longleftrightarrow> length hs \<le> MAX_HEIGHTMAPS \<and> distinct (map wh_kind_raw_id hs) \<and>
     (\<forall>h\<in>set hs. length (wh_data h) \<le> MAX_HEIGHTMAP_LONGS)"

definition block_entity_valid :: "wire_block_entity \<Rightarrow> bool" where
  "block_entity_valid e \<longleftrightarrow> unat (wb_local_x e) < 16 \<and> unat (wb_local_z e) < 16 \<and>
     unat (wb_type_raw_id e) \<le> i32_MAX \<and> wb_has_data e = (wb_data e \<noteq> None) \<and>
     (\<forall>c. wb_data e = Some c \<longrightarrow> well_formed_tag (Tag_Compound c) \<and>
        tag_height (Tag_Compound c) \<le> nl_max_depth nbt_limits_default)"

definition layers_valid :: "u64 list \<Rightarrow> nat \<Rightarrow> wire_light_layer list \<Rightarrow> bool" where
  "layers_valid mask_words count layers \<longleftrightarrow> count = length layers \<and> length layers \<le> MAX_LIGHT_LAYERS \<and>
     map wl_mask_index layers = filter (bit_at mask_words) [0..<MAX_LIGHT_LAYERS] \<and>
     (\<forall>l\<in>set layers. length (wl_data l) = LIGHT_LAYER_BYTES)"

definition light_valid :: "wire_light_data \<Rightarrow> bool" where
  "light_valid d \<longleftrightarrow>
     layers_valid (sky_mask d) (sky_layer_count d) (sky_layers d) \<and>
     layers_valid (block_mask d) (block_layer_count d) (block_layers d) \<and>
     (\<forall>n. \<not> (bit_at (sky_mask d) n \<and> bit_at (empty_sky_mask d) n)) \<and>
     (\<forall>n. \<not> (bit_at (block_mask d) n \<and> bit_at (empty_block_mask d) n)) \<and>
     (\<forall>n. bit_at (empty_sky_mask d) n \<or> bit_at (empty_block_mask d) n \<longrightarrow> n < MAX_LIGHT_LAYERS)"

definition chunk_valid :: "level_chunk \<Rightarrow> bool" where
  "chunk_valid c \<longleftrightarrow> lc_sections c \<noteq> [] \<and> length (lc_sections c) \<le> MAX_CHUNK_SECTIONS \<and>
     (\<forall>s\<in>set (lc_sections c). section_valid s) \<and> heightmaps_valid (lc_heightmaps c) \<and>
     length (lc_block_entities c) \<le> MAX_BLOCK_ENTITIES \<and>
     (\<forall>e\<in>set (lc_block_entities c). block_entity_valid e) \<and> light_valid (lc_light c)"

section \<open>Reading\<close>

lemma codec_Inr [simp]: "codec m r = (Inr v, r') \<longleftrightarrow> m r = (Inr v, r')"
  by (simp add: codec_def map_err_Inr)

lemma chunk_reserve_Inr [simp]: "chunk_reserve env n ctx r = (Inr u, r') \<longleftrightarrow> try_reserve_exact env n \<and> r' = r"
  by (auto simp: chunk_reserve_def ensure_Inr)

lemma read_runtime_id_Inr: "read_runtime_id ctx r = (Inr v, r') \<Longrightarrow> unat v \<le> i32_MAX"
  by (auto simp: read_runtime_id_def and_then_Inr_iff run_simps nonneg_i32_iff split: if_splits)

lemma read_count_Inr: "read_count ctx m r = (Inr n, r') \<Longrightarrow> n \<le> m \<and> n \<le> i32_MAX"
  by (auto simp: read_count_def and_then_Inr_iff run_simps nonneg_i32_iff split: if_splits)

lemma entry_mask: "push_bit n 1 - 1 = (mask n :: u64)"
  by (simp add: mask_eq_exp_minus_1 push_bit_eq_mult)

lemma unpack_packed_Inr:
  assumes "unpack_packed env ws bits entries ctx = Inr vs"
  shows "length vs = entries" and "\<forall>v\<in>set vs. unat v < 2 ^ unat bits"
proof -
  have vs: "vs = map (unpack_entry ws bits) [0..<entries]" and nz: "bits \<noteq> 0"
    using assms by (auto simp: unpack_packed_def packed_word_count_def split: option.splits if_splits)
  show "length vs = entries" by (simp add: vs)
  have "unat (unpack_entry ws bits i) < 2 ^ unat bits" for i
    by (simp only: unpack_entry_def Let_def entry_mask unat_ucast unat_and_mask)
      (rule order_le_less_trans[OF mod_less_eq_dividend], simp)
  then show "\<forall>v\<in>set vs. unat v < 2 ^ unat bits" by (auto simp: vs)
qed

lemma read_packed_Inr:
  assumes "read_packed env bits entries ctx r = (Inr vs, r')"
  shows "length vs = entries" and "\<forall>v\<in>set vs. unat v < 2 ^ unat bits"
proof -
  obtain ws where u: "unpack_packed env ws bits entries ctx = Inr vs"
    using assms by (auto simp: read_packed_def and_then_Inr_iff lift_result_apply)
  show "length vs = entries" and "\<forall>v\<in>set vs. unat v < 2 ^ unat bits"
    using unpack_packed_Inr[OF u] by simp_all
qed

lemma read_palette_Inr:
  "read_palette name n seen palette r = (Inr p, r') \<Longrightarrow> seen = set palette \<Longrightarrow> distinct palette \<Longrightarrow>
   \<forall>v\<in>set palette. unat v \<le> i32_MAX \<Longrightarrow>
   distinct p \<and> length p = length palette + n \<and> (\<forall>v\<in>set p. unat v \<le> i32_MAX)"
proof (induction n arbitrary: seen palette r)
  case 0
  then show ?case by (simp add: run_simps)
next
  case (Suc n)
  then obtain v r1 where v: "read_runtime_id name r = (Inr v, r1)" "v \<notin> seen"
    and rest: "read_palette name n (insert v seen) (palette @ [v]) r1 = (Inr p, r')"
    by (auto simp: and_then_Inr_iff run_simps split: if_splits)
  then show ?case using Suc.IH[OF rest] Suc.prems read_runtime_id_Inr[OF v(1)] by auto
qed

lemma check_palette_indices_iff:
  "check_palette_indices name n entry indices = Inr () \<longleftrightarrow> (\<forall>i\<in>set indices. unat i < n)"
  by (induction name n entry indices rule: check_palette_indices.induct) (auto split: if_splits)

lemma storage_bits_le: "b \<le> kind_local_max kind \<Longrightarrow> storage_bits kind b \<le> kind_local_max kind"
  by (auto simp: storage_bits_def kind_local_max_def)

lemma decode_container_valid:
  assumes run: "decode_container env kind r = (Inr c, r')"
  shows "container_valid kind c"
proof -
  obtain b r1 where "read_u8 r = (Inr b, r1)" and max: "b \<le> kind_max_bits kind"
    and rest: "(if b = 0
     then and_then (read_runtime_id (kind_name kind)) (\<lambda>v. ok (WireSingle v (kind_entries kind)))
     else if b \<le> kind_local_max kind then
       (let bits = storage_bits kind b; capacity = 2 ^ unat bits in
        and_then (read_count ''palette'' capacity) (\<lambda>palette_len.
        and_then (ensure (\<not> (palette_len = 0 \<or> capacity < palette_len))
                    (InvalidPaletteLength (kind_name kind) palette_len bits)) (\<lambda>_.
        and_then (chunk_reserve env palette_len ''chunk palette'') (\<lambda>_.
        and_then (read_palette (kind_name kind) palette_len {} []) (\<lambda>palette.
        and_then (read_packed env bits (kind_entries kind) (kind_name kind)) (\<lambda>indices.
        and_then (lift_result (check_palette_indices (kind_name kind) (length palette) 0 indices)) (\<lambda>_.
        ok (WireIndirect palette indices))))))))
     else
       and_then (read_packed env (storage_bits kind b) (kind_entries kind) (kind_name kind)) (\<lambda>raw.
       ok (WireDirect (map ucast raw)))) r1 = (Inr c, r')"
    using run unfolding decode_container_def and_then_Inr_iff codec_Inr
    by (auto simp: run_simps not_less split: if_splits)
  consider (single) "b = 0" | (indirect) "b \<noteq> 0" "b \<le> kind_local_max kind"
    | (direct) "b \<noteq> 0" "\<not> b \<le> kind_local_max kind" by blast
  then show ?thesis
  proof cases
    case single
    then show ?thesis using rest
      by (auto simp: and_then_Inr_iff run_simps container_valid_def dest: read_runtime_id_Inr)
  next
    case indirect
    let ?bits = "storage_bits kind b"
    obtain n p ix r2 r3 r4 where n: "n \<noteq> 0" "n \<le> 2 ^ unat ?bits"
      and p: "read_palette (kind_name kind) n {} [] r2 = (Inr p, r3)"
      and ix: "read_packed env ?bits (kind_entries kind) (kind_name kind) r3 = (Inr ix, r4)"
      and check: "check_palette_indices (kind_name kind) (length p) 0 ix = Inr ()"
      and c: "c = WireIndirect p ix"
      using rest indirect by (auto simp: Let_def and_then_Inr_iff lift_result_apply ensure_Inr ok_apply not_less)
    have "distinct p \<and> length p = n \<and> (\<forall>v\<in>set p. unat v \<le> i32_MAX)"
      using read_palette_Inr[OF p] by simp
    moreover have "(2::nat) ^ unat ?bits \<le> 2 ^ unat (kind_local_max kind)"
      using storage_bits_le[OF indirect(2)] by (intro power_increasing) (simp_all add: word_le_nat_alt)
    then have "n \<le> 2 ^ unat (kind_local_max kind)" by (rule order_trans[OF n(2)])
    ultimately show ?thesis
      using n read_packed_Inr(1)[OF ix] check[unfolded check_palette_indices_iff] by (auto simp: container_valid_def c)
  next
    case direct
    have b: "storage_bits kind b = b" using direct by (auto simp: storage_bits_def kind_local_max_def word_less_nat_alt word_le_nat_alt)
    have "b \<le> 15" using max by (cases kind) (simp_all add: kind_max_bits_def MAX_BLOCK_BITS_def MAX_BIOME_BITS_def)
    then have "unat b \<le> 15" by (simp add: word_le_nat_alt)
    obtain raw where raw: "read_packed env b (kind_entries kind) (kind_name kind) r1 = (Inr raw, r')"
      and c: "c = WireDirect (map ucast raw)"
      using rest direct by (auto simp: b and_then_Inr_iff ok_apply)
    have "unat (ucast v :: u32) < 2 ^ 15" if "v \<in> set raw" for v
    proof -
      have "unat v < 2 ^ unat b" using read_packed_Inr(2)[OF raw] that by blast
      also have "(2::nat) ^ unat b \<le> 2 ^ 15" using \<open>unat b \<le> 15\<close> by (intro power_increasing) simp_all
      finally show ?thesis by (simp add: unat_ucast)
    qed
    then show ?thesis using read_packed_Inr(1)[OF raw]
      by (auto simp: c container_valid_def)
  qed
qed


lemma validate_section_count_Inr: "validate_section_count field v m = Inr () \<Longrightarrow> unat v \<le> m"
  by (auto simp: validate_section_count_def split: if_splits)

lemma decode_section_valid: "decode_section env r = (Inr s, r') \<Longrightarrow> section_valid s"
  unfolding decode_section_def and_then_Inr_iff codec_Inr lift_result_apply
  by (auto simp: section_valid_def ok_apply dest!: validate_section_count_Inr decode_container_valid)

lemma decode_sections_loop_valid:
  "decode_sections_loop env acc r = (Inr ss, r') \<Longrightarrow> length acc \<le> MAX_CHUNK_SECTIONS \<Longrightarrow>
   \<forall>s\<in>set acc. section_valid s \<Longrightarrow> length ss \<le> MAX_CHUNK_SECTIONS \<and> (\<forall>s\<in>set ss. section_valid s)"
proof (induction env acc r rule: decode_sections_loop.induct)
  case (1 env acc r)
  show ?case
  proof (cases "remaining r = 0")
    case True
    then show ?thesis using "1.prems" by (subst (asm) decode_sections_loop.simps) simp
  next
    case False
    then obtain s r1 where short: "\<not> MAX_CHUNK_SECTIONS \<le> length acc" and s: "decode_section env r = (Inr s, r1)"
      and rest: "decode_sections_loop env (acc @ [s]) r1 = (Inr ss, r')"
      using "1.prems"(1) by (subst (asm) decode_sections_loop.simps) (auto simp: and_then_Inr_iff split: if_splits)
    show ?thesis
      using "1.IH"[OF False short s rest] short "1.prems"(3) decode_section_valid[OF s] by simp
  qed
qed

lemma decode_sections_valid:
  assumes "decode_sections env bytes = Inr ss"
  shows "ss \<noteq> [] \<and> length ss \<le> MAX_CHUNK_SECTIONS \<and> (\<forall>s\<in>set ss. section_valid s)"
proof -
  obtain r' where run: "decode_sections_loop env [] (new_reader bytes) = (Inr ss, r')" and "ss \<noteq> []"
    using assms
    by (cases "decode_sections_loop env [] (new_reader bytes)") (auto simp: decode_sections_def split: sum.splits if_splits)
  then show ?thesis using decode_sections_loop_valid[OF run] by simp
qed

lemma read_heightmaps_valid:
  "read_heightmaps env n seen maps r = (Inr hs, r') \<Longrightarrow> seen = set (map wh_kind_raw_id maps) \<Longrightarrow>
   distinct (map wh_kind_raw_id maps) \<Longrightarrow> \<forall>h\<in>set maps. length (wh_data h) \<le> MAX_HEIGHTMAP_LONGS \<Longrightarrow>
   length hs = length maps + n \<and> distinct (map wh_kind_raw_id hs) \<and>
   (\<forall>h\<in>set hs. length (wh_data h) \<le> MAX_HEIGHTMAP_LONGS)"
proof (induction n arbitrary: seen maps r)
  case 0
  then show ?case by (simp add: run_simps)
next
  case (Suc n)
  then obtain kind r1 k r2 data r3 where kind: "kind \<notin> seen"
    and k: "read_count ''heightmap long'' MAX_HEIGHTMAP_LONGS r1 = (Inr k, r2)"
    and data: "read_n k read_u64 r2 = (Inr data, r3)"
    and rest: "read_heightmaps env n (insert kind seen) (maps @ [\<lparr>wh_kind_raw_id = kind, wh_data = data\<rparr>]) r3 = (Inr hs, r')"
    by (auto simp: and_then_Inr_iff run_simps split: if_splits)
  have "length data \<le> MAX_HEIGHTMAP_LONGS" using read_count_Inr[OF k] read_n_length[OF data] by simp
  then show ?case using Suc.IH[OF rest] Suc.prems kind by auto
qed

lemma decode_heightmaps_valid: "decode_heightmaps env r = (Inr hs, r') \<Longrightarrow> heightmaps_valid hs"
  by (auto simp: decode_heightmaps_def and_then_Inr_iff heightmaps_valid_def
      dest!: read_count_Inr read_heightmaps_valid)

section \<open>Block entities\<close>

lemma network_tag_bounded:
  assumes "decode_unnamed_network_tag env l r = (Inr x, r')"
  shows "well_formed_tag x \<and> tag_height x \<le> nl_max_depth l"
proof -
  obtain ty s s' where "decode_payload env l ty 0 s = (Inr x, s')"
    using assms unfolding decode_unnamed_network_tag_def with_context_def
    by (auto simp: and_then_Inr_iff lift_result_apply ensure_Inr split: prod.splits)
  then show ?thesis
    using payload_boundedD[OF payload_bounded_all] by fastforce+
qed

lemma local_coordinates: "unat (drop_bit 4 (b :: u8)) < 16" "unat (b AND 0x0f) < 16"
  using unsigned_less[of b, where ?'a = nat] by (simp_all only: mask_numerals unat_arith) auto

lemma compound_only_Inr:
  "(case tag of Tag_Compound c \<Rightarrow> ok (Some c) | _ \<Rightarrow> fail e) r = (Inr d, r') \<longleftrightarrow>
     r' = r \<and> (\<exists>c. tag = Tag_Compound c \<and> d = Some c)"
  by (cases tag) (auto simp: run_simps)

lemma decode_block_entity_valid: "decode_block_entity env r = (Inr e, r') \<Longrightarrow> block_entity_valid e"
  unfolding decode_block_entity_def and_then_Inr_iff codec_Inr
  by (auto simp: block_entity_valid_def ok_apply local_coordinates and_then_Inr_iff map_err_Inr compound_only_Inr
      split: if_splits dest!: read_runtime_id_Inr network_tag_bounded)

lemma read_n_all:
  "read_n n m s = (Inr xs, s') \<Longrightarrow> (\<And>s x s'. m s = (Inr x, s') \<Longrightarrow> P x) \<Longrightarrow> \<forall>x\<in>set xs. P x"
proof (induction n arbitrary: s xs)
  case (Suc n)
  then obtain y s1 ys where "m s = (Inr y, s1)" "read_n n m s1 = (Inr ys, s')" "xs = y # ys"
    by (auto simp: and_then_Inr_iff run_simps)
  then show ?case using Suc by auto
qed (simp add: run_simps)

lemma decode_block_entities_valid:
  assumes "decode_block_entities env r = (Inr es, r')"
  shows "length es \<le> MAX_BLOCK_ENTITIES \<and> (\<forall>e\<in>set es. block_entity_valid e)"
proof -
  obtain n r1 r2 where n: "read_count ''block entity'' MAX_BLOCK_ENTITIES r1 = (Inr n, r2)"
    and es: "read_n n (decode_block_entity env) r2 = (Inr es, r')"
    using assms by (auto simp: decode_block_entities_def and_then_Inr_iff)
  have "\<forall>e\<in>set es. block_entity_valid e"
    by (rule read_n_all[OF es]) (rule decode_block_entity_valid)
  then show ?thesis using read_count_Inr[OF n] read_n_length[OF es] by simp
qed


section \<open>Light\<close>

lemma bit_at_snoc_eq: "bit_at (ws @ [w]) n \<longleftrightarrow>
    (if n < 64 * length ws then bit_at ws n else n < 64 * length ws + 64 \<and> bit w (n - 64 * length ws))"
proof (cases "n < 64 * length ws")
  case True
  then have "n div 64 < length ws" by (simp add: div_less_iff_less_mult mult.commute)
  then show ?thesis using True by (simp add: bit_at_def nth_append)
next
  case False
  then have "length ws \<le> n div 64" by (simp add: less_eq_div_iff_mult_less_eq mult.commute)
  moreover have "n div 64 < Suc (length ws) \<longleftrightarrow> n < 64 * length ws + 64"
    by (auto simp: div_less_iff_less_mult)
  moreover have "n mod 64 = n - 64 * length ws" if "n < 64 * length ws + 64"
    using that False by (metis add_diff_inverse_nat mod_less mod_mult_self2 nat_add_left_cancel_less add.commute)
  ultimately show ?thesis using False by (auto simp: bit_at_def nth_append)
qed

lemma set_bit_indices_snoc:
  "set_bit_indices (ws @ [w]) = set_bit_indices ws @ map ((+) (64 * length ws)) (filter (bit w) [0..<64])"
proof -
  have "filter (\<lambda>b. w AND push_bit b 1 \<noteq> 0) [0..<64] = filter (bit w) [0..<64]"
    by (rule filter_cong) (simp_all add: and_exp_eq_0_iff_not_bit)
  then show ?thesis by (simp add: set_bit_indices_def enumerate_append_eq mult.commute)
qed

lemma set_bit_indices_eq: "set_bit_indices ws = filter (bit_at ws) [0..<64 * length ws]"
proof (induction ws rule: rev_induct)
  case Nil
  then show ?case by (simp add: set_bit_indices_def)
next
  case (snoc w ws)
  have "[0..<64 * length (ws @ [w])] = [0..<64 * length ws] @ map ((+) (64 * length ws)) [0..<64]"
  proof -
    have "map ((+) (64 * length ws)) [0..<64] = map (\<lambda>i. i + 64 * length ws) [0..<64]" by (simp add: add.commute)
    then show ?thesis
      using upt_add_eq_append[of 0 "64 * length ws" 64] map_add_upt[of "64 * length ws" 64] by (simp add: add.commute)
  qed
  moreover have "filter (bit_at (ws @ [w])) [0..<64 * length ws] = filter (bit_at ws) [0..<64 * length ws]"
    by (rule filter_cong) (simp_all add: bit_at_snoc_eq)
  moreover have "filter (bit_at (ws @ [w])) (map ((+) (64 * length ws)) [0..<64]) =
      map ((+) (64 * length ws)) (filter (bit w) [0..<64])"
    by (simp add: filter_map comp_def bit_at_snoc_eq) (intro arg_cong[where f = "map _"] filter_cong, simp_all)
  ultimately show ?case using snoc by (simp add: set_bit_indices_snoc)
qed

lemma count_bits_indices: "count_bits ws = length (set_bit_indices ws)"
  by (induction ws rule: rev_induct)
    (simp_all add: count_bits_def count_ones_def set_bit_indices_snoc, simp add: set_bit_indices_def)

lemma set_bit_indices_below:
  assumes "\<forall>n. bit_at ws n \<longrightarrow> n < m"
  shows "set_bit_indices ws = filter (bit_at ws) [0..<m]"
proof (rule sorted_distinct_set_unique)
  have "bit_at ws n \<Longrightarrow> n < 64 * length ws" for n
    by (simp add: bit_at_def div_less_iff_less_mult mult.commute)
  then show "set (set_bit_indices ws) = set (filter (bit_at ws) [0..<m])"
    using assms by (auto simp: set_bit_indices_eq)
qed (simp_all add: set_bit_indices_eq sorted_filter[where f = id, simplified])

lemma read_light_layers_Inr:
  "read_light_layers kind is layers r = (Inr ls, r') \<Longrightarrow> \<forall>l\<in>set layers. length (wl_data l) = LIGHT_LAYER_BYTES \<Longrightarrow>
   map wl_mask_index ls = map wl_mask_index layers @ is \<and> (\<forall>l\<in>set ls. length (wl_data l) = LIGHT_LAYER_BYTES)"
proof (induction kind "is" layers arbitrary: r rule: read_light_layers.induct)
  case (1 kind layers)
  then show ?case by (simp add: run_simps)
next
  case (2 kind i "is" layers)
  then show ?case by (fastforce simp: and_then_Inr_iff ensure_Inr)
qed

lemma light_limits_bits: "bitset_wf light_limits s \<Longrightarrow> bit_at (words s) n \<Longrightarrow> n < MAX_LIGHT_LAYERS"
  by (auto simp: bitset_wf_def is_set_iff light_limits_def)

lemma decode_light_layers_valid:
  assumes run: "decode_light_layers kind (words s) r = (Inr ls, r')" and s: "bitset_wf light_limits s"
  shows "layers_valid (words s) (length ls) ls"
proof -
  obtain n r1 r2 where n: "read_count ''light layer'' MAX_LIGHT_LAYERS r1 = (Inr n, r2)" "n = count_bits (words s)"
    and ls: "read_light_layers kind (set_bit_indices (words s)) [] r2 = (Inr ls, r')"
    using run by (auto simp: decode_light_layers_def Let_def and_then_Inr_iff ensure_Inr)
  have idx: "map wl_mask_index ls = set_bit_indices (words s)" and len: "\<forall>l\<in>set ls. length (wl_data l) = LIGHT_LAYER_BYTES"
    using read_light_layers_Inr[OF ls] by simp_all
  have "length ls = length (set_bit_indices (words s))" using arg_cong[OF idx, of length] by simp
  then have "length ls \<le> MAX_LIGHT_LAYERS" using read_count_Inr[OF n(1)] n(2) by (simp add: count_bits_indices)
  then show ?thesis
    using idx len set_bit_indices_below[of "words s" MAX_LIGHT_LAYERS] light_limits_bits[OF s]
    by (simp add: layers_valid_def)
qed

lemma validate_disjoint_Inr:
  assumes "validate_disjoint kind a b = Inr ()"
  shows "\<not> (bit_at a n \<and> bit_at b n)"
proof
  assume both: "bit_at a n \<and> bit_at b n"
  then have "(a ! (n div 64), b ! (n div 64)) \<in> set (zip a b)" by (auto simp: bit_at_def set_zip)
  then have "a ! (n div 64) AND b ! (n div 64) = 0"
    using assms by (auto simp: validate_disjoint_def list_ex_iff split: if_splits)
  moreover have "bit (a ! (n div 64) AND b ! (n div 64)) (n mod 64)" using both by (simp add: bit_at_def bit_and_iff)
  ultimately show False by simp
qed

lemma decode_light_data_valid:
  assumes run: "decode_light_data env r = (Inr d, r')"
  shows "light_valid d"
proof -
  obtain s b es eb where bits: "bitset_wf light_limits s" "bitset_wf light_limits b"
      "bitset_wf light_limits es" "bitset_wf light_limits eb"
    and disjoint: "validate_disjoint ''sky'' (words s) (words es) = Inr ()"
      "validate_disjoint ''block'' (words b) (words eb) = Inr ()"
    and sl: "\<exists>r r'. decode_light_layers ''sky'' (words s) r = (Inr (sky_layers d), r')"
    and bl: "\<exists>r r'. decode_light_layers ''block'' (words b) r = (Inr (block_layers d), r')"
    and d: "sky_mask d = words s" "block_mask d = words b" "empty_sky_mask d = words es" "empty_block_mask d = words eb"
      "sky_layer_count d = length (sky_layers d)" "block_layer_count d = length (block_layers d)"
    using run unfolding decode_light_data_def Let_def and_then_Inr_iff codec_Inr lift_result_apply
    by (auto simp: ok_apply dest!: bitset_decode_wf) blast
  show ?thesis
    using sl bl decode_light_layers_valid[OF _ bits(1)] decode_light_layers_valid[OF _ bits(2)]
      validate_disjoint_Inr[OF disjoint(1)] validate_disjoint_Inr[OF disjoint(2)]
      light_limits_bits[OF bits(3)] light_limits_bits[OF bits(4)]
    by (auto simp: light_valid_def d)
qed

end
