(* ===== verification/Chunk_Props.thy ===== *)
theory Chunk_Props
  imports Chunk_Valid
begin

text \<open>
  The chunk decoder against the wire format: packed storage is unpacked to the entries it holds, a
  paletted container is read back from each of its encodings, and a decoded chunk is valid.
\<close>

section \<open>Packed storage\<close>

text \<open>
  The format: as many entries as fit in a 64-bit word, the first in the lowest bits, no entry across
  two words.
\<close>

definition pack_word :: "u8 \<Rightarrow> u16 list \<Rightarrow> u64" where
  "pack_word bits vs = of_nat (horner_sum unat (2 ^ unat bits) vs)"

fun pack_chunks :: "nat \<Rightarrow> nat \<Rightarrow> u16 list \<Rightarrow> u16 list list" where
  "pack_chunks 0 per_word vs = []"
| "pack_chunks (Suc n) per_word vs = take per_word vs # pack_chunks n per_word (drop per_word vs)"

definition pack_words :: "u8 \<Rightarrow> u16 list \<Rightarrow> u64 list" where
  "pack_words bits vs =
     (let per_word = 64 div unat bits in
      map (pack_word bits) (pack_chunks (div_ceil (length vs) per_word) per_word vs))"

lemma horner_bound:
  fixes f :: "'a \<Rightarrow> nat"
  assumes "\<forall>v\<in>set vs. f v < B" and "0 < B"
  shows "horner_sum f B vs < B ^ length vs"
  using assms(1)
proof (induction vs)
  case (Cons v vs)
  then have "horner_sum f B vs + 1 \<le> B ^ length vs" and "f v < B" by simp_all
  then have "f v + B * horner_sum f B vs < B * (horner_sum f B vs + 1)" by simp
  also have "\<dots> \<le> B * B ^ length vs" using \<open>_ + 1 \<le> _\<close> by (rule mult_le_mono2)
  finally show ?case by simp
qed simp

lemma horner_entry:
  fixes f :: "'a \<Rightarrow> nat"
  assumes "\<forall>v\<in>set vs. f v < B" and "0 < B" and "k < length vs"
  shows "horner_sum f B vs div B ^ k mod B = f (vs ! k)"
  using assms
proof (induction vs arbitrary: k)
  case (Cons v vs)
  have step: "(f v + B * h) div B = h" for h using Cons.prems(1,2) by simp
  show ?case
  proof (cases k)
    case 0
    then show ?thesis using Cons.prems(1) by simp
  next
    case (Suc j)
    then show ?thesis using Cons step by (simp add: div_mult2_eq)
  qed
qed simp

lemma unat_pack_word:
  assumes vs: "\<forall>v\<in>set vs. unat v < 2 ^ unat bits" and len: "length vs * unat bits \<le> 64"
  shows "unat (pack_word bits vs) = horner_sum unat (2 ^ unat bits) vs"
proof -
  have "horner_sum unat (2 ^ unat bits) vs < (2 ^ unat bits) ^ length vs" using vs by (intro horner_bound) simp_all
  also have "\<dots> = 2 ^ (length vs * unat bits)" by (simp add: power_mult[symmetric] mult.commute)
  also have "\<dots> \<le> (2::nat) ^ 64" using len by (intro power_increasing) simp_all
  finally show ?thesis by (simp add: pack_word_def unsigned_of_nat take_bit_nat_eq_self)
qed

lemma pack_chunks_nth:
  "i < n \<Longrightarrow> pack_chunks n per vs ! i = take per (drop (per * i) vs)"
proof (induction n per vs arbitrary: i rule: pack_chunks.induct)
  case (2 n per vs)
  then show ?case by (cases i) (simp_all add: add.commute)
qed simp

lemma length_pack_chunks [simp]: "length (pack_chunks n per vs) = n"
  by (induction n per vs rule: pack_chunks.induct) simp_all

lemma div_ceil_index:
  assumes "i < n" and "0 < per"
  shows "i div per < div_ceil n per"
proof -
  have "(i + per) div per \<le> (n + per - 1) div per" using assms by (intro div_le_mono) simp
  moreover have "(i + per) div per = i div per + 1" using assms(2) by (simp only: div_add_self2)
  ultimately show ?thesis unfolding div_ceil_def by linarith
qed

lemma unpack_entry_pack:
  assumes bits: "0 < unat bits" "unat bits \<le> 16" and vs: "\<forall>v\<in>set vs. unat v < 2 ^ unat bits" and i: "i < length vs"
  shows "unpack_entry (pack_words bits vs) bits i = vs ! i"
proof -
  define per where "per = 64 div unat bits"
  have per: "0 < per" "per * unat bits \<le> 64"
    using bits by (simp_all add: per_def div_greater_zero_iff)
  define chunk where "chunk = take per (drop (per * (i div per)) vs)"
  have "pack_words bits vs ! (i div per) = pack_word bits chunk"
    using div_ceil_index[OF i per(1)] by (simp add: pack_words_def Let_def per_def[symmetric] pack_chunks_nth chunk_def)
  moreover have chunk: "\<forall>v\<in>set chunk. unat v < 2 ^ unat bits" using vs by (auto simp: chunk_def dest!: in_set_takeD in_set_dropD)
  moreover have "length chunk \<le> per" by (simp add: chunk_def)
  then have "length chunk * unat bits \<le> 64" using per(2) by (meson mult_le_mono1 order_trans)
  moreover have k: "i mod per < length chunk" and nth: "chunk ! (i mod per) = vs ! i"
  proof -
    have split: "per * (i div per) + i mod per = i" by simp
    then have "per * (i div per) \<le> i" by (metis le_add1)
    moreover have "i mod per < per" using per(1) by simp
    ultimately show "i mod per < length chunk" using i split by (simp add: chunk_def less_diff_conv add.commute)
    show "chunk ! (i mod per) = vs ! i"
      using i split \<open>i mod per < per\<close> \<open>per * (i div per) \<le> i\<close>
      by (simp only: chunk_def nth_take nth_drop less_imp_le_nat order_trans)
  qed
  ultimately have "unat (unpack_entry (pack_words bits vs) bits i) =
      horner_sum unat (2 ^ unat bits) chunk div 2 ^ (i mod per * unat bits) mod 2 ^ unat bits mod 2 ^ 16"
    by (simp only: unpack_entry_def Let_def per_def[symmetric] entry_mask unat_ucast unat_arith unat_pack_word) simp
  also have "\<dots> = unat (vs ! i) mod 2 ^ 16"
    using horner_entry[OF chunk _ k] nth by (simp add: power_mult mult.commute)
  also have "\<dots> = unat (vs ! i)" using unsigned_less[of "vs ! i", where ?'a = nat] by simp
  finally show ?thesis by (simp add: word_unat_eq_iff)
qed

lemma packed_storage:
  assumes "0 < unat bits" "unat bits \<le> 16" and "\<forall>v\<in>set vs. unat v < 2 ^ unat bits"
    and "try_reserve_exact env (length vs)"
  shows "packed_word_count bits (length vs) = Some (length (pack_words bits vs))"
    and "unpack_packed env (pack_words bits vs) bits (length vs) ctx = Inr vs"
proof -
  have "bits \<noteq> 0" and "unat bits \<le> 64" using assms(1,2) by auto
  then show count: "packed_word_count bits (length vs) = Some (length (pack_words bits vs))"
    using assms(1) by (simp add: packed_word_count_def pack_words_def Let_def div_greater_zero_iff)
  have "map (unpack_entry (pack_words bits vs) bits) [0..<length vs] = map ((!) vs) [0..<length vs]"
    by (rule map_cong) (simp_all add: unpack_entry_pack[OF assms(1-3)])
  then show "unpack_packed env (pack_words bits vs) bits (length vs) ctx = Inr vs"
    using count assms(4) by (simp add: unpack_packed_def map_nth)
qed

text \<open>
  Packed storage of up to 16 bits per entry is unpacked exactly to the entries it packs, whatever
  their number: the words are as many as the decoder expects, and every entry is recovered from
  its place.
\<close>
theorem packed_storage_round_trip:
  assumes "0 < unat bits" "unat bits \<le> 16" and "\<forall>v\<in>set vs. unat v < 2 ^ unat bits"
    and "try_reserve_exact env (length vs)"
  shows "packed_word_count bits (length vs) = Some (length (pack_words bits vs)) \<and>
    unpack_packed env (pack_words bits vs) bits (length vs) ctx = Inr vs"
  using packed_storage[OF assms] by blast

definition witness_env :: nbt_env where
  "witness_env = \<lparr>sizeof_tag = 32, sizeof_string = 24, try_reserve_exact = (\<lambda>_. True)\<rparr>"

theorem packed_storage_round_trip_witness:
  "pack_words 5 [1, 2, 31] = [1 + 2 * 32 + 31 * 1024] \<and>
   unpack_packed witness_env [1 + 2 * 32 + 31 * 1024] 5 3 ''blocks'' = Inr [1, 2, 31]"
proof -
  have "pack_words 5 [1, 2, 31] = [1 + 2 * 32 + 31 * 1024]"
    by (simp add: pack_words_def pack_word_def Let_def div_ceil_def)
  then show ?thesis
    using packed_storage_round_trip[of 5 "[1, 2, 31]" witness_env "''blocks''"]
    by (simp add: witness_env_def numeral_3_eq_3)
qed

section \<open>Paletted containers\<close>

text \<open>The encodings of a container: the bits per entry are free within the form's range.\<close>

definition enc_container :: "container_kind \<Rightarrow> u8 \<Rightarrow> wire_container \<Rightarrow> u8 list" where
  "enc_container kind bits c =
     (case c of
        WireSingle v n \<Rightarrow> [0] @ enc_var v
      | WireIndirect palette indices \<Rightarrow>
          [bits] @ enc_length (length palette) @ concat (map enc_var palette) @
          concat (map to_be_bytes (pack_words (storage_bits kind bits) indices))
      | WireDirect vs \<Rightarrow> [bits] @ concat (map to_be_bytes (pack_words bits (map ucast vs))))"

definition encodable_with :: "container_kind \<Rightarrow> u8 \<Rightarrow> wire_container \<Rightarrow> bool" where
  "encodable_with kind bits c =
     (case c of
        WireSingle v n \<Rightarrow> True
      | WireIndirect palette indices \<Rightarrow>
          0 < bits \<and> bits \<le> kind_local_max kind \<and> length palette \<le> 2 ^ unat (storage_bits kind bits)
      | WireDirect vs \<Rightarrow> kind_local_max kind < bits \<and> bits \<le> kind_max_bits kind \<and> (\<forall>v\<in>set vs. unat v < 2 ^ unat bits))"

lemma decodes_codec [decodes_intros]: "decodes m bs v \<Longrightarrow> decodes (codec m) bs v"
  unfolding codec_def by (rule decodes_map_err)

lemma decodes_nonneg_var_int:
  "unat v \<le> i32_MAX \<Longrightarrow> decodes (k v) bs x \<Longrightarrow> decodes (and_then (codec read_var_int) k) (enc_var v @ bs) x"
  by (rule decodes_and_then[OF decodes_codec[OF decodes_read_var_int]])

lemma decodes_read_runtime_id: "unat v \<le> i32_MAX \<Longrightarrow> decodes (read_runtime_id ctx) (enc_var v) v"
  unfolding read_runtime_id_def
  using decodes_nonneg_var_int[of v "\<lambda>v. if v <s 0 then fail (Negative ctx v) else ok v" "[]" v] nonneg_i32_iff[of v]
  by (simp add: decodes_ok)

lemma decodes_read_count:
  assumes "n \<le> m" and "n \<le> i32_MAX"
  shows "decodes (read_count ctx m) (enc_length n) n"
proof -
  have "unat (of_nat n :: i32) = n" "\<not> (of_nat n :: i32) <s 0"
    using assms(2) by (simp_all add: unat_of_nat_i32 of_nat_nonneg_i32)
  then show ?thesis
    unfolding read_count_def enc_length_def
    using assms decodes_nonneg_var_int[of "of_nat n" "\<lambda>v. if v <s 0 then fail (Negative ctx v)
        else if m < unat v then fail (CountTooLarge ctx (unat v) m) else ok (unat v)" "[]" n]
    by (simp add: decodes_ok)
qed

lemma decodes_read_palette:
  "\<forall>v\<in>set vs. unat v \<le> i32_MAX \<Longrightarrow> distinct vs \<Longrightarrow> seen \<inter> set vs = {} \<Longrightarrow>
   decodes (read_palette name (length vs) seen palette) (concat (map enc_var vs)) (palette @ vs)"
proof (induction vs arbitrary: seen palette)
  case Nil
  then show ?case by (simp add: decodes_ok)
next
  case (Cons v vs)
  then have "decodes (read_palette name (length vs) (insert v seen) (palette @ [v])) (concat (map enc_var vs))
      ((palette @ [v]) @ vs)"
    by (intro Cons.IH) auto
  then show ?case
    using decodes_and_then[OF decodes_read_runtime_id[of v name],
        of "\<lambda>v. if v \<in> seen then fail (DuplicatePaletteValue name v)
             else read_palette name (length vs) (insert v seen) (palette @ [v])" "concat (map enc_var vs)"]
      Cons.prems
    by simp
qed

lemma decodes_read_packed:
  assumes bits: "0 < unat bits" "unat bits \<le> 16" and vs: "\<forall>v\<in>set vs. unat v < 2 ^ unat bits"
    and alloc: "try_reserve_exact env = (\<lambda>_. True)" and n: "n = length vs"
  shows "decodes (read_packed env bits n name) (concat (map to_be_bytes (pack_words bits vs))) vs"
proof -
  have count: "packed_word_count bits n = Some (length (pack_words bits vs))"
    and unpack: "unpack_packed env (pack_words bits vs) bits n name = Inr vs"
    using packed_storage(1)[OF bits vs, of env] packed_storage(2)[OF bits vs, of env name] alloc n by simp_all
  have "decodes (read_n (length (pack_words bits vs)) read_u64) (concat (map to_be_bytes (pack_words bits vs)))
      (pack_words bits vs)"
    by (rule u64_codec.get_sequence) simp
  then have words: "decodes (codec (read_n (length (pack_words bits vs)) read_u64))
      (concat (map to_be_bytes (pack_words bits vs))) (pack_words bits vs)"
    by (rule decodes_codec)
  have tail: "decodes (and_then (codec (read_n (length (pack_words bits vs)) read_u64))
      (\<lambda>packed. lift_result (unpack_packed env packed bits n name))) (concat (map to_be_bytes (pack_words bits vs)) @ []) vs"
    by (rule decodes_and_then[OF words]) (rule decodes_lift_result[OF unpack])
  have "decodes (read_packed env bits n name) ([] @ concat (map to_be_bytes (pack_words bits vs)) @ []) vs"
    unfolding read_packed_def chunk_reserve_def count option.case
    by (rule decodes_and_then[OF decodes_lift_result[OF refl]], rule decodes_ensure[OF _ tail]) (simp add: alloc)
  then show ?thesis by simp
qed


lemma local_max_range: "bits \<le> kind_local_max kind \<Longrightarrow> unat bits \<le> 8 \<and> \<not> kind_max_bits kind < bits"
  by (cases kind) (auto simp: kind_local_max_def kind_max_bits_def MAX_BLOCK_BITS_def MAX_BIOME_BITS_def word_le_nat_alt not_less)

lemma storage_bits_range: "0 < bits \<Longrightarrow> bits \<le> kind_local_max kind \<Longrightarrow>
    0 < unat (storage_bits kind bits) \<and> unat (storage_bits kind bits) \<le> 8"
  using local_max_range[OF storage_bits_le[of bits kind]] by (auto simp: storage_bits_def word_less_nat_alt)

lemma storage_bits_large: "kind_local_max kind < bits \<Longrightarrow> storage_bits kind bits = bits"
  by (auto simp: storage_bits_def kind_local_max_def word_less_nat_alt)

text \<open>
  C15: a paletted container of a chunk section is read back from each of its wire encodings: a single
  value, a palette with indices packed at any width the palette form allows (block palettes are
  stored with at least four bits), or values packed at any direct width.
\<close>
theorem paletted_container_decodes:
  assumes alloc: "try_reserve_exact env = (\<lambda>_. True)" and valid: "container_valid kind c"
    and enc: "encodable_with kind bits c"
  shows "decodes (decode_container env kind) (enc_container kind bits c) c"
proof (cases c)
  case (WireSingle v n)
  have "decodes (and_then (read_runtime_id (kind_name kind)) (\<lambda>v. ok (WireSingle v (kind_entries kind)))) (enc_var v) c"
    using valid WireSingle by (intro decodes_and_then_ok[OF decodes_read_runtime_id]) (simp_all add: container_valid_def)
  then show ?thesis
    unfolding decode_container_def enc_container_def WireSingle wire_container.case
    by (intro decodes_and_then[OF decodes_codec[OF decodes_fixed_width(1)]]) simp
next
  case (WireIndirect p ix)
  let ?bits = "storage_bits kind bits"
  have b: "0 < bits" "bits \<le> kind_local_max kind" and fits: "length p \<le> 2 ^ unat ?bits"
    using enc WireIndirect by (simp_all add: encodable_with_def)
  have p: "p \<noteq> []" "distinct p" "\<forall>v\<in>set p. unat v \<le> i32_MAX" and ix: "length ix = kind_entries kind"
    "\<forall>i\<in>set ix. unat i < length p"
    using valid WireIndirect by (simp_all add: container_valid_def)
  have r: "0 < unat ?bits" "unat ?bits \<le> 8" using storage_bits_range[OF b] by simp_all
  have "(2::nat) ^ unat ?bits \<le> 2 ^ 8" using r by (intro power_increasing) simp_all
  then have small: "length p \<le> i32_MAX" using fits by (simp add: i32_MAX_def)
  have "\<forall>i\<in>set ix. unat i < 2 ^ unat ?bits" using ix(2) fits by fastforce
  then have packed: "decodes (read_packed env ?bits (kind_entries kind) (kind_name kind))
      (concat (map to_be_bytes (pack_words ?bits ix))) ix"
    using r by (intro decodes_read_packed[OF _ _ _ alloc]) (simp_all add: ix(1))
  have indices: "check_palette_indices (kind_name kind) (length p) 0 ix = Inr ()"
    using ix(2) by (simp add: check_palette_indices_iff)
  have "decodes (and_then (read_count ''palette'' (2 ^ unat ?bits)) (\<lambda>palette_len.
        and_then (ensure (\<not> (palette_len = 0 \<or> 2 ^ unat ?bits < palette_len))
                    (InvalidPaletteLength (kind_name kind) palette_len ?bits)) (\<lambda>_.
        and_then (chunk_reserve env palette_len ''chunk palette'') (\<lambda>_.
        and_then (read_palette (kind_name kind) palette_len {} []) (\<lambda>palette.
        and_then (read_packed env ?bits (kind_entries kind) (kind_name kind)) (\<lambda>indices.
        and_then (lift_result (check_palette_indices (kind_name kind) (length palette) 0 indices)) (\<lambda>_.
        ok (WireIndirect palette indices))))))))
      (enc_length (length p) @ concat (map enc_var p) @ concat (map to_be_bytes (pack_words ?bits ix)) @ [] @ []) c"
    unfolding chunk_reserve_def WireIndirect
    by (rule decodes_and_then[OF decodes_read_count[OF fits small]] decodes_ensure
          decodes_and_then[OF decodes_read_palette[OF p(3,2), of "{}" _ "[]", simplified]] decodes_and_then[OF packed]
          decodes_and_then[OF decodes_lift_result[OF indices]] decodes_ok
        | simp add: alloc p(1) fits not_less)+
  then show ?thesis
    unfolding decode_container_def enc_container_def WireIndirect wire_container.case
    using b local_max_range[OF b(2)]
    by (intro decodes_and_then[OF decodes_codec[OF decodes_fixed_width(1)]]) (auto simp: Let_def)
next
  case (WireDirect vs)
  have b: "kind_local_max kind < bits" "bits \<le> kind_max_bits kind" and small: "\<forall>v\<in>set vs. unat v < 2 ^ unat bits"
    using enc WireDirect by (simp_all add: encodable_with_def)
  have len: "length vs = kind_entries kind" using valid WireDirect by (simp add: container_valid_def)
  have r: "0 < unat bits" "unat bits \<le> 15" "bits \<noteq> 0"
    using b by (cases kind; auto simp: kind_local_max_def kind_max_bits_def MAX_BLOCK_BITS_def MAX_BIOME_BITS_def
        word_less_nat_alt word_le_nat_alt)+
  have "(2::nat) ^ unat bits \<le> 2 ^ 15" using r by (intro power_increasing) simp_all
  then have small16: "unat v < 65536" if "v \<in> set vs" for v using small that by fastforce
  have narrow: "unat (ucast v :: u16) = unat v" if "v \<in> set vs" for v
    using small16[OF that] by (simp add: unat_ucast)
  have same: "map ucast (map ucast vs :: u16 list) = vs"
    unfolding map_map by (rule map_idI) (simp add: word_unat_eq_iff unat_ucast small16 mod_less[OF order_less_trans[OF small16]])
  have "decodes (read_packed env bits (kind_entries kind) (kind_name kind))
      (concat (map to_be_bytes (pack_words bits (map ucast vs)))) (map ucast vs)"
    using r small narrow len by (intro decodes_read_packed[OF _ _ _ alloc]) auto
  from decodes_and_then_ok[OF this, of c "\<lambda>raw. WireDirect (map ucast raw)"]
  have "decodes (and_then (read_packed env bits (kind_entries kind) (kind_name kind)) (\<lambda>raw. ok (WireDirect (map ucast raw))))
      (concat (map to_be_bytes (pack_words bits (map ucast vs)))) c"
    using same WireDirect by simp
  then show ?thesis
    unfolding decode_container_def enc_container_def WireDirect wire_container.case
    using b r by (intro decodes_and_then[OF decodes_codec[OF decodes_fixed_width(1)]])
      (auto simp: storage_bits_large not_less)
qed


theorem paletted_container_decodes_witness:
  "decodes (decode_container witness_env Container_Biomes) ([1, 2, 7, 9] @ concat (map to_be_bytes [1 :: u64]))
     (WireIndirect [7, 9] (1 # replicate 63 0))"
proof -
  let ?c = "WireIndirect [7, 9] (1 # replicate 63 0)"
  have "container_valid Container_Biomes ?c" by (simp add: container_valid_def kind_local_max_def kind_entries_def
        BIOME_ENTRIES_def i32_MAX_def)
  moreover have "encodable_with Container_Biomes 1 ?c"
    by (simp add: encodable_with_def kind_local_max_def storage_bits_def)
  moreover have "enc_var (7 :: i32) = [7]" "enc_var (9 :: i32) = [9]" "enc_length 2 = [2]"
    unfolding enc_length_def by (subst enc_var.simps, simp)+
  moreover have zeros: "horner_sum unat 2 (replicate n (0 :: u16)) = 0" for n by (induction n) simp_all
  have "pack_words 1 (1 # replicate 63 0) = [1]"
    by (simp add: pack_words_def pack_word_def Let_def div_ceil_def zeros)
  with calculation show ?thesis
    using paletted_container_decodes[of witness_env Container_Biomes ?c 1]
    by (simp add: enc_container_def storage_bits_def witness_env_def numeral_2_eq_2)
qed

text \<open>
  C9: every chunk the decoder returns, whatever the server sent, has between one and 64 valid sections
  (entry counts in range, palettes without duplicates, every index inside its palette), distinct
  heightmaps and block entities within their limits, disjoint light masks, and one light layer of
  2048 bytes for exactly each bit of its mask, in order.
\<close>
theorem decoded_chunk_valid:
  assumes "decode_level_chunk_with_light env r = (Inr c, r')"
  shows "chunk_valid c"
  using assms unfolding decode_level_chunk_with_light_def and_then_Inr_iff codec_Inr lift_result_apply
  by (auto simp: chunk_valid_def ok_apply dest!: decode_sections_valid decode_heightmaps_valid
      decode_block_entities_valid decode_light_data_valid)


definition witness_section :: wire_section where
  "witness_section = \<lparr>ws_non_empty_block_count = 0, ws_fluid_count = 0,
     ws_blocks = WireSingle 0 BLOCK_ENTRIES, ws_biomes = WireSingle 0 BIOME_ENTRIES\<rparr>"

definition witness_light :: wire_light_data where
  "witness_light = \<lparr>sky_mask = [], block_mask = [], empty_sky_mask = [], empty_block_mask = [],
     sky_layer_count = 0, block_layer_count = 0, sky_layers = [], block_layers = []\<rparr>"

lemma enc_var_0: "enc_var (0 :: i32) = [0]" and enc_length_8: "enc_length 8 = [8]" and enc_length_0: "enc_length 0 = [0]"
  unfolding enc_length_def by (subst enc_var.simps, simp)+

lemma decodes_single: "decodes (decode_container witness_env kind) [0, 0] (WireSingle 0 (kind_entries kind))"
proof -
  have "decodes (and_then (read_runtime_id (kind_name kind)) (\<lambda>v. ok (WireSingle v (kind_entries kind)))) [0]
      (WireSingle 0 (kind_entries kind))"
    using decodes_read_runtime_id[of 0 "kind_name kind"] by (intro decodes_and_then_ok) (simp_all add: enc_var_0)
  then have "decodes (decode_container witness_env kind) ([0] @ [0]) (WireSingle 0 (kind_entries kind))"
    unfolding decode_container_def by (intro decodes_and_then[OF decodes_codec[OF decodes_fixed_width(1)]]) simp
  then show ?thesis by simp
qed

lemma decodes_witness_section: "decodes (decode_section witness_env) [0, 0, 0, 0, 0, 0, 0, 0] witness_section"
proof -
  have "validate_section_count f 0 n = Inr ()" for f n by (simp add: validate_section_count_def)
  note count = decodes_and_then[OF decodes_lift_result[OF this]]
  have "decodes (decode_section witness_env)
      (to_be_bytes (0 :: i16) @ [] @ to_be_bytes (0 :: i16) @ [] @ [0, 0] @ [0, 0] @ []) witness_section"
    unfolding decode_section_def witness_section_def
    by (rule decodes_and_then[OF decodes_codec[OF decodes_fixed_width(3)]] count
        decodes_and_then[OF decodes_single] | simp add: decodes_ok kind_entries_def)+
  then show ?thesis by (simp add: to_be_bytes_def upt_rec)
qed

lemma decode_witness_sections: "decode_sections witness_env [0, 0, 0, 0, 0, 0, 0, 0] = Inr [witness_section]"
proof -
  let ?bytes = "[0, 0, 0, 0, 0, 0, 0, 0] :: u8 list"
  have s: "decode_section witness_env (new_reader ?bytes) = (Inr witness_section, reader_at ?bytes [])"
    by (rule decodes_complete[OF decodes_witness_section]) (simp add: usize_MAX_def)
  have finished: "decode_sections_loop witness_env [witness_section] (reader_at ?bytes []) =
      (Inr [witness_section], reader_at ?bytes [])"
    by (subst decode_sections_loop.simps) simp
  have "decode_sections_loop witness_env [] (new_reader ?bytes) = (Inr [witness_section], reader_at ?bytes [])"
    using s finished by (subst decode_sections_loop.simps) (simp add: new_reader_eq MAX_CHUNK_SECTIONS_def and_then_def)
  then show ?thesis by (simp add: decode_sections_def)
qed

lemma decodes_witness_light: "decodes (decode_light_data witness_env) [0, 0, 0, 0, 0, 0] witness_light"
proof -
  have "valid_bitset (try_reserve_exact witness_env) light_limits \<lparr>words = []\<rparr>"
    by (simp add: valid_bitset_def witness_env_def bitset_wf_def is_set_iff bit_at_def)
  from decodes_codec[OF decodes_bitset[OF this]]
  have bitset: "decodes (codec (bitset_decode (try_reserve_exact witness_env) light_limits)) [0] \<lparr>words = []\<rparr>"
    by (simp add: enc_bitset_def enc_length_0)
  have layers: "decodes (decode_light_layers kind (words \<lparr>words = []\<rparr>)) [0] []" for kind
  proof -
    have "decodes (decode_light_layers kind (words \<lparr>words = []\<rparr>)) ([0] @ []) []"
      unfolding decode_light_layers_def Let_def
      by (rule decodes_and_then[OF decodes_read_count[of 0, unfolded enc_length_0]] decodes_ensure
          | simp add: count_bits_def set_bit_indices_def decodes_ok)+
    then show ?thesis by simp
  qed
  have disjoint: "validate_disjoint kind (words \<lparr>words = []\<rparr>) (words \<lparr>words = []\<rparr>) = Inr ()" for kind by (simp add: validate_disjoint_def)
  have "decodes (decode_light_data witness_env) ([0] @ [0] @ [0] @ [0] @ [] @ [] @ [0] @ [0] @ []) witness_light"
    unfolding decode_light_data_def Let_def witness_light_def
    by (rule decodes_and_then[OF bitset] decodes_and_then[OF decodes_lift_result[OF disjoint]]
        decodes_and_then[OF layers])+ (simp add: decodes_ok)
  then show ?thesis by simp
qed

theorem decoded_chunk_valid_witness:
  "\<exists>r'. decode_level_chunk_with_light witness_env (new_reader [0, 0, 0, 0, 0, 0, 0, 0, 0, 8, 0, 0, 0, 0, 0, 0, 0, 0, 0, 0, 0, 0, 0, 0, 0]) =
     (Inr \<lparr>lc_x = 0, lc_z = 0, lc_sections = [witness_section], lc_heightmaps = [], lc_block_entities = [],
        lc_light = witness_light\<rparr>, r') \<and>
   chunk_valid \<lparr>lc_x = 0, lc_z = 0, lc_sections = [witness_section], lc_heightmaps = [], lc_block_entities = [],
        lc_light = witness_light\<rparr>"
proof -
  let ?c = "\<lparr>lc_x = 0, lc_z = 0, lc_sections = [witness_section], lc_heightmaps = [], lc_block_entities = [],
        lc_light = witness_light\<rparr>"
  have none: "decodes (decode_heightmaps witness_env) ([0] @ []) []" "decodes (decode_block_entities witness_env) ([0] @ []) []"
    unfolding decode_heightmaps_def decode_block_entities_def chunk_reserve_def
    by (rule decodes_and_then[OF decodes_read_count[of 0, unfolded enc_length_0]] decodes_ensure
        | simp add: witness_env_def decodes_ok)+
  have data: "decodes (codec (read_byte_array MAX_CHUNK_DATA_BYTES)) ([8] @ [0, 0, 0, 0, 0, 0, 0, 0]) [0, 0, 0, 0, 0, 0, 0, 0]"
  proof -
    have n: "length [0, 0, 0, 0, 0, 0, 0, 0 :: u8] = 8" by simp
    have "enc_byte_array [0, 0, 0, 0, 0, 0, 0, 0] = [8] @ [0, 0, 0, 0, 0, 0, 0, 0]"
      by (simp only: enc_byte_array_def n enc_length_8)
    then show ?thesis
      using decodes_codec[OF decodes_read_byte_array[of "[0, 0, 0, 0, 0, 0, 0, 0]" MAX_CHUNK_DATA_BYTES]]
      by (simp add: MAX_CHUNK_DATA_BYTES_def i32_MAX_def)
  qed
  have sections: "decode_sections witness_env [0, 0, 0, 0, 0, 0, 0, 0] = Inr [witness_section]"
    by (rule decode_witness_sections)
  have "decodes (decode_level_chunk_with_light witness_env) (to_be_bytes (0 :: i32) @ to_be_bytes (0 :: i32) @
      ([0] @ []) @ ([8] @ [0, 0, 0, 0, 0, 0, 0, 0]) @ [] @ ([0] @ []) @ [0, 0, 0, 0, 0, 0] @ []) ?c"
    unfolding decode_level_chunk_with_light_def
    by (rule decodes_and_then[OF decodes_codec[OF decodes_fixed_width(5)]] decodes_and_then[OF none(1)]
        decodes_and_then[OF data] decodes_and_then[OF decodes_lift_result[OF sections]] decodes_and_then[OF none(2)]
        decodes_and_then[OF decodes_witness_light] decodes_ok)+
  from decodes_complete[OF this]
  have run: "decode_level_chunk_with_light witness_env (new_reader [0, 0, 0, 0, 0, 0, 0, 0, 0, 8, 0, 0, 0, 0, 0, 0, 0, 0, 0, 0, 0, 0, 0, 0, 0]) =
      (Inr ?c, reader_at [0, 0, 0, 0, 0, 0, 0, 0, 0, 8, 0, 0, 0, 0, 0, 0, 0, 0, 0, 0, 0, 0, 0, 0, 0] [])"
    by (simp add: to_be_bytes_def upt_rec usize_MAX_def)
  then show ?thesis using decoded_chunk_valid[OF run] by blast
qed

end
