(* ===== verification/Ordered_Map.thy ===== *)
theory Ordered_Map
  imports Cubic_Prelude
begin

text \<open>
  \<open>BTreeMap\<close>: a finite map as the list of its entries in key order, the order in which the code
  iterates it. The interface \<open>finite_map\<close> states what the clients of a map rely on; the model of
  \<open>BTreeMap\<close> provides it.
\<close>

type_synonym ('k, 'v) btree_map = "('k \<times> 'v) list"

definition bt_get :: "'k \<Rightarrow> ('k, 'v) btree_map \<Rightarrow> 'v option" where
  "bt_get k m = map_of m k"

definition bt_contains :: "'k \<Rightarrow> ('k, 'v) btree_map \<Rightarrow> bool" where
  "bt_contains k m = (bt_get k m \<noteq> None)"

fun bt_insert :: "'k::linorder \<Rightarrow> 'v \<Rightarrow> ('k, 'v) btree_map \<Rightarrow> ('k, 'v) btree_map" where
  "bt_insert k v [] = [(k, v)]"
| "bt_insert k v ((k', v') # es) =
     (if k < k' then (k, v) # (k', v') # es
      else if k = k' then (k, v) # es
      else (k', v') # bt_insert k v es)"

definition bt_remove :: "'k \<Rightarrow> ('k, 'v) btree_map \<Rightarrow> ('k, 'v) btree_map" where
  "bt_remove k m = filter (\<lambda>(k', _). k' \<noteq> k) m"

definition bt_len :: "('k, 'v) btree_map \<Rightarrow> nat" where
  "bt_len m = length m"

definition bt_sorted :: "('k::linorder, 'v) btree_map \<Rightarrow> bool" where
  "bt_sorted m = sorted_wrt (<) (map fst m)"

text \<open>\<open>get_mut\<close> on a present key, followed by an assignment to the value.\<close>

definition bt_update :: "'k \<Rightarrow> ('v \<Rightarrow> 'v) \<Rightarrow> ('k, 'v) btree_map \<Rightarrow> ('k, 'v) btree_map" where
  "bt_update k f m = map (\<lambda>(k', v). (k', if k' = k then f v else v)) m"

section \<open>The interface\<close>

locale finite_map =
  fixes get :: "'k \<Rightarrow> 'm \<Rightarrow> 'v option"
    and insert :: "'k \<Rightarrow> 'v \<Rightarrow> 'm \<Rightarrow> 'm"
    and remove :: "'k \<Rightarrow> 'm \<Rightarrow> 'm"
    and len :: "'m \<Rightarrow> nat"
    and inv :: "'m \<Rightarrow> bool"
  assumes get_insert: "inv m \<Longrightarrow> get k' (insert k v m) = (if k' = k then Some v else get k' m)"
    and get_remove: "inv m \<Longrightarrow> get k' (remove k m) = (if k' = k then None else get k' m)"
    and len_dom: "inv m \<Longrightarrow> len m = card {k. get k m \<noteq> None}"
    and finite_dom: "inv m \<Longrightarrow> finite {k. get k m \<noteq> None}"
    and inv_insert: "inv m \<Longrightarrow> inv (insert k v m)"
    and inv_remove: "inv m \<Longrightarrow> inv (remove k m)"
begin

lemma len_insert: "inv m \<Longrightarrow> len (insert k v m) = (if get k m = None then Suc (len m) else len m)"
proof -
  assume inv: "inv m"
  have "{k'. get k' (insert k v m) \<noteq> None} = Set.insert k {k'. get k' m \<noteq> None}"
    using get_insert[OF inv] by auto
  then show ?thesis
    using len_dom[OF inv] len_dom[OF inv_insert[OF inv]] finite_dom[OF inv] by (auto simp: card_insert_if)
qed

lemma len_remove: "inv m \<Longrightarrow> len (remove k m) \<le> len m"
proof -
  assume inv: "inv m"
  have "{k'. get k' (remove k m) \<noteq> None} \<subseteq> {k'. get k' m \<noteq> None}" using get_remove[OF inv] by auto
  then show ?thesis
    using len_dom[OF inv] len_dom[OF inv_remove[OF inv]] finite_dom[OF inv] by (simp add: card_mono)
qed

text \<open>A store that refuses new keys at its capacity never exceeds it.\<close>

lemma bounded_insert:
  "inv m \<Longrightarrow> len m \<le> limit \<Longrightarrow> get k m \<noteq> None \<or> len m < limit \<Longrightarrow> len (insert k v m) \<le> limit"
  by (auto simp: len_insert)

lemma insert_twice: "inv m \<Longrightarrow> get k' (insert k v (insert k w m)) = get k' (insert k v m)"
  by (simp add: get_insert inv_insert)

lemma remove_insert: "inv m \<Longrightarrow> get k' (remove k (insert k v m)) = get k' (remove k m)"
  by (simp add: get_insert get_remove inv_insert)

end

section \<open>The model provides it\<close>

lemma bt_insert_keys: "fst ` set (bt_insert k v m) = insert k (fst ` set m)"
  by (induction k v m rule: bt_insert.induct) auto

lemma bt_insert_sorted: "bt_sorted m \<Longrightarrow> bt_sorted (bt_insert k v m)"
proof (induction k v m rule: bt_insert.induct)
  case (1 k v)
  then show ?case by (simp add: bt_sorted_def)
next
  case (2 k v k' v' es)
  have "\<forall>x\<in>fst ` set (bt_insert k v es). k' < x" if "k' < k" "\<forall>x\<in>fst ` set es. k' < x"
    using that by (simp add: bt_insert_keys)
  with 2 show ?case by (auto simp: bt_sorted_def)
qed

lemma bt_get_insert: "bt_sorted m \<Longrightarrow> bt_get k' (bt_insert k v m) = (if k' = k then Some v else bt_get k' m)"
proof (induction k v m rule: bt_insert.induct)
  case (1 k v)
  then show ?case by (simp add: bt_get_def)
next
  case (2 k v k1 v1 es)
  then show ?case by (auto simp: bt_get_def bt_sorted_def)
qed

lemma bt_sorted_distinct: "bt_sorted m \<Longrightarrow> distinct (map fst m)"
  unfolding bt_sorted_def by (simp add: strict_sorted_iff)

lemma bt_get_remove: "bt_get k' (bt_remove k m) = (if k' = k then None else bt_get k' m)"
  by (induction m) (auto simp: bt_get_def bt_remove_def)

lemma bt_remove_sorted: "bt_sorted m \<Longrightarrow> bt_sorted (bt_remove k m)"
  by (auto simp: bt_sorted_def bt_remove_def sorted_wrt_map intro: sorted_wrt_filter)

lemma bt_get_dom: "{k. bt_get k m \<noteq> None} = fst ` set m"
  by (auto simp: bt_get_def map_of_eq_None_iff)

lemma bt_len_dom: "bt_sorted m \<Longrightarrow> bt_len m = card {k. bt_get k m \<noteq> None}"
  unfolding bt_get_dom using distinct_card[OF bt_sorted_distinct[of m]] by (simp add: bt_len_def)

lemma bt_get_update: "bt_get k' (bt_update k f m) = (if k' = k then map_option f (bt_get k m) else bt_get k' m)"
  by (induction m) (auto simp: bt_get_def bt_update_def)

lemma bt_update_keys: "map fst (bt_update k f m) = map fst m"
  by (simp add: bt_update_def comp_def case_prod_beta)

lemma bt_update_sorted [simp]: "bt_sorted (bt_update k f m) = bt_sorted m"
  by (simp add: bt_sorted_def bt_update_keys)

lemma bt_update_len [simp]: "bt_len (bt_update k f m) = bt_len m"
  by (simp add: bt_len_def bt_update_def)

interpretation btree: finite_map bt_get bt_insert bt_remove bt_len bt_sorted
proof unfold_locales
  show "finite {k. bt_get k m \<noteq> None}" for m :: "('a, 'b) btree_map"
    unfolding bt_get_dom by simp
qed (simp_all only: bt_get_insert bt_get_remove bt_len_dom bt_insert_sorted bt_remove_sorted)

section \<open>Sets\<close>

text \<open>A \<open>BTreeSet\<close> is its elements in order; \<open>insert\<close>.\<close>

definition bset_insert :: "'a::linorder \<Rightarrow> 'a list \<Rightarrow> 'a list" where
  "bset_insert x xs = (if x \<in> set xs then xs else insort x xs)"

lemma bset_insert_keeps:
  "sorted xs \<and> distinct xs \<Longrightarrow> sorted (bset_insert x xs) \<and> distinct (bset_insert x xs)"
  by (simp add: bset_insert_def sorted_insort distinct_insort)

lemma bset_insert_length: "length (bset_insert x xs) \<le> Suc (length xs)"
  by (simp add: bset_insert_def)

lemma set_bset_insert [simp]: "set (bset_insert x xs) = insert x (set xs)"
  by (auto simp: bset_insert_def set_insort_key)

end
