(* ===== verification/Item_Stack.thy ===== *)
theory Item_Stack
  imports Ordered_Map Utf8 "HOL-Library.List_Lexorder" "HOL-Library.Char_ord"
begin

text \<open>
  \<open>cubic-world/src/inventory.rs\<close>, items: component values and patches with their limits, and item
  stacks. A \<open>MinecraftIdentifier\<close> is its text (its constructor admits lower-case ASCII only), a
  \<open>String\<close> the list of its code points, a \<open>BTreeSet\<close> its elements in order.
\<close>

type_synonym minecraft_identifier = string

definition MAX_COMPONENTS_PER_STACK :: nat where "MAX_COMPONENTS_PER_STACK = 256"
definition MAX_COMPONENT_BYTES :: nat where "MAX_COMPONENT_BYTES = 1024 * 1024"

datatype inventory_error =
    ZeroItemCount
  | TooManyComponents nat nat
  | ComponentDataTooLarge nat nat
  | ConflictingComponentPatch
  | OrphanComponentFingerprint
  | TooManySlots nat nat
  | InvalidSlot int
  | InvalidHotbarSlot nat
  | InvalidOpenContainerId
  | UnknownContainer nat
  | StaleStateId int int
  | InvalidClickButton int
  | QuickCraftNotStarted
  | QuickCraftGestureMismatch
  | QuickCraftWithoutCarriedStack
  | InvalidQuickCraftSlot int
  | TooManyQuickCraftSlots

datatype component_value =
    Component_Unit
  | Component_VarInt int
  | Component_Bool bool
  | Component_Text rust_str
  | Component_RichText rust_str "u8 list"
  | Component_Lore "rust_str list" "u8 list"
  | Component_StringMap "(rust_str, rust_str) btree_map" "u8 list"
  | Component_RegistryEncoded "u8 list" "minecraft_identifier list"
  | Component_Opaque "u8 list"

record component_patch =
  added :: "(minecraft_identifier, component_value) btree_map"
  removed :: "minecraft_identifier list"
  fingerprints :: "(minecraft_identifier, int) btree_map"

text \<open>\<open>size_of::<i32>()\<close> is 4 and \<open>size_of::<bool>()\<close> is 1.\<close>

definition retained_bytes :: "component_value \<Rightarrow> nat" where
  "retained_bytes v =
     (case v of
        Component_Unit \<Rightarrow> 0
      | Component_VarInt _ \<Rightarrow> 4
      | Component_Bool _ \<Rightarrow> 1
      | Component_Text s \<Rightarrow> str_len s
      | Component_RichText plain wire \<Rightarrow> saturating_add (str_len plain) (length wire)
      | Component_Lore lines wire \<Rightarrow> saturating_add (sum_list (map str_len lines)) (length wire)
      | Component_StringMap vs wire \<Rightarrow>
          saturating_add (sum_list (map (\<lambda>(k, v). saturating_add (str_len k) (str_len v)) vs)) (length wire)
      | Component_RegistryEncoded wire source_registry \<Rightarrow>
          saturating_add (length wire) (sum_list (map length source_registry))
      | Component_Opaque bytes \<Rightarrow> length bytes)"

text \<open>\<open>try_fold(0, checked_add)\<close> over the values of \<open>added\<close>.\<close>

fun retained_total :: "nat \<Rightarrow> component_value list \<Rightarrow> nat option" where
  "retained_total acc [] = Some acc"
| "retained_total acc (v # vs) =
     (case checked_add acc (retained_bytes v) of None \<Rightarrow> None | Some t \<Rightarrow> retained_total t vs)"

definition validate_patch :: "component_patch \<Rightarrow> inventory_error + unit" where
  "validate_patch p =
     (let count = saturating_add (length (added p)) (length (removed p)) in
      if MAX_COMPONENTS_PER_STACK < count then Inl (TooManyComponents count MAX_COMPONENTS_PER_STACK)
      else case retained_total 0 (map snd (added p)) of
        None \<Rightarrow> Inl (ComponentDataTooLarge usize_MAX MAX_COMPONENT_BYTES)
      | Some retained \<Rightarrow>
          if MAX_COMPONENT_BYTES < retained then Inl (ComponentDataTooLarge retained MAX_COMPONENT_BYTES)
          else if list_ex (\<lambda>(k, _). k \<in> set (removed p)) (added p) then Inl ConflictingComponentPatch
          else if list_ex (\<lambda>(k, _). \<not> bt_contains k (added p)) (fingerprints p) then Inl OrphanComponentFingerprint
          else Inr ())"

text \<open>A count is a \<open>u32\<close>; every sum the code forms is at most the larger of 99 and a count.\<close>

record item_stack =
  item :: minecraft_identifier
  count :: nat
  components :: component_patch

definition item_stack_new :: "minecraft_identifier \<Rightarrow> nat \<Rightarrow> component_patch \<Rightarrow> inventory_error + item_stack" where
  "item_stack_new i n p =
     (if n = 0 then Inl ZeroItemCount
      else case validate_patch p of
        Inl e \<Rightarrow> Inl e | Inr _ \<Rightarrow> Inr \<lparr>item = i, count = n, components = p\<rparr>)"

text \<open>\<open>clamp(1, 99)\<close> of the \<open>minecraft:max_stack_size\<close> component, 64 when it is absent or not a count.\<close>

definition max_stack_size :: "item_stack \<Rightarrow> nat" where
  "max_stack_size s =
     (let size = (case bt_get ''minecraft:max_stack_size'' (added (components s)) of
                    Some (Component_VarInt v) \<Rightarrow> if v < 0 then 64 else nat v
                  | _ \<Rightarrow> 64) in
      max 1 (min 99 size))"

definition stackable_with :: "item_stack \<Rightarrow> item_stack \<Rightarrow> bool" where
  "stackable_with a b = (item a = item b \<and> components a = components b)"

section \<open>Facts\<close>

lemma max_stack_size_range: "1 \<le> max_stack_size s" "max_stack_size s \<le> 99"
  by (simp_all add: max_stack_size_def Let_def)

lemma max_stack_size_pos [simp]: "0 < max_stack_size s" "max_stack_size s \<noteq> 0"
  using max_stack_size_range(1)[of s] by simp_all

lemma max_stack_size_count [simp]: "max_stack_size (s\<lparr>count := n\<rparr>) = max_stack_size s"
  by (simp add: max_stack_size_def)

lemma stackable_with_count [simp]:
  "stackable_with (a\<lparr>count := n\<rparr>) b = stackable_with a b" "stackable_with a (b\<lparr>count := n\<rparr>) = stackable_with a b"
  by (simp_all add: stackable_with_def)

lemma stackable_with_sym: "stackable_with a b = stackable_with b a"
  by (auto simp: stackable_with_def)

lemma stackable_with_max: "stackable_with a b \<Longrightarrow> max_stack_size a = max_stack_size b"
  by (simp add: stackable_with_def max_stack_size_def)

text \<open>What can be merged: the key of a stack, and how many of a key a slot holds.\<close>

datatype item_key = Item_Key minecraft_identifier component_patch

definition stack_key :: "item_stack \<Rightarrow> item_key" where
  "stack_key s = Item_Key (item s) (components s)"

lemma stackable_with_key: "stackable_with a b \<longleftrightarrow> stack_key a = stack_key b"
  by (simp add: stackable_with_def stack_key_def)

lemma stack_key_count [simp]: "stack_key (s\<lparr>count := n\<rparr>) = stack_key s"
  by (simp add: stack_key_def)

definition held_by :: "item_key \<Rightarrow> item_stack option \<Rightarrow> nat" where
  "held_by k slot = (case slot of None \<Rightarrow> 0 | Some s \<Rightarrow> if stack_key s = k then count s else 0)"

lemma held_by_simps [simp]:
  "held_by k None = 0" "held_by k (Some s) = (if stack_key s = k then count s else 0)"
  by (simp_all add: held_by_def)

text \<open>A stack is never empty.\<close>

definition nonempty_stack :: "item_stack option \<Rightarrow> bool" where
  "nonempty_stack slot = (case slot of None \<Rightarrow> True | Some s \<Rightarrow> 0 < count s)"

lemma nonempty_stack_simps [simp]: "nonempty_stack None" "nonempty_stack (Some s) = (0 < count s)"
  by (simp_all add: nonempty_stack_def)

lemma item_stack_new_positive: "item_stack_new i n p = Inr s \<Longrightarrow> nonempty_stack (Some s)"
  by (auto simp: item_stack_new_def split: if_splits sum.splits)

end
