(* ===== verification/Container.thy ===== *)
theory Container
  imports Item_Stack
begin

text \<open>
  \<open>cubic-world/src/inventory.rs\<close>, one container: its state and the clicks on it. A click changes the
  container in place and may stop in the middle: with an \<open>InventoryError\<close>, or in a panic where the
  code indexes a slot or subtracts from a count. Slots are \<open>i16\<close>, buttons \<open>i8\<close>, counts \<open>u32\<close>.
\<close>

definition PLAYER_CONTAINER_ID :: nat where "PLAYER_CONTAINER_ID = 0"
definition PLAYER_INVENTORY_SLOTS :: nat where "PLAYER_INVENTORY_SLOTS = 46"
definition MAX_CONTAINER_SLOTS :: nat where "MAX_CONTAINER_SLOTS = 512"

datatype menu_identity = PlayerInventory | Menu minecraft_identifier

record container_state =
  container_id :: nat
  menu :: menu_identity
  title :: rust_str
  state_id :: int
  slots :: "item_stack option list"
  carried :: "item_stack option"
  properties :: "(int, int) btree_map"

datatype failure = Failed inventory_error | Panicked

type_synonym 'a container_op = "(container_state, failure, 'a) fallible"

definition container_new ::
  "nat \<Rightarrow> menu_identity \<Rightarrow> rust_str \<Rightarrow> nat \<Rightarrow> inventory_error + container_state" where
  "container_new cid m t slot_count =
     (if MAX_CONTAINER_SLOTS < slot_count then Inl (TooManySlots slot_count MAX_CONTAINER_SLOTS)
      else Inr \<lparr>container_id = cid, menu = m, title = t, state_id = 0,
        slots = replicate slot_count None, carried = None, properties = []\<rparr>)"

definition container_replace_content ::
  "int \<Rightarrow> item_stack option list \<Rightarrow> item_stack option \<Rightarrow> unit container_op" where
  "container_replace_content sid ss cr c =
     (if MAX_CONTAINER_SLOTS < length ss
      then (Inl (Failed (TooManySlots (length ss) MAX_CONTAINER_SLOTS)), c)
      else (Inr (), c\<lparr>state_id := sid, slots := ss, carried := cr\<rparr>))"

definition slot_index :: "container_state \<Rightarrow> int \<Rightarrow> inventory_error + nat" where
  "slot_index c slot =
     (if slot < 0 then Inl (InvalidSlot slot)
      else if length (slots c) \<le> nat slot then Inl (InvalidSlot slot) else Inr (nat slot))"

definition container_set_slot :: "int \<Rightarrow> int \<Rightarrow> item_stack option \<Rightarrow> unit container_op" where
  "container_set_slot sid slot stack c =
     (case slot_index c slot of
        Inl e \<Rightarrow> (Inl (Failed e), c)
      | Inr index \<Rightarrow> (Inr (), c\<lparr>state_id := sid, slots := (slots c)[index := stack]\<rparr>))"

definition put_slot :: "nat \<Rightarrow> item_stack option \<Rightarrow> container_state \<Rightarrow> container_state" where
  "put_slot index target c = c\<lparr>slots := (slots c)[index := target]\<rparr>"

section \<open>Pick up\<close>

definition drop_carried :: "int \<Rightarrow> container_state \<Rightarrow> container_state" where
  "drop_carried button c =
     (if button = 0 then c\<lparr>carried := None\<rparr>
      else case carried c of
        None \<Rightarrow> c
      | Some s \<Rightarrow> let n = count s - 1 in c\<lparr>carried := if n = 0 then None else Some (s\<lparr>count := n\<rparr>)\<rparr>)"

definition keep_rest :: "item_stack \<Rightarrow> nat \<Rightarrow> item_stack option" where
  "keep_rest s n = (if n \<noteq> 0 then Some (s\<lparr>count := n\<rparr>) else None)"

text \<open>The match on the carried stack and the stack in the slot, both taken out.\<close>

definition pickup_at :: "int \<Rightarrow> nat \<Rightarrow> unit container_op" where
  "pickup_at button index c =
     (let c0 = put_slot index None (c\<lparr>carried := None\<rparr>);
          give = (\<lambda>cr target. (Inr (), put_slot index target (c0\<lparr>carried := cr\<rparr>))) in
      case (carried c, slots c ! index) of
        (None, None) \<Rightarrow> give None None
      | (None, Some stack) \<Rightarrow>
          if button = 0 then give (Some stack) None
          else let taken = div_ceil (count stack) 2; remaining = count stack - taken in
            give (Some (stack\<lparr>count := taken\<rparr>)) (keep_rest stack remaining)
      | (Some cs, None) \<Rightarrow>
          if button = 0 then give None (Some cs)
          else if count cs = 0 then (Inl Panicked, c0)
          else give (keep_rest cs (count cs - 1)) (Some (cs\<lparr>count := 1\<rparr>))
      | (Some cs, Some stack) \<Rightarrow>
          if stackable_with cs stack then
            let moved = min (if button = 0 then count cs else min (count cs) 1) (max_stack_size stack - count stack) in
            give (keep_rest cs (count cs - moved)) (Some (stack\<lparr>count := count stack + moved\<rparr>))
          else give (Some stack) (Some cs))"

definition pickup :: "int \<Rightarrow> int \<Rightarrow> unit container_op" where
  "pickup slot button c =
     (if button \<noteq> 0 \<and> button \<noteq> 1 then (Inl (Failed (InvalidClickButton button)), c)
      else if slot = -999 then (Inr (), drop_carried button c)
      else case slot_index c slot of
        Inl e \<Rightarrow> (Inl (Failed e), c)
      | Inr index \<Rightarrow> pickup_at button index c)"

section \<open>Quick move\<close>

record slot_route =
  route_start :: nat
  route_end :: nat
  route_reverse :: bool

definition slot_route_new :: "nat \<Rightarrow> nat \<Rightarrow> bool \<Rightarrow> slot_route" where
  "slot_route_new a b r = \<lparr>route_start = a, route_end = b, route_reverse = r\<rparr>"

definition route_indices :: "slot_route \<Rightarrow> nat list" where
  "route_indices r =
     (if route_reverse r then rev [route_start r..<route_end r] else [route_start r..<route_end r])"

definition is_furnace_fuel :: "item_stack \<Rightarrow> bool" where
  "is_furnace_fuel s =
     (let name = item s in
      name \<in> {''minecraft:coal'', ''minecraft:charcoal'', ''minecraft:blaze_rod''} \<or>
      ends_with name ''_planks'' \<or> ends_with name ''_log'' \<or> ends_with name ''_wood'')"

definition is_probable_furnace_input :: "item_stack \<Rightarrow> bool" where
  "is_probable_furnace_input s =
     (let name = item s in
      ends_with name ''_ore'' \<or> contains name ''raw_'' \<or>
      name \<in> {''minecraft:sand'', ''minecraft:red_sand'', ''minecraft:cobblestone'', ''minecraft:clay_ball'',
        ''minecraft:wet_sponge'', ''minecraft:cactus'', ''minecraft:kelp'', ''minecraft:potato'', ''minecraft:beef'',
        ''minecraft:chicken'', ''minecraft:porkchop'', ''minecraft:mutton'', ''minecraft:rabbit'', ''minecraft:cod'',
        ''minecraft:salmon''})"

definition equipment_destination :: "container_state \<Rightarrow> item_stack \<Rightarrow> nat option" where
  "equipment_destination c s =
     (let name = item s;
          destination =
            (if ends_with name ''_helmet'' \<or> name = ''minecraft:carved_pumpkin'' then Some 5
             else if ends_with name ''_chestplate'' \<or> name = ''minecraft:elytra'' then Some 6
             else if ends_with name ''_leggings'' then Some 7
             else if ends_with name ''_boots'' then Some 8
             else if name = ''minecraft:shield'' then Some 45 else None) in
      case destination of
        None \<Rightarrow> None
      | Some d \<Rightarrow> if d < length (slots c) \<and> slots c ! d = None then Some d else None)"

definition furnace_player_routes :: "container_state \<Rightarrow> item_stack \<Rightarrow> nat \<Rightarrow> nat \<Rightarrow> slot_route list" where
  "furnace_player_routes c moving alternate_start alternate_end =
     (if is_furnace_fuel moving then [slot_route_new 1 2 False]
      else if is_probable_furnace_input moving then [slot_route_new 0 1 False] else []) @
     [slot_route_new alternate_start (min alternate_end (length (slots c))) False]"

definition player_inventory_routes :: "container_state \<Rightarrow> nat \<Rightarrow> item_stack \<Rightarrow> slot_route list" where
  "player_inventory_routes c source moving =
     (if source \<le> 8 \<or> source = 45 then [slot_route_new 9 45 True]
      else if 9 \<le> source \<and> source \<le> 35 then
        (case equipment_destination c moving of None \<Rightarrow> [] | Some d \<Rightarrow> [slot_route_new d (d + 1) False]) @
        [slot_route_new 36 45 False]
      else if 36 \<le> source \<and> source \<le> 44 then [slot_route_new 9 36 False]
      else [])"

definition furnace_routes :: "container_state \<Rightarrow> nat \<Rightarrow> item_stack \<Rightarrow> slot_route list" where
  "furnace_routes c source moving =
     (if source \<le> 2 then [slot_route_new 3 (length (slots c)) True]
      else if source \<le> 29 then furnace_player_routes c moving 30 39
      else if source \<le> 38 then furnace_player_routes c moving 3 30
      else [])"

definition crafting_routes :: "container_state \<Rightarrow> nat \<Rightarrow> slot_route list" where
  "crafting_routes c source =
     (let n = length (slots c) in
      if source = 0 then [slot_route_new 10 n True]
      else if source \<le> 9 then [slot_route_new 10 n False]
      else if source \<le> 36 then [slot_route_new 37 (min 46 n) False]
      else if source \<le> 45 then [slot_route_new 10 (min 37 n) False]
      else [])"

definition quick_move_routes :: "container_state \<Rightarrow> nat \<Rightarrow> item_stack \<Rightarrow> slot_route list" where
  "quick_move_routes c source moving =
     (if container_id c = PLAYER_CONTAINER_ID \<and> length (slots c) = PLAYER_INVENTORY_SLOTS
      then player_inventory_routes c source moving
      else if menu c = Menu ''minecraft:furnace'' then furnace_routes c source moving
      else if menu c = Menu ''minecraft:crafting'' then crafting_routes c source
      else
        let player_start = length (slots c) - 36 in
        if source < player_start then [slot_route_new player_start (length (slots c)) True]
        else [slot_route_new 0 player_start False])"

text \<open>
  The first loop of \<open>move_stack_to\<close>: merge into stacks of the same kind; the flag says that it
  returned because nothing was left to move.
\<close>

fun merge_route ::
  "nat list \<Rightarrow> item_stack \<Rightarrow> item_stack option list \<Rightarrow> (bool \<times> item_stack \<times> item_stack option list) option" where
  "merge_route [] moving ss = Some (False, moving, ss)"
| "merge_route (i # is) moving ss =
     (if length ss \<le> i then None
      else case ss ! i of
        None \<Rightarrow> merge_route is moving ss
      | Some stack \<Rightarrow>
          if stackable_with stack moving then
            let amount = min (count moving) (max_stack_size stack - count stack);
                ss' = ss[i := Some (stack\<lparr>count := count stack + amount\<rparr>)];
                moving' = moving\<lparr>count := count moving - amount\<rparr> in
            if count moving' = 0 then Some (True, moving', ss') else merge_route is moving' ss'
          else merge_route is moving ss)"

text \<open>None is the panic of an index outside the slots.\<close>

definition move_stack_to ::
  "slot_route \<Rightarrow> item_stack \<Rightarrow> item_stack option list \<Rightarrow> (item_stack \<times> item_stack option list) option" where
  "move_stack_to route moving ss =
     (case merge_route (route_indices route) moving ss of
        None \<Rightarrow> None
      | Some (returned, moving', ss') \<Rightarrow>
          if returned then Some (moving', ss')
          else case find (\<lambda>i. ss' ! i = None) (route_indices route) of
            None \<Rightarrow> Some (moving', ss')
          | Some i \<Rightarrow> Some (moving'\<lparr>count := 0\<rparr>, ss'[i := Some moving']))"

fun quick_move_loop :: "slot_route list \<Rightarrow> nat \<Rightarrow> item_stack \<Rightarrow> unit container_op" where
  "quick_move_loop [] source moving c = (Inr (), put_slot source (Some moving) c)"
| "quick_move_loop (route # routes) source moving c =
     (case move_stack_to route moving (slots c) of
        None \<Rightarrow> (Inl Panicked, c)
      | Some (moving', ss) \<Rightarrow>
          let c' = c\<lparr>slots := ss\<rparr> in
          if count moving' = 0 then (Inr (), c') else quick_move_loop routes source moving' c')"

definition quick_move :: "int \<Rightarrow> unit container_op" where
  "quick_move slot c =
     (case slot_index c slot of
        Inl e \<Rightarrow> (Inl (Failed e), c)
      | Inr source \<Rightarrow>
          (case slots c ! source of
             None \<Rightarrow> (Inr (), c)
           | Some moving \<Rightarrow>
               let c' = put_slot source None c in
               quick_move_loop (quick_move_routes c' source moving) source moving c'))"

section \<open>Swap, clone, throw\<close>

definition swap_hotbar :: "int \<Rightarrow> int \<Rightarrow> unit container_op" where
  "swap_hotbar slot button c =
     (case slot_index c slot of
        Inl e \<Rightarrow> (Inl (Failed e), c)
      | Inr source \<Rightarrow>
          if button < 0 then (Inl (Failed (InvalidClickButton button)), c)
          else if 8 < button \<or> length (slots c) < 9 then (Inl (Failed (InvalidClickButton button)), c)
          else
            let hotbar = nat button;
                destination =
                  (if container_id c = PLAYER_CONTAINER_ID \<and> length (slots c) = PLAYER_INVENTORY_SLOTS
                   then 36 + hotbar else length (slots c) - 9 + hotbar) in
            if length (slots c) \<le> destination then (Inl Panicked, c)
            else (Inr (), c\<lparr>slots := (slots c)[source := slots c ! destination, destination := slots c ! source]\<rparr>))"

definition clone_stack :: "int \<Rightarrow> unit container_op" where
  "clone_stack slot c =
     (case slot_index c slot of
        Inl e \<Rightarrow> (Inl (Failed e), c)
      | Inr index \<Rightarrow>
          (Inr (), c\<lparr>carried := map_option (\<lambda>s. s\<lparr>count := max_stack_size s\<rparr>) (slots c ! index)\<rparr>))"

definition throw_stack :: "int \<Rightarrow> int \<Rightarrow> unit container_op" where
  "throw_stack slot button c =
     (case slot_index c slot of
        Inl e \<Rightarrow> (Inl (Failed e), c)
      | Inr index \<Rightarrow>
          if button \<noteq> 0 \<and> button \<noteq> 1 then (Inl (Failed (InvalidClickButton button)), c)
          else if button = 1 then (Inr (), put_slot index None c)
          else case slots c ! index of
            None \<Rightarrow> (Inr (), c)
          | Some stack \<Rightarrow>
              if count stack = 0 then (Inl Panicked, c)
              else (Inr (), put_slot index (keep_rest stack (count stack - 1)) c))"

section \<open>Pick up all\<close>

definition can_take_for_pick_all :: "menu_identity \<Rightarrow> nat \<Rightarrow> bool" where
  "can_take_for_pick_all m index =
     (case m of
        PlayerInventory \<Rightarrow> index \<noteq> 0
      | Menu identifier \<Rightarrow>
          if identifier = ''minecraft:crafting'' then index \<noteq> 0
          else if identifier = ''minecraft:furnace'' then index \<noteq> 2 else True)"

text \<open>One pass over the slots; the flag says that the carried stack became full.\<close>

fun pickup_all_pass ::
  "menu_identity \<Rightarrow> bool \<Rightarrow> nat \<Rightarrow> item_stack \<Rightarrow> item_stack option list \<Rightarrow>
     bool \<times> item_stack \<times> item_stack option list" where
  "pickup_all_pass m full_pass index cr [] = (False, cr, [])"
| "pickup_all_pass m full_pass index cr (slot # rest) =
     (let skip = (case pickup_all_pass m full_pass (Suc index) cr rest of
                    (full, cr', rest') \<Rightarrow> (full, cr', slot # rest')) in
      if \<not> can_take_for_pick_all m index then skip
      else case slot of
        None \<Rightarrow> skip
      | Some stack \<Rightarrow>
          if stackable_with stack cr \<and> (count stack = max_stack_size stack) = full_pass then
            let moved = min (count stack) (max_stack_size cr - count cr);
                slot' = keep_rest stack (count stack - moved);
                cr' = cr\<lparr>count := count cr + moved\<rparr> in
            if count cr' = max_stack_size cr' then (True, cr', slot' # rest)
            else case pickup_all_pass m full_pass (Suc index) cr' rest of
              (full, cr'', rest') \<Rightarrow> (full, cr'', slot' # rest')
          else skip)"

definition pickup_all :: "int \<Rightarrow> unit container_op" where
  "pickup_all button c =
     (if button \<noteq> 0 then (Inl (Failed (InvalidClickButton button)), c)
      else case carried c of
        None \<Rightarrow> (Inr (), c)
      | Some cr \<Rightarrow>
          (case pickup_all_pass (menu c) False 0 cr (slots c) of
             (full, cr1, ss1) \<Rightarrow>
               if full then (Inr (), c\<lparr>carried := Some cr1, slots := ss1\<rparr>)
               else case pickup_all_pass (menu c) True 0 cr1 ss1 of
                 (_, cr2, ss2) \<Rightarrow> (Inr (), c\<lparr>carried := Some cr2, slots := ss2\<rparr>)))"

section \<open>Quick craft\<close>

record quick_craft_gesture =
  gesture_container :: nat
  gesture_state_id :: int
  gesture_kind :: nat
  gesture_slots :: "int list"

definition quick_craft_slot_eligible :: "container_state \<Rightarrow> nat \<Rightarrow> item_stack \<Rightarrow> bool" where
  "quick_craft_slot_eligible c index cr =
     (let accepts_items =
            (case menu c of
               PlayerInventory \<Rightarrow> index \<noteq> 0
             | Menu identifier \<Rightarrow>
                 if identifier = ''minecraft:furnace'' then index \<noteq> 2
                 else if identifier = ''minecraft:crafting'' then index \<noteq> 0 else True) in
      accepts_items \<and>
      (case slots c ! index of
         None \<Rightarrow> True | Some stack \<Rightarrow> stackable_with stack cr \<and> count stack < max_stack_size stack))"

text \<open>One round of the loop of \<open>finish_quick_craft\<close>, on the stack being spread and the slots.\<close>

definition quick_craft_slot ::
  "nat \<Rightarrow> nat \<Rightarrow> nat \<Rightarrow> item_stack \<Rightarrow> container_state \<Rightarrow> item_stack \<times> container_state" where
  "quick_craft_slot kind per_slot index cr c =
     (let place = (\<lambda>destination capacity.
            let amount = (if kind = 2 then min per_slot capacity else min (min per_slot capacity) (count cr)) in
            if amount = 0 then (cr, put_slot index destination c)
            else
              (if kind \<noteq> 2 then cr\<lparr>count := count cr - amount\<rparr> else cr,
               put_slot index (Some (case destination of
                 Some stack \<Rightarrow> stack\<lparr>count := count stack + amount\<rparr>
               | None \<Rightarrow> cr\<lparr>count := amount\<rparr>)) c)) in
      case slots c ! index of
        Some stack \<Rightarrow>
          if stackable_with stack cr then place (Some stack) (max_stack_size stack - count stack)
          else (cr, c)
      | None \<Rightarrow> place None (max_stack_size cr))"

fun quick_craft_loop :: "nat \<Rightarrow> nat \<Rightarrow> int list \<Rightarrow> item_stack \<Rightarrow> item_stack container_op" where
  "quick_craft_loop kind per_slot [] cr c = (Inr cr, c)"
| "quick_craft_loop kind per_slot (slot # rest) cr c =
     (if count cr = 0 \<and> kind \<noteq> 2 then (Inr cr, c)
      else case slot_index c slot of
        Inl e \<Rightarrow> (Inl (Failed e), c)
      | Inr index \<Rightarrow>
          (case quick_craft_slot kind per_slot index cr c of
             (cr', c') \<Rightarrow> quick_craft_loop kind per_slot rest cr' c'))"

definition finish_quick_craft :: "quick_craft_gesture \<Rightarrow> unit container_op" where
  "finish_quick_craft g c =
     (case carried c of
        None \<Rightarrow> (Inl (Failed QuickCraftWithoutCarriedStack), c)
      | Some cr \<Rightarrow>
          if gesture_slots g = [] then (Inr (), c)
          else
            let c0 = c\<lparr>carried := None\<rparr> in
            if 2 < gesture_kind g then (Inl (Failed (InvalidClickButton 127)), c0)
            else
              let per_slot = (if gesture_kind g = 0 then count cr div length (gesture_slots g)
                              else if gesture_kind g = 1 then 1 else max_stack_size cr) in
              case quick_craft_loop (gesture_kind g) per_slot (gesture_slots g) cr c0 of
                (Inl e, c') \<Rightarrow> (Inl e, c')
              | (Inr cr', c') \<Rightarrow> (Inr (), if count cr' \<noteq> 0 then c'\<lparr>carried := Some cr'\<rparr> else c'))"

end
