(* ===== verification/Inventory.thy ===== *)
theory Inventory
  imports Container
begin

text \<open>
  \<open>cubic-world/src/inventory.rs\<close>, \<open>InventoryState\<close>: the player's container, the open one, the
  quick-craft drag in progress, and the operations of the server and of the player on them.
\<close>

record inventory_state =
  player :: container_state
  open_container_state :: "container_state option"
  selected_hotbar_slot :: nat
  quick_craft :: "quick_craft_gesture option"
  instant_build :: bool
  permission_level :: nat

type_synonym 'a inventory_op = "(inventory_state, failure, 'a) fallible"

definition inventory_new :: inventory_state where
  "inventory_new =
     \<lparr>player = \<lparr>container_id = PLAYER_CONTAINER_ID, menu = PlayerInventory,
        title = map of_char ''Inventory'', state_id = 0,
        slots = replicate PLAYER_INVENTORY_SLOTS None, carried = None, properties = []\<rparr>,
      open_container_state = None, selected_hotbar_slot = 0, quick_craft = None,
      instant_build = False, permission_level = 0\<rparr>"

definition can_use_game_master_blocks :: "inventory_state \<Rightarrow> bool" where
  "can_use_game_master_blocks s = (instant_build s \<and> 2 \<le> permission_level s)"

definition set_instant_build :: "bool \<Rightarrow> inventory_state \<Rightarrow> inventory_state" where
  "set_instant_build b s = s\<lparr>instant_build := b\<rparr>"

definition set_permission_level :: "nat \<Rightarrow> inventory_state \<Rightarrow> inventory_state" where
  "set_permission_level l s = s\<lparr>permission_level := min l 4\<rparr>"

definition nth_slot :: "nat \<Rightarrow> container_state \<Rightarrow> item_stack option" where
  "nth_slot i c = (if i < length (slots c) then slots c ! i else None)"

definition held_item :: "inventory_state \<Rightarrow> item_stack option" where
  "held_item s = nth_slot (36 + selected_hotbar_slot s) (player s)"

definition offhand_item :: "inventory_state \<Rightarrow> item_stack option" where
  "offhand_item s = nth_slot 45 (player s)"

definition set_selected_hotbar_slot :: "nat \<Rightarrow> unit inventory_op" where
  "set_selected_hotbar_slot slot s =
     (if 8 < slot then (Inl (Failed (InvalidHotbarSlot slot)), s) else (Inr (), s\<lparr>selected_hotbar_slot := slot\<rparr>))"

definition set_carried :: "item_stack option \<Rightarrow> inventory_state \<Rightarrow> inventory_state" where
  "set_carried stack s =
     s\<lparr>open_container_state := map_option (\<lambda>c. c\<lparr>carried := stack\<rparr>) (open_container_state s),
       player := (player s)\<lparr>carried := stack\<rparr>\<rparr>"

definition set_creative_slot :: "int \<Rightarrow> item_stack option \<Rightarrow> unit inventory_op" where
  "set_creative_slot slot stack s =
     (if slot = -1 then (Inr (), s)
      else case container_set_slot (state_id (player s)) slot stack (player s) of
        (res, c) \<Rightarrow> (res, s\<lparr>player := c\<rparr>))"

definition open_container :: "container_state \<Rightarrow> unit inventory_op" where
  "open_container c s =
     (if container_id c = PLAYER_CONTAINER_ID then (Inl (Failed InvalidOpenContainerId), s)
      else (Inr (), s\<lparr>open_container_state := Some c, quick_craft := None\<rparr>))"

definition close_container :: "nat \<Rightarrow> unit inventory_op" where
  "close_container cid s =
     (case open_container_state s of
        Some c \<Rightarrow>
          if container_id c = cid then (Inr (), s\<lparr>open_container_state := None, quick_craft := None\<rparr>)
          else (Inl (Failed (UnknownContainer cid)), s)
      | None \<Rightarrow> (Inl (Failed (UnknownContainer cid)), s))"

definition find_container :: "nat \<Rightarrow> inventory_state \<Rightarrow> inventory_error + container_state" where
  "find_container cid s =
     (if cid = PLAYER_CONTAINER_ID then Inr (player s)
      else case open_container_state s of
        Some c \<Rightarrow> if container_id c = cid then Inr c else Inl (UnknownContainer cid)
      | None \<Rightarrow> Inl (UnknownContainer cid))"

definition store_container :: "nat \<Rightarrow> container_state \<Rightarrow> inventory_state \<Rightarrow> inventory_state" where
  "store_container cid c s =
     (if cid = PLAYER_CONTAINER_ID then s\<lparr>player := c\<rparr> else s\<lparr>open_container_state := Some c\<rparr>)"

text \<open>\<open>container_mut(id)?\<close> with an operation on the container it borrows.\<close>

definition on_container :: "nat \<Rightarrow> 'a container_op \<Rightarrow> 'a inventory_op" where
  "on_container cid m s =
     (case find_container cid s of
        Inl e \<Rightarrow> (Inl (Failed e), s)
      | Inr c \<Rightarrow> (case m c of (res, c') \<Rightarrow> (res, store_container cid c' s)))"

definition carried_view :: "inventory_state \<Rightarrow> item_stack option" where
  "carried_view s = (case open_container_state s of None \<Rightarrow> carried (player s) | Some c \<Rightarrow> carried c)"

text \<open>
  The last 36 slots of an open container are the player's slots 9 to 44; \<open>get_mut\<close> skips what the
  player's container does not have.
\<close>

fun copy_slots :: "nat \<Rightarrow> item_stack option list \<Rightarrow> item_stack option list \<Rightarrow> item_stack option list" where
  "copy_slots i [] dest = dest"
| "copy_slots i (x # xs) dest = copy_slots (Suc i) xs (if i < length dest then dest[i := x] else dest)"

definition synchronize_player_from :: "nat \<Rightarrow> inventory_state \<Rightarrow> inventory_state" where
  "synchronize_player_from cid s =
     (if cid = PLAYER_CONTAINER_ID
      then s\<lparr>open_container_state := map_option (\<lambda>c. c\<lparr>carried := carried (player s)\<rparr>) (open_container_state s)\<rparr>
      else case open_container_state s of
        None \<Rightarrow> s
      | Some c \<Rightarrow>
          let p = (player s)\<lparr>carried := carried c\<rparr> in
          if length (slots c) < 36 then s\<lparr>player := p\<rparr>
          else s\<lparr>player := p\<lparr>slots := copy_slots 9 (drop (length (slots c) - 36) (slots c)) (slots p)\<rparr>\<rparr>)"

text \<open>\<open>replace_content\<close> and \<open>set_slot\<close> cancel a drag whose container changed its state id.\<close>

definition cancels_quick_craft :: "nat \<Rightarrow> int \<Rightarrow> inventory_state \<Rightarrow> bool" where
  "cancels_quick_craft cid sid s =
     (case quick_craft s of None \<Rightarrow> False | Some g \<Rightarrow> gesture_container g = cid \<and> gesture_state_id g \<noteq> sid)"

definition server_update :: "nat \<Rightarrow> int \<Rightarrow> unit container_op \<Rightarrow> unit inventory_op" where
  "server_update cid sid m s =
     (let cancel = cancels_quick_craft cid sid s in
      case on_container cid m s of
        (Inl e, s') \<Rightarrow> (Inl e, s')
      | (Inr _, s') \<Rightarrow>
          (Inr (), synchronize_player_from cid (if cancel then s'\<lparr>quick_craft := None\<rparr> else s')))"

definition replace_content ::
  "nat \<Rightarrow> int \<Rightarrow> item_stack option list \<Rightarrow> item_stack option \<Rightarrow> unit inventory_op" where
  "replace_content cid sid ss cr = server_update cid sid (container_replace_content sid ss cr)"

definition set_slot :: "nat \<Rightarrow> int \<Rightarrow> int \<Rightarrow> item_stack option \<Rightarrow> unit inventory_op" where
  "set_slot cid sid slot stack = server_update cid sid (container_set_slot sid slot stack)"

definition inventory_reset :: "inventory_state \<Rightarrow> inventory_state" where
  "inventory_reset s = inventory_new"

section \<open>Clicks\<close>

datatype click_kind = Pickup | QuickMove | Swap | Clone | Throw | QuickCraft | PickupAll

record container_click =
  click_container :: nat
  click_state_id :: int
  click_slot :: int
  click_button :: int
  click_kind :: click_kind

record click_outcome =
  outcome_changed_slots :: "(int, item_stack option) btree_map"
  outcome_carried :: "item_stack option"

text \<open>Slot indices are converted to \<open>i16\<close>; an index that does not fit is left out.\<close>

fun changed_slots_from ::
  "nat \<Rightarrow> item_stack option list \<Rightarrow> item_stack option list \<Rightarrow> (int, item_stack option) btree_map" where
  "changed_slots_from i (b # bs) (a # as) =
     (if b \<noteq> a \<and> i < 2 ^ 15 then [(int i, a)] else []) @ changed_slots_from (Suc i) bs as"
| "changed_slots_from i _ _ = []"

definition changed_slots ::
  "item_stack option list \<Rightarrow> item_stack option list \<Rightarrow> (int, item_stack option) btree_map" where
  "changed_slots before after = changed_slots_from 0 before after"

definition run_click :: "container_click \<Rightarrow> unit container_op" where
  "run_click click =
     (case click_kind click of
        Pickup \<Rightarrow> pickup (click_slot click) (click_button click)
      | QuickMove \<Rightarrow> quick_move (click_slot click)
      | Swap \<Rightarrow> swap_hotbar (click_slot click) (click_button click)
      | Clone \<Rightarrow> clone_stack (click_slot click)
      | Throw \<Rightarrow> throw_stack (click_slot click) (click_button click)
      | PickupAll \<Rightarrow> pickup_all (click_button click)
      | QuickCraft \<Rightarrow> fail Panicked)"

text \<open>A change of one container with the outcome of what it changed.\<close>

definition with_outcome :: "unit container_op \<Rightarrow> click_outcome container_op" where
  "with_outcome m c =
     (case m c of
        (Inl e, c') \<Rightarrow> (Inl e, c')
      | (Inr _, c') \<Rightarrow>
          (Inr \<lparr>outcome_changed_slots = changed_slots (slots c) (slots c'), outcome_carried = carried c'\<rparr>, c'))"

definition click_container_op :: "container_click \<Rightarrow> click_outcome container_op" where
  "click_container_op click c =
     (if state_id c \<noteq> click_state_id click then (Inl (Failed (StaleStateId (state_id c) (click_state_id click))), c)
      else with_outcome (run_click click) c)"

definition then_synchronize :: "nat \<Rightarrow> 'a inventory_op \<Rightarrow> 'a inventory_op" where
  "then_synchronize cid m s =
     (case m s of (Inl e, s') \<Rightarrow> (Inl e, s') | (Inr a, s') \<Rightarrow> (Inr a, synchronize_player_from cid s'))"

section \<open>The stages of a quick-craft drag\<close>

definition quick_craft_start :: "nat \<Rightarrow> container_click \<Rightarrow> click_outcome inventory_op" where
  "quick_craft_start kind click s =
     (if click_slot click \<noteq> -999 then (Inl (Failed (InvalidQuickCraftSlot (click_slot click))), s)
      else case find_container (click_container click) s of
        Inl e \<Rightarrow> (Inl (Failed e), s)
      | Inr c \<Rightarrow>
          if state_id c \<noteq> click_state_id click
          then (Inl (Failed (StaleStateId (state_id c) (click_state_id click))), s)
          else case carried c of
            None \<Rightarrow> (Inl (Failed QuickCraftWithoutCarriedStack), s)
          | Some cr \<Rightarrow>
              (Inr \<lparr>outcome_changed_slots = [], outcome_carried = Some cr\<rparr>,
               s\<lparr>quick_craft := Some \<lparr>gesture_container = click_container click,
                 gesture_state_id = click_state_id click, gesture_kind = kind, gesture_slots = []\<rparr>\<rparr>))"

definition gesture_mismatch :: "quick_craft_gesture \<Rightarrow> nat \<Rightarrow> container_click \<Rightarrow> bool" where
  "gesture_mismatch g kind click =
     (gesture_container g \<noteq> click_container click \<or> gesture_state_id g \<noteq> click_state_id click \<or> gesture_kind g \<noteq> kind)"

definition quick_craft_add :: "nat \<Rightarrow> container_click \<Rightarrow> click_outcome inventory_op" where
  "quick_craft_add kind click s =
     (case find_container (click_container click) s of
        Inl e \<Rightarrow> (Inl (Failed e), s)
      | Inr c \<Rightarrow>
          (case slot_index c (click_slot click) of
             Inl e \<Rightarrow> (Inl (Failed e), s)
           | Inr index \<Rightarrow>
               (case quick_craft s of
                  None \<Rightarrow> (Inl (Failed QuickCraftNotStarted), s)
                | Some g \<Rightarrow>
                    if gesture_mismatch g kind click then (Inl (Failed QuickCraftGestureMismatch), s)
                    else case carried c of
                      None \<Rightarrow> (Inl (Failed QuickCraftWithoutCarriedStack), s)
                    | Some cr \<Rightarrow>
                        let eligible = quick_craft_slot_eligible c index cr in
                        if MAX_CONTAINER_SLOTS \<le> length (gesture_slots g)
                        then (Inl (Failed TooManyQuickCraftSlots), s)
                        else
                          (Inr \<lparr>outcome_changed_slots = [], outcome_carried = Some cr\<rparr>,
                           if eligible
                           then s\<lparr>quick_craft := Some (g\<lparr>gesture_slots := bset_insert (click_slot click) (gesture_slots g)\<rparr>)\<rparr>
                           else s))))"

definition quick_craft_finish :: "nat \<Rightarrow> container_click \<Rightarrow> click_outcome inventory_op" where
  "quick_craft_finish kind click s =
     (if click_slot click \<noteq> -999 then (Inl (Failed (InvalidQuickCraftSlot (click_slot click))), s)
      else case quick_craft s of
        None \<Rightarrow> (Inl (Failed QuickCraftNotStarted), s)
      | Some g \<Rightarrow>
          let s0 = s\<lparr>quick_craft := None\<rparr> in
          if gesture_mismatch g kind click then (Inl (Failed QuickCraftGestureMismatch), s0)
          else then_synchronize (click_container click)
                 (on_container (click_container click) (with_outcome (finish_quick_craft g))) s0)"

definition apply_quick_craft :: "container_click \<Rightarrow> click_outcome inventory_op" where
  "apply_quick_craft click s =
     (let stage = click_button click AND 3; shifted = drop_bit 2 (click_button click) in
      if shifted < 0 then (Inl (Failed (InvalidClickButton (click_button click))), s)
      else
        let kind = nat shifted in
        if 2 < kind \<or> 2 < stage then (Inl (Failed (InvalidClickButton (click_button click))), s)
        else if stage = 0 then quick_craft_start kind click s
        else if stage = 1 then quick_craft_add kind click s
        else quick_craft_finish kind click s)"

definition apply_click :: "container_click \<Rightarrow> click_outcome inventory_op" where
  "apply_click click s =
     (if click_kind click = QuickCraft then apply_quick_craft click s
      else then_synchronize (click_container click)
             (on_container (click_container click) (click_container_op click)) (s\<lparr>quick_craft := None\<rparr>))"

end
