(* ===== verification/Container_Props.thy ===== *)
theory Container_Props
  imports Container
begin

text \<open>
  What the clicks on a container keep: the contract \<open>click_contract\<close> (a well-formed container stays
  well formed, no panic, the frame of the container untouched), its extension \<open>conserving_contract\<close>
  (no item appears or disappears), and the interpretation of each click in the one it keeps.
\<close>

section \<open>Well-formed containers and their contents\<close>

definition slots_wf :: "item_stack option list \<Rightarrow> bool" where
  "slots_wf ss \<longleftrightarrow> (\<forall>slot\<in>set ss. nonempty_stack slot)"

definition container_wf :: "container_state \<Rightarrow> bool" where
  "container_wf c \<longleftrightarrow> slots_wf (slots c) \<and> nonempty_stack (carried c) \<and> length (slots c) \<le> MAX_CONTAINER_SLOTS"

definition slots_total :: "item_key \<Rightarrow> item_stack option list \<Rightarrow> nat" where
  "slots_total k ss = sum_list (map (held_by k) ss)"

definition container_total :: "item_key \<Rightarrow> container_state \<Rightarrow> nat" where
  "container_total k c = slots_total k (slots c) + held_by k (carried c)"

definition same_container :: "container_state \<Rightarrow> container_state \<Rightarrow> bool" where
  "same_container c c' \<longleftrightarrow> container_id c' = container_id c \<and> menu c' = menu c \<and> title c' = title c \<and>
     state_id c' = state_id c \<and> properties c' = properties c \<and> length (slots c') = length (slots c)"

named_theorems container_simps \<open>contents of updated containers\<close>

lemma slots_wf_update [container_simps]: "slots_wf ss \<Longrightarrow> nonempty_stack x \<Longrightarrow> slots_wf (ss[i := x])"
  by (auto simp: slots_wf_def dest: subsetD[OF set_update_subset_insert])

lemma slots_wf_nth: "slots_wf ss \<Longrightarrow> i < length ss \<Longrightarrow> nonempty_stack (ss ! i)"
  by (simp add: slots_wf_def)

lemma slots_total_update:
  "i < length ss \<Longrightarrow> slots_total k (ss[i := x]) + held_by k (ss ! i) = slots_total k ss + held_by k x"
proof (induction ss arbitrary: i)
  case (Cons s ss)
  then show ?case by (cases i) (auto simp: slots_total_def)
qed simp

lemma slots_total_take_out:
  "i < length ss \<Longrightarrow> slots_total k ss = slots_total k (ss[i := None]) + held_by k (ss ! i)"
  using slots_total_update[of i ss k None] by simp

lemma slots_total_put:
  "i < length ss \<Longrightarrow> slots_total k (ss[i := x]) = slots_total k (ss[i := None]) + held_by k x"
  using slots_total_update[of i ss k x] slots_total_update[of i ss k None] by simp

lemma keep_rest_nonempty [simp]: "nonempty_stack (keep_rest s n)"
  by (simp add: keep_rest_def)

lemma held_by_keep_rest [simp]: "held_by k (keep_rest s n) = (if stack_key s = k then n else 0)"
  by (simp add: keep_rest_def)

lemma slot_index_Inr: "slot_index c slot = Inr i \<Longrightarrow> i < length (slots c)"
  by (auto simp: slot_index_def split: if_splits)

lemma same_container_refl [simp]: "same_container c c"
  by (simp add: same_container_def)

lemma same_container_put [simp]: "same_container c (put_slot i x c)" "same_container c (c\<lparr>carried := y\<rparr>)"
  by (simp_all add: same_container_def put_slot_def)

lemma container_wf_put: "container_wf c \<Longrightarrow> nonempty_stack x \<Longrightarrow> container_wf (put_slot i x c)"
  by (simp add: container_wf_def put_slot_def slots_wf_update)

lemma container_wf_carried: "container_wf c \<Longrightarrow> nonempty_stack x \<Longrightarrow> container_wf (c\<lparr>carried := x\<rparr>)"
  by (simp add: container_wf_def)

section \<open>The contracts\<close>

locale click_contract =
  fixes click_op :: "unit container_op"
  assumes no_panic: "container_wf c \<Longrightarrow> fst (click_op c) \<noteq> Inl Panicked"
    and keeps_wf: "container_wf c \<Longrightarrow> container_wf (snd (click_op c))"
    and frame: "container_wf c \<Longrightarrow> same_container c (snd (click_op c))"

locale conserving_contract = click_contract +
  assumes conserves: "container_wf c \<Longrightarrow> container_total k (snd (click_op c)) = container_total k c"
begin

lemma conserves_sum: "container_wf c \<Longrightarrow> (\<Sum>k\<in>K. container_total k (snd (click_op c))) = (\<Sum>k\<in>K. container_total k c)"
  by (simp add: conserves)

end

section \<open>Pick up\<close>

lemma div_ceil_half: "0 < n \<Longrightarrow> 0 < div_ceil n 2 \<and> div_ceil n 2 \<le> n"
  by (simp add: div_ceil_def)

text \<open>After the carried stack and the stack of a slot were replaced.\<close>

lemma replaced_slot:
  assumes "container_wf c" and "i < length (slots c)" and "nonempty_stack cr" and "nonempty_stack target"
    and "\<And>k. held_by k cr + held_by k target = held_by k (carried c) + held_by k (slots c ! i)"
  shows "container_wf (put_slot i target (put_slot i None (c\<lparr>carried := None\<rparr>)\<lparr>carried := cr\<rparr>)) \<and>
    same_container c (put_slot i target (put_slot i None (c\<lparr>carried := None\<rparr>)\<lparr>carried := cr\<rparr>)) \<and>
    (\<forall>k. container_total k (put_slot i target (put_slot i None (c\<lparr>carried := None\<rparr>)\<lparr>carried := cr\<rparr>)) = container_total k c)"
  using assms slots_total_put[of i "slots c" _ target] slots_total_take_out[of i "slots c"]
  by (simp add: container_wf_def put_slot_def slots_wf_update same_container_def container_total_def add.assoc add.commute)

lemma pickup_at_keeps:
  assumes wf: "container_wf c" and i: "i < length (slots c)"
  shows "fst (pickup_at button i c) \<noteq> Inl Panicked \<and> container_wf (snd (pickup_at button i c)) \<and>
    same_container c (snd (pickup_at button i c)) \<and>
    (\<forall>k. container_total k (snd (pickup_at button i c)) = container_total k c)"
proof -
  note done1 = replaced_slot[OF wf i]
  have slot: "nonempty_stack (slots c ! i)" and cr: "nonempty_stack (carried c)"
    using wf i by (simp_all add: container_wf_def slots_wf_nth)
  show ?thesis
  proof (cases "carried c")
    case None
    show ?thesis
    proof (cases "slots c ! i")
      case None
      then show ?thesis using \<open>carried c = None\<close> done1[of None None] by (simp add: pickup_at_def Let_def)
    next
      case (Some stack)
      then have half: "0 < div_ceil (count stack) 2" "div_ceil (count stack) 2 \<le> count stack"
        using slot div_ceil_half[of "count stack"] by simp_all
      show ?thesis
        using Some None slot done1[of "Some stack" None] half
          done1[of "Some (stack\<lparr>count := div_ceil (count stack) 2\<rparr>)" "keep_rest stack (count stack - div_ceil (count stack) 2)"]
        by (simp add: pickup_at_def Let_def)
    qed
  next
    case (Some cs)
    then have pos: "0 < count cs" using cr by simp
    show ?thesis
    proof (cases "slots c ! i")
      case None
      show ?thesis
        using Some None pos done1[of None "Some cs"] done1[of "keep_rest cs (count cs - 1)" "Some (cs\<lparr>count := 1\<rparr>)"]
        by (simp add: pickup_at_def Let_def)
    next
      case stack: (Some stack)
      then have pos': "0 < count stack" using slot by simp
      show ?thesis
      proof (cases "stackable_with cs stack")
        case True
        define moved where "moved = min (if button = 0 then count cs else min (count cs) 1) (max_stack_size stack - count stack)"
        have "moved \<le> count cs" by (auto simp: moved_def min_def)
        then have "held_by k (keep_rest cs (count cs - moved)) + held_by k (Some (stack\<lparr>count := count stack + moved\<rparr>)) =
            held_by k (carried c) + held_by k (slots c ! i)" for k
          using True by (simp add: Some stack stackable_with_key)
        from done1[OF _ _ this] pos' show ?thesis
          using True by (simp add: pickup_at_def Let_def Some stack moved_def[symmetric])
      next
        case False
        then show ?thesis using done1[of "Some stack" "Some cs"] pos pos'
          by (simp add: pickup_at_def Let_def Some stack)
      qed
    qed
  qed
qed

lemma drop_carried_keeps:
  "container_wf c \<Longrightarrow> container_wf (drop_carried b c) \<and> same_container c (drop_carried b c) \<and>
     container_total k (drop_carried b c) \<le> container_total k c"
  by (auto simp: drop_carried_def Let_def container_wf_def same_container_def container_total_def split: option.splits)

interpretation pickup_click: click_contract "pickup slot button" for slot button
  by unfold_locales
    (auto simp: pickup_def drop_carried_keeps dest!: slot_index_Inr dest: pickup_at_keeps[of _ _ button] split: sum.splits)

lemma pickup_conserves:
  assumes "container_wf c" and "slot \<noteq> -999"
  shows "container_total k (snd (pickup slot button c)) = container_total k c"
  using assms pickup_at_keeps[of c _ button]
  by (auto simp: pickup_def dest!: slot_index_Inr split: sum.splits)

section \<open>Quick move\<close>

lemma merge_route_keeps:
  "\<forall>i\<in>set is. i < length ss \<Longrightarrow> slots_wf ss \<Longrightarrow> 0 < count moving \<Longrightarrow>
   \<exists>ret m ss'. merge_route is moving ss = Some (ret, m, ss') \<and> slots_wf ss' \<and> length ss' = length ss \<and>
     stack_key m = stack_key moving \<and> (ret \<longleftrightarrow> count m = 0) \<and>
     (\<forall>k. slots_total k ss' + held_by k (Some m) = slots_total k ss + held_by k (Some moving))"
proof (induction "is" moving ss rule: merge_route.induct)
  case (1 moving ss)
  then show ?case by (auto intro!: exI[of _ False])
next
  case (2 i "is" moving ss)
  then have i: "i < length ss" by simp
  show ?case
  proof (cases "ss ! i")
    case None
    then show ?thesis using 2 i by simp
  next
    case (Some stack)
    show ?thesis
    proof (cases "stackable_with stack moving")
      case False
      then show ?thesis using 2 Some i by simp
    next
      case True
      define amount where "amount = min (count moving) (max_stack_size stack - count stack)"
      define ss1 where "ss1 = ss[i := Some (stack\<lparr>count := count stack + amount\<rparr>)]"
      define m1 where "m1 = moving\<lparr>count := count moving - amount\<rparr>"
      have "0 < count stack" using slots_wf_nth[OF "2.prems"(2) i] Some by simp
      then have wf: "slots_wf ss1" unfolding ss1_def by (intro slots_wf_update "2.prems"(2)) simp
      have len: "length ss1 = length ss" by (simp add: ss1_def)
      have "amount \<le> count moving" by (simp add: amount_def)
      then have total: "slots_total k ss1 + held_by k (Some m1) = slots_total k ss + held_by k (Some moving)" for k
        using slots_total_update[OF i, of k "Some (stack\<lparr>count := count stack + amount\<rparr>)"] True Some
        by (auto simp: ss1_def m1_def stackable_with_key)
      have key: "stack_key m1 = stack_key moving" by (simp add: m1_def)
      have step: "merge_route (i # is) moving ss = (if count m1 = 0 then Some (True, m1, ss1) else merge_route is m1 ss1)"
        using i Some True by (simp add: Let_def amount_def ss1_def m1_def)
      show ?thesis
      proof (cases "count m1 = 0")
        case True
        then show ?thesis using step wf len total key by auto
      next
        case False
        have range: "\<forall>j\<in>set is. j < length ss1" using "2.prems"(1) len by simp
        have "\<exists>ret m ss'. merge_route is m1 ss1 = Some (ret, m, ss') \<and> slots_wf ss' \<and> length ss' = length ss1 \<and>
            stack_key m = stack_key m1 \<and> (ret \<longleftrightarrow> count m = 0) \<and>
            (\<forall>k. slots_total k ss' + held_by k (Some m) = slots_total k ss1 + held_by k (Some m1))"
          using "2.IH"(2)[OF _ Some True amount_def ss1_def m1_def False range wf] i False by simp
        then show ?thesis unfolding step using False len key total by simp
      qed
    qed
  qed
qed

lemma move_stack_to_keeps:
  assumes range: "route_end r \<le> length ss" and wf: "slots_wf ss" and pos: "0 < count moving"
  shows "\<exists>m ss'. move_stack_to r moving ss = Some (m, ss') \<and> slots_wf ss' \<and> length ss' = length ss \<and>
    stack_key m = stack_key moving \<and>
    (\<forall>k. slots_total k ss' + held_by k (Some m) = slots_total k ss + held_by k (Some moving))"
proof -
  have idx: "\<forall>i\<in>set (route_indices r). i < length ss" using range by (auto simp: route_indices_def)
  obtain ret m ss' where merge: "merge_route (route_indices r) moving ss = Some (ret, m, ss')" "slots_wf ss'"
    "length ss' = length ss" "stack_key m = stack_key moving" "ret \<longleftrightarrow> count m = 0"
    "\<forall>k. slots_total k ss' + held_by k (Some m) = slots_total k ss + held_by k (Some moving)"
    using merge_route_keeps[OF idx wf pos] by blast
  show ?thesis
  proof (cases "ret \<or> find (\<lambda>i. ss' ! i = None) (route_indices r) = None")
    case True
    then have "move_stack_to r moving ss = Some (m, ss')" using merge(1) by (auto simp: move_stack_to_def)
    then show ?thesis using merge by blast
  next
    case False
    then obtain i where f: "find (\<lambda>i. ss' ! i = None) (route_indices r) = Some i" and "\<not> ret" by blast
    then have i: "i < length ss'" "ss' ! i = None" using idx merge(3) by (auto simp: find_Some_iff)
    have "move_stack_to r moving ss = Some (m\<lparr>count := 0\<rparr>, ss'[i := Some m])"
      using merge(1) f \<open>\<not> ret\<close> by (simp add: move_stack_to_def)
    moreover have "slots_total k (ss'[i := Some m]) + held_by k (Some (m\<lparr>count := 0\<rparr>)) =
        slots_total k ss + held_by k (Some moving)" for k
      using merge(6)[rule_format, of k] slots_total_update[OF i(1), of k "Some m"] i(2) by simp
    moreover have "slots_wf (ss'[i := Some m])" using merge(2,5) \<open>\<not> ret\<close> by (simp add: slots_wf_update)
    ultimately show ?thesis using merge(3,4) by (intro exI conjI allI) (assumption | simp)+
  qed
qed


lemma merge_route_elsewhere:
  "merge_route is moving ss = Some (ret, m, ss') \<Longrightarrow> j \<notin> set is \<Longrightarrow> ss' ! j = ss ! j"
proof (induction "is" moving ss rule: merge_route.induct)
  case (2 i "is" moving ss)
  then show ?case by (auto simp: Let_def split: if_splits option.splits)
qed simp

lemma move_stack_to_elsewhere:
  assumes "move_stack_to r moving ss = Some (m, ss')" and "j \<notin> set (route_indices r)"
  shows "ss' ! j = ss ! j"
  using assms
  by (auto simp: move_stack_to_def find_Some_iff in_set_conv_nth dest!: merge_route_elsewhere[OF _ assms(2)]
      split: option.splits if_splits)

lemma quick_move_loop_keeps:
  "\<forall>r\<in>set rs. route_end r \<le> length (slots c) \<and> source \<notin> set (route_indices r) \<Longrightarrow> container_wf c \<Longrightarrow> 0 < count moving \<Longrightarrow>
   source < length (slots c) \<Longrightarrow> slots c ! source = None \<Longrightarrow>
   fst (quick_move_loop rs source moving c) = Inr () \<and>
     container_wf (snd (quick_move_loop rs source moving c)) \<and> same_container c (snd (quick_move_loop rs source moving c)) \<and>
     (\<forall>k. container_total k (snd (quick_move_loop rs source moving c)) = container_total k c + held_by k (Some moving))"
proof (induction rs source moving c rule: quick_move_loop.induct)
  case (1 source moving c)
  then show ?case
    using slots_total_update[of source "slots c" _ "Some moving"]
    by (simp add: container_wf_put put_slot_def container_total_def container_wf_def slots_wf_update same_container_def del: held_by_simps(2))
next
  case (2 r rs source moving c)
  have wf: "slots_wf (slots c)" "nonempty_stack (carried c)" "length (slots c) \<le> MAX_CONTAINER_SLOTS"
    using "2.prems"(2) by (simp_all add: container_wf_def)
  obtain m ss where move: "move_stack_to r moving (slots c) = Some (m, ss)" "slots_wf ss" "length ss = length (slots c)"
    "\<forall>k. slots_total k ss + held_by k (Some m) = slots_total k (slots c) + held_by k (Some moving)"
    using move_stack_to_keeps[OF _ wf(1) "2.prems"(3), of r] "2.prems"(1) by auto
  define c1 where "c1 = c\<lparr>slots := ss\<rparr>"
  have wf1: "container_wf c1" and same: "same_container c c1" and len: "length (slots c1) = length (slots c)"
    using wf move(2,3) by (simp_all add: c1_def container_wf_def same_container_def)
  have total: "container_total k c1 + held_by k (Some m) = container_total k c + held_by k (Some moving)" for k
    using move(4)[rule_format, of k] by (simp add: c1_def container_total_def)
  have at_source: "slots c1 ! source = None"
    using move_stack_to_elsewhere[OF move(1)] "2.prems"(1,5) by (simp add: c1_def)
  show ?case
  proof (cases "count m = 0")
    case True
    then have "container_total k c1 = container_total k c + held_by k (Some moving)" for k
      using total[of k] by (simp split: if_splits)
    moreover have "quick_move_loop (r # rs) source moving c = (Inr (), c1)"
      using move(1) True by (simp add: c1_def)
    ultimately show ?thesis using wf1 same by simp
  next
    case False
    have step: "quick_move_loop (r # rs) source moving c = quick_move_loop rs source m c1"
      using move(1) False by (simp add: c1_def)
    have "fst (quick_move_loop rs source m c1) = Inr () \<and>
        container_wf (snd (quick_move_loop rs source m c1)) \<and> same_container c1 (snd (quick_move_loop rs source m c1)) \<and>
        (\<forall>k. container_total k (snd (quick_move_loop rs source m c1)) = container_total k c1 + held_by k (Some m))"
      using "2.IH"[OF move(1) refl c1_def False] "2.prems"(1,4) len wf1 False at_source by simp
    then show ?thesis unfolding step total using same by (auto simp: same_container_def)
  qed
qed

lemma quick_move_routes_inside:
  assumes "source < length (slots c)" and "r \<in> set (quick_move_routes c source moving)"
  shows "route_end r \<le> length (slots c) \<and> source \<notin> set (route_indices r)"
  using assms
  by (auto simp: quick_move_routes_def player_inventory_routes_def furnace_routes_def furnace_player_routes_def
      crafting_routes_def equipment_destination_def slot_route_new_def route_indices_def PLAYER_INVENTORY_SLOTS_def Let_def
      split: if_splits option.splits)

lemma quick_move_keeps:
  assumes "container_wf c"
  shows "fst (quick_move slot c) \<noteq> Inl Panicked \<and> container_wf (snd (quick_move slot c)) \<and>
    same_container c (snd (quick_move slot c)) \<and> container_total k (snd (quick_move slot c)) = container_total k c"
proof (cases "slot_index c slot")
  case (Inr source)
  then have i: "source < length (slots c)" by (rule slot_index_Inr)
  show ?thesis
  proof (cases "slots c ! source")
    case None
    then show ?thesis using assms Inr by (simp add: quick_move_def)
  next
    case (Some moving)
    define c1 where "c1 = put_slot source None c"
    have pos: "0 < count moving" using slots_wf_nth[OF _ i] assms Some by (auto simp: container_wf_def)
    have same: "same_container c c1" and wf: "container_wf c1" and i1: "source < length (slots c1)"
      and at_source: "slots c1 ! source = None"
      using assms i by (simp_all add: c1_def container_wf_put, simp_all add: put_slot_def)
    have total: "container_total k c1 + held_by k (Some moving) = container_total k c"
      using slots_total_take_out[OF i, of k] Some by (simp add: c1_def put_slot_def container_total_def)
    have "quick_move slot c = quick_move_loop (quick_move_routes c1 source moving) source moving c1"
      using Inr Some by (simp add: quick_move_def c1_def Let_def)
    then show ?thesis
      using quick_move_loop_keeps[OF _ wf pos i1 at_source, of "quick_move_routes c1 source moving"]
        quick_move_routes_inside[OF i1] total same by (simp add: same_container_def)
  qed
qed (use assms in \<open>simp add: quick_move_def\<close>)

interpretation quick_move_click: conserving_contract "quick_move slot" for slot
  by unfold_locales (simp_all add: quick_move_keeps)


section \<open>Swap, clone, throw\<close>

lemma slots_total_swap:
  assumes "i < length ss" and "j < length ss"
  shows "slots_total k (ss[i := ss ! j, j := ss ! i]) = slots_total k ss"
  using slots_total_update[OF assms(1), of k "ss ! j"] slots_total_update[of j "ss[i := ss ! j]" k "ss ! i"] assms
  by (cases "i = j") simp_all

lemma swap_hotbar_keeps:
  assumes "container_wf c"
  shows "fst (swap_hotbar slot button c) \<noteq> Inl Panicked \<and> container_wf (snd (swap_hotbar slot button c)) \<and>
    same_container c (snd (swap_hotbar slot button c)) \<and>
    container_total k (snd (swap_hotbar slot button c)) = container_total k c"
proof (cases "slot_index c slot")
  case (Inr source)
  then have i: "source < length (slots c)" by (rule slot_index_Inr)
  define target where "target =
    (if container_id c = PLAYER_CONTAINER_ID \<and> length (slots c) = PLAYER_INVENTORY_SLOTS
     then 36 + nat button else length (slots c) - 9 + nat button)"
  show ?thesis
  proof (cases "button < 0 \<or> 8 < button \<or> length (slots c) < 9")
    case True
    then show ?thesis using assms Inr by (auto simp: swap_hotbar_def)
  next
    case False
    then have j: "target < length (slots c)" by (auto simp: target_def PLAYER_INVENTORY_SLOTS_def)
    have "swap_hotbar slot button c = (Inr (), c\<lparr>slots := (slots c)[source := slots c ! target, target := slots c ! source]\<rparr>)"
      using Inr False j by (simp add: swap_hotbar_def Let_def target_def[symmetric])
    then show ?thesis using assms slots_wf_nth[of "slots c"] i j
      by (simp add: container_wf_def same_container_def container_total_def slots_total_swap slots_wf_update)
  qed
qed (use assms in \<open>simp add: swap_hotbar_def\<close>)

interpretation swap_click: conserving_contract "swap_hotbar slot button" for slot button
  by unfold_locales (simp_all add: swap_hotbar_keeps)

lemma nonempty_full_stack [simp]: "nonempty_stack (map_option (\<lambda>s. s\<lparr>count := max_stack_size s\<rparr>) slot)"
  by (cases slot) simp_all

interpretation clone_click: click_contract "clone_stack slot" for slot
  by unfold_locales (auto simp: clone_stack_def container_wf_def split: sum.splits)

lemma throw_stack_keeps:
  assumes "container_wf c"
  shows "fst (throw_stack slot button c) \<noteq> Inl Panicked \<and> container_wf (snd (throw_stack slot button c)) \<and>
    same_container c (snd (throw_stack slot button c)) \<and>
    container_total k (snd (throw_stack slot button c)) \<le> container_total k c"
proof (cases "slot_index c slot")
  case (Inr i)
  then have i: "i < length (slots c)" by (rule slot_index_Inr)
  have removed: "container_total k (put_slot i x c) \<le> container_total k c" if "held_by k x \<le> held_by k (slots c ! i)" for x
    using slots_total_update[OF i, of k x] that by (simp add: put_slot_def container_total_def)
  show ?thesis using assms Inr slots_wf_nth[OF _ i] removed[of None] removed[of "keep_rest s (count s - 1)" for s]
    by (auto simp: throw_stack_def container_wf_put container_wf_def[of c] split: option.splits)
qed (use assms in \<open>simp add: throw_stack_def\<close>)

interpretation throw_click: click_contract "throw_stack slot button" for slot button
  by unfold_locales (simp_all add: throw_stack_keeps)

section \<open>Pick up all\<close>

lemma pickup_all_pass_keeps:
  "pickup_all_pass m full_pass index cr ss = (full, cr', ss') \<Longrightarrow> slots_wf ss \<Longrightarrow>
   slots_wf ss' \<and> length ss' = length ss \<and> stack_key cr' = stack_key cr \<and> count cr \<le> count cr' \<and>
   (\<forall>k. slots_total k ss' + held_by k (Some cr') = slots_total k ss + held_by k (Some cr))"
proof (induction ss arbitrary: index cr full cr' ss')
  case (Cons slot rest)
  have wf: "slots_wf rest" "nonempty_stack slot" using Cons.prems(2) by (simp_all add: slots_wf_def)
  have skip: ?case
    if p: "pickup_all_pass m full_pass (Suc index) cr rest = (full, cr', rest')" and "ss' = slot # rest'" for rest'
    using Cons.IH[OF p wf(1)] wf(2) that(2) by (auto simp: slots_wf_def slots_total_def simp del: held_by_simps(2))
  show ?case
  proof (cases "can_take_for_pick_all m index \<and> (\<exists>stack. slot = Some stack \<and> stackable_with stack cr \<and>
      (count stack = max_stack_size stack) = full_pass)")
    case False
    then show ?thesis using Cons.prems(1) skip
      by (auto simp: Let_def split: prod.splits option.splits if_splits)
  next
    case True
    then obtain stack where stack: "slot = Some stack" "stackable_with stack cr" "can_take_for_pick_all m index"
      "(count stack = max_stack_size stack) = full_pass" by blast
    define moved where "moved = min (count stack) (max_stack_size cr - count cr)"
    define cr1 where "cr1 = cr\<lparr>count := count cr + moved\<rparr>"
    define slot1 where "slot1 = keep_rest stack (count stack - moved)"
    have "moved \<le> count stack" by (simp add: moved_def)
    then have total: "held_by k slot1 + held_by k (Some cr1) = held_by k slot + held_by k (Some cr)" for k
      using stack(1,2) by (simp add: slot1_def cr1_def stackable_with_key)
    have cr1: "stack_key cr1 = stack_key cr" "count cr \<le> count cr1" by (simp_all add: cr1_def)
    have slot1: "nonempty_stack slot1" by (simp add: slot1_def)
    have step: "pickup_all_pass m full_pass index cr (slot # rest) =
        (if count cr1 = max_stack_size cr1 then (True, cr1, slot1 # rest)
         else case pickup_all_pass m full_pass (Suc index) cr1 rest of (full, cr'', rest') \<Rightarrow> (full, cr'', slot1 # rest'))"
      using stack by (simp add: Let_def moved_def cr1_def slot1_def)
    show ?thesis
    proof (cases "count cr1 = max_stack_size cr1")
      case True
      then show ?thesis using Cons.prems(1) step cr1 slot1 wf total
        by (auto simp: slots_wf_def slots_total_def simp del: held_by_simps(2))
    next
      case False
      then obtain rest' where p: "pickup_all_pass m full_pass (Suc index) cr1 rest = (full, cr', rest')"
        and ss': "ss' = slot1 # rest'"
        using Cons.prems(1) step by (auto split: prod.splits)
      have ih: "slots_wf rest' \<and> length rest' = length rest \<and> stack_key cr' = stack_key cr1 \<and> count cr1 \<le> count cr'"
        "slots_total k rest' + held_by k (Some cr') = slots_total k rest + held_by k (Some cr1)" for k
        using Cons.IH[OF p wf(1)] by (auto simp del: held_by_simps(2))
      have "slots_total k ss' + held_by k (Some cr') = slots_total k (slot # rest) + held_by k (Some cr)" for k
        using ih(2)[of k] total[of k] ss' by (simp add: slots_total_def del: held_by_simps(2))
      then show ?thesis using ih(1) ss' slot1 cr1 by (auto simp: slots_wf_def simp del: held_by_simps(2))
    qed
  qed
qed simp

lemma pickup_all_keeps:
  assumes "container_wf c"
  shows "fst (pickup_all button c) \<noteq> Inl Panicked \<and> container_wf (snd (pickup_all button c)) \<and>
    same_container c (snd (pickup_all button c)) \<and> container_total k (snd (pickup_all button c)) = container_total k c"
proof (cases "button = 0 \<and> carried c \<noteq> None")
  case True
  then obtain cr where cr: "carried c = Some cr" "0 < count cr" using assms by (auto simp: container_wf_def)
  have wf: "slots_wf (slots c)" using assms by (simp add: container_wf_def)
  obtain full1 cr1 ss1 where p1: "pickup_all_pass (menu c) False 0 cr (slots c) = (full1, cr1, ss1)" by (metis prod_cases3)
  obtain full2 cr2 ss2 where p2: "pickup_all_pass (menu c) True 0 cr1 ss1 = (full2, cr2, ss2)" by (metis prod_cases3)
  note k1 = pickup_all_pass_keeps[OF p1 wf, THEN conjunct1] pickup_all_pass_keeps[OF p1 wf, THEN conjunct2]
  note k2 = pickup_all_pass_keeps[OF p2 k1(1)]
  have t1: "slots_total k ss1 + held_by k (Some cr1) = slots_total k (slots c) + held_by k (Some cr)" using k1(2) by blast
  have t2: "slots_total k ss2 + held_by k (Some cr2) = slots_total k ss1 + held_by k (Some cr1)" using k2 by blast
  show ?thesis
    using True p1 p2 k1 k2 t1 t2 cr assms
    by (auto simp: pickup_all_def container_wf_def same_container_def container_total_def simp del: held_by_simps(2))
qed (use assms in \<open>auto simp: pickup_all_def\<close>)

interpretation pickup_all_click: conserving_contract "pickup_all button" for button
  by unfold_locales (simp_all add: pickup_all_keeps)


section \<open>Quick craft\<close>

lemma quick_craft_slot_keeps:
  assumes wf: "slots_wf (slots c)" and i: "i < length (slots c)"
  shows "slots_wf (slots (snd (quick_craft_slot kind per_slot i cr c)))"
    and "stack_key (fst (quick_craft_slot kind per_slot i cr c)) = stack_key cr"
    and "\<exists>ss. length ss = length (slots c) \<and> snd (quick_craft_slot kind per_slot i cr c) = c\<lparr>slots := ss\<rparr>"
    and "kind \<noteq> 2 \<Longrightarrow> slots_total k (slots (snd (quick_craft_slot kind per_slot i cr c))) +
      held_by k (Some (fst (quick_craft_slot kind per_slot i cr c))) = slots_total k (slots c) + held_by k (Some cr)"
proof -
  have slot: "nonempty_stack (slots c ! i)" using wf i by (rule slots_wf_nth)
  show "slots_wf (slots (snd (quick_craft_slot kind per_slot i cr c)))"
    using slot wf by (auto simp: quick_craft_slot_def Let_def put_slot_def slots_wf_update split: option.splits)
  show "stack_key (fst (quick_craft_slot kind per_slot i cr c)) = stack_key cr"
    by (auto simp: quick_craft_slot_def Let_def split: option.splits)
  have "length (slots (snd (quick_craft_slot kind per_slot i cr c))) = length (slots c) \<and>
      snd (quick_craft_slot kind per_slot i cr c) = c\<lparr>slots := slots (snd (quick_craft_slot kind per_slot i cr c))\<rparr>"
    by (auto simp: quick_craft_slot_def Let_def put_slot_def split: option.splits)
  then show "\<exists>ss. length ss = length (slots c) \<and> snd (quick_craft_slot kind per_slot i cr c) = c\<lparr>slots := ss\<rparr>"
    by blast
  assume kind: "kind \<noteq> 2"
  have placed: "slots_total k ((slots c)[i := Some (stack\<lparr>count := m\<rparr>)]) + held_by k (Some (cr\<lparr>count := count cr - a\<rparr>)) =
      slots_total k (slots c) + held_by k (Some cr)"
    if "stack_key stack = stack_key cr" "a \<le> count cr"
      "m = a + (case slots c ! i of None \<Rightarrow> 0 | Some s \<Rightarrow> count s)" "stack_key (the (slots c ! i)) = stack_key cr \<or> slots c ! i = None"
    for stack m a
    using that slots_total_update[OF i, of k "Some (stack\<lparr>count := m\<rparr>)"] by (auto split: option.splits if_splits)
  have same: "(slots c)[i := slots c ! i] = slots c" by simp
  show "slots_total k (slots (snd (quick_craft_slot kind per_slot i cr c))) +
      held_by k (Some (fst (quick_craft_slot kind per_slot i cr c))) = slots_total k (slots c) + held_by k (Some cr)"
  proof (cases "slots c ! i")
    case None
    then show ?thesis
      using kind placed[of cr "min (min per_slot (max_stack_size cr)) (count cr)"] same
      by (simp add: quick_craft_slot_def Let_def put_slot_def del: held_by_simps)
  next
    case (Some stack)
    then show ?thesis
      using kind same placed[of stack "min (min per_slot (max_stack_size stack - count stack)) (count cr)"]
      by (simp add: quick_craft_slot_def Let_def put_slot_def stackable_with_key add.commute del: held_by_simps)
  qed
qed

lemma quick_craft_loop_keeps:
  "quick_craft_loop kind per_slot ixs cr c = (res, c') \<Longrightarrow> slots_wf (slots c) \<Longrightarrow>
   slots_wf (slots c') \<and> (\<exists>ss. length ss = length (slots c) \<and> c' = c\<lparr>slots := ss\<rparr>) \<and> res \<noteq> Inl Panicked \<and>
   (\<forall>cr'. res = Inr cr' \<longrightarrow> stack_key cr' = stack_key cr) \<and>
   (kind \<noteq> 2 \<longrightarrow>
     (\<forall>cr' k. res = Inr cr' \<longrightarrow>
        slots_total k (slots c') + held_by k (Some cr') = slots_total k (slots c) + held_by k (Some cr)) \<and>
     (\<forall>k. slots_total k (slots c') \<le> slots_total k (slots c) + held_by k (Some cr)))"
proof (induction kind per_slot ixs cr c arbitrary: res c' rule: quick_craft_loop.induct)
  case (1 kind per_slot cr c)
  moreover have "c\<lparr>slots := slots c\<rparr> = c" by simp
  ultimately show ?case by (auto intro: exI[of _ "slots c"])
next
  case (2 kind per_slot slot rest cr c)
  have self: "c\<lparr>slots := slots c\<rparr> = c" by simp
  show ?case
  proof (cases "count cr = 0 \<and> kind \<noteq> 2")
    case True
    then show ?thesis using "2.prems" self by (auto intro: exI[of _ "slots c"])
  next
    case False
    show ?thesis
    proof (cases "slot_index c slot")
      case (Inl e)
      then show ?thesis using False "2.prems" self by (auto intro: exI[of _ "slots c"])
    next
      case (Inr i)
      obtain cr1 c1 where q: "quick_craft_slot kind per_slot i cr c = (cr1, c1)" by (cases "quick_craft_slot kind per_slot i cr c")
      note step = quick_craft_slot_keeps[OF "2.prems"(2) slot_index_Inr[OF Inr], where kind = kind and per_slot = per_slot and cr = cr, unfolded q fst_conv snd_conv]
      obtain ss where ss: "length ss = length (slots c)" "c1 = c\<lparr>slots := ss\<rparr>" using step(3) by blast
      have "quick_craft_loop kind per_slot rest cr1 c1 = (res, c')" using "2.prems"(1) False Inr q by simp
      note ih = "2.IH"[OF False Inr q[symmetric] this step(1)]
      then obtain ss' where ss': "length ss' = length (slots c1)" "c' = c1\<lparr>slots := ss'\<rparr>" by blast
      have shape: "\<exists>ss. length ss = length (slots c) \<and> c' = c\<lparr>slots := ss\<rparr>"
        using ss ss' by (intro exI[of _ ss']) simp
      show ?thesis
      proof (cases "kind = 2")
        case True
        then show ?thesis using ih shape step(2) by simp
      next
        case False
        then show ?thesis using ih shape step(2) step(4)[OF False] by (simp del: held_by_simps)
      qed
    qed
  qed
qed

lemma finish_quick_craft_keeps:
  assumes wf: "container_wf c"
  shows "fst (finish_quick_craft g c) \<noteq> Inl Panicked \<and> container_wf (snd (finish_quick_craft g c)) \<and>
    same_container c (snd (finish_quick_craft g c))"
    and "gesture_kind g \<noteq> 2 \<Longrightarrow> container_total k (snd (finish_quick_craft g c)) \<le> container_total k c"
    and "gesture_kind g \<noteq> 2 \<Longrightarrow> fst (finish_quick_craft g c) = Inr () \<Longrightarrow>
      container_total k (snd (finish_quick_craft g c)) = container_total k c"
proof -
  consider "carried c = None \<or> gesture_slots g = [] \<or> 2 < gesture_kind g"
    | cr where "carried c = Some cr" "gesture_slots g \<noteq> []" "gesture_kind g \<le> 2" by fastforce
  then have "(fst (finish_quick_craft g c) \<noteq> Inl Panicked \<and> container_wf (snd (finish_quick_craft g c)) \<and>
      same_container c (snd (finish_quick_craft g c))) \<and>
    (gesture_kind g \<noteq> 2 \<longrightarrow> container_total k (snd (finish_quick_craft g c)) \<le> container_total k c \<and>
      (fst (finish_quick_craft g c) = Inr () \<longrightarrow>
       container_total k (snd (finish_quick_craft g c)) = container_total k c))"
  proof cases
    case 1
    then show ?thesis using wf
      by (auto simp: finish_quick_craft_def container_wf_carried container_total_def split: option.splits)
  next
    case (2 cr)
    define c0 where "c0 = c\<lparr>carried := None\<rparr>"
    define n where "n = (if gesture_kind g = 0 then count cr div length (gesture_slots g)
      else if gesture_kind g = 1 then 1 else max_stack_size cr)"
    obtain res c1 where loop: "quick_craft_loop (gesture_kind g) n (gesture_slots g) cr c0 = (res, c1)" by fastforce
    have finish: "finish_quick_craft g c =
      (case res of Inl e \<Rightarrow> (Inl e, c1) | Inr cr' \<Rightarrow> (Inr (), if count cr' \<noteq> 0 then c1\<lparr>carried := Some cr'\<rparr> else c1))"
      using 2 loop by (simp add: finish_quick_craft_def Let_def c0_def n_def)
    have "slots_wf (slots c0)" using wf by (simp add: c0_def container_wf_def)
    note keeps = quick_craft_loop_keeps[OF loop this]
    obtain ss where ss: "length ss = length (slots c)" "c1 = c0\<lparr>slots := ss\<rparr>" using keeps by (auto simp: c0_def)
    have same: "same_container c c1" and c1: "carried c1 = None" "slots_wf (slots c1)" "slots c0 = slots c" "length (slots c1) = length (slots c)"
      using ss keeps by (simp_all add: c0_def same_container_def)
    show ?thesis
    proof (cases res)
      case (Inl e)
      then show ?thesis using keeps same c1 wf 2 unfolding finish
        by (simp add: container_wf_def container_total_def del: held_by_simps(2))
    next
      case (Inr cr')
      have "gesture_kind g \<noteq> 2 \<Longrightarrow> slots_total k (slots c1) + held_by k (Some cr') = slots_total k (slots c) + held_by k (Some cr)"
        using keeps Inr c1 by (simp del: held_by_simps(2))
      moreover have "same_container c (c1\<lparr>carried := Some cr'\<rparr>)" using same by (simp add: same_container_def)
      moreover have "held_by k (Some cr') = 0" if "count cr' = 0" using that by simp
      ultimately show ?thesis using Inr same c1 wf 2 unfolding finish
        by (cases "count cr' = 0") (auto simp: container_wf_def container_total_def simp del: held_by_simps(2))
    qed
  qed
  then show "fst (finish_quick_craft g c) \<noteq> Inl Panicked \<and> container_wf (snd (finish_quick_craft g c)) \<and>
      same_container c (snd (finish_quick_craft g c))"
    and "gesture_kind g \<noteq> 2 \<Longrightarrow> container_total k (snd (finish_quick_craft g c)) \<le> container_total k c"
    and "gesture_kind g \<noteq> 2 \<Longrightarrow> fst (finish_quick_craft g c) = Inr () \<Longrightarrow>
      container_total k (snd (finish_quick_craft g c)) = container_total k c" by blast+
qed

interpretation quick_craft_click: click_contract "finish_quick_craft g" for g
  by unfold_locales (simp_all add: finish_quick_craft_keeps)

end
