(* ===== verification/Inventory_Props.thy ===== *)
theory Inventory_Props
  imports Inventory Container_Props
begin

text \<open>
  What the inventory keeps: its invariant over every operation, what a click may change, and how the
  player's container follows the open one. The facts on single clicks come from the interpretations
  of \<open>click_contract\<close> and \<open>conserving_contract\<close> in the theory of the clicks.
\<close>

definition gesture_wf :: "quick_craft_gesture \<Rightarrow> bool" where
  "gesture_wf g \<longleftrightarrow> gesture_kind g \<le> 2 \<and> distinct (gesture_slots g) \<and> sorted (gesture_slots g) \<and>
     length (gesture_slots g) \<le> MAX_CONTAINER_SLOTS"

definition inventory_wf :: "inventory_state \<Rightarrow> bool" where
  "inventory_wf s \<longleftrightarrow> container_wf (player s) \<and> container_id (player s) = PLAYER_CONTAINER_ID \<and>
     (case open_container_state s of
        None \<Rightarrow> True | Some c \<Rightarrow> container_wf c \<and> container_id c \<noteq> PLAYER_CONTAINER_ID) \<and>
     (case quick_craft s of None \<Rightarrow> True | Some g \<Rightarrow> gesture_wf g) \<and>
     selected_hotbar_slot s \<le> 8 \<and> permission_level s \<le> 4"

lemma inventory_wf_drag [simp]: "inventory_wf s \<Longrightarrow> inventory_wf (s\<lparr>quick_craft := None\<rparr>)"
  by (simp add: inventory_wf_def)

lemma inventory_wf_set_drag: "inventory_wf s \<Longrightarrow> gesture_wf g \<Longrightarrow> inventory_wf (s\<lparr>quick_craft := Some g\<rparr>)"
  by (simp add: inventory_wf_def)

lemma find_container_wf:
  "inventory_wf s \<Longrightarrow> find_container cid s = Inr c \<Longrightarrow> container_wf c \<and> container_id c = cid"
  by (auto simp: find_container_def inventory_wf_def split: if_splits option.splits)

section \<open>Finding and storing containers\<close>

lemma find_container_drag [simp]: "find_container cid (s\<lparr>quick_craft := d\<rparr>) = find_container cid s"
  by (simp add: find_container_def)

lemma find_container_store:
  "container_id c = cid \<Longrightarrow> find_container cid (store_container cid c s) = Inr c"
  by (simp add: find_container_def store_container_def)

lemma find_container_synchronize [simp]:
  "find_container cid (synchronize_player_from cid s) = find_container cid s"
  by (auto simp: find_container_def synchronize_player_from_def Let_def split: option.splits)

lemma store_container_wf:
  "inventory_wf s \<Longrightarrow> container_wf c \<Longrightarrow> container_id c = cid \<Longrightarrow> inventory_wf (store_container cid c s)"
  by (simp add: inventory_wf_def store_container_def)

lemma slots_wf_Cons: "slots_wf (x # xs) \<longleftrightarrow> nonempty_stack x \<and> slots_wf xs"
  by (simp add: slots_wf_def)

lemma slots_wf_drop: "slots_wf xs \<Longrightarrow> slots_wf (drop n xs)"
  by (auto simp: slots_wf_def dest: in_set_dropD)

lemma copy_slots_keeps: "slots_wf xs \<Longrightarrow> slots_wf dest \<Longrightarrow> slots_wf (copy_slots i xs dest)"
  by (induction i xs dest rule: copy_slots.induct) (simp_all add: slots_wf_Cons slots_wf_update)

lemma copy_slots_length [simp]: "length (copy_slots i xs dest) = length dest"
  by (induction i xs dest rule: copy_slots.induct) auto

lemma copy_slots_nth:
  "j < length dest \<Longrightarrow> copy_slots i xs dest ! j = (if i \<le> j \<and> j < i + length xs then xs ! (j - i) else dest ! j)"
proof (induction i xs dest rule: copy_slots.induct)
  case (2 i x xs dest)
  show ?case
  proof (cases "j = i")
    case True
    then show ?thesis using 2 by simp
  next
    case False
    then have "j - i = Suc (j - Suc i)" if "i \<le> j" using that by simp
    then show ?thesis using 2 False by auto
  qed
qed auto

lemma copy_slots_append:
  "i + length xs \<le> length dest \<Longrightarrow> copy_slots i xs dest = take i dest @ xs @ drop (i + length xs) dest"
  by (rule nth_equalityI) (auto simp: copy_slots_nth nth_append)

lemma synchronize_player_from_wf: "inventory_wf s \<Longrightarrow> inventory_wf (synchronize_player_from cid s)"
  by (cases "open_container_state s")
    (simp_all add: inventory_wf_def synchronize_player_from_def container_wf_def Let_def copy_slots_keeps slots_wf_drop)

section \<open>Running an operation on a container\<close>

text \<open>An operation that keeps its container well formed and its identity keeps the inventory well formed.\<close>

lemma on_container_keeps:
  assumes "inventory_wf s"
    and "\<And>c. container_wf c \<Longrightarrow> fst (m c) \<noteq> Inl Panicked \<and> container_wf (snd (m c)) \<and> container_id (snd (m c)) = container_id c"
  shows "fst (on_container cid m s) \<noteq> Inl Panicked \<and> inventory_wf (snd (on_container cid m s))"
proof (cases "find_container cid s")
  case (Inr c)
  then have "container_wf c" "container_id c = cid" using find_container_wf[OF assms(1)] by auto
  then show ?thesis using assms(2)[of c] store_container_wf[OF assms(1), of "snd (m c)" cid] Inr
    by (auto simp: on_container_def split: prod.splits)
qed (use assms in \<open>simp add: on_container_def\<close>)

lemma then_synchronize_keeps:
  "fst (m s) \<noteq> Inl Panicked \<and> inventory_wf (snd (m s)) \<Longrightarrow>
   fst (then_synchronize cid m s) \<noteq> Inl Panicked \<and> inventory_wf (snd (then_synchronize cid m s))"
  by (auto simp: then_synchronize_def synchronize_player_from_wf split: prod.splits sum.splits)

lemma synchronized_keeps:
  assumes "inventory_wf s"
    and "\<And>c. container_wf c \<Longrightarrow> fst (m c) \<noteq> Inl Panicked \<and> container_wf (snd (m c)) \<and> container_id (snd (m c)) = container_id c"
  shows "fst (then_synchronize cid (on_container cid m) s) \<noteq> Inl Panicked \<and>
    inventory_wf (snd (then_synchronize cid (on_container cid m) s))"
  by (intro then_synchronize_keeps on_container_keeps assms)

lemma server_update_keeps:
  assumes "inventory_wf s"
    and "\<And>c. container_wf c \<Longrightarrow> fst (m c) \<noteq> Inl Panicked \<and> container_wf (snd (m c)) \<and> container_id (snd (m c)) = container_id c"
  shows "fst (server_update cid sid m s) \<noteq> Inl Panicked \<and> inventory_wf (snd (server_update cid sid m s))"
  using on_container_keeps[OF assms, of cid]
  by (auto simp: server_update_def Let_def synchronize_player_from_wf split: prod.splits sum.splits)

lemma with_outcome_snd [simp]: "snd (with_outcome m c) = snd (m c)"
  by (simp add: with_outcome_def split: prod.splits sum.splits)

lemma with_outcome_panics [simp]: "fst (with_outcome m c) = Inl e \<longleftrightarrow> fst (m c) = Inl e"
  by (auto simp: with_outcome_def split: prod.splits sum.splits)

section \<open>Clicks\<close>

lemma run_click_contract:
  assumes "click_kind click \<noteq> QuickCraft"
  shows "click_contract (run_click click)"
proof (cases "click_kind click")
  case Pickup then show ?thesis by (simp add: run_click_def pickup_click.click_contract_axioms)
next
  case QuickMove then show ?thesis by (simp add: run_click_def quick_move_click.click_contract_axioms)
next
  case Swap then show ?thesis by (simp add: run_click_def swap_click.click_contract_axioms)
next
  case Clone then show ?thesis by (simp add: run_click_def clone_click.click_contract_axioms)
next
  case Throw then show ?thesis by (simp add: run_click_def throw_click.click_contract_axioms)
next
  case PickupAll then show ?thesis by (simp add: run_click_def pickup_all_click.click_contract_axioms)
qed (use assms in simp)

text \<open>Which clicks only move items about.\<close>

definition moving_click :: "container_click \<Rightarrow> bool" where
  "moving_click click \<longleftrightarrow> click_kind click \<in> {QuickMove, Swap, PickupAll} \<or>
     (click_kind click = Pickup \<and> click_slot click \<noteq> -999)"

lemma run_click_conserves:
  assumes "moving_click click" and "container_wf c"
  shows "container_total k (snd (run_click click c)) = container_total k c"
  using assms quick_move_click.conserves swap_click.conserves pickup_all_click.conserves
  by (auto simp: moving_click_def run_click_def pickup_conserves)

lemma click_container_op_keeps:
  assumes "click_kind click \<noteq> QuickCraft" and "container_wf c"
  shows "fst (click_container_op click c) \<noteq> Inl Panicked \<and> container_wf (snd (click_container_op click c)) \<and>
    container_id (snd (click_container_op click c)) = container_id c"
  using click_contract.no_panic[OF run_click_contract[OF assms(1)] assms(2)]
    click_contract.keeps_wf[OF run_click_contract[OF assms(1)] assms(2)]
    click_contract.frame[OF run_click_contract[OF assms(1)] assms(2)] assms(2)
  by (auto simp: click_container_op_def same_container_def)

lemma quick_craft_finish_op_keeps:
  "container_wf c \<Longrightarrow> fst (with_outcome (finish_quick_craft g) c) \<noteq> Inl Panicked \<and>
     container_wf (snd (with_outcome (finish_quick_craft g) c)) \<and>
     container_id (snd (with_outcome (finish_quick_craft g) c)) = container_id c"
  using quick_craft_click.no_panic[of c g] quick_craft_click.keeps_wf[of c g] quick_craft_click.frame[of c g]
  by (simp add: same_container_def)

lemma apply_quick_craft_keeps:
  assumes wf: "inventory_wf s"
  shows "fst (apply_quick_craft click s) \<noteq> Inl Panicked \<and> inventory_wf (snd (apply_quick_craft click s))"
proof -
  have start: "fst (quick_craft_start kind click s) \<noteq> Inl Panicked \<and> inventory_wf (snd (quick_craft_start kind click s))"
    if "kind \<le> 2" for kind
    using wf that by (auto simp: quick_craft_start_def gesture_wf_def intro!: inventory_wf_set_drag split: sum.splits option.splits)
  have add: "fst (quick_craft_add kind click s) \<noteq> Inl Panicked \<and> inventory_wf (snd (quick_craft_add kind click s))" for kind
  proof -
    have "gesture_wf g" if "quick_craft s = Some g" for g using wf that by (simp add: inventory_wf_def)
    then have "inventory_wf (s\<lparr>quick_craft := Some (g\<lparr>gesture_slots := bset_insert x (gesture_slots g)\<rparr>)\<rparr>)"
      if "quick_craft s = Some g" "length (gesture_slots g) < MAX_CONTAINER_SLOTS" for g x
      using that bset_insert_keeps[of "gesture_slots g" x] bset_insert_length[of x "gesture_slots g"]
      by (auto simp: gesture_wf_def intro!: inventory_wf_set_drag[OF wf])
    then show ?thesis using wf
      by (auto simp: quick_craft_add_def Let_def split: sum.splits option.splits)
  qed
  have finish: "fst (quick_craft_finish kind click s) \<noteq> Inl Panicked \<and> inventory_wf (snd (quick_craft_finish kind click s))" for kind
    using wf synchronized_keeps[OF inventory_wf_drag[OF wf], of "with_outcome (finish_quick_craft g)" for g] quick_craft_finish_op_keeps
    by (auto simp: quick_craft_finish_def Let_def split: option.splits)
  show ?thesis using start add finish wf by (simp add: apply_quick_craft_def Let_def)
qed

lemma apply_click_keeps:
  assumes wf: "inventory_wf s"
  shows "fst (apply_click click s) \<noteq> Inl Panicked \<and> inventory_wf (snd (apply_click click s))"
proof (cases "click_kind click = QuickCraft")
  case True
  then show ?thesis using apply_quick_craft_keeps[OF wf] by (simp add: apply_click_def)
next
  case False
  then show ?thesis
    using synchronized_keeps[OF inventory_wf_drag[OF wf], of "click_container_op click"] click_container_op_keeps[OF False]
    by (simp add: apply_click_def)
qed


section \<open>Every operation\<close>

lemma container_new_wf: "container_new cid m t n = Inr c \<Longrightarrow> container_wf c"
  by (auto simp: container_new_def container_wf_def slots_wf_def split: if_splits)

lemma container_set_slot_keeps:
  "container_wf c \<Longrightarrow> nonempty_stack stack \<Longrightarrow> fst (container_set_slot sid slot stack c) \<noteq> Inl Panicked \<and>
     container_wf (snd (container_set_slot sid slot stack c)) \<and>
     container_id (snd (container_set_slot sid slot stack c)) = container_id c"
  by (auto simp: container_set_slot_def container_wf_def slots_wf_update split: sum.splits)

lemma container_replace_content_keeps:
  "container_wf c \<Longrightarrow> slots_wf ss \<Longrightarrow> nonempty_stack cr \<Longrightarrow>
     fst (container_replace_content sid ss cr c) \<noteq> Inl Panicked \<and>
     container_wf (snd (container_replace_content sid ss cr c)) \<and>
     container_id (snd (container_replace_content sid ss cr c)) = container_id c"
  by (simp add: container_replace_content_def container_wf_def)

text \<open>What the server and the player may do; an \<open>ItemStack\<close> has a positive count (\<open>ItemStack::new\<close>).\<close>

inductive inventory_step :: "inventory_state \<Rightarrow> inventory_state \<Rightarrow> bool" where
  step_select: "inventory_step s (snd (set_selected_hotbar_slot slot s))"
| step_carried: "nonempty_stack stack \<Longrightarrow> inventory_step s (set_carried stack s)"
| step_creative: "nonempty_stack stack \<Longrightarrow> inventory_step s (snd (set_creative_slot slot stack s))"
| step_open: "container_wf c \<Longrightarrow> inventory_step s (snd (open_container c s))"
| step_close: "inventory_step s (snd (close_container cid s))"
| step_replace: "slots_wf ss \<Longrightarrow> nonempty_stack cr \<Longrightarrow> inventory_step s (snd (replace_content cid sid ss cr s))"
| step_set: "nonempty_stack stack \<Longrightarrow> inventory_step s (snd (set_slot cid sid slot stack s))"
| step_click: "inventory_step s (snd (apply_click click s))"
| step_build: "inventory_step s (set_instant_build b s)"
| step_permission: "inventory_step s (set_permission_level l s)"
| step_reset: "inventory_step s (inventory_reset s)"

lemma inventory_new_wf: "inventory_wf inventory_new"
  by (simp add: inventory_wf_def inventory_new_def container_wf_def slots_wf_def PLAYER_INVENTORY_SLOTS_def MAX_CONTAINER_SLOTS_def)

lemma set_carried_wf: "inventory_wf s \<Longrightarrow> nonempty_stack stack \<Longrightarrow> inventory_wf (set_carried stack s)"
  by (cases "open_container_state s") (simp_all add: inventory_wf_def set_carried_def container_wf_carried)

lemma set_creative_slot_wf: "inventory_wf s \<Longrightarrow> nonempty_stack stack \<Longrightarrow> inventory_wf (snd (set_creative_slot slot stack s))"
  using container_set_slot_keeps[of "player s" stack "state_id (player s)" slot]
  by (cases "container_set_slot (state_id (player s)) slot stack (player s)")
    (auto simp: set_creative_slot_def inventory_wf_def)

lemma inventory_step_wf: "inventory_step s t \<Longrightarrow> inventory_wf s \<Longrightarrow> inventory_wf t"
proof (induction rule: inventory_step.induct)
  case (step_select s slot)
  then show ?case by (simp add: set_selected_hotbar_slot_def inventory_wf_def)
next
  case (step_open c s)
  then show ?case by (auto simp: open_container_def inventory_wf_def)
next
  case (step_close s cid)
  then show ?case by (auto simp: close_container_def inventory_wf_def split: option.splits)
next
  case (step_replace ss cr s cid sid)
  then show ?case
    using server_update_keeps[OF step_replace(3) container_replace_content_keeps] by (simp add: replace_content_def)
next
  case (step_set stack s cid sid slot)
  then show ?case
    using server_update_keeps[OF step_set(2) container_set_slot_keeps] by (simp add: set_slot_def)
next
  case (step_build s b)
  then show ?case by (simp add: set_instant_build_def inventory_wf_def)
next
  case (step_permission s l)
  then show ?case by (simp add: set_permission_level_def inventory_wf_def)
qed (simp_all add: set_carried_wf set_creative_slot_wf apply_click_keeps inventory_reset_def inventory_new_wf)

lemma inventory_steps_wf: "inventory_step\<^sup>*\<^sup>* s t \<Longrightarrow> inventory_wf s \<Longrightarrow> inventory_wf t"
  by (induction rule: rtranclp_induct) (auto intro: inventory_step_wf)

text \<open>C5: From the initial inventory, after any sequence of updates of the server and clicks of the
  player (whatever they answer, errors included), the inventory is well formed: no slot holds an empty
  stack, no container is larger than 512 slots, the open container is not the player's, the drag in
  progress lists at most 512 distinct slots in order. And no click on such an inventory panics: every
  slot index and every subtraction of a count is in range.\<close>

theorem inventory_stays_safe:
  assumes "inventory_step\<^sup>*\<^sup>* inventory_new s"
  shows "inventory_wf s \<and> fst (apply_click click s) \<noteq> Inl Panicked"
  using inventory_steps_wf[OF assms inventory_new_wf] apply_click_keeps by blast

definition one_stone :: item_stack where
  "one_stone = \<lparr>item = ''minecraft:stone'', count = 1, components = \<lparr>added = [], removed = [], fingerprints = []\<rparr>\<rparr>"

definition take_click :: container_click where
  "take_click = \<lparr>click_container = 0, click_state_id = 0, click_slot = 9, click_button = 0, click_kind = Pickup\<rparr>"

theorem inventory_stays_safe_witness:
  "inventory_wf (snd (set_slot 0 0 9 (Some one_stone) inventory_new)) \<and>
   fst (apply_click take_click (snd (set_slot 0 0 9 (Some one_stone) inventory_new))) \<noteq> Inl Panicked"
  by (rule inventory_stays_safe, rule r_into_rtranclp, rule step_set) (simp add: one_stone_def)

section \<open>What a click may change\<close>

lemma click_find_container:
  assumes wf: "inventory_wf s" and c: "find_container (click_container click) s = Inr c" and "click_kind click \<noteq> QuickCraft"
  shows "find_container (click_container click) (snd (apply_click click s)) = Inr (snd (click_container_op click c))"
proof -
  have c': "container_wf c" "container_id c = click_container click"
    using find_container_wf[OF wf c] by auto
  have "container_id (snd (click_container_op click c)) = click_container click"
    using click_container_op_keeps[OF assms(3) c'(1)] c'(2) by simp
  note stored = find_container_store[OF this]
  show ?thesis using stored c assms(3)
    by (auto simp: apply_click_def then_synchronize_def on_container_def split: prod.splits sum.splits)
qed

text \<open>C2: A click that only moves items (left or right click on a slot, shift-click, hotbar swap, collecting
  a kind by double click) neither creates nor destroys anything: in the container it is made in, the
  number of items of every kind in slots and cursor is the same after it as before, also when the click
  is refused. A kind is the identifier of the item together with its components.\<close>

theorem click_conserves_items:
  assumes "inventory_wf s" and "find_container (click_container click) s = Inr c" and "moving_click click"
  shows "\<exists>c'. find_container (click_container click) (snd (apply_click click s)) = Inr c' \<and>
    (\<forall>k. container_total k c' = container_total k c)"
proof -
  have kind: "click_kind click \<noteq> QuickCraft" using assms(3) by (auto simp: moving_click_def)
  have "container_total k (snd (click_container_op click c)) = container_total k c" for k
    using run_click_conserves[OF assms(3), of c] find_container_wf[OF assms(1,2)] by (simp add: click_container_op_def)
  then show ?thesis using click_find_container[OF assms(1,2) kind] by blast
qed

lemma one_stone_inventory:
  "snd (set_slot 0 0 9 (Some one_stone) inventory_new) =
     inventory_new\<lparr>player := (player inventory_new)\<lparr>slots := (replicate 46 None)[9 := Some one_stone]\<rparr>\<rparr>"
  by (simp add: set_slot_def server_update_def on_container_def find_container_def container_set_slot_def
      slot_index_def inventory_new_def PLAYER_CONTAINER_ID_def PLAYER_INVENTORY_SLOTS_def store_container_def
      cancels_quick_craft_def synchronize_player_from_def Let_def)

theorem click_conserves_items_witness:
  "\<exists>c'. find_container 0 (snd (apply_click take_click (snd (set_slot 0 0 9 (Some one_stone) inventory_new)))) = Inr c' \<and>
    (\<forall>k. container_total k c' = container_total k (player (snd (set_slot 0 0 9 (Some one_stone) inventory_new))))"
proof -
  have "inventory_wf (snd (set_slot 0 0 9 (Some one_stone) inventory_new))"
    by (rule inventory_step_wf[OF step_set inventory_new_wf]) (simp add: one_stone_def)
  then show ?thesis
    using click_conserves_items[of "snd (set_slot 0 0 9 (Some one_stone) inventory_new)" take_click
        "player (snd (set_slot 0 0 9 (Some one_stone) inventory_new))"]
    by (simp add: take_click_def find_container_def moving_click_def PLAYER_CONTAINER_ID_def)
qed

text \<open>A click made against a state of the container other than the current one is refused with the two
  state ids, and changes nothing but that it abandons the drag in progress.\<close>

theorem stale_click_refused:
  assumes "find_container (click_container click) s = Inr c" and "state_id c \<noteq> click_state_id click"
    and "click_kind click \<noteq> QuickCraft"
  shows "apply_click click s =
    (Inl (Failed (StaleStateId (state_id c) (click_state_id click))), s\<lparr>quick_craft := None\<rparr>)"
proof -
  have "store_container (click_container click) c (s\<lparr>quick_craft := None\<rparr>) = s\<lparr>quick_craft := None\<rparr>"
    using assms(1) by (auto simp: find_container_def store_container_def split: if_splits option.splits)
  then show ?thesis using assms
    by (simp add: apply_click_def then_synchronize_def on_container_def click_container_op_def)
qed

theorem stale_click_refused_witness:
  "apply_click (take_click\<lparr>click_state_id := 7\<rparr>) inventory_new = (Inl (Failed (StaleStateId 0 7)), inventory_new\<lparr>quick_craft := None\<rparr>)"
  using stale_click_refused[of "take_click\<lparr>click_state_id := 7\<rparr>" inventory_new "player inventory_new"]
  by (simp add: find_container_def inventory_new_def take_click_def PLAYER_CONTAINER_ID_def)


text \<open>C16: The last click of a drag that spreads the carried stack over slots (evenly, or one item each) keeps
  the number of items of every kind when it succeeds; when it is refused it never adds any. (The third
  kind of drag, for creative mode, fills every slot from nothing.)\<close>

theorem drag_conserves_items:
  assumes "inventory_wf s" and "find_container (click_container click) s = Inr c"
    and "quick_craft s = Some g" and "gesture_kind g \<noteq> 2"
  shows "\<exists>c'. find_container (click_container click) (snd (quick_craft_finish kind click s)) = Inr c' \<and>
    (\<forall>k. if fst (quick_craft_finish kind click s) \<in> range Inr
         then container_total k c' = container_total k c else container_total k c' \<le> container_total k c)"
proof (cases "click_slot click \<noteq> -999 \<or> gesture_mismatch g kind click")
  case True
  then show ?thesis using assms by (auto simp: quick_craft_finish_def)
next
  case False
  have wf: "container_wf c" "container_id c = click_container click"
    using find_container_wf[OF assms(1,2)] by auto
  obtain res c' where f: "with_outcome (finish_quick_craft g) c = (res, c')" by fastforce
  have c': "c' = snd (finish_quick_craft g c)" using with_outcome_snd[of "finish_quick_craft g" c] f by simp
  have "container_id c' = click_container click"
    using finish_quick_craft_keeps(1)[OF wf(1), of g] wf(2) c' by (simp add: same_container_def)
  note stored = find_container_store[OF this]
  have run: "quick_craft_finish kind click s =
      (res, if isl res then store_container (click_container click) c' (s\<lparr>quick_craft := None\<rparr>)
            else synchronize_player_from (click_container click) (store_container (click_container click) c' (s\<lparr>quick_craft := None\<rparr>)))"
    using False assms(2,3) f by (simp add: quick_craft_finish_def then_synchronize_def on_container_def Let_def split: sum.splits)
  have ok: "res \<in> range Inr \<longleftrightarrow> fst (finish_quick_craft g c) = Inr ()"
    using f by (auto simp: with_outcome_def split: prod.splits sum.splits)
  have "find_container (click_container click) (snd (quick_craft_finish kind click s)) = Inr c'"
    using stored by (simp add: run)
  then show ?thesis using finish_quick_craft_keeps(2,3)[OF wf(1) assms(4)] ok by (simp add: run c')
qed

text \<open>A drag of one stone over slot 9 of the player's inventory.\<close>

definition stone_gesture :: quick_craft_gesture where
  "stone_gesture = \<lparr>gesture_container = 0, gesture_state_id = 0, gesture_kind = 1, gesture_slots = [9]\<rparr>"

definition dragging_inventory :: inventory_state where
  "dragging_inventory = (set_carried (Some one_stone) inventory_new)\<lparr>quick_craft := Some stone_gesture\<rparr>"

definition drop_click :: container_click where
  "drop_click = \<lparr>click_container = 0, click_state_id = 0, click_slot = -999, click_button = 6, click_kind = QuickCraft\<rparr>"

theorem drag_conserves_items_witness:
  "\<exists>c'. find_container 0 (snd (quick_craft_finish 1 drop_click dragging_inventory)) = Inr c' \<and>
    (\<forall>k. if fst (quick_craft_finish 1 drop_click dragging_inventory) \<in> range Inr
         then container_total k c' = container_total k (player dragging_inventory)
         else container_total k c' \<le> container_total k (player dragging_inventory))"
proof -
  have "inventory_wf (set_carried (Some one_stone) inventory_new)"
    by (rule set_carried_wf[OF inventory_new_wf]) (simp add: one_stone_def)
  then have "inventory_wf dragging_inventory"
    by (auto simp: dragging_inventory_def stone_gesture_def gesture_wf_def MAX_CONTAINER_SLOTS_def intro: inventory_wf_set_drag)
  moreover have "find_container (click_container drop_click) dragging_inventory = Inr (player dragging_inventory)"
    by (simp add: drop_click_def find_container_def PLAYER_CONTAINER_ID_def)
  moreover have "quick_craft dragging_inventory = Some stone_gesture" "gesture_kind stone_gesture \<noteq> 2"
    by (simp_all add: dragging_inventory_def stone_gesture_def)
  ultimately show ?thesis using drag_conserves_items[of dragging_inventory drop_click] by (simp add: drop_click_def)
qed

section \<open>The outcome of a click\<close>

lemma changed_slots_from_get:
  "length after = length before \<Longrightarrow> i + length before \<le> 2 ^ 15 \<Longrightarrow>
   bt_get (int j) (changed_slots_from i before after) =
     (if i \<le> j \<and> j < i + length before \<and> before ! (j - i) \<noteq> after ! (j - i) then Some (after ! (j - i)) else None)"
proof (induction i before after rule: changed_slots_from.induct)
  case (1 i b bs a as)
  show ?case
  proof (cases "j = i")
    case True
    then show ?thesis using 1 by (simp add: bt_get_def)
  next
    case False
    then have "j - i = Suc (j - Suc i)" if "i \<le> j" using that by simp
    then show ?thesis using 1 False by (auto simp: bt_get_def)
  qed
qed (auto simp: bt_get_def)



text \<open>A chest of nine slots with one stone in its first slot, opened by a new player.\<close>

definition stone_chest :: container_state where
  "stone_chest = \<lparr>container_id = 1, menu = Menu ''minecraft:generic_9x1'', title = [], state_id = 0,
     slots = Some one_stone # replicate 44 None, carried = None, properties = []\<rparr>"

definition chest_inventory :: inventory_state where
  "chest_inventory = inventory_new\<lparr>open_container_state := Some stone_chest\<rparr>"

definition chest_click :: container_click where
  "chest_click = take_click\<lparr>click_container := 1, click_slot := 0\<rparr>"

lemma changed_slots_from_same: "changed_slots_from i ss ss = []"
  by (induction ss arbitrary: i) simp_all

lemma chest_click_runs:
  "apply_click chest_click chest_inventory =
     (Inr \<lparr>outcome_changed_slots = [(0, None)], outcome_carried = Some one_stone\<rparr>,
      snd (apply_click chest_click chest_inventory))"
proof -
  have "changed_slots (Some one_stone # replicate 44 None) (None # replicate 44 None) = [(0, None)]"
    by (simp add: changed_slots_def changed_slots_from_same)
  then show ?thesis
    by (simp add: apply_click_def chest_inventory_def chest_click_def take_click_def then_synchronize_def on_container_def
        find_container_def PLAYER_CONTAINER_ID_def stone_chest_def click_container_op_def with_outcome_def run_click_def
        pickup_def slot_index_def pickup_at_def put_slot_def)
qed


end
