(* ===== verification/World_Chunk.thy ===== *)
theory World_Chunk
  imports Item_Stack
begin

unbundle bit_operations_syntax

text \<open>
  \<open>cubic-world/src/chunk.rs\<close>: the chunks of the world in memory. Coordinates are \<open>i32\<close> as integers,
  raw ids and local coordinates (\<open>u8\<close>) naturals; an \<open>Arc\<close> is the chunk it shares, since the store
  copies before it writes (\<open>Arc::make_mut\<close>).
\<close>

definition SECTION_BLOCK_COUNT :: nat where "SECTION_BLOCK_COUNT = 16 * 16 * 16"
definition SECTION_BIOME_COUNT :: nat where "SECTION_BIOME_COUNT = 4 * 4 * 4"
definition MAX_LOADED_CHUNKS :: nat where "MAX_LOADED_CHUNKS = 512"

datatype chunk_coordinate = Chunk_Coordinate (coordinate_x: int) (coordinate_z: int)

text \<open>The derived order of \<open>ChunkCoordinate\<close>: by \<open>x\<close>, then by \<open>z\<close>.\<close>

instantiation chunk_coordinate :: linorder
begin

definition less_eq_chunk_coordinate :: "chunk_coordinate \<Rightarrow> chunk_coordinate \<Rightarrow> bool" where
  "less_eq_chunk_coordinate a b \<longleftrightarrow> coordinate_x a < coordinate_x b \<or>
     (coordinate_x a = coordinate_x b \<and> coordinate_z a \<le> coordinate_z b)"

definition less_chunk_coordinate :: "chunk_coordinate \<Rightarrow> chunk_coordinate \<Rightarrow> bool" where
  "less_chunk_coordinate a b \<longleftrightarrow> coordinate_x a < coordinate_x b \<or>
     (coordinate_x a = coordinate_x b \<and> coordinate_z a < coordinate_z b)"

instance
  by standard (auto simp: less_eq_chunk_coordinate_def less_chunk_coordinate_def intro: chunk_coordinate.expand)

end

section \<open>Paletted containers\<close>

datatype 'a paletted_container =
    Single 'a nat
  | Indirect "'a list" "nat list"
  | Direct "'a list"

fun paletted_len :: "'a paletted_container \<Rightarrow> nat" where
  "paletted_len (Single _ entries) = entries"
| "paletted_len (Indirect _ indices) = length indices"
| "paletted_len (Direct vals) = length vals"

definition nth_opt :: "'a list \<Rightarrow> nat \<Rightarrow> 'a option" where
  "nth_opt xs i = (if i < length xs then Some (xs ! i) else None)"

fun paletted_get :: "'a paletted_container \<Rightarrow> nat \<Rightarrow> 'a option" where
  "paletted_get (Single v entries) i = (if i < entries then Some v else None)"
| "paletted_get (Indirect palette indices) i =
     (case nth_opt indices i of None \<Rightarrow> None | Some p \<Rightarrow> nth_opt palette p)"
| "paletted_get (Direct vals) i = nth_opt vals i"

datatype palette_form = Single_Form | Indirect_Form | Direct_Form

fun paletted_form :: "'a paletted_container \<Rightarrow> palette_form" where
  "paletted_form (Single _ _) = Single_Form"
| "paletted_form (Indirect _ _) = Indirect_Form"
| "paletted_form (Direct _) = Direct_Form"

text \<open>\<open>set\<close>: whether an entry changed, and the container, which becomes direct when it was not.\<close>

definition set_direct :: "nat \<Rightarrow> 'a \<Rightarrow> 'a list \<Rightarrow> bool \<times> 'a paletted_container" where
  "set_direct i v vals =
     (if length vals \<le> i then (False, Direct vals)
      else if vals ! i = v then (False, Direct vals)
      else (True, Direct (vals[i := v])))"

definition paletted_set :: "nat \<Rightarrow> 'a \<Rightarrow> 'a paletted_container \<Rightarrow> bool \<times> 'a paletted_container" where
  "paletted_set i v c =
     (if paletted_len c \<le> i then (False, c)
      else case c of
        Direct vals \<Rightarrow> set_direct i v vals
      | _ \<Rightarrow>
          let vals = List.map_filter (paletted_get c) [0..<paletted_len c] in
          if length vals \<noteq> paletted_len c then (False, c) else set_direct i v vals)"

section \<open>Sections\<close>

definition section_index :: "nat \<Rightarrow> nat \<Rightarrow> nat \<Rightarrow> nat \<Rightarrow> nat option" where
  "section_index x y z width =
     (if width \<le> x \<or> width \<le> y \<or> width \<le> z then None
      else case checked_mul y width of
        None \<Rightarrow> None
      | Some a \<Rightarrow>
          (case checked_add a z of
             None \<Rightarrow> None
           | Some b \<Rightarrow> (case checked_mul b width of None \<Rightarrow> None | Some c \<Rightarrow> checked_add c x)))"

record chunk_section =
  section_non_empty :: nat
  section_fluid_count :: nat
  section_blocks :: "nat paletted_container"
  section_biomes :: "nat paletted_container"

definition section_block :: "chunk_section \<Rightarrow> nat \<Rightarrow> nat \<Rightarrow> nat \<Rightarrow> nat option" where
  "section_block s x y z =
     (case section_index x y z 16 of None \<Rightarrow> None | Some i \<Rightarrow> paletted_get (section_blocks s) i)"

definition section_biome :: "chunk_section \<Rightarrow> nat \<Rightarrow> nat \<Rightarrow> nat \<Rightarrow> nat option" where
  "section_biome s x y z =
     (case section_index x y z 4 of None \<Rightarrow> None | Some i \<Rightarrow> paletted_get (section_biomes s) i)"

section \<open>Light\<close>

record light_layer_data =
  layer_mask_index :: nat
  layer_data :: "u8 list"

record chunk_light_summary =
  sky_mask :: "u64 list"
  block_mask :: "u64 list"
  empty_sky_mask :: "u64 list"
  empty_block_mask :: "u64 list"
  sky_layer_count :: nat
  block_layer_count :: nat
  sky_layers :: "light_layer_data list"
  block_layers :: "light_layer_data list"

definition light_value :: "light_layer_data list \<Rightarrow> nat \<Rightarrow> nat \<Rightarrow> nat \<Rightarrow> nat \<Rightarrow> u8 option" where
  "light_value layers mask_index x y z =
     (if 16 \<le> x \<or> 16 \<le> y \<or> 16 \<le> z then None
      else case find (\<lambda>l. layer_mask_index l = mask_index) layers of
        None \<Rightarrow> None
      | Some layer \<Rightarrow>
          let index = y * 256 + z * 16 + x in
          case nth_opt (layer_data layer) (index div 2) of
            None \<Rightarrow> None
          | Some byte \<Rightarrow> Some (if even index then byte AND 0x0f else drop_bit 4 byte))"

definition mask_contains :: "u64 list \<Rightarrow> nat \<Rightarrow> bool" where
  "mask_contains words index =
     (case nth_opt words (index div 64) of
        None \<Rightarrow> False | Some w \<Rightarrow> w AND push_bit (index mod 64) 1 \<noteq> 0)"

definition light_or_empty :: "light_layer_data list \<Rightarrow> u64 list \<Rightarrow> nat \<Rightarrow> nat \<Rightarrow> nat \<Rightarrow> nat \<Rightarrow> u8 option" where
  "light_or_empty layers empty_mask sect x y z =
     (case checked_add sect 1 of
        None \<Rightarrow> None
      | Some i \<Rightarrow>
          (case light_value layers i x y z of
             Some v \<Rightarrow> Some v
           | None \<Rightarrow> if mask_contains empty_mask i then Some 0 else None))"

definition sky_light :: "chunk_light_summary \<Rightarrow> nat \<Rightarrow> nat \<Rightarrow> nat \<Rightarrow> nat \<Rightarrow> u8 option" where
  "sky_light l = light_or_empty (sky_layers l) (empty_sky_mask l)"

definition block_light :: "chunk_light_summary \<Rightarrow> nat \<Rightarrow> nat \<Rightarrow> nat \<Rightarrow> nat \<Rightarrow> u8 option" where
  "block_light l = light_or_empty (block_layers l) (empty_block_mask l)"

section \<open>Chunks\<close>

record heightmap_data =
  heightmap_kind :: nat
  heightmap_longs :: "u64 list"

record banner_pattern =
  pattern_asset :: minecraft_identifier
  pattern_translation_key :: "rust_str option"

record banner_pattern_layer =
  layer_pattern :: banner_pattern
  layer_dye :: nat

record block_entity_data =
  custom_name :: "rust_str option"
  banner_patterns :: "banner_pattern_layer list"

record block_entity_summary =
  entity_local_x :: nat
  entity_y :: int
  entity_local_z :: nat
  entity_type_id :: nat
  entity_has_data :: bool
  entity_data :: "block_entity_data option"

record chunk =
  chunk_at :: chunk_coordinate
  chunk_sections :: "chunk_section list"
  chunk_heightmaps :: "heightmap_data list"
  chunk_block_entities :: "block_entity_summary list"
  chunk_light :: chunk_light_summary

record chunk_summary =
  summary_coordinate :: chunk_coordinate
  summary_sections :: nat
  summary_non_empty_sections :: nat
  summary_single_palettes :: nat
  summary_indirect_palettes :: nat
  summary_direct_palettes :: nat
  summary_heightmaps :: nat
  summary_block_entities :: nat
  summary_sky_layers :: nat
  summary_block_layers :: nat

definition count_sections :: "(chunk_section \<Rightarrow> bool) \<Rightarrow> chunk \<Rightarrow> nat" where
  "count_sections p c = length (filter p (chunk_sections c))"

definition summarize_chunk :: "chunk \<Rightarrow> chunk_summary" where
  "summarize_chunk c =
     \<lparr>summary_coordinate = chunk_at c, summary_sections = length (chunk_sections c),
      summary_non_empty_sections = count_sections (\<lambda>s. section_non_empty s \<noteq> 0) c,
      summary_single_palettes = count_sections (\<lambda>s. paletted_form (section_blocks s) = Single_Form) c,
      summary_indirect_palettes = count_sections (\<lambda>s. paletted_form (section_blocks s) = Indirect_Form) c,
      summary_direct_palettes = count_sections (\<lambda>s. paletted_form (section_blocks s) = Direct_Form) c,
      summary_heightmaps = length (chunk_heightmaps c),
      summary_block_entities = length (chunk_block_entities c),
      summary_sky_layers = sky_layer_count (chunk_light c),
      summary_block_layers = block_layer_count (chunk_light c)\<rparr>"

section \<open>The loaded chunks\<close>

type_synonym loaded_chunks = "(chunk_coordinate, chunk) btree_map"

datatype chunk_store_error = LoadedChunkLimit nat

definition chunks_insert :: "chunk \<Rightarrow> (loaded_chunks, chunk_store_error, chunk option) fallible" where
  "chunks_insert c m =
     (if \<not> bt_contains (chunk_at c) m \<and> MAX_LOADED_CHUNKS \<le> bt_len m then (Inl (LoadedChunkLimit MAX_LOADED_CHUNKS), m)
      else (Inr (bt_get (chunk_at c) m), bt_insert (chunk_at c) c m))"

definition chunks_remove :: "chunk_coordinate \<Rightarrow> loaded_chunks \<Rightarrow> chunk option \<times> loaded_chunks" where
  "chunks_remove p m = (bt_get p m, bt_remove p m)"

definition update_light :: "chunk_coordinate \<Rightarrow> chunk_light_summary \<Rightarrow> loaded_chunks \<Rightarrow> bool \<times> loaded_chunks" where
  "update_light p l m =
     (if bt_contains p m then (True, bt_update p (\<lambda>c. c\<lparr>chunk_light := l\<rparr>) m) else (False, m))"

definition update_block ::
  "chunk_coordinate \<Rightarrow> nat \<Rightarrow> nat \<Rightarrow> nat \<Rightarrow> nat \<Rightarrow> nat \<Rightarrow> loaded_chunks \<Rightarrow> bool \<times> loaded_chunks" where
  "update_block p offset x y z state m =
     (case bt_get p m of
        None \<Rightarrow> (False, m)
      | Some c \<Rightarrow>
          if length (chunk_sections c) \<le> offset then (False, m)
          else case section_index x y z 16 of
            None \<Rightarrow> (False, m)
          | Some i \<Rightarrow>
              (case paletted_set i state (section_blocks (chunk_sections c ! offset)) of
                 (changed, blocks) \<Rightarrow>
                   (changed, bt_update p (\<lambda>c. c\<lparr>chunk_sections :=
                      (chunk_sections c)[offset := (chunk_sections c ! offset)\<lparr>section_blocks := blocks\<rparr>]\<rparr>) m)))"

definition same_place :: "nat \<Rightarrow> int \<Rightarrow> nat \<Rightarrow> block_entity_summary \<Rightarrow> bool" where
  "same_place x y z e = (entity_local_x e = x \<and> entity_y e = y \<and> entity_local_z e = z)"

definition set_entity_data :: "nat \<Rightarrow> block_entity_data \<Rightarrow> block_entity_summary \<Rightarrow> block_entity_summary" where
  "set_entity_data type_id d e = e\<lparr>entity_type_id := type_id, entity_has_data := True, entity_data := Some d\<rparr>"

text \<open>The first entity at the place is updated; the flag says whether anything changed.\<close>

fun update_first_entity ::
  "nat \<Rightarrow> int \<Rightarrow> nat \<Rightarrow> nat \<Rightarrow> block_entity_data \<Rightarrow> block_entity_summary list \<Rightarrow> (bool \<times> block_entity_summary list) option" where
  "update_first_entity x y z type_id d [] = None"
| "update_first_entity x y z type_id d (e # es) =
     (if same_place x y z e then
        Some (entity_type_id e \<noteq> type_id \<or> entity_data e \<noteq> Some d \<or> \<not> entity_has_data e,
              set_entity_data type_id d e # es)
      else map_option (\<lambda>(b, es'). (b, e # es')) (update_first_entity x y z type_id d es))"

definition update_block_entity ::
  "chunk_coordinate \<Rightarrow> nat \<Rightarrow> int \<Rightarrow> nat \<Rightarrow> nat \<Rightarrow> block_entity_data \<Rightarrow> loaded_chunks \<Rightarrow> bool option \<times> loaded_chunks" where
  "update_block_entity p x y z type_id d m =
     (case bt_get p m of
        None \<Rightarrow> (None, m)
      | Some c \<Rightarrow>
          (case update_first_entity x y z type_id d (chunk_block_entities c) of
             Some (changed, es) \<Rightarrow> (Some changed, bt_update p (\<lambda>c. c\<lparr>chunk_block_entities := es\<rparr>) m)
           | None \<Rightarrow>
               (Some True, bt_update p (\<lambda>c. c\<lparr>chunk_block_entities := chunk_block_entities c @
                  [\<lparr>entity_local_x = x, entity_y = y, entity_local_z = z, entity_type_id = type_id,
                    entity_has_data = True, entity_data = Some d\<rparr>]\<rparr>) m)))"

section \<open>Facts\<close>

lemma nth_opt_simps [simp]: "nth_opt xs i = None \<longleftrightarrow> length xs \<le> i" "nth_opt xs i = Some x \<longleftrightarrow> i < length xs \<and> xs ! i = x"
  by (auto simp: nth_opt_def)

text \<open>A container whose indices are all in its palette, as the decoder delivers them.\<close>

fun paletted_wf :: "'a paletted_container \<Rightarrow> bool" where
  "paletted_wf (Single _ _) = True"
| "paletted_wf (Indirect palette indices) = (\<forall>i\<in>set indices. i < length palette)"
| "paletted_wf (Direct _) = True"

lemma paletted_get_dom: "paletted_wf c \<Longrightarrow> paletted_get c i \<noteq> None \<longleftrightarrow> i < paletted_len c"
  by (cases c) (auto split: option.splits)

lemma map_filter_total: "(\<forall>x\<in>set xs. f x \<noteq> None) \<Longrightarrow> List.map_filter f xs = map (\<lambda>x. the (f x)) xs"
  by (induction xs) (auto simp: List.map_filter_simps)

lemma paletted_values:
  "paletted_wf c \<Longrightarrow> List.map_filter (paletted_get c) [0..<paletted_len c] = map (\<lambda>i. the (paletted_get c i)) [0..<paletted_len c]"
  using paletted_get_dom[of c] by (intro map_filter_total) (auto simp del: not_None_eq)

lemma set_direct_spec:
  "i < length vals \<Longrightarrow> fst (set_direct i v vals) = (vals ! i \<noteq> v) \<and>
     (\<exists>vals'. snd (set_direct i v vals) = Direct vals' \<and> vals' = vals[i := v])"
  by (auto simp: set_direct_def list_update_same_conv)

lemma paletted_set_spec:
  assumes "paletted_wf c"
  shows "fst (paletted_set i v c) \<longleftrightarrow> i < paletted_len c \<and> paletted_get c i \<noteq> Some v"
    and "paletted_wf (snd (paletted_set i v c))"
    and "paletted_len (snd (paletted_set i v c)) = paletted_len c"
    and "paletted_get (snd (paletted_set i v c)) j = (if i < paletted_len c \<and> j = i then Some v else paletted_get c j)"
proof -
  define vals where "vals = (case c of Direct xs \<Rightarrow> xs | _ \<Rightarrow> map (\<lambda>i. the (paletted_get c i)) [0..<paletted_len c])"
  have len: "length vals = paletted_len c" by (auto simp: vals_def split: paletted_container.splits)
  have get: "paletted_get c j = nth_opt vals j" for j
  proof -
    have direct: "vals = xs" if "c = Direct xs" for xs using that by (simp add: vals_def)
    have mapped: "vals = map (\<lambda>i. the (paletted_get c i)) [0..<paletted_len c]" if "\<nexists>xs. c = Direct xs"
      using that by (auto simp: vals_def split: paletted_container.splits)
    show ?thesis
    proof (cases "\<exists>xs. c = Direct xs")
      case False
      then show ?thesis using paletted_get_dom[OF assms, of j] unfolding mapped[OF False]
        by (cases "paletted_get c j") (simp_all add: nth_opt_def)
    next
      case True
      then obtain xs where "c = Direct xs" by blast
      then show ?thesis using direct[of xs] by simp
    qed
  qed
  have set_eq: "paletted_set i v c = (if i < paletted_len c then set_direct i v vals else (False, c))"
    using paletted_values[OF assms] len
    by (cases c) (simp_all add: paletted_set_def vals_def Let_def del: paletted_get.simps paletted_wf.simps)
  show "fst (paletted_set i v c) \<longleftrightarrow> i < paletted_len c \<and> paletted_get c i \<noteq> Some v"
    using set_direct_spec[of i vals v] len by (auto simp: set_eq get)
  show "paletted_wf (snd (paletted_set i v c))"
    using set_direct_spec[of i vals v] len assms by (auto simp: set_eq)
  show "paletted_len (snd (paletted_set i v c)) = paletted_len c"
    using set_direct_spec[of i vals v] len by (auto simp: set_eq)
  show "paletted_get (snd (paletted_set i v c)) j = (if i < paletted_len c \<and> j = i then Some v else paletted_get c j)"
    using set_direct_spec[of i vals v] len by (auto simp: set_eq get nth_opt_def nth_list_update)
qed

lemma section_index_16: "section_index x y z 16 = (if x < 16 \<and> y < 16 \<and> z < 16 then Some ((y * 16 + z) * 16 + x) else None)"
  by (auto simp: section_index_def checked_mul_def checked_add_def usize_MAX_def)

lemma base_16: "x < 16 \<Longrightarrow> (q * 16 + x) mod 16 = x" "x < 16 \<Longrightarrow> (q * 16 + x) div 16 = (q::nat)"
  by simp_all

lemma section_index_position:
  assumes "section_index x y z 16 = Some i"
  shows "x = i mod 16 \<and> z = i div 16 mod 16 \<and> y = i div 16 div 16"
proof -
  have "x < 16" "z < 16" and i: "i = (y * 16 + z) * 16 + x"
    using assms by (auto simp only: section_index_16 split: if_splits)
  then show ?thesis unfolding i by (simp only: base_16)
qed

lemma section_index_inj:
  "section_index x y z 16 = Some i \<Longrightarrow> section_index x' y' z' 16 = Some i \<Longrightarrow> x = x' \<and> y = y' \<and> z = z'"
  using section_index_position by blast

end
