(* ===== verification/Ieee.thy ===== *)
theory Ieee
  imports Cubic_Prelude
begin

text \<open>
  The floating-point numbers of Rust, \<open>f32\<close> and \<open>f64\<close>, as bit patterns with the arithmetic of IEEE 754:
  a finite number is an integer multiple of the least subnormal, sums and products of them are exact
  rationals, and the result is rounded to nearest, ties to even. Every NaN an operation produces is
  the quiet one; the code tests for it and never looks at its payload.
\<close>

section \<open>Formats\<close>

datatype float_format = Binary32 | Binary64

fun frac_bits :: "float_format \<Rightarrow> nat" where
  "frac_bits Binary32 = 23" | "frac_bits Binary64 = 52"

fun exponents :: "float_format \<Rightarrow> nat" where
  "exponents Binary32 = 255" | "exponents Binary64 = 2047"

text \<open>The least subnormal is \<open>2 ^ -(unit_exponent)\<close>.\<close>

fun unit_exponent :: "float_format \<Rightarrow> nat" where
  "unit_exponent Binary32 = 149" | "unit_exponent Binary64 = 1074"

definition fl_infinity :: "float_format \<Rightarrow> nat" where
  "fl_infinity F = exponents F * 2 ^ frac_bits F"

definition fl_sign :: "float_format \<Rightarrow> nat" where
  "fl_sign F = (exponents F + 1) * 2 ^ frac_bits F"

definition fl_nan :: "float_format \<Rightarrow> nat" where
  "fl_nan F = fl_infinity F + 2 ^ (frac_bits F - 1)"

definition fl_neg :: "float_format \<Rightarrow> nat \<Rightarrow> bool" where
  "fl_neg F b \<longleftrightarrow> fl_sign F \<le> b"

definition fl_abs :: "float_format \<Rightarrow> nat \<Rightarrow> nat" where
  "fl_abs F b = b mod fl_sign F"

definition fl_is_nan :: "float_format \<Rightarrow> nat \<Rightarrow> bool" where
  "fl_is_nan F b \<longleftrightarrow> fl_infinity F < fl_abs F b"

definition fl_is_infinite :: "float_format \<Rightarrow> nat \<Rightarrow> bool" where
  "fl_is_infinite F b \<longleftrightarrow> fl_abs F b = fl_infinity F"

definition fl_is_finite :: "float_format \<Rightarrow> nat \<Rightarrow> bool" where
  "fl_is_finite F b \<longleftrightarrow> fl_abs F b < fl_infinity F"

text \<open>The magnitude of a finite number in units of the least subnormal.\<close>

definition fl_units :: "float_format \<Rightarrow> nat \<Rightarrow> nat" where
  "fl_units F b =
     (let e = fl_abs F b div 2 ^ frac_bits F; f = fl_abs F b mod 2 ^ frac_bits F in
      if e = 0 then f else (2 ^ frac_bits F + f) * 2 ^ (e - 1))"

definition fl_signed :: "float_format \<Rightarrow> nat \<Rightarrow> int" where
  "fl_signed F b = (if fl_neg F b then - int (fl_units F b) else int (fl_units F b))"

definition fl_pack :: "float_format \<Rightarrow> bool \<Rightarrow> nat \<Rightarrow> nat" where
  "fl_pack F negative magnitude = (if negative then fl_sign F else 0) + magnitude"

section \<open>Rounding\<close>

definition round_half_even :: "nat \<Rightarrow> nat \<Rightarrow> nat" where
  "round_half_even n d =
     (let q = n div d; r = n mod d in if 2 * r < d \<or> (2 * r = d \<and> even q) then q else q + 1)"

fun bit_length :: "nat \<Rightarrow> nat" where
  "bit_length n = (if n = 0 then 0 else Suc (bit_length (n div 2)))"

declare bit_length.simps [simp del]

text \<open>The magnitude nearest to \<open>n / d\<close> units, infinity when that is out of range.\<close>

definition fl_round :: "float_format \<Rightarrow> nat \<Rightarrow> nat \<Rightarrow> nat" where
  "fl_round F n d =
     (let k = bit_length (n div d) - (frac_bits F + 1) in
      min (fl_infinity F) (k * 2 ^ frac_bits F + round_half_even n (d * 2 ^ k)))"

section \<open>Arithmetic\<close>

definition fl_opposite :: "float_format \<Rightarrow> nat \<Rightarrow> nat" where
  "fl_opposite F b = fl_pack F (\<not> fl_neg F b) (fl_abs F b)"

definition fl_of_signed :: "float_format \<Rightarrow> int \<Rightarrow> nat" where
  "fl_of_signed F s = fl_pack F (s < 0) (fl_round F (nat \<bar>s\<bar>) 1)"

definition fl_add :: "float_format \<Rightarrow> nat \<Rightarrow> nat \<Rightarrow> nat" where
  "fl_add F a b =
     (if fl_is_nan F a \<or> fl_is_nan F b then fl_nan F
      else if fl_is_infinite F a then (if fl_is_infinite F b \<and> fl_neg F a \<noteq> fl_neg F b then fl_nan F else a)
      else if fl_is_infinite F b then b
      else
        let s = fl_signed F a + fl_signed F b in
        if s = 0 then fl_pack F (fl_neg F a \<and> fl_neg F b) 0 else fl_of_signed F s)"

definition fl_sub :: "float_format \<Rightarrow> nat \<Rightarrow> nat \<Rightarrow> nat" where
  "fl_sub F a b = fl_add F a (fl_opposite F b)"

definition fl_mul :: "float_format \<Rightarrow> nat \<Rightarrow> nat \<Rightarrow> nat" where
  "fl_mul F a b =
     (if fl_is_nan F a \<or> fl_is_nan F b then fl_nan F
      else if fl_is_infinite F a \<or> fl_is_infinite F b
      then (if fl_abs F a = 0 \<or> fl_abs F b = 0 then fl_nan F else fl_pack F (fl_neg F a \<noteq> fl_neg F b) (fl_infinity F))
      else fl_pack F (fl_neg F a \<noteq> fl_neg F b) (fl_round F (fl_units F a * fl_units F b) (2 ^ unit_exponent F)))"

definition fl_div :: "float_format \<Rightarrow> nat \<Rightarrow> nat \<Rightarrow> nat" where
  "fl_div F a b =
     (if fl_is_nan F a \<or> fl_is_nan F b then fl_nan F
      else if fl_is_infinite F a
      then (if fl_is_infinite F b then fl_nan F else fl_pack F (fl_neg F a \<noteq> fl_neg F b) (fl_infinity F))
      else if fl_is_infinite F b then fl_pack F (fl_neg F a \<noteq> fl_neg F b) 0
      else if fl_abs F b = 0
      then (if fl_abs F a = 0 then fl_nan F else fl_pack F (fl_neg F a \<noteq> fl_neg F b) (fl_infinity F))
      else fl_pack F (fl_neg F a \<noteq> fl_neg F b) (fl_round F (fl_units F a * 2 ^ unit_exponent F) (fl_units F b)))"

text \<open>The operator \<open>%\<close>: the remainder of truncated division, always exact.\<close>

definition fl_rem :: "float_format \<Rightarrow> nat \<Rightarrow> nat \<Rightarrow> nat" where
  "fl_rem F a b =
     (if fl_is_nan F a \<or> fl_is_nan F b \<or> fl_is_infinite F a \<or> fl_abs F b = 0 then fl_nan F
      else if fl_is_infinite F b then a
      else fl_pack F (fl_neg F a) (fl_round F (fl_units F a mod fl_units F b) 1))"

text \<open>Comparisons: a NaN compares with nothing, and the two zeros are equal.\<close>

definition fl_key :: "float_format \<Rightarrow> nat \<Rightarrow> int" where
  "fl_key F b = (if fl_neg F b then - int (fl_abs F b) else int (fl_abs F b))"

definition fl_less :: "float_format \<Rightarrow> nat \<Rightarrow> nat \<Rightarrow> bool" where
  "fl_less F a b \<longleftrightarrow> \<not> fl_is_nan F a \<and> \<not> fl_is_nan F b \<and> fl_key F a < fl_key F b"

definition fl_less_eq :: "float_format \<Rightarrow> nat \<Rightarrow> nat \<Rightarrow> bool" where
  "fl_less_eq F a b \<longleftrightarrow> \<not> fl_is_nan F a \<and> \<not> fl_is_nan F b \<and> fl_key F a \<le> fl_key F b"

definition fl_equal :: "float_format \<Rightarrow> nat \<Rightarrow> nat \<Rightarrow> bool" where
  "fl_equal F a b \<longleftrightarrow> \<not> fl_is_nan F a \<and> \<not> fl_is_nan F b \<and> fl_key F a = fl_key F b"

section \<open>Conversions\<close>

definition fl_of_int :: "float_format \<Rightarrow> int \<Rightarrow> nat" where
  "fl_of_int F z = fl_of_signed F (z * 2 ^ unit_exponent F)"

definition fl_truncate :: "float_format \<Rightarrow> nat \<Rightarrow> int" where
  "fl_truncate F b =
     (let t = int (fl_units F b div 2 ^ unit_exponent F) in if fl_neg F b then - t else t)"

text \<open>The cast \<open>as\<close> to an integer type: toward zero, saturating, NaN to 0.\<close>

definition fl_to_int :: "float_format \<Rightarrow> int \<Rightarrow> int \<Rightarrow> nat \<Rightarrow> int" where
  "fl_to_int F lo hi b =
     (if fl_is_nan F b then 0
      else if fl_is_infinite F b then (if fl_neg F b then lo else hi)
      else max lo (min hi (fl_truncate F b)))"

definition fl_floor :: "float_format \<Rightarrow> nat \<Rightarrow> nat" where
  "fl_floor F b =
     (if fl_is_finite F b then
        let z = fl_signed F b div 2 ^ unit_exponent F in
        if z = 0 then fl_pack F (fl_neg F b) 0 else fl_of_int F z
      else b)"

definition fl_ceil :: "float_format \<Rightarrow> nat \<Rightarrow> nat" where
  "fl_ceil F b = fl_opposite F (fl_floor F (fl_opposite F b))"

definition fl_trunc :: "float_format \<Rightarrow> nat \<Rightarrow> nat" where
  "fl_trunc F b =
     (if fl_is_finite F b
      then fl_pack F (fl_neg F b) (fl_round F (fl_units F b div 2 ^ unit_exponent F * 2 ^ unit_exponent F) 1)
      else b)"

definition fl_convert :: "float_format \<Rightarrow> float_format \<Rightarrow> nat \<Rightarrow> nat" where
  "fl_convert F G b =
     (if fl_is_nan F b then fl_nan G
      else if fl_is_infinite F b then fl_pack G (fl_neg F b) (fl_infinity G)
      else fl_pack G (fl_neg F b)
        (fl_round G (fl_units F b * 2 ^ unit_exponent G) (2 ^ unit_exponent F)))"

section \<open>The two types\<close>

type_synonym f32 = u32
type_synonym f64 = u64

definition f32_op :: "(float_format \<Rightarrow> nat \<Rightarrow> nat \<Rightarrow> nat) \<Rightarrow> f32 \<Rightarrow> f32 \<Rightarrow> f32" where
  "f32_op f a b = of_nat (f Binary32 (unat a) (unat b))"

definition f64_op :: "(float_format \<Rightarrow> nat \<Rightarrow> nat \<Rightarrow> nat) \<Rightarrow> f64 \<Rightarrow> f64 \<Rightarrow> f64" where
  "f64_op f a b = of_nat (f Binary64 (unat a) (unat b))"

definition f32_is_finite :: "f32 \<Rightarrow> bool" where "f32_is_finite x = fl_is_finite Binary32 (unat x)"
definition f32_less :: "f32 \<Rightarrow> f32 \<Rightarrow> bool" where "f32_less a b = fl_less Binary32 (unat a) (unat b)"
definition f32_less_eq :: "f32 \<Rightarrow> f32 \<Rightarrow> bool" where "f32_less_eq a b = fl_less_eq Binary32 (unat a) (unat b)"
definition f32_add :: "f32 \<Rightarrow> f32 \<Rightarrow> f32" where "f32_add = f32_op fl_add"
definition f32_sub :: "f32 \<Rightarrow> f32 \<Rightarrow> f32" where "f32_sub = f32_op fl_sub"
definition f32_mul :: "f32 \<Rightarrow> f32 \<Rightarrow> f32" where "f32_mul = f32_op fl_mul"
definition f32_div :: "f32 \<Rightarrow> f32 \<Rightarrow> f32" where "f32_div = f32_op fl_div"
definition f32_rem :: "f32 \<Rightarrow> f32 \<Rightarrow> f32" where "f32_rem = f32_op fl_rem"
definition f32_abs :: "f32 \<Rightarrow> f32" where "f32_abs x = of_nat (fl_abs Binary32 (unat x))"
definition f32_equal :: "f32 \<Rightarrow> f32 \<Rightarrow> bool" where "f32_equal a b = fl_equal Binary32 (unat a) (unat b)"
definition f32_of_int :: "int \<Rightarrow> f32" where "f32_of_int z = of_nat (fl_of_int Binary32 z)"
definition f32_trunc :: "f32 \<Rightarrow> f32" where "f32_trunc x = of_nat (fl_trunc Binary32 (unat x))"
definition f32_fract :: "f32 \<Rightarrow> f32" where "f32_fract x = f32_sub x (f32_trunc x)"
definition f32_to_i32 :: "f32 \<Rightarrow> int" where "f32_to_i32 x = fl_to_int Binary32 (- (2 ^ 31)) (2 ^ 31 - 1) (unat x)"

definition f64_is_finite :: "f64 \<Rightarrow> bool" where "f64_is_finite x = fl_is_finite Binary64 (unat x)"
definition f64_less :: "f64 \<Rightarrow> f64 \<Rightarrow> bool" where "f64_less a b = fl_less Binary64 (unat a) (unat b)"
definition f64_less_eq :: "f64 \<Rightarrow> f64 \<Rightarrow> bool" where "f64_less_eq a b = fl_less_eq Binary64 (unat a) (unat b)"
definition f64_equal :: "f64 \<Rightarrow> f64 \<Rightarrow> bool" where "f64_equal a b = fl_equal Binary64 (unat a) (unat b)"
definition f64_add :: "f64 \<Rightarrow> f64 \<Rightarrow> f64" where "f64_add = f64_op fl_add"
definition f64_sub :: "f64 \<Rightarrow> f64 \<Rightarrow> f64" where "f64_sub = f64_op fl_sub"
definition f64_mul :: "f64 \<Rightarrow> f64 \<Rightarrow> f64" where "f64_mul = f64_op fl_mul"
definition f64_div :: "f64 \<Rightarrow> f64 \<Rightarrow> f64" where "f64_div = f64_op fl_div"
definition f64_abs :: "f64 \<Rightarrow> f64" where "f64_abs x = of_nat (fl_abs Binary64 (unat x))"
definition f64_of_int :: "int \<Rightarrow> f64" where "f64_of_int z = of_nat (fl_of_int Binary64 z)"
definition f32_to_f64 :: "f32 \<Rightarrow> f64" where "f32_to_f64 x = of_nat (fl_convert Binary32 Binary64 (unat x))"
definition f64_to_f32 :: "f64 \<Rightarrow> f32" where "f64_to_f32 x = of_nat (fl_convert Binary64 Binary32 (unat x))"

text \<open>\<open>f32::clamp\<close> and \<open>f64::clamp\<close>, whose bounds are numbers in order in every call of the code.\<close>

definition f32_clamp :: "f32 \<Rightarrow> f32 \<Rightarrow> f32 \<Rightarrow> f32" where
  "f32_clamp lo hi x = (let y = (if f32_less x lo then lo else x) in if f32_less hi y then hi else y)"

definition f64_clamp :: "f64 \<Rightarrow> f64 \<Rightarrow> f64 \<Rightarrow> f64" where
  "f64_clamp lo hi x = (let y = (if f64_less x lo then lo else x) in if f64_less hi y then hi else y)"

definition f32_rem_euclid :: "f32 \<Rightarrow> f32 \<Rightarrow> f32" where
  "f32_rem_euclid x y = (let r = f32_rem x y in if f32_less r 0 then f32_add r (f32_abs y) else r)"

section \<open>More of \<open>f64\<close>\<close>

text \<open>A literal: \<open>n\<close> with the point before its last \<open>k\<close> digits, rounded.\<close>

definition f64_literal :: "int \<Rightarrow> nat \<Rightarrow> f64" where
  "f64_literal n k = of_nat (fl_pack Binary64 (n < 0) (fl_round Binary64 (nat \<bar>n\<bar> * 2 ^ unit_exponent Binary64) (10 ^ k)))"

definition f64_neg :: "f64 \<Rightarrow> f64" where "f64_neg x = of_nat (fl_opposite Binary64 (unat x))"

text \<open>\<open>min\<close> and \<open>max\<close> return the number when the other is none; of two equal zeros, which is open, the first.\<close>

definition f64_min :: "f64 \<Rightarrow> f64 \<Rightarrow> f64" where
  "f64_min a b = (if fl_is_nan Binary64 (unat a) then b else if f64_less b a then b else a)"

definition f64_max :: "f64 \<Rightarrow> f64 \<Rightarrow> f64" where
  "f64_max a b = (if fl_is_nan Binary64 (unat a) then b else if f64_less a b then b else a)"

definition f64_signum :: "f64 \<Rightarrow> f64" where
  "f64_signum x = (if fl_is_nan Binary64 (unat x) then of_nat (fl_nan Binary64)
     else if fl_neg Binary64 (unat x) then f64_of_int (- 1) else f64_of_int 1)"

definition f64_floor :: "f64 \<Rightarrow> f64" where "f64_floor x = of_nat (fl_floor Binary64 (unat x))"
definition f64_ceil :: "f64 \<Rightarrow> f64" where "f64_ceil x = of_nat (fl_ceil Binary64 (unat x))"

definition f64_to_i32 :: "f64 \<Rightarrow> int" where
  "f64_to_i32 x = fl_to_int Binary64 (- (2 ^ 31)) (2 ^ 31 - 1) (unat x)"

text \<open>\<open>mul_add\<close>: the product and the sum, rounded once.\<close>

definition fl_mul_add :: "float_format \<Rightarrow> nat \<Rightarrow> nat \<Rightarrow> nat \<Rightarrow> nat" where
  "fl_mul_add F a b c =
     (let negative = fl_neg F a \<noteq> fl_neg F b in
      if fl_is_nan F a \<or> fl_is_nan F b \<or> fl_is_nan F c then fl_nan F
      else if fl_is_infinite F a \<or> fl_is_infinite F b
      then (if fl_abs F a = 0 \<or> fl_abs F b = 0 \<or> (fl_is_infinite F c \<and> fl_neg F c \<noteq> negative) then fl_nan F
            else fl_pack F negative (fl_infinity F))
      else if fl_is_infinite F c then c
      else
        let s = fl_signed F a * fl_signed F b + fl_signed F c * 2 ^ unit_exponent F in
        if s = 0 then fl_pack F (negative \<and> fl_neg F c) 0
        else fl_pack F (s < 0) (fl_round F (nat \<bar>s\<bar>) (2 ^ unit_exponent F)))"

definition f64_mul_add :: "f64 \<Rightarrow> f64 \<Rightarrow> f64 \<Rightarrow> f64" where
  "f64_mul_add a b c = of_nat (fl_mul_add Binary64 (unat a) (unat b) (unat c))"

definition f64_infinity :: f64 where "f64_infinity = of_nat (fl_infinity Binary64)"
definition F64_EPSILON :: f64 where "F64_EPSILON = f64_div (f64_of_int 1) (f64_of_int (2 ^ 52))"

text \<open>What the platform computes: the standard library does not say how \<open>sin\<close>, \<open>cos\<close>, \<open>hypot\<close> and \<open>powi\<close> round.\<close>

record float_library =
  lib_sin :: "f64 \<Rightarrow> f64"
  lib_cos :: "f64 \<Rightarrow> f64"
  lib_hypot :: "f64 \<Rightarrow> f64 \<Rightarrow> f64"
  lib_powi :: "f64 \<Rightarrow> int \<Rightarrow> f64"

text \<open>The constant \<open>PI / 180\<close> of \<open>f64::to_radians\<close>.\<close>

definition RADIANS_PER_DEGREE :: f64 where "RADIANS_PER_DEGREE = 0x3f91df46a2529d39"

definition to_radians :: "f64 \<Rightarrow> f64" where "to_radians x = f64_mul x RADIANS_PER_DEGREE"

text \<open>The arithmetic of \<open>i32\<close>, which wraps in a release build and panics in a debug build.\<close>

definition i32_wrap :: "int \<Rightarrow> int" where "i32_wrap z = (z + 2 ^ 31) mod 2 ^ 32 - 2 ^ 31"

definition i64_saturate :: "int \<Rightarrow> int" where "i64_saturate z = max (- (2 ^ 63)) (min (2 ^ 63 - 1) z)"

end
