(* ===== verification/Entity_Store.thy ===== *)
theory Entity_Store
  imports Item_Stack Ieee
begin

text \<open>
  \<open>cubic-world/src/entity.rs\<close>: remote entities with their metadata, and the store that hands out
  handles of slot and generation. Slots, ids of blocks and enumerations are naturals, protocol ids
  integers, generations \<open>u64\<close> words that wrap. The sizes of two Rust types are the parameters
  \<open>entity_sizes\<close>; sums of the lengths of values in memory do not reach \<open>2 ^ 64\<close>.
\<close>

definition MAX_REMOTE_ENTITIES :: nat where "MAX_REMOTE_ENTITIES = 4096"
definition ENTITY_INTERPOLATION_MILLIS :: nat where "ENTITY_INTERPOLATION_MILLIS = 150"
definition MAX_ENTITY_METADATA_RETAINED_BYTES :: nat where "MAX_ENTITY_METADATA_RETAINED_BYTES = 128 * 1024"

text \<open>\<open>cubic-core/src/chat.rs\<close>.\<close>

datatype structured_text =
    Text_String rust_str
  | Text_Number f64
  | Text_Boolean bool
  | Text_List "structured_text list"
  | Text_Compound "(rust_str \<times> structured_text) list"
  | Text_Unsupported

record vec3d =
  vec_x :: f64
  vec_y :: f64
  vec_z :: f64

definition vec3d_new :: "f64 \<Rightarrow> f64 \<Rightarrow> f64 \<Rightarrow> vec3d" where
  "vec3d_new x y z = \<lparr>vec_x = x, vec_y = y, vec_z = z\<rparr>"

definition vec3d_is_finite :: "vec3d \<Rightarrow> bool" where
  "vec3d_is_finite v = (f64_is_finite (vec_x v) \<and> f64_is_finite (vec_y v) \<and> f64_is_finite (vec_z v))"

record entity_handle =
  handle_slot :: nat
  handle_generation :: u64

record entity_transform =
  transform_position :: vec3d
  transform_yaw :: f32
  transform_pitch :: f32
  transform_head_yaw :: f32

definition transform_is_finite :: "entity_transform \<Rightarrow> bool" where
  "transform_is_finite t =
     (vec3d_is_finite (transform_position t) \<and> f32_is_finite (transform_yaw t) \<and>
      f32_is_finite (transform_pitch t) \<and> f32_is_finite (transform_head_yaw t))"

section \<open>Metadata\<close>

type_synonym block_properties = "(rust_str, rust_str) btree_map"
type_synonym rich_text = "rust_str \<times> structured_text \<times> u8 list"

datatype particle_data =
    Particle_None
  | Particle_BlockState nat rust_str block_properties
  | Particle_Float f32
  | Particle_Int int
  | Particle_ColorAndFloat int f32
  | Particle_Dust int f32
  | Particle_DustTransition int int f32
  | Particle_Item item_stack
  | Particle_VibrationBlock "int list" int
  | Particle_VibrationEntity int f32 int
  | Particle_Trail "f64 list" int int

record metadata_particle =
  particle_kind :: rust_str
  particle_payload :: particle_data

record metadata_profile =
  profile_name :: "rust_str option"
  profile_uuid :: "u8 list option"
  profile_properties :: "(rust_str \<times> rust_str \<times> rust_str option) list"
  profile_skin :: "rust_str option list"
  profile_slim :: "bool option"

datatype metadata_value =
    Meta_Byte int
  | Meta_Integer int
  | Meta_Long int
  | Meta_Float f32
  | Meta_String rust_str
  | Meta_Boolean bool
  | Meta_Component rust_str structured_text "u8 list"
  | Meta_OptionalComponent "rich_text option"
  | Meta_ItemStack "item_stack option"
  | Meta_Rotations "f32 list"
  | Meta_BlockPos "int list"
  | Meta_OptionalBlockPos "int list option"
  | Meta_Direction nat
  | Meta_LivingEntityReference "u8 list option"
  | Meta_BlockState nat rust_str block_properties
  | Meta_OptionalBlockState "(nat \<times> rust_str \<times> block_properties) option"
  | Meta_Particle metadata_particle
  | Meta_Particles "metadata_particle list"
  | Meta_VillagerData rust_str rust_str int
  | Meta_OptionalUnsignedInt "nat option"
  | Meta_Pose nat rust_str
  | Meta_RegistryHolder nat rust_str rust_str
  | Meta_GlobalPos "(rust_str \<times> int list) option"
  | Meta_DirectPainting int int rust_str "rich_text option" "rich_text option"
  | Meta_EnumState nat nat rust_str
  | Meta_Vector3 "f32 list"
  | Meta_Quaternion "f32 list"
  | Meta_ResolvableProfile metadata_profile

fun serializer_id :: "metadata_value \<Rightarrow> nat" where
  "serializer_id (Meta_Byte _) = 0"
| "serializer_id (Meta_Integer _) = 1"
| "serializer_id (Meta_Long _) = 2"
| "serializer_id (Meta_Float _) = 3"
| "serializer_id (Meta_String _) = 4"
| "serializer_id (Meta_Component _ _ _) = 5"
| "serializer_id (Meta_OptionalComponent _) = 6"
| "serializer_id (Meta_ItemStack _) = 7"
| "serializer_id (Meta_Boolean _) = 8"
| "serializer_id (Meta_Rotations _) = 9"
| "serializer_id (Meta_BlockPos _) = 10"
| "serializer_id (Meta_OptionalBlockPos _) = 11"
| "serializer_id (Meta_Direction _) = 12"
| "serializer_id (Meta_LivingEntityReference _) = 13"
| "serializer_id (Meta_BlockState _ _ _) = 14"
| "serializer_id (Meta_OptionalBlockState _) = 15"
| "serializer_id (Meta_Particle _) = 16"
| "serializer_id (Meta_Particles _) = 17"
| "serializer_id (Meta_VillagerData _ _ _) = 18"
| "serializer_id (Meta_OptionalUnsignedInt _) = 19"
| "serializer_id (Meta_Pose _ _) = 20"
| "serializer_id (Meta_RegistryHolder i _ _) = i"
| "serializer_id (Meta_GlobalPos _) = 33"
| "serializer_id (Meta_DirectPainting _ _ _ _ _) = 34"
| "serializer_id (Meta_EnumState i _ _) = i"
| "serializer_id (Meta_Vector3 _) = 39"
| "serializer_id (Meta_Quaternion _) = 40"
| "serializer_id (Meta_ResolvableProfile _) = 41"

record entity_sizes =
  size_of_metadata_value :: nat
  size_of_metadata_particle :: nat

definition item_bytes :: "item_stack \<Rightarrow> nat" where
  "item_bytes s =
     length (item s) + sum_list (map (\<lambda>(i, v). length i + retained_bytes v) (added (components s))) +
     sum_list (map length (removed (components s)))"

definition properties_bytes :: "block_properties \<Rightarrow> nat" where
  "properties_bytes ps = sum_list (map (\<lambda>(k, v). str_len k + str_len v) ps)"

definition rich_text_bytes :: "rich_text option \<Rightarrow> nat" where
  "rich_text_bytes t = (case t of None \<Rightarrow> 0 | Some (plain, _, wire) \<Rightarrow> str_len plain + length wire)"

definition opt_str_len :: "rust_str option \<Rightarrow> nat" where
  "opt_str_len s = (case s of None \<Rightarrow> 0 | Some t \<Rightarrow> str_len t)"

definition particle_bytes :: "entity_sizes \<Rightarrow> metadata_particle \<Rightarrow> nat" where
  "particle_bytes sz p =
     size_of_metadata_particle sz + str_len (particle_kind p) +
     (case particle_payload p of
        Particle_BlockState _ block ps \<Rightarrow> str_len block + properties_bytes ps
      | Particle_Item s \<Rightarrow> item_bytes s
      | _ \<Rightarrow> 0)"

definition metadata_extra :: "entity_sizes \<Rightarrow> metadata_value \<Rightarrow> nat" where
  "metadata_extra sz v =
     (case v of
        Meta_String s \<Rightarrow> str_len s
      | Meta_Component plain _ wire \<Rightarrow> str_len plain + length wire
      | Meta_OptionalComponent t \<Rightarrow> rich_text_bytes t
      | Meta_ItemStack s \<Rightarrow> (case s of None \<Rightarrow> 0 | Some i \<Rightarrow> item_bytes i)
      | Meta_BlockState _ block ps \<Rightarrow> str_len block + properties_bytes ps
      | Meta_OptionalBlockState b \<Rightarrow>
          (case b of None \<Rightarrow> 0 | Some (_, block, ps) \<Rightarrow> str_len block + properties_bytes ps)
      | Meta_Particle p \<Rightarrow> particle_bytes sz p
      | Meta_Particles ps \<Rightarrow> sum_list (map (particle_bytes sz) ps)
      | Meta_VillagerData kind profession _ \<Rightarrow> str_len kind + str_len profession
      | Meta_Pose _ name \<Rightarrow> str_len name
      | Meta_EnumState _ _ name \<Rightarrow> str_len name
      | Meta_RegistryHolder _ registry identifier \<Rightarrow> str_len registry + str_len identifier
      | Meta_GlobalPos g \<Rightarrow> (case g of None \<Rightarrow> 0 | Some (dimension, _) \<Rightarrow> str_len dimension)
      | Meta_DirectPainting _ _ asset title author \<Rightarrow> str_len asset + rich_text_bytes title + rich_text_bytes author
      | Meta_ResolvableProfile p \<Rightarrow>
          opt_str_len (profile_name p) +
          sum_list (map (\<lambda>(name, v, signature). str_len name + str_len v + opt_str_len signature) (profile_properties p)) +
          sum_list (map opt_str_len (profile_skin p))
      | _ \<Rightarrow> 0)"

definition metadata_retained_bytes :: "entity_sizes \<Rightarrow> metadata_value \<Rightarrow> nat" where
  "metadata_retained_bytes sz v = saturating_add (size_of_metadata_value sz) (metadata_extra sz v)"

section \<open>Entities\<close>

record attribute_modifier =
  modifier_amount :: f64
  modifier_operation :: nat

record entity_attribute =
  attribute_base :: f64
  attribute_modifiers :: "(rust_str, attribute_modifier) btree_map"

record entity =
  entity_id :: int
  entity_uuid :: "u8 list"
  entity_type :: rust_str
  authoritative :: entity_transform
  velocity :: vec3d
  spawn_data :: int
  metadata :: "(nat, metadata_value) btree_map"
  attributes :: "(rust_str, entity_attribute) btree_map"

datatype entity_error =
    EntityCapacity
  | EntityNonFinite
  | EntityInvalidType
  | MetadataCapacity nat nat

definition metadata_total :: "entity_sizes \<Rightarrow> entity \<Rightarrow> nat" where
  "metadata_total sz e = sum_list (map (\<lambda>(_, v). metadata_retained_bytes sz v) (metadata e))"

definition set_metadata :: "entity_sizes \<Rightarrow> nat \<Rightarrow> metadata_value \<Rightarrow> (entity, entity_error, unit) fallible" where
  "set_metadata sz accessor v e =
     (let previous = (case bt_get accessor (metadata e) of None \<Rightarrow> 0 | Some p \<Rightarrow> metadata_retained_bytes sz p);
          new = saturating_add (metadata_total sz e - previous) (metadata_retained_bytes sz v) in
      if MAX_ENTITY_METADATA_RETAINED_BYTES < new
      then (Inl (MetadataCapacity new MAX_ENTITY_METADATA_RETAINED_BYTES), e)
      else (Inr (), e\<lparr>metadata := bt_insert accessor v (metadata e)\<rparr>))"

section \<open>The store\<close>

record entity_slot =
  slot_generation :: u64
  slot_entity :: "entity option"
  slot_previous :: entity_transform
  slot_target_at_ms :: nat

record entity_store =
  entity_slots :: "entity_slot list"
  by_id :: "(int, entity_handle) btree_map"
  free_slots :: "nat list"

definition entity_store_new :: entity_store where
  "entity_store_new = \<lparr>entity_slots = [], by_id = [], free_slots = []\<rparr>"

definition store_len :: "entity_store \<Rightarrow> nat" where
  "store_len s = bt_len (by_id s)"

definition store_handle :: "int \<Rightarrow> entity_store \<Rightarrow> entity_handle option" where
  "store_handle i s = bt_get i (by_id s)"

definition store_get :: "entity_handle \<Rightarrow> entity_store \<Rightarrow> entity option" where
  "store_get h s =
     (if length (entity_slots s) \<le> handle_slot h then None
      else let slot = entity_slots s ! handle_slot h in
        if slot_generation slot \<noteq> handle_generation h then None else slot_entity slot)"

text \<open>\<open>get_mut\<close> with a change of the entity it borrows.\<close>

definition store_modify :: "entity_handle \<Rightarrow> (entity \<Rightarrow> entity) \<Rightarrow> entity_store \<Rightarrow> bool \<times> entity_store" where
  "store_modify h f s =
     (case store_get h s of
        None \<Rightarrow> (False, s)
      | Some e \<Rightarrow>
          (True, s\<lparr>entity_slots := (entity_slots s)
             [handle_slot h := (entity_slots s ! handle_slot h)\<lparr>slot_entity := Some (f e)\<rparr>]\<rparr>))"

definition store_remove :: "int \<Rightarrow> entity_store \<Rightarrow> bool \<times> entity_store" where
  "store_remove i s =
     (case bt_get i (by_id s) of
        None \<Rightarrow> (False, s)
      | Some h \<Rightarrow>
          let s' = s\<lparr>by_id := bt_remove i (by_id s)\<rparr>; k = handle_slot h in
          (True,
           if k < length (entity_slots s) then
             s'\<lparr>entity_slots := (entity_slots s)
                  [k := (entity_slots s ! k)\<lparr>slot_entity := None, slot_generation := slot_generation (entity_slots s ! k) + 1\<rparr>],
                free_slots := free_slots s @ [k]\<rparr>
           else s'))"

text \<open>The slot of a new entity: the last freed one, or a fresh one within the capacity.\<close>

definition take_slot :: "entity_transform \<Rightarrow> nat \<Rightarrow> entity_store \<Rightarrow> (nat \<times> entity_store) option" where
  "take_slot t at_ms s =
     (if free_slots s \<noteq> [] then Some (last (free_slots s), s\<lparr>free_slots := butlast (free_slots s)\<rparr>)
      else if MAX_REMOTE_ENTITIES \<le> length (entity_slots s) then None
      else Some (length (entity_slots s),
        s\<lparr>entity_slots := entity_slots s @
            [\<lparr>slot_generation = 0, slot_entity = None, slot_previous = t, slot_target_at_ms = at_ms\<rparr>]\<rparr>))"

definition spawn_refused :: "entity \<Rightarrow> entity_error option" where
  "spawn_refused e =
     (if \<not> transform_is_finite (authoritative e) \<or> \<not> vec3d_is_finite (velocity e) then Some EntityNonFinite
      else if 256 < str_len (entity_type e) \<or> of_char (CHR '':'') \<notin> set (entity_type e) then Some EntityInvalidType
      else None)"

definition fill_slot :: "entity \<Rightarrow> nat \<Rightarrow> nat \<Rightarrow> (entity_store, entity_error, entity_handle) fallible" where
  "fill_slot e at_ms k s =
     (if length (entity_slots s) \<le> k then (Inl EntityCapacity, s)
      else
        let slot = (entity_slots s ! k)\<lparr>slot_previous := authoritative e, slot_target_at_ms := at_ms, slot_entity := Some e\<rparr>;
            h = \<lparr>handle_slot = k, handle_generation = slot_generation slot\<rparr> in
        (Inr h, s\<lparr>entity_slots := (entity_slots s)[k := slot], by_id := bt_insert (entity_id e) h (by_id s)\<rparr>))"

definition store_spawn :: "entity \<Rightarrow> nat \<Rightarrow> (entity_store, entity_error, entity_handle) fallible" where
  "store_spawn e at_ms s =
     (case spawn_refused e of
        Some err \<Rightarrow> (Inl err, s)
      | None \<Rightarrow>
          let s1 = snd (store_remove (entity_id e) s) in
          (case take_slot (authoritative e) at_ms s1 of
             None \<Rightarrow> (Inl EntityCapacity, s1)
           | Some (k, s2) \<Rightarrow> fill_slot e at_ms k s2))"

definition store_clear :: "entity_store \<Rightarrow> entity_store" where
  "store_clear s = fold (\<lambda>i s. snd (store_remove i s)) (map fst (by_id s)) s"

section \<open>Movement and interpolation\<close>

text \<open>The constants 64.0, 1.0 and 150.0 of \<open>f64\<close>, 180.0 and 360.0 of \<open>f32\<close>.\<close>

definition f64_64 :: f64 where "f64_64 = 0x4050000000000000"
definition f64_1 :: f64 where "f64_1 = 0x3ff0000000000000"
definition f32_180 :: f32 where "f32_180 = 0x43340000"
definition f32_360 :: f32 where "f32_360 = 0x43b40000"

text \<open>A move of more than eight blocks is not interpolated.\<close>

definition moved_far :: "vec3d \<Rightarrow> vec3d \<Rightarrow> bool" where
  "moved_far old new =
     (let dx = f64_sub (vec_x new) (vec_x old); dy = f64_sub (vec_y new) (vec_y old); dz = f64_sub (vec_z new) (vec_z old) in
      f64_less f64_64 (f64_add (f64_add (f64_mul dx dx) (f64_mul dy dy)) (f64_mul dz dz)))"

definition update_transform ::
  "int \<Rightarrow> entity_transform \<Rightarrow> nat \<Rightarrow> bool \<Rightarrow> (entity_store, entity_error, bool) fallible" where
  "update_transform i new at_ms teleport s =
     (if \<not> transform_is_finite new then (Inl EntityNonFinite, s)
      else case store_handle i s of
        None \<Rightarrow> (Inr False, s)
      | Some h \<Rightarrow>
          let k = handle_slot h in
          if length (entity_slots s) \<le> k then (Inr False, s)
          else case slot_entity (entity_slots s ! k) of
            None \<Rightarrow> (Inr False, s)
          | Some e \<Rightarrow>
              let old = authoritative e;
                  snap = (teleport \<or> moved_far (transform_position old) (transform_position new)) in
              (Inr True, s\<lparr>entity_slots := (entity_slots s)[k := (entity_slots s ! k)
                 \<lparr>slot_previous := (if snap then new else old), slot_target_at_ms := at_ms,
                  slot_entity := Some (e\<lparr>authoritative := new\<rparr>)\<rparr>]\<rparr>))"

definition lerp :: "f64 \<Rightarrow> f64 \<Rightarrow> f64 \<Rightarrow> f64" where
  "lerp t a b = f64_add a (f64_mul (f64_sub b a) t)"

definition lerp_angle :: "f64 \<Rightarrow> f32 \<Rightarrow> f32 \<Rightarrow> f32" where
  "lerp_angle t a b =
     (let difference = f32_sub (f32_rem_euclid (f32_add (f32_sub b a) f32_180) f32_360) f32_180 in
      f32_add a (f32_mul difference (f64_to_f32 t)))"

definition interpolation_factor :: "nat \<Rightarrow> nat \<Rightarrow> f64" where
  "interpolation_factor now_ms target_at_ms =
     f64_clamp 0 f64_1 (f64_div (f64_of_int (int (now_ms - target_at_ms))) (f64_of_int (int ENTITY_INTERPOLATION_MILLIS)))"

definition lerp_transform :: "f64 \<Rightarrow> entity_transform \<Rightarrow> entity_transform \<Rightarrow> entity_transform" where
  "lerp_transform t p q =
     \<lparr>transform_position = vec3d_new
        (lerp t (vec_x (transform_position p)) (vec_x (transform_position q)))
        (lerp t (vec_y (transform_position p)) (vec_y (transform_position q)))
        (lerp t (vec_z (transform_position p)) (vec_z (transform_position q))),
      transform_yaw = lerp_angle t (transform_yaw p) (transform_yaw q),
      transform_pitch = lerp_angle t (transform_pitch p) (transform_pitch q),
      transform_head_yaw = lerp_angle t (transform_head_yaw p) (transform_head_yaw q)\<rparr>"

definition render_transform :: "entity_handle \<Rightarrow> nat \<Rightarrow> entity_store \<Rightarrow> entity_transform option" where
  "render_transform h now_ms s =
     (case store_get h s of
        None \<Rightarrow> None
      | Some e \<Rightarrow>
          let slot = entity_slots s ! handle_slot h;
              t = interpolation_factor now_ms (slot_target_at_ms slot) in
          if f64_less_eq f64_1 t then Some (authoritative e)
          else Some (lerp_transform t (slot_previous slot) (authoritative e)))"

definition store_snapshot :: "nat \<Rightarrow> entity_store \<Rightarrow> (entity_handle \<times> entity \<times> entity_transform) list" where
  "store_snapshot now_ms s =
     List.map_filter (\<lambda>(_, h). case store_get h s of
        None \<Rightarrow> None
      | Some e \<Rightarrow> (case render_transform h now_ms s of None \<Rightarrow> None | Some t \<Rightarrow> Some (h, e, t))) (by_id s)"

end
