(* ===== verification/World_Model.thy ===== *)
theory World_Model
  imports World_Chunk Entity_Store
begin

text \<open>
  \<open>cubic-world/src/model.rs\<close>: what the events of the server carry and what a session in a world holds.
  Raw ids and counts are naturals, block coordinates (\<open>i32\<close>) and ticks integers.
\<close>

datatype game_mode = Survival | Creative | Adventure | Spectator | Other_Mode int
datatype difficulty = Peaceful | Easy | Normal | Hard | Other_Difficulty nat

record dimension_type_reference =
  reference_registry :: minecraft_identifier
  reference_raw_id :: nat

record dimension_geometry =
  min_y :: int
  height :: nat

text \<open>Rust's \<open>/\<close> on a signed number truncates.\<close>

definition min_section_y :: "dimension_geometry \<Rightarrow> int" where
  "min_section_y g = (if min_y g < 0 then - (- min_y g div 16) else min_y g div 16)"

definition section_count :: "dimension_geometry \<Rightarrow> nat" where
  "section_count g = height g div 16"

record runtime_dimension_type =
  dimension_raw_id :: nat
  dimension_identifier :: minecraft_identifier
  dimension_type_geometry :: dimension_geometry

datatype grass_color_modifier = No_Modifier | DarkForest | Swamp

record runtime_biome =
  biome_raw_id :: nat
  biome_identifier :: minecraft_identifier
  biome_temperature :: f32
  biome_downfall :: f32
  biome_water_color :: nat
  biome_foliage_color :: "nat option"
  biome_dry_foliage_color :: "nat option"
  biome_grass_color :: "nat option"
  biome_grass_color_modifier :: grass_color_modifier

record block_coordinates =
  block_x :: int
  block_y :: int
  block_z :: int

record block_state_update =
  update_position :: block_coordinates
  update_state :: nat

record last_death_location =
  death_dimension :: minecraft_identifier
  death_position :: block_coordinates

record spawn_context =
  context_dimension_type :: dimension_type_reference
  context_dimension :: minecraft_identifier
  context_hashed_seed :: int
  context_game_mode :: game_mode
  context_previous_game_mode :: "game_mode option"
  context_debug_world :: bool
  context_flat_world :: bool
  context_last_death :: "last_death_location option"
  context_portal_cooldown :: nat
  context_sea_level :: int

record enter_world =
  enter_player_entity_id :: int
  enter_hardcore :: bool
  enter_known_dimensions :: "minecraft_identifier list"
  enter_max_players :: nat
  enter_view_distance :: nat
  enter_simulation_distance :: nat
  enter_reduced_debug_info :: bool
  enter_show_death_screen :: bool
  enter_limited_crafting :: bool
  enter_secure_chat_enforced :: bool
  enter_spawn :: spawn_context

record authoritative_rotation =
  rotation_yaw :: f32
  rotation_pitch :: f32

datatype respawn_rotation = Preserve | Reset authoritative_rotation

record respawn =
  respawn_spawn :: spawn_context
  respawn_keep_attribute_modifiers :: bool
  respawn_keep_entity_data :: bool
  respawn_new_rotation :: respawn_rotation

record relative_transform_flags =
  relative_x :: bool
  relative_y :: bool
  relative_z :: bool
  relative_yaw :: bool
  relative_pitch :: bool

record player_position_update =
  position_teleport_id :: int
  position_x :: f64
  position_y :: f64
  position_z :: f64
  position_yaw :: f32
  position_pitch :: f32
  position_relative :: relative_transform_flags

record player_rotation_update =
  update_yaw :: f32
  update_pitch :: f32
  update_relative_yaw :: bool
  update_relative_pitch :: bool

record authoritative_transform =
  at_x :: f64
  at_y :: f64
  at_z :: f64
  at_yaw :: f32
  at_pitch :: f32
  at_teleport_id :: int

record spawn_point =
  spawn_dimension :: minecraft_identifier
  spawn_position :: block_coordinates
  spawn_yaw :: f32
  spawn_pitch :: f32

record clock_state =
  clock_type_raw_id :: nat
  clock_total_ticks :: int
  clock_partial_tick :: f32
  clock_rate :: f32

record world_time =
  game_time :: int
  clocks :: "clock_state list"

record weather_state =
  raining :: bool
  rain_level :: f32
  thunder_level :: f32

definition weather_default :: weather_state where
  "weather_default = \<lparr>raining = False, rain_level = 0, thunder_level = 0\<rparr>"

record world_border =
  border_center_x :: f64
  border_center_z :: f64
  border_old_diameter :: f64
  border_new_diameter :: f64
  border_lerp_millis :: nat
  border_absolute_max_size :: nat
  border_warning_blocks :: nat
  border_warning_seconds :: nat

record registry_summary =
  summary_registry :: minecraft_identifier
  summary_entry_count :: nat

type_synonym registry_snapshot = "registry_summary list"

record world_session =
  player_entity_id :: int
  hardcore :: bool
  known_dimensions :: "minecraft_identifier list"
  max_players :: nat
  view_distance :: nat
  simulation_distance :: nat
  reduced_debug_info :: bool
  show_death_screen :: bool
  limited_crafting :: bool
  secure_chat_enforced :: bool
  session_context :: spawn_context
  session_geometry :: dimension_geometry
  session_position :: "authoritative_transform option"
  session_rotation :: "authoritative_rotation option"
  last_teleport_id :: "int option"
  session_spawn_point :: "spawn_point option"
  session_time :: "world_time option"
  session_difficulty :: "(difficulty \<times> bool) option"
  weather :: weather_state
  session_border :: "world_border option"

datatype world_event =
    BeginConfiguration
  | RuntimeRegistries registry_snapshot
  | RuntimeDimensionTypes "runtime_dimension_type list"
  | RuntimeBiomes "runtime_biome list"
  | EnterWorld enter_world
  | Respawn respawn
  | SynchronizePlayerPosition player_position_update
  | SynchronizePlayerRotation player_rotation_update
  | SetSpawn spawn_point
  | SetTime world_time
  | SetDifficulty difficulty bool
  | SetRaining bool
  | SetRainLevel f32
  | SetThunderLevel f32
  | SetGameMode game_mode
  | SetWorldBorder world_border
  | LoadChunk chunk
  | UnloadChunk chunk_coordinate
  | UpdateChunkLight chunk_coordinate chunk_light_summary
  | Disconnect

end
