(* ===== verification/World_State.thy ===== *)
theory World_State
  imports World_Model
begin

text \<open>
  \<open>cubic-world/src/state.rs\<close>: the state of the world a connection builds up, as a machine over the
  events of the server. An operation returns the state it leaves also when it fails. A revision is a
  \<open>u64\<close>, a teleport id an \<open>i32\<close>.
\<close>

section \<open>The state\<close>

definition MAX_KNOWN_DIMENSIONS :: nat where "MAX_KNOWN_DIMENSIONS = 1024"
definition MAX_RUNTIME_REGISTRIES :: nat where "MAX_RUNTIME_REGISTRIES = 512"
definition MAX_RUNTIME_REGISTRY_ENTRIES :: nat where "MAX_RUNTIME_REGISTRY_ENTRIES = 1048576"
definition MAX_WORLD_CLOCKS :: nat where "MAX_WORLD_CLOCKS = 64"
definition MAX_BLOCK_UPDATES_PER_EVENT :: nat where "MAX_BLOCK_UPDATES_PER_EVENT = 4096"

datatype world_lifecycle = Disconnected | Configuring | Active
datatype reset_scope = No_Reset | WorldContents | Connection_Reset

record world_transition =
  transition_revision :: nat
  transition_reset :: reset_scope
  dimension_changed :: bool

record block_update_result =
  result_revision :: nat
  changed_chunks :: "chunk_coordinate list"
  ignored_updates :: nat

record world_state =
  lifecycle :: world_lifecycle
  revision :: nat
  registries :: registry_snapshot
  dimension_types :: "runtime_dimension_type list"
  biomes :: "runtime_biome list"
  session :: "world_session option"
  chunks :: loaded_chunks
  entities :: entity_store

datatype world_error =
    InvalidLifecycle string world_lifecycle
  | TooManyDimensions nat nat
  | DuplicateDimension
  | CurrentDimensionUnknown
  | TooManyRegistries nat nat
  | TooManyRegistryEntries string nat nat
  | DuplicateRegistry
  | DuplicateWorldClock
  | RevisionOverflow
  | TooManyBlockUpdates nat nat
  | InvalidNumber string
  | MissingDimensionGeometry nat
  | InvalidDimensionGeometry int nat
  | DuplicateDimensionType
  | DuplicateBiome
  | InvalidBiome
  | NegativeTeleportId int
  | StaleTeleport int int
  | RelativeWithoutBaseline string
  | ChunkStore chunk_store_error

type_synonym 'a world_op = "(world_state, world_error, 'a) fallible"

definition world_default :: world_state where
  "world_default = \<lparr>lifecycle = Disconnected, revision = 0, registries = [], dimension_types = [], biomes = [],
     session = None, chunks = [], entities = entity_store_new\<rparr>"

text \<open>\<open>revision.checked_add(1)\<close>.\<close>

definition next_revision :: "nat \<Rightarrow> nat option" where
  "next_revision r = (if r < 2 ^ 64 - 1 then Some (r + 1) else None)"

definition require_lifecycle :: "world_lifecycle \<Rightarrow> string \<Rightarrow> world_state \<Rightarrow> world_error + unit" where
  "require_lifecycle l event w = (if lifecycle w \<noteq> l then Inl (InvalidLifecycle event (lifecycle w)) else Inr ())"

definition active_session :: "string \<Rightarrow> world_state \<Rightarrow> world_error + world_session" where
  "active_session event w =
     (if lifecycle w \<noteq> Active then Inl (InvalidLifecycle event (lifecycle w))
      else case session w of None \<Rightarrow> Inl (InvalidLifecycle event (lifecycle w)) | Some s \<Rightarrow> Inr s)"

definition find_geometry :: "nat \<Rightarrow> world_state \<Rightarrow> world_error + dimension_geometry" where
  "find_geometry raw_id w =
     (case find (\<lambda>d. dimension_raw_id d = raw_id) (dimension_types w) of
        None \<Rightarrow> Inl (MissingDimensionGeometry raw_id) | Some d \<Rightarrow> Inr (dimension_type_geometry d))"


section \<open>Validation\<close>

definition validate_dimension_geometry :: "dimension_geometry \<Rightarrow> world_error + unit" where
  "validate_dimension_geometry g =
     (if height g < 16 \<or> 4064 < height g \<or> height g mod 16 \<noteq> 0 \<or> min_y g mod 16 \<noteq> 0 \<or> min_y g < -2032 \<or>
         2032 < min_y g + int (height g)
      then Inl (InvalidDimensionGeometry (min_y g) (height g)) else Inr ())"

definition validate_enter_world :: "enter_world \<Rightarrow> world_error + unit" where
  "validate_enter_world e =
     (let known = enter_known_dimensions e in
      if MAX_KNOWN_DIMENSIONS < length known then Inl (TooManyDimensions (length known) MAX_KNOWN_DIMENSIONS)
      else if length (remdups known) \<noteq> length known then Inl DuplicateDimension
      else if context_dimension (enter_spawn e) \<notin> set known then Inl CurrentDimensionUnknown
      else Inr ())"

fun check_registries :: "minecraft_identifier list \<Rightarrow> registry_summary list \<Rightarrow> world_error + unit" where
  "check_registries seen [] = Inr ()"
| "check_registries seen (r # rs) =
     (if summary_registry r \<in> set seen then Inl DuplicateRegistry
      else if MAX_RUNTIME_REGISTRY_ENTRIES < summary_entry_count r
      then Inl (TooManyRegistryEntries (summary_registry r) (summary_entry_count r) MAX_RUNTIME_REGISTRY_ENTRIES)
      else check_registries (summary_registry r # seen) rs)"

definition validate_registries :: "registry_snapshot \<Rightarrow> world_error + unit" where
  "validate_registries rs =
     (if MAX_RUNTIME_REGISTRIES < length rs then Inl (TooManyRegistries (length rs) MAX_RUNTIME_REGISTRIES)
      else check_registries [] rs)"

definition validate_rotation :: "authoritative_rotation \<Rightarrow> world_error + unit" where
  "validate_rotation r =
     (if \<not> f32_is_finite (rotation_yaw r) then Inl (InvalidNumber ''yaw'')
      else if \<not> f32_is_finite (rotation_pitch r) then Inl (InvalidNumber ''pitch'') else Inr ())"

definition validate_spawn :: "spawn_point \<Rightarrow> world_error + unit" where
  "validate_spawn s =
     (if \<not> f32_is_finite (spawn_yaw s) then Inl (InvalidNumber ''spawn yaw'')
      else if \<not> f32_is_finite (spawn_pitch s) then Inl (InvalidNumber ''spawn pitch'') else Inr ())"

fun check_clocks :: "nat list \<Rightarrow> clock_state list \<Rightarrow> world_error + unit" where
  "check_clocks seen [] = Inr ()"
| "check_clocks seen (c # cs) =
     (if clock_type_raw_id c \<in> set seen then Inl DuplicateWorldClock
      else if \<not> f32_is_finite (clock_partial_tick c) then Inl (InvalidNumber ''clock partial tick'')
      else if \<not> f32_is_finite (clock_rate c) then Inl (InvalidNumber ''clock rate'')
      else check_clocks (clock_type_raw_id c # seen) cs)"

definition validate_time :: "world_time \<Rightarrow> world_error + unit" where
  "validate_time t =
     (if MAX_WORLD_CLOCKS < length (clocks t)
      then Inl (TooManyRegistryEntries ''minecraft:world_clock'' (length (clocks t)) MAX_WORLD_CLOCKS)
      else check_clocks [] (clocks t))"

definition f32_1 :: f32 where "f32_1 = 0x3f800000"
definition f32_90 :: f32 where "f32_90 = 0x42b40000"
definition f32_minus_90 :: f32 where "f32_minus_90 = 0xc2b40000"

definition in_unit_interval :: "f32 \<Rightarrow> bool" where
  "in_unit_interval x = (f32_less_eq 0 x \<and> f32_less_eq x f32_1)"

definition validate_level :: "f32 \<Rightarrow> string \<Rightarrow> world_error + unit" where
  "validate_level level field =
     (if \<not> f32_is_finite level \<or> \<not> in_unit_interval level then Inl (InvalidNumber field) else Inr ())"

fun first_invalid :: "(string \<times> bool) list \<Rightarrow> world_error + unit" where
  "first_invalid [] = Inr ()"
| "first_invalid ((field, valid) # rest) = (if valid then first_invalid rest else Inl (InvalidNumber field))"

definition validate_border :: "world_border \<Rightarrow> world_error + unit" where
  "validate_border b = first_invalid
     [(''border center x'', f64_is_finite (border_center_x b)),
      (''border center z'', f64_is_finite (border_center_z b)),
      (''border old diameter'', f64_is_finite (border_old_diameter b) \<and> \<not> f64_less (border_old_diameter b) 0),
      (''border new diameter'', f64_is_finite (border_new_diameter b) \<and> \<not> f64_less (border_new_diameter b) 0)]"

text \<open>\<open>windows(2)\<close> of a sorted list: two neighbours with the same key.\<close>

fun adjacent_equal :: "('a \<Rightarrow> nat) \<Rightarrow> 'a list \<Rightarrow> bool" where
  "adjacent_equal f (x # y # rest) = (f x = f y \<or> adjacent_equal f (y # rest))"
| "adjacent_equal f _ = False"

section \<open>Positions\<close>

definition resolve_number :: "('a \<Rightarrow> 'a \<Rightarrow> 'a) \<Rightarrow> 'a \<Rightarrow> bool \<Rightarrow> 'a option \<Rightarrow> string \<Rightarrow> world_error + 'a" where
  "resolve_number add v relative prior field =
     (if relative then (case prior of None \<Rightarrow> Inl (RelativeWithoutBaseline field) | Some base \<Rightarrow> Inr (add base v))
      else Inr v)"

definition check_teleport :: "int option \<Rightarrow> int \<Rightarrow> world_error + unit" where
  "check_teleport current received =
     (if received < 0 then Inl (NegativeTeleportId received)
      else case current of
        None \<Rightarrow> Inr ()
      | Some c \<Rightarrow> if received \<le> c then Inl (StaleTeleport c received) else Inr ())"

definition transform_finite :: "authoritative_transform \<Rightarrow> bool" where
  "transform_finite t =
     (f64_is_finite (at_x t) \<and> f64_is_finite (at_y t) \<and> f64_is_finite (at_z t) \<and>
      f32_is_finite (at_yaw t) \<and> f32_is_finite (at_pitch t))"

definition apply_position ::
  "authoritative_transform option \<Rightarrow> authoritative_rotation option \<Rightarrow> int option \<Rightarrow> player_position_update \<Rightarrow>
     world_error + authoritative_transform" where
  "apply_position current rotation last_id u =
     (let rel = position_relative u in
      and_also (check_teleport last_id (position_teleport_id u)) (\<lambda>_.
      and_also (first_invalid
        [(''x'', f64_is_finite (position_x u)), (''y'', f64_is_finite (position_y u)),
         (''z'', f64_is_finite (position_z u)), (''yaw'', f32_is_finite (position_yaw u)),
         (''pitch'', f32_is_finite (position_pitch u))]) (\<lambda>_.
      and_also (resolve_number f64_add (position_x u) (relative_x rel) (map_option at_x current) ''x'') (\<lambda>x.
      and_also (resolve_number f64_add (position_y u) (relative_y rel) (map_option at_y current) ''y'') (\<lambda>y.
      and_also (resolve_number f64_add (position_z u) (relative_z rel) (map_option at_z current) ''z'') (\<lambda>z.
      and_also (resolve_number f32_add (position_yaw u) (relative_yaw rel) (map_option rotation_yaw rotation) ''yaw'') (\<lambda>yaw.
      and_also (resolve_number f32_add (position_pitch u) (relative_pitch rel) (map_option rotation_pitch rotation) ''pitch'') (\<lambda>pitch.
        let result = \<lparr>at_x = x, at_y = y, at_z = z, at_yaw = yaw, at_pitch = pitch,
                      at_teleport_id = position_teleport_id u\<rparr> in
        if transform_finite result then Inr result
        else Inl (InvalidNumber ''resolved player transform'')))))))))"

definition apply_rotation :: "authoritative_rotation option \<Rightarrow> player_rotation_update \<Rightarrow> world_error + authoritative_rotation" where
  "apply_rotation rotation u =
     and_also
       (case rotation of
          Some r \<Rightarrow> Inr r
        | None \<Rightarrow>
            if update_relative_yaw u \<or> update_relative_pitch u then Inl (RelativeWithoutBaseline ''rotation'')
            else Inr \<lparr>rotation_yaw = 0, rotation_pitch = 0\<rparr>)
       (\<lambda>p.
          let yaw = (if update_relative_yaw u then f32_add (rotation_yaw p) (update_yaw u) else update_yaw u);
              pitch = f32_clamp f32_minus_90 f32_90
                (if update_relative_pitch u then f32_add (rotation_pitch p) (update_pitch u) else update_pitch u);
              result = \<lparr>rotation_yaw = yaw, rotation_pitch = pitch\<rparr> in
          and_also (validate_rotation result) (\<lambda>_. Inr result))"

section \<open>Events\<close>

definition session_from_enter :: "enter_world \<Rightarrow> dimension_geometry \<Rightarrow> world_session" where
  "session_from_enter e g =
     \<lparr>player_entity_id = enter_player_entity_id e, hardcore = enter_hardcore e,
      known_dimensions = sort (enter_known_dimensions e), max_players = enter_max_players e,
      view_distance = enter_view_distance e, simulation_distance = enter_simulation_distance e,
      reduced_debug_info = enter_reduced_debug_info e, show_death_screen = enter_show_death_screen e,
      limited_crafting = enter_limited_crafting e, secure_chat_enforced = enter_secure_chat_enforced e,
      session_context = enter_spawn e, session_geometry = g, session_position = None, session_rotation = None,
      last_teleport_id = None, session_spawn_point = None, session_time = None, session_difficulty = None,
      weather = weather_default, session_border = None\<rparr>"

type_synonym world_change = "world_error + (reset_scope \<times> bool \<times> world_state)"

text \<open>What \<open>BeginConfiguration\<close> and \<open>Disconnect\<close> do, up to the lifecycle they enter.\<close>

definition reset_connection :: "world_lifecycle \<Rightarrow> world_state \<Rightarrow> world_change" where
  "reset_connection l w =
     Inr (Connection_Reset, False,
       w\<lparr>lifecycle := l, registries := [], dimension_types := [], biomes := [], session := None,
         chunks := [], entities := store_clear (entities w)\<rparr>)"

definition on_session :: "string \<Rightarrow> (world_session \<Rightarrow> world_session) \<Rightarrow> world_state \<Rightarrow> world_change" where
  "on_session event f w =
     and_also (active_session event w) (\<lambda>s. Inr (No_Reset, False, w\<lparr>session := Some (f s)\<rparr>))"

definition receive_registries :: "registry_snapshot \<Rightarrow> world_state \<Rightarrow> world_change" where
  "receive_registries rs w =
     and_also (require_lifecycle Configuring ''RuntimeRegistries'' w) (\<lambda>_.
     and_also (validate_registries rs) (\<lambda>_.
     Inr (No_Reset, False, w\<lparr>registries := sort_key summary_registry rs\<rparr>)))"

fun validate_geometries :: "runtime_dimension_type list \<Rightarrow> world_error + unit" where
  "validate_geometries [] = Inr ()"
| "validate_geometries (d # ds) =
     and_also (validate_dimension_geometry (dimension_type_geometry d)) (\<lambda>_. validate_geometries ds)"

definition receive_dimension_types :: "runtime_dimension_type list \<Rightarrow> world_state \<Rightarrow> world_change" where
  "receive_dimension_types ds w =
     and_also (require_lifecycle Configuring ''RuntimeDimensionTypes'' w) (\<lambda>_.
     let sorted_types = sort_key dimension_raw_id ds in
     and_also (validate_geometries sorted_types) (\<lambda>_.
     if adjacent_equal dimension_raw_id sorted_types then Inl DuplicateDimensionType
     else Inr (No_Reset, False, w\<lparr>dimension_types := sorted_types\<rparr>)))"

definition climate_valid :: "runtime_biome \<Rightarrow> bool" where
  "climate_valid b =
     (f32_is_finite (biome_temperature b) \<and> f32_is_finite (biome_downfall b) \<and> in_unit_interval (biome_downfall b))"

definition receive_biomes :: "runtime_biome list \<Rightarrow> world_state \<Rightarrow> world_change" where
  "receive_biomes bs w =
     and_also (require_lifecycle Configuring ''RuntimeBiomes'' w) (\<lambda>_.
     let sorted_biomes = sort_key biome_raw_id bs in
     if adjacent_equal biome_raw_id sorted_biomes then Inl DuplicateBiome
     else if list_ex (\<lambda>b. \<not> climate_valid b) sorted_biomes then Inl InvalidBiome
     else Inr (No_Reset, False, w\<lparr>biomes := sorted_biomes\<rparr>))"

definition enter_the_world :: "enter_world \<Rightarrow> world_state \<Rightarrow> world_change" where
  "enter_the_world e w =
     and_also (require_lifecycle Configuring ''EnterWorld'' w) (\<lambda>_.
     and_also (validate_enter_world e) (\<lambda>_.
     and_also (find_geometry (reference_raw_id (context_dimension_type (enter_spawn e))) w) (\<lambda>g.
     Inr (WorldContents, True,
       w\<lparr>session := Some (session_from_enter e g), lifecycle := Active, chunks := [],
         entities := store_clear (entities w)\<rparr>))))"

definition respawned :: "respawn \<Rightarrow> dimension_geometry \<Rightarrow> bool \<Rightarrow> world_session \<Rightarrow> world_session" where
  "respawned r g changed s =
     (let s1 = s\<lparr>session_context := respawn_spawn r, session_geometry := g, session_position := None\<rparr>;
          s2 = (case respawn_new_rotation r of Preserve \<Rightarrow> s1 | Reset rot \<Rightarrow> s1\<lparr>session_rotation := Some rot\<rparr>) in
      if changed then s2\<lparr>session_spawn_point := None, session_time := None, weather := weather_default, session_border := None\<rparr>
      else s2)"

definition respawn_world :: "respawn \<Rightarrow> world_state \<Rightarrow> world_change" where
  "respawn_world r w =
     and_also (case respawn_new_rotation r of Preserve \<Rightarrow> Inr () | Reset rot \<Rightarrow> validate_rotation rot) (\<lambda>_.
     and_also (find_geometry (reference_raw_id (context_dimension_type (respawn_spawn r))) w) (\<lambda>g.
     and_also (active_session ''Respawn'' w) (\<lambda>s.
     let changed = (context_dimension (session_context s) \<noteq> context_dimension (respawn_spawn r)) in
     Inr (WorldContents, changed,
       w\<lparr>session := Some (respawned r g changed s), chunks := [], entities := store_clear (entities w)\<rparr>))))"

definition synchronize_position :: "player_position_update \<Rightarrow> world_state \<Rightarrow> world_change" where
  "synchronize_position u w =
     and_also (active_session ''SynchronizePlayerPosition'' w) (\<lambda>s.
     and_also (apply_position (session_position s) (session_rotation s) (last_teleport_id s) u) (\<lambda>p.
     Inr (No_Reset, False,
       w\<lparr>session := Some (s\<lparr>session_rotation := Some \<lparr>rotation_yaw = at_yaw p, rotation_pitch = at_pitch p\<rparr>,
         last_teleport_id := Some (at_teleport_id p), session_position := Some p\<rparr>)\<rparr>)))"

definition synchronize_rotation :: "player_rotation_update \<Rightarrow> world_state \<Rightarrow> world_change" where
  "synchronize_rotation u w =
     and_also (active_session ''SynchronizePlayerRotation'' w) (\<lambda>s.
     and_also (apply_rotation (session_rotation s) u) (\<lambda>r.
     Inr (No_Reset, False,
       w\<lparr>session := Some (s\<lparr>session_rotation := Some r, session_position :=
         map_option (\<lambda>p. p\<lparr>at_yaw := rotation_yaw r, at_pitch := rotation_pitch r\<rparr>) (session_position s)\<rparr>)\<rparr>)))"

definition load_chunk :: "chunk \<Rightarrow> world_state \<Rightarrow> world_change" where
  "load_chunk c w =
     and_also (require_lifecycle Active ''LoadChunk'' w) (\<lambda>_.
     case chunks_insert c (chunks w) of
       (Inl e, _) \<Rightarrow> Inl (ChunkStore e)
     | (Inr _, m) \<Rightarrow> Inr (No_Reset, False, w\<lparr>chunks := m\<rparr>))"

definition unload_chunk :: "chunk_coordinate \<Rightarrow> world_state \<Rightarrow> world_change" where
  "unload_chunk p w =
     and_also (require_lifecycle Active ''UnloadChunk'' w) (\<lambda>_.
     Inr (No_Reset, False, w\<lparr>chunks := snd (chunks_remove p (chunks w))\<rparr>))"

definition relight_chunk :: "chunk_coordinate \<Rightarrow> chunk_light_summary \<Rightarrow> world_state \<Rightarrow> world_change" where
  "relight_chunk p l w =
     and_also (require_lifecycle Active ''UpdateChunkLight'' w) (\<lambda>_.
     Inr (No_Reset, False, w\<lparr>chunks := snd (update_light p l (chunks w))\<rparr>))"

fun handle_event :: "world_event \<Rightarrow> world_state \<Rightarrow> world_change" where
  "handle_event BeginConfiguration w = reset_connection Configuring w"
| "handle_event (RuntimeRegistries rs) w = receive_registries rs w"
| "handle_event (RuntimeDimensionTypes ds) w = receive_dimension_types ds w"
| "handle_event (RuntimeBiomes bs) w = receive_biomes bs w"
| "handle_event (EnterWorld e) w = enter_the_world e w"
| "handle_event (Respawn r) w = respawn_world r w"
| "handle_event (SynchronizePlayerPosition u) w = synchronize_position u w"
| "handle_event (SynchronizePlayerRotation u) w = synchronize_rotation u w"
| "handle_event (SetSpawn p) w =
     and_also (validate_spawn p) (\<lambda>_. on_session ''SetSpawn'' (\<lambda>s. s\<lparr>session_spawn_point := Some p\<rparr>) w)"
| "handle_event (SetTime t) w =
     and_also (validate_time t) (\<lambda>_. on_session ''SetTime'' (\<lambda>s. s\<lparr>session_time := Some t\<rparr>) w)"
| "handle_event (SetDifficulty d locked) w =
     on_session ''SetDifficulty'' (\<lambda>s. s\<lparr>session_difficulty := Some (d, locked)\<rparr>) w"
| "handle_event (SetRaining b) w = on_session ''SetRaining'' (\<lambda>s. s\<lparr>weather := (weather s)\<lparr>raining := b\<rparr>\<rparr>) w"
| "handle_event (SetRainLevel l) w =
     and_also (validate_level l ''rain level'') (\<lambda>_.
       on_session ''SetRainLevel'' (\<lambda>s. s\<lparr>weather := (weather s)\<lparr>rain_level := l\<rparr>\<rparr>) w)"
| "handle_event (SetThunderLevel l) w =
     and_also (validate_level l ''thunder level'') (\<lambda>_.
       on_session ''SetThunderLevel'' (\<lambda>s. s\<lparr>weather := (weather s)\<lparr>thunder_level := l\<rparr>\<rparr>) w)"
| "handle_event (SetGameMode m) w =
     on_session ''SetGameMode'' (\<lambda>s. s\<lparr>session_context := (session_context s)\<lparr>context_game_mode := m\<rparr>\<rparr>) w"
| "handle_event (SetWorldBorder b) w =
     and_also (validate_border b) (\<lambda>_. on_session ''SetWorldBorder'' (\<lambda>s. s\<lparr>session_border := Some b\<rparr>) w)"
| "handle_event (LoadChunk c) w = load_chunk c w"
| "handle_event (UnloadChunk p) w = unload_chunk p w"
| "handle_event (UpdateChunkLight p l) w = relight_chunk p l w"
| "handle_event Disconnect w = reset_connection Disconnected w"

text \<open>\<open>apply\<close>: no event changes the state before its last check.\<close>

definition apply_event :: "world_event \<Rightarrow> world_transition world_op" where
  "apply_event event w =
     (case next_revision (revision w) of
        None \<Rightarrow> (Inl RevisionOverflow, w)
      | Some next_rev \<Rightarrow>
          (case handle_event event w of
             Inl e \<Rightarrow> (Inl e, w)
           | Inr (reset, changed, w') \<Rightarrow>
               (Inr \<lparr>transition_revision = next_rev, transition_reset = reset, dimension_changed = changed\<rparr>,
                w'\<lparr>revision := next_rev\<rparr>)))"

section \<open>Block updates\<close>

text \<open>Where an update goes: the chunk, the section in it, the local coordinates.\<close>

definition locate_block :: "dimension_geometry \<Rightarrow> block_coordinates \<Rightarrow> (chunk_coordinate \<times> nat \<times> nat \<times> nat \<times> nat) option" where
  "locate_block g p =
     (let relative_y = block_y p - min_y g in
      if 2 ^ 31 - 1 < relative_y \<or> relative_y < 0 then None
      else if int (height g) \<le> relative_y then None
      else Some (Chunk_Coordinate (block_x p div 16) (block_z p div 16), nat (relative_y div 16),
                 nat (block_x p mod 16), nat (relative_y mod 16), nat (block_z p mod 16)))"

fun block_updates_loop ::
  "dimension_geometry \<Rightarrow> block_state_update list \<Rightarrow> chunk_coordinate list \<Rightarrow> nat \<Rightarrow> loaded_chunks \<Rightarrow>
     chunk_coordinate list \<times> nat \<times> loaded_chunks" where
  "block_updates_loop g [] changed ignored m = (changed, ignored, m)"
| "block_updates_loop g (u # us) changed ignored m =
     (case locate_block g (update_position u) of
        None \<Rightarrow> block_updates_loop g us changed (saturating_add ignored 1) m
      | Some (p, offset, x, y, z) \<Rightarrow>
          (case update_block p offset x y z (update_state u) m of
             (True, m') \<Rightarrow> block_updates_loop g us (bset_insert p changed) ignored m'
           | (False, m') \<Rightarrow> block_updates_loop g us changed (saturating_add ignored 1) m'))"

text \<open>The revision is advanced after the chunks were changed, and may be exhausted.\<close>

definition bump_revision :: "bool \<Rightarrow> chunk_coordinate list \<Rightarrow> nat \<Rightarrow> block_update_result world_op" where
  "bump_revision changed places ignored w =
     (let result = (\<lambda>r. \<lparr>result_revision = r, changed_chunks = places, ignored_updates = ignored\<rparr>) in
      if changed then
        (case next_revision (revision w) of
           None \<Rightarrow> (Inl RevisionOverflow, w)
         | Some r \<Rightarrow> (Inr (result r), w\<lparr>revision := r\<rparr>))
      else (Inr (result (revision w)), w))"

definition apply_block_updates :: "block_state_update list \<Rightarrow> block_update_result world_op" where
  "apply_block_updates us w =
     (case require_lifecycle Active ''BlockStateUpdate'' w of
        Inl e \<Rightarrow> (Inl e, w)
      | Inr _ \<Rightarrow>
          if MAX_BLOCK_UPDATES_PER_EVENT < length us
          then (Inl (TooManyBlockUpdates (length us) MAX_BLOCK_UPDATES_PER_EVENT), w)
          else case session w of
            None \<Rightarrow> (Inl (InvalidLifecycle ''BlockStateUpdate'' (lifecycle w)), w)
          | Some s \<Rightarrow>
              (case block_updates_loop (session_geometry s) us [] 0 (chunks w) of
                 (changed, ignored, m) \<Rightarrow> bump_revision (changed \<noteq> []) changed ignored (w\<lparr>chunks := m\<rparr>)))"

definition apply_block_entity_update ::
  "block_coordinates \<Rightarrow> nat \<Rightarrow> block_entity_data \<Rightarrow> block_update_result world_op" where
  "apply_block_entity_update p type_id d w =
     (case require_lifecycle Active ''BlockEntityData'' w of
        Inl e \<Rightarrow> (Inl e, w)
      | Inr _ \<Rightarrow>
          let place = Chunk_Coordinate (block_x p div 16) (block_z p div 16) in
          if block_y p < - (2 ^ 15) \<or> 2 ^ 15 \<le> block_y p
          then (Inr \<lparr>result_revision = revision w, changed_chunks = [], ignored_updates = 1\<rparr>, w)
          else case update_block_entity place (nat (block_x p mod 16)) (block_y p) (nat (block_z p mod 16)) type_id d (chunks w) of
            (changed, m) \<Rightarrow>
              bump_revision (changed = Some True) (if changed = Some True then [place] else [])
                (if changed = None then 1 else 0) (w\<lparr>chunks := m\<rparr>))"

end
