(* ===== verification/Entity_Props.thy ===== *)
theory Entity_Props
  imports Entity_Store
begin

text \<open>
  What the entity store keeps: slots, ids and free list account for each other, so handles find the
  entity they were made for and nothing else, and the store never outgrows its capacity.
\<close>

section \<open>The invariant\<close>

definition slot_free :: "entity_store \<Rightarrow> nat \<Rightarrow> bool" where
  "slot_free s k \<longleftrightarrow> slot_entity (entity_slots s ! k) = None"

definition indexed :: "entity_store \<Rightarrow> int \<Rightarrow> entity_handle \<Rightarrow> bool" where
  "indexed s i h \<longleftrightarrow> handle_slot h < length (entity_slots s) \<and>
     handle_generation h = slot_generation (entity_slots s ! handle_slot h) \<and>
     (\<exists>e. slot_entity (entity_slots s ! handle_slot h) = Some e \<and> entity_id e = i)"

definition store_wf :: "entity_store \<Rightarrow> bool" where
  "store_wf s \<longleftrightarrow> bt_sorted (by_id s) \<and> (\<forall>i h. bt_get i (by_id s) = Some h \<longrightarrow> indexed s i h) \<and>
     (\<forall>k<length (entity_slots s). \<forall>e. slot_entity (entity_slots s ! k) = Some e \<longrightarrow>
        bt_get (entity_id e) (by_id s) = Some \<lparr>handle_slot = k, handle_generation = slot_generation (entity_slots s ! k)\<rparr>) \<and>
     distinct (free_slots s) \<and> (\<forall>k. k \<in> set (free_slots s) \<longleftrightarrow> k < length (entity_slots s) \<and> slot_free s k) \<and>
     length (entity_slots s) \<le> MAX_REMOTE_ENTITIES"

lemma store_wf_new: "store_wf entity_store_new"
  by (simp add: store_wf_def entity_store_new_def bt_sorted_def bt_get_def)

lemma store_wf_handle: "store_wf s \<Longrightarrow> bt_get i (by_id s) = Some h \<Longrightarrow> indexed s i h"
  by (simp add: store_wf_def)

lemma store_get_indexed: "indexed s i h \<Longrightarrow> \<exists>e. store_get h s = Some e \<and> entity_id e = i"
  by (auto simp: indexed_def store_get_def)

lemma store_remove_wf:
  assumes wf: "store_wf s"
  shows "store_wf (snd (store_remove i s)) \<and> bt_get i (by_id (snd (store_remove i s))) = None"
proof (cases "bt_get i (by_id s)")
  case None
  then show ?thesis using wf by (simp add: store_remove_def)
next
  case (Some h)
  define k where "k = handle_slot h"
  obtain e where k: "k < length (entity_slots s)" "slot_entity (entity_slots s ! k) = Some e" "entity_id e = i"
    using store_wf_handle[OF wf Some] by (auto simp: indexed_def k_def)
  have h: "h = \<lparr>handle_slot = k, handle_generation = slot_generation (entity_slots s ! k)\<rparr>"
    using store_wf_handle[OF wf Some] by (simp add: indexed_def k_def)
  define s' where "s' = snd (store_remove i s)"
  have s': "s' = s\<lparr>by_id := bt_remove i (by_id s), entity_slots := (entity_slots s)
      [k := (entity_slots s ! k)\<lparr>slot_entity := None, slot_generation := slot_generation (entity_slots s ! k) + 1\<rparr>],
      free_slots := free_slots s @ [k]\<rparr>"
    using Some k(1) by (simp add: s'_def store_remove_def Let_def k_def)
  have other: "handle_slot g \<noteq> k" if "bt_get j (by_id s) = Some g" "j \<noteq> i" for j g
    using store_wf_handle[OF wf that(1)] k(2,3) that(2) by (auto simp: indexed_def)
  have "indexed s' j g" if "bt_get j (by_id s') = Some g" for j g
  proof -
    have j: "bt_get j (by_id s) = Some g" "j \<noteq> i" using that by (simp_all add: s' bt_get_remove split: if_splits)
    then show ?thesis using store_wf_handle[OF wf j(1)] other[OF j] by (simp add: indexed_def s')
  qed
  moreover have "bt_get (entity_id f) (by_id s') = Some \<lparr>handle_slot = l, handle_generation = slot_generation (entity_slots s' ! l)\<rparr>"
    if l: "l < length (entity_slots s')" and f: "slot_entity (entity_slots s' ! l) = Some f" for l f
  proof -
    have "l \<noteq> k" using f k(1) by (auto simp: s')
    then have "l < length (entity_slots s)" "slot_entity (entity_slots s ! l) = Some f" using l f by (simp_all add: s')
    then have g: "bt_get (entity_id f) (by_id s) = Some \<lparr>handle_slot = l, handle_generation = slot_generation (entity_slots s ! l)\<rparr>"
      using wf by (simp add: store_wf_def)
    then have "entity_id f \<noteq> i" using Some h \<open>l \<noteq> k\<close> by auto
    then show ?thesis using g \<open>l \<noteq> k\<close> by (simp add: s' bt_get_remove)
  qed
  moreover have "k \<notin> set (free_slots s)" using wf k by (auto simp: store_wf_def slot_free_def)
  moreover have "l \<in> set (free_slots s') \<longleftrightarrow> l < length (entity_slots s') \<and> slot_free s' l" for l
    using wf k(1) by (cases "l = k") (auto simp: store_wf_def slot_free_def s')
  ultimately have "store_wf s'"
    using wf unfolding store_wf_def by (auto simp: s' bt_remove_sorted)
  then show ?thesis by (simp add: s'_def[symmetric]) (simp add: s' bt_get_remove)
qed

lemma take_slot_keeps:
  assumes wf: "store_wf s" and "take_slot t at_ms s = Some (k, s')"
  shows "k < length (entity_slots s')" and "slot_free s' k" and "length (entity_slots s') \<le> MAX_REMOTE_ENTITIES"
    and "by_id s' = by_id s" and "distinct (free_slots s')"
    and "l \<in> set (free_slots s') \<longleftrightarrow> l < length (entity_slots s') \<and> slot_free s' l \<and> l \<noteq> k"
    and "length (entity_slots s) \<le> length (entity_slots s')"
    and "l < length (entity_slots s) \<Longrightarrow> entity_slots s' ! l = entity_slots s ! l"
    and "length (entity_slots s) \<le> l \<Longrightarrow> l < length (entity_slots s') \<Longrightarrow> l = k"
proof -
  have free: "distinct (free_slots s)" "\<And>l. l \<in> set (free_slots s) \<longleftrightarrow> l < length (entity_slots s) \<and> slot_free s l"
    and cap: "length (entity_slots s) \<le> MAX_REMOTE_ENTITIES"
    using wf by (auto simp: store_wf_def)
  have "k < length (entity_slots s') \<and> slot_free s' k \<and> length (entity_slots s') \<le> MAX_REMOTE_ENTITIES \<and>
    by_id s' = by_id s \<and> distinct (free_slots s') \<and>
    (\<forall>l. l \<in> set (free_slots s') \<longleftrightarrow> l < length (entity_slots s') \<and> slot_free s' l \<and> l \<noteq> k) \<and>
    length (entity_slots s) \<le> length (entity_slots s') \<and>
    (\<forall>l<length (entity_slots s). entity_slots s' ! l = entity_slots s ! l) \<and>
    (\<forall>l<length (entity_slots s'). length (entity_slots s) \<le> l \<longrightarrow> l = k)"
  proof (cases "free_slots s" rule: rev_cases)
    case Nil
    then have "\<not> slot_free s l" if "l < length (entity_slots s)" for l using free(2)[of l] that by simp
    then show ?thesis using assms(2) Nil cap
      by (auto simp: take_slot_def slot_free_def nth_append less_Suc_eq split: if_splits) fastforce
  next
    case (snoc ks l)
    then have k: "k = l" "s' = s\<lparr>free_slots := ks\<rparr>" using assms(2) by (simp_all add: take_slot_def)
    have "l' \<in> set ks \<longleftrightarrow> l' < length (entity_slots s) \<and> slot_free s l' \<and> l' \<noteq> l" for l'
      using free(1) free(2)[of l'] snoc by auto
    moreover have "l < length (entity_slots s)" "slot_free s l" using free(2)[of l] snoc by simp_all
    ultimately show ?thesis using free(1) cap snoc by (simp add: k slot_free_def)
  qed
  then show "k < length (entity_slots s')" and "slot_free s' k" and "length (entity_slots s') \<le> MAX_REMOTE_ENTITIES"
    and "by_id s' = by_id s" and "distinct (free_slots s')"
    and "l \<in> set (free_slots s') \<longleftrightarrow> l < length (entity_slots s') \<and> slot_free s' l \<and> l \<noteq> k"
    and "length (entity_slots s) \<le> length (entity_slots s')"
    and "l < length (entity_slots s) \<Longrightarrow> entity_slots s' ! l = entity_slots s ! l"
    and "length (entity_slots s) \<le> l \<Longrightarrow> l < length (entity_slots s') \<Longrightarrow> l = k" by blast+
qed


lemma store_spawn_eq:
  assumes wf: "store_wf s" and "store_spawn e at_ms s = (Inr h, s')"
  obtains s1 k s2 slot where "s1 = snd (store_remove (entity_id e) s)" and "take_slot (authoritative e) at_ms s1 = Some (k, s2)"
    and "slot = (entity_slots s2 ! k)\<lparr>slot_previous := authoritative e, slot_target_at_ms := at_ms, slot_entity := Some e\<rparr>"
    and "h = \<lparr>handle_slot = k, handle_generation = slot_generation slot\<rparr>"
    and "s' = s2\<lparr>entity_slots := (entity_slots s2)[k := slot], by_id := bt_insert (entity_id e) h (by_id s2)\<rparr>"
proof -
  let ?s1 = "snd (store_remove (entity_id e) s)"
  obtain k s2 where take: "take_slot (authoritative e) at_ms ?s1 = Some (k, s2)" and "fill_slot e at_ms k s2 = (Inr h, s')"
    using assms(2) by (auto simp: store_spawn_def Let_def split: option.splits)
  then show thesis using that[OF refl take refl] by (auto simp: fill_slot_def Let_def split: if_splits)
qed

lemma store_spawn_wf:
  assumes wf: "store_wf s" and spawn: "store_spawn e at_ms s = (Inr h, s')"
  shows "store_wf s' \<and> store_get h s' = Some e \<and> store_handle (entity_id e) s' = Some h \<and>
    (\<forall>i. i \<noteq> entity_id e \<longrightarrow> store_handle i s' = store_handle i s)"
proof -
  obtain s1 k s2 slot where s1: "s1 = snd (store_remove (entity_id e) s)" and take: "take_slot (authoritative e) at_ms s1 = Some (k, s2)"
    and slot: "slot = (entity_slots s2 ! k)\<lparr>slot_previous := authoritative e, slot_target_at_ms := at_ms, slot_entity := Some e\<rparr>"
    and h: "h = \<lparr>handle_slot = k, handle_generation = slot_generation slot\<rparr>"
    and s': "s' = s2\<lparr>entity_slots := (entity_slots s2)[k := slot], by_id := bt_insert (entity_id e) h (by_id s2)\<rparr>"
    using store_spawn_eq[OF assms] .
  have wf1: "store_wf s1" and unused: "bt_get (entity_id e) (by_id s1) = None"
    using store_remove_wf[OF wf] by (simp_all add: s1)
  note t = take_slot_keeps[OF wf1 take]
  have sorted: "bt_sorted (by_id s1)" using wf1 by (simp add: store_wf_def)
  have get: "bt_get i (by_id s') = (if i = entity_id e then Some h else bt_get i (by_id s1))" for i
    using sorted t(4) by (simp add: s' bt_get_insert)
  have indexed': "indexed s' i g" if "bt_get i (by_id s') = Some g" for i g
  proof (cases "i = entity_id e")
    case True
    then have "g = h" using that get by simp
    then show ?thesis using t(1) True by (simp add: indexed_def s' h slot)
  next
    case False
    then have g: "indexed s1 i g" using that get store_wf_handle[OF wf1] by simp
    then have "handle_slot g \<noteq> k" using t(2) t(8) by (auto simp: indexed_def slot_free_def)
    then show ?thesis using g t(7) t(8) by (auto simp: indexed_def s')
  qed
  have entities: "bt_get (entity_id f) (by_id s') = Some \<lparr>handle_slot = l, handle_generation = slot_generation (entity_slots s' ! l)\<rparr>"
    if l: "l < length (entity_slots s')" and f: "slot_entity (entity_slots s' ! l) = Some f" for l f
  proof (cases "l = k")
    case True
    then have "f = e" using f t(1) by (simp add: s' slot)
    then show ?thesis using True t(1) get by (simp add: h s')
  next
    case False
    then have "l < length (entity_slots s1)" using t(9)[of l] l by (cases "l < length (entity_slots s1)") (simp_all add: s')
    then have at_l: "entity_slots s' ! l = entity_slots s1 ! l" using t(8) False by (simp add: s')
    then have g: "bt_get (entity_id f) (by_id s1) = Some \<lparr>handle_slot = l, handle_generation = slot_generation (entity_slots s1 ! l)\<rparr>"
      using wf1 f \<open>l < length (entity_slots s1)\<close> by (simp add: store_wf_def)
    then have "entity_id f \<noteq> entity_id e" using unused by auto
    then show ?thesis using g get at_l by simp
  qed
  have "l \<in> set (free_slots s') \<longleftrightarrow> l < length (entity_slots s') \<and> slot_free s' l" for l
    using t(1,6) by (cases "l = k") (auto simp: s' slot_free_def slot)
  then have "store_wf s'"
    using indexed' entities t(3,4,5) sorted unfolding store_wf_def by (simp add: s' bt_insert_sorted)
  moreover have "store_get h s' = Some e" using t(1) by (simp add: store_get_def h s' slot)
  moreover have "store_handle i s' = store_handle i s" if "i \<noteq> entity_id e" for i
  proof -
    have "bt_get i (by_id s1) = bt_get i (by_id s)"
      using that by (auto simp: s1 store_remove_def Let_def bt_get_remove split: option.splits)
    then show ?thesis using get that by (simp add: store_handle_def)
  qed
  ultimately show ?thesis using get by (simp add: store_handle_def)
qed


lemma store_spawn_any_wf:
  assumes wf: "store_wf s"
  shows "store_wf (snd (store_spawn e at_ms s))"
proof (cases "spawn_refused e")
  case None
  let ?s1 = "snd (store_remove (entity_id e) s)"
  have wf1: "store_wf ?s1" using store_remove_wf[OF wf] by simp
  show ?thesis
  proof (cases "take_slot (authoritative e) at_ms ?s1")
    case None
    then show ?thesis using \<open>spawn_refused e = None\<close> wf1 by (simp add: store_spawn_def)
  next
    case (Some a)
    obtain k s2 where a: "a = (k, s2)" by fastforce
    have "k < length (entity_slots s2)" using take_slot_keeps(1)[OF wf1] Some a by simp
    then obtain h t where "fill_slot e at_ms k s2 = (Inr h, t)" by (simp add: fill_slot_def Let_def)
    then have "store_spawn e at_ms s = (Inr h, t)" using None Some a by (simp add: store_spawn_def)
    then show ?thesis using store_spawn_wf[OF wf] by simp
  qed
qed (use wf in \<open>simp add: store_spawn_def\<close>)

text \<open>Replacing the entity of a slot by one of the same id, in the same generation.\<close>

lemma store_wf_replace:
  assumes wf: "store_wf s" and k: "k < length (entity_slots s)" and e: "slot_entity (entity_slots s ! k) = Some e"
    and slot: "slot_entity slot = Some e'" "entity_id e' = entity_id e" "slot_generation slot = slot_generation (entity_slots s ! k)"
  shows "store_wf (s\<lparr>entity_slots := (entity_slots s)[k := slot]\<rparr>)"
proof -
  let ?t = "s\<lparr>entity_slots := (entity_slots s)[k := slot]\<rparr>"
  have "indexed ?t i h" if "indexed s i h" for i h
    using that k e slot by (cases "handle_slot h = k") (auto simp: indexed_def)
  moreover have "slot_free ?t l \<longleftrightarrow> slot_free s l" for l
    using k e slot by (cases "l = k") (auto simp: slot_free_def)
  moreover have "bt_get (entity_id f) (by_id s) = Some \<lparr>handle_slot = l, handle_generation = slot_generation (entity_slots ?t ! l)\<rparr>"
    if "l < length (entity_slots s)" "slot_entity (entity_slots ?t ! l) = Some f" for l f
    using wf that k e slot unfolding store_wf_def by (cases "l = k") (auto simp del: not_None_eq)
  ultimately show ?thesis using wf unfolding store_wf_def by simp
qed

lemma store_get_slot:
  "store_get h s = Some e \<Longrightarrow> handle_slot h < length (entity_slots s) \<and> slot_entity (entity_slots s ! handle_slot h) = Some e \<and>
     slot_generation (entity_slots s ! handle_slot h) = handle_generation h"
  by (auto simp: store_get_def Let_def split: if_splits)

lemma store_modify_wf:
  "store_wf s \<Longrightarrow> (\<And>e. entity_id (f e) = entity_id e) \<Longrightarrow> store_wf (snd (store_modify h f s))"
  using store_get_slot[of h s] by (auto simp: store_modify_def intro!: store_wf_replace split: option.splits)

lemma update_transform_wf: "store_wf s \<Longrightarrow> store_wf (snd (update_transform i new at_ms teleport s))"
  by (auto simp: update_transform_def Let_def intro!: store_wf_replace split: option.splits)

section \<open>Runs of the store\<close>

inductive entity_step :: "entity_store \<Rightarrow> entity_store \<Rightarrow> bool" where
  entity_spawn: "entity_step s (snd (store_spawn e at_ms s))"
| entity_remove: "entity_step s (snd (store_remove i s))"
| entity_move: "entity_step s (snd (update_transform i new at_ms teleport s))"
| entity_modify: "(\<And>e. entity_id (f e) = entity_id e) \<Longrightarrow> entity_step s (snd (store_modify h f s))"

inductive entity_run :: "nat \<Rightarrow> entity_store \<Rightarrow> entity_store \<Rightarrow> bool" where
  run_start: "entity_run 0 s s"
| run_step: "entity_run n s t \<Longrightarrow> entity_step t u \<Longrightarrow> entity_run (Suc n) s u"

lemma entity_step_wf: "entity_step s t \<Longrightarrow> store_wf s \<Longrightarrow> store_wf t"
  by (induction rule: entity_step.induct)
    (simp_all add: store_spawn_any_wf store_remove_wf update_transform_wf store_modify_wf)

lemma entity_run_wf: "entity_run n s t \<Longrightarrow> store_wf s \<Longrightarrow> store_wf t"
  by (induction rule: entity_run.induct) (auto intro: entity_step_wf)

text \<open>A step advances the generation of a slot by at most one, and never forgets a slot.\<close>

definition generations_grow :: "entity_store \<Rightarrow> entity_store \<Rightarrow> bool" where
  "generations_grow s t \<longleftrightarrow> length (entity_slots s) \<le> length (entity_slots t) \<and>
     (\<forall>k<length (entity_slots s). slot_generation (entity_slots t ! k) - slot_generation (entity_slots s ! k) \<in> {0, 1})"

lemma generations_grow_refl [simp]: "generations_grow s s"
  by (simp add: generations_grow_def)

lemma generations_grow_replace:
  "k < length (entity_slots s) \<Longrightarrow> slot_generation slot = slot_generation (entity_slots s ! k) \<Longrightarrow>
     generations_grow s (s\<lparr>entity_slots := (entity_slots s)[k := slot]\<rparr>)"
  by (auto simp: generations_grow_def nth_list_update)

lemma generations_grow_remove: "generations_grow s (snd (store_remove i s))"
  by (auto simp: generations_grow_def store_remove_def Let_def nth_list_update split: option.splits)

lemma generations_grow_spawn:
  assumes wf: "store_wf s"
  shows "generations_grow s (snd (store_spawn e at_ms s))"
proof (cases "spawn_refused e")
  case None
  let ?s1 = "snd (store_remove (entity_id e) s)"
  have wf1: "store_wf ?s1" using store_remove_wf[OF wf] by simp
  note grow = generations_grow_remove[of s "entity_id e"]
  show ?thesis
  proof (cases "take_slot (authoritative e) at_ms ?s1")
    case None
    then show ?thesis using \<open>spawn_refused e = None\<close> grow by (simp add: store_spawn_def)
  next
    case (Some a)
    obtain k s2 where a: "a = (k, s2)" by fastforce
    note t = take_slot_keeps[OF wf1 Some[unfolded a]]
    have "slot_generation (entity_slots (snd (fill_slot e at_ms k s2)) ! l) = slot_generation (entity_slots ?s1 ! l)"
      if "l < length (entity_slots ?s1)" for l
      using t(1) t(8)[OF that] by (cases "l = k") (auto simp: fill_slot_def Let_def)
    moreover have "length (entity_slots ?s1) \<le> length (entity_slots (snd (fill_slot e at_ms k s2)))"
      using t(7) by (simp add: fill_slot_def Let_def)
    ultimately show ?thesis using grow \<open>spawn_refused e = None\<close> Some a
      by (simp add: store_spawn_def generations_grow_def)
  qed
qed (simp add: store_spawn_def)

lemma entity_step_grows: "entity_step s t \<Longrightarrow> store_wf s \<Longrightarrow> generations_grow s t"
proof (induction rule: entity_step.induct)
  case (entity_spawn s e at_ms)
  then show ?case by (rule generations_grow_spawn)
next
  case (entity_remove s i)
  show ?case by (rule generations_grow_remove)
next
  case (entity_move s i new at_ms teleport)
  then show ?case by (auto simp: update_transform_def Let_def intro!: generations_grow_replace split: option.splits)
next
  case (entity_modify f s h)
  then show ?case using store_get_slot[of h s]
    by (auto simp: store_modify_def intro!: generations_grow_replace split: option.splits)
qed

text \<open>A handle whose slot has moved on by between 1 and \<open>m\<close> generations.\<close>

definition retired :: "nat \<Rightarrow> entity_handle \<Rightarrow> entity_store \<Rightarrow> bool" where
  "retired m h s \<longleftrightarrow> handle_slot h < length (entity_slots s) \<and>
     (\<exists>d. 1 \<le> d \<and> d \<le> m \<and> slot_generation (entity_slots s ! handle_slot h) = handle_generation h + of_nat d)"

lemma retired_grow: "retired m h s \<Longrightarrow> generations_grow s t \<Longrightarrow> retired (Suc m) h t"
proof -
  assume r: "retired m h s" and g: "generations_grow s t"
  obtain d where d: "1 \<le> d" "d \<le> m" "slot_generation (entity_slots s ! handle_slot h) = handle_generation h + of_nat d"
    and k: "handle_slot h < length (entity_slots s)" using r by (auto simp: retired_def)
  have "slot_generation (entity_slots t ! handle_slot h) - slot_generation (entity_slots s ! handle_slot h) \<in> {0, 1}"
    using g k by (simp add: generations_grow_def)
  then have "slot_generation (entity_slots t ! handle_slot h) = handle_generation h + of_nat d \<or>
      slot_generation (entity_slots t ! handle_slot h) = handle_generation h + of_nat (Suc d)"
    using d(3) by (auto simp: algebra_simps)
  moreover have "handle_slot h < length (entity_slots t)" using g k by (simp add: generations_grow_def)
  ultimately show "retired (Suc m) h t" using d(1,2) by (auto simp: retired_def intro: exI[of _ d] exI[of _ "Suc d"])
qed

lemma retired_run: "entity_run n s t \<Longrightarrow> store_wf s \<Longrightarrow> retired m h s \<Longrightarrow> retired (m + n) h t"
proof (induction rule: entity_run.induct)
  case (run_step n s t u)
  then show ?case using retired_grow[OF _ entity_step_grows] entity_run_wf by (metis add_Suc_right)
qed simp

lemma retired_get:
  assumes "retired m h s" and "m < 2 ^ 64"
  shows "store_get h s = None"
proof -
  obtain d where d: "1 \<le> d" "d \<le> m" "slot_generation (entity_slots s ! handle_slot h) = handle_generation h + of_nat d"
    using assms(1) by (auto simp: retired_def)
  have "of_nat d \<noteq> (0 :: u64)"
  proof
    assume "of_nat d = (0 :: u64)"
    then have "unat (of_nat d :: u64) = 0" by simp
    moreover have "unat (of_nat d :: u64) = d" using d assms(2) by (simp add: unat_of_nat)
    ultimately show False using d(1) by simp
  qed
  then show ?thesis using d(3) by (auto simp: store_get_def Let_def)
qed

lemma remove_retires: "store_wf s \<Longrightarrow> store_handle i s = Some h \<Longrightarrow> retired 1 h (snd (store_remove i s))"
  using store_wf_handle[of s i h]
  by (auto simp: store_handle_def indexed_def retired_def store_remove_def Let_def intro: exI[of _ 1])


lemma store_len_bounded:
  assumes wf: "store_wf s"
  shows "store_len s \<le> length (entity_slots s)"
proof -
  define slot_of where "slot_of i = handle_slot (the (bt_get i (by_id s)))" for i
  let ?ids = "{i. bt_get i (by_id s) \<noteq> None}"
  have at_slot: "slot_of i < length (entity_slots s) \<and> (\<exists>e. slot_entity (entity_slots s ! slot_of i) = Some e \<and> entity_id e = i)"
    if "i \<in> ?ids" for i
    using that store_wf_handle[OF wf, of i] by (auto simp: slot_of_def indexed_def)
  then have "i = j" if "i \<in> ?ids" "j \<in> ?ids" "slot_of i = slot_of j" for i j
    using that by (metis option.inject)
  then have "inj_on slot_of ?ids" by (auto intro: inj_onI)
  moreover have "slot_of ` ?ids \<subseteq> {..<length (entity_slots s)}" using at_slot by blast
  ultimately have "card ?ids \<le> length (entity_slots s)" using card_inj_on_le[of slot_of ?ids "{..<length (entity_slots s)}"] by simp
  then show ?thesis using wf bt_len_dom[of "by_id s"] by (simp add: store_len_def store_wf_def)
qed

lemma store_wf_get:
  assumes wf: "store_wf s" and "store_get h s = Some e"
  shows "store_handle (entity_id e) s = Some h"
  using store_get_slot[OF assms(2)] wf by (auto simp: store_wf_def store_handle_def)

text \<open>C18: Whatever the server sends, remote entities never exceed the capacity of 4096, and handles and
  protocol ids correspond one to one: the handle of an id finds the entity of that id, and a handle
  that finds an entity is the handle of its id.\<close>

theorem entity_handles_correspond:
  assumes "entity_run n entity_store_new s"
  shows "store_len s \<le> MAX_REMOTE_ENTITIES \<and>
    (store_handle i s = Some h \<longleftrightarrow> (\<exists>e. store_get h s = Some e \<and> entity_id e = i))"
proof -
  have wf: "store_wf s" using entity_run_wf[OF assms store_wf_new] .
  then have "store_len s \<le> MAX_REMOTE_ENTITIES" using store_len_bounded[OF wf] by (simp add: store_wf_def)
  moreover have "\<exists>e. store_get h s = Some e \<and> entity_id e = i" if "store_handle i s = Some h"
    using store_get_indexed[OF store_wf_handle[OF wf]] that by (simp add: store_handle_def)
  ultimately show ?thesis using store_wf_get[OF wf] by blast
qed

definition still_zombie :: entity where
  "still_zombie = \<lparr>entity_id = 7, entity_uuid = replicate 16 0, entity_type = map of_char ''minecraft:zombie'',
     authoritative = \<lparr>transform_position = vec3d_new 0 0 0, transform_yaw = 0, transform_pitch = 0, transform_head_yaw = 0\<rparr>,
     velocity = vec3d_new 0 0 0, spawn_data = 0, metadata = [], attributes = []\<rparr>"

lemma still_zombie_accepted: "spawn_refused still_zombie = None"
  by (simp add: spawn_refused_def still_zombie_def transform_is_finite_def vec3d_is_finite_def vec3d_new_def
      f64_is_finite_def f32_is_finite_def fl_is_finite_def fl_abs_def fl_infinity_def str_len_def as_bytes_def utf8_char_def)

lemma still_zombie_spawns:
  "store_spawn still_zombie 0 entity_store_new =
     (Inr \<lparr>handle_slot = 0, handle_generation = 0\<rparr>, snd (store_spawn still_zombie 0 entity_store_new))"
  by (simp add: store_spawn_def still_zombie_accepted store_remove_def entity_store_new_def bt_get_def take_slot_def
      MAX_REMOTE_ENTITIES_def fill_slot_def Let_def)

theorem entity_handles_correspond_witness:
  "\<forall>i h. store_len (snd (store_spawn still_zombie 0 entity_store_new)) \<le> MAX_REMOTE_ENTITIES \<and>
    (store_handle i (snd (store_spawn still_zombie 0 entity_store_new)) = Some h \<longleftrightarrow>
     (\<exists>e. store_get h (snd (store_spawn still_zombie 0 entity_store_new)) = Some e \<and> entity_id e = i))"
  by (intro allI) (rule entity_handles_correspond[OF run_step[OF run_start entity_spawn]])

text \<open>C11: A handle that was given out for an entity finds nothing once that entity was removed, and never finds
  anything again, whatever is spawned (also under the same id or in the same slot), removed or moved
  in fewer than \<open>2 ^ 64 - 1\<close> later steps; before that it would take the generation counter to wrap.\<close>

theorem removed_handle_stays_dead:
  assumes "store_wf s" and "store_handle i s = Some h" and "entity_run n (snd (store_remove i s)) t" and "n < 2 ^ 64 - 1"
  shows "store_get h t = None"
proof -
  have "store_wf (snd (store_remove i s))" using store_remove_wf[OF assms(1)] by simp
  then have "retired (1 + n) h t" using retired_run[OF assms(3) _ remove_retires[OF assms(1,2)]] by simp
  moreover have "1 + n < 2 ^ 64" using assms(4) by (simp add: less_diff_conv)
  ultimately show ?thesis by (rule retired_get)
qed

theorem removed_handle_stays_dead_witness:
  "store_get \<lparr>handle_slot = 0, handle_generation = 0\<rparr>
     (snd (store_spawn still_zombie 9 (snd (store_remove 7 (snd (store_spawn still_zombie 0 entity_store_new)))))) = None"
proof -
  let ?s = "snd (store_spawn still_zombie 0 entity_store_new)"
  have spawned: "store_wf ?s \<and> store_handle (entity_id still_zombie) ?s = Some \<lparr>handle_slot = 0, handle_generation = 0\<rparr>"
    using store_spawn_wf[OF store_wf_new still_zombie_spawns] by blast
  have "entity_run 1 (snd (store_remove 7 ?s)) (snd (store_spawn still_zombie 9 (snd (store_remove 7 ?s))))"
    using run_step[OF run_start entity_spawn] by simp
  from removed_handle_stays_dead[OF _ _ this] spawned show ?thesis by (simp add: still_zombie_def)
qed

end
