(* ===== verification/World_Props.thy ===== *)
theory World_Props
  imports World_State Entity_Props
begin

text \<open>
  What the world state keeps: its invariant over every event, that a refused event changes nothing,
  the order of teleports, and that block updates write exactly the blocks they name.
\<close>

section \<open>The loaded chunks\<close>

definition chunks_wf :: "loaded_chunks \<Rightarrow> bool" where
  "chunks_wf m \<longleftrightarrow> bt_sorted m \<and> bt_len m \<le> MAX_LOADED_CHUNKS \<and> (\<forall>p c. bt_get p m = Some c \<longrightarrow> chunk_at c = p)"

lemma chunks_wf_empty [simp]: "chunks_wf []"
  by (simp add: chunks_wf_def bt_sorted_def bt_len_def bt_get_def)

lemma bt_insert_len: "bt_sorted m \<Longrightarrow> bt_len (bt_insert k v m) = (if bt_contains k m then bt_len m else Suc (bt_len m))"
proof -
  assume m: "bt_sorted m"
  have "{k'. bt_get k' (bt_insert k v m) \<noteq> None} = insert k {k'. bt_get k' m \<noteq> None}"
    using m by (auto simp: bt_get_insert)
  moreover have "finite {k'. bt_get k' m \<noteq> None}" unfolding bt_get_dom by simp
  ultimately show ?thesis
    using bt_len_dom[OF m] bt_len_dom[OF bt_insert_sorted[OF m]] by (simp add: bt_contains_def card_insert_if)
qed

lemma bt_remove_len: "bt_len (bt_remove k m) \<le> bt_len m"
  by (simp add: bt_len_def bt_remove_def)

lemma chunks_insert_wf: "chunks_wf m \<Longrightarrow> chunks_wf (snd (chunks_insert c m))"
  by (auto simp: chunks_insert_def chunks_wf_def bt_insert_sorted bt_insert_len bt_get_insert not_le split: if_splits)

lemma chunks_remove_wf: "chunks_wf m \<Longrightarrow> chunks_wf (snd (chunks_remove p m))"
  using bt_remove_len[of p m] by (auto simp: chunks_remove_def chunks_wf_def bt_remove_sorted bt_get_remove split: if_splits)

lemma chunks_update_wf: "chunks_wf m \<Longrightarrow> (\<And>c. chunk_at (f c) = chunk_at c) \<Longrightarrow> chunks_wf (bt_update p f m)"
  by (auto simp: chunks_wf_def bt_get_update split: if_splits)

lemma update_light_wf: "chunks_wf m \<Longrightarrow> chunks_wf (snd (update_light p l m))"
  by (simp add: update_light_def chunks_update_wf)

lemma update_block_wf: "chunks_wf m \<Longrightarrow> chunks_wf (snd (update_block p offset x y z state m))"
  by (auto simp: update_block_def chunks_update_wf split: option.splits prod.splits)

lemma update_block_entity_wf: "chunks_wf m \<Longrightarrow> chunks_wf (snd (update_block_entity p x y z type_id d m))"
  by (auto simp: update_block_entity_def chunks_update_wf split: option.splits prod.splits)

text \<open>A property of the chunks that every single update keeps is kept by the loop.\<close>

lemma block_updates_loop_induct:
  assumes "P m" and "\<And>p offset x y z state m. P m \<Longrightarrow> P (snd (update_block p offset x y z state m))"
  shows "P (snd (snd (block_updates_loop g us changed ignored m)))"
  using assms(1)
proof (induction us arbitrary: changed ignored m)
  case (Cons u us)
  show ?case
  proof (cases "locate_block g (update_position u)")
    case None
    then show ?thesis using Cons by simp
  next
    case (Some l)
    obtain p offset x y z where l: "l = (p, offset, x, y, z)" by (metis prod_cases5)
    obtain b m' where u: "update_block p offset x y z (update_state u) m = (b, m')" by fastforce
    then have "P m'" using assms(2)[OF Cons.prems, of p offset x y z "update_state u"] by simp
    then show ?thesis using Cons.IH[of m'] Some l u by (cases b) simp_all
  qed
qed simp

lemma block_updates_loop_wf: "chunks_wf m \<Longrightarrow> chunks_wf (snd (snd (block_updates_loop g us changed ignored m)))"
  by (rule block_updates_loop_induct) (simp_all add: update_block_wf)

section \<open>The invariant\<close>

definition geometry_wf :: "dimension_geometry \<Rightarrow> bool" where
  "geometry_wf g \<longleftrightarrow> validate_dimension_geometry g = Inr ()"

definition session_wf :: "world_session \<Rightarrow> bool" where
  "session_wf s \<longleftrightarrow> geometry_wf (session_geometry s) \<and> distinct (known_dimensions s) \<and> sorted (known_dimensions s) \<and>
     (case session_position s of None \<Rightarrow> True | Some p \<Rightarrow> transform_finite p) \<and>
     (case session_rotation s of None \<Rightarrow> True | Some r \<Rightarrow> validate_rotation r = Inr ()) \<and>
     (case last_teleport_id s of None \<Rightarrow> True | Some t \<Rightarrow> 0 \<le> t) \<and>
     in_unit_interval (rain_level (weather s)) \<and> in_unit_interval (thunder_level (weather s)) \<and>
     (case session_border s of None \<Rightarrow> True | Some b \<Rightarrow> validate_border b = Inr ()) \<and>
     (case session_spawn_point s of None \<Rightarrow> True | Some p \<Rightarrow> validate_spawn p = Inr ()) \<and>
     (case session_time s of None \<Rightarrow> True | Some t \<Rightarrow> validate_time t = Inr ())"

definition world_wf :: "world_state \<Rightarrow> bool" where
  "world_wf w \<longleftrightarrow> (lifecycle w = Active \<longleftrightarrow> session w \<noteq> None) \<and> (lifecycle w \<noteq> Active \<longrightarrow> chunks w = []) \<and>
     chunks_wf (chunks w) \<and> store_wf (entities w) \<and>
     (\<forall>d\<in>set (dimension_types w). geometry_wf (dimension_type_geometry d)) \<and>
     (case session w of None \<Rightarrow> True | Some s \<Rightarrow> session_wf s)"

named_theorems change_inversion \<open>what an accepted change went through\<close>

lemma require_lifecycle_Inr [simp]: "require_lifecycle l event w = Inr u \<longleftrightarrow> lifecycle w = l"
  by (auto simp: require_lifecycle_def)

lemma active_session_Inr [simp]: "active_session event w = Inr s \<longleftrightarrow> lifecycle w = Active \<and> session w = Some s"
  by (auto simp: active_session_def split: option.splits)

lemma find_geometry_wf: "world_wf w \<Longrightarrow> find_geometry i w = Inr g \<Longrightarrow> geometry_wf g"
  by (auto simp: find_geometry_def world_wf_def find_Some_iff split: option.splits)

lemma store_clear_wf: "store_wf s \<Longrightarrow> store_wf (store_clear s)"
proof -
  have "store_wf (fold (\<lambda>i s. snd (store_remove i s)) is s)" if "store_wf s" for "is" s
    using that by (induction "is" arbitrary: s) (simp_all add: store_remove_wf)
  then show "store_wf s \<Longrightarrow> store_wf (store_clear s)" by (simp add: store_clear_def)
qed

lemma validate_geometries_Inr: "validate_geometries ds = Inr u \<longleftrightarrow> (\<forall>d\<in>set ds. geometry_wf (dimension_type_geometry d))"
  by (induction ds) (auto simp: geometry_wf_def)

lemma apply_position_finite: "apply_position c r l u = Inr p \<Longrightarrow> transform_finite p \<and> at_teleport_id p = position_teleport_id u"
  unfolding apply_position_def Let_def by (auto split: if_splits)

lemma apply_position_id: "apply_position c r l u = Inr p \<Longrightarrow> 0 \<le> position_teleport_id u \<and> (\<forall>k. l = Some k \<longrightarrow> k < position_teleport_id u)"
  unfolding apply_position_def Let_def by (auto simp: check_teleport_def split: if_splits option.splits)

lemma apply_rotation_valid: "apply_rotation r u = Inr q \<Longrightarrow> validate_rotation q = Inr ()"
  unfolding apply_rotation_def Let_def by auto

lemma validate_rotation_iff: "validate_rotation r = Inr () \<longleftrightarrow> f32_is_finite (rotation_yaw r) \<and> f32_is_finite (rotation_pitch r)"
  by (simp add: validate_rotation_def)

lemma validate_level_Inr: "validate_level l f = Inr u \<Longrightarrow> in_unit_interval l"
  by (auto simp: validate_level_def split: if_splits)

lemma weather_default_levels: "in_unit_interval (rain_level weather_default)" "in_unit_interval (thunder_level weather_default)"
  by (simp_all add: weather_default_def in_unit_interval_def f32_less_eq_def fl_less_eq_def fl_is_nan_def fl_abs_def
      fl_infinity_def fl_key_def fl_neg_def fl_sign_def f32_1_def)

lemma on_session_wf:
  "on_session event f w = Inr (reset, changed, w') \<Longrightarrow> world_wf w \<Longrightarrow> (\<And>s. session_wf s \<Longrightarrow> session_wf (f s)) \<Longrightarrow> world_wf w'"
  by (auto simp: on_session_def world_wf_def)


lemma reset_connection_wf:
  "reset_connection l w = Inr (reset, changed, w') \<Longrightarrow> world_wf w \<Longrightarrow> l \<noteq> Active \<Longrightarrow> world_wf w'"
  by (auto simp: reset_connection_def world_wf_def store_clear_wf)

lemma receive_wf:
  assumes "world_wf w"
  shows "receive_registries rs w = Inr (reset, changed, w') \<Longrightarrow> world_wf w'"
    and "receive_dimension_types ds w = Inr (reset, changed, w') \<Longrightarrow> world_wf w'"
    and "receive_biomes bs w = Inr (reset, changed, w') \<Longrightarrow> world_wf w'"
  using assms
  by (auto simp: receive_registries_def receive_dimension_types_def receive_biomes_def world_wf_def Let_def validate_geometries_Inr
      split: if_splits)

lemma session_from_enter_wf:
  "validate_enter_world e = Inr u \<Longrightarrow> geometry_wf g \<Longrightarrow> session_wf (session_from_enter e g)"
  using card_distinct[of "enter_known_dimensions e"]
  by (auto simp: session_wf_def session_from_enter_def weather_default_levels validate_enter_world_def Let_def
      length_remdups_card_conv split: if_splits)

lemma enter_the_world_wf: "enter_the_world e w = Inr (reset, changed, w') \<Longrightarrow> world_wf w \<Longrightarrow> world_wf w'"
  using find_geometry_wf[of w] session_from_enter_wf[of e]
  by (auto simp: enter_the_world_def world_wf_def store_clear_wf)

lemma respawned_wf:
  assumes "session_wf s" and "geometry_wf g"
    and "(case respawn_new_rotation r of Preserve \<Rightarrow> Inr () | Reset rot \<Rightarrow> validate_rotation rot) = Inr ()"
  shows "session_wf (respawned r g changed s)"
  using assms weather_default_levels
  by (cases "respawn_new_rotation r") (simp_all add: session_wf_def respawned_def Let_def)

lemma respawn_world_wf: "respawn_world r w = Inr (reset, changed, w') \<Longrightarrow> world_wf w \<Longrightarrow> world_wf w'"
  using find_geometry_wf[of w] respawned_wf[of _ _ r]
  by (auto simp: respawn_world_def world_wf_def store_clear_wf Let_def)

lemma synchronize_position_wf: "synchronize_position u w = Inr (reset, changed, w') \<Longrightarrow> world_wf w \<Longrightarrow> world_wf w'"
  using apply_position_finite[of _ _ _ u] apply_position_id[of _ _ _ u]
  by (auto simp: synchronize_position_def world_wf_def session_wf_def validate_rotation_iff transform_finite_def)

lemma session_wf_rotated:
  "session_wf s \<Longrightarrow> validate_rotation r = Inr () \<Longrightarrow>
   session_wf (s\<lparr>session_rotation := Some r, session_position :=
     map_option (\<lambda>p. p\<lparr>at_yaw := rotation_yaw r, at_pitch := rotation_pitch r\<rparr>) (session_position s)\<rparr>)"
  by (cases "session_position s") (simp_all add: session_wf_def validate_rotation_iff transform_finite_def)

lemma synchronize_rotation_wf:
  assumes "synchronize_rotation u w = Inr (reset, changed, w')" and wf: "world_wf w"
  shows "world_wf w'"
proof -
  obtain s r where s: "lifecycle w = Active" "session w = Some s" and r: "apply_rotation (session_rotation s) u = Inr r"
    and w': "w' = w\<lparr>session := Some (s\<lparr>session_rotation := Some r, session_position :=
      map_option (\<lambda>p. p\<lparr>at_yaw := rotation_yaw r, at_pitch := rotation_pitch r\<rparr>) (session_position s)\<rparr>)\<rparr>"
    using assms(1) by (auto simp: synchronize_rotation_def)
  have "session_wf s" using wf s by (simp add: world_wf_def)
  from session_wf_rotated[OF this apply_rotation_valid[OF r]] show ?thesis
    using wf s unfolding w' by (simp add: world_wf_def)
qed

lemma load_chunk_wf: "load_chunk c w = Inr (reset, changed, w') \<Longrightarrow> world_wf w \<Longrightarrow> world_wf w'"
  using chunks_insert_wf[of "chunks w" c]
  by (auto simp: load_chunk_def world_wf_def split: prod.splits sum.splits)

lemma unload_relight_wf:
  "unload_chunk p w = Inr (reset, changed, w') \<Longrightarrow> world_wf w \<Longrightarrow> world_wf w'"
  "relight_chunk p l w = Inr (reset, changed, w') \<Longrightarrow> world_wf w \<Longrightarrow> world_wf w'"
  by (auto simp: unload_chunk_def relight_chunk_def world_wf_def chunks_remove_wf update_light_wf)

lemma handle_event_wf:
  assumes "handle_event event w = Inr (reset, changed, w')" and wf: "world_wf w"
  shows "world_wf w'"
proof (cases event)
  case (SetSpawn p)
  then show ?thesis using assms by (auto simp: session_wf_def intro: on_session_wf)
next
  case (SetTime t)
  then show ?thesis using assms by (auto simp: session_wf_def intro: on_session_wf)
next
  case (SetDifficulty d locked)
  then show ?thesis using assms by (auto simp: session_wf_def intro: on_session_wf)
next
  case (SetRaining b)
  then show ?thesis using assms by (auto simp: session_wf_def intro: on_session_wf)
next
  case (SetRainLevel l)
  then show ?thesis using assms validate_level_Inr by (auto simp: session_wf_def intro: on_session_wf)
next
  case (SetThunderLevel l)
  then show ?thesis using assms validate_level_Inr by (auto simp: session_wf_def intro: on_session_wf)
next
  case (SetGameMode m)
  then show ?thesis using assms by (auto simp: session_wf_def intro: on_session_wf)
next
  case (SetWorldBorder b)
  then show ?thesis using assms by (auto simp: session_wf_def intro: on_session_wf)
qed (use assms receive_wf[OF wf] reset_connection_wf enter_the_world_wf respawn_world_wf synchronize_position_wf
      synchronize_rotation_wf load_chunk_wf unload_relight_wf in \<open>auto\<close>)

lemma apply_event_wf: "world_wf w \<Longrightarrow> world_wf (snd (apply_event event w))"
  using handle_event_wf[of event w]
  by (auto simp: apply_event_def world_wf_def split: option.splits sum.splits)

lemma world_wf_revision [simp]: "world_wf (w\<lparr>revision := r\<rparr>) = world_wf w"
  by (simp add: world_wf_def)

lemma bump_revision_wf: "world_wf w \<Longrightarrow> world_wf (snd (bump_revision changed places ignored w))"
  by (simp add: bump_revision_def Let_def split: option.splits)

lemma world_wf_chunks: "world_wf w \<Longrightarrow> lifecycle w = Active \<Longrightarrow> chunks_wf m \<Longrightarrow> world_wf (w\<lparr>chunks := m\<rparr>)"
  by (simp add: world_wf_def)

lemma apply_block_updates_wf:
  assumes wf: "world_wf w"
  shows "world_wf (snd (apply_block_updates us w))"
proof -
  have "chunks_wf m'" if "block_updates_loop g us [] 0 (chunks w) = (changed, ignored, m')" for g changed ignored m'
    using block_updates_loop_wf[of "chunks w" g us "[]" 0] that wf by (simp add: world_wf_def)
  then show ?thesis
    using wf world_wf_chunks[OF wf]
    by (auto simp: apply_block_updates_def intro!: bump_revision_wf split: sum.splits option.splits prod.splits)
qed

lemma apply_block_entity_update_wf:
  assumes wf: "world_wf w"
  shows "world_wf (snd (apply_block_entity_update p type_id d w))"
proof -
  have "chunks_wf m'" if "update_block_entity q x y z type_id d (chunks w) = (changed, m')" for q x y z changed m'
    using update_block_entity_wf[of "chunks w" q x y z type_id d] that wf by (simp add: world_wf_def)
  then show ?thesis
    using wf world_wf_chunks[OF wf]
    by (auto simp: apply_block_entity_update_def Let_def intro!: bump_revision_wf split: sum.splits prod.splits)
qed


section \<open>Block updates write the blocks they name\<close>

text \<open>The block at a position of the world: none where no chunk is loaded or the world ends.\<close>

definition block_in :: "dimension_geometry \<Rightarrow> loaded_chunks \<Rightarrow> block_coordinates \<Rightarrow> nat option" where
  "block_in g m p =
     (case locate_block g p of
        None \<Rightarrow> None
      | Some (q, offset, x, y, z) \<Rightarrow>
          (case bt_get q m of
             None \<Rightarrow> None
           | Some c \<Rightarrow> if offset < length (chunk_sections c) then section_block (chunk_sections c ! offset) x y z else None))"

definition write_block :: "block_state_update \<Rightarrow> (block_coordinates \<Rightarrow> nat option) \<Rightarrow> block_coordinates \<Rightarrow> nat option" where
  "write_block u f = (if f (update_position u) = None then f else f(update_position u \<mapsto> update_state u))"

definition palettes_wf :: "loaded_chunks \<Rightarrow> bool" where
  "palettes_wf m \<longleftrightarrow> (\<forall>p c. bt_get p m = Some c \<longrightarrow> (\<forall>s\<in>set (chunk_sections c). paletted_wf (section_blocks s)))"

lemma locate_block_SomeD:
  assumes "locate_block g p = Some (c, offset, x, y, z)"
  shows "0 \<le> block_y p - min_y g \<and> c = Chunk_Coordinate (block_x p div 16) (block_z p div 16) \<and>
    offset = nat ((block_y p - min_y g) div 16) \<and> x = nat (block_x p mod 16) \<and>
    y = nat ((block_y p - min_y g) mod 16) \<and> z = nat (block_z p mod 16)"
  using assms
  by (simp only: locate_block_def Let_def not_le not_less de_Morgan_disj option.inject prod.inject option.distinct if_True if_False
      split: if_splits)

lemma digits_16: "nat (a mod 16) = nat (b mod 16) \<Longrightarrow> a div 16 = b div 16 \<Longrightarrow> a = b" for a b :: int
  by (metis div_mult_mod_eq eq_nat_nat_iff pos_mod_sign zero_less_numeral)

lemma locate_block_inj:
  assumes "locate_block g p = Some l" and "locate_block g q = Some l"
  shows "p = q"
proof -
  obtain c offset x y z where l: "l = (c, offset, x, y, z)" by (metis prod_cases5)
  note p = locate_block_SomeD[OF assms(1)[unfolded l]] and q = locate_block_SomeD[OF assms(2)[unfolded l]]
  have "(block_y p - min_y g) div 16 = (block_y q - min_y g) div 16"
    using p q by (metis eq_nat_nat_iff pos_imp_zdiv_nonneg_iff zero_less_numeral)
  then have "block_y p - min_y g = block_y q - min_y g" using p q by (metis digits_16)
  moreover have "block_x p = block_x q" "block_z p = block_z q" using p q by (metis digits_16 chunk_coordinate.inject)+
  ultimately show ?thesis by (simp add: block_coordinates.equality)
qed

lemma locate_block_local:
  assumes "locate_block g p = Some (q, offset, x, y, z)"
  shows "x < 16 \<and> y < 16 \<and> z < 16 \<and> q = Chunk_Coordinate (block_x p div 16) (block_z p div 16)"
  using locate_block_SomeD[OF assms] by (simp add: nat_less_iff)

lemma update_block_writes:
  assumes palettes: "palettes_wf m" and p: "locate_block g p = Some (q, offset, x, y, z)"
    and upd: "update_block q offset x y z state m = (changed, m')"
  shows "palettes_wf m' \<and> changed = (block_in g m p \<notin> {None, Some state}) \<and>
    block_in g m' r = (if r = p \<and> block_in g m p \<noteq> None then Some state else block_in g m r)"
proof (cases "\<exists>c. bt_get q m = Some c \<and> offset < length (chunk_sections c)")
  case False
  then have "changed = False \<and> m' = m" using upd by (auto simp: update_block_def split: option.splits if_splits)
  moreover have "block_in g m p = None" using False p by (auto simp: block_in_def split: option.splits)
  ultimately show ?thesis using palettes by simp
next
  case True
  then obtain c where c: "bt_get q m = Some c" "offset < length (chunk_sections c)" by blast
  define sect where "sect = chunk_sections c ! offset"
  have loc: "x < 16" "y < 16" "z < 16" using locate_block_local[OF p] by auto
  define i where "i = (y * 16 + z) * 16 + x"
  have i: "section_index x y z 16 = Some i" using loc by (simp add: section_index_16 i_def)
  have sect_wf: "paletted_wf (section_blocks sect)" using palettes c by (auto simp: palettes_wf_def sect_def)
  obtain blocks where set_eq: "paletted_set i state (section_blocks sect) = (changed, blocks)"
    and m': "m' = bt_update q (\<lambda>c. c\<lparr>chunk_sections := (chunk_sections c)[offset := (chunk_sections c ! offset)\<lparr>section_blocks := blocks\<rparr>]\<rparr>) m"
    using upd c i by (auto simp: update_block_def sect_def split: prod.splits)
  note spec = paletted_set_spec[OF sect_wf, of i state, unfolded set_eq fst_conv snd_conv]
  have get: "bt_get a m' = (if a = q then Some (c\<lparr>chunk_sections := (chunk_sections c)[offset := sect\<lparr>section_blocks := blocks\<rparr>]\<rparr>) else bt_get a m)" for a
    using c by (simp add: m' bt_get_update sect_def)
  have at_p: "block_in g m p = paletted_get (section_blocks sect) i"
    using p c i by (simp add: block_in_def section_block_def sect_def)
  have dom: "paletted_get (section_blocks sect) i \<noteq> None \<longleftrightarrow> i < paletted_len (section_blocks sect)"
    by (rule paletted_get_dom[OF sect_wf])
  have "palettes_wf m'"
    using palettes c(2) spec(2) get by (auto simp: palettes_wf_def dest!: subsetD[OF set_update_subset_insert] split: if_splits) (use c in blast)
  moreover have "changed = (block_in g m p \<notin> {None, Some state})" using spec(1) dom at_p by auto
  moreover have "block_in g m' r = (if r = p \<and> block_in g m p \<noteq> None then Some state else block_in g m r)"
  proof (cases "locate_block g r")
    case None
    then have "r \<noteq> p" using p by auto
    then show ?thesis using None by (simp add: block_in_def)
  next
    case (Some l)
    obtain q' offset' x' y' z' where l: "l = (q', offset', x', y', z')" by (metis prod_cases5)
    show ?thesis
    proof (cases "q' = q \<and> offset' = offset")
      case False
      then have "r \<noteq> p" using p Some l by auto
      then show ?thesis using False Some l c by (auto simp: block_in_def get nth_list_update)
    next
      case True
      have loc': "x' < 16" "y' < 16" "z' < 16" using locate_block_local[OF Some[unfolded l]] by auto
      define j where "j = (y' * 16 + z') * 16 + x'"
      have j: "section_index x' y' z' 16 = Some j" using loc' by (simp add: section_index_16 j_def)
      have "j = i \<longleftrightarrow> r = p"
        using section_index_inj[OF i, of x' y' z'] j locate_block_inj[of g r l p] p Some l True i by auto
      moreover have "block_in g m' r = paletted_get blocks j" "block_in g m r = paletted_get (section_blocks sect) j"
        using Some l True c j by (simp_all add: block_in_def get section_block_def sect_def)
      ultimately show ?thesis using spec(4)[of j] dom at_p by auto
    qed
  qed
  ultimately show ?thesis by blast
qed

lemma block_updates_loop_writes:
  "palettes_wf m \<Longrightarrow> sorted changed \<and> distinct changed \<Longrightarrow> block_updates_loop g us changed ignored m = (changed', ignored', m') \<Longrightarrow>
   block_in g m' = fold write_block us (block_in g m) \<and> sorted changed' \<and> distinct changed' \<and> set changed \<subseteq> set changed' \<and>
   (\<forall>p. block_in g m' p \<noteq> block_in g m p \<longrightarrow> Chunk_Coordinate (block_x p div 16) (block_z p div 16) \<in> set changed')"
proof (induction us arbitrary: changed ignored m)
  case (Cons u us)
  show ?case
  proof (cases "locate_block g (update_position u)")
    case None
    then have "write_block u (block_in g m) = block_in g m" by (simp add: write_block_def block_in_def)
    then show ?thesis using Cons None by simp
  next
    case (Some l)
    obtain p offset x y z where l: "l = (p, offset, x, y, z)" by (metis prod_cases5)
    note loc = Some[unfolded l]
    obtain b m1 where u: "update_block p offset x y z (update_state u) m = (b, m1)" by fastforce
    note w = update_block_writes[OF Cons.prems(1) loc u]
    have in1: "block_in g m1 = write_block u (block_in g m)" using w by (auto simp: write_block_def fun_eq_iff)
    define changed1 where "changed1 = (if b then bset_insert p changed else changed)"
    have rest: "\<exists>n. block_updates_loop g us changed1 n m1 = (changed', ignored', m')"
      using Cons.prems(3) loc u by (cases b) (auto simp: changed1_def)
    then obtain n where n: "block_updates_loop g us changed1 n m1 = (changed', ignored', m')" by blast
    have "sorted changed1 \<and> distinct changed1" using Cons.prems(2) bset_insert_keeps[of changed p] by (simp add: changed1_def)
    note ih = Cons.IH[OF conjunct1[OF w] this n]
    have touched: "Chunk_Coordinate (block_x r div 16) (block_z r div 16) \<in> set changed1"
      if "block_in g m1 r \<noteq> block_in g m r" for r
      using that w locate_block_local[OF loc] by (auto simp: changed1_def split: if_splits)
    have "set changed \<subseteq> set changed1" by (auto simp: changed1_def)
    moreover have "Chunk_Coordinate (block_x r div 16) (block_z r div 16) \<in> set changed'"
      if "block_in g m' r \<noteq> block_in g m r" for r
      using ih touched[of r] that by (cases "block_in g m1 r = block_in g m r") auto
    ultimately show ?thesis using ih in1 by auto
  qed
qed simp


section \<open>Properties\<close>

inductive world_step :: "world_state \<Rightarrow> world_state \<Rightarrow> bool" where
  world_event: "world_step w (snd (apply_event event w))"
| world_blocks: "world_step w (snd (apply_block_updates us w))"
| world_block_entity: "world_step w (snd (apply_block_entity_update p type_id d w))"
| world_entities: "entity_step (entities w) s \<Longrightarrow> world_step w (w\<lparr>entities := s\<rparr>)"

lemma world_default_wf: "world_wf world_default"
  using store_wf_new by (simp add: world_wf_def world_default_def)

lemma world_step_wf: "world_step w w' \<Longrightarrow> world_wf w \<Longrightarrow> world_wf w'"
proof (induction rule: world_step.induct)
  case (world_entities w s)
  then show ?case using entity_step_wf[OF world_entities(1)] by (simp add: world_wf_def)
qed (simp_all add: apply_event_wf apply_block_updates_wf apply_block_entity_update_wf)

lemma world_steps_wf: "world_step\<^sup>*\<^sup>* w w' \<Longrightarrow> world_wf w \<Longrightarrow> world_wf w'"
  by (induction rule: rtranclp_induct) (auto intro: world_step_wf)

text \<open>C6: However the server orders its events, a session exists exactly while the world is active, chunks are
  loaded only then, at most 512 of them and each under its own coordinate, the entity store is
  consistent, the geometry of the session was validated, and the position, rotation, weather, border,
  spawn point and clocks the session shows are finite and in range.\<close>

theorem world_stays_consistent:
  assumes "world_step\<^sup>*\<^sup>* world_default w"
  shows "world_wf w"
  using world_steps_wf[OF assms world_default_wf] .

definition overworld_type :: runtime_dimension_type where
  "overworld_type = \<lparr>dimension_raw_id = 0, dimension_identifier = ''minecraft:overworld'',
     dimension_type_geometry = \<lparr>min_y = -64, height = 384\<rparr>\<rparr>"

definition overworld_context :: spawn_context where
  "overworld_context = \<lparr>context_dimension_type = \<lparr>reference_registry = ''minecraft:dimension_type'', reference_raw_id = 0\<rparr>,
     context_dimension = ''minecraft:overworld'', context_hashed_seed = 0, context_game_mode = Survival,
     context_previous_game_mode = None, context_debug_world = False, context_flat_world = False,
     context_last_death = None, context_portal_cooldown = 0, context_sea_level = 63\<rparr>"

definition enter_overworld :: enter_world where
  "enter_overworld = \<lparr>enter_player_entity_id = 1, enter_hardcore = False, enter_known_dimensions = [''minecraft:overworld''],
     enter_max_players = 20, enter_view_distance = 10, enter_simulation_distance = 10, enter_reduced_debug_info = False,
     enter_show_death_screen = True, enter_limited_crafting = False, enter_secure_chat_enforced = False,
     enter_spawn = overworld_context\<rparr>"

definition entered_world :: world_state where
  "entered_world =
     snd (apply_event (EnterWorld enter_overworld)
       (snd (apply_event (RuntimeDimensionTypes [overworld_type])
         (snd (apply_event BeginConfiguration world_default)))))"

lemma entered_world_eq:
  "entered_world = \<lparr>lifecycle = Active, revision = 3, registries = [], dimension_types = [overworld_type], biomes = [],
     session = Some (session_from_enter enter_overworld \<lparr>min_y = -64, height = 384\<rparr>), chunks = [],
     entities = entity_store_new\<rparr>"
  by (simp add: entered_world_def apply_event_def world_default_def next_revision_def reset_connection_def
      receive_dimension_types_def overworld_type_def and_also_def require_lifecycle_def validate_dimension_geometry_def
      enter_the_world_def validate_enter_world_def enter_overworld_def MAX_KNOWN_DIMENSIONS_def overworld_context_def
      find_geometry_def store_clear_def entity_store_new_def)

lemma entered_world_reachable: "world_step\<^sup>*\<^sup>* world_default entered_world"
  unfolding entered_world_def by (blast intro: rtranclp.rtrancl_into_rtrancl rtranclp.rtrancl_refl world_event)

theorem world_stays_consistent_witness: "lifecycle entered_world = Active \<and> world_wf entered_world"
  using world_stays_consistent[OF entered_world_reachable] by (simp add: entered_world_eq)

text \<open>The ids of the position updates that were accepted, in order.\<close>

fun accepted_teleports :: "world_event list \<Rightarrow> world_state \<Rightarrow> int list" where
  "accepted_teleports [] w = []"
| "accepted_teleports (e # es) w =
     (case (e, fst (apply_event e w)) of
        (SynchronizePlayerPosition u, Inr _) \<Rightarrow> [position_teleport_id u] | _ \<Rightarrow> []) @
     accepted_teleports es (snd (apply_event e w))"

definition leaves_session :: "world_event \<Rightarrow> bool" where
  "leaves_session e \<longleftrightarrow> e = BeginConfiguration \<or> e = Disconnect"

lemma event_keeps_teleport:
  assumes "handle_event e w = Inr (reset, changed, w')" and "\<not> leaves_session e" and "lifecycle w = Active"
  shows "lifecycle w' = Active \<and> (case e of
    SynchronizePlayerPosition u \<Rightarrow> (\<forall>s i. session w = Some s \<longrightarrow> last_teleport_id s = Some i \<longrightarrow> i < position_teleport_id u) \<and>
      (\<exists>s'. session w' = Some s' \<and> last_teleport_id s' = Some (position_teleport_id u))
    | _ \<Rightarrow> map_option last_teleport_id (session w') = map_option last_teleport_id (session w))"
proof (cases e)
  case (SynchronizePlayerPosition u)
  then show ?thesis using assms apply_position_id[of _ _ _ u] apply_position_finite[of _ _ _ u]
    by (auto simp: synchronize_position_def)
next
  case (Respawn r)
  then show ?thesis using assms by (auto simp: respawn_world_def respawned_def Let_def split: respawn_rotation.splits)
next
  case (LoadChunk c)
  then show ?thesis using assms by (auto simp: load_chunk_def split: prod.splits sum.splits)
qed (use assms in \<open>auto simp: leaves_session_def receive_registries_def receive_dimension_types_def receive_biomes_def
    enter_the_world_def synchronize_rotation_def on_session_def unload_chunk_def relight_chunk_def\<close>)

lemma accepted_teleports_above:
  "list_all (\<lambda>e. \<not> leaves_session e) es \<Longrightarrow> lifecycle w = Active \<Longrightarrow>
   sorted_wrt (<) (accepted_teleports es w) \<and>
   (\<forall>s i. session w = Some s \<longrightarrow> last_teleport_id s = Some i \<longrightarrow> (\<forall>t\<in>set (accepted_teleports es w). i < t))"
proof (induction es arbitrary: w)
  case (Cons e es)
  obtain res w' where a: "apply_event e w = (res, w')" by fastforce
  show ?case
  proof (cases res)
    case (Inl err)
    then have "w' = w" using a by (auto simp: apply_event_def split: option.splits sum.splits)
    then show ?thesis using Cons a Inl by (cases e) simp_all
  next
    case (Inr t)
    then obtain reset changed w1 r where h: "handle_event e w = Inr (reset, changed, w1)" and w': "w' = w1\<lparr>revision := r\<rparr>"
      using a by (auto simp: apply_event_def split: option.splits sum.splits)
    have e: "\<not> leaves_session e" using Cons.prems(1) by simp
    note keep = event_keeps_teleport[OF h e Cons.prems(2)]
    have ih: "sorted_wrt (<) (accepted_teleports es w') \<and>
      (\<forall>s i. session w' = Some s \<longrightarrow> last_teleport_id s = Some i \<longrightarrow> (\<forall>t\<in>set (accepted_teleports es w'). i < t))"
      using Cons.IH[of w'] Cons.prems keep by (simp add: w')
    have rest: "accepted_teleports (e # es) w =
        (case e of SynchronizePlayerPosition u \<Rightarrow> [position_teleport_id u] | _ \<Rightarrow> []) @ accepted_teleports es w'"
      using a Inr by (cases e) simp_all
    show ?thesis
    proof (cases "\<exists>u. e = SynchronizePlayerPosition u")
      case True
      then obtain u s' where u: "e = SynchronizePlayerPosition u" "session w' = Some s'" "last_teleport_id s' = Some (position_teleport_id u)"
        using keep by (auto simp: w')
      then have above: "\<forall>t\<in>set (accepted_teleports es w'). position_teleport_id u < t" using ih by blast
      then show ?thesis using ih keep u unfolding rest by (fastforce intro: order.strict_trans)
    next
      case False
      then have "map_option last_teleport_id (session w') = map_option last_teleport_id (session w)"
        using keep by (cases e) (auto simp: w')
      moreover have "accepted_teleports (e # es) w = accepted_teleports es w'"
        using False unfolding rest by (cases e) simp_all
      ultimately show ?thesis using ih by (cases "session w") auto
    qed
  qed
qed simp


text \<open>C12: While a session lasts (no reconfiguration, no disconnect), the position updates that are accepted
  have strictly increasing teleport ids, each above the last one the session had applied, whatever
  other events come between, respawns included: a late or repeated teleport never moves the player.\<close>

theorem accepted_teleports_increase:
  assumes "lifecycle w = Active" and "list_all (\<lambda>e. \<not> leaves_session e) es"
    and "session w = Some s" and "last_teleport_id s = Some i"
  shows "sorted_wrt (<) (i # accepted_teleports es w)"
  using accepted_teleports_above[OF assms(2,1)] assms(3,4) by simp

definition move_to :: "int \<Rightarrow> player_position_update" where
  "move_to i = \<lparr>position_teleport_id = i, position_x = 0, position_y = 0, position_z = 0, position_yaw = 0,
     position_pitch = 0, position_relative = \<lparr>relative_x = False, relative_y = False, relative_z = False,
     relative_yaw = False, relative_pitch = False\<rparr>\<rparr>"

lemma entered_world_moves:
  "\<exists>s. session (snd (apply_event (SynchronizePlayerPosition (move_to 1)) entered_world)) = Some s \<and> last_teleport_id s = Some 1 \<and>
     lifecycle (snd (apply_event (SynchronizePlayerPosition (move_to 1)) entered_world)) = Active"
  by (simp add: entered_world_eq apply_event_def next_revision_def synchronize_position_def active_session_def apply_position_def
      check_teleport_def and_also_def session_from_enter_def move_to_def resolve_number_def transform_finite_def
      f64_is_finite_def f32_is_finite_def fl_is_finite_def fl_abs_def fl_infinity_def)

theorem accepted_teleports_increase_witness:
  "sorted_wrt (<) (1 # accepted_teleports [SynchronizePlayerPosition (move_to 1), SynchronizePlayerPosition (move_to 5)]
     (snd (apply_event (SynchronizePlayerPosition (move_to 1)) entered_world)))"
proof -
  obtain s where s: "session (snd (apply_event (SynchronizePlayerPosition (move_to 1)) entered_world)) = Some s"
    "last_teleport_id s = Some 1" "lifecycle (snd (apply_event (SynchronizePlayerPosition (move_to 1)) entered_world)) = Active"
    using entered_world_moves by blast
  show ?thesis by (rule accepted_teleports_increase[OF s(3) _ s(1,2)]) (simp add: leaves_session_def)
qed

text \<open>C4: A batch of block updates that is accepted does exactly what it says: reading any block afterwards
  gives what writing the updates one after the other would give, where only positions inside the
  world and in loaded chunks can be written. The chunks it reports are sorted, without repetition, and
  include every chunk in which some block differs; the revision advances by one exactly when it
  reports any.\<close>

theorem block_updates_write_blocks:
  assumes "session w = Some s" and "palettes_wf (chunks w)" and "apply_block_updates us w = (Inr res, w')"
  shows "block_in (session_geometry s) (chunks w') = fold write_block us (block_in (session_geometry s) (chunks w)) \<and>
    sorted (changed_chunks res) \<and> distinct (changed_chunks res) \<and>
    {Chunk_Coordinate (block_x p div 16) (block_z p div 16) |p.
       block_in (session_geometry s) (chunks w') p \<noteq> block_in (session_geometry s) (chunks w) p} \<subseteq> set (changed_chunks res) \<and>
    revision w' = (if changed_chunks res = [] then revision w else revision w + 1) \<and> result_revision res = revision w'"
proof -
  obtain changed ignored m where loop: "block_updates_loop (session_geometry s) us [] 0 (chunks w) = (changed, ignored, m)"
    by (metis prod_cases3)
  have bump: "bump_revision (changed \<noteq> []) changed ignored (w\<lparr>chunks := m\<rparr>) = (Inr res, w')"
    using assms(1,3) loop by (simp add: apply_block_updates_def split: sum.splits if_splits)
  have res: "changed_chunks res = changed" "chunks w' = m" "result_revision res = revision w'"
    "revision w' = (if changed = [] then revision w else revision w + 1)"
    using bump by (auto simp: bump_revision_def Let_def next_revision_def split: if_splits option.splits)
  show ?thesis
    using block_updates_loop_writes[OF assms(2) _ loop] by (auto simp: res)
qed

definition flat_chunk :: chunk where
  "flat_chunk = \<lparr>chunk_at = Chunk_Coordinate 0 0, chunk_sections =
     [\<lparr>section_non_empty = 0, section_fluid_count = 0, section_blocks = Single 0 4096, section_biomes = Single 0 64\<rparr>],
     chunk_heightmaps = [], chunk_block_entities = [], chunk_light = \<lparr>sky_mask = [], block_mask = [], empty_sky_mask = [],
       empty_block_mask = [], sky_layer_count = 0, block_layer_count = 0, sky_layers = [], block_layers = []\<rparr>\<rparr>"

definition flat_world :: world_state where
  "flat_world = entered_world\<lparr>chunks := [(Chunk_Coordinate 0 0, flat_chunk)]\<rparr>"

definition place_stone :: block_state_update where
  "place_stone = \<lparr>update_position = \<lparr>block_x = 3, block_y = -60, block_z = 5\<rparr>, update_state = 1\<rparr>"

lemma flat_world_update:
  "\<exists>res w'. apply_block_updates [place_stone] flat_world = (Inr res, w')"
proof -
  obtain changed ignored m where loop: "block_updates_loop \<lparr>min_y = -64, height = 384\<rparr> [place_stone] [] 0 (chunks flat_world) = (changed, ignored, m)"
    by (metis prod_cases3)
  then show ?thesis
    by (cases "changed = []")
      (simp_all add: apply_block_updates_def flat_world_def entered_world_eq require_lifecycle_def MAX_BLOCK_UPDATES_PER_EVENT_def
        session_from_enter_def bump_revision_def next_revision_def Let_def)
qed

theorem block_updates_write_blocks_witness:
  "\<exists>res w'. apply_block_updates [place_stone] flat_world = (Inr res, w') \<and>
    block_in \<lparr>min_y = -64, height = 384\<rparr> (chunks w') \<lparr>block_x = 3, block_y = -60, block_z = 5\<rparr> = Some 1"
proof -
  obtain res w' where upd: "apply_block_updates [place_stone] flat_world = (Inr res, w')" using flat_world_update by blast
  let ?s = "session_from_enter enter_overworld \<lparr>min_y = -64, height = 384\<rparr>"
  have s: "session flat_world = Some ?s" by (simp add: flat_world_def entered_world_eq)
  have g: "session_geometry ?s = \<lparr>min_y = -64, height = 384\<rparr>" by (simp add: session_from_enter_def)
  have "palettes_wf (chunks flat_world)" by (simp add: palettes_wf_def flat_world_def flat_chunk_def bt_get_def)
  note written = block_updates_write_blocks[OF s this upd, unfolded g, THEN conjunct1]
  have "block_in \<lparr>min_y = -64, height = 384\<rparr> (chunks flat_world) \<lparr>block_x = 3, block_y = -60, block_z = 5\<rparr> = Some 0"
    by (simp add: block_in_def locate_block_def flat_world_def flat_chunk_def bt_get_def section_block_def section_index_16)
  then have "block_in \<lparr>min_y = -64, height = 384\<rparr> (chunks w') \<lparr>block_x = 3, block_y = -60, block_z = 5\<rparr> = Some 1"
    unfolding written by (simp add: write_block_def place_stone_def)
  then show ?thesis using upd by blast
qed

text \<open>Two boundaries the invariant does not cover: a batch that changes a block when the revisions are
  exhausted is refused after it was written, and a respawn may name a dimension outside the known ones.\<close>

lemma block_update_overflow_leaves_changes:
  assumes "revision w = 2 ^ 64 - 1" and "lifecycle w = Active" and "session w = Some s" and "length us \<le> MAX_BLOCK_UPDATES_PER_EVENT"
    and "block_updates_loop (session_geometry s) us [] 0 (chunks w) = (changed, ignored, m)" and "changed \<noteq> []"
  shows "apply_block_updates us w = (Inl RevisionOverflow, w\<lparr>chunks := m\<rparr>)"
  using assms by (simp add: apply_block_updates_def require_lifecycle_def bump_revision_def Let_def next_revision_def)

lemma respawn_into_unknown_dimension:
  assumes "lifecycle w = Active" and "session w = Some s" and "find_geometry 0 w = Inr g" and "revision w < 2 ^ 64 - 1"
    and "r = \<lparr>respawn_spawn = overworld_context\<lparr>context_dimension := ''minecraft:nowhere''\<rparr>,
      respawn_keep_attribute_modifiers = False, respawn_keep_entity_data = False, respawn_new_rotation = Preserve\<rparr>"
  shows "\<exists>t. fst (apply_event (Respawn r) w) = Inr t"
  using assms
  by (simp add: apply_event_def next_revision_def respawn_world_def overworld_context_def and_also_def active_session_def Let_def)

end
