(* ===== verification/Bootstrap.thy ===== *)
theory Bootstrap
  imports Chunk_Decode Status Block_Position
begin

text \<open>
  \<open>cubic-protocol/src/bootstrap/v775.rs\<close>, what its packets share: limits, errors, counts, checks
  and framing. A packet is decoded by a \<open>boot_op\<close> on the reader of its payload.
\<close>

definition MAX_BOOTSTRAP_FRAME_SIZE :: nat where "MAX_BOOTSTRAP_FRAME_SIZE = MINECRAFT_MAX_FRAME_SIZE"
definition MAX_CONFIGURATION_BUFFERED_BYTES :: nat where "MAX_CONFIGURATION_BUFFERED_BYTES = 4 * 1024 * 1024"
definition MAX_USERNAME_UTF16_UNITS :: nat where "MAX_USERNAME_UTF16_UNITS = 16"
definition MAX_LOGIN_PROPERTIES :: nat where "MAX_LOGIN_PROPERTIES = 64"
definition MAX_LOGIN_PLUGIN_PAYLOAD_BYTES :: nat where "MAX_LOGIN_PLUGIN_PAYLOAD_BYTES = 1024 * 1024"
definition MAX_CONFIGURATION_CUSTOM_PAYLOAD_BYTES :: nat where "MAX_CONFIGURATION_CUSTOM_PAYLOAD_BYTES = 1024 * 1024"
definition MAX_CONFIGURATION_REGISTRY_ENTRIES :: nat where "MAX_CONFIGURATION_REGISTRY_ENTRIES = 4096"
definition MAX_PLAY_CUSTOM_PAYLOAD_BYTES :: nat where "MAX_PLAY_CUSTOM_PAYLOAD_BYTES = 1024 * 1024"
definition MAX_DISCONNECT_BYTES :: nat where "MAX_DISCONNECT_BYTES = 32 * 1024"
definition MAX_KNOWN_PACKS :: nat where "MAX_KNOWN_PACKS = 64"
definition MAX_CHAT_UTF16_UNITS :: nat where "MAX_CHAT_UTF16_UNITS = 256"
definition MAX_CHAT_COMPONENT_BYTES :: nat where "MAX_CHAT_COMPONENT_BYTES = 32 * 1024"
definition MAX_LAST_SEEN_MESSAGES :: nat where "MAX_LAST_SEEN_MESSAGES = 20"
definition CHAT_ACKNOWLEDGEMENT_BYTES :: nat where "CHAT_ACKNOWLEDGEMENT_BYTES = 3"
definition PLAYER_CHAT_SIGNATURE_BYTES :: nat where "PLAYER_CHAT_SIGNATURE_BYTES = 256"
definition MAX_PLAYER_PUBLIC_KEY_BYTES :: nat where "MAX_PLAYER_PUBLIC_KEY_BYTES = 512"
definition MAX_PLAYER_KEY_SIGNATURE_BYTES :: nat where "MAX_PLAYER_KEY_SIGNATURE_BYTES = 4096"
definition MAX_WIRE_DIMENSIONS :: nat where "MAX_WIRE_DIMENSIONS = 1024"
definition MAX_WIRE_CLOCKS :: nat where "MAX_WIRE_CLOCKS = 64"
definition MAX_SECTION_BLOCK_UPDATES :: nat where "MAX_SECTION_BLOCK_UPDATES = 4096"

definition USERNAME_LIMITS :: string_limits where "USERNAME_LIMITS = string_limits_new MAX_USERNAME_UTF16_UNITS 48"
definition IDENTIFIER_LIMITS :: string_limits where "IDENTIFIER_LIMITS = string_limits_new 32767 32767"
definition DISCONNECT_LIMITS :: string_limits where
  "DISCONNECT_LIMITS = string_limits_new MAX_DISCONNECT_BYTES MAX_DISCONNECT_BYTES"
definition PROPERTY_NAME_LIMITS :: string_limits where "PROPERTY_NAME_LIMITS = string_limits_new 64 192"
definition PROPERTY_VALUE_LIMITS :: string_limits where "PROPERTY_VALUE_LIMITS = string_limits_new 16384 49152"
definition KNOWN_PACK_NAMESPACE_LIMITS :: string_limits where "KNOWN_PACK_NAMESPACE_LIMITS = string_limits_new 64 192"
definition KNOWN_PACK_ID_LIMITS :: string_limits where "KNOWN_PACK_ID_LIMITS = string_limits_new 256 768"
definition KNOWN_PACK_VERSION_LIMITS :: string_limits where "KNOWN_PACK_VERSION_LIMITS = string_limits_new 128 384"
definition CHAT_LIMITS :: string_limits where "CHAT_LIMITS = string_limits_new MAX_CHAT_UTF16_UNITS 768"
definition RESOURCE_LOCATION_LIMITS :: string_limits where "RESOURCE_LOCATION_LIMITS = string_limits_new 256 768"

text \<open>\<open>Boot_Panic\<close> is not an error of the code: it is the value of a run that panics.\<close>

datatype bootstrap_error =
    Boot_Panic
  | Boot_Codec codec_error
  | Boot_Nbt nbt_error
  | Boot_InvalidBlockEntityNbt
  | Boot_Chunk chunk_decode_error
  | Boot_UnexpectedPacketId string i32
  | Boot_TrailingData string nat
  | Boot_NegativeCount string i32
  | Boot_CountTooLarge string nat nat
  | Boot_PayloadTooLarge string nat nat
  | Boot_NonFinite string

type_synonym 'a boot_op = "(codec_reader, bootstrap_error, 'a) fallible"

definition boot :: "'a reader_op \<Rightarrow> 'a boot_op" where
  "boot m = map_err Boot_Codec m"

definition boot_nbt :: "(codec_reader, nbt_error, 'a) fallible \<Rightarrow> 'a boot_op" where
  "boot_nbt m = map_err Boot_Nbt m"

definition boot_chunk :: "'a chunk_op \<Rightarrow> 'a boot_op" where
  "boot_chunk m = map_err Boot_Chunk m"

definition boot_reserve :: "nbt_env \<Rightarrow> nat \<Rightarrow> string \<Rightarrow> unit boot_op" where
  "boot_reserve env n ctx = ensure (try_reserve_exact env n) (Boot_Codec (AllocationFailed ctx n))"

section \<open>Shared reads and checks\<close>

definition boot_read_count :: "string \<Rightarrow> nat \<Rightarrow> nat boot_op" where
  "boot_read_count ctx m =
     and_then (boot read_var_int) (\<lambda>v.
       if v <s 0 then fail (Boot_NegativeCount ctx v)
       else if m < unat v then fail (Boot_CountTooLarge ctx (unat v) m) else ok (unat v))"

definition boot_require_consumed :: "string \<Rightarrow> unit boot_op" where
  "boot_require_consumed ctx r =
     (if remaining r = 0 then (Inr (), r) else (Inl (Boot_TrailingData ctx (remaining r)), r))"

definition check_payload :: "string \<Rightarrow> u8 list \<Rightarrow> nat \<Rightarrow> bootstrap_error + unit" where
  "check_payload ctx bytes m =
     (if m < length bytes then Inl (Boot_PayloadTooLarge ctx (length bytes) m) else Inr ())"

definition nonnegative_u32 :: "i32 \<Rightarrow> string \<Rightarrow> bootstrap_error + u32" where
  "nonnegative_u32 v ctx =
     (if v <s 0 then Inl (Boot_Codec (ValueOutOfRange ctx (sint v) 0 (2 ^ 31 - 1))) else Inr v)"

definition boot_remaining :: "u8 list boot_op" where
  "boot_remaining r = (case read_remaining r of (bytes, r') \<Rightarrow> (Inr bytes, r'))"

definition optional_read :: "'a boot_op \<Rightarrow> 'a option boot_op" where
  "optional_read m = and_then (boot read_bool) (\<lambda>b. if b then and_then m (\<lambda>x. ok (Some x)) else ok None)"

text \<open>Reading a value, then requiring that nothing follows.\<close>

definition whole :: "string \<Rightarrow> 'a boot_op \<Rightarrow> 'a boot_op" where
  "whole ctx m = and_then m (\<lambda>x. and_then (boot_require_consumed ctx) (\<lambda>_. ok x))"

text \<open>A packet: its id selects the decoder of its payload.\<close>

definition decode_packet :: "(i32 \<Rightarrow> u8 list \<Rightarrow> 'a boot_op) \<Rightarrow> u8 list \<Rightarrow> bootstrap_error + 'a" where
  "decode_packet decoder body =
     (case split_raw_packet body of
        Inl e \<Rightarrow> Inl (Boot_Codec e)
      | Inr p \<Rightarrow> fst (decoder (packet_id p) (payload p) (new_reader (payload p))))"

section \<open>Writing packets\<close>

definition boot_frame :: "writer_op \<Rightarrow> bootstrap_error + u8 list" where
  "boot_frame m = (case frame_of_writer m MAX_BOOTSTRAP_FRAME_SIZE of Inl e \<Rightarrow> Inl (Boot_Codec e) | Inr b \<Rightarrow> Inr b)"

text \<open>Writes one after the other, each with \<open>?\<close>.\<close>

fun writes :: "writer_op list \<Rightarrow> writer_op" where
  "writes [] = ok ()"
| "writes (m # ms) = and_then m (\<lambda>_. writes ms)"

definition boot_packet :: "i32 \<Rightarrow> writer_op list \<Rightarrow> bootstrap_error + u8 list" where
  "boot_packet pid ms = boot_frame (writes (emit (write_var_int pid) # ms))"

definition packet_without_payload :: "i32 \<Rightarrow> bootstrap_error + u8 list" where
  "packet_without_payload pid = boot_packet pid []"

definition encode_empty_cookie_response :: "i32 \<Rightarrow> rust_str \<Rightarrow> bootstrap_error + u8 list" where
  "encode_empty_cookie_response pid key = boot_packet pid [write_string IDENTIFIER_LIMITS key, emit (write_bool False)]"

section \<open>What a written packet is\<close>

lemma appends_writes: "list_all2 appends ms bss \<Longrightarrow> appends (writes ms) (concat bss)"
proof (induction ms bss rule: list_all2_induct)
  case (Cons m ms bs bss)
  then show ?case using appends_and_then[of m bs "\<lambda>_. writes ms"] by simp
qed (simp add: appends_ok)

definition packet_body :: "i32 \<Rightarrow> u8 list list \<Rightarrow> u8 list" where
  "packet_body pid bss = enc_var pid @ concat bss"

lemma boot_packet_framed:
  assumes "list_all2 appends ms bss" and "length (packet_body pid bss) \<le> MINECRAFT_MAX_FRAME_SIZE"
  shows "boot_packet pid ms = Inr (enc_frame (packet_body pid bss))"
proof -
  have "appends (writes (emit (write_var_int pid) # ms)) (packet_body pid bss)"
    using appends_and_then[OF appends_write_var(1) appends_writes[OF assms(1)]] by (simp add: packet_body_def)
  from frame_of_writer_ok[OF this, of MINECRAFT_MAX_FRAME_SIZE] assms(2) show ?thesis
    by (simp add: boot_packet_def boot_frame_def MAX_BOOTSTRAP_FRAME_SIZE_def)
qed

text \<open>
  \<open>cubic-protocol/src/bootstrap/v775.rs\<close>: text components, an NBT tag of bounded wire size and its
  projection to plain text. \<open>String::truncate\<close> panics when the new length is inside a character, so
  the projection is an option: \<open>None\<close> is the panic.
\<close>

record text_component =
  tc_value :: nbt_tag
  tc_plain_text :: rust_str

definition high_surrogate :: "u16 \<Rightarrow> bool" where
  "high_surrogate u \<longleftrightarrow> 0xD800 \<le> u \<and> u < 0xDC00"

definition low_surrogate :: "u16 \<Rightarrow> bool" where
  "low_surrogate u \<longleftrightarrow> 0xDC00 \<le> u \<and> u < 0xE000"

text \<open>\<open>String::from_utf16_lossy\<close>: an unpaired surrogate becomes U+FFFD.\<close>

fun to_string_lossy :: "nbt_string \<Rightarrow> rust_str" where
  "to_string_lossy [] = []"
| "to_string_lossy [u] = [if high_surrogate u \<or> low_surrogate u then 0xFFFD else unat u]"
| "to_string_lossy (u # v # us) =
     (if high_surrogate u \<and> low_surrogate v
      then (0x10000 + (unat u - 0xD800) * 1024 + (unat v - 0xDC00)) # to_string_lossy us
      else (if high_surrogate u \<or> low_surrogate u then 0xFFFD else unat u) # to_string_lossy (v # us))"

text \<open>\<open>String::truncate\<close>: the characters that fit, if they fill the new length exactly.\<close>

fun chars_within :: "nat \<Rightarrow> rust_str \<Rightarrow> rust_str option" where
  "chars_within n [] = (if n = 0 then Some [] else None)"
| "chars_within n (c # cs) =
     (if n = 0 then Some []
      else if length (utf8_char c) \<le> n then map_option ((#) c) (chars_within (n - length (utf8_char c)) cs)
      else None)"

definition truncate_str :: "nat \<Rightarrow> rust_str \<Rightarrow> rust_str option" where
  "truncate_str n s = (if str_len s < n then Some s else chars_within n s)"

definition truncate_component :: "rust_str \<Rightarrow> rust_str option" where
  "truncate_component s =
     (if MAX_CHAT_COMPONENT_BYTES < str_len s then truncate_str MAX_CHAT_COMPONENT_BYTES s else Some s)"

abbreviation str :: "string \<Rightarrow> rust_str" where "str s \<equiv> map of_char s"

lemma size_get_str:
  "get_str k c = Some t \<Longrightarrow> size t < size (Tag_Compound c)"
  unfolding get_str_def by (induction c) (auto split: if_splits)

lemma size_get_list:
  "get_str k c = Some (Tag_List ty ts) \<Longrightarrow> size_list size ts < size (Tag_Compound c)"
  using size_get_str[of k c "Tag_List ty ts"] by simp

text \<open>The recursion over the children is \<open>project_children\<close>, the \<open>for\<close> loops of the source.\<close>

function (sequential)
  project_plain_text :: "nbt_tag \<Rightarrow> rust_str \<Rightarrow> nat \<Rightarrow> rust_str option" and
  project_children :: "nbt_tag list \<Rightarrow> rust_str \<Rightarrow> nat \<Rightarrow> rust_str option"
where
  "project_plain_text val out depth =
     (if 32 < depth \<or> MAX_CHAT_COMPONENT_BYTES \<le> str_len out then Some out
      else Option.bind
        (case val of
           Tag_String s \<Rightarrow> Some (out @ to_string_lossy s)
         | Tag_List _ elements \<Rightarrow> project_children elements out (depth + 1)
         | Tag_Compound compound \<Rightarrow>
             Option.bind
               (case get_string (str ''text'') compound of
                  Some t \<Rightarrow> Some (out @ to_string_lossy t)
                | None \<Rightarrow>
                    (case get_string (str ''translate'') compound of
                       None \<Rightarrow> Some out
                     | Some translate \<Rightarrow>
                         (case get_str (str ''with'') compound of
                            Some (Tag_List _ arguments) \<Rightarrow>
                              project_children arguments (out @ to_string_lossy translate @ str '' '') (depth + 1)
                          | _ \<Rightarrow> Some (out @ to_string_lossy translate))))
               (\<lambda>out'. case get_str (str ''extra'') compound of
                  Some (Tag_List _ extra) \<Rightarrow> project_children extra out' (depth + 1)
                | _ \<Rightarrow> Some out')
         | _ \<Rightarrow> Some out)
        truncate_component)"
| "project_children [] out depth = Some out"
| "project_children (child # children) out depth =
     Option.bind (project_plain_text child out depth) (\<lambda>out'. project_children children out' depth)"
  by pat_completeness auto
termination
  by (relation "measure (case_sum (\<lambda>(v, _, _). size v) (\<lambda>(vs, _, _). size_list size vs))")
    (auto dest: size_get_list simp del: nbt_tag.size(22))

declare project_plain_text.simps [simp del]

definition component_text :: "nbt_tag \<Rightarrow> rust_str option" where
  "component_text val =
     map_option (\<lambda>plain. if plain = [] then str ''<rich text>'' else plain) (project_plain_text val [] 0)"

definition decode_text_component :: "nbt_env \<Rightarrow> text_component boot_op" where
  "decode_text_component env r =
     and_then (boot_nbt (decode_unnamed_network_tag env nbt_limits_default)) (\<lambda>val.
     and_then (boot (\<lambda>r'. (consumed_since r' (position r), r'))) (\<lambda>bytes.
     if MAX_CHAT_COMPONENT_BYTES < length bytes
     then fail (Boot_PayloadTooLarge ''text component'' (length bytes) MAX_CHAT_COMPONENT_BYTES)
     else case component_text val of
         None \<Rightarrow> fail Boot_Panic
       | Some plain_text \<Rightarrow> ok \<lparr>tc_value = val, tc_plain_text = plain_text\<rparr>)) r"

end
