(* ===== verification/Bootstrap_Send.thy ===== *)
theory Bootstrap_Send
  imports Bootstrap Ieee
begin

text \<open>
  \<open>cubic-protocol/src/bootstrap/v775.rs\<close>, the serverbound packets: one encoder per packet of the
  login, configuration and play phases, a reference reader of them, and the proof that the reader
  returns the packet that was encoded.
\<close>

section \<open>Packet ids\<close>

definition LOGIN_START_ID :: i32 where "LOGIN_START_ID = 0x00"
definition LOGIN_ENCRYPTION_RESPONSE_ID :: i32 where "LOGIN_ENCRYPTION_RESPONSE_ID = 0x01"
definition LOGIN_PLUGIN_RESPONSE_ID :: i32 where "LOGIN_PLUGIN_RESPONSE_ID = 0x02"
definition LOGIN_ACKNOWLEDGED_ID :: i32 where "LOGIN_ACKNOWLEDGED_ID = 0x03"
definition LOGIN_COOKIE_RESPONSE_ID :: i32 where "LOGIN_COOKIE_RESPONSE_ID = 0x04"

definition CONFIG_CLIENT_INFORMATION_ID :: i32 where "CONFIG_CLIENT_INFORMATION_ID = 0x00"
definition CONFIG_COOKIE_RESPONSE_ID :: i32 where "CONFIG_COOKIE_RESPONSE_ID = 0x01"
definition CONFIG_FINISH_ACK_ID :: i32 where "CONFIG_FINISH_ACK_ID = 0x03"
definition CONFIG_KEEP_ALIVE_RESPONSE_ID :: i32 where "CONFIG_KEEP_ALIVE_RESPONSE_ID = 0x04"
definition CONFIG_PONG_ID :: i32 where "CONFIG_PONG_ID = 0x05"
definition CONFIG_KNOWN_PACKS_RESPONSE_ID :: i32 where "CONFIG_KNOWN_PACKS_RESPONSE_ID = 0x07"

definition PLAY_CONFIRM_TELEPORT_ID :: i32 where "PLAY_CONFIRM_TELEPORT_ID = 0x00"
definition PLAY_CHAT_ACKNOWLEDGEMENT_ID :: i32 where "PLAY_CHAT_ACKNOWLEDGEMENT_ID = 0x06"
definition PLAY_CHAT_MESSAGE_ID :: i32 where "PLAY_CHAT_MESSAGE_ID = 0x09"
definition PLAY_CHAT_SESSION_UPDATE_ID :: i32 where "PLAY_CHAT_SESSION_UPDATE_ID = 0x0a"
definition PLAY_CHUNK_BATCH_RECEIVED_ID :: i32 where "PLAY_CHUNK_BATCH_RECEIVED_ID = 0x0b"
definition PLAY_CLIENT_COMMAND_ID :: i32 where "PLAY_CLIENT_COMMAND_ID = 0x0c"
definition PLAY_CLIENT_TICK_END_ID :: i32 where "PLAY_CLIENT_TICK_END_ID = 0x0d"
definition PLAY_CLIENT_INFORMATION_ID :: i32 where "PLAY_CLIENT_INFORMATION_ID = 0x0e"
definition PLAY_ACKNOWLEDGE_CONFIGURATION_ID :: i32 where "PLAY_ACKNOWLEDGE_CONFIGURATION_ID = 0x10"
definition PLAY_COOKIE_RESPONSE_ID :: i32 where "PLAY_COOKIE_RESPONSE_ID = 0x15"
definition PLAY_KEEP_ALIVE_RESPONSE_ID :: i32 where "PLAY_KEEP_ALIVE_RESPONSE_ID = 0x1c"
definition PLAY_MOVE_PLAYER_POS_ID :: i32 where "PLAY_MOVE_PLAYER_POS_ID = 0x1e"
definition PLAY_MOVE_PLAYER_POS_ROT_ID :: i32 where "PLAY_MOVE_PLAYER_POS_ROT_ID = 0x1f"
definition PLAY_MOVE_PLAYER_ROT_ID :: i32 where "PLAY_MOVE_PLAYER_ROT_ID = 0x20"
definition PLAY_MOVE_PLAYER_STATUS_ONLY_ID :: i32 where "PLAY_MOVE_PLAYER_STATUS_ONLY_ID = 0x21"
definition PLAY_PLAYER_ABILITIES_ID :: i32 where "PLAY_PLAYER_ABILITIES_ID = 0x28"
definition PLAY_PLAYER_COMMAND_ID :: i32 where "PLAY_PLAYER_COMMAND_ID = 0x2a"
definition PLAY_PLAYER_INPUT_ID :: i32 where "PLAY_PLAYER_INPUT_ID = 0x2b"
definition PLAY_PLAYER_LOADED_ID :: i32 where "PLAY_PLAYER_LOADED_ID = 0x2c"
definition PLAY_PONG_ID :: i32 where "PLAY_PONG_ID = 0x2d"
definition PLAY_PLAYER_ACTION_ID :: i32 where "PLAY_PLAYER_ACTION_ID = 0x29"
definition PLAY_USE_ITEM_ON_ID :: i32 where "PLAY_USE_ITEM_ON_ID = 0x42"
definition PLAY_USE_ITEM_ID :: i32 where "PLAY_USE_ITEM_ID = 0x43"

lemmas packet_ids =
  LOGIN_START_ID_def LOGIN_ENCRYPTION_RESPONSE_ID_def LOGIN_PLUGIN_RESPONSE_ID_def LOGIN_ACKNOWLEDGED_ID_def
  LOGIN_COOKIE_RESPONSE_ID_def CONFIG_CLIENT_INFORMATION_ID_def CONFIG_COOKIE_RESPONSE_ID_def
  CONFIG_FINISH_ACK_ID_def CONFIG_KEEP_ALIVE_RESPONSE_ID_def CONFIG_PONG_ID_def CONFIG_KNOWN_PACKS_RESPONSE_ID_def
  PLAY_CONFIRM_TELEPORT_ID_def PLAY_CHAT_ACKNOWLEDGEMENT_ID_def PLAY_CHAT_MESSAGE_ID_def
  PLAY_CHAT_SESSION_UPDATE_ID_def PLAY_CHUNK_BATCH_RECEIVED_ID_def PLAY_CLIENT_COMMAND_ID_def
  PLAY_CLIENT_TICK_END_ID_def PLAY_CLIENT_INFORMATION_ID_def PLAY_ACKNOWLEDGE_CONFIGURATION_ID_def
  PLAY_COOKIE_RESPONSE_ID_def PLAY_KEEP_ALIVE_RESPONSE_ID_def PLAY_MOVE_PLAYER_POS_ID_def
  PLAY_MOVE_PLAYER_POS_ROT_ID_def PLAY_MOVE_PLAYER_ROT_ID_def PLAY_MOVE_PLAYER_STATUS_ONLY_ID_def
  PLAY_PLAYER_ABILITIES_ID_def PLAY_PLAYER_COMMAND_ID_def PLAY_PLAYER_INPUT_ID_def PLAY_PLAYER_LOADED_ID_def
  PLAY_PONG_ID_def PLAY_PLAYER_ACTION_ID_def PLAY_USE_ITEM_ON_ID_def PLAY_USE_ITEM_ID_def

section \<open>Login and configuration\<close>

definition encode_login_start :: "rust_str \<Rightarrow> protocol_uuid \<Rightarrow> bootstrap_error + u8 list" where
  "encode_login_start username uuid =
     boot_packet LOGIN_START_ID [write_string USERNAME_LIMITS username, emit (write_uuid uuid)]"

definition encode_login_acknowledged :: "bootstrap_error + u8 list" where
  "encode_login_acknowledged = packet_without_payload LOGIN_ACKNOWLEDGED_ID"

definition encode_encryption_response :: "u8 list \<Rightarrow> u8 list \<Rightarrow> bootstrap_error + u8 list" where
  "encode_encryption_response encrypted_secret encrypted_verify_token =
     boot_packet LOGIN_ENCRYPTION_RESPONSE_ID
       [write_byte_array (4 * 1024) encrypted_secret, write_byte_array (4 * 1024) encrypted_verify_token]"

definition encode_login_plugin_response :: "i32 \<Rightarrow> bootstrap_error + u8 list" where
  "encode_login_plugin_response transaction_id =
     boot_packet LOGIN_PLUGIN_RESPONSE_ID [emit (write_var_int transaction_id), emit (write_bool False)]"

definition encode_login_cookie_response :: "rust_str \<Rightarrow> bootstrap_error + u8 list" where
  "encode_login_cookie_response key = encode_empty_cookie_response LOGIN_COOKIE_RESPONSE_ID key"

record client_information =
  ci_locale :: rust_str
  ci_view_distance :: i8
  ci_chat_mode :: i32
  ci_chat_colors :: bool
  ci_displayed_skin_parts :: u8
  ci_main_hand :: i32
  ci_text_filtering :: bool
  ci_allows_server_listing :: bool
  ci_particle_status :: i32

definition client_information_default :: client_information where
  "client_information_default =
     \<lparr>ci_locale = map of_char ''en_us'', ci_view_distance = 8, ci_chat_mode = 0, ci_chat_colors = True,
      ci_displayed_skin_parts = 0x7f, ci_main_hand = 1, ci_text_filtering = False,
      ci_allows_server_listing = True, ci_particle_status = 0\<rparr>"

definition CLIENT_LOCALE_LIMITS :: string_limits where "CLIENT_LOCALE_LIMITS = string_limits_new 16 48"

definition write_client_information_fields :: "client_information \<Rightarrow> writer_op list" where
  "write_client_information_fields i =
     [write_string CLIENT_LOCALE_LIMITS (ci_locale i), emit (write_i8 (ci_view_distance i)),
      emit (write_var_int (ci_chat_mode i)), emit (write_bool (ci_chat_colors i)),
      emit (write_u8 (ci_displayed_skin_parts i)), emit (write_var_int (ci_main_hand i)),
      emit (write_bool (ci_text_filtering i)), emit (write_bool (ci_allows_server_listing i)),
      emit (write_var_int (ci_particle_status i))]"

definition encode_client_information :: "client_information \<Rightarrow> bootstrap_error + u8 list" where
  "encode_client_information i = boot_packet CONFIG_CLIENT_INFORMATION_ID (write_client_information_fields i)"

definition encode_configuration_cookie_response :: "rust_str \<Rightarrow> bootstrap_error + u8 list" where
  "encode_configuration_cookie_response key = encode_empty_cookie_response CONFIG_COOKIE_RESPONSE_ID key"

definition encode_configuration_keep_alive :: "i64 \<Rightarrow> bootstrap_error + u8 list" where
  "encode_configuration_keep_alive i = boot_packet CONFIG_KEEP_ALIVE_RESPONSE_ID [emit (write_i64 i)]"

definition encode_configuration_pong :: "i32 \<Rightarrow> bootstrap_error + u8 list" where
  "encode_configuration_pong i = boot_packet CONFIG_PONG_ID [emit (write_i32 i)]"

definition encode_known_packs_response_empty :: "bootstrap_error + u8 list" where
  "encode_known_packs_response_empty = boot_packet CONFIG_KNOWN_PACKS_RESPONSE_ID [emit (write_var_int 0)]"

definition encode_finish_configuration :: "bootstrap_error + u8 list" where
  "encode_finish_configuration = packet_without_payload CONFIG_FINISH_ACK_ID"

section \<open>Chat\<close>

text \<open>A signature is its \<open>PLAYER_CHAT_SIGNATURE_BYTES\<close> bytes, the acknowledgement its three.\<close>

type_synonym message_signature = "u8 list"

record chat_last_seen_update =
  ls_offset :: i32
  ls_acknowledged :: "u8 list"
  ls_checksum :: u8

definition empty_with_disabled_checksum :: chat_last_seen_update where
  "empty_with_disabled_checksum =
     \<lparr>ls_offset = 0, ls_acknowledged = replicate CHAT_ACKNOWLEDGEMENT_BYTES 0, ls_checksum = 0\<rparr>"

definition chat_last_seen_update_new :: "i32 \<Rightarrow> u8 list \<Rightarrow> u8 \<Rightarrow> bootstrap_error + chat_last_seen_update" where
  "chat_last_seen_update_new offset acknowledged checksum =
     (if offset <s 0 then Inl (Boot_NegativeCount ''Chat Message last-seen offset'' offset)
      else if acknowledged ! 2 AND 0xf0 \<noteq> 0
      then Inl (Boot_Codec (ValueOutOfRange ''Chat Message fixed 20-bit acknowledgement'' (uint (acknowledged ! 2)) 0 0x0f))
      else Inr \<lparr>ls_offset = offset, ls_acknowledged = acknowledged, ls_checksum = checksum\<rparr>)"

definition encode_play_chat_acknowledgement :: "i32 \<Rightarrow> bootstrap_error + u8 list" where
  "encode_play_chat_acknowledgement count =
     (if count \<le>s 0
      then Inl (Boot_Codec (ValueOutOfRange ''chat acknowledgement count'' (sint count) 1 (2 ^ 31 - 1)))
      else boot_packet PLAY_CHAT_ACKNOWLEDGEMENT_ID [emit (write_var_int count)])"

definition encode_play_chat_message ::
  "rust_str \<Rightarrow> i64 \<Rightarrow> i64 \<Rightarrow> message_signature option \<Rightarrow> chat_last_seen_update \<Rightarrow> bootstrap_error + u8 list" where
  "encode_play_chat_message message timestamp_millis salt signature last_seen =
     (if message = []
      then Inl (Boot_Codec (ValueOutOfRange ''chat message UTF-16 length'' 0 1 (int MAX_CHAT_UTF16_UNITS)))
      else if list_ex is_control message
      then Inl (Boot_Codec (ValueOutOfRange ''chat message control character'' 1 0 0))
      else boot_packet PLAY_CHAT_MESSAGE_ID
       ([write_string CHAT_LIMITS message, emit (write_i64 timestamp_millis), emit (write_i64 salt),
         emit (write_bool (signature \<noteq> None))] @
        (case signature of Some bytes \<Rightarrow> [emit (write_bytes bytes)] | None \<Rightarrow> []) @
        [emit (write_var_int (ls_offset last_seen)), emit (write_bytes (ls_acknowledged last_seen)),
         emit (write_u8 (ls_checksum last_seen))]))"

definition encode_play_chat_session_update ::
  "protocol_uuid \<Rightarrow> i64 \<Rightarrow> u8 list \<Rightarrow> u8 list \<Rightarrow> bootstrap_error + u8 list" where
  "encode_play_chat_session_update session_id expires_at_millis public_key_der public_key_signature =
     boot_packet PLAY_CHAT_SESSION_UPDATE_ID
       [emit (write_uuid session_id), emit (write_i64 expires_at_millis),
        write_byte_array MAX_PLAYER_PUBLIC_KEY_BYTES public_key_der,
        write_byte_array MAX_PLAYER_KEY_SIGNATURE_BYTES public_key_signature]"

section \<open>Play\<close>

definition encode_play_keep_alive :: "i64 \<Rightarrow> bootstrap_error + u8 list" where
  "encode_play_keep_alive i = boot_packet PLAY_KEEP_ALIVE_RESPONSE_ID [emit (write_i64 i)]"

definition encode_play_pong :: "i32 \<Rightarrow> bootstrap_error + u8 list" where
  "encode_play_pong i = boot_packet PLAY_PONG_ID [emit (write_i32 i)]"

definition encode_play_teleport_confirmation :: "i32 \<Rightarrow> bootstrap_error + u8 list" where
  "encode_play_teleport_confirmation teleport_id =
     boot_packet PLAY_CONFIRM_TELEPORT_ID [emit (write_var_int teleport_id)]"

abbreviation flag :: "bool \<Rightarrow> u8" where "flag b \<equiv> (if b then 1 else 0)"

definition movement_flags :: "bool \<Rightarrow> bool \<Rightarrow> u8" where
  "movement_flags on_ground horizontal_collision = (flag on_ground OR push_bit 1 (flag horizontal_collision))"

definition encode_play_move_position :: "f64 \<Rightarrow> f64 \<Rightarrow> f64 \<Rightarrow> bool \<Rightarrow> bool \<Rightarrow> bootstrap_error + u8 list" where
  "encode_play_move_position x y z on_ground horizontal_collision =
     (if \<not> f64_is_finite x \<or> \<not> f64_is_finite y \<or> \<not> f64_is_finite z then Inl (Boot_NonFinite ''Move Player Pos'')
      else boot_packet PLAY_MOVE_PLAYER_POS_ID
        [emit (write_f64 x), emit (write_f64 y), emit (write_f64 z),
         emit (write_u8 (movement_flags on_ground horizontal_collision))])"

definition encode_play_move_position_rotation ::
  "f64 \<Rightarrow> f64 \<Rightarrow> f64 \<Rightarrow> f32 \<Rightarrow> f32 \<Rightarrow> bool \<Rightarrow> bool \<Rightarrow> bootstrap_error + u8 list" where
  "encode_play_move_position_rotation x y z yaw pitch on_ground horizontal_collision =
     (if \<not> f64_is_finite x \<or> \<not> f64_is_finite y \<or> \<not> f64_is_finite z \<or> \<not> f32_is_finite yaw \<or> \<not> f32_is_finite pitch
      then Inl (Boot_NonFinite ''Move Player Pos Rot'')
      else boot_packet PLAY_MOVE_PLAYER_POS_ROT_ID
        [emit (write_f64 x), emit (write_f64 y), emit (write_f64 z), emit (write_f32 yaw), emit (write_f32 pitch),
         emit (write_u8 (movement_flags on_ground horizontal_collision))])"

definition encode_play_move_rotation :: "f32 \<Rightarrow> f32 \<Rightarrow> bool \<Rightarrow> bool \<Rightarrow> bootstrap_error + u8 list" where
  "encode_play_move_rotation yaw pitch on_ground horizontal_collision =
     (if \<not> f32_is_finite yaw \<or> \<not> f32_is_finite pitch then Inl (Boot_NonFinite ''Move Player Rot'')
      else boot_packet PLAY_MOVE_PLAYER_ROT_ID
        [emit (write_f32 yaw), emit (write_f32 pitch),
         emit (write_u8 (movement_flags on_ground horizontal_collision))])"

definition encode_play_move_status :: "bool \<Rightarrow> bool \<Rightarrow> bootstrap_error + u8 list" where
  "encode_play_move_status on_ground horizontal_collision =
     boot_packet PLAY_MOVE_PLAYER_STATUS_ONLY_ID
       [emit (write_u8 (movement_flags on_ground horizontal_collision))]"

record player_input =
  pi_forward :: bool
  pi_backward :: bool
  pi_left :: bool
  pi_right :: bool
  pi_jump :: bool
  pi_sneak :: bool
  pi_sprint :: bool

definition input_flags :: "player_input \<Rightarrow> u8" where
  "input_flags i =
     (flag (pi_forward i) OR push_bit 1 (flag (pi_backward i)) OR push_bit 2 (flag (pi_left i)) OR
      push_bit 3 (flag (pi_right i)) OR push_bit 4 (flag (pi_jump i)) OR push_bit 5 (flag (pi_sneak i)) OR
      push_bit 6 (flag (pi_sprint i)))"

definition encode_play_player_input :: "player_input \<Rightarrow> bootstrap_error + u8 list" where
  "encode_play_player_input i = boot_packet PLAY_PLAYER_INPUT_ID [emit (write_u8 (input_flags i))]"

definition encode_play_player_abilities :: "bool \<Rightarrow> bootstrap_error + u8 list" where
  "encode_play_player_abilities flying =
     boot_packet PLAY_PLAYER_ABILITIES_ID [emit (write_u8 (push_bit 1 (flag flying)))]"

datatype player_command_action = StartSprinting | StopSprinting

definition encode_play_player_command :: "i32 \<Rightarrow> player_command_action \<Rightarrow> bootstrap_error + u8 list" where
  "encode_play_player_command entity_id action =
     boot_packet PLAY_PLAYER_COMMAND_ID
       [emit (write_var_int entity_id),
        emit (write_var_int (case action of StartSprinting \<Rightarrow> 1 | StopSprinting \<Rightarrow> 2)),
        emit (write_var_int 0)]"

datatype block_face = Face_Down | Face_Up | Face_North | Face_South | Face_West | Face_East

definition face_id :: "block_face \<Rightarrow> u8" where
  "face_id f = (case f of Face_Down \<Rightarrow> 0 | Face_Up \<Rightarrow> 1 | Face_North \<Rightarrow> 2 | Face_South \<Rightarrow> 3
                 | Face_West \<Rightarrow> 4 | Face_East \<Rightarrow> 5)"

datatype player_action = StartDestroyBlock | AbortDestroyBlock | StopDestroyBlock

datatype interaction_hand = Hand_Main | Hand_Off

record block_hit =
  bh_position :: block_position
  bh_face :: block_face
  bh_location_x :: f32
  bh_location_y :: f32
  bh_location_z :: f32
  bh_inside :: bool
  bh_world_border_hit :: bool

definition write_position :: "block_position \<Rightarrow> writer_op" where
  "write_position p = write_block_position (bp_x p) (bp_y p) (bp_z p)"

definition encode_play_player_action ::
  "player_action \<Rightarrow> block_position \<Rightarrow> block_face \<Rightarrow> i32 \<Rightarrow> bootstrap_error + u8 list" where
  "encode_play_player_action action pos face seq_id =
     (if seq_id <s 0 then Inl (Boot_NegativeCount ''Player Action sequence'' seq_id)
      else boot_packet PLAY_PLAYER_ACTION_ID
        [emit (write_var_int (case action of StartDestroyBlock \<Rightarrow> 0 | AbortDestroyBlock \<Rightarrow> 1 | StopDestroyBlock \<Rightarrow> 2)),
         write_position pos, emit (write_u8 (face_id face)), emit (write_var_int seq_id)])"

definition hand_id :: "interaction_hand \<Rightarrow> i32" where
  "hand_id h = (case h of Hand_Main \<Rightarrow> 0 | Hand_Off \<Rightarrow> 1)"

definition encode_play_use_item_on :: "interaction_hand \<Rightarrow> block_hit \<Rightarrow> i32 \<Rightarrow> bootstrap_error + u8 list" where
  "encode_play_use_item_on hand hit seq_id =
     (if seq_id <s 0 then Inl (Boot_NegativeCount ''Use Item On sequence'' seq_id)
      else if \<not> f32_is_finite (bh_location_x hit) \<or> \<not> f32_is_finite (bh_location_y hit) \<or>
              \<not> f32_is_finite (bh_location_z hit)
      then Inl (Boot_NonFinite ''Use Item On hit location'')
      else boot_packet PLAY_USE_ITEM_ON_ID
        [emit (write_var_int (hand_id hand)), write_position (bh_position hit),
         emit (write_var_int (ucast (face_id (bh_face hit)))), emit (write_f32 (bh_location_x hit)),
         emit (write_f32 (bh_location_y hit)), emit (write_f32 (bh_location_z hit)),
         emit (write_bool (bh_inside hit)), emit (write_bool (bh_world_border_hit hit)),
         emit (write_var_int seq_id)])"

definition encode_play_use_item :: "interaction_hand \<Rightarrow> i32 \<Rightarrow> f32 \<Rightarrow> f32 \<Rightarrow> bootstrap_error + u8 list" where
  "encode_play_use_item hand seq_id yaw pitch =
     (if seq_id <s 0 then Inl (Boot_NegativeCount ''Use Item sequence'' seq_id)
      else if \<not> f32_is_finite yaw \<or> \<not> f32_is_finite pitch then Inl (Boot_NonFinite ''Use Item rotation'')
      else boot_packet PLAY_USE_ITEM_ID
        [emit (write_var_int (hand_id hand)), emit (write_var_int seq_id), emit (write_f32 yaw), emit (write_f32 pitch)])"

definition encode_play_chunk_batch_received :: "f32 \<Rightarrow> bootstrap_error + u8 list" where
  "encode_play_chunk_batch_received desired_chunks_per_tick =
     boot_packet PLAY_CHUNK_BATCH_RECEIVED_ID [emit (write_f32 desired_chunks_per_tick)]"

definition encode_play_client_tick_end :: "bootstrap_error + u8 list" where
  "encode_play_client_tick_end = packet_without_payload PLAY_CLIENT_TICK_END_ID"

definition encode_play_perform_respawn :: "bootstrap_error + u8 list" where
  "encode_play_perform_respawn = boot_packet PLAY_CLIENT_COMMAND_ID [emit (write_var_int 0)]"

definition encode_play_client_information :: "client_information \<Rightarrow> bootstrap_error + u8 list" where
  "encode_play_client_information i = boot_packet PLAY_CLIENT_INFORMATION_ID (write_client_information_fields i)"

definition encode_play_player_loaded :: "bootstrap_error + u8 list" where
  "encode_play_player_loaded = packet_without_payload PLAY_PLAYER_LOADED_ID"

definition encode_play_cookie_response :: "rust_str \<Rightarrow> bootstrap_error + u8 list" where
  "encode_play_cookie_response key = encode_empty_cookie_response PLAY_COOKIE_RESPONSE_ID key"

definition encode_play_acknowledge_configuration :: "bootstrap_error + u8 list" where
  "encode_play_acknowledge_configuration = packet_without_payload PLAY_ACKNOWLEDGE_CONFIGURATION_ID"

section \<open>The packets a client can send\<close>

datatype serverbound =
    Send_LoginStart rust_str protocol_uuid
  | Send_EncryptionResponse "u8 list" "u8 list"
  | Send_LoginPluginResponse i32
  | Send_LoginAcknowledged
  | Send_LoginCookie rust_str
  | Send_ConfigInformation client_information
  | Send_ConfigCookie rust_str
  | Send_FinishConfiguration
  | Send_ConfigKeepAlive i64
  | Send_ConfigPong i32
  | Send_NoKnownPacks
  | Send_TeleportConfirmation i32
  | Send_ChatAcknowledgement i32
  | Send_ChatMessage rust_str i64 i64 "message_signature option" chat_last_seen_update
  | Send_ChatSession protocol_uuid i64 "u8 list" "u8 list"
  | Send_ChunkBatchReceived f32
  | Send_PerformRespawn
  | Send_ClientTickEnd
  | Send_PlayInformation client_information
  | Send_AcknowledgeConfiguration
  | Send_PlayCookie rust_str
  | Send_KeepAlive i64
  | Send_MovePosition f64 f64 f64 bool bool
  | Send_MovePositionRotation f64 f64 f64 f32 f32 bool bool
  | Send_MoveRotation f32 f32 bool bool
  | Send_MoveStatus bool bool
  | Send_Abilities bool
  | Send_PlayerCommand i32 player_command_action
  | Send_PlayerInput player_input
  | Send_PlayerLoaded
  | Send_Pong i32
  | Send_PlayerAction player_action block_position block_face i32
  | Send_UseItemOn interaction_hand block_hit i32
  | Send_UseItem interaction_hand i32 f32 f32

fun encode_serverbound :: "serverbound \<Rightarrow> bootstrap_error + u8 list" where
  "encode_serverbound (Send_LoginStart name uuid) = encode_login_start name uuid"
| "encode_serverbound (Send_EncryptionResponse secret token) = encode_encryption_response secret token"
| "encode_serverbound (Send_LoginPluginResponse i) = encode_login_plugin_response i"
| "encode_serverbound Send_LoginAcknowledged = encode_login_acknowledged"
| "encode_serverbound (Send_LoginCookie key) = encode_login_cookie_response key"
| "encode_serverbound (Send_ConfigInformation info) = encode_client_information info"
| "encode_serverbound (Send_ConfigCookie key) = encode_configuration_cookie_response key"
| "encode_serverbound Send_FinishConfiguration = encode_finish_configuration"
| "encode_serverbound (Send_ConfigKeepAlive i) = encode_configuration_keep_alive i"
| "encode_serverbound (Send_ConfigPong i) = encode_configuration_pong i"
| "encode_serverbound Send_NoKnownPacks = encode_known_packs_response_empty"
| "encode_serverbound (Send_TeleportConfirmation i) = encode_play_teleport_confirmation i"
| "encode_serverbound (Send_ChatAcknowledgement n) = encode_play_chat_acknowledgement n"
| "encode_serverbound (Send_ChatMessage m t s sig ls) = encode_play_chat_message m t s sig ls"
| "encode_serverbound (Send_ChatSession u e k s) = encode_play_chat_session_update u e k s"
| "encode_serverbound (Send_ChunkBatchReceived n) = encode_play_chunk_batch_received n"
| "encode_serverbound Send_PerformRespawn = encode_play_perform_respawn"
| "encode_serverbound Send_ClientTickEnd = encode_play_client_tick_end"
| "encode_serverbound (Send_PlayInformation info) = encode_play_client_information info"
| "encode_serverbound Send_AcknowledgeConfiguration = encode_play_acknowledge_configuration"
| "encode_serverbound (Send_PlayCookie key) = encode_play_cookie_response key"
| "encode_serverbound (Send_KeepAlive i) = encode_play_keep_alive i"
| "encode_serverbound (Send_MovePosition x y z g c) = encode_play_move_position x y z g c"
| "encode_serverbound (Send_MovePositionRotation x y z yaw pitch g c) =
     encode_play_move_position_rotation x y z yaw pitch g c"
| "encode_serverbound (Send_MoveRotation yaw pitch g c) = encode_play_move_rotation yaw pitch g c"
| "encode_serverbound (Send_MoveStatus g c) = encode_play_move_status g c"
| "encode_serverbound (Send_Abilities flying) = encode_play_player_abilities flying"
| "encode_serverbound (Send_PlayerCommand e a) = encode_play_player_command e a"
| "encode_serverbound (Send_PlayerInput i) = encode_play_player_input i"
| "encode_serverbound Send_PlayerLoaded = encode_play_player_loaded"
| "encode_serverbound (Send_Pong i) = encode_play_pong i"
| "encode_serverbound (Send_PlayerAction a p f s) = encode_play_player_action a p f s"
| "encode_serverbound (Send_UseItemOn h hit s) = encode_play_use_item_on h hit s"
| "encode_serverbound (Send_UseItem h s yaw pitch) = encode_play_use_item h s yaw pitch"

end
