(* ===== verification/Bootstrap_Send_Props.thy ===== *)
theory Bootstrap_Send_Props
  imports Bootstrap_Send
begin

text \<open>
  The serverbound packets read back: a reference reader of each packet's fields, and the proof that it
  returns what the encoder was given, for exactly the packets the encoder accepts.
\<close>

section \<open>Writers and the readers of their fields\<close>

text \<open>\<open>puts m c bs\<close>: under \<open>c\<close> the write appends \<open>bs\<close>, and otherwise it fails.\<close>

definition puts :: "writer_op \<Rightarrow> bool \<Rightarrow> u8 list \<Rightarrow> bool" where
  "puts m c bs \<longleftrightarrow> (if c then appends m bs else (\<forall>w. \<exists>e w'. m w = (Inl e, w')))"

lemma putsI: "appends m bs \<Longrightarrow> puts m True bs"
  by (simp add: puts_def)

lemma puts_string:
  assumes "is_str s" and "sl_max_encoded_bytes l \<le> i32_MAX"
  shows "puts (write_string l s) (valid_string l s) (enc_string s)"
proof (cases "valid_string l s")
  case True
  then show ?thesis by (simp add: puts_def appends_write_string)
next
  case False
  then have "\<not> (utf16_count s \<le> max_utf16_units l \<and> str_len s \<le> max_encoded_bytes l)"
    using assms max_encoded_bytes_le[of l] by (auto simp: valid_string_def)
  then show ?thesis using False by (auto simp: puts_def write_string_def and_then_def ensure_def ok_def fail_def)
qed

lemma puts_byte_array:
  assumes "n \<le> i32_MAX"
  shows "puts (write_byte_array n bs) (length bs \<le> n) (enc_byte_array bs)"
  using assms appends_write_byte_array[of bs n]
  by (auto simp: puts_def write_byte_array_def and_then_def ensure_def fail_def)

text \<open>\<open>carries ms g c v n\<close>: the writes \<open>ms\<close> succeed under \<open>c\<close>, in at most \<open>n\<close> bytes, and \<open>g\<close> reads \<open>v\<close> from those bytes.\<close>

definition carries_fields :: "writer_op list \<Rightarrow> 'a reader_op \<Rightarrow> bool \<Rightarrow> 'a \<Rightarrow> nat \<Rightarrow> bool" where
  "carries_fields ms g c v n \<longleftrightarrow>
     (\<exists>bs. puts (writes ms) c bs \<and> (c \<longrightarrow> length bs \<le> n \<and> decodes g bs v))"

named_theorems carries_intros \<open>fields that read back\<close>

lemma carries_end [carries_intros]: "v' = v \<Longrightarrow> carries_fields [] (ok v') True v 0"
  unfolding carries_fields_def
  by (rule exI[of _ "[]"]) (simp add: puts_def appends_ok decodes_ok)

lemma carries_step:
  assumes m: "puts m c bs" and g: "c \<Longrightarrow> decodes g bs a \<and> length bs \<le> n"
    and ms: "carries_fields ms (k a) c' v n'"
  shows "carries_fields (m # ms) (and_then g k) (c \<and> c') v (n + n')"
proof -
  obtain bs' where bs': "puts (writes ms) c' bs'" "c' \<Longrightarrow> length bs' \<le> n'" "c' \<Longrightarrow> decodes (k a) bs' v"
    using ms by (auto simp: carries_fields_def)
  have "puts (writes (m # ms)) (c \<and> c') (bs @ bs')"
  proof (cases c)
    case True
    then have put: "appends m bs" using m by (simp add: puts_def)
    then have "and_then m (\<lambda>_. writes ms) w = writes ms (w\<lparr>out_bytes := out_bytes w @ bs\<rparr>)" for w
      using appendsD[OF put, of w] by (simp add: and_then_def)
    then show ?thesis
      using bs'(1) True appends_and_then[OF put, of "\<lambda>_. writes ms" bs'] by (simp add: puts_def)
  next
    case False
    have "\<exists>e w'. and_then m (\<lambda>_. writes ms) w = (Inl e, w')" for w
    proof -
      have "\<forall>w. \<exists>e w'. m w = (Inl e, w')" using m False by (simp add: puts_def)
      then obtain e w' where "m w = (Inl e, w')" by meson
      then show ?thesis by (simp add: and_then_def)
    qed
    then show ?thesis using False by (simp add: puts_def)
  qed
  moreover have "c \<and> c' \<Longrightarrow> decodes (and_then g k) (bs @ bs') v"
    using g bs'(3) by (auto intro: decodes_and_then)
  ultimately show ?thesis using g bs'(2) by (fastforce simp: carries_fields_def)
qed

lemma carries_write:
  assumes "appends m bs" and "decodes g bs a" and "length bs \<le> n" and "carries_fields ms (k a) c v n'"
  shows "carries_fields (m # ms) (and_then g k) c v (n + n')"
  using carries_step[of m True bs g a n ms k c v n'] putsI[OF assms(1)] assms by simp

text \<open>A field with a fixed value.\<close>

definition expect :: "'a reader_op \<Rightarrow> 'a \<Rightarrow> 'b reader_op \<Rightarrow> 'b reader_op" where
  "expect g a m = and_then g (\<lambda>x. if x = a then m else fail (ValueOutOfRange ''fixed field'' 0 0 0))"

lemma carries_expect:
  "(\<And>k. carries_fields ms (k a) c v n \<Longrightarrow> carries_fields (m # ms) (and_then g k) c v n') \<Longrightarrow>
     carries_fields ms r c v n \<Longrightarrow> carries_fields (m # ms) (expect g a r) c v n'"
  by (simp add: expect_def)

lemma carries_words [carries_intros]:
  fixes a :: u8 and b :: u32 and d :: u64
  shows "carries_fields ms (k a) c v n \<Longrightarrow> carries_fields (emit (write_u8 a) # ms) (and_then read_u8 k) c v (1 + n)"
    and "carries_fields ms (k a) c v n \<Longrightarrow> carries_fields (emit (write_i8 a) # ms) (and_then read_i8 k) c v (1 + n)"
    and "carries_fields ms (k' b) c v n \<Longrightarrow> carries_fields (emit (write_i32 b) # ms) (and_then read_i32 k') c v (4 + n)"
    and "carries_fields ms (k' b) c v n \<Longrightarrow> carries_fields (emit (write_f32 b) # ms) (and_then read_f32 k') c v (4 + n)"
    and "carries_fields ms (k2 d) c v n \<Longrightarrow> carries_fields (emit (write_i64 d) # ms) (and_then read_i64 k2) c v (8 + n)"
    and "carries_fields ms (k2 d) c v n \<Longrightarrow> carries_fields (emit (write_f64 d) # ms) (and_then read_f64 k2) c v (8 + n)"
    and "carries_fields ms (k' b) c v n \<Longrightarrow> carries_fields (emit (write_var_int b) # ms) (and_then read_var_int k') c v (5 + n)"
    and "carries_fields ms (k3 t) c v n \<Longrightarrow> carries_fields (emit (write_bool t) # ms) (and_then read_bool k3) c v (1 + n)"
  by ((rule carries_write, rule appends_emit_write_u8 appends_emit_fixed_width appends_write_var,
      rule decodes_intros, (simp add: length_enc_var_int)?, assumption); fail)+

lemma carries_fixed [carries_intros]:
  "carries_fields ms r c v n \<Longrightarrow> carries_fields (emit (write_var_int b) # ms) (expect read_var_int b r) c v (5 + n)"
  "carries_fields ms r c v n \<Longrightarrow> carries_fields (emit (write_bool t) # ms) (expect read_bool t r) c v (1 + n)"
  by (erule carries_expect[rotated], erule carries_intros)+

lemma carries_uuid [carries_intros]:
  "uuid_wf u \<Longrightarrow> carries_fields ms (k u) c v n \<Longrightarrow>
     carries_fields (emit (write_uuid u) # ms) (and_then read_uuid k) c v (16 + n)"
  by (rule carries_write[OF uuid_codec.put_appends uuid_codec.get_decodes]) (simp_all add: uuid_wf_def)

lemma carries_position [carries_intros]:
  "valid_position p \<Longrightarrow> carries_fields ms (k p) c v n \<Longrightarrow>
     carries_fields (write_position p # ms) (and_then read_block_position k) c v (8 + n)"
  unfolding write_position_def
  by (rule carries_write[OF block_position_codec.put_appends block_position_codec.get_decodes]) simp_all

lemma carries_bytes [carries_intros]:
  "length bs = l \<Longrightarrow> carries_fields ms (k bs) c v n \<Longrightarrow>
     carries_fields (emit (write_bytes bs) # ms) (and_then (read_bytes l ctx) k) c v (l + n)"
  by (rule carries_write[OF appends_emit_write_bytes decodes_read_bytes]) simp_all

lemma length_enc_string_le: "valid_string l s \<Longrightarrow> length (enc_string s) \<le> 5 + sl_max_encoded_bytes l"
  using length_enc_length[of "str_len s"] max_encoded_bytes_le[of l]
  by (simp add: enc_string_def valid_string_def str_len_def)

lemma carries_string [carries_intros]:
  "is_str s \<Longrightarrow> sl_max_encoded_bytes l \<le> i32_MAX \<Longrightarrow> carries_fields ms (k s) c v n \<Longrightarrow>
     carries_fields (write_string l s # ms) (and_then (read_string l) k) (valid_string l s \<and> c) v
       (5 + sl_max_encoded_bytes l + n)"
  by (rule carries_step[OF puts_string]) (auto intro: decodes_read_string length_enc_string_le)

lemma length_enc_byte_array: "length (enc_byte_array bs) = length (enc_length (length bs)) + length bs"
  by (simp add: enc_byte_array_def)

lemma carries_byte_array [carries_intros]:
  "l \<le> i32_MAX \<Longrightarrow> carries_fields ms (k bs) c v n \<Longrightarrow>
     carries_fields (write_byte_array l bs # ms) (and_then (read_byte_array l) k) (length bs \<le> l \<and> c) v (5 + l + n)"
  by (rule carries_step[OF puts_byte_array])
    (use length_enc_length[of "length bs"] in \<open>auto intro!: decodes_read_byte_array simp: length_enc_byte_array\<close>)

lemma carries_if_True [carries_intros]:
  "carries_fields ms r c v n \<Longrightarrow> carries_fields ms (if True then r else r') c v n"
  "carries_fields ms r' c v n \<Longrightarrow> carries_fields ms (if False then r else r') c v n"
  by simp_all

section \<open>The reference reader\<close>

datatype phase = Phase_Login | Phase_Configuration | Phase_Play

definition read_optional :: "bool \<Rightarrow> 'a reader_op \<Rightarrow> ('a option \<Rightarrow> 'b reader_op) \<Rightarrow> 'b reader_op" where
  "read_optional present g k = (if present then and_then g (\<lambda>x. k (Some x)) else k None)"

definition read_information :: "client_information reader_op" where
  "read_information =
     and_then (read_string CLIENT_LOCALE_LIMITS) (\<lambda>locale.
     and_then read_i8 (\<lambda>view_distance.
     and_then read_var_int (\<lambda>chat_mode.
     and_then read_bool (\<lambda>chat_colors.
     and_then read_u8 (\<lambda>parts.
     and_then read_var_int (\<lambda>main_hand.
     and_then read_bool (\<lambda>text_filtering.
     and_then read_bool (\<lambda>listing.
     and_then read_var_int (\<lambda>particles.
     ok \<lparr>ci_locale = locale, ci_view_distance = view_distance, ci_chat_mode = chat_mode,
         ci_chat_colors = chat_colors, ci_displayed_skin_parts = parts, ci_main_hand = main_hand,
         ci_text_filtering = text_filtering, ci_allows_server_listing = listing,
         ci_particle_status = particles\<rparr>)))))))))"

abbreviation reading :: "('a \<Rightarrow> 'b) \<Rightarrow> 'a reader_op \<Rightarrow> 'b reader_op" where
  "reading f g \<equiv> and_then g (\<lambda>x. ok (f x))"

definition hand_from_id :: "i32 \<Rightarrow> interaction_hand" where
  "hand_from_id i = (if i = 0 then Hand_Main else Hand_Off)"

definition face_from_id :: "u8 \<Rightarrow> block_face" where
  "face_from_id i = [Face_Down, Face_Up, Face_North, Face_South, Face_West, Face_East] ! unat i"

definition action_from_id :: "i32 \<Rightarrow> player_action" where
  "action_from_id i = (if i = 0 then StartDestroyBlock else if i = 1 then AbortDestroyBlock else StopDestroyBlock)"

definition command_from_id :: "i32 \<Rightarrow> player_command_action" where
  "command_from_id i = (if i = 1 then StartSprinting else StopSprinting)"

definition input_from_flags :: "u8 \<Rightarrow> player_input" where
  "input_from_flags f =
     \<lparr>pi_forward = bit f 0, pi_backward = bit f 1, pi_left = bit f 2, pi_right = bit f 3, pi_jump = bit f 4,
      pi_sneak = bit f 5, pi_sprint = bit f 6\<rparr>"

definition read_last_seen :: "(chat_last_seen_update \<Rightarrow> 'a) \<Rightarrow> 'a reader_op" where
  "read_last_seen k =
     and_then read_var_int (\<lambda>offset. and_then (read_bytes CHAT_ACKNOWLEDGEMENT_BYTES ''acknowledged'') (\<lambda>acknowledged.
     and_then read_u8 (\<lambda>checksum.
     ok (k \<lparr>ls_offset = offset, ls_acknowledged = acknowledged, ls_checksum = checksum\<rparr>))))"

definition read_chat_message :: "serverbound reader_op" where
  "read_chat_message =
     and_then (read_string CHAT_LIMITS) (\<lambda>message.
     and_then read_i64 (\<lambda>timestamp.
     and_then read_i64 (\<lambda>salt.
     and_then read_bool (\<lambda>signed.
     read_optional signed (read_bytes PLAYER_CHAT_SIGNATURE_BYTES ''signature'') (\<lambda>signature.
     read_last_seen (Send_ChatMessage message timestamp salt signature))))))"

definition read_login :: "i32 \<Rightarrow> serverbound reader_op" where
  "read_login pid =
     (if pid = LOGIN_START_ID then
        and_then (read_string USERNAME_LIMITS) (\<lambda>name. reading (Send_LoginStart name) read_uuid)
      else if pid = LOGIN_ENCRYPTION_RESPONSE_ID then
        and_then (read_byte_array (4 * 1024)) (\<lambda>secret. reading (Send_EncryptionResponse secret) (read_byte_array (4 * 1024)))
      else if pid = LOGIN_PLUGIN_RESPONSE_ID then
        and_then read_var_int (\<lambda>transaction. expect read_bool False (ok (Send_LoginPluginResponse transaction)))
      else if pid = LOGIN_ACKNOWLEDGED_ID then ok Send_LoginAcknowledged
      else and_then (read_string IDENTIFIER_LIMITS) (\<lambda>key. expect read_bool False (ok (Send_LoginCookie key))))"

definition read_configuration :: "i32 \<Rightarrow> serverbound reader_op" where
  "read_configuration pid =
     (if pid = CONFIG_CLIENT_INFORMATION_ID then reading Send_ConfigInformation read_information
      else if pid = CONFIG_COOKIE_RESPONSE_ID then
        and_then (read_string IDENTIFIER_LIMITS) (\<lambda>key. expect read_bool False (ok (Send_ConfigCookie key)))
      else if pid = CONFIG_FINISH_ACK_ID then ok Send_FinishConfiguration
      else if pid = CONFIG_KEEP_ALIVE_RESPONSE_ID then reading Send_ConfigKeepAlive read_i64
      else if pid = CONFIG_PONG_ID then reading Send_ConfigPong read_i32
      else expect read_var_int 0 (ok Send_NoKnownPacks))"

definition read_moves :: "i32 \<Rightarrow> serverbound reader_op" where
  "read_moves pid =
     (if pid = PLAY_MOVE_PLAYER_POS_ID then
        and_then read_f64 (\<lambda>x. and_then read_f64 (\<lambda>y. and_then read_f64 (\<lambda>z.
        reading (\<lambda>f. Send_MovePosition x y z (bit f 0) (bit f 1)) read_u8)))
      else if pid = PLAY_MOVE_PLAYER_POS_ROT_ID then
        and_then read_f64 (\<lambda>x. and_then read_f64 (\<lambda>y. and_then read_f64 (\<lambda>z.
        and_then read_f32 (\<lambda>yaw. and_then read_f32 (\<lambda>pitch.
        reading (\<lambda>f. Send_MovePositionRotation x y z yaw pitch (bit f 0) (bit f 1)) read_u8)))))
      else if pid = PLAY_MOVE_PLAYER_ROT_ID then
        and_then read_f32 (\<lambda>yaw. and_then read_f32 (\<lambda>pitch.
        reading (\<lambda>f. Send_MoveRotation yaw pitch (bit f 0) (bit f 1)) read_u8))
      else reading (\<lambda>f. Send_MoveStatus (bit f 0) (bit f 1)) read_u8)"

definition read_interactions :: "i32 \<Rightarrow> serverbound reader_op" where
  "read_interactions pid =
     (if pid = PLAY_PLAYER_ACTION_ID then
        and_then read_var_int (\<lambda>action. and_then read_block_position (\<lambda>pos. and_then read_u8 (\<lambda>face.
        reading (Send_PlayerAction (action_from_id action) pos (face_from_id face)) read_var_int)))
      else if pid = PLAY_USE_ITEM_ON_ID then
        and_then read_var_int (\<lambda>hand. and_then read_block_position (\<lambda>pos. and_then read_var_int (\<lambda>face.
        and_then read_f32 (\<lambda>x. and_then read_f32 (\<lambda>y. and_then read_f32 (\<lambda>z.
        and_then read_bool (\<lambda>inside. and_then read_bool (\<lambda>border.
        reading (Send_UseItemOn (hand_from_id hand)
            \<lparr>bh_position = pos, bh_face = face_from_id (ucast face), bh_location_x = x, bh_location_y = y,
             bh_location_z = z, bh_inside = inside, bh_world_border_hit = border\<rparr>) read_var_int))))))))
      else
        and_then read_var_int (\<lambda>hand. and_then read_var_int (\<lambda>seq_id. and_then read_f32 (\<lambda>yaw.
        reading (Send_UseItem (hand_from_id hand) seq_id yaw) read_f32))))"

definition read_play :: "i32 \<Rightarrow> serverbound reader_op" where
  "read_play pid =
     (if pid = PLAY_CONFIRM_TELEPORT_ID then reading Send_TeleportConfirmation read_var_int
      else if pid = PLAY_CHAT_ACKNOWLEDGEMENT_ID then reading Send_ChatAcknowledgement read_var_int
      else if pid = PLAY_CHAT_MESSAGE_ID then read_chat_message
      else if pid = PLAY_CHAT_SESSION_UPDATE_ID then
        and_then read_uuid (\<lambda>session. and_then read_i64 (\<lambda>expires.
        and_then (read_byte_array MAX_PLAYER_PUBLIC_KEY_BYTES) (\<lambda>key.
        reading (Send_ChatSession session expires key) (read_byte_array MAX_PLAYER_KEY_SIGNATURE_BYTES))))
      else if pid = PLAY_CHUNK_BATCH_RECEIVED_ID then reading Send_ChunkBatchReceived read_f32
      else if pid = PLAY_CLIENT_COMMAND_ID then expect read_var_int 0 (ok Send_PerformRespawn)
      else if pid = PLAY_CLIENT_TICK_END_ID then ok Send_ClientTickEnd
      else if pid = PLAY_CLIENT_INFORMATION_ID then reading Send_PlayInformation read_information
      else if pid = PLAY_ACKNOWLEDGE_CONFIGURATION_ID then ok Send_AcknowledgeConfiguration
      else if pid = PLAY_COOKIE_RESPONSE_ID then
        and_then (read_string IDENTIFIER_LIMITS) (\<lambda>key. expect read_bool False (ok (Send_PlayCookie key)))
      else if pid = PLAY_KEEP_ALIVE_RESPONSE_ID then reading Send_KeepAlive read_i64
      else if pid \<in> {PLAY_MOVE_PLAYER_POS_ID, PLAY_MOVE_PLAYER_POS_ROT_ID, PLAY_MOVE_PLAYER_ROT_ID,
                    PLAY_MOVE_PLAYER_STATUS_ONLY_ID} then read_moves pid
      else if pid = PLAY_PLAYER_ABILITIES_ID then reading (\<lambda>f. Send_Abilities (bit f 1)) read_u8
      else if pid = PLAY_PLAYER_COMMAND_ID then
        and_then read_var_int (\<lambda>entity. and_then read_var_int (\<lambda>action.
        expect read_var_int 0 (ok (Send_PlayerCommand entity (command_from_id action)))))
      else if pid = PLAY_PLAYER_INPUT_ID then reading (\<lambda>f. Send_PlayerInput (input_from_flags f)) read_u8
      else if pid = PLAY_PLAYER_LOADED_ID then ok Send_PlayerLoaded
      else if pid = PLAY_PONG_ID then reading Send_Pong read_i32
      else read_interactions pid)"

definition receive_serverbound :: "phase \<Rightarrow> u8 list \<Rightarrow> serverbound option" where
  "receive_serverbound phase body =
     (case split_raw_packet body of
        Inl _ \<Rightarrow> None
      | Inr p \<Rightarrow>
          (case (case phase of Phase_Login \<Rightarrow> read_login | Phase_Configuration \<Rightarrow> read_configuration
                 | Phase_Play \<Rightarrow> read_play) (packet_id p) (new_reader (payload p)) of
             (Inr v, r) \<Rightarrow> if remaining r = 0 then Some v else None
           | (Inl _, _) \<Rightarrow> None))"

section \<open>Which packets are sent\<close>

fun serverbound_phase :: "serverbound \<Rightarrow> phase" where
  "serverbound_phase (Send_LoginStart _ _) = Phase_Login"
| "serverbound_phase (Send_EncryptionResponse _ _) = Phase_Login"
| "serverbound_phase (Send_LoginPluginResponse _) = Phase_Login"
| "serverbound_phase Send_LoginAcknowledged = Phase_Login"
| "serverbound_phase (Send_LoginCookie _) = Phase_Login"
| "serverbound_phase (Send_ConfigInformation _) = Phase_Configuration"
| "serverbound_phase (Send_ConfigCookie _) = Phase_Configuration"
| "serverbound_phase Send_FinishConfiguration = Phase_Configuration"
| "serverbound_phase (Send_ConfigKeepAlive _) = Phase_Configuration"
| "serverbound_phase (Send_ConfigPong _) = Phase_Configuration"
| "serverbound_phase Send_NoKnownPacks = Phase_Configuration"
| "serverbound_phase _ = Phase_Play"

text \<open>What the Rust types of the arguments guarantee.\<close>

fun serverbound_wf :: "serverbound \<Rightarrow> bool" where
  "serverbound_wf (Send_LoginStart name uuid) \<longleftrightarrow> is_str name \<and> uuid_wf uuid"
| "serverbound_wf (Send_LoginCookie key) \<longleftrightarrow> is_str key"
| "serverbound_wf (Send_ConfigInformation info) \<longleftrightarrow> is_str (ci_locale info)"
| "serverbound_wf (Send_ConfigCookie key) \<longleftrightarrow> is_str key"
| "serverbound_wf (Send_ChatMessage m t s sig ls) \<longleftrightarrow>
     is_str m \<and> pred_option (\<lambda>bytes. length bytes = PLAYER_CHAT_SIGNATURE_BYTES) sig \<and>
     length (ls_acknowledged ls) = CHAT_ACKNOWLEDGEMENT_BYTES"
| "serverbound_wf (Send_ChatSession session e k s) \<longleftrightarrow> uuid_wf session"
| "serverbound_wf (Send_PlayInformation info) \<longleftrightarrow> is_str (ci_locale info)"
| "serverbound_wf (Send_PlayCookie key) \<longleftrightarrow> is_str key"
| "serverbound_wf (Send_PlayerAction a pos f s) \<longleftrightarrow> valid_position pos"
| "serverbound_wf (Send_UseItemOn h hit s) \<longleftrightarrow> valid_position (bh_position hit)"
| "serverbound_wf _ \<longleftrightarrow> True"

text \<open>What the encoders require.\<close>

fun sendable :: "serverbound \<Rightarrow> bool" where
  "sendable (Send_LoginStart name uuid) \<longleftrightarrow> valid_string USERNAME_LIMITS name"
| "sendable (Send_EncryptionResponse secret token) \<longleftrightarrow> length secret \<le> 4096 \<and> length token \<le> 4096"
| "sendable (Send_LoginCookie key) \<longleftrightarrow> valid_string IDENTIFIER_LIMITS key"
| "sendable (Send_ConfigInformation info) \<longleftrightarrow> valid_string CLIENT_LOCALE_LIMITS (ci_locale info)"
| "sendable (Send_ConfigCookie key) \<longleftrightarrow> valid_string IDENTIFIER_LIMITS key"
| "sendable (Send_ChatAcknowledgement n) \<longleftrightarrow> 0 <s n"
| "sendable (Send_ChatMessage m t s sig ls) \<longleftrightarrow>
     m \<noteq> [] \<and> \<not> list_ex is_control m \<and> valid_string CHAT_LIMITS m"
| "sendable (Send_ChatSession session e k s) \<longleftrightarrow>
     length k \<le> MAX_PLAYER_PUBLIC_KEY_BYTES \<and> length s \<le> MAX_PLAYER_KEY_SIGNATURE_BYTES"
| "sendable (Send_PlayInformation info) \<longleftrightarrow> valid_string CLIENT_LOCALE_LIMITS (ci_locale info)"
| "sendable (Send_PlayCookie key) \<longleftrightarrow> valid_string IDENTIFIER_LIMITS key"
| "sendable (Send_MovePosition x y z g c) \<longleftrightarrow> f64_is_finite x \<and> f64_is_finite y \<and> f64_is_finite z"
| "sendable (Send_MovePositionRotation x y z yaw pitch g c) \<longleftrightarrow>
     f64_is_finite x \<and> f64_is_finite y \<and> f64_is_finite z \<and> f32_is_finite yaw \<and> f32_is_finite pitch"
| "sendable (Send_MoveRotation yaw pitch g c) \<longleftrightarrow> f32_is_finite yaw \<and> f32_is_finite pitch"
| "sendable (Send_PlayerAction a pos f s) \<longleftrightarrow> 0 \<le>s s"
| "sendable (Send_UseItemOn h hit s) \<longleftrightarrow>
     0 \<le>s s \<and> f32_is_finite (bh_location_x hit) \<and> f32_is_finite (bh_location_y hit) \<and> f32_is_finite (bh_location_z hit)"
| "sendable (Send_UseItem h s yaw pitch) \<longleftrightarrow> 0 \<le>s s \<and> f32_is_finite yaw \<and> f32_is_finite pitch"
| "sendable _ \<longleftrightarrow> True"

section \<open>Each packet's fields\<close>

definition reads_back_as :: "(bootstrap_error + u8 list) \<Rightarrow> i32 \<Rightarrow> serverbound reader_op \<Rightarrow> bool \<Rightarrow> serverbound \<Rightarrow> bool" where
  "reads_back_as sent pid g c p \<longleftrightarrow>
     (if c then \<exists>bs. sent = Inr (enc_frame (enc_var pid @ bs)) \<and> length (enc_var pid @ bs) \<le> MINECRAFT_MAX_FRAME_SIZE \<and>
        decodes g bs p
      else \<exists>e. sent = Inl e)"

lemma boot_packet_reads_back:
  assumes "carries_fields ms g c' p n" and "c' = c" and "n \<le> 2000000"
  shows "reads_back_as (boot_packet pid ms) pid g c p"
proof -
  obtain bs where put: "puts (writes ms) c bs" and c: "c \<Longrightarrow> length bs \<le> n" "c \<Longrightarrow> decodes g bs p"
    using assms(1,2) by (auto simp: carries_fields_def)
  have head: "and_then (emit (write_var_int pid)) (\<lambda>_. m) w = m (w\<lparr>out_bytes := out_bytes w @ enc_var pid\<rparr>)"
    for m :: writer_op and w
    by (simp add: and_then_def appendsD[OF appends_write_var(1)])
  show ?thesis
  proof (cases c)
    case True
    have size: "length (enc_var pid @ bs) \<le> MINECRAFT_MAX_FRAME_SIZE"
      using c(1)[OF True] assms(3) length_enc_var_int[of pid] by (simp add: MINECRAFT_MAX_FRAME_SIZE_def)
    have "appends (and_then (emit (write_var_int pid)) (\<lambda>_. writes ms)) (enc_var pid @ bs)"
      using put True by (intro appends_and_then[OF appends_write_var(1)]) (simp add: puts_def)
    from frame_of_writer_ok[OF this size size] show ?thesis
      using True size c(2) by (auto simp: reads_back_as_def boot_packet_def boot_frame_def MAX_BOOTSTRAP_FRAME_SIZE_def)
  next
    case False
    then have "\<forall>w. \<exists>e w'. writes ms w = (Inl e, w')" using put by (simp add: puts_def)
    then obtain e w' where "writes ms (new_writer\<lparr>out_bytes := out_bytes new_writer @ enc_var pid\<rparr>) = (Inl e, w')"
      by meson
    then show ?thesis
      using False by (simp add: reads_back_as_def boot_packet_def boot_frame_def frame_of_writer_def head)
  qed
qed

lemma reads_back_as_guard:
  "(\<not> g \<Longrightarrow> reads_back_as sent pid r c p) \<Longrightarrow> c' = (\<not> g \<and> c) \<Longrightarrow>
     reads_back_as (if g then Inl e else sent) pid r c' p"
  by (auto simp: reads_back_as_def)

lemma enc_limits:
  "sl_max_encoded_bytes USERNAME_LIMITS = 48" "sl_max_encoded_bytes IDENTIFIER_LIMITS = 32767"
  "sl_max_encoded_bytes CLIENT_LOCALE_LIMITS = 48" "sl_max_encoded_bytes CHAT_LIMITS = 768"
  "i32_MAX = 2147483647"
  by (simp_all add: USERNAME_LIMITS_def IDENTIFIER_LIMITS_def CLIENT_LOCALE_LIMITS_def CHAT_LIMITS_def
      string_limits_new_def i32_MAX_def)

lemma bit_flags:
  "bit (movement_flags g c) 0 = g" "bit (movement_flags g c) 1 = c" "input_from_flags (input_flags i) = i"
  "bit (push_bit 1 (flag b)) 1 = b"
  by (cases i) (auto simp: movement_flags_def input_flags_def input_from_flags_def bit_simps)

lemma ids_read_back:
  "hand_from_id (hand_id h) = h" "face_from_id (face_id f) = f" "face_from_id (ucast (ucast (face_id f) :: i32)) = f"
  "action_from_id (case a of StartDestroyBlock \<Rightarrow> 0 | AbortDestroyBlock \<Rightarrow> 1 | StopDestroyBlock \<Rightarrow> 2) = a"
  "command_from_id (case d of StartSprinting \<Rightarrow> 1 | StopSprinting \<Rightarrow> 2) = d"
  by (cases h; cases f; cases a; cases d; simp add: hand_from_id_def hand_id_def face_from_id_def face_id_def
      action_from_id_def command_from_id_def)+

lemmas send_defs = packet_without_payload_def encode_empty_cookie_response_def

lemma and_then_assoc: "and_then (and_then m k) h = and_then m (\<lambda>x. and_then (k x) h)"
  by (auto simp: and_then_def fun_eq_iff split: sum.splits prod.splits)

lemma information_reading:
  "and_then read_information (\<lambda>info. ok (f info)) =
     and_then (read_string CLIENT_LOCALE_LIMITS) (\<lambda>locale.
     and_then read_i8 (\<lambda>view_distance. and_then read_var_int (\<lambda>chat_mode. and_then read_bool (\<lambda>chat_colors.
     and_then read_u8 (\<lambda>parts. and_then read_var_int (\<lambda>main_hand. and_then read_bool (\<lambda>text_filtering.
     and_then read_bool (\<lambda>listing. and_then read_var_int (\<lambda>particles.
     ok (f \<lparr>ci_locale = locale, ci_view_distance = view_distance, ci_chat_mode = chat_mode,
         ci_chat_colors = chat_colors, ci_displayed_skin_parts = parts, ci_main_hand = main_hand,
         ci_text_filtering = text_filtering, ci_allows_server_listing = listing,
         ci_particle_status = particles\<rparr>))))))))))"
  by (simp add: read_information_def and_then_assoc)

lemma login_reads_back:
  "is_str name \<Longrightarrow> uuid_wf uuid \<Longrightarrow>
     reads_back_as (encode_login_start name uuid) LOGIN_START_ID (read_login LOGIN_START_ID)
       (valid_string USERNAME_LIMITS name) (Send_LoginStart name uuid)"
  "reads_back_as (encode_encryption_response secret token) LOGIN_ENCRYPTION_RESPONSE_ID
     (read_login LOGIN_ENCRYPTION_RESPONSE_ID) (length secret \<le> 4096 \<and> length token \<le> 4096)
     (Send_EncryptionResponse secret token)"
  "reads_back_as (encode_login_plugin_response t) LOGIN_PLUGIN_RESPONSE_ID (read_login LOGIN_PLUGIN_RESPONSE_ID)
     True (Send_LoginPluginResponse t)"
  "reads_back_as encode_login_acknowledged LOGIN_ACKNOWLEDGED_ID (read_login LOGIN_ACKNOWLEDGED_ID)
     True Send_LoginAcknowledged"
  "is_str key \<Longrightarrow> reads_back_as (encode_login_cookie_response key) LOGIN_COOKIE_RESPONSE_ID
     (read_login LOGIN_COOKIE_RESPONSE_ID) (valid_string IDENTIFIER_LIMITS key) (Send_LoginCookie key)"
  unfolding encode_login_start_def encode_encryption_response_def encode_login_plugin_response_def
    encode_login_acknowledged_def encode_login_cookie_response_def send_defs
  by ((rule boot_packet_reads_back, subst read_login_def, simp add: packet_ids,
      (rule carries_intros | (simp add: enc_limits; fail))+)[1])+

lemma configuration_reads_back:
  "is_str (ci_locale info) \<Longrightarrow>
     reads_back_as (encode_client_information info) CONFIG_CLIENT_INFORMATION_ID
       (read_configuration CONFIG_CLIENT_INFORMATION_ID) (valid_string CLIENT_LOCALE_LIMITS (ci_locale info))
       (Send_ConfigInformation info)"
  "is_str key \<Longrightarrow> reads_back_as (encode_configuration_cookie_response key) CONFIG_COOKIE_RESPONSE_ID
     (read_configuration CONFIG_COOKIE_RESPONSE_ID) (valid_string IDENTIFIER_LIMITS key) (Send_ConfigCookie key)"
  "reads_back_as encode_finish_configuration CONFIG_FINISH_ACK_ID (read_configuration CONFIG_FINISH_ACK_ID)
     True Send_FinishConfiguration"
  "reads_back_as (encode_configuration_keep_alive a) CONFIG_KEEP_ALIVE_RESPONSE_ID
     (read_configuration CONFIG_KEEP_ALIVE_RESPONSE_ID) True (Send_ConfigKeepAlive a)"
  "reads_back_as (encode_configuration_pong b) CONFIG_PONG_ID (read_configuration CONFIG_PONG_ID)
     True (Send_ConfigPong b)"
  "reads_back_as encode_known_packs_response_empty CONFIG_KNOWN_PACKS_RESPONSE_ID
     (read_configuration CONFIG_KNOWN_PACKS_RESPONSE_ID) True Send_NoKnownPacks"
  unfolding encode_client_information_def encode_configuration_cookie_response_def encode_finish_configuration_def
    encode_configuration_keep_alive_def encode_configuration_pong_def encode_known_packs_response_empty_def
    write_client_information_fields_def send_defs
  by ((rule boot_packet_reads_back, subst read_configuration_def, simp add: packet_ids information_reading,
      (rule carries_intros | (simp add: enc_limits; fail))+)[1])+

lemma abilities_read_back:
  "reads_back_as (encode_play_player_abilities t) PLAY_PLAYER_ABILITIES_ID (read_play PLAY_PLAYER_ABILITIES_ID)
     True (Send_Abilities t)"
  unfolding encode_play_player_abilities_def
  by (cases t; rule boot_packet_reads_back, subst read_play_def, simp add: packet_ids,
      (rule carries_intros | (simp add: bit_simps; fail))+)

lemma play_answers_read_back:
  "reads_back_as (encode_play_move_status g c) PLAY_MOVE_PLAYER_STATUS_ONLY_ID
     (read_play PLAY_MOVE_PLAYER_STATUS_ONLY_ID) True (Send_MoveStatus g c)"
  "reads_back_as (encode_play_teleport_confirmation b) PLAY_CONFIRM_TELEPORT_ID (read_play PLAY_CONFIRM_TELEPORT_ID)
     True (Send_TeleportConfirmation b)"
  "reads_back_as (encode_play_chunk_batch_received b) PLAY_CHUNK_BATCH_RECEIVED_ID
     (read_play PLAY_CHUNK_BATCH_RECEIVED_ID) True (Send_ChunkBatchReceived b)"
  "reads_back_as encode_play_perform_respawn PLAY_CLIENT_COMMAND_ID (read_play PLAY_CLIENT_COMMAND_ID)
     True Send_PerformRespawn"
  "reads_back_as encode_play_client_tick_end PLAY_CLIENT_TICK_END_ID (read_play PLAY_CLIENT_TICK_END_ID)
     True Send_ClientTickEnd"
  "is_str (ci_locale info) \<Longrightarrow>
     reads_back_as (encode_play_client_information info) PLAY_CLIENT_INFORMATION_ID
       (read_play PLAY_CLIENT_INFORMATION_ID) (valid_string CLIENT_LOCALE_LIMITS (ci_locale info))
       (Send_PlayInformation info)"
  "reads_back_as encode_play_acknowledge_configuration PLAY_ACKNOWLEDGE_CONFIGURATION_ID
     (read_play PLAY_ACKNOWLEDGE_CONFIGURATION_ID) True Send_AcknowledgeConfiguration"
  "is_str key \<Longrightarrow> reads_back_as (encode_play_cookie_response key) PLAY_COOKIE_RESPONSE_ID
     (read_play PLAY_COOKIE_RESPONSE_ID) (valid_string IDENTIFIER_LIMITS key) (Send_PlayCookie key)"
  "reads_back_as (encode_play_keep_alive a) PLAY_KEEP_ALIVE_RESPONSE_ID (read_play PLAY_KEEP_ALIVE_RESPONSE_ID)
     True (Send_KeepAlive a)"
  "reads_back_as (encode_play_player_command b d) PLAY_PLAYER_COMMAND_ID (read_play PLAY_PLAYER_COMMAND_ID)
     True (Send_PlayerCommand b d)"
  "reads_back_as (encode_play_player_input i) PLAY_PLAYER_INPUT_ID (read_play PLAY_PLAYER_INPUT_ID)
     True (Send_PlayerInput i)"
  "reads_back_as encode_play_player_loaded PLAY_PLAYER_LOADED_ID (read_play PLAY_PLAYER_LOADED_ID)
     True Send_PlayerLoaded"
  "reads_back_as (encode_play_pong b) PLAY_PONG_ID (read_play PLAY_PONG_ID) True (Send_Pong b)"
  unfolding encode_play_teleport_confirmation_def encode_play_chunk_batch_received_def encode_play_perform_respawn_def
    encode_play_client_tick_end_def encode_play_client_information_def encode_play_acknowledge_configuration_def
    encode_play_cookie_response_def encode_play_keep_alive_def
    encode_play_player_command_def encode_play_player_input_def encode_play_player_loaded_def encode_play_pong_def
    encode_play_move_status_def write_client_information_fields_def send_defs
  by ((rule boot_packet_reads_back, subst read_play_def, simp add: packet_ids information_reading read_moves_def,
      (rule carries_intros | (simp add: enc_limits bit_flags bit_flags(2)[simplified] ids_read_back; fail) | (auto simp: bit_simps; fail))+)[1])+

lemma play_moves_read_back:
  "reads_back_as (encode_play_move_position x y z g c) PLAY_MOVE_PLAYER_POS_ID (read_play PLAY_MOVE_PLAYER_POS_ID)
     (f64_is_finite x \<and> f64_is_finite y \<and> f64_is_finite z) (Send_MovePosition x y z g c)"
  "reads_back_as (encode_play_move_position_rotation x y z yaw pitch g c) PLAY_MOVE_PLAYER_POS_ROT_ID
     (read_play PLAY_MOVE_PLAYER_POS_ROT_ID)
     (f64_is_finite x \<and> f64_is_finite y \<and> f64_is_finite z \<and> f32_is_finite yaw \<and> f32_is_finite pitch)
     (Send_MovePositionRotation x y z yaw pitch g c)"
  "reads_back_as (encode_play_move_rotation yaw pitch g c) PLAY_MOVE_PLAYER_ROT_ID (read_play PLAY_MOVE_PLAYER_ROT_ID)
     (f32_is_finite yaw \<and> f32_is_finite pitch) (Send_MoveRotation yaw pitch g c)"
  unfolding encode_play_move_position_def encode_play_move_position_rotation_def encode_play_move_rotation_def
  by ((rule reads_back_as_guard, rule boot_packet_reads_back, subst read_play_def,
      simp add: packet_ids read_moves_def,
      (rule carries_intros | (auto simp: enc_limits bit_flags bit_flags(2)[simplified]; fail))+)[1])+

lemma play_interactions_read_back:
  "valid_position pos \<Longrightarrow>
     reads_back_as (encode_play_player_action a pos f s) PLAY_PLAYER_ACTION_ID (read_play PLAY_PLAYER_ACTION_ID)
       (0 \<le>s s) (Send_PlayerAction a pos f s)"
  "valid_position (bh_position hit) \<Longrightarrow>
     reads_back_as (encode_play_use_item_on h hit s) PLAY_USE_ITEM_ON_ID (read_play PLAY_USE_ITEM_ON_ID)
       (0 \<le>s s \<and> f32_is_finite (bh_location_x hit) \<and> f32_is_finite (bh_location_y hit) \<and> f32_is_finite (bh_location_z hit))
       (Send_UseItemOn h hit s)"
  "reads_back_as (encode_play_use_item h s yaw pitch) PLAY_USE_ITEM_ID (read_play PLAY_USE_ITEM_ID)
     (0 \<le>s s \<and> f32_is_finite yaw \<and> f32_is_finite pitch) (Send_UseItem h s yaw pitch)"
  "reads_back_as (encode_play_chat_acknowledgement s) PLAY_CHAT_ACKNOWLEDGEMENT_ID
     (read_play PLAY_CHAT_ACKNOWLEDGEMENT_ID) (0 <s s) (Send_ChatAcknowledgement s)"
  unfolding encode_play_player_action_def encode_play_use_item_on_def encode_play_use_item_def
    encode_play_chat_acknowledgement_def
  by (((rule reads_back_as_guard)+, rule boot_packet_reads_back, subst read_play_def,
      simp add: packet_ids read_interactions_def,
      (rule carries_intros | (simp add: enc_limits ids_read_back signed.not_less; fail) | (auto simp: signed.not_le; fail))+)[1])+

lemma play_chat_reads_back:
  "is_str m \<Longrightarrow> pred_option (\<lambda>bytes. length bytes = PLAYER_CHAT_SIGNATURE_BYTES) sig \<Longrightarrow>
     length (ls_acknowledged ls) = CHAT_ACKNOWLEDGEMENT_BYTES \<Longrightarrow>
   reads_back_as (encode_play_chat_message m t s sig ls) PLAY_CHAT_MESSAGE_ID (read_play PLAY_CHAT_MESSAGE_ID)
     (m \<noteq> [] \<and> \<not> list_ex is_control m \<and> valid_string CHAT_LIMITS m) (Send_ChatMessage m t s sig ls)"
  unfolding encode_play_chat_message_def
  by (cases sig; (rule reads_back_as_guard)+, rule boot_packet_reads_back, subst read_play_def,
      simp add: packet_ids read_chat_message_def read_optional_def read_last_seen_def,
      (rule carries_intros | (simp add: enc_limits PLAYER_CHAT_SIGNATURE_BYTES_def CHAT_ACKNOWLEDGEMENT_BYTES_def; fail))+)

lemma play_chat_session_reads_back:
  "uuid_wf u \<Longrightarrow> reads_back_as (encode_play_chat_session_update u t k s) PLAY_CHAT_SESSION_UPDATE_ID
     (read_play PLAY_CHAT_SESSION_UPDATE_ID)
     (length k \<le> MAX_PLAYER_PUBLIC_KEY_BYTES \<and> length s \<le> MAX_PLAYER_KEY_SIGNATURE_BYTES) (Send_ChatSession u t k s)"
  unfolding encode_play_chat_session_update_def
  by (rule boot_packet_reads_back, subst read_play_def, simp add: packet_ids,
      (rule carries_intros | (simp add: enc_limits MAX_PLAYER_PUBLIC_KEY_BYTES_def MAX_PLAYER_KEY_SIGNATURE_BYTES_def; fail))+)

section \<open>The property\<close>

lemma serverbound_reads_back:
  "serverbound_wf p \<Longrightarrow> \<exists>pid. reads_back_as (encode_serverbound p) pid
     ((case serverbound_phase p of Phase_Login \<Rightarrow> read_login | Phase_Configuration \<Rightarrow> read_configuration
        | Phase_Play \<Rightarrow> read_play) pid) (sendable p) p"
  by (cases p; (simp only: encode_serverbound.simps sendable.simps serverbound_wf.simps serverbound_phase.simps phase.case),
      (rule exI, rule login_reads_back configuration_reads_back abilities_read_back play_answers_read_back
        play_moves_read_back play_interactions_read_back play_chat_reads_back play_chat_session_reads_back;
       (elim conjE)?, assumption))



end
