(* ===== verification/Bootstrap_Receive.thy ===== *)
theory Bootstrap_Receive
  imports Bootstrap Ieee
begin

text \<open>
  \<open>cubic-protocol/src/bootstrap/v775.rs\<close>, the clientbound packets of the login and configuration
  phases.
\<close>

section \<open>Login\<close>

definition LOGIN_DISCONNECT_ID :: i32 where "LOGIN_DISCONNECT_ID = 0x00"
definition LOGIN_ENCRYPTION_REQUEST_ID :: i32 where "LOGIN_ENCRYPTION_REQUEST_ID = 0x01"
definition LOGIN_SUCCESS_ID :: i32 where "LOGIN_SUCCESS_ID = 0x02"
definition LOGIN_SET_COMPRESSION_ID :: i32 where "LOGIN_SET_COMPRESSION_ID = 0x03"
definition LOGIN_PLUGIN_REQUEST_ID :: i32 where "LOGIN_PLUGIN_REQUEST_ID = 0x04"
definition LOGIN_COOKIE_REQUEST_ID :: i32 where "LOGIN_COOKIE_REQUEST_ID = 0x05"

record game_profile_property =
  gp_name :: rust_str
  gp_value :: rust_str
  gp_signature :: "rust_str option"

record login_success =
  lsu_uuid :: protocol_uuid
  lsu_username :: rust_str
  lsu_properties :: "game_profile_property list"

record encryption_request =
  er_server_id :: rust_str
  er_public_key_der :: "u8 list"
  er_verify_token :: "u8 list"
  er_should_authenticate :: bool

datatype login_clientbound =
    Login_Disconnect rust_str
  | Login_EncryptionRequest encryption_request
  | Login_Success login_success
  | Login_SetCompression i32
  | Login_PluginRequest i32 rust_str "u8 list"
  | Login_CookieRequest rust_str

definition read_property :: "game_profile_property boot_op" where
  "read_property =
     and_then (boot (read_string PROPERTY_NAME_LIMITS)) (\<lambda>name.
     and_then (boot (read_string PROPERTY_VALUE_LIMITS)) (\<lambda>val.
     and_then (optional_read (boot (read_string PROPERTY_VALUE_LIMITS))) (\<lambda>signature.
     ok \<lparr>gp_name = name, gp_value = val, gp_signature = signature\<rparr>)))"

definition decode_login_success :: "nbt_env \<Rightarrow> login_success boot_op" where
  "decode_login_success env =
     and_then (boot read_uuid) (\<lambda>uuid.
     and_then (boot (read_string USERNAME_LIMITS)) (\<lambda>username.
     and_then (boot_read_count ''Game Profile properties'' MAX_LOGIN_PROPERTIES) (\<lambda>count.
     and_then (boot_reserve env count ''Game Profile properties'') (\<lambda>_.
     and_then (read_n count read_property) (\<lambda>properties.
     and_then (boot_require_consumed ''Login Success'') (\<lambda>_.
     ok \<lparr>lsu_uuid = uuid, lsu_username = username, lsu_properties = properties\<rparr>))))))"

definition read_encryption_request :: "encryption_request boot_op" where
  "read_encryption_request =
     and_then (boot (read_string (string_limits_new 20 60))) (\<lambda>server_id.
     and_then (boot (read_byte_array (4 * 1024))) (\<lambda>public_key_der.
     and_then (boot (read_byte_array 64)) (\<lambda>verify_token.
     and_then (boot read_bool) (\<lambda>should_authenticate.
     ok \<lparr>er_server_id = server_id, er_public_key_der = public_key_der, er_verify_token = verify_token,
         er_should_authenticate = should_authenticate\<rparr>))))"

text \<open>The rest of the payload, within a limit.\<close>

definition bounded_remaining :: "string \<Rightarrow> nat \<Rightarrow> u8 list boot_op" where
  "bounded_remaining ctx m =
     and_then boot_remaining (\<lambda>bytes. and_then (lift_result (check_payload ctx bytes m)) (\<lambda>_. ok bytes))"

definition login_decoder :: "nbt_env \<Rightarrow> i32 \<Rightarrow> u8 list \<Rightarrow> login_clientbound boot_op" where
  "login_decoder env pid bytes =
     (if pid = LOGIN_DISCONNECT_ID then
        whole ''Login Disconnect'' (and_then (boot (read_string DISCONNECT_LIMITS)) (\<lambda>reason. ok (Login_Disconnect reason)))
      else if pid = LOGIN_ENCRYPTION_REQUEST_ID then
        whole ''Encryption Request'' (and_then read_encryption_request (\<lambda>request. ok (Login_EncryptionRequest request)))
      else if pid = LOGIN_SUCCESS_ID then
        and_then (decode_login_success env) (\<lambda>success. ok (Login_Success success))
      else if pid = LOGIN_SET_COMPRESSION_ID then
        whole ''Set Compression'' (and_then (boot read_var_int) (\<lambda>threshold. ok (Login_SetCompression threshold)))
      else if pid = LOGIN_PLUGIN_REQUEST_ID then
        and_then (boot read_var_int) (\<lambda>transaction_id.
        and_then (boot (read_string IDENTIFIER_LIMITS)) (\<lambda>channel.
        and_then (bounded_remaining ''Login Plugin Request'' MAX_LOGIN_PLUGIN_PAYLOAD_BYTES) (\<lambda>data.
        ok (Login_PluginRequest transaction_id channel data))))
      else if pid = LOGIN_COOKIE_REQUEST_ID then
        whole ''Login Cookie Request'' (and_then (boot (read_string IDENTIFIER_LIMITS)) (\<lambda>key. ok (Login_CookieRequest key)))
      else fail (Boot_UnexpectedPacketId ''Login'' pid))"

definition decode_login_clientbound :: "nbt_env \<Rightarrow> u8 list \<Rightarrow> bootstrap_error + login_clientbound" where
  "decode_login_clientbound env frame_body = decode_packet (login_decoder env) frame_body"

section \<open>Configuration\<close>

definition CONFIG_COOKIE_REQUEST_ID :: i32 where "CONFIG_COOKIE_REQUEST_ID = 0x00"
definition CONFIG_CUSTOM_PAYLOAD_ID :: i32 where "CONFIG_CUSTOM_PAYLOAD_ID = 0x01"
definition CONFIG_DISCONNECT_ID :: i32 where "CONFIG_DISCONNECT_ID = 0x02"
definition CONFIG_FINISH_ID :: i32 where "CONFIG_FINISH_ID = 0x03"
definition CONFIG_KEEP_ALIVE_ID :: i32 where "CONFIG_KEEP_ALIVE_ID = 0x04"
definition CONFIG_PING_ID :: i32 where "CONFIG_PING_ID = 0x05"
definition CONFIG_RESET_CHAT_ID :: i32 where "CONFIG_RESET_CHAT_ID = 0x06"
definition CONFIG_REGISTRY_DATA_ID :: i32 where "CONFIG_REGISTRY_DATA_ID = 0x07"
definition CONFIG_RESOURCE_PACK_POP_ID :: i32 where "CONFIG_RESOURCE_PACK_POP_ID = 0x08"
definition CONFIG_RESOURCE_PACK_PUSH_ID :: i32 where "CONFIG_RESOURCE_PACK_PUSH_ID = 0x09"
definition CONFIG_STORE_COOKIE_ID :: i32 where "CONFIG_STORE_COOKIE_ID = 0x0a"
definition CONFIG_TRANSFER_ID :: i32 where "CONFIG_TRANSFER_ID = 0x0b"
definition CONFIG_ENABLED_FEATURES_ID :: i32 where "CONFIG_ENABLED_FEATURES_ID = 0x0c"
definition CONFIG_UPDATE_TAGS_ID :: i32 where "CONFIG_UPDATE_TAGS_ID = 0x0d"
definition CONFIG_KNOWN_PACKS_ID :: i32 where "CONFIG_KNOWN_PACKS_ID = 0x0e"
definition CONFIG_REPORT_DETAILS_ID :: i32 where "CONFIG_REPORT_DETAILS_ID = 0x0f"
definition CONFIG_SERVER_LINKS_ID :: i32 where "CONFIG_SERVER_LINKS_ID = 0x10"
definition CONFIG_CLEAR_DIALOG_ID :: i32 where "CONFIG_CLEAR_DIALOG_ID = 0x11"
definition CONFIG_SHOW_DIALOG_ID :: i32 where "CONFIG_SHOW_DIALOG_ID = 0x12"
definition CONFIG_CODE_OF_CONDUCT_ID :: i32 where "CONFIG_CODE_OF_CONDUCT_ID = 0x13"

record known_pack =
  kp_namespace :: rust_str
  kp_id :: rust_str
  kp_version :: rust_str

datatype skipped_packet =
    Skip_ResetChat
  | Skip_RegistryData
  | Skip_ResourcePackPop
  | Skip_StoreCookie
  | Skip_EnabledFeatures
  | Skip_UpdateTags
  | Skip_ReportDetails
  | Skip_ServerLinks
  | Skip_ClearDialog
  | Skip_ShowDialog

record registry_entry =
  re_identifier :: rust_str
  re_data :: "nbt_tag option"

datatype configuration_clientbound =
    Config_CookieRequest rust_str
  | Config_CustomPayload rust_str "u8 list"
  | Config_Disconnect nbt_compound
  | Config_Finish
  | Config_KeepAlive i64
  | Config_Ping i32
  | Config_RegistryData rust_str "registry_entry list"
  | Config_KnownPacks "known_pack list"
  | Config_ResourcePackPush
  | Config_Transfer
  | Config_CodeOfConduct
  | Config_Skipped skipped_packet nat

definition disconnect_nbt_limits :: nbt_limits where
  "disconnect_nbt_limits =
     nbt_limits_default\<lparr>nl_max_depth := 16, nl_max_total_tags := 1024, nl_max_compound_entries := 256,
       nl_max_list_elements := 1024, nl_max_array_elements := 4096, nl_max_string_encoded_bytes := 4096,
       nl_max_total_allocated_bytes := MAX_DISCONNECT_BYTES\<rparr>"

definition decode_configuration_disconnect :: "nbt_env \<Rightarrow> u8 list \<Rightarrow> bootstrap_error + configuration_clientbound" where
  "decode_configuration_disconnect env bytes =
     (case check_payload ''Configuration Disconnect'' bytes MAX_DISCONNECT_BYTES of
        Inl e \<Rightarrow> Inl e
      | Inr _ \<Rightarrow>
          (case decode_unnamed_network_root_complete env disconnect_nbt_limits bytes of
             Inl e \<Rightarrow> Inl (Boot_Nbt e)
           | Inr reason \<Rightarrow> Inr (Config_Disconnect reason)))"

definition read_known_pack :: "known_pack boot_op" where
  "read_known_pack =
     and_then (boot (read_string KNOWN_PACK_NAMESPACE_LIMITS)) (\<lambda>namespace.
     and_then (boot (read_string KNOWN_PACK_ID_LIMITS)) (\<lambda>pack.
     and_then (boot (read_string KNOWN_PACK_VERSION_LIMITS)) (\<lambda>version.
     ok \<lparr>kp_namespace = namespace, kp_id = pack, kp_version = version\<rparr>)))"

definition decode_known_packs :: "nbt_env \<Rightarrow> configuration_clientbound boot_op" where
  "decode_known_packs env =
     and_then (boot_read_count ''Known Packs'' MAX_KNOWN_PACKS) (\<lambda>count.
     and_then (boot_reserve env count ''Known Packs'') (\<lambda>_.
     and_then (read_n count read_known_pack) (\<lambda>packs.
     and_then (boot_require_consumed ''Select Known Packs'') (\<lambda>_.
     ok (Config_KnownPacks packs)))))"

definition registry_nbt_limits :: nbt_limits where
  "registry_nbt_limits =
     nbt_limits_default\<lparr>nl_max_total_tags := 65536, nl_max_total_allocated_bytes := MAX_CONFIGURATION_BUFFERED_BYTES\<rparr>"

definition read_registry_entry :: "nbt_env \<Rightarrow> registry_entry boot_op" where
  "read_registry_entry env =
     and_then (boot (read_string IDENTIFIER_LIMITS)) (\<lambda>identifier.
     and_then (optional_read (boot_nbt (decode_unnamed_network_tag env registry_nbt_limits))) (\<lambda>data.
     ok \<lparr>re_identifier = identifier, re_data = data\<rparr>))"

definition decode_configuration_registry_data :: "nbt_env \<Rightarrow> configuration_clientbound boot_op" where
  "decode_configuration_registry_data env =
     and_then (boot (read_string IDENTIFIER_LIMITS)) (\<lambda>registry.
     and_then (boot_read_count ''Configuration Registry Data'' MAX_CONFIGURATION_REGISTRY_ENTRIES) (\<lambda>count.
     and_then (boot_reserve env count ''Configuration Registry Data'') (\<lambda>_.
     and_then (read_n count (read_registry_entry env)) (\<lambda>entries.
     and_then (boot_require_consumed ''Configuration Registry Data'') (\<lambda>_.
     ok (Config_RegistryData registry entries))))))"

definition decode_empty_skipped :: "skipped_packet \<Rightarrow> string \<Rightarrow> configuration_clientbound boot_op" where
  "decode_empty_skipped packet ctx = and_then (boot_require_consumed ctx) (\<lambda>_. ok (Config_Skipped packet 0))"

definition configuration_decoder :: "nbt_env \<Rightarrow> i32 \<Rightarrow> u8 list \<Rightarrow> configuration_clientbound boot_op" where
  "configuration_decoder env pid bytes =
     (if pid = CONFIG_COOKIE_REQUEST_ID then
        whole ''Configuration Cookie Request'' (and_then (boot (read_string IDENTIFIER_LIMITS)) (\<lambda>key. ok (Config_CookieRequest key)))
      else if pid = CONFIG_CUSTOM_PAYLOAD_ID then
        and_then (boot (read_string IDENTIFIER_LIMITS)) (\<lambda>channel.
        and_then (bounded_remaining ''Configuration Custom Payload'' MAX_CONFIGURATION_CUSTOM_PAYLOAD_BYTES) (\<lambda>data.
        ok (Config_CustomPayload channel data)))
      else if pid = CONFIG_DISCONNECT_ID then lift_result (decode_configuration_disconnect env bytes)
      else if pid = CONFIG_FINISH_ID then whole ''Finish Configuration'' (ok Config_Finish)
      else if pid = CONFIG_KEEP_ALIVE_ID then
        whole ''Configuration Keep Alive'' (and_then (boot read_i64) (\<lambda>i. ok (Config_KeepAlive i)))
      else if pid = CONFIG_PING_ID then whole ''Configuration Ping'' (and_then (boot read_i32) (\<lambda>i. ok (Config_Ping i)))
      else if pid = CONFIG_RESET_CHAT_ID then decode_empty_skipped Skip_ResetChat ''Reset Chat''
      else if pid = CONFIG_REGISTRY_DATA_ID then decode_configuration_registry_data env
      else if pid = CONFIG_RESOURCE_PACK_POP_ID then ok (Config_Skipped Skip_ResourcePackPop (length bytes))
      else if pid = CONFIG_RESOURCE_PACK_PUSH_ID then ok Config_ResourcePackPush
      else if pid = CONFIG_STORE_COOKIE_ID then ok (Config_Skipped Skip_StoreCookie (length bytes))
      else if pid = CONFIG_TRANSFER_ID then ok Config_Transfer
      else if pid = CONFIG_ENABLED_FEATURES_ID then ok (Config_Skipped Skip_EnabledFeatures (length bytes))
      else if pid = CONFIG_UPDATE_TAGS_ID then ok (Config_Skipped Skip_UpdateTags (length bytes))
      else if pid = CONFIG_KNOWN_PACKS_ID then decode_known_packs env
      else if pid = CONFIG_REPORT_DETAILS_ID then ok (Config_Skipped Skip_ReportDetails (length bytes))
      else if pid = CONFIG_SERVER_LINKS_ID then ok (Config_Skipped Skip_ServerLinks (length bytes))
      else if pid = CONFIG_CLEAR_DIALOG_ID then decode_empty_skipped Skip_ClearDialog ''Clear Dialog''
      else if pid = CONFIG_SHOW_DIALOG_ID then ok (Config_Skipped Skip_ShowDialog (length bytes))
      else if pid = CONFIG_CODE_OF_CONDUCT_ID then ok Config_CodeOfConduct
      else fail (Boot_UnexpectedPacketId ''Configuration'' pid))"

definition decode_configuration_clientbound :: "nbt_env \<Rightarrow> u8 list \<Rightarrow> bootstrap_error + configuration_clientbound" where
  "decode_configuration_clientbound env frame_body = decode_packet (configuration_decoder env) frame_body"

end
