(* ===== verification/Bootstrap_Play.thy ===== *)
theory Bootstrap_Play
  imports Bootstrap Ieee
begin

text \<open>
  \<open>cubic-protocol/src/bootstrap/v775.rs\<close>, the clientbound packets of the play phase. Floats are bit
  patterns, and the arithmetic of the low-precision vector is that of \<open>Ieee\<close>.
\<close>

section \<open>Packet ids\<close>

definition PLAY_CHANGE_DIFFICULTY_ID :: i32 where "PLAY_CHANGE_DIFFICULTY_ID = 0x0a"
definition PLAY_BLOCK_CHANGED_ACK_ID :: i32 where "PLAY_BLOCK_CHANGED_ACK_ID = 0x04"
definition PLAY_BLOCK_ENTITY_DATA_ID :: i32 where "PLAY_BLOCK_ENTITY_DATA_ID = 0x06"
definition PLAY_BLOCK_UPDATE_ID :: i32 where "PLAY_BLOCK_UPDATE_ID = 0x08"
definition PLAY_CHUNK_BATCH_FINISHED_ID :: i32 where "PLAY_CHUNK_BATCH_FINISHED_ID = 0x0b"
definition PLAY_CHUNK_BATCH_START_ID :: i32 where "PLAY_CHUNK_BATCH_START_ID = 0x0c"
definition PLAY_COOKIE_REQUEST_ID :: i32 where "PLAY_COOKIE_REQUEST_ID = 0x15"
definition PLAY_CUSTOM_PAYLOAD_ID :: i32 where "PLAY_CUSTOM_PAYLOAD_ID = 0x18"
definition PLAY_GAME_EVENT_ID :: i32 where "PLAY_GAME_EVENT_ID = 0x26"
definition PLAY_ENTITY_EVENT_ID :: i32 where "PLAY_ENTITY_EVENT_ID = 0x22"
definition PLAY_FORGET_LEVEL_CHUNK_ID :: i32 where "PLAY_FORGET_LEVEL_CHUNK_ID = 0x25"
definition PLAY_INITIALIZE_BORDER_ID :: i32 where "PLAY_INITIALIZE_BORDER_ID = 0x2b"
definition PLAY_LEVEL_CHUNK_WITH_LIGHT_ID :: i32 where "PLAY_LEVEL_CHUNK_WITH_LIGHT_ID = 0x2d"
definition PLAY_LIGHT_UPDATE_ID :: i32 where "PLAY_LIGHT_UPDATE_ID = 0x30"
definition INITIAL_PLAY_LOGIN_ID :: i32 where "INITIAL_PLAY_LOGIN_ID = 0x31"
definition PLAY_RESOURCE_PACK_PUSH_ID :: i32 where "PLAY_RESOURCE_PACK_PUSH_ID = 0x51"
definition PLAY_TRANSFER_ID :: i32 where "PLAY_TRANSFER_ID = 0x81"
definition PLAY_DISCONNECT_ID :: i32 where "PLAY_DISCONNECT_ID = 0x20"
definition PLAY_DISGUISED_CHAT_ID :: i32 where "PLAY_DISGUISED_CHAT_ID = 0x21"
definition PLAY_KEEP_ALIVE_ID :: i32 where "PLAY_KEEP_ALIVE_ID = 0x2c"
definition PLAY_PING_ID :: i32 where "PLAY_PING_ID = 0x3d"
definition PLAY_PLAYER_CHAT_ID :: i32 where "PLAY_PLAYER_CHAT_ID = 0x41"
definition PLAY_CLIENTBOUND_PLAYER_ABILITIES_ID :: i32 where "PLAY_CLIENTBOUND_PLAYER_ABILITIES_ID = 0x40"
definition PLAY_PLAYER_POSITION_ID :: i32 where "PLAY_PLAYER_POSITION_ID = 0x48"
definition PLAY_PLAYER_ROTATION_ID :: i32 where "PLAY_PLAYER_ROTATION_ID = 0x49"
definition PLAY_RESPAWN_ID :: i32 where "PLAY_RESPAWN_ID = 0x52"
definition PLAY_SECTION_BLOCKS_UPDATE_ID :: i32 where "PLAY_SECTION_BLOCKS_UPDATE_ID = 0x54"
definition PLAY_SET_DEFAULT_SPAWN_POSITION_ID :: i32 where "PLAY_SET_DEFAULT_SPAWN_POSITION_ID = 0x61"
definition PLAY_SET_ENTITY_DATA_ID :: i32 where "PLAY_SET_ENTITY_DATA_ID = 0x63"
definition PLAY_SET_HEALTH_ID :: i32 where "PLAY_SET_HEALTH_ID = 0x68"
definition PLAY_SET_ENTITY_MOTION_ID :: i32 where "PLAY_SET_ENTITY_MOTION_ID = 0x65"
definition PLAY_SET_TIME_ID :: i32 where "PLAY_SET_TIME_ID = 0x71"
definition PLAY_START_CONFIGURATION_ID :: i32 where "PLAY_START_CONFIGURATION_ID = 0x76"
definition PLAY_SYSTEM_CHAT_ID :: i32 where "PLAY_SYSTEM_CHAT_ID = 0x79"

section \<open>Packets\<close>

record wire_block_update =
  wbu_x :: i32
  wbu_y :: i32
  wbu_z :: i32
  wbu_state_id :: u32

record block_entity_packet =
  be_position :: block_position
  be_type_raw_id :: u32
  be_data :: nbt_compound

record section_block_update =
  sb_local_x :: u8
  sb_local_y :: u8
  sb_local_z :: u8
  sb_state_id :: u32

record section_blocks_update =
  su_section_x :: i32
  su_section_y :: i32
  su_section_z :: i32
  su_updates :: "section_block_update list"

record global_position =
  go_dimension :: rust_str
  go_position :: block_position

record wire_spawn_info =
  wsi_dimension_type_raw_id :: i32
  wsi_dimension :: rust_str
  wsi_hashed_seed :: i64
  wsi_game_mode :: i8
  wsi_previous_game_mode :: u8
  wsi_debug_world :: bool
  wsi_flat_world :: bool
  wsi_last_death_location :: "global_position option"
  wsi_portal_cooldown_ticks :: i32
  wsi_sea_level :: i32

record initial_play_login =
  il_player_entity_id :: i32
  il_hardcore :: bool
  il_known_dimensions :: "rust_str list"
  il_max_players :: i32
  il_view_distance :: i32
  il_simulation_distance :: i32
  il_reduced_debug_info :: bool
  il_show_death_screen :: bool
  il_limited_crafting :: bool
  il_spawn :: wire_spawn_info
  il_secure_chat_enforced :: bool

record player_position_packet =
  pp_teleport_id :: i32
  pp_x :: f64
  pp_y :: f64
  pp_z :: f64
  pp_delta_x :: f64
  pp_delta_y :: f64
  pp_delta_z :: f64
  pp_yaw :: f32
  pp_pitch :: f32
  pp_relative_flags :: u32

record player_rotation_packet =
  pr_yaw :: f32
  pr_relative_yaw :: bool
  pr_pitch :: f32
  pr_relative_pitch :: bool

record entity_motion =
  em_entity_id :: i32
  em_delta_x :: f64
  em_delta_y :: f64
  em_delta_z :: f64

record player_abilities_packet =
  pa_invulnerable :: bool
  pa_flying :: bool
  pa_may_fly :: bool
  pa_instant_build :: bool
  pa_flying_speed :: f32
  pa_walking_speed :: f32

record respawn_packet =
  rp_spawn :: wire_spawn_info
  rp_data_to_keep :: u8

record default_spawn_packet =
  ds_position :: global_position
  ds_yaw :: f32
  ds_pitch :: f32

record wire_clock =
  wc_clock_type_raw_id :: i32
  wc_total_ticks :: i64
  wc_partial_tick :: f32
  wc_rate :: f32

record wire_time =
  wt_game_time :: i64
  wt_clocks :: "wire_clock list"

record initialize_border =
  ib_center_x :: f64
  ib_center_z :: f64
  ib_old_diameter :: f64
  ib_new_diameter :: f64
  ib_lerp_millis :: i64
  ib_absolute_max_size :: i32
  ib_warning_blocks :: i32
  ib_warning_seconds :: i32

record player_chat_packet =
  pc_sender_uuid :: protocol_uuid
  pc_sender_name :: rust_str
  pc_signed_content :: rust_str
  pc_unsigned_content :: "text_component option"
  pc_message :: text_component
  pc_global_index :: i32
  pc_sender_index :: i32
  pc_signature :: "u8 list option"
  pc_modified :: bool

datatype play_clientbound =
    Play_BlockChangedAck i32
  | Play_BlockEntityData block_entity_packet
  | Play_Login initial_play_login
  | Play_KeepAlive i64
  | Play_Ping i32
  | Play_PlayerPosition player_position_packet
  | Play_PlayerRotation player_rotation_packet
  | Play_PlayerAbilities player_abilities_packet
  | Play_SetEntityMotion entity_motion
  | Play_Respawn respawn_packet
  | Play_SetDefaultSpawnPosition default_spawn_packet
  | Play_SetTime wire_time
  | Play_ChangeDifficulty i32 bool
  | Play_GameEvent u8 f32
  | Play_EntityEvent i32 u8
  | Play_InitializeBorder initialize_border
  | Play_ChunkBatchFinished i32
  | Play_ChunkBatchStart
  | Play_LevelChunkWithLight level_chunk
  | Play_ForgetLevelChunk i32 i32
  | Play_LightUpdate light_update
  | Play_BlockUpdate wire_block_update
  | Play_SectionBlocksUpdate section_blocks_update
  | Play_CookieRequest rust_str
  | Play_CustomPayload rust_str nat
  | Play_PlayerChat player_chat_packet
  | Play_DisguisedChat rust_str text_component
  | Play_SystemChat text_component bool
  | Play_Disconnect text_component
  | Play_Health f32
  | Play_EntityData i32 "i32 option" nat
  | Play_StartConfiguration
  | Play_ResourcePackPush
  | Play_Transfer
  | Play_Ignored i32 nat

datatype play_decode_work = Work_Normal | Work_ChunkHeavy

definition classify_play_decode_work :: "u8 list \<Rightarrow> bootstrap_error + play_decode_work" where
  "classify_play_decode_work frame_body =
     (case split_raw_packet frame_body of
        Inl e \<Rightarrow> Inl (Boot_Codec e)
      | Inr p \<Rightarrow> Inr (if packet_id p = PLAY_LEVEL_CHUNK_WITH_LIGHT_ID then Work_ChunkHeavy else Work_Normal))"

text \<open>
  \<open>cubic-protocol/src/bootstrap/v775.rs\<close>, the decoders of the play phase and the dispatch on the
  packet id (\<open>decode_play_clientbound\<close>).
\<close>

section \<open>Block and section updates\<close>

definition boot_position :: "block_position boot_op" where
  "boot_position = boot read_block_position"

definition decode_block_update :: "wire_block_update boot_op" where
  "decode_block_update =
     and_then boot_position (\<lambda>pos.
     and_then (boot read_var_int) (\<lambda>v.
     and_then (lift_result (nonnegative_u32 v ''Block Update state ID'')) (\<lambda>state_id.
     ok \<lparr>wbu_x = bp_x pos, wbu_y = bp_y pos, wbu_z = bp_z pos, wbu_state_id = state_id\<rparr>)))"

definition decode_block_entity_data :: "nbt_env \<Rightarrow> block_entity_packet boot_op" where
  "decode_block_entity_data env =
     and_then boot_position (\<lambda>pos.
     and_then (boot read_var_int) (\<lambda>v.
     and_then (lift_result (nonnegative_u32 v ''Block Entity Data type registry ID'')) (\<lambda>type_raw_id.
     and_then (boot_nbt (decode_unnamed_network_tag env nbt_limits_default)) (\<lambda>tag.
     case tag of
       Tag_Compound compound \<Rightarrow> ok \<lparr>be_position = pos, be_type_raw_id = type_raw_id, be_data = compound\<rparr>
     | _ \<Rightarrow> fail Boot_InvalidBlockEntityNbt))))"

text \<open>\<open>i32::try_from\<close> of an \<open>i64\<close>.\<close>

definition section_coordinate :: "string \<Rightarrow> i64 \<Rightarrow> bootstrap_error + i32" where
  "section_coordinate ctx v =
     (if - (2 ^ 31) \<le> sint v \<and> sint v < 2 ^ 31 then Inr (ucast v)
      else Inl (Boot_Codec (ValueOutOfRange ctx (sint v) (- (2 ^ 31)) (2 ^ 31 - 1))))"

definition decode_section_entry :: "section_block_update boot_op" where
  "decode_section_entry =
     and_then (boot read_var_long) (\<lambda>packed.
     if packed <s 0
     then fail (Boot_Codec (ValueOutOfRange ''Section Blocks Update packed state'' (sint packed) 0 (2 ^ 63 - 1)))
     else if 2 ^ 32 \<le> unat (drop_bit 12 packed)
     then fail (Boot_Codec (ValueOutOfRange ''Section Blocks Update state ID'' (uint (drop_bit 12 packed)) 0 (2 ^ 32 - 1)))
     else ok \<lparr>sb_local_x = ucast (drop_bit 8 packed AND 0x0f), sb_local_y = ucast (packed AND 0x0f),
              sb_local_z = ucast (drop_bit 4 packed AND 0x0f), sb_state_id = ucast (drop_bit 12 packed)\<rparr>)"

definition decode_section_blocks_update :: "nbt_env \<Rightarrow> section_blocks_update boot_op" where
  "decode_section_blocks_update env =
     and_then (boot read_i64) (\<lambda>packed.
     and_then (lift_result (section_coordinate ''Section Blocks Update section x'' (signed_drop_bit 42 packed))) (\<lambda>x.
     and_then (lift_result (section_coordinate ''Section Blocks Update section z''
                 (signed_drop_bit 42 (push_bit 22 packed)))) (\<lambda>z.
     and_then (lift_result (section_coordinate ''Section Blocks Update section y''
                 (signed_drop_bit 44 (push_bit 44 packed)))) (\<lambda>y.
     and_then (boot_read_count ''Section Blocks Update entries'' MAX_SECTION_BLOCK_UPDATES) (\<lambda>count.
     and_then (boot_reserve env count ''Section Blocks Update entries'') (\<lambda>_.
     and_then (read_n count decode_section_entry) (\<lambda>updates.
     and_then (boot_require_consumed ''Section Blocks Update'') (\<lambda>_.
     ok \<lparr>su_section_x = x, su_section_y = y, su_section_z = z, su_updates = updates\<rparr>))))))))"

section \<open>Login, spawn and time\<close>

definition decode_global_position :: "global_position boot_op" where
  "decode_global_position =
     and_then (boot (read_string RESOURCE_LOCATION_LIMITS)) (\<lambda>dimension.
     and_then boot_position (\<lambda>pos. ok \<lparr>go_dimension = dimension, go_position = pos\<rparr>))"

definition decode_spawn_info :: "wire_spawn_info boot_op" where
  "decode_spawn_info =
     and_then (boot read_var_int) (\<lambda>dimension_type_raw_id.
     and_then (boot (read_string RESOURCE_LOCATION_LIMITS)) (\<lambda>dimension.
     and_then (boot read_i64) (\<lambda>hashed_seed.
     and_then (boot read_i8) (\<lambda>game_mode.
     and_then (boot read_u8) (\<lambda>previous_game_mode.
     and_then (boot read_bool) (\<lambda>debug_world.
     and_then (boot read_bool) (\<lambda>flat_world.
     and_then (optional_read decode_global_position) (\<lambda>last_death_location.
     and_then (boot read_var_int) (\<lambda>portal_cooldown_ticks.
     and_then (boot read_var_int) (\<lambda>sea_level.
     ok \<lparr>wsi_dimension_type_raw_id = dimension_type_raw_id, wsi_dimension = dimension,
         wsi_hashed_seed = hashed_seed, wsi_game_mode = game_mode,
         wsi_previous_game_mode = previous_game_mode, wsi_debug_world = debug_world,
         wsi_flat_world = flat_world, wsi_last_death_location = last_death_location,
         wsi_portal_cooldown_ticks = portal_cooldown_ticks, wsi_sea_level = sea_level\<rparr>))))))))))"

definition decode_initial_play_login :: "nbt_env \<Rightarrow> initial_play_login boot_op" where
  "decode_initial_play_login env =
     and_then (boot read_i32) (\<lambda>player_entity_id.
     and_then (boot read_bool) (\<lambda>hardcore.
     and_then (boot_read_count ''known dimension'' MAX_WIRE_DIMENSIONS) (\<lambda>dimension_count.
     and_then (boot_reserve env dimension_count ''known dimensions'') (\<lambda>_.
     and_then (read_n dimension_count (boot (read_string RESOURCE_LOCATION_LIMITS))) (\<lambda>known_dimensions.
     and_then (boot read_var_int) (\<lambda>max_players.
     and_then (boot read_var_int) (\<lambda>view_distance.
     and_then (boot read_var_int) (\<lambda>simulation_distance.
     and_then (boot read_bool) (\<lambda>reduced_debug_info.
     and_then (boot read_bool) (\<lambda>show_death_screen.
     and_then (boot read_bool) (\<lambda>limited_crafting.
     and_then decode_spawn_info (\<lambda>spawn.
     and_then (boot read_bool) (\<lambda>secure_chat_enforced.
     and_then (boot_require_consumed ''initial Play Login'') (\<lambda>_.
     ok \<lparr>il_player_entity_id = player_entity_id, il_hardcore = hardcore,
         il_known_dimensions = known_dimensions, il_max_players = max_players,
         il_view_distance = view_distance, il_simulation_distance = simulation_distance,
         il_reduced_debug_info = reduced_debug_info, il_show_death_screen = show_death_screen,
         il_limited_crafting = limited_crafting, il_spawn = spawn,
         il_secure_chat_enforced = secure_chat_enforced\<rparr>))))))))))))))"

definition decode_respawn :: "respawn_packet boot_op" where
  "decode_respawn =
     whole ''Play Respawn''
       (and_then decode_spawn_info (\<lambda>spawn.
        and_then (boot read_u8) (\<lambda>data_to_keep. ok \<lparr>rp_spawn = spawn, rp_data_to_keep = data_to_keep\<rparr>)))"

definition decode_default_spawn_position :: "default_spawn_packet boot_op" where
  "decode_default_spawn_position =
     whole ''Set Default Spawn Position''
       (and_then decode_global_position (\<lambda>pos.
        and_then (boot read_f32) (\<lambda>yaw.
        and_then (boot read_f32) (\<lambda>pitch. ok \<lparr>ds_position = pos, ds_yaw = yaw, ds_pitch = pitch\<rparr>))))"

definition read_clock :: "wire_clock boot_op" where
  "read_clock =
     and_then (boot read_var_int) (\<lambda>clock_type_raw_id.
     and_then (boot read_var_long) (\<lambda>total_ticks.
     and_then (boot read_f32) (\<lambda>partial_tick.
     and_then (boot read_f32) (\<lambda>rate.
     ok \<lparr>wc_clock_type_raw_id = clock_type_raw_id, wc_total_ticks = total_ticks,
         wc_partial_tick = partial_tick, wc_rate = rate\<rparr>))))"

definition decode_world_time :: "nbt_env \<Rightarrow> wire_time boot_op" where
  "decode_world_time env =
     and_then (boot read_i64) (\<lambda>game_time.
     and_then (boot_read_count ''world clock'' MAX_WIRE_CLOCKS) (\<lambda>count.
     and_then (boot_reserve env count ''world clocks'') (\<lambda>_.
     and_then (read_n count read_clock) (\<lambda>clocks.
     and_then (boot_require_consumed ''Set Time'') (\<lambda>_.
     ok \<lparr>wt_game_time = game_time, wt_clocks = clocks\<rparr>)))))"

definition decode_initialize_border :: "initialize_border boot_op" where
  "decode_initialize_border =
     whole ''Initialize World Border''
       (and_then (boot read_f64) (\<lambda>center_x.
        and_then (boot read_f64) (\<lambda>center_z.
        and_then (boot read_f64) (\<lambda>old_diameter.
        and_then (boot read_f64) (\<lambda>new_diameter.
        and_then (boot read_var_long) (\<lambda>lerp_millis.
        and_then (boot read_var_int) (\<lambda>absolute_max_size.
        and_then (boot read_var_int) (\<lambda>warning_blocks.
        and_then (boot read_var_int) (\<lambda>warning_seconds.
        ok \<lparr>ib_center_x = center_x, ib_center_z = center_z, ib_old_diameter = old_diameter,
            ib_new_diameter = new_diameter, ib_lerp_millis = lerp_millis,
            ib_absolute_max_size = absolute_max_size, ib_warning_blocks = warning_blocks,
            ib_warning_seconds = warning_seconds\<rparr>)))))))))"

section \<open>Player and entities\<close>

definition decode_player_position :: "player_position_packet boot_op" where
  "decode_player_position =
     and_then (boot read_var_int) (\<lambda>teleport_id.
     and_then (boot read_f64) (\<lambda>x.
     and_then (boot read_f64) (\<lambda>y.
     and_then (boot read_f64) (\<lambda>z.
     and_then (boot read_f64) (\<lambda>delta_x.
     and_then (boot read_f64) (\<lambda>delta_y.
     and_then (boot read_f64) (\<lambda>delta_z.
     and_then (boot read_f32) (\<lambda>yaw.
     and_then (boot read_f32) (\<lambda>pitch.
     and_then (boot read_u32) (\<lambda>relative_flags.
     if relative_flags AND NOT 0x01ff \<noteq> 0
     then fail (Boot_Codec (ValueOutOfRange ''Player Position relative flags'' (uint relative_flags) 0 0x01ff))
     else
       and_then (boot_require_consumed ''Play Player Position'') (\<lambda>_.
       ok \<lparr>pp_teleport_id = teleport_id, pp_x = x, pp_y = y, pp_z = z, pp_delta_x = delta_x,
           pp_delta_y = delta_y, pp_delta_z = delta_z, pp_yaw = yaw, pp_pitch = pitch,
           pp_relative_flags = relative_flags\<rparr>)))))))))))"

definition decode_player_rotation :: "player_rotation_packet boot_op" where
  "decode_player_rotation =
     and_then (boot read_f32) (\<lambda>yaw.
     and_then (boot read_bool) (\<lambda>relative_yaw.
     and_then (boot read_f32) (\<lambda>pitch.
     and_then (boot read_bool) (\<lambda>relative_pitch.
     ok \<lparr>pr_yaw = yaw, pr_relative_yaw = relative_yaw, pr_pitch = pitch, pr_relative_pitch = relative_pitch\<rparr>))))"

definition decode_player_abilities :: "player_abilities_packet boot_op" where
  "decode_player_abilities =
     and_then (boot read_u8) (\<lambda>flags.
     if flags AND NOT 0x0f \<noteq> 0
     then fail (Boot_Codec (ValueOutOfRange ''Player Abilities flags'' (uint flags) 0 0x0f))
     else
       and_then (boot read_f32) (\<lambda>flying_speed.
       and_then (boot read_f32) (\<lambda>walking_speed.
       if \<not> f32_is_finite flying_speed \<or> \<not> f32_is_finite walking_speed
       then fail (Boot_NonFinite ''Player Abilities speed'')
       else
         and_then (boot_require_consumed ''Player Abilities'') (\<lambda>_.
         ok \<lparr>pa_invulnerable = (flags AND 0x01 \<noteq> 0), pa_flying = (flags AND 0x02 \<noteq> 0),
             pa_may_fly = (flags AND 0x04 \<noteq> 0), pa_instant_build = (flags AND 0x08 \<noteq> 0),
             pa_flying_speed = flying_speed, pa_walking_speed = walking_speed\<rparr>))))"

definition low_precision_component :: "u64 \<Rightarrow> u64 \<Rightarrow> nat \<Rightarrow> f64" where
  "low_precision_component packed scale shift =
     (let v = min (unat (drop_bit shift packed AND 0x7fff)) 32766 in
      f64_mul (f64_sub (f64_div (f64_mul (f64_of_int (int v)) (f64_of_int 2)) (f64_of_int 32766)) (f64_of_int 1))
        (f64_of_int (uint scale)))"

text \<open>The entity id of the result is zero; the packet's decoder sets it.\<close>

definition decode_low_precision_vec3 :: "entity_motion boot_op" where
  "decode_low_precision_vec3 =
     and_then (boot read_u8) (\<lambda>first.
     if first = 0 then ok \<lparr>em_entity_id = 0, em_delta_x = 0, em_delta_y = 0, em_delta_z = 0\<rparr>
     else
       and_then (boot read_u8) (\<lambda>second.
       and_then (boot read_u32) (\<lambda>upper.
       and_then (if first AND 0x04 \<noteq> 0
                 then and_then (boot read_var_int) (\<lambda>v. ok (ucast (first AND 0x03) OR push_bit 2 (ucast v)))
                 else ok (ucast (first AND 0x03))) (\<lambda>scale.
       let packed = push_bit 16 (ucast upper) OR push_bit 8 (ucast second) OR ucast first in
       ok \<lparr>em_entity_id = 0, em_delta_x = low_precision_component packed scale 3,
           em_delta_y = low_precision_component packed scale 18,
           em_delta_z = low_precision_component packed scale 33\<rparr>))))"

definition decode_entity_motion :: "entity_motion boot_op" where
  "decode_entity_motion =
     and_then (boot read_var_int) (\<lambda>entity_id.
     and_then decode_low_precision_vec3 (\<lambda>motion. ok (motion\<lparr>em_entity_id := entity_id\<rparr>)))"

definition decode_standalone_air_supply :: "u8 list \<Rightarrow> bootstrap_error + i32 option" where
  "decode_standalone_air_supply metadata =
     (let r = new_reader metadata in
      if remaining r = 0 then Inr None
      else fst (and_then (boot read_u8) (\<lambda>index.
        if index \<noteq> 1 then ok None
        else and_then (boot read_var_int) (\<lambda>serializer.
          if serializer \<noteq> 1 then ok None
          else and_then (boot read_var_int) (\<lambda>air_supply. ok (Some air_supply)))) r))"

definition decode_health :: "f32 boot_op" where
  "decode_health =
     and_then (boot read_f32) (\<lambda>health.
     if \<not> f32_is_finite health then fail (Boot_NonFinite ''Set Health value'')
     else
       and_then (boot read_var_int) (\<lambda>food.
       and_then (boot read_f32) (\<lambda>saturation.
       and_then (boot_require_consumed ''Set Health'') (\<lambda>_. ok health))))"

definition boot_nonnegative :: "string \<Rightarrow> i32 boot_op" where
  "boot_nonnegative ctx =
     and_then (boot read_var_int) (\<lambda>v. if v <s 0 then fail (Boot_NegativeCount ctx v) else ok v)"

section \<open>Chat\<close>

definition decode_bound_chat_type :: "nbt_env \<Rightarrow> rust_str boot_op" where
  "decode_bound_chat_type env =
     and_then (boot_nonnegative ''Bound Chat Type holder'') (\<lambda>holder.
     and_then (if holder = 0 then and_then (decode_text_component env) (\<lambda>_. ok ()) else ok ()) (\<lambda>_.
     and_then (decode_text_component env) (\<lambda>sender.
     and_then (optional_read (decode_text_component env)) (\<lambda>_.
     ok (tc_plain_text sender)))))"

definition skip_last_seen :: "unit boot_op" where
  "skip_last_seen =
     and_then (boot read_var_int) (\<lambda>cached_id.
     if cached_id = 0 then and_then (boot (read_bytes 256 ''Player Chat last-seen signature'')) (\<lambda>_. ok ())
     else if cached_id <s 0 then fail (Boot_NegativeCount ''Player Chat cached signature ID'' cached_id)
     else ok ())"

definition chat_filter_limits :: bitset_limits where
  "chat_filter_limits = \<lparr>bl_max_words = 4, bl_max_bits = MAX_CHAT_UTF16_UNITS\<rparr>"

definition skip_filter_mask :: "nbt_env \<Rightarrow> unit boot_op" where
  "skip_filter_mask env =
     and_then (boot read_var_int) (\<lambda>v.
     if v = 0 \<or> v = 1 then ok ()
     else if v = 2 then and_then (boot (bitset_decode (try_reserve_exact env) chat_filter_limits)) (\<lambda>_. ok ())
     else fail (Boot_Codec (ValueOutOfRange ''Player Chat filter mask type'' (sint v) 0 2)))"

definition decode_player_chat :: "nbt_env \<Rightarrow> player_chat_packet boot_op" where
  "decode_player_chat env =
     and_then (boot read_var_int) (\<lambda>global_index.
     and_then (boot read_uuid) (\<lambda>sender_uuid.
     and_then (boot read_var_int) (\<lambda>sender_index.
     and_then (optional_read (boot (read_bytes PLAYER_CHAT_SIGNATURE_BYTES ''Player Chat signature''))) (\<lambda>signature.
     and_then (boot (read_string CHAT_LIMITS)) (\<lambda>content.
     and_then (boot read_i64) (\<lambda>timestamp.
     and_then (boot read_i64) (\<lambda>salt.
     and_then (boot_read_count ''Player Chat last-seen messages'' MAX_LAST_SEEN_MESSAGES) (\<lambda>last_seen.
     and_then (read_n last_seen skip_last_seen) (\<lambda>_.
     and_then (optional_read (decode_text_component env)) (\<lambda>unsigned.
     and_then (skip_filter_mask env) (\<lambda>_.
     and_then (decode_bound_chat_type env) (\<lambda>sender_name.
     and_then (boot_require_consumed ''Player Chat'') (\<lambda>_.
     ok \<lparr>pc_sender_uuid = sender_uuid, pc_sender_name = sender_name, pc_signed_content = content,
         pc_unsigned_content = unsigned,
         pc_message = (case unsigned of Some m \<Rightarrow> m
           | None \<Rightarrow> \<lparr>tc_value = Tag_String (encode_utf16 content), tc_plain_text = content\<rparr>),
         pc_global_index = global_index, pc_sender_index = sender_index, pc_signature = signature,
         pc_modified = (unsigned \<noteq> None)\<rparr>)))))))))))))"

section \<open>The dispatch\<close>

definition play_decoder :: "nbt_env \<Rightarrow> i32 \<Rightarrow> u8 list \<Rightarrow> play_clientbound boot_op" where
  "play_decoder env pid bytes =
     (if pid = PLAY_BLOCK_CHANGED_ACK_ID then
        whole ''Block Changed Ack'' (and_then (boot_nonnegative ''Block Changed Ack sequence'') (\<lambda>s. ok (Play_BlockChangedAck s)))
      else if pid = PLAY_BLOCK_ENTITY_DATA_ID then
        whole ''Block Entity Data'' (and_then (decode_block_entity_data env) (\<lambda>d. ok (Play_BlockEntityData d)))
      else if pid = INITIAL_PLAY_LOGIN_ID then and_then (decode_initial_play_login env) (\<lambda>l. ok (Play_Login l))
      else if pid = PLAY_CHANGE_DIFFICULTY_ID then
        whole ''Change Difficulty''
          (and_then (boot read_var_int) (\<lambda>difficulty. and_then (boot read_bool) (\<lambda>locked. ok (Play_ChangeDifficulty difficulty locked))))
      else if pid = PLAY_KEEP_ALIVE_ID then
        whole ''Play Keep Alive'' (and_then (boot read_i64) (\<lambda>i. ok (Play_KeepAlive i)))
      else if pid = PLAY_PING_ID then whole ''Play Ping'' (and_then (boot read_i32) (\<lambda>i. ok (Play_Ping i)))
      else if pid = PLAY_PLAYER_POSITION_ID then and_then decode_player_position (\<lambda>p. ok (Play_PlayerPosition p))
      else if pid = PLAY_PLAYER_ROTATION_ID then
        whole ''Play Player Rotation'' (and_then decode_player_rotation (\<lambda>p. ok (Play_PlayerRotation p)))
      else if pid = PLAY_CLIENTBOUND_PLAYER_ABILITIES_ID then
        and_then decode_player_abilities (\<lambda>a. ok (Play_PlayerAbilities a))
      else if pid = PLAY_SET_ENTITY_MOTION_ID then
        whole ''Set Entity Motion'' (and_then decode_entity_motion (\<lambda>m. ok (Play_SetEntityMotion m)))
      else if pid = PLAY_RESPAWN_ID then and_then decode_respawn (\<lambda>p. ok (Play_Respawn p))
      else if pid = PLAY_SET_DEFAULT_SPAWN_POSITION_ID then
        and_then decode_default_spawn_position (\<lambda>p. ok (Play_SetDefaultSpawnPosition p))
      else if pid = PLAY_SET_TIME_ID then and_then (decode_world_time env) (\<lambda>t. ok (Play_SetTime t))
      else if pid = PLAY_GAME_EVENT_ID then
        whole ''Game Event'' (and_then (boot read_u8) (\<lambda>event. and_then (boot read_f32) (\<lambda>v. ok (Play_GameEvent event v))))
      else if pid = PLAY_ENTITY_EVENT_ID then
        whole ''Entity Event'' (and_then (boot read_i32) (\<lambda>e. and_then (boot read_u8) (\<lambda>event. ok (Play_EntityEvent e event))))
      else if pid = PLAY_INITIALIZE_BORDER_ID then and_then decode_initialize_border (\<lambda>b. ok (Play_InitializeBorder b))
      else if pid = PLAY_CHUNK_BATCH_FINISHED_ID then
        whole ''Play Chunk Batch Finished'' (and_then (boot_nonnegative ''Play chunk batch'') (\<lambda>n. ok (Play_ChunkBatchFinished n)))
      else if pid = PLAY_CHUNK_BATCH_START_ID then whole ''Play Chunk Batch Start'' (ok Play_ChunkBatchStart)
      else if pid = PLAY_FORGET_LEVEL_CHUNK_ID then
        whole ''Forget Level Chunk'' (and_then (boot_chunk decode_forget_level_chunk) (\<lambda>(x, z). ok (Play_ForgetLevelChunk x z)))
      else if pid = PLAY_LEVEL_CHUNK_WITH_LIGHT_ID then
        whole ''Level Chunk With Light'' (and_then (boot_chunk (decode_level_chunk_with_light env)) (\<lambda>c. ok (Play_LevelChunkWithLight c)))
      else if pid = PLAY_LIGHT_UPDATE_ID then
        whole ''Light Update'' (and_then (boot_chunk (decode_light_update env)) (\<lambda>l. ok (Play_LightUpdate l)))
      else if pid = PLAY_BLOCK_UPDATE_ID then
        whole ''Block Update'' (and_then decode_block_update (\<lambda>u. ok (Play_BlockUpdate u)))
      else if pid = PLAY_SECTION_BLOCKS_UPDATE_ID then
        and_then (decode_section_blocks_update env) (\<lambda>u. ok (Play_SectionBlocksUpdate u))
      else if pid = PLAY_COOKIE_REQUEST_ID then
        whole ''Play Cookie Request'' (and_then (boot (read_string IDENTIFIER_LIMITS)) (\<lambda>key. ok (Play_CookieRequest key)))
      else if pid = PLAY_CUSTOM_PAYLOAD_ID then
        and_then (boot (read_string IDENTIFIER_LIMITS)) (\<lambda>channel.
        and_then boot_remaining (\<lambda>data.
        and_then (lift_result (check_payload ''Play Custom Payload'' data MAX_PLAY_CUSTOM_PAYLOAD_BYTES)) (\<lambda>_.
        ok (Play_CustomPayload channel (length data)))))
      else if pid = PLAY_SYSTEM_CHAT_ID then
        whole ''System Chat''
          (and_then (decode_text_component env) (\<lambda>message. and_then (boot read_bool) (\<lambda>overlay. ok (Play_SystemChat message overlay))))
      else if pid = PLAY_DISGUISED_CHAT_ID then
        whole ''Disguised Chat''
          (and_then (decode_text_component env) (\<lambda>message.
           and_then (decode_bound_chat_type env) (\<lambda>sender_name. ok (Play_DisguisedChat sender_name message))))
      else if pid = PLAY_PLAYER_CHAT_ID then and_then (decode_player_chat env) (\<lambda>c. ok (Play_PlayerChat c))
      else if pid = PLAY_DISCONNECT_ID then
        whole ''Play Disconnect'' (and_then (decode_text_component env) (\<lambda>reason. ok (Play_Disconnect reason)))
      else if pid = PLAY_SET_HEALTH_ID then and_then decode_health (\<lambda>health. ok (Play_Health health))
      else if pid = PLAY_SET_ENTITY_DATA_ID then
        and_then (boot read_var_int) (\<lambda>entity_id.
        and_then boot_remaining (\<lambda>metadata.
        and_then (lift_result (decode_standalone_air_supply metadata)) (\<lambda>air_supply.
        ok (Play_EntityData entity_id air_supply (length metadata)))))
      else if pid = PLAY_START_CONFIGURATION_ID then whole ''Start Configuration'' (ok Play_StartConfiguration)
      else if pid = PLAY_RESOURCE_PACK_PUSH_ID then ok Play_ResourcePackPush
      else if pid = PLAY_TRANSFER_ID then ok Play_Transfer
      else ok (Play_Ignored pid (length bytes)))"

definition decode_play_clientbound :: "nbt_env \<Rightarrow> u8 list \<Rightarrow> bootstrap_error + play_clientbound" where
  "decode_play_clientbound env frame_body = decode_packet (play_decoder env) frame_body"

end
