(* ===== verification/Text_Bounds.thy ===== *)
theory Text_Bounds
  imports Bootstrap Nbt_Bounds
begin

text \<open>
  The plain text of a component is never longer than the bytes it was decoded from, so the projection's
  cut at the byte limit, which would panic inside a character, is never reached.
\<close>

section \<open>The UTF-8 size of modified UTF-8\<close>

definition unit_bytes :: "u16 \<Rightarrow> nat" where
  "unit_bytes u = (if u < 0x80 then 1 else if u < 0x800 then 2 else 3)"

definition text_bytes :: "nbt_string \<Rightarrow> nat" where
  "text_bytes s = sum_list (map unit_bytes s)"

lemma text_bytes_simps [simp]:
  "text_bytes [] = 0" "text_bytes (u # us) = unit_bytes u + text_bytes us" "text_bytes (us @ vs) = text_bytes us + text_bytes vs"
  by (simp_all add: text_bytes_def)

lemma unat_u16_less: "u < (w :: u16) \<longleftrightarrow> unat u < unat w" "u \<le> w \<longleftrightarrow> unat u \<le> unat w"
  by (simp_all add: word_less_nat_alt word_le_nat_alt)

lemma unat_u16_max: "unat (u :: u16) < 65536"
  using unsigned_less[of u, where ?'a = nat] by simp

lemma lossy_char_length:
  "length (utf8_char (if high_surrogate u \<or> low_surrogate u then 0xFFFD else unat u)) \<le> unit_bytes u"
  using unat_u16_max[of u]
  by (auto simp: utf8_char_def unit_bytes_def high_surrogate_def low_surrogate_def unat_u16_less)

lemma lossy_pair_length:
  assumes "high_surrogate u" "low_surrogate v"
  shows "length (utf8_char (0x10000 + (unat u - 0xD800) * 1024 + (unat v - 0xDC00))) \<le> unit_bytes u + unit_bytes v"
    and "is_scalar_value (0x10000 + (unat u - 0xD800) * 1024 + (unat v - 0xDC00))"
proof -
  have "unat u - 0xD800 \<le> 1023" "unat v - 0xDC00 \<le> 1023" "0xD800 \<le> unat u" "0xDC00 \<le> unat v"
    using assms by (auto simp: high_surrogate_def low_surrogate_def unat_u16_less)
  then show "is_scalar_value (0x10000 + (unat u - 0xD800) * 1024 + (unat v - 0xDC00))"
    and "length (utf8_char (0x10000 + (unat u - 0xD800) * 1024 + (unat v - 0xDC00))) \<le> unit_bytes u + unit_bytes v"
    by (simp_all add: is_scalar_value_def utf8_char_def unit_bytes_def unat_u16_less)
qed

lemma str_len_Nil: "str_len [] = 0"
  by (simp add: str_len_def as_bytes_def)

lemma str_len_append: "str_len (s @ t) = str_len s + str_len t"
  by (simp add: str_len_def as_bytes_def)

lemma str_len_to_string_lossy: "str_len (to_string_lossy us) \<le> text_bytes us"
proof (induction us rule: to_string_lossy.induct)
  case (2 u)
  show ?case using lossy_char_length[of u] by (simp add: str_len_Cons str_len_Nil)
next
  case (3 u v us)
  then show ?case using lossy_char_length[of u] lossy_pair_length(1)[of u v] by (auto simp: str_len_Cons)
qed (simp add: str_len_Nil)

lemma scalar_value_lossy: "is_scalar_value (if high_surrogate u \<or> low_surrogate u then 0xFFFD else unat u)"
  using unat_u16_max[of u]
  by (auto simp: is_scalar_value_def high_surrogate_def low_surrogate_def unat_u16_less)

lemma is_str_to_string_lossy: "is_str (to_string_lossy us)"
proof (induction us rule: to_string_lossy.induct)
  case (3 u v us)
  then show ?case using scalar_value_lossy[of u] lossy_pair_length(2)[of u v] by (auto simp: is_str_def)
qed (use scalar_value_lossy in \<open>simp_all add: is_str_def\<close>)

section \<open>Decoding consumes at least the text it yields\<close>

definition passes :: "nbt_state \<Rightarrow> nbt_state \<Rightarrow> nat \<Rightarrow> bool" where
  "passes s s' n \<longleftrightarrow> (reader_wf (nbt_reader s) \<longrightarrow>
     reader_wf (nbt_reader s') \<and> input (nbt_reader s') = input (nbt_reader s) \<and>
     position (nbt_reader s) + n \<le> position (nbt_reader s'))"

lemma passes_trans: "passes s s1 m \<Longrightarrow> passes s1 s2 n \<Longrightarrow> passes s s2 (m + n)"
  by (auto simp: passes_def)

lemma passes_mono: "passes s s' n \<Longrightarrow> m \<le> n \<Longrightarrow> passes s s' m"
  by (auto simp: passes_def)

text \<open>An operation that never moves back.\<close>

definition forward :: "'a nbt_op \<Rightarrow> bool" where
  "forward m \<longleftrightarrow> (\<forall>s v s'. m s = (Inr v, s') \<longrightarrow> passes s s' 0)"

named_theorems forward_intros \<open>operations that never move the reader back\<close>

lemma forwardD: "forward m \<Longrightarrow> m s = (Inr v, s') \<Longrightarrow> passes s s' 0"
  by (auto simp: forward_def)

lemma forward_and_then [forward_intros]: "forward m \<Longrightarrow> (\<And>x. forward (k x)) \<Longrightarrow> forward (and_then m k)"
  unfolding forward_def and_then_Inr_iff by (fastforce dest: passes_trans[of _ _ 0 _ 0])

lemma forward_pure [forward_intros]:
  "forward (ok x)" "forward (fail e)" "forward (lift_result res)" "forward (ensure c e)"
  by (auto simp: forward_def passes_def run_simps ensure_def lift_result_def split: sum.splits if_splits)

lemma forward_on_reader [forward_intros]: "advances m \<Longrightarrow> forward (on_reader m)"
  unfolding forward_def passes_def
  by (auto simp: on_reader_def split: prod.splits sum.splits dest: advancesD)

lemma forward_charge [forward_intros]: "forward (charge l n)"
  by (auto simp: forward_def passes_def charge_def split: sum.splits)

lemma forward_add_tag [forward_intros]: "forward (add_tag l d)"
  by (auto simp: forward_def passes_def add_tag_ok)

lemma forward_list [forward_intros]:
  "(\<And>x xs. forward (b x xs)) \<Longrightarrow> forward a \<Longrightarrow> forward (case ys of [] \<Rightarrow> a | x # xs \<Rightarrow> b x xs)"
  by (cases ys) auto

lemma forward_if [forward_intros]: "forward a \<Longrightarrow> forward b \<Longrightarrow> forward (if c then a else b)"
  by simp

lemma forward_read_array_elements [forward_intros]: "forward (read_array_elements n m bs)"
  by (auto simp: forward_def passes_def dest: read_array_elements_Inr)

lemma forward_arrays [forward_intros]:
  "forward (decode_byte_array env l)" "forward (decode_int_array env l)" "forward (decode_long_array env l)"
  "forward (read_type_id ctx)" "forward (check_list_header env l ty n)"
  unfolding decode_byte_array_def decode_int_array_def decode_long_array_def read_collection_length_def reserve_def
    read_type_id_def check_list_header_def
  by (intro forward_intros advances_intros)+

lemma decode_unit_bytes:
  assumes "decode_unit bytes offset = Inr (u, w)"
  shows "unit_bytes u \<le> w"
proof -
  have "ucast b < (0x80 :: u16)" if "b \<le> 0x7f" for b :: u8
    using that by (simp add: word_le_nat_alt word_less_nat_alt unat_ucast_up)
  moreover have "push_bit 6 (ucast (a AND 0x1f)) OR ucast (b AND 0x3f) < (0x800 :: u16)" for a b :: u8
  proof -
    let ?x = "push_bit 6 (ucast (a AND mask 5)) OR ucast (b AND mask 6) :: u16"
    have "take_bit 11 ?x = ?x"
      by (rule bit_word_eqI) (auto simp: bit_simps)
    then have "unat ?x = take_bit 11 (unat ?x)"
      using unsigned_take_bit_eq[of 11 ?x, where ?'a = nat] by (simp only:)
    also have "\<dots> < 2 ^ 11" by (rule take_bit_nat_less_exp)
    finally have "unat ?x < 2 ^ 11" .
    then show ?thesis by (simp add: mask_numerals word_less_nat_alt)
  qed
  ultimately show ?thesis
    using assms by (auto simp: decode_unit_def unit_bytes_def Let_def split: if_splits sum.splits)
qed

lemma decode_unit_inside:
  "decode_unit bytes offset = Inr (u, w) \<Longrightarrow> offset < length bytes \<Longrightarrow> offset + w \<le> length bytes"
  by (auto simp: decode_unit_def continuation_def checked_add_def Let_def split: if_splits sum.splits option.splits)

lemma decode_units_bytes:
  assumes "decode_units bytes offset acc = Inr r"
  shows "text_bytes r \<le> text_bytes acc + (length bytes - offset)"
  using assms
proof (induction bytes offset acc rule: decode_units.induct)
  case (1 bytes offset acc)
  show ?case
  proof (cases "offset < length bytes")
    case True
    with "1.prems" obtain u w offset' where unit: "decode_unit bytes offset = Inr (u, w)"
      and o: "checked_add offset w = Some offset'" and rest: "decode_units bytes offset' (acc @ [u]) = Inr r"
      by (subst (asm) decode_units.simps) (auto split: sum.splits option.splits)
    have "offset' = offset + w" using o by simp
    moreover have "offset + w \<le> length bytes" by (rule decode_unit_inside[OF unit True])
    ultimately show ?thesis using "1.IH"[OF True unit refl o rest] True decode_unit_bytes[OF unit] by simp
  next
    case False
    with "1.prems" show ?thesis by (subst (asm) decode_units.simps) simp
  qed
qed

lemma passes_decode_string:
  assumes "decode_string try_reserve l s = (Inr v, s')"
  shows "passes s s' (text_bytes v)"
proof -
  obtain w s1 bs s2 where len: "on_reader read_u16 s = (Inr w, s1)"
    and bs: "on_reader (read_bytes (unat w) ''NBT Modified UTF-8 bytes'') s1 = (Inr bs, s2)"
    and charge: "(case checked_mul (unat w) 2 of
                 None \<Rightarrow> fail (AllocationBudgetExceeded usize_MAX (nl_max_total_allocated_bytes l))
               | Some allocation \<Rightarrow> charge l allocation) s2 = (Inr (), s')"
    and units: "decode_units bs 0 [] = Inr v"
    using assms unfolding decode_string_def Let_def and_then_Inr_iff lift_result_apply ensure_Inr by auto
  have "passes s s1 0" by (rule forwardD[OF forward_on_reader len]) (intro advances_intros)
  moreover have "passes s1 s2 (length bs)"
    using bs by (auto simp: passes_def on_reader_def read_bytes_def get_range_def Let_def reader_wf_def
        split: prod.splits sum.splits option.splits if_splits)
  moreover have "passes s2 s' 0"
    using charge by (auto split: option.splits intro: forwardD[OF forward_charge] simp: run_simps)
  ultimately have "passes s s' (0 + (length bs + 0))" by (blast intro: passes_trans)
  then show ?thesis using decode_units_bytes[OF units] by (elim passes_mono) simp
qed

text \<open>The text in a value: its strings and the keys of its compounds.\<close>

fun
  tag_text :: "nbt_tag \<Rightarrow> nat" and
  elements_text :: "nbt_tag list \<Rightarrow> nat" and
  entries_text :: "(nbt_string \<times> nbt_tag) list \<Rightarrow> nat"
where
  "tag_text (Tag_String s) = text_bytes s"
| "tag_text (Tag_List n ts) = elements_text ts"
| "tag_text (Tag_Compound c) = entries_text c"
| "tag_text t = 0"
| "elements_text [] = 0"
| "elements_text (t # ts) = tag_text t + elements_text ts"
| "entries_text [] = 0"
| "entries_text ((name, val) # es) = text_bytes name + tag_text val + entries_text es"

lemma compound_insert_text:
  "entries_text (compound_insert k v c) \<le> text_bytes k + tag_text v + entries_text c"
  by (induction k v c rule: compound_insert.induct) auto

definition payload_passes :: "nbt_env \<Rightarrow> nbt_limits \<Rightarrow> nat \<Rightarrow> bool" where
  "payload_passes env l d \<longleftrightarrow>
     (\<forall>ty s x s'. decode_payload env l ty d s = (Inr x, s') \<longrightarrow> passes s s' (tag_text x))"

lemma payload_passesD:
  "payload_passes env l d \<Longrightarrow> decode_payload env l ty d s = (Inr x, s') \<Longrightarrow> passes s s' (tag_text x)"
  by (auto simp: payload_passes_def)

lemma elements_pass:
  assumes payload: "payload_passes env l d"
  shows "decode_elements env l ty d n s = (Inr xs, s') \<Longrightarrow> passes s s' (elements_text xs)"
proof (induction n arbitrary: s xs)
  case 0
  then show ?case by (auto simp: ok_def passes_def)
next
  case (Suc n)
  then show ?case
    unfolding decode_elements_eq and_then_Inr_iff ok_apply
    by (auto intro!: passes_trans[OF payload_passesD[OF payload]])
qed

lemma entries_pass:
  assumes payload: "Suc d \<le> usize_MAX \<Longrightarrow> payload_passes env l (Suc d)"
  shows "decode_entries env l d w acc s = (Inr c, s') \<Longrightarrow>
    \<exists>n. passes s s' n \<and> entries_text c \<le> entries_text acc + n"
proof (induction "nl_max_compound_entries l + 1 - w" arbitrary: w acc s rule: less_induct)
  case less
  obtain tid s1 where tid: "read_type_id ''TAG_Compound child type'' s = (Inr tid, s1)"
    and rest: "(if tid = type_id Type_End then ok acc else decode_entry env l d w acc tid) s1 = (Inr c, s')"
    using less.prems(1) unfolding decode_entries_eq and_then_Inr_iff by blast
  note p1 = forwardD[OF forward_arrays(4) tid]
  show ?case
  proof (cases "tid = type_id Type_End")
    case True
    then show ?thesis using rest p1 by (auto simp: ok_apply)
  next
    case False
    then obtain ty s2 name s3 x s4 where w: "w + 1 \<le> nl_max_compound_entries l" and fits: "Suc d \<le> usize_MAX"
      and charged: "charge l (compound_entry_budget env) s1 = (Inr (), s2)"
      and name: "decode_string (try_reserve_exact env) l s2 = (Inr name, s3)"
      and x: "decode_payload env l ty (Suc d) s3 = (Inr x, s4)"
      and tail: "decode_entries env l d (w + 1) (compound_insert name x acc) s4 = (Inr c, s')"
      using rest unfolding decode_entry_def
      by (auto simp: and_then_Inr_iff lift_result_apply count_entry_def check_collection_limit_def next_depth_ok
          split: option.splits if_splits)
    have "nl_max_compound_entries l + 1 - (w + 1) < nl_max_compound_entries l + 1 - w" using w by simp
    from less.hyps[OF this tail] obtain n where IH: "passes s4 s' n"
      "entries_text c \<le> entries_text (compound_insert name x acc) + n" by blast
    have "passes s s' (0 + (0 + (text_bytes name + (tag_text x + n))))"
      by (rule passes_trans[OF p1] passes_trans[OF forwardD[OF forward_charge charged]]
          passes_trans[OF passes_decode_string[OF name]] passes_trans[OF payload_passesD[OF payload[OF fits] x]] IH(1))+
    then show ?thesis using IH(2) compound_insert_text[of name x acc] by (intro exI conjI) auto
  qed
qed

lemma list_passes:
  assumes payload: "Suc d \<le> usize_MAX \<Longrightarrow> payload_passes env l (Suc d)"
    and run: "decode_list env l d s = (Inr x, s')"
  shows "passes s s' (tag_text x)"
proof -
  obtain n s1 len s2 where n: "read_type_id ''TAG_List element type'' s = (Inr n, s1)"
    and len: "on_reader read_i32 s1 = (Inr len, s2)"
    and rest: "(if len <=s 0 then ok (empty_with_type_id n)
     else
       and_then (check_list_header env l n (unat len)) (\<lambda>element_type.
       and_then (lift_result (next_depth d l)) (\<lambda>child_depth.
       and_then (decode_elements env l element_type child_depth (unat len)) (\<lambda>elements.
       lift_result (nbt_list_new element_type elements))))) s2 = (Inr x, s')"
    using run unfolding decode_list_def and_then_Inr_iff by blast
  have start: "passes s s2 (0 + 0)"
    by (rule passes_trans[OF forwardD[OF forward_arrays(4) n] forwardD[OF forward_on_reader len]])
      (intro advances_intros)
  show ?thesis
  proof (cases "len <=s 0")
    case True
    then show ?thesis using rest start by (auto simp: ok_apply empty_with_type_id_def)
  next
    case False
    then obtain ty s3 xs where header: "check_list_header env l n (unat len) s2 = (Inr ty, s3)"
      and fits: "Suc d \<le> usize_MAX" and xs: "decode_elements env l ty (Suc d) (unat len) s3 = (Inr xs, s')"
      and new: "nbt_list_new ty xs = Inr x"
      using rest by (auto simp: and_then_Inr_iff lift_result_apply next_depth_ok)
    have "tag_text x = elements_text xs" using new by (auto simp: nbt_list_new_def split: sum.splits)
    moreover have "passes s s' (0 + 0 + (0 + elements_text xs))"
      by (rule passes_trans[OF start] passes_trans[OF forwardD[OF forward_arrays(5) header]]
          elements_pass[OF payload[OF fits] xs])+
    ultimately show ?thesis by simp
  qed
qed

lemma payload_passes_all: "payload_passes env l d"
proof (induction "usize_MAX + 1 - d" arbitrary: d rule: less_induct)
  case less
  have sub: "payload_passes env l (Suc d)" if "Suc d \<le> usize_MAX"
    using that by (intro less) simp
  show ?case
    unfolding payload_passes_def
  proof (intro allI impI)
    fix ty s x s' assume run: "decode_payload env l ty d s = (Inr x, s')"
    have zero: "passes s s' 0"
      if m: "and_then (add_tag l d) (\<lambda>_. m) s = (Inr x, s')" "forward m" for m
      using m(1) by (rule forwardD[rotated]) (intro forward_intros m(2))
    show "passes s s' (tag_text x)"
    proof (cases "ty \<in> {Type_End, Type_String, Type_List, Type_Compound}")
      case False
      then have "tag_text x = 0" using run payload_boundedD(1)[OF payload_bounded_all run]
        by (cases x) (auto simp: tag_type_def)
      moreover have "passes s s' 0"
        using run False by (cases ty) (auto simp only: decode_payload_eq, auto intro!: zero forward_intros advances_intros)
      ultimately show ?thesis by simp
    next
      case True
      then consider "ty = Type_End" | "ty = Type_String" | "ty = Type_List" | "ty = Type_Compound" by blast
      then show ?thesis
      proof cases
        case 1
        then show ?thesis using run decode_payload_End by blast
      next
        case 2
        then obtain s1 v where "add_tag l d s = (Inr (), s1)" "x = Tag_String v"
          "decode_string (try_reserve_exact env) l s1 = (Inr v, s')"
          using run by (auto simp: decode_payload_eq and_then_Inr_iff ok_apply)
        then show ?thesis
          using passes_trans[OF forwardD[OF forward_add_tag] passes_decode_string] by fastforce
      next
        case 3
        then obtain s1 where add: "add_tag l d s = (Inr (), s1)" and list: "decode_list env l d s1 = (Inr x, s')"
          using run by (auto simp: decode_payload_list_eq and_then_Inr_iff)
        from passes_trans[OF forwardD[OF forward_add_tag add] list_passes[OF sub list]] show ?thesis by simp
      next
        case 4
        then obtain s1 c where add: "add_tag l d s = (Inr (), s1)" and x: "x = Tag_Compound c"
          and c: "decode_entries env l d 0 [] s1 = (Inr c, s')"
          using run by (auto simp: decode_payload_eq and_then_Inr_iff ok_apply)
        from entries_pass[OF sub c] obtain n where "passes s1 s' n" "entries_text c \<le> n" by auto
        then show ?thesis
          using passes_trans[OF forwardD[OF forward_add_tag add], of s' n] x by (auto intro: passes_mono)
      qed
    qed
  qed
qed

section \<open>The projection stays within the bytes decoded\<close>

lemma get_text_split:
  assumes "get_str k c = Some v"
  shows "text_bytes (encode_utf16 k) + tag_text v + entries_text (filter (\<lambda>e. fst e \<noteq> encode_utf16 k) c) \<le> entries_text c"
proof -
  have filter_le: "entries_text (filter q es) \<le> entries_text es" for q es
    by (induction es) auto
  show ?thesis
    using assms unfolding get_str_def
  proof (induction c)
    case (Cons e es)
    then show ?case using filter_le[of "\<lambda>e. fst e \<noteq> encode_utf16 k" es] by (cases e) (auto split: if_splits)
  qed simp
qed

lemma get_str_filter:
  "encode_utf16 k' \<noteq> encode_utf16 k \<Longrightarrow> get_str k' (filter (\<lambda>e. fst e \<noteq> encode_utf16 k) c) = get_str k' c"
  unfolding get_str_def by (induction c) auto

definition key_text :: "string \<Rightarrow> nbt_compound \<Rightarrow> nat" where
  "key_text k c = (case get_str (str k) c of None \<Rightarrow> 0 | Some v \<Rightarrow> text_bytes (encode_utf16 (str k)) + tag_text v)"

lemma key_text_split:
  "\<exists>es. key_text k c + entries_text es \<le> entries_text c \<and>
     (\<forall>k'. encode_utf16 (str k') \<noteq> encode_utf16 (str k) \<longrightarrow> key_text k' es = key_text k' c)"
proof (cases "get_str (str k) c")
  case None
  then show ?thesis by (auto simp: key_text_def)
next
  case (Some v)
  then show ?thesis
    using get_text_split[OF Some]
    by (intro exI[of _ "filter (\<lambda>e. fst e \<noteq> encode_utf16 (str k)) c"]) (auto simp: key_text_def get_str_filter)
qed

lemma component_keys:
  "key_text ''text'' c + key_text ''extra'' c \<le> entries_text c"
  "key_text ''translate'' c + key_text ''with'' c + key_text ''extra'' c \<le> entries_text c"
proof -
  have keys: "encode_utf16 (str ''extra'') \<noteq> encode_utf16 (str ''text'')"
    "encode_utf16 (str ''with'') \<noteq> encode_utf16 (str ''translate'')"
    "encode_utf16 (str ''extra'') \<noteq> encode_utf16 (str ''translate'')"
    "encode_utf16 (str ''extra'') \<noteq> encode_utf16 (str ''with'')"
    by (simp_all add: encode_utf16_def)
  show "key_text ''text'' c + key_text ''extra'' c \<le> entries_text c"
  proof -
    obtain es where es: "key_text ''text'' c + entries_text es \<le> entries_text c"
      "key_text ''extra'' es = key_text ''extra'' c"
      using key_text_split[of "''text''" c] keys by blast
    obtain fs where "key_text ''extra'' es + entries_text fs \<le> entries_text es"
      using key_text_split[of "''extra''" es] by blast
    then show ?thesis using es by simp
  qed
  obtain es where es: "key_text ''translate'' c + entries_text es \<le> entries_text c"
    "key_text ''with'' es = key_text ''with'' c" "key_text ''extra'' es = key_text ''extra'' c"
    using key_text_split[of "''translate''" c] keys by blast
  obtain fs where fs: "key_text ''with'' es + entries_text fs \<le> entries_text es"
    "key_text ''extra'' fs = key_text ''extra'' es"
    using key_text_split[of "''with''" es] keys by blast
  obtain gs where "key_text ''extra'' fs + entries_text gs \<le> entries_text fs"
    using key_text_split[of "''extra''" fs] by blast
  then show "key_text ''translate'' c + key_text ''with'' c + key_text ''extra'' c \<le> entries_text c"
    using es fs by simp
qed

definition projects :: "rust_str option \<Rightarrow> rust_str \<Rightarrow> nat \<Rightarrow> bool" where
  "projects m out n \<longleftrightarrow> (\<exists>out'. m = Some out' \<and> is_str out' \<and> str_len out' \<le> str_len out + n)"

lemma projects_bind:
  assumes "projects m out n"
    and "\<And>out'. m = Some out' \<Longrightarrow> is_str out' \<Longrightarrow> str_len out' \<le> str_len out + n \<Longrightarrow> projects (f out') out' n'"
  shows "projects (Option.bind m f) out (n + n')"
  using assms unfolding projects_def by fastforce

lemma projects_mono: "projects m out n \<Longrightarrow> n \<le> n' \<Longrightarrow> projects m out n'"
  by (auto simp: projects_def)

lemma projects_append:
  "is_str out \<Longrightarrow> is_str t \<Longrightarrow> str_len t \<le> n \<Longrightarrow> projects (Some (out @ t)) out n"
  by (simp add: projects_def is_str_def str_len_append)

lemma projects_from: "projects m out n \<Longrightarrow> str_len out \<le> str_len out0 + k \<Longrightarrow> projects m out0 (k + n)"
  by (auto simp: projects_def)

lemma is_str_append: "is_str (s @ t) \<longleftrightarrow> is_str s \<and> is_str t"
  by (simp add: is_str_def)

lemma projects_truncate:
  assumes "is_str out" and "str_len out \<le> MAX_CHAT_COMPONENT_BYTES"
  shows "projects (truncate_component out) out 0"
  using assms by (simp add: projects_def truncate_component_def)

text \<open>The two halves of the compound case.\<close>

definition component_head :: "nbt_compound \<Rightarrow> rust_str \<Rightarrow> nat \<Rightarrow> rust_str option" where
  "component_head compound out depth =
     (case get_string (str ''text'') compound of
        Some t \<Rightarrow> Some (out @ to_string_lossy t)
      | None \<Rightarrow>
          (case get_string (str ''translate'') compound of
             None \<Rightarrow> Some out
           | Some translate \<Rightarrow>
               (case get_str (str ''with'') compound of
                  Some (Tag_List _ arguments) \<Rightarrow>
                    project_children arguments (out @ to_string_lossy translate @ str '' '') (depth + 1)
                | _ \<Rightarrow> Some (out @ to_string_lossy translate))))"

definition component_extra :: "nbt_compound \<Rightarrow> nat \<Rightarrow> rust_str \<Rightarrow> rust_str option" where
  "component_extra compound depth out' =
     (case get_str (str ''extra'') compound of
        Some (Tag_List _ extra) \<Rightarrow> project_children extra out' (depth + 1)
      | _ \<Rightarrow> Some out')"

lemma project_plain_text_eq:
  "project_plain_text val out depth =
     (if 32 < depth \<or> MAX_CHAT_COMPONENT_BYTES \<le> str_len out then Some out
      else Option.bind
        (case val of
           Tag_String s \<Rightarrow> Some (out @ to_string_lossy s)
         | Tag_List _ elements \<Rightarrow> project_children elements out (depth + 1)
         | Tag_Compound c \<Rightarrow> Option.bind (component_head c out depth) (component_extra c depth)
         | _ \<Rightarrow> Some out)
        truncate_component)"
  unfolding component_head_def component_extra_def[abs_def] by (rule project_plain_text.simps)

lemma get_string_key:
  "get_string (str k) c = Some t \<Longrightarrow> text_bytes t \<le> key_text k c"
  by (auto simp: get_string_def key_text_def split: option.splits nbt_tag.splits)

lemma with_key: "get_str (str ''with'') c = Some (Tag_List ty args) \<Longrightarrow> elements_text args + 1 \<le> key_text ''with'' c"
  by (simp add: key_text_def encode_utf16_def unit_bytes_def)

lemma str_space: "is_str (str '' '')" "str_len (str '' '') = 1"
  by (simp_all add: is_str_def is_scalar_value_def str_len_def as_bytes_def utf8_char_def)

lemma translated_room:
  assumes "get_string (str ''translate'') c = Some tr" "get_str (str ''with'') c = Some (Tag_List ty args)" "is_str out"
    and "key_text ''translate'' c + key_text ''with'' c + key_text ''extra'' c \<le> entries_text c"
    and "str_len out + entries_text c \<le> m"
  shows "is_str (out @ to_string_lossy tr @ str '' '')"
    and "str_len (out @ to_string_lossy tr @ str '' '') + elements_text args \<le> m"
    and "str_len (out @ to_string_lossy tr @ str '' '') + elements_text args + key_text ''extra'' c \<le> str_len out + entries_text c"
  using assms str_space is_str_to_string_lossy[of tr] str_len_to_string_lossy[of tr] get_string_key[OF assms(1)]
    with_key[OF assms(2)]
  by (simp_all add: is_str_append str_len_append)

lemma component_head_projects:
  assumes out: "is_str out"
    and keys: "key_text ''text'' c + key_text ''extra'' c \<le> entries_text c"
      "key_text ''translate'' c + key_text ''with'' c + key_text ''extra'' c \<le> entries_text c"
    and children: "\<And>tr ty args. get_string (str ''text'') c = None \<Longrightarrow> get_string (str ''translate'') c = Some tr \<Longrightarrow>
      get_str (str ''with'') c = Some (Tag_List ty args) \<Longrightarrow>
      projects (project_children args (out @ to_string_lossy tr @ str '' '') (depth + 1))
        (out @ to_string_lossy tr @ str '' '') (elements_text args)"
  shows "projects (component_head c out depth) out (entries_text c - key_text ''extra'' c)"
proof -
  have append: "projects (Some (out @ to_string_lossy t)) out (entries_text c - key_text ''extra'' c)"
    if "text_bytes t + key_text ''extra'' c \<le> entries_text c" for t
    using that str_len_to_string_lossy[of t] by (intro projects_append out is_str_to_string_lossy) simp
  show ?thesis
  proof (cases "get_string (str ''text'') c")
    case (Some t)
    then show ?thesis using append[of t] get_string_key[OF Some] keys(1) by (simp add: component_head_def)
  next
    case None
    show ?thesis
    proof (cases "get_string (str ''translate'') c")
      case None': None
      then show ?thesis using None out by (simp add: component_head_def projects_def)
    next
      case (Some tr)
      show ?thesis
      proof (cases "\<exists>ty args. get_str (str ''with'') c = Some (Tag_List ty args)")
        case True
        then obtain ty args where args: "get_str (str ''with'') c = Some (Tag_List ty args)" by blast
        let ?out = "out @ to_string_lossy tr @ str '' ''"
        have "str_len ?out + elements_text args + key_text ''extra'' c \<le> str_len out + entries_text c"
          by (rule translated_room(3)[OF Some args out keys(2) order_refl])
        then have "projects (project_children args ?out (depth + 1)) out (entries_text c - key_text ''extra'' c)"
          using children[OF None Some args] by (auto simp: projects_def)
        then show ?thesis using None Some args by (simp add: component_head_def)
      next
        case False
        then have "component_head c out depth = Some (out @ to_string_lossy tr)"
          using None Some by (auto simp: component_head_def split: option.splits nbt_tag.splits)
        then show ?thesis using append[of tr] get_string_key[OF Some] keys(2) by simp
      qed
    qed
  qed
qed

lemma component_extra_projects:
  assumes "is_str out'"
    and "\<And>ty xs. get_str (str ''extra'') c = Some (Tag_List ty xs) \<Longrightarrow>
      projects (project_children xs out' (depth + 1)) out' (elements_text xs)"
  shows "projects (component_extra c depth out') out' (key_text ''extra'' c)"
proof (cases "\<exists>ty xs. get_str (str ''extra'') c = Some (Tag_List ty xs)")
  case True
  then obtain ty xs where xs: "get_str (str ''extra'') c = Some (Tag_List ty xs)" by blast
  then have "elements_text xs \<le> key_text ''extra'' c" by (simp add: key_text_def)
  then show ?thesis using assms(2)[OF xs] xs by (auto simp: component_extra_def intro: projects_mono)
next
  case False
  then have "component_extra c depth out' = Some out'"
    by (auto simp: component_extra_def split: option.splits nbt_tag.splits)
  then show ?thesis using assms(1) by (simp add: projects_def)
qed

lemma project_bounded:
  "is_str out \<Longrightarrow> str_len out + tag_text val \<le> MAX_CHAT_COMPONENT_BYTES \<Longrightarrow>
     projects (project_plain_text val out depth) out (tag_text val)"
  "is_str out \<Longrightarrow> str_len out + elements_text vals \<le> MAX_CHAT_COMPONENT_BYTES \<Longrightarrow>
     projects (project_children vals out depth) out (elements_text vals)"
proof (induction val out depth and vals out depth rule: project_plain_text_project_children.induct)
  case (1 val out depth)
  show ?case
  proof (cases "32 < depth \<or> MAX_CHAT_COMPONENT_BYTES \<le> str_len out")
    case True
    then show ?thesis using "1.prems" by (subst project_plain_text.simps) (auto simp: projects_def)
  next
    case False
    note IH = "1.IH"[OF False]
    have compound: "projects (Option.bind (component_head c out depth) (component_extra c depth)) out (entries_text c)"
      if val: "val = Tag_Compound c" for c
    proof -
      have room: "str_len out + entries_text c \<le> MAX_CHAT_COMPONENT_BYTES" using "1.prems"(2) val by simp
      note keys = component_keys[of c]
      have head: "projects (component_head c out depth) out (entries_text c - key_text ''extra'' c)"
      proof (rule component_head_projects[OF "1.prems"(1) keys])
        fix tr ty args
        assume none: "get_string (str ''text'') c = None" and tr: "get_string (str ''translate'') c = Some tr"
          and args: "get_str (str ''with'') c = Some (Tag_List ty args)"
        note room' = translated_room[OF tr args "1.prems"(1) keys(2) room]
        show "projects (project_children args (out @ to_string_lossy tr @ str '' '') (depth + 1))
            (out @ to_string_lossy tr @ str '' '') (elements_text args)"
          by (rule IH(2)[OF val none tr args refl room'(1,2)])
      qed
      have "projects (component_extra c depth out') out' (key_text ''extra'' c)"
        if "component_head c out depth = Some out'" "is_str out'" "str_len out' \<le> str_len out + (entries_text c - key_text ''extra'' c)"
        for out'
      proof (rule component_extra_projects[OF that(2)])
        fix ty xs assume xs: "get_str (str ''extra'') c = Some (Tag_List ty xs)"
        then have "elements_text xs \<le> key_text ''extra'' c" by (simp add: key_text_def)
        then have "str_len out' + elements_text xs \<le> MAX_CHAT_COMPONENT_BYTES"
          using that(3) room keys(1) by simp
        then show "projects (project_children xs out' (depth + 1)) out' (elements_text xs)"
          using IH(3)[OF val that(1)[unfolded component_head_def] xs refl that(2)] by blast
      qed
      from projects_bind[OF head this] keys(1) show ?thesis by simp
    qed
    have "projects (case val of
           Tag_String s \<Rightarrow> Some (out @ to_string_lossy s)
         | Tag_List _ elements \<Rightarrow> project_children elements out (depth + 1)
         | Tag_Compound c \<Rightarrow> Option.bind (component_head c out depth) (component_extra c depth)
         | _ \<Rightarrow> Some out) out (tag_text val)"
      using "1.prems" IH(1) compound
      by (cases val) (auto simp: projects_def is_str_append str_len_append is_str_to_string_lossy str_len_to_string_lossy)
    then have "projects (project_plain_text val out depth) out (tag_text val + 0)"
      using False "1.prems" unfolding project_plain_text_eq if_not_P[OF False]
      by (elim projects_bind) (rule projects_truncate, simp_all)
    then show ?thesis by simp
  qed
next
  case (2 out depth)
  then show ?case by (simp add: projects_def)
next
  case (3 child children out depth)
  have "projects (project_plain_text child out depth) out (tag_text child)"
    using "3.IH"(1) "3.prems" by simp
  then have "projects (project_children (child # children) out depth) out (tag_text child + elements_text children)"
    unfolding project_children.simps using "3.IH"(2) "3.prems" by (elim projects_bind) auto
  then show ?case by simp
qed

end
