(* ===== verification/Receive_Valid.thy ===== *)
theory Receive_Valid
  imports Bootstrap_Receive Bootstrap_Play Text_Bounds Chunk_Valid
begin

text \<open>
  What the clientbound decoders promise on arbitrary input: no panic, and packets within the ranges and
  limits the rest of the client relies on.
\<close>

section \<open>Runs that do not panic\<close>

text \<open>\<open>gives m P\<close>: on every well-formed reader the run ends without a panic, with a value of \<open>P\<close> or an error;
  \<open>yields m P\<close>: and the reader it leaves is well formed.\<close>

definition gives :: "'a boot_op \<Rightarrow> ('a \<Rightarrow> bool) \<Rightarrow> bool" where
  "gives m P \<longleftrightarrow> (\<forall>r. reader_wf r \<longrightarrow>
     (case m r of (Inl e, _) \<Rightarrow> e \<noteq> Boot_Panic | (Inr v, _) \<Rightarrow> P v))"

definition yields :: "'a boot_op \<Rightarrow> ('a \<Rightarrow> bool) \<Rightarrow> bool" where
  "yields m P \<longleftrightarrow> (\<forall>r. reader_wf r \<longrightarrow>
     (case m r of (Inl e, _) \<Rightarrow> e \<noteq> Boot_Panic | (Inr v, r') \<Rightarrow> reader_wf r' \<and> P v))"

named_theorems yields_intros \<open>runs that do not panic\<close>

lemma givesI:
  assumes "\<And>r e r'. reader_wf r \<Longrightarrow> m r = (Inl e, r') \<Longrightarrow> e \<noteq> Boot_Panic"
    and "\<And>r v r'. reader_wf r \<Longrightarrow> m r = (Inr v, r') \<Longrightarrow> P v"
  shows "gives m P"
  unfolding gives_def
proof (intro allI impI)
  fix r assume "reader_wf r"
  then show "case m r of (Inl e, _) \<Rightarrow> e \<noteq> Boot_Panic | (Inr v, _) \<Rightarrow> P v"
    using assms by (cases "m r"; cases "fst (m r)") auto
qed

lemma givesD:
  assumes "gives m P" and "reader_wf r"
  shows "m r = (Inl e, r') \<Longrightarrow> e \<noteq> Boot_Panic" and "m r = (Inr v, r') \<Longrightarrow> P v"
  using assms by (auto simp: gives_def split: prod.splits sum.splits)

lemma yieldsI:
  assumes "\<And>r e r'. reader_wf r \<Longrightarrow> m r = (Inl e, r') \<Longrightarrow> e \<noteq> Boot_Panic"
    and "\<And>r v r'. reader_wf r \<Longrightarrow> m r = (Inr v, r') \<Longrightarrow> reader_wf r' \<and> P v"
  shows "yields m P"
  unfolding yields_def
proof (intro allI impI)
  fix r assume "reader_wf r"
  then show "case m r of (Inl e, _) \<Rightarrow> e \<noteq> Boot_Panic | (Inr v, r') \<Rightarrow> reader_wf r' \<and> P v"
    using assms by (cases "m r"; cases "fst (m r)") auto
qed

lemma yieldsD:
  assumes "yields m P" and "reader_wf r"
  shows "m r = (Inl e, r') \<Longrightarrow> e \<noteq> Boot_Panic" and "m r = (Inr v, r') \<Longrightarrow> reader_wf r'"
    and "m r = (Inr v, r') \<Longrightarrow> P v"
  using assms by (auto simp: yields_def split: prod.splits sum.splits)

lemma yields_gives: "yields m P \<Longrightarrow> gives m P"
  by (auto intro: givesI dest: yieldsD)

lemma gives_mono: "gives m P \<Longrightarrow> (\<And>v. P v \<Longrightarrow> Q v) \<Longrightarrow> gives m Q"
  and yields_mono: "yields m P \<Longrightarrow> (\<And>v. P v \<Longrightarrow> Q v) \<Longrightarrow> yields m Q"
  by (auto intro!: givesI yieldsI dest: givesD yieldsD)

lemma and_then_Inl_iff:
  "and_then m k s = (Inl e, s') \<longleftrightarrow> m s = (Inl e, s') \<or> (\<exists>x s1. m s = (Inr x, s1) \<and> k x s1 = (Inl e, s'))"
  by (auto simp: and_then_def split: prod.splits sum.splits)

lemma gives_and_then:
  assumes m: "yields m Q" and k: "\<And>x. Q x \<Longrightarrow> gives (k x) P"
  shows "gives (and_then m k) P"
proof (rule givesI)
  show "e \<noteq> Boot_Panic" if "reader_wf r" "and_then m k r = (Inl e, r')" for r e r'
    using that yieldsD[OF m that(1)] givesD(1)[OF k] unfolding and_then_Inl_iff by blast
  show "P v" if "reader_wf r" "and_then m k r = (Inr v, r')" for r v r'
    using that yieldsD[OF m that(1)] givesD(2)[OF k] unfolding and_then_Inr_iff by blast
qed

lemma yields_and_then:
  assumes m: "yields m Q" and k: "\<And>x. Q x \<Longrightarrow> yields (k x) P"
  shows "yields (and_then m k) P"
proof (rule yieldsI)
  show "e \<noteq> Boot_Panic" if "reader_wf r" "and_then m k r = (Inl e, r')" for r e r'
    using that yieldsD[OF m that(1)] yieldsD(1)[OF k] unfolding and_then_Inl_iff by blast
  show "reader_wf r' \<and> P v" if "reader_wf r" "and_then m k r = (Inr v, r')" for r v r'
    using that yieldsD[OF m that(1)] yieldsD(2,3)[OF k] unfolding and_then_Inr_iff by blast
qed

lemma gives_last:
  assumes m: "gives m Q" and k: "\<And>x. Q x \<Longrightarrow> P (f x)"
  shows "gives (and_then m (\<lambda>x. ok (f x))) P"
proof (rule givesI)
  show "e \<noteq> Boot_Panic" if "reader_wf r" "and_then m (\<lambda>x. ok (f x)) r = (Inl e, r')" for r e r'
    using that(2) givesD(1)[OF m that(1)] by (auto simp: and_then_Inl_iff ok_apply)
  show "P v" if "reader_wf r" "and_then m (\<lambda>x. ok (f x)) r = (Inr v, r')" for r v r'
    using that(2) k givesD(2)[OF m that(1)] by (auto simp: and_then_Inr_iff ok_apply)
qed

lemma yields_ok: "P v \<Longrightarrow> yields (ok v) P" and gives_ok: "P v \<Longrightarrow> gives (ok v) P"
  by (simp_all add: yields_def gives_def ok_def)

lemma yields_fail: "e \<noteq> Boot_Panic \<Longrightarrow> yields (fail e) P" and gives_fail: "e \<noteq> Boot_Panic \<Longrightarrow> gives (fail e) P"
  by (simp_all add: yields_def gives_def fail_def)

lemma yields_if: "(c \<Longrightarrow> yields a P) \<Longrightarrow> (\<not> c \<Longrightarrow> yields b P) \<Longrightarrow> yields (if c then a else b) P"
  and gives_if: "(c \<Longrightarrow> gives a P) \<Longrightarrow> (\<not> c \<Longrightarrow> gives b P) \<Longrightarrow> gives (if c then a else b) P"
  by simp_all

lemma yields_ensure: "e \<noteq> Boot_Panic \<Longrightarrow> yields (ensure c e) (\<lambda>_. c)"
  by (simp add: ensure_def yields_ok yields_fail)

lemma yields_lift_result:
  "res \<noteq> Inl Boot_Panic \<Longrightarrow> yields (lift_result res) (\<lambda>v. res = Inr v)"
  by (cases res) (auto simp: yields_def lift_result_def ok_def fail_def)

lemma yields_read_n: "yields m P \<Longrightarrow> yields (read_n n m) (\<lambda>xs. length xs = n \<and> list_all P xs)"
proof (induction n)
  case (Suc n)
  then have rest: "yields (read_n n m) (\<lambda>xs. length xs = n \<and> list_all P xs)" by simp
  show ?case
    unfolding read_n.simps
    by (rule yields_and_then[OF Suc.prems], rule yields_and_then[OF rest], rule yields_ok) simp
qed (simp add: yields_ok)

text \<open>A read of the codec, and what is known of its value.\<close>

lemma yields_boot_value:
  assumes "advances m" and "\<And>r v r'. m r = (Inr v, r') \<Longrightarrow> P v"
  shows "yields (boot m) P"
  unfolding yields_def
proof (intro allI impI)
  fix r assume wf: "reader_wf r"
  obtain x r' where run: "m r = (x, r')" by fastforce
  show "case boot m r of (Inl e, _) \<Rightarrow> e \<noteq> Boot_Panic | (Inr v, r') \<Rightarrow> reader_wf r' \<and> P v"
    using run advancesD[OF assms(1) wf run] assms(2) by (cases x) (auto simp: boot_def map_err_def)
qed

lemma yields_boot: "advances m \<Longrightarrow> yields (boot m) (\<lambda>_. True)"
  by (rule yields_boot_value) simp_all

lemma yields_string: "yields (boot (read_string l)) (valid_string l)"
  by (rule yields_boot_value[OF advances_read_string]) (rule read_string_sound)

lemma yields_count: "yields (boot_read_count ctx m) (\<lambda>n. n \<le> m)"
  unfolding boot_read_count_def
  by (rule yields_and_then[OF yields_boot[OF advances_read_var(1)]]) (simp add: yields_ok yields_fail)

lemma yields_reserve: "yields (boot_reserve env n ctx) (\<lambda>_. True)"
  unfolding boot_reserve_def by (rule yields_mono[OF yields_ensure]) simp_all

lemma yields_consumed: "yields (boot_require_consumed ctx) (\<lambda>_. True)"
  by (simp add: yields_def boot_require_consumed_def)

lemma yields_remaining: "yields boot_remaining (\<lambda>bytes. length bytes \<le> usize_MAX)"
  by (auto simp: yields_def boot_remaining_def read_remaining_def reader_wf_def)

lemma yields_optional: "yields m P \<Longrightarrow> yields (optional_read m) (pred_option P)"
  unfolding optional_read_def
  by (rule yields_and_then[OF yields_boot[OF advances_fixed_width(11)]])
    (rule yields_if, erule yields_and_then, rule yields_ok, simp, rule yields_ok, simp)

lemma gives_whole: "gives m P \<Longrightarrow> gives (whole ctx m) P"
  unfolding whole_def
  by (rule givesI)
    (auto simp: and_then_Inl_iff and_then_Inr_iff boot_require_consumed_def ok_apply split: if_splits dest: givesD)

lemma yields_position: "yields boot_position valid_position"
  unfolding boot_position_def
proof (rule yields_boot_value)
  show "advances read_block_position" by (rule block_position_codec.get_advances)
  show "valid_position v" if "read_block_position r = (Inr v, r')" for r v r'
    using that by (auto simp: read_block_position_def and_then_Inr_iff ok_apply)
qed

lemma yields_case_compound:
  "(\<And>c. tag = Tag_Compound c \<Longrightarrow> yields (f c) P) \<Longrightarrow> e \<noteq> Boot_Panic \<Longrightarrow>
     yields (case tag of Tag_Compound c \<Rightarrow> f c | _ \<Rightarrow> fail e) P"
  by (cases tag) (auto intro: yields_fail)

section \<open>NBT and text components\<close>

definition tag_valid :: "nbt_limits \<Rightarrow> nbt_tag \<Rightarrow> bool" where
  "tag_valid l t \<longleftrightarrow> tag_height t \<le> nl_max_depth l \<and> tag_count t \<le> nl_max_total_tags l \<and> well_formed_tag t"

lemma network_tag_run:
  assumes "decode_unnamed_network_tag env l r = (Inr x, r')" and "reader_wf r"
  shows "tag_valid l x" and "reader_wf r'" and "input r' = input r" and "position r + tag_text x \<le> position r'"
proof -
  let ?s = "nbt_at r 0 0"
  obtain n s1 ty s' where n: "read_type_id ''NBT root type'' ?s = (Inr n, s1)"
    and run: "decode_payload env l ty 0 s1 = (Inr x, s')" and r': "r' = nbt_reader s'"
    using assms(1) unfolding decode_unnamed_network_tag_def with_context_def
    by (auto simp: and_then_Inr_iff lift_result_apply ensure_Inr split: prod.splits)
  have "passes ?s s' (0 + tag_text x)"
    by (rule passes_trans[OF forwardD[OF forward_arrays(4) n] payload_passesD[OF payload_passes_all run]])
  then show "reader_wf r'" and "input r' = input r" and "position r + tag_text x \<le> position r'"
    using assms(2) by (simp_all add: passes_def nbt_at_def r')
  have "total_tags s1 = 0"
    using n by (auto simp: read_type_id_def and_then_Inr_iff on_reader_def nbt_at_def run_simps
        split: prod.splits sum.splits list.splits)
  then show "tag_valid l x"
    using payload_boundedD[OF payload_bounded_all run] by (auto simp: tag_valid_def counted_def)
qed

lemma yields_network_tag: "yields (boot_nbt (decode_unnamed_network_tag env l)) (tag_valid l)"
proof (rule yieldsI)
  show "e \<noteq> Boot_Panic" if "boot_nbt (decode_unnamed_network_tag env l) r = (Inl e, r')" for r e r'
    using that by (auto simp: boot_nbt_def map_err_def split: prod.splits sum.splits)
  show "reader_wf r' \<and> tag_valid l v" if "reader_wf r" "boot_nbt (decode_unnamed_network_tag env l) r = (Inr v, r')" for r v r'
    using that network_tag_run[of env l r v r'] by (auto simp: boot_nbt_def map_err_Inr)
qed

definition plain_text_valid :: "rust_str \<Rightarrow> bool" where
  "plain_text_valid s \<longleftrightarrow> is_str s \<and> s \<noteq> [] \<and> str_len s \<le> MAX_CHAT_COMPONENT_BYTES"

definition component_valid :: "text_component \<Rightarrow> bool" where
  "component_valid c \<longleftrightarrow> tag_valid nbt_limits_default (tc_value c) \<and> plain_text_valid (tc_plain_text c)"

lemma component_text_fits:
  assumes "tag_text val \<le> MAX_CHAT_COMPONENT_BYTES"
  shows "\<exists>plain. component_text val = Some plain \<and> plain_text_valid plain \<and> str_len plain \<le> max 11 (tag_text val)"
proof -
  have "projects (project_plain_text val [] 0) [] (tag_text val)"
    by (rule project_bounded(1)) (use assms in \<open>simp_all add: is_str_def str_len_Nil\<close>)
  then obtain plain where plain: "project_plain_text val [] 0 = Some plain" "is_str plain" "str_len plain \<le> tag_text val"
    using assms by (auto simp: projects_def str_len_Nil)
  have rich: "is_str (str ''<rich text>'')" "str_len (str ''<rich text>'') = 11"
    by (simp_all add: is_str_def is_scalar_value_def str_len_def as_bytes_def utf8_char_def)
  show ?thesis
    using plain rich assms
    by (cases "plain = []") (auto simp: component_text_def plain_text_valid_def MAX_CHAT_COMPONENT_BYTES_def)
qed

lemma text_component_run:
  assumes wf: "reader_wf r" and run: "decode_text_component env r = (res, r')"
  shows "res \<noteq> Inl Boot_Panic"
    and "res = Inr c \<Longrightarrow> component_valid c \<and> reader_wf r' \<and> position r \<le> position r' \<and>
      str_len (tc_plain_text c) \<le> max 11 (position r' - position r)"
proof -
  have plain: "\<exists>plain. component_text val = Some plain \<and> plain_text_valid plain \<and>
      str_len plain \<le> max 11 (position r1 - position r)"
    if "decode_unnamed_network_tag env nbt_limits_default r = (Inr val, r1)" "consumed_since r1 (position r) = Inr bytes"
      "length bytes \<le> MAX_CHAT_COMPONENT_BYTES" for val r1 bytes
  proof -
    note tag = network_tag_run[OF that(1) wf]
    have "length bytes = position r1 - position r"
      using that(2) tag(2) by (auto simp: consumed_since_def get_range_def reader_wf_def split: option.splits if_splits)
    then have "tag_text val \<le> MAX_CHAT_COMPONENT_BYTES" "tag_text val \<le> position r1 - position r"
      using tag(4) that(3) by simp_all
    then show ?thesis using component_text_fits[of val] by (fastforce simp: max_def split: if_splits)
  qed
  show "res \<noteq> Inl Boot_Panic"
    using run unfolding decode_text_component_def
    by (cases res; auto simp: and_then_Inl_iff boot_def boot_nbt_def map_err_def run_simps not_less dest: plain
        split: prod.splits sum.splits if_splits option.splits)
  assume "res = Inr c"
  then obtain val r1 bytes where val: "decode_unnamed_network_tag env nbt_limits_default r = (Inr val, r1)"
    and bytes: "consumed_since r1 (position r) = Inr bytes" "length bytes \<le> MAX_CHAT_COMPONENT_BYTES"
    and c: "component_text val = Some (tc_plain_text c)" "tc_value c = val" and r': "r' = r1"
    using run unfolding decode_text_component_def
    by (auto simp: and_then_Inr_iff boot_def boot_nbt_def map_err_def run_simps not_less
        split: prod.splits sum.splits if_splits option.splits)
  show "component_valid c \<and> reader_wf r' \<and> position r \<le> position r' \<and>
      str_len (tc_plain_text c) \<le> max 11 (position r' - position r)"
    using plain[OF val bytes] network_tag_run[OF val wf] c r' by (simp add: component_valid_def)
qed

lemma yields_text_component: "yields (decode_text_component env) component_valid"
proof (rule yieldsI)
  show "e \<noteq> Boot_Panic" if "reader_wf r" "decode_text_component env r = (Inl e, r')" for r e r'
    using text_component_run(1)[OF that] by simp
  show "reader_wf r' \<and> component_valid v" if "reader_wf r" "decode_text_component env r = (Inr v, r')" for r v r'
    using text_component_run(2)[OF that refl] by simp
qed

end
