(* ===== verification/Receive_Props.thy ===== *)
theory Receive_Props
  imports Receive_Valid
begin

text \<open>
  Properties of the clientbound decoders: every packet they return is within the ranges the protocol
  gives its fields, and the packed section updates are read back exactly.
\<close>

section \<open>Valid packets\<close>

definition global_position_valid :: "global_position \<Rightarrow> bool" where
  "global_position_valid g \<longleftrightarrow> valid_string RESOURCE_LOCATION_LIMITS (go_dimension g) \<and> valid_position (go_position g)"

definition spawn_info_valid :: "wire_spawn_info \<Rightarrow> bool" where
  "spawn_info_valid s \<longleftrightarrow> valid_string RESOURCE_LOCATION_LIMITS (wsi_dimension s) \<and>
     pred_option global_position_valid (wsi_last_death_location s)"

definition login_valid :: "initial_play_login \<Rightarrow> bool" where
  "login_valid l \<longleftrightarrow> length (il_known_dimensions l) \<le> MAX_WIRE_DIMENSIONS \<and>
     list_all (valid_string RESOURCE_LOCATION_LIMITS) (il_known_dimensions l) \<and> spawn_info_valid (il_spawn l)"

definition section_entry_valid :: "section_block_update \<Rightarrow> bool" where
  "section_entry_valid u \<longleftrightarrow> unat (sb_local_x u) < 16 \<and> unat (sb_local_y u) < 16 \<and> unat (sb_local_z u) < 16"

definition player_chat_valid :: "player_chat_packet \<Rightarrow> bool" where
  "player_chat_valid c \<longleftrightarrow> plain_text_valid (pc_sender_name c) \<and> valid_string CHAT_LIMITS (pc_signed_content c) \<and>
     pred_option component_valid (pc_unsigned_content c) \<and>
     pred_option (\<lambda>s. length s = PLAYER_CHAT_SIGNATURE_BYTES) (pc_signature c) \<and>
     pc_modified c = (pc_unsigned_content c \<noteq> None) \<and>
     pc_message c = (case pc_unsigned_content c of Some m \<Rightarrow> m
       | None \<Rightarrow> \<lparr>tc_value = Tag_String (encode_utf16 (pc_signed_content c)), tc_plain_text = pc_signed_content c\<rparr>)"

fun play_valid :: "play_clientbound \<Rightarrow> bool" where
  "play_valid (Play_BlockChangedAck n) \<longleftrightarrow> 0 \<le>s n"
| "play_valid (Play_BlockEntityData d) \<longleftrightarrow> valid_position (be_position d) \<and> 0 \<le>s be_type_raw_id d \<and>
     tag_valid nbt_limits_default (Tag_Compound (be_data d))"
| "play_valid (Play_Login l) \<longleftrightarrow> login_valid l"
| "play_valid (Play_PlayerPosition p) \<longleftrightarrow> unat (pp_relative_flags p) \<le> 0x1ff"
| "play_valid (Play_PlayerAbilities a) \<longleftrightarrow> f32_is_finite (pa_flying_speed a) \<and> f32_is_finite (pa_walking_speed a)"
| "play_valid (Play_Respawn p) \<longleftrightarrow> spawn_info_valid (rp_spawn p)"
| "play_valid (Play_SetDefaultSpawnPosition p) \<longleftrightarrow> global_position_valid (ds_position p)"
| "play_valid (Play_SetTime t) \<longleftrightarrow> length (wt_clocks t) \<le> MAX_WIRE_CLOCKS"
| "play_valid (Play_ChunkBatchFinished n) \<longleftrightarrow> 0 \<le>s n"
| "play_valid (Play_LevelChunkWithLight c) \<longleftrightarrow> chunk_valid c"
| "play_valid (Play_LightUpdate l) \<longleftrightarrow> light_valid (lu_light l)"
| "play_valid (Play_BlockUpdate u) \<longleftrightarrow>
     valid_position \<lparr>bp_x = wbu_x u, bp_y = wbu_y u, bp_z = wbu_z u\<rparr> \<and> 0 \<le>s wbu_state_id u"
| "play_valid (Play_SectionBlocksUpdate u) \<longleftrightarrow> length (su_updates u) \<le> MAX_SECTION_BLOCK_UPDATES \<and>
     list_all section_entry_valid (su_updates u)"
| "play_valid (Play_CookieRequest key) \<longleftrightarrow> valid_string IDENTIFIER_LIMITS key"
| "play_valid (Play_CustomPayload channel n) \<longleftrightarrow>
     valid_string IDENTIFIER_LIMITS channel \<and> n \<le> MAX_PLAY_CUSTOM_PAYLOAD_BYTES"
| "play_valid (Play_PlayerChat c) \<longleftrightarrow> player_chat_valid c"
| "play_valid (Play_DisguisedChat name m) \<longleftrightarrow> plain_text_valid name \<and> component_valid m"
| "play_valid (Play_SystemChat m overlay) \<longleftrightarrow> component_valid m"
| "play_valid (Play_Disconnect reason) \<longleftrightarrow> component_valid reason"
| "play_valid (Play_Health h) \<longleftrightarrow> f32_is_finite h"
| "play_valid _ \<longleftrightarrow> True"

section \<open>What each decoder gives\<close>

lemmas reads_advance = advances_fixed_width advances_read_var uuid_codec.get_advances

lemma yields_reads [yields_intros]:
  "yields (boot read_u8) (\<lambda>_. True)" "yields (boot read_i8) (\<lambda>_. True)" "yields (boot read_u32) (\<lambda>_. True)"
  "yields (boot read_i32) (\<lambda>_. True)" "yields (boot read_i64) (\<lambda>_. True)" "yields (boot read_f32) (\<lambda>_. True)"
  "yields (boot read_f64) (\<lambda>_. True)" "yields (boot read_bool) (\<lambda>_. True)" "yields (boot read_var_int) (\<lambda>_. True)"
  "yields (boot read_var_long) (\<lambda>_. True)" "yields (boot read_uuid) (\<lambda>_. True)"
  by (rule yields_boot, rule reads_advance)+

lemma yields_bytes [yields_intros]: "yields (boot (read_bytes n ctx)) (\<lambda>bs. length bs = n)"
  by (rule yields_boot_value[OF advances_read_bytes])
    (auto simp: read_bytes_def get_range_def Let_def split: option.splits if_splits)

lemmas [yields_intros] = yields_string yields_count yields_reserve yields_consumed yields_remaining yields_optional
  yields_position yields_network_tag yields_text_component

lemma yields_nonneg [yields_intros]: "yields (lift_result (nonnegative_u32 v ctx)) (\<lambda>n. 0 \<le>s n)"
  by (rule yields_mono[OF yields_lift_result]) (auto simp: nonnegative_u32_def signed.not_less split: if_splits)

lemma yields_nonnegative [yields_intros]: "yields (boot_nonnegative ctx) (\<lambda>n. 0 \<le>s n)"
  unfolding boot_nonnegative_def
  by (rule yields_and_then, rule yields_intros) (auto intro: yields_ok yields_fail simp: signed.not_less)

lemma yields_global_position [yields_intros]: "yields decode_global_position global_position_valid"
  unfolding decode_global_position_def
  by ((rule yields_and_then, rule yields_intros)+, rule yields_ok) (simp add: global_position_valid_def)

lemma yields_spawn_info [yields_intros]: "yields decode_spawn_info spawn_info_valid"
  unfolding decode_spawn_info_def
  by ((rule yields_and_then, rule yields_intros, (rule yields_intros)?)+, rule yields_ok)
    (simp add: spawn_info_valid_def)

lemma yields_initial_login [yields_intros]: "yields (decode_initial_play_login env) login_valid"
  unfolding decode_initial_play_login_def
  by ((rule yields_and_then, (rule yields_intros | rule yields_read_n)+)+, rule yields_ok)
    (simp add: login_valid_def)

lemma small_flags:
  assumes "v AND NOT 0x01ff = (0 :: u32)"
  shows "unat v \<le> 0x1ff"
proof -
  have mask: "(0x01ff :: u32) = mask 9" by (simp add: mask_eq_exp_minus_1)
  have "take_bit 9 v = v"
  proof (rule bit_word_eqI)
    fix k assume k: "k < LENGTH(32)"
    have "bit (v AND NOT (mask 9)) k = bit (0 :: u32) k" using assms by (simp add: mask)
    then show "bit (take_bit 9 v) k = bit v k" using k by (auto simp: bit_simps)
  qed
  then have "unat v = take_bit 9 (unat v)"
    using unsigned_take_bit_eq[of 9 v, where ?'a = nat] by simp
  also have "\<dots> < 2 ^ 9" by (rule take_bit_nat_less_exp)
  finally show ?thesis by simp
qed

lemma gives_player_position: "gives decode_player_position (\<lambda>p. unat (pp_relative_flags p) \<le> 0x1ff)"
  unfolding decode_player_position_def
  by ((rule gives_and_then, rule yields_intros)+, rule gives_if, rule gives_fail, simp,
      rule gives_and_then, rule yields_intros, rule gives_ok) (simp add: small_flags)

lemma gives_player_abilities:
  "gives decode_player_abilities (\<lambda>a. f32_is_finite (pa_flying_speed a) \<and> f32_is_finite (pa_walking_speed a))"
  unfolding decode_player_abilities_def
  by (rule gives_and_then, rule yields_intros, rule gives_if, rule gives_fail, simp,
      (rule gives_and_then, rule yields_intros)+, rule gives_if, rule gives_fail, simp,
      rule gives_and_then, rule yields_intros, rule gives_ok) simp

lemma gives_health: "gives decode_health f32_is_finite"
  unfolding decode_health_def
  by (rule gives_and_then, rule yields_intros, rule gives_if, rule gives_fail, simp,
      (rule gives_and_then, rule yields_intros)+, rule gives_ok) simp

lemma yields_clock [yields_intros]: "yields read_clock (\<lambda>_. True)"
  unfolding read_clock_def by ((rule yields_and_then, rule yields_intros)+, rule yields_ok) simp

lemma yields_low_precision [yields_intros]: "yields decode_low_precision_vec3 (\<lambda>_. True)"
  unfolding decode_low_precision_vec3_def Let_def
  by (rule yields_and_then, rule yields_intros, rule yields_if, rule yields_ok, simp,
      (rule yields_and_then, rule yields_intros)+, rule yields_and_then[where Q = "\<lambda>_. True"],
      rule yields_if, rule yields_and_then, rule yields_intros, rule yields_ok, simp, rule yields_ok, simp,
      rule yields_ok) simp

lemma low_nibble: "unat (ucast (w AND 0x0f :: u64) :: u8) < 16"
proof -
  have "unat (w AND 0x0f) < 2 ^ 4"
    unfolding mask_numerals unat_and_mask by simp
  then show ?thesis by (simp add: unat_ucast)
qed

lemma yields_section_entry [yields_intros]: "yields decode_section_entry section_entry_valid"
  unfolding decode_section_entry_def
  by (rule yields_and_then, rule yields_intros, rule yields_if, rule yields_fail, simp, rule yields_if, rule yields_fail,
      simp, rule yields_ok) (simp add: section_entry_valid_def low_nibble)

lemma yields_section_coordinate [yields_intros]: "yields (lift_result (section_coordinate ctx v)) (\<lambda>_. True)"
  by (rule yields_mono[OF yields_lift_result]) (simp_all add: section_coordinate_def)

lemma yields_bound_chat_type [yields_intros]: "yields (decode_bound_chat_type env) plain_text_valid"
  unfolding decode_bound_chat_type_def
  by (rule yields_and_then, rule yields_intros, rule yields_and_then[where Q = "\<lambda>_. True"],
      rule yields_if, rule yields_and_then, rule yields_intros, rule yields_ok, simp, rule yields_ok, simp,
      (rule yields_and_then, (rule yields_intros)+)+, rule yields_ok) (simp add: component_valid_def)

lemma yields_skip_last_seen [yields_intros]: "yields skip_last_seen (\<lambda>_. True)"
  unfolding skip_last_seen_def
  by (rule yields_and_then, rule yields_intros, rule yields_if, rule yields_and_then, rule yields_intros, rule yields_ok,
      simp, rule yields_if, rule yields_fail, simp, rule yields_ok) simp

lemma yields_filter_mask [yields_intros]: "yields (skip_filter_mask env) (\<lambda>_. True)"
  unfolding skip_filter_mask_def
  by (rule yields_and_then, rule yields_intros, rule yields_if, rule yields_ok, simp, rule yields_if, rule yields_and_then,
      rule yields_boot, rule advances_bitset, rule yields_ok, simp, rule yields_fail) simp

lemma gives_player_chat: "gives (decode_player_chat env) player_chat_valid"
  unfolding decode_player_chat_def
  by ((rule gives_and_then, (rule yields_intros | rule yields_read_n)+)+, rule gives_ok)
    (simp add: player_chat_valid_def split: option.split)

section \<open>The play dispatch\<close>

lemma gives_chunk_op:
  assumes "\<And>r v r'. m r = (Inr v, r') \<Longrightarrow> P v"
  shows "gives (boot_chunk m) P"
  by (rule givesI) (auto simp: boot_chunk_def map_err_def dest: assms split: prod.splits sum.splits)

lemma gives_forget_chunk:
  "gives (and_then (boot_chunk decode_forget_level_chunk) (\<lambda>(x, z). ok (Play_ForgetLevelChunk x z))) play_valid"
  by (rule givesI)
    (auto simp: and_then_Inl_iff and_then_Inr_iff boot_chunk_def map_err_def ok_apply split: prod.splits sum.splits)

lemma gives_level_chunk: "gives (boot_chunk (decode_level_chunk_with_light env)) chunk_valid"
  by (rule gives_chunk_op)
    (auto simp: decode_level_chunk_with_light_def and_then_Inr_iff codec_Inr lift_result_apply chunk_valid_def ok_apply
      dest!: decode_sections_valid decode_heightmaps_valid decode_block_entities_valid decode_light_data_valid)

lemma gives_light_update: "gives (boot_chunk (decode_light_update env)) (\<lambda>u. light_valid (lu_light u))"
  by (rule gives_chunk_op)
    (auto simp: decode_light_update_def and_then_Inr_iff ok_apply dest: decode_light_data_valid)

lemma gives_block_entity_data:
  "gives (decode_block_entity_data env) (\<lambda>d. valid_position (be_position d) \<and> 0 \<le>s be_type_raw_id d \<and>
     tag_valid nbt_limits_default (Tag_Compound (be_data d)))"
  unfolding decode_block_entity_data_def
  by ((rule gives_and_then, rule yields_intros)+, rule yields_gives, rule yields_case_compound, rule yields_ok)
    simp_all

lemma gives_block_update: "gives decode_block_update
    (\<lambda>u. valid_position \<lparr>bp_x = wbu_x u, bp_y = wbu_y u, bp_z = wbu_z u\<rparr> \<and> 0 \<le>s wbu_state_id u)"
  unfolding decode_block_update_def
  by ((rule gives_and_then, rule yields_intros)+, rule gives_ok) (simp add: valid_position_def)

lemma gives_section_blocks: "gives (decode_section_blocks_update env)
    (\<lambda>u. length (su_updates u) \<le> MAX_SECTION_BLOCK_UPDATES \<and> list_all section_entry_valid (su_updates u))"
  unfolding decode_section_blocks_update_def
  by ((rule gives_and_then, (rule yields_intros | rule yields_read_n)+)+, rule gives_ok) simp

lemma gives_world_time: "gives (decode_world_time env) (\<lambda>t. length (wt_clocks t) \<le> MAX_WIRE_CLOCKS)"
  unfolding decode_world_time_def
  by ((rule gives_and_then, (rule yields_intros | rule yields_read_n)+)+, rule gives_ok) simp

lemma gives_border: "gives decode_initialize_border (\<lambda>_. True)"
  unfolding decode_initialize_border_def
  by (rule gives_whole, (rule gives_and_then, rule yields_intros)+, rule gives_ok) simp

lemma gives_rotation: "gives decode_player_rotation (\<lambda>_. True)" and gives_motion: "gives decode_entity_motion (\<lambda>_. True)"
  unfolding decode_player_rotation_def decode_entity_motion_def
  by ((rule gives_and_then, rule yields_intros)+, rule gives_ok, simp)+

lemma gives_respawn: "gives decode_respawn (\<lambda>p. spawn_info_valid (rp_spawn p))"
  and gives_default_spawn: "gives decode_default_spawn_position (\<lambda>p. global_position_valid (ds_position p))"
  unfolding decode_respawn_def decode_default_spawn_position_def
  by (rule gives_whole, (rule gives_and_then, rule yields_intros)+, rule gives_ok, simp)+

lemmas gives_decoders = gives_player_position gives_player_abilities gives_health gives_player_chat gives_level_chunk
  gives_light_update gives_block_entity_data gives_block_update gives_section_blocks gives_world_time gives_border
  gives_rotation gives_motion gives_respawn gives_default_spawn

lemma yields_check_payload [yields_intros]: "yields (lift_result (check_payload ctx bytes m)) (\<lambda>_. length bytes \<le> m)"
  by (rule yields_mono[OF yields_lift_result]) (auto simp: check_payload_def split: if_splits)

lemma yields_air_supply:
  assumes "length bytes \<le> usize_MAX"
  shows "yields (lift_result (decode_standalone_air_supply bytes)) (\<lambda>_. True)"
proof (rule yields_mono[OF yields_lift_result])
  let ?m = "and_then (boot read_u8) (\<lambda>index. if index \<noteq> 1 then ok None
        else and_then (boot read_var_int) (\<lambda>serializer. if serializer \<noteq> 1 then ok None
          else and_then (boot read_var_int) (\<lambda>air_supply. ok (Some air_supply))))"
  have run: "gives ?m (\<lambda>_. True)"
    by (rule gives_and_then, rule yields_intros, rule gives_if, rule gives_ok, simp, rule gives_and_then, rule yields_intros,
        rule gives_if, rule gives_ok, simp, rule gives_and_then, rule yields_intros, rule gives_ok) simp
  have wf: "reader_wf (new_reader bytes)" using assms by (simp add: new_reader_eq)
  show "decode_standalone_air_supply bytes \<noteq> Inl Boot_Panic"
    using givesD(1)[OF run wf] by (cases "?m (new_reader bytes)") (auto simp: decode_standalone_air_supply_def Let_def)
qed simp

lemma gives_entity_data:
  "gives (and_then (boot read_var_int) (\<lambda>entity_id. and_then boot_remaining (\<lambda>metadata.
     and_then (lift_result (decode_standalone_air_supply metadata)) (\<lambda>air_supply.
     ok (Play_EntityData entity_id air_supply (length metadata)))))) play_valid"
  by ((rule gives_and_then, rule yields_intros)+, rule gives_and_then, rule yields_air_supply, simp, rule gives_ok) simp

lemma gives_play: "gives (play_decoder env pid bytes) play_valid"
  unfolding play_decoder_def
  by (intro gives_if;
      (rule gives_forget_chunk gives_entity_data gives_whole[OF gives_forget_chunk]
       | (((rule gives_whole)?, rule gives_last, rule gives_decoders, simp); fail)
       | ((rule gives_whole)?, ((rule gives_and_then, rule yields_intros, (rule yields_intros)?)+)?, rule gives_ok, simp)))

lemma decode_packet_gives:
  assumes "\<And>pid bytes. gives (decoder pid bytes) P" and "length body \<le> usize_MAX"
  shows "decode_packet decoder body \<noteq> Inl Boot_Panic" and "decode_packet decoder body = Inr p \<Longrightarrow> P p"
proof -
  have wf: "reader_wf (new_reader body)" using assms(2) by (simp add: new_reader_eq)
  have run: "reader_wf (new_reader (payload q))" if q: "split_raw_packet body = Inr q" for q
  proof -
    obtain pid r where "read_var_int (new_reader body) = (Inr pid, r)" "payload q = fst (read_remaining r)"
      using q by (auto simp: split_raw_packet_def split: prod.splits sum.splits)
    with advancesD(1)[OF advances_read_var(1) wf this(1)] have "length (payload q) \<le> length body"
      by (simp add: read_remaining_def new_reader_eq)
    then show ?thesis using assms(2) by (simp add: new_reader_eq)
  qed
  show "decode_packet decoder body \<noteq> Inl Boot_Panic"
  proof (cases "split_raw_packet body")
    case (Inr q)
    then show ?thesis
      using givesD(1)[OF assms(1)[of "packet_id q" "payload q"] run[OF Inr]]
      by (cases "decoder (packet_id q) (payload q) (new_reader (payload q))") (auto simp: decode_packet_def)
  qed (simp add: decode_packet_def)
  show "decode_packet decoder body = Inr p \<Longrightarrow> P p"
    using givesD(2)[OF assms(1) run] unfolding decode_packet_def
    by (auto split: sum.splits) (metis prod.collapse)
qed

section \<open>Properties\<close>

text \<open>
  C20: whatever a server sends, decoding a play packet does not panic, and a packet it returns has
  every field in range: positions inside the world's coordinate limits, registry and state ids not
  negative, flags within their mask, speeds and health finite, entry counts and strings within their
  limits, chunks and light valid, section entries inside their section, and every text component
  with a non-empty plain text of at most 32 KiB.
\<close>

theorem decoded_play_packet_valid:
  assumes "length frame_body \<le> usize_MAX"
  shows "decode_play_clientbound env frame_body \<noteq> Inl Boot_Panic \<and>
    (\<forall>packet. decode_play_clientbound env frame_body = Inr packet \<longrightarrow> play_valid packet)"
  unfolding decode_play_clientbound_def
  using decode_packet_gives[where decoder = "play_decoder env" and P = play_valid, OF gives_play assms] by blast

lemmas play_ids =
  PLAY_CHANGE_DIFFICULTY_ID_def PLAY_BLOCK_CHANGED_ACK_ID_def PLAY_BLOCK_ENTITY_DATA_ID_def
  PLAY_BLOCK_UPDATE_ID_def PLAY_CHUNK_BATCH_FINISHED_ID_def PLAY_CHUNK_BATCH_START_ID_def
  PLAY_COOKIE_REQUEST_ID_def PLAY_CUSTOM_PAYLOAD_ID_def PLAY_GAME_EVENT_ID_def
  PLAY_ENTITY_EVENT_ID_def PLAY_FORGET_LEVEL_CHUNK_ID_def PLAY_INITIALIZE_BORDER_ID_def
  PLAY_LEVEL_CHUNK_WITH_LIGHT_ID_def PLAY_LIGHT_UPDATE_ID_def INITIAL_PLAY_LOGIN_ID_def
  PLAY_RESOURCE_PACK_PUSH_ID_def PLAY_TRANSFER_ID_def PLAY_DISCONNECT_ID_def
  PLAY_DISGUISED_CHAT_ID_def PLAY_KEEP_ALIVE_ID_def PLAY_PING_ID_def
  PLAY_PLAYER_CHAT_ID_def PLAY_CLIENTBOUND_PLAYER_ABILITIES_ID_def PLAY_PLAYER_POSITION_ID_def
  PLAY_PLAYER_ROTATION_ID_def PLAY_RESPAWN_ID_def PLAY_SECTION_BLOCKS_UPDATE_ID_def
  PLAY_SET_DEFAULT_SPAWN_POSITION_ID_def PLAY_SET_ENTITY_DATA_ID_def PLAY_SET_HEALTH_ID_def
  PLAY_SET_ENTITY_MOTION_ID_def PLAY_SET_TIME_ID_def PLAY_START_CONFIGURATION_ID_def
  PLAY_SYSTEM_CHAT_ID_def

definition roomy_env :: nbt_env where
  "roomy_env = \<lparr>sizeof_tag = 32, sizeof_string = 24, try_reserve_exact = (\<lambda>_. True)\<rparr>"

lemma component_hi:
  "decode_text_component roomy_env \<lparr>input = [8, 0, 2, 0x48, 0x69, 0], position = 0\<rparr> =
     (Inr \<lparr>tc_value = Tag_String [0x48, 0x69], tc_plain_text = [0x48, 0x69]\<rparr>,
      \<lparr>input = [8, 0, 2, 0x48, 0x69, 0], position = 5\<rparr>)"
proof -
  have tag: "decode_unnamed_network_tag roomy_env nbt_limits_default \<lparr>input = [8, 0, 2, 0x48, 0x69, 0], position = 0\<rparr> =
     (Inr (Tag_String [0x48, 0x69]), \<lparr>input = [8, 0, 2, 0x48, 0x69, 0], position = 5\<rparr>)"
    by (simp add: decode_unnamed_network_tag_def with_context_def and_then_def read_type_id_def on_reader_def
        read_bytes_def get_range_def remaining_def nbt_at_def checked_add_def usize_MAX_def ensure_def lift_result_def
        require_type_def type_from_id_def type_id_def decode_payload_eq add_tag_def nbt_limits_default_def run_simps
        roomy_env_def decode_string_def read_u16_def read_array_def from_be_bytes_def validate_encoded_length_def
        max_string_encoded_bytes_def u16_MAX_def checked_mul_def charge_def charge_budget_def decode_units.simps
        decode_unit_def Let_def)
  have plain: "component_text (Tag_String [0x48, 0x69]) = Some [0x48, 0x69]"
    by (simp add: component_text_def project_plain_text.simps MAX_CHAT_COMPONENT_BYTES_def str_len_def as_bytes_def
        utf8_char_def truncate_component_def high_surrogate_def low_surrogate_def)
  show ?thesis
    by (simp add: decode_text_component_def and_then_def boot_nbt_def boot_def map_err_def tag consumed_since_def
        get_range_def MAX_CHAT_COMPONENT_BYTES_def plain ok_def)
qed

text \<open>
  C21: the projection of a text component to plain text never reaches its cut at 32 KiB, which would
  panic inside a character: a component the decoder accepts has at most 32 KiB on the wire, and its
  plain text, every unpaired surrogate replaced, is never longer than the bytes it came from (or is
  the eleven characters that stand for a component without text).
\<close>

theorem text_projection_never_cut:
  assumes "reader_wf r"
  shows "fst (decode_text_component env r) \<noteq> Inl Boot_Panic \<and>
    (\<forall>component r'. decode_text_component env r = (Inr component, r') \<longrightarrow>
       is_str (tc_plain_text component) \<and> str_len (tc_plain_text component) \<le> MAX_CHAT_COMPONENT_BYTES \<and>
       str_len (tc_plain_text component) \<le> max 11 (position r' - position r))"
  using text_component_run[OF assms] unfolding component_valid_def plain_text_valid_def
  by (cases "decode_text_component env r") auto

lemma text_projection_never_cut_witness:
  "decode_text_component roomy_env \<lparr>input = [8, 0, 2, 0x48, 0x69, 0], position = 0\<rparr> =
     (Inr \<lparr>tc_value = Tag_String [0x48, 0x69], tc_plain_text = [0x48, 0x69]\<rparr>,
      \<lparr>input = [8, 0, 2, 0x48, 0x69, 0], position = 5\<rparr>) \<and> str_len [0x48, 0x69] \<le> 11"
proof -
  have "reader_wf \<lparr>input = [8, 0, 2, 0x48, 0x69, 0], position = 0\<rparr>" by (simp add: reader_wf_def usize_MAX_def)
  from text_projection_never_cut[OF this, of roomy_env] show ?thesis by (simp add: component_hi)
qed

lemma decoded_play_packet_valid_witness:
  "decode_play_clientbound roomy_env [0x79, 8, 0, 2, 0x48, 0x69, 0] =
     Inr (Play_SystemChat \<lparr>tc_value = Tag_String [0x48, 0x69], tc_plain_text = [0x48, 0x69]\<rparr> False) \<and>
   component_valid \<lparr>tc_value = Tag_String [0x48, 0x69], tc_plain_text = [0x48, 0x69]\<rparr>"
proof -
  let ?p = "Play_SystemChat \<lparr>tc_value = Tag_String [0x48, 0x69], tc_plain_text = [0x48, 0x69]\<rparr> False"
  have split: "split_raw_packet [0x79, 8, 0, 2, 0x48, 0x69, 0] =
      Inr \<lparr>packet_id = 0x79, payload = [8, 0, 2, 0x48, 0x69, 0]\<rparr>"
    using split_raw_packet_enc[of "0x79" "[8, 0, 2, 0x48, 0x69, 0]"] by (simp add: enc_var.simps usize_MAX_def)
  have "play_decoder roomy_env 0x79 [8, 0, 2, 0x48, 0x69, 0] \<lparr>input = [8, 0, 2, 0x48, 0x69, 0], position = 0\<rparr> =
      (Inr ?p, \<lparr>input = [8, 0, 2, 0x48, 0x69, 0], position = 6\<rparr>)"
    by (simp add: play_decoder_def play_ids whole_def and_then_def component_hi boot_def map_err_def read_bool_def read_u8_def
        read_byte_with_context_def read_bytes_def get_range_def checked_add_def usize_MAX_def Let_def ok_def
        boot_require_consumed_def remaining_def)
  then have run: "decode_play_clientbound roomy_env [0x79, 8, 0, 2, 0x48, 0x69, 0] = Inr ?p"
    by (simp add: decode_play_clientbound_def decode_packet_def split new_reader_def)
  have "length [0x79, 8, 0, 2, 0x48, 0x69, 0 :: u8] \<le> usize_MAX" by (simp add: usize_MAX_def)
  from decoded_play_packet_valid[OF this, of roomy_env] run show ?thesis by auto
qed

text \<open>
  Properties of the login and configuration decoders: no panic, and every packet within the limits the
  profile gives its strings, byte arrays, entry counts and NBT values.
\<close>

definition property_valid :: "game_profile_property \<Rightarrow> bool" where
  "property_valid p \<longleftrightarrow> valid_string PROPERTY_NAME_LIMITS (gp_name p) \<and> valid_string PROPERTY_VALUE_LIMITS (gp_value p) \<and>
     pred_option (valid_string PROPERTY_VALUE_LIMITS) (gp_signature p)"

fun login_packet_valid :: "login_clientbound \<Rightarrow> bool" where
  "login_packet_valid (Login_Disconnect reason) \<longleftrightarrow> valid_string DISCONNECT_LIMITS reason"
| "login_packet_valid (Login_EncryptionRequest e) \<longleftrightarrow> valid_string (string_limits_new 20 60) (er_server_id e) \<and>
     length (er_public_key_der e) \<le> 4096 \<and> length (er_verify_token e) \<le> 64"
| "login_packet_valid (Login_Success s) \<longleftrightarrow> uuid_wf (lsu_uuid s) \<and> valid_string USERNAME_LIMITS (lsu_username s) \<and>
     length (lsu_properties s) \<le> MAX_LOGIN_PROPERTIES \<and> list_all property_valid (lsu_properties s)"
| "login_packet_valid (Login_SetCompression threshold) \<longleftrightarrow> True"
| "login_packet_valid (Login_PluginRequest i channel data) \<longleftrightarrow> valid_string IDENTIFIER_LIMITS channel \<and>
     length data \<le> MAX_LOGIN_PLUGIN_PAYLOAD_BYTES"
| "login_packet_valid (Login_CookieRequest key) \<longleftrightarrow> valid_string IDENTIFIER_LIMITS key"

definition known_pack_valid :: "known_pack \<Rightarrow> bool" where
  "known_pack_valid p \<longleftrightarrow> valid_string KNOWN_PACK_NAMESPACE_LIMITS (kp_namespace p) \<and>
     valid_string KNOWN_PACK_ID_LIMITS (kp_id p) \<and> valid_string KNOWN_PACK_VERSION_LIMITS (kp_version p)"

definition registry_entry_valid :: "registry_entry \<Rightarrow> bool" where
  "registry_entry_valid e \<longleftrightarrow> valid_string IDENTIFIER_LIMITS (re_identifier e) \<and>
     pred_option (tag_valid registry_nbt_limits) (re_data e)"

fun configuration_packet_valid :: "configuration_clientbound \<Rightarrow> bool" where
  "configuration_packet_valid (Config_CookieRequest key) \<longleftrightarrow> valid_string IDENTIFIER_LIMITS key"
| "configuration_packet_valid (Config_CustomPayload channel data) \<longleftrightarrow> valid_string IDENTIFIER_LIMITS channel \<and>
     length data \<le> MAX_CONFIGURATION_CUSTOM_PAYLOAD_BYTES"
| "configuration_packet_valid (Config_RegistryData registry entries) \<longleftrightarrow> valid_string IDENTIFIER_LIMITS registry \<and>
     length entries \<le> MAX_CONFIGURATION_REGISTRY_ENTRIES \<and> list_all registry_entry_valid entries"
| "configuration_packet_valid (Config_KnownPacks packs) \<longleftrightarrow> length packs \<le> MAX_KNOWN_PACKS \<and> list_all known_pack_valid packs"
| "configuration_packet_valid _ \<longleftrightarrow> True"

lemma yields_uuid: "yields (boot read_uuid) uuid_wf"
  by (rule yields_boot_value[OF uuid_codec.get_advances])
    (auto simp: read_uuid_def read_array_def and_then_Inr_iff run_simps uuid_wf_def split: if_splits)

lemma yields_byte_array [yields_intros]: "yields (boot (read_byte_array n)) (\<lambda>bs. length bs \<le> n)"
  by (rule yields_boot_value[OF advances_read_byte_array])
    (auto simp: read_byte_array_def and_then_Inr_iff ensure_Inr read_bytes_def get_range_def Let_def
      split: option.splits if_splits)

lemma yields_property: "yields read_property property_valid"
  unfolding read_property_def
  by ((rule yields_and_then, (rule yields_intros)+)+, rule yields_ok) (simp add: property_valid_def)

lemma yields_known_pack: "yields read_known_pack known_pack_valid"
  unfolding read_known_pack_def
  by ((rule yields_and_then, rule yields_intros)+, rule yields_ok) (simp add: known_pack_valid_def)

lemma yields_registry_entry: "yields (read_registry_entry env) registry_entry_valid"
  unfolding read_registry_entry_def
  by ((rule yields_and_then, (rule yields_intros)+)+, rule yields_ok) (simp add: registry_entry_valid_def)

lemma yields_bounded_remaining [yields_intros]: "yields (bounded_remaining ctx m) (\<lambda>bytes. length bytes \<le> m)"
  unfolding bounded_remaining_def
  by ((rule yields_and_then, rule yields_intros)+, rule yields_ok) simp

lemma yields_encryption_request [yields_intros]:
  "yields read_encryption_request (\<lambda>e. login_packet_valid (Login_EncryptionRequest e))"
  unfolding read_encryption_request_def
  by ((rule yields_and_then, rule yields_intros)+, rule yields_ok) simp

lemma yields_login_success [yields_intros]:
  "yields (decode_login_success env) (\<lambda>s. login_packet_valid (Login_Success s))"
  unfolding decode_login_success_def
  by (rule yields_and_then[OF yields_uuid],
      (rule yields_and_then, (rule yields_intros | rule yields_read_n[OF yields_property]))+, rule yields_ok) simp

lemma yields_known_packs [yields_intros]: "yields (decode_known_packs env) configuration_packet_valid"
  unfolding decode_known_packs_def
  by ((rule yields_and_then, (rule yields_intros | rule yields_read_n[OF yields_known_pack]))+, rule yields_ok) simp

lemma yields_registry_data [yields_intros]: "yields (decode_configuration_registry_data env) configuration_packet_valid"
  unfolding decode_configuration_registry_data_def
  by ((rule yields_and_then, (rule yields_intros | rule yields_read_n[OF yields_registry_entry]))+, rule yields_ok) simp

lemma yields_disconnect [yields_intros]:
  "yields (lift_result (decode_configuration_disconnect env bytes)) configuration_packet_valid"
  by (rule yields_mono[OF yields_lift_result])
    (auto simp: decode_configuration_disconnect_def check_payload_def split: if_splits sum.splits)

lemma gives_login: "gives (login_decoder env pid bytes) login_packet_valid"
  unfolding login_decoder_def
  by (intro gives_if; ((rule gives_fail, simp; fail)
      | ((rule gives_whole)?, (rule gives_and_then, rule yields_intros)+, rule gives_ok, simp)))

lemma gives_configuration: "gives (configuration_decoder env pid bytes) configuration_packet_valid"
  unfolding configuration_decoder_def decode_empty_skipped_def
  by (intro gives_if; ((rule gives_fail, simp; fail) | (rule yields_gives, rule yields_intros; fail)
      | ((rule gives_whole)?, ((rule gives_and_then, rule yields_intros)+)?, rule gives_ok, simp)))

text \<open>
  Whatever a server sends before the play phase, decoding a login or configuration packet does
  not panic, and a packet it returns keeps the limits of the profile: names, keys, identifiers and
  reasons within their UTF-16 and byte limits, key and token within theirs, at most 64 profile
  properties, 64 known packs and 4096 registry entries, each valid, and every registry value an NBT
  tag within the limits it was decoded under.
\<close>

theorem decoded_setup_packet_valid:
  assumes "length frame_body \<le> usize_MAX"
  shows "decode_login_clientbound env frame_body \<noteq> Inl Boot_Panic \<and>
    decode_configuration_clientbound env frame_body \<noteq> Inl Boot_Panic \<and>
    (\<forall>packet. decode_login_clientbound env frame_body = Inr packet \<longrightarrow> login_packet_valid packet) \<and>
    (\<forall>packet. decode_configuration_clientbound env frame_body = Inr packet \<longrightarrow> configuration_packet_valid packet)"
  unfolding decode_login_clientbound_def decode_configuration_clientbound_def
  using decode_packet_gives[where decoder = "login_decoder env" and P = login_packet_valid, OF gives_login assms]
    decode_packet_gives[where decoder = "configuration_decoder env" and P = configuration_packet_valid,
      OF gives_configuration assms] by blast

lemmas login_ids = LOGIN_DISCONNECT_ID_def LOGIN_ENCRYPTION_REQUEST_ID_def LOGIN_SUCCESS_ID_def
  LOGIN_SET_COMPRESSION_ID_def LOGIN_PLUGIN_REQUEST_ID_def LOGIN_COOKIE_REQUEST_ID_def

lemma decoded_setup_packet_valid_witness:
  "decode_login_clientbound roomy_env [5, 2, 0x61, 0x62] = Inr (Login_CookieRequest [0x61, 0x62]) \<and>
   valid_string IDENTIFIER_LIMITS [0x61, 0x62]"
proof -
  have split: "split_raw_packet [5, 2, 0x61, 0x62] = Inr \<lparr>packet_id = 5, payload = [2, 0x61, 0x62]\<rparr>"
    using split_raw_packet_enc[of 5 "[2, 0x61, 0x62]"] by (simp add: enc_var.simps usize_MAX_def)
  have valid: "valid_string IDENTIFIER_LIMITS [0x61, 0x62]"
    by (simp add: valid_string_def is_str_def is_scalar_value_def utf16_count_def str_len_def as_bytes_def utf8_char_def
        IDENTIFIER_LIMITS_def string_limits_new_def max_utf16_units_def max_encoded_bytes_def checked_mul_def
        usize_MAX_def i32_MAX_def)
  have "enc_string [0x61, 0x62] = [2, 0x61, 0x62]"
    by (simp add: enc_string_def str_len_def as_bytes_def utf8_char_def enc_length_def enc_var.simps)
  then have "read_string IDENTIFIER_LIMITS (new_reader [2, 0x61, 0x62]) = (Inr [0x61, 0x62], reader_at [2, 0x61, 0x62] [])"
    using decodes_complete[OF decodes_read_string[OF valid]] by (simp add: usize_MAX_def)
  then have run: "decode_login_clientbound roomy_env [5, 2, 0x61, 0x62] = Inr (Login_CookieRequest [0x61, 0x62])"
    by (simp add: decode_login_clientbound_def decode_packet_def split login_decoder_def login_ids whole_def and_then_def
        boot_def map_err_def ok_def boot_require_consumed_def)
  have "length [5, 2, 0x61, 0x62 :: u8] \<le> usize_MAX" by (simp add: usize_MAX_def)
  from decoded_setup_packet_valid[OF this, of roomy_env] run show ?thesis by auto
qed

end
