(* ===== verification/Section_Updates.thy ===== *)
theory Section_Updates
  imports Receive_Props
begin

text \<open>
  The packed section block updates: three signed coordinates in one long, and per block the state id
  and three local coordinates in a VarLong.
\<close>

section \<open>The wire form\<close>

definition pack_section :: "i32 \<Rightarrow> i32 \<Rightarrow> i32 \<Rightarrow> i64" where
  "pack_section x y z =
     (push_bit 42 (ucast (x AND mask 22)) OR push_bit 20 (ucast (z AND mask 22)) OR ucast (y AND mask 20))"

definition pack_entry :: "section_block_update \<Rightarrow> i64" where
  "pack_entry u =
     (push_bit 12 (ucast (sb_state_id u)) OR push_bit 8 (ucast (sb_local_x u)) OR
      push_bit 4 (ucast (sb_local_z u)) OR ucast (sb_local_y u))"

definition enc_section_update :: "section_blocks_update \<Rightarrow> u8 list" where
  "enc_section_update u =
     to_be_bytes (pack_section (su_section_x u) (su_section_y u) (su_section_z u)) @
     enc_length (length (su_updates u)) @ concat (map (\<lambda>e. enc_var (pack_entry e)) (su_updates u))"

definition section_update_wf :: "section_blocks_update \<Rightarrow> bool" where
  "section_update_wf u \<longleftrightarrow> fits 21 (su_section_x u) \<and> fits 19 (su_section_y u) \<and> fits 21 (su_section_z u) \<and>
     length (su_updates u) \<le> MAX_SECTION_BLOCK_UPDATES \<and> list_all section_entry_valid (su_updates u)"

section \<open>The three coordinates\<close>

lemma fits_min:
  assumes "fits n v" "k < 32" "n < 32"
  shows "bit v (min k n) = bit v k"
proof (cases "k \<le> n")
  case False
  then have "bit v k = bit v n" using assms unfolding fits_def by (meson nat_le_linear)
  then show ?thesis using False by (simp only: min_def if_False)
qed (simp add: min_def)

lemma bit_pack_section:
  shows "j < 22 \<Longrightarrow> bit (pack_section x y z) (42 + j) = bit x j"
    and "j < 22 \<Longrightarrow> bit (pack_section x y z) (20 + j) = bit z j"
    and "j < 20 \<Longrightarrow> bit (pack_section x y z) j = bit y j"
proof -
  have bits: "bit (pack_section x y z) k \<longleftrightarrow> k < 64 \<and> (42 \<le> k \<and> bit x (k - 42) \<and> k - 42 < 22 \<or>
      20 \<le> k \<and> bit z (k - 20) \<and> k - 20 < 22 \<or> bit y k \<and> k < 20)" for k
    by (auto simp: pack_section_def bit_simps)
  show "j < 22 \<Longrightarrow> bit (pack_section x y z) (42 + j) = bit x j"
    "j < 22 \<Longrightarrow> bit (pack_section x y z) (20 + j) = bit z j"
    "j < 20 \<Longrightarrow> bit (pack_section x y z) j = bit y j"
    unfolding bits by auto
qed

lemma bit_section_field:
  assumes "k < 32"
  shows "bit (ucast (signed_drop_bit 42 w) :: i32) k = bit (w :: i64) (42 + min k 21)"
    and "bit (ucast (signed_drop_bit 42 (push_bit 22 w)) :: i32) k = bit w (20 + min k 21)"
    and "bit (ucast (signed_drop_bit 44 (push_bit 44 w)) :: i32) k = bit w (min k 19)"
proof -
  show "bit (ucast (signed_drop_bit 42 w) :: i32) k = bit (w :: i64) (42 + min k 21)"
    using assms by (cases "k \<le> 21") (simp_all add: bit_simps bit_signed_drop_bit_iff min_def)
  show "bit (ucast (signed_drop_bit 42 (push_bit 22 w)) :: i32) k = bit w (20 + min k 21)"
    using assms by (cases "k \<le> 21") (simp_all add: bit_simps bit_signed_drop_bit_iff min_def)
  show "bit (ucast (signed_drop_bit 44 (push_bit 44 w)) :: i32) k = bit w (min k 19)"
    using assms by (cases "k \<le> 19") (simp_all add: bit_simps bit_signed_drop_bit_iff min_def)
qed

lemma min_less: "min k 21 < (22 :: nat)" "min k 19 < (20 :: nat)" "21 < (32 :: nat)" "19 < (32 :: nat)" and len32: "LENGTH(32) = 32"
  by simp_all

lemma section_fields:
  assumes "fits 21 x" "fits 19 y" "fits 21 z"
  shows "ucast (signed_drop_bit 42 (pack_section x y z)) = x"
    and "ucast (signed_drop_bit 42 (push_bit 22 (pack_section x y z))) = z"
    and "ucast (signed_drop_bit 44 (push_bit 44 (pack_section x y z))) = y"
proof -
  show "ucast (signed_drop_bit 42 (pack_section x y z)) = x"
    by (rule bit_word_eqI) (simp only: bit_section_field(1) len32 bit_pack_section min_less fits_min[OF assms(1)])
  show "ucast (signed_drop_bit 42 (push_bit 22 (pack_section x y z))) = z"
    by (rule bit_word_eqI) (simp only: bit_section_field(2) len32 bit_pack_section min_less fits_min[OF assms(3)])
  show "ucast (signed_drop_bit 44 (push_bit 44 (pack_section x y z))) = y"
    by (rule bit_word_eqI) (simp only: bit_section_field(3) len32 bit_pack_section min_less fits_min[OF assms(2)])
qed

lemma section_coordinate_total:
  "section_coordinate ctx (signed_drop_bit 42 (w :: i64)) = Inr (ucast (signed_drop_bit 42 w))"
  "section_coordinate ctx (signed_drop_bit 44 w) = Inr (ucast (signed_drop_bit 44 w))"
proof -
  have "- (2 ^ 63) \<le> sint w" "sint w < 2 ^ 63" using sint_range_size[of w] by (simp_all add: word_size)
  moreover have "- (2 ^ 31) \<le> v div 2 ^ 42 \<and> v div 2 ^ 42 < 2 ^ 31" "- (2 ^ 31) \<le> v div 2 ^ 44 \<and> v div 2 ^ 44 < 2 ^ 31"
    if "- (2 ^ 63) \<le> v" "v < 2 ^ 63" for v :: int
    using zdiv_mono1[of "- (2 ^ 63)" v "2 ^ 42"] zdiv_mono1[of v "2 ^ 63 - 1" "2 ^ 42"]
      zdiv_mono1[of "- (2 ^ 63)" v "2 ^ 44"] zdiv_mono1[of v "2 ^ 63 - 1" "2 ^ 44"] that by simp_all
  ultimately show "section_coordinate ctx (signed_drop_bit 42 w) = Inr (ucast (signed_drop_bit 42 w))"
    and "section_coordinate ctx (signed_drop_bit 44 w) = Inr (ucast (signed_drop_bit 44 w))"
    by (simp_all add: section_coordinate_def sint_signed_drop_bit_eq drop_bit_eq_div)
qed

section \<open>One entry\<close>

lemma negative_iff: "w <s 0 \<longleftrightarrow> bit (w :: i64) 63"
  using bit_last_iff[of w] by (simp add: word_sless_alt)

lemma local_bits:
  assumes "unat (v :: u8) < 16"
  shows "v AND mask 4 = v" and "4 \<le> k \<Longrightarrow> \<not> bit v k"
proof -
  show eq: "v AND mask 4 = v"
    by (rule word_unat_eq_iff[THEN iffD2]) (simp only: unat_and_mask, use assms in simp)
  then show "\<not> bit v k" if "4 \<le> k" using that by (metis bit_and_iff bit_mask_iff linorder_not_less)
qed

lemma entry_fields:
  assumes "section_entry_valid u"
  shows "drop_bit 12 (pack_entry u) = ucast (sb_state_id u)" and "\<not> pack_entry u <s 0"
    and "ucast (drop_bit 8 (pack_entry u) AND 0x0f) = sb_local_x u" and "ucast (pack_entry u AND 0x0f) = sb_local_y u"
    and "ucast (drop_bit 4 (pack_entry u) AND 0x0f) = sb_local_z u"
proof -
  have x: "bit (sb_local_x u) k \<Longrightarrow> k < 4" and y: "bit (sb_local_y u) k \<Longrightarrow> k < 4"
    and z: "bit (sb_local_z u) k \<Longrightarrow> k < 4" for k
    using assms local_bits(2)[of _ k] by (auto simp: section_entry_valid_def not_le[symmetric])
  show "drop_bit 12 (pack_entry u) = ucast (sb_state_id u)"
    by (rule bit_word_eqI) (auto simp: pack_entry_def bit_simps dest: x y z bit_imp_le_length)
  show "\<not> pack_entry u <s 0"
    by (auto simp: negative_iff pack_entry_def bit_simps dest: x y z bit_imp_le_length)
  show "ucast (drop_bit 8 (pack_entry u) AND 0x0f) = sb_local_x u"
    unfolding mask_numerals by (rule bit_word_eqI) (auto simp: pack_entry_def bit_simps dest: x y z)
  show "ucast (pack_entry u AND 0x0f) = sb_local_y u"
    unfolding mask_numerals by (rule bit_word_eqI) (auto simp: pack_entry_def bit_simps dest: x y z)
  show "ucast (drop_bit 4 (pack_entry u) AND 0x0f) = sb_local_z u"
    unfolding mask_numerals by (rule bit_word_eqI) (auto simp: pack_entry_def bit_simps dest: x y z)
qed

lemma decodes_boot [decodes_intros]: "decodes m bs v \<Longrightarrow> decodes (boot m) bs v"
  unfolding boot_def by (rule decodes_map_err)

lemma decodes_ok_eq: "v' = v \<Longrightarrow> decodes (ok v') [] v"
  by (simp add: decodes_ok)

lemma decodes_entry:
  assumes "section_entry_valid u"
  shows "decodes decode_section_entry (enc_var (pack_entry u)) u"
proof -
  have "unat (ucast (sb_state_id u) :: i64) < 2 ^ 32"
    using unsigned_less[of "sb_state_id u", where ?'a = nat] by (simp add: unat_ucast_up)
  moreover have "ucast (ucast (sb_state_id u) :: i64) = sb_state_id u" by (rule bit_word_eqI) (simp add: bit_simps)
  ultimately have "decodes decode_section_entry (enc_var (pack_entry u) @ []) u"
    unfolding decode_section_entry_def
    by (intro decodes_and_then[OF decodes_boot[OF decodes_read_var_long]]) (simp add: entry_fields[OF assms] decodes_ok_eq not_le)
  then show ?thesis by simp
qed

section \<open>The whole packet\<close>

lemma decodes_boot_count:
  assumes "n \<le> m" "n \<le> i32_MAX"
  shows "decodes (boot_read_count ctx m) (enc_length n) n"
proof -
  have "decodes (boot_read_count ctx m) (enc_length n @ []) n"
    unfolding boot_read_count_def enc_length_def
    by (rule decodes_and_then[OF decodes_boot[OF decodes_read_var_int]])
      (use assms in \<open>simp add: of_nat_nonneg_i32 unat_of_nat_i32 decodes_ok\<close>)
  then show ?thesis by simp
qed

lemma decodes_entries:
  "list_all section_entry_valid us \<Longrightarrow>
     decodes (read_n (length us) decode_section_entry) (concat (map (\<lambda>e. enc_var (pack_entry e)) us)) us"
  by (induction us) (auto intro!: decodes_and_then decodes_and_then_ok decodes_entry decodes_ok)

text \<open>Reading to the very end of the input.\<close>

definition finishes :: "'a boot_op \<Rightarrow> u8 list \<Rightarrow> 'a \<Rightarrow> bool" where
  "finishes m bs v \<longleftrightarrow>
     (\<forall>pre. length (pre @ bs) \<le> usize_MAX \<longrightarrow> m (reader_at pre bs) = (Inr v, reader_at (pre @ bs) []))"

lemma finishes_and_then:
  assumes "decodes m bs a" and "finishes (k a) bs' v"
  shows "finishes (and_then m k) (bs @ bs') v"
  unfolding finishes_def
proof (intro allI impI)
  fix pre assume len: "length (pre @ bs @ bs') \<le> usize_MAX"
  from decodesD[OF assms(1), of pre bs'] len assms(2)
  show "and_then m k (reader_at pre (bs @ bs')) = (Inr v, reader_at (pre @ bs @ bs') [])"
    by (simp add: and_then_def finishes_def)
qed

lemma finishes_pure:
  "finishes (k a) bs v \<Longrightarrow> finishes (and_then (lift_result (Inr a)) k) bs v"
  "c \<Longrightarrow> finishes (k' ()) bs v \<Longrightarrow> finishes (and_then (ensure c e) k') bs v"
  "finishes (k' ()) [] v \<Longrightarrow> finishes (and_then (boot_require_consumed ctx) k') [] v"
  "v' = v \<Longrightarrow> finishes (ok v') [] v"
  by (simp_all add: finishes_def and_then_def lift_result_apply ensure_def boot_require_consumed_def ok_def)

lemma finishes_run:
  "finishes m bs v \<Longrightarrow> length bs \<le> usize_MAX \<Longrightarrow> m (new_reader bs) = (Inr v, reader_at bs [])"
  by (simp add: finishes_def new_reader_eq)

lemma length_enc_section_update:
  assumes "section_update_wf u"
  shows "length (enc_section_update u) \<le> 50000"
proof -
  have "length (concat (map (\<lambda>e. enc_var (pack_entry e)) us)) \<le> 10 * length us" for us
  proof (induction us)
    case (Cons e us)
    then show ?case using length_enc_var_long[of "pack_entry e"] by simp
  qed simp
  from this[of "su_updates u"] show ?thesis
    using assms length_enc_length[of "length (su_updates u)"]
    by (simp add: enc_section_update_def section_update_wf_def MAX_SECTION_BLOCK_UPDATES_def)
qed

lemma decode_section_update_run:
  assumes "section_update_wf u" and "try_reserve_exact env (length (su_updates u))"
  shows "decode_section_blocks_update env (new_reader (enc_section_update u)) = (Inr u, reader_at (enc_section_update u) [])"
proof -
  have wf: "fits 21 (su_section_x u)" "fits 19 (su_section_y u)" "fits 21 (su_section_z u)"
    "list_all section_entry_valid (su_updates u)" "length (su_updates u) \<le> MAX_SECTION_BLOCK_UPDATES"
    "length (su_updates u) \<le> i32_MAX"
    using assms(1) by (simp_all add: section_update_wf_def MAX_SECTION_BLOCK_UPDATES_def i32_MAX_def)
  have "finishes (decode_section_blocks_update env) (to_be_bytes (pack_section (su_section_x u) (su_section_y u) (su_section_z u)) @
      enc_length (length (su_updates u)) @ concat (map (\<lambda>e. enc_var (pack_entry e)) (su_updates u)) @ []) u"
    unfolding decode_section_blocks_update_def boot_reserve_def
    by (rule finishes_and_then[OF decodes_boot[OF decodes_fixed_width(7)]],
        simp only: section_coordinate_total section_fields[OF wf(1-3)],
        (rule finishes_pure(1))+, rule finishes_and_then[OF decodes_boot_count[OF wf(5,6)]],
        rule finishes_pure(2)[OF assms(2)], rule finishes_and_then[OF decodes_entries[OF wf(4)]],
        rule finishes_pure(3), rule finishes_pure(4)) simp
  from finishes_run[OF this] length_enc_section_update[OF assms(1)] show ?thesis
    by (simp add: enc_section_update_def usize_MAX_def)
qed

lemma section_update_decodes:
  assumes "section_update_wf u" and "try_reserve_exact env (length (su_updates u))"
  shows "decode_play_clientbound env (enc_var PLAY_SECTION_BLOCKS_UPDATE_ID @ enc_section_update u) =
    Inr (Play_SectionBlocksUpdate u)"
proof -
  have "length (enc_var PLAY_SECTION_BLOCKS_UPDATE_ID @ enc_section_update u) \<le> usize_MAX"
    using length_enc_section_update[OF assms(1)] length_enc_var_int[of PLAY_SECTION_BLOCKS_UPDATE_ID]
    by (simp add: usize_MAX_def)
  from split_raw_packet_enc[OF this] decode_section_update_run[OF assms] show ?thesis
    by (simp add: decode_play_clientbound_def decode_packet_def play_decoder_def play_ids and_then_def ok_def)
qed

text \<open>
  C22: a section update written as the protocol packs it (22, 22 and 20 signed bits for the section, a
  VarLong of state id and three local nibbles per block, at most 4096 of them) is decoded to exactly
  the section coordinates, local coordinates and state ids it was packed from, in their order.
\<close>

theorem section_update_round_trip:
  assumes "section_update_wf u" and "try_reserve_exact env (length (su_updates u))"
  shows "decode_play_clientbound env (enc_var PLAY_SECTION_BLOCKS_UPDATE_ID @ enc_section_update u) =
    Inr (Play_SectionBlocksUpdate u)"
  using assms by (rule section_update_decodes)

lemma section_update_round_trip_witness:
  "decode_play_clientbound roomy_env (enc_var PLAY_SECTION_BLOCKS_UPDATE_ID @ enc_section_update
      \<lparr>su_section_x = - 2097152, su_section_y = - 4, su_section_z = 2097151,
       su_updates = [\<lparr>sb_local_x = 15, sb_local_y = 0, sb_local_z = 7, sb_state_id = 4294967295\<rparr>]\<rparr>) =
    Inr (Play_SectionBlocksUpdate
      \<lparr>su_section_x = - 2097152, su_section_y = - 4, su_section_z = 2097151,
       su_updates = [\<lparr>sb_local_x = 15, sb_local_y = 0, sb_local_z = 7, sb_state_id = 4294967295\<rparr>]\<rparr>)"
proof (rule section_update_round_trip)
  have "fits 21 (- 2097152)" "fits 19 (- 4)" "fits 21 2097151" by (simp_all add: fits_iff)
  then show "section_update_wf \<lparr>su_section_x = - 2097152, su_section_y = - 4, su_section_z = 2097151,
       su_updates = [\<lparr>sb_local_x = 15, sb_local_y = 0, sb_local_z = 7, sb_state_id = 4294967295\<rparr>]\<rparr>"
    by (simp add: section_update_wf_def MAX_SECTION_BLOCK_UPDATES_def section_entry_valid_def)
qed (simp add: roomy_env_def)

end
