(* ===== verification/Game_Data.thy ===== *)
theory Game_Data
  imports Item_Stack
begin

text \<open>
  \<open>cubic-version/src/game_data.rs\<close>: identifiers, the ga_registries and ga_blocks of the generated baseline,
  its generation from the two reports of the official data generator, its validation, and the lookups on
  validated data. JSON is parsed by \<open>serde_json\<close>: the reports are the values it returns, a JSON object
  being the list of its members in the order of the text. Reading the file from disk is left out.
\<close>

definition MAX_IDENTIFIER_BYTES :: nat where "MAX_IDENTIFIER_BYTES = 256"
definition MAX_REGISTRIES :: nat where "MAX_REGISTRIES = 512"
definition MAX_ENTRIES_PER_REGISTRY :: nat where "MAX_ENTRIES_PER_REGISTRY = 65536"
definition MAX_BLOCKS :: nat where "MAX_BLOCKS = 8192"
definition MAX_BLOCK_STATES :: nat where "MAX_BLOCK_STATES = 1048576"
definition MAX_PROPERTIES_PER_BLOCK :: nat where "MAX_PROPERTIES_PER_BLOCK = 64"
definition MAX_VALUES_PER_PROPERTY :: nat where "MAX_VALUES_PER_PROPERTY = 256"
definition GAME_DATA_FORMAT :: u32 where "GAME_DATA_FORMAT = 1"

datatype version_error =
    InvalidGameData string
  | UnsupportedGameDataFormat u32 u32

definition invalid_data :: "string \<Rightarrow> version_error + 'a" where
  "invalid_data reason = Inl (InvalidGameData reason)"

section \<open>Identifiers\<close>

fun split_on :: "'a \<Rightarrow> 'a list \<Rightarrow> 'a list list" where
  "split_on c [] = [[]]"
| "split_on c (x # xs) =
     (if x = c then [] # split_on c xs
      else case split_on c xs of [] \<Rightarrow> [[x]] | p # ps \<Rightarrow> (x # p) # ps)"

definition split_once :: "'a \<Rightarrow> 'a list \<Rightarrow> ('a list \<times> 'a list) option" where
  "split_once c xs =
     (if c \<in> set xs then Some (takeWhile (\<lambda>x. x \<noteq> c) xs, tl (dropWhile (\<lambda>x. x \<noteq> c) xs)) else None)"

definition code_point :: "char \<Rightarrow> nat" where "code_point c = of_char c"

definition name_char :: "nat \<Rightarrow> bool" where
  "name_char c \<longleftrightarrow> code_point CHR ''a'' \<le> c \<and> c \<le> code_point CHR ''z'' \<or> code_point CHR ''0'' \<le> c \<and> c \<le> code_point CHR ''9'' \<or>
     c \<in> set (map code_point ''._-'')"

definition validate_identifier :: "rust_str \<Rightarrow> version_error + unit" where
  "validate_identifier v =
     (if v = [] \<or> MAX_IDENTIFIER_BYTES < str_len v \<or> list_ex is_control v
      then invalid_data ''Minecraft identifier is empty, overlong, or contains controls''
      else case split_once (code_point CHR '':'') v of
        None \<Rightarrow> invalid_data ''Minecraft identifier must contain an explicit namespace''
      | Some (namespace, path) \<Rightarrow>
          if namespace = [] \<or> path = [] \<or>
             list_ex (\<lambda>part. part = [] \<or> part = map code_point ''.'' \<or> part = map code_point ''..'')
               (split_on (code_point CHR ''/'') path)
          then invalid_data ''Minecraft identifier has an invalid namespace or path''
          else if \<not> list_all name_char namespace \<or> \<not> list_all (\<lambda>c. name_char c \<or> c = code_point CHR ''/'') path
          then invalid_data ''Minecraft identifier contains unsupported characters''
          else Inr ())"

definition identifier_new :: "rust_str \<Rightarrow> version_error + minecraft_identifier" where
  "identifier_new v = (case validate_identifier v of Inl e \<Rightarrow> Inl e | Inr _ \<Rightarrow> Inr (map char_of v))"

definition as_str :: "minecraft_identifier \<Rightarrow> rust_str" where
  "as_str i = map code_point i"

section \<open>The artifact\<close>

record table_entry =
  te_identifier :: minecraft_identifier
  te_raw_id :: u32

record registry_table =
  rt_identifier :: minecraft_identifier
  rt_entries :: "table_entry list"

record block_property =
  bpr_name :: rust_str
  bpr_values :: "rust_str list"

record block_state =
  bs_state_id :: u32
  bs_properties :: "(rust_str, rust_str) btree_map"

record block_definition =
  bd_identifier :: minecraft_identifier
  bd_raw_id :: u32
  bd_default_state_id :: u32
  bd_properties :: "block_property list"
  bd_states :: "block_state list"

text \<open>The version and the digests of the provenance are carried along; only its source is checked.\<close>

record game_data_artifact =
  ga_schema_version :: u32
  ga_source :: string
  ga_registries :: "registry_table list"
  ga_blocks :: "block_definition list"

text \<open>\<open>slice::binary_search_by\<close>: the window halves until one element is left.\<close>

function binary_search_loop :: "('a \<Rightarrow> 'k::linorder) \<Rightarrow> 'k \<Rightarrow> 'a list \<Rightarrow> nat \<Rightarrow> nat \<Rightarrow> nat" where
  "binary_search_loop f k xs base window =
     (if window \<le> 1 then base
      else binary_search_loop f k xs (if k < f (xs ! (base + window div 2)) then base else base + window div 2)
             (window - window div 2))"
  by pat_completeness auto
termination by (relation "measure (\<lambda>(_, _, _, _, window). window)") auto

declare binary_search_loop.simps [simp del]

definition binary_search :: "('a \<Rightarrow> 'k::linorder) \<Rightarrow> 'k \<Rightarrow> 'a list \<Rightarrow> 'a option" where
  "binary_search f k xs =
     (if xs = [] then None
      else let i = binary_search_loop f k xs 0 (length xs) in
           if f (xs ! i) = k then Some (xs ! i) else None)"

definition by_identifier :: "registry_table \<Rightarrow> minecraft_identifier \<Rightarrow> table_entry option" where
  "by_identifier t i = binary_search te_identifier i (rt_entries t)"

definition by_raw_id :: "registry_table \<Rightarrow> u32 \<Rightarrow> table_entry option" where
  "by_raw_id t r = find (\<lambda>e. te_raw_id e = r) (rt_entries t)"

definition definition_state :: "block_definition \<Rightarrow> u32 \<Rightarrow> block_state option" where
  "definition_state b i = binary_search bs_state_id i (bd_states b)"

definition state_for_properties :: "block_definition \<Rightarrow> (rust_str, rust_str) btree_map \<Rightarrow> block_state option" where
  "state_for_properties b ps = find (\<lambda>s. bs_properties s = ps) (bd_states b)"

section \<open>Validation\<close>

definition validate_property_token :: "rust_str \<Rightarrow> version_error + unit" where
  "validate_property_token v =
     (if v = [] \<or> 128 < str_len v \<or> list_ex is_control v
      then invalid_data ''block property name/value is empty, overlong, or contains controls'' else Inr ())"

text \<open>The loop carries the previous value.\<close>

fun sorted_unique_from :: "'a::linorder option \<Rightarrow> 'a list \<Rightarrow> bool" where
  "sorted_unique_from p [] = True"
| "sorted_unique_from p (v # vs) =
     (if (case p of None \<Rightarrow> False | Some prior \<Rightarrow> v \<le> prior) then False else sorted_unique_from (Some v) vs)"

definition ensure_sorted_unique :: "'a::linorder list \<Rightarrow> string \<Rightarrow> version_error + unit" where
  "ensure_sorted_unique vs label =
     (if sorted_unique_from None vs then Inr () else invalid_data (''duplicate or unsorted '' @ label))"

text \<open>\<open>any(|entry| !raw_ids.insert(..))\<close> over a set of the ids seen.\<close>

fun repeats :: "'a set \<Rightarrow> 'a list \<Rightarrow> bool" where
  "repeats seen [] = False"
| "repeats seen (x # xs) = (x \<in> seen \<or> repeats (insert x seen) xs)"

definition validate_registry :: "registry_table \<Rightarrow> version_error + unit" where
  "validate_registry r =
     (if MAX_ENTRIES_PER_REGISTRY < length (rt_entries r) then invalid_data ''registry exceeds entry count limit''
      else and_also (ensure_sorted_unique (map te_identifier (rt_entries r)) ''registry entry identifier'') (\<lambda>_.
         if repeats {} (map te_raw_id (rt_entries r)) then invalid_data ''registry contains duplicate raw IDs'' else Inr ()))"

definition validate_property :: "block_property \<Rightarrow> version_error + unit" where
  "validate_property p =
     and_also (validate_property_token (bpr_name p)) (\<lambda>_.
        if bpr_values p = [] \<or> MAX_VALUES_PER_PROPERTY < length (bpr_values p)
        then invalid_data ''block property has an invalid value count''
        else and_also (ensure_sorted_unique (bpr_values p) ''block property value'') (\<lambda>_.
           for_each validate_property_token (bpr_values p)))"

definition validate_state_property :: "block_state \<Rightarrow> block_property \<Rightarrow> version_error + unit" where
  "validate_state_property s p =
     (case bt_get (bpr_name p) (bs_properties s) of
        None \<Rightarrow> invalid_data ''block state is missing a property''
      | Some v \<Rightarrow> if v \<in> set (bpr_values p) then Inr () else invalid_data ''block state uses an impossible property value'')"

text \<open>The states of one block: the previous id and the set of all ids seen so far are carried along.\<close>

fun validate_states ::
  "block_definition \<Rightarrow> u32 option \<Rightarrow> u32 set \<Rightarrow> block_state list \<Rightarrow> version_error + u32 set" where
  "validate_states b previous seen [] = Inr seen"
| "validate_states b previous seen (s # ss) =
     (if (case previous of None \<Rightarrow> False | Some v \<Rightarrow> bs_state_id s \<le> v) \<or> bs_state_id s \<in> seen
      then invalid_data ''duplicate or unsorted block-state ID''
      else if length (bs_properties s) \<noteq> length (bd_properties b)
      then invalid_data ''block state does not define every property exactly once''
      else and_also (for_each (validate_state_property s) (bd_properties b)) (\<lambda>_.
         validate_states b (Some (bs_state_id s)) (insert (bs_state_id s) seen) ss))"

definition validate_block :: "registry_table \<Rightarrow> block_definition \<Rightarrow> u32 set \<Rightarrow> version_error + u32 set" where
  "validate_block registry b seen =
     (if MAX_PROPERTIES_PER_BLOCK < length (bd_properties b) then invalid_data ''block exceeds property count limit''
      else case by_identifier registry (bd_identifier b) of
        None \<Rightarrow> invalid_data (''block '' @ bd_identifier b @ '' is absent from minecraft:block'')
      | Some e \<Rightarrow>
          if te_raw_id e \<noteq> bd_raw_id b then invalid_data ''block raw ID does not match minecraft:block registry''
          else and_also (ensure_sorted_unique (map bpr_name (bd_properties b)) ''block property'') (\<lambda>_.
             and_also (for_each validate_property (bd_properties b)) (\<lambda>_.
               if bd_states b = [] \<or> definition_state b (bd_default_state_id b) = None
               then invalid_data ''block has no states or its default state is missing''
               else validate_states b None seen (bd_states b))))"

fun validate_blocks :: "registry_table \<Rightarrow> u32 set \<Rightarrow> block_definition list \<Rightarrow> version_error + unit" where
  "validate_blocks registry seen [] = Inr ()"
| "validate_blocks registry seen (b # bs) =
     (case validate_block registry b seen of Inl e \<Rightarrow> Inl e | Inr seen' \<Rightarrow> validate_blocks registry seen' bs)"

definition validate_artifact :: "game_data_artifact \<Rightarrow> version_error + unit" where
  "validate_artifact a =
     (if ga_schema_version a \<noteq> GAME_DATA_FORMAT then Inl (UnsupportedGameDataFormat (ga_schema_version a) GAME_DATA_FORMAT)
      else if ga_source a \<noteq> ''mojang_data_generator_reports''
      then invalid_data ''unsupported or missing provenance source''
      else if MAX_REGISTRIES < length (ga_registries a) \<or> MAX_BLOCKS < length (ga_blocks a)
      then invalid_data ''artifact exceeds registry or block count limits''
      else and_also (ensure_sorted_unique (map rt_identifier (ga_registries a)) ''registry identifier'') (\<lambda>_.
         and_also (for_each validate_registry (ga_registries a)) (\<lambda>_.
           and_also (ensure_sorted_unique (map bd_identifier (ga_blocks a)) ''block identifier'') (\<lambda>_.
            case find (\<lambda>r. rt_identifier r = ''minecraft:block'') (ga_registries a) of
               None \<Rightarrow> invalid_data ''artifact has no minecraft:block registry''
             | Some registry \<Rightarrow>
                 if length (rt_entries registry) \<noteq> length (ga_blocks a)
                 then invalid_data ''minecraft:block entries and block definitions differ in count''
                 else validate_blocks registry {} (ga_blocks a)))))"

section \<open>Validated data\<close>

text \<open>\<open>GameData\<close> is an artifact that was validated.\<close>

definition game_data_new :: "game_data_artifact \<Rightarrow> version_error + game_data_artifact" where
  "game_data_new a = (case validate_artifact a of Inl e \<Rightarrow> Inl e | Inr _ \<Rightarrow> Inr a)"

definition data_registry :: "game_data_artifact \<Rightarrow> minecraft_identifier \<Rightarrow> registry_table option" where
  "data_registry d i = binary_search rt_identifier i (ga_registries d)"

definition data_block :: "game_data_artifact \<Rightarrow> minecraft_identifier \<Rightarrow> block_definition option" where
  "data_block d i = binary_search bd_identifier i (ga_blocks d)"

definition data_block_by_raw_id :: "game_data_artifact \<Rightarrow> u32 \<Rightarrow> block_definition option" where
  "data_block_by_raw_id d r = find (\<lambda>b. bd_raw_id b = r) (ga_blocks d)"

fun find_state :: "u32 \<Rightarrow> block_definition list \<Rightarrow> (block_definition \<times> block_state) option" where
  "find_state i [] = None"
| "find_state i (b # bs) = (case definition_state b i of Some s \<Rightarrow> Some (b, s) | None \<Rightarrow> find_state i bs)"

definition data_block_state :: "game_data_artifact \<Rightarrow> u32 \<Rightarrow> (block_definition \<times> block_state) option" where
  "data_block_state d i = find_state i (ga_blocks d)"

definition data_item :: "game_data_artifact \<Rightarrow> minecraft_identifier \<Rightarrow> table_entry option" where
  "data_item d i = Option.bind (data_registry d ''minecraft:item'') (\<lambda>r. by_identifier r i)"

definition item_by_raw_id :: "game_data_artifact \<Rightarrow> u32 \<Rightarrow> table_entry option" where
  "item_by_raw_id d i = Option.bind (data_registry d ''minecraft:item'') (\<lambda>r. by_raw_id r i)"

definition entity_type :: "game_data_artifact \<Rightarrow> minecraft_identifier \<Rightarrow> table_entry option" where
  "entity_type d i = Option.bind (data_registry d ''minecraft:entity_type'') (\<lambda>r. by_identifier r i)"

definition entity_type_by_raw_id :: "game_data_artifact \<Rightarrow> u32 \<Rightarrow> table_entry option" where
  "entity_type_by_raw_id d i = Option.bind (data_registry d ''minecraft:entity_type'') (\<lambda>r. by_raw_id r i)"

section \<open>Generation from the reports\<close>

record report_block_state =
  rs_id :: int
  rs_default :: bool
  rs_properties :: "(rust_str, rust_str) btree_map"

record report_block =
  rb_properties :: "(rust_str, rust_str list) btree_map"
  rb_states :: "report_block_state list"

text \<open>The visitor of \<open>UniqueMap\<close>: the members of a JSON object, a repeated key being an error.\<close>

fun unique_map_from :: "('k::linorder, 'v) btree_map \<Rightarrow> ('k \<times> 'v) list \<Rightarrow> ('k, 'v) btree_map option" where
  "unique_map_from vs [] = Some vs"
| "unique_map_from vs ((k, v) # ms) =
     (if bt_contains k vs then None else unique_map_from (bt_insert k v vs) ms)"

definition unique_map :: "('k::linorder \<times> 'v) list \<Rightarrow> ('k, 'v) btree_map option" where
  "unique_map ms = unique_map_from [] ms"

definition u32_or :: "string \<Rightarrow> int \<Rightarrow> version_error + u32" where
  "u32_or reason v = (if 0 \<le> v \<and> v < 2 ^ 32 then Inr (word_of_int v) else invalid_data reason)"

definition report_entry :: "rust_str \<times> int \<Rightarrow> version_error + table_entry" where
  "report_entry = (\<lambda>(name, protocol_id).
     and_also (identifier_new name) (\<lambda>i.
     and_also (u32_or ''registry raw ID is negative or too large'' protocol_id) (\<lambda>r.
     Inr \<lparr>te_identifier = i, te_raw_id = r\<rparr>)))"

definition report_registry :: "rust_str \<times> (rust_str, int) btree_map \<Rightarrow> version_error + registry_table" where
  "report_registry = (\<lambda>(name, report).
     if MAX_ENTRIES_PER_REGISTRY < bt_len report then invalid_data ''registry contains too many entries''
     else
       and_also (try_each report_entry report) (\<lambda>es.
       and_also (identifier_new name) (\<lambda>i.
       Inr \<lparr>rt_identifier = i, rt_entries = sort_key te_identifier es\<rparr>)))"

definition report_property :: "rust_str \<times> rust_str list \<Rightarrow> version_error + block_property" where
  "report_property = (\<lambda>(name, vs).
     and_also (validate_property_token name) (\<lambda>_.
     if vs = [] \<or> MAX_VALUES_PER_PROPERTY < length vs then invalid_data ''block property has an invalid value count''
     else
       and_also (for_each validate_property_token vs) (\<lambda>_.
       Inr \<lparr>bpr_name = name, bpr_values = remdups_adj (sort vs)\<rparr>)))"

definition report_state :: "report_block_state \<Rightarrow> version_error + block_state" where
  "report_state s =
     and_also (u32_or ''block-state ID is negative or too large'' (rs_id s)) (\<lambda>i.
     Inr \<lparr>bs_state_id = i, bs_properties = rs_properties s\<rparr>)"

definition report_definition :: "registry_table \<Rightarrow> rust_str \<Rightarrow> report_block \<Rightarrow> version_error + block_definition" where
  "report_definition registry name report =
     and_also (identifier_new name) (\<lambda>i.
     and_also (case by_identifier registry i of
         None \<Rightarrow> invalid_data (''block '' @ i @ '' is absent from minecraft:block'')
       | Some e \<Rightarrow> Inr (te_raw_id e)) (\<lambda>raw_id.
     and_also (try_each report_property (rb_properties report)) (\<lambda>ps.
     case filter rs_default (rb_states report) of
       [d] \<Rightarrow>
         and_also (u32_or ''default block-state ID is negative or too large'' (rs_id d)) (\<lambda>default_id.
         and_also (try_each report_state (rb_states report)) (\<lambda>ss.
         Inr \<lparr>bd_identifier = i, bd_raw_id = raw_id, bd_default_state_id = default_id,
              bd_properties = sort_key bpr_name ps, bd_states = sort_key bs_state_id ss\<rparr>))
     | _ \<Rightarrow> invalid_data ''block must have exactly one default state'')))"

text \<open>The count of all states so far is carried along.\<close>

fun report_blocks ::
  "registry_table \<Rightarrow> nat \<Rightarrow> (rust_str, report_block) btree_map \<Rightarrow> version_error + block_definition list" where
  "report_blocks registry states_before [] = Inr []"
| "report_blocks registry states_before ((name, report) # rs) =
     (case checked_add states_before (length (rb_states report)) of
        None \<Rightarrow> invalid_data ''block-state count overflow''
      | Some state_count \<Rightarrow>
          if MAX_BLOCK_STATES < state_count \<or> MAX_PROPERTIES_PER_BLOCK < bt_len (rb_properties report)
          then invalid_data ''report contains too many block states or properties''
          else
            and_also (report_definition registry name report) (\<lambda>b.
            and_also (report_blocks registry state_count rs) (\<lambda>bs. Inr (b # bs))))"

definition generate_game_data ::
  "(rust_str, (rust_str, int) btree_map) btree_map \<Rightarrow> (rust_str, report_block) btree_map \<Rightarrow>
   version_error + game_data_artifact" where
  "generate_game_data report_registries block_reports =
     (if MAX_REGISTRIES < bt_len report_registries \<or> MAX_BLOCKS < bt_len block_reports
      then invalid_data ''report contains too many registries or blocks''
      else
        and_also (try_each report_registry report_registries) (\<lambda>tables.
        let sorted_tables = sort_key rt_identifier tables in
        case find (\<lambda>t. rt_identifier t = ''minecraft:block'') sorted_tables of
          None \<Rightarrow> invalid_data ''registries report has no minecraft:block registry''
        | Some registry \<Rightarrow>
            and_also (report_blocks registry 0 block_reports) (\<lambda>bs.
            let artifact = \<lparr>ga_schema_version = GAME_DATA_FORMAT, ga_source = ''mojang_data_generator_reports'',
                            ga_registries = sorted_tables, ga_blocks = sort_key bd_identifier bs\<rparr> in
            and_also (validate_artifact artifact) (\<lambda>_. Inr artifact))))"

end
