(* ===== verification/Game_Data_Props.thy ===== *)
theory Game_Data_Props
  imports Game_Data
begin

text \<open>
  Lookups on validated game data: the binary searches of the code, which are correct on sorted tables only,
  find exactly the entries of the tables, since validation accepts no other order.
\<close>

section \<open>Binary search\<close>

lemma window_keeps:
  fixes base h n j :: nat
  assumes "j < base + h \<and> c \<or> j = base + h \<and> \<not> c \<or> base + h < j \<and> \<not> c" and "h \<le> n - h" and "h \<le> n"
    and "base \<le> j" and "j < base + n"
  shows "(if c then base else base + h) \<le> j \<and> j < (if c then base else base + h) + (n - h)"
  using assms by (cases c) auto

lemma window_inside:
  fixes base h n i :: nat
  assumes "(if c then base else base + h) \<le> i \<and> i < (if c then base else base + h) + (n - h)" and "h \<le> n"
  shows "base \<le> i \<and> i < base + n"
  using assms by (cases c) auto

lemma binary_search_loop_finds:
  "sorted_wrt (\<lambda>x y. f x < f y) xs \<Longrightarrow> 0 < n \<Longrightarrow> base + n \<le> length xs \<Longrightarrow>
   (let i = binary_search_loop f k xs base n in
      base \<le> i \<and> i < base + n \<and> (\<forall>j. base \<le> j \<and> j < base + n \<and> f (xs ! j) = k \<longrightarrow> j = i))"
proof (induction f k xs base n rule: binary_search_loop.induct)
  case (1 f k xs base n)
  let ?mid = "base + n div 2"
  let ?base = "if k < f (xs ! ?mid) then base else ?mid"
  show ?case
  proof (cases "n \<le> 1")
    case True
    then have "n = 1" using "1.prems" by simp
    then show ?thesis by (subst binary_search_loop.simps) (simp add: Let_def)
  next
    case False
    have inside: "?mid < length xs" "?base + (n - n div 2) \<le> length xs" "0 < n - n div 2"
      using "1.prems"(3) False by auto
    have lower: "f (xs ! j) < f (xs ! ?mid)" if "j < ?mid" for j
      using sorted_wrt_nth_less[OF "1.prems"(1) that] inside(1) by simp
    have upper: "f (xs ! ?mid) < f (xs ! j)" if "?mid < j" "j < length xs" for j
      using sorted_wrt_nth_less[OF "1.prems"(1) that(1)] that(2) by simp
    have kept: "?base \<le> j \<and> j < ?base + (n - n div 2)" if j: "base \<le> j" "j < base + n" "f (xs ! j) = k" for j
    proof -
      have "j < length xs" using j(2) "1.prems"(3) by simp
      then have "j < ?mid \<and> k < f (xs ! ?mid) \<or> j = ?mid \<and> \<not> k < f (xs ! ?mid) \<or> ?mid < j \<and> \<not> k < f (xs ! ?mid)"
        using lower[of j] upper[of j] j(3) by (cases j ?mid rule: linorder_cases) auto
      then show ?thesis by (rule window_keeps) (use j(1,2) in simp_all)
    qed
    let ?i = "binary_search_loop f k xs ?base (n - n div 2)"
    have eq: "binary_search_loop f k xs base n = ?i" using False by (subst binary_search_loop.simps) simp
    note IH = "1.IH"[OF False "1.prems"(1) inside(3) inside(2), unfolded Let_def]
    have "base \<le> ?i \<and> ?i < base + n" by (rule window_inside[of "k < f (xs ! ?mid)" _ "n div 2"]) (use IH in blast, simp)
    with IH kept show ?thesis unfolding Let_def eq by blast
  qed
qed

lemma binary_search_iff:
  assumes "sorted_wrt (\<lambda>x y. f x < f y) xs"
  shows "binary_search f k xs = Some x \<longleftrightarrow> x \<in> set xs \<and> f x = k"
proof (cases "xs = []")
  case False
  then have "0 < length xs" by simp
  from binary_search_loop_finds[OF assms this, of 0 k] show ?thesis
    using False by (auto simp: binary_search_def Let_def in_set_conv_nth)
qed (simp add: binary_search_def)

section \<open>What validation accepts\<close>

lemma sorted_unique_from_iff:
  "sorted_unique_from p vs \<longleftrightarrow> sorted_wrt (<) vs \<and> pred_option (\<lambda>x. list_all (\<lambda>v. x < v) vs) p"
proof (induction p vs rule: sorted_unique_from.induct)
  case (2 p v vs)
  then show ?case by (cases p) (auto simp: not_le list_all_iff)
qed (auto simp: pred_option_def)

lemma ensure_sorted_unique_iff [simp]: "ensure_sorted_unique vs label = Inr u \<longleftrightarrow> sorted_wrt (<) vs"
  by (simp add: ensure_sorted_unique_def sorted_unique_from_iff invalid_data_def)

lemma repeats_iff: "repeats seen xs \<longleftrightarrow> \<not> distinct xs \<or> seen \<inter> set xs \<noteq> {}"
  by (induction seen xs rule: repeats.induct) auto

lemma invalid_data_neq [simp]: "invalid_data reason \<noteq> Inr x"
  by (simp add: invalid_data_def)

lemma find_distinct_iff:
  "distinct (map f xs) \<Longrightarrow> find (\<lambda>x. f x = k) xs = Some x \<longleftrightarrow> x \<in> set xs \<and> f x = k"
  by (induction xs) (auto simp: image_iff)

definition table_wf :: "registry_table \<Rightarrow> bool" where
  "table_wf t \<longleftrightarrow> sorted_wrt (\<lambda>a b. te_identifier a < te_identifier b) (rt_entries t) \<and>
     distinct (map te_raw_id (rt_entries t))"

lemma validate_registry_wf: "validate_registry t = Inr u \<Longrightarrow> table_wf t"
  by (auto simp: validate_registry_def table_wf_def repeats_iff sorted_wrt_map split: if_splits)

lemma by_identifier_iff: "table_wf t \<Longrightarrow> by_identifier t i = Some e \<longleftrightarrow> e \<in> set (rt_entries t) \<and> te_identifier e = i"
  by (simp add: table_wf_def by_identifier_def binary_search_iff)

lemma by_raw_id_iff: "table_wf t \<Longrightarrow> by_raw_id t r = Some e \<longleftrightarrow> e \<in> set (rt_entries t) \<and> te_raw_id e = r"
  by (simp add: table_wf_def by_raw_id_def find_distinct_iff)

abbreviation state_ids :: "block_definition \<Rightarrow> u32 list" where
  "state_ids b \<equiv> map bs_state_id (bd_states b)"

lemma validate_states_ids:
  "validate_states b p seen ss = Inr seen' \<Longrightarrow>
     sorted_wrt (<) (map bs_state_id ss) \<and> pred_option (\<lambda>x. list_all (\<lambda>s. x < bs_state_id s) ss) p \<and>
     seen \<inter> bs_state_id ` set ss = {} \<and> seen' = seen \<union> bs_state_id ` set ss"
proof (induction b p seen ss rule: validate_states.induct)
  case (2 b p seen s ss)
  from 2(2) have "validate_states b (Some (bs_state_id s)) (insert (bs_state_id s) seen) ss = Inr seen'"
    by (auto split: if_splits)
  moreover have "\<not> (case p of None \<Rightarrow> False | Some v \<Rightarrow> bs_state_id s \<le> v)" "bs_state_id s \<notin> seen"
    using 2(2) by (auto split: if_splits)
  ultimately show ?case
    using 2(1) 2(2) by (cases p) (auto simp: list_all_iff not_le split: if_splits)
qed (auto simp: pred_option_def)

lemma validate_block_ids:
  "validate_block t b seen = Inr seen' \<Longrightarrow>
     sorted_wrt (<) (state_ids b) \<and> seen \<inter> set (state_ids b) = {} \<and> seen' = seen \<union> set (state_ids b)"
  by (auto simp: validate_block_def split: if_splits option.splits dest: validate_states_ids)

lemma validate_blocks_ids:
  "validate_blocks t seen bs = Inr u \<Longrightarrow>
     list_all (\<lambda>b. sorted_wrt (<) (state_ids b)) bs \<and> distinct (concat (map state_ids bs)) \<and>
     seen \<inter> set (concat (map state_ids bs)) = {}"
proof (induction t seen bs rule: validate_blocks.induct)
  case (2 t seen b bs)
  then obtain seen' where "validate_block t b seen = Inr seen'" "validate_blocks t seen' bs = Inr u"
    by (auto split: sum.splits)
  with validate_block_ids[OF this(1)] 2(1)[OF this(1,2)] show ?case
    by (auto simp: strict_sorted_iff)
qed simp

lemma definition_state_iff:
  "sorted_wrt (<) (state_ids b) \<Longrightarrow> definition_state b i = Some s \<longleftrightarrow> s \<in> set (bd_states b) \<and> bs_state_id s = i"
  by (simp add: definition_state_def binary_search_iff sorted_wrt_map)

lemma find_state_iff:
  "list_all (\<lambda>b. sorted_wrt (<) (state_ids b)) bs \<Longrightarrow> distinct (concat (map state_ids bs)) \<Longrightarrow>
   find_state i bs = Some (b, s) \<longleftrightarrow> b \<in> set bs \<and> s \<in> set (bd_states b) \<and> bs_state_id s = i"
proof (induction bs)
  case (Cons b' bs)
  show ?case
  proof (cases "definition_state b' i")
    case None
    then have "\<not> (s \<in> set (bd_states b') \<and> bs_state_id s = i)"
      using definition_state_iff[of b' i s] Cons.prems(1) by auto
    then show ?thesis using None Cons by auto
  next
    case (Some s')
    then have s': "s' \<in> set (bd_states b')" "bs_state_id s' = i"
      using definition_state_iff[of b' i s'] Cons.prems(1) by auto
    have unique: "s = s'" if "s \<in> set (bd_states b')" "bs_state_id s = i"
      using that definition_state_iff[of b' i s] Some Cons.prems(1) by auto
    have elsewhere: "bs_state_id s \<noteq> i" if "b \<in> set bs" "s \<in> set (bd_states b)"
      using that s' Cons.prems(2) by (fastforce simp: disjoint_iff)
    show ?thesis using Some s' unique elsewhere by auto
  qed
qed simp

text \<open>An artifact that was accepted.\<close>

definition game_data_wf :: "game_data_artifact \<Rightarrow> bool" where
  "game_data_wf d \<longleftrightarrow> sorted_wrt (\<lambda>a b. rt_identifier a < rt_identifier b) (ga_registries d) \<and>
     list_all table_wf (ga_registries d) \<and> list_all (\<lambda>b. sorted_wrt (<) (state_ids b)) (ga_blocks d) \<and>
     distinct (concat (map state_ids (ga_blocks d)))"

lemma game_data_new_wf: "game_data_new a = Inr d \<Longrightarrow> game_data_wf d"
  by (auto simp: game_data_new_def validate_artifact_def game_data_wf_def sorted_wrt_map list_all_iff
      split: if_splits sum.splits option.splits dest: validate_registry_wf validate_blocks_ids)


definition stone_state :: block_state where "stone_state = \<lparr>bs_state_id = 1, bs_properties = []\<rparr>"

definition stone_block :: block_definition where
  "stone_block = \<lparr>bd_identifier = ''minecraft:stone'', bd_raw_id = 1, bd_default_state_id = 1, bd_properties = [],
                  bd_states = [stone_state]\<rparr>"

definition air_block :: block_definition where
  "air_block = \<lparr>bd_identifier = ''minecraft:air'', bd_raw_id = 0, bd_default_state_id = 0, bd_properties = [],
                bd_states = [\<lparr>bs_state_id = 0, bs_properties = []\<rparr>]\<rparr>"

definition block_table :: registry_table where
  "block_table = \<lparr>rt_identifier = ''minecraft:block'',
     rt_entries = [\<lparr>te_identifier = ''minecraft:air'', te_raw_id = 0\<rparr>, \<lparr>te_identifier = ''minecraft:stone'', te_raw_id = 1\<rparr>]\<rparr>"

definition small_data :: game_data_artifact where
  "small_data = \<lparr>ga_schema_version = 1, ga_source = ''mojang_data_generator_reports'',
                 ga_registries = [block_table], ga_blocks = [air_block, stone_block]\<rparr>"

lemma small_data_accepted: "game_data_new small_data = Inr small_data"
  by (simp add: game_data_new_def validate_artifact_def small_data_def block_table_def stone_block_def air_block_def
      stone_state_def GAME_DATA_FORMAT_def MAX_REGISTRIES_def MAX_BLOCKS_def ensure_sorted_unique_def and_also_def
      validate_registry_def validate_block_def MAX_ENTRIES_PER_REGISTRY_def MAX_PROPERTIES_PER_BLOCK_def
      by_identifier_def definition_state_def binary_search_def binary_search_loop.simps Let_def)


end
