(* ===== verification/Item_Codec.thy ===== *)
theory Item_Codec
  imports Game_Data Bootstrap
begin

text \<open>
  \<open>cubic-protocol/src/bootstrap/v775/inventory.rs\<close>, the profile of a connection: which items, data
  components, menus and banner patterns its raw ids name, and the wire codec of every component.
\<close>

definition WIRE_CONTAINER_SLOTS :: nat where "WIRE_CONTAINER_SLOTS = 512"
definition WIRE_COMPONENTS_PER_STACK :: nat where "WIRE_COMPONENTS_PER_STACK = 256"
definition MAX_COMPONENT_VALUE_BYTES :: nat where "MAX_COMPONENT_VALUE_BYTES = 1024 * 1024"
definition MAX_STACK_COUNT :: nat where "MAX_STACK_COUNT = 99"
definition MAX_CHANGED_SLOTS :: nat where "MAX_CHANGED_SLOTS = 128"
definition MAX_BANNER_PATTERN_LAYERS :: nat where "MAX_BANNER_PATTERN_LAYERS = 20"
definition BANNER_PATTERN_ASSET_LIMITS :: string_limits where
  "BANNER_PATTERN_ASSET_LIMITS = string_limits_new 256 1024"
definition BANNER_PATTERN_TRANSLATION_LIMITS :: string_limits where
  "BANNER_PATTERN_TRANSLATION_LIMITS = string_limits_new 256 1024"
definition TITLE_LIMITS :: string_limits where "TITLE_LIMITS = string_limits_new 32767 32767"
definition CONTAINER_CLOSE_ID :: i32 where "CONTAINER_CLOSE_ID = 0x11"
definition CONTAINER_SET_CONTENT_ID :: i32 where "CONTAINER_SET_CONTENT_ID = 0x12"
definition CONTAINER_SET_DATA_ID :: i32 where "CONTAINER_SET_DATA_ID = 0x13"
definition CONTAINER_SET_SLOT_ID :: i32 where "CONTAINER_SET_SLOT_ID = 0x14"
definition OPEN_SCREEN_ID :: i32 where "OPEN_SCREEN_ID = 0x3b"
definition SET_HELD_SLOT_ID :: i32 where "SET_HELD_SLOT_ID = 0x69"
definition SERVERBOUND_CONTAINER_BUTTON_CLICK_ID :: i32 where "SERVERBOUND_CONTAINER_BUTTON_CLICK_ID = 0x11"
definition SERVERBOUND_CONTAINER_CLICK_ID :: i32 where "SERVERBOUND_CONTAINER_CLICK_ID = 0x12"
definition SERVERBOUND_CONTAINER_CLOSE_ID :: i32 where "SERVERBOUND_CONTAINER_CLOSE_ID = 0x13"
definition SERVERBOUND_SET_CARRIED_ITEM_ID :: i32 where "SERVERBOUND_SET_CARRIED_ITEM_ID = 0x35"
definition SERVERBOUND_SET_CREATIVE_SLOT_ID :: i32 where "SERVERBOUND_SET_CREATIVE_SLOT_ID = 0x38"

datatype component_codec =
    Cc_Unit
  | Cc_VarInt
  | Cc_I32
  | Cc_F32
  | Cc_Bool
  | Cc_String
  | Cc_Nbt
  | Cc_NbtList
  | Cc_VarIntPairs
  | Cc_VarIntList
  | Cc_StringPairs
  | Cc_UseEffects
  | Cc_Food
  | Cc_Weapon
  | Cc_AttackRange
  | Cc_CustomModelData
  | Cc_TooltipDisplay
  | Cc_PotionContents
  | Cc_BannerPatterns
  | Cc_Fireworks
  | Cc_Instrument
  | Cc_PaintingVariant
  | Cc_TwoVarInts
  | Cc_Unsupported

record item_profile =
  ip_items :: "(u32, minecraft_identifier) btree_map"
  ip_item_raw_ids :: "(minecraft_identifier, u32) btree_map"
  ip_components :: "(u32, minecraft_identifier \<times> component_codec) btree_map"
  ip_component_raw_ids :: "(minecraft_identifier, u32) btree_map"
  ip_menus :: "(u32, minecraft_identifier) btree_map"
  ip_banner_patterns :: "(u32, minecraft_identifier) btree_map"
  ip_banner_pattern_raw_ids :: "(minecraft_identifier, u32) btree_map"

text \<open>The errors that carry a number print it; counts and sizes are naturals, values integers.\<close>

datatype item_error =
    Item_Bootstrap bootstrap_error
  | Item_Codec codec_error
  | Item_Nbt nbt_error
  | Item_MissingRegistry string
  | Item_InvalidBuiltInProfile string
  | Item_UnsupportedComponentCodec minecraft_identifier
  | Item_UnknownItemId u32
  | Item_UnknownComponentId u32
  | Item_UnknownMenuId u32
  | Item_UnknownItem minecraft_identifier
  | Item_UnknownComponent minecraft_identifier
  | Item_UnknownBannerPatternId u32
  | Item_UnknownBannerPattern minecraft_identifier
  | Item_InvalidBannerPatternIdentifier rust_str
  | Item_InvalidInlineIdentifier rust_str
  | Item_InvalidDyeColor u32
  | Item_DuplicateComponent minecraft_identifier
  | Item_NegativeValue string i32
  | Item_CountTooLarge string nat nat
  | Item_ValueOutOfRange string int int
  | Item_TrailingData nat
  | Item_PayloadTooLarge string nat nat
  | Item_TooManyChangedSlots nat nat
  | Item_ComponentNestingTooDeep nat
  | Item_InternalCodecDispatch string

section \<open>Registries\<close>

text \<open>\<open>collect\<close> into a \<open>BTreeMap\<close>: a later entry replaces an earlier one with its key.\<close>

definition bt_collect :: "('k::linorder \<times> 'v) list \<Rightarrow> ('k, 'v) btree_map" where
  "bt_collect es = fold (\<lambda>(k, v). bt_insert k v) es []"

definition table_map :: "registry_table \<Rightarrow> (u32, minecraft_identifier) btree_map" where
  "table_map t = bt_collect (map (\<lambda>e. (te_raw_id e, te_identifier e)) (rt_entries t))"

definition built_in :: "string \<Rightarrow> item_error + minecraft_identifier" where
  "built_in name =
     (case identifier_new (map code_point name) of Inl _ \<Rightarrow> Inl (Item_InvalidBuiltInProfile name) | Inr i \<Rightarrow> Inr i)"

definition registry_entries :: "game_data_artifact \<Rightarrow> string \<Rightarrow> item_error + (u32, minecraft_identifier) btree_map" where
  "registry_entries d name =
     and_also (built_in name) (\<lambda>i.
     case data_registry d i of None \<Rightarrow> Inl (Item_MissingRegistry name) | Some t \<Rightarrow> Inr (table_map t))"

definition optional_registry_entries ::
  "game_data_artifact \<Rightarrow> string \<Rightarrow> item_error + (u32, minecraft_identifier) btree_map" where
  "optional_registry_entries d name =
     and_also (built_in name) (\<lambda>i.
     Inr (case data_registry d i of None \<Rightarrow> [] | Some t \<Rightarrow> table_map t))"

definition reverse :: "(u32, minecraft_identifier) btree_map \<Rightarrow> (minecraft_identifier, u32) btree_map" where
  "reverse es = bt_collect (map (\<lambda>(raw, i). (i, raw)) es)"

definition component_codec_of :: "minecraft_identifier \<Rightarrow> component_codec" where
  "component_codec_of i =
     (if i \<in> set [''minecraft:unbreakable'', ''minecraft:creative_slot_lock'', ''minecraft:intangible_projectile'',
                  ''minecraft:glider''] then Cc_Unit
      else if i \<in> set [''minecraft:max_stack_size'', ''minecraft:max_damage'', ''minecraft:damage'',
                  ''minecraft:repair_cost'', ''minecraft:enchantable'', ''minecraft:map_id'',
                  ''minecraft:map_post_processing'', ''minecraft:ominous_bottle_amplifier'',
                  ''minecraft:additional_trade_cost''] then Cc_VarInt
      else if i \<in> set [''minecraft:rarity'', ''minecraft:dye'', ''minecraft:base_color'', ''minecraft:villager/variant'',
                  ''minecraft:wolf/variant'', ''minecraft:wolf/sound_variant'', ''minecraft:wolf/collar'',
                  ''minecraft:fox/variant'', ''minecraft:salmon/size'', ''minecraft:parrot/variant'',
                  ''minecraft:tropical_fish/pattern'', ''minecraft:tropical_fish/base_color'',
                  ''minecraft:tropical_fish/pattern_color'', ''minecraft:mooshroom/variant'',
                  ''minecraft:rabbit/variant'', ''minecraft:pig/variant'', ''minecraft:pig/sound_variant'',
                  ''minecraft:cow/variant'', ''minecraft:cow/sound_variant'', ''minecraft:frog/variant'',
                  ''minecraft:horse/variant'', ''minecraft:llama/variant'', ''minecraft:axolotl/variant'',
                  ''minecraft:cat/variant'', ''minecraft:cat/sound_variant'', ''minecraft:cat/collar'',
                  ''minecraft:sheep/color'', ''minecraft:shulker/color''] then Cc_VarInt
      else if i \<in> set [''minecraft:dyed_color'', ''minecraft:map_color''] then Cc_I32
      else if i \<in> set [''minecraft:minimum_attack_charge'', ''minecraft:potion_duration_scale''] then Cc_F32
      else if i = ''minecraft:enchantment_glint_override'' then Cc_Bool
      else if i \<in> set [''minecraft:item_model'', ''minecraft:damage_resistant'', ''minecraft:note_block_sound'',
                  ''minecraft:tooltip_style'', ''minecraft:provides_banner_patterns''] then Cc_String
      else if i \<in> set [''minecraft:custom_data'', ''minecraft:custom_name'', ''minecraft:item_name'',
                  ''minecraft:bucket_entity_data'', ''minecraft:container_loot'', ''minecraft:debug_stick_state'',
                  ''minecraft:lock'', ''minecraft:map_decorations'', ''minecraft:recipes''] then Cc_Nbt
      else if i = ''minecraft:lore'' then Cc_NbtList
      else if i \<in> set [''minecraft:enchantments'', ''minecraft:stored_enchantments'',
                  ''minecraft:suspicious_stew_effects''] then Cc_VarIntPairs
      else if i = ''minecraft:pot_decorations'' then Cc_VarIntList
      else if i = ''minecraft:block_state'' then Cc_StringPairs
      else if i = ''minecraft:use_effects'' then Cc_UseEffects
      else if i = ''minecraft:food'' then Cc_Food
      else if i = ''minecraft:weapon'' then Cc_Weapon
      else if i = ''minecraft:swing_animation'' then Cc_TwoVarInts
      else if i = ''minecraft:attack_range'' then Cc_AttackRange
      else if i = ''minecraft:custom_model_data'' then Cc_CustomModelData
      else if i = ''minecraft:tooltip_display'' then Cc_TooltipDisplay
      else if i = ''minecraft:potion_contents'' then Cc_PotionContents
      else if i = ''minecraft:banner_patterns'' then Cc_BannerPatterns
      else if i = ''minecraft:fireworks'' then Cc_Fireworks
      else if i = ''minecraft:instrument'' then Cc_Instrument
      else if i = ''minecraft:painting/variant'' then Cc_PaintingVariant
      else Cc_Unsupported)"

definition item_profile_from ::
  "(u32, minecraft_identifier) btree_map \<Rightarrow> (u32, minecraft_identifier) btree_map \<Rightarrow>
   (u32, minecraft_identifier) btree_map \<Rightarrow> (u32, minecraft_identifier) btree_map \<Rightarrow> item_profile" where
  "item_profile_from items component_table menus banner_patterns =
     \<lparr>ip_items = items, ip_item_raw_ids = reverse items,
      ip_components = map (\<lambda>(raw, i). (raw, i, component_codec_of i)) component_table,
      ip_component_raw_ids = reverse component_table, ip_menus = menus, ip_banner_patterns = banner_patterns,
      ip_banner_pattern_raw_ids = reverse banner_patterns\<rparr>"

definition from_game_data :: "game_data_artifact \<Rightarrow> item_error + item_profile" where
  "from_game_data d =
     and_also (registry_entries d ''minecraft:item'') (\<lambda>items.
     and_also (registry_entries d ''minecraft:data_component_type'') (\<lambda>component_table.
     and_also (registry_entries d ''minecraft:menu'') (\<lambda>menus.
     and_also (optional_registry_entries d ''minecraft:banner_pattern'') (\<lambda>banner_patterns.
     Inr (item_profile_from items component_table menus banner_patterns)))))"

definition item_raw_id :: "item_profile \<Rightarrow> minecraft_identifier \<Rightarrow> u32 option" where
  "item_raw_id p i = bt_get i (ip_item_raw_ids p)"

definition component_raw_id :: "item_profile \<Rightarrow> minecraft_identifier \<Rightarrow> u32 option" where
  "component_raw_id p i = bt_get i (ip_component_raw_ids p)"

text \<open>The patterns of the connection, in its order: the raw id is the index.\<close>

fun banner_entries ::
  "nat \<Rightarrow> (u32, minecraft_identifier) btree_map \<Rightarrow> minecraft_identifier list \<Rightarrow>
   item_error + (u32, minecraft_identifier) btree_map" where
  "banner_entries index es [] = Inr es"
| "banner_entries index es (i # is) =
     (if 2 ^ 32 \<le> index then Inl (Item_CountTooLarge ''banner-pattern registry'' index (2 ^ 32 - 1))
      else banner_entries (index + 1) (bt_insert (of_nat index) i es) is)"

definition install_banner_patterns :: "minecraft_identifier list \<Rightarrow> item_profile \<Rightarrow> item_error + item_profile" where
  "install_banner_patterns patterns p =
     and_also (banner_entries 0 [] patterns) (\<lambda>es.
     Inr (p\<lparr>ip_banner_pattern_raw_ids := reverse es, ip_banner_patterns := es\<rparr>))"

section \<open>Hashes of component values\<close>

definition crc32c_bit :: "u32 \<Rightarrow> u32" where
  "crc32c_bit crc = (let mask = 0 - (crc AND 1) in (drop_bit 1 crc XOR (0x82f63b78 AND mask)))"

definition crc32c_byte :: "u32 \<Rightarrow> u8 \<Rightarrow> u32" where
  "crc32c_byte crc b = (crc32c_bit ^^ 8) (crc XOR ucast b)"

definition crc32c :: "u8 list \<Rightarrow> u32" where
  "crc32c bytes = NOT (fold (\<lambda>b crc. crc32c_byte crc b) bytes (NOT 0))"

definition to_le_bytes :: "'a::len word \<Rightarrow> u8 list" where
  "to_le_bytes v = rev (to_be_bytes v)"

definition primitive_hash_payload :: "u8 \<Rightarrow> u8 list \<Rightarrow> u8 list" where
  "primitive_hash_payload tag bytes = tag # bytes"

text \<open>
  \<open>cubic-protocol/src/bootstrap/v775/inventory.rs\<close>, item stacks and inventory packets on the wire. A
  component the client does not interpret is skipped by its kind, and its bytes are kept; banner patterns
  are parsed, since their registry ids differ between connections.
\<close>

type_synonym 'a item_op = "(codec_reader, item_error, 'a) fallible"
type_synonym item_writer = "(codec_writer, item_error, unit) fallible"

definition item_read :: "'a reader_op \<Rightarrow> 'a item_op" where "item_read m = map_err Item_Codec m"

definition item_nbt :: "(codec_reader, nbt_error, 'a) fallible \<Rightarrow> 'a item_op" where "item_nbt m = map_err Item_Nbt m"

section \<open>Shared reads and writes\<close>

definition read_nonnegative :: "string \<Rightarrow> u32 item_op" where
  "read_nonnegative ctx =
     and_then (item_read read_var_int) (\<lambda>v. if v <s 0 then fail (Item_NegativeValue ctx v) else ok v)"

definition read_bounded_count :: "string \<Rightarrow> nat \<Rightarrow> nat item_op" where
  "read_bounded_count ctx m =
     and_then (item_read read_var_int) (\<lambda>v.
       if v <s 0 then fail (Item_NegativeValue ctx v)
       else if m < unat v then fail (Item_CountTooLarge ctx (unat v) m) else ok (unat v))"

definition write_u32_varint :: "u32 \<Rightarrow> string \<Rightarrow> item_writer" where
  "write_u32_varint v ctx =
     (if v <s 0 then fail (Item_ValueOutOfRange ctx (uint v) (2 ^ 31 - 1)) else emit (write_var_int v))"

definition write_len :: "nat \<Rightarrow> string \<Rightarrow> item_writer" where
  "write_len n ctx =
     (if 2 ^ 31 \<le> n then fail (Item_ValueOutOfRange ctx (int n) (2 ^ 31 - 1)) else emit (write_var_int (of_nat n)))"

definition item_finish :: "unit item_op" where
  "item_finish r = (if remaining r \<noteq> 0 then (Inl (Item_TrailingData (remaining r)), r) else (Inr (), r))"

text \<open>\<open>let start = reader.position(); ...; reader.consumed_since(start)?\<close>\<close>

definition with_consumed :: "'a item_op \<Rightarrow> ('a \<times> u8 list) item_op" where
  "with_consumed m r =
     and_then m (\<lambda>x. and_then (item_read (\<lambda>r'. (consumed_since r' (position r), r'))) (\<lambda>bytes. ok (x, bytes))) r"

text \<open>\<open>for _ in 0..n { m?; }\<close>\<close>

fun skip_n :: "nat \<Rightarrow> unit item_op \<Rightarrow> unit item_op" where
  "skip_n 0 m = ok ()"
| "skip_n (Suc n) m = and_then m (\<lambda>_. skip_n n m)"

text \<open>\<open>let _ = m?;\<close>\<close>

definition discard :: "'a item_op \<Rightarrow> unit item_op" where
  "discard m = and_then m (\<lambda>_. ok ())"

fun in_turn :: "unit item_op list \<Rightarrow> unit item_op" where
  "in_turn [] = ok ()"
| "in_turn (m # ms) = and_then m (\<lambda>_. in_turn ms)"

definition counted :: "string \<Rightarrow> nat \<Rightarrow> unit item_op \<Rightarrow> unit item_op" where
  "counted ctx m element = and_then (read_bounded_count ctx m) (\<lambda>n. skip_n n element)"

definition when_set :: "unit item_op \<Rightarrow> unit item_op" where
  "when_set m = and_then (item_read read_bool) (\<lambda>b. if b then m else ok ())"

abbreviation any_var_int :: "unit item_op" where "any_var_int \<equiv> discard (item_read read_var_int)"
abbreviation any_i32 :: "unit item_op" where "any_i32 \<equiv> discard (item_read read_i32)"
abbreviation any_f32 :: "unit item_op" where "any_f32 \<equiv> discard (item_read read_f32)"
abbreviation any_bool :: "unit item_op" where "any_bool \<equiv> discard (item_read read_bool)"
abbreviation any_string :: "unit item_op" where
  "any_string \<equiv> discard (item_read (read_string (string_limits_new 32767 98301)))"
abbreviation any_tag :: "nbt_env \<Rightarrow> unit item_op" where
  "any_tag env \<equiv> discard (item_nbt (decode_unnamed_network_tag env nbt_limits_default))"

section \<open>Components that are skipped\<close>

definition inline_identifier :: "unit item_op" where
  "inline_identifier =
     and_then (item_read (read_string (string_limits_new 256 1024))) (\<lambda>i.
     case identifier_new i of Inl _ \<Rightarrow> fail (Item_InvalidInlineIdentifier i) | Inr _ \<Rightarrow> ok ())"

definition skip_registry_holder :: "unit item_op \<Rightarrow> unit item_op" where
  "skip_registry_holder skip_direct =
     and_then (read_nonnegative ''registry holder'') (\<lambda>holder. if holder = 0 then skip_direct else ok ())"

definition skip_explosion :: "unit item_op" where
  "skip_explosion =
     and_then (read_nonnegative ''firework shape'') (\<lambda>shape.
     if 4 < shape then fail (Item_ValueOutOfRange ''firework shape'' (uint shape) 4)
     else in_turn [counted ''firework colors'' 256 any_i32, counted ''firework fade colors'' 256 any_i32,
                   any_bool, any_bool])"

definition skip_fireworks :: "unit item_op" where
  "skip_fireworks = in_turn [any_var_int, counted ''firework explosions'' 256 skip_explosion]"

definition skip_sound_event :: "unit item_op" where
  "skip_sound_event = in_turn [inline_identifier, when_set any_f32]"

definition skip_instrument :: "nbt_env \<Rightarrow> unit item_op" where
  "skip_instrument env = in_turn [skip_registry_holder skip_sound_event, any_f32, any_f32, any_tag env]"

definition skip_painting_variant :: "nbt_env \<Rightarrow> unit item_op" where
  "skip_painting_variant env =
     in_turn [discard (read_nonnegative ''painting width''), discard (read_nonnegative ''painting height''),
              inline_identifier, when_set (any_tag env), when_set (any_tag env)]"

definition skip_f32_list :: "unit item_op" where "skip_f32_list = counted ''component float list'' 256 any_f32"
definition skip_bool_list :: "unit item_op" where "skip_bool_list = counted ''component boolean list'' 256 any_bool"
definition skip_string_list :: "unit item_op" where "skip_string_list = counted ''component string list'' 256 any_string"

text \<open>The recursion on the depth: 16 levels are entered at most.\<close>

function skip_effect_detail :: "nat \<Rightarrow> unit item_op" where
  "skip_effect_detail depth =
     (if 16 \<le> depth then fail (Item_ComponentNestingTooDeep 16)
      else in_turn [any_var_int, any_var_int, any_bool, any_bool, any_bool,
                    when_set (skip_effect_detail (depth + 1))])"
  by pat_completeness auto
termination by (relation "measure (\<lambda>depth. 16 - depth)") auto

declare skip_effect_detail.simps [simp del]

definition skip_potion_contents :: "unit item_op" where
  "skip_potion_contents =
     in_turn [when_set any_var_int, when_set any_i32,
              counted ''custom potion effects'' 256 (in_turn [any_var_int, skip_effect_detail 0]),
              when_set any_string]"

definition skip_component :: "nbt_env \<Rightarrow> component_codec \<Rightarrow> minecraft_identifier \<Rightarrow> unit item_op" where
  "skip_component env kind i =
     (case kind of
        Cc_Unit \<Rightarrow> ok ()
      | Cc_VarInt \<Rightarrow> any_var_int
      | Cc_I32 \<Rightarrow> any_i32
      | Cc_F32 \<Rightarrow> any_f32
      | Cc_Bool \<Rightarrow> any_bool
      | Cc_String \<Rightarrow> any_string
      | Cc_Nbt \<Rightarrow> any_tag env
      | Cc_NbtList \<Rightarrow> counted ''component NBT list'' 256 (any_tag env)
      | Cc_VarIntPairs \<Rightarrow> counted ''component pair list'' 256 (in_turn [any_var_int, any_var_int])
      | Cc_VarIntList \<Rightarrow> counted ''component integer list'' 256 any_var_int
      | Cc_StringPairs \<Rightarrow> counted ''component string map'' 256 (in_turn [any_string, any_string])
      | Cc_UseEffects \<Rightarrow> in_turn [any_bool, any_bool, any_f32]
      | Cc_Food \<Rightarrow> in_turn [any_var_int, any_f32, any_bool]
      | Cc_Weapon \<Rightarrow> in_turn [any_var_int, any_f32]
      | Cc_TwoVarInts \<Rightarrow> in_turn [any_var_int, any_var_int]
      | Cc_AttackRange \<Rightarrow> skip_n 6 any_f32
      | Cc_CustomModelData \<Rightarrow>
          in_turn [skip_f32_list, skip_bool_list, skip_string_list, counted ''custom model colors'' 256 any_i32]
      | Cc_TooltipDisplay \<Rightarrow> in_turn [any_bool, counted ''hidden tooltip components'' 256 any_var_int]
      | Cc_PotionContents \<Rightarrow> skip_potion_contents
      | Cc_Fireworks \<Rightarrow> skip_fireworks
      | Cc_Instrument \<Rightarrow> skip_registry_holder (skip_instrument env)
      | Cc_PaintingVariant \<Rightarrow> skip_registry_holder (skip_painting_variant env)
      | Cc_BannerPatterns \<Rightarrow>
          fail (Item_InternalCodecDispatch ''banner-pattern component bypassed its semantic decoder'')
      | Cc_Unsupported \<Rightarrow> fail (Item_UnsupportedComponentCodec i))"

section \<open>Banner patterns\<close>

record direct_banner_pattern =
  dbp_asset_id :: minecraft_identifier
  dbp_translation_key :: rust_str

datatype banner_pattern_holder =
    Holder_Reference minecraft_identifier
  | Holder_Direct direct_banner_pattern

record wire_banner_layer =
  wbl_pattern :: banner_pattern_holder
  wbl_dye_raw_id :: u8

definition read_banner_holder :: "(u32 \<Rightarrow> minecraft_identifier option) \<Rightarrow> u32 \<Rightarrow> banner_pattern_holder item_op" where
  "read_banner_holder reference encoded_holder =
     (if encoded_holder = 0 then
        and_then (item_read (read_string BANNER_PATTERN_ASSET_LIMITS)) (\<lambda>asset.
        and_then (lift_result (case identifier_new asset of
            Inl _ \<Rightarrow> Inl (Item_InvalidBannerPatternIdentifier asset) | Inr i \<Rightarrow> Inr i)) (\<lambda>asset_id.
        and_then (item_read (read_string BANNER_PATTERN_TRANSLATION_LIMITS)) (\<lambda>translation_key.
        ok (Holder_Direct \<lparr>dbp_asset_id = asset_id, dbp_translation_key = translation_key\<rparr>))))
      else
        (case reference (encoded_holder - 1) of
           None \<Rightarrow> fail (Item_UnknownBannerPatternId (encoded_holder - 1))
         | Some i \<Rightarrow> ok (Holder_Reference i)))"

definition read_banner_layer :: "(u32 \<Rightarrow> minecraft_identifier option) \<Rightarrow> wire_banner_layer item_op" where
  "read_banner_layer reference =
     and_then (read_nonnegative ''banner-pattern holder'') (\<lambda>encoded_holder.
     and_then (read_banner_holder reference encoded_holder) (\<lambda>pattern.
     and_then (read_nonnegative ''banner-pattern dye'') (\<lambda>dye.
     if 16 \<le> dye then fail (Item_InvalidDyeColor dye)
     else ok \<lparr>wbl_pattern = pattern, wbl_dye_raw_id = ucast dye\<rparr>)))"

definition decode_banner_pattern_layers_with ::
  "nbt_env \<Rightarrow> (u32 \<Rightarrow> minecraft_identifier option) \<Rightarrow> wire_banner_layer list item_op" where
  "decode_banner_pattern_layers_with env reference =
     and_then (read_bounded_count ''banner-pattern layer'' MAX_BANNER_PATTERN_LAYERS) (\<lambda>n.
     and_then (ensure (try_reserve_exact env n) (Item_Codec (AllocationFailed ''banner-pattern layers'' n))) (\<lambda>_.
     read_n n (read_banner_layer reference)))"

definition decode_banner_pattern_layers :: "nbt_env \<Rightarrow> item_profile \<Rightarrow> wire_banner_layer list item_op" where
  "decode_banner_pattern_layers env p =
     decode_banner_pattern_layers_with env (\<lambda>raw_id. bt_get raw_id (ip_banner_patterns p))"

text \<open>\<open>slice.get\<close>\<close>

definition decode_creative_banner_pattern_layers ::
  "nbt_env \<Rightarrow> u8 list \<Rightarrow> minecraft_identifier list \<Rightarrow> item_error + wire_banner_layer list" where
  "decode_creative_banner_pattern_layers env bytes source_registry =
     fst (and_then (decode_banner_pattern_layers_with env
            (\<lambda>raw_id. if unat raw_id < length source_registry then Some (source_registry ! unat raw_id) else None))
          (\<lambda>layers. and_then item_finish (\<lambda>_. ok layers)) (new_reader bytes))"

fun each_write :: "('a \<Rightarrow> item_writer) \<Rightarrow> 'a list \<Rightarrow> item_writer" where
  "each_write f [] = ok ()"
| "each_write f (x # xs) = and_then (f x) (\<lambda>_. each_write f xs)"

definition item_write :: "writer_op \<Rightarrow> item_writer" where "item_write m = map_err Item_Codec m"

definition write_banner_holder :: "item_profile \<Rightarrow> banner_pattern_holder \<Rightarrow> item_writer" where
  "write_banner_holder p holder =
     (case holder of
        Holder_Reference i \<Rightarrow>
          (case bt_get i (ip_banner_pattern_raw_ids p) of
             None \<Rightarrow> fail (Item_UnknownBannerPattern i)
           | Some raw_id \<Rightarrow>
               if raw_id = 2 ^ 32 - 1 then fail (Item_ValueOutOfRange ''banner-pattern holder'' (uint raw_id) (2 ^ 31 - 2))
               else write_u32_varint (raw_id + 1) ''banner-pattern holder'')
      | Holder_Direct d \<Rightarrow>
          and_then (emit (write_var_int 0)) (\<lambda>_.
          and_then (item_write (write_string BANNER_PATTERN_ASSET_LIMITS (as_str (dbp_asset_id d)))) (\<lambda>_.
          item_write (write_string BANNER_PATTERN_TRANSLATION_LIMITS (dbp_translation_key d)))))"

definition write_banner_layer :: "item_profile \<Rightarrow> wire_banner_layer \<Rightarrow> item_writer" where
  "write_banner_layer p layer =
     and_then (write_banner_holder p (wbl_pattern layer)) (\<lambda>_.
     if 16 \<le> wbl_dye_raw_id layer then fail (Item_InvalidDyeColor (ucast (wbl_dye_raw_id layer)))
     else emit (write_var_int (ucast (wbl_dye_raw_id layer))))"

definition encode_banner_pattern_layers :: "item_profile \<Rightarrow> wire_banner_layer list \<Rightarrow> item_writer" where
  "encode_banner_pattern_layers p layers =
     (if MAX_BANNER_PATTERN_LAYERS < length layers
      then fail (Item_CountTooLarge ''banner-pattern layer'' (length layers) MAX_BANNER_PATTERN_LAYERS)
      else
        and_then (write_len (length layers) ''banner-pattern layer'') (\<lambda>_.
        each_write (write_banner_layer p) layers))"

end
