(* ===== verification/Item_Packets.thy ===== *)
theory Item_Packets
  imports Item_Codec
begin

text \<open>
  \<open>cubic-protocol/src/bootstrap/v775/inventory.rs\<close>: item stacks with their component patch, the
  clientbound inventory packets and the serverbound ones.
\<close>

record wire_patch =
  wp_added :: "(minecraft_identifier, u8 list) btree_map"
  wp_removed :: "minecraft_identifier list"
  wp_hashes :: "(minecraft_identifier, i32) btree_map"
  wp_banner_patterns :: "wire_banner_layer list option"

definition wire_patch_default :: wire_patch where
  "wire_patch_default = \<lparr>wp_added = [], wp_removed = [], wp_hashes = [], wp_banner_patterns = None\<rparr>"

record wire_item_stack =
  wis_item :: minecraft_identifier
  wis_count :: u32
  wis_components :: wire_patch

text \<open>\<open>BTreeSet::insert\<close> on the ordered list of the elements.\<close>

definition set_insert :: "'a::linorder \<Rightarrow> 'a list \<Rightarrow> 'a list" where
  "set_insert x xs = (if x \<in> set xs then xs else insort x xs)"

section \<open>Reading a stack\<close>

definition read_hash_payload :: "component_codec \<Rightarrow> u8 list option item_op" where
  "read_hash_payload kind =
     (case kind of
        Cc_Unit \<Rightarrow> ok (Some [2, 3])
      | Cc_VarInt \<Rightarrow>
          and_then (item_read read_var_int) (\<lambda>v. ok (Some (primitive_hash_payload 8 (to_le_bytes v))))
      | Cc_I32 \<Rightarrow> and_then (item_read read_i32) (\<lambda>v. ok (Some (primitive_hash_payload 8 (to_le_bytes v))))
      | Cc_F32 \<Rightarrow> and_then (item_read read_f32) (\<lambda>v. ok (Some (primitive_hash_payload 10 (to_le_bytes v))))
      | Cc_Bool \<Rightarrow> and_then (item_read read_bool) (\<lambda>b. ok (Some [13, if b then 1 else 0]))
      | Cc_String \<Rightarrow>
          and_then (item_read (read_string (string_limits_new 32767 98301))) (\<lambda>s.
          if 2 ^ 31 \<le> length (encode_utf16 s)
          then fail (Item_ValueOutOfRange ''component string length'' (int (length (encode_utf16 s))) (2 ^ 31 - 1))
          else ok (Some (12 # to_le_bytes (of_nat (length (encode_utf16 s)) :: i32) @
                         concat (map to_le_bytes (encode_utf16 s)))))
      | _ \<Rightarrow> ok None)"

definition component_hash :: "item_profile \<Rightarrow> minecraft_identifier \<Rightarrow> u8 list \<Rightarrow> item_error + i32 option" where
  "component_hash p i wire_value =
     (case Option.bind (component_raw_id p i) (\<lambda>raw. bt_get raw (ip_components p)) of
        None \<Rightarrow> Inl (Item_UnknownComponent i)
      | Some (_, kind) \<Rightarrow>
          fst (and_then (read_hash_payload kind) (\<lambda>hash_payload.
            case hash_payload of
              None \<Rightarrow> ok None
            | Some bytes \<Rightarrow> and_then item_finish (\<lambda>_. ok (Some (crc32c bytes)))) (new_reader wire_value)))"

definition read_component_value ::
  "nbt_env \<Rightarrow> item_profile \<Rightarrow> component_codec \<Rightarrow> minecraft_identifier \<Rightarrow> wire_banner_layer list option item_op" where
  "read_component_value env p kind i =
     (if kind = Cc_BannerPatterns
      then and_then (decode_banner_pattern_layers env p) (\<lambda>layers. ok (Some layers))
      else and_then (skip_component env kind i) (\<lambda>_. ok None))"

definition patch_add ::
  "item_profile \<Rightarrow> minecraft_identifier \<Rightarrow> wire_banner_layer list option \<Rightarrow> u8 list \<Rightarrow> wire_patch \<Rightarrow> item_error + wire_patch" where
  "patch_add p i banner_patterns bytes patch =
     (if MAX_COMPONENT_VALUE_BYTES < length bytes
      then Inl (Item_PayloadTooLarge ''item component'' (length bytes) MAX_COMPONENT_VALUE_BYTES)
      else if bt_contains i (wp_added patch) then Inl (Item_DuplicateComponent i)
      else
        and_also (component_hash p i bytes) (\<lambda>hash.
        Inr (patch\<lparr>wp_added := bt_insert i bytes (wp_added patch),
               wp_hashes := (case hash of None \<Rightarrow> wp_hashes patch | Some h \<Rightarrow> bt_insert i h (wp_hashes patch)),
               wp_banner_patterns :=
                 (case banner_patterns of None \<Rightarrow> wp_banner_patterns patch | Some layers \<Rightarrow> Some layers)\<rparr>)))"

definition read_added_component :: "nbt_env \<Rightarrow> item_profile \<Rightarrow> wire_patch \<Rightarrow> wire_patch item_op" where
  "read_added_component env p patch =
     and_then (read_nonnegative ''component type'') (\<lambda>raw.
     case bt_get raw (ip_components p) of
       None \<Rightarrow> fail (Item_UnknownComponentId raw)
     | Some (i, kind) \<Rightarrow>
         and_then (with_consumed (read_component_value env p kind i)) (\<lambda>(banner_patterns, bytes).
         lift_result (patch_add p i banner_patterns bytes patch)))"

definition read_removed_component :: "item_profile \<Rightarrow> wire_patch \<Rightarrow> wire_patch item_op" where
  "read_removed_component p patch =
     and_then (read_nonnegative ''removed component type'') (\<lambda>raw.
     case bt_get raw (ip_components p) of
       None \<Rightarrow> fail (Item_UnknownComponentId raw)
     | Some (i, _) \<Rightarrow>
         if bt_contains i (wp_added patch) \<or> i \<in> set (wp_removed patch) then fail (Item_DuplicateComponent i)
         else ok (patch\<lparr>wp_removed := set_insert i (wp_removed patch)\<rparr>))"

text \<open>\<open>for _ in 0..n { m?; }\<close> with a patch that the body updates.\<close>

fun update_n :: "nat \<Rightarrow> (wire_patch \<Rightarrow> wire_patch item_op) \<Rightarrow> wire_patch \<Rightarrow> wire_patch item_op" where
  "update_n 0 m patch = ok patch"
| "update_n (Suc n) m patch = and_then (m patch) (\<lambda>patch'. update_n n m patch')"

definition decode_nonempty_stack :: "nbt_env \<Rightarrow> item_profile \<Rightarrow> i32 \<Rightarrow> u32 \<Rightarrow> wire_item_stack item_op" where
  "decode_nonempty_stack env p n raw_item =
     (if n <s 0 \<or> MAX_STACK_COUNT < unat n
      then fail (Item_ValueOutOfRange ''item count'' (sint n) (int MAX_STACK_COUNT))
      else
        case bt_get raw_item (ip_items p) of
          None \<Rightarrow> fail (Item_UnknownItemId raw_item)
        | Some i \<Rightarrow>
            and_then (read_bounded_count ''added component count'' WIRE_COMPONENTS_PER_STACK) (\<lambda>added_count.
            and_then (read_bounded_count ''removed component count'' (WIRE_COMPONENTS_PER_STACK - added_count)) (\<lambda>removed_count.
            and_then (update_n added_count (read_added_component env p) wire_patch_default) (\<lambda>patch.
            and_then (update_n removed_count (read_removed_component p) patch) (\<lambda>patch'.
            ok \<lparr>wis_item = i, wis_count = n, wis_components = patch'\<rparr>)))))"

definition decode_item_stack :: "nbt_env \<Rightarrow> item_profile \<Rightarrow> wire_item_stack option item_op" where
  "decode_item_stack env p =
     and_then (item_read read_var_int) (\<lambda>n.
     if n = 0 then ok None
     else
       and_then (read_nonnegative ''item ID'') (\<lambda>raw_item.
       and_then (decode_nonempty_stack env p n raw_item) (\<lambda>stack. ok (Some stack))))"

definition decode_item_stack_template :: "nbt_env \<Rightarrow> item_profile \<Rightarrow> wire_item_stack item_op" where
  "decode_item_stack_template env p =
     and_then (read_nonnegative ''item ID'') (\<lambda>raw_item.
     and_then (item_read read_var_int) (\<lambda>n. decode_nonempty_stack env p n raw_item))"

section \<open>Clientbound packets\<close>

record set_content_packet =
  sc_container_id :: u32
  sc_state_id :: i32
  sc_items :: "wire_item_stack option list"
  sc_carried :: "wire_item_stack option"

record set_slot_packet =
  ss_container_id :: u32
  ss_state_id :: i32
  ss_slot :: i16
  ss_item :: "wire_item_stack option"

record open_screen_packet =
  os_container_id :: u32
  os_menu :: minecraft_identifier
  os_title_nbt :: "u8 list"
  os_title_plain_text :: rust_str

record set_data_packet =
  sd_container_id :: u32
  sd_property :: i16
  sd_value :: i16

datatype inventory_packet =
    Inv_Close u32
  | Inv_SetContent set_content_packet
  | Inv_SetData set_data_packet
  | Inv_SetSlot set_slot_packet
  | Inv_OpenScreen open_screen_packet
  | Inv_SetHeldSlot u8

text \<open>Reading a whole body.\<close>

definition whole_body :: "'a item_op \<Rightarrow> u8 list \<Rightarrow> item_error + 'a" where
  "whole_body m body = fst (and_then m (\<lambda>x. and_then item_finish (\<lambda>_. ok x)) (new_reader body))"

definition decode_container_set_content :: "nbt_env \<Rightarrow> item_profile \<Rightarrow> u8 list \<Rightarrow> item_error + set_content_packet" where
  "decode_container_set_content env p body = whole_body
     (and_then (read_nonnegative ''container ID'') (\<lambda>container_id.
      and_then (item_read read_var_int) (\<lambda>state.
      and_then (read_bounded_count ''container slot count'' WIRE_CONTAINER_SLOTS) (\<lambda>n.
      and_then (read_n n (decode_item_stack env p)) (\<lambda>items.
      and_then (decode_item_stack env p) (\<lambda>carried_stack.
      ok \<lparr>sc_container_id = container_id, sc_state_id = state, sc_items = items, sc_carried = carried_stack\<rparr>)))))) body"

definition decode_container_set_slot :: "nbt_env \<Rightarrow> item_profile \<Rightarrow> u8 list \<Rightarrow> item_error + set_slot_packet" where
  "decode_container_set_slot env p body = whole_body
     (and_then (read_nonnegative ''container ID'') (\<lambda>container_id.
      and_then (item_read read_var_int) (\<lambda>state.
      and_then (item_read read_i16) (\<lambda>slot.
      and_then (decode_item_stack env p) (\<lambda>stack.
      ok \<lparr>ss_container_id = container_id, ss_state_id = state, ss_slot = slot, ss_item = stack\<rparr>))))) body"

definition decode_open_screen :: "nbt_env \<Rightarrow> item_profile \<Rightarrow> u8 list \<Rightarrow> item_error + open_screen_packet" where
  "decode_open_screen env p body = whole_body
     (and_then (read_nonnegative ''container ID'') (\<lambda>container_id.
      and_then (read_nonnegative ''menu type'') (\<lambda>menu_id.
      and_then (lift_result (case bt_get menu_id (ip_menus p) of
          None \<Rightarrow> Inl (Item_UnknownMenuId menu_id) | Some m \<Rightarrow> Inr m)) (\<lambda>menu.
      and_then (with_consumed (map_err Item_Bootstrap (decode_text_component env))) (\<lambda>(title, title_nbt).
      if max_encoded_bytes TITLE_LIMITS < length title_nbt
      then fail (Item_PayloadTooLarge ''container title'' (length title_nbt) (max_encoded_bytes TITLE_LIMITS))
      else ok \<lparr>os_container_id = container_id, os_menu = menu, os_title_nbt = title_nbt,
               os_title_plain_text = tc_plain_text title\<rparr>))))) body"

definition decode_container_close :: "u8 list \<Rightarrow> item_error + u32" where
  "decode_container_close body = whole_body (read_nonnegative ''container ID'') body"

definition decode_container_set_data :: "u8 list \<Rightarrow> item_error + set_data_packet" where
  "decode_container_set_data body = whole_body
     (and_then (read_nonnegative ''container ID'') (\<lambda>container_id.
      and_then (item_read read_i16) (\<lambda>property.
      and_then (item_read read_i16) (\<lambda>v.
      ok \<lparr>sd_container_id = container_id, sd_property = property, sd_value = v\<rparr>)))) body"

definition decode_set_held_slot :: "u8 list \<Rightarrow> item_error + u8" where
  "decode_set_held_slot body = whole_body
     (and_then (read_nonnegative ''held slot'') (\<lambda>slot.
      if 256 \<le> slot \<or> 8 < slot then fail (Item_ValueOutOfRange ''held slot'' (uint slot) 8) else ok (ucast slot))) body"

definition decode_inventory_clientbound ::
  "nbt_env \<Rightarrow> item_profile \<Rightarrow> u8 list \<Rightarrow> item_error + inventory_packet option" where
  "decode_inventory_clientbound env p frame_body =
     (case split_raw_packet frame_body of
        Inl e \<Rightarrow> Inl (Item_Codec e)
      | Inr packet \<Rightarrow>
          (let pid = packet_id packet; body = payload packet in
           if pid = CONTAINER_CLOSE_ID then and_also (decode_container_close body) (\<lambda>c. Inr (Some (Inv_Close c)))
           else if pid = CONTAINER_SET_CONTENT_ID
             then and_also (decode_container_set_content env p body) (\<lambda>c. Inr (Some (Inv_SetContent c)))
           else if pid = CONTAINER_SET_DATA_ID
             then and_also (decode_container_set_data body) (\<lambda>d. Inr (Some (Inv_SetData d)))
           else if pid = CONTAINER_SET_SLOT_ID
             then and_also (decode_container_set_slot env p body) (\<lambda>s. Inr (Some (Inv_SetSlot s)))
           else if pid = OPEN_SCREEN_ID then and_also (decode_open_screen env p body) (\<lambda>s. Inr (Some (Inv_OpenScreen s)))
           else if pid = SET_HELD_SLOT_ID then and_also (decode_set_held_slot body) (\<lambda>s. Inr (Some (Inv_SetHeldSlot s)))
           else Inr None))"

section \<open>Serverbound packets\<close>

record hashed_stack =
  hs_item :: minecraft_identifier
  hs_count :: u32
  hs_added :: "(minecraft_identifier, i32) btree_map"
  hs_removed :: "minecraft_identifier list"

record container_click_packet =
  cc_container_id :: u32
  cc_state_id :: i32
  cc_slot :: i16
  cc_button :: i8
  cc_mode :: i32
  cc_changed_slots :: "(int, hashed_stack option) btree_map"
  cc_carried :: "hashed_stack option"

definition lookup_or :: "item_error \<Rightarrow> 'a option \<Rightarrow> ('a \<Rightarrow> item_writer) \<Rightarrow> item_writer" where
  "lookup_or e found f = (case found of None \<Rightarrow> fail e | Some x \<Rightarrow> f x)"

definition write_component_type :: "item_profile \<Rightarrow> minecraft_identifier \<Rightarrow> item_writer" where
  "write_component_type p i =
     lookup_or (Item_UnknownComponent i) (component_raw_id p i) (\<lambda>raw. write_u32_varint raw ''component type'')"

definition encode_hashed_stack :: "item_profile \<Rightarrow> hashed_stack option \<Rightarrow> item_writer" where
  "encode_hashed_stack p stack =
     (case stack of
        None \<Rightarrow> emit (write_bool False)
      | Some s \<Rightarrow>
          and_then (emit (write_bool True)) (\<lambda>_.
          lookup_or (Item_UnknownItem (hs_item s)) (item_raw_id p (hs_item s)) (\<lambda>raw_item.
          and_then (write_u32_varint raw_item ''item ID'') (\<lambda>_.
          and_then (write_u32_varint (hs_count s) ''item count'') (\<lambda>_.
          and_then (write_len (length (hs_added s)) ''hashed component count'') (\<lambda>_.
          and_then (each_write (\<lambda>(i, hash). and_then (write_component_type p i) (\<lambda>_. emit (write_i32 hash)))
                      (hs_added s)) (\<lambda>_.
          and_then (write_len (length (hs_removed s)) ''removed component count'') (\<lambda>_.
          each_write (write_component_type p) (hs_removed s)))))))))"

definition encode_container_click :: "item_profile \<Rightarrow> container_click_packet \<Rightarrow> item_writer" where
  "encode_container_click p c =
     (if MAX_CHANGED_SLOTS < length (cc_changed_slots c)
      then fail (Item_TooManyChangedSlots (length (cc_changed_slots c)) MAX_CHANGED_SLOTS)
      else
        and_then (write_u32_varint (cc_container_id c) ''container ID'') (\<lambda>_.
        and_then (emit (write_var_int (cc_state_id c))) (\<lambda>_.
        and_then (emit (write_i16 (cc_slot c))) (\<lambda>_.
        and_then (emit (write_i8 (cc_button c))) (\<lambda>_.
        and_then (emit (write_var_int (cc_mode c))) (\<lambda>_.
        and_then (write_len (length (cc_changed_slots c)) ''changed slot count'') (\<lambda>_.
        and_then (each_write (\<lambda>(slot, stack). and_then (emit (write_i16 (word_of_int slot))) (\<lambda>_. encode_hashed_stack p stack))
                    (cc_changed_slots c)) (\<lambda>_.
        encode_hashed_stack p (cc_carried c)))))))))"

text \<open>The bytes of a writer, and a packet of them.\<close>

definition written :: "item_writer \<Rightarrow> item_error + u8 list" where
  "written m = (case m new_writer of (Inl e, _) \<Rightarrow> Inl e | (Inr _, w) \<Rightarrow> Inr (out_bytes w))"

definition framed :: "i32 \<Rightarrow> u8 list \<Rightarrow> item_error + u8 list" where
  "framed pid body =
     (case encode_frame (out_bytes (write_bytes body (write_var_int pid new_writer))) MAX_BOOTSTRAP_FRAME_SIZE of
        Inl e \<Rightarrow> Inl (Item_Codec e) | Inr bytes \<Rightarrow> Inr bytes)"

definition encode_play_container_click :: "item_profile \<Rightarrow> container_click_packet \<Rightarrow> item_error + u8 list" where
  "encode_play_container_click p c =
     and_also (written (encode_container_click p c)) (\<lambda>body. framed SERVERBOUND_CONTAINER_CLICK_ID body)"

definition encode_play_container_close :: "u32 \<Rightarrow> item_error + u8 list" where
  "encode_play_container_close container_id =
     and_also (written (write_u32_varint container_id ''container ID'')) (\<lambda>body. framed SERVERBOUND_CONTAINER_CLOSE_ID body)"

definition encode_play_set_carried_item :: "u8 \<Rightarrow> item_error + u8 list" where
  "encode_play_set_carried_item slot =
     (if 8 < slot then Inl (Item_ValueOutOfRange ''hotbar slot'' (uint slot) 8)
      else and_also (written (emit (write_i16 (ucast slot)))) (\<lambda>body. framed SERVERBOUND_SET_CARRIED_ITEM_ID body))"

definition encode_added_component_value ::
  "nbt_env \<Rightarrow> item_profile \<Rightarrow> wire_item_stack \<Rightarrow> u8 list \<Rightarrow> component_codec \<Rightarrow> item_error + u8 list" where
  "encode_added_component_value env p stack v kind =
     and_also
       (if kind = Cc_BannerPatterns then
          and_also (case wp_banner_patterns (wis_components stack) of
              Some layers \<Rightarrow> Inr layers
            | None \<Rightarrow> whole_body (decode_banner_pattern_layers env p) v) (\<lambda>layers.
          written (encode_banner_pattern_layers p layers))
        else Inr v) (\<lambda>encoded.
     if MAX_COMPONENT_VALUE_BYTES < length encoded
     then Inl (Item_PayloadTooLarge ''item component'' (length encoded) MAX_COMPONENT_VALUE_BYTES)
     else Inr encoded)"

definition write_added_component ::
  "nbt_env \<Rightarrow> item_profile \<Rightarrow> wire_item_stack \<Rightarrow> minecraft_identifier \<times> u8 list \<Rightarrow> item_writer" where
  "write_added_component env p stack = (\<lambda>(i, v).
     lookup_or (Item_UnknownComponent i) (component_raw_id p i) (\<lambda>raw.
     and_then (write_u32_varint raw ''component type'') (\<lambda>_.
     lookup_or (Item_UnknownComponent i) (bt_get raw (ip_components p)) (\<lambda>(_, kind).
     and_then (lift_result (encode_added_component_value env p stack v kind)) (\<lambda>component_value.
     and_then (write_len (length component_value) ''item component length'') (\<lambda>_.
     emit (write_bytes component_value)))))))"

definition encode_item_stack :: "nbt_env \<Rightarrow> item_profile \<Rightarrow> wire_item_stack option \<Rightarrow> item_writer" where
  "encode_item_stack env p optional_stack =
     (case optional_stack of
        None \<Rightarrow> emit (write_var_int 0)
      | Some stack \<Rightarrow>
          if wis_count stack = 0 \<or> MAX_STACK_COUNT < unat (wis_count stack)
          then fail (Item_ValueOutOfRange ''item count'' (uint (wis_count stack)) (int MAX_STACK_COUNT))
          else
            and_then (emit (write_var_int (wis_count stack))) (\<lambda>_.
            lookup_or (Item_UnknownItem (wis_item stack)) (item_raw_id p (wis_item stack)) (\<lambda>raw_item.
            and_then (write_u32_varint raw_item ''item ID'') (\<lambda>_.
            and_then (write_len (length (wp_added (wis_components stack))) ''added component count'') (\<lambda>_.
            and_then (write_len (length (wp_removed (wis_components stack))) ''removed component count'') (\<lambda>_.
            and_then (each_write (write_added_component env p stack) (wp_added (wis_components stack))) (\<lambda>_.
            each_write (write_component_type p) (wp_removed (wis_components stack)))))))))"

definition encode_play_set_creative_slot ::
  "nbt_env \<Rightarrow> item_profile \<Rightarrow> i16 \<Rightarrow> wire_item_stack option \<Rightarrow> item_error + u8 list" where
  "encode_play_set_creative_slot env p slot stack =
     (if sint slot < - 1 \<or> 46 \<le> sint slot then Inl (Item_ValueOutOfRange ''Creative inventory slot'' (sint slot) 45)
      else
        and_also (written (and_then (emit (write_i16 slot)) (\<lambda>_. encode_item_stack env p stack))) (\<lambda>body.
        framed SERVERBOUND_SET_CREATIVE_SLOT_ID body))"

definition encode_play_container_button_click :: "u32 \<Rightarrow> u32 \<Rightarrow> item_error + u8 list" where
  "encode_play_container_button_click container_id button =
     and_also (written (and_then (write_u32_varint container_id ''container ID'') (\<lambda>_.
                        write_u32_varint button ''container button''))) (\<lambda>body.
     framed SERVERBOUND_CONTAINER_BUTTON_CLICK_ID body)"

end
