(* ===== verification/Item_Valid.thy ===== *)
theory Item_Valid
  imports Item_Packets Receive_Valid
begin

text \<open>
  What the decoders of inventory packets promise on arbitrary input: bounded counts and sizes, and a
  component patch whose added, removed and hashed components fit together.
\<close>

lemma read_nonnegative_Inr: "read_nonnegative ctx r = (Inr v, r') \<Longrightarrow> unat v \<le> i32_MAX"
  by (auto simp: read_nonnegative_def and_then_Inr_iff run_simps nonneg_i32_iff split: if_splits)

lemma read_bounded_count_Inr: "read_bounded_count ctx m r = (Inr n, r') \<Longrightarrow> n \<le> m"
  by (auto simp: read_bounded_count_def and_then_Inr_iff run_simps split: if_splits)

lemma read_n_forall:
  assumes "\<And>r v r'. m r = (Inr v, r') \<Longrightarrow> P v"
  shows "read_n n m r = (Inr xs, r') \<Longrightarrow> length xs = n \<and> list_all P xs"
proof (induction n arbitrary: r xs)
  case (Suc n)
  then show ?case using assms by (fastforce simp: and_then_Inr_iff run_simps)
qed (simp add: run_simps)

lemma sorted_insort_new: "sorted_wrt (<) xs \<Longrightarrow> x \<notin> set xs \<Longrightarrow> sorted_wrt (<) (insort x xs)"
  by (simp add: strict_sorted_iff sorted_insort distinct_insort)

section \<open>Component patches\<close>

definition patch_wf :: "wire_patch \<Rightarrow> bool" where
  "patch_wf patch \<longleftrightarrow> bt_sorted (wp_added patch) \<and> bt_sorted (wp_hashes patch) \<and>
     sorted_wrt (<) (wp_removed patch) \<and> list_all (\<lambda>(_, bytes). length bytes \<le> MAX_COMPONENT_VALUE_BYTES) (wp_added patch) \<and>
     fst ` set (wp_hashes patch) \<subseteq> fst ` set (wp_added patch) \<and> set (wp_removed patch) \<inter> fst ` set (wp_added patch) = {}"

definition wire_stack_wf :: "wire_item_stack \<Rightarrow> bool" where
  "wire_stack_wf s \<longleftrightarrow> wis_count s \<noteq> 0 \<and> unat (wis_count s) \<le> MAX_STACK_COUNT \<and> patch_wf (wis_components s) \<and>
     length (wp_added (wis_components s)) + length (wp_removed (wis_components s)) \<le> WIRE_COMPONENTS_PER_STACK"

lemma bt_insert_new_length: "\<not> bt_contains k m \<Longrightarrow> length (bt_insert k v m) = Suc (length m)"
  by (induction k v m rule: bt_insert.induct) (auto simp: bt_contains_def bt_get_def split: if_splits)

lemma bt_insert_all: "list_all P m \<Longrightarrow> P (k, v) \<Longrightarrow> list_all P (bt_insert k v m)"
  by (induction k v m rule: bt_insert.induct) auto

lemma bt_contains_iff: "bt_contains k m \<longleftrightarrow> k \<in> fst ` set m"
  by (simp add: bt_contains_def bt_get_def map_of_eq_None_iff)

lemma patch_add_wf:
  assumes "patch_add p i layers bytes patch = Inr patch'" and "patch_wf patch" and "wp_removed patch = []"
  shows "patch_wf patch' \<and> length (wp_added patch') = Suc (length (wp_added patch)) \<and> wp_removed patch' = []"
proof -
  from assms(1) obtain hash where new: "\<not> bt_contains i (wp_added patch)" "length bytes \<le> MAX_COMPONENT_VALUE_BYTES"
    and patch': "patch' = patch\<lparr>wp_added := bt_insert i bytes (wp_added patch),
               wp_hashes := (case hash of None \<Rightarrow> wp_hashes patch | Some h \<Rightarrow> bt_insert i h (wp_hashes patch)),
               wp_banner_patterns :=
                 (case layers of None \<Rightarrow> wp_banner_patterns patch | Some l \<Rightarrow> Some l)\<rparr>"
    by (auto simp: patch_add_def split: if_splits)
  from new assms(2,3) show ?thesis unfolding patch'
    by (cases hash) (auto simp: patch_wf_def bt_insert_sorted bt_insert_keys bt_insert_new_length bt_insert_all)
qed

lemma read_added_component_wf:
  "read_added_component env p patch r = (Inr patch', r') \<Longrightarrow> patch_wf patch \<Longrightarrow> wp_removed patch = [] \<Longrightarrow>
   patch_wf patch' \<and> length (wp_added patch') = Suc (length (wp_added patch)) \<and> wp_removed patch' = []"
  by (auto simp: read_added_component_def and_then_Inr_iff run_simps split: option.splits prod.splits
      dest: patch_add_wf)

lemma set_remove_wf:
  assumes "patch_wf patch" and "\<not> bt_contains i (wp_added patch)" and "i \<notin> set (wp_removed patch)"
  shows "patch_wf (patch\<lparr>wp_removed := set_insert i (wp_removed patch)\<rparr>)"
    and "length (set_insert i (wp_removed patch)) = Suc (length (wp_removed patch))"
  using assms by (auto simp: patch_wf_def set_insert_def set_insort_key bt_contains_iff sorted_insort_new)

lemma read_removed_component_wf:
  assumes "read_removed_component p patch r = (Inr patch', r')" and "patch_wf patch"
  shows "patch_wf patch' \<and> wp_added patch' = wp_added patch \<and> length (wp_removed patch') = Suc (length (wp_removed patch))"
proof -
  obtain i where "\<not> bt_contains i (wp_added patch)" "i \<notin> set (wp_removed patch)"
      "patch' = patch\<lparr>wp_removed := set_insert i (wp_removed patch)\<rparr>"
    using assms(1) by (auto simp: read_removed_component_def and_then_Inr_iff run_simps split: option.splits if_splits)
  then show ?thesis using set_remove_wf[OF assms(2)] by simp
qed

lemma update_n_added:
  "update_n n (read_added_component env p) patch r = (Inr patch', r') \<Longrightarrow> patch_wf patch \<Longrightarrow> wp_removed patch = [] \<Longrightarrow>
   patch_wf patch' \<and> length (wp_added patch') = length (wp_added patch) + n \<and> wp_removed patch' = []"
proof (induction n arbitrary: patch r)
  case (Suc n)
  then show ?case using read_added_component_wf by (fastforce simp: and_then_Inr_iff)
qed (simp add: run_simps)

lemma update_n_removed:
  "update_n n (read_removed_component p) patch r = (Inr patch', r') \<Longrightarrow> patch_wf patch \<Longrightarrow>
   patch_wf patch' \<and> wp_added patch' = wp_added patch \<and> length (wp_removed patch') = length (wp_removed patch) + n"
proof (induction n arbitrary: patch r)
  case (Suc n)
  then show ?case using read_removed_component_wf by (fastforce simp: and_then_Inr_iff)
qed (simp add: run_simps)

lemma patch_default_wf: "patch_wf wire_patch_default"
  by (simp add: patch_wf_def wire_patch_default_def bt_sorted_def)

lemma decode_nonempty_stack_wf:
  assumes "decode_nonempty_stack env p n raw r = (Inr s, r')" and "n \<noteq> 0"
  shows "wire_stack_wf s"
proof -
  from assms(1) obtain i a d r1 r2 r3 patch patch' where
    n: "unat n \<le> MAX_STACK_COUNT" and
    a: "read_bounded_count ''added component count'' WIRE_COMPONENTS_PER_STACK r = (Inr a, r1)" and
    d: "read_bounded_count ''removed component count'' (WIRE_COMPONENTS_PER_STACK - a) r1 = (Inr d, r2)" and
    patch: "update_n a (read_added_component env p) wire_patch_default r2 = (Inr patch, r3)" and
    patch': "update_n d (read_removed_component p) patch r3 = (Inr patch', r')" and
    s: "s = \<lparr>wis_item = i, wis_count = n, wis_components = patch'\<rparr>"
    by (auto simp: decode_nonempty_stack_def and_then_Inr_iff run_simps split: if_splits option.splits)
  have "wp_removed wire_patch_default = []" "wp_added wire_patch_default = []" by (simp_all add: wire_patch_default_def)
  with update_n_added[OF patch patch_default_wf] have
    "patch_wf patch" "length (wp_added patch) = a" "wp_removed patch = []" by simp_all
  with update_n_removed[OF patch'] have "patch_wf patch'" "length (wp_added patch') = a" "length (wp_removed patch') = d"
    by simp_all
  then show ?thesis
    using n assms(2) read_bounded_count_Inr[OF a] read_bounded_count_Inr[OF d] by (simp add: s wire_stack_wf_def)
qed

lemma decode_item_stack_wf: "decode_item_stack env p r = (Inr s, r') \<Longrightarrow> pred_option wire_stack_wf s"
  by (auto simp: decode_item_stack_def and_then_Inr_iff run_simps split: if_splits dest: decode_nonempty_stack_wf)

section \<open>Packets\<close>

text \<open>A container id and the rest of a packet are in the range the inventory works with.\<close>

fun inventory_packet_valid :: "item_profile \<Rightarrow> inventory_packet \<Rightarrow> bool" where
  "inventory_packet_valid p (Inv_Close cid) \<longleftrightarrow> unat cid \<le> i32_MAX"
| "inventory_packet_valid p (Inv_SetContent c) \<longleftrightarrow>
     unat (sc_container_id c) \<le> i32_MAX \<and> length (sc_items c) \<le> WIRE_CONTAINER_SLOTS \<and>
     list_all (pred_option wire_stack_wf) (sc_items c) \<and> pred_option wire_stack_wf (sc_carried c)"
| "inventory_packet_valid p (Inv_SetData d) \<longleftrightarrow> unat (sd_container_id d) \<le> i32_MAX"
| "inventory_packet_valid p (Inv_SetSlot s) \<longleftrightarrow>
     unat (ss_container_id s) \<le> i32_MAX \<and> pred_option wire_stack_wf (ss_item s)"
| "inventory_packet_valid p (Inv_OpenScreen s) \<longleftrightarrow>
     unat (os_container_id s) \<le> i32_MAX \<and> os_menu s \<in> snd ` set (ip_menus p) \<and>
     length (os_title_nbt s) \<le> max_encoded_bytes TITLE_LIMITS"
| "inventory_packet_valid p (Inv_SetHeldSlot slot) \<longleftrightarrow> slot \<le> 8"

lemma whole_body_Inr: "whole_body m body = Inr x \<Longrightarrow> \<exists>r'. m (new_reader body) = (Inr x, r')"
  by (auto simp: whole_body_def and_then_def ok_def split: prod.splits sum.splits)

lemma read_n_stacks:
  "read_n n (decode_item_stack env p) r = (Inr xs, r') \<Longrightarrow> length xs = n \<and> list_all (pred_option wire_stack_wf) xs"
  by (rule read_n_forall[OF decode_item_stack_wf])

lemma set_content_valid: "decode_container_set_content env p body = Inr c \<Longrightarrow> inventory_packet_valid p (Inv_SetContent c)"
  unfolding decode_container_set_content_def
  by (auto simp: and_then_Inr_iff run_simps dest!: whole_body_Inr read_nonnegative_Inr read_bounded_count_Inr
      read_n_stacks decode_item_stack_wf)

lemma set_slot_valid: "decode_container_set_slot env p body = Inr s \<Longrightarrow> inventory_packet_valid p (Inv_SetSlot s)"
  unfolding decode_container_set_slot_def
  by (auto simp: and_then_Inr_iff run_simps dest!: whole_body_Inr read_nonnegative_Inr decode_item_stack_wf)

lemma bt_get_value: "bt_get k m = Some v \<Longrightarrow> v \<in> snd ` set m"
  by (force simp: bt_get_def dest: map_of_SomeD)

lemma open_screen_valid: "decode_open_screen env p body = Inr s \<Longrightarrow> inventory_packet_valid p (Inv_OpenScreen s)"
  unfolding decode_open_screen_def
  by (auto simp: and_then_Inr_iff run_simps dest!: whole_body_Inr read_nonnegative_Inr
      split: if_splits option.splits prod.splits) (rule bt_get_value)

lemma held_slot_valid: "decode_set_held_slot body = Inr slot \<Longrightarrow> slot \<le> 8"
  unfolding decode_set_held_slot_def
  by (auto simp: and_then_Inr_iff run_simps word_le_nat_alt word_less_nat_alt unat_ucast not_le dest!: whole_body_Inr
      split: if_splits)

lemma set_data_valid: "decode_container_set_data body = Inr d \<Longrightarrow> inventory_packet_valid p (Inv_SetData d)"
  unfolding decode_container_set_data_def
  by (auto simp: and_then_Inr_iff run_simps dest!: whole_body_Inr read_nonnegative_Inr)

lemma close_valid: "decode_container_close body = Inr c \<Longrightarrow> inventory_packet_valid p (Inv_Close c)"
  unfolding decode_container_close_def by (auto dest!: whole_body_Inr read_nonnegative_Inr)

lemma decode_inventory_valid:
  assumes "decode_inventory_clientbound env p f = Inr (Some packet)"
  shows "inventory_packet_valid p packet"
proof -
  obtain raw where raw: "split_raw_packet f = Inr raw"
    using assms by (auto simp: decode_inventory_clientbound_def split: sum.splits)
  show ?thesis
    using assms unfolding decode_inventory_clientbound_def raw Let_def
    by (auto split: if_splits dest: close_valid set_content_valid set_data_valid set_slot_valid open_screen_valid
        held_slot_valid simp del: inventory_packet_valid.simps(1-5))
qed

end
