(* ===== verification/Session_Items.thy ===== *)
theory Session_Items
  imports Item_Packets Inventory
begin

text \<open>
  \<open>cubic-network/src/chat_session.rs\<close>, what the session makes of inventory packets: component bytes become
  the values the world keeps, names and lore become plain text of at most 256 bytes, and a packet becomes an
  operation on the inventory. \<open>String::truncate\<close> panics when the new length is inside a character, so the
  projections are options and \<open>Session_Panic\<close> is the value of a session that panicked.
\<close>

datatype session_error =
    Session_Panic
  | Session_Inventory item_error
  | Session_Action string
  | Session_State inventory_error

type_synonym 'a session_op = "(codec_reader, session_error, 'a) fallible"

definition session_read :: "'a reader_op \<Rightarrow> 'a session_op" where
  "session_read m = map_err (\<lambda>e. Session_Inventory (Item_Codec e)) m"

text \<open>Reading all of the bytes, or the error for what is left.\<close>

definition exactly :: "string \<Rightarrow> 'a session_op \<Rightarrow> u8 list \<Rightarrow> session_error + 'a" where
  "exactly trailing m bytes =
     fst (and_then m (\<lambda>x r. if remaining r \<noteq> 0 then (Inl (Session_Action trailing), r) else (Inr x, r))
       (new_reader bytes))"

section \<open>Text\<close>

definition TOOLTIP_BYTES :: nat where "TOOLTIP_BYTES = 256"

definition truncate_tooltip :: "rust_str \<Rightarrow> rust_str option" where
  "truncate_tooltip s = (if TOOLTIP_BYTES < str_len s then truncate_str TOOLTIP_BYTES s else Some s)"

function (sequential)
  project_tooltip_text :: "nbt_tag \<Rightarrow> rust_str \<Rightarrow> nat \<Rightarrow> rust_str option" and
  project_tooltip_list :: "nbt_tag list \<Rightarrow> rust_str \<Rightarrow> nat \<Rightarrow> rust_str option"
where
  "project_tooltip_text val out depth =
     (if 16 \<le> depth \<or> TOOLTIP_BYTES \<le> str_len out then Some out
      else Option.bind
        (case val of
           Tag_String s \<Rightarrow> Some (out @ to_string_lossy s)
         | Tag_List _ elements \<Rightarrow> project_tooltip_list elements out (depth + 1)
         | Tag_Compound compound \<Rightarrow>
             Option.bind
               (case get_str (str ''text'') compound of
                  Some t \<Rightarrow> project_tooltip_text t out (depth + 1)
                | None \<Rightarrow> Some out) (\<lambda>out1.
             Option.bind
               (case get_str (str ''translate'') compound of
                  Some t \<Rightarrow> if out1 = [] then project_tooltip_text t out1 (depth + 1) else Some out1
                | None \<Rightarrow> Some out1) (\<lambda>out2.
             case get_str (str ''extra'') compound of
               Some (Tag_List _ extra) \<Rightarrow> project_tooltip_list extra out2 (depth + 1)
             | _ \<Rightarrow> Some out2))
         | _ \<Rightarrow> Some out)
        truncate_tooltip)"
| "project_tooltip_list [] out depth = Some out"
| "project_tooltip_list (child # children) out depth =
     Option.bind (project_tooltip_text child out depth) (\<lambda>out'. project_tooltip_list children out' depth)"
  by pat_completeness auto
termination
  by (relation "measure (case_sum (\<lambda>(v, _, _). size v) (\<lambda>(vs, _, _). size_list size vs))")
    (auto dest: size_get_list size_get_str simp del: nbt_tag.size(22))

declare project_tooltip_text.simps [simp del]

definition or_panic :: "'a option \<Rightarrow> session_error + 'a" where
  "or_panic x = (case x of None \<Rightarrow> Inl Session_Panic | Some v \<Rightarrow> Inr v)"

definition tooltip_line :: "nbt_tag \<Rightarrow> session_error + rust_str" where
  "tooltip_line val = or_panic (Option.bind (project_tooltip_text val [] 0) (truncate_str TOOLTIP_BYTES))"

definition project_component_text :: "nbt_env \<Rightarrow> u8 list \<Rightarrow> session_error + rust_str" where
  "project_component_text env bytes =
     (case decode_unnamed_network_tag_complete env nbt_limits_default bytes of
        Inl e \<Rightarrow> Inl (Session_Inventory (Item_Nbt e))
      | Inr val \<Rightarrow> tooltip_line val)"

definition read_lore_line :: "nbt_env \<Rightarrow> rust_str session_op" where
  "read_lore_line env =
     and_then (map_err (\<lambda>e. Session_Inventory (Item_Nbt e)) (decode_unnamed_network_tag env nbt_limits_default)) (\<lambda>val.
     lift_result (tooltip_line val))"

definition project_component_lore :: "nbt_env \<Rightarrow> u8 list \<Rightarrow> session_error + rust_str list" where
  "project_component_lore env = exactly ''lore component has trailing data''
     (and_then (session_read read_var_int) (\<lambda>n.
      if n <s 0 then fail (Session_Action ''negative lore line count'')
      else if 64 < unat n then fail (Session_Action ''lore line count exceeds its presentation bound'')
      else read_n (unat n) (read_lore_line env)))"

section \<open>Component values\<close>

definition property_limits :: string_limits where "property_limits = string_limits_new 128 512"

fun read_properties :: "nat \<Rightarrow> (rust_str, rust_str) btree_map \<Rightarrow> (rust_str, rust_str) btree_map session_op" where
  "read_properties 0 vs = ok vs"
| "read_properties (Suc n) vs =
     and_then (session_read (read_string property_limits)) (\<lambda>key.
     and_then (session_read (read_string property_limits)) (\<lambda>val.
     if bt_contains key vs then fail (Session_Action ''block-state component has a duplicate property'')
     else read_properties n (bt_insert key val vs)))"

definition decode_string_map :: "u8 list \<Rightarrow> session_error + (rust_str, rust_str) btree_map" where
  "decode_string_map = exactly ''block-state component has trailing data''
     (and_then (session_read read_var_int) (\<lambda>n.
      if n <s 0 \<or> 64 < unat n then fail (Session_Action ''block-state component property count is invalid'')
      else read_properties (unat n) []))"

definition semantic_component :: "nbt_env \<Rightarrow> minecraft_identifier \<Rightarrow> u8 list \<Rightarrow> session_error + component_value" where
  "semantic_component env i bytes =
     (if i \<in> set [''minecraft:max_stack_size'', ''minecraft:max_damage'', ''minecraft:damage'',
                  ''minecraft:repair_cost'', ''minecraft:enchantable''] then
        and_also (exactly ''primitive item component has trailing data'' (session_read read_var_int) bytes) (\<lambda>v.
        Inr (Component_VarInt (sint v)))
      else if i \<in> set [''minecraft:unbreakable'', ''minecraft:creative_slot_lock'',
                  ''minecraft:intangible_projectile'', ''minecraft:glider''] then Inr Component_Unit
      else if i = ''minecraft:enchantment_glint_override'' \<and> length bytes = 1 then
        Inr (Component_Bool (hd bytes \<noteq> 0))
      else if i = ''minecraft:item_model'' then
        and_also (exactly ''item model component has trailing data''
            (session_read (read_string (string_limits_new 256 1024))) bytes) (\<lambda>v.
        Inr (Component_Text v))
      else if i \<in> set [''minecraft:custom_name'', ''minecraft:item_name''] then
        and_also (project_component_text env bytes) (\<lambda>plain. Inr (Component_RichText plain bytes))
      else if i = ''minecraft:lore'' then
        and_also (project_component_lore env bytes) (\<lambda>ls. Inr (Component_Lore ls bytes))
      else if i = ''minecraft:block_state'' then
        and_also (decode_string_map bytes) (\<lambda>vs. Inr (Component_StringMap vs bytes))
      else Inr (Component_Opaque bytes))"

definition semantic_stack :: "nbt_env \<Rightarrow> wire_item_stack \<Rightarrow> session_error + item_stack" where
  "semantic_stack env s =
     and_also (try_each (\<lambda>(i, bytes). and_also (semantic_component env i bytes) (\<lambda>v. Inr (i, v)))
         (wp_added (wis_components s))) (\<lambda>added_values.
     case item_stack_new (wis_item s) (unat (wis_count s))
            \<lparr>added = added_values, removed = wp_removed (wis_components s),
             fingerprints = map (\<lambda>(i, h). (i, sint h)) (wp_hashes (wis_components s))\<rparr> of
       Inl e \<Rightarrow> Inl (Session_State e)
     | Inr stack \<Rightarrow> Inr stack)"

definition semantic_optional_stack :: "nbt_env \<Rightarrow> wire_item_stack option \<Rightarrow> session_error + item_stack option" where
  "semantic_optional_stack env s =
     (case s of None \<Rightarrow> Inr None | Some stack \<Rightarrow> and_also (semantic_stack env stack) (\<lambda>x. Inr (Some x)))"

section \<open>Inventory packets\<close>

type_synonym 'a session_step = "(inventory_state, session_error, 'a) fallible"

definition inventory_call :: "'a inventory_op \<Rightarrow> 'a session_step" where
  "inventory_call m = map_err (\<lambda>e. case e of Failed x \<Rightarrow> Session_State x | Panicked \<Rightarrow> Session_Panic) m"

definition insert_property :: "int \<Rightarrow> int \<Rightarrow> unit container_op" where
  "insert_property property v c = (Inr (), c\<lparr>properties := bt_insert property v (properties c)\<rparr>)"

definition apply_inventory_packet :: "nbt_env \<Rightarrow> inventory_packet \<Rightarrow> unit session_step" where
  "apply_inventory_packet env packet =
     (case packet of
        Inv_OpenScreen p \<Rightarrow>
          and_then (lift_result (case container_new (unat (os_container_id p)) (Menu (os_menu p)) (os_title_plain_text p) 0 of
              Inl e \<Rightarrow> Inl (Session_State e) | Inr c \<Rightarrow> Inr c)) (\<lambda>c.
          inventory_call (open_container c))
      | Inv_Close cid \<Rightarrow>
          (\<lambda>s. if open_container_state s = None then (Inr (), s) else inventory_call (close_container (unat cid)) s)
      | Inv_SetContent p \<Rightarrow>
          and_then (lift_result (try_each (semantic_optional_stack env) (sc_items p))) (\<lambda>stacks.
          and_then (lift_result (semantic_optional_stack env (sc_carried p))) (\<lambda>carried_stack.
          inventory_call (replace_content (unat (sc_container_id p)) (sint (sc_state_id p)) stacks carried_stack)))
      | Inv_SetSlot p \<Rightarrow>
          and_then (lift_result (semantic_optional_stack env (ss_item p))) (\<lambda>stack.
          inventory_call (set_slot (unat (ss_container_id p)) (sint (ss_state_id p)) (sint (ss_slot p)) stack))
      | Inv_SetData p \<Rightarrow>
          inventory_call (on_container (unat (sd_container_id p)) (insert_property (sint (sd_property p)) (sint (sd_value p))))
      | Inv_SetHeldSlot slot \<Rightarrow> inventory_call (set_selected_hotbar_slot (unat slot)))"

text \<open>One frame of the play phase, when the session keeps an inventory: whether it was an inventory packet.\<close>

definition session_inventory_frame :: "nbt_env \<Rightarrow> item_profile \<Rightarrow> u8 list \<Rightarrow> bool session_step" where
  "session_inventory_frame env p frame =
     (case decode_inventory_clientbound env p frame of
        Inl e \<Rightarrow> fail (Session_Inventory e)
      | Inr None \<Rightarrow> ok False
      | Inr (Some packet) \<Rightarrow> and_then (apply_inventory_packet env packet) (\<lambda>_. ok True))"

end
