(* ===== verification/Session_Items_Props.thy ===== *)
theory Session_Items_Props
  imports Session_Items Item_Valid Inventory_Props Receive_Props
begin

text \<open>
  The session on the inventory packets of a server: whatever arrives, the inventory stays well formed and holds
  valid stacks only; and the one way in which such a packet stops the session with a panic.
\<close>

section \<open>The stacks of an inventory\<close>

definition received_stack :: "item_stack \<Rightarrow> bool" where
  "received_stack s \<longleftrightarrow> 0 < count s \<and> count s \<le> MAX_STACK_COUNT \<and> validate_patch (components s) = Inr ()"

definition container_stacks :: "container_state \<Rightarrow> item_stack option set" where
  "container_stacks c = insert (carried c) (set (slots c))"

definition inventory_stacks :: "inventory_state \<Rightarrow> item_stack option set" where
  "inventory_stacks s = container_stacks (player s) \<union>
     (case open_container_state s of None \<Rightarrow> {} | Some c \<Rightarrow> container_stacks c)"

text \<open>Every stack is empty or as a packet may bring it.\<close>

definition stacks_received :: "item_stack option set \<Rightarrow> bool" where
  "stacks_received ss \<longleftrightarrow> (\<forall>x\<in>ss. pred_option received_stack x)"

definition inventory_received :: "inventory_state \<Rightarrow> bool" where
  "inventory_received s \<longleftrightarrow> inventory_wf s \<and> stacks_received (inventory_stacks s)"

lemma stacks_received_simps [simp]:
  "stacks_received (insert x ss) \<longleftrightarrow> pred_option received_stack x \<and> stacks_received ss"
  "stacks_received (ss \<union> ts) \<longleftrightarrow> stacks_received ss \<and> stacks_received ts"
  "stacks_received {}"
  by (auto simp: stacks_received_def)

lemma stacks_received_subset: "stacks_received ss \<Longrightarrow> ts \<subseteq> ss \<Longrightarrow> stacks_received ts"
  by (auto simp: stacks_received_def)

lemma received_slots_wf: "stacks_received (set ss) \<Longrightarrow> slots_wf ss" and
  received_nonempty: "pred_option received_stack x \<Longrightarrow> nonempty_stack x"
  by (auto simp: stacks_received_def slots_wf_def nonempty_stack_def received_stack_def list_all_iff pred_option_def
      split: option.splits)

section \<open>Operations of the server\<close>

lemma copy_slots_subset: "set (copy_slots i xs dest) \<subseteq> set xs \<union> set dest"
  by (induction i xs dest rule: copy_slots.induct) (auto dest!: set_update_subset_insert[THEN subsetD])

lemma synchronize_stacks: "inventory_stacks (synchronize_player_from cid s) \<subseteq> inventory_stacks s"
proof (cases "open_container_state s")
  case None
  then show ?thesis by (auto simp: synchronize_player_from_def inventory_stacks_def container_stacks_def)
next
  case (Some c)
  have "set (copy_slots 9 (drop (length (slots c) - 36) (slots c)) (slots (player s))) \<subseteq>
      set (slots c) \<union> set (slots (player s))"
    using copy_slots_subset[of 9 "drop (length (slots c) - 36) (slots c)" "slots (player s)"]
      set_drop_subset[of "length (slots c) - 36" "slots c"] by blast
  then show ?thesis
    using Some by (auto simp: synchronize_player_from_def inventory_stacks_def container_stacks_def Let_def)
qed

lemma inventory_stacks_drag [simp]: "inventory_stacks (s\<lparr>quick_craft := d\<rparr>) = inventory_stacks s"
  by (simp add: inventory_stacks_def)

text \<open>An operation on a container that adds only some stacks adds no others to the inventory.\<close>

lemma on_container_stacks:
  assumes "\<And>c. container_stacks (snd (m c)) \<subseteq> container_stacks c \<union> new"
  shows "inventory_stacks (snd (on_container cid m s)) \<subseteq> inventory_stacks s \<union> new"
proof (cases "find_container cid s")
  case (Inr c)
  have "container_stacks c \<subseteq> inventory_stacks s"
    using Inr by (auto simp: find_container_def inventory_stacks_def split: if_splits option.splits)
  then have "container_stacks (snd (m c)) \<subseteq> inventory_stacks s \<union> new" using assms[of c] by blast
  then show ?thesis
    using Inr by (auto simp: on_container_def store_container_def inventory_stacks_def split: prod.splits option.splits)
qed (simp add: on_container_def)

lemma server_update_stacks:
  assumes "\<And>c. container_stacks (snd (m c)) \<subseteq> container_stacks c \<union> new"
  shows "inventory_stacks (snd (server_update cid sid m s)) \<subseteq> inventory_stacks s \<union> new"
proof (cases "on_container cid m s")
  case (Pair res s')
  then have s': "inventory_stacks s' \<subseteq> inventory_stacks s \<union> new"
    using on_container_stacks[OF assms, of cid s] by simp
  then show ?thesis
    using Pair synchronize_stacks[of cid s'] synchronize_stacks[of cid "s'\<lparr>quick_craft := None\<rparr>"]
    by (cases res) (simp_all add: server_update_def Let_def, blast)
qed

lemma container_set_slot_stacks:
  "container_stacks (snd (container_set_slot sid slot stack c)) \<subseteq> container_stacks c \<union> {stack}"
  by (auto simp: container_set_slot_def container_stacks_def dest!: set_update_subset_insert[THEN subsetD] split: sum.splits)

lemma container_replace_content_stacks:
  "container_stacks (snd (container_replace_content sid ss cr c)) \<subseteq> container_stacks c \<union> insert cr (set ss)"
  by (auto simp: container_replace_content_def container_stacks_def)

lemma insert_property_stacks: "container_stacks (snd (insert_property k x c)) \<subseteq> container_stacks c \<union> {}"
  by (simp add: insert_property_def container_stacks_def)

text \<open>
  Well-formedness and received stacks together: an operation of the server that puts received stacks
  into a container keeps what the inventory promises.
\<close>

lemma received_server_update:
  assumes "inventory_received s" and "stacks_received new"
    and "\<And>c. container_stacks (snd (m c)) \<subseteq> container_stacks c \<union> new"
    and "\<And>c. container_wf c \<Longrightarrow> fst (m c) \<noteq> Inl Panicked \<and> container_wf (snd (m c)) \<and> container_id (snd (m c)) = container_id c"
  shows "inventory_received (snd (server_update cid sid m s))"
proof -
  have "inventory_wf (snd (server_update cid sid m s))"
    using server_update_keeps[OF _ assms(4), of s cid sid] assms(1) by (simp add: inventory_received_def)
  moreover have "stacks_received (inventory_stacks (snd (server_update cid sid m s)))"
    by (rule stacks_received_subset[OF _ server_update_stacks[OF assms(3)]])
      (use assms(1,2) in \<open>simp add: inventory_received_def\<close>)
  ultimately show ?thesis by (simp add: inventory_received_def)
qed

lemma received_set_slot:
  assumes "inventory_received s" and "pred_option received_stack x"
  shows "inventory_received (snd (set_slot cid sid slot x s))"
  unfolding set_slot_def
proof (rule received_server_update[OF assms(1)])
  show "stacks_received {x}" using assms(2) by simp
  show "container_stacks (snd (container_set_slot sid slot x c)) \<subseteq> container_stacks c \<union> {x}" for c
    by (rule container_set_slot_stacks)
  show "fst (container_set_slot sid slot x c) \<noteq> Inl Panicked \<and>
      container_wf (snd (container_set_slot sid slot x c)) \<and>
      container_id (snd (container_set_slot sid slot x c)) = container_id c" if "container_wf c" for c
    by (rule container_set_slot_keeps[OF that received_nonempty[OF assms(2)]])
qed

lemma received_replace_content:
  assumes "inventory_received s" and "stacks_received (insert cr (set ss))"
  shows "inventory_received (snd (replace_content cid sid ss cr s))"
  unfolding replace_content_def
proof (rule received_server_update[OF assms container_replace_content_stacks])
  show "fst (container_replace_content sid ss cr c) \<noteq> Inl Panicked \<and>
      container_wf (snd (container_replace_content sid ss cr c)) \<and>
      container_id (snd (container_replace_content sid ss cr c)) = container_id c" if "container_wf c" for c
    by (rule container_replace_content_keeps[OF that]) (use assms(2) in \<open>simp_all add: received_nonempty received_slots_wf\<close>)
qed

lemma received_property:
  assumes "inventory_received s"
  shows "inventory_received (snd (on_container cid (insert_property k x) s))"
proof -
  have "inventory_wf (snd (on_container cid (insert_property k x) s))"
    using on_container_keeps[of s "insert_property k x" cid] assms
    by (simp add: inventory_received_def insert_property_def container_wf_def)
  then show ?thesis
    using on_container_stacks[where m = "insert_property k x" and new = "{}", OF insert_property_stacks, of cid s] assms
    by (auto simp: inventory_received_def elim: stacks_received_subset)
qed

lemma received_open: "inventory_received s \<Longrightarrow> container_new cid m t 0 = Inr c \<Longrightarrow>
    inventory_received (snd (open_container c s))"
  using inventory_step_wf[OF step_open, of c s] container_new_wf[of cid m t 0 c]
  by (auto simp: inventory_received_def open_container_def inventory_stacks_def container_stacks_def container_new_def
      split: if_splits)

lemma received_close: "inventory_received s \<Longrightarrow> inventory_received (snd (close_container cid s))"
  using inventory_step_wf[OF step_close, of s cid]
  by (auto simp: inventory_received_def close_container_def inventory_stacks_def split: option.splits)

lemma received_select: "inventory_received s \<Longrightarrow> inventory_received (snd (set_selected_hotbar_slot slot s))"
  using inventory_step_wf[OF step_select, of s slot]
  by (auto simp: inventory_received_def set_selected_hotbar_slot_def inventory_stacks_def)

lemma received_new: "inventory_received inventory_new"
  by (simp add: inventory_received_def inventory_new_wf) (simp add: inventory_stacks_def container_stacks_def
      stacks_received_def inventory_new_def PLAYER_INVENTORY_SLOTS_def)

section \<open>Stacks from packets\<close>

lemma semantic_stack_received:
  assumes "semantic_stack env w = Inr s" and "wire_stack_wf w"
  shows "received_stack s"
  using assms by (auto simp: semantic_stack_def received_stack_def item_stack_new_def wire_stack_wf_def and_also_def
      unat_gt_0 split: sum.splits if_splits)

lemma semantic_optional_received:
  "semantic_optional_stack env w = Inr x \<Longrightarrow> pred_option wire_stack_wf w \<Longrightarrow> pred_option received_stack x"
  by (auto simp: semantic_optional_stack_def and_also_def semantic_stack_received split: option.splits sum.splits)

lemma try_each_all:
  "try_each f xs = Inr ys \<Longrightarrow> list_all P xs \<Longrightarrow> (\<And>x y. f x = Inr y \<Longrightarrow> P x \<Longrightarrow> Q y) \<Longrightarrow> list_all Q ys"
  by (induction xs arbitrary: ys) (auto simp: and_also_def split: sum.splits)

lemma inventory_call_snd [simp]: "snd (inventory_call m s) = snd (m s)"
  by (simp add: inventory_call_def map_err_def split: prod.splits sum.splits)

lemma received_and_then:
  assumes "inventory_received (snd (m s))"
    and "\<And>x s'. m s = (Inr x, s') \<Longrightarrow> inventory_received s' \<Longrightarrow> inventory_received (snd (f x s'))"
  shows "inventory_received (snd (and_then m f s))"
  using assms by (cases "m s") (auto simp: and_then_def split: sum.splits)

lemma lift_result_snd [simp]: "snd (lift_result x s) = s" and
  lift_result_Inr_iff [simp]: "lift_result x s = (Inr y, s') \<longleftrightarrow> x = Inr y \<and> s' = s"
  by (auto simp: lift_result_def)

lemma received_lift:
  assumes "inventory_received s" and "\<And>y. x = Inr y \<Longrightarrow> inventory_received (snd (f y s))"
  shows "inventory_received (snd (and_then (lift_result x) f s))"
  using assms by (cases x) (simp_all add: and_then_def lift_result_def)

lemma semantic_slots_received:
  "try_each (semantic_optional_stack env) ws = Inr xs \<Longrightarrow> list_all (pred_option wire_stack_wf) ws \<Longrightarrow>
   stacks_received (set xs)"
  using try_each_all[of "semantic_optional_stack env" ws xs "pred_option wire_stack_wf" "pred_option received_stack"]
    semantic_optional_received by (auto simp: stacks_received_def list_all_iff)

lemma apply_packet_received:
  assumes "inventory_received s" and "inventory_packet_valid p packet"
  shows "inventory_received (snd (apply_inventory_packet env packet s))"
proof (cases packet)
  case (Inv_OpenScreen x)
  show ?thesis unfolding Inv_OpenScreen apply_inventory_packet_def inventory_packet.case
    by (rule received_lift[OF assms(1)]) (auto simp: received_open[OF assms(1)] split: sum.splits)
next
  case (Inv_SetContent c)
  show ?thesis unfolding Inv_SetContent apply_inventory_packet_def inventory_packet.case
    by (intro received_lift assms(1))
      (use assms(2) Inv_SetContent semantic_slots_received semantic_optional_received
        in \<open>simp add: received_replace_content[OF assms(1)]\<close>)
next
  case (Inv_SetSlot d)
  show ?thesis unfolding Inv_SetSlot apply_inventory_packet_def inventory_packet.case
    by (rule received_lift[OF assms(1)])
      (use assms(2) Inv_SetSlot semantic_optional_received in \<open>simp add: received_set_slot[OF assms(1)]\<close>)
qed (use assms(1) in \<open>simp_all add: apply_inventory_packet_def received_close received_property received_select\<close>)

text \<open>Whatever frame the server sends, and wherever handling it stops with an error.\<close>

lemma inventory_frame_received:
  assumes "inventory_received s"
  shows "inventory_received (snd (session_inventory_frame env p frame s))"
proof (cases "decode_inventory_clientbound env p frame")
  case (Inr found)
  show ?thesis
  proof (cases found)
    case (Some packet)
    show ?thesis
      unfolding session_inventory_frame_def Inr Some sum.case option.case
      using apply_packet_received[OF assms decode_inventory_valid, of env p frame packet] Inr Some
      by (intro received_and_then) (simp_all add: run_simps)
  qed (use assms Inr in \<open>simp add: session_inventory_frame_def run_simps\<close>)
qed (use assms in \<open>simp add: session_inventory_frame_def run_simps\<close>)

text \<open>A frame that selects the fourth slot of the hotbar.\<close>

definition no_profile :: item_profile where
  "no_profile = \<lparr>ip_items = [], ip_item_raw_ids = [], ip_components = [], ip_component_raw_ids = [], ip_menus = [],
     ip_banner_patterns = [], ip_banner_pattern_raw_ids = []\<rparr>"

lemma select_slot_frame:
  "session_inventory_frame \<lparr>sizeof_tag = 32, sizeof_string = 24, try_reserve_exact = (\<lambda>_. True)\<rparr> no_profile [105, 3]
     inventory_new = (Inr True, inventory_new\<lparr>selected_hotbar_slot := 3\<rparr>) \<and>
   inventory_received (inventory_new\<lparr>selected_hotbar_slot := 3\<rparr>)"
proof -
  let ?env = "\<lparr>sizeof_tag = 32, sizeof_string = 24, try_reserve_exact = (\<lambda>_. True)\<rparr> :: nbt_env"
  have "split_raw_packet [105, 3] = Inr \<lparr>packet_id = 0x69, payload = [3]\<rparr>"
    using split_raw_packet_enc[of "0x69" "[3]"] by (simp add: enc_var.simps usize_MAX_def)
  moreover have "read_var_int \<lparr>input = [3], position = 0\<rparr> = (Inr 3, \<lparr>input = [3], position = 1\<rparr>)"
    using decodesD[OF decodes_read_var_int, of "[]" 3 "[]"] by (simp add: enc_var.simps usize_MAX_def reader_at_def)
  then have "decode_set_held_slot [3] = Inr 3"
    by (simp add: decode_set_held_slot_def whole_body_def new_reader_def read_nonnegative_def and_then_def item_read_def
        map_err_def item_finish_def remaining_def ok_def word_sless_alt)
  ultimately have "session_inventory_frame ?env no_profile [105, 3] inventory_new =
      (Inr True, inventory_new\<lparr>selected_hotbar_slot := 3\<rparr>)"
    by (simp add: session_inventory_frame_def decode_inventory_clientbound_def CONTAINER_CLOSE_ID_def
        CONTAINER_SET_CONTENT_ID_def CONTAINER_SET_DATA_ID_def CONTAINER_SET_SLOT_ID_def OPEN_SCREEN_ID_def
        SET_HELD_SLOT_ID_def apply_inventory_packet_def inventory_call_def map_err_def set_selected_hotbar_slot_def
        and_then_def ok_def and_also_def)
  then show ?thesis
    using inventory_frame_received[OF received_new, of ?env no_profile "[105, 3]"] by simp
qed

text \<open>
  Tooltip text: a projected line never has more than 256 bytes, and the projection panics exactly when
  a longer text has a character across byte 256.
\<close>

section \<open>Cutting a string\<close>

definition cut_at :: "nat \<Rightarrow> rust_str \<Rightarrow> bool" where
  "cut_at n s \<longleftrightarrow> (\<exists>k. str_len (take k s) = n)"

lemma utf8_char_pos [simp]: "0 < length (utf8_char c)" "utf8_char c \<noteq> []"
  by (simp_all add: utf8_char_def)

lemma cut_at_0 [simp]: "cut_at 0 s"
  by (auto simp: cut_at_def str_len_Nil str_len_Cons intro: exI[of _ 0])

lemma cut_at_Nil [simp]: "cut_at n [] \<longleftrightarrow> n = 0"
  by (auto simp: cut_at_def str_len_Nil str_len_Cons)

lemma cut_at_Cons:
  assumes "n \<noteq> 0"
  shows "cut_at n (c # s) \<longleftrightarrow> length (utf8_char c) \<le> n \<and> cut_at (n - length (utf8_char c)) s"
proof
  assume "cut_at n (c # s)"
  then obtain k where "str_len (take k (c # s)) = n" by (auto simp: cut_at_def)
  then show "length (utf8_char c) \<le> n \<and> cut_at (n - length (utf8_char c)) s"
    using assms by (cases k) (auto simp: cut_at_def str_len_Nil str_len_Cons)
next
  assume "length (utf8_char c) \<le> n \<and> cut_at (n - length (utf8_char c)) s"
  then obtain k where "length (utf8_char c) \<le> n" "str_len (take k s) = n - length (utf8_char c)"
    by (auto simp: cut_at_def)
  then show "cut_at n (c # s)" by (auto simp: cut_at_def str_len_Nil str_len_Cons intro: exI[of _ "Suc k"])
qed

lemma chars_within_None: "chars_within n s = None \<longleftrightarrow> \<not> cut_at n s"
  by (induction n s rule: chars_within.induct) (auto simp: cut_at_Cons)

lemma chars_within_len: "chars_within n s = Some t \<Longrightarrow> str_len t = n"
  by (induction n s arbitrary: t rule: chars_within.induct) (auto simp: str_len_Nil str_len_Cons split: if_splits)

lemma truncate_str_len: "truncate_str n s = Some t \<Longrightarrow> str_len t \<le> n"
  by (auto simp: truncate_str_def chars_within_len split: if_splits)

lemma truncate_tooltip_None: "truncate_tooltip s = None \<longleftrightarrow> TOOLTIP_BYTES < str_len s \<and> \<not> cut_at TOOLTIP_BYTES s"
  by (simp add: truncate_tooltip_def truncate_str_def chars_within_None)

lemma cut_at_all: "cut_at (str_len s) s"
  by (auto simp: cut_at_def intro: exI[of _ "length s"])

lemma truncate_again: "truncate_tooltip s = Some t \<Longrightarrow> truncate_str TOOLTIP_BYTES t \<noteq> None"
  using cut_at_all[of t]
  by (auto simp: truncate_tooltip_def truncate_str_def chars_within_None simp flip: not_None_eq split: if_splits dest!: chars_within_len)

section \<open>A name that is a plain string\<close>

lemma string_line_panics:
  "tooltip_line (Tag_String u) = Inl Session_Panic \<longleftrightarrow> truncate_tooltip (to_string_lossy u) = None"
  using truncate_again[of "to_string_lossy u"]
  by (cases "truncate_tooltip (to_string_lossy u)")
    (auto simp: tooltip_line_def project_tooltip_text.simps or_panic_def TOOLTIP_BYTES_def str_len_Nil split: option.splits)

lemma default_string_charge: "valid_nbt_string nbt_limits_default u \<Longrightarrow>
    charge_budget 0 (2 * encoded_len u) nbt_limits_default = Inr (2 * encoded_len u)"
  by (auto simp: valid_nbt_string_def max_string_encoded_bytes_def nbt_limits_default_def charge_budget_def
      checked_add_def u16_MAX_def usize_MAX_def)

lemma encode_string_tag:
  assumes "valid_nbt_string nbt_limits_default u"
  shows "encode_unnamed_network_tag env nbt_limits_default (Tag_String u) = Inr ([8] @ enc_nbt_string u)"
proof -
  have v: "validate_tag env nbt_limits_default (Tag_String u) 0 (enc_at 0 0) = (Inr (), enc_at 1 (2 * encoded_len u))"
    using assms default_string_charge[OF assms]
    by (simp add: and_then_Inr_iff validate_add_tag_iff validate_string_iff nbt_limits_default_def usize_MAX_def)
  have "appends (and_then (emit (write_u8 (type_id (tag_type (Tag_String u))))) (\<lambda>_. encode_payload nbt_limits_default (Tag_String u)))
      ([type_id (tag_type (Tag_String u))] @ enc_nbt_string u)"
    unfolding encode_payload.simps using assms by (intro appends_intros)
  from appendsD[OF this, of new_writer] v show ?thesis
    by (simp add: encode_unnamed_network_tag_def validated_output_def encode_context_new_def enc_at_def new_writer_def
        tag_type_def type_id_def)
qed

lemma name_decodes:
  assumes "try_reserve_exact env = (\<lambda>_. True)" and "valid_nbt_string nbt_limits_default u"
  shows "decode_unnamed_network_tag_complete env nbt_limits_default ([8] @ enc_nbt_string u) = Inr (Tag_String u)"
proof (rule tag_reads_back[OF assms(1) _ encode_string_tag[OF assms(2)]])
  show "sorted_tag (Tag_String u)" by simp
  show "length ([8] @ enc_nbt_string u) \<le> usize_MAX"
    using assms(2) max_string_u16[of nbt_limits_default]
    by (simp add: enc_nbt_string_def length_enc_units valid_nbt_string_def u16_MAX_def usize_MAX_def)
qed

section \<open>A slot with a named item\<close>

definition named_stack :: "u16 list \<Rightarrow> wire_item_stack" where
  "named_stack u = \<lparr>wis_item = ''minecraft:stone'', wis_count = 1,
     wis_components = wire_patch_default\<lparr>wp_added := [(''minecraft:custom_name'', [8] @ enc_nbt_string u)]\<rparr>\<rparr>"

lemma named_component:
  assumes "try_reserve_exact env = (\<lambda>_. True)" and "valid_nbt_string nbt_limits_default u"
  shows "semantic_component env ''minecraft:custom_name'' ([8] @ enc_nbt_string u) =
    and_also (tooltip_line (Tag_String u)) (\<lambda>plain. Inr (Component_RichText plain ([8] @ enc_nbt_string u)))"
  using name_decodes[OF assms] by (simp add: semantic_component_def project_component_text_def)

lemma semantic_stack_panics:
  assumes "try_reserve_exact env = (\<lambda>_. True)" and "valid_nbt_string nbt_limits_default u"
    and "wp_added (wis_components w) = [(''minecraft:custom_name'', [8] @ enc_nbt_string u)]"
  shows "semantic_stack env w = Inl Session_Panic \<longleftrightarrow> truncate_tooltip (to_string_lossy u) = None"
  unfolding semantic_stack_def assms(3) try_each.simps prod.case named_component[OF assms(1,2)] string_line_panics[symmetric]
  by (cases "tooltip_line (Tag_String u)") (auto simp: and_also_def split: sum.splits)

lemma set_slot_no_panic:
  "inventory_wf s \<Longrightarrow> nonempty_stack x \<Longrightarrow> fst (inventory_call (set_slot cid sid slot x) s) \<noteq> Inl Session_Panic"
  using server_update_keeps[where m = "container_set_slot sid slot x", OF _ container_set_slot_keeps, of s cid sid]
  by (auto simp: set_slot_def inventory_call_def map_err_def split: prod.splits sum.splits failure.splits)

lemma semantic_stack_nonempty: "semantic_stack env w = Inr x \<Longrightarrow> nonempty_stack (Some x)"
  by (auto simp: semantic_stack_def item_stack_new_def and_also_def nonempty_stack_def split: sum.splits if_splits)

text \<open>C24: An item whose custom name is a plain string stops the session with a panic exactly when the name has more
  than 256 bytes and none of its prefixes has exactly 256, that is when byte 256 is inside a character: the
  projection of the name cuts it there with \<open>String::truncate\<close>. Nothing else of such a slot update panics.\<close>

theorem long_item_name_panics:
  assumes "try_reserve_exact env = (\<lambda>_. True)" and "valid_nbt_string nbt_limits_default u" and "inventory_wf s"
    and "ss_item d = Some w" and "wp_added (wis_components w) = [(''minecraft:custom_name'', [8] @ enc_nbt_string u)]"
  shows "fst (apply_inventory_packet env (Inv_SetSlot d) s) = Inl Session_Panic \<longleftrightarrow>
    TOOLTIP_BYTES < str_len (to_string_lossy u) \<and>
    (\<forall>k. str_len (take k (to_string_lossy u)) \<noteq> TOOLTIP_BYTES)"
proof -
  have "fst (apply_inventory_packet env (Inv_SetSlot d) s) = Inl Session_Panic \<longleftrightarrow>
      semantic_stack env w = Inl Session_Panic"
    using set_slot_no_panic[OF assms(3) semantic_stack_nonempty, of env w]
    by (cases "semantic_stack env w")
      (auto simp: apply_inventory_packet_def assms(4) semantic_optional_stack_def and_also_def and_then_def lift_result_def)
  then show ?thesis
    by (simp add: semantic_stack_panics[OF assms(1,2,5)] truncate_tooltip_None cut_at_def)
qed

text \<open>86 characters of three bytes each: 258 bytes, and no multiple of three is 256.\<close>

definition long_name :: "u16 list" where
  "long_name = replicate 86 0x4E2D"

lemma lossy_replicate: "to_string_lossy (replicate n 0x4E2D) = replicate n 0x4E2D"
proof (induction n)
  case (Suc n)
  then show ?case by (cases n) (simp_all add: high_surrogate_def low_surrogate_def)
qed simp

lemma str_len_replicate: "str_len (replicate n 0x4E2D) = 3 * n"
  by (induction n) (simp_all add: str_len_Nil str_len_Cons utf8_char_def)

lemma encoded_replicate: "encoded_len (replicate n 0x4E2D) = 3 * n"
  by (induction n) (simp_all add: encoded_len_def unit_width_def)

theorem long_item_name_panics_witness:
  "fst (apply_inventory_packet \<lparr>sizeof_tag = 32, sizeof_string = 24, try_reserve_exact = (\<lambda>_. True)\<rparr>
     (Inv_SetSlot \<lparr>ss_container_id = 0, ss_state_id = 1, ss_slot = 36, ss_item = Some (named_stack long_name)\<rparr>)
     inventory_new) = Inl Session_Panic"
proof (rule iffD2[OF long_item_name_panics[where u = long_name and w = "named_stack long_name"]])
  show "valid_nbt_string nbt_limits_default long_name"
    by (simp add: valid_nbt_string_def long_name_def encoded_replicate max_string_encoded_bytes_def nbt_limits_default_def
        u16_MAX_def)
  have "3 * k \<noteq> (256::nat)" for k by presburger
  then show "TOOLTIP_BYTES < str_len (to_string_lossy long_name) \<and>
      (\<forall>k. str_len (take k (to_string_lossy long_name)) \<noteq> TOOLTIP_BYTES)"
    by (simp add: long_name_def lossy_replicate str_len_replicate TOOLTIP_BYTES_def)
qed (simp_all add: named_stack_def inventory_new_wf)

end
