(* ===== verification/World_Adapter.thy ===== *)
theory World_Adapter
  imports World_State Bootstrap_Play Bootstrap_Receive Item_Codec
begin

text \<open>
  \<open>cubic-network/src/world_adapter.rs\<close>: the packets of protocol 775 as events of the world. Sums of
  section and local coordinates are \<open>i32\<close> sums, which wrap.
\<close>

definition KEEP_ATTRIBUTE_MODIFIERS :: u8 where "KEEP_ATTRIBUTE_MODIFIERS = 0x01"
definition KEEP_ENTITY_DATA :: u8 where "KEEP_ENTITY_DATA = 0x02"

datatype world_adapter_error =
    Adapter_Identifier version_error
  | InvalidInteger string int
  | InvalidGameMode int
  | InvalidDifficulty int
  | NonFiniteFloat string
  | MissingDimensionData minecraft_identifier
  | InvalidDimensionData minecraft_identifier
  | MissingDimensionField minecraft_identifier string
  | InvalidBiomeField string minecraft_identifier string string
  | InvalidBannerBlockEntity string string

type_synonym 'a adapter = "world_adapter_error + 'a"

definition adapter_identifier :: "rust_str \<Rightarrow> minecraft_identifier adapter" where
  "adapter_identifier v = (case identifier_new v of Inl e \<Rightarrow> Inl (Adapter_Identifier e) | Inr i \<Rightarrow> Inr i)"

definition nonnegative :: "i32 \<Rightarrow> string \<Rightarrow> nat adapter" where
  "nonnegative v field = (if v <s 0 then Inl (InvalidInteger field (sint v)) else Inr (unat v))"

definition nonnegative_u64 :: "i64 \<Rightarrow> string \<Rightarrow> nat adapter" where
  "nonnegative_u64 v field = (if v <s 0 then Inl (InvalidInteger field (sint v)) else Inr (unat v))"

definition to_block_coordinates :: "block_position \<Rightarrow> block_coordinates" where
  "to_block_coordinates p = \<lparr>block_x = sint (bp_x p), block_y = sint (bp_y p), block_z = sint (bp_z p)\<rparr>"

section \<open>Biomes\<close>

definition BIOME_REGISTRY :: string where "BIOME_REGISTRY = ''minecraft:worldgen/biome''"

definition nbt_float :: "nbt_compound \<Rightarrow> string \<Rightarrow> f32 option" where
  "nbt_float c name =
     (case get_str (str name) c of
        Some (Tag_Float v) \<Rightarrow> if f32_is_finite v then Some v else None
      | _ \<Rightarrow> None)"

definition hex_digit :: "nat \<Rightarrow> nat option" where
  "hex_digit c =
     (if 48 \<le> c \<and> c \<le> 57 then Some (c - 48)
      else if 97 \<le> c \<and> c \<le> 102 then Some (c - 87)
      else if 65 \<le> c \<and> c \<le> 70 then Some (c - 55)
      else None)"

fun hex_number :: "nat \<Rightarrow> nat list \<Rightarrow> nat option" where
  "hex_number acc [] = Some acc"
| "hex_number acc (c # cs) =
     (case hex_digit c of
        None \<Rightarrow> None
      | Some d \<Rightarrow> if 2 ^ 32 \<le> acc * 16 + d then None else hex_number (acc * 16 + d) cs)"

text \<open>\<open>u32::from_str_radix(s, 16)\<close>, which accepts a leading plus sign.\<close>

definition u32_from_hex :: "rust_str \<Rightarrow> nat option" where
  "u32_from_hex s =
     (if s = [] \<or> s = str ''+'' \<or> s = str ''-'' then None
      else if hd s = 43 then hex_number 0 (tl s) else hex_number 0 s)"

definition biome_color ::
  "nbt_compound \<Rightarrow> string \<Rightarrow> string \<Rightarrow> string \<Rightarrow> minecraft_identifier \<Rightarrow> bool \<Rightarrow> nat option adapter" where
  "biome_color effects field path registry i required =
     (case get_str (str field) effects of
        None \<Rightarrow>
          if required then Inl (InvalidBiomeField registry i path ''required hexadecimal NBT string is absent'')
          else Inr None
      | Some (Tag_String v) \<Rightarrow>
          (let s = to_string_lossy v in
           if s = [] \<or> hd s \<noteq> 35 \<or> str_len (tl s) \<noteq> 6
           then Inl (InvalidBiomeField registry i path ''expected color in #RRGGBB form'')
           else case u32_from_hex (tl s) of
             None \<Rightarrow> Inl (InvalidBiomeField registry i path ''color contains non-hexadecimal digits'')
           | Some color \<Rightarrow> Inr (Some color))
      | Some _ \<Rightarrow> Inl (InvalidBiomeField registry i path ''expected hexadecimal NBT string''))"

definition biome_grass_modifier :: "nbt_compound \<Rightarrow> string \<Rightarrow> minecraft_identifier \<Rightarrow> grass_color_modifier adapter" where
  "biome_grass_modifier effects registry i =
     (let path = ''effects.grass_color_modifier'' in
      case get_str (str ''grass_color_modifier'') effects of
        None \<Rightarrow> Inr No_Modifier
      | Some (Tag_String v) \<Rightarrow>
          (let s = to_string_lossy v in
           if s = str ''none'' then Inr No_Modifier
           else if s = str ''dark_forest'' then Inr DarkForest
           else if s = str ''swamp'' then Inr Swamp
           else Inl (InvalidBiomeField registry i path ''unknown modifier''))
      | Some _ \<Rightarrow> Inl (InvalidBiomeField registry i path ''expected NBT string''))"

definition or_error :: "world_adapter_error \<Rightarrow> 'a option \<Rightarrow> 'a adapter" where
  "or_error e x = (case x of None \<Rightarrow> Inl e | Some v \<Rightarrow> Inr v)"

definition runtime_biome_of :: "nat \<times> registry_entry \<Rightarrow> runtime_biome adapter" where
  "runtime_biome_of = (\<lambda>(raw_id, entry).
     and_also (adapter_identifier (re_identifier entry)) (\<lambda>i.
     let bad = InvalidBiomeField BIOME_REGISTRY i in
     and_also (or_error (bad ''entry data'' ''required compound is absent'') (re_data entry)) (\<lambda>data.
     and_also (case data of Tag_Compound c \<Rightarrow> Inr c | _ \<Rightarrow> Inl (bad ''entry data'' ''expected compound NBT'')) (\<lambda>compound.
     and_also (or_error (bad ''temperature'' ''required finite NBT float is absent or has the wrong type'')
       (nbt_float compound ''temperature'')) (\<lambda>temperature.
     and_also (or_error (bad ''downfall'' ''required finite NBT float is absent or has the wrong type'')
       (nbt_float compound ''downfall'')) (\<lambda>downfall.
     and_also (case get_str (str ''effects'') compound of
         Some (Tag_Compound e) \<Rightarrow> Inr e
       | _ \<Rightarrow> Inl (bad ''effects'' ''required compound is absent or has the wrong NBT type'')) (\<lambda>effects.
     and_also (biome_color effects ''water_color'' ''effects.water_color'' BIOME_REGISTRY i True) (\<lambda>water.
     and_also (or_error (bad ''effects.water_color'' ''required hexadecimal NBT string is absent'') water) (\<lambda>water_color.
     and_also (biome_color effects ''foliage_color'' ''effects.foliage_color'' BIOME_REGISTRY i False) (\<lambda>foliage.
     and_also (biome_color effects ''dry_foliage_color'' ''effects.dry_foliage_color'' BIOME_REGISTRY i False) (\<lambda>dry.
     and_also (biome_color effects ''grass_color'' ''effects.grass_color'' BIOME_REGISTRY i False) (\<lambda>grass.
     and_also (biome_grass_modifier effects BIOME_REGISTRY i) (\<lambda>grass_modifier.
     if 2 ^ 32 \<le> raw_id then Inl (InvalidInteger ''biome raw ID'' (2 ^ 63 - 1))
     else Inr \<lparr>biome_raw_id = raw_id, biome_identifier = i, biome_temperature = temperature, biome_downfall = downfall,
       biome_water_color = water_color, biome_foliage_color = foliage, biome_dry_foliage_color = dry,
       biome_grass_color = grass, biome_grass_color_modifier = grass_modifier\<rparr>)))))))))))))"

definition adapt_biomes :: "registry_entry list \<Rightarrow> runtime_biome list adapter" where
  "adapt_biomes entries = try_each runtime_biome_of (enumerate 0 entries)"

section \<open>Dimension types\<close>

definition runtime_dimension_type_of :: "nat \<times> registry_entry \<Rightarrow> runtime_dimension_type adapter" where
  "runtime_dimension_type_of = (\<lambda>(raw_id, entry).
     and_also (adapter_identifier (re_identifier entry)) (\<lambda>i.
     and_also (or_error (MissingDimensionData i) (re_data entry)) (\<lambda>data.
     and_also (case data of Tag_Compound c \<Rightarrow> Inr c | _ \<Rightarrow> Inl (InvalidDimensionData i)) (\<lambda>compound.
     and_also (or_error (MissingDimensionField i ''min_y'') (get_int (str ''min_y'') compound)) (\<lambda>lowest.
     and_also (or_error (MissingDimensionField i ''height'') (get_int (str ''height'') compound)) (\<lambda>h.
     if 2 ^ 32 \<le> raw_id then Inl (InvalidInteger ''dimension type raw ID'' (2 ^ 63 - 1))
     else and_also (nonnegative h ''dimension height'') (\<lambda>h'.
     Inr \<lparr>dimension_raw_id = raw_id, dimension_identifier = i,
          dimension_type_geometry = \<lparr>min_y = sint lowest, height = h'\<rparr>\<rparr>)))))))"

definition adapt_dimension_types :: "registry_entry list \<Rightarrow> runtime_dimension_type list adapter" where
  "adapt_dimension_types entries = try_each runtime_dimension_type_of (enumerate 0 entries)"

section \<open>Block entities\<close>

definition identifier_value :: "nbt_string \<Rightarrow> string \<Rightarrow> minecraft_identifier adapter" where
  "identifier_value v path =
     (let s = to_string_lossy v in
      if 256 < str_len s then Inl (InvalidBannerBlockEntity path ''identifier exceeds its bound'')
      else case identifier_new s of
        Inl _ \<Rightarrow> Inl (InvalidBannerBlockEntity path ''identifier is invalid'') | Inr i \<Rightarrow> Inr i)"

definition dye_names :: "string list" where
  "dye_names =
     [''white'', ''orange'', ''magenta'', ''light_blue'', ''yellow'', ''lime'', ''pink'', ''gray'', ''light_gray'', ''cyan'',
      ''purple'', ''blue'', ''brown'', ''green'', ''red'', ''black'']"

fun list_position :: "('a \<Rightarrow> bool) \<Rightarrow> 'a list \<Rightarrow> nat option" where
  "list_position p [] = None"
| "list_position p (x # xs) = (if p x then Some 0 else map_option Suc (list_position p xs))"

definition dye_raw_id :: "rust_str \<Rightarrow> nat option" where
  "dye_raw_id v = list_position (\<lambda>name. str name = v) dye_names"

definition semantic_banner_pattern :: "nbt_compound \<Rightarrow> banner_pattern adapter" where
  "semantic_banner_pattern layer =
     (case get_str (str ''pattern'') layer of
        Some (Tag_String i) \<Rightarrow>
          and_also (identifier_value i ''patterns[].pattern'') (\<lambda>asset.
          Inr \<lparr>pattern_asset = asset, pattern_translation_key = None\<rparr>)
      | Some (Tag_Compound direct) \<Rightarrow>
          and_also (or_error (InvalidBannerBlockEntity ''patterns[].pattern.asset_id''
              ''direct pattern asset identifier is missing'') (get_string (str ''asset_id'') direct)) (\<lambda>asset.
          and_also (or_error (InvalidBannerBlockEntity ''patterns[].pattern.translation_key''
              ''direct pattern translation key is missing'') (get_string (str ''translation_key'') direct)) (\<lambda>translation.
          if 256 < str_len (to_string_lossy translation)
          then Inl (InvalidBannerBlockEntity ''patterns[].pattern.translation_key''
            ''direct pattern translation key exceeds its bound'')
          else and_also (identifier_value asset ''patterns[].pattern.asset_id'') (\<lambda>i.
          Inr \<lparr>pattern_asset = i, pattern_translation_key = Some (to_string_lossy translation)\<rparr>)))
      | _ \<Rightarrow> Inl (InvalidBannerBlockEntity ''patterns[].pattern''
              ''expected a registry identifier or direct pattern compound''))"

definition semantic_banner_pattern_layer :: "nbt_tag \<Rightarrow> banner_pattern_layer adapter" where
  "semantic_banner_pattern_layer v =
     (case v of
        Tag_Compound layer \<Rightarrow>
          and_also (semantic_banner_pattern layer) (\<lambda>pattern.
          and_also (or_error (InvalidBannerBlockEntity ''patterns[].color'' ''dye color name is missing'')
            (map_option to_string_lossy (get_string (str ''color'') layer))) (\<lambda>color.
          and_also (or_error (InvalidBannerBlockEntity ''patterns[].color'' ''dye color name is invalid'')
            (dye_raw_id color)) (\<lambda>dye.
          Inr \<lparr>layer_pattern = pattern, layer_dye = dye\<rparr>)))
      | _ \<Rightarrow> Inl (InvalidBannerBlockEntity ''patterns[]'' ''expected a compound layer''))"

definition semantic_block_entity :: "nbt_compound \<Rightarrow> block_entity_data adapter" where
  "semantic_block_entity compound =
     and_also (case get_str (str ''CustomName'') compound of
         None \<Rightarrow> Inr None
       | Some (Tag_String v) \<Rightarrow> Inr (Some (to_string_lossy v))
       | Some _ \<Rightarrow> Inl (InvalidBannerBlockEntity ''CustomName'' ''expected an NBT string component'')) (\<lambda>name.
     and_also (case get_str (str ''patterns'') compound of
         None \<Rightarrow> Inr []
       | Some (Tag_List _ elements) \<Rightarrow>
           if MAX_BANNER_PATTERN_LAYERS < length elements
           then Inl (InvalidBannerBlockEntity ''patterns'' ''pattern layer count exceeds the bounded limit'')
           else try_each semantic_banner_pattern_layer elements
       | Some _ \<Rightarrow> Inl (InvalidBannerBlockEntity ''patterns'' ''expected an NBT list'')) (\<lambda>patterns.
     Inr \<lparr>custom_name = name, banner_patterns = patterns\<rparr>))"

section \<open>Chunks\<close>

definition map_palette :: "wire_container \<Rightarrow> nat paletted_container" where
  "map_palette c =
     (case c of
        WireSingle v entries \<Rightarrow> Single (unat v) entries
      | WireIndirect palette indices \<Rightarrow> Indirect (map unat palette) (map unat indices)
      | WireDirect vals \<Rightarrow> Direct (map unat vals))"

definition semantic_section :: "wire_section \<Rightarrow> chunk_section" where
  "semantic_section s =
     \<lparr>section_non_empty = unat (ws_non_empty_block_count s), section_fluid_count = unat (ws_fluid_count s),
      section_blocks = map_palette (ws_blocks s), section_biomes = map_palette (ws_biomes s)\<rparr>"

definition semantic_layer :: "wire_light_layer \<Rightarrow> light_layer_data" where
  "semantic_layer l = \<lparr>layer_mask_index = wl_mask_index l, layer_data = wl_data l\<rparr>"

definition semantic_light :: "wire_light_data \<Rightarrow> chunk_light_summary" where
  "semantic_light l =
     \<lparr>chunk_light_summary.sky_mask = wire_light_data.sky_mask l, block_mask = wire_light_data.block_mask l,
      empty_sky_mask = wire_light_data.empty_sky_mask l, empty_block_mask = wire_light_data.empty_block_mask l,
      sky_layer_count = wire_light_data.sky_layer_count l, block_layer_count = wire_light_data.block_layer_count l,
      sky_layers = map semantic_layer (wire_light_data.sky_layers l),
      block_layers = map semantic_layer (wire_light_data.block_layers l)\<rparr>"

definition semantic_chunk_entity :: "wire_block_entity \<Rightarrow> block_entity_summary adapter" where
  "semantic_chunk_entity e =
     and_also (case wb_data e of None \<Rightarrow> Inr None | Some c \<Rightarrow> and_also (semantic_block_entity c) (\<lambda>d. Inr (Some d))) (\<lambda>data.
     Inr \<lparr>entity_local_x = unat (wb_local_x e), entity_y = sint (wb_y e), entity_local_z = unat (wb_local_z e),
          entity_type_id = unat (wb_type_raw_id e), entity_has_data = wb_has_data e, entity_data = data\<rparr>)"

definition semantic_chunk :: "level_chunk \<Rightarrow> chunk adapter" where
  "semantic_chunk c =
     and_also (try_each semantic_chunk_entity (lc_block_entities c)) (\<lambda>es.
     Inr \<lparr>chunk_at = Chunk_Coordinate (sint (lc_x c)) (sint (lc_z c)),
          chunk_sections = map semantic_section (lc_sections c),
          chunk_heightmaps = map (\<lambda>h. \<lparr>heightmap_kind = unat (wh_kind_raw_id h), heightmap_longs = wh_data h\<rparr>) (lc_heightmaps c),
          chunk_block_entities = es, chunk_light = semantic_light (lc_light c)\<rparr>)"

datatype chunk_adaptation =
    Adapt_Load chunk
  | Adapt_Unload chunk_coordinate
  | Adapt_Light chunk_coordinate chunk_light_summary
  | Adapt_Blocks "block_state_update list"
  | Adapt_BlockEntity block_coordinates nat block_entity_data
  | Adapt_Other play_clientbound

definition section_entry_update :: "section_blocks_update \<Rightarrow> section_block_update \<Rightarrow> block_state_update" where
  "section_entry_update u e =
     \<lparr>update_position =
        \<lparr>block_x = sint (su_section_x u * 16 + ucast (sb_local_x e)),
         block_y = sint (su_section_y u * 16 + ucast (sb_local_y e)),
         block_z = sint (su_section_z u * 16 + ucast (sb_local_z e))\<rparr>,
      update_state = unat (sb_state_id e)\<rparr>"

definition adapt_chunk_packet :: "play_clientbound \<Rightarrow> chunk_adaptation adapter" where
  "adapt_chunk_packet packet =
     (case packet of
        Play_LevelChunkWithLight c \<Rightarrow> and_also (semantic_chunk c) (\<lambda>chunk. Inr (Adapt_Load chunk))
      | Play_ForgetLevelChunk x z \<Rightarrow> Inr (Adapt_Unload (Chunk_Coordinate (sint x) (sint z)))
      | Play_LightUpdate u \<Rightarrow>
          Inr (Adapt_Light (Chunk_Coordinate (sint (lu_x u)) (sint (lu_z u))) (semantic_light (lu_light u)))
      | Play_BlockUpdate u \<Rightarrow>
          Inr (Adapt_Blocks [\<lparr>update_position = \<lparr>block_x = sint (wbu_x u), block_y = sint (wbu_y u), block_z = sint (wbu_z u)\<rparr>,
            update_state = unat (wbu_state_id u)\<rparr>])
      | Play_SectionBlocksUpdate u \<Rightarrow> Inr (Adapt_Blocks (map (section_entry_update u) (su_updates u)))
      | Play_BlockEntityData u \<Rightarrow>
          and_also (semantic_block_entity (be_data u)) (\<lambda>data.
          Inr (Adapt_BlockEntity (to_block_coordinates (be_position u)) (unat (be_type_raw_id u)) data))
      | other \<Rightarrow> Inr (Adapt_Other other))"

section \<open>Events\<close>

definition adapt_difficulty :: "i32 \<Rightarrow> difficulty adapter" where
  "adapt_difficulty v =
     (if v = 0 then Inr Peaceful else if v = 1 then Inr Easy else if v = 2 then Inr Normal else if v = 3 then Inr Hard
      else Inl (InvalidDifficulty (sint v)))"

definition adapt_game_mode :: "int \<Rightarrow> game_mode adapter" where
  "adapt_game_mode v =
     (if v = 0 then Inr Survival else if v = 1 then Inr Creative else if v = 2 then Inr Adventure
      else if v = 3 then Inr Spectator else Inl (InvalidGameMode v))"

definition last_death :: "global_position \<Rightarrow> last_death_location adapter" where
  "last_death p =
     and_also (adapter_identifier (go_dimension p)) (\<lambda>d.
     Inr \<lparr>death_dimension = d, death_position = to_block_coordinates (go_position p)\<rparr>)"

definition adapt_spawn_context :: "wire_spawn_info \<Rightarrow> spawn_context adapter" where
  "adapt_spawn_context s =
     and_also (adapter_identifier (str ''minecraft:dimension_type'')) (\<lambda>registry.
     and_also (nonnegative (wsi_dimension_type_raw_id s) ''dimension type raw ID'') (\<lambda>raw_id.
     and_also (adapter_identifier (wsi_dimension s)) (\<lambda>dimension.
     and_also (adapt_game_mode (sint (wsi_game_mode s))) (\<lambda>mode.
     and_also (if wsi_previous_game_mode s = 255 then Inr None
       else and_also (adapt_game_mode (uint (wsi_previous_game_mode s))) (\<lambda>m. Inr (Some m))) (\<lambda>previous.
     and_also (case wsi_last_death_location s of None \<Rightarrow> Inr None
       | Some p \<Rightarrow> and_also (last_death p) (\<lambda>d. Inr (Some d))) (\<lambda>death.
     and_also (nonnegative (wsi_portal_cooldown_ticks s) ''portal cooldown'') (\<lambda>cooldown.
     Inr \<lparr>context_dimension_type = \<lparr>reference_registry = registry, reference_raw_id = raw_id\<rparr>,
          context_dimension = dimension, context_hashed_seed = sint (wsi_hashed_seed s), context_game_mode = mode,
          context_previous_game_mode = previous, context_debug_world = wsi_debug_world s,
          context_flat_world = wsi_flat_world s, context_last_death = death, context_portal_cooldown = cooldown,
          context_sea_level = sint (wsi_sea_level s)\<rparr>)))))))"

definition initial_world_event :: "initial_play_login \<Rightarrow> world_event adapter" where
  "initial_world_event l =
     and_also (try_each adapter_identifier (il_known_dimensions l)) (\<lambda>known.
     and_also (nonnegative (il_max_players l) ''maximum players'') (\<lambda>players.
     and_also (nonnegative (il_view_distance l) ''view distance'') (\<lambda>view.
     and_also (nonnegative (il_simulation_distance l) ''simulation distance'') (\<lambda>simulation.
     and_also (adapt_spawn_context (il_spawn l)) (\<lambda>spawn.
     Inr (EnterWorld
       \<lparr>enter_player_entity_id = sint (il_player_entity_id l), enter_hardcore = il_hardcore l,
        enter_known_dimensions = known, enter_max_players = players, enter_view_distance = view,
        enter_simulation_distance = simulation, enter_reduced_debug_info = il_reduced_debug_info l,
        enter_show_death_screen = il_show_death_screen l, enter_limited_crafting = il_limited_crafting l,
        enter_secure_chat_enforced = il_secure_chat_enforced l, enter_spawn = spawn\<rparr>))))))"

definition f32_minus_180 :: f32 where "f32_minus_180 = 0xc3340000"

definition respawn_event :: "respawn_packet \<Rightarrow> respawn adapter" where
  "respawn_event r =
     (let keep_entity_data = (rp_data_to_keep r AND KEEP_ENTITY_DATA \<noteq> 0) in
      and_also (adapt_spawn_context (rp_spawn r)) (\<lambda>spawn.
      Inr \<lparr>respawn_spawn = spawn,
           respawn_keep_attribute_modifiers = (rp_data_to_keep r AND KEEP_ATTRIBUTE_MODIFIERS \<noteq> 0),
           respawn_keep_entity_data = keep_entity_data,
           respawn_new_rotation =
             (if keep_entity_data then Preserve else Reset \<lparr>rotation_yaw = f32_minus_180, rotation_pitch = 0\<rparr>)\<rparr>))"

definition adapt_player_position :: "player_position_packet \<Rightarrow> player_position_update" where
  "adapt_player_position p =
     \<lparr>position_teleport_id = sint (pp_teleport_id p), position_x = pp_x p, position_y = pp_y p, position_z = pp_z p,
      position_yaw = pp_yaw p, position_pitch = pp_pitch p,
      position_relative =
        \<lparr>relative_x = (pp_relative_flags p AND 0x01 \<noteq> 0), relative_y = (pp_relative_flags p AND 0x02 \<noteq> 0),
         relative_z = (pp_relative_flags p AND 0x04 \<noteq> 0), relative_yaw = (pp_relative_flags p AND 0x08 \<noteq> 0),
         relative_pitch = (pp_relative_flags p AND 0x10 \<noteq> 0)\<rparr>\<rparr>"

definition adapt_spawn_point :: "default_spawn_packet \<Rightarrow> spawn_point adapter" where
  "adapt_spawn_point s =
     and_also (adapter_identifier (go_dimension (ds_position s))) (\<lambda>d.
     Inr \<lparr>spawn_dimension = d, spawn_position = to_block_coordinates (go_position (ds_position s)),
          spawn_yaw = ds_yaw s, spawn_pitch = ds_pitch s\<rparr>)"

definition adapt_clock :: "wire_clock \<Rightarrow> clock_state adapter" where
  "adapt_clock c =
     and_also (nonnegative (wc_clock_type_raw_id c) ''world clock raw ID'') (\<lambda>raw_id.
     Inr \<lparr>clock_type_raw_id = raw_id, clock_total_ticks = sint (wc_total_ticks c),
          clock_partial_tick = wc_partial_tick c, clock_rate = wc_rate c\<rparr>)"

definition adapt_world_time :: "wire_time \<Rightarrow> world_time adapter" where
  "adapt_world_time t =
     and_also (try_each adapt_clock (wt_clocks t)) (\<lambda>cs. Inr \<lparr>game_time = sint (wt_game_time t), clocks = cs\<rparr>)"

definition adapt_game_event :: "u8 \<Rightarrow> f32 \<Rightarrow> world_event option adapter" where
  "adapt_game_event event v =
     (if event = 1 then Inr (Some (SetRaining True))
      else if event = 2 then Inr (Some (SetRaining False))
      else if event = 3 then
        if \<not> f32_is_finite v then Inl (NonFiniteFloat ''game mode'')
        else if \<not> f32_equal (f32_fract v) 0 then Inl (InvalidGameMode (f32_to_i32 v))
        else and_also (adapt_game_mode (f32_to_i32 v)) (\<lambda>m. Inr (Some (SetGameMode m)))
      else if event = 7 then Inr (Some (SetRainLevel v))
      else if event = 8 then Inr (Some (SetThunderLevel v))
      else Inr None)"

definition adapt_world_border :: "initialize_border \<Rightarrow> world_border adapter" where
  "adapt_world_border b =
     and_also (nonnegative_u64 (ib_lerp_millis b) ''border lerp time'') (\<lambda>millis.
     and_also (nonnegative (ib_absolute_max_size b) ''border maximum size'') (\<lambda>size_max.
     and_also (nonnegative (ib_warning_blocks b) ''border warning blocks'') (\<lambda>blocks.
     and_also (nonnegative (ib_warning_seconds b) ''border warning seconds'') (\<lambda>seconds.
     Inr \<lparr>border_center_x = ib_center_x b, border_center_z = ib_center_z b, border_old_diameter = ib_old_diameter b,
          border_new_diameter = ib_new_diameter b, border_lerp_millis = millis, border_absolute_max_size = size_max,
          border_warning_blocks = blocks, border_warning_seconds = seconds\<rparr>))))"

definition play_world_event :: "play_clientbound \<Rightarrow> world_event option adapter" where
  "play_world_event packet =
     (case packet of
        Play_PlayerPosition p \<Rightarrow> Inr (Some (SynchronizePlayerPosition (adapt_player_position p)))
      | Play_PlayerRotation r \<Rightarrow>
          Inr (Some (SynchronizePlayerRotation
            \<lparr>update_yaw = pr_yaw r, update_pitch = pr_pitch r, update_relative_yaw = pr_relative_yaw r,
             update_relative_pitch = pr_relative_pitch r\<rparr>))
      | Play_Respawn r \<Rightarrow> and_also (respawn_event r) (\<lambda>e. Inr (Some (Respawn e)))
      | Play_SetDefaultSpawnPosition s \<Rightarrow> and_also (adapt_spawn_point s) (\<lambda>p. Inr (Some (SetSpawn p)))
      | Play_SetTime t \<Rightarrow> and_also (adapt_world_time t) (\<lambda>w. Inr (Some (SetTime w)))
      | Play_ChangeDifficulty d locked \<Rightarrow> and_also (adapt_difficulty d) (\<lambda>d'. Inr (Some (SetDifficulty d' locked)))
      | Play_GameEvent event v \<Rightarrow> adapt_game_event event v
      | Play_InitializeBorder b \<Rightarrow> and_also (adapt_world_border b) (\<lambda>b'. Inr (Some (SetWorldBorder b')))
      | _ \<Rightarrow> Inr None)"

end
