(* ===== verification/World_Adapter_Props.thy ===== *)
theory World_Adapter_Props
  imports World_Adapter Section_Updates
begin

unbundle bit_operations_syntax

text \<open>
  What the adapter makes of decoded packets: the blocks of a section update lie in the section it names, without overflow
  of the 32-bit coordinates.
\<close>

lemma sint_of_int_i32: "- (2 ^ 31) \<le> k \<Longrightarrow> k < 2 ^ 31 \<Longrightarrow> sint (of_int k :: i32) = k"
  by (subst signed_of_int) (simp add: signed_take_bit_int_eq_self)

lemma ucast_i32: "(ucast (v :: i64) :: i32) = of_int (sint v)"
  by transfer (simp add: take_bit_signed_take_bit)

lemma section_coordinate_small:
  assumes "section_coordinate ctx v = Inr c" and "- (2 ^ n) \<le> sint v" and "sint v < 2 ^ n" and "n \<le> 21"
  shows "- (2 ^ 21) \<le> sint c \<and> sint c < 2 ^ 21"
proof -
  have "(2 :: int) ^ n \<le> 2 ^ 21" by (rule power_increasing[OF assms(4)]) simp
  then have "- (2 ^ 21) \<le> sint v" "sint v < 2 ^ 21" using assms(2,3) by linarith+
  moreover have "c = of_int (sint v)" using assms(1) by (simp add: section_coordinate_def ucast_i32 split: if_splits)
  moreover have "sint (of_int (sint v) :: i32) = sint v" using calculation(1,2) by (intro sint_of_int_i32) simp_all
  ultimately show ?thesis by simp
qed

lemma sint_signed_drop: "- (2 ^ 63) div 2 ^ n \<le> sint (signed_drop_bit n (v :: i64)) \<and> sint (signed_drop_bit n v) \<le> (2 ^ 63 - 1) div 2 ^ n"
proof -
  have "- (2 ^ 63) \<le> sint v" "sint v \<le> 2 ^ 63 - 1" using sint_range_size[of v] by (simp_all add: word_size)
  then show ?thesis
    by (simp add: sint_signed_drop_bit_eq drop_bit_eq_div zdiv_mono1)
qed

definition small_section :: "section_blocks_update \<Rightarrow> bool" where
  "small_section u \<longleftrightarrow> (\<forall>c \<in> {su_section_x u, su_section_y u, su_section_z u}. - (2 ^ 21) \<le> sint c \<and> sint c < 2 ^ 21)"

lemma decode_section_small:
  assumes "decode_section_blocks_update env r = (Inr u, r')"
  shows "small_section u"
proof -
  obtain packed r1 where
    c: "section_coordinate ''Section Blocks Update section x'' (signed_drop_bit 42 packed) = Inr (su_section_x u)"
      "section_coordinate ''Section Blocks Update section z'' (signed_drop_bit 42 (push_bit 22 packed)) = Inr (su_section_z u)"
      "section_coordinate ''Section Blocks Update section y'' (signed_drop_bit 44 (push_bit 44 packed)) = Inr (su_section_y u)"
    using assms by (auto simp: decode_section_blocks_update_def and_then_Inr_iff lift_result_apply ok_apply)
  have "- (2 ^ 21) \<le> sint (su_section_x u) \<and> sint (su_section_x u) < 2 ^ 21"
    using sint_signed_drop[of 42 packed] by (intro section_coordinate_small[OF c(1), of 21]) simp_all
  moreover have "- (2 ^ 21) \<le> sint (su_section_z u) \<and> sint (su_section_z u) < 2 ^ 21"
    using sint_signed_drop[of 42 "push_bit 22 packed"] by (intro section_coordinate_small[OF c(2), of 21]) simp_all
  moreover have "- (2 ^ 21) \<le> sint (su_section_y u) \<and> sint (su_section_y u) < 2 ^ 21"
    using sint_signed_drop[of 44 "push_bit 44 packed"] by (intro section_coordinate_small[OF c(3), of 19]) simp_all
  ultimately show ?thesis by (simp add: small_section_def)
qed

lemma section_axis:
  assumes "- (2 ^ 21) \<le> sint c" and "sint c < 2 ^ 21" and "l < 16"
  shows "sint (c * 16 + ucast (l :: u8) :: i32) div 16 = sint c \<and> sint (c * 16 + ucast l) mod 16 = uint l"
proof -
  have l: "0 \<le> uint l" "uint l < 16" using assms(3) by (simp_all add: word_less_def)
  have "c * 16 + ucast l = of_int (sint c) * 16 + of_int (uint l)" by (simp only: of_int_sint ucast_eq scast_id)
  then have "c * 16 + ucast l = of_int (sint c * 16 + uint l)" by simp
  moreover have "sint (of_int (sint c * 16 + uint l) :: i32) = sint c * 16 + uint l"
    using assms(1,2) l by (intro sint_of_int_i32; simp; linarith)
  ultimately have "sint (c * 16 + ucast l) = sint c * 16 + uint l" by simp
  then show ?thesis using l by simp
qed

section \<open>What a decoder can return\<close>

definition delivers :: "('a \<Rightarrow> bool) \<Rightarrow> ('s, 'e, 'a) fallible \<Rightarrow> bool" where
  "delivers P m \<longleftrightarrow> (\<forall>s x s'. m s = (Inr x, s') \<longrightarrow> P x)"

lemma deliversI: "(\<And>s x s'. m s = (Inr x, s') \<Longrightarrow> P x) \<Longrightarrow> delivers P m"
  by (auto simp: delivers_def)

lemma deliversD: "delivers P m \<Longrightarrow> m s = (Inr x, s') \<Longrightarrow> P x"
  by (auto simp: delivers_def)

lemma delivers_ok: "P x \<Longrightarrow> delivers P (ok x)"
  by (simp add: delivers_def ok_def)

lemma delivers_if: "(b \<Longrightarrow> delivers P m) \<Longrightarrow> (\<not> b \<Longrightarrow> delivers P n) \<Longrightarrow> delivers P (if b then m else n)"
  by simp

lemma delivers_any: "(\<And>x. delivers P (k x)) \<Longrightarrow> delivers P (and_then m k)"
  by (rule deliversI) (auto simp: and_then_Inr_iff dest: deliversD)

lemma delivers_and_then: "delivers Q m \<Longrightarrow> (\<And>x. Q x \<Longrightarrow> delivers P (k x)) \<Longrightarrow> delivers P (and_then m k)"
  by (rule deliversI) (auto simp: and_then_Inr_iff dest!: deliversD)

lemma delivers_whole: "delivers P m \<Longrightarrow> delivers P (whole name m)"
  unfolding whole_def by (rule delivers_and_then, assumption, rule delivers_any, rule delivers_ok)

text \<open>Of the packets of play, only section updates and entity data are told apart.\<close>

fun packet_origin :: "i32 \<Rightarrow> play_clientbound \<Rightarrow> bool" where
  "packet_origin pid (Play_SectionBlocksUpdate u) \<longleftrightarrow> small_section u"
| "packet_origin pid (Play_EntityData e air n) \<longleftrightarrow> pid = PLAY_SET_ENTITY_DATA_ID"
| "packet_origin pid _ \<longleftrightarrow> True"

lemma delivers_pair: "(\<And>x z. P (f x z)) \<Longrightarrow> delivers P (and_then m (\<lambda>(x, z). ok (f x z)))"
  by (rule delivers_any) (auto intro: delivers_ok split: prod.split)

lemma play_decoder_origin: "delivers (packet_origin pid) (play_decoder env pid bytes)"
  unfolding play_decoder_def
  by (intro delivers_if;
      (((rule delivers_whole)?, rule delivers_pair, simp; fail)
       | ((rule delivers_whole)?, (rule delivers_any)+, rule delivers_ok, simp; fail)
       | ((rule delivers_whole)?, rule delivers_ok, simp; fail)
       | (rule delivers_and_then[of small_section], rule deliversI, erule decode_section_small, rule delivers_ok, simp)))

lemma decode_packet_delivers:
  assumes "\<And>pid bytes. delivers (P pid) (decoder pid bytes)" and "decode_packet decoder body = Inr p"
  shows "\<exists>q. split_raw_packet body = Inr q \<and> P (packet_id q) p"
  using assms(2) deliversD[OF assms(1)] unfolding decode_packet_def
  by (auto split: sum.splits) (metis prod.collapse)

lemma decode_play_origin:
  "decode_play_clientbound env body = Inr p \<Longrightarrow> \<exists>q. split_raw_packet body = Inr q \<and> packet_origin (packet_id q) p"
  unfolding decode_play_clientbound_def by (rule decode_packet_delivers[OF play_decoder_origin])

section \<open>Blocks of a section\<close>

definition block_in_section :: "section_blocks_update \<Rightarrow> block_coordinates \<Rightarrow> bool" where
  "block_in_section u p \<longleftrightarrow> block_x p div 16 = sint (su_section_x u) \<and> block_y p div 16 = sint (su_section_y u) \<and>
     block_z p div 16 = sint (su_section_z u)"

lemma section_entry_inside:
  assumes "small_section u" and "section_entry_valid e"
  shows "block_in_section u (update_position (section_entry_update u e))"
  using assms section_axis
  by (simp add: small_section_def section_entry_valid_def block_in_section_def section_entry_update_def word_less_nat_alt)

text \<open>C35: Whatever bytes a section update arrives in, the adapter turns it into at most 4096 block updates, and each of
  them lies in the section the packet names: adding the local coordinates never overflows the 32-bit coordinates and
  never reaches the neighbouring section.\<close>

theorem section_update_stays_inside:
  assumes "decode_play_clientbound env frame = Inr (Play_SectionBlocksUpdate u)" and "length frame \<le> usize_MAX"
  shows "\<exists>updates. adapt_chunk_packet (Play_SectionBlocksUpdate u) = Inr (Adapt_Blocks updates) \<and>
    length updates = length (su_updates u) \<and> length updates \<le> MAX_SECTION_BLOCK_UPDATES \<and>
    (\<forall>b \<in> set updates. block_in_section u (update_position b))"
proof -
  have "small_section u" using decode_play_origin[OF assms(1)] by auto
  moreover have "play_valid (Play_SectionBlocksUpdate u)"
    using decode_packet_gives(2)[where decoder = "play_decoder env" and P = play_valid, OF gives_play assms(2)] assms(1)
    by (simp add: decode_play_clientbound_def)
  ultimately show ?thesis
    using section_entry_inside by (auto simp: adapt_chunk_packet_def list_all_iff)
qed

lemma section_update_stays_inside_witness:
  "let u = \<lparr>su_section_x = - 2097152, su_section_y = - 4, su_section_z = 2097151,
       su_updates = [\<lparr>sb_local_x = 15, sb_local_y = 0, sb_local_z = 7, sb_state_id = 9\<rparr>]\<rparr> in
   \<exists>updates. adapt_chunk_packet (Play_SectionBlocksUpdate u) = Inr (Adapt_Blocks updates) \<and>
    length updates = length (su_updates u) \<and> length updates \<le> MAX_SECTION_BLOCK_UPDATES \<and>
    (\<forall>b \<in> set updates. block_in_section u (update_position b))"
proof -
  let ?u = "\<lparr>su_section_x = - 2097152, su_section_y = - 4, su_section_z = 2097151,
       su_updates = [\<lparr>sb_local_x = 15, sb_local_y = 0, sb_local_z = 7, sb_state_id = 9\<rparr>]\<rparr>"
  have "fits 21 (- 2097152)" "fits 19 (- 4)" "fits 21 2097151" by (simp_all add: fits_iff)
  then have wf: "section_update_wf ?u"
    by (simp add: section_update_wf_def MAX_SECTION_BLOCK_UPDATES_def section_entry_valid_def)
  have "decode_play_clientbound roomy_env (enc_var PLAY_SECTION_BLOCKS_UPDATE_ID @ enc_section_update ?u) =
      Inr (Play_SectionBlocksUpdate ?u)"
    by (rule section_update_decodes[OF wf]) (simp add: roomy_env_def)
  moreover have "length (enc_var PLAY_SECTION_BLOCKS_UPDATE_ID @ enc_section_update ?u) \<le> usize_MAX"
    using length_enc_section_update[OF wf] length_enc_var_int[of PLAY_SECTION_BLOCKS_UPDATE_ID] by (simp add: usize_MAX_def)
  ultimately show ?thesis unfolding Let_def by (rule section_update_stays_inside)
qed

end
