(* ===== verification/Secure_Chat.thy ===== *)
theory Secure_Chat
  imports Bootstrap_Send
begin

unbundle bit_operations_syntax

text \<open>
  \<open>cubic-network/src/secure_chat.rs\<close>: signed chat. Messages are numbered in both directions; a window of the
  last messages seen is acknowledged with every message sent, or on its own when too many are waiting.
  The certificate (a trait object) is a record of functions and the clock, in milliseconds, an argument.
\<close>

record secure_chat_rules =
  chain_version :: i32
  last_seen_capacity :: nat
  standalone_threshold :: i32

datatype 'e secure_chat_error =
    Authentication 'e
  | ExpiredCertificate
  | IncomingSequence i32 i32
  | NumericRange
  | IncompatibleAcknowledgementWindow

record 'e chat_certificate =
  certificate_public_key_der :: "u8 list"
  certificate_public_key_signature :: "u8 list"
  certificate_expires_at :: int
  certificate_is_expired :: "int \<Rightarrow> bool"
  sign_chat :: "u8 list \<Rightarrow> 'e + message_signature"

record last_seen_tracker =
  window :: "message_signature option list"
  last_added :: "message_signature option"
  pending_offset :: i32

record secure_chat_sequence =
  chat_session_id :: protocol_uuid
  next_outgoing_index :: i32
  next_incoming_index :: i32
  last_seen :: last_seen_tracker

record 'e secure_chat_session =
  rules :: secure_chat_rules
  certificate :: "'e chat_certificate"
  chat_sender :: protocol_uuid
  sequence :: secure_chat_sequence

record prepared_message =
  prepared_signature :: message_signature
  prepared_update :: chat_last_seen_update

type_synonym ('e, 'a) chat_op = "('e secure_chat_session, 'e secure_chat_error, 'a) fallible"

text \<open>\<open>i32::checked_add(1)\<close>.\<close>

definition next_i32 :: "i32 \<Rightarrow> i32 option" where
  "next_i32 v = (if v = 0x7fffffff then None else Some (v + 1))"

section \<open>Messages seen\<close>

definition tracker_new :: "nat \<Rightarrow> last_seen_tracker" where
  "tracker_new capacity = \<lparr>window = replicate capacity None, last_added = None, pending_offset = 0\<rparr>"

definition tracker_add ::
  "message_signature \<Rightarrow> bool \<Rightarrow> (last_seen_tracker, 'e secure_chat_error, unit) fallible" where
  "tracker_add signature displayed t =
     (if last_added t = Some signature then (Inr (), t)
      else
        let t' = t\<lparr>last_added := Some signature,
                   window := tl (window t) @ [if displayed then Some signature else None]\<rparr> in
        case next_i32 (pending_offset t) of
          None \<Rightarrow> (Inl NumericRange, t')
        | Some n \<Rightarrow> (Inr (), t'\<lparr>pending_offset := n\<rparr>))"

definition take_offset :: "last_seen_tracker \<Rightarrow> i32 \<times> last_seen_tracker" where
  "take_offset t = (pending_offset t, t\<lparr>pending_offset := 0\<rparr>)"

text \<open>The hash codes of Java's \<open>byte[]\<close> and \<open>List\<close>; a checksum of 0 is sent as 1.\<close>

definition array_hash :: "message_signature \<Rightarrow> i32" where
  "array_hash = foldl (\<lambda>h byte. h * 31 + scast byte) 1"

definition acknowledgement_checksum :: "message_signature list \<Rightarrow> u8" where
  "acknowledgement_checksum signatures =
     (let checksum = ucast (foldl (\<lambda>h s. h * 31 + array_hash s) 1 signatures) in
      if checksum = 0 then 1 else checksum)"

fun acknowledge_window :: "nat \<Rightarrow> message_signature option list \<Rightarrow> u8 list \<Rightarrow> u8 list" where
  "acknowledge_window index [] acknowledged = acknowledged"
| "acknowledge_window index (e # es) acknowledged =
     acknowledge_window (Suc index) es
       (case e of
          None \<Rightarrow> acknowledged
        | Some _ \<Rightarrow> acknowledged[index div 8 := (acknowledged ! (index div 8)) OR push_bit (index mod 8) 1])"

definition window_signatures :: "message_signature option list \<Rightarrow> message_signature list" where
  "window_signatures es = List.map_filter (\<lambda>e. e) es"

definition generate_update ::
  "(last_seen_tracker, 'e secure_chat_error, chat_last_seen_update \<times> message_signature list) fallible" where
  "generate_update t =
     (if length (window t) \<noteq> 20 then (Inl IncompatibleAcknowledgementWindow, t)
      else
        let acknowledged = acknowledge_window 0 (window t) [0, 0, 0];
            signatures = window_signatures (window t) in
        case take_offset t of (n, t') \<Rightarrow>
          (case chat_last_seen_update_new n acknowledged (acknowledgement_checksum signatures) of
             Inl _ \<Rightarrow> (Inl NumericRange, t') | Inr u \<Rightarrow> (Inr (u, signatures), t')))"

section \<open>What is signed\<close>

record signing_context =
  sc_rules :: secure_chat_rules
  sc_sender :: protocol_uuid
  sc_session :: protocol_uuid
  sc_message_index :: i32
  sc_message :: rust_str
  sc_timestamp_millis :: i64
  sc_salt :: i64
  sc_last_seen :: "message_signature list"

text \<open>Division of an \<open>i64\<close>, toward zero.\<close>

definition whole_seconds :: "i64 \<Rightarrow> i64" where
  "whole_seconds t = (if t <s 0 then - of_int (- sint t div 1000) else of_int (sint t div 1000))"

definition build_signing_input :: "signing_context \<Rightarrow> 'e secure_chat_error + u8 list" where
  "build_signing_input c =
     (if i32_MAX < str_len (sc_message c) \<or> i32_MAX < length (sc_last_seen c) then Inl NumericRange
      else Inr (to_be_bytes (chain_version (sc_rules c)) @ to_bytes (sc_sender c) @ to_bytes (sc_session c) @
        to_be_bytes (sc_message_index c) @ to_be_bytes (sc_salt c) @ to_be_bytes (whole_seconds (sc_timestamp_millis c)) @
        to_be_bytes (of_nat (str_len (sc_message c)) :: i32) @ as_bytes (sc_message c) @
        to_be_bytes (of_nat (length (sc_last_seen c)) :: i32) @ concat (sc_last_seen c)))"

section \<open>The session\<close>

definition sequence_new :: "protocol_uuid \<Rightarrow> nat \<Rightarrow> secure_chat_sequence" where
  "sequence_new session_id capacity =
     \<lparr>chat_session_id = session_id, next_outgoing_index = 0, next_incoming_index = 0, last_seen = tracker_new capacity\<rparr>"

definition secure_chat_new ::
  "secure_chat_rules \<Rightarrow> 'e chat_certificate \<Rightarrow> protocol_uuid \<Rightarrow> protocol_uuid \<Rightarrow> 'e secure_chat_session" where
  "secure_chat_new r c sender session_id =
     \<lparr>rules = r, certificate = c, chat_sender = sender, sequence = sequence_new session_id (last_seen_capacity r)\<rparr>"

definition secure_chat_reset :: "protocol_uuid \<Rightarrow> 'e secure_chat_session \<Rightarrow> 'e secure_chat_session" where
  "secure_chat_reset session_id s = s\<lparr>sequence := sequence_new session_id (last_seen_capacity (rules s))\<rparr>"

definition set_last_seen :: "last_seen_tracker \<Rightarrow> 'e secure_chat_session \<Rightarrow> 'e secure_chat_session" where
  "set_last_seen t s = s\<lparr>sequence := (sequence s)\<lparr>last_seen := t\<rparr>\<rparr>"

definition with_last_seen ::
  "(last_seen_tracker, 'e secure_chat_error, 'a) fallible \<Rightarrow> ('e, 'a) chat_op" where
  "with_last_seen m s = (case m (last_seen (sequence s)) of (res, t) \<Rightarrow> (res, set_last_seen t s))"

definition advance_incoming_index :: "i32 \<Rightarrow> ('e, unit) chat_op" where
  "advance_incoming_index received s =
     (let expected = next_incoming_index (sequence s) in
      if received \<noteq> expected then (Inl (IncomingSequence expected received), s)
      else case next_i32 expected of
        None \<Rightarrow> (Inl NumericRange, s)
      | Some n \<Rightarrow> (Inr (), s\<lparr>sequence := (sequence s)\<lparr>next_incoming_index := n\<rparr>\<rparr>))"

text \<open>Whether the message is displayed is what the event queue answers.\<close>

definition accept_incoming :: "i32 \<Rightarrow> message_signature option \<Rightarrow> bool \<Rightarrow> ('e, unit) chat_op" where
  "accept_incoming global_index signature displayed =
     and_then (advance_incoming_index global_index) (\<lambda>_.
     case signature of None \<Rightarrow> ok () | Some x \<Rightarrow> with_last_seen (tracker_add x displayed))"

definition standalone_acknowledgement :: "'e secure_chat_session \<Rightarrow> i32 option \<times> 'e secure_chat_session" where
  "standalone_acknowledgement s =
     (if standalone_threshold (rules s) <s pending_offset (last_seen (sequence s))
      then case take_offset (last_seen (sequence s)) of (n, t) \<Rightarrow> (Some n, set_last_seen t s)
      else (None, s))"

definition advance_outgoing_index :: "('e, unit) chat_op" where
  "advance_outgoing_index s =
     (case next_i32 (next_outgoing_index (sequence s)) of
        None \<Rightarrow> (Inl NumericRange, s)
      | Some n \<Rightarrow> (Inr (), s\<lparr>sequence := (sequence s)\<lparr>next_outgoing_index := n\<rparr>\<rparr>))"

definition signing_context_of :: "'e secure_chat_session \<Rightarrow> rust_str \<Rightarrow> i64 \<Rightarrow> i64 \<Rightarrow> message_signature list \<Rightarrow> signing_context" where
  "signing_context_of s message timestamp_millis salt signatures =
     \<lparr>sc_rules = rules s, sc_sender = chat_sender s, sc_session = chat_session_id (sequence s),
      sc_message_index = next_outgoing_index (sequence s), sc_message = message,
      sc_timestamp_millis = timestamp_millis, sc_salt = salt, sc_last_seen = signatures\<rparr>"

definition sign_message ::
  "rust_str \<Rightarrow> i64 \<Rightarrow> i64 \<Rightarrow> message_signature list \<Rightarrow> ('e, message_signature) chat_op" where
  "sign_message message timestamp_millis salt signatures s =
     (case build_signing_input (signing_context_of s message timestamp_millis salt signatures) of
        Inl e \<Rightarrow> (Inl e, s)
      | Inr bytes \<Rightarrow>
          (case sign_chat (certificate s) bytes of
             Inl e \<Rightarrow> (Inl (Authentication e), s) | Inr signature \<Rightarrow> (Inr signature, s)))"

definition prepare_outgoing :: "int \<Rightarrow> rust_str \<Rightarrow> i64 \<Rightarrow> i64 \<Rightarrow> ('e, prepared_message) chat_op" where
  "prepare_outgoing now message timestamp_millis salt s =
     (if certificate_is_expired (certificate s) now then (Inl ExpiredCertificate, s)
      else
        and_then (with_last_seen generate_update) (\<lambda>(update, signatures).
        and_then (sign_message message timestamp_millis salt signatures) (\<lambda>signature.
        and_then advance_outgoing_index (\<lambda>_.
        ok \<lparr>prepared_signature = signature, prepared_update = update\<rparr>))) s)"

definition system_time_millis :: "int \<Rightarrow> 'e secure_chat_error + i64" where
  "system_time_millis millis =
     (if millis < 0 \<or> 2 ^ 63 \<le> millis then Inl NumericRange else Inr (of_int millis))"

end
