(* ===== verification/Secure_Chat_Props.thy ===== *)
theory Secure_Chat_Props
  imports Secure_Chat Text_Bounds
begin

text \<open>
  Signed chat: what is signed determines the message, and every message seen is acknowledged once.
\<close>

section \<open>What is signed\<close>

definition context_wf :: "signing_context \<Rightarrow> bool" where
  "context_wf c \<longleftrightarrow> uuid_wf (sc_sender c) \<and> uuid_wf (sc_session c) \<and> is_str (sc_message c) \<and>
     (\<forall>s\<in>set (sc_last_seen c). length s = 256)"

lemma concat_blocks_inj:
  assumes "\<forall>x\<in>set xs. length x = n" "\<forall>y\<in>set ys. length y = n" "length xs = length ys" "concat xs = concat ys"
  shows "xs = ys"
  using assms(3,1,2,4) by (induction xs ys rule: list_induct2) auto

lemma of_nat_i32_inj: "m \<le> i32_MAX \<Longrightarrow> n \<le> i32_MAX \<Longrightarrow> (of_nat m :: i32) = of_nat n \<longleftrightarrow> m = n"
proof -
  have "unat (of_nat k :: i32) = k" if "k \<le> i32_MAX" for k
    using that by (simp add: unat_of_nat i32_MAX_def)
  then show "m \<le> i32_MAX \<Longrightarrow> n \<le> i32_MAX \<Longrightarrow> (of_nat m :: i32) = of_nat n \<longleftrightarrow> m = n" by metis
qed

lemma to_be_bytes_inj [simp]:
  fixes x y :: "'a::len word"
  assumes "8 dvd LENGTH('a)"
  shows "to_be_bytes x = to_be_bytes y \<longleftrightarrow> x = y"
  using assms from_to_be_bytes[of x] from_to_be_bytes[of y] by metis

lemma message_part_inj:
  fixes xs ys :: "u8 list"
  assumes "to_be_bytes (of_nat (length xs) :: i32) @ xs @ r = to_be_bytes (of_nat (length ys) :: i32) @ ys @ r'"
    and "length xs \<le> i32_MAX" "length ys \<le> i32_MAX"
  shows "xs = ys \<and> r = r'"
proof -
  have len: "length (to_be_bytes (of_nat (length xs) :: i32)) = length (to_be_bytes (of_nat (length ys) :: i32))"
    by (simp add: length_to_be_bytes)
  with assms(1) have "(of_nat (length xs) :: i32) = of_nat (length ys)" "xs @ r = ys @ r'"
    by (auto simp: append_eq_append_conv)
  with assms(2,3) show ?thesis by (simp add: of_nat_i32_inj append_eq_append_conv)
qed

text \<open>C25: The bytes a message is signed over determine it: two contexts with the same input have the same rules
  version, sender, session, index, salt, time in seconds, text and list of messages seen. So a signature cannot be
  read as one of another message.\<close>

theorem signing_input_unambiguous:
  assumes "build_signing_input c = Inr bytes" and "build_signing_input d = Inr bytes" and "context_wf c" and "context_wf d"
  shows "chain_version (sc_rules c) = chain_version (sc_rules d) \<and> sc_sender c = sc_sender d \<and>
    sc_session c = sc_session d \<and> sc_message_index c = sc_message_index d \<and> sc_salt c = sc_salt d \<and>
    whole_seconds (sc_timestamp_millis c) = whole_seconds (sc_timestamp_millis d) \<and>
    sc_message c = sc_message d \<and> sc_last_seen c = sc_last_seen d"
proof -
  have small: "length (as_bytes (sc_message c)) \<le> i32_MAX" "length (as_bytes (sc_message d)) \<le> i32_MAX"
    "length (sc_last_seen c) \<le> i32_MAX" "length (sc_last_seen d) \<le> i32_MAX"
    using assms(1,2) by (auto simp: build_signing_input_def str_len_def split: if_splits)
  let ?tail = "\<lambda>c. to_be_bytes (of_nat (length (sc_last_seen c)) :: i32) @ concat (sc_last_seen c)"
  let ?body = "\<lambda>c. to_be_bytes (of_nat (length (as_bytes (sc_message c))) :: i32) @ as_bytes (sc_message c) @ ?tail c"
  have uuids: "length (to_bytes (sc_sender c)) = length (to_bytes (sc_sender d))"
    "length (to_bytes (sc_session c)) = length (to_bytes (sc_session d))"
    using assms(3,4) by (simp_all add: context_wf_def uuid_wf_def)
  have "to_be_bytes (chain_version (sc_rules c)) @ to_bytes (sc_sender c) @ to_bytes (sc_session c) @
      to_be_bytes (sc_message_index c) @ to_be_bytes (sc_salt c) @ to_be_bytes (whole_seconds (sc_timestamp_millis c)) @ ?body c =
    to_be_bytes (chain_version (sc_rules d)) @ to_bytes (sc_sender d) @ to_bytes (sc_session d) @
      to_be_bytes (sc_message_index d) @ to_be_bytes (sc_salt d) @ to_be_bytes (whole_seconds (sc_timestamp_millis d)) @ ?body d"
    using assms(1,2) by (auto simp: build_signing_input_def str_len_def split: if_splits)
  then have head: "chain_version (sc_rules c) = chain_version (sc_rules d)" "to_bytes (sc_sender c) = to_bytes (sc_sender d)"
      "to_bytes (sc_session c) = to_bytes (sc_session d)" "sc_message_index c = sc_message_index d"
      "sc_salt c = sc_salt d" "whole_seconds (sc_timestamp_millis c) = whole_seconds (sc_timestamp_millis d)"
    and body: "?body c = ?body d"
    by (simp_all add: append_eq_append_conv uuids length_to_be_bytes)
  from message_part_inj[OF body small(1,2)] have message: "as_bytes (sc_message c) = as_bytes (sc_message d)"
    and tail: "?tail c = ?tail d" by simp_all
  from tail have "(of_nat (length (sc_last_seen c)) :: i32) = of_nat (length (sc_last_seen d))"
      "concat (sc_last_seen c) = concat (sc_last_seen d)"
    by (simp_all add: append_eq_append_conv length_to_be_bytes)
  then have "sc_last_seen c = sc_last_seen d"
    using concat_blocks_inj[of "sc_last_seen c" 256 "sc_last_seen d"] assms(3,4) small
    by (simp add: of_nat_i32_inj context_wf_def)
  moreover have "sc_message c = sc_message d" using as_bytes_inj message assms(3,4) by (simp add: context_wf_def)
  ultimately show ?thesis using head by (simp add: protocol_uuid.expand)
qed

text \<open>Two times in the same second sign the same bytes.\<close>

definition hi_context :: "i64 \<Rightarrow> signing_context" where
  "hi_context millis =
     \<lparr>sc_rules = \<lparr>chain_version = 1, last_seen_capacity = 20, standalone_threshold = 64\<rparr>,
      sc_sender = ProtocolUuid (replicate 16 0), sc_session = ProtocolUuid (replicate 16 1), sc_message_index = 3,
      sc_message = [72, 105], sc_timestamp_millis = millis, sc_salt = 5, sc_last_seen = [replicate 256 0x5a]\<rparr>"

theorem signing_input_unambiguous_witness:
  "build_signing_input (hi_context 4001) = (build_signing_input (hi_context 4999) :: unit secure_chat_error + u8 list) \<and>
   whole_seconds 4001 = whole_seconds 4999"
proof -
  have wf: "context_wf (hi_context t)" for t
    by (simp add: context_wf_def hi_context_def uuid_wf_def is_str_def is_scalar_value_def)
  have "whole_seconds 4001 = 4" "whole_seconds 4999 = 4" by (simp_all add: whole_seconds_def word_sless_alt)
  then have "build_signing_input (hi_context 4001) = (build_signing_input (hi_context 4999) :: unit secure_chat_error + u8 list)"
    by (simp add: build_signing_input_def hi_context_def)
  moreover obtain bytes where "build_signing_input (hi_context 4001) = (Inr bytes :: unit secure_chat_error + u8 list)"
    by (auto simp: build_signing_input_def hi_context_def str_len_Cons str_len_Nil utf8_char_def i32_MAX_def)
  ultimately show ?thesis using signing_input_unambiguous[OF _ _ wf wf, of 4001 bytes 4999] by (simp add: hi_context_def)
qed

section \<open>The window\<close>

lemma acknowledge_window_length [simp]: "length (acknowledge_window i es a) = length a"
  by (induction i es a rule: acknowledge_window.induct) (auto split: option.splits)

lemma bit_set_byte:
  "j < 24 \<Longrightarrow> i < 24 \<Longrightarrow> length a = 3 \<Longrightarrow>
   bit ((a[i div 8 := (a ! (i div 8)) OR push_bit (i mod 8) (1 :: u8)]) ! (j div 8)) (j mod 8) \<longleftrightarrow>
     j = i \<or> bit (a ! (j div 8)) (j mod 8)"
proof -
  assume "j < 24" "i < 24" "length a = 3"
  then have "i div 8 < length a" "j div 8 < length a" by simp_all
  moreover have "bit (push_bit (i mod 8) (1 :: u8)) (j mod 8) \<longleftrightarrow> j mod 8 = i mod 8"
    by (auto simp: bit_exp_iff)
  moreover have "j = i \<longleftrightarrow> j div 8 = i div 8 \<and> j mod 8 = i mod 8" by (metis div_mult_mod_eq)
  ultimately show ?thesis by (cases "j div 8 = i div 8") (auto simp: bit_or_iff)
qed

lemma acknowledge_window_bit:
  "length a = 3 \<Longrightarrow> i + length es \<le> 24 \<Longrightarrow> j < 24 \<Longrightarrow>
   bit (acknowledge_window i es a ! (j div 8)) (j mod 8) \<longleftrightarrow>
     (if i \<le> j \<and> j < i + length es then es ! (j - i) \<noteq> None else False) \<or> bit (a ! (j div 8)) (j mod 8)"
proof (induction i es a rule: acknowledge_window.induct)
  case (2 i e es a)
  have "(e # es) ! (j - i) = es ! (j - Suc i)" if "Suc i \<le> j"
    using that by (metis Suc_diff_Suc Suc_le_lessD nth_Cons_Suc)
  then show ?case
    using 2 bit_set_byte[of j i a] by (cases e; cases "j = i"; cases "Suc i \<le> j") auto
qed auto

definition tracker_wf :: "last_seen_tracker \<Rightarrow> bool" where
  "tracker_wf t \<longleftrightarrow> length (window t) = 20 \<and> 0 \<le> sint (pending_offset t)"

lemma high_nibble_clear:
  assumes "\<And>j. 4 \<le> j \<Longrightarrow> j < 8 \<Longrightarrow> \<not> bit (b :: u8) j"
  shows "b AND 0xf0 = 0"
proof (rule bit_word_eqI)
  fix j assume "j < LENGTH(8)"
  then have "j = 0 \<or> j = 1 \<or> j = 2 \<or> j = 3 \<or> 4 \<le> j \<and> j < 8" by auto
  then show "bit (b AND 0xf0) j \<longleftrightarrow> bit (0 :: u8) j" using assms[of j] by (auto simp: bit_and_iff)
qed

lemma acknowledged_fits: "length es = 20 \<Longrightarrow> acknowledge_window 0 es [0, 0, 0] ! 2 AND 0xf0 = 0"
proof (rule high_nibble_clear)
  fix j :: nat assume "length es = 20" "4 \<le> j" "j < 8"
  then show "\<not> bit (acknowledge_window 0 es [0, 0, 0] ! 2) j"
    using acknowledge_window_bit[of "[0, 0, 0]" 0 es "16 + j"] div_add1_eq[of 16 j 8] mod_add_left_eq[of 16 8 j] by simp
qed

lemma sint_nonneg_iff: "\<not> v <s 0 \<longleftrightarrow> 0 \<le> sint v"
  by (simp add: word_sless_alt not_less)

lemma generate_update_run:
  assumes "tracker_wf t"
  shows "generate_update t =
    (Inr (\<lparr>ls_offset = pending_offset t, ls_acknowledged = acknowledge_window 0 (window t) [0, 0, 0],
           ls_checksum = acknowledgement_checksum (window_signatures (window t))\<rparr>, window_signatures (window t)),
     t\<lparr>pending_offset := 0\<rparr>)"
  using assms
  by (simp add: generate_update_def tracker_wf_def take_offset_def Let_def chat_last_seen_update_new_def acknowledged_fits
      sint_nonneg_iff)

section \<open>Acknowledgements\<close>

text \<open>What a session does: take a message in, acknowledge on its own, prepare a message to send.\<close>

datatype chat_step =
    Chat_Incoming i32 "message_signature option" bool
  | Chat_Acknowledge
  | Chat_Outgoing int rust_str i64 i64

fun chat_perform :: "chat_step \<Rightarrow> ('e, int) chat_op" where
  "chat_perform (Chat_Incoming i signature displayed) = and_then (accept_incoming i signature displayed) (\<lambda>_. ok 0)"
| "chat_perform Chat_Acknowledge =
     (\<lambda>s. case standalone_acknowledgement s of (None, s') \<Rightarrow> (Inr 0, s') | (Some n, s') \<Rightarrow> (Inr (sint n), s'))"
| "chat_perform (Chat_Outgoing now message millis salt) =
     and_then (prepare_outgoing now message millis salt) (\<lambda>p. ok (sint (ls_offset (prepared_update p))))"

fun chat_steps :: "chat_step list \<Rightarrow> ('e, int) chat_op" where
  "chat_steps [] = ok 0"
| "chat_steps (x # xs) = and_then (chat_perform x) (\<lambda>m. and_then (chat_steps xs) (\<lambda>n. ok (m + n)))"

text \<open>The signed messages, a repeated signature once, and whether each was displayed.\<close>

fun seen_messages :: "message_signature option \<Rightarrow> chat_step list \<Rightarrow> message_signature option list" where
  "seen_messages prev [] = []"
| "seen_messages prev (Chat_Incoming i (Some x) displayed # xs) =
     (if prev = Some x then seen_messages prev xs
      else (if displayed then Some x else None) # seen_messages (Some x) xs)"
| "seen_messages prev (x # xs) = seen_messages prev xs"

definition window_of :: "message_signature option list \<Rightarrow> message_signature option list" where
  "window_of es = drop (length es) (replicate 20 None @ es)"

text \<open>A session whose counted messages are \<open>es\<close>, of which \<open>n\<close> are acknowledged.\<close>

definition chat_log :: "'e secure_chat_session \<Rightarrow> message_signature option list \<Rightarrow> int \<Rightarrow> bool" where
  "chat_log s es n \<longleftrightarrow> window (last_seen (sequence s)) = window_of es \<and>
     0 \<le> sint (pending_offset (last_seen (sequence s))) \<and> n + sint (pending_offset (last_seen (sequence s))) = int (length es)"

abbreviation last_signature :: "'e secure_chat_session \<Rightarrow> message_signature option" where
  "last_signature s \<equiv> last_added (last_seen (sequence s))"

lemma window_of_length [simp]: "length (window_of es) = 20"
  by (simp add: window_of_def)

lemma window_of_snoc: "tl (window_of es) @ [e] = window_of (es @ [e])"
proof -
  let ?xs = "replicate 20 None @ es"
  have "tl (drop (length es) ?xs) = drop (Suc (length es)) ?xs" by (simp only: drop_Suc tl_drop)
  moreover have "drop (Suc (length es)) (?xs @ [e]) = drop (Suc (length es)) ?xs @ [e]" by (subst drop_append) simp
  ultimately show ?thesis by (simp add: window_of_def del: drop_append)
qed

lemma next_i32_sint: "next_i32 v = Some w \<Longrightarrow> sint w = sint v + 1"
proof -
  assume "next_i32 v = Some w"
  then have w: "w = v + 1" and v: "v \<noteq> 0x7fffffff" by (simp_all add: next_i32_def split: if_splits)
  have "sint v \<noteq> 2 ^ 31 - 1"
  proof
    assume "sint v = 2 ^ 31 - 1"
    then have "(word_of_int (sint v) :: i32) = word_of_int (2 ^ 31 - 1)" by simp
    with v show False by simp
  qed
  with sint_lt[of v] have "sint v + 1 < 2 ^ 31" by simp
  moreover have "- (2 ^ 31) \<le> sint v + 1" using sint_ge[of v] by simp
  ultimately show "sint w = sint v + 1"
    unfolding w by (simp add: signed_take_bit_int_eq_self sint_word_ariths)
qed

lemma chat_log_wf: "chat_log s es n \<Longrightarrow> tracker_wf (last_seen (sequence s))"
  by (simp add: chat_log_def tracker_wf_def)

lemma tracker_add_log:
  assumes "with_last_seen (tracker_add x displayed) s = (Inr (), s1)" and "chat_log s es n"
  shows "if last_signature s = Some x then s1 = s
    else chat_log s1 (es @ [if displayed then Some x else None]) n \<and> last_signature s1 = Some x"
proof (cases "last_signature s = Some x")
  case True
  then show ?thesis using assms(1) by (simp add: with_last_seen_def tracker_add_def set_last_seen_def)
next
  case False
  let ?t = "last_seen (sequence s)"
  from assms(1) False obtain k where k: "next_i32 (pending_offset ?t) = Some k"
    and s1: "s1 = set_last_seen (?t\<lparr>last_added := Some x,
      window := tl (window ?t) @ [if displayed then Some x else None], pending_offset := k\<rparr>) s"
    by (auto simp: with_last_seen_def tracker_add_def Let_def split: option.splits)
  show ?thesis
    using False assms(2) next_i32_sint[OF k] window_of_snoc[of es] by (simp add: s1 set_last_seen_def chat_log_def)
qed

lemma incoming_log:
  assumes "accept_incoming i signature displayed s = (Inr (), s1)" and "chat_log s es n"
  shows "chat_log s1 (es @ seen_messages (last_signature s) [Chat_Incoming i signature displayed]) n" (is ?log)
    and "last_signature s1 = (if signature = None then last_signature s else signature)" (is ?last)
proof -
  from assms(1) obtain s0 where s0: "advance_incoming_index i s = (Inr (), s0)"
    and s1: "(case signature of None \<Rightarrow> ok () | Some x \<Rightarrow> with_last_seen (tracker_add x displayed)) s0 = (Inr (), s1)"
    by (auto simp: accept_incoming_def and_then_Inr_iff)
  from s0 have seen: "last_seen (sequence s0) = last_seen (sequence s)"
    by (auto simp: advance_incoming_index_def Let_def split: if_splits option.splits)
  then have "chat_log s0 es n" using assms(2) by (simp add: chat_log_def)
  then have "?log \<and> ?last"
  proof (cases signature)
    case (Some x)
    then show ?thesis
      using s1 seen \<open>chat_log s0 es n\<close> tracker_add_log[of x displayed s0 s1 es n] by (auto split: if_splits)
  qed (use s1 seen in \<open>auto simp: run_simps\<close>)
  then show ?log and ?last by auto
qed

lemma acknowledge_log:
  assumes "standalone_acknowledgement s = (res, s1)" and "chat_log s es n"
  shows "chat_log s1 es (n + (case res of None \<Rightarrow> 0 | Some k \<Rightarrow> sint k))" and "last_signature s1 = last_signature s"
  using assms by (auto simp: standalone_acknowledgement_def take_offset_def set_last_seen_def chat_log_def split: if_splits)

text \<open>A message that was prepared reports what was pending, the messages displayed in the window and a signature
  over them, and leaves the window as it is.\<close>

lemma prepare_outgoing_Inr:
  fixes s :: "'e secure_chat_session"
  assumes "prepare_outgoing now message millis salt s = (Inr p, s1)" and "tracker_wf (last_seen (sequence s))"
  shows "ls_offset (prepared_update p) = pending_offset (last_seen (sequence s))"
    and "last_seen (sequence s1) = (last_seen (sequence s))\<lparr>pending_offset := 0\<rparr>"
    and "ls_acknowledged (prepared_update p) = acknowledge_window 0 (window (last_seen (sequence s))) [0, 0, 0]"
    and "\<exists>bytes. build_signing_input (signing_context_of s message millis salt
           (window_signatures (window (last_seen (sequence s))))) = (Inr bytes :: 'e secure_chat_error + u8 list) \<and>
         sign_chat (certificate s) bytes = Inr (prepared_signature p)"
  using assms
  by (auto simp: prepare_outgoing_def and_then_Inr_iff with_last_seen_def generate_update_run sign_message_def
      advance_outgoing_index_def set_last_seen_def signing_context_of_def run_simps split: if_splits sum.splits option.splits)

text \<open>When signing fails, the pending acknowledgements were already taken, and are reported nowhere.\<close>

lemma failed_signature_drops_pending:
  assumes "\<not> certificate_is_expired (certificate s) now" and "tracker_wf (last_seen (sequence s))"
    and "\<And>bytes. sign_chat (certificate s) bytes = Inl e"
  shows "\<exists>error. prepare_outgoing now message millis salt s =
    (Inl error, set_last_seen ((last_seen (sequence s))\<lparr>pending_offset := 0\<rparr>) s)"
  using assms
  by (auto simp: prepare_outgoing_def and_then_def with_last_seen_def generate_update_run sign_message_def
      set_last_seen_def split: sum.splits)

lemma chat_perform_log:
  assumes "chat_perform x s = (Inr m, s1)" and "chat_log s es n"
  shows "chat_log s1 (es @ seen_messages (last_signature s) [x]) (n + m) \<and>
    seen_messages (last_signature s) (x # xs) = seen_messages (last_signature s) [x] @ seen_messages (last_signature s1) xs"
proof (cases x)
  case (Chat_Incoming i signature displayed)
  then have run: "accept_incoming i signature displayed s = (Inr (), s1)" and "m = 0"
    using assms(1) by (auto simp: and_then_Inr_iff run_simps)
  with incoming_log[OF run assms(2)] show ?thesis by (cases signature) (auto simp: Chat_Incoming)
next
  case Chat_Acknowledge
  obtain res where run: "standalone_acknowledgement s = (res, s1)" and m: "m = (case res of None \<Rightarrow> 0 | Some k \<Rightarrow> sint k)"
    using assms(1) Chat_Acknowledge by (auto split: prod.splits option.splits)
  with acknowledge_log[OF run assms(2)] show ?thesis by (simp add: Chat_Acknowledge)
next
  case (Chat_Outgoing now message millis salt)
  then obtain p where run: "prepare_outgoing now message millis salt s = (Inr p, s1)"
    and m: "m = sint (ls_offset (prepared_update p))"
    using assms(1) by (auto simp: and_then_Inr_iff run_simps)
  with prepare_outgoing_Inr(1,2)[OF run chat_log_wf[OF assms(2)]] assms(2) show ?thesis
    by (simp add: Chat_Outgoing chat_log_def)
qed

lemma chat_steps_log:
  "chat_steps xs s = (Inr m, s1) \<Longrightarrow> chat_log s es n \<Longrightarrow>
   chat_log s1 (es @ seen_messages (last_signature s) xs) (n + m)"
proof (induction xs arbitrary: s es n m)
  case (Cons x xs)
  from Cons.prems(1) obtain k s2 j where x: "chat_perform x s = (Inr k, s2)" and xs: "chat_steps xs s2 = (Inr j, s1)"
    and m: "m = k + j" by (auto simp: and_then_Inr_iff run_simps)
  from chat_perform_log[OF x Cons.prems(2)] have step: "chat_log s2 (es @ seen_messages (last_signature s) [x]) (n + k)"
    and split: "seen_messages (last_signature s) (x # xs) = seen_messages (last_signature s) [x] @ seen_messages (last_signature s2) xs"
    by blast+
  from Cons.IH[OF xs step] show ?case by (simp add: m split add.assoc)
qed (simp add: run_simps)

lemma chat_log_new: "last_seen_capacity r = 20 \<Longrightarrow> chat_log (secure_chat_new r c sender sid) [] 0"
  by (simp add: chat_log_def secure_chat_new_def sequence_new_def tracker_new_def window_of_def)

text \<open>C26: In a session with the window of protocol 775, after any successful run of messages received, messages
  sent and acknowledgements on their own: the acknowledgements sent, with those still pending, are as many as the
  signed messages received, each counted once; and the window holds the last twenty of them, a message that was not
  displayed as a gap.\<close>

theorem every_message_acknowledged_once:
  assumes "chat_steps steps (secure_chat_new r c sender sid) = (Inr acknowledged, s)" and "last_seen_capacity r = 20"
  shows "acknowledged + sint (pending_offset (last_seen (sequence s))) = int (length (seen_messages None steps)) \<and>
    window (last_seen (sequence s)) = window_of (seen_messages None steps)"
  using chat_steps_log[OF assms(1) chat_log_new[OF assms(2)]]
  by (simp add: chat_log_def secure_chat_new_def sequence_new_def tracker_new_def)

text \<open>Two messages received, the second not displayed; then one sent.\<close>

definition open_certificate :: "unit chat_certificate" where
  "open_certificate = \<lparr>certificate_public_key_der = [], certificate_public_key_signature = [], certificate_expires_at = 2 ^ 40,
     certificate_is_expired = (\<lambda>_. False), sign_chat = (\<lambda>_. Inr (replicate 256 7))\<rparr>"

definition chat_775_rules :: secure_chat_rules where
  "chat_775_rules = \<lparr>chain_version = 1, last_seen_capacity = 20, standalone_threshold = 64\<rparr>"

theorem every_message_acknowledged_once_witness:
  "\<exists>s. chat_steps [Chat_Incoming 0 (Some [1]) True, Chat_Incoming 1 (Some [2]) False, Chat_Outgoing 0 [72, 105] 4999 5]
      (secure_chat_new chat_775_rules open_certificate (ProtocolUuid (replicate 16 0)) (ProtocolUuid (replicate 16 1))) =
    (Inr 2, s) \<and> sint (pending_offset (last_seen (sequence s))) = 0 \<and>
    window (last_seen (sequence s)) = replicate 18 None @ [Some [1], None]"
proof -
  let ?steps = "[Chat_Incoming 0 (Some [1]) True, Chat_Incoming 1 (Some [2]) False, Chat_Outgoing 0 [72, 105] 4999 5]"
  let ?new = "secure_chat_new chat_775_rules open_certificate (ProtocolUuid (replicate 16 0)) (ProtocolUuid (replicate 16 1))"
  have "fst (chat_steps ?steps ?new) = Inr 2"
    by (simp add: accept_incoming_def advance_incoming_index_def next_i32_def secure_chat_new_def sequence_new_def
        tracker_new_def tracker_add_def with_last_seen_def set_last_seen_def prepare_outgoing_def and_then_def
        generate_update_run tracker_wf_def chat_775_rules_def open_certificate_def sign_message_def build_signing_input_def
        signing_context_of_def str_len_Cons str_len_Nil utf8_char_def i32_MAX_def window_signatures_def map_filter_def
        advance_outgoing_index_def run_simps Let_def)
  then obtain s where run: "chat_steps ?steps ?new = (Inr 2, s)" by (metis prod.collapse)
  have "last_seen_capacity chat_775_rules = 20" by (simp add: chat_775_rules_def)
  from every_message_acknowledged_once[OF run this] show ?thesis
    using run by (intro exI[of _ s]) (simp add: window_of_def)
qed

end
