(* ===== verification/Entity_Packets.thy ===== *)
theory Entity_Packets
  imports Item_Packets Bootstrap_Play Entity_Store
begin

unbundle bit_operations_syntax

text \<open>
  \<open>cubic-protocol/src/bootstrap/v775/entity.rs\<close> and \<open>entity/metadata.rs\<close>: the entity packets. The
  variants of \<open>BootstrapProtocolError\<close> that only they use are the constructors of \<open>entity_wire_error\<close>.
  Arrays of numbers are lists.
\<close>

definition ADD_ENTITY :: i32 where "ADD_ENTITY = 0x01"
definition POSITION_SYNC :: i32 where "POSITION_SYNC = 0x23"
definition MOVE_POS :: i32 where "MOVE_POS = 0x35"
definition MOVE_POS_ROT :: i32 where "MOVE_POS_ROT = 0x36"
definition MOVE_ROT :: i32 where "MOVE_ROT = 0x38"
definition REMOVE_ENTITIES :: i32 where "REMOVE_ENTITIES = 0x4d"
definition HEAD_ROT :: i32 where "HEAD_ROT = 0x53"
definition ENTITY_DATA :: i32 where "ENTITY_DATA = 0x63"
definition MOTION :: i32 where "MOTION = 0x65"
definition TELEPORT :: i32 where "TELEPORT = 0x7d"
definition UPDATE_ATTRIBUTES :: i32 where "UPDATE_ATTRIBUTES = 0x83"

definition MAX_REMOVED_ENTITIES_PER_PACKET :: nat where "MAX_REMOVED_ENTITIES_PER_PACKET = 4096"
definition MAX_ENTITY_METADATA_VALUE_BYTES :: nat where "MAX_ENTITY_METADATA_VALUE_BYTES = 64 * 1024"
definition MAX_PARTICLES :: nat where "MAX_PARTICLES = 256"
definition METADATA_TEXT_LIMITS :: string_limits where "METADATA_TEXT_LIMITS = string_limits_new 32767 32767"
definition METADATA_IDENTIFIER_LIMITS :: string_limits where "METADATA_IDENTIFIER_LIMITS = string_limits_new 256 1024"

datatype entity_wire_error =
    Wire_Boot bootstrap_error
  | Wire_Inventory item_error
  | Wire_RegistryUnavailable string
  | Wire_RegistryEntryUnknown string u32

type_synonym 'a entity_op = "(codec_reader, entity_wire_error, 'a) fallible"

definition entity_boot :: "'a boot_op \<Rightarrow> 'a entity_op" where "entity_boot m = map_err Wire_Boot m"

definition entity_read :: "'a reader_op \<Rightarrow> 'a entity_op" where "entity_read m = entity_boot (boot m)"

definition entity_item :: "'a item_op \<Rightarrow> 'a entity_op" where "entity_item m = map_err Wire_Inventory m"

definition out_of_range :: "string \<Rightarrow> int \<Rightarrow> int \<Rightarrow> int \<Rightarrow> entity_wire_error" where
  "out_of_range ctx v lo hi = Wire_Boot (Boot_Codec (ValueOutOfRange ctx v lo hi))"

section \<open>The profile\<close>

type_synonym registry_names = "(u32, rust_str) btree_map"
type_synonym wire_properties = "(rust_str, rust_str) btree_map"

record entity_profile =
  ep_types :: registry_names
  ep_attributes :: registry_names
  ep_particles :: registry_names
  ep_block_states :: "(u32, rust_str \<times> wire_properties) btree_map"
  ep_static_registries :: "(rust_str, registry_names) btree_map"
  ep_connection_registries :: "(rust_str, minecraft_identifier list) btree_map"

definition entry_names :: "table_entry list \<Rightarrow> registry_names" where
  "entry_names es = bt_collect (map (\<lambda>e. (te_raw_id e, as_str (te_identifier e))) es)"

definition profile_registry :: "game_data_artifact \<Rightarrow> string \<Rightarrow> registry_names" where
  "profile_registry d name =
     (case find (\<lambda>r. rt_identifier r = name) (ga_registries d) of None \<Rightarrow> [] | Some r \<Rightarrow> entry_names (rt_entries r))"

definition entity_profile_from_game_data :: "game_data_artifact \<Rightarrow> entity_profile" where
  "entity_profile_from_game_data d =
     \<lparr>ep_types = profile_registry d ''minecraft:entity_type'',
      ep_attributes = profile_registry d ''minecraft:attribute'',
      ep_particles = profile_registry d ''minecraft:particle_type'',
      ep_block_states = bt_collect (concat (map (\<lambda>b. map (\<lambda>s.
        (bs_state_id s, as_str (bd_identifier b), bs_properties s)) (bd_states b)) (ga_blocks d))),
      ep_static_registries = bt_collect (map (\<lambda>r. (as_str (rt_identifier r), entry_names (rt_entries r)))
        (filter (\<lambda>r. rt_identifier r = ''minecraft:villager_type'' \<or> rt_identifier r = ''minecraft:villager_profession'')
          (ga_registries d))),
      ep_connection_registries = []\<rparr>"

text \<open>\<open>extend\<close>: registries that were not sent again keep their entries.\<close>

definition install_connection_registries ::
  "(rust_str \<times> minecraft_identifier list) list \<Rightarrow> entity_profile \<Rightarrow> entity_profile" where
  "install_connection_registries registries p =
     p\<lparr>ep_connection_registries := fold (\<lambda>(k, v). bt_insert k v) registries (ep_connection_registries p)\<rparr>"

definition profile_registry_entry :: "entity_profile \<Rightarrow> string \<Rightarrow> u32 \<Rightarrow> entity_wire_error + rust_str" where
  "profile_registry_entry p registry raw_id =
     (case bt_get (str registry) (ep_connection_registries p) of
        Some entries \<Rightarrow>
          if unat raw_id < length entries then Inr (as_str (entries ! unat raw_id))
          else Inl (Wire_RegistryEntryUnknown registry raw_id)
      | None \<Rightarrow>
          (case bt_get (str registry) (ep_static_registries p) of
             Some entries \<Rightarrow>
               (case bt_get raw_id entries of
                  None \<Rightarrow> Inl (Wire_RegistryEntryUnknown registry raw_id) | Some name \<Rightarrow> Inr name)
           | None \<Rightarrow> Inl (Wire_RegistryUnavailable registry)))"

section \<open>Shared reads\<close>

definition entity_nonnegative :: "i32 \<Rightarrow> string \<Rightarrow> u32 entity_op" where
  "entity_nonnegative v ctx = (if v <s 0 then fail (out_of_range ctx (sint v) 0 (2 ^ 31 - 1)) else ok v)"

definition read_raw_id :: "string \<Rightarrow> u32 entity_op" where
  "read_raw_id ctx = and_then (entity_read read_var_int) (\<lambda>v. entity_nonnegative v ctx)"

definition look_up :: "string \<Rightarrow> u32 \<Rightarrow> (u32, 'a) btree_map \<Rightarrow> 'a entity_op" where
  "look_up ctx raw_id m =
     (case bt_get raw_id m of None \<Rightarrow> fail (out_of_range ctx (uint raw_id) 0 (2 ^ 32 - 1)) | Some v \<Rightarrow> ok v)"

definition read_finite_f32 :: "string \<Rightarrow> f32 entity_op" where
  "read_finite_f32 ctx =
     and_then (entity_read read_f32) (\<lambda>v. if f32_is_finite v then ok v else fail (Wire_Boot (Boot_NonFinite ctx)))"

definition metadata_vec3 :: "f32 list entity_op" where
  "metadata_vec3 =
     and_then (read_finite_f32 ''metadata vector x'') (\<lambda>x.
     and_then (read_finite_f32 ''metadata vector y'') (\<lambda>y.
     and_then (read_finite_f32 ''metadata vector z'') (\<lambda>z. ok [x, y, z])))"

definition read_optional :: "'a entity_op \<Rightarrow> 'a option entity_op" where
  "read_optional m =
     and_then (entity_read read_bool) (\<lambda>b. if b then and_then m (\<lambda>v. ok (Some v)) else ok None)"

definition metadata_count :: "nat \<Rightarrow> string \<Rightarrow> nat entity_op" where
  "metadata_count m ctx =
     and_then (read_raw_id ctx) (\<lambda>n.
     if m < unat n then fail (out_of_range ctx (uint n) 0 (int m)) else ok (unat n))"

definition read_ordinal :: "nat \<Rightarrow> string \<Rightarrow> nat entity_op" where
  "read_ordinal n ctx =
     and_then (entity_read read_var_int) (\<lambda>v.
     if v <s 0 \<or> n \<le> unat v then fail (out_of_range ctx (sint v) 0 (int n - 1)) else ok (unat v))"

definition metadata_identifier :: "rust_str entity_op" where
  "metadata_identifier =
     and_then (entity_read (read_string METADATA_IDENTIFIER_LIMITS)) (\<lambda>v.
     case identifier_new v of Inl _ \<Rightarrow> fail (out_of_range ''metadata identifier'' 0 1 1) | Inr _ \<Rightarrow> ok v)"

definition metadata_block_state :: "entity_profile \<Rightarrow> (u32 \<times> rust_str \<times> wire_properties) entity_op" where
  "metadata_block_state p =
     and_then (read_raw_id ''block state ID'') (\<lambda>i.
     and_then (look_up ''block state ID'' i (ep_block_states p)) (\<lambda>(block, ps). ok (i, block, ps)))"

definition registry_raw :: "entity_profile \<Rightarrow> string \<Rightarrow> rust_str entity_op" where
  "registry_raw p registry =
     and_then (read_raw_id ''metadata registry raw ID'') (\<lambda>raw. lift_result (profile_registry_entry p registry raw))"

definition metadata_component :: "nbt_env \<Rightarrow> text_component entity_op" where
  "metadata_component env = entity_boot (decode_text_component env)"

definition metadata_uuid :: "u8 list entity_op" where
  "metadata_uuid = and_then (entity_read read_uuid) (\<lambda>u. ok (to_bytes u))"

text \<open>An item needs the item profile of the connection.\<close>

definition with_items :: "item_profile option \<Rightarrow> (item_profile \<Rightarrow> 'a item_op) \<Rightarrow> 'a entity_op" where
  "with_items items m =
     (case items of None \<Rightarrow> fail (Wire_RegistryUnavailable ''minecraft:item'') | Some p \<Rightarrow> entity_item (m p))"

section \<open>Particles and profiles\<close>

datatype wire_particle_data =
    WParticle_None
  | WParticle_BlockState u32 rust_str wire_properties
  | WParticle_Float f32
  | WParticle_Int i32
  | WParticle_ColorAndFloat i32 f32
  | WParticle_Dust i32 f32
  | WParticle_DustTransition i32 i32 f32
  | WParticle_Item wire_item_stack
  | WParticle_VibrationBlock block_position i32
  | WParticle_VibrationEntity i32 f32 i32
  | WParticle_Trail "f64 list" i32 i32

record wire_particle =
  wpt_kind :: rust_str
  wpt_data :: wire_particle_data

definition read_trail :: "wire_particle_data entity_op" where
  "read_trail =
     and_then (entity_read read_f64) (\<lambda>x.
     and_then (entity_read read_f64) (\<lambda>y.
     and_then (entity_read read_f64) (\<lambda>z.
     if \<not> f64_is_finite x \<or> \<not> f64_is_finite y \<or> \<not> f64_is_finite z then fail (Wire_Boot (Boot_NonFinite ''trail target''))
     else and_then (entity_read read_i32) (\<lambda>color.
     and_then (entity_read read_var_int) (\<lambda>duration. ok (WParticle_Trail [x, y, z] color duration))))))"

definition read_vibration :: "wire_particle_data entity_op" where
  "read_vibration =
     and_then (entity_read read_var_int) (\<lambda>source.
     if source = 0 then
       and_then (entity_read read_block_position) (\<lambda>pos.
       and_then (entity_read read_var_int) (\<lambda>ticks. ok (WParticle_VibrationBlock pos ticks)))
     else if source = 1 then
       and_then (entity_read read_var_int) (\<lambda>i.
       and_then (read_finite_f32 ''vibration y offset'') (\<lambda>y_offset.
       and_then (entity_read read_var_int) (\<lambda>ticks. ok (WParticle_VibrationEntity i y_offset ticks))))
     else fail (out_of_range ''vibration position source'' (sint source) 0 1))"

definition read_particle_data ::
  "nbt_env \<Rightarrow> entity_profile \<Rightarrow> item_profile option \<Rightarrow> rust_str \<Rightarrow> wire_particle_data entity_op" where
  "read_particle_data env p items kind =
     (if kind \<in> set (map str [''minecraft:block'', ''minecraft:block_marker'', ''minecraft:falling_dust'',
           ''minecraft:dust_pillar'', ''minecraft:block_crumble'']) then
        and_then (metadata_block_state p) (\<lambda>(i, block, ps). ok (WParticle_BlockState i block ps))
      else if kind \<in> set (map str [''minecraft:dragon_breath'', ''minecraft:sculk_charge'']) then
        and_then (read_finite_f32 ''particle power'') (\<lambda>v. ok (WParticle_Float v))
      else if kind = str ''minecraft:dust'' then
        and_then (entity_read read_i32) (\<lambda>color.
        and_then (read_finite_f32 ''dust scale'') (\<lambda>scale. ok (WParticle_Dust color scale)))
      else if kind = str ''minecraft:dust_color_transition'' then
        and_then (entity_read read_i32) (\<lambda>start.
        and_then (entity_read read_i32) (\<lambda>target.
        and_then (read_finite_f32 ''dust transition scale'') (\<lambda>scale. ok (WParticle_DustTransition start target scale))))
      else if kind \<in> set (map str [''minecraft:effect'', ''minecraft:instant_effect'']) then
        and_then (entity_read read_i32) (\<lambda>color.
        and_then (read_finite_f32 ''spell particle amount'') (\<lambda>amount. ok (WParticle_ColorAndFloat color amount)))
      else if kind \<in> set (map str [''minecraft:entity_effect'', ''minecraft:tinted_leaves'', ''minecraft:flash'']) then
        and_then (entity_read read_i32) (\<lambda>v. ok (WParticle_Int v))
      else if kind = str ''minecraft:item'' then
        and_then (with_items items (decode_item_stack_template env)) (\<lambda>s. ok (WParticle_Item s))
      else if kind = str ''minecraft:shriek'' then
        and_then (entity_read read_var_int) (\<lambda>v. ok (WParticle_Int v))
      else if kind = str ''minecraft:trail'' then read_trail
      else if kind = str ''minecraft:vibration'' then read_vibration
      else ok WParticle_None)"

definition read_particle :: "nbt_env \<Rightarrow> entity_profile \<Rightarrow> item_profile option \<Rightarrow> wire_particle entity_op" where
  "read_particle env p items =
     and_then (read_raw_id ''particle type ID'') (\<lambda>raw.
     and_then (look_up ''particle type ID'' raw (ep_particles p)) (\<lambda>kind.
     and_then (read_particle_data env p items kind) (\<lambda>data. ok \<lparr>wpt_kind = kind, wpt_data = data\<rparr>)))"

record wire_profile =
  wpr_name :: "rust_str option"
  wpr_uuid :: "u8 list option"
  wpr_properties :: "(rust_str \<times> rust_str \<times> rust_str option) list"
  wpr_skin :: "rust_str option list"
  wpr_slim :: "bool option"

definition read_player_name :: "rust_str entity_op" where
  "read_player_name = entity_read (read_string (string_limits_new 16 48))"

definition read_profile_property :: "(rust_str \<times> rust_str \<times> rust_str option) entity_op" where
  "read_profile_property =
     and_then (entity_read (read_string (string_limits_new 64 192))) (\<lambda>key.
     and_then (entity_read (read_string METADATA_TEXT_LIMITS)) (\<lambda>val.
     and_then (read_optional (entity_read (read_string (string_limits_new 1024 3072)))) (\<lambda>signature.
     ok (key, val, signature))))"

definition resolvable_profile :: "wire_profile entity_op" where
  "resolvable_profile =
     and_then (entity_read read_bool) (\<lambda>complete.
     and_then (if complete then
         and_then metadata_uuid (\<lambda>uuid. and_then read_player_name (\<lambda>name. ok (Some name, Some uuid)))
       else
         and_then (read_optional read_player_name) (\<lambda>name.
         and_then (read_optional metadata_uuid) (\<lambda>uuid. ok (name, uuid)))) (\<lambda>(name, uuid).
     and_then (metadata_count 16 ''profile property count'') (\<lambda>n.
     and_then (read_n n read_profile_property) (\<lambda>ps.
     and_then (read_n 3 (read_optional metadata_identifier)) (\<lambda>skin.
     and_then (read_optional (entity_read read_bool)) (\<lambda>slim.
     ok \<lparr>wpr_name = name, wpr_uuid = uuid, wpr_properties = ps, wpr_skin = skin, wpr_slim = slim\<rparr>))))))"

section \<open>Metadata values\<close>

datatype wire_metadata =
    WMeta_Byte i8
  | WMeta_Integer i32
  | WMeta_Long i64
  | WMeta_Float f32
  | WMeta_String rust_str
  | WMeta_Component text_component
  | WMeta_OptionalComponent "text_component option"
  | WMeta_ItemStack "wire_item_stack option"
  | WMeta_Boolean bool
  | WMeta_Rotations "f32 list"
  | WMeta_BlockPos block_position
  | WMeta_OptionalBlockPos "block_position option"
  | WMeta_Direction nat
  | WMeta_LivingEntityReference "u8 list option"
  | WMeta_BlockState u32 rust_str wire_properties
  | WMeta_OptionalBlockState "(u32 \<times> rust_str \<times> wire_properties) option"
  | WMeta_Particle wire_particle
  | WMeta_Particles "wire_particle list"
  | WMeta_VillagerData rust_str rust_str i32
  | WMeta_OptionalUnsignedInt "u32 option"
  | WMeta_Pose nat string
  | WMeta_RegistryHolder nat string rust_str
  | WMeta_GlobalPos "(rust_str \<times> block_position) option"
  | WMeta_DirectPainting i32 i32 rust_str "text_component option" "text_component option"
  | WMeta_EnumState nat nat string
  | WMeta_Vector3 "f32 list"
  | WMeta_Quaternion "f32 list"
  | WMeta_ResolvableProfile wire_profile

fun wire_serializer_id :: "wire_metadata \<Rightarrow> nat" where
  "wire_serializer_id (WMeta_Byte _) = 0"
| "wire_serializer_id (WMeta_Integer _) = 1"
| "wire_serializer_id (WMeta_Long _) = 2"
| "wire_serializer_id (WMeta_Float _) = 3"
| "wire_serializer_id (WMeta_String _) = 4"
| "wire_serializer_id (WMeta_Component _) = 5"
| "wire_serializer_id (WMeta_OptionalComponent _) = 6"
| "wire_serializer_id (WMeta_ItemStack _) = 7"
| "wire_serializer_id (WMeta_Boolean _) = 8"
| "wire_serializer_id (WMeta_Rotations _) = 9"
| "wire_serializer_id (WMeta_BlockPos _) = 10"
| "wire_serializer_id (WMeta_OptionalBlockPos _) = 11"
| "wire_serializer_id (WMeta_Direction _) = 12"
| "wire_serializer_id (WMeta_LivingEntityReference _) = 13"
| "wire_serializer_id (WMeta_BlockState _ _ _) = 14"
| "wire_serializer_id (WMeta_OptionalBlockState _) = 15"
| "wire_serializer_id (WMeta_Particle _) = 16"
| "wire_serializer_id (WMeta_Particles _) = 17"
| "wire_serializer_id (WMeta_VillagerData _ _ _) = 18"
| "wire_serializer_id (WMeta_OptionalUnsignedInt _) = 19"
| "wire_serializer_id (WMeta_Pose _ _) = 20"
| "wire_serializer_id (WMeta_RegistryHolder i _ _) = i"
| "wire_serializer_id (WMeta_EnumState i _ _) = i"
| "wire_serializer_id (WMeta_GlobalPos _) = 33"
| "wire_serializer_id (WMeta_DirectPainting _ _ _ _ _) = 34"
| "wire_serializer_id (WMeta_Vector3 _) = 39"
| "wire_serializer_id (WMeta_Quaternion _) = 40"
| "wire_serializer_id (WMeta_ResolvableProfile _) = 41"

definition POSE_NAMES :: "string list" where
  "POSE_NAMES =
     [''standing'', ''fall_flying'', ''sleeping'', ''swimming'', ''spin_attack'', ''crouching'', ''long_jumping'', ''dying'',
      ''croaking'', ''using_tongue'', ''sitting'', ''roaring'', ''sniffing'', ''emerging'', ''digging'', ''sliding'', ''shooting'',
      ''inhaling'']"

definition read_pose :: "wire_metadata entity_op" where
  "read_pose = and_then (read_ordinal (length POSE_NAMES) ''entity pose'') (\<lambda>n. ok (WMeta_Pose n (POSE_NAMES ! n)))"

definition read_enum_state :: "nat \<Rightarrow> string list \<Rightarrow> wire_metadata entity_op" where
  "read_enum_state i names =
     and_then (read_ordinal (length names) ''entity metadata state'') (\<lambda>n. ok (WMeta_EnumState i n (names ! n)))"

definition VARIANT_REGISTRIES :: "string list" where
  "VARIANT_REGISTRIES =
     [''minecraft:cat_variant'', ''minecraft:cat_sound_variant'', ''minecraft:cow_variant'', ''minecraft:cow_sound_variant'',
      ''minecraft:wolf_variant'', ''minecraft:wolf_sound_variant'', ''minecraft:frog_variant'', ''minecraft:pig_variant'',
      ''minecraft:pig_sound_variant'', ''minecraft:chicken_variant'', ''minecraft:chicken_sound_variant'',
      ''minecraft:zombie_nautilus_variant'']"

definition variant_registry :: "i32 \<Rightarrow> entity_wire_error + string" where
  "variant_registry serializer =
     (if 21 \<le>s serializer \<and> serializer \<le>s 32 then Inr (VARIANT_REGISTRIES ! (unat serializer - 21))
      else Inl (out_of_range ''variant serializer'' (sint serializer) 21 32))"

definition read_registry_holder :: "entity_profile \<Rightarrow> i32 \<Rightarrow> wire_metadata entity_op" where
  "read_registry_holder p serializer =
     and_then (lift_result (variant_registry serializer)) (\<lambda>registry.
     and_then (registry_raw p registry) (\<lambda>name. ok (WMeta_RegistryHolder (unat serializer) registry name)))"

definition read_optional_block_state :: "entity_profile \<Rightarrow> wire_metadata entity_op" where
  "read_optional_block_state p =
     and_then (read_raw_id ''optional block state'') (\<lambda>i.
     if i = 0 then ok (WMeta_OptionalBlockState None)
     else and_then (look_up ''optional block state ID'' i (ep_block_states p)) (\<lambda>(block, ps).
       ok (WMeta_OptionalBlockState (Some (i, block, ps)))))"

definition read_painting :: "nbt_env \<Rightarrow> entity_profile \<Rightarrow> wire_metadata entity_op" where
  "read_painting env p =
     and_then (read_raw_id ''painting variant holder'') (\<lambda>encoded.
     if encoded = 0 then
       and_then (entity_read read_var_int) (\<lambda>w.
       and_then (entity_read read_var_int) (\<lambda>h.
       if w \<le>s 0 \<or> h \<le>s 0 \<or> 64 <s w \<or> 64 <s h
       then fail (out_of_range ''direct painting dimensions'' (max (sint w) (sint h)) 1 64)
       else
         and_then metadata_identifier (\<lambda>asset.
         and_then (read_optional (metadata_component env)) (\<lambda>title.
         and_then (read_optional (metadata_component env)) (\<lambda>author.
         ok (WMeta_DirectPainting w h asset title author))))))
     else
       and_then (lift_result (profile_registry_entry p ''minecraft:painting_variant'' (encoded - 1))) (\<lambda>name.
       ok (WMeta_RegistryHolder 34 ''minecraft:painting_variant'' name)))"

definition read_metadata ::
  "nbt_env \<Rightarrow> i32 \<Rightarrow> entity_profile \<Rightarrow> item_profile option \<Rightarrow> wire_metadata entity_op" where
  "read_metadata env serializer p items =
     (if serializer = 0 then and_then (entity_read read_i8) (\<lambda>v. ok (WMeta_Byte v))
      else if serializer = 1 then and_then (entity_read read_var_int) (\<lambda>v. ok (WMeta_Integer v))
      else if serializer = 2 then and_then (entity_read read_var_long) (\<lambda>v. ok (WMeta_Long v))
      else if serializer = 3 then and_then (read_finite_f32 ''entity metadata float'') (\<lambda>v. ok (WMeta_Float v))
      else if serializer = 4 then
        and_then (entity_read (read_string METADATA_TEXT_LIMITS)) (\<lambda>v. ok (WMeta_String v))
      else if serializer = 5 then and_then (metadata_component env) (\<lambda>v. ok (WMeta_Component v))
      else if serializer = 6 then
        and_then (read_optional (metadata_component env)) (\<lambda>v. ok (WMeta_OptionalComponent v))
      else if serializer = 7 then
        and_then (with_items items (decode_item_stack env)) (\<lambda>v. ok (WMeta_ItemStack v))
      else if serializer = 8 then and_then (entity_read read_bool) (\<lambda>v. ok (WMeta_Boolean v))
      else if serializer = 9 then and_then metadata_vec3 (\<lambda>v. ok (WMeta_Rotations v))
      else if serializer = 10 then and_then (entity_read read_block_position) (\<lambda>v. ok (WMeta_BlockPos v))
      else if serializer = 11 then
        and_then (read_optional (entity_read read_block_position)) (\<lambda>v. ok (WMeta_OptionalBlockPos v))
      else if serializer = 12 then and_then (read_ordinal 6 ''entity direction'') (\<lambda>v. ok (WMeta_Direction v))
      else if serializer = 13 then and_then (read_optional metadata_uuid) (\<lambda>v. ok (WMeta_LivingEntityReference v))
      else if serializer = 14 then and_then (metadata_block_state p) (\<lambda>(i, block, ps). ok (WMeta_BlockState i block ps))
      else if serializer = 15 then read_optional_block_state p
      else if serializer = 16 then and_then (read_particle env p items) (\<lambda>v. ok (WMeta_Particle v))
      else if serializer = 17 then
        and_then (metadata_count MAX_PARTICLES ''entity particle list'') (\<lambda>n.
        and_then (read_n n (read_particle env p items)) (\<lambda>vs. ok (WMeta_Particles vs)))
      else if serializer = 18 then
        and_then (registry_raw p ''minecraft:villager_type'') (\<lambda>kind.
        and_then (registry_raw p ''minecraft:villager_profession'') (\<lambda>profession.
        and_then (entity_read read_var_int) (\<lambda>level. ok (WMeta_VillagerData kind profession level))))
      else if serializer = 19 then
        and_then (read_raw_id ''optional unsigned integer'') (\<lambda>v.
        ok (WMeta_OptionalUnsignedInt (if v = 0 then None else Some (v - 1))))
      else if serializer = 20 then read_pose
      else if 21 \<le>s serializer \<and> serializer \<le>s 32 then read_registry_holder p serializer
      else if serializer = 33 then
        and_then (read_optional (and_then metadata_identifier (\<lambda>dimension.
          and_then (entity_read read_block_position) (\<lambda>pos. ok (dimension, pos))))) (\<lambda>v. ok (WMeta_GlobalPos v))
      else if serializer = 34 then read_painting env p
      else if serializer = 35 then
        read_enum_state 35 [''idling'', ''feeling_happy'', ''scenting'', ''sniffing'', ''searching'', ''digging'', ''rising'']
      else if serializer = 36 then read_enum_state 36 [''idle'', ''rolling'', ''scared'', ''unrolling'']
      else if serializer = 37 then
        read_enum_state 37 [''idle'', ''getting_item'', ''getting_no_item'', ''dropping_item'', ''dropping_no_item'']
      else if serializer = 38 then read_enum_state 38 [''unaffected'', ''exposed'', ''weathered'', ''oxidized'']
      else if serializer = 39 then and_then metadata_vec3 (\<lambda>v. ok (WMeta_Vector3 v))
      else if serializer = 40 then
        and_then (read_finite_f32 ''quaternion x'') (\<lambda>x.
        and_then (read_finite_f32 ''quaternion y'') (\<lambda>y.
        and_then (read_finite_f32 ''quaternion z'') (\<lambda>z.
        and_then (read_finite_f32 ''quaternion w'') (\<lambda>w. ok (WMeta_Quaternion [x, y, z, w])))))
      else if serializer = 41 then and_then resolvable_profile (\<lambda>v. ok (WMeta_ResolvableProfile v))
      else if serializer = 42 then read_enum_state 42 [''left'', ''right'']
      else fail (out_of_range ''entity metadata serializer ID'' (sint serializer) 0 42))"

unbundle bit_operations_syntax

text \<open>
  \<open>cubic-protocol/src/bootstrap/v775/entity.rs\<close>: \<open>decode_entity_packet\<close>. The metadata loop ends because a
  packet holds at most 64 values with distinct accessors.
\<close>

record entity_spawn =
  es_id :: i32
  es_uuid :: "u8 list"
  es_type :: rust_str
  es_position :: "f64 list"
  es_velocity :: "f64 list"
  es_yaw :: f32
  es_pitch :: f32
  es_head_yaw :: f32
  es_data :: i32

record wire_modifier =
  wm_identifier :: rust_str
  wm_amount :: f64
  wm_operation :: u8

record wire_attribute =
  wa_identifier :: rust_str
  wa_base :: f64
  wa_modifiers :: "wire_modifier list"

datatype entity_wire_event =
    Ew_Spawn entity_spawn
  | Ew_Remove "i32 list"
  | Ew_RelativeMove i32 "f64 list" "f32 option" "f32 option"
  | Ew_Rotate i32 f32 f32
  | Ew_HeadRotate i32 f32
  | Ew_PositionSync i32 "f64 list" "f64 list" f32 f32
  | Ew_Teleport i32 "f64 list" "f64 list" f32 f32 u32
  | Ew_Velocity i32 "f64 list"
  | Ew_Attributes i32 "wire_attribute list"
  | Ew_Metadata i32 "(u8 \<times> wire_metadata) list"

section \<open>Numbers\<close>

text \<open>The constants 256.0 of \<open>f32\<close> and 4096.0 of \<open>f64\<close>.\<close>

definition f32_256 :: f32 where "f32_256 = 0x43800000"
definition f64_4096 :: f64 where "f64_4096 = 0x40b0000000000000"

definition angle :: "u8 \<Rightarrow> f32" where
  "angle v = f32_div (f32_mul (f32_of_int (uint v)) f32_360) f32_256"

definition read_angle :: "f32 entity_op" where
  "read_angle = and_then (entity_read read_u8) (\<lambda>v. ok (angle v))"

definition entity_vec3 :: "f64 list entity_op" where
  "entity_vec3 =
     and_then (read_n 3 (entity_read read_f64)) (\<lambda>vs.
     if \<exists>v \<in> set vs. \<not> f64_is_finite v then fail (Wire_Boot (Boot_NonFinite ''entity vector'')) else ok vs)"

definition low_precision_vec3 :: "f64 list entity_op" where
  "low_precision_vec3 =
     and_then (entity_boot decode_low_precision_vec3) (\<lambda>m. ok [em_delta_x m, em_delta_y m, em_delta_z m])"

definition read_delta :: "f64 entity_op" where
  "read_delta = and_then (entity_read read_i16) (\<lambda>v. ok (f64_div (f64_of_int (sint v)) f64_4096))"

section \<open>The packets\<close>

definition decode_entity_spawn :: "entity_profile \<Rightarrow> entity_wire_event entity_op" where
  "decode_entity_spawn p =
     and_then (entity_read read_var_int) (\<lambda>i.
     and_then metadata_uuid (\<lambda>uuid.
     and_then (read_raw_id ''entity type raw ID'') (\<lambda>raw.
     and_then (look_up ''entity type raw ID'' raw (ep_types p)) (\<lambda>kind.
     and_then entity_vec3 (\<lambda>pos.
     and_then low_precision_vec3 (\<lambda>motion.
     and_then read_angle (\<lambda>pitch.
     and_then read_angle (\<lambda>yaw.
     and_then read_angle (\<lambda>head_yaw.
     and_then (entity_read read_var_int) (\<lambda>data.
     ok (Ew_Spawn \<lparr>es_id = i, es_uuid = uuid, es_type = kind, es_position = pos, es_velocity = motion, es_yaw = yaw,
       es_pitch = pitch, es_head_yaw = head_yaw, es_data = data\<rparr>)))))))))))"

definition decode_entity_remove :: "entity_wire_event entity_op" where
  "decode_entity_remove =
     and_then (metadata_count MAX_REMOVED_ENTITIES_PER_PACKET ''remove entities count'') (\<lambda>n.
     and_then (read_n n (entity_read read_var_int)) (\<lambda>ids. ok (Ew_Remove ids)))"

definition decode_entity_move :: "i32 \<Rightarrow> entity_wire_event entity_op" where
  "decode_entity_move pid =
     and_then (entity_read read_var_int) (\<lambda>i.
     and_then (read_n 3 read_delta) (\<lambda>delta.
     and_then
       (if pid = MOVE_POS_ROT then
          and_then read_angle (\<lambda>yaw. and_then read_angle (\<lambda>pitch. ok (Some yaw, Some pitch)))
        else ok (None, None)) (\<lambda>(yaw, pitch).
     and_then (entity_read read_bool) (\<lambda>_.
     ok (Ew_RelativeMove i delta yaw pitch)))))"

definition decode_entity_rotate :: "entity_wire_event entity_op" where
  "decode_entity_rotate =
     and_then (entity_read read_var_int) (\<lambda>i.
     and_then read_angle (\<lambda>yaw.
     and_then read_angle (\<lambda>pitch.
     and_then (entity_read read_bool) (\<lambda>_. ok (Ew_Rotate i yaw pitch)))))"

definition decode_entity_head_rotate :: "entity_wire_event entity_op" where
  "decode_entity_head_rotate =
     and_then (entity_read read_var_int) (\<lambda>i. and_then read_angle (\<lambda>head_yaw. ok (Ew_HeadRotate i head_yaw)))"

definition decode_motion_event :: "entity_wire_event entity_op" where
  "decode_motion_event =
     and_then (entity_read read_var_int) (\<lambda>i. and_then low_precision_vec3 (\<lambda>motion. ok (Ew_Velocity i motion)))"

definition decode_entity_placement :: "i32 \<Rightarrow> entity_wire_event entity_op" where
  "decode_entity_placement pid =
     and_then (entity_read read_var_int) (\<lambda>i.
     and_then entity_vec3 (\<lambda>pos.
     and_then entity_vec3 (\<lambda>motion.
     and_then (entity_read read_f32) (\<lambda>yaw.
     and_then (entity_read read_f32) (\<lambda>pitch.
     if \<not> f32_is_finite yaw \<or> \<not> f32_is_finite pitch then fail (Wire_Boot (Boot_NonFinite ''entity rotation''))
     else if pid = TELEPORT then
       and_then (entity_read read_u32) (\<lambda>flags.
       if flags AND NOT 0x01ff \<noteq> 0 then fail (out_of_range ''Teleport Entity relative flags'' (uint flags) 0 0x01ff)
       else and_then (entity_read read_bool) (\<lambda>_. ok (Ew_Teleport i pos motion yaw pitch flags)))
     else and_then (entity_read read_bool) (\<lambda>_. ok (Ew_PositionSync i pos motion yaw pitch)))))))"

text \<open>One value of the metadata: the serializer, the value and the limit on its bytes.\<close>

definition read_metadata_entry ::
  "nbt_env \<Rightarrow> entity_profile \<Rightarrow> item_profile option \<Rightarrow> wire_metadata entity_op" where
  "read_metadata_entry env p items =
     and_then (entity_read read_var_int) (\<lambda>serializer. \<lambda>r.
     and_then (read_metadata env serializer p items) (\<lambda>v.
     and_then (entity_read (\<lambda>r'. (consumed_since r' (position r), r'))) (\<lambda>bytes.
     if MAX_ENTITY_METADATA_VALUE_BYTES < length bytes
     then fail (Wire_Boot (Boot_PayloadTooLarge ''entity metadata value'' (length bytes) MAX_ENTITY_METADATA_VALUE_BYTES))
     else ok v)) r)"

function read_metadata_values ::
  "nbt_env \<Rightarrow> entity_profile \<Rightarrow> item_profile option \<Rightarrow> (u8 \<times> wire_metadata) list \<Rightarrow> (u8 \<times> wire_metadata) list entity_op"
where
  "read_metadata_values env p items acc =
     and_then (entity_read read_u8) (\<lambda>accessor.
     if accessor = 0xff then ok acc
     else if 64 \<le> length acc \<or> accessor \<in> fst ` set acc
     then fail (out_of_range ''entity metadata accessor count or duplicate'' (uint accessor) 0 63)
     else
       and_then (read_metadata_entry env p items) (\<lambda>v.
       read_metadata_values env p items (acc @ [(accessor, v)])))"
  by pat_completeness auto
termination
  by (relation "measure (\<lambda>(env, p, items, acc). 64 - length acc)") auto

declare read_metadata_values.simps [simp del]

definition decode_entity_metadata :: "nbt_env \<Rightarrow> entity_profile \<Rightarrow> item_profile option \<Rightarrow> entity_wire_event entity_op" where
  "decode_entity_metadata env p items =
     and_then (entity_read read_var_int) (\<lambda>i.
     and_then (read_metadata_values env p items []) (\<lambda>vs. ok (Ew_Metadata i vs)))"

definition read_modifier :: "wire_modifier entity_op" where
  "read_modifier =
     and_then (entity_read (read_string (string_limits_new 256 768))) (\<lambda>name.
     case identifier_new name of
       Inl _ \<Rightarrow> fail (out_of_range ''attribute modifier identifier'' 0 1 1)
     | Inr _ \<Rightarrow>
         and_then (entity_read read_f64) (\<lambda>amount.
         if \<not> f64_is_finite amount then fail (Wire_Boot (Boot_NonFinite ''attribute modifier amount''))
         else
           and_then (read_raw_id ''attribute modifier operation'') (\<lambda>operation.
           if 2 < operation then fail (out_of_range ''attribute modifier operation'' (uint operation) 0 2)
           else ok \<lparr>wm_identifier = name, wm_amount = amount, wm_operation = ucast operation\<rparr>)))"

text \<open>The result carries the number of modifiers so far, which \<open>saturating_add\<close> bounds at 128 in all.\<close>

definition read_attribute :: "entity_profile \<Rightarrow> nat \<Rightarrow> (nat \<times> wire_attribute) entity_op" where
  "read_attribute p modifiers =
     and_then (read_raw_id ''attribute registry holder'') (\<lambda>raw.
     and_then (look_up ''attribute registry ID'' raw (ep_attributes p)) (\<lambda>name.
     and_then (entity_read read_f64) (\<lambda>base.
     if \<not> f64_is_finite base then fail (Wire_Boot (Boot_NonFinite ''entity attribute base''))
     else
       and_then (read_raw_id ''attribute modifier count'') (\<lambda>n.
       let count' = saturating_add modifiers (unat n) in
       if 16 < n \<or> 128 < count' then fail (out_of_range ''attribute modifier count'' (uint n) 0 16)
       else
         and_then (read_n (unat n) read_modifier) (\<lambda>ms.
         ok (count', \<lparr>wa_identifier = name, wa_base = base, wa_modifiers = ms\<rparr>))))))"

fun read_attributes :: "nat \<Rightarrow> entity_profile \<Rightarrow> nat \<Rightarrow> wire_attribute list entity_op" where
  "read_attributes 0 p modifiers = ok []"
| "read_attributes (Suc n) p modifiers =
     and_then (read_attribute p modifiers) (\<lambda>(count', a). and_then (read_attributes n p count') (\<lambda>as. ok (a # as)))"

definition decode_entity_attributes :: "entity_profile \<Rightarrow> entity_wire_event entity_op" where
  "decode_entity_attributes p =
     and_then (entity_read read_var_int) (\<lambda>i.
     and_then (metadata_count 64 ''entity attribute count'') (\<lambda>n.
     and_then (read_attributes n p 0) (\<lambda>as. ok (Ew_Attributes i as))))"

definition entity_decoder ::
  "nbt_env \<Rightarrow> entity_profile \<Rightarrow> item_profile option \<Rightarrow> i32 \<Rightarrow> entity_wire_event entity_op option" where
  "entity_decoder env p items pid =
     (if pid = ADD_ENTITY then Some (decode_entity_spawn p)
      else if pid = REMOVE_ENTITIES then Some decode_entity_remove
      else if pid = MOVE_POS \<or> pid = MOVE_POS_ROT then Some (decode_entity_move pid)
      else if pid = MOVE_ROT then Some decode_entity_rotate
      else if pid = HEAD_ROT then Some decode_entity_head_rotate
      else if pid = ENTITY_DATA then Some (decode_entity_metadata env p items)
      else if pid = MOTION then Some decode_motion_event
      else if pid = POSITION_SYNC \<or> pid = TELEPORT then Some (decode_entity_placement pid)
      else if pid = UPDATE_ATTRIBUTES then Some (decode_entity_attributes p)
      else None)"

definition entity_require_consumed :: "unit entity_op" where
  "entity_require_consumed r =
     (if remaining r \<noteq> 0 then (Inl (Wire_Boot (Boot_TrailingData ''entity packet'' (remaining r))), r) else (Inr (), r))"

definition decode_entity_packet ::
  "nbt_env \<Rightarrow> entity_profile \<Rightarrow> item_profile option \<Rightarrow> u8 list \<Rightarrow> entity_wire_error + entity_wire_event option" where
  "decode_entity_packet env p items frame_body =
     (case split_raw_packet frame_body of
        Inl e \<Rightarrow> Inl (Wire_Boot (Boot_Codec e))
      | Inr packet \<Rightarrow>
          (case entity_decoder env p items (packet_id packet) of
             None \<Rightarrow> Inr None
           | Some m \<Rightarrow>
               fst (and_then m (\<lambda>event. and_then entity_require_consumed (\<lambda>_. ok (Some event)))
                 (new_reader (payload packet)))))"

end
