(* ===== verification/Session_Entities.thy ===== *)
theory Session_Entities
  imports Session_Items Entity_Packets Secure_Chat World_Adapter
begin

unbundle bit_operations_syntax

text \<open>
  \<open>cubic-network/src/chat_session.rs\<close>, what the session makes of entity packets: metadata of the wire becomes the
  metadata the world keeps, an event becomes operations on the entity store. Sine and cosine, whose precision the
  standard library leaves open, are a parameter; publication to the renderer is left out.
\<close>

datatype 'e play_error =
    Play_Session session_error
  | Play_Entity entity_error
  | Play_Wire entity_wire_error
  | Play_Protocol bootstrap_error
  | Play_Adapter world_adapter_error
  | Play_World world_error
  | Play_SecureChat "'e secure_chat_error"
  | Play_InvalidMessage string
  | Play_CommandsUnsupported
  | Play_InvalidSystemClock
  | Play_Unsupported string
  | Play_Transport rust_str

section \<open>Metadata\<close>

fun structured :: "nbt_tag \<Rightarrow> structured_text" where
  "structured (Tag_Byte v) = Text_Boolean (v \<noteq> 0)"
| "structured (Tag_Short v) = Text_Number (f64_of_int (sint v))"
| "structured (Tag_Int v) = Text_Number (f64_of_int (sint v))"
| "structured (Tag_Long v) = Text_Number (f64_of_int (sint v))"
| "structured (Tag_Float v) = Text_Number (f32_to_f64 v)"
| "structured (Tag_Double v) = Text_Number v"
| "structured (Tag_String v) = Text_String (to_string_lossy v)"
| "structured (Tag_List _ elements) = Text_List (map structured elements)"
| "structured (Tag_Compound compound) =
     Text_Compound (bt_collect (map (\<lambda>(k, v). (to_string_lossy k, structured v)) compound))"
| "structured (Tag_ByteArray _) = Text_Unsupported"
| "structured (Tag_IntArray _) = Text_Unsupported"
| "structured (Tag_LongArray _) = Text_Unsupported"

definition metadata_position :: "block_position \<Rightarrow> int list" where
  "metadata_position p = [sint (bp_x p), sint (bp_y p), sint (bp_z p)]"

definition metadata_rich_text :: "nbt_env \<Rightarrow> text_component \<Rightarrow> session_error + rich_text" where
  "metadata_rich_text env c =
     (case encode_unnamed_network_tag env nbt_limits_default (tc_value c) of
        Inl e \<Rightarrow> Inl (Session_Inventory (Item_Nbt e))
      | Inr wire \<Rightarrow> Inr (tc_plain_text c, structured (tc_value c), wire))"

definition optional_try :: "('a \<Rightarrow> 'e + 'b) \<Rightarrow> 'a option \<Rightarrow> 'e + 'b option" where
  "optional_try f v = (case v of None \<Rightarrow> Inr None | Some x \<Rightarrow> and_also (f x) (\<lambda>y. Inr (Some y)))"

fun semantic_particle_data :: "nbt_env \<Rightarrow> wire_particle_data \<Rightarrow> session_error + particle_data" where
  "semantic_particle_data env WParticle_None = Inr Particle_None"
| "semantic_particle_data env (WParticle_BlockState i block ps) = Inr (Particle_BlockState (unat i) block ps)"
| "semantic_particle_data env (WParticle_Float v) = Inr (Particle_Float v)"
| "semantic_particle_data env (WParticle_Int v) = Inr (Particle_Int (sint v))"
| "semantic_particle_data env (WParticle_ColorAndFloat color amount) = Inr (Particle_ColorAndFloat (sint color) amount)"
| "semantic_particle_data env (WParticle_Dust color scale) = Inr (Particle_Dust (sint color) scale)"
| "semantic_particle_data env (WParticle_DustTransition start target scale) =
     Inr (Particle_DustTransition (sint start) (sint target) scale)"
| "semantic_particle_data env (WParticle_Item s) = and_also (semantic_stack env s) (\<lambda>stack. Inr (Particle_Item stack))"
| "semantic_particle_data env (WParticle_VibrationBlock pos ticks) =
     Inr (Particle_VibrationBlock (metadata_position pos) (sint ticks))"
| "semantic_particle_data env (WParticle_VibrationEntity i y_offset ticks) =
     Inr (Particle_VibrationEntity (sint i) y_offset (sint ticks))"
| "semantic_particle_data env (WParticle_Trail target color duration) =
     Inr (Particle_Trail target (sint color) (sint duration))"

definition semantic_particle :: "nbt_env \<Rightarrow> wire_particle \<Rightarrow> session_error + metadata_particle" where
  "semantic_particle env p =
     and_also (semantic_particle_data env (wpt_data p)) (\<lambda>data.
     Inr \<lparr>particle_kind = wpt_kind p, particle_payload = data\<rparr>)"

definition semantic_profile :: "wire_profile \<Rightarrow> metadata_profile" where
  "semantic_profile p =
     \<lparr>profile_name = wpr_name p, profile_uuid = wpr_uuid p, profile_properties = wpr_properties p,
      profile_skin = wpr_skin p, profile_slim = wpr_slim p\<rparr>"

fun semantic_metadata :: "nbt_env \<Rightarrow> wire_metadata \<Rightarrow> session_error + metadata_value" where
  "semantic_metadata env (WMeta_Byte v) = Inr (Meta_Byte (sint v))"
| "semantic_metadata env (WMeta_Integer v) = Inr (Meta_Integer (sint v))"
| "semantic_metadata env (WMeta_Long v) = Inr (Meta_Long (sint v))"
| "semantic_metadata env (WMeta_Float v) = Inr (Meta_Float v)"
| "semantic_metadata env (WMeta_String v) = Inr (Meta_String v)"
| "semantic_metadata env (WMeta_Component v) =
     and_also (metadata_rich_text env v) (\<lambda>(plain, structure, wire). Inr (Meta_Component plain structure wire))"
| "semantic_metadata env (WMeta_OptionalComponent v) =
     and_also (optional_try (metadata_rich_text env) v) (\<lambda>t. Inr (Meta_OptionalComponent t))"
| "semantic_metadata env (WMeta_ItemStack v) =
     and_also (optional_try (semantic_stack env) v) (\<lambda>s. Inr (Meta_ItemStack s))"
| "semantic_metadata env (WMeta_Boolean v) = Inr (Meta_Boolean v)"
| "semantic_metadata env (WMeta_Rotations v) = Inr (Meta_Rotations v)"
| "semantic_metadata env (WMeta_BlockPos v) = Inr (Meta_BlockPos (metadata_position v))"
| "semantic_metadata env (WMeta_OptionalBlockPos v) = Inr (Meta_OptionalBlockPos (map_option metadata_position v))"
| "semantic_metadata env (WMeta_Direction v) = Inr (Meta_Direction v)"
| "semantic_metadata env (WMeta_LivingEntityReference v) = Inr (Meta_LivingEntityReference v)"
| "semantic_metadata env (WMeta_BlockState i block ps) = Inr (Meta_BlockState (unat i) block ps)"
| "semantic_metadata env (WMeta_OptionalBlockState v) =
     Inr (Meta_OptionalBlockState (map_option (\<lambda>(i, block, ps). (unat i, block, ps)) v))"
| "semantic_metadata env (WMeta_Particle v) = and_also (semantic_particle env v) (\<lambda>p. Inr (Meta_Particle p))"
| "semantic_metadata env (WMeta_Particles vs) = and_also (try_each (semantic_particle env) vs) (\<lambda>ps. Inr (Meta_Particles ps))"
| "semantic_metadata env (WMeta_VillagerData kind profession level) = Inr (Meta_VillagerData kind profession (sint level))"
| "semantic_metadata env (WMeta_OptionalUnsignedInt v) = Inr (Meta_OptionalUnsignedInt (map_option unat v))"
| "semantic_metadata env (WMeta_Pose n name) = Inr (Meta_Pose n (str name))"
| "semantic_metadata env (WMeta_RegistryHolder i registry name) = Inr (Meta_RegistryHolder i (str registry) name)"
| "semantic_metadata env (WMeta_GlobalPos v) =
     Inr (Meta_GlobalPos (map_option (\<lambda>(dimension, pos). (dimension, metadata_position pos)) v))"
| "semantic_metadata env (WMeta_DirectPainting w h asset heading author) =
     and_also (optional_try (metadata_rich_text env) heading) (\<lambda>t.
     and_also (optional_try (metadata_rich_text env) author) (\<lambda>a.
     Inr (Meta_DirectPainting (sint w) (sint h) asset t a)))"
| "semantic_metadata env (WMeta_EnumState i n name) = Inr (Meta_EnumState i n (str name))"
| "semantic_metadata env (WMeta_Vector3 v) = Inr (Meta_Vector3 v)"
| "semantic_metadata env (WMeta_Quaternion v) = Inr (Meta_Quaternion v)"
| "semantic_metadata env (WMeta_ResolvableProfile p) = Inr (Meta_ResolvableProfile (semantic_profile p))"

section \<open>Events\<close>

type_synonym ('e, 'a) entity_store_step = "(entity_store, 'e play_error, 'a) fallible"

record trig =
  sin_of :: "f64 \<Rightarrow> f64"
  cos_of :: "f64 \<Rightarrow> f64"

text \<open>\<open>handle\<close>, then \<open>get\<close>: nothing happens for an entity that is not there.\<close>

definition with_entity ::
  "i32 \<Rightarrow> (entity_handle \<Rightarrow> entity \<Rightarrow> ('e, unit) entity_store_step) \<Rightarrow> ('e, unit) entity_store_step" where
  "with_entity i f s =
     (case store_handle (sint i) s of
        None \<Rightarrow> (Inr (), s)
      | Some h \<Rightarrow> (case store_get h s of None \<Rightarrow> (Inr (), s) | Some e \<Rightarrow> f h e s))"

definition change_transform :: "i32 \<Rightarrow> entity_transform \<Rightarrow> nat \<Rightarrow> bool \<Rightarrow> ('e, unit) entity_store_step" where
  "change_transform i t at_ms teleport =
     and_then (map_err Play_Entity (update_transform (sint i) t at_ms teleport)) (\<lambda>_. ok ())"

definition change_entity :: "entity_handle \<Rightarrow> (entity \<Rightarrow> entity) \<Rightarrow> ('e, unit) entity_store_step" where
  "change_entity h f s = (Inr (), snd (store_modify h f s))"

definition vector_of :: "f64 list \<Rightarrow> vec3d" where
  "vector_of v = vec3d_new (v ! 0) (v ! 1) (v ! 2)"

definition spawned_entity :: "entity_spawn \<Rightarrow> entity" where
  "spawned_entity s =
     \<lparr>entity_id = sint (es_id s), entity_uuid = es_uuid s, entity_type = es_type s,
      authoritative = \<lparr>transform_position = vector_of (es_position s), transform_yaw = es_yaw s,
        transform_pitch = es_pitch s, transform_head_yaw = es_head_yaw s\<rparr>,
      velocity = vector_of (es_velocity s), spawn_data = sint (es_data s), metadata = [], attributes = []\<rparr>"

fun remove_entities :: "i32 list \<Rightarrow> entity_store \<Rightarrow> entity_store" where
  "remove_entities [] s = s"
| "remove_entities (i # ids) s = remove_entities ids (snd (store_remove (sint i) s))"

definition moved_by :: "f64 list \<Rightarrow> f32 option \<Rightarrow> f32 option \<Rightarrow> entity_transform \<Rightarrow> entity_transform" where
  "moved_by delta yaw pitch t =
     (let p = transform_position t in
      t\<lparr>transform_position := vec3d_new (f64_add (vec_x p) (delta ! 0)) (f64_add (vec_y p) (delta ! 1)) (f64_add (vec_z p) (delta ! 2)),
        transform_yaw := (case yaw of None \<Rightarrow> transform_yaw t | Some v \<Rightarrow> v),
        transform_pitch := (case pitch of None \<Rightarrow> transform_pitch t | Some v \<Rightarrow> v)\<rparr>)"

definition entity_attribute_of :: "wire_attribute \<Rightarrow> entity_attribute" where
  "entity_attribute_of a =
     \<lparr>attribute_base = wa_base a,
      attribute_modifiers = bt_collect (map (\<lambda>m. (wm_identifier m,
        \<lparr>modifier_amount = wm_amount m, modifier_operation = unat (wm_operation m)\<rparr>)) (wa_modifiers a))\<rparr>"

definition set_attributes :: "wire_attribute list \<Rightarrow> entity \<Rightarrow> entity" where
  "set_attributes vs e =
     e\<lparr>attributes := fold (\<lambda>a. bt_insert (wa_identifier a) (entity_attribute_of a)) vs (attributes e)\<rparr>"

text \<open>Each value is converted and stored before the next is looked at.\<close>

fun set_metadata_values ::
  "nbt_env \<Rightarrow> entity_sizes \<Rightarrow> (u8 \<times> wire_metadata) list \<Rightarrow> (entity, 'e play_error, unit) fallible" where
  "set_metadata_values env sz [] = ok ()"
| "set_metadata_values env sz ((accessor, v) # vs) =
     and_then (map_err Play_Session (lift_result (semantic_metadata env v))) (\<lambda>semantic.
     and_then (map_err Play_Entity (set_metadata sz (unat accessor) semantic)) (\<lambda>_.
     set_metadata_values env sz vs))"

text \<open>\<open>get_mut\<close> with an operation that can fail halfway.\<close>

definition run_on_entity ::
  "entity_handle \<Rightarrow> entity \<Rightarrow> (entity, 'e play_error, unit) fallible \<Rightarrow> ('e, unit) entity_store_step" where
  "run_on_entity h e m s =
     (case m e of (result, e') \<Rightarrow> (result, snd (store_modify h (\<lambda>_. e') s)))"

section \<open>Teleports\<close>

definition relative_value :: "u32 \<Rightarrow> nat \<Rightarrow> f64 \<Rightarrow> f64 \<Rightarrow> f64" where
  "relative_value flags k received current =
     (if flags AND push_bit k 1 \<noteq> 0 then f64_add received current else received)"

definition teleported :: "u32 \<Rightarrow> f64 list \<Rightarrow> f32 \<Rightarrow> f32 \<Rightarrow> entity_transform \<Rightarrow> entity_transform" where
  "teleported flags pos yaw pitch old =
     (let p = transform_position old in
      old\<lparr>transform_position := vec3d_new (relative_value flags 0 (pos ! 0) (vec_x p))
            (relative_value flags 1 (pos ! 1) (vec_y p)) (relative_value flags 2 (pos ! 2) (vec_z p)),
          transform_yaw := f64_to_f32 (relative_value flags 3 (f32_to_f64 yaw) (f32_to_f64 (transform_yaw old))),
          transform_pitch := f64_to_f32 (relative_value flags 4 (f32_to_f64 pitch) (f32_to_f64 (transform_pitch old)))\<rparr>)"

text \<open>The flag \<open>ROTATE_DELTA\<close> turns the motion before the teleport into the new orientation.\<close>

definition rotated_velocity :: "trig \<Rightarrow> entity_transform \<Rightarrow> entity_transform \<Rightarrow> vec3d \<Rightarrow> vec3d" where
  "rotated_velocity t old new v =
     (let pitch = to_radians (f32_to_f64 (f32_sub (transform_pitch old) (transform_pitch new)));
          yaw = to_radians (f32_to_f64 (f32_sub (transform_yaw old) (transform_yaw new)));
          sin_pitch = sin_of t pitch; cos_pitch = cos_of t pitch;
          x = vec_x v;
          y = f64_add (f64_mul (vec_y v) cos_pitch) (f64_mul (vec_z v) sin_pitch);
          z = f64_sub (f64_mul (vec_z v) cos_pitch) (f64_mul (vec_y v) sin_pitch);
          sin_yaw = sin_of t yaw; cos_yaw = cos_of t yaw in
      vec3d_new (f64_add (f64_mul x cos_yaw) (f64_mul z sin_yaw)) y (f64_sub (f64_mul z cos_yaw) (f64_mul x sin_yaw)))"

definition teleport_velocity ::
  "trig \<Rightarrow> u32 \<Rightarrow> f64 list \<Rightarrow> entity_transform \<Rightarrow> entity_transform \<Rightarrow> vec3d \<Rightarrow> vec3d" where
  "teleport_velocity t flags received old new current =
     (let prior = (if flags AND 0x100 \<noteq> 0 then rotated_velocity t old new current else current) in
      vec3d_new (relative_value flags 5 (received ! 0) (vec_x prior))
        (relative_value flags 6 (received ! 1) (vec_y prior)) (relative_value flags 7 (received ! 2) (vec_z prior)))"

definition teleport_entity ::
  "trig \<Rightarrow> i32 \<Rightarrow> f64 list \<Rightarrow> f64 list \<Rightarrow> f32 \<Rightarrow> f32 \<Rightarrow> u32 \<Rightarrow> nat \<Rightarrow> ('e, unit) entity_store_step" where
  "teleport_entity t i pos motion yaw pitch flags at_ms =
     with_entity i (\<lambda>h e.
       let old = authoritative e; new = teleported flags pos yaw pitch old in
       and_then (change_transform i new at_ms True) (\<lambda>_.
       change_entity h (\<lambda>e'. e'\<lparr>velocity := teleport_velocity t flags motion old new (velocity e)\<rparr>)))"

fun apply_entity_wire_event ::
  "nbt_env \<Rightarrow> entity_sizes \<Rightarrow> trig \<Rightarrow> entity_wire_event \<Rightarrow> nat \<Rightarrow> ('e, unit) entity_store_step" where
  "apply_entity_wire_event env sz t (Ew_Spawn spawn) at_ms =
     and_then (map_err Play_Entity (store_spawn (spawned_entity spawn) at_ms)) (\<lambda>_. ok ())"
| "apply_entity_wire_event env sz t (Ew_Remove ids) at_ms = (\<lambda>s. (Inr (), remove_entities ids s))"
| "apply_entity_wire_event env sz t (Ew_RelativeMove i delta yaw pitch) at_ms =
     with_entity i (\<lambda>_ e. change_transform i (moved_by delta yaw pitch (authoritative e)) at_ms False)"
| "apply_entity_wire_event env sz t (Ew_Rotate i yaw pitch) at_ms =
     with_entity i (\<lambda>_ e.
       change_transform i ((authoritative e)\<lparr>transform_yaw := yaw, transform_pitch := pitch\<rparr>) at_ms False)"
| "apply_entity_wire_event env sz t (Ew_HeadRotate i head_yaw) at_ms =
     with_entity i (\<lambda>_ e. change_transform i ((authoritative e)\<lparr>transform_head_yaw := head_yaw\<rparr>) at_ms False)"
| "apply_entity_wire_event env sz t (Ew_Velocity i motion) at_ms =
     with_entity i (\<lambda>h _. change_entity h (\<lambda>e. e\<lparr>velocity := vector_of motion\<rparr>))"
| "apply_entity_wire_event env sz t (Ew_Attributes i vs) at_ms =
     with_entity i (\<lambda>h _. change_entity h (set_attributes vs))"
| "apply_entity_wire_event env sz t (Ew_Metadata i vs) at_ms =
     with_entity i (\<lambda>h e. run_on_entity h e (set_metadata_values env sz vs))"
| "apply_entity_wire_event env sz t (Ew_PositionSync i pos motion yaw pitch) at_ms =
     with_entity i (\<lambda>h e.
       and_then (change_transform i ((authoritative e)\<lparr>transform_position := vector_of pos, transform_yaw := yaw,
         transform_pitch := pitch\<rparr>) at_ms False) (\<lambda>_.
       change_entity h (\<lambda>e'. e'\<lparr>velocity := vector_of motion\<rparr>)))"
| "apply_entity_wire_event env sz t (Ew_Teleport i pos motion yaw pitch flags) at_ms =
     teleport_entity t i pos motion yaw pitch flags at_ms"

text \<open>The entity branch of the frame loop; \<open>True\<close> when the frame was consumed. The spawn of the player itself is dropped,
  its velocity is left to the player's own motion.\<close>

fun own_spawn :: "i32 \<Rightarrow> entity_wire_event \<Rightarrow> bool" where
  "own_spawn me (Ew_Spawn s) \<longleftrightarrow> es_id s = me"
| "own_spawn me _ \<longleftrightarrow> False"

fun own_velocity :: "i32 \<Rightarrow> entity_wire_event \<Rightarrow> bool" where
  "own_velocity me (Ew_Velocity i _) \<longleftrightarrow> i = me"
| "own_velocity me _ \<longleftrightarrow> False"

definition session_entity_frame ::
  "nbt_env \<Rightarrow> entity_sizes \<Rightarrow> trig \<Rightarrow> i32 \<Rightarrow> entity_profile \<Rightarrow> item_profile option \<Rightarrow> u8 list \<Rightarrow> nat \<Rightarrow>
   ('e, bool) entity_store_step" where
  "session_entity_frame env sz t me p items frame_body at_ms =
     (case decode_entity_packet env p items frame_body of
        Inl e \<Rightarrow> fail (Play_Wire e)
      | Inr None \<Rightarrow> ok False
      | Inr (Some event) \<Rightarrow>
          if own_spawn me event then ok True
          else if own_velocity me event then ok False
          else and_then (apply_entity_wire_event env sz t event at_ms) (\<lambda>_. ok True))"

end
