(* ===== verification/Login.thy ===== *)
theory Login
  imports Transport Status World_Adapter Bootstrap_Send
begin

unbundle bit_operations_syntax

text \<open>
  \<open>cubic-network/src/development_login/mod.rs\<close> and \<open>profile.rs\<close>: the conversation that takes a connection from the
  handshake to the first play login. Its state is the connection of \<open>Transport\<close> with the reads the socket will return
  and the bytes written so far. When the reads end before a frame is complete the code waits and times out. The
  overall timeout and the connection attempt are the environment.
\<close>

definition MAX_LOGIN_PACKETS :: nat where "MAX_LOGIN_PACKETS = 64"
definition MAX_CONFIGURATION_PACKETS :: nat where "MAX_CONFIGURATION_PACKETS = 2048"
definition MAX_PLAY_ACCEPTANCE_PACKETS :: nat where "MAX_PLAY_ACCEPTANCE_PACKETS = 256"
definition MAX_RECONFIGURATIONS_DURING_ACCEPTANCE :: nat where "MAX_RECONFIGURATIONS_DURING_ACCEPTANCE = 8"
definition MAX_ERROR_PREVIEW_CHARS :: nat where "MAX_ERROR_PREVIEW_CHARS = 512"

text \<open>The identity of the protocol, of \<open>v775.rs\<close>.\<close>

definition PROTOCOL_VERSION :: i32 where "PROTOCOL_VERSION = 775"

datatype connection_state = State_Handshake | State_Login | State_Configuration | State_Play | State_Closed

datatype 'io login_error =
    Le_InvalidUsername string
  | Le_Connection "'io connection_error"
  | Le_IoTimeout string
  | Le_Protocol bootstrap_error
  | Le_Framing codec_error
  | Le_ServerDisconnect connection_state rust_str
  | Le_Unsupported string
  | Le_UsernameMismatch rust_str rust_str
  | Le_InvalidLoginUuid
  | Le_PacketLimit string nat
  | Le_StatePacketLimit connection_state nat
  | Le_InvalidStateTransition connection_state connection_state
  | Le_ConfigurationData world_adapter_error
  | Le_BannerPatternIdentifier rust_str
  | Le_EntityRegistryIdentifier

section \<open>Names and previews\<close>

definition is_username_byte :: "nat \<Rightarrow> bool" where
  "is_username_byte c \<longleftrightarrow>
     (of_char (CHR ''a'') \<le> c \<and> c \<le> of_char (CHR ''z'')) \<or> (of_char (CHR ''A'') \<le> c \<and> c \<le> of_char (CHR ''Z'')) \<or>
     (of_char (CHR ''0'') \<le> c \<and> c \<le> of_char (CHR ''9'')) \<or> c = of_char (CHR ''_'')"

text \<open>A character beyond ASCII has a byte that is neither letter, digit nor underscore.\<close>

definition development_username_new :: "rust_str \<Rightarrow> 'io login_error + rust_str" where
  "development_username_new v =
     (if v = [] then Inl (Le_InvalidUsername ''the value is empty'')
      else if MAX_USERNAME_UTF16_UNITS < str_len v then Inl (Le_InvalidUsername ''the value exceeds 16 ASCII characters'')
      else if \<not> list_all is_username_byte v
      then Inl (Le_InvalidUsername ''only ASCII letters, digits, and underscores are permitted'')
      else Inr v)"

definition bounded_preview :: "rust_str \<Rightarrow> rust_str" where
  "bounded_preview v =
     take MAX_ERROR_PREVIEW_CHARS v @ (if MAX_ERROR_PREVIEW_CHARS < length v then [0x2026] else [])"

section \<open>The conversation\<close>

record ('io, 'enc, 'dec) login_env =
  le_crates :: "('io, 'enc, 'dec) crates"
  le_reserve :: allocator
  le_nbt :: nbt_env

record ('io, 'enc, 'dec) conversation =
  cv_connection :: "('enc, 'dec) minecraft_connection"
  cv_reads :: "('io + u8 list) list"
  cv_sent :: "u8 list"
  cv_state :: connection_state

type_synonym ('io, 'enc, 'dec, 'a) login_op = "(('io, 'enc, 'dec) conversation, 'io login_error, 'a) fallible"

definition read_frame :: "('io, 'enc, 'dec) login_env \<Rightarrow> string \<Rightarrow> ('io, 'enc, 'dec, u8 list) login_op" where
  "read_frame env phase s =
     (case read_next_frame (le_crates env) (le_reserve env) phase (cv_reads s) (cv_connection s) of
        None \<Rightarrow> (Inl (Le_IoTimeout phase), s)
      | Some (Inl e, reads, c) \<Rightarrow> (Inl (Le_Connection e), s\<lparr>cv_reads := reads, cv_connection := c\<rparr>)
      | Some (Inr frame, reads, c) \<Rightarrow> (Inr frame, s\<lparr>cv_reads := reads, cv_connection := c\<rparr>))"

definition send_bytes :: "('io, 'enc, 'dec) login_env \<Rightarrow> u8 list \<Rightarrow> ('io, 'enc, 'dec, unit) login_op" where
  "send_bytes env bytes s =
     (case write_all (le_crates env) (le_reserve env) bytes (cv_connection s) of
        (Inl e, c) \<Rightarrow> (Inl (Le_Connection e), s\<lparr>cv_connection := c\<rparr>)
      | (Inr out, c) \<Rightarrow> (Inr (), s\<lparr>cv_connection := c, cv_sent := cv_sent s @ out\<rparr>))"

definition send_packet :: "('io, 'enc, 'dec) login_env \<Rightarrow> bootstrap_error + u8 list \<Rightarrow> ('io, 'enc, 'dec, unit) login_op" where
  "send_packet env packet =
     (case packet of Inl e \<Rightarrow> fail (Le_Protocol e) | Inr bytes \<Rightarrow> send_bytes env bytes)"

definition decode_with ::
  "(nbt_env \<Rightarrow> u8 list \<Rightarrow> bootstrap_error + 'p) \<Rightarrow> ('io, 'enc, 'dec) login_env \<Rightarrow> u8 list \<Rightarrow> ('io, 'enc, 'dec, 'p) login_op" where
  "decode_with decode env frame = map_err Le_Protocol (lift_result (decode (le_nbt env) frame))"

definition transition :: "connection_state \<Rightarrow> connection_state \<Rightarrow> ('io, 'enc, 'dec, unit) login_op" where
  "transition expected successor s =
     (if cv_state s \<noteq> expected then (Inl (Le_InvalidStateTransition (cv_state s) successor), s)
      else (Inr (), s\<lparr>cv_state := successor\<rparr>))"

definition server_disconnect :: "rust_str \<Rightarrow> ('io, 'enc, 'dec, 'a) login_op" where
  "server_disconnect reason s = (Inl (Le_ServerDisconnect (cv_state s) (bounded_preview reason)), s)"

definition packet_limit :: "nat \<Rightarrow> ('io, 'enc, 'dec, 'a) login_op" where
  "packet_limit n s = (Inl (Le_StatePacketLimit (cv_state s) n), s)"

section \<open>Login\<close>

definition accept_login_success ::
  "('io, 'enc, 'dec) login_env \<Rightarrow> rust_str \<Rightarrow> login_success \<Rightarrow> ('io, 'enc, 'dec, protocol_uuid) login_op" where
  "accept_login_success env username success =
     (if lsu_username success \<noteq> username then fail (Le_UsernameMismatch username (lsu_username success))
      else if as_u128 (lsu_uuid success) = 0 then fail Le_InvalidLoginUuid
      else
        and_then (send_packet env encode_login_acknowledged) (\<lambda>_.
        and_then (transition State_Login State_Configuration) (\<lambda>_.
        and_then (send_packet env (encode_client_information client_information_default)) (\<lambda>_.
        ok (lsu_uuid success)))))"

text \<open>One packet of the login phase: \<open>None\<close> when the phase goes on.\<close>

definition login_packet ::
  "('io, 'enc, 'dec) login_env \<Rightarrow> rust_str \<Rightarrow> login_clientbound \<Rightarrow> ('io, 'enc, 'dec, protocol_uuid option) login_op" where
  "login_packet env username packet =
     (case packet of
        Login_Disconnect reason \<Rightarrow> server_disconnect reason
      | Login_EncryptionRequest _ \<Rightarrow> fail (Le_Unsupported ''encryption'')
      | Login_SetCompression _ \<Rightarrow> fail (Le_Unsupported ''compression'')
      | Login_PluginRequest transaction _ _ \<Rightarrow>
          and_then (send_packet env (encode_login_plugin_response transaction)) (\<lambda>_. ok None)
      | Login_CookieRequest key \<Rightarrow> and_then (send_packet env (encode_login_cookie_response key)) (\<lambda>_. ok None)
      | Login_Success success \<Rightarrow> and_then (accept_login_success env username success) (\<lambda>uuid. ok (Some uuid)))"

fun login_loop :: "nat \<Rightarrow> ('io, 'enc, 'dec) login_env \<Rightarrow> rust_str \<Rightarrow> ('io, 'enc, 'dec, protocol_uuid) login_op" where
  "login_loop 0 env username = packet_limit MAX_LOGIN_PACKETS"
| "login_loop (Suc n) env username =
     and_then (read_frame env ''Login packet read'') (\<lambda>frame.
     and_then (decode_with decode_login_clientbound env frame) (\<lambda>packet.
     and_then (login_packet env username packet) (\<lambda>result.
     case result of Some uuid \<Rightarrow> ok uuid | None \<Rightarrow> login_loop n env username)))"

definition run_login :: "('io, 'enc, 'dec) login_env \<Rightarrow> rust_str \<Rightarrow> ('io, 'enc, 'dec, protocol_uuid) login_op" where
  "run_login env username = login_loop MAX_LOGIN_PACKETS env username"

section \<open>Configuration\<close>

record configuration_data =
  cd_skipped :: nat
  cd_dimension_types :: "runtime_dimension_type list"
  cd_biomes :: "runtime_biome list"
  cd_banner_patterns :: "minecraft_identifier list"
  cd_entity_registries :: "(rust_str, minecraft_identifier list) btree_map"

definition configuration_data_empty :: configuration_data where
  "configuration_data_empty =
     \<lparr>cd_skipped = 0, cd_dimension_types = [], cd_biomes = [], cd_banner_patterns = [], cd_entity_registries = []\<rparr>"

definition ENTITY_REGISTRIES :: "string list" where
  "ENTITY_REGISTRIES =
     [''minecraft:cat_variant'', ''minecraft:cat_sound_variant'', ''minecraft:chicken_variant'',
      ''minecraft:chicken_sound_variant'', ''minecraft:cow_variant'', ''minecraft:cow_sound_variant'',
      ''minecraft:wolf_variant'', ''minecraft:wolf_sound_variant'', ''minecraft:frog_variant'', ''minecraft:pig_variant'',
      ''minecraft:pig_sound_variant'', ''minecraft:zombie_nautilus_variant'', ''minecraft:painting_variant'',
      ''minecraft:villager_type'', ''minecraft:villager_profession'']"

definition registry_identifiers ::
  "(rust_str \<Rightarrow> 'io login_error) \<Rightarrow> registry_entry list \<Rightarrow> 'io login_error + minecraft_identifier list" where
  "registry_identifiers err entries =
     try_each (\<lambda>e. case identifier_new (re_identifier e) of Inl _ \<Rightarrow> Inl (err (re_identifier e)) | Inr i \<Rightarrow> Inr i) entries"

definition adapted :: "'a adapter \<Rightarrow> 'io login_error + 'a" where
  "adapted r = (case r of Inl e \<Rightarrow> Inl (Le_ConfigurationData e) | Inr v \<Rightarrow> Inr v)"

definition receive_registry ::
  "rust_str \<Rightarrow> registry_entry list \<Rightarrow> configuration_data \<Rightarrow> 'io login_error + configuration_data" where
  "receive_registry registry entries d =
     (if registry = str ''minecraft:dimension_type'' then
        and_also (adapted (adapt_dimension_types entries)) (\<lambda>ts. Inr (d\<lparr>cd_dimension_types := ts\<rparr>))
      else if registry = str ''minecraft:worldgen/biome'' then
        and_also (adapted (adapt_biomes entries)) (\<lambda>bs. Inr (d\<lparr>cd_biomes := bs\<rparr>))
      else if registry = str ''minecraft:banner_pattern'' then
        and_also (registry_identifiers Le_BannerPatternIdentifier entries) (\<lambda>ids. Inr (d\<lparr>cd_banner_patterns := ids\<rparr>))
      else if registry \<in> set (map str ENTITY_REGISTRIES) then
        and_also (registry_identifiers (\<lambda>_. Le_EntityRegistryIdentifier) entries) (\<lambda>ids.
        Inr (d\<lparr>cd_entity_registries := bt_insert registry ids (cd_entity_registries d)\<rparr>))
      else Inr d)"

definition skip_packet :: "configuration_data \<Rightarrow> configuration_data" where
  "skip_packet d = d\<lparr>cd_skipped := saturating_add (cd_skipped d) 1\<rparr>"

definition disconnect_text :: "nbt_compound \<Rightarrow> rust_str" where
  "disconnect_text reason =
     (case get_string (str ''text'') reason of None \<Rightarrow> str ''<structured NBT reason>'' | Some v \<Rightarrow> to_string_lossy v)"

text \<open>One packet of the configuration phase: \<open>True\<close> when the phase is over.\<close>

definition configuration_packet ::
  "('io, 'enc, 'dec) login_env \<Rightarrow> configuration_clientbound \<Rightarrow> configuration_data \<Rightarrow>
   ('io, 'enc, 'dec, bool \<times> configuration_data) login_op" where
  "configuration_packet env packet d =
     (let reply = (\<lambda>response. and_then (send_packet env response) (\<lambda>_. ok (False, d))) in
      case packet of
        Config_CookieRequest key \<Rightarrow> reply (encode_configuration_cookie_response key)
      | Config_CustomPayload _ _ \<Rightarrow> ok (False, skip_packet d)
      | Config_Skipped _ _ \<Rightarrow> ok (False, skip_packet d)
      | Config_RegistryData registry entries \<Rightarrow>
          and_then (lift_result (receive_registry registry entries (skip_packet d))) (\<lambda>d'. ok (False, d'))
      | Config_Disconnect reason \<Rightarrow> server_disconnect (disconnect_text reason)
      | Config_Finish \<Rightarrow>
          and_then (send_packet env encode_finish_configuration) (\<lambda>_.
          and_then (transition State_Configuration State_Play) (\<lambda>_. ok (True, d)))
      | Config_KeepAlive i \<Rightarrow> reply (encode_configuration_keep_alive i)
      | Config_Ping i \<Rightarrow> reply (encode_configuration_pong i)
      | Config_KnownPacks _ \<Rightarrow> reply encode_known_packs_response_empty
      | Config_ResourcePackPush \<Rightarrow> fail (Le_Unsupported ''resource-pack pushes'')
      | Config_Transfer \<Rightarrow> fail (Le_Unsupported ''transfers'')
      | Config_CodeOfConduct \<Rightarrow> fail (Le_Unsupported ''code of conduct''))"

fun configuration_loop ::
  "nat \<Rightarrow> ('io, 'enc, 'dec) login_env \<Rightarrow> configuration_data \<Rightarrow> ('io, 'enc, 'dec, configuration_data) login_op" where
  "configuration_loop 0 env d = packet_limit MAX_CONFIGURATION_PACKETS"
| "configuration_loop (Suc n) env d =
     and_then (read_frame env ''Configuration packet read'') (\<lambda>frame.
     and_then (decode_with decode_configuration_clientbound env frame) (\<lambda>packet.
     and_then (configuration_packet env packet d) (\<lambda>(finished, d').
     if finished then ok d' else configuration_loop n env d')))"

definition run_configuration_phase ::
  "('io, 'enc, 'dec) login_env \<Rightarrow> ('io, 'enc, 'dec, configuration_data) login_op" where
  "run_configuration_phase env = configuration_loop MAX_CONFIGURATION_PACKETS env configuration_data_empty"

section \<open>Play acceptance\<close>

datatype play_acceptance = Accept_Login initial_play_login | Accept_Reconfigure

text \<open>One packet before the play login; the flag says whether \<open>Player Loaded\<close> was sent.\<close>

definition acceptance_packet ::
  "('io, 'enc, 'dec) login_env \<Rightarrow> play_clientbound \<Rightarrow> bool \<Rightarrow> ('io, 'enc, 'dec, play_acceptance option \<times> bool) login_op" where
  "acceptance_packet env packet loaded =
     (let reply = (\<lambda>response. and_then (send_packet env response) (\<lambda>_. ok (None, loaded))) in
      case packet of
        Play_Login login \<Rightarrow> ok (Some (Accept_Login login), loaded)
      | Play_KeepAlive i \<Rightarrow> reply (encode_play_keep_alive i)
      | Play_Ping i \<Rightarrow> reply (encode_play_pong i)
      | Play_PlayerPosition p \<Rightarrow> reply (encode_play_teleport_confirmation (pp_teleport_id p))
      | Play_ChunkBatchFinished _ \<Rightarrow>
          and_then (send_packet env (encode_play_chunk_batch_received 0x3f800000)) (\<lambda>_.
          if loaded then ok (None, True)
          else and_then (send_packet env encode_play_player_loaded) (\<lambda>_. ok (None, True)))
      | Play_CookieRequest key \<Rightarrow> reply (encode_play_cookie_response key)
      | Play_Disconnect reason \<Rightarrow> server_disconnect (tc_plain_text reason)
      | Play_StartConfiguration \<Rightarrow>
          and_then (send_packet env encode_play_acknowledge_configuration) (\<lambda>_.
          and_then (transition State_Play State_Configuration) (\<lambda>_.
          and_then (send_packet env (encode_client_information client_information_default)) (\<lambda>_.
          ok (Some Accept_Reconfigure, loaded))))
      | Play_ResourcePackPush \<Rightarrow> fail (Le_Unsupported ''resource-pack pushes'')
      | Play_Transfer \<Rightarrow> fail (Le_Unsupported ''transfers'')
      | _ \<Rightarrow> ok (None, loaded))"

fun acceptance_loop :: "nat \<Rightarrow> ('io, 'enc, 'dec) login_env \<Rightarrow> bool \<Rightarrow> ('io, 'enc, 'dec, play_acceptance) login_op" where
  "acceptance_loop 0 env loaded = fail (Le_PacketLimit ''Play acceptance'' MAX_PLAY_ACCEPTANCE_PACKETS)"
| "acceptance_loop (Suc n) env loaded =
     and_then (read_frame env ''initial Play packet read'') (\<lambda>frame.
     and_then (decode_with decode_play_clientbound env frame) (\<lambda>packet.
     and_then (acceptance_packet env packet loaded) (\<lambda>(result, loaded').
     case result of Some a \<Rightarrow> ok a | None \<Rightarrow> acceptance_loop n env loaded')))"

definition await_initial_play_login :: "('io, 'enc, 'dec) login_env \<Rightarrow> ('io, 'enc, 'dec, play_acceptance) login_op" where
  "await_initial_play_login env = acceptance_loop MAX_PLAY_ACCEPTANCE_PACKETS env False"

section \<open>The whole configuration\<close>

text \<open>What a phase sent replaces what earlier phases sent, registry by registry.\<close>

definition merge_phase :: "configuration_data \<Rightarrow> configuration_data \<Rightarrow> configuration_data" where
  "merge_phase phase d =
     \<lparr>cd_skipped = saturating_add (cd_skipped d) (cd_skipped phase),
      cd_dimension_types = (if cd_dimension_types phase \<noteq> [] then cd_dimension_types phase else cd_dimension_types d),
      cd_biomes = (if cd_biomes phase \<noteq> [] then cd_biomes phase else cd_biomes d),
      cd_banner_patterns = (if cd_banner_patterns phase \<noteq> [] then cd_banner_patterns phase else cd_banner_patterns d),
      cd_entity_registries = fold (\<lambda>(k, v). bt_insert k v) (cd_entity_registries phase) (cd_entity_registries d)\<rparr>"

record configuration_outcome =
  co_data :: configuration_data
  co_initial_login :: initial_play_login

fun configuration_rounds ::
  "nat \<Rightarrow> ('io, 'enc, 'dec) login_env \<Rightarrow> configuration_data \<Rightarrow> ('io, 'enc, 'dec, configuration_outcome) login_op" where
  "configuration_rounds 0 env d = fail (Le_PacketLimit ''Play/Configuration transitions'' MAX_RECONFIGURATIONS_DURING_ACCEPTANCE)"
| "configuration_rounds (Suc n) env d =
     and_then (run_configuration_phase env) (\<lambda>phase.
     let d' = merge_phase phase d in
     and_then (await_initial_play_login env) (\<lambda>acceptance.
     case acceptance of
       Accept_Login login \<Rightarrow> ok \<lparr>co_data = d', co_initial_login = login\<rparr>
     | Accept_Reconfigure \<Rightarrow> configuration_rounds n env d'))"

definition run_configuration :: "('io, 'enc, 'dec) login_env \<Rightarrow> ('io, 'enc, 'dec, configuration_outcome) login_op" where
  "run_configuration env = configuration_rounds (MAX_RECONFIGURATIONS_DURING_ACCEPTANCE + 1) env configuration_data_empty"

section \<open>From the handshake to play\<close>

definition bootstrap_frame_limits :: "codec_error + frame_limits" where
  "bootstrap_frame_limits = frame_limits_new MAX_BOOTSTRAP_FRAME_SIZE MAX_CONFIGURATION_BUFFERED_BYTES"

definition conversation_new :: "frame_limits \<Rightarrow> ('io + u8 list) list \<Rightarrow> ('io, 'enc, 'dec) conversation" where
  "conversation_new l reads =
     \<lparr>cv_connection = connection_new l, cv_reads = reads, cv_sent = [], cv_state = State_Handshake\<rparr>"

definition login_handshake :: "rust_str \<Rightarrow> u16 \<Rightarrow> handshake" where
  "login_handshake host port =
     \<lparr>hs_protocol_version = PROTOCOL_VERSION, hs_server_address = host, hs_server_port = port, hs_next_state = NextState_Login\<rparr>"

definition start_login ::
  "('io, 'enc, 'dec) login_env \<Rightarrow> rust_str \<Rightarrow> u16 \<Rightarrow> rust_str \<Rightarrow> protocol_uuid \<Rightarrow> ('io, 'enc, 'dec, unit) login_op" where
  "start_login env host port name uuid =
     and_then (map_err Le_Framing (lift_result (encode_handshake (login_handshake host port) MAX_BOOTSTRAP_FRAME_SIZE))) (\<lambda>bytes.
     and_then (send_bytes env bytes) (\<lambda>_.
     and_then (transition State_Handshake State_Login) (\<lambda>_.
     send_packet env (encode_login_start name uuid))))"

text \<open>The development login asks for the zero UUID: the server assigns the offline one.\<close>

definition connect_to_play ::
  "('io, 'enc, 'dec) login_env \<Rightarrow> rust_str \<Rightarrow> u16 \<Rightarrow> rust_str \<Rightarrow>
   ('io, 'enc, 'dec, protocol_uuid \<times> configuration_outcome) login_op" where
  "connect_to_play env host port username =
     and_then (start_login env host port username (uuid_from_u128 0)) (\<lambda>_.
     and_then (run_login env username) (\<lambda>uuid.
     and_then (run_configuration env) (\<lambda>outcome. ok (uuid, outcome))))"

end
