(* ===== verification/Session_Frames.thy ===== *)
theory Session_Frames
  imports Session_Entities Login
begin

unbundle bit_operations_syntax

text \<open>
  \<open>cubic-network/src/chat_session.rs\<close>: the play session, for a session without movement controls (\<open>movement\<close> is
  \<open>None\<close>, as the chat sessions pass it). Its state is the world, the inventory, chat security, the trackers of respawn
  and safety, the frames written and the queue of events for the user interface. Writing a frame to the socket and
  publishing to the renderer are left out; a formatted text carries the number it shows.
\<close>

section \<open>Events for the user interface\<close>

datatype chat_message_trust = NotApplicable | Unsigned_Message | SignedUnverified | Modified_Message
datatype chat_message_kind = Player_Message | System_Message | ServerNotice
datatype safety_alert_kind = Alert_Damage | Alert_LowHealth | Alert_Drowning | Alert_Death | Alert_LargeDisplacement

datatype alert_text = Alert_Text string | Alert_Health string f32 | Alert_Air string i32

record chat_message =
  cm_plain_text :: rust_str
  cm_structured :: structured_text
  cm_trust :: chat_message_trust

datatype 'e chat_event =
    Ce_Connected
  | Ce_Message chat_message_kind "rust_str option" chat_message
  | Ce_Warning "'e play_error"
  | Ce_Notice string
  | Ce_SafetyAlert safety_alert_kind alert_text
  | Ce_Disconnected rust_str

text \<open>A warning shows an error (\<open>Ce_Warning\<close>) or a fixed notice (\<open>Ce_Notice\<close>).\<close>

text \<open>\<open>ChatSessionHandle\<close> and \<open>ChatSessionRunner\<close>: a bounded queue, one slot for a critical event, and the count of
  events dropped because the queue was full. \<open>eq_open\<close>: the handle still exists; \<open>eq_running\<close>: the runner does. Once the
  runner is gone and the queue is empty the handle reports it, one time.\<close>

record 'e event_queue =
  eq_events :: "'e chat_event list"
  eq_capacity :: nat
  eq_open :: bool
  eq_running :: bool
  eq_closed_reported :: bool
  eq_critical :: "'e chat_event option"
  eq_dropped :: u64

definition event_queue_bounded :: "nat \<Rightarrow> 'e event_queue" where
  "event_queue_bounded capacity =
     \<lparr>eq_events = [], eq_capacity = max capacity 1, eq_open = True, eq_running = True,
      eq_closed_reported = False, eq_critical = None, eq_dropped = 0\<rparr>"

definition runner_event :: "'e chat_event \<Rightarrow> 'e event_queue \<Rightarrow> bool \<times> 'e event_queue" where
  "runner_event e q =
     (if \<not> eq_open q then (False, q)
      else if eq_capacity q \<le> length (eq_events q) then (False, q\<lparr>eq_dropped := eq_dropped q + 1\<rparr>)
      else (True, q\<lparr>eq_events := eq_events q @ [e]\<rparr>))"

definition runner_critical :: "'e chat_event \<Rightarrow> 'e event_queue \<Rightarrow> 'e event_queue" where
  "runner_critical e q = q\<lparr>eq_critical := Some e\<rparr>"

definition try_next_event :: "'e event_queue \<Rightarrow> 'e chat_event option \<times> 'e event_queue" where
  "try_next_event q =
     (case eq_events q of
        e # es \<Rightarrow> (Some e, q\<lparr>eq_events := es\<rparr>)
      | [] \<Rightarrow>
          if eq_running q \<or> eq_closed_reported q then (None, q)
          else (Some (Ce_Disconnected (str ''network task stopped'')), q\<lparr>eq_closed_reported := True\<rparr>))"

definition take_critical_event :: "'e event_queue \<Rightarrow> 'e chat_event option \<times> 'e event_queue" where
  "take_critical_event q = (eq_critical q, q\<lparr>eq_critical := None\<rparr>)"

definition dropped_event_count :: "'e event_queue \<Rightarrow> u64 \<times> 'e event_queue" where
  "dropped_event_count q = (eq_dropped q, q\<lparr>eq_dropped := 0\<rparr>)"

definition message_event ::
  "chat_message_kind \<Rightarrow> rust_str option \<Rightarrow> text_component \<Rightarrow> chat_message_trust \<Rightarrow> 'e chat_event" where
  "message_event kind sender c trust =
     Ce_Message kind sender \<lparr>cm_plain_text = tc_plain_text c, cm_structured = structured (tc_value c), cm_trust = trust\<rparr>"

section \<open>Respawn and safety\<close>

record initial_respawn_recovery =
  received_chunk :: bool
  respawn_requested :: bool

definition initial_respawn_default :: initial_respawn_recovery where
  "initial_respawn_default = \<lparr>received_chunk = False, respawn_requested = False\<rparr>"

definition observe_chunk :: "initial_respawn_recovery \<Rightarrow> initial_respawn_recovery" where
  "observe_chunk r = r\<lparr>received_chunk := True\<rparr>"

definition request_if_initially_dead ::
  "f32 \<Rightarrow> bool \<Rightarrow> initial_respawn_recovery \<Rightarrow> bool \<times> initial_respawn_recovery" where
  "request_if_initially_dead health world_mode r =
     (if f32_less_eq health 0 \<and> world_mode \<and> \<not> received_chunk r \<and> \<not> respawn_requested r
      then (True, r\<lparr>respawn_requested := True\<rparr>) else (False, r))"

text \<open>The constant 6.0 of \<open>f32\<close>.\<close>

definition LOW_HEALTH_THRESHOLD :: f32 where "LOW_HEALTH_THRESHOLD = 0x40c00000"
definition DANGEROUS_AIR_THRESHOLD :: i32 where "DANGEROUS_AIR_THRESHOLD = 60"

record session_safety_tracker =
  sf_health :: "f32 option"
  sf_air :: "i32 option"
  low_health_active :: bool
  drowning_active :: bool
  sf_dead :: bool

definition safety_default :: session_safety_tracker where
  "safety_default =
     \<lparr>sf_health = None, sf_air = None, low_health_active = False, drowning_active = False, sf_dead = False\<rparr>"

text \<open>The alerts on death and damage, then the alert on low health.\<close>

definition vital_alert :: "f32 \<Rightarrow> session_safety_tracker \<Rightarrow> 'e chat_event list \<times> session_safety_tracker" where
  "vital_alert health t =
     (if f32_less_eq health 0
      then (if sf_dead t then [] else [Ce_SafetyAlert Alert_Death (Alert_Text ''You died'')], t\<lparr>sf_dead := True\<rparr>)
      else (if (case sf_health t of None \<Rightarrow> False | Some previous \<Rightarrow> f32_less health previous)
            then [Ce_SafetyAlert Alert_Damage (Alert_Health ''Health dropped to'' health)] else [],
            t\<lparr>sf_dead := False\<rparr>))"

definition low_health_alert :: "f32 \<Rightarrow> session_safety_tracker \<Rightarrow> 'e chat_event list \<times> session_safety_tracker" where
  "low_health_alert health t =
     (if f32_less_eq health LOW_HEALTH_THRESHOLD \<and> f32_less 0 health
      then (if low_health_active t then []
            else [Ce_SafetyAlert Alert_LowHealth (Alert_Health ''Dangerously low health'' health)],
            t\<lparr>low_health_active := True\<rparr>)
      else ([], t\<lparr>low_health_active := False\<rparr>))"

definition health_alerts :: "f32 \<Rightarrow> session_safety_tracker \<Rightarrow> 'e chat_event list \<times> session_safety_tracker" where
  "health_alerts health t =
     (let (vital, t1) = vital_alert health t; (low, t2) = low_health_alert health t1 in
      (vital @ low, t2\<lparr>sf_health := Some health\<rparr>))"

definition air_alert :: "i32 \<Rightarrow> session_safety_tracker \<Rightarrow> 'e chat_event option \<times> session_safety_tracker" where
  "air_alert air t =
     (let dangerous = (air \<le>s DANGEROUS_AIR_THRESHOLD) in
      (if dangerous \<and> \<not> drowning_active t
       then Some (Ce_SafetyAlert Alert_Drowning (Alert_Air ''Air supply is dangerously low'' air)) else None,
       t\<lparr>drowning_active := dangerous, sf_air := Some air\<rparr>))"

section \<open>The state\<close>

datatype 'e chat_security = UnsignedDevelopment | Authenticated "'e secure_chat_session"

record 'e play_session =
  ps_player :: i32
  ps_world :: world_state
  ps_inventory :: inventory_state
  ps_items :: "item_profile option"
  ps_entity_types :: "entity_profile option"
  ps_security :: "'e chat_security"
  ps_salt_counter :: i64
  ps_player_loaded :: bool
  ps_respawn :: initial_respawn_recovery
  ps_safety :: session_safety_tracker
  ps_written :: "u8 list list"
  ps_queue :: "'e event_queue"

type_synonym ('e, 'a) play_op = "('e play_session, 'e play_error, 'a) fallible"

text \<open>An operation on one component of the state.\<close>

definition on_part ::
  "('s \<Rightarrow> 't) \<Rightarrow> ('t \<Rightarrow> 's \<Rightarrow> 's) \<Rightarrow> ('t, 'e, 'a) fallible \<Rightarrow> ('s, 'e, 'a) fallible" where
  "on_part get put m s = (case m (get s) of (r, t) \<Rightarrow> (r, put t s))"

definition on_world :: "('a) world_op \<Rightarrow> ('e, 'a) play_op" where
  "on_world m = on_part ps_world (\<lambda>w s. s\<lparr>ps_world := w\<rparr>) (map_err Play_World m)"

definition on_entities :: "('e, 'a) entity_store_step \<Rightarrow> ('e, 'a) play_op" where
  "on_entities m =
     on_part (\<lambda>s. entities (ps_world s)) (\<lambda>es s. s\<lparr>ps_world := (ps_world s)\<lparr>entities := es\<rparr>\<rparr>) m"

definition on_inventory :: "'a session_step \<Rightarrow> ('e, 'a) play_op" where
  "on_inventory m = on_part ps_inventory (\<lambda>i s. s\<lparr>ps_inventory := i\<rparr>) (map_err Play_Session m)"

definition change_inventory :: "(inventory_state \<Rightarrow> inventory_state) \<Rightarrow> ('e, unit) play_op" where
  "change_inventory f s = (Inr (), s\<lparr>ps_inventory := f (ps_inventory s)\<rparr>)"

definition adapter_call :: "'a adapter \<Rightarrow> ('e, 'a) play_op" where
  "adapter_call m = map_err Play_Adapter (lift_result m)"

definition write_frame :: "bootstrap_error + u8 list \<Rightarrow> ('e, unit) play_op" where
  "write_frame packet s =
     (case packet of Inl e \<Rightarrow> (Inl (Play_Protocol e), s) | Inr bytes \<Rightarrow> (Inr (), s\<lparr>ps_written := ps_written s @ [bytes]\<rparr>))"

definition send_event :: "'e chat_event \<Rightarrow> ('e, bool) play_op" where
  "send_event e s = (let (delivered, q) = runner_event e (ps_queue s) in (Inr delivered, s\<lparr>ps_queue := q\<rparr>))"

definition raise_critical :: "'e chat_event \<Rightarrow> ('e, unit) play_op" where
  "raise_critical e s = (Inr (), s\<lparr>ps_queue := runner_critical e (ps_queue s)\<rparr>)"

fun raise_all :: "'e chat_event list \<Rightarrow> ('e, unit) play_op" where
  "raise_all [] = ok ()"
| "raise_all (e # es) = and_then (raise_critical e) (\<lambda>_. raise_all es)"

definition current_player :: "'e play_session \<Rightarrow> i32" where
  "current_player s =
     (case session (ps_world s) of None \<Rightarrow> ps_player s | Some w \<Rightarrow> of_int (player_entity_id w))"

unbundle bit_operations_syntax

text \<open>
  \<open>cubic-network/src/chat_session.rs\<close>: what the play session does with a frame of the server, with a command of the
  user and when a reconfiguration is complete, and the loop over them.
\<close>

record play_env =
  pe_nbt :: nbt_env
  pe_sizes :: entity_sizes
  pe_trig :: trig

text \<open>The loop goes on, waits for a configuration to finish, or has returned.\<close>

datatype session_status = Session_Running | Session_Configuring | Session_Over

section \<open>Chunks and world events\<close>

definition apply_world :: "world_event \<Rightarrow> ('e, world_transition) play_op" where
  "apply_world event = on_world (apply_event event)"

definition apply_adaptation :: "chunk_adaptation \<Rightarrow> ('e, play_clientbound option) play_op" where
  "apply_adaptation a =
     (case a of
        Adapt_Load c \<Rightarrow> and_then (apply_world (LoadChunk c)) (\<lambda>_. ok None)
      | Adapt_Unload c \<Rightarrow> and_then (apply_world (UnloadChunk c)) (\<lambda>_. ok None)
      | Adapt_Light c light \<Rightarrow> and_then (apply_world (UpdateChunkLight c light)) (\<lambda>_. ok None)
      | Adapt_Blocks us \<Rightarrow> and_then (on_world (apply_block_updates us)) (\<lambda>_. ok None)
      | Adapt_BlockEntity p type_raw_id d \<Rightarrow> and_then (on_world (apply_block_entity_update p type_raw_id d)) (\<lambda>_. ok None)
      | Adapt_Other packet \<Rightarrow> ok (Some packet))"

definition apply_world_packet :: "play_clientbound \<Rightarrow> ('e, unit) play_op" where
  "apply_world_packet packet =
     and_then (adapter_call (play_world_event packet)) (\<lambda>event.
     case event of None \<Rightarrow> ok () | Some e \<Rightarrow> and_then (apply_world e) (\<lambda>_. ok ()))"

section \<open>Chat\<close>

definition chat_trust :: "message_signature option \<Rightarrow> bool \<Rightarrow> chat_message_trust" where
  "chat_trust signature modified =
     (if signature = None then Unsigned_Message else if modified then Modified_Message else SignedUnverified)"

definition on_secure_chat :: "('e, 'a) chat_op \<Rightarrow> 'e secure_chat_session \<Rightarrow> ('e, 'a) play_op" where
  "on_secure_chat m c s =
     (case m c of (r, c') \<Rightarrow> map_err Play_SecureChat (\<lambda>s. (r, s)) (s\<lparr>ps_security := Authenticated c'\<rparr>))"

definition with_security ::
  "('e, 'a) play_op \<Rightarrow> ('e secure_chat_session \<Rightarrow> ('e, 'a) play_op) \<Rightarrow> ('e, 'a) play_op" where
  "with_security open_chat signed_chat s =
     (case ps_security s of UnsignedDevelopment \<Rightarrow> open_chat s | Authenticated c \<Rightarrow> signed_chat c s)"

text \<open>\<open>accept_incoming\<close> with its display closure: the event is queued only once the index was accepted.\<close>

definition accept_displayed :: "i32 \<Rightarrow> message_signature option \<Rightarrow> 'e chat_event \<Rightarrow> 'e secure_chat_session \<Rightarrow> ('e, unit) play_op" where
  "accept_displayed global_index signature event c =
     (case advance_incoming_index global_index c of
        (Inl e, c') \<Rightarrow> on_secure_chat (advance_incoming_index global_index) c
      | (Inr _, _) \<Rightarrow>
          and_then (send_event event) (\<lambda>delivered. on_secure_chat (accept_incoming global_index signature delivered) c))"

definition acknowledge_standalone :: "('e, unit) play_op" where
  "acknowledge_standalone =
     with_security (ok ()) (\<lambda>c s.
       case standalone_acknowledgement c of (n, c') \<Rightarrow>
         (let s' = s\<lparr>ps_security := Authenticated c'\<rparr> in
          case n of None \<Rightarrow> (Inr (), s') | Some k \<Rightarrow> write_frame (encode_play_chat_acknowledgement k) s'))"

definition receive_player_chat :: "player_chat_packet \<Rightarrow> ('e, unit) play_op" where
  "receive_player_chat p =
     (let event = message_event Player_Message (Some (pc_sender_name p)) (pc_message p)
            (chat_trust (pc_signature p) (pc_modified p)) in
      with_security
        (and_then (send_event event) (\<lambda>_.
         if pc_signature p \<noteq> None then write_frame (encode_play_chat_acknowledgement 1) else ok ()))
        (\<lambda>c. and_then (accept_displayed (pc_global_index p) (pc_signature p) event c) (\<lambda>_. acknowledge_standalone)))"

section \<open>Packets\<close>

text \<open>The permission levels 0 to 4 are the entity events 24 to 28.\<close>

definition receive_entity_event :: "i32 \<Rightarrow> u8 \<Rightarrow> ('e, unit) play_op" where
  "receive_entity_event i event s =
     (if i = current_player s \<and> 24 \<le> event \<and> event \<le> 28
      then change_inventory (set_permission_level (unat (event - 24))) s else (Inr (), s))"

definition finish_chunk_batch :: "('e, unit) play_op" where
  "finish_chunk_batch =
     and_then (write_frame (encode_play_chunk_batch_received 0x3f800000)) (\<lambda>_ s.
     if ps_player_loaded s then (Inr (), s)
     else and_then (write_frame encode_play_player_loaded) (\<lambda>_ s. (Inr (), s\<lparr>ps_player_loaded := True\<rparr>)) s)"

definition receive_health :: "f32 \<Rightarrow> ('e, unit) play_op" where
  "receive_health health s =
     (let (request, r) = request_if_initially_dead health False (ps_respawn s); s1 = s\<lparr>ps_respawn := r\<rparr> in
      and_then (if request then write_frame encode_play_perform_respawn else ok ()) (\<lambda>_ s2.
        let (alerts, t) = health_alerts health (ps_safety s2) in
        raise_all alerts (s2\<lparr>ps_safety := t\<rparr>)) s1)"

definition receive_air :: "i32 \<Rightarrow> i32 option \<Rightarrow> ('e, unit) play_op" where
  "receive_air i air_supply s =
     (case air_supply of
        Some air \<Rightarrow>
          if i = current_player s then
            (let (alert, t) = air_alert air (ps_safety s); s1 = s\<lparr>ps_safety := t\<rparr> in
             case alert of None \<Rightarrow> (Inr (), s1) | Some e \<Rightarrow> raise_critical e s1)
          else (Inr (), s)
      | None \<Rightarrow> (Inr (), s))"

definition running :: "('e, unit) play_op \<Rightarrow> ('e, session_status) play_op" where
  "running m = and_then m (\<lambda>_. ok Session_Running)"

definition handle_packet :: "play_clientbound \<Rightarrow> ('e, session_status) play_op" where
  "handle_packet packet =
     (case packet of
        Play_KeepAlive i \<Rightarrow> running (write_frame (encode_play_keep_alive i))
      | Play_Ping i \<Rightarrow> running (write_frame (encode_play_pong i))
      | Play_PlayerPosition p \<Rightarrow> running (write_frame (encode_play_teleport_confirmation (pp_teleport_id p)))
      | Play_PlayerAbilities a \<Rightarrow> running (change_inventory (set_instant_build (pa_instant_build a)))
      | Play_EntityEvent i event \<Rightarrow> running (receive_entity_event i event)
      | Play_ChunkBatchFinished _ \<Rightarrow> running finish_chunk_batch
      | Play_LevelChunkWithLight _ \<Rightarrow> running (\<lambda>s. (Inr (), s\<lparr>ps_respawn := observe_chunk (ps_respawn s)\<rparr>))
      | Play_CookieRequest key \<Rightarrow> running (write_frame (encode_play_cookie_response key))
      | Play_PlayerChat p \<Rightarrow> running (receive_player_chat p)
      | Play_DisguisedChat sender message \<Rightarrow>
          running (and_then (send_event (message_event Player_Message (Some sender) message Unsigned_Message)) (\<lambda>_. ok ()))
      | Play_SystemChat message overlay \<Rightarrow>
          running (and_then (send_event (message_event (if overlay then ServerNotice else System_Message) None message
            NotApplicable)) (\<lambda>_. ok ()))
      | Play_Disconnect reason \<Rightarrow>
          and_then (apply_world Disconnect) (\<lambda>_.
          and_then (raise_critical (Ce_Disconnected (tc_plain_text reason))) (\<lambda>_. ok Session_Over))
      | Play_Health health \<Rightarrow> running (receive_health health)
      | Play_EntityData i air_supply _ \<Rightarrow> running (receive_air i air_supply)
      | Play_ResourcePackPush \<Rightarrow> fail (Play_Unsupported ''resource-pack pushes'')
      | Play_Transfer \<Rightarrow> fail (Play_Unsupported ''transfers'')
      | Play_StartConfiguration \<Rightarrow>
          and_then (apply_world BeginConfiguration) (\<lambda>_.
          and_then (write_frame encode_play_acknowledge_configuration) (\<lambda>_.
          and_then (write_frame (encode_client_information client_information_default)) (\<lambda>_. ok Session_Configuring)))
      | _ \<Rightarrow> ok Session_Running)"

section \<open>Frames\<close>

definition entity_branch :: "play_env \<Rightarrow> nat \<Rightarrow> u8 list \<Rightarrow> ('e, bool) play_op" where
  "entity_branch pe at_ms frame s =
     (case ps_entity_types s of
        None \<Rightarrow> (Inr False, s)
      | Some p \<Rightarrow>
          on_entities (session_entity_frame (pe_nbt pe) (pe_sizes pe) (pe_trig pe) (ps_player s) p (ps_items s) frame at_ms) s)"

definition inventory_branch :: "play_env \<Rightarrow> u8 list \<Rightarrow> ('e, bool) play_op" where
  "inventory_branch pe frame s =
     (case ps_items s of
        None \<Rightarrow> (Inr False, s)
      | Some p \<Rightarrow> on_inventory (session_inventory_frame (pe_nbt pe) p frame) s)"

definition decode_play_frame :: "play_env \<Rightarrow> u8 list \<Rightarrow> ('e, play_clientbound) play_op" where
  "decode_play_frame pe frame =
     map_err Play_Protocol (lift_result
       (case classify_play_decode_work frame of Inl e \<Rightarrow> Inl e | Inr _ \<Rightarrow> decode_play_clientbound (pe_nbt pe) frame))"

definition play_branch :: "play_env \<Rightarrow> u8 list \<Rightarrow> ('e, session_status) play_op" where
  "play_branch pe frame =
     and_then (decode_play_frame pe frame) (\<lambda>packet.
     and_then (adapter_call (adapt_chunk_packet packet)) (\<lambda>a.
     and_then (apply_adaptation a) (\<lambda>left.
     case left of
       None \<Rightarrow> ok Session_Running
     | Some packet' \<Rightarrow> and_then (apply_world_packet packet') (\<lambda>_. handle_packet packet'))))"

definition session_frame :: "play_env \<Rightarrow> nat \<Rightarrow> u8 list \<Rightarrow> ('e, session_status) play_op" where
  "session_frame pe at_ms frame =
     and_then (entity_branch pe at_ms frame) (\<lambda>consumed.
     if consumed then ok Session_Running
     else
       and_then (inventory_branch pe frame) (\<lambda>consumed'.
       if consumed' then ok Session_Running else play_branch pe frame))"

section \<open>Commands\<close>

definition validate_outgoing_chat :: "rust_str \<Rightarrow> 'e play_error + unit" where
  "validate_outgoing_chat message =
     (if message = [] then Inl (Play_InvalidMessage ''the message is empty'')
      else if hd message = of_char (CHR ''/'') then Inl Play_CommandsUnsupported
      else if list_ex is_control message then Inl (Play_InvalidMessage ''control characters are not permitted'')
      else if MAX_CHAT_UTF16_UNITS < utf16_count message
      then Inl (Play_InvalidMessage ''the message exceeds 256 Java UTF-16 units'')
      else Inr ())"

text \<open>The clock and the random salt are arguments.\<close>

definition send_chat :: "rust_str \<Rightarrow> int \<Rightarrow> i64 \<Rightarrow> ('e, unit) play_op" where
  "send_chat message now random_salt =
     and_then (lift_result (validate_outgoing_chat message)) (\<lambda>_ s.
     if now < 0 then (Inl Play_InvalidSystemClock, s)
     else
       let timestamp = of_int (min now (2 ^ 63 - 1)) :: i64;
           s1 = s\<lparr>ps_salt_counter := ps_salt_counter s + 1\<rparr> in
       with_security
         (write_frame (encode_play_chat_message message timestamp (timestamp XOR ps_salt_counter s1) None
           empty_with_disabled_checksum))
         (\<lambda>c. and_then (on_secure_chat (prepare_outgoing now message timestamp random_salt) c) (\<lambda>prepared.
           write_frame (encode_play_chat_message message timestamp random_salt (Some (prepared_signature prepared))
             (prepared_update prepared)))) s1)"

text \<open>A message that cannot be sent is reported, and the session goes on.\<close>

definition send_message_command :: "rust_str \<Rightarrow> int \<Rightarrow> i64 \<Rightarrow> ('e, session_status) play_op" where
  "send_message_command message now random_salt s =
     (case send_chat message now random_salt s of
        (Inl e, s') \<Rightarrow> running (and_then (send_event (Ce_Warning e)) (\<lambda>_. ok ())) s'
      | (Inr _, s') \<Rightarrow> (Inr Session_Running, s'))"

definition disconnect_command :: "('e, session_status) play_op" where
  "disconnect_command = and_then (apply_world Disconnect) (\<lambda>_. ok Session_Over)"

section \<open>Configurations\<close>

definition write_session_update :: "'e secure_chat_session \<Rightarrow> ('e, unit) play_op" where
  "write_session_update c =
     and_then (map_err Play_SecureChat (lift_result (system_time_millis (certificate_expires_at (certificate c))))) (\<lambda>expires_at.
     write_frame (encode_play_chat_session_update (chat_session_id (sequence c)) expires_at
       (certificate_public_key_der (certificate c)) (certificate_public_key_signature (certificate c))))"

definition random_session_uuid :: "u8 list \<Rightarrow> protocol_uuid" where
  "random_session_uuid bytes =
     ProtocolUuid (bytes[6 := (bytes ! 6 AND 0x0f) OR 0x40, 8 := (bytes ! 8 AND 0x3f) OR 0x80])"

definition enter_world_with :: "configuration_outcome \<Rightarrow> ('e, unit) play_op" where
  "enter_world_with outcome =
     and_then (apply_world (RuntimeDimensionTypes (cd_dimension_types (co_data outcome)))) (\<lambda>_.
     and_then (apply_world (RuntimeBiomes (cd_biomes (co_data outcome)))) (\<lambda>_.
     and_then (adapter_call (initial_world_event (co_initial_login outcome))) (\<lambda>event.
     and_then (apply_world event) (\<lambda>_. ok ()))))"

definition install_profiles :: "configuration_data \<Rightarrow> ('e, unit) play_op" where
  "install_profiles d s =
     (let types = map_option (install_connection_registries (cd_entity_registries d)) (ps_entity_types s) in
      case ps_items s of
        None \<Rightarrow> (Inr (), s\<lparr>ps_entity_types := types\<rparr>)
      | Some p \<Rightarrow>
          (case install_banner_patterns (cd_banner_patterns d) p of
             Inl e \<Rightarrow> (Inl (Play_Session (Session_Inventory e)), s)
           | Inr p' \<Rightarrow> (Inr (), s\<lparr>ps_items := Some p', ps_entity_types := types\<rparr>)))"

definition reset_chat :: "protocol_uuid \<Rightarrow> ('e, unit) play_op" where
  "reset_chat uuid =
     with_security (ok ()) (\<lambda>c s.
       let c' = secure_chat_reset uuid c in write_session_update c' (s\<lparr>ps_security := Authenticated c'\<rparr>))"

definition finish_reconfiguration :: "configuration_outcome \<Rightarrow> u8 list \<Rightarrow> ('e, session_status) play_op" where
  "finish_reconfiguration outcome random_bytes =
     running
       (and_then (install_profiles (co_data outcome)) (\<lambda>_.
        and_then (enter_world_with outcome) (\<lambda>_.
        and_then (\<lambda>s. (Inr (), s\<lparr>ps_safety := safety_default\<rparr>)) (\<lambda>_.
        and_then (reset_chat (random_session_uuid random_bytes)) (\<lambda>_.
        and_then (send_event (Ce_Notice ''Server reconfiguration completed'')) (\<lambda>_. ok ()))))))"

definition session_new ::
  "configuration_outcome \<Rightarrow> item_profile option \<Rightarrow> entity_profile option \<Rightarrow> 'e chat_security \<Rightarrow> nat \<Rightarrow> 'e play_session" where
  "session_new outcome items types security capacity =
     \<lparr>ps_player = il_player_entity_id (co_initial_login outcome), ps_world = world_default, ps_inventory = inventory_new,
      ps_items = items, ps_entity_types = types, ps_security = security, ps_salt_counter = 0, ps_player_loaded = False,
      ps_respawn = initial_respawn_default, ps_safety = safety_default, ps_written = [],
      ps_queue = event_queue_bounded capacity\<rparr>"

text \<open>What \<open>run_play_session\<close> does before its loop.\<close>

definition begin_play_session :: "configuration_outcome \<Rightarrow> ('e, session_status) play_op" where
  "begin_play_session outcome =
     running
       (and_then (apply_world BeginConfiguration) (\<lambda>_.
        and_then (enter_world_with outcome) (\<lambda>_.
        and_then (send_event Ce_Connected) (\<lambda>_.
        and_then (write_frame (encode_play_client_information client_information_default)) (\<lambda>_.
        with_security (ok ()) write_session_update)))))"

section \<open>The loop\<close>

text \<open>What happens to a session: a frame with the time it arrives, a failed read, a command, the end of a
  configuration, and the user interface taking events from the queue.\<close>

datatype session_input =
    In_Frame nat "u8 list"
  | In_ReadError rust_str
  | In_Message rust_str int i64
  | In_Disconnect
  | In_Configured configuration_outcome "u8 list"
  | In_TakeEvent
  | In_TakeCritical

definition read_failed :: "rust_str \<Rightarrow> ('e, session_status) play_op" where
  "read_failed reason = and_then (raise_critical (Ce_Disconnected reason)) (\<lambda>_. fail (Play_Transport reason))"

definition session_step :: "play_env \<Rightarrow> session_status \<Rightarrow> session_input \<Rightarrow> ('e, session_status) play_op" where
  "session_step pe status i =
     (case (status, i) of
        (_, In_TakeEvent) \<Rightarrow> (\<lambda>s. (Inr status, s\<lparr>ps_queue := snd (try_next_event (ps_queue s))\<rparr>))
      | (_, In_TakeCritical) \<Rightarrow> (\<lambda>s. (Inr status, s\<lparr>ps_queue := snd (take_critical_event (ps_queue s))\<rparr>))
      | (Session_Running, In_Frame at_ms frame) \<Rightarrow> session_frame pe at_ms frame
      | (Session_Running, In_ReadError reason) \<Rightarrow> read_failed reason
      | (Session_Running, In_Message message now salt) \<Rightarrow> send_message_command message now salt
      | (Session_Running, In_Disconnect) \<Rightarrow> disconnect_command
      | (Session_Configuring, In_Configured outcome random_bytes) \<Rightarrow> finish_reconfiguration outcome random_bytes
      | _ \<Rightarrow> ok status)"

fun session_loop :: "play_env \<Rightarrow> session_status \<Rightarrow> session_input list \<Rightarrow> ('e, session_status) play_op" where
  "session_loop pe status [] = ok status"
| "session_loop pe status (i # is) =
     and_then (session_step pe status i) (\<lambda>status'. session_loop pe status' is)"

definition run_play_session :: "play_env \<Rightarrow> configuration_outcome \<Rightarrow> session_input list \<Rightarrow> ('e, session_status) play_op" where
  "run_play_session pe outcome is = and_then (begin_play_session outcome) (\<lambda>status. session_loop pe status is)"

end
