(* ===== verification/Session_Invariant.thy ===== *)
theory Session_Invariant
  imports Session_Frames Cubic_Prelude
begin

text \<open>
  Invariants of the play session. An invariant that the updates of the session's parts keep is kept by every packet,
  and one that every frame keeps is kept by the whole session: the two locales say what has to be shown for it, and the
  composition of the session's operations is dealt with once, inside them.
\<close>

lemma with_security_keeps [keeps_intros]:
  "keeps I m \<Longrightarrow> (\<And>c. keeps I (k c)) \<Longrightarrow> keeps I (with_security m k)"
  by (auto simp: keeps_def with_security_def split: chat_security.split)

lemma adapter_call_keeps [keeps_intros]: "keeps I (adapter_call m)"
  unfolding adapter_call_def by (intro keeps_intros)

lemma running_keeps [keeps_intros]: "keeps I m \<Longrightarrow> keeps I (running m)"
  unfolding running_def by (intro keeps_intros)

section \<open>Packets\<close>

locale session_parts =
  fixes I :: "'e play_session \<Rightarrow> bool"
  assumes apply_world_keeps [keeps_intros]: "keeps I (apply_world event)"
    and block_updates_keep [keeps_intros]: "keeps I (on_world (apply_block_updates us))"
    and block_entity_keeps [keeps_intros]: "keeps I (on_world (apply_block_entity_update p t d))"
    and inventory_branch_keeps: "keeps I (inventory_branch pe frame)"
    and instant_build: "I s \<Longrightarrow> I (s\<lparr>ps_inventory := set_instant_build b (ps_inventory s)\<rparr>)"
    and permission_level: "I s \<Longrightarrow> I (s\<lparr>ps_inventory := set_permission_level l (ps_inventory s)\<rparr>)"
    and send_event_keeps [keeps_intros]: "keeps I (send_event e)"
    and raise_critical_keeps [keeps_intros]: "keeps I (raise_critical e)"
    and alerted: "I s \<Longrightarrow> I (s\<lparr>ps_safety := snd (health_alerts health (ps_safety s) :: 'e chat_event list \<times> _)\<rparr>)"
    and written: "I s \<Longrightarrow> I (s\<lparr>ps_written := ps_written s @ [frame]\<rparr>)"
    and secured: "I s \<Longrightarrow> I (s\<lparr>ps_security := c\<rparr>)"
    and salted: "I s \<Longrightarrow> I (s\<lparr>ps_salt_counter := n\<rparr>)"
    and loaded: "I s \<Longrightarrow> I (s\<lparr>ps_player_loaded := True\<rparr>)"
begin

lemma apply_adaptation_keeps [keeps_intros]: "keeps I (apply_adaptation a)"
  by (cases a) (auto simp: apply_adaptation_def intro!: keeps_intros)

lemma apply_world_packet_keeps [keeps_intros]: "keeps I (apply_world_packet p)"
  unfolding apply_world_packet_def by (intro keeps_intros)

lemma raise_all_keeps [keeps_intros]: "keeps I (raise_all es)"
  by (induction es) (auto intro!: keeps_intros)

lemma write_frame_keeps [keeps_intros]: "keeps I (write_frame packet)"
  by (rule keepsI) (simp add: write_frame_def written split: sum.split)

lemma on_secure_chat_keeps [keeps_intros]: "keeps I (on_secure_chat m c)"
  by (rule keepsI) (simp add: on_secure_chat_def secured split: prod.split)

lemma accept_displayed_keeps [keeps_intros]: "keeps I (accept_displayed i signature event c)"
  by (auto simp: accept_displayed_def intro!: keeps_intros split: prod.split sum.split)

lemma acknowledge_standalone_keeps [keeps_intros]: "keeps I acknowledge_standalone"
  unfolding acknowledge_standalone_def
  by (rule with_security_keeps, rule keeps_ok, rule keepsI)
    (auto simp: Let_def secured split: prod.split option.split intro!: keepsD[OF write_frame_keeps])

lemma receive_player_chat_keeps [keeps_intros]: "keeps I (receive_player_chat p)"
  unfolding receive_player_chat_def Let_def by (intro keeps_intros)

lemma receive_entity_event_keeps [keeps_intros]: "keeps I (receive_entity_event i event)"
  by (rule keepsI) (simp add: receive_entity_event_def change_inventory_def permission_level)

lemma set_loaded_keeps: "keeps I (\<lambda>s. (Inr (), s\<lparr>ps_player_loaded := True\<rparr>))"
  by (rule keepsI) (simp add: loaded)

lemma finish_chunk_batch_keeps [keeps_intros]: "keeps I finish_chunk_batch"
  unfolding finish_chunk_batch_def
  by (rule keeps_and_then[OF write_frame_keeps], rule keepsI)
    (auto intro!: keepsD[OF keeps_and_then[OF write_frame_keeps]] set_loaded_keeps)

lemma raise_alerts_keeps:
  "keeps I (\<lambda>s. raise_all (fst (health_alerts health (ps_safety s)))
     (s\<lparr>ps_safety := snd (health_alerts health (ps_safety s) :: 'e chat_event list \<times> _)\<rparr>))"
  by (rule keepsI) (rule keepsD[OF raise_all_keeps], rule alerted)

lemma receive_health_keeps [keeps_intros]: "keeps I (receive_health health)"
proof -
  have "(receive_health health :: ('e, unit) play_op) =
      (\<lambda>s. raise_all (fst (health_alerts health (ps_safety s))) (s\<lparr>ps_safety := snd (health_alerts health (ps_safety s) :: 'e chat_event list \<times> _)\<rparr>))"
    by (rule ext) (simp add: receive_health_def request_if_initially_dead_def split_beta Let_def and_then_def ok_def)
  then show ?thesis using raise_alerts_keeps by simp
qed

lemma abilities_keep [keeps_intros]: "keeps I (change_inventory (set_instant_build b))"
  by (rule keepsI) (simp add: change_inventory_def instant_build)

lemma handle_packet_keeps:
  assumes "\<And>c. packet \<noteq> Play_LevelChunkWithLight c" and "\<And>i air n. packet \<noteq> Play_EntityData i air n"
  shows "keeps I (handle_packet packet)"
  using assms
  by (cases packet) (auto simp: handle_packet_def intro!: keeps_intros)

lemma send_chat_keeps: "keeps I (send_chat message now salt)"
  unfolding send_chat_def
proof (rule keeps_and_then[OF keeps_lift], rule keepsI)
  fix s :: "'e play_session" assume s: "I s"
  let ?timestamp = "of_int (min now (2 ^ 63 - 1)) :: i64"
  let ?s1 = "s\<lparr>ps_salt_counter := ps_salt_counter s + 1\<rparr>"
  let ?m = "with_security
      (write_frame (encode_play_chat_message message ?timestamp (?timestamp XOR ps_salt_counter ?s1) None
        empty_with_disabled_checksum))
      (\<lambda>c. and_then (on_secure_chat (prepare_outgoing now message ?timestamp salt) c) (\<lambda>prepared.
        write_frame (encode_play_chat_message message ?timestamp salt (Some (prepared_signature prepared))
          (prepared_update prepared)))) :: ('e, unit) play_op"
  have "keeps I ?m" by (intro keeps_intros)
  from keepsD[OF this, of ?s1] s salted[OF s]
  show "I (snd (if now < 0 then (Inl Play_InvalidSystemClock, s)
      else let timestamp = of_int (min now (2 ^ 63 - 1)) :: i64; s1 = s\<lparr>ps_salt_counter := ps_salt_counter s + 1\<rparr> in
       with_security
         (write_frame (encode_play_chat_message message timestamp (timestamp XOR ps_salt_counter s1) None
           empty_with_disabled_checksum))
         (\<lambda>c. and_then (on_secure_chat (prepare_outgoing now message timestamp salt) c) (\<lambda>prepared.
           write_frame (encode_play_chat_message message timestamp salt (Some (prepared_signature prepared))
             (prepared_update prepared)))) s1))"
    by (simp add: Let_def)
qed

lemma send_message_keeps: "keeps I (send_message_command message now salt)"
proof (rule keepsI)
  fix s :: "'e play_session" assume s: "I s"
  obtain r s' where run: "send_chat message now salt s = (r, s')" by fastforce
  have s': "I s'" by (rule keeps_run[OF send_chat_keeps s run])
  have "keeps I (running (and_then (send_event (Ce_Warning e)) (\<lambda>_. ok ())))" for e :: "'e play_error"
    by (intro keeps_intros)
  then show "I (snd (send_message_command message now salt s))"
    using s' by (cases r) (simp_all add: send_message_command_def run keepsD)
qed

lemma disconnect_keeps: "keeps I disconnect_command"
  unfolding disconnect_command_def by (intro keeps_intros)

lemma write_session_update_keeps [keeps_intros]: "keeps I (write_session_update c)"
  unfolding write_session_update_def by (intro keeps_intros)

lemma enter_world_keeps [keeps_intros]: "keeps I (enter_world_with outcome)"
  unfolding enter_world_with_def by (intro keeps_intros)

lemma reset_chat_keeps [keeps_intros]: "keeps I (reset_chat uuid)"
  unfolding reset_chat_def Let_def
  by (intro with_security_keeps keeps_ok) (rule keepsI, simp add: keepsD[OF write_session_update_keeps] secured)

lemma begin_play_session_keeps: "keeps I (begin_play_session outcome)"
  unfolding begin_play_session_def by (intro keeps_intros)

lemma read_failed_keeps: "keeps I (read_failed reason)"
  unfolding read_failed_def by (intro keeps_intros)

end

section \<open>The session\<close>

locale session_invariant = session_parts +
  fixes pe :: play_env
  assumes session_frame_keeps: "keeps I (session_frame pe at_ms frame)"
    and profiles: "I s \<Longrightarrow> I (s\<lparr>ps_items := items, ps_entity_types := map_option f (ps_entity_types s)\<rparr>)"
    and unalerted: "I s \<Longrightarrow> I (s\<lparr>ps_safety := safety_default\<rparr>)"
    and event_taken: "I s \<Longrightarrow> I (s\<lparr>ps_queue := snd (try_next_event (ps_queue s))\<rparr>)"
    and critical_taken: "I s \<Longrightarrow> I (s\<lparr>ps_queue := snd (take_critical_event (ps_queue s))\<rparr>)"
begin

lemma install_profiles_keeps [keeps_intros]: "keeps I (install_profiles d)"
proof (rule keepsI)
  fix s assume s: "I s"
  show "I (snd (install_profiles d s))"
    using profiles[OF s, where items = "ps_items s" and f = "install_connection_registries (cd_entity_registries d)"] profiles[OF s]
    by (simp add: install_profiles_def Let_def s split: option.split sum.split)
qed

lemma reset_safety_keeps [keeps_intros]: "keeps I (\<lambda>s. (Inr (), s\<lparr>ps_safety := safety_default\<rparr>))"
  by (rule keepsI) (simp add: unalerted)

lemma finish_reconfiguration_keeps: "keeps I (finish_reconfiguration outcome bytes)"
  unfolding finish_reconfiguration_def by (intro keeps_intros)

lemma take_events_keep:
  "keeps I (\<lambda>s. (Inr status, s\<lparr>ps_queue := snd (try_next_event (ps_queue s))\<rparr>))"
  "keeps I (\<lambda>s. (Inr status, s\<lparr>ps_queue := snd (take_critical_event (ps_queue s))\<rparr>))"
  by (rule keepsI, simp add: event_taken critical_taken)+

lemma session_step_keeps: "keeps I (session_step pe status i)"
  by (cases status; cases i)
    (simp_all add: session_step_def take_events_keep keeps_ok session_frame_keeps read_failed_keeps send_message_keeps
      disconnect_keeps finish_reconfiguration_keeps)

lemma session_loop_keeps: "keeps I (session_loop pe status is)"
  by (induction "is" arbitrary: status) (simp_all add: keeps_ok keeps_and_then session_step_keeps)

lemma run_play_session_keeps: "keeps I (run_play_session pe outcome is)"
  unfolding run_play_session_def by (intro keeps_and_then begin_play_session_keeps session_loop_keeps)

end

end
