(* ===== verification/Entity_Valid.thy ===== *)
theory Entity_Valid
  imports Entity_Packets Item_Valid
begin

unbundle bit_operations_syntax

text \<open>
  What the decoder of entity packets promises on arbitrary input: vectors of three finite numbers, bounded lists,
  known types and attributes, distinct metadata accessors.
\<close>

definition finite_vec3 :: "f64 list \<Rightarrow> bool" where
  "finite_vec3 v \<longleftrightarrow> length v = 3 \<and> list_all f64_is_finite v"

definition modifier_valid :: "wire_modifier \<Rightarrow> bool" where
  "modifier_valid m \<longleftrightarrow> f64_is_finite (wm_amount m) \<and> unat (wm_operation m) \<le> 2"

definition attribute_valid :: "wire_attribute \<Rightarrow> bool" where
  "attribute_valid a \<longleftrightarrow> f64_is_finite (wa_base a) \<and> length (wa_modifiers a) \<le> 16 \<and> list_all modifier_valid (wa_modifiers a)"

definition accessors_valid :: "(u8 \<times> wire_metadata) list \<Rightarrow> bool" where
  "accessors_valid vs \<longleftrightarrow> length vs \<le> 64 \<and> distinct (map fst vs) \<and> 0xff \<notin> fst ` set vs"

fun entity_event_valid :: "entity_profile \<Rightarrow> entity_wire_event \<Rightarrow> bool" where
  "entity_event_valid p (Ew_Spawn s) \<longleftrightarrow>
     es_type s \<in> ran (\<lambda>i. bt_get i (ep_types p)) \<and> finite_vec3 (es_position s) \<and> length (es_velocity s) = 3"
| "entity_event_valid p (Ew_Remove ids) \<longleftrightarrow> length ids \<le> MAX_REMOVED_ENTITIES_PER_PACKET"
| "entity_event_valid p (Ew_RelativeMove _ delta _ _) \<longleftrightarrow> length delta = 3"
| "entity_event_valid p (Ew_Rotate _ _ _) \<longleftrightarrow> True"
| "entity_event_valid p (Ew_HeadRotate _ _) \<longleftrightarrow> True"
| "entity_event_valid p (Ew_PositionSync _ pos motion yaw pitch) \<longleftrightarrow>
     finite_vec3 pos \<and> finite_vec3 motion \<and> f32_is_finite yaw \<and> f32_is_finite pitch"
| "entity_event_valid p (Ew_Teleport _ pos motion yaw pitch flags) \<longleftrightarrow>
     finite_vec3 pos \<and> finite_vec3 motion \<and> f32_is_finite yaw \<and> f32_is_finite pitch \<and> flags AND NOT 0x01ff = 0"
| "entity_event_valid p (Ew_Velocity _ motion) \<longleftrightarrow> length motion = 3"
| "entity_event_valid p (Ew_Attributes _ vs) \<longleftrightarrow>
     length vs \<le> 64 \<and> list_all attribute_valid vs \<and> sum_list (map (\<lambda>a. length (wa_modifiers a)) vs) \<le> 128"
| "entity_event_valid p (Ew_Metadata _ vs) \<longleftrightarrow> accessors_valid vs"

lemma entity_vec3_finite:
  assumes "entity_vec3 r = (Inr v, r')"
  shows "finite_vec3 v"
proof -
  have "read_n 3 (entity_read read_f64) r = (Inr v, r')" "\<forall>x \<in> set v. f64_is_finite x"
    using assms by (auto simp: entity_vec3_def and_then_Inr_iff ok_apply fail_apply split: if_splits)
  then show ?thesis by (auto simp: finite_vec3_def list_all_iff dest: read_n_length)
qed

lemma low_precision_vec3_length: "low_precision_vec3 r = (Inr v, r') \<Longrightarrow> length v = 3"
  by (auto simp: low_precision_vec3_def and_then_Inr_iff run_simps)

lemma look_up_Inr: "look_up ctx i m r = (Inr v, r') \<longleftrightarrow> bt_get i m = Some v \<and> r' = r"
  by (auto simp: look_up_def run_simps split: option.splits)

lemma metadata_count_Inr: "metadata_count m ctx r = (Inr n, r') \<Longrightarrow> n \<le> m"
  by (auto simp: metadata_count_def and_then_Inr_iff run_simps split: if_splits)

lemma read_modifier_valid:
  assumes "read_modifier r = (Inr m, r')"
  shows "modifier_valid m"
proof -
  obtain operation :: u32 where m: "f64_is_finite (wm_amount m)" "wm_operation m = ucast operation" "operation \<le> 2"
    using assms by (auto simp: read_modifier_def and_then_Inr_iff run_simps not_less split: if_splits sum.splits)
      (metis sum.exhaust)
  have "unat (wm_operation m) \<le> 2"
    using m(3) unfolding m(2) by (simp add: unat_ucast word_le_nat_alt mod_if)
  with m(1) show ?thesis by (simp add: modifier_valid_def)
qed

lemma read_attribute_valid:
  assumes "read_attribute p sofar r = (Inr (total', a), r')" and "sofar \<le> 128"
  shows "attribute_valid a \<and> total' = sofar + length (wa_modifiers a) \<and> total' \<le> 128"
proof -
  obtain n :: u32 and ms r1 where n: "n \<le> 16" "saturating_add sofar (unat n) \<le> 128"
    and ms: "read_n (unat n) read_modifier r1 = (Inr ms, r')" and a: "wa_modifiers a = ms" "f64_is_finite (wa_base a)"
    and total': "total' = saturating_add sofar (unat n)"
    using assms(1) by (auto simp: read_attribute_def Let_def and_then_Inr_iff run_simps not_less split: if_splits)
  have "length ms = unat n \<and> list_all modifier_valid ms" using read_n_forall[OF read_modifier_valid ms] .
  moreover have "unat n \<le> 16" using n(1) by (simp add: word_le_nat_alt)
  ultimately show ?thesis
    using n(2) a assms(2) by (simp add: attribute_valid_def total' saturating_add_def min_def usize_MAX_def split: if_splits)
qed

lemma read_attributes_valid:
  "read_attributes n p sofar r = (Inr vs, r') \<Longrightarrow> sofar \<le> 128 \<Longrightarrow>
   length vs = n \<and> list_all attribute_valid vs \<and> sofar + sum_list (map (\<lambda>a. length (wa_modifiers a)) vs) \<le> 128"
proof (induction n arbitrary: sofar r vs)
  case (Suc n)
  then obtain total' a r1 vs' where a: "read_attribute p sofar r = (Inr (total', a), r1)"
    and vs': "read_attributes n p total' r1 = (Inr vs', r')" "vs = a # vs'"
    by (auto simp: and_then_Inr_iff run_simps)
  from read_attribute_valid[OF a Suc.prems(2)] Suc.IH[OF vs'(1)] show ?case by (simp add: vs'(2))
qed (simp add: run_simps)

lemma read_metadata_values_valid:
  "read_metadata_values env p items acc r = (Inr vs, r') \<Longrightarrow> accessors_valid acc \<Longrightarrow> accessors_valid vs"
proof (induction env p items acc arbitrary: r rule: read_metadata_values.induct)
  case (1 env p items acc)
  from "1.prems"(1) obtain accessor r1 where accessor: "accessor = 0xff \<and> vs = acc \<or>
    (\<exists>v r2. accessor \<noteq> 0xff \<and> length acc < 64 \<and> accessor \<notin> fst ` set acc \<and>
      read_metadata_values env p items (acc @ [(accessor, v)]) r2 = (Inr vs, r'))"
    by (subst (asm) read_metadata_values.simps)
      (auto simp: and_then_Inr_iff run_simps not_le split: if_splits)
  then show ?case
  proof
    assume "\<exists>v r2. accessor \<noteq> 0xff \<and> length acc < 64 \<and> accessor \<notin> fst ` set acc \<and>
      read_metadata_values env p items (acc @ [(accessor, v)]) r2 = (Inr vs, r')"
    then obtain v r2 where new: "accessor \<noteq> 0xff" "length acc < 64" "accessor \<notin> fst ` set acc"
      and rest: "read_metadata_values env p items (acc @ [(accessor, v)]) r2 = (Inr vs, r')" by blast
    have "accessors_valid (acc @ [(accessor, v)])" using new "1.prems"(2) by (auto simp: accessors_valid_def)
    with "1.IH"[OF new(1) _ rest] new show ?thesis by auto
  qed (use "1.prems"(2) in simp)
qed

lemma entity_decoder_valid:
  assumes "entity_decoder env p items pid = Some m" and "m r = (Inr event, r')"
  shows "entity_event_valid p event"
proof -
  have spawn: "entity_event_valid p event" if "decode_entity_spawn p r = (Inr event, r')"
    using that by (auto simp: decode_entity_spawn_def and_then_Inr_iff run_simps look_up_Inr ranI
        dest: entity_vec3_finite low_precision_vec3_length)
  have remove: "entity_event_valid p event" if "decode_entity_remove r = (Inr event, r')"
    using that by (auto simp: decode_entity_remove_def and_then_Inr_iff run_simps dest!: read_n_length metadata_count_Inr)
  have move: "entity_event_valid p event" if "decode_entity_move pid r = (Inr event, r')"
    using that by (auto simp: decode_entity_move_def and_then_Inr_iff ok_apply dest!: read_n_length)
  have rotate: "entity_event_valid p event" if "decode_entity_rotate r = (Inr event, r') \<or> decode_entity_head_rotate r = (Inr event, r')"
    using that by (auto simp: decode_entity_rotate_def decode_entity_head_rotate_def and_then_Inr_iff run_simps)
  have placement: "entity_event_valid p event" if "decode_entity_placement pid r = (Inr event, r')"
    using that by (auto simp: decode_entity_placement_def and_then_Inr_iff run_simps split: if_splits dest: entity_vec3_finite)
  have motion: "entity_event_valid p event" if "decode_motion_event r = (Inr event, r')"
    using that by (auto simp: decode_motion_event_def and_then_Inr_iff run_simps dest: low_precision_vec3_length)
  have metadata: "entity_event_valid p event" if "decode_entity_metadata env p items r = (Inr event, r')"
    using that by (auto simp: decode_entity_metadata_def and_then_Inr_iff run_simps
        dest!: read_metadata_values_valid) (simp_all add: accessors_valid_def)
  have attributes: "entity_event_valid p event" if "decode_entity_attributes p r = (Inr event, r')"
    using that by (auto simp: decode_entity_attributes_def and_then_Inr_iff run_simps
        dest!: read_attributes_valid dest: metadata_count_Inr)
  show ?thesis
    using assms spawn remove move rotate placement motion metadata attributes
    by (auto simp: entity_decoder_def split: if_splits)
qed

lemma decode_entity_packet_valid:
  assumes "decode_entity_packet env p items frame_body = Inr (Some event)"
  shows "entity_event_valid p event"
proof -
  obtain packet :: raw_packet and m where m: "entity_decoder env p items (packet_id packet) = Some m"
    and run: "fst (and_then m (\<lambda>event. and_then entity_require_consumed (\<lambda>_. ok (Some event))) (new_reader (payload packet))) =
      Inr (Some event)"
    using assms unfolding decode_entity_packet_def by (auto split: sum.splits option.splits)
  from run obtain r1 where "m (new_reader (payload packet)) = (Inr event, r1)"
    by (auto simp: and_then_def ok_def split: prod.splits sum.splits)
  then show ?thesis by (rule entity_decoder_valid[OF m])
qed

end
