(* ===== verification/Session_Entities_Props.thy ===== *)
theory Session_Entities_Props
  imports Session_Entities Entity_Valid Entity_Props Cubic_Prelude
begin

text \<open>
  Whatever entity frames a server sends, the entity store keeps its handles, and every entity in it has a finite place,
  bounded metadata and finite attributes.
\<close>

section \<open>Sound entities\<close>

definition attribute_sound :: "entity_attribute \<Rightarrow> bool" where
  "attribute_sound a \<longleftrightarrow> f64_is_finite (attribute_base a) \<and>
     list_all (\<lambda>(_, m). f64_is_finite (modifier_amount m) \<and> modifier_operation m \<le> 2) (attribute_modifiers a)"

definition entity_sound :: "entity_sizes \<Rightarrow> entity \<Rightarrow> bool" where
  "entity_sound sz e \<longleftrightarrow> transform_is_finite (authoritative e) \<and> bt_sorted (metadata e) \<and>
     metadata_total sz e \<le> MAX_ENTITY_METADATA_RETAINED_BYTES \<and> list_all (\<lambda>(_, a). attribute_sound a) (attributes e)"

text \<open>Every entity in a slot has a property.\<close>

definition entities_hold :: "(entity \<Rightarrow> bool) \<Rightarrow> entity_store \<Rightarrow> bool" where
  "entities_hold P s \<longleftrightarrow> (\<forall>k<length (entity_slots s). pred_option P (slot_entity (entity_slots s ! k)))"

lemma entities_hold_get: "entities_hold P s \<Longrightarrow> store_get h s = Some e \<Longrightarrow> P e"
  using store_get_slot[of h s e] by (auto simp: entities_hold_def dest: spec[of _ "handle_slot h"])

lemma store_remove_holds: "entities_hold P s \<Longrightarrow> entities_hold P (snd (store_remove i s))"
  by (auto simp: entities_hold_def store_remove_def Let_def nth_list_update split: option.splits)

lemma store_modify_holds:
  "entities_hold P s \<Longrightarrow> (\<And>e. store_get h s = Some e \<Longrightarrow> P (f e)) \<Longrightarrow> entities_hold P (snd (store_modify h f s))"
  using store_get_slot[of h s]
  by (auto simp: entities_hold_def store_modify_def nth_list_update split: option.splits)

lemma update_transform_holds:
  assumes "entities_hold P s" and "\<And>e. P e \<Longrightarrow> transform_is_finite new \<Longrightarrow> P (e\<lparr>authoritative := new\<rparr>)"
  shows "entities_hold P (snd (update_transform i new at_ms teleport s))"
proof -
  have "P e" if "slot_entity (entity_slots s ! k) = Some e" "k < length (entity_slots s)" for e k
    using that assms(1) by (auto simp: entities_hold_def)
  then show ?thesis
    using assms by (auto simp: entities_hold_def update_transform_def Let_def nth_list_update split: option.splits)
qed

lemma take_slot_holds: "take_slot t at_ms s = Some (k, s') \<Longrightarrow> entities_hold P s \<Longrightarrow> entities_hold P s'"
  by (auto simp: take_slot_def entities_hold_def nth_append less_Suc_eq split: if_splits)

lemma store_spawn_holds:
  assumes "entities_hold P s" and "spawn_refused e = None \<Longrightarrow> P e"
  shows "entities_hold P (snd (store_spawn e at_ms s))"
proof -
  let ?s1 = "snd (store_remove (entity_id e) s)"
  have "entities_hold P ?s1" using store_remove_holds[OF assms(1)] .
  then have taken: "entities_hold P s2" if "take_slot t at_ms ?s1 = Some (k, s2)" for t k s2
    using take_slot_holds[OF that] by simp
  have "entities_hold P (snd (fill_slot e at_ms k s2))" if "entities_hold P s2" "P e" for k s2
    using that by (auto simp: fill_slot_def Let_def entities_hold_def nth_list_update)
  then show ?thesis
    using assms \<open>entities_hold P ?s1\<close> taken
    by (cases "take_slot (authoritative e) at_ms ?s1") (auto simp: store_spawn_def Let_def split: option.split)
qed

lemma spawned_sound:
  "spawn_refused e = None \<Longrightarrow> metadata e = [] \<Longrightarrow> attributes e = [] \<Longrightarrow> entity_sound sz e"
  by (simp add: spawn_refused_def entity_sound_def metadata_total_def bt_sorted_def split: if_splits)

section \<open>Metadata and attributes\<close>

lemma bt_sum_insert:
  fixes g :: "'v \<Rightarrow> nat"
  assumes "bt_sorted m"
  shows "sum_list (map (\<lambda>(_, v). g v) (bt_insert k v m)) + (case bt_get k m of None \<Rightarrow> 0 | Some p \<Rightarrow> g p) =
    sum_list (map (\<lambda>(_, v). g v) m) + g v"
  using assms
proof (induction k v m rule: bt_insert.induct)
  case (2 k v k' v' es)
  have above: "k < k' \<Longrightarrow> map_of es k = None"
    using "2.prems" by (fastforce simp: bt_sorted_def map_of_eq_None_iff)
  have "bt_sorted es" using "2.prems" by (simp add: bt_sorted_def)
  with 2 above show ?case by (auto simp: bt_get_def)
qed (simp add: bt_get_def)

lemma set_metadata_sound:
  assumes "set_metadata sz accessor v e = (r, e')" and "entity_sound sz e"
  shows "entity_sound sz e' \<and> entity_id e' = entity_id e"
proof (cases "e' = e")
  case False
  let ?g = "metadata_retained_bytes sz"
  let ?previous = "case bt_get accessor (metadata e) of None \<Rightarrow> 0 | Some p \<Rightarrow> ?g p"
  have e': "e' = e\<lparr>metadata := bt_insert accessor v (metadata e)\<rparr>"
    and bound: "saturating_add (metadata_total sz e - ?previous) (?g v) \<le> MAX_ENTITY_METADATA_RETAINED_BYTES"
    using assms(1) False by (auto simp: set_metadata_def Let_def split: if_splits)
  have sorted: "bt_sorted (metadata e)" using assms(2) by (simp add: entity_sound_def)
  have "metadata_total sz e' + ?previous = metadata_total sz e + ?g v"
    using bt_sum_insert[OF sorted, of ?g accessor v] by (simp add: e' metadata_total_def)
  moreover have "metadata_total sz e - ?previous + ?g v \<le> MAX_ENTITY_METADATA_RETAINED_BYTES"
    using bound by (simp add: saturating_add_def min_def usize_MAX_def MAX_ENTITY_METADATA_RETAINED_BYTES_def split: if_splits)
  ultimately have "metadata_total sz e' \<le> MAX_ENTITY_METADATA_RETAINED_BYTES" by linarith
  then show ?thesis using assms(2) by (simp add: entity_sound_def bt_insert_sorted e')
qed (use assms in simp)

lemma set_metadata_values_sound:
  "set_metadata_values env sz vs e = (r, e') \<Longrightarrow> entity_sound sz e \<Longrightarrow> entity_sound sz e' \<and> entity_id e' = entity_id e"
proof (induction env sz vs arbitrary: e rule: set_metadata_values.induct)
  case (2 env sz accessor v vs)
  show ?case
  proof (cases "semantic_metadata env v")
    case (Inl err)
    then show ?thesis using 2(2,3) by (simp add: and_then_def map_err_def lift_result_def)
  next
    case (Inr semantic)
    obtain r1 e1 where set: "set_metadata sz (unat accessor) semantic e = (r1, e1)" by fastforce
    note sound = set_metadata_sound[OF set 2(3)]
    show ?thesis
      using "2.IH" 2(2) sound
      by (cases r1) (auto simp: and_then_def map_err_def lift_result_def Inr set)
  qed
qed (simp add: ok_def)

lemma bt_insert_fold_all:
  "list_all P m \<Longrightarrow> (\<And>x. x \<in> set xs \<Longrightarrow> P (key x, val x)) \<Longrightarrow>
   list_all P (fold (\<lambda>x. bt_insert (key x) (val x)) xs m)"
  by (induction xs arbitrary: m) (simp_all add: bt_insert_all)

lemma bt_collect_all: "list_all P kvs \<Longrightarrow> list_all P (bt_collect kvs)"
  using bt_insert_fold_all[of P "[]" kvs fst snd] by (simp add: bt_collect_def case_prod_beta' list_all_iff)

lemma attribute_valid_sound:
  assumes "attribute_valid a"
  shows "attribute_sound (entity_attribute_of a)"
proof -
  have "list_all (\<lambda>(_, m). f64_is_finite (modifier_amount m) \<and> modifier_operation m \<le> 2)
      (map (\<lambda>m. (wm_identifier m, \<lparr>modifier_amount = wm_amount m, modifier_operation = unat (wm_operation m)\<rparr>))
        (wa_modifiers a))"
    using assms by (simp add: attribute_valid_def modifier_valid_def list_all_iff)
  from bt_collect_all[OF this] show ?thesis
    using assms by (simp add: attribute_sound_def entity_attribute_of_def attribute_valid_def)
qed

lemma set_attributes_id: "entity_id (set_attributes vs e) = entity_id e"
  by (simp add: set_attributes_def)

lemma set_attributes_sound:
  assumes "list_all attribute_valid vs" and "entity_sound sz e"
  shows "entity_sound sz (set_attributes vs e)"
proof -
  have "list_all (\<lambda>(_, a). attribute_sound a) (attributes e)" using assms(2) by (simp add: entity_sound_def)
  from bt_insert_fold_all[OF this, of vs wa_identifier entity_attribute_of]
  show ?thesis
    using assms attribute_valid_sound by (simp add: entity_sound_def set_attributes_def metadata_total_def list_all_iff)
qed

section \<open>Events\<close>

definition store_sound :: "entity_sizes \<Rightarrow> entity_store \<Rightarrow> bool" where
  "store_sound sz s \<longleftrightarrow> store_wf s \<and> entities_hold (entity_sound sz) s"

lemma store_sound_new: "store_sound sz entity_store_new"
  by (simp add: store_sound_def store_wf_new) (simp add: entities_hold_def entity_store_new_def)

lemma change_transform_keeps: "keeps (store_sound sz) (change_transform i new at_ms teleport)"
  unfolding change_transform_def
  by (rule keeps_and_then, rule keepsI)
    (auto simp: keeps_ok store_sound_def update_transform_wf entity_sound_def metadata_total_def intro!: update_transform_holds)

lemma change_entity_keeps:
  assumes "\<And>e. entity_id (f e) = entity_id e" and "\<And>e. entity_sound sz e \<Longrightarrow> entity_sound sz (f e)"
  shows "keeps (store_sound sz) (change_entity h f)"
  by (rule keepsI)
    (auto simp: change_entity_def store_sound_def assms store_modify_wf intro!: store_modify_holds dest: entities_hold_get)

lemma with_entity_keeps:
  assumes "\<And>h e. keeps (store_sound sz) (f h e)"
  shows "keeps (store_sound sz) (with_entity i f)"
  using assms by (auto simp: keeps_def with_entity_def split: option.split)

lemma set_velocity_keeps: "keeps (store_sound sz) (change_entity h (\<lambda>e. e\<lparr>velocity := v\<rparr>))"
  by (rule change_entity_keeps) (simp_all add: entity_sound_def metadata_total_def)

lemma metadata_keeps:
  "keeps (store_sound sz) (with_entity i (\<lambda>h e. run_on_entity h e (set_metadata_values env sz vs)) :: ('a, unit) entity_store_step)"
proof (rule keepsI)
  fix s assume "store_sound sz s"
  then have wf: "store_wf s" and hold: "entities_hold (entity_sound sz) s" by (simp_all add: store_sound_def)
  let ?m = "with_entity i (\<lambda>h e. run_on_entity h e (set_metadata_values env sz vs)) :: ('a, unit) entity_store_step"
  show "store_sound sz (snd (?m s))"
  proof (cases "Option.bind (store_handle (sint i) s) (\<lambda>h. map_option (Pair h) (store_get h s))")
    case None
    then show ?thesis using wf hold by (auto simp: store_sound_def with_entity_def bind_eq_None_conv split: option.splits)
  next
    case (Some p)
    then obtain h e where p: "store_handle (sint i) s = Some h" "store_get h s = Some e" by (auto simp: bind_eq_Some_conv)
    obtain r :: "'a play_error + unit" and e' where run: "set_metadata_values env sz vs e = (r, e')" by fastforce
    have e': "entity_sound sz e'" "entity_id e' = entity_id e"
      using set_metadata_values_sound[OF run entities_hold_get[OF hold p(2)]] by simp_all
    have "store_modify h (\<lambda>_. e') s = store_modify h (\<lambda>f. if f = e then e' else f) s"
      using p(2) by (simp add: store_modify_def)
    then have "store_wf (snd (store_modify h (\<lambda>_. e') s))"
      using store_modify_wf[OF wf, of "\<lambda>f. if f = e then e' else f" h] e'(2) by simp
    moreover have "entities_hold (entity_sound sz) (snd (store_modify h (\<lambda>_. e') s))"
      by (rule store_modify_holds[OF hold e'(1)])
    ultimately show ?thesis by (simp add: store_sound_def with_entity_def p run_on_entity_def run)
  qed
qed

lemma remove_entities_keeps: "keeps (store_sound sz) (\<lambda>s. (Inr (), remove_entities ids s))"
proof (rule keepsI)
  show "store_sound sz s \<Longrightarrow> store_sound sz (snd (Inr (), remove_entities ids s))" for s
    by (induction ids s rule: remove_entities.induct) (simp_all add: store_sound_def store_remove_wf store_remove_holds)
qed

lemma spawn_keeps: "keeps (store_sound sz) (and_then (map_err Play_Entity (store_spawn (spawned_entity e) at_ms)) (\<lambda>_. ok ()))"
  by (rule keeps_and_then[OF keepsI])
    (auto simp: keeps_ok store_sound_def store_spawn_any_wf spawned_entity_def intro!: store_spawn_holds spawned_sound)

lemma apply_event_keeps:
  assumes "entity_event_valid p event"
  shows "keeps (store_sound sz) (apply_entity_wire_event env sz t event at_ms)"
proof (cases event)
  case (Ew_Attributes i vs)
  then have "entity_sound sz e \<Longrightarrow> entity_sound sz (set_attributes vs e)" for e
    using assms by (simp add: set_attributes_sound)
  then show ?thesis by (simp add: Ew_Attributes with_entity_keeps change_entity_keeps set_attributes_id)
qed (simp_all add: spawn_keeps remove_entities_keeps with_entity_keeps change_transform_keeps set_velocity_keeps
    metadata_keeps keeps_and_then teleport_entity_def Let_def)

lemma session_entity_frame_keeps: "keeps (store_sound sz) (session_entity_frame env sz t me p items frame_body at_ms)"
  by (auto simp: session_entity_frame_def keeps_ok keeps_fail
      split: sum.split option.split dest!: decode_entity_packet_valid intro!: keeps_and_then apply_event_keeps)

end
