(* ===== verification/Session_Frames_Props.thy ===== *)
theory Session_Frames_Props
  imports Session_Invariant Session_Entities_Props Session_Items_Props World_Props
begin

text \<open>
  The play session as a whole: whatever the server sends and the user does, its world, inventory and entities stay
  consistent; packets that demand an answer are answered; and which arms of the frame loop are never reached.
\<close>

section \<open>The invariant\<close>

definition queue_bounded :: "'e event_queue \<Rightarrow> bool" where
  "queue_bounded q \<longleftrightarrow> length (eq_events q) \<le> eq_capacity q"

definition play_sound :: "entity_sizes \<Rightarrow> 'e play_session \<Rightarrow> bool" where
  "play_sound sz s \<longleftrightarrow> world_wf (ps_world s) \<and> store_sound sz (entities (ps_world s)) \<and>
     inventory_received (ps_inventory s) \<and> queue_bounded (ps_queue s)"

lemma play_sound_world:
  "play_sound sz s \<Longrightarrow> world_wf w \<Longrightarrow> store_sound sz (entities w) \<Longrightarrow> play_sound sz (s\<lparr>ps_world := w\<rparr>)"
  and play_sound_inventory: "play_sound sz s \<Longrightarrow> inventory_received i \<Longrightarrow> play_sound sz (s\<lparr>ps_inventory := i\<rparr>)"
  and play_sound_queue: "play_sound sz s \<Longrightarrow> queue_bounded q \<Longrightarrow> play_sound sz (s\<lparr>ps_queue := q\<rparr>)"
  by (simp_all add: play_sound_def)

lemma play_sound_parts [simp]:
  "play_sound sz (s\<lparr>ps_security := c\<rparr>) = play_sound sz s"
  "play_sound sz (s\<lparr>ps_written := fs\<rparr>) = play_sound sz s"
  "play_sound sz (s\<lparr>ps_respawn := r\<rparr>) = play_sound sz s"
  "play_sound sz (s\<lparr>ps_safety := t\<rparr>) = play_sound sz s"
  "play_sound sz (s\<lparr>ps_salt_counter := n\<rparr>) = play_sound sz s"
  "play_sound sz (s\<lparr>ps_player_loaded := b\<rparr>) = play_sound sz s"
  "play_sound sz (s\<lparr>ps_items := p\<rparr>) = play_sound sz s"
  "play_sound sz (s\<lparr>ps_entity_types := ts\<rparr>) = play_sound sz s"
  by (simp_all add: play_sound_def)

section \<open>The world\<close>

lemma store_clear_sound: "store_sound sz s \<Longrightarrow> store_sound sz (store_clear s)"
proof -
  have "store_sound sz (fold (\<lambda>i s. snd (store_remove i s)) is s)" if "store_sound sz s" for "is" s
    using that by (induction "is" arbitrary: s) (simp_all add: store_sound_def store_remove_wf store_remove_holds)
  then show "store_sound sz s \<Longrightarrow> store_sound sz (store_clear s)" by (simp add: store_clear_def)
qed

lemma on_session_entities: "on_session name f w = Inr (reset, changed, w') \<Longrightarrow> entities w' = entities w"
  by (auto simp: on_session_def and_also_Inr)

lemma handle_event_entities:
  assumes "handle_event event w = Inr (reset, changed, w')"
  shows "entities w' = entities w \<or> entities w' = store_clear (entities w)"
  using assms
  by (cases event)
    (auto simp: reset_connection_def receive_registries_def receive_dimension_types_def receive_biomes_def enter_the_world_def
      respawn_world_def synchronize_position_def synchronize_rotation_def load_chunk_def unload_chunk_def relight_chunk_def
      and_also_Inr Let_def dest: on_session_entities split: if_splits prod.splits sum.splits)

lemma apply_event_entities:
  "entities (snd (apply_event event w)) = entities w \<or> entities (snd (apply_event event w)) = store_clear (entities w)"
  using handle_event_entities[of event w]
  by (auto simp: apply_event_def split: option.splits sum.splits prod.splits)

lemma bump_revision_entities [simp]: "entities (snd (bump_revision b ps n w)) = entities w"
  by (simp add: bump_revision_def Let_def split: option.split)

lemma block_updates_entities:
  "entities (snd (apply_block_updates us w)) = entities w"
  "entities (snd (apply_block_entity_update p t d w)) = entities w"
  by (auto simp: apply_block_updates_def apply_block_entity_update_def Let_def split: sum.split option.split prod.split)

lemma on_world_keeps:
  fixes m :: "'a world_op"
  assumes "\<And>w. world_wf w \<Longrightarrow> world_wf (snd (m w))"
    and "\<And>w. store_sound sz (entities w) \<Longrightarrow> store_sound sz (entities (snd (m w)))"
  shows "keeps (play_sound sz) (on_world m :: ('e, 'a) play_op)"
proof (rule keepsI)
  fix s :: "'e play_session" assume s: "play_sound sz s"
  obtain r w where run: "m (ps_world s) = (r, w)" by fastforce
  then have "world_wf w" "store_sound sz (entities w)"
    using s assms[of "ps_world s"] by (simp_all add: play_sound_def)
  then show "play_sound sz (snd (on_world m s))"
    using s by (cases r) (simp_all add: on_world_def on_part_def map_err_def run play_sound_world)
qed

lemma apply_world_keeps [keeps_intros]: "keeps (play_sound sz) (apply_world event)"
  unfolding apply_world_def
  using apply_event_entities[of event] store_clear_sound by (intro on_world_keeps apply_event_wf) metis+

lemma block_updates_keeps [keeps_intros]:
  "keeps (play_sound sz) (on_world (apply_block_updates us))"
  "keeps (play_sound sz) (on_world (apply_block_entity_update p t d))"
  by (auto intro!: on_world_keeps simp: apply_block_updates_wf apply_block_entity_update_wf block_updates_entities)

section \<open>Events and frames\<close>

lemma runner_event_bounded: "queue_bounded q \<Longrightarrow> queue_bounded (snd (runner_event e q))"
  by (auto simp: queue_bounded_def runner_event_def)

lemma send_event_keeps [keeps_intros]: "keeps (play_sound sz) (send_event (e :: 'e chat_event))"
proof (rule keepsI)
  fix s :: "'e play_session" assume "play_sound sz s"
  then show "play_sound sz (snd (send_event e s))"
    using runner_event_bounded[of "ps_queue s" e] by (simp add: send_event_def play_sound_def split_beta)
qed

lemma raise_critical_keeps [keeps_intros]: "keeps (play_sound sz) (raise_critical e)"
  by (rule keepsI) (simp add: raise_critical_def runner_critical_def play_sound_def queue_bounded_def)

lemma received_flags:
  "inventory_received i \<Longrightarrow> inventory_received (set_instant_build b i)"
  "inventory_received i \<Longrightarrow> inventory_received (set_permission_level l i)"
  by (simp_all add: inventory_received_def inventory_wf_def set_instant_build_def set_permission_level_def inventory_stacks_def)

lemma play_sound_received:
  assumes "play_sound sz s"
  shows "play_sound sz (s\<lparr>ps_inventory := set_instant_build b (ps_inventory s)\<rparr>)"
    and "play_sound sz (s\<lparr>ps_inventory := set_permission_level l (ps_inventory s)\<rparr>)"
  using assms received_flags[of "ps_inventory s"] by (simp_all add: play_sound_def)

lemma receive_air_sound [keeps_intros]: "keeps (play_sound sz) (receive_air i air)"
  by (rule keepsI)
    (auto simp: receive_air_def Let_def split: option.split prod.split intro!: keepsD[OF raise_critical_keeps])

lemma observe_sound [keeps_intros]: "keeps (play_sound sz) (\<lambda>s. (Inr (), s\<lparr>ps_respawn := observe_chunk (ps_respawn s)\<rparr>))"
  by (rule keepsI) simp

lemma entity_branch_keeps [keeps_intros]: "keeps (play_sound (pe_sizes pe)) (entity_branch pe at_ms frame)"
proof (rule keepsI)
  fix s :: "'a play_session" assume s: "play_sound (pe_sizes pe) s"
  show "play_sound (pe_sizes pe) (snd (entity_branch pe at_ms frame s))"
  proof (cases "ps_entity_types s")
    case (Some p)
    let ?m = "session_entity_frame (pe_nbt pe) (pe_sizes pe) (pe_trig pe) (ps_player s) p (ps_items s) frame at_ms ::
      ('a, bool) entity_store_step"
    obtain r es where run: "?m (entities (ps_world s)) = (r, es)" by fastforce
    have "store_sound (pe_sizes pe) es"
      using keeps_run[OF session_entity_frame_keeps _ run] s by (simp add: play_sound_def)
    then have "play_sound (pe_sizes pe) (s\<lparr>ps_world := (ps_world s)\<lparr>entities := es\<rparr>\<rparr>)"
      using s by (simp add: play_sound_def world_wf_def store_sound_def)
    then show ?thesis by (simp add: entity_branch_def Some on_entities_def on_part_def run)
  qed (use s in \<open>simp add: entity_branch_def\<close>)
qed

lemma inventory_branch_keeps [keeps_intros]: "keeps (play_sound sz) (inventory_branch pe frame)"
proof (rule keepsI)
  fix s :: "'a play_session" assume s: "play_sound sz s"
  show "play_sound sz (snd (inventory_branch pe frame s))"
  proof (cases "ps_items s")
    case (Some p)
    obtain r i where run: "session_inventory_frame (pe_nbt pe) p frame (ps_inventory s) = (r, i)" by fastforce
    have "inventory_received i"
      using inventory_frame_received[of "ps_inventory s" "pe_nbt pe" p frame] s run by (simp add: play_sound_def)
    then show ?thesis
      using s by (cases r) (simp_all add: inventory_branch_def Some on_inventory_def on_part_def map_err_def run play_sound_inventory)
  qed (use s in \<open>simp add: inventory_branch_def\<close>)
qed

interpretation sound: session_parts "play_sound sz"
  by unfold_locales
    (simp_all add: apply_world_keeps block_updates_keeps inventory_branch_keeps send_event_keeps raise_critical_keeps
      play_sound_received)

lemma handle_packet_sound [keeps_intros]: "keeps (play_sound sz) (handle_packet packet)"
proof (cases "\<exists>c. packet = Play_LevelChunkWithLight c \<or> (\<exists>i air n. packet = Play_EntityData i air n)")
  case True
  then show ?thesis by (auto simp: handle_packet_def intro!: keeps_intros)
qed (auto intro!: sound.handle_packet_keeps)

lemma play_branch_keeps [keeps_intros]: "keeps (play_sound sz) (play_branch pe frame)"
  unfolding play_branch_def decode_play_frame_def by (intro keeps_intros)

lemma session_frame_sound: "keeps (play_sound (pe_sizes pe)) (session_frame pe at_ms frame)"
  unfolding session_frame_def by (intro keeps_intros)

lemma taken_bounded: "queue_bounded q \<Longrightarrow> queue_bounded (snd (try_next_event q))"
  "queue_bounded q \<Longrightarrow> queue_bounded (snd (take_critical_event q))"
  by (auto simp: queue_bounded_def try_next_event_def take_critical_event_def split: list.splits)

interpretation sound: session_invariant "play_sound (pe_sizes pe)" pe
  by unfold_locales (simp_all add: session_frame_sound play_sound_queue play_sound_def taken_bounded)

lemma session_new_sound: "play_sound sz (session_new outcome items types security capacity)"
  by (simp add: play_sound_def session_new_def world_default_wf received_new queue_bounded_def event_queue_bounded_def)
    (simp add: world_default_def store_sound_new)


end
