(* ===== verification/Session_Arms.thy ===== *)
theory Session_Arms
  imports Session_Invariant World_Adapter_Props
begin

text \<open>
  Arms of the frame loop that are never reached: every chunk packet is taken by the chunk adapter before the loop looks
  at it, and with an entity profile every entity data packet is taken by the entity decoder.
\<close>

definition arms_idle :: "bool \<Rightarrow> 'e play_session \<Rightarrow> bool" where
  "arms_idle typed s \<longleftrightarrow> \<not> received_chunk (ps_respawn s) \<and> (ps_entity_types s \<noteq> None) = typed \<and>
     (typed \<longrightarrow> sf_air (ps_safety s) = None \<and> \<not> drowning_active (ps_safety s))"

lemma arms_idle_parts [simp]:
  "arms_idle typed (s\<lparr>ps_world := w\<rparr>) = arms_idle typed s"
  "arms_idle typed (s\<lparr>ps_inventory := i\<rparr>) = arms_idle typed s"
  "arms_idle typed (s\<lparr>ps_security := c\<rparr>) = arms_idle typed s"
  "arms_idle typed (s\<lparr>ps_written := fs\<rparr>) = arms_idle typed s"
  "arms_idle typed (s\<lparr>ps_queue := q\<rparr>) = arms_idle typed s"
  "arms_idle typed (s\<lparr>ps_salt_counter := n\<rparr>) = arms_idle typed s"
  "arms_idle typed (s\<lparr>ps_player_loaded := b\<rparr>) = arms_idle typed s"
  "arms_idle typed (s\<lparr>ps_items := p\<rparr>) = arms_idle typed s"
  by (simp_all add: arms_idle_def)

lemma part_idle: "(\<And>t s. arms_idle typed (put t s) = arms_idle typed s) \<Longrightarrow> keeps (arms_idle typed) (on_part get put m)"
  by (rule keepsI) (simp add: on_part_def split: prod.split)

lemma parts_idle [keeps_intros]:
  "keeps (arms_idle typed) (on_world m)" "keeps (arms_idle typed) (on_inventory i)"
  "keeps (arms_idle typed) (on_entities e)"
  unfolding on_world_def on_inventory_def on_entities_def by (rule part_idle, simp)+

lemma branches_idle:
  "keeps (arms_idle typed) (inventory_branch pe frame)" "keeps (arms_idle typed) (entity_branch pe at_ms frame)"
  by (rule keepsI, simp add: inventory_branch_def entity_branch_def keepsD[OF parts_idle(2)] keepsD[OF parts_idle(3)]
    split: option.split)+

lemma alerted_idle [simp]: "arms_idle typed (s\<lparr>ps_safety := snd (health_alerts h (ps_safety s))\<rparr>) = arms_idle typed s"
  by (simp add: arms_idle_def health_alerts_def vital_alert_def low_health_alert_def Let_def)

lemma events_idle: "keeps (arms_idle typed) (send_event e)" "keeps (arms_idle typed) (raise_critical e)"
  by (rule keepsI, simp add: send_event_def raise_critical_def split_beta)+

interpretation idle: session_parts "arms_idle typed"
  by unfold_locales (simp_all add: apply_world_def parts_idle branches_idle events_idle)

section \<open>Packets\<close>

lemma handle_packet_idle:
  assumes "\<And>c. packet \<noteq> Play_LevelChunkWithLight c" and "typed \<Longrightarrow> \<forall>i air n. packet \<noteq> Play_EntityData i air n"
  shows "keeps (arms_idle typed) (handle_packet packet)"
proof (cases "\<exists>i air n. packet = Play_EntityData i air n")
  case True
  then have "\<not> typed" using assms(2) by auto
  then have "keeps (arms_idle typed) (receive_air i air)" for i air
    by (intro keepsI) (auto simp: arms_idle_def receive_air_def raise_critical_def Let_def split: option.split prod.split)
  with True show ?thesis by (auto simp: handle_packet_def intro!: keeps_intros)
qed (use assms(1) in \<open>auto intro!: idle.handle_packet_keeps\<close>)

lemma adapt_other: "adapt_chunk_packet p = Inr (Adapt_Other q) \<Longrightarrow> q = p \<and> (\<forall>c. q \<noteq> Play_LevelChunkWithLight c)"
  by (cases p) (auto simp: adapt_chunk_packet_def and_also_Inr)

lemma apply_adaptation_other:
  "(case a of Adapt_Other _ \<Rightarrow> False | _ \<Rightarrow> True) \<Longrightarrow> delivers (\<lambda>left. left = None) (apply_adaptation a)"
  by (cases a) (auto simp: apply_adaptation_def intro!: delivers_any delivers_ok)

lemma keeps_delivers:
  assumes "keeps I m" and "delivers Q m" and "\<And>x. Q x \<Longrightarrow> keeps I (k x)"
  shows "keeps I (and_then m k)"
proof (rule keepsI)
  fix s assume s: "I s"
  show "I (snd (and_then m k s))"
  proof (cases "m s")
    case (Pair r t)
    then have t: "I t" using keeps_run[OF assms(1) s] by simp
    show ?thesis
    proof (cases r)
      case (Inr x)
      then have "keeps I (k x)" using deliversD[OF assms(2)] Pair assms(3) by metis
      then show ?thesis using t by (simp add: and_then_def Pair Inr keepsD)
    qed (simp add: and_then_def Pair t)
  qed
qed

lemma adaptation_idle:
  assumes "adapt_chunk_packet p = Inr a" and "typed \<Longrightarrow> \<forall>i air n. p \<noteq> Play_EntityData i air n"
  shows "keeps (arms_idle typed) (and_then (apply_adaptation a) (\<lambda>left.
     case left of None \<Rightarrow> ok Session_Running
     | Some packet' \<Rightarrow> and_then (apply_world_packet packet') (\<lambda>_. handle_packet packet')))"
proof (cases "\<exists>q. a = Adapt_Other q")
  case True
  then obtain q where q: "a = Adapt_Other q" by blast
  then have "q = p" "\<And>c. q \<noteq> Play_LevelChunkWithLight c" using adapt_other assms(1) by auto
  then have "keeps (arms_idle typed) (handle_packet q)" using assms(2) by (intro handle_packet_idle) auto
  then show ?thesis by (auto simp: q apply_adaptation_def and_then_def ok_def
    intro!: keeps_and_then[unfolded and_then_def] idle.apply_world_packet_keeps)
next
  case False
  then have "delivers (\<lambda>left. left = None) (apply_adaptation a :: ('a, _) play_op)"
    by (intro apply_adaptation_other) (auto split: chunk_adaptation.split)
  then show ?thesis by (rule keeps_delivers[OF idle.apply_adaptation_keeps]) (auto intro: keeps_ok)
qed

section \<open>Frames\<close>

definition entity_data_frame :: "u8 list \<Rightarrow> bool" where
  "entity_data_frame frame \<longleftrightarrow> (\<exists>q. split_raw_packet frame = Inr q \<and> packet_id q = PLAY_SET_ENTITY_DATA_ID)"

lemma play_branch_idle:
  assumes "typed \<Longrightarrow> \<not> entity_data_frame frame"
  shows "keeps (arms_idle typed) (play_branch pe frame)"
proof -
  have "delivers (\<lambda>p. typed \<longrightarrow> (\<forall>i air n. p \<noteq> Play_EntityData i air n)) (decode_play_frame pe frame)"
  proof (rule deliversI, intro impI allI notI)
    fix s p s' i air n assume "decode_play_frame pe frame s = (Inr p, s')" and t: typed and p: "p = Play_EntityData i air n"
    then have "decode_play_clientbound (pe_nbt pe) frame = Inr p"
      by (auto simp: decode_play_frame_def map_err_def lift_result_def split: sum.splits)
    from decode_play_origin[OF this] show False using assms t p by (auto simp: entity_data_frame_def)
  qed
  then show ?thesis
    unfolding play_branch_def
  proof (rule keeps_delivers[rotated])
    fix p assume p: "typed \<longrightarrow> (\<forall>i air n. p \<noteq> Play_EntityData i air n)"
    have "delivers (\<lambda>a. adapt_chunk_packet p = Inr a) (adapter_call (adapt_chunk_packet p))"
      by (rule deliversI) (auto simp: adapter_call_def map_err_def lift_result_def split: sum.splits)
    then show "keeps (arms_idle typed) (and_then (adapter_call (adapt_chunk_packet p)) (\<lambda>a.
        and_then (apply_adaptation a) (\<lambda>left. case left of None \<Rightarrow> ok Session_Running
          | Some packet' \<Rightarrow> and_then (apply_world_packet packet') (\<lambda>_. handle_packet packet'))))"
      by (rule keeps_delivers[OF adapter_call_keeps]) (rule adaptation_idle, assumption, use p in blast)
  qed (simp add: decode_play_frame_def keeps_intros)
qed

text \<open>With an entity profile an entity data frame is consumed, or refused, by the entity branch.\<close>

lemma entity_data_event:
  assumes "entity_data_frame frame" and "decode_entity_packet env p items frame = Inr event"
  shows "\<exists>i vs. event = Some (Ew_Metadata i vs)"
proof -
  obtain q where q: "split_raw_packet frame = Inr q" "packet_id q = PLAY_SET_ENTITY_DATA_ID"
    using assms(1) by (auto simp: entity_data_frame_def)
  have "delivers (\<lambda>e. \<exists>i vs. e = Ew_Metadata i vs) (decode_entity_metadata env p items)"
    unfolding decode_entity_metadata_def by (auto intro!: delivers_any delivers_ok)
  moreover have "fst (and_then (decode_entity_metadata env p items) (\<lambda>event. and_then entity_require_consumed (\<lambda>_. ok (Some event)))
      (new_reader (payload q))) = Inr event"
    using assms(2) q
    by (simp add: decode_entity_packet_def entity_decoder_def PLAY_SET_ENTITY_DATA_ID_def ADD_ENTITY_def REMOVE_ENTITIES_def MOVE_POS_def MOVE_POS_ROT_def MOVE_ROT_def HEAD_ROT_def ENTITY_DATA_def)
  then obtain e r where "decode_entity_metadata env p items (new_reader (payload q)) = (Inr e, r)" "event = Some e"
    by (cases "decode_entity_metadata env p items (new_reader (payload q))")
      (auto simp: and_then_def ok_def split: sum.splits prod.splits)
  ultimately show ?thesis by (auto dest: deliversD)
qed

lemma entity_data_consumed:
  fixes s :: "'e play_session"
  assumes "entity_data_frame frame" and "ps_entity_types s = Some p"
  shows "fst (entity_branch pe at_ms frame s) \<noteq> Inr False"
proof -
  have "delivers (\<lambda>b. b) (session_entity_frame env sz t me p items frame at_ms :: ('e, bool) entity_store_step)" for env sz t me items
    using entity_data_event[OF assms(1), of env p items]
    by (cases "decode_entity_packet env p items frame")
      (auto simp: session_entity_frame_def fail_def delivers_def and_then_Inr_iff ok_apply)
  then show ?thesis
    by (auto simp: entity_branch_def assms(2) on_entities_def on_part_def delivers_def split: prod.split) blast
qed

lemma session_frame_idle: "keeps (arms_idle typed) (session_frame pe at_ms frame)"
proof (cases "typed \<and> entity_data_frame frame")
  case True
  show ?thesis
  proof (rule keepsI)
    fix s :: "'a play_session" assume s: "arms_idle typed s"
    then obtain p where p: "ps_entity_types s = Some p" using True by (auto simp: arms_idle_def)
    obtain r s' where run: "entity_branch pe at_ms frame s = (r, s')" by fastforce
    have "r \<noteq> Inr False" using entity_data_consumed[of frame s p pe at_ms] True p run by simp
    moreover have "arms_idle typed s'" by (rule keeps_run[OF branches_idle(2) s run])
    ultimately show "arms_idle typed (snd (session_frame pe at_ms frame s))"
      by (cases r) (auto simp: session_frame_def and_then_def run ok_def)
  qed
next
  case False
  then have "keeps (arms_idle typed) (play_branch pe frame)" by (intro play_branch_idle) blast
  then show ?thesis unfolding session_frame_def by (intro keeps_and_then keeps_if keeps_ok branches_idle)
qed

interpretation idle: session_invariant "arms_idle typed" pe
  by unfold_locales (auto simp: session_frame_idle arms_idle_def safety_default_def)

lemma session_new_idle: "arms_idle (types \<noteq> None) (session_new outcome items types security capacity)"
  by (simp add: arms_idle_def session_new_def initial_respawn_default_def safety_default_def)


end
