(* ===== verification/Session_Replies.thy ===== *)
theory Session_Replies
  imports Session_Invariant Receive_Props "HOL-Library.Sublist"
begin

text \<open>
  The packets a server expects an answer to: whatever the state of a running session, a keep-alive and a ping are
  answered with their own id, and nothing takes back what was written.
\<close>

section \<open>What was written stays written\<close>

definition has_written :: "u8 list list \<Rightarrow> 'e play_session \<Rightarrow> bool" where
  "has_written ws s \<longleftrightarrow> prefix ws (ps_written s)"

lemma has_written_parts [simp]:
  "has_written ws (s\<lparr>ps_world := w\<rparr>) = has_written ws s"
  "has_written ws (s\<lparr>ps_inventory := i\<rparr>) = has_written ws s"
  "has_written ws (s\<lparr>ps_security := c\<rparr>) = has_written ws s"
  "has_written ws (s\<lparr>ps_queue := q\<rparr>) = has_written ws s"
  "has_written ws (s\<lparr>ps_salt_counter := n\<rparr>) = has_written ws s"
  "has_written ws (s\<lparr>ps_player_loaded := b\<rparr>) = has_written ws s"
  "has_written ws (s\<lparr>ps_safety := t\<rparr>) = has_written ws s"
  "has_written ws (s\<lparr>ps_respawn := r\<rparr>) = has_written ws s"
  "has_written ws (s\<lparr>ps_items := p\<rparr>) = has_written ws s"
  "has_written ws (s\<lparr>ps_entity_types := ts\<rparr>) = has_written ws s"
  by (simp_all add: has_written_def)

lemma has_written_more: "has_written ws s \<Longrightarrow> has_written ws (s\<lparr>ps_written := ps_written s @ [frame]\<rparr>)"
  by (simp add: has_written_def)

lemma part_written: "(\<And>t s. has_written ws (put t s) = has_written ws s) \<Longrightarrow> keeps (has_written ws) (on_part get put m)"
  by (rule keepsI) (simp add: on_part_def split: prod.split)

lemma parts_written [keeps_intros]:
  "keeps (has_written ws) (on_world m)" "keeps (has_written ws) (on_inventory i)" "keeps (has_written ws) (on_entities e)"
  unfolding on_world_def on_inventory_def on_entities_def by (rule part_written, simp)+

lemma branches_written [keeps_intros]:
  "keeps (has_written ws) (inventory_branch pe frame)" "keeps (has_written ws) (entity_branch pe at_ms frame)"
  by (rule keepsI, simp add: inventory_branch_def entity_branch_def keepsD[OF parts_written(2)] keepsD[OF parts_written(3)]
    split: option.split)+

lemma events_written: "keeps (has_written ws) (send_event e)" "keeps (has_written ws) (raise_critical e)"
  by (rule keepsI, simp add: send_event_def raise_critical_def split_beta)+

interpretation written: session_parts "has_written ws"
  by unfold_locales (simp_all add: apply_world_def parts_written branches_written events_written has_written_more)

lemma handle_packet_written [keeps_intros]: "keeps (has_written ws) (handle_packet packet)"
proof (cases "\<exists>c. packet = Play_LevelChunkWithLight c \<or> (\<exists>i air n. packet = Play_EntityData i air n)")
  case True
  have "keeps (has_written ws) (receive_air i air)" for i air
    by (rule keepsI) (auto simp: receive_air_def Let_def split: option.split prod.split intro!: keepsD[OF events_written(2)])
  moreover have "keeps (has_written ws) (\<lambda>s. (Inr (), s\<lparr>ps_respawn := observe_chunk (ps_respawn s)\<rparr>))"
    by (rule keepsI) simp
  ultimately show ?thesis using True by (auto simp: handle_packet_def intro!: keeps_intros)
qed (auto intro!: written.handle_packet_keeps)

lemma session_frame_written: "keeps (has_written ws) (session_frame pe at_ms frame)"
  unfolding session_frame_def play_branch_def decode_play_frame_def
  by (intro keeps_intros written.apply_adaptation_keeps written.apply_world_packet_keeps)

interpretation written: session_invariant "has_written ws" pe
  by unfold_locales (simp_all add: session_frame_written)

section \<open>Answers\<close>

lemma other_branches_pass:
  assumes "split_raw_packet frame = Inr q" and "packet_id q \<in> {PLAY_KEEP_ALIVE_ID, PLAY_PING_ID}"
  shows "entity_branch pe at_ms frame s = (Inr False, s)" and "inventory_branch pe frame s = (Inr False, s)"
proof -
  have "entity_decoder env p items (packet_id q) = None" for env p items
    using assms(2) by (auto simp: entity_decoder_def PLAY_KEEP_ALIVE_ID_def PLAY_PING_ID_def ADD_ENTITY_def
      REMOVE_ENTITIES_def MOVE_POS_def MOVE_POS_ROT_def MOVE_ROT_def HEAD_ROT_def ENTITY_DATA_def MOTION_def
      POSITION_SYNC_def TELEPORT_def UPDATE_ATTRIBUTES_def)
  then show "entity_branch pe at_ms frame s = (Inr False, s)"
    by (simp add: entity_branch_def on_entities_def on_part_def session_entity_frame_def decode_entity_packet_def assms(1)
      ok_def split: option.split)
  show "inventory_branch pe frame s = (Inr False, s)"
    using assms(2)
    by (auto simp: inventory_branch_def on_inventory_def on_part_def session_inventory_frame_def decode_inventory_clientbound_def
      assms(1) ok_def map_err_def CONTAINER_CLOSE_ID_def CONTAINER_SET_CONTENT_ID_def CONTAINER_SET_DATA_ID_def
      CONTAINER_SET_SLOT_ID_def OPEN_SCREEN_ID_def SET_HELD_SLOT_ID_def PLAY_KEEP_ALIVE_ID_def PLAY_PING_ID_def split: option.split)
qed

lemma decode_keep_alive: "decode_play_clientbound env (enc_var PLAY_KEEP_ALIVE_ID @ to_be_bytes i) = Inr (Play_KeepAlive i)"
  and decode_ping: "decode_play_clientbound env (enc_var PLAY_PING_ID @ to_be_bytes j) = Inr (Play_Ping j)"
proof -
  have "length (enc_var PLAY_KEEP_ALIVE_ID @ to_be_bytes i) \<le> usize_MAX" "length (enc_var PLAY_PING_ID @ to_be_bytes j) \<le> usize_MAX"
    using length_enc_var_int[of PLAY_KEEP_ALIVE_ID] length_enc_var_int[of PLAY_PING_ID]
    by (simp_all add: length_to_be_bytes usize_MAX_def)
  note split = split_raw_packet_enc[OF this(1)] split_raw_packet_enc[OF this(2)]
  have "read_i64 (new_reader (to_be_bytes i)) = (Inr i, reader_at (to_be_bytes i) [])"
    "read_i32 (new_reader (to_be_bytes j)) = (Inr j, reader_at (to_be_bytes j) [])"
    using decodesD[OF decodes_fixed_width(7), of "[]" i "[]"] decodesD[OF decodes_fixed_width(5), of "[]" j "[]"]
    by (simp_all add: new_reader_eq length_to_be_bytes usize_MAX_def)
  with split show "decode_play_clientbound env (enc_var PLAY_KEEP_ALIVE_ID @ to_be_bytes i) = Inr (Play_KeepAlive i)"
    "decode_play_clientbound env (enc_var PLAY_PING_ID @ to_be_bytes j) = Inr (Play_Ping j)"
    by (simp_all add: decode_play_clientbound_def decode_packet_def play_decoder_def play_ids whole_def boot_def map_err_def
      boot_require_consumed_def and_then_def ok_def)
qed

lemma encode_answers:
  "encode_play_keep_alive i = Inr (enc_frame (packet_body PLAY_KEEP_ALIVE_RESPONSE_ID [to_be_bytes i]))"
  "encode_play_pong j = Inr (enc_frame (packet_body PLAY_PONG_ID [to_be_bytes j]))"
proof -
  have a: "list_all2 appends [emit (write_i64 i)] [to_be_bytes i]" "list_all2 appends [emit (write_i32 j)] [to_be_bytes j]"
    by (simp_all add: appends_emit_fixed_width)
  have l: "length (packet_body PLAY_KEEP_ALIVE_RESPONSE_ID [to_be_bytes i]) \<le> MINECRAFT_MAX_FRAME_SIZE"
    "length (packet_body PLAY_PONG_ID [to_be_bytes j]) \<le> MINECRAFT_MAX_FRAME_SIZE"
    using length_enc_var_int[of PLAY_KEEP_ALIVE_RESPONSE_ID] length_enc_var_int[of PLAY_PONG_ID]
    by (simp_all add: packet_body_def length_to_be_bytes MINECRAFT_MAX_FRAME_SIZE_def)
  show "encode_play_keep_alive i = Inr (enc_frame (packet_body PLAY_KEEP_ALIVE_RESPONSE_ID [to_be_bytes i]))"
    unfolding encode_play_keep_alive_def by (rule boot_packet_framed[OF a(1) l(1)])
  show "encode_play_pong j = Inr (enc_frame (packet_body PLAY_PONG_ID [to_be_bytes j]))"
    unfolding encode_play_pong_def by (rule boot_packet_framed[OF a(2) l(2)])
qed

datatype demand = Demand_KeepAlive i64 | Demand_Ping i32

fun demand_frame :: "demand \<Rightarrow> u8 list" where
  "demand_frame (Demand_KeepAlive i) = enc_var PLAY_KEEP_ALIVE_ID @ to_be_bytes i"
| "demand_frame (Demand_Ping j) = enc_var PLAY_PING_ID @ to_be_bytes j"

fun answer_frame :: "demand \<Rightarrow> u8 list" where
  "answer_frame (Demand_KeepAlive i) = enc_frame (enc_var PLAY_KEEP_ALIVE_RESPONSE_ID @ to_be_bytes i)"
| "answer_frame (Demand_Ping j) = enc_frame (enc_var PLAY_PONG_ID @ to_be_bytes j)"

lemma demand_split: "\<exists>q. split_raw_packet (demand_frame d) = Inr q \<and> packet_id q \<in> {PLAY_KEEP_ALIVE_ID, PLAY_PING_ID}"
  using length_enc_var_int[of PLAY_KEEP_ALIVE_ID] length_enc_var_int[of PLAY_PING_ID]
  by (cases d) (auto simp: split_raw_packet_enc length_to_be_bytes usize_MAX_def)

lemma demand_answered:
  "session_frame pe at_ms (demand_frame d) s = (Inr Session_Running, s\<lparr>ps_written := ps_written s @ [answer_frame d]\<rparr>)"
proof -
  obtain q where q: "split_raw_packet (demand_frame d) = Inr q" "packet_id q \<in> {PLAY_KEEP_ALIVE_ID, PLAY_PING_ID}"
    using demand_split by blast
  have "play_branch pe (demand_frame d) s = (Inr Session_Running, s\<lparr>ps_written := ps_written s @ [answer_frame d]\<rparr>)"
    using q(1)
    by (cases d) (simp_all add: play_branch_def decode_play_frame_def classify_play_decode_work_def decode_keep_alive decode_ping
      map_err_def lift_result_def and_then_def adapter_call_def adapt_chunk_packet_def apply_adaptation_def
      apply_world_packet_def play_world_event_def handle_packet_def running_def write_frame_def encode_answers packet_body_def ok_def)
  then show ?thesis
    using other_branches_pass(1)[OF q, of pe at_ms s] other_branches_pass(2)[OF q, of pe s]
    by (simp add: session_frame_def and_then_def)
qed

lemma session_loop_append:
  "session_loop pe status (is @ js) = and_then (session_loop pe status is) (\<lambda>status'. session_loop pe status' js)"
proof (induction "is" arbitrary: status)
  case Nil
  show ?case by (simp add: and_then_ok)
next
  case (Cons i "is")
  show ?case by (rule ext) (simp add: Cons.IH and_then_def split: prod.split sum.split)
qed

text \<open>C29: Whatever happened in a session before and whatever happens afterwards, a keep-alive or ping that arrives while
  it runs is answered with the same id, and the answer stays among the frames written.\<close>

theorem demands_are_answered:
  assumes "session_loop pe Session_Running before s = (Inr Session_Running, t)"
  shows "prefix (ps_written t @ [answer_frame d])
    (ps_written (snd (session_loop pe Session_Running (before @ In_Frame at_ms (demand_frame d) # after) s)))"
proof -
  let ?u = "t\<lparr>ps_written := ps_written t @ [answer_frame d]\<rparr>"
  have "session_loop pe Session_Running (before @ In_Frame at_ms (demand_frame d) # after) s =
      session_loop pe Session_Running after ?u"
    using assms by (simp add: session_loop_append and_then_def session_step_def demand_answered)
  moreover have "has_written (ps_written ?u) ?u" by (simp add: has_written_def)
  ultimately show ?thesis
    using keepsD[OF written.session_loop_keeps, of "ps_written ?u" ?u pe Session_Running after] by (simp add: has_written_def)
qed

definition first_outcome :: configuration_outcome where
  "first_outcome =
     \<lparr>co_data = configuration_data_empty,
      co_initial_login =
        \<lparr>il_player_entity_id = 1, il_hardcore = False, il_known_dimensions = [str ''minecraft:overworld''], il_max_players = 20,
         il_view_distance = 8, il_simulation_distance = 8, il_reduced_debug_info = False, il_show_death_screen = True,
         il_limited_crafting = False,
         il_spawn = \<lparr>wsi_dimension_type_raw_id = 0, wsi_dimension = str ''minecraft:overworld'', wsi_hashed_seed = 0,
           wsi_game_mode = 0, wsi_previous_game_mode = 255, wsi_debug_world = False, wsi_flat_world = True,
           wsi_last_death_location = None, wsi_portal_cooldown_ticks = 0, wsi_sea_level = 63\<rparr>,
         il_secure_chat_enforced = False\<rparr>\<rparr>"

lemma demands_are_answered_witness:
  "prefix [answer_frame (Demand_Ping 7)]
    (ps_written (snd (session_loop \<lparr>pe_nbt = roomy_env, pe_sizes = \<lparr>size_of_metadata_value = 64, size_of_metadata_particle = 64\<rparr>,
       pe_trig = \<lparr>sin_of = (\<lambda>_. 0), cos_of = (\<lambda>_. 0)\<rparr>\<rparr> Session_Running
       ([In_TakeEvent] @ In_Frame 0 (demand_frame (Demand_Ping 7)) # [In_Disconnect])
       (session_new first_outcome None None UnsignedDevelopment 1 :: unit play_session))))"
proof -
  let ?pe = "\<lparr>pe_nbt = roomy_env, pe_sizes = \<lparr>size_of_metadata_value = 64, size_of_metadata_particle = 64\<rparr>,
       pe_trig = \<lparr>sin_of = (\<lambda>_. 0), cos_of = (\<lambda>_. 0)\<rparr>\<rparr>"
  let ?s = "session_new first_outcome None None UnsignedDevelopment 1 :: unit play_session"
  have "session_loop ?pe Session_Running [In_TakeEvent] ?s = (Inr Session_Running, ?s)"
    by (simp add: session_step_def session_new_def event_queue_bounded_def try_next_event_def and_then_def ok_def)
  moreover have "ps_written ?s = []" by (simp add: session_new_def)
  ultimately show ?thesis
    using demands_are_answered[of ?pe "[In_TakeEvent]" ?s ?s "Demand_Ping 7" 0 "[In_Disconnect]"] by (simp only: append_Nil)
qed

end
