(* ===== verification/Login_Props.thy ===== *)
theory Login_Props
  imports Login Section_Updates Bootstrap_Send_Props
begin

text \<open>
  A server that keeps to the protocol brings the login to the play phase, however its bytes are split into reads:
  \<open>goes env m fs a v b\<close> says that the step \<open>m\<close> consumes the frames \<open>fs\<close>, returns \<open>v\<close> and leads from the state \<open>a\<close> of the
  connection to \<open>b\<close>.
\<close>

section \<open>Conversations over a plain connection\<close>

definition login_limits :: frame_limits where
  "login_limits = \<lparr>max_frame_size = MAX_BOOTSTRAP_FRAME_SIZE, max_buffered_bytes = MAX_CONFIGURATION_BUFFERED_BYTES\<rparr>"

definition plain_ready ::
  "('io, 'enc, 'dec) login_env \<Rightarrow> u8 list list \<Rightarrow> ('io, 'enc, 'dec) conversation \<Rightarrow> bool" where
  "plain_ready env fs s \<longleftrightarrow>
     receiving login_limits (cv_connection s) \<and> compression_threshold (transforms (cv_connection s)) = None \<and>
     encryptor (transforms (cv_connection s)) = None \<and>
     (\<forall>f \<in> set fs. length f \<le> MAX_BOOTSTRAP_FRAME_SIZE) \<and>
     (\<exists>chunks. cv_reads s = map Inr chunks \<and> (\<forall>bs \<in> set chunks. bs \<noteq> [] \<and> length bs \<le> READ_BUFFER_SIZE) \<and>
       arriving (le_crates env) (cv_connection s) chunks = concat (map enc_frame fs))"

definition goes ::
  "('io, 'enc, 'dec) login_env \<Rightarrow> ('io, 'enc, 'dec, 'a) login_op \<Rightarrow> u8 list list \<Rightarrow> connection_state \<Rightarrow> 'a \<Rightarrow>
   connection_state \<Rightarrow> bool" where
  "goes env m fs a v b \<longleftrightarrow> (\<forall>s rest. plain_ready env (fs @ rest) s \<longrightarrow> cv_state s = a \<longrightarrow>
     (\<exists>t. m s = (Inr v, t) \<and> plain_ready env rest t \<and> cv_state t = b))"

lemma goesI:
  "(\<And>s rest. plain_ready env (fs @ rest) s \<Longrightarrow> cv_state s = a \<Longrightarrow>
     \<exists>t. m s = (Inr v, t) \<and> plain_ready env rest t \<and> cv_state t = b) \<Longrightarrow> goes env m fs a v b"
  by (simp add: goes_def)

lemma goesE:
  assumes "goes env m fs a v b" and "plain_ready env (fs @ rest) s" and "cv_state s = a"
  obtains t where "m s = (Inr v, t)" and "plain_ready env rest t" and "cv_state t = b"
  using assms by (auto simp: goes_def)

lemma goes_ok: "goes env (ok v) [] a v a"
  by (rule goesI) (simp add: ok_def)

lemma goes_and_then:
  assumes "goes env m fs a v b" and "goes env (k v) gs b w c"
  shows "goes env (and_then m k) (fs @ gs) a w c"
proof (rule goesI)
  fix s rest assume s: "plain_ready env ((fs @ gs) @ rest) s" "cv_state s = a"
  then obtain t where t: "m s = (Inr v, t)" "plain_ready env (gs @ rest) t" "cv_state t = b"
    using goesE[OF assms(1), of "gs @ rest" s] by auto
  from goesE[OF assms(2) t(2,3)] obtain u where "k v t = (Inr w, u)" "plain_ready env rest u" "cv_state u = c" .
  with t(1) show "\<exists>u. and_then m k s = (Inr w, u) \<and> plain_ready env rest u \<and> cv_state u = c"
    by (simp add: and_then_def)
qed

lemma goes_step: "goes env m [] a v b \<Longrightarrow> goes env (k v) gs b w c \<Longrightarrow> goes env (and_then m k) gs a w c"
  using goes_and_then[of env m "[]" a v b k gs w c] by simp

lemma goes_lift: "r = Inr v \<Longrightarrow> goes env (lift_result r) [] a v a"
  by (rule goesI) (simp add: lift_result_def)

lemma goes_transition: "goes env (transition a b) [] a () b"
  by (rule goesI) (auto simp: transition_def plain_ready_def)

section \<open>Reading and writing\<close>

lemma decrypt_in_place_encryptor: "encryptor (snd (decrypt_in_place env bs t)) = encryptor t"
  by (simp add: decrypt_in_place_def split: option.split prod.split)

lemma read_next_frame_encryptor:
  "read_next_frame env alloc phase reads c = Some (r, reads', c') \<Longrightarrow> encryptor (transforms c') = encryptor (transforms c)"
proof (induction reads arbitrary: c)
  case Nil
  obtain res d where n: "next_frame alloc (decoder c) = (res, d)" by fastforce
  from Nil show ?case
    by (cases res) (auto simp: read_next_frame.simps[of env alloc phase "[]"] n split: option.splits)
next
  case (Cons x xs)
  obtain res d where n: "next_frame alloc (decoder c) = (res, d)" by fastforce
  note eq = Cons.prems[unfolded read_next_frame.simps[of env alloc phase "x # xs"] n]
  show ?case
  proof (cases "res = Inr None")
    case None: True
    show ?thesis
    proof (cases x)
      case (Inr bytes)
      obtain plain t where dec: "decrypt_in_place env bytes (transforms c) = (plain, t)" by fastforce
      obtain pushed d' where p: "push alloc plain d = (pushed, d')" by fastforce
      have t: "encryptor t = encryptor (transforms c)"
        using decrypt_in_place_encryptor[of env bytes "transforms c"] dec by simp
      show ?thesis
      proof (cases "bytes = [] \<or> READ_BUFFER_SIZE < length bytes \<or> (\<exists>e. pushed = Inl e)")
        case True
        then show ?thesis using eq t by (auto simp: None Inr dec p Let_def split: if_splits)
      next
        case False
        then have "read_next_frame env alloc phase xs (c\<lparr>decoder := d, decoder := d', transforms := t\<rparr>) = Some (r, reads', c')"
          using eq by (cases pushed) (auto simp: None Inr dec p Let_def)
        from Cons.IH[OF this] show ?thesis using t by simp
      qed
    qed (use eq None in auto)
  next
    case False
    with eq show ?thesis by (cases res) (auto split: option.splits)
  qed
qed

lemma goes_read:
  assumes "crates_behave (le_crates env) linked" and "le_reserve env = (\<lambda>_. True)"
  shows "goes env (read_frame env phase) [f] a f a"
proof (rule goesI)
  fix s rest assume s: "plain_ready env ([f] @ rest) s" "cv_state s = a"
  let ?c = "cv_connection s"
  from s obtain chunks where reads: "cv_reads s = map Inr chunks" "\<forall>bs \<in> set chunks. bs \<noteq> [] \<and> length bs \<le> READ_BUFFER_SIZE"
    "arriving (le_crates env) ?c chunks = enc_frame f @ concat (map enc_frame rest)"
    and c: "receiving login_limits ?c" "compression_threshold (transforms ?c) = None" "encryptor (transforms ?c) = None"
    "length f \<le> max_frame_size login_limits" and fs: "\<forall>f \<in> set rest. length f \<le> MAX_BOOTSTRAP_FRAME_SIZE"
    by (auto simp: plain_ready_def login_limits_def)
  from read_next_frame_arriving[OF assms(1) c(1) reads(2,3) c(4), of phase] c(2) obtain chunks' c' where
    run: "read_next_frame (le_crates env) (\<lambda>_. True) phase (map Inr chunks) ?c = Some (Inr f, map Inr chunks', c')"
    and c': "receiving login_limits c'" "set chunks' \<subseteq> set chunks" "arriving (le_crates env) c' chunks' = concat (map enc_frame rest)"
      "compression_threshold (transforms c') = None"
    by (auto simp: decode_frame_body_def)
  have "encryptor (transforms c') = None" using read_next_frame_encryptor[OF run] c(3) by simp
  then have "plain_ready env rest (s\<lparr>cv_reads := map Inr chunks', cv_connection := c'\<rparr>)"
    using c' fs reads(2) by (auto simp: plain_ready_def intro!: exI[of _ chunks'])
  then show "\<exists>t. read_frame env phase s = (Inr f, t) \<and> plain_ready env rest t \<and> cv_state t = a"
    using run s(2) by (simp add: read_frame_def assms(2) reads(1))
qed

text \<open>What the encoders produce is a frame, and a frame is always sent.\<close>

definition framed_bytes :: "u8 list \<Rightarrow> bool" where
  "framed_bytes b \<longleftrightarrow> (\<exists>body. b = enc_frame body \<and> length body \<le> MAX_BOOTSTRAP_FRAME_SIZE)"

lemma framed_packet: "boot_packet pid ms = Inr b \<Longrightarrow> framed_bytes b"
  by (auto simp: boot_packet_def boot_frame_def frame_of_writer_def framed_bytes_def encode_frame_iff
      split: sum.splits prod.splits)

lemma login_limits_wf: "frame_limits_wf login_limits"
  by (simp add: frame_limits_wf_def login_limits_def MAX_BOOTSTRAP_FRAME_SIZE_def MAX_CONFIGURATION_BUFFERED_BYTES_def
    MINECRAFT_MAX_FRAME_SIZE_def MAX_FRAME_LENGTH_PREFIX_BYTES_def usize_MAX_def)

lemma goes_send_bytes:
  assumes "le_reserve env = (\<lambda>_. True)" and "framed_bytes b"
  shows "goes env (send_bytes env b) [] a () a"
proof (rule goesI)
  fix s rest assume s: "plain_ready env ([] @ rest) s" "cv_state s = a"
  let ?t = "transforms (cv_connection s)"
  obtain body where b: "b = enc_frame body" "length body \<le> max_frame_size login_limits"
    using assms(2) by (auto simp: framed_bytes_def login_limits_def)
  have "transform_limits ?t = login_limits" "compression_threshold ?t = None" "encryptor ?t = None"
    using s(1) by (auto simp: plain_ready_def receiving_def)
  then have "encode_outbound (le_crates env) (\<lambda>_. True) b ?t = (Inr b, ?t)"
    by (simp add: encode_outbound_def b(1) extract_single_frame_ok[OF login_limits_wf b(2)])
  then have "send_bytes env b s = (Inr (), s\<lparr>cv_sent := cv_sent s @ b\<rparr>)"
    by (simp add: send_bytes_def write_all_def assms(1))
  then show "\<exists>t. send_bytes env b s = (Inr (), t) \<and> plain_ready env rest t \<and> cv_state t = a"
    using s by (simp add: plain_ready_def)
qed

lemma goes_send:
  assumes "le_reserve env = (\<lambda>_. True)" and "r = Inr b" and "r = boot_packet pid ms"
  shows "goes env (send_packet env r) [] a () a"
  using goes_send_bytes[OF assms(1) framed_packet, of pid ms b] assms(2,3) by (simp add: send_packet_def)


section \<open>Encoders that cannot fail\<close>

lemma boot_packet_small:
  assumes "list_all2 appends ms bss" and "length (concat bss) \<le> 65536"
  obtains b where "boot_packet pid ms = Inr b"
proof -
  have "length (packet_body pid bss) \<le> MINECRAFT_MAX_FRAME_SIZE"
    using assms(2) length_enc_var_int[of pid] by (simp add: packet_body_def MINECRAFT_MAX_FRAME_SIZE_def)
  from boot_packet_framed[OF assms(1) this] show ?thesis by (rule that)
qed

lemma cookie_response:
  assumes "valid_string IDENTIFIER_LIMITS key"
  obtains b where "boot_packet pid [write_string IDENTIFIER_LIMITS key, emit (write_bool False)] = Inr b"
proof (rule boot_packet_small)
  show "list_all2 appends [write_string IDENTIFIER_LIMITS key, emit (write_bool False)] [enc_string key, [0]]"
    using appends_write_string[OF assms] appends_emit_fixed_width(10)[of False] by simp
  have "length (enc_string key) \<le> 5 + str_len key" using length_enc_length[of "str_len key"] by (simp add: enc_string_def str_len_def)
  then show "length (concat [enc_string key, [0]]) \<le> 65536"
    using assms max_encoded_bytes_le[of IDENTIFIER_LIMITS]
    by (simp add: valid_string_def IDENTIFIER_LIMITS_def string_limits_new_def)
qed

lemma empty_packet:
  obtains b where "boot_packet pid [] = Inr b"
  by (rule boot_packet_small[of "[]" "[]" pid]) auto

lemma goes_boot:
  assumes "le_reserve env = (\<lambda>_. True)" and "list_all2 appends ms bss" and "length (concat bss) \<le> 65536"
  shows "goes env (send_packet env (boot_packet pid ms)) [] a () a"
proof -
  obtain b where "boot_packet pid ms = Inr b" by (rule boot_packet_small[OF assms(2,3)])
  then show ?thesis using goes_send[OF assms(1)] by blast
qed

lemma goes_cookie:
  assumes "le_reserve env = (\<lambda>_. True)" and "valid_string IDENTIFIER_LIMITS key"
  shows "goes env (send_packet env (encode_empty_cookie_response pid key)) [] a () a"
proof -
  obtain b where "encode_empty_cookie_response pid key = Inr b"
    by (rule cookie_response[OF assms(2), of pid]) (simp add: encode_empty_cookie_response_def)
  then show ?thesis using goes_send[OF assms(1)] by (simp add: encode_empty_cookie_response_def)
qed

lemma goes_fixed:
  assumes "le_reserve env = (\<lambda>_. True)"
  shows "goes env (send_packet env (boot_packet pid [])) [] a () a"
    and "goes env (send_packet env (boot_packet pid [emit (write_i64 i)])) [] a () a"
    and "goes env (send_packet env (boot_packet pid [emit (write_i32 j)])) [] a () a"
    and "goes env (send_packet env (boot_packet pid [emit (write_f32 x)])) [] a () a"
    and "goes env (send_packet env (boot_packet pid [emit (write_var_int n)])) [] a () a"
    and "goes env (send_packet env (boot_packet pid [emit (write_var_int n), emit (write_bool c)])) [] a () a"
proof -
  note boot = goes_boot[OF assms]
  show "goes env (send_packet env (boot_packet pid [])) [] a () a" by (rule boot[of _ "[]"]) simp_all
  show "goes env (send_packet env (boot_packet pid [emit (write_i64 i)])) [] a () a"
    by (rule boot[of _ "[to_be_bytes i]"]) (simp_all add: appends_emit_fixed_width length_to_be_bytes)
  show "goes env (send_packet env (boot_packet pid [emit (write_i32 j)])) [] a () a"
    by (rule boot[of _ "[to_be_bytes j]"]) (simp_all add: appends_emit_fixed_width length_to_be_bytes)
  show "goes env (send_packet env (boot_packet pid [emit (write_f32 x)])) [] a () a"
    by (rule boot[of _ "[to_be_bytes x]"]) (simp_all add: appends_emit_fixed_width length_to_be_bytes)
  have n: "appends (emit (write_var_int n)) (enc_var n)" "length (enc_var n) \<le> 5"
    by (simp_all add: appends_write_var length_enc_var_int)
  show "goes env (send_packet env (boot_packet pid [emit (write_var_int n)])) [] a () a"
    by (rule boot[of _ "[enc_var n]"]) (use n in simp_all)
  show "goes env (send_packet env (boot_packet pid [emit (write_var_int n), emit (write_bool c)])) [] a () a"
    by (rule boot[of _ "[enc_var n, [if c then 1 else 0]]"]) (use n in \<open>simp_all add: appends_emit_fixed_width(10)\<close>)
qed

lemma default_locale: "valid_string CLIENT_LOCALE_LIMITS (map of_char ''en_us'')"
  by (simp add: valid_string_def is_str_def CLIENT_LOCALE_LIMITS_def string_limits_new_def max_utf16_units_def
    max_encoded_bytes_def checked_mul_def i32_MAX_def usize_MAX_def str_len_def utf16_count_def
    is_scalar_value_def as_bytes_def utf8_char_def)

lemma goes_information:
  assumes "le_reserve env = (\<lambda>_. True)"
  shows "goes env (send_packet env (encode_client_information client_information_default)) [] a () a"
proof -
  have "length (enc_string (map of_char ''en_us'')) \<le> 5 + str_len (map of_char ''en_us'')"
    using length_enc_length[of "str_len (map of_char ''en_us'')"] by (simp only: enc_string_def str_len_def length_append)
  moreover have "str_len (map of_char ''en_us'') \<le> 48"
    using default_locale max_encoded_bytes_le[of CLIENT_LOCALE_LIMITS]
    by (simp add: valid_string_def CLIENT_LOCALE_LIMITS_def string_limits_new_def)
  ultimately show ?thesis
    unfolding encode_client_information_def write_client_information_fields_def client_information_default_def
    using appends_write_string[OF default_locale] length_enc_var_int[of 0] length_enc_var_int[of 1]
    by (intro goes_boot[OF assms, where bss = "[enc_string (map of_char ''en_us''), [8], enc_var (0 :: i32), [1], [0x7f], enc_var (1 :: i32), [0], [1], enc_var (0 :: i32)]"])
      (simp_all add: appends_emit_fixed_width appends_write_var appends_emit_write_u8 appends_emit_fixed_width(10)[of True, simplified]
        appends_emit_fixed_width(10)[of False, simplified])
qed


section \<open>The phases\<close>

text \<open>What a server may send in a phase before the packet that ends it.\<close>

definition login_small_talk :: "login_clientbound \<Rightarrow> bool" where
  "login_small_talk packet \<longleftrightarrow>
     (case packet of Login_PluginRequest _ _ _ \<Rightarrow> True | Login_CookieRequest key \<Rightarrow> valid_string IDENTIFIER_LIMITS key | _ \<Rightarrow> False)"

definition registry_accepted :: "rust_str \<Rightarrow> registry_entry list \<Rightarrow> bool" where
  "registry_accepted registry entries \<longleftrightarrow>
     (if registry = str ''minecraft:dimension_type'' then \<not> isl (adapt_dimension_types entries)
      else if registry = str ''minecraft:worldgen/biome'' then \<not> isl (adapt_biomes entries)
      else if registry = str ''minecraft:banner_pattern'' \<or> registry \<in> set (map str ENTITY_REGISTRIES)
      then \<forall>e \<in> set entries. \<not> isl (identifier_new (re_identifier e))
      else True)"

definition configuration_small_talk :: "configuration_clientbound \<Rightarrow> bool" where
  "configuration_small_talk packet \<longleftrightarrow>
     (case packet of
        Config_CookieRequest key \<Rightarrow> valid_string IDENTIFIER_LIMITS key
      | Config_CustomPayload _ _ \<Rightarrow> True
      | Config_Skipped _ _ \<Rightarrow> True
      | Config_KeepAlive _ \<Rightarrow> True
      | Config_Ping _ \<Rightarrow> True
      | Config_KnownPacks _ \<Rightarrow> True
      | Config_RegistryData registry entries \<Rightarrow> registry_accepted registry entries
      | _ \<Rightarrow> False)"

definition play_small_talk :: "play_clientbound \<Rightarrow> bool" where
  "play_small_talk packet \<longleftrightarrow>
     (case packet of
        Play_Login _ \<Rightarrow> False | Play_Disconnect _ \<Rightarrow> False | Play_StartConfiguration \<Rightarrow> False
      | Play_ResourcePackPush \<Rightarrow> False | Play_Transfer \<Rightarrow> False
      | Play_CookieRequest key \<Rightarrow> valid_string IDENTIFIER_LIMITS key
      | _ \<Rightarrow> True)"

lemma goes_login_packet:
  assumes "le_reserve env = (\<lambda>_. True)" and "login_small_talk packet"
  shows "goes env (login_packet env username packet) [] a None a"
  using assms(2)
  by (cases packet)
    (auto simp: login_small_talk_def login_packet_def encode_login_plugin_response_def encode_login_cookie_response_def
      intro!: goes_step[OF _ goes_ok] goes_fixed(6)[OF assms(1)] goes_cookie[OF assms(1)])

lemma goes_login_success:
  assumes "le_reserve env = (\<lambda>_. True)" and "lsu_username su = username" and "as_u128 (lsu_uuid su) \<noteq> 0"
  shows "goes env (login_packet env username (Login_Success su)) [] State_Login (Some (lsu_uuid su)) State_Configuration"
  using assms(2,3)
  by (auto simp: login_packet_def accept_login_success_def encode_login_acknowledged_def packet_without_payload_def
    intro!: goes_step[OF _ goes_ok] goes_step[OF goes_fixed(1)[OF assms(1)]] goes_step[OF goes_transition]
      goes_information[OF assms(1)])

lemma goes_frame:
  assumes env: "crates_behave (le_crates env) linked" "le_reserve env = (\<lambda>_. True)"
    and "decode (le_nbt env) f = Inr p" and "goes env (k p) fs a v b"
  shows "goes env (and_then (read_frame env phase) (\<lambda>frame. and_then (decode_with decode env frame) k)) (f # fs) a v b"
proof -
  have "goes env (decode_with decode env f) [] a p a"
    by (rule goesI) (simp add: decode_with_def map_err_def lift_result_def assms(3))
  then have "goes env (and_then (decode_with decode env f) k) fs a v b" using assms(4) by (rule goes_step)
  then have "goes env (and_then (read_frame env phase) (\<lambda>frame. and_then (decode_with decode env frame) k)) ([f] @ fs) a v b"
    by (rule goes_and_then[OF goes_read[OF env]])
  then show ?thesis by simp
qed

lemmas goes_login_frame = goes_frame[where decode = decode_login_clientbound]
lemmas goes_configuration_frame = goes_frame[where decode = decode_configuration_clientbound]
lemmas goes_play_frame = goes_frame[where decode = decode_play_clientbound]

lemma goes_login_loop:
  assumes env: "crates_behave (le_crates env) linked" "le_reserve env = (\<lambda>_. True)"
    and last: "decode_login_clientbound (le_nbt env) f = Inr (Login_Success su)" "lsu_username su = username" "as_u128 (lsu_uuid su) \<noteq> 0"
  shows "\<forall>g \<in> set fs. \<exists>p. decode_login_clientbound (le_nbt env) g = Inr p \<and> login_small_talk p \<Longrightarrow> length fs < n \<Longrightarrow>
    goes env (login_loop n env username) (fs @ [f]) State_Login (lsu_uuid su) State_Configuration"
proof (induction fs arbitrary: n)
  case Nil
  then obtain m where "n = Suc m" by (cases n) auto
  then show ?case
    by (auto intro!: goes_login_frame[OF env last(1)] goes_step[OF goes_login_success[OF env(2) last(2,3)]] goes_ok)
next
  case (Cons g gs)
  then obtain m where n: "n = Suc m" by (cases n) auto
  from Cons.prems(1) obtain p where p: "decode_login_clientbound (le_nbt env) g = Inr p" "login_small_talk p" by auto
  have "goes env (login_loop m env username) (gs @ [f]) State_Login (lsu_uuid su) State_Configuration"
    using Cons.IH[of m] Cons.prems n by simp
  then show ?case
    by (auto simp: n intro!: goes_login_frame[OF env p(1)] goes_step[OF goes_login_packet[OF env(2) p(2)]])
qed

lemma registry_identifiers_ok:
  "\<forall>e \<in> set entries. \<not> isl (identifier_new (re_identifier e)) \<Longrightarrow> \<exists>ids. registry_identifiers err entries = Inr ids"
  unfolding registry_identifiers_def
  by (induction entries) (auto simp: and_also_def split: sum.splits)

lemma registry_received:
  assumes "registry_accepted registry entries"
  shows "\<exists>d'. (receive_registry registry entries d :: 'io login_error + configuration_data) = Inr d'"
proof (cases "registry = str ''minecraft:dimension_type'' \<or> registry = str ''minecraft:worldgen/biome''")
  case True
  then show ?thesis
    using assms
    by (cases "adapt_dimension_types entries"; cases "adapt_biomes entries")
      (auto simp: registry_accepted_def receive_registry_def adapted_def and_also_Inr split: if_splits)
next
  case False
  show ?thesis
  proof (cases "registry = str ''minecraft:banner_pattern'' \<or> registry \<in> set (map str ENTITY_REGISTRIES)")
    case True
    then have ids: "\<forall>e \<in> set entries. \<not> isl (identifier_new (re_identifier e))"
      using assms False by (simp only: registry_accepted_def if_False de_Morgan_disj if_True)
    obtain is1 where 1: "registry_identifiers (Le_BannerPatternIdentifier :: _ \<Rightarrow> 'io login_error) entries = Inr is1"
      using registry_identifiers_ok[OF ids] by blast
    obtain is2 where 2: "registry_identifiers (\<lambda>_. Le_EntityRegistryIdentifier :: 'io login_error) entries = Inr is2"
      using registry_identifiers_ok[OF ids, of "\<lambda>_. Le_EntityRegistryIdentifier"] by blast
    show ?thesis using False 1 2 by (simp only: receive_registry_def de_Morgan_disj if_False and_also_def) (simp split: if_split)
  next
    case other: False
    then show ?thesis using False by (simp only: receive_registry_def de_Morgan_disj if_False) simp
  qed
qed

lemma goes_configuration_packet:
  fixes env :: "('io, 'enc, 'dec) login_env"
  assumes "le_reserve env = (\<lambda>_. True)" and "configuration_small_talk packet"
  shows "\<exists>d'. goes env (configuration_packet env packet d) [] a (False, d') a"
proof (cases packet)
  case (Config_RegistryData registry entries)
  then obtain d' where "(receive_registry registry entries (skip_packet d) :: 'io login_error + _) = Inr d'"
    using registry_received assms(2) by (force simp: configuration_small_talk_def)
  then show ?thesis
    by (auto simp: configuration_packet_def Config_RegistryData intro!: exI[of _ d'] goes_step[OF goes_lift goes_ok])
qed (use assms in \<open>auto simp: configuration_small_talk_def configuration_packet_def Let_def encode_configuration_cookie_response_def
    encode_configuration_keep_alive_def encode_configuration_pong_def encode_known_packs_response_empty_def
    intro!: exI goes_ok goes_step[OF _ goes_ok] goes_fixed goes_cookie\<close>)

lemma goes_finish:
  assumes "le_reserve env = (\<lambda>_. True)"
  shows "goes env (configuration_packet env Config_Finish d) [] State_Configuration (True, d) State_Play"
  by (auto simp: configuration_packet_def Let_def encode_finish_configuration_def packet_without_payload_def
    intro!: goes_step[OF goes_fixed(1)[OF assms]] goes_step[OF goes_transition] goes_ok)

lemma goes_configuration_loop:
  assumes env: "crates_behave (le_crates env) linked" "le_reserve env = (\<lambda>_. True)"
    and last: "decode_configuration_clientbound (le_nbt env) f = Inr Config_Finish"
  shows "\<forall>g \<in> set fs. \<exists>p. decode_configuration_clientbound (le_nbt env) g = Inr p \<and> configuration_small_talk p \<Longrightarrow>
    length fs < n \<Longrightarrow> \<exists>d'. goes env (configuration_loop n env d) (fs @ [f]) State_Configuration d' State_Play"
proof (induction fs arbitrary: n d)
  case Nil
  then obtain m where "n = Suc m" by (cases n) auto
  then have "goes env (configuration_loop n env d) [f] State_Configuration d State_Play"
    by (auto intro!: goes_configuration_frame[OF env last] goes_step[OF goes_finish[OF env(2)]] goes_ok)
  then show ?case by auto
next
  case (Cons g gs)
  then obtain m where n: "n = Suc m" by (cases n) auto
  from Cons.prems(1) obtain p where p: "decode_configuration_clientbound (le_nbt env) g = Inr p" "configuration_small_talk p" by auto
  obtain d1 where d1: "goes env (configuration_packet env p d) [] State_Configuration (False, d1) State_Configuration"
    using goes_configuration_packet[OF env(2) p(2)] by blast
  obtain d' where d': "goes env (configuration_loop m env d1) (gs @ [f]) State_Configuration d' State_Play"
    using Cons.IH[of m d1] Cons.prems n by auto
  have "goes env (configuration_loop n env d) ((g # gs) @ [f]) State_Configuration d' State_Play"
    using d' by (auto simp: n intro!: goes_configuration_frame[OF env p(1)] goes_step[OF d1])
  then show ?case by blast
qed

lemma goes_acceptance_packet:
  assumes "le_reserve env = (\<lambda>_. True)" and "play_small_talk packet"
  shows "\<exists>loaded'. goes env (acceptance_packet env packet loaded) [] a (None, loaded') a"
  using assms
  by (cases packet)
    (auto simp: play_small_talk_def acceptance_packet_def Let_def encode_play_keep_alive_def encode_play_pong_def
      encode_play_teleport_confirmation_def encode_play_chunk_batch_received_def encode_play_player_loaded_def
      encode_play_cookie_response_def packet_without_payload_def
      intro!: exI goes_ok goes_step[OF _ goes_ok] goes_step[OF goes_fixed(4)] goes_fixed goes_cookie)

lemma goes_acceptance_loop:
  assumes env: "crates_behave (le_crates env) linked" "le_reserve env = (\<lambda>_. True)"
    and last: "decode_play_clientbound (le_nbt env) f = Inr (Play_Login login)"
  shows "\<forall>g \<in> set fs. \<exists>p. decode_play_clientbound (le_nbt env) g = Inr p \<and> play_small_talk p \<Longrightarrow>
    length fs < n \<Longrightarrow> goes env (acceptance_loop n env loaded) (fs @ [f]) a (Accept_Login login) a"
proof (induction fs arbitrary: n loaded)
  case Nil
  then obtain m where n: "n = Suc m" by (cases n) auto
  have "goes env (acceptance_packet env (Play_Login login) loaded) [] a (Some (Accept_Login login), loaded) a"
    by (simp add: acceptance_packet_def Let_def goes_ok)
  then show ?case
    by (auto simp: n intro!: goes_play_frame[OF env last] goes_ok elim!: goes_step)
next
  case (Cons g gs)
  then obtain m where n: "n = Suc m" by (cases n) auto
  from Cons.prems(1) obtain p where p: "decode_play_clientbound (le_nbt env) g = Inr p" "play_small_talk p" by auto
  obtain loaded' where l: "goes env (acceptance_packet env p loaded) [] a (None, loaded') a"
    using goes_acceptance_packet[OF env(2) p(2)] by blast
  have "goes env (acceptance_loop m env loaded') (gs @ [f]) a (Accept_Login login) a"
    using Cons.IH[of m loaded'] Cons.prems n by auto
  then show ?case by (auto simp: n intro!: goes_play_frame[OF env p(1)] goes_step[OF l])
qed

section \<open>From the handshake to play\<close>

lemma username_valid:
  assumes "(development_username_new u :: 'io login_error + rust_str) = Inr v"
  shows "v = u" and "valid_string USERNAME_LIMITS u"
proof -
  have u: "u \<noteq> []" "str_len u \<le> MAX_USERNAME_UTF16_UNITS" "list_all is_username_byte u" "v = u"
    using assms by (auto simp: development_username_new_def split: if_splits)
  then show "v = u" by simp
  have small: "is_username_byte c \<Longrightarrow> c < 128" for c by (auto simp: is_username_byte_def)
  have "is_str u \<and> utf16_count u = length u \<and> str_len u = length u"
    using u(3) small by (induction u) (auto simp: is_str_def is_scalar_value_def str_len_Cons utf16_count_Cons utf8_char_def
      utf16_count_def[of "[]"] str_len_def[of "[]"] as_bytes_def[of "[]"] dest!: small)
  then show "valid_string USERNAME_LIMITS u"
    using u(2) by (simp add: valid_string_def USERNAME_LIMITS_def MAX_USERNAME_UTF16_UNITS_def string_limits_new_def
      max_utf16_units_def max_encoded_bytes_def checked_mul_def usize_MAX_def i32_MAX_def)
qed

lemma goes_map_lift: "r = Inr v \<Longrightarrow> goes env (map_err e (lift_result r)) [] a v a"
  by (rule goesI) (simp add: map_err_def lift_result_def)

lemma handshake_framed:
  assumes "valid_string handshake_limits host"
  obtains b where "encode_handshake (login_handshake host port) MAX_BOOTSTRAP_FRAME_SIZE = Inr b" and "framed_bytes b"
proof -
  let ?h = "login_handshake host port"
  let ?bs = "enc_var HANDSHAKE_PACKET_ID @ enc_var (hs_protocol_version ?h) @ enc_string host @ to_be_bytes port @
    enc_var (next_state_id (hs_next_state ?h))"
  have "str_len host \<le> 255 * 3"
    using assms max_encoded_bytes_le[of handshake_limits]
    by (simp add: valid_string_def handshake_limits_def string_limits_new_def MAX_HANDSHAKE_HOST_UTF16_UNITS_def)
  then have l: "length ?bs \<le> 1000"
    using length_enc_length[of "str_len host"] length_enc_var_int[of HANDSHAKE_PACKET_ID]
      length_enc_var_int[of "hs_protocol_version ?h"] length_enc_var_int[of "next_state_id (hs_next_state ?h)"]
    by (simp add: enc_string_def str_len_def length_to_be_bytes)
  have "frame_of_writer
       (and_then (emit (write_var_int HANDSHAKE_PACKET_ID)) (\<lambda>_.
        and_then (emit (write_var_int (hs_protocol_version ?h))) (\<lambda>_.
        and_then (write_string handshake_limits host) (\<lambda>_.
        and_then (emit (write_u16 port)) (\<lambda>_.
        emit (write_var_int (next_state_id (hs_next_state ?h)))))))) MAX_BOOTSTRAP_FRAME_SIZE = Inr (enc_frame ?bs)"
    by (intro frame_of_writer_ok appends_and_then appends_write_string[OF assms] appends_write_var appends_emit_fixed_width)
      (use l in \<open>simp_all only: MAX_BOOTSTRAP_FRAME_SIZE_def MINECRAFT_MAX_FRAME_SIZE_def\<close>, simp_all)
  then have "encode_handshake ?h MAX_BOOTSTRAP_FRAME_SIZE = Inr (enc_frame ?bs)"
    by (simp only: encode_handshake_def login_handshake_def handshake.simps)
  moreover have "framed_bytes (enc_frame ?bs)"
    using l by (auto simp: framed_bytes_def MAX_BOOTSTRAP_FRAME_SIZE_def MINECRAFT_MAX_FRAME_SIZE_def intro!: exI[of _ ?bs])
  ultimately show ?thesis by (rule that)
qed

lemma goes_start_login:
  assumes "le_reserve env = (\<lambda>_. True)" and "valid_string handshake_limits host" and "valid_string USERNAME_LIMITS name"
    and "uuid_wf uuid"
  shows "goes env (start_login env host port name uuid) [] State_Handshake () State_Login"
proof -
  obtain b where b: "encode_handshake (login_handshake host port) MAX_BOOTSTRAP_FRAME_SIZE = Inr b" "framed_bytes b"
    by (rule handshake_framed[OF assms(2)])
  have "length (enc_string name) \<le> 5 + str_len name"
    using length_enc_length[of "str_len name"] by (simp add: enc_string_def str_len_def)
  moreover have "str_len name \<le> 48"
    using assms(3) max_encoded_bytes_le[of USERNAME_LIMITS]
    by (simp add: valid_string_def USERNAME_LIMITS_def string_limits_new_def MAX_USERNAME_UTF16_UNITS_def)
  ultimately have "goes env (send_packet env (encode_login_start name uuid)) [] State_Login () State_Login"
    unfolding encode_login_start_def
    using appends_write_string[OF assms(3)] uuid_codec.put_appends[OF assms(4)] assms(4)
    by (intro goes_boot[OF assms(1), where bss = "[enc_string name, to_bytes uuid]"]) (simp_all add: uuid_wf_def)
  then show ?thesis
    unfolding start_login_def
    by (intro goes_step[OF goes_map_lift[OF b(1)]] goes_step[OF goes_send_bytes[OF assms(1) b(2)]] goes_step[OF goes_transition])
qed

lemma bootstrap_limits: "bootstrap_frame_limits = Inr login_limits"
  by (simp add: bootstrap_frame_limits_def frame_limits_new_def login_limits_def MAX_BOOTSTRAP_FRAME_SIZE_def
    MAX_CONFIGURATION_BUFFERED_BYTES_def MINECRAFT_MAX_FRAME_SIZE_def MAX_FRAME_LENGTH_PREFIX_BYTES_def checked_add_def usize_MAX_def)

text \<open>What a server that keeps to the protocol sends.\<close>

record login_script =
  ls_login :: "u8 list list"
  ls_success :: "u8 list"
  ls_configuration :: "u8 list list"
  ls_finish :: "u8 list"
  ls_play :: "u8 list list"
  ls_play_login :: "u8 list"

definition script_frames :: "login_script \<Rightarrow> u8 list list" where
  "script_frames p =
     (ls_login p @ [ls_success p]) @ (ls_configuration p @ [ls_finish p]) @ (ls_play p @ [ls_play_login p])"

definition conforming ::
  "('io, 'enc, 'dec) login_env \<Rightarrow> rust_str \<Rightarrow> protocol_uuid \<Rightarrow> initial_play_login \<Rightarrow> login_script \<Rightarrow> bool" where
  "conforming env username uuid login p \<longleftrightarrow>
     (\<forall>f \<in> set (script_frames p). length f \<le> MAX_BOOTSTRAP_FRAME_SIZE) \<and>
     length (ls_login p) < MAX_LOGIN_PACKETS \<and>
     (\<forall>f \<in> set (ls_login p). \<exists>q. decode_login_clientbound (le_nbt env) f = Inr q \<and> login_small_talk q) \<and>
     (\<exists>su. decode_login_clientbound (le_nbt env) (ls_success p) = Inr (Login_Success su) \<and>
       lsu_username su = username \<and> lsu_uuid su = uuid \<and> as_u128 uuid \<noteq> 0) \<and>
     length (ls_configuration p) < MAX_CONFIGURATION_PACKETS \<and>
     (\<forall>f \<in> set (ls_configuration p). \<exists>q. decode_configuration_clientbound (le_nbt env) f = Inr q \<and> configuration_small_talk q) \<and>
     decode_configuration_clientbound (le_nbt env) (ls_finish p) = Inr Config_Finish \<and>
     length (ls_play p) < MAX_PLAY_ACCEPTANCE_PACKETS \<and>
     (\<forall>f \<in> set (ls_play p). \<exists>q. decode_play_clientbound (le_nbt env) f = Inr q \<and> play_small_talk q) \<and>
     decode_play_clientbound (le_nbt env) (ls_play_login p) = Inr (Play_Login login)"

lemma goes_connect:
  assumes env: "crates_behave (le_crates env) linked" "le_reserve env = (\<lambda>_. True)"
    and host: "valid_string handshake_limits host" and name: "valid_string USERNAME_LIMITS username"
    and p: "conforming env username uuid login p"
  shows "\<exists>outcome. goes env (connect_to_play env host port username) (script_frames p) State_Handshake (uuid, outcome) State_Play \<and>
    co_initial_login outcome = login"
proof -
  obtain su where su: "decode_login_clientbound (le_nbt env) (ls_success p) = Inr (Login_Success su)"
    "lsu_username su = username" "as_u128 (lsu_uuid su) \<noteq> 0" "lsu_uuid su = uuid"
    using p by (auto simp: conforming_def)
  have l: "goes env (run_login env username) (ls_login p @ [ls_success p]) State_Login uuid State_Configuration"
    using goes_login_loop[OF env su(1-3)] p su(4) by (simp add: conforming_def run_login_def)
  obtain d where c: "goes env (run_configuration_phase env) (ls_configuration p @ [ls_finish p]) State_Configuration d State_Play"
    using goes_configuration_loop[OF env, of "ls_finish p" "ls_configuration p" MAX_CONFIGURATION_PACKETS configuration_data_empty] p
    by (auto simp: conforming_def run_configuration_phase_def)
  have a: "goes env (await_initial_play_login env) (ls_play p @ [ls_play_login p]) State_Play (Accept_Login login) State_Play"
    using goes_acceptance_loop[OF env] p by (simp add: conforming_def await_initial_play_login_def)
  let ?o = "\<lparr>co_data = merge_phase d configuration_data_empty, co_initial_login = login\<rparr>"
  have r: "goes env (run_configuration env) ((ls_configuration p @ [ls_finish p]) @ (ls_play p @ [ls_play_login p]))
      State_Configuration ?o State_Play"
    unfolding run_configuration_def Suc_eq_plus1[symmetric] configuration_rounds.simps Let_def
    using goes_and_then[OF a, of "\<lambda>acceptance. case acceptance of Accept_Login login \<Rightarrow>
          ok \<lparr>co_data = merge_phase d configuration_data_empty, co_initial_login = login\<rparr>
        | Accept_Reconfigure \<Rightarrow> configuration_rounds MAX_RECONFIGURATIONS_DURING_ACCEPTANCE env
            (merge_phase d configuration_data_empty)" "[]" ?o State_Play]
    by (intro goes_and_then[OF c]) (simp add: goes_ok)
  have "goes env (connect_to_play env host port username) (script_frames p) State_Handshake (uuid, ?o) State_Play"
    unfolding connect_to_play_def script_frames_def
    using goes_and_then[OF r goes_ok] 
    by (intro goes_step[OF goes_start_login[OF env(2) host name uuid_wf_from_u128]] goes_and_then[OF l]) simp
  then show ?thesis by auto
qed

lemma goes_from_start:
  assumes "goes env m fs State_Handshake v b" and "\<forall>f \<in> set fs. length f \<le> MAX_BOOTSTRAP_FRAME_SIZE"
    and "\<forall>bs \<in> set reads. bs \<noteq> [] \<and> length bs \<le> READ_BUFFER_SIZE" and "concat reads = concat (map enc_frame fs)"
  shows "\<exists>t. m (conversation_new login_limits (map Inr reads)) = (Inr v, t) \<and> cv_state t = b"
proof -
  have "plain_ready env (fs @ []) (conversation_new login_limits (map Inr reads))"
    using assms(2-4) by (auto simp: plain_ready_def conversation_new_def connection_new_def wire_transforms_new_def
        receiving_def arriving_def decrypt_stream_def pending_new frame_decoder_new_wf[OF login_limits_wf]
        intro!: exI[of _ reads])
      (simp_all add: frame_decoder_new_def login_limits_def MAX_BOOTSTRAP_FRAME_SIZE_def READ_BUFFER_SIZE_def
        MINECRAFT_MAX_FRAME_SIZE_def MAX_CONFIGURATION_BUFFERED_BYTES_def)
  from goesE[OF assms(1) this] show ?thesis by (force simp: conversation_new_def)
qed

section \<open>Reading a payload to its end\<close>

definition finishes :: "'a boot_op \<Rightarrow> u8 list \<Rightarrow> 'a \<Rightarrow> bool" where
  "finishes m bs v \<longleftrightarrow> (\<forall>pre. length (pre @ bs) \<le> usize_MAX \<longrightarrow> fst (m (reader_at pre bs)) = Inr v)"

lemma finishes_read:
  assumes "decodes m bs a" and "finishes (k a) bs' v"
  shows "finishes (and_then (boot m) k) (bs @ bs') v"
proof -
  have "fst (and_then (boot m) k (reader_at pre (bs @ bs'))) = Inr v" if len: "length (pre @ bs @ bs') \<le> usize_MAX" for pre
    using decodesD[OF assms(1) len] assms(2) len
    by (simp add: finishes_def boot_def map_err_def and_then_def)
  then show ?thesis by (simp add: finishes_def)
qed

lemma finishes_end: "finishes (and_then (boot_require_consumed ctx) (\<lambda>_. ok v)) [] v"
  by (simp add: finishes_def and_then_def boot_require_consumed_def ok_def)

lemma finishes_map: "finishes m bs v \<Longrightarrow> finishes (and_then m (\<lambda>x. ok (f x))) bs (f v)"
  by (force simp: finishes_def and_then_def ok_def split: prod.split sum.split)

lemma finishes_none:
  assumes "finishes (k 0) bs' v" and "try_reserve_exact env 0"
  shows "finishes (and_then (boot_read_count ctx m) (\<lambda>n. and_then (boot_reserve env n ctx') (\<lambda>_. k n))) ([0] @ bs') v"
proof -
  have "finishes (and_then (boot_reserve env 0 ctx') (\<lambda>_. k 0)) bs' v"
    using assms by (simp add: boot_reserve_def ensure_def)
  moreover have "decodes read_var_int [0] 0"
    using decodes_read_var_int[of 0] by (simp add: enc_var.simps)
  ultimately show ?thesis
    unfolding boot_read_count_def and_then_assoc by (intro finishes_read[of read_var_int "[0]" 0]) simp_all
qed

lemma finishes_packet:
  assumes "finishes (select pid bs) bs v" and "length (enc_var pid @ bs) \<le> usize_MAX"
  shows "decode_packet select (enc_var pid @ bs) = Inr v"
  using assms(1) split_raw_packet_enc[OF assms(2)] assms(2)
  by (simp add: decode_packet_def finishes_def new_reader_eq)

text \<open>A server that asks nothing: a profile without properties, and a first Play Login of zeros.\<close>

definition quiet_spawn :: wire_spawn_info where
  "quiet_spawn =
     \<lparr>wsi_dimension_type_raw_id = 0, wsi_dimension = [], wsi_hashed_seed = 0, wsi_game_mode = 0,
      wsi_previous_game_mode = 0, wsi_debug_world = False, wsi_flat_world = False, wsi_last_death_location = None,
      wsi_portal_cooldown_ticks = 0, wsi_sea_level = 0\<rparr>"

definition quiet_login :: initial_play_login where
  "quiet_login =
     \<lparr>il_player_entity_id = 0, il_hardcore = False, il_known_dimensions = [], il_max_players = 0,
      il_view_distance = 0, il_simulation_distance = 0, il_reduced_debug_info = False, il_show_death_screen = False,
      il_limited_crafting = False, il_spawn = quiet_spawn, il_secure_chat_enforced = False\<rparr>"

definition quiet_login_bytes :: "u8 list" where
  "quiet_login_bytes =
     to_be_bytes (0 :: i32) @ [0] @ [0] @ [0] @ [0] @ [0] @ [0] @ [0] @ [0] @
     [0] @ [0] @ to_be_bytes (0 :: i64) @ [0] @ [0] @ [0] @ [0] @ [0] @ [0] @ [0] @ [0] @ []"

definition quiet_script :: "protocol_uuid \<Rightarrow> rust_str \<Rightarrow> login_script" where
  "quiet_script uuid name =
     \<lparr>ls_login = [], ls_success = enc_var LOGIN_SUCCESS_ID @ to_bytes uuid @ enc_string name @ [0],
      ls_configuration = [], ls_finish = enc_var CONFIG_FINISH_ID,
      ls_play = [], ls_play_login = enc_var INITIAL_PLAY_LOGIN_ID @ quiet_login_bytes\<rparr>"

lemma decodes_zero:
  "decodes read_var_int [0] 0" "decodes read_bool [0] False" "decodes (read_string RESOURCE_LOCATION_LIMITS) [0] []"
proof -
  have "valid_string RESOURCE_LOCATION_LIMITS []"
    by (simp add: valid_string_def is_str_def utf16_count_def str_len_def as_bytes_def)
  then show "decodes (read_string RESOURCE_LOCATION_LIMITS) [0] []"
    using decodes_read_string[of RESOURCE_LOCATION_LIMITS "[]"]
    by (simp add: enc_string_def str_len_def as_bytes_def enc_length_def enc_var.simps)
qed (use decodes_read_var_int[of 0] decodes_read_bool[of False] in \<open>simp_all add: enc_var.simps\<close>)

lemma quiet_login_finishes:
  assumes "try_reserve_exact env 0"
  shows "finishes (decode_initial_play_login env) quiet_login_bytes quiet_login"
proof -
  note reads = finishes_read[OF decodes_fixed_width(1)] finishes_read[OF decodes_fixed_width(2)]
    finishes_read[OF decodes_fixed_width(5)] finishes_read[OF decodes_fixed_width(7)]
    finishes_read[OF decodes_zero(1)] finishes_read[OF decodes_zero(2)] finishes_read[OF decodes_zero(3)]
  show ?thesis
    unfolding decode_initial_play_login_def decode_spawn_info_def optional_read_def and_then_assoc and_then_ok quiet_login_bytes_def
    by (rule reads, rule reads, rule finishes_none[OF _ assms], simp only: read_n.simps and_then_ok,
      (rule reads | simp only: and_then_ok if_False)+,
      simp add: finishes_end quiet_login_def quiet_spawn_def)
qed

lemma quiet_success_finishes:
  assumes "uuid_wf uuid" and "valid_string USERNAME_LIMITS name" and "try_reserve_exact env 0"
  shows "finishes (decode_login_success env) (to_bytes uuid @ enc_string name @ [0])
    \<lparr>lsu_uuid = uuid, lsu_username = name, lsu_properties = []\<rparr>"
proof -
  have "finishes (decode_login_success env) (to_bytes uuid @ enc_string name @ [0] @ [])
      \<lparr>lsu_uuid = uuid, lsu_username = name, lsu_properties = []\<rparr>"
    unfolding decode_login_success_def
    by (rule finishes_read[OF uuid_codec.get_decodes[OF assms(1)]], rule finishes_read[OF decodes_read_string[OF assms(2)]],
        rule finishes_none[OF _ assms(3)], simp only: read_n.simps and_then_ok, rule finishes_end)
  then show ?thesis by simp
qed

lemma quiet_conforms:
  assumes "try_reserve_exact (le_nbt env) 0" and "uuid_wf uuid" and "as_u128 uuid \<noteq> 0" and "valid_string USERNAME_LIMITS name"
  shows "conforming env name uuid quiet_login (quiet_script uuid name)"
proof -
  have "length (enc_string name) \<le> 5 + str_len name"
    using length_enc_length[of "str_len name"] by (simp add: enc_string_def str_len_def)
  moreover have "str_len name \<le> 48"
    using assms(4) max_encoded_bytes_le[of USERNAME_LIMITS]
    by (simp add: valid_string_def USERNAME_LIMITS_def string_limits_new_def MAX_USERNAME_UTF16_UNITS_def)
  ultimately have l: "length (enc_var LOGIN_SUCCESS_ID @ to_bytes uuid @ enc_string name @ [0]) \<le> 100"
    "length (enc_var CONFIG_FINISH_ID @ []) \<le> 100" "length (enc_var INITIAL_PLAY_LOGIN_ID @ quiet_login_bytes) \<le> 100"
    using assms(2) length_enc_var_int[of LOGIN_SUCCESS_ID] length_enc_var_int[of CONFIG_FINISH_ID]
      length_enc_var_int[of INITIAL_PLAY_LOGIN_ID] by (simp_all add: uuid_wf_def quiet_login_bytes_def)
  have u: "length bs \<le> 100 \<Longrightarrow> length bs \<le> usize_MAX" "length bs \<le> 100 \<Longrightarrow> length bs \<le> MAX_BOOTSTRAP_FRAME_SIZE" for bs :: "u8 list"
    by (simp_all add: usize_MAX_def MAX_BOOTSTRAP_FRAME_SIZE_def MINECRAFT_MAX_FRAME_SIZE_def)
  have "finishes (login_decoder (le_nbt env) LOGIN_SUCCESS_ID (to_bytes uuid @ enc_string name @ [0]))
      (to_bytes uuid @ enc_string name @ [0]) (Login_Success \<lparr>lsu_uuid = uuid, lsu_username = name, lsu_properties = []\<rparr>)"
    using finishes_map[OF quiet_success_finishes[OF assms(2,4,1)]]
    by (simp add: login_decoder_def LOGIN_DISCONNECT_ID_def LOGIN_ENCRYPTION_REQUEST_ID_def LOGIN_SUCCESS_ID_def)
  from finishes_packet[where select = "login_decoder (le_nbt env)", OF this u(1)[OF l(1)]] have 1: "decode_login_clientbound (le_nbt env) (ls_success (quiet_script uuid name)) =
      Inr (Login_Success \<lparr>lsu_uuid = uuid, lsu_username = name, lsu_properties = []\<rparr>)"
    by (simp add: decode_login_clientbound_def quiet_script_def)
  have "finishes (configuration_decoder (le_nbt env) CONFIG_FINISH_ID []) [] Config_Finish"
    using finishes_end[of "''Finish Configuration''" Config_Finish]
    by (simp add: configuration_decoder_def CONFIG_FINISH_ID_def CONFIG_COOKIE_REQUEST_ID_def CONFIG_CUSTOM_PAYLOAD_ID_def
        CONFIG_DISCONNECT_ID_def whole_def)
  from finishes_packet[where select = "configuration_decoder (le_nbt env)", OF this u(1)[OF l(2)]]
  have 2: "decode_configuration_clientbound (le_nbt env) (ls_finish (quiet_script uuid name)) = Inr Config_Finish"
    by (simp add: decode_configuration_clientbound_def quiet_script_def)
  have "finishes (play_decoder (le_nbt env) INITIAL_PLAY_LOGIN_ID quiet_login_bytes) quiet_login_bytes (Play_Login quiet_login)"
    using finishes_map[OF quiet_login_finishes[OF assms(1)]] by (simp add: play_decoder_def play_ids)
  from finishes_packet[where select = "play_decoder (le_nbt env)", OF this u(1)[OF l(3)]]
  have 3: "decode_play_clientbound (le_nbt env) (ls_play_login (quiet_script uuid name)) = Inr (Play_Login quiet_login)"
    by (simp add: decode_play_clientbound_def quiet_script_def)
  show ?thesis
    using 1 2 3 assms(3) u(2)[OF l(1)] u(2)[OF l(2)] u(2)[OF l(3)]
    by (simp add: conforming_def script_frames_def quiet_script_def MAX_LOGIN_PACKETS_def MAX_CONFIGURATION_PACKETS_def
        MAX_PLAY_ACCEPTANCE_PACKETS_def)
qed

section \<open>Property\<close>

text \<open>
  C30: a server that keeps to the protocol (at most 63 requests before its Login Success, at most 2047 packets before
  Finish Configuration and at most 255 before the Play Login, each of them one the client accepts) is always followed
  to the play phase: the login returns the identity and the initial Play Login the server gave and the connection is in
  the play state, however the server's bytes are cut into reads.
\<close>

theorem conforming_server_reaches_play:
  assumes "crates_behave (le_crates env) linked" and "le_reserve env = (\<lambda>_. True)"
    and "valid_string handshake_limits host" and "development_username_new username = (Inr name :: 'io login_error + rust_str)"
    and "conforming env name uuid login script"
    and "\<forall>bs \<in> set reads. bs \<noteq> [] \<and> length bs \<le> READ_BUFFER_SIZE"
    and "concat reads = concat (map enc_frame (script_frames script))"
  shows "\<exists>limits outcome t. bootstrap_frame_limits = Inr limits \<and>
    connect_to_play env host port name (conversation_new limits (map Inr reads)) = (Inr (uuid, outcome), t) \<and>
    co_initial_login outcome = login \<and> cv_state t = State_Play"
proof -
  have name: "valid_string USERNAME_LIMITS name"
    using username_valid[OF assms(4)] by simp
  obtain outcome where run: "goes env (connect_to_play env host port name) (script_frames script) State_Handshake (uuid, outcome) State_Play"
    and login: "co_initial_login outcome = login"
    using goes_connect[OF assms(1-3) name assms(5)] by blast
  have "\<forall>f \<in> set (script_frames script). length f \<le> MAX_BOOTSTRAP_FRAME_SIZE"
    using assms(5) unfolding conforming_def by blast
  from goes_from_start[OF run this assms(6,7)] login show ?thesis using bootstrap_limits by auto
qed

text \<open>The server's bytes arrive one at a time.\<close>

lemma conforming_server_reaches_play_witness:
  defines "env \<equiv> \<lparr>le_crates = feedback_crates, le_reserve = (\<lambda>_. True), le_nbt = roomy_env\<rparr>"
    and "sent \<equiv> concat (map enc_frame (script_frames (quiet_script (uuid_from_u128 7) [0x61, 0x62])))"
  shows "\<exists>limits outcome t. bootstrap_frame_limits = Inr limits \<and>
    connect_to_play env [0x61, 0x62] 25565 [0x61, 0x62] (conversation_new limits (map Inr (map (\<lambda>b. [b]) sent))) =
      (Inr (uuid_from_u128 7, outcome), t) \<and>
    co_initial_login outcome = quiet_login \<and> cv_state t = State_Play"
proof (rule conforming_server_reaches_play[where script = "quiet_script (uuid_from_u128 7) [0x61, 0x62]" and linked = "(=)"
    and username = "[0x61, 0x62]"])
  show name: "development_username_new [0x61, 0x62] = (Inr [0x61, 0x62] :: unit login_error + rust_str)"
    by (simp add: development_username_new_def is_username_byte_def str_len_def as_bytes_def utf8_char_def
        MAX_USERNAME_UTF16_UNITS_def)
  show "conforming env [0x61, 0x62] (uuid_from_u128 7) quiet_login (quiet_script (uuid_from_u128 7) [0x61, 0x62])"
    by (rule quiet_conforms) (use username_valid[OF name] in \<open>simp_all add: env_def roomy_env_def uuid_u128_inverse\<close>)
  show "valid_string handshake_limits [0x61, 0x62]"
    by (simp add: valid_string_def is_str_def is_scalar_value_def utf16_count_def str_len_def as_bytes_def utf8_char_def
        handshake_limits_def MAX_HANDSHAKE_HOST_UTF16_UNITS_def string_limits_new_def max_utf16_units_def
        max_encoded_bytes_def checked_mul_def usize_MAX_def i32_MAX_def)
  show "concat (map (\<lambda>b. [b]) sent) = concat (map enc_frame (script_frames (quiet_script (uuid_from_u128 7) [0x61, 0x62])))"
    by (simp add: sent_def)
qed (auto simp: env_def feedback_crates_behave READ_BUFFER_SIZE_def)

end
