(* ===== verification/Address.thy ===== *)
theory Address
  imports Login_Props
begin

text \<open>
  \<open>cubic-network/src/address.rs\<close>: the server address a player types. Host and port, with the IPv6 literals in brackets.
  The parsers of the standard library the file calls, for \<open>u16\<close> and \<open>Ipv6Addr\<close>, are written out.
\<close>

section \<open>The standard library\<close>

text \<open>\<open>char::is_whitespace\<close>: the property White_Space.\<close>

definition is_whitespace :: "nat \<Rightarrow> bool" where
  "is_whitespace c \<longleftrightarrow> 0x09 \<le> c \<and> c \<le> 0x0d \<or> c \<in> {0x20, 0x85, 0xa0, 0x1680, 0x2028, 0x2029, 0x202f, 0x205f, 0x3000} \<or>
     0x2000 \<le> c \<and> c \<le> 0x200a"

definition to_digit :: "nat \<Rightarrow> nat \<Rightarrow> nat option" where
  "to_digit radix c =
     (let d = if 48 \<le> c \<and> c \<le> 57 then c - 48
              else if 97 \<le> c \<and> c \<le> 122 then c - 97 + 10
              else if 65 \<le> c \<and> c \<le> 90 then c - 65 + 10 else radix
      in if d < radix then Some d else None)"

text \<open>\<open>u16::from_str\<close>: an optional plus sign, then digits whose value stays within the type.\<close>

fun decimal_digits :: "nat \<Rightarrow> nat \<Rightarrow> nat list \<Rightarrow> nat option" where
  "decimal_digits m acc [] = Some acc"
| "decimal_digits m acc (c # cs) =
     (case to_digit 10 c of
        None \<Rightarrow> None
      | Some d \<Rightarrow> if acc * 10 + d \<le> m then decimal_digits m (acc * 10 + d) cs else None)"

definition u16_from_str :: "rust_str \<Rightarrow> u16 option" where
  "u16_from_str s =
     (let digits = (if s \<noteq> [] \<and> hd s = 43 then tl s else s) in
      if digits = [] then None else map_option of_nat (decimal_digits 65535 0 digits))"

text \<open>The parser of \<open>core::net\<close>: an operation takes the text left and returns its value and what is left after it.\<close>

fun digits_loop :: "nat \<Rightarrow> nat \<Rightarrow> nat \<Rightarrow> nat \<Rightarrow> nat list \<Rightarrow> (nat \<times> nat \<times> nat list) option" where
  "digits_loop radix m acc n [] = Some (acc, n, [])"
| "digits_loop radix m acc n (c # cs) =
     (case to_digit radix c of
        None \<Rightarrow> Some (acc, n, c # cs)
      | Some d \<Rightarrow> if m < n + 1 then None else digits_loop radix m (acc * radix + d) (n + 1) cs)"

definition read_number :: "nat \<Rightarrow> nat \<Rightarrow> bool \<Rightarrow> nat \<Rightarrow> nat list \<Rightarrow> (nat \<times> nat list) option" where
  "read_number radix max_digits allow_zero_prefix limit p =
     (case digits_loop radix max_digits 0 0 p of
        None \<Rightarrow> None
      | Some (v, n, rest) \<Rightarrow>
          if limit < v \<or> n = 0 \<or> \<not> allow_zero_prefix \<and> hd p = 48 \<and> 1 < n then None else Some (v, rest))"

definition read_separator :: "nat \<Rightarrow> nat \<Rightarrow> (nat list \<Rightarrow> 'a option) \<Rightarrow> nat list \<Rightarrow> 'a option" where
  "read_separator sep i inner p =
     (if i = 0 then inner p
      else case p of c # cs \<Rightarrow> if c = sep then inner cs else None | [] \<Rightarrow> None)"

fun read_octets :: "nat \<Rightarrow> nat \<Rightarrow> nat list \<Rightarrow> (nat list \<times> nat list) option" where
  "read_octets 0 i p = Some ([], p)"
| "read_octets (Suc n) i p =
     (case read_separator 46 i (read_number 10 3 False 255) p of
        None \<Rightarrow> None
      | Some (octet, rest) \<Rightarrow> map_option (\<lambda>(os, rest'). (octet # os, rest')) (read_octets n (i + 1) rest))"

definition read_ipv4_addr :: "nat list \<Rightarrow> (nat list \<times> nat list) option" where
  "read_ipv4_addr p = read_octets 4 0 p"

text \<open>At most \<open>n\<close> groups; an embedded IPv4 address stands for two and ends them. The flag says that it was there.\<close>

fun read_groups :: "nat \<Rightarrow> nat \<Rightarrow> nat list \<Rightarrow> (nat list \<times> bool) \<times> nat list" where
  "read_groups 0 i p = (([], False), p)"
| "read_groups (Suc n) i p =
     (case (if 0 < n then read_separator 58 i read_ipv4_addr p else None) of
        Some (os, rest) \<Rightarrow> (([os ! 0 * 256 + os ! 1, os ! 2 * 256 + os ! 3], True), rest)
      | None \<Rightarrow>
          (case read_separator 58 i (read_number 16 4 True 65535) p of
             None \<Rightarrow> (([], False), p)
           | Some (g, rest) \<Rightarrow>
               (case read_groups n (i + 1) rest of ((gs, v4), rest') \<Rightarrow> ((g # gs, v4), rest'))))"

definition read_ipv6_addr :: "nat list \<Rightarrow> (nat list \<times> nat list) option" where
  "read_ipv6_addr p =
     (case read_groups 8 0 p of ((front, front_ipv4), rest) \<Rightarrow>
        if length front = 8 then Some (front, rest)
        else if front_ipv4 then None
        else (case rest of
                c1 # c2 # rest' \<Rightarrow>
                  if c1 = 58 \<and> c2 = 58 then
                    (case read_groups (8 - (length front + 1)) 0 rest' of ((rear, _), rest'') \<Rightarrow>
                       Some (front @ replicate (8 - length front - length rear) 0 @ rear, rest''))
                  else None
              | _ \<Rightarrow> None))"

definition ipv6_from_str :: "rust_str \<Rightarrow> nat list option" where
  "ipv6_from_str s = (case read_ipv6_addr s of Some (groups, []) \<Rightarrow> Some groups | _ \<Rightarrow> None)"

text \<open>Printing a number.\<close>

fun decimal :: "nat \<Rightarrow> rust_str" where
  "decimal n = (if n < 10 then [48 + n] else decimal (n div 10) @ [48 + n mod 10])"

declare decimal.simps [simp del]

section \<open>Addresses\<close>

definition DEFAULT_MINECRAFT_PORT :: u16 where "DEFAULT_MINECRAFT_PORT = 25565"
definition MAX_LOGICAL_HOST_UTF16_UNITS :: nat where "MAX_LOGICAL_HOST_UTF16_UNITS = 255"

record server_address =
  sa_host :: rust_str
  sa_port :: u16
  sa_ipv6_literal :: bool

datatype server_address_error =
    Addr_EmptyHost
  | Addr_Whitespace
  | Addr_MalformedBrackets
  | Addr_UnbracketedIpv6
  | Addr_InvalidSyntax
  | Addr_MissingPort
  | Addr_InvalidPort
  | Addr_ZeroPort
  | Addr_InvalidIpv6
  | Addr_HostTooLong nat
  | Addr_ControlCharacter

definition validate_host :: "rust_str \<Rightarrow> server_address_error + unit" where
  "validate_host host =
     (if host = [] then Inl Addr_EmptyHost
      else if MAX_LOGICAL_HOST_UTF16_UNITS < utf16_count host then Inl (Addr_HostTooLong MAX_LOGICAL_HOST_UTF16_UNITS)
      else if list_ex is_control host then Inl Addr_ControlCharacter
      else Inr ())"

definition parse_port :: "rust_str \<Rightarrow> server_address_error + u16" where
  "parse_port s =
     (if s = [] then Inl Addr_MissingPort
      else case u16_from_str s of
             None \<Rightarrow> Inl Addr_InvalidPort
           | Some port \<Rightarrow> if port = 0 then Inl Addr_ZeroPort else Inr port)"

definition parse_bracketed_ipv6 :: "rust_str \<Rightarrow> server_address_error + server_address" where
  "parse_bracketed_ipv6 input_after_open =
     (case split_once 93 input_after_open of
        None \<Rightarrow> Inl Addr_MalformedBrackets
      | Some (host, suffix) \<Rightarrow>
          if host = [] then Inl Addr_EmptyHost
          else if ipv6_from_str host = None then Inl Addr_InvalidIpv6
          else
            and_also (if suffix = [] then Inr DEFAULT_MINECRAFT_PORT
                      else if hd suffix = 58 then parse_port (tl suffix) else Inl Addr_MalformedBrackets)
              (\<lambda>port. Inr \<lparr>sa_host = host, sa_port = port, sa_ipv6_literal = True\<rparr>))"

definition server_address_from_str :: "rust_str \<Rightarrow> server_address_error + server_address" where
  "server_address_from_str s =
     (if s = [] then Inl Addr_EmptyHost
      else if list_ex is_whitespace s then Inl Addr_Whitespace
      else if hd s = 91 then parse_bracketed_ipv6 (tl s)
      else if 91 \<in> set s \<or> 93 \<in> set s then Inl Addr_MalformedBrackets
      else
        let colon_count = length (filter (\<lambda>b. b = 58) (as_bytes s)) in
        and_also (if colon_count = 0 then Inr (s, DEFAULT_MINECRAFT_PORT)
                  else if colon_count = 1 then
                    (case split_once 58 s of
                       None \<Rightarrow> Inl Addr_InvalidSyntax
                     | Some (host, port) \<Rightarrow> and_also (parse_port port) (\<lambda>p. Inr (host, p)))
                  else Inl Addr_UnbracketedIpv6)
          (\<lambda>(host, port).
             and_also (validate_host host) (\<lambda>_. Inr \<lparr>sa_host = host, sa_port = port, sa_ipv6_literal = False\<rparr>)))"

definition display_address :: "server_address \<Rightarrow> rust_str" where
  "display_address a =
     (if sa_ipv6_literal a then 91 # sa_host a @ [93, 58] @ decimal (unat (sa_port a))
      else sa_host a @ 58 # decimal (unat (sa_port a)))"

text \<open>
  An accepted server address prints as text that is accepted again as the same address, and its host always fits into
  the handshake packet.
\<close>

section \<open>Numbers\<close>

definition is_decimal_digit :: "nat \<Rightarrow> bool" where
  "is_decimal_digit c \<longleftrightarrow> 48 \<le> c \<and> c \<le> 57"

lemma decimal_chars: "list_all is_decimal_digit (decimal n) \<and> decimal n \<noteq> []"
proof (induction n rule: decimal.induct)
  case (1 n)
  have "n < 10 \<Longrightarrow> is_decimal_digit (48 + n)" "is_decimal_digit (48 + n mod 10)"
    by (auto simp: is_decimal_digit_def)
  then show ?case using 1 by (subst (1 2) decimal.simps) auto
qed

lemma decimal_digits_append:
  "decimal_digits m a (xs @ ys) = (case decimal_digits m a xs of None \<Rightarrow> None | Some b \<Rightarrow> decimal_digits m b ys)"
  by (induction m a xs rule: decimal_digits.induct) (auto split: option.split)

lemma to_digit_decimal: "d < 10 \<Longrightarrow> to_digit 10 (48 + d) = Some d"
  by (simp add: to_digit_def Let_def)

lemma decimal_digits_decimal: "n \<le> m \<Longrightarrow> decimal_digits m 0 (decimal n) = Some n"
proof (induction n rule: decimal.induct)
  case (1 n)
  show ?case
  proof (cases "n < 10")
    case True
    then show ?thesis using 1(2) by (simp add: decimal.simps[of n] to_digit_decimal)
  next
    case False
    have "decimal_digits m 0 (decimal (n div 10)) = Some (n div 10)" using 1 False by simp
    then show ?thesis
      using False 1(2) to_digit_decimal[of "n mod 10"] by (simp add: decimal.simps[of n] decimal_digits_append)
  qed
qed

lemma parse_port_decimal: "p \<noteq> 0 \<Longrightarrow> parse_port (decimal (unat p)) = Inr p"
proof -
  assume p: "p \<noteq> 0"
  obtain c cs where d: "decimal (unat p) = c # cs" "is_decimal_digit c"
    using decimal_chars[of "unat p"] by (cases "decimal (unat p)") auto
  have "unat p \<le> 65535" using unsigned_less[of p, where ?'a = nat] by simp
  from decimal_digits_decimal[OF this] have "u16_from_str (decimal (unat p)) = Some p"
    using d by (auto simp: u16_from_str_def is_decimal_digit_def)
  then show ?thesis using p d by (simp add: parse_port_def)
qed

lemma parse_port_nonzero: "parse_port s = Inr p \<Longrightarrow> p \<noteq> 0"
  by (auto simp: parse_port_def split: if_splits option.splits)

section \<open>Splitting\<close>

lemma split_once_Some: "split_once c s = Some (a, b) \<longleftrightarrow> s = a @ c # b \<and> c \<notin> set a"
proof (induction s arbitrary: a)
  case (Cons d s)
  show ?case
  proof (cases "d = c")
    case True
    then show ?thesis by (cases a) (auto simp: split_once_def)
  next
    case False
    then have "split_once c (d # s) = map_option (\<lambda>(a, b). (d # a, b)) (split_once c s)"
      by (auto simp: split_once_def)
    then have "split_once c (d # s) = Some (a, b) \<longleftrightarrow> (\<exists>a'. a = d # a' \<and> split_once c s = Some (a', b))" by auto
    also have "\<dots> \<longleftrightarrow> d # s = a @ c # b \<and> c \<notin> set a"
      using False Cons.IH by (cases a) auto
    finally show ?thesis .
  qed
qed (simp add: split_once_def)

lemma colon_in_char: "is_scalar_value c \<Longrightarrow> filter (\<lambda>b. b = 58) (map of_nat (utf8_char c)) = (if c = 58 then [58 :: u8] else [])"
proof -
  assume c: "is_scalar_value c"
  have inj: "b < 256 \<Longrightarrow> (of_nat b :: u8) = 58 \<Longrightarrow> b = 58" for b
    by (drule arg_cong[where f = unat]) (simp add: unsigned_of_nat take_bit_nat_eq_self)
  show ?thesis
  proof (cases "c < 0x80")
    case True
    then have "utf8_char c = [c]" by (simp add: utf8_char_def)
    moreover have "c \<noteq> 58 \<Longrightarrow> (of_nat c :: u8) \<noteq> 58" using True inj[of c] by linarith
    ultimately show ?thesis by (cases "c = 58") simp_all
  next
    case False
    have "\<forall>b \<in> set (utf8_char c). 58 < b"
      using False by (auto simp: utf8_char_def split: if_splits)
    then have "\<forall>b \<in> set (utf8_char c). 58 < b \<and> b < 256" using utf8_char_byte[OF c] by blast
    then have "\<forall>b \<in> set (utf8_char c). (of_nat b :: u8) \<noteq> 58" using inj by fastforce
    then show ?thesis using False by (auto simp: filter_empty_conv)
  qed
qed

lemma colon_bytes: "is_str s \<Longrightarrow> length (filter (\<lambda>b. b = 58) (as_bytes s)) = length (filter (\<lambda>c. c = 58) s)"
  by (induction s) (simp_all add: as_bytes_def is_str_def colon_in_char)

section \<open>The IPv6 parser\<close>

text \<open>What a reader takes from the text is short and ASCII.\<close>

definition takes :: "nat \<Rightarrow> nat list \<Rightarrow> nat list \<Rightarrow> bool" where
  "takes k p rest \<longleftrightarrow> (\<exists>used. p = used @ rest \<and> length used \<le> k \<and> (\<forall>c \<in> set used. c < 128))"

lemma takes_refl: "takes k p p"
  by (auto simp: takes_def)

lemma takes_trans: "takes k p q \<Longrightarrow> takes l q r \<Longrightarrow> takes (k + l) p r"
  unfolding takes_def by (elim exE conjE) (rule_tac x = "used @ useda" in exI, auto)

lemma takes_mono: "takes k p q \<Longrightarrow> k \<le> l \<Longrightarrow> takes l p q"
  unfolding takes_def by (elim exE conjE, rule_tac x = used in exI) simp

lemma takes_Cons: "takes k p r \<Longrightarrow> c < 128 \<Longrightarrow> takes (Suc k) (c # p) r"
  unfolding takes_def by (elim exE) (rule_tac x = "c # used" in exI, auto)

lemma digits_loop_takes: "n \<le> m \<Longrightarrow> digits_loop radix m acc n p = Some (v, n', rest) \<Longrightarrow> takes (m - n) p rest"
proof (induction radix m acc n p rule: digits_loop.induct)
  case (2 radix m acc n c cs)
  show ?case
  proof (cases "to_digit radix c")
    case None
    then show ?thesis using 2(3) by (simp add: takes_refl)
  next
    case (Some d)
    then have n: "n + 1 \<le> m" using 2(3) by (simp split: if_splits)
    have "c < 128" using Some by (auto simp: to_digit_def Let_def split: if_splits)
    moreover have "takes (m - (n + 1)) cs rest"
      using 2 Some n by (intro 2(1)[OF Some]) auto
    ultimately have "takes (Suc (m - (n + 1))) (c # cs) rest" by (rule takes_Cons[rotated])
    then show ?thesis using n by (simp add: Suc_diff_Suc)
  qed
qed (simp add: takes_refl)

lemma read_number_takes: "read_number radix m z l p = Some (v, rest) \<Longrightarrow> takes m p rest"
  using digits_loop_takes[of 0 m radix 0 p]
  by (auto simp: read_number_def split: option.splits prod.splits if_splits)

lemma read_separator_takes:
  assumes "read_separator sep i inner p = Some (v, rest)" and "sep < 128" and "\<And>q v. inner q = Some (v, rest) \<Longrightarrow> takes k q rest"
  shows "takes (Suc k) p rest"
proof (cases "i = 0")
  case True
  then show ?thesis using assms takes_mono[of k p rest "Suc k"] by (simp add: read_separator_def)
next
  case False
  then obtain cs where "p = sep # cs" "inner cs = Some (v, rest)"
    using assms(1) by (cases p) (auto simp: read_separator_def split: if_splits)
  then show ?thesis using assms(2,3) takes_Cons by blast
qed

lemma read_octets_takes: "read_octets n i p = Some (os, rest) \<Longrightarrow> takes (4 * n) p rest"
proof (induction n arbitrary: i p os)
  case (Suc n)
  then obtain o1 q os' where sep: "read_separator 46 i (read_number 10 3 False 255) p = Some (o1, q)"
    and tail: "read_octets n (i + 1) q = Some (os', rest)"
    by (auto split: option.splits prod.splits)
  have "takes (Suc 3) p q" by (rule read_separator_takes[OF sep]) (auto intro: read_number_takes)
  from takes_trans[OF this Suc.IH[OF tail]] show ?case by simp
qed (simp add: takes_refl)

lemma read_groups_takes:
  "read_groups n i p = ((gs, v4), rest) \<Longrightarrow> takes (5 * n + 17) p rest \<and> length gs \<le> n"
proof (induction n arbitrary: i p gs v4 rest)
  case (Suc n)
  show ?case
  proof (cases "if 0 < n then read_separator 58 i read_ipv4_addr p else None")
    case (Some r)
    obtain os q where r: "r = (os, q)" by fastforce
    have n: "0 < n" and sep: "read_separator 58 i read_ipv4_addr p = Some (os, q)" using Some r by (auto split: if_splits)
    have "takes (Suc 16) p q"
      by (rule read_separator_takes[OF sep]) (use read_octets_takes[of 4] in \<open>auto simp: read_ipv4_addr_def\<close>)
    then show ?thesis using Suc.prems Some r n takes_mono[of 17 p q "5 * Suc n + 17"] by auto
  next
    case None
    show ?thesis
    proof (cases "read_separator 58 i (read_number 16 4 True 65535) p")
      case None': None
      then show ?thesis using Suc.prems None by (auto simp: takes_refl)
    next
      case (Some r)
      obtain g q where r: "r = (g, q)" by fastforce
      obtain gs' v4' rest' where t: "read_groups n (i + 1) q = ((gs', v4'), rest')" by (metis prod.collapse)
      have "takes (Suc 4) p q"
        by (rule read_separator_takes[OF Some[unfolded r]]) (auto intro: read_number_takes)
      moreover have "takes (5 * n + 17) q rest' \<and> length gs' \<le> n" by (rule Suc.IH[OF t])
      ultimately show ?thesis
        using Suc.prems None Some r t takes_trans[of "Suc 4" p q "5 * n + 17" rest'] by auto
    qed
  qed
qed (simp add: takes_refl)

lemma read_ipv6_addr_takes: "read_ipv6_addr p = Some (gs, rest) \<Longrightarrow> takes 200 p rest"
proof -
  assume read: "read_ipv6_addr p = Some (gs, rest)"
  obtain front v4 q where f: "read_groups 8 0 p = ((front, v4), q)" by (metis prod.collapse)
  have t: "takes 57 p q" using read_groups_takes[OF f] by simp
  show ?thesis
  proof (cases "length front = 8")
    case True
    then show ?thesis using read f t takes_mono[of 57 p q 200] by (auto simp: read_ipv6_addr_def)
  next
    case False
    then obtain q' where q: "q = 58 # 58 # q'" "\<not> v4"
      using read f by (auto simp: read_ipv6_addr_def split: list.splits if_splits)
    obtain rear v4' r where b: "read_groups (8 - (length front + 1)) 0 q' = ((rear, v4'), r)" by (metis prod.collapse)
    have "takes (5 * (8 - (length front + 1)) + 17) q' r" using read_groups_takes[OF b] by simp
    then have "takes 57 q' r" by (rule takes_mono) simp
    then have "takes 59 q r" using takes_Cons[of 57 q' r 58] takes_Cons[of 58 "58 # q'" r 58] q by simp
    from takes_trans[OF t this] have "takes 200 p r" by (rule takes_mono) simp
    then show ?thesis using read f b q False by (auto simp: read_ipv6_addr_def)
  qed
qed

lemma ascii_text:
  assumes "\<forall>c \<in> set s. c < 128"
  shows "is_str s" and "utf16_count s = length s"
proof -
  have "is_str s \<and> utf16_count s = length s"
    using assms by (induction s) (auto simp: is_str_def is_scalar_value_def utf16_count_Cons utf16_count_def[of "[]"])
  then show "is_str s" and "utf16_count s = length s" by auto
qed

lemma ipv6_text:
  assumes "ipv6_from_str s = Some gs"
  shows "is_str s" and "utf16_count s \<le> 200"
proof -
  have "read_ipv6_addr s = Some (gs, [])"
    using assms by (auto simp: ipv6_from_str_def split: option.splits prod.splits list.splits)
  from read_ipv6_addr_takes[OF this] have "length s \<le> 200" "\<forall>c \<in> set s. c < 128" by (auto simp: takes_def)
  then show "is_str s" and "utf16_count s \<le> 200" by (simp_all add: ascii_text)
qed

section \<open>Accepted addresses\<close>

definition address_ok :: "server_address \<Rightarrow> bool" where
  "address_ok a \<longleftrightarrow>
     is_str (sa_host a) \<and> sa_host a \<noteq> [] \<and> utf16_count (sa_host a) \<le> MAX_LOGICAL_HOST_UTF16_UNITS \<and> sa_port a \<noteq> 0 \<and>
     \<not> list_ex is_whitespace (sa_host a) \<and> 93 \<notin> set (sa_host a) \<and>
     (if sa_ipv6_literal a then ipv6_from_str (sa_host a) \<noteq> None
      else 91 \<notin> set (sa_host a) \<and> 58 \<notin> set (sa_host a) \<and> \<not> list_ex is_control (sa_host a))"

lemma accepted_ok:
  assumes "is_str s" and "server_address_from_str s = Inr a"
  shows "address_ok a"
proof -
  have s: "s \<noteq> []" "\<not> list_ex is_whitespace s" using assms(2) by (auto simp: server_address_from_str_def split: if_splits)
  have port: "DEFAULT_MINECRAFT_PORT \<noteq> 0" by (simp add: DEFAULT_MINECRAFT_PORT_def)
  show ?thesis
  proof (cases "hd s = 91")
    case True
    then have "parse_bracketed_ipv6 (tl s) = Inr a" using assms(2) s by (simp add: server_address_from_str_def)
    then obtain suffix where sp: "split_once 93 (tl s) = Some (sa_host a, suffix)"
      and a: "sa_host a \<noteq> []" "ipv6_from_str (sa_host a) \<noteq> None" "sa_ipv6_literal a" "sa_port a \<noteq> 0"
      using port parse_port_nonzero
      by (auto simp: parse_bracketed_ipv6_def and_also_def split: option.splits prod.splits if_splits sum.splits)
    have h: "tl s = sa_host a @ 93 # suffix" "93 \<notin> set (sa_host a)" using sp by (simp_all add: split_once_Some)
    have "\<not> list_ex is_whitespace (tl s)" using s by (cases s) auto
    then show ?thesis
      using a h ipv6_text[of "sa_host a"] by (auto simp: address_ok_def MAX_LOGICAL_HOST_UTF16_UNITS_def)
  next
    case False
    let ?n = "length (filter (\<lambda>c. c = 58) s)"
    have br: "91 \<notin> set s" "93 \<notin> set s" using assms(2) s False by (auto simp: server_address_from_str_def split: if_splits)
    have v: "validate_host (sa_host a) = Inr ()" "\<not> sa_ipv6_literal a"
      and c: "?n = 0 \<and> sa_host a = s \<and> sa_port a = DEFAULT_MINECRAFT_PORT \<or>
        (\<exists>p. ?n = 1 \<and> split_once 58 s = Some (sa_host a, p) \<and> parse_port p = Inr (sa_port a))"
      using assms s False br
      by (auto simp: server_address_from_str_def colon_bytes and_also_def Let_def
          split: option.splits prod.splits if_splits sum.splits)
    have h: "set (sa_host a) \<subseteq> set s" "58 \<notin> set (sa_host a)" "sa_port a \<noteq> 0"
      using c port parse_port_nonzero by (auto simp: split_once_Some filter_empty_conv)
    have "is_str (sa_host a)" "\<not> list_ex is_whitespace (sa_host a)"
      using assms(1) s(2) h(1) by (auto simp: is_str_def list_all_iff list_ex_iff)
    then show ?thesis
      using v h br by (auto simp: address_ok_def validate_host_def split: if_splits)
  qed
qed

lemma ok_displayed:
  assumes "address_ok a"
  shows "server_address_from_str (display_address a) = Inr a"
proof -
  note chars = decimal_chars[of "unat (sa_port a)"]
  have digits: "\<not> list_ex is_whitespace (decimal (unat (sa_port a)))" "91 \<notin> set (decimal (unat (sa_port a)))"
    "93 \<notin> set (decimal (unat (sa_port a)))" "58 \<notin> set (decimal (unat (sa_port a)))" "is_str (decimal (unat (sa_port a)))"
    using chars by (force simp: list_all_iff list_ex_iff is_decimal_digit_def is_whitespace_def is_str_def is_scalar_value_def)+
  have port: "parse_port (decimal (unat (sa_port a))) = Inr (sa_port a)"
    using assms by (simp add: address_ok_def parse_port_decimal)
  have ws: "\<not> is_whitespace 58" "\<not> is_whitespace 91" "\<not> is_whitespace 93" by (simp_all add: is_whitespace_def)
  show ?thesis
  proof (cases "sa_ipv6_literal a")
    case True
    have "split_once 93 (sa_host a @ [93, 58] @ decimal (unat (sa_port a))) = Some (sa_host a, 58 # decimal (unat (sa_port a)))"
      using assms by (simp add: split_once_Some address_ok_def)
    then have "parse_bracketed_ipv6 (sa_host a @ [93, 58] @ decimal (unat (sa_port a))) = Inr a"
      using assms port True by (simp add: parse_bracketed_ipv6_def address_ok_def and_also_def)
    then show ?thesis
      using assms True digits ws by (simp add: display_address_def server_address_from_str_def address_ok_def)
  next
    case False
    let ?s = "sa_host a @ 58 # decimal (unat (sa_port a))"
    have a: "91 \<notin> set (sa_host a)" "93 \<notin> set (sa_host a)" "58 \<notin> set (sa_host a)" "sa_host a \<noteq> []" "is_str (sa_host a)"
      "\<not> list_ex is_whitespace (sa_host a)" "validate_host (sa_host a) = Inr ()"
      using assms False by (auto simp: address_ok_def validate_host_def)
    have "is_str ?s" using a(5) digits(5) by (simp add: is_str_def is_scalar_value_def)
    moreover have "filter (\<lambda>c. c = 58) (sa_host a) = []" "filter (\<lambda>c. c = 58) (decimal (unat (sa_port a))) = []"
      using a(3) digits(4) by (auto simp: filter_empty_conv)
    ultimately have n: "length (filter (\<lambda>b. b = 58) (as_bytes ?s)) = 1" by (simp add: colon_bytes)
    have hd: "hd ?s \<noteq> 91" using a(1,4) by (cases "sa_host a") auto
    have split: "split_once 58 ?s = Some (sa_host a, decimal (unat (sa_port a)))" using a(3) by (simp add: split_once_Some)
    have "server_address_from_str ?s = Inr \<lparr>sa_host = sa_host a, sa_port = sa_port a, sa_ipv6_literal = False\<rparr>"
      using hd a digits ws n split port
      by (simp only: server_address_from_str_def Let_def) (simp add: and_also_def)
    then show ?thesis using False by (simp add: display_address_def)
  qed
qed

lemma ok_fits_handshake:
  assumes "address_ok a"
  shows "valid_string handshake_limits (sa_host a)"
  using assms str_len_le[of "sa_host a"]
  by (simp add: valid_string_def address_ok_def handshake_limits_def MAX_LOGICAL_HOST_UTF16_UNITS_def
      MAX_HANDSHAKE_HOST_UTF16_UNITS_def string_limits_new_def max_utf16_units_def max_encoded_bytes_def checked_mul_def
      usize_MAX_def i32_MAX_def)

section \<open>Property\<close>

text \<open>
  C31: an accepted server address prints as text that is accepted again, as the same address: host, port and kind of
  address survive, IPv6 literals and names alike. And the host of an accepted address is always one the handshake can
  carry, so no address the player can enter makes the handshake fail to encode.
\<close>

theorem server_address_round_trip:
  assumes "is_str s" and "server_address_from_str s = Inr a"
  shows "server_address_from_str (display_address a) = Inr a \<and> sa_port a \<noteq> 0 \<and>
    (\<exists>frame. encode_handshake (login_handshake (sa_host a) (sa_port a)) MAX_BOOTSTRAP_FRAME_SIZE = Inr frame)"
proof -
  note ok = accepted_ok[OF assms]
  obtain frame where "encode_handshake (login_handshake (sa_host a) (sa_port a)) MAX_BOOTSTRAP_FRAME_SIZE = Inr frame"
    by (rule handshake_framed[OF ok_fits_handshake[OF ok]])
  then show ?thesis using ok_displayed[OF ok] ok by (auto simp: address_ok_def)
qed

lemma server_address_round_trip_witness:
  "let a = \<lparr>sa_host = str ''a.b'', sa_port = 7, sa_ipv6_literal = False\<rparr> in
   server_address_from_str (display_address a) = Inr a \<and> sa_port a \<noteq> 0 \<and>
    (\<exists>frame. encode_handshake (login_handshake (sa_host a) (sa_port a)) MAX_BOOTSTRAP_FRAME_SIZE = Inr frame)"
proof -
  let ?a = "\<lparr>sa_host = str ''a.b'', sa_port = 7, sa_ipv6_literal = False\<rparr>"
  have colons: "length (filter (\<lambda>b. b = 58) (as_bytes (str ''a.b:7''))) = 1"
    by (subst colon_bytes) (simp_all add: is_str_def is_scalar_value_def)
  have "server_address_from_str (str ''a.b:7'') = Inr ?a"
    unfolding server_address_from_str_def Let_def colons
    by (simp add: is_whitespace_def split_once_def and_also_def parse_port_def u16_from_str_def to_digit_def Let_def
        validate_host_def is_control_def utf16_count_def MAX_LOGICAL_HOST_UTF16_UNITS_def)
  from server_address_round_trip[OF _ this] show ?thesis by (simp add: is_str_def is_scalar_value_def)
qed

end
