(* ===== verification/Server_Hash.thy ===== *)
theory Server_Hash
  imports Utf8 Bootstrap
begin

unbundle bit_operations_syntax

text \<open>
  \<open>cubic-network/src/online_crypto.rs\<close>: the keys of an encrypted connection and the hash that names it to the session
  server. RSA, SHA-1 and the random bytes of the operating system are crates, the fields of a record of parameters.
\<close>

section \<open>Keys\<close>

datatype online_crypto_error = InvalidPublicKey | InvalidRsaKeySize nat | RsaEncryption

text \<open>\<open>'rng\<close> is the state of the random source: filling a buffer and padding a message draw from it.\<close>

record ('key, 'rng) crypto_crates =
  cc_from_public_key_der :: "u8 list \<Rightarrow> 'key option"
  cc_bits :: "'key \<Rightarrow> nat"
  cc_fill_bytes :: "nat \<Rightarrow> 'rng \<Rightarrow> u8 list \<times> 'rng"
  cc_rsa_encrypt :: "'key \<Rightarrow> u8 list \<Rightarrow> 'rng \<Rightarrow> u8 list option \<times> 'rng"
  cc_sha1 :: "u8 list \<Rightarrow> u8 list"

record encryption_material =
  em_shared_secret :: "u8 list"
  em_encrypted_secret :: "u8 list"
  em_encrypted_verify_token :: "u8 list"

definition rsa_encrypt :: "('key, 'rng) crypto_crates \<Rightarrow> 'key \<Rightarrow> u8 list \<Rightarrow> ('rng, online_crypto_error, u8 list) fallible" where
  "rsa_encrypt crypto key bytes rng =
     (case cc_rsa_encrypt crypto key bytes rng of
        (None, rng') \<Rightarrow> (Inl RsaEncryption, rng') | (Some cipher, rng') \<Rightarrow> (Inr cipher, rng'))"

definition prepare_encryption ::
  "('key, 'rng) crypto_crates \<Rightarrow> u8 list \<Rightarrow> u8 list \<Rightarrow> ('rng, online_crypto_error, encryption_material) fallible" where
  "prepare_encryption crypto public_key_der verify_token =
     (case cc_from_public_key_der crypto public_key_der of
        None \<Rightarrow> fail InvalidPublicKey
      | Some key \<Rightarrow>
          if cc_bits crypto key < 1024 \<or> 4096 < cc_bits crypto key then fail (InvalidRsaKeySize (cc_bits crypto key))
          else
            and_then (\<lambda>rng. case cc_fill_bytes crypto 16 rng of (secret, rng') \<Rightarrow> (Inr secret, rng')) (\<lambda>shared_secret.
            and_then (rsa_encrypt crypto key shared_secret) (\<lambda>encrypted_secret.
            and_then (rsa_encrypt crypto key verify_token) (\<lambda>encrypted_verify_token.
            ok \<lparr>em_shared_secret = shared_secret, em_encrypted_secret = encrypted_secret,
                em_encrypted_verify_token = encrypted_verify_token\<rparr>))))"

section \<open>The server hash\<close>

definition hex_char :: "nat \<Rightarrow> nat" where
  "hex_char d = (if d < 10 then 48 + d else 87 + d)"

text \<open>\<open>{byte:x}\<close> and \<open>{byte:02x}\<close>.\<close>

definition hex_padded :: "u8 \<Rightarrow> rust_str" where
  "hex_padded b = [hex_char (unat b div 16), hex_char (unat b mod 16)]"

definition hex_byte :: "u8 \<Rightarrow> rust_str" where
  "hex_byte b = (if unat b < 16 then [hex_char (unat b)] else hex_padded b)"

text \<open>Adding one, the least significant byte first: the loop stops at the first byte that does not overflow.\<close>

fun add_one :: "u8 list \<Rightarrow> u8 list" where
  "add_one [] = []"
| "add_one (b # bs) = (if b + 1 = 0 then 0 # add_one bs else (b + 1) # bs)"

definition signed_twos_complement_hex :: "u8 list \<Rightarrow> rust_str" where
  "signed_twos_complement_hex digest =
     (let negative = (digest \<noteq> [] \<and> hd digest AND 0x80 \<noteq> 0);
          magnitude = (if negative then rev (add_one (rev (map (\<lambda>b. NOT b) digest))) else digest)
      in case dropWhile (\<lambda>b. b = 0) magnitude of
           [] \<Rightarrow> str ''0''
         | b # bs \<Rightarrow> (if negative then str ''-'' else []) @ hex_byte b @ concat (map hex_padded bs))"

definition minecraft_server_hash :: "('key, 'rng) crypto_crates \<Rightarrow> rust_str \<Rightarrow> u8 list \<Rightarrow> u8 list \<Rightarrow> rust_str" where
  "minecraft_server_hash crypto server_id shared_secret public_key_der =
     signed_twos_complement_hex (cc_sha1 crypto (as_bytes server_id @ shared_secret @ public_key_der))"

section \<open>The number a digest spells\<close>

text \<open>What Java prints: the digest as a signed big-endian number, in base 16.\<close>

definition big_endian :: "u8 list \<Rightarrow> nat" where
  "big_endian bs = foldl (\<lambda>a b. a * 256 + unat b) 0 bs"

definition signed_big_endian :: "u8 list \<Rightarrow> int" where
  "signed_big_endian bs =
     (if bs \<noteq> [] \<and> 128 \<le> unat (hd bs) then int (big_endian bs) - 256 ^ length bs else int (big_endian bs))"

fun hexadecimal :: "nat \<Rightarrow> rust_str" where
  "hexadecimal n = (if n < 16 then [hex_char n] else hexadecimal (n div 16) @ [hex_char (n mod 16)])"

declare hexadecimal.simps [simp del]

definition signed_hexadecimal :: "int \<Rightarrow> rust_str" where
  "signed_hexadecimal z = (if z < 0 then str ''-'' else []) @ hexadecimal (nat \<bar>z\<bar>)"

lemma big_endian_snoc: "big_endian (bs @ [b]) = big_endian bs * 256 + unat b"
  by (simp add: big_endian_def)

lemma big_endian_Cons: "big_endian (b # bs) = unat b * 256 ^ length bs + big_endian bs"
proof (induction bs rule: rev_induct)
  case (snoc x bs)
  have "big_endian (b # bs @ [x]) = big_endian (b # bs) * 256 + unat x"
    using big_endian_snoc[of "b # bs" x] by simp
  then show ?case using snoc by (simp add: big_endian_snoc algebra_simps)
qed (simp add: big_endian_def)

lemma big_endian_bound: "big_endian bs < 256 ^ length bs"
proof (induction bs rule: rev_induct)
  case (snoc b bs)
  have "unat b < 256" using unsigned_less[of b, where ?'a = nat] by simp
  then show ?case using snoc by (simp add: big_endian_snoc)
qed (simp add: big_endian_def)

lemma big_endian_strip: "big_endian (dropWhile (\<lambda>b. b = 0) bs) = big_endian bs"
  by (induction bs) (simp_all add: big_endian_Cons)

lemma byte_lt: "unat (b :: u8) < 256"
  using unsigned_less[of b, where ?'a = nat] by simp

lemma byte_zero: "b = 0 \<longleftrightarrow> unat (b :: u8) = 0"
  by (auto simp: unsigned_eq_0_iff)

lemma byte_add_one: "unat (b + 1 :: u8) = (unat b + 1) mod 256"
  by (simp add: unat_word_ariths(1))

lemma byte_overflow: "b + 1 = 0 \<longleftrightarrow> unat (b :: u8) = 255"
proof -
  have "x < 256 \<Longrightarrow> (x + 1) mod 256 = 0 \<longleftrightarrow> x = 255" for x :: nat by presburger
  from this[OF byte_lt[of b]] show ?thesis by (simp only: byte_zero byte_add_one)
qed

lemma byte_not: "unat (NOT b :: u8) = 255 - unat b"
proof -
  have "NOT b = - 1 - b" by (simp add: not_eq_complement)
  moreover have "unat (- 1 - b) = unat (- 1 :: u8) - unat b" using unat_sub word_n1_ge by blast
  moreover have "unat (- 1 :: u8) = 255" by (simp add: unsigned_minus_1_eq_mask mask_eq_exp_minus_1)
  ultimately show ?thesis by simp
qed

lemma big_endian_complement: "big_endian (map (\<lambda>b. NOT b) bs) = 256 ^ length bs - 1 - big_endian bs"
proof (induction bs rule: rev_induct)
  case (snoc b bs)
  then show ?case using big_endian_bound[of bs] byte_lt[of b] by (simp add: big_endian_snoc byte_not)
qed (simp add: big_endian_def)

lemma big_endian_add_one: "big_endian (rev (add_one (rev bs))) = (big_endian bs + 1) mod 256 ^ length bs"
proof (induction bs rule: rev_induct)
  case (snoc b bs)
  show ?case
  proof (cases "b + 1 = 0")
    case True
    then have "unat b = 255" by (simp only: byte_overflow)
    then have "(big_endian (bs @ [b]) + 1) mod 256 ^ length (bs @ [b]) = ((big_endian bs + 1) * 256) mod (256 ^ length bs * 256)"
      by (simp add: big_endian_snoc algebra_simps)
    also have "\<dots> = (big_endian bs + 1) mod 256 ^ length bs * 256" by (rule mod_mult_mult2)
    finally show ?thesis using snoc True by (simp add: big_endian_snoc)
  next
    case False
    then have b: "unat b + 1 < 256" using byte_lt[of b] by (simp only: byte_overflow)
    have "(big_endian bs + 1) * 256 \<le> 256 ^ length bs * 256"
      using big_endian_bound[of bs] by (intro mult_right_mono) simp_all
    then have "big_endian bs * 256 + (unat b + 1) < 256 ^ length bs * 256" using b by simp
    moreover have "unat (b + 1) = unat b + 1" using b by (simp add: byte_add_one)
    ultimately show ?thesis using False by (simp add: big_endian_snoc mult.commute[of 256])
  qed
qed (simp add: big_endian_def)

lemma hexadecimal_snoc: "0 < n \<Longrightarrow> hexadecimal (n * 256 + unat b) = hexadecimal n @ hex_padded (b :: u8)"
proof -
  assume n: "0 < n"
  define h l where "h = unat b div 16" and "l = unat b mod 16"
  have hl: "h < 16" "l < 16" "unat b = h * 16 + l"
    using byte_lt[of b] by (simp_all add: h_def l_def less_mult_imp_div_less)
  have e: "n * 256 + unat b = (n * 16 + h) * 16 + l" using hl(3) by simp
  have "((n * 16 + h) * 16 + l) div 16 = n * 16 + h" "((n * 16 + h) * 16 + l) mod 16 = l"
    "(n * 16 + h) div 16 = n" "(n * 16 + h) mod 16 = h"
    using hl(1,2) by (simp_all only: mod_mult_self3 div_mult_self3 mod_less div_less)
  then have "hexadecimal ((n * 16 + h) * 16 + l) = hexadecimal n @ [hex_char h, hex_char l]"
    using n by (simp only: hexadecimal.simps[of "(n * 16 + h) * 16 + l"] hexadecimal.simps[of "n * 16 + h"]) simp
  then show ?thesis by (simp only: e hex_padded_def h_def[symmetric] l_def[symmetric])
qed

lemma hexadecimal_bytes: "b \<noteq> 0 \<Longrightarrow> hex_byte b @ concat (map hex_padded bs) = hexadecimal (big_endian (b # bs))"
proof (induction bs rule: rev_induct)
  case Nil
  have "hex_byte b = hexadecimal (unat b)"
    using byte_lt[of b] less_mult_imp_div_less[of "unat b" 16 16]
    by (simp add: hex_byte_def hex_padded_def hexadecimal.simps[of "unat b"] hexadecimal.simps[of "unat b div 16"])
  then show ?case by (simp add: big_endian_def)
next
  case (snoc x bs)
  have "0 < big_endian (b # bs)" using snoc.prems byte_zero[of b] by (simp add: big_endian_Cons)
  from hexadecimal_snoc[OF this, of x] show ?case
    using snoc big_endian_snoc[of "b # bs" x] by simp
qed

lemma hexadecimal_magnitude:
  "(case dropWhile (\<lambda>b. b = 0) bs of [] \<Rightarrow> str ''0'' | b # bs' \<Rightarrow> sig @ hex_byte b @ concat (map hex_padded bs')) =
   (if big_endian bs = 0 then str ''0'' else sig @ hexadecimal (big_endian bs))"
proof (cases "dropWhile (\<lambda>b. b = 0) bs")
  case Nil
  have "big_endian bs = big_endian (dropWhile (\<lambda>b. b = 0) bs)" by (simp only: big_endian_strip)
  also have "\<dots> = 0" unfolding Nil by (simp add: big_endian_def)
  finally have "big_endian bs = 0" .
  then show ?thesis unfolding Nil by simp
next
  case (Cons b bs')
  have b: "b \<noteq> 0" using Cons hd_dropWhile[of "\<lambda>b. b = 0" bs] by auto
  then have "0 < big_endian (b # bs')" using byte_zero[of b] by (simp add: big_endian_Cons)
  moreover have "big_endian bs = big_endian (b # bs')" using big_endian_strip[of bs] Cons by simp
  ultimately have "big_endian bs = big_endian (b # bs')" "0 < big_endian (b # bs')" by simp_all
  then show ?thesis using Cons hexadecimal_bytes[OF b, of bs'] by simp
qed

lemma bit7: "x < 256 \<Longrightarrow> odd (x div 2 ^ 7) \<longleftrightarrow> 128 \<le> (x :: nat)"
proof -
  assume x: "x < 256"
  have "x div 128 = (if 128 \<le> x then 1 else 0)"
    using x by (cases "128 \<le> x") (simp_all add: div_nat_eqI)
  moreover have "(2 :: nat) ^ 7 = 128" by simp
  ultimately show ?thesis by (simp only:) simp
qed

lemma sign_bit: "(b :: u8) AND 0x80 \<noteq> 0 \<longleftrightarrow> 128 \<le> unat b"
proof -
  have "(0x80 :: u8) = 2 ^ 7" by simp
  then have "b AND 0x80 \<noteq> 0 \<longleftrightarrow> bit b 7" by (simp only: and_exp_eq_0_iff_not_bit not_not)
  also have "\<dots> \<longleftrightarrow> bit (unat b) 7" by (simp only: bit_unsigned_iff possible_bit_nat simp_thms)
  also have "\<dots> \<longleftrightarrow> odd (unat b div 2 ^ 7)" by (simp only: bit_iff_odd)
  also have "\<dots> \<longleftrightarrow> 128 \<le> unat b" by (rule bit7[OF byte_lt[of b]])
  finally show ?thesis .
qed

section \<open>Property\<close>

text \<open>
  C33: the hash that names a connection to the session server is the SHA-1 digest printed as Java prints a signed number
  in base 16: whatever the digest, the complement, the carry and the stripped zeros give the canonical hexadecimal of
  its two's complement value, with a minus sign exactly when that is negative.
\<close>

theorem server_hash_is_signed_hexadecimal:
  "minecraft_server_hash crypto server_id secret key =
     signed_hexadecimal (signed_big_endian (cc_sha1 crypto (as_bytes server_id @ secret @ key)))"
proof -
  define d where "d = cc_sha1 crypto (as_bytes server_id @ secret @ key)"
  let ?m = "rev (add_one (rev (map (\<lambda>b. NOT b) d)))"
  have "signed_twos_complement_hex d = signed_hexadecimal (signed_big_endian d)"
  proof (cases "d \<noteq> [] \<and> 128 \<le> unat (hd d)")
    case True
    then obtain b bs where d: "d = b # bs" "128 \<le> unat b" by (cases d) auto
    have "0 < big_endian d" using d by (simp add: big_endian_Cons)
    then have m: "big_endian ?m = 256 ^ length d - big_endian d"
      using big_endian_bound[of d] by (simp add: big_endian_add_one big_endian_complement)
    then have pos: "0 < big_endian ?m" using big_endian_bound[of d] by simp
    have "signed_big_endian d = - int (big_endian ?m)"
      using True big_endian_bound[of d] m by (simp add: signed_big_endian_def of_nat_diff)
    then have "signed_hexadecimal (signed_big_endian d) = str ''-'' @ hexadecimal (big_endian ?m)"
      using pos by (simp add: signed_hexadecimal_def)
    moreover have "signed_twos_complement_hex d = str ''-'' @ hexadecimal (big_endian ?m)"
      using True pos hexadecimal_magnitude[of "str ''-''" ?m]
      by (simp only: signed_twos_complement_hex_def sign_bit Let_def simp_thms if_True) simp
    ultimately show ?thesis by simp
  next
    case False
    then have "signed_big_endian d = int (big_endian d)" by (auto simp: signed_big_endian_def)
    moreover have "hexadecimal 0 = str ''0''" by (simp add: hexadecimal.simps[of 0] hex_char_def)
    ultimately show ?thesis
      using False hexadecimal_magnitude[of "[]" d]
      by (simp only: signed_twos_complement_hex_def sign_bit Let_def simp_thms if_False signed_hexadecimal_def) simp
  qed
  then show ?thesis by (simp add: minecraft_server_hash_def d_def)
qed

end
