(* ===== verification/Online_Login.thy ===== *)
theory Online_Login
  imports Login Server_Hash Secure_Chat Cubic_Prelude
begin

text \<open>
  \<open>cubic-network/src/online_login.rs\<close>: the login of an account of the session server. The conversation of \<open>Login\<close> with
  encryption and compression, the random source the keys are drawn from, and the hashes the session server was asked to
  accept, in order. The session server and the random source are the environment.
\<close>

datatype ('io, 'auth) online_login_error =
    Al_Transport "'io login_error"
  | Al_Protocol bootstrap_error
  | Al_Authentication 'auth
  | Al_Cryptography online_crypto_error
  | Al_ServerDisconnect rust_str
  | Al_ProfileMismatch
  | Al_PacketLimit nat

record online_account =
  oa_name :: rust_str
  oa_id :: "u8 list"

record ('io, 'enc, 'dec, 'key, 'rng, 'auth) online_env =
  oe_login :: "('io, 'enc, 'dec) login_env"
  oe_crypto :: "('key, 'rng) crypto_crates"
  oe_join_server :: "rust_str \<Rightarrow> 'auth + unit"

record ('io, 'enc, 'dec, 'rng) online_conversation =
  on_conversation :: "('io, 'enc, 'dec) conversation"
  on_rng :: 'rng
  on_asked :: "rust_str list"
  on_compression_enabled :: bool

type_synonym ('io, 'enc, 'dec, 'rng, 'auth, 'a) online_op =
  "(('io, 'enc, 'dec, 'rng) online_conversation, ('io, 'auth) online_login_error, 'a) fallible"

record online_login_result =
  or_initial_login :: initial_play_login
  or_dimension_types :: "runtime_dimension_type list"
  or_biomes :: "runtime_biome list"
  or_secure_chat_rules :: secure_chat_rules
  or_profile_name :: rust_str
  or_profile_uuid :: protocol_uuid
  or_state :: connection_state
  or_compression_enabled :: bool

section \<open>Effects\<close>

text \<open>What fails below the login protocol is reported by its message, as a failure of the transport.\<close>

definition online_transport :: "('io, 'enc, 'dec, 'a) login_op \<Rightarrow> ('io, 'enc, 'dec, 'rng, 'auth, 'a) online_op" where
  "online_transport m s =
     (case m (on_conversation s) of
        (Inl e, c) \<Rightarrow> (Inl (Al_Transport e), s\<lparr>on_conversation := c\<rparr>)
      | (Inr v, c) \<Rightarrow> (Inr v, s\<lparr>on_conversation := c\<rparr>))"

definition on_connection ::
  "(('enc, 'dec) minecraft_connection, 'io connection_error, unit) fallible \<Rightarrow> ('io, 'enc, 'dec, unit) login_op" where
  "on_connection m c =
     (case m (cv_connection c) of
        (Inl e, d) \<Rightarrow> (Inl (Le_Connection e), c\<lparr>cv_connection := d\<rparr>)
      | (Inr _, d) \<Rightarrow> (Inr (), c\<lparr>cv_connection := d\<rparr>))"

definition online_write ::
  "('io, 'enc, 'dec, 'key, 'rng, 'auth) online_env \<Rightarrow> bootstrap_error + u8 list \<Rightarrow>
   ('io, 'enc, 'dec, 'rng, 'auth, unit) online_op" where
  "online_write env packet =
     (case packet of Inl e \<Rightarrow> fail (Al_Protocol e) | Inr bytes \<Rightarrow> online_transport (send_bytes (oe_login env) bytes))"

definition online_keys ::
  "('io, 'enc, 'dec, 'key, 'rng, 'auth) online_env \<Rightarrow> encryption_request \<Rightarrow>
   ('io, 'enc, 'dec, 'rng, 'auth, encryption_material) online_op" where
  "online_keys env request s =
     (case prepare_encryption (oe_crypto env) (er_public_key_der request) (er_verify_token request) (on_rng s) of
        (Inl e, rng) \<Rightarrow> (Inl (Al_Cryptography e), s\<lparr>on_rng := rng\<rparr>)
      | (Inr material, rng) \<Rightarrow> (Inr material, s\<lparr>on_rng := rng\<rparr>))"

definition join_server ::
  "('io, 'enc, 'dec, 'key, 'rng, 'auth) online_env \<Rightarrow> rust_str \<Rightarrow> ('io, 'enc, 'dec, 'rng, 'auth, unit) online_op" where
  "join_server env hash s =
     (let s' = s\<lparr>on_asked := on_asked s @ [hash]\<rparr> in
      case oe_join_server env hash of Inl e \<Rightarrow> (Inl (Al_Authentication e), s') | Inr _ \<Rightarrow> (Inr (), s'))"

definition note_compression :: "('io, 'enc, 'dec, 'rng, 'auth, unit) online_op" where
  "note_compression s = (Inr (), s\<lparr>on_compression_enabled := True\<rparr>)"

section \<open>The packets of the login\<close>

definition bounded :: "rust_str \<Rightarrow> rust_str" where
  "bounded v = (let r = take 512 (filter (\<lambda>c. \<not> is_control c) v) in if r = [] then str ''<no safe reason>'' else r)"

definition account_uuid :: "online_account \<Rightarrow> protocol_uuid" where
  "account_uuid account = uuid_from_u128 (from_be_bytes (oa_id account))"

definition answer_encryption ::
  "('io, 'enc, 'dec, 'key, 'rng, 'auth) online_env \<Rightarrow> encryption_request \<Rightarrow>
   ('io, 'enc, 'dec, 'rng, 'auth, unit) online_op" where
  "answer_encryption env request =
     and_then (online_keys env request) (\<lambda>material.
     and_then (if er_should_authenticate request
               then join_server env (minecraft_server_hash (oe_crypto env) (er_server_id request)
                      (em_shared_secret material) (er_public_key_der request))
               else ok ()) (\<lambda>_.
     and_then (online_write env (encode_encryption_response (em_encrypted_secret material) (em_encrypted_verify_token material))) (\<lambda>_.
     online_transport (on_connection (connection_enable_encryption (le_crates (oe_login env)) (em_shared_secret material))))))"

definition secure_chat_profile :: secure_chat_rules where
  "secure_chat_profile =
     \<lparr>chain_version = 1, last_seen_capacity = MAX_LAST_SEEN_MESSAGES, standalone_threshold = 64\<rparr>"

definition finish_login ::
  "('io, 'enc, 'dec, 'key, 'rng, 'auth) online_env \<Rightarrow> online_account \<Rightarrow> login_success \<Rightarrow>
   ('io, 'enc, 'dec, 'rng, 'auth, online_login_result) online_op" where
  "finish_login env account success =
     (if lsu_username success \<noteq> oa_name account \<or> lsu_uuid success \<noteq> account_uuid account then fail Al_ProfileMismatch
      else
        and_then (online_write env encode_login_acknowledged) (\<lambda>_.
        and_then (online_transport (transition State_Login State_Configuration)) (\<lambda>_.
        and_then (online_write env (encode_client_information client_information_default)) (\<lambda>_.
        and_then (online_transport (run_configuration (oe_login env))) (\<lambda>configuration.
        (\<lambda>s. (Inr \<lparr>or_initial_login = co_initial_login configuration,
                    or_dimension_types = cd_dimension_types (co_data configuration),
                    or_biomes = cd_biomes (co_data configuration), or_secure_chat_rules = secure_chat_profile,
                    or_profile_name = oa_name account, or_profile_uuid = account_uuid account,
                    or_state = cv_state (on_conversation s),
                    or_compression_enabled = on_compression_enabled s\<rparr>, s)))))))"

text \<open>One packet: \<open>None\<close> when the login goes on.\<close>

definition online_packet ::
  "('io, 'enc, 'dec, 'key, 'rng, 'auth) online_env \<Rightarrow> online_account \<Rightarrow> login_clientbound \<Rightarrow>
   ('io, 'enc, 'dec, 'rng, 'auth, online_login_result option) online_op" where
  "online_packet env account packet =
     (case packet of
        Login_Disconnect reason \<Rightarrow> fail (Al_ServerDisconnect (bounded reason))
      | Login_EncryptionRequest request \<Rightarrow> and_then (answer_encryption env request) (\<lambda>_. ok None)
      | Login_SetCompression threshold \<Rightarrow>
          and_then (online_transport (on_connection (connection_enable_compression threshold))) (\<lambda>_.
          and_then note_compression (\<lambda>_. ok None))
      | Login_PluginRequest transaction _ _ \<Rightarrow>
          and_then (online_write env (encode_login_plugin_response transaction)) (\<lambda>_. ok None)
      | Login_CookieRequest key \<Rightarrow> and_then (online_write env (encode_login_cookie_response key)) (\<lambda>_. ok None)
      | Login_Success success \<Rightarrow> and_then (finish_login env account success) (\<lambda>result. ok (Some result)))"

fun online_loop ::
  "nat \<Rightarrow> ('io, 'enc, 'dec, 'key, 'rng, 'auth) online_env \<Rightarrow> online_account \<Rightarrow>
   ('io, 'enc, 'dec, 'rng, 'auth, online_login_result) online_op" where
  "online_loop 0 env account = fail (Al_PacketLimit MAX_LOGIN_PACKETS)"
| "online_loop (Suc n) env account =
     and_then (online_transport (read_frame (oe_login env) ''authenticated Login packet read'')) (\<lambda>frame.
     and_then (map_err Al_Protocol (lift_result (decode_login_clientbound (le_nbt (oe_login env)) frame))) (\<lambda>packet.
     and_then (online_packet env account packet) (\<lambda>result.
     case result of Some r \<Rightarrow> ok r | None \<Rightarrow> online_loop n env account)))"

section \<open>The login\<close>

definition online_start ::
  "('io, 'enc, 'dec, 'key, 'rng, 'auth) online_env \<Rightarrow> rust_str \<Rightarrow> u16 \<Rightarrow> online_account \<Rightarrow>
   ('io, 'enc, 'dec, 'rng, 'auth, unit) online_op" where
  "online_start env host port account =
     and_then (online_transport (map_err Le_Framing (lift_result
       (encode_handshake (login_handshake host port) MAX_BOOTSTRAP_FRAME_SIZE)))) (\<lambda>bytes.
     and_then (online_transport (send_bytes (oe_login env) bytes)) (\<lambda>_.
     and_then (online_transport (transition State_Handshake State_Login)) (\<lambda>_.
     online_write env (encode_login_start (oa_name account) (account_uuid account)))))"

definition authenticated_login ::
  "('io, 'enc, 'dec, 'key, 'rng, 'auth) online_env \<Rightarrow> rust_str \<Rightarrow> u16 \<Rightarrow> online_account \<Rightarrow>
   ('io, 'enc, 'dec, 'rng, 'auth, online_login_result) online_op" where
  "authenticated_login env host port account =
     and_then (online_start env host port account) (\<lambda>_. online_loop MAX_LOGIN_PACKETS env account)"

definition online_conversation_new :: "frame_limits \<Rightarrow> ('io + u8 list) list \<Rightarrow> 'rng \<Rightarrow> ('io, 'enc, 'dec, 'rng) online_conversation" where
  "online_conversation_new l reads rng =
     \<lparr>on_conversation = conversation_new l reads, on_rng = rng, on_asked = [], on_compression_enabled = False\<rparr>"

end
