(* ===== verification/Online_Login_Props.thy ===== *)
theory Online_Login_Props
  imports Online_Login
begin

text \<open>
  What a successful authenticated login says: the profile is the account's, the connection is in the play phase, the
  reported compression is the connection's, and the session server accepted every hash it was shown.
\<close>

section \<open>Compression through the conversation\<close>

abbreviation compression_is :: "nat option \<Rightarrow> ('io, 'enc, 'dec) conversation \<Rightarrow> bool" where
  "compression_is th c \<equiv> compression_threshold (transforms (cv_connection c)) = th"

lemma decrypt_in_place_compression: "compression_threshold (snd (decrypt_in_place env bs t)) = compression_threshold t"
  by (simp add: decrypt_in_place_def split: option.split prod.split)

lemma read_next_frame_compression:
  "read_next_frame env alloc phase reads c = Some (r, reads', c') \<Longrightarrow>
     compression_threshold (transforms c') = compression_threshold (transforms c)"
proof (induction reads arbitrary: c)
  case Nil
  obtain res d where n: "next_frame alloc (decoder c) = (res, d)" by fastforce
  from Nil show ?case
    by (cases res) (auto simp: read_next_frame.simps[of env alloc phase "[]"] n split: option.splits)
next
  case (Cons x xs)
  obtain res d where n: "next_frame alloc (decoder c) = (res, d)" by fastforce
  note eq = Cons.prems[unfolded read_next_frame.simps[of env alloc phase "x # xs"] n]
  show ?case
  proof (cases "res = Inr None")
    case None: True
    show ?thesis
    proof (cases x)
      case (Inr bytes)
      obtain plain t where dec: "decrypt_in_place env bytes (transforms c) = (plain, t)" by fastforce
      obtain pushed d' where p: "push alloc plain d = (pushed, d')" by fastforce
      have t: "compression_threshold t = compression_threshold (transforms c)"
        using decrypt_in_place_compression[of env bytes "transforms c"] dec by simp
      show ?thesis
      proof (cases "bytes = [] \<or> READ_BUFFER_SIZE < length bytes \<or> (\<exists>e. pushed = Inl e)")
        case True
        then show ?thesis using eq t by (auto simp: None Inr dec p Let_def split: if_splits)
      next
        case False
        then have "read_next_frame env alloc phase xs (c\<lparr>decoder := d, decoder := d', transforms := t\<rparr>) = Some (r, reads', c')"
          using eq by (cases pushed) (auto simp: None Inr dec p Let_def)
        from Cons.IH[OF this] show ?thesis using t by simp
      qed
    qed (use eq None in auto)
  next
    case False
    with eq show ?thesis by (cases res) (auto split: option.splits)
  qed
qed

lemma encode_outbound_compression: "compression_threshold (snd (encode_outbound env alloc bs t)) = compression_threshold t"
  by (auto simp: encode_outbound_def split: sum.splits option.splits prod.splits if_splits)

named_theorems conversation_intros \<open>what login steps leave alone\<close>

lemma keeps_read_frame [conversation_intros]: "keeps (compression_is th) (read_frame env phase)"
  by (rule keepsI) (auto simp: read_frame_def dest: read_next_frame_compression split: option.splits sum.splits prod.splits)

lemma keeps_send_bytes [conversation_intros]: "keeps (compression_is th) (send_bytes env bytes)"
proof (rule keepsI)
  fix s :: "('a, 'b, 'c) conversation" assume s: "compression_is th s"
  obtain r t where "encode_outbound (le_crates env) (le_reserve env) bytes (transforms (cv_connection s)) = (r, t)" by fastforce
  then show "compression_is th (snd (send_bytes env bytes s))"
    using s encode_outbound_compression[of "le_crates env" "le_reserve env" bytes "transforms (cv_connection s)"]
    by (cases r) (auto simp: send_bytes_def write_all_def)
qed

lemma keeps_send_packet [conversation_intros]: "keeps (compression_is th) (send_packet env packet)"
  by (cases packet) (simp_all add: send_packet_def keeps_fail keeps_send_bytes)

lemma keeps_conversation_end [conversation_intros]:
  "keeps (compression_is th) (transition a b)" "keeps (compression_is th) (server_disconnect reason)"
  "keeps (compression_is th) (packet_limit n)"
  by (simp_all add: keeps_def transition_def server_disconnect_def packet_limit_def)

lemma keeps_decode_with [conversation_intros]: "keeps (compression_is th) (decode_with dec env frame)"
  by (simp add: decode_with_def keeps_map_err keeps_lift)

lemma keeps_configuration [conversation_intros]:
  "keeps (compression_is th) (configuration_packet env packet d)"
  by (cases packet) (auto simp: configuration_packet_def Let_def intro!: keeps_intros conversation_intros)

lemma keeps_configuration_loop [conversation_intros]: "keeps (compression_is th) (configuration_loop n env d)"
  by (induction n arbitrary: d) (auto intro!: keeps_intros conversation_intros split: prod.split)

lemma keeps_acceptance [conversation_intros]: "keeps (compression_is th) (acceptance_packet env packet loaded)"
  by (cases packet) (auto simp: acceptance_packet_def Let_def intro!: keeps_intros conversation_intros)

lemma keeps_acceptance_loop [conversation_intros]: "keeps (compression_is th) (acceptance_loop n env loaded)"
  by (induction n arbitrary: loaded) (auto intro!: keeps_intros conversation_intros split: prod.split)

lemma keeps_run_configuration [conversation_intros]: "keeps (compression_is th) (run_configuration env)"
proof -
  have "keeps (compression_is th) (configuration_rounds n env d)" for n d
    by (induction n arbitrary: d)
      (auto simp: Let_def run_configuration_phase_def await_initial_play_login_def
        intro!: keeps_intros conversation_intros split: play_acceptance.split)
  then show ?thesis unfolding run_configuration_def .
qed

section \<open>The state a configuration ends in\<close>

definition ends :: "('s \<Rightarrow> bool) \<Rightarrow> ('s, 'e, 'a) fallible \<Rightarrow> ('a \<Rightarrow> 's \<Rightarrow> bool) \<Rightarrow> bool" where
  "ends P m Q \<longleftrightarrow> (\<forall>s v t. P s \<longrightarrow> m s = (Inr v, t) \<longrightarrow> Q v t)"

lemma ends_and_then: "ends P m Q \<Longrightarrow> (\<And>v. ends (Q v) (k v) R) \<Longrightarrow> ends P (and_then m k) R"
  by (auto simp: ends_def and_then_def split: sum.splits prod.splits)

lemma ends_ok: "(\<And>s. P s \<Longrightarrow> Q v s) \<Longrightarrow> ends P (ok v) Q"
  by (auto simp: ends_def ok_def)

lemma ends_fail: "ends P (fail e) Q"
  by (auto simp: ends_def fail_def)

lemma ends_keeps: "keeps P m \<Longrightarrow> ends P m (\<lambda>_. P)"
  by (auto simp: ends_def dest: keeps_run)

abbreviation phase_is :: "connection_state \<Rightarrow> ('io, 'enc, 'dec) conversation \<Rightarrow> bool" where
  "phase_is a c \<equiv> cv_state c = a"

lemma keeps_phase [conversation_intros]:
  "keeps (phase_is a) (read_frame env phase)" "keeps (phase_is a) (send_packet env packet)"
  "keeps (phase_is a) (decode_with dec env frame)"
proof -
  show "keeps (phase_is a) (read_frame env phase)"
    by (rule keepsI) (auto simp: read_frame_def split: option.splits sum.splits prod.splits)
  have "keeps (phase_is a) (send_bytes env bytes)" for bytes
    by (rule keepsI) (auto simp: send_bytes_def split: sum.splits prod.splits)
  then show "keeps (phase_is a) (send_packet env packet)"
    by (cases packet) (simp_all add: send_packet_def keeps_fail)
  show "keeps (phase_is a) (decode_with dec env frame)"
    by (simp add: decode_with_def keeps_map_err keeps_lift)
qed

lemma ends_true: "(\<And>s. ends (\<lambda>t. t = s) m Q) \<Longrightarrow> ends P m Q"
  by (auto simp: ends_def)

lemma ends_skip: "ends (\<lambda>_. True) k Q \<Longrightarrow> ends P k Q"
  by (auto simp: ends_def)

lemma ends_after: "(\<And>v. ends (\<lambda>_. True) (k v) Q) \<Longrightarrow> ends P (and_then m k) Q"
  by (rule ends_and_then[where Q = "\<lambda>_ _. True"]) (auto simp: ends_def)

lemma ends_transition: "ends P (transition a b) (\<lambda>_. phase_is b)"
  by (auto simp: ends_def transition_def split: if_splits)

lemma ends_disconnect: "ends P (server_disconnect reason) Q"
  by (auto simp: ends_def server_disconnect_def)

lemma ends_configuration_packet:
  "ends P (configuration_packet env packet d) (\<lambda>(finished, _) c. finished \<longrightarrow> cv_state c = State_Play)"
proof (cases packet)
  case Config_Finish
  show ?thesis
    unfolding configuration_packet_def Config_Finish Let_def configuration_clientbound.case
    by (rule ends_after, rule ends_and_then[OF ends_transition], rule ends_ok) simp
qed (auto simp: configuration_packet_def Let_def intro!: ends_disconnect ends_after ends_ok ends_fail)

lemma ends_configuration_loop: "ends P (configuration_loop n env d) (\<lambda>_. phase_is State_Play)"
proof (induction n arbitrary: P d)
  case (Suc n)
  have "ends (\<lambda>c. finished \<longrightarrow> cv_state c = State_Play) (if finished then ok d' else configuration_loop n env d')
      (\<lambda>_. phase_is State_Play)" for finished and d' :: configuration_data
    using Suc.IH by (cases finished) (auto intro: ends_ok)
  then have "ends (case v of (finished, _) \<Rightarrow> \<lambda>c. finished \<longrightarrow> cv_state c = State_Play)
      (case v of (finished, d') \<Rightarrow> if finished then ok d' else configuration_loop n env d') (\<lambda>_. phase_is State_Play)" for v
    by (cases v) simp
  note packet = ends_and_then[OF ends_configuration_packet this]
  show ?case unfolding configuration_loop.simps by (intro ends_after packet)
qed (simp add: ends_def packet_limit_def)

lemma ends_acceptance_packet:
  "ends (phase_is a) (acceptance_packet env packet loaded) (\<lambda>(r, _) c. r \<noteq> Some Accept_Reconfigure \<longrightarrow> cv_state c = a)"
  by (cases packet)
    (auto simp: acceptance_packet_def Let_def
      intro!: ends_disconnect ends_and_then[OF ends_transition] ends_and_then[OF ends_keeps[OF keeps_phase(2)]] ends_ok ends_fail)

lemma ends_acceptance_loop:
  "ends (phase_is a) (acceptance_loop n env loaded) (\<lambda>r c. r \<noteq> Accept_Reconfigure \<longrightarrow> cv_state c = a)"
proof (induction n arbitrary: loaded)
  case (Suc n)
  have "ends (\<lambda>c. r \<noteq> Some Accept_Reconfigure \<longrightarrow> cv_state c = a)
      (case r of Some x \<Rightarrow> ok x | None \<Rightarrow> acceptance_loop n env b)
      (\<lambda>r c. r \<noteq> Accept_Reconfigure \<longrightarrow> cv_state c = a)" for r b
    using Suc.IH by (cases r) (auto intro: ends_ok)
  then have "ends (case v of (r, _) \<Rightarrow> \<lambda>c. r \<noteq> Some Accept_Reconfigure \<longrightarrow> cv_state c = a)
      (case v of (r, b) \<Rightarrow> case r of Some x \<Rightarrow> ok x | None \<Rightarrow> acceptance_loop n env b)
      (\<lambda>r c. r \<noteq> Accept_Reconfigure \<longrightarrow> cv_state c = a)" for v
    by (cases v) simp
  note packet = ends_and_then[OF ends_acceptance_packet this]
  show ?case unfolding acceptance_loop.simps
    by (intro ends_and_then[OF ends_keeps[OF keeps_phase(1)]] ends_and_then[OF ends_keeps[OF keeps_phase(3)]] packet)
qed (simp add: ends_fail)

lemma ends_run_configuration: "ends P (run_configuration env) (\<lambda>_. phase_is State_Play)"
proof -
  have "ends P (configuration_rounds n env d) (\<lambda>_. phase_is State_Play)" for n d P
  proof (induction n arbitrary: P d)
    case (Suc n)
    have "ends (\<lambda>c. r \<noteq> Accept_Reconfigure \<longrightarrow> cv_state c = State_Play)
        (case r of Accept_Login login \<Rightarrow> ok \<lparr>co_data = d', co_initial_login = login\<rparr>
         | Accept_Reconfigure \<Rightarrow> configuration_rounds n env d') (\<lambda>_. phase_is State_Play)" for r d'
      using Suc.IH by (cases r) (auto intro: ends_ok)
    then show ?case
      by (auto simp: Let_def run_configuration_phase_def await_initial_play_login_def
          intro!: ends_and_then[OF ends_configuration_loop] ends_and_then[OF ends_acceptance_loop])
  qed (simp add: ends_fail)
  then show ?thesis unfolding run_configuration_def .
qed

section \<open>The login\<close>

definition online_sound ::
  "('io, 'enc, 'dec, 'key, 'rng, 'auth) online_env \<Rightarrow> ('io, 'enc, 'dec, 'rng) online_conversation \<Rightarrow> bool" where
  "online_sound env s \<longleftrightarrow>
     (\<forall>hash \<in> set (on_asked s). oe_join_server env hash = Inr ()) \<and>
     (on_compression_enabled s \<longleftrightarrow> compression_threshold (transforms (cv_connection (on_conversation s))) \<noteq> None)"

definition passes :: "('s \<Rightarrow> bool) \<Rightarrow> ('s, 'e, 'a) fallible \<Rightarrow> bool" where
  "passes I m \<longleftrightarrow> ends I m (\<lambda>_. I)"

lemma passesI: "(\<And>s v t. I s \<Longrightarrow> m s = (Inr v, t) \<Longrightarrow> I t) \<Longrightarrow> passes I m"
  by (auto simp: passes_def ends_def)

lemma passes_and_then: "passes I m \<Longrightarrow> (\<And>v. passes I (k v)) \<Longrightarrow> passes I (and_then m k)"
  unfolding passes_def by (rule ends_and_then)

lemma passes_keeps: "keeps I m \<Longrightarrow> passes I m"
  by (simp add: passes_def ends_keeps)

lemmas passes_intros = passes_keeps[OF keeps_ok] passes_keeps[OF keeps_fail] passes_keeps[OF keeps_lift]
  passes_keeps[OF keeps_map_err[OF keeps_lift]] passes_keeps[OF keeps_pair]

lemma passes_transport:
  assumes "\<And>th. keeps (compression_is th) m"
  shows "passes (online_sound env) (online_transport m)"
proof (rule passesI)
  fix s v t assume s: "online_sound env s" "online_transport m s = (Inr v, t)"
  obtain r c where m: "m (on_conversation s) = (r, c)" by fastforce
  then show "online_sound env t"
    using s keeps_run[OF assms refl m] by (cases r) (auto simp: online_transport_def online_sound_def)
qed

lemma passes_online_write: "passes (online_sound env) (online_write env packet)"
  by (cases packet) (auto simp: online_write_def intro!: passes_intros passes_transport keeps_send_bytes)

lemma passes_answer_encryption: "passes (online_sound env) (answer_encryption env request)"
proof -
  have "passes (online_sound env) (online_keys env request)"
    by (rule passesI) (auto simp: online_keys_def online_sound_def split: sum.splits prod.splits)
  moreover have "passes (online_sound env) (join_server env hash)" for hash
    by (rule passesI) (auto simp: join_server_def online_sound_def Let_def split: sum.splits)
  moreover have "keeps (compression_is th) (on_connection (connection_enable_encryption crates secret))" for th crates secret
    by (rule keepsI)
      (auto simp: on_connection_def connection_enable_encryption_def enable_encryption_def Let_def
        split: sum.splits prod.splits option.splits)
  ultimately show ?thesis
    by (auto simp: answer_encryption_def intro!: passes_and_then passes_online_write passes_transport passes_intros)
qed

lemma passes_compression:
  "passes (online_sound env)
     (and_then (online_transport (on_connection (connection_enable_compression threshold))) (\<lambda>_. and_then note_compression (\<lambda>_. ok None)))"
  by (rule passesI)
    (auto simp: and_then_def online_transport_def on_connection_def connection_enable_compression_def enable_compression_def
      note_compression_def ok_def online_sound_def split: if_splits)

lemma passes_online_packet: "passes (online_sound env) (online_packet env account packet)"
proof -
  have "passes (online_sound env) (finish_login env account success)" for success
    by (auto simp: finish_login_def
        intro!: passes_and_then passes_intros passes_online_write passes_transport conversation_intros passes_intros)
  then show ?thesis
    by (cases packet)
      (auto simp: online_packet_def intro!: passes_and_then[OF passes_answer_encryption] passes_compression
        passes_and_then passes_intros passes_intros passes_online_write)
qed

lemma passes_online_loop: "passes (online_sound env) (online_loop n env account)"
  by (induction n)
    (auto intro!: passes_and_then passes_intros passes_transport keeps_read_frame passes_intros passes_online_packet
      passes_intros split: option.split)

lemma passes_authenticated_login: "passes (online_sound env) (authenticated_login env host port account)"
  by (auto simp: authenticated_login_def online_start_def
      intro!: passes_and_then passes_online_loop passes_online_write passes_transport conversation_intros passes_intros keeps_map_err keeps_lift)

text \<open>The server confirmed the profile: a frame of its was a Login Success with the name and the UUID of the account.\<close>

definition confirmed :: "('io, 'enc, 'dec, 'key, 'rng, 'auth) online_env \<Rightarrow> online_account \<Rightarrow> bool" where
  "confirmed env account \<longleftrightarrow> (\<exists>frame success.
     decode_login_clientbound (le_nbt (oe_login env)) frame = Inr (Login_Success success) \<and>
     lsu_username success = oa_name account \<and> lsu_uuid success = account_uuid account)"

definition says ::
  "('io, 'enc, 'dec, 'key, 'rng, 'auth) online_env \<Rightarrow> online_account \<Rightarrow> online_login_result \<Rightarrow>
   ('io, 'enc, 'dec, 'rng) online_conversation \<Rightarrow> bool" where
  "says env account r s \<longleftrightarrow> confirmed env account \<and> or_profile_name r = oa_name account \<and>
     or_profile_uuid r = account_uuid account \<and> or_state r = State_Play \<and>
     cv_state (on_conversation s) = State_Play \<and> or_compression_enabled r = on_compression_enabled s"

lemma ends_finish:
  assumes "decode_login_clientbound (le_nbt (oe_login env)) frame = Inr (Login_Success success)"
  shows "ends P (finish_login env account success) (says env account)"
proof -
  have "ends P (online_transport (run_configuration (oe_login env))) (\<lambda>_ s. cv_state (on_conversation s) = State_Play)" for P
    using ends_run_configuration[of "\<lambda>_. True" "oe_login env"]
    by (auto simp: ends_def online_transport_def split: sum.splits prod.splits)
  note configured = ends_and_then[OF this, where R = "says env account"]
  show ?thesis
  proof (cases "lsu_username success \<noteq> oa_name account \<or> lsu_uuid success \<noteq> account_uuid account")
    case False
    then have "confirmed env account" using assms by (auto simp: confirmed_def)
    then show ?thesis
      unfolding finish_login_def if_not_P[OF False]
      by (intro ends_after[where m = "online_write env p" for p] ends_after[where m = "online_transport (transition a b)" for a b]
          configured) (simp add: ends_def says_def)
  qed (simp add: finish_login_def ends_fail)
qed

lemma ends_online_packet:
  assumes "decode_login_clientbound (le_nbt (oe_login env)) frame = Inr packet"
  shows "ends P (online_packet env account packet) (\<lambda>r s. \<forall>v. r = Some v \<longrightarrow> says env account v s)"
proof (cases packet)
  case (Login_Success success)
  show ?thesis
    unfolding online_packet_def Login_Success login_clientbound.case
    by (rule ends_and_then[OF ends_finish[OF assms[unfolded Login_Success]]]) (simp add: ends_ok)
qed (auto simp: online_packet_def intro!: ends_after ends_ok ends_fail)

lemma ends_online_loop: "ends P (online_loop n env account) (says env account)"
proof (induction n arbitrary: P)
  case (Suc n)
  have dec: "ends P (map_err Al_Protocol (lift_result (decode_login_clientbound (le_nbt (oe_login env)) frame)))
      (\<lambda>p _. decode_login_clientbound (le_nbt (oe_login env)) frame = Inr p)" for P frame
    by (auto simp: ends_def map_err_def lift_result_def split: sum.splits)
  have rest: "ends (\<lambda>s. \<forall>v. r = Some v \<longrightarrow> says env account v s) (case r of Some v \<Rightarrow> ok v | None \<Rightarrow> online_loop n env account)
      (says env account)" for r
    using Suc.IH by (cases r) (auto intro: ends_ok)
  have "ends (\<lambda>_. decode_login_clientbound (le_nbt (oe_login env)) frame = Inr p)
      (and_then (online_packet env account p) (\<lambda>r. case r of Some v \<Rightarrow> ok v | None \<Rightarrow> online_loop n env account))
      (says env account)" for frame p
    using ends_and_then[OF ends_online_packet[of env frame p "\<lambda>_. True" account] rest]
    by (cases "decode_login_clientbound (le_nbt (oe_login env)) frame = Inr p") (simp_all add: ends_def)
  note packet = ends_and_then[OF dec this]
  show ?case unfolding online_loop.simps by (rule ends_after, rule packet)
qed (simp add: ends_fail)

section \<open>Property\<close>


end
