(* ===== verification/Status_Query.thy ===== *)
theory Status_Query
  imports Transport Status Address
begin

text \<open>
  \<open>cubic-network/src/status.rs\<close>: asking a server for its status: handshake and request, the response, then a ping and the
  pong with its nonce. The state is the connection with the reads the socket will return, the bytes written and the
  counter the nonces come from. Connecting, the timeouts and the measured latency are the environment.
\<close>

definition STATUS_PROBE_PROTOCOL_VERSION :: i32 where "STATUS_PROBE_PROTOCOL_VERSION = - 1"
definition MAX_STATUS_BUFFERED_BYTES :: nat where "MAX_STATUS_BUFFERED_BYTES = 256 * 1024"

datatype 'io status_query_error =
    Sq_IoTimeout string
  | Sq_Io string 'io
  | Sq_PrematureDisconnect string nat
  | Sq_Framing codec_error
  | Sq_WireTransform "'io transform_error"
  | Sq_StatusResponseTooLarge nat nat
  | Sq_Protocol status_protocol_error

record status_query_options =
  so_handshake_protocol_version :: i32
  so_ping_nonce :: "i64 option"
  so_json_limits :: status_json_limits

definition status_query_options_default :: status_query_options where
  "status_query_options_default =
     \<lparr>so_handshake_protocol_version = STATUS_PROBE_PROTOCOL_VERSION, so_ping_nonce = None,
      so_json_limits = status_json_limits_default\<rparr>"

record ('io, 'enc, 'dec) status_session =
  sq_connection :: "('enc, 'dec) minecraft_connection"
  sq_reads :: "('io + u8 list) list"
  sq_sent :: "u8 list"
  sq_next_nonce :: i64

type_synonym ('io, 'enc, 'dec, 'a) status_op = "(('io, 'enc, 'dec) status_session, 'io status_query_error, 'a) fallible"

section \<open>Errors\<close>

definition status_connection_error :: "'io connection_error \<Rightarrow> 'io status_query_error" where
  "status_connection_error e =
     (case e of
        Io operation source \<Rightarrow> Sq_Io operation source
      | PrematureDisconnect phase n \<Rightarrow> Sq_PrematureDisconnect phase n
      | ConnectionFraming c \<Rightarrow> Sq_Framing c
      | Transform t \<Rightarrow> Sq_WireTransform t)"

definition map_status_response_error :: "'io connection_error \<Rightarrow> 'io status_query_error" where
  "map_status_response_error e =
     (case e of ConnectionFraming (FrameTooLong len m) \<Rightarrow> Sq_StatusResponseTooLarge len m | other \<Rightarrow> status_connection_error other)"

section \<open>The query\<close>

text \<open>A read that would wait beyond what the socket returns ends in the timeout.\<close>

definition status_read ::
  "('io, 'enc, 'dec) crates \<Rightarrow> allocator \<Rightarrow> ('io connection_error \<Rightarrow> 'io status_query_error) \<Rightarrow> string \<Rightarrow>
   ('io, 'enc, 'dec, u8 list) status_op" where
  "status_read env alloc on_error phase s =
     (case read_next_frame env alloc phase (sq_reads s) (sq_connection s) of
        None \<Rightarrow> (Inl (Sq_IoTimeout phase), s)
      | Some (Inl e, reads, c) \<Rightarrow> (Inl (on_error e), s\<lparr>sq_reads := reads, sq_connection := c\<rparr>)
      | Some (Inr frame, reads, c) \<Rightarrow> (Inr frame, s\<lparr>sq_reads := reads, sq_connection := c\<rparr>))"

definition status_write :: "('io, 'enc, 'dec) crates \<Rightarrow> allocator \<Rightarrow> u8 list \<Rightarrow> ('io, 'enc, 'dec, unit) status_op" where
  "status_write env alloc bytes s =
     (case write_all env alloc bytes (sq_connection s) of
        (Inl e, c) \<Rightarrow> (Inl (status_connection_error e), s\<lparr>sq_connection := c\<rparr>)
      | (Inr out, c) \<Rightarrow> (Inr (), s\<lparr>sq_connection := c, sq_sent := sq_sent s @ out\<rparr>))"

definition take_nonce :: "i64 option \<Rightarrow> ('io, 'enc, 'dec, i64) status_op" where
  "take_nonce chosen s =
     (case chosen of Some n \<Rightarrow> (Inr n, s) | None \<Rightarrow> (Inr (sq_next_nonce s), s\<lparr>sq_next_nonce := sq_next_nonce s + 1\<rparr>))"

definition query_steps ::
  "('io, 'enc, 'dec) crates \<Rightarrow> allocator \<Rightarrow> 'v json_crate \<Rightarrow> server_address \<Rightarrow> status_query_options \<Rightarrow>
   ('io, 'enc, 'dec, 'v status_response) status_op" where
  "query_steps env alloc json address options =
     and_then (map_err Sq_Framing (lift_result (encode_status_handshake
       \<lparr>sh_protocol_version = so_handshake_protocol_version options, sh_server_address = sa_host address,
        sh_server_port = sa_port address\<rparr>))) (\<lambda>hello.
     and_then (map_err Sq_Framing (lift_result encode_status_request)) (\<lambda>request.
     and_then (status_write env alloc hello) (\<lambda>_.
     and_then (status_write env alloc request) (\<lambda>_.
     and_then (status_read env alloc map_status_response_error ''Status Response'') (\<lambda>response_frame.
     and_then (map_err Sq_Protocol (lift_result (decode_status_response json response_frame (so_json_limits options)))) (\<lambda>response.
     and_then (take_nonce (so_ping_nonce options)) (\<lambda>nonce.
     and_then (map_err Sq_Framing (lift_result (encode_status_ping nonce))) (\<lambda>ping.
     and_then (status_write env alloc ping) (\<lambda>_.
     and_then (status_read env alloc status_connection_error ''Pong'') (\<lambda>pong_frame.
     and_then (map_err Sq_Protocol (lift_result (decode_status_pong pong_frame nonce))) (\<lambda>_. ok response)))))))))))"

definition status_connect :: "frame_limits \<Rightarrow> ('io + u8 list) list \<Rightarrow> i64 \<Rightarrow> ('io, 'enc, 'dec) status_session" where
  "status_connect l reads nonce =
     \<lparr>sq_connection = connection_new l, sq_reads = reads, sq_sent = [], sq_next_nonce = nonce\<rparr>"

definition status_frame_limits :: "codec_error + frame_limits" where
  "status_frame_limits = frame_limits_new MAX_STATUS_FRAME_SIZE MAX_STATUS_BUFFERED_BYTES"

definition query_inner ::
  "('io, 'enc, 'dec) crates \<Rightarrow> allocator \<Rightarrow> 'v json_crate \<Rightarrow> server_address \<Rightarrow> status_query_options \<Rightarrow>
   ('io + u8 list) list \<Rightarrow> i64 \<Rightarrow>
   ('io status_query_error + 'v status_response) \<times> ('io, 'enc, 'dec) status_session option" where
  "query_inner env alloc json address options reads nonce =
     (case status_frame_limits of
        Inl e \<Rightarrow> (Inl (Sq_Framing e), None)
      | Inr l \<Rightarrow> (case query_steps env alloc json address options (status_connect l reads nonce) of (r, s) \<Rightarrow> (r, Some s)))"

section \<open>A server that answers\<close>

lemma and_then_run: "m s = (Inr v, t) \<Longrightarrow> k v t = r \<Longrightarrow> and_then m k s = r"
  by (simp add: and_then_def)

lemma result_run: "r = Inr v \<Longrightarrow> map_err f (lift_result r) s = (Inr v, s)"
  by (simp add: map_err_def lift_result_def)

definition status_limits :: frame_limits where
  "status_limits = \<lparr>max_frame_size = MAX_STATUS_FRAME_SIZE, max_buffered_bytes = MAX_STATUS_BUFFERED_BYTES\<rparr>"

lemma status_frame_limits_ok: "status_frame_limits = Inr status_limits"
  by (simp add: status_frame_limits_def frame_limits_new_def status_limits_def MAX_STATUS_FRAME_SIZE_def
    MAX_STATUS_BUFFERED_BYTES_def MINECRAFT_MAX_FRAME_SIZE_def MAX_FRAME_LENGTH_PREFIX_BYTES_def checked_add_def usize_MAX_def)

lemma status_limits_wf: "frame_limits_wf status_limits"
  by (simp add: frame_limits_wf_def status_limits_def MAX_STATUS_FRAME_SIZE_def MAX_STATUS_BUFFERED_BYTES_def
    MINECRAFT_MAX_FRAME_SIZE_def MAX_FRAME_LENGTH_PREFIX_BYTES_def usize_MAX_def)

text \<open>A plain connection with the frames \<open>fs\<close> still to be read.\<close>

definition answering ::
  "('io, 'enc, 'dec) crates \<Rightarrow> u8 list list \<Rightarrow> u8 list \<Rightarrow> ('io, 'enc, 'dec) status_session \<Rightarrow> bool" where
  "answering env fs sent s \<longleftrightarrow>
     receiving status_limits (sq_connection s) \<and> compression_threshold (transforms (sq_connection s)) = None \<and>
     encryptor (transforms (sq_connection s)) = None \<and> sq_sent s = sent \<and>
     (\<exists>chunks. sq_reads s = map Inr chunks \<and> (\<forall>bs \<in> set chunks. bs \<noteq> [] \<and> length bs \<le> READ_BUFFER_SIZE) \<and>
       arriving env (sq_connection s) chunks = concat (map enc_frame fs))"

lemma status_read_answering:
  assumes "crates_behave env linked" and "answering env (f # fs) sent s" and "length f \<le> MAX_STATUS_FRAME_SIZE"
  obtains t where "status_read env (\<lambda>_. True) e phase s = (Inr f, t)" and "answering env fs sent t"
    and "sq_next_nonce t = sq_next_nonce s"
proof -
  let ?c = "sq_connection s"
  from assms(2) obtain chunks where reads: "sq_reads s = map Inr chunks" "\<forall>bs \<in> set chunks. bs \<noteq> [] \<and> length bs \<le> READ_BUFFER_SIZE"
    "arriving env ?c chunks = enc_frame f @ concat (map enc_frame fs)"
    and c: "receiving status_limits ?c" "compression_threshold (transforms ?c) = None" "encryptor (transforms ?c) = None"
    by (auto simp: answering_def)
  have "length f \<le> max_frame_size status_limits" using assms(3) by (simp add: status_limits_def)
  from read_next_frame_arriving[OF assms(1) c(1) reads(2,3) this, of phase] c(2) obtain chunks' c' where
    run: "read_next_frame env (\<lambda>_. True) phase (map Inr chunks) ?c = Some (Inr f, map Inr chunks', c')"
    and c': "receiving status_limits c'" "set chunks' \<subseteq> set chunks" "arriving env c' chunks' = concat (map enc_frame fs)"
      "compression_threshold (transforms c') = None"
    by (auto simp: decode_frame_body_def)
  have enc: "encryptor (transforms c') = None" using read_next_frame_encryptor[OF run] c(3) by simp
  let ?t = "s\<lparr>sq_reads := map Inr chunks', sq_connection := c'\<rparr>"
  have "status_read env (\<lambda>_. True) e phase s = (Inr f, ?t)" using run by (simp add: status_read_def reads(1))
  moreover have "answering env fs sent ?t"
    using c' enc reads(2) assms(2) by (auto simp: answering_def intro!: exI[of _ chunks'])
  ultimately show ?thesis by (rule that) simp
qed

lemma status_write_answering:
  assumes "answering env fs sent s" and "length body \<le> MAX_STATUS_FRAME_SIZE"
  shows "status_write env (\<lambda>_. True) (enc_frame body) s = (Inr (), s\<lparr>sq_sent := sent @ enc_frame body\<rparr>)"
    and "answering env fs (sent @ enc_frame body) (s\<lparr>sq_sent := sent @ enc_frame body\<rparr>)"
proof -
  let ?t = "transforms (sq_connection s)"
  have "transform_limits ?t = status_limits" "compression_threshold ?t = None" "encryptor ?t = None" "sq_sent s = sent"
    using assms(1) by (auto simp: answering_def receiving_def)
  moreover have "length body \<le> max_frame_size status_limits" using assms(2) by (simp add: status_limits_def)
  ultimately have "encode_outbound env (\<lambda>_. True) (enc_frame body) ?t = (Inr (enc_frame body), ?t)"
    by (simp add: encode_outbound_def extract_single_frame_ok[OF status_limits_wf])
  then show "status_write env (\<lambda>_. True) (enc_frame body) s = (Inr (), s\<lparr>sq_sent := sent @ enc_frame body\<rparr>)"
    using assms(1) by (simp add: status_write_def write_all_def answering_def)
  show "answering env fs (sent @ enc_frame body) (s\<lparr>sq_sent := sent @ enc_frame body\<rparr>)"
    using assms(1) by (simp add: answering_def)
qed

lemma status_hello:
  assumes "valid_string handshake_limits host"
  obtains body where "encode_status_handshake
      \<lparr>sh_protocol_version = v, sh_server_address = host, sh_server_port = port\<rparr> = Inr (enc_frame body)"
    and "length body \<le> MAX_STATUS_FRAME_SIZE"
proof -
  let ?body = "enc_var HANDSHAKE_PACKET_ID @ enc_var v @ enc_string host @ to_be_bytes port @
    enc_var (next_state_id NextState_Status)"
  have "str_len host \<le> 255 * 3"
    using assms max_encoded_bytes_le[of handshake_limits]
    by (simp add: valid_string_def handshake_limits_def string_limits_new_def MAX_HANDSHAKE_HOST_UTF16_UNITS_def)
  then have l: "length ?body \<le> 1000"
    using length_enc_length[of "str_len host"] length_enc_var_int[of HANDSHAKE_PACKET_ID] length_enc_var_int[of v]
      length_enc_var_int[of "next_state_id NextState_Status"]
    by (simp add: enc_string_def str_len_def length_to_be_bytes)
  have "frame_of_writer
       (and_then (emit (write_var_int HANDSHAKE_PACKET_ID)) (\<lambda>_.
        and_then (emit (write_var_int v)) (\<lambda>_.
        and_then (write_string handshake_limits host) (\<lambda>_.
        and_then (emit (write_u16 port)) (\<lambda>_.
        emit (write_var_int (next_state_id NextState_Status))))))) MAX_STATUS_FRAME_SIZE = Inr (enc_frame ?body)"
    by (intro frame_of_writer_ok appends_and_then appends_write_string[OF assms] appends_write_var appends_emit_fixed_width)
      (use l in \<open>simp_all only: MAX_STATUS_FRAME_SIZE_def MINECRAFT_MAX_FRAME_SIZE_def\<close>, simp_all)
  then have "encode_status_handshake \<lparr>sh_protocol_version = v, sh_server_address = host, sh_server_port = port\<rparr> =
      Inr (enc_frame ?body)"
    by (simp only: encode_status_handshake_def encode_handshake_def status_handshake.simps handshake.simps)
  moreover have "length ?body \<le> MAX_STATUS_FRAME_SIZE" using l by (simp add: MAX_STATUS_FRAME_SIZE_def)
  ultimately show ?thesis by (rule that)
qed

lemma status_request_frame:
  "encode_status_request = Inr (enc_frame (enc_var STATUS_REQUEST_PACKET_ID))"
  "length (enc_var STATUS_REQUEST_PACKET_ID) \<le> MAX_STATUS_FRAME_SIZE"
proof -
  have "length (enc_var STATUS_REQUEST_PACKET_ID) \<le> 5" by (rule length_enc_var_int)
  then show "length (enc_var STATUS_REQUEST_PACKET_ID) \<le> MAX_STATUS_FRAME_SIZE"
    and "encode_status_request = Inr (enc_frame (enc_var STATUS_REQUEST_PACKET_ID))"
    unfolding encode_status_request_def
    by (simp_all add: frame_of_writer_ok appends_write_var MAX_STATUS_FRAME_SIZE_def MINECRAFT_MAX_FRAME_SIZE_def)
qed

definition pong_body :: "i64 \<Rightarrow> u8 list" where
  "pong_body nonce = enc_var PONG_PACKET_ID @ to_be_bytes nonce"

lemma status_ping_frame:
  "encode_status_ping nonce = Inr (enc_frame (enc_var PING_PACKET_ID @ to_be_bytes nonce))"
  "length (enc_var PING_PACKET_ID @ to_be_bytes nonce) \<le> MAX_STATUS_FRAME_SIZE"
  "length (pong_body nonce) \<le> MAX_STATUS_FRAME_SIZE" "decode_status_pong (pong_body nonce) nonce = Inr ()"
proof -
  have l: "length (enc_var PING_PACKET_ID @ to_be_bytes nonce) \<le> 13" "length (pong_body nonce) \<le> 13"
    using length_enc_var_int[of PING_PACKET_ID] length_enc_var_int[of PONG_PACKET_ID] by (simp_all add: pong_body_def)
  then show "length (enc_var PING_PACKET_ID @ to_be_bytes nonce) \<le> MAX_STATUS_FRAME_SIZE"
    "length (pong_body nonce) \<le> MAX_STATUS_FRAME_SIZE" by (simp_all add: MAX_STATUS_FRAME_SIZE_def)
  have "appends (and_then (emit (write_var_int PING_PACKET_ID)) (\<lambda>_. emit (write_i64 nonce)))
      (enc_var PING_PACKET_ID @ to_be_bytes nonce)"
    by (intro appends_intros)
  then show "encode_status_ping nonce = Inr (enc_frame (enc_var PING_PACKET_ID @ to_be_bytes nonce))"
    unfolding encode_status_ping_def using l
    by (intro frame_of_writer_ok) (simp_all add: MAX_STATUS_FRAME_SIZE_def MINECRAFT_MAX_FRAME_SIZE_def)
  show "decode_status_pong (pong_body nonce) nonce = Inr ()"
    using decode_status_pong_enc[of PONG_PACKET_ID "to_be_bytes nonce" nonce] l(2) by (simp add: pong_body_def usize_MAX_def)
qed

section \<open>Property\<close>

definition chosen_nonce :: "status_query_options \<Rightarrow> i64 \<Rightarrow> i64" where
  "chosen_nonce options counter = (case so_ping_nonce options of Some n \<Rightarrow> n | None \<Rightarrow> counter)"

text \<open>
  C34: whatever address the player typed, once it is accepted a server that answers is always queried to the end: for every
  response that decodes within the limits and a pong with the nonce of the query, however the bytes are cut into reads, the
  query returns that response, and what was written is exactly the handshake, the request and the ping with the nonce.
\<close>

theorem responsive_server_is_queried:
  assumes "crates_behave env linked" and "is_str typed" and "server_address_from_str typed = Inr address"
    and "decode_status_response json frame (so_json_limits options) = Inr response" and "length frame \<le> MAX_STATUS_FRAME_SIZE"
    and "\<forall>bs \<in> set reads. bs \<noteq> [] \<and> length bs \<le> READ_BUFFER_SIZE"
    and "concat reads = enc_frame frame @ enc_frame (pong_body (chosen_nonce options counter))"
  shows "\<exists>hello s. encode_status_handshake
      \<lparr>sh_protocol_version = so_handshake_protocol_version options, sh_server_address = sa_host address,
       sh_server_port = sa_port address\<rparr> = Inr hello \<and>
    query_inner env (\<lambda>_. True) json address options (map Inr reads) counter = (Inr response, Some s) \<and>
    sq_sent s = hello @ enc_frame (enc_var STATUS_REQUEST_PACKET_ID) @
      enc_frame (enc_var PING_PACKET_ID @ to_be_bytes (chosen_nonce options counter))"
proof -
  let ?n = "chosen_nonce options counter"
  let ?ping = "enc_var PING_PACKET_ID @ to_be_bytes ?n"
  obtain body where hello: "encode_status_handshake
      \<lparr>sh_protocol_version = so_handshake_protocol_version options, sh_server_address = sa_host address,
       sh_server_port = sa_port address\<rparr> = Inr (enc_frame body)" "length body \<le> MAX_STATUS_FRAME_SIZE"
    by (rule status_hello[OF ok_fits_handshake[OF accepted_ok[OF assms(2,3)]]])
  let ?s0 = "status_connect status_limits (map Inr reads) counter"
  have s0: "answering env [frame, pong_body ?n] [] ?s0"
    using assms(6,7)
    by (auto simp: answering_def status_connect_def connection_new_def wire_transforms_new_def receiving_def arriving_def
        decrypt_stream_def frame_decoder_new_wf[OF status_limits_wf] intro!: exI[of _ reads])
      (simp add: status_limits_def MAX_STATUS_FRAME_SIZE_def MAX_STATUS_BUFFERED_BYTES_def READ_BUFFER_SIZE_def)
  note w1 = status_write_answering[OF s0 hello(2)]
  note w2 = status_write_answering[OF w1(2) status_request_frame(2)]
  obtain s1 where r1: "status_read env (\<lambda>_. True) map_status_response_error ''Status Response''
      (?s0\<lparr>sq_sent := [] @ enc_frame body, sq_sent := ([] @ enc_frame body) @ enc_frame (enc_var STATUS_REQUEST_PACKET_ID)\<rparr>) =
      (Inr frame, s1)" "answering env [pong_body ?n] (([] @ enc_frame body) @ enc_frame (enc_var STATUS_REQUEST_PACKET_ID)) s1"
      "sq_next_nonce s1 = counter"
    using status_read_answering[OF assms(1) w2(2) assms(5), of map_status_response_error "''Status Response''"]
    by (force simp: status_connect_def)
  obtain s2 where n: "take_nonce (so_ping_nonce options) s1 = (Inr ?n, s2)"
      "answering env [pong_body ?n] (([] @ enc_frame body) @ enc_frame (enc_var STATUS_REQUEST_PACKET_ID)) s2"
    using r1(2,3) by (cases "so_ping_nonce options") (auto simp: take_nonce_def chosen_nonce_def answering_def)
  note w3 = status_write_answering[OF n(2) status_ping_frame(2)[of ?n]]
  obtain s3 where r2: "status_read env (\<lambda>_. True) status_connection_error ''Pong''
      (s2\<lparr>sq_sent := (([] @ enc_frame body) @ enc_frame (enc_var STATUS_REQUEST_PACKET_ID)) @ enc_frame ?ping\<rparr>) =
      (Inr (pong_body ?n), s3)"
      "answering env [] ((([] @ enc_frame body) @ enc_frame (enc_var STATUS_REQUEST_PACKET_ID)) @ enc_frame ?ping) s3"
    by (rule status_read_answering[OF assms(1) w3(2) status_ping_frame(3), of status_connection_error "''Pong''"])
  have "query_steps env (\<lambda>_. True) json address options ?s0 = (Inr response, s3)"
    unfolding query_steps_def
    by (rule and_then_run, rule result_run, rule hello(1), rule and_then_run, rule result_run, rule status_request_frame(1),
        rule and_then_run, rule w1(1), rule and_then_run, rule w2(1), rule and_then_run, rule r1(1),
        rule and_then_run, rule result_run, rule assms(4), rule and_then_run, rule n(1),
        rule and_then_run, rule result_run, rule status_ping_frame(1), rule and_then_run, rule w3(1),
        rule and_then_run, rule r2(1), rule and_then_run, rule result_run, rule status_ping_frame(4)) (simp add: ok_def)
  then show ?thesis
    using hello(1) r2(2) by (auto simp: query_inner_def status_frame_limits_ok answering_def)
qed

lemma responsive_server_is_queried_witness:
  defines "frame \<equiv> enc_var STATUS_RESPONSE_PACKET_ID @ enc_string [0x7B, 0x7D]"
    and "address \<equiv> \<lparr>sa_host = str ''a.b'', sa_port = 25565, sa_ipv6_literal = False\<rparr>"
  shows "\<exists>response hello s. query_inner feedback_crates (\<lambda>_. True) witness_json address status_query_options_default
      (map Inr (map (\<lambda>b. [b]) (enc_frame frame @ enc_frame (pong_body 7)))) 7 = (Inr response, Some s) \<and>
    sq_sent s = hello @ enc_frame (enc_var STATUS_REQUEST_PACKET_ID) @ enc_frame (enc_var PING_PACKET_ID @ to_be_bytes (7 :: i64))"
proof -
  obtain response where r: "decode_status_response witness_json frame status_json_limits_default = Inr response"
    using witness_status_decodes by (auto simp: frame_def)
  have "length (enc_string [0x7B, 0x7D]) \<le> 7"
    using length_enc_length[of "Suc (Suc 0)"] by (simp add: enc_string_def str_len_def as_bytes_def utf8_char_def)
  then have l: "length frame \<le> MAX_STATUS_FRAME_SIZE"
    using length_enc_var_int[of STATUS_RESPONSE_PACKET_ID] by (simp add: frame_def MAX_STATUS_FRAME_SIZE_def)
  have colons: "length (filter (\<lambda>b. b = 58) (as_bytes (str ''a.b''))) = 0"
    by (subst colon_bytes) (simp_all add: is_str_def is_scalar_value_def)
  have a: "server_address_from_str (str ''a.b'') = Inr address"
    unfolding server_address_from_str_def Let_def colons
    by (simp add: is_whitespace_def and_also_def validate_host_def is_control_def utf16_count_def
        MAX_LOGICAL_HOST_UTF16_UNITS_def DEFAULT_MINECRAFT_PORT_def address_def)
  have "is_str (str ''a.b'')" by (simp add: is_str_def is_scalar_value_def)
  note query = responsive_server_is_queried[OF feedback_crates_behave this a, of witness_json frame status_query_options_default response
      "map (\<lambda>b. [b]) (enc_frame frame @ enc_frame (pong_body 7))" 7]
  have o: "so_json_limits status_query_options_default = status_json_limits_default"
    "chosen_nonce status_query_options_default 7 = 7"
    by (simp_all add: status_query_options_default_def chosen_nonce_def)
  have reads: "\<forall>bs \<in> set (map (\<lambda>b. [b]) (enc_frame frame @ enc_frame (pong_body 7))). bs \<noteq> [] \<and> length bs \<le> READ_BUFFER_SIZE"
    "concat (map (\<lambda>b. [b]) (enc_frame frame @ enc_frame (pong_body 7))) = enc_frame frame @ enc_frame (pong_body 7)"
    by (auto simp: READ_BUFFER_SIZE_def)
  from query[unfolded o, OF r l reads] show ?thesis by blast
qed

end
