(* ===== verification/Version_Store.thy ===== *)
theory Version_Store
  imports Game_Data Bootstrap
begin

text \<open>
  \<open>cubic-version/src/identity.rs\<close> and \<open>model.rs\<close>: the identifiers of versions and compatibility profiles, the metadata
  of one version and the catalog of the installed ones. JSON is parsed and printed by \<open>serde_json\<close>, the fields of a
  record of parameters; what the derived deserializers call of the file, the constructors of the identifiers, is here.
\<close>

definition MAX_VERSION_ID_BYTES :: nat where "MAX_VERSION_ID_BYTES = 128"
definition MAX_COMPATIBILITY_PROFILE_ID_BYTES :: nat where "MAX_COMPATIBILITY_PROFILE_ID_BYTES = 128"
definition MAX_COMPATIBILITY_PROFILES :: nat where "MAX_COMPATIBILITY_PROFILES = 32"
definition MAX_INSTALLED_VERSIONS :: nat where "MAX_INSTALLED_VERSIONS = 4096"

type_synonym path = rust_str

datatype ('io, 'j) version_data_error =
    Ve_InvalidVersionId string
  | Ve_InvalidCompatibilityProfileId string
  | Ve_InvalidProtocolVersion i32
  | Ve_UnsupportedFormatVersion u32 u32
  | Ve_MalformedJson nat nat
  | Ve_InvalidField string
  | Ve_Serialization 'j
  | Ve_RootNotDirectory path
  | Ve_SymlinkNotAllowed path
  | Ve_UnexpectedVersionsEntry path
  | Ve_FileTooLarge path nat nat
  | Ve_TooManyVersions nat
  | Ve_DuplicateVersionId rust_str
  | Ve_DuplicateCompatibilityProfile rust_str
  | Ve_DatasetDirectoryMismatch rust_str rust_str
  | Ve_CatalogDatasetMismatch rust_str string
  | Ve_Io string path 'io

section \<open>Identifiers\<close>

definition to_ascii_uppercase :: "rust_str \<Rightarrow> rust_str" where
  "to_ascii_uppercase s = map (\<lambda>c. if 97 \<le> c \<and> c \<le> 122 then c - 32 else c) s"

text \<open>A device with a number: the prefix, then one digit from 1 to 9.\<close>

definition numbered_device :: "string \<Rightarrow> rust_str \<Rightarrow> bool" where
  "numbered_device prefix s \<longleftrightarrow>
     take (length prefix) s = str prefix \<and> drop (length prefix) s \<in> set (map (\<lambda>d. [49 + d]) [0..<9])"

definition is_windows_device_name :: "rust_str \<Rightarrow> bool" where
  "is_windows_device_name v =
     (let upper = to_ascii_uppercase (hd (split_on (code_point CHR ''.'') v)) in
      upper \<in> set (map str [''CON'', ''PRN'', ''AUX'', ''NUL'']) \<or> numbered_device ''COM'' upper \<or> numbered_device ''LPT'' upper)"

definition validate_version_id :: "rust_str \<Rightarrow> ('io, 'j) version_data_error + unit" where
  "validate_version_id v =
     (if v = [] then Inl (Ve_InvalidVersionId ''the value is empty'')
      else if MAX_VERSION_ID_BYTES < str_len v then Inl (Ve_InvalidVersionId ''the value exceeds 128 UTF-8 bytes'')
      else if v = str ''.'' \<or> v = str ''..'' then Inl (Ve_InvalidVersionId ''dot path components are forbidden'')
      else if list_ex is_control v then Inl (Ve_InvalidVersionId ''control characters are forbidden'')
      else if list_ex (\<lambda>c. c = 47 \<or> c = 92) v then Inl (Ve_InvalidVersionId ''path separators are forbidden'')
      else if list_ex (\<lambda>c. c \<in> {60, 62, 58, 34, 124, 63, 42}) v
      then Inl (Ve_InvalidVersionId ''filesystem-reserved characters are forbidden'')
      else if last v = 32 \<or> last v = 46 then Inl (Ve_InvalidVersionId ''trailing spaces and dots are forbidden'')
      else if is_windows_device_name v then Inl (Ve_InvalidVersionId ''reserved Windows device names are forbidden'')
      else Inr ())"

definition minecraft_version_id_new :: "rust_str \<Rightarrow> ('io, 'j) version_data_error + rust_str" where
  "minecraft_version_id_new v = and_also (validate_version_id v) (\<lambda>_. Inr v)"

text \<open>A byte beyond ASCII is none of the allowed ones.\<close>

definition is_profile_char :: "nat \<Rightarrow> bool" where
  "is_profile_char c \<longleftrightarrow> 97 \<le> c \<and> c \<le> 122 \<or> 48 \<le> c \<and> c \<le> 57 \<or> c \<in> set (str ''._-'')"

definition validate_profile_id :: "rust_str \<Rightarrow> ('io, 'j) version_data_error + unit" where
  "validate_profile_id v =
     (if v = [] then Inl (Ve_InvalidCompatibilityProfileId ''the value is empty'')
      else if MAX_COMPATIBILITY_PROFILE_ID_BYTES < str_len v
      then Inl (Ve_InvalidCompatibilityProfileId ''the value exceeds 128 bytes'')
      else if \<not> list_all is_profile_char v
      then Inl (Ve_InvalidCompatibilityProfileId ''only lowercase ASCII letters, digits, dots, underscores, and hyphens are allowed'')
      else Inr ())"

definition compatibility_profile_id_new :: "rust_str \<Rightarrow> ('io, 'j) version_data_error + rust_str" where
  "compatibility_profile_id_new v = and_also (validate_profile_id v) (\<lambda>_. Inr v)"

section \<open>Version data\<close>

datatype minecraft_version_kind = Kind_Release | Kind_Snapshot

definition FORMAT_CURRENT :: u32 where "FORMAT_CURRENT = 1"

record version_data =
  vd_format_version :: u32
  vd_minecraft_version :: rust_str
  vd_kind :: minecraft_version_kind
  vd_protocol :: i32
  vd_compatibility_profiles :: "rust_str list"

definition validate_protocol :: "i32 \<Rightarrow> ('io, 'j) version_data_error + unit" where
  "validate_protocol protocol = (if protocol <s 0 then Inl (Ve_InvalidProtocolVersion protocol) else Inr ())"

text \<open>The check of neighbours in a sorted list: the first two that are equal.\<close>

fun duplicate_neighbour :: "'a list \<Rightarrow> 'a option" where
  "duplicate_neighbour (x # y # xs) = (if x = y then Some x else duplicate_neighbour (y # xs))"
| "duplicate_neighbour _ = None"

definition normalize_profiles :: "rust_str list \<Rightarrow> ('io, 'j) version_data_error + rust_str list" where
  "normalize_profiles profiles =
     (if MAX_COMPATIBILITY_PROFILES < length profiles then Inl (Ve_InvalidField ''compatibility_profiles count'')
      else case duplicate_neighbour (sort profiles) of
             Some p \<Rightarrow> Inl (Ve_DuplicateCompatibilityProfile p) | None \<Rightarrow> Inr (sort profiles))"

definition version_data_new ::
  "rust_str \<Rightarrow> minecraft_version_kind \<Rightarrow> i32 \<Rightarrow> rust_str list \<Rightarrow> ('io, 'j) version_data_error + version_data" where
  "version_data_new minecraft_version kind protocol profiles =
     and_also (validate_protocol protocol) (\<lambda>_.
     and_also (normalize_profiles profiles) (\<lambda>ps.
     Inr \<lparr>vd_format_version = FORMAT_CURRENT, vd_minecraft_version = minecraft_version, vd_kind = kind,
          vd_protocol = protocol, vd_compatibility_profiles = ps\<rparr>))"

section \<open>The catalog\<close>

record catalog_entry =
  ce_minecraft_version :: rust_str
  ce_kind :: minecraft_version_kind
  ce_protocol :: i32

definition catalog_entry_from :: "version_data \<Rightarrow> catalog_entry" where
  "catalog_entry_from d =
     \<lparr>ce_minecraft_version = vd_minecraft_version d, ce_kind = vd_kind d, ce_protocol = vd_protocol d\<rparr>"

record version_catalog =
  vc_format_version :: u32
  vc_versions :: "catalog_entry list"

definition catalog_from_entries :: "catalog_entry list \<Rightarrow> ('io, 'j) version_data_error + version_catalog" where
  "catalog_from_entries versions =
     (if MAX_INSTALLED_VERSIONS < length versions then Inl (Ve_TooManyVersions MAX_INSTALLED_VERSIONS)
      else
        and_also (try_each (\<lambda>e. validate_protocol (ce_protocol e)) versions) (\<lambda>_.
        let sorted = sort_key ce_minecraft_version versions in
        case duplicate_neighbour (map ce_minecraft_version sorted) of
          Some i \<Rightarrow> Inl (Ve_DuplicateVersionId i)
        | None \<Rightarrow> Inr \<lparr>vc_format_version = FORMAT_CURRENT, vc_versions = sorted\<rparr>))"

definition catalog_from_versions :: "version_data list \<Rightarrow> ('io, 'j) version_data_error + version_catalog" where
  "catalog_from_versions versions = catalog_from_entries (map catalog_entry_from versions)"

definition catalog_exact :: "version_catalog \<Rightarrow> rust_str \<Rightarrow> catalog_entry option" where
  "catalog_exact c version = binary_search ce_minecraft_version version (vc_versions c)"

definition catalog_find_by_protocol :: "version_catalog \<Rightarrow> i32 \<Rightarrow> catalog_entry list" where
  "catalog_find_by_protocol c protocol = filter (\<lambda>e. ce_protocol e = protocol) (vc_versions c)"

section \<open>JSON\<close>

text \<open>
  The values the derived deserializers find, with the identifiers still as text. \<open>vj_format\<close> is the member
  \<open>format_version\<close> of an object, when it is an unsigned number.
\<close>

record wire_version_data =
  wv_format_version :: u32
  wv_minecraft_version :: rust_str
  wv_kind :: minecraft_version_kind
  wv_protocol :: i32
  wv_compatibility_profiles :: "rust_str list"

record wire_catalog_entry =
  wc_minecraft_version :: rust_str
  wc_kind :: minecraft_version_kind
  wc_protocol :: i32

record wire_catalog =
  wcat_format_version :: u32
  wcat_versions :: "wire_catalog_entry list"

record ('v, 'j) version_json =
  vj_parse :: "u8 list \<Rightarrow> (nat \<times> nat) + 'v"
  vj_format :: "'v \<Rightarrow> nat option"
  vj_version_data :: "'v \<Rightarrow> wire_version_data option"
  vj_catalog :: "'v \<Rightarrow> wire_catalog option"
  vj_print_catalog :: "version_catalog \<Rightarrow> 'j + u8 list"
  vj_print_version_data :: "version_data \<Rightarrow> 'j + u8 list"

definition check_current_format :: "u32 \<Rightarrow> ('io, 'j) version_data_error + unit" where
  "check_current_format format =
     (if format = FORMAT_CURRENT then Inr () else Inl (Ve_UnsupportedFormatVersion format FORMAT_CURRENT))"

definition parse_and_check_format :: "('v, 'j) version_json \<Rightarrow> u8 list \<Rightarrow> ('io, 'j) version_data_error + 'v" where
  "parse_and_check_format json bytes =
     (case vj_parse json bytes of
        Inl (line, column) \<Rightarrow> Inl (Ve_MalformedJson line column)
      | Inr v \<Rightarrow>
          (case vj_format json v of
             None \<Rightarrow> Inl (Ve_InvalidField ''format_version'')
           | Some n \<Rightarrow>
               if 2 ^ 32 \<le> n then Inl (Ve_InvalidField ''format_version'')
               else and_also (check_current_format (of_nat n)) (\<lambda>_. Inr v)))"

text \<open>An identifier that its constructor refuses makes the deserializer fail.\<close>

definition accepts :: "('a \<Rightarrow> (unit, unit) version_data_error + 'b) \<Rightarrow> 'a \<Rightarrow> bool" where
  "accepts constructor v \<longleftrightarrow> \<not> isl (constructor v)"

definition deserialize_version_data :: "('v, 'j) version_json \<Rightarrow> u8 list \<Rightarrow> ('io, 'j) version_data_error + version_data" where
  "deserialize_version_data json bytes =
     and_also (parse_and_check_format json bytes) (\<lambda>v.
     case vj_version_data json v of
       None \<Rightarrow> Inl (Ve_InvalidField ''required or typed version metadata'')
     | Some wire \<Rightarrow>
         if \<not> accepts minecraft_version_id_new (wv_minecraft_version wire) \<or>
            \<not> list_all (accepts compatibility_profile_id_new) (wv_compatibility_profiles wire)
         then Inl (Ve_InvalidField ''required or typed version metadata'')
         else
           and_also (check_current_format (wv_format_version wire)) (\<lambda>_.
           version_data_new (wv_minecraft_version wire) (wv_kind wire) (wv_protocol wire) (wv_compatibility_profiles wire)))"

definition deserialize_catalog :: "('v, 'j) version_json \<Rightarrow> u8 list \<Rightarrow> ('io, 'j) version_data_error + version_catalog" where
  "deserialize_catalog json bytes =
     and_also (parse_and_check_format json bytes) (\<lambda>v.
     case vj_catalog json v of
       None \<Rightarrow> Inl (Ve_InvalidField ''required or typed catalog metadata'')
     | Some wire \<Rightarrow>
         if \<not> list_all (\<lambda>e. accepts minecraft_version_id_new (wc_minecraft_version e)) (wcat_versions wire)
         then Inl (Ve_InvalidField ''required or typed catalog metadata'')
         else
           and_also (check_current_format (wcat_format_version wire)) (\<lambda>_.
           catalog_from_entries (map (\<lambda>e. \<lparr>ce_minecraft_version = wc_minecraft_version e, ce_kind = wc_kind e,
             ce_protocol = wc_protocol e\<rparr>) (wcat_versions wire))))"

definition serialize_pretty :: "('a \<Rightarrow> 'j + u8 list) \<Rightarrow> 'a \<Rightarrow> ('io, 'j) version_data_error + u8 list" where
  "serialize_pretty print v = (case print v of Inl e \<Rightarrow> Inl (Ve_Serialization e) | Inr bytes \<Rightarrow> Inr (bytes @ [10]))"

definition serialize_version_data :: "('v, 'j) version_json \<Rightarrow> version_data \<Rightarrow> ('io, 'j) version_data_error + u8 list" where
  "serialize_version_data json d = serialize_pretty (vj_print_version_data json) d"

definition serialize_catalog :: "('v, 'j) version_json \<Rightarrow> version_catalog \<Rightarrow> ('io, 'j) version_data_error + u8 list" where
  "serialize_catalog json c = serialize_pretty (vj_print_catalog json) c"

text \<open>
  \<open>cubic-version/src/store.rs\<close>: the installed versions on disk. The file system is the environment: what is found at a
  path, and whether a file can be created there. A path is its text, joined as on Unix.
\<close>

definition CATALOG_FILE_NAME :: string where "CATALOG_FILE_NAME = ''catalog.json''"
definition VERSIONS_DIRECTORY_NAME :: string where "VERSIONS_DIRECTORY_NAME = ''versions''"
definition VERSION_FILE_NAME :: string where "VERSION_FILE_NAME = ''version.json''"
definition MAX_VERSION_FILE_BYTES :: nat where "MAX_VERSION_FILE_BYTES = 64 * 1024"
definition MAX_CATALOG_FILE_BYTES :: nat where "MAX_CATALOG_FILE_BYTES = 1024 * 1024"

section \<open>The file system\<close>

text \<open>\<open>Path::join\<close>: an absolute path replaces what it is joined to.\<close>

definition path_join :: "path \<Rightarrow> path \<Rightarrow> path" where
  "path_join p q =
     (if q \<noteq> [] \<and> hd q = 47 then q else if p = [] \<or> last p = 47 then p @ q else p @ 47 # q)"

datatype file_kind = File_Regular | File_Directory | File_Symlink

text \<open>An entry of a directory; a name that is not Unicode is \<open>None\<close>.\<close>

record dir_entry =
  de_name :: "rust_str option"
  de_path :: path
  de_kind :: file_kind

datatype 'io fs_node =
    Fs_Missing 'io
  | Fs_File "u8 list"
  | Fs_Unreadable 'io
  | Fs_Directory "dir_entry list"
  | Fs_Symlink

record 'io file_system =
  fs_node :: "path \<Rightarrow> 'io fs_node"
  fs_not_found :: "'io \<Rightarrow> bool"
  fs_cannot_create :: "path \<Rightarrow> 'io option"
  fs_is_directory :: 'io

definition symlink_metadata :: "'io file_system \<Rightarrow> path \<Rightarrow> 'io + file_kind" where
  "symlink_metadata fs p =
     (case fs_node fs p of
        Fs_Missing e \<Rightarrow> Inl e
      | Fs_File _ \<Rightarrow> Inr File_Regular
      | Fs_Unreadable _ \<Rightarrow> Inr File_Regular
      | Fs_Directory _ \<Rightarrow> Inr File_Directory
      | Fs_Symlink \<Rightarrow> Inr File_Symlink)"

definition require_directory :: "'io file_system \<Rightarrow> path \<Rightarrow> ('io, 'j) version_data_error + unit" where
  "require_directory fs p =
     (case symlink_metadata fs p of
        Inl e \<Rightarrow> Inl (Ve_Io ''inspecting version-data directory'' p e)
      | Inr File_Symlink \<Rightarrow> Inl (Ve_SymlinkNotAllowed p)
      | Inr File_Directory \<Rightarrow> Inr ()
      | Inr File_Regular \<Rightarrow> Inl (Ve_RootNotDirectory p))"

definition reject_symlink :: "'io file_system \<Rightarrow> path \<Rightarrow> ('io, 'j) version_data_error + unit" where
  "reject_symlink fs p =
     (case symlink_metadata fs p of
        Inl e \<Rightarrow> Inl (Ve_Io ''inspecting version-data path'' p e)
      | Inr File_Symlink \<Rightarrow> Inl (Ve_SymlinkNotAllowed p)
      | Inr _ \<Rightarrow> Inr ())"

text \<open>The size is checked twice: as the metadata says it, and as it was read.\<close>

definition read_bounded :: "'io file_system \<Rightarrow> path \<Rightarrow> nat \<Rightarrow> ('io, 'j) version_data_error + u8 list" where
  "read_bounded fs p m =
     and_also (reject_symlink fs p) (\<lambda>_.
     case fs_node fs p of
       Fs_File content \<Rightarrow>
         if m < length content then Inl (Ve_FileTooLarge p (length content) m)
         else
           let bytes = take (m + 1) content in
           if m < length bytes then Inl (Ve_FileTooLarge p (length bytes) m) else Inr bytes
     | Fs_Unreadable e \<Rightarrow> Inl (Ve_Io ''opening version-data file'' p e)
     | _ \<Rightarrow> Inl (Ve_Io ''reading version-data file'' p (fs_is_directory fs)))"

section \<open>Datasets\<close>

definition load_dataset_from_root ::
  "('v, 'j) version_json \<Rightarrow> 'io file_system \<Rightarrow> path \<Rightarrow> rust_str \<Rightarrow> ('io, 'j) version_data_error + version_data" where
  "load_dataset_from_root json fs root version =
     (let directory = path_join (path_join root (str VERSIONS_DIRECTORY_NAME)) version in
      and_also (require_directory fs directory) (\<lambda>_.
      and_also (read_bounded fs (path_join directory (str VERSION_FILE_NAME)) MAX_VERSION_FILE_BYTES) (\<lambda>bytes.
      and_also (deserialize_version_data json bytes) (\<lambda>data.
      if vd_minecraft_version data \<noteq> version then Inl (Ve_DatasetDirectoryMismatch version (vd_minecraft_version data))
      else Inr data))))"

record version_data_store =
  vs_root :: path
  vs_catalog :: version_catalog

definition validate_catalog_datasets ::
  "('v, 'j) version_json \<Rightarrow> 'io file_system \<Rightarrow> version_data_store \<Rightarrow> ('io, 'j) version_data_error + unit" where
  "validate_catalog_datasets json fs store =
     and_also (try_each (\<lambda>entry.
         and_also (load_dataset_from_root json fs (vs_root store) (ce_minecraft_version entry)) (\<lambda>data.
         if vd_kind data \<noteq> ce_kind entry then Inl (Ve_CatalogDatasetMismatch (ce_minecraft_version entry) ''kind'')
         else if vd_protocol data \<noteq> ce_protocol entry
         then Inl (Ve_CatalogDatasetMismatch (ce_minecraft_version entry) ''protocol'')
         else Inr ())) (vc_versions (vs_catalog store))) (\<lambda>_. Inr ())"

definition open_store :: "('v, 'j) version_json \<Rightarrow> 'io file_system \<Rightarrow> path \<Rightarrow> ('io, 'j) version_data_error + version_data_store" where
  "open_store json fs root =
     and_also (require_directory fs root) (\<lambda>_.
     and_also (require_directory fs (path_join root (str VERSIONS_DIRECTORY_NAME))) (\<lambda>_.
     and_also (read_bounded fs (path_join root (str CATALOG_FILE_NAME)) MAX_CATALOG_FILE_BYTES) (\<lambda>bytes.
     and_also (deserialize_catalog json bytes) (\<lambda>catalog.
     let store = \<lparr>vs_root = root, vs_catalog = catalog\<rparr> in
     and_also (validate_catalog_datasets json fs store) (\<lambda>_. Inr store)))))"

definition load_exact ::
  "('v, 'j) version_json \<Rightarrow> 'io file_system \<Rightarrow> version_data_store \<Rightarrow> rust_str \<Rightarrow>
   ('io, 'j) version_data_error + version_data option" where
  "load_exact json fs store version =
     (case catalog_exact (vs_catalog store) version of
        None \<Rightarrow> Inr None
      | Some _ \<Rightarrow> and_also (load_dataset_from_root json fs (vs_root store) version) (\<lambda>data. Inr (Some data)))"

definition find_by_protocol ::
  "('v, 'j) version_json \<Rightarrow> 'io file_system \<Rightarrow> version_data_store \<Rightarrow> i32 \<Rightarrow>
   ('io, 'j) version_data_error + version_data list" where
  "find_by_protocol json fs store protocol =
     try_each (\<lambda>entry. load_dataset_from_root json fs (vs_root store) (ce_minecraft_version entry))
       (catalog_find_by_protocol (vs_catalog store) protocol)"

section \<open>Building and writing the catalog\<close>

definition catalog_dataset ::
  "('v, 'j) version_json \<Rightarrow> 'io file_system \<Rightarrow> path \<Rightarrow> dir_entry \<Rightarrow> ('io, 'j) version_data_error + version_data" where
  "catalog_dataset json fs root entry =
     (if de_kind entry = File_Symlink then Inl (Ve_SymlinkNotAllowed (de_path entry))
      else if de_kind entry \<noteq> File_Directory then Inl (Ve_UnexpectedVersionsEntry (de_path entry))
      else case de_name entry of
             None \<Rightarrow> Inl (Ve_UnexpectedVersionsEntry (de_path entry))
           | Some directory_id \<Rightarrow>
               and_also (minecraft_version_id_new directory_id) (\<lambda>version_id.
               and_also (load_dataset_from_root json fs root version_id) (\<lambda>data.
               if vd_minecraft_version data \<noteq> version_id
               then Inl (Ve_DatasetDirectoryMismatch directory_id (vd_minecraft_version data))
               else Inr data)))"

text \<open>One entry after the other; a full list refuses the next entry before it is looked at.\<close>

fun collect_datasets ::
  "(dir_entry \<Rightarrow> ('io, 'j) version_data_error + version_data) \<Rightarrow> dir_entry list \<Rightarrow> version_data list \<Rightarrow>
   ('io, 'j) version_data_error + version_data list" where
  "collect_datasets load [] datasets = Inr datasets"
| "collect_datasets load (entry # entries) datasets =
     (if MAX_INSTALLED_VERSIONS \<le> length datasets then Inl (Ve_TooManyVersions MAX_INSTALLED_VERSIONS)
      else and_also (load entry) (\<lambda>data. collect_datasets load entries (datasets @ [data])))"

definition build_catalog :: "('v, 'j) version_json \<Rightarrow> 'io file_system \<Rightarrow> path \<Rightarrow> ('io, 'j) version_data_error + version_catalog" where
  "build_catalog json fs root =
     (let versions_path = path_join root (str VERSIONS_DIRECTORY_NAME) in
      and_also (require_directory fs root) (\<lambda>_.
      and_also (require_directory fs versions_path) (\<lambda>_.
      case fs_node fs versions_path of
        Fs_Directory entries \<Rightarrow>
          and_also (collect_datasets (catalog_dataset json fs root) entries []) catalog_from_versions
      | _ \<Rightarrow> Inl (Ve_Io ''reading versions directory'' versions_path (fs_is_directory fs)))))"

text \<open>Creating a file over a directory fails, as does what the environment refuses.\<close>

definition create_file :: "'io file_system \<Rightarrow> path \<Rightarrow> u8 list \<Rightarrow> 'io + 'io file_system" where
  "create_file fs p content =
     (case fs_cannot_create fs p of
        Some e \<Rightarrow> Inl e
      | None \<Rightarrow>
          (case fs_node fs p of
             Fs_Directory _ \<Rightarrow> Inl (fs_is_directory fs)
           | _ \<Rightarrow> Inr (fs\<lparr>fs_node := (fs_node fs)(p := Fs_File content)\<rparr>)))"

definition write_catalog ::
  "('v, 'j) version_json \<Rightarrow> path \<Rightarrow> ('io file_system, ('io, 'j) version_data_error, version_catalog) fallible" where
  "write_catalog json root fs =
     (let path = path_join root (str CATALOG_FILE_NAME) in
      case and_also (build_catalog json fs root) (\<lambda>catalog.
           and_also (serialize_catalog json catalog) (\<lambda>bytes. Inr (catalog, bytes))) of
        Inl e \<Rightarrow> (Inl e, fs)
      | Inr (catalog, bytes) \<Rightarrow>
          let create = (case create_file fs path bytes of
                          Inl e \<Rightarrow> (Inl (Ve_Io ''creating catalog'' path e), fs) | Inr fs' \<Rightarrow> (Inr catalog, fs')) in
          (case symlink_metadata fs path of
             Inr File_Symlink \<Rightarrow> (Inl (Ve_SymlinkNotAllowed path), fs)
           | Inr _ \<Rightarrow> create
           | Inl e \<Rightarrow> if fs_not_found fs e then create
                      else (Inl (Ve_Io ''inspecting catalog destination'' path e), fs)))"

end
