(* ===== verification/Version_Props.thy ===== *)
theory Version_Props
  imports Version_Store Game_Data_Props
begin

text \<open>
  An accepted version identifier names exactly one directory below the versions directory, and a catalog that was built
  and written is the catalog of the store that is opened from it.
\<close>

section \<open>Names along a path\<close>

definition path_names :: "path \<Rightarrow> rust_str list" where
  "path_names p = filter (\<lambda>c. c \<noteq> [] \<and> c \<noteq> str ''.'') (split_on 47 p)"

lemma split_on_nonempty: "split_on c s \<noteq> []"
  by (cases s) (auto split: list.split)

lemma split_on_append: "split_on c (a @ c # b) = split_on c a @ split_on c b"
proof (induction a)
  case (Cons x a)
  then show ?case using split_on_nonempty[of c a] by (cases "split_on c a") auto
qed simp

lemma split_on_single: "c \<notin> set s \<Longrightarrow> split_on c s = [s]"
  by (induction s) auto

lemma path_names_join:
  assumes "47 \<notin> set q" and "q \<noteq> []" and "q \<noteq> str ''.''"
  shows "path_names (path_join p q) = path_names p @ [q]"
proof -
  have hd: "hd q \<noteq> 47" using assms(1,2) by (cases q) auto
  have q: "split_on 47 q = [q]" using assms(1) by (rule split_on_single)
  show ?thesis
  proof (cases "p = [] \<or> last p = 47")
    case True
    show ?thesis
    proof (cases "p = []")
      case True
      then show ?thesis using hd q assms(2,3) by (simp add: path_join_def path_names_def)
    next
      case False
      then obtain r where p: "p = r @ [47]" using True by (metis append_butlast_last_id)
      have "split_on 47 (r @ 47 # q) = split_on 47 r @ [q]" "split_on 47 p = split_on 47 r @ [[]]"
        using split_on_append[of 47 r q] split_on_append[of 47 r "[]"] q p by simp_all
      then show ?thesis using hd p assms(2,3) by (simp add: path_join_def path_names_def)
    qed
  next
    case False
    then show ?thesis using hd q assms(2,3) split_on_append[of 47 p q] by (simp add: path_join_def path_names_def)
  qed
qed

definition safe_name :: "rust_str \<Rightarrow> bool" where
  "safe_name v \<longleftrightarrow> v \<noteq> [] \<and> str_len v \<le> MAX_VERSION_ID_BYTES \<and> v \<noteq> str ''.'' \<and> v \<noteq> str ''..'' \<and>
     47 \<notin> set v \<and> 92 \<notin> set v"

lemma accepted_id:
  "minecraft_version_id_new v = Inr i \<Longrightarrow> i = v \<and> safe_name v"
  by (auto simp: minecraft_version_id_new_def and_also_def validate_version_id_def safe_name_def list_ex_iff
      split: sum.splits if_splits)

lemma accepts_id: "minecraft_version_id_new v = (Inr i :: ('io, 'j) version_data_error + rust_str) \<Longrightarrow> accepts minecraft_version_id_new v"
  by (auto simp: accepts_def minecraft_version_id_new_def and_also_def validate_version_id_def split: if_splits)

lemma path_names_fixed:
  "path_names (path_join root (str CATALOG_FILE_NAME)) = path_names root @ [str CATALOG_FILE_NAME]"
  "path_names (path_join root (str VERSIONS_DIRECTORY_NAME)) = path_names root @ [str VERSIONS_DIRECTORY_NAME]"
  "path_names (path_join root (str VERSION_FILE_NAME)) = path_names root @ [str VERSION_FILE_NAME]"
  by (rule path_names_join; simp add: CATALOG_FILE_NAME_def VERSIONS_DIRECTORY_NAME_def VERSION_FILE_NAME_def)+

definition dataset_directory :: "path \<Rightarrow> rust_str \<Rightarrow> path" where
  "dataset_directory root version = path_join (path_join root (str VERSIONS_DIRECTORY_NAME)) version"

lemma dataset_names:
  assumes "safe_name v"
  shows "path_names (dataset_directory root v) = path_names root @ [str VERSIONS_DIRECTORY_NAME, v]"
    and "path_names (path_join (dataset_directory root v) (str VERSION_FILE_NAME)) =
      path_names root @ [str VERSIONS_DIRECTORY_NAME, v, str VERSION_FILE_NAME]"
  using assms path_names_join[of v "path_join root (str VERSIONS_DIRECTORY_NAME)"]
  by (simp_all add: dataset_directory_def path_names_fixed safe_name_def)

section \<open>A written catalog\<close>

text \<open>Writing the catalog touches none of the paths the datasets are read from.\<close>

lemma catalog_path_apart:
  "path_join root (str CATALOG_FILE_NAME) \<noteq> root"
  "path_join root (str CATALOG_FILE_NAME) \<noteq> path_join root (str VERSIONS_DIRECTORY_NAME)"
  "safe_name v \<Longrightarrow> path_join root (str CATALOG_FILE_NAME) \<noteq> dataset_directory root v"
  "safe_name v \<Longrightarrow> path_join root (str CATALOG_FILE_NAME) \<noteq> path_join (dataset_directory root v) (str VERSION_FILE_NAME)"
proof -
  have "str CATALOG_FILE_NAME \<noteq> str VERSIONS_DIRECTORY_NAME"
    by (simp add: CATALOG_FILE_NAME_def VERSIONS_DIRECTORY_NAME_def)
  then show "path_join root (str CATALOG_FILE_NAME) \<noteq> root"
    "path_join root (str CATALOG_FILE_NAME) \<noteq> path_join root (str VERSIONS_DIRECTORY_NAME)"
    "safe_name v \<Longrightarrow> path_join root (str CATALOG_FILE_NAME) \<noteq> dataset_directory root v"
    "safe_name v \<Longrightarrow> path_join root (str CATALOG_FILE_NAME) \<noteq> path_join (dataset_directory root v) (str VERSION_FILE_NAME)"
    using path_names_fixed[of root] dataset_names[of v root]
    by (auto dest!: arg_cong[where f = path_names])
qed

definition written :: "'io file_system \<Rightarrow> path \<Rightarrow> u8 list \<Rightarrow> 'io file_system" where
  "written fs root content = fs\<lparr>fs_node := (fs_node fs)(path_join root (str CATALOG_FILE_NAME) := Fs_File content)\<rparr>"

lemma written_elsewhere:
  "p \<noteq> path_join root (str CATALOG_FILE_NAME) \<Longrightarrow> fs_node (written fs root content) p = fs_node fs p"
  "fs_is_directory (written fs root content) = fs_is_directory fs"
  by (simp_all add: written_def)

lemma require_directory_written:
  "p \<noteq> path_join root (str CATALOG_FILE_NAME) \<Longrightarrow> require_directory (written fs root content) p = require_directory fs p"
  by (simp add: require_directory_def symlink_metadata_def written_elsewhere)

lemma read_bounded_written:
  "p \<noteq> path_join root (str CATALOG_FILE_NAME) \<Longrightarrow> read_bounded (written fs root content) p m = read_bounded fs p m"
  by (simp add: read_bounded_def reject_symlink_def symlink_metadata_def written_elsewhere cong: fs_node.case_cong)

lemma load_dataset_written:
  assumes "safe_name v"
  shows "load_dataset_from_root json (written fs root content) root v = load_dataset_from_root json fs root v"
  using catalog_path_apart(3,4)[OF assms, of root]
  by (simp add: load_dataset_from_root_def dataset_directory_def Let_def require_directory_written read_bounded_written)

lemma collect_datasets_Inr:
  "collect_datasets load entries ds = Inr ds' \<Longrightarrow> d \<in> set ds' \<Longrightarrow> d \<in> set ds \<or> (\<exists>e \<in> set entries. load e = Inr d)"
proof (induction entries arbitrary: ds)
  case (Cons e es)
  then obtain x where "load e = Inr x" "collect_datasets load es (ds @ [x]) = Inr ds'"
    by (auto simp: and_also_def split: if_splits sum.splits)
  with Cons show ?case by fastforce
qed simp

lemma catalog_dataset_Inr:
  "catalog_dataset json fs root e = (Inr d :: ('io, 'j) version_data_error + version_data) \<Longrightarrow>
     load_dataset_from_root json fs root (vd_minecraft_version d) = (Inr d :: ('io, 'j) version_data_error + version_data) \<and>
     safe_name (vd_minecraft_version d) \<and> accepts minecraft_version_id_new (vd_minecraft_version d)"
  by (auto simp: catalog_dataset_def and_also_def split: if_splits option.splits sum.splits
      dest: accepted_id accepts_id)

text \<open>What the serde crates promise: a printed catalog is parsed back, and printed in bounded space.\<close>

definition wire_of :: "version_catalog \<Rightarrow> wire_catalog" where
  "wire_of c =
     \<lparr>wcat_format_version = vc_format_version c,
      wcat_versions = map (\<lambda>e. \<lparr>wc_minecraft_version = ce_minecraft_version e, wc_kind = ce_kind e,
        wc_protocol = ce_protocol e\<rparr>) (vc_versions c)\<rparr>"

definition prints_back :: "('v, 'j) version_json \<Rightarrow> bool" where
  "prints_back json \<longleftrightarrow> (\<forall>c bytes. vj_print_catalog json c = Inr bytes \<longrightarrow>
     (\<exists>v. vj_parse json (bytes @ [10]) = Inr v \<and> vj_format json v = Some (unat (vc_format_version c)) \<and>
        vj_catalog json v = Some (wire_of c)))"

definition fits_on_disk :: "('v, 'j) version_json \<Rightarrow> version_catalog \<Rightarrow> bool" where
  "fits_on_disk json c \<longleftrightarrow> (\<forall>bytes. vj_print_catalog json c = Inr bytes \<longrightarrow> length bytes < MAX_CATALOG_FILE_BYTES)"

definition catalog_ok :: "version_catalog \<Rightarrow> bool" where
  "catalog_ok c \<longleftrightarrow> vc_format_version c = FORMAT_CURRENT \<and> length (vc_versions c) \<le> MAX_INSTALLED_VERSIONS \<and>
     sorted_wrt (\<lambda>x y. ce_minecraft_version x < ce_minecraft_version y) (vc_versions c) \<and>
     (\<forall>e \<in> set (vc_versions c). \<not> ce_protocol e <s 0)"

lemma duplicate_neighbour_None:
  fixes xs :: "'a::linorder list"
  shows "sorted xs \<Longrightarrow> duplicate_neighbour xs = None \<longleftrightarrow> sorted_wrt (<) xs"
proof (induction xs rule: duplicate_neighbour.induct)
  case (1 x y xs)
  then show ?case by (auto simp: less_le)
qed auto

lemma try_each_checks: "(\<exists>us. try_each (\<lambda>e. validate_protocol (ce_protocol e)) es = (Inr us :: ('io, 'j) version_data_error + unit list)) \<longleftrightarrow> (\<forall>e \<in> set es. \<not> ce_protocol e <s 0)"
  by (induction es) (auto simp: and_also_def validate_protocol_def split: sum.splits)

lemma catalog_from_entries_ok:
  "catalog_from_entries es = (Inr c :: ('io, 'j) version_data_error + version_catalog) \<Longrightarrow>
     catalog_ok c \<and> set (vc_versions c) = set es"
proof -
  assume c: "catalog_from_entries es = (Inr c :: ('io, 'j) version_data_error + version_catalog)"
  let ?s = "sort_key ce_minecraft_version es"
  have n: "length es \<le> MAX_INSTALLED_VERSIONS" and "\<forall>e \<in> set es. \<not> ce_protocol e <s 0"
    and d: "duplicate_neighbour (map ce_minecraft_version ?s) = None" "c = \<lparr>vc_format_version = FORMAT_CURRENT, vc_versions = ?s\<rparr>"
    using c try_each_checks[where ?'io = 'io and ?'j = 'j, of es]
    by (auto simp: catalog_from_entries_def and_also_def Let_def split: if_splits sum.splits option.splits)
  have "sorted (map ce_minecraft_version ?s)" by simp
  from duplicate_neighbour_None[OF this] d(1)
  have "sorted_wrt (\<lambda>x y. ce_minecraft_version x < ce_minecraft_version y) ?s" by (simp add: sorted_wrt_map)
  then show ?thesis using n d(2) \<open>\<forall>e \<in> set es. \<not> ce_protocol e <s 0\<close> by (simp add: catalog_ok_def)
qed

lemma catalog_from_entries_again:
  assumes "catalog_ok c"
  shows "catalog_from_entries (vc_versions c) = (Inr c :: ('io, 'j) version_data_error + version_catalog)"
proof -
  have s: "sorted_wrt (<) (map ce_minecraft_version (vc_versions c))"
    using assms by (simp add: catalog_ok_def sorted_wrt_map)
  then have "sorted (map ce_minecraft_version (vc_versions c))" by (rule strict_sorted_imp_sorted)
  then have id: "sort_key ce_minecraft_version (vc_versions c) = vc_versions c"
    and dup: "duplicate_neighbour (map ce_minecraft_version (vc_versions c)) = None"
    using s by (simp_all add: sort_key_id_if_sorted duplicate_neighbour_None)
  obtain us where "try_each (\<lambda>e. validate_protocol (ce_protocol e)) (vc_versions c) =
      (Inr us :: ('io, 'j) version_data_error + unit list)"
    using assms try_each_checks[where ?'io = 'io and ?'j = 'j, of "vc_versions c"] by (auto simp: catalog_ok_def)
  then show ?thesis
    using assms id dup by (simp add: catalog_from_entries_def catalog_ok_def and_also_def Let_def)
qed

lemma catalog_exact_iff: "catalog_ok c \<Longrightarrow> catalog_exact c v = Some e \<longleftrightarrow> e \<in> set (vc_versions c) \<and> ce_minecraft_version e = v"
  by (simp add: catalog_exact_def catalog_ok_def binary_search_iff)

lemma written_catalog_reads_back:
  assumes "prints_back json" and "catalog_ok c" and "serialize_catalog json c = (Inr bytes :: ('io, 'j) version_data_error + u8 list)"
    and "\<forall>e \<in> set (vc_versions c). accepts minecraft_version_id_new (ce_minecraft_version e)"
  shows "deserialize_catalog json bytes = (Inr c :: ('io, 'j) version_data_error + version_catalog)"
proof -
  obtain out v where b: "bytes = out @ [10]" "vj_parse json (out @ [10]) = Inr v"
    "vj_format json v = Some (unat (vc_format_version c))" "vj_catalog json v = Some (wire_of c)"
    using assms(1,3) unfolding serialize_catalog_def serialize_pretty_def prints_back_def
    by (auto split: sum.splits) blast
  have f: "vc_format_version c = FORMAT_CURRENT" "unat FORMAT_CURRENT = 1" "(of_nat 1 :: u32) = FORMAT_CURRENT"
    using assms(2) by (simp_all add: catalog_ok_def FORMAT_CURRENT_def)
  have "map (\<lambda>e. \<lparr>ce_minecraft_version = wc_minecraft_version e, ce_kind = wc_kind e, ce_protocol = wc_protocol e\<rparr>)
      (wcat_versions (wire_of c)) = vc_versions c"
    by (auto simp: wire_of_def comp_def intro: map_idI)
  moreover have "list_all (\<lambda>e. accepts minecraft_version_id_new (wc_minecraft_version e)) (wcat_versions (wire_of c))"
    using assms(4) by (simp add: wire_of_def list_all_iff)
  moreover have "parse_and_check_format json bytes = (Inr v :: ('io, 'j) version_data_error + _)"
    using b f by (simp add: parse_and_check_format_def and_also_def check_current_format_def)
  ultimately show ?thesis
    using b(4) f catalog_from_entries_again[where ?'io = 'io and ?'j = 'j, OF assms(2)]
    by (simp add: deserialize_catalog_def and_also_def check_current_format_def) (simp add: wire_of_def)
qed

lemma built_catalog:
  assumes "build_catalog json fs root = (Inr c :: ('io, 'j) version_data_error + version_catalog)"
  shows "catalog_ok c"
    and "e \<in> set (vc_versions c) \<Longrightarrow> safe_name (ce_minecraft_version e) \<and>
      accepts minecraft_version_id_new (ce_minecraft_version e) \<and>
      (\<exists>d. load_dataset_from_root json fs root (ce_minecraft_version e) = (Inr d :: ('io, 'j) version_data_error + version_data) \<and>
        catalog_entry_from d = e)"
    and "require_directory fs root = (Inr () :: ('io, 'j) version_data_error + unit)"
    and "require_directory fs (path_join root (str VERSIONS_DIRECTORY_NAME)) = (Inr () :: ('io, 'j) version_data_error + unit)"
proof -
  from assms obtain entries ds where
    dirs: "require_directory fs root = (Inr () :: ('io, 'j) version_data_error + unit)"
      "require_directory fs (path_join root (str VERSIONS_DIRECTORY_NAME)) = (Inr () :: ('io, 'j) version_data_error + unit)"
    and ds: "collect_datasets (catalog_dataset json fs root) entries [] = (Inr ds :: ('io, 'j) version_data_error + version_data list)"
      "catalog_from_versions ds = (Inr c :: ('io, 'j) version_data_error + version_catalog)"
    by (auto simp: build_catalog_def and_also_def Let_def split: sum.splits fs_node.splits)
  then show "require_directory fs root = (Inr () :: ('io, 'j) version_data_error + unit)"
    "require_directory fs (path_join root (str VERSIONS_DIRECTORY_NAME)) = (Inr () :: ('io, 'j) version_data_error + unit)"
    by simp_all
  have c: "catalog_ok c" "set (vc_versions c) = catalog_entry_from ` set ds"
    using catalog_from_entries_ok[where ?'io = 'io and ?'j = 'j, of "map catalog_entry_from ds" c] ds(2) by (simp_all add: catalog_from_versions_def)
  then show "catalog_ok c" by simp
  assume "e \<in> set (vc_versions c)"
  then obtain d where d: "d \<in> set ds" "e = catalog_entry_from d" using c by auto
  then obtain entry where "catalog_dataset json fs root entry = (Inr d :: ('io, 'j) version_data_error + version_data)"
    using collect_datasets_Inr[OF ds(1)] by auto
  from catalog_dataset_Inr[OF this] d(2)
  show "safe_name (ce_minecraft_version e) \<and> accepts minecraft_version_id_new (ce_minecraft_version e) \<and>
      (\<exists>d. load_dataset_from_root json fs root (ce_minecraft_version e) = (Inr d :: ('io, 'j) version_data_error + version_data) \<and>
        catalog_entry_from d = e)"
    by (auto simp: catalog_entry_from_def)
qed

lemma write_catalog_Inr:
  assumes "write_catalog json root fs = (Inr c :: ('io, 'j) version_data_error + version_catalog, fs')"
  obtains bytes where "build_catalog json fs root = (Inr c :: ('io, 'j) version_data_error + version_catalog)"
    and "serialize_catalog json c = (Inr bytes :: ('io, 'j) version_data_error + u8 list)" and "fs' = written fs root bytes"
proof -
  obtain bytes where b: "build_catalog json fs root = (Inr c :: ('io, 'j) version_data_error + version_catalog)"
    "serialize_catalog json c = (Inr bytes :: ('io, 'j) version_data_error + u8 list)"
    "create_file fs (path_join root (str CATALOG_FILE_NAME)) bytes = Inr fs'"
    using assms
    by (auto simp: write_catalog_def Let_def and_also_def split: sum.splits file_kind.splits if_splits)
  then have "fs' = written fs root bytes"
    by (auto simp: create_file_def written_def split: option.splits fs_node.splits)
  with b show ?thesis using that by blast
qed

section \<open>Properties\<close>

text \<open>
  C36: an accepted version identifier stays inside the versions directory: it adds exactly one name to the path, itself,
  below which the file of its metadata lies; nothing in it is read as a separator, as the directory itself or as its parent.
\<close>

theorem version_id_names_one_directory:
  assumes "minecraft_version_id_new v = Inr i"
  shows "i = v \<and> str_len i \<le> MAX_VERSION_ID_BYTES \<and> i \<noteq> str ''..'' \<and>
    path_names (dataset_directory root i) = path_names root @ [str VERSIONS_DIRECTORY_NAME, i] \<and>
    path_names (path_join (dataset_directory root i) (str VERSION_FILE_NAME)) =
      path_names root @ [str VERSIONS_DIRECTORY_NAME, i, str VERSION_FILE_NAME]"
  using accepted_id[OF assms] dataset_names[of i root] by (simp add: safe_name_def)

lemma version_id_names_one_directory_witness:
  "path_names (dataset_directory (str ''/d'') (str ''26.1'')) = [str ''d'', str VERSIONS_DIRECTORY_NAME, str ''26.1'']"
proof -
  have "minecraft_version_id_new (str ''26.1'') = Inr (str ''26.1'')"
    by (simp add: minecraft_version_id_new_def validate_version_id_def and_also_def str_len_def as_bytes_def utf8_char_def
        MAX_VERSION_ID_BYTES_def is_control_def is_windows_device_name_def to_ascii_uppercase_def numbered_device_def
        code_point_def Let_def)
  from version_id_names_one_directory[OF this, of "str ''/d''"] show ?thesis by (simp add: path_names_def)
qed

text \<open>
  C37: a catalog that was built from the installed versions and written to disk is the catalog of the store opened from
  that directory: opening succeeds, and every version of the catalog loads, with the kind and the protocol the catalog
  names for it; a version it does not name loads as absent.
\<close>

theorem written_catalog_opens:
  fixes json :: "('v, 'j) version_json" and fs :: "'io file_system"
  assumes "prints_back json" and "write_catalog json root fs = (Inr c, fs')" and "fits_on_disk json c"
  shows "open_store json fs' root = Inr \<lparr>vs_root = root, vs_catalog = c\<rparr> \<and>
    (case catalog_exact c v of
       None \<Rightarrow> load_exact json fs' \<lparr>vs_root = root, vs_catalog = c\<rparr> v = Inr None
     | Some e \<Rightarrow> (\<exists>d. load_exact json fs' \<lparr>vs_root = root, vs_catalog = c\<rparr> v = Inr (Some d) \<and> catalog_entry_from d = e))"
proof -
  obtain bytes where w: "build_catalog json fs root = (Inr c :: ('io, 'j) version_data_error + version_catalog)"
    "serialize_catalog json c = (Inr bytes :: ('io, 'j) version_data_error + u8 list)" "fs' = written fs root bytes"
    by (rule write_catalog_Inr[OF assms(2)])
  note built = built_catalog[OF w(1)]
  have load: "\<exists>d. load_dataset_from_root json fs' root (ce_minecraft_version e) =
      (Inr d :: ('io, 'j) version_data_error + version_data) \<and> catalog_entry_from d = e" if "e \<in> set (vc_versions c)" for e
    using built(2)[OF that] load_dataset_written[of "ce_minecraft_version e" json fs root bytes] w(3) by auto
  have read: "deserialize_catalog json bytes = (Inr c :: ('io, 'j) version_data_error + version_catalog)"
    using written_catalog_reads_back[OF assms(1) built(1) w(2)] built(2) by blast
  have "length bytes \<le> MAX_CATALOG_FILE_BYTES"
    using w(2) assms(3) by (auto simp: serialize_catalog_def serialize_pretty_def fits_on_disk_def split: sum.splits)
  then have catalog_file: "read_bounded fs' (path_join root (str CATALOG_FILE_NAME)) MAX_CATALOG_FILE_BYTES =
      (Inr bytes :: ('io, 'j) version_data_error + u8 list)"
    by (simp add: read_bounded_def reject_symlink_def symlink_metadata_def and_also_def w(3) written_def Let_def)
  have dirs: "require_directory fs' root = (Inr () :: ('io, 'j) version_data_error + unit)"
    "require_directory fs' (path_join root (str VERSIONS_DIRECTORY_NAME)) = (Inr () :: ('io, 'j) version_data_error + unit)"
    using built(3,4) catalog_path_apart(1,2)[of root] by (simp_all add: w(3) require_directory_written)
  let ?s = "\<lparr>vs_root = root, vs_catalog = c\<rparr>"
  have "\<exists>us. try_each (\<lambda>entry.
         and_also (load_dataset_from_root json fs' root (ce_minecraft_version entry)) (\<lambda>data.
         if vd_kind data \<noteq> ce_kind entry then Inl (Ve_CatalogDatasetMismatch (ce_minecraft_version entry) ''kind'')
         else if vd_protocol data \<noteq> ce_protocol entry
         then Inl (Ve_CatalogDatasetMismatch (ce_minecraft_version entry) ''protocol'')
         else Inr ())) es = (Inr us :: ('io, 'j) version_data_error + unit list)" if "set es \<subseteq> set (vc_versions c)" for es
    using that
  proof (induction es)
    case (Cons e es)
    obtain d where "load_dataset_from_root json fs' root (ce_minecraft_version e) = (Inr d :: ('io, 'j) version_data_error + version_data)"
      "catalog_entry_from d = e"
      using load[of e] Cons.prems by auto
    then show ?case using Cons by (auto simp: and_also_def catalog_entry_from_def)
  qed simp
  from this[OF order_refl] have "validate_catalog_datasets json fs' ?s = (Inr () :: ('io, 'j) version_data_error + unit)"
    by (auto simp: validate_catalog_datasets_def and_also_def)
  then have "open_store json fs' root = Inr ?s"
    by (simp add: open_store_def dirs catalog_file read and_also_def Let_def)
  moreover have "case catalog_exact c v of
       None \<Rightarrow> load_exact json fs' ?s v = Inr None
     | Some e \<Rightarrow> (\<exists>d. load_exact json fs' ?s v = Inr (Some d) \<and> catalog_entry_from d = e)"
  proof (cases "catalog_exact c v")
    case (Some e)
    then have "e \<in> set (vc_versions c)" "ce_minecraft_version e = v" using catalog_exact_iff[OF built(1)] by auto
    then show ?thesis using load[of e] Some by (auto simp: load_exact_def and_also_def)
  qed (simp add: load_exact_def)
  ultimately show ?thesis by simp
qed

text \<open>One installed version, and a printer that knows its catalog.\<close>

definition one_catalog :: version_catalog where
  "one_catalog = \<lparr>vc_format_version = 1,
     vc_versions = [\<lparr>ce_minecraft_version = str ''26'', ce_kind = Kind_Release, ce_protocol = 775\<rparr>]\<rparr>"

definition one_json :: "(wire_catalog + wire_version_data, unit) version_json" where
  "one_json =
     \<lparr>vj_parse = (\<lambda>b. if b = [1, 10] then Inr (Inl (wire_of one_catalog))
        else if b = [2] then Inr (Inr \<lparr>wv_format_version = 1, wv_minecraft_version = str ''26'', wv_kind = Kind_Release,
          wv_protocol = 775, wv_compatibility_profiles = []\<rparr>) else Inl (1, 1)),
      vj_format = (\<lambda>_. Some 1), vj_version_data = (\<lambda>v. case v of Inl _ \<Rightarrow> None | Inr d \<Rightarrow> Some d),
      vj_catalog = (\<lambda>v. case v of Inl c \<Rightarrow> Some c | Inr _ \<Rightarrow> None),
      vj_print_catalog = (\<lambda>c. if c = one_catalog then Inr [1] else Inl ()), vj_print_version_data = (\<lambda>_. Inl ())\<rparr>"

definition one_disk :: "unit file_system" where
  "one_disk =
     \<lparr>fs_node = (\<lambda>p. if p = str ''r'' \<or> p = str ''r/versions/26'' then Fs_Directory []
        else if p = str ''r/versions'' then
          Fs_Directory [\<lparr>de_name = Some (str ''26''), de_path = str ''r/versions/26'', de_kind = File_Directory\<rparr>]
        else if p = str ''r/versions/26/version.json'' then Fs_File [2] else Fs_Missing ()),
      fs_not_found = (\<lambda>_. True), fs_cannot_create = (\<lambda>_. None), fs_is_directory = ()\<rparr>"

lemma one_paths:
  "path_join (str ''r'') (str VERSIONS_DIRECTORY_NAME) = str ''r/versions''"
  "path_join (str ''r/versions'') (str ''26'') = str ''r/versions/26''"
  "path_join (str ''r/versions/26'') (str VERSION_FILE_NAME) = str ''r/versions/26/version.json''"
  "path_join (str ''r'') (str CATALOG_FILE_NAME) = str ''r/catalog.json''"
  by (simp_all add: path_join_def VERSIONS_DIRECTORY_NAME_def VERSION_FILE_NAME_def CATALOG_FILE_NAME_def)

lemma one_nodes:
  "fs_node one_disk (str ''r'') = Fs_Directory []" "fs_node one_disk (str ''r/versions/26'') = Fs_Directory []"
  "fs_node one_disk (str ''r/versions'') =
     Fs_Directory [\<lparr>de_name = Some (str ''26''), de_path = str ''r/versions/26'', de_kind = File_Directory\<rparr>]"
  "fs_node one_disk (str ''r/versions/26/version.json'') = Fs_File [2]"
  "fs_node one_disk (str ''r/catalog.json'') = Fs_Missing ()"
  by (simp_all add: one_disk_def)

lemma one_id: "minecraft_version_id_new (str ''26'') = (Inr (str ''26'') :: ('io, 'j) version_data_error + rust_str)"
  by (simp add: minecraft_version_id_new_def validate_version_id_def and_also_def str_len_def as_bytes_def utf8_char_def
      MAX_VERSION_ID_BYTES_def is_control_def is_windows_device_name_def to_ascii_uppercase_def numbered_device_def
      code_point_def Let_def)

lemma one_written:
  "write_catalog one_json (str ''r'') one_disk =
     (Inr one_catalog :: (unit, unit) version_data_error + version_catalog, written one_disk (str ''r'') [1, 10])"
proof -
  let ?d = "\<lparr>vd_format_version = 1, vd_minecraft_version = str ''26'', vd_kind = Kind_Release, vd_protocol = 775,
     vd_compatibility_profiles = []\<rparr>"
  have dirs: "require_directory one_disk (str ''r'') = (Inr () :: (unit, unit) version_data_error + unit)"
    "require_directory one_disk (str ''r/versions'') = (Inr () :: (unit, unit) version_data_error + unit)"
    "require_directory one_disk (str ''r/versions/26'') = (Inr () :: (unit, unit) version_data_error + unit)"
    by (simp_all only: require_directory_def symlink_metadata_def one_nodes fs_node.case sum.case file_kind.case)
  have content: "read_bounded one_disk (str ''r/versions/26/version.json'') MAX_VERSION_FILE_BYTES =
      (Inr [2] :: (unit, unit) version_data_error + u8 list)"
    by (simp only: read_bounded_def reject_symlink_def symlink_metadata_def one_nodes fs_node.case sum.case file_kind.case)
      (simp add: and_also_def MAX_VERSION_FILE_BYTES_def)
  have data: "deserialize_version_data one_json [2] = (Inr ?d :: (unit, unit) version_data_error + version_data)"
    using accepts_id[OF one_id]
    by (simp add: deserialize_version_data_def parse_and_check_format_def one_json_def and_also_def check_current_format_def
        FORMAT_CURRENT_def version_data_new_def validate_protocol_def normalize_profiles_def word_sless_alt)
  have dataset: "load_dataset_from_root one_json one_disk (str ''r'') (str ''26'') =
      (Inr ?d :: (unit, unit) version_data_error + version_data)"
    by (simp only: load_dataset_from_root_def Let_def one_paths dirs content data and_also_def sum.case) simp
  have entry: "catalog_dataset one_json one_disk (str ''r'') \<lparr>de_name = Some (str ''26''), de_path = str ''r/versions/26'', de_kind = File_Directory\<rparr> =
      (Inr ?d :: (unit, unit) version_data_error + version_data)"
    by (simp only: catalog_dataset_def dir_entry.simps one_id option.case and_also_def sum.case dataset) simp
  have "build_catalog one_json one_disk (str ''r'') = (Inr one_catalog :: (unit, unit) version_data_error + version_catalog)"
    by (simp only: build_catalog_def Let_def one_paths dirs one_nodes and_also_def sum.case fs_node.case
        collect_datasets.simps entry)
      (simp add: MAX_INSTALLED_VERSIONS_def catalog_from_versions_def catalog_entry_from_def catalog_from_entries_def
        and_also_def validate_protocol_def word_sless_alt one_catalog_def FORMAT_CURRENT_def)
  moreover have "serialize_catalog one_json one_catalog = (Inr [1, 10] :: (unit, unit) version_data_error + u8 list)"
    by (simp add: serialize_catalog_def serialize_pretty_def one_json_def)
  moreover have "fs_not_found one_disk ()" "fs_cannot_create one_disk p = None" for p by (simp_all add: one_disk_def)
  ultimately show ?thesis
    by (simp only: write_catalog_def Let_def one_paths and_also_def sum.case prod.case symlink_metadata_def one_nodes
        fs_node.case create_file_def option.case written_def if_True)
qed

lemma written_catalog_opens_witness:
  "open_store one_json (written one_disk (str ''r'') [1, 10]) (str ''r'') =
     (Inr \<lparr>vs_root = str ''r'', vs_catalog = one_catalog\<rparr> :: (unit, unit) version_data_error + version_data_store)"
proof -
  have "prints_back one_json" by (simp add: prints_back_def one_json_def one_catalog_def)
  moreover have "fits_on_disk one_json one_catalog" by (simp add: fits_on_disk_def one_json_def MAX_CATALOG_FILE_BYTES_def)
  ultimately show ?thesis using written_catalog_opens[OF _ one_written] by blast
qed

end
