(* ===== verification/Ieee_Rounding.thy ===== *)
theory Ieee_Rounding
  imports Ieee
begin

text \<open>
  How the arithmetic of \<open>Ieee\<close> relates to that of the integers: a finite number is an integer multiple of the least
  subnormal, and a sum is that of the integers, rounded. Rounding keeps the order, leaves a number alone and is off by at
  most one part in \<open>2 ^ 53\<close>; with that, proofs about \<open>f64\<close> are proofs about integers.
\<close>

section \<open>Rounding of magnitudes\<close>

lemma bit_length_bounds: "n < 2 ^ bit_length n \<and> (0 < n \<longrightarrow> 2 ^ bit_length n \<le> 2 * n)"
proof (induction n rule: bit_length.induct)
  case (1 n)
  then show ?case
    by (cases "n = 0"; subst (1 2) bit_length.simps; cases "n div 2 = 0") (auto simp: bit_length.simps[of 0])
qed

lemma bit_length_unique:
  assumes "2 ^ k \<le> n" and "n < 2 ^ Suc k"
  shows "bit_length n = Suc k"
proof -
  have "0 < n" using assms(1) by (metis less_le_trans zero_less_numeral zero_less_power)
  then have upper: "2 ^ bit_length n \<le> 2 * n" and lower: "n < 2 ^ bit_length n" using bit_length_bounds by auto
  from upper assms(2) have "(2::nat) ^ bit_length n < 2 ^ Suc (Suc k)" by simp
  then have "bit_length n < Suc (Suc k)" by (rule power_less_imp_less_exp[rotated]) simp
  moreover from assms(1) lower have "(2::nat) ^ k < 2 ^ bit_length n" by (rule le_less_trans)
  then have "k < bit_length n" by (rule power_less_imp_less_exp[rotated]) simp
  ultimately show ?thesis by simp
qed

definition magnitude_units :: "float_format \<Rightarrow> nat \<Rightarrow> nat" where
  "magnitude_units F m =
     (let e = m div 2 ^ frac_bits F; f = m mod 2 ^ frac_bits F in
      if e = 0 then f else (2 ^ frac_bits F + f) * 2 ^ (e - 1))"

lemma fl_units_magnitude: "fl_units F b = magnitude_units F (fl_abs F b)"
  by (simp add: fl_units_def magnitude_units_def)

text \<open>The magnitude with exponent \<open>k\<close> and significand \<open>q\<close>, up to the next power of two.\<close>

lemma magnitude_units_pack:
  assumes "k = 0 \<or> 2 ^ frac_bits F \<le> q" and "q \<le> 2 ^ Suc (frac_bits F)"
  shows "magnitude_units F (k * 2 ^ frac_bits F + q) = q * 2 ^ k"
proof -
  let ?B = "2 ^ frac_bits F :: nat"
  consider "k = 0" "q < ?B" | "?B \<le> q" "q < 2 * ?B" | "q = 2 * ?B" using assms by force
  then show ?thesis
  proof cases
    case 1
    then show ?thesis by (simp add: magnitude_units_def)
  next
    case 2
    then obtain f where q: "q = ?B + f" "f < ?B" by (metis less_diff_conv2 le_add_diff_inverse mult_2 add_less_cancel_left)
    then have "(k * ?B + q) div ?B = Suc k" "(k * ?B + q) mod ?B = f"
      by (simp_all add: div_nat_eqI algebra_simps)
        (metis (no_types, opaque_lifting) add.commute add.left_commute mod_less mod_mult_self1 mod_add_self1 mult.commute)
    with q show ?thesis by (simp add: magnitude_units_def)
  next
    case 3
    then have "k * ?B + q = (k + 2) * ?B" by (simp add: algebra_simps)
    then have "(k * ?B + q) div ?B = k + 2" "(k * ?B + q) mod ?B = 0" by simp_all
    with 3 show ?thesis by (simp add: magnitude_units_def)
  qed
qed

lemma round_half_even_one [simp]: "round_half_even n (Suc 0) = n"
  by (simp add: round_half_even_def)

lemma round_half_even_exact: "0 < d \<Longrightarrow> round_half_even (q * d) d = q"
  by (simp add: round_half_even_def)

lemma round_half_even_near:
  assumes "0 < d"
  shows "2 * (round_half_even n d * d) \<le> 2 * n + d" and "2 * n \<le> 2 * (round_half_even n d * d) + d"
proof -
  obtain q r where n: "n = q * d + r" "n div d = q" "n mod d = r" "r < d" by (metis assms div_mult_mod_eq mod_less_divisor)
  show "2 * (round_half_even n d * d) \<le> 2 * n + d" "2 * n \<le> 2 * (round_half_even n d * d) + d"
    using n(1,4) by (auto simp: round_half_even_def Let_def n(2,3) add_mult_distrib split: if_splits)
qed

lemma round_half_even_mono:
  assumes "n \<le> n'"
  shows "round_half_even n d \<le> round_half_even n' d"
proof (cases "n div d = n' div d")
  case True
  moreover have "n mod d \<le> n' mod d"
    using assms True by (metis minus_mult_div_eq_mod diff_le_mono)
  ultimately show ?thesis by (auto simp: round_half_even_def Let_def)
next
  case False
  then have "n div d < n' div d" using div_le_mono[OF assms, of d] by simp
  then show ?thesis by (auto simp: round_half_even_def Let_def)
qed

text \<open>The magnitude before it is cut at infinity.\<close>

definition round_exponent :: "float_format \<Rightarrow> nat \<Rightarrow> nat" where
  "round_exponent F n = bit_length n - (frac_bits F + 1)"

definition round_wide :: "float_format \<Rightarrow> nat \<Rightarrow> nat" where
  "round_wide F n =
     round_exponent F n * 2 ^ frac_bits F + round_half_even n (2 ^ round_exponent F n)"

lemma fl_round_wide: "fl_round F n 1 = min (fl_infinity F) (round_wide F n)"
  by (simp add: fl_round_def round_wide_def round_exponent_def Let_def)

lemma round_exponent_bounds:
  "n < 2 ^ (frac_bits F + 1 + round_exponent F n)"
  "0 < round_exponent F n \<Longrightarrow> 2 ^ (frac_bits F + round_exponent F n) \<le> n"
proof -
  have "(2::nat) ^ bit_length n \<le> 2 ^ (frac_bits F + 1 + round_exponent F n)"
    by (rule power_increasing) (simp_all add: round_exponent_def)
  then show "n < 2 ^ (frac_bits F + 1 + round_exponent F n)" using bit_length_bounds[of n] by linarith
  assume p: "0 < round_exponent F n"
  then have "0 < n" by (cases "n = 0") (simp_all add: round_exponent_def bit_length.simps[of 0])
  then have "2 ^ bit_length n \<le> 2 * n" using bit_length_bounds by blast
  moreover have "bit_length n = Suc (frac_bits F + round_exponent F n)" using p by (simp add: round_exponent_def)
  ultimately show "2 ^ (frac_bits F + round_exponent F n) \<le> n" by simp
qed

lemma round_significand:
  "round_half_even n (2 ^ round_exponent F n) \<le> 2 ^ Suc (frac_bits F)"
  "0 < round_exponent F n \<Longrightarrow> 2 ^ frac_bits F \<le> round_half_even n (2 ^ round_exponent F n)"
proof -
  let ?k = "round_exponent F n" and ?B = "frac_bits F"
  have "n \<le> 2 ^ Suc ?B * 2 ^ ?k" using round_exponent_bounds(1)[where n = n and F = F] by (simp add: power_add mult_ac)
  then have "round_half_even n (2 ^ ?k) \<le> round_half_even (2 ^ Suc ?B * 2 ^ ?k) (2 ^ ?k)" by (rule round_half_even_mono)
  then show "round_half_even n (2 ^ ?k) \<le> 2 ^ Suc ?B" by (simp add: round_half_even_exact del: power_Suc)
  assume "0 < ?k"
  then have "2 ^ ?B * 2 ^ ?k \<le> n" using round_exponent_bounds(2)[where n = n and F = F] by (simp add: power_add)
  then have "round_half_even (2 ^ ?B * 2 ^ ?k) (2 ^ ?k) \<le> round_half_even n (2 ^ ?k)" by (rule round_half_even_mono)
  then show "2 ^ ?B \<le> round_half_even n (2 ^ ?k)" by (simp add: round_half_even_exact)
qed

lemma magnitude_units_round_wide: "magnitude_units F (round_wide F n) = round_half_even n (2 ^ round_exponent F n) * 2 ^ round_exponent F n"
  unfolding round_wide_def by (rule magnitude_units_pack) (use round_significand[where n = n and F = F] in auto)

lemma round_wide_near:
  "2 ^ Suc (frac_bits F) * magnitude_units F (round_wide F n) \<le> (2 ^ Suc (frac_bits F) + 1) * n"
  "2 ^ Suc (frac_bits F) * n \<le> 2 ^ Suc (frac_bits F) * magnitude_units F (round_wide F n) + n"
proof -
  let ?k = "round_exponent F n" and ?B = "2 ^ frac_bits F :: nat" and ?u = "magnitude_units F (round_wide F n)"
  have near: "2 * ?u \<le> 2 * n + 2 ^ ?k" "2 * n \<le> 2 * ?u + 2 ^ ?k"
    using round_half_even_near[of "2 ^ ?k" n] by (simp_all add: magnitude_units_round_wide)
  have "?u = n \<or> ?B * 2 ^ ?k \<le> n"
    using round_exponent_bounds(2)[where n = n and F = F] by (cases "?k = 0") (simp_all add: magnitude_units_round_wide power_add)
  then have "2 * ?B * ?u \<le> (2 * ?B + 1) * n \<and> 2 * ?B * n \<le> 2 * ?B * ?u + n"
  proof
    assume small: "?B * 2 ^ ?k \<le> n"
    have "?B * (2 * ?u) \<le> ?B * (2 * n + 2 ^ ?k)" "?B * (2 * n) \<le> ?B * (2 * ?u + 2 ^ ?k)"
      using near by (simp_all only: mult_le_mono2)
    then show ?thesis using small by (simp add: algebra_simps)
  qed simp
  then show "2 ^ Suc (frac_bits F) * ?u \<le> (2 ^ Suc (frac_bits F) + 1) * n"
    "2 ^ Suc (frac_bits F) * n \<le> 2 ^ Suc (frac_bits F) * ?u + n"
    by (simp_all add: algebra_simps)
qed

lemma round_wide_mono:
  assumes "n \<le> n'"
  shows "round_wide F n \<le> round_wide F n'"
proof (cases "round_exponent F n = round_exponent F n'")
  case True
  then show ?thesis using round_half_even_mono[OF assms] by (simp add: round_wide_def)
next
  case False
  let ?k = "round_exponent F n" and ?k' = "round_exponent F n'" and ?B = "2 ^ frac_bits F :: nat"
  have "bit_length n \<le> bit_length n'"
  proof (cases "n = 0")
    case True
    then show ?thesis by (simp add: bit_length.simps)
  next
    case False
    then have "2 ^ bit_length n \<le> 2 * n" using bit_length_bounds by simp
    also have "2 * n < 2 ^ Suc (bit_length n')" using assms bit_length_bounds[of n'] by simp
    finally have "(2::nat) ^ bit_length n < 2 ^ Suc (bit_length n')" .
    then have "bit_length n < Suc (bit_length n')" by (rule power_less_imp_less_exp[rotated]) simp
    then show ?thesis by simp
  qed
  then have k: "Suc ?k \<le> ?k'" using False by (simp add: round_exponent_def)
  have "round_wide F n \<le> ?k * ?B + 2 * ?B" using round_significand(1)[where n = n and F = F] by (simp add: round_wide_def)
  also have "\<dots> = Suc ?k * ?B + ?B" by simp
  also have "\<dots> \<le> ?k' * ?B + ?B" using mult_le_mono1[OF k] by simp
  also have "\<dots> \<le> round_wide F n'" using round_significand(2)[where n = n' and F = F] k by (simp add: round_wide_def)
  finally show ?thesis .
qed

lemma round_wide_units: "round_wide F (magnitude_units F m) = m"
proof -
  let ?B = "2 ^ frac_bits F :: nat"
  obtain e f where m: "m = e * ?B + f" "f < ?B"
    by (metis div_mult_mod_eq mod_less_divisor zero_less_numeral zero_less_power)
  show ?thesis
  proof (cases e)
    case 0
    have "bit_length f \<le> frac_bits F"
    proof (cases "f = 0")
      case False
      then have "(2::nat) ^ bit_length f < 2 ^ Suc (frac_bits F)" using bit_length_bounds[of f] m(2) by simp
      then have "bit_length f < Suc (frac_bits F)" by (rule power_less_imp_less_exp[rotated]) simp
      then show ?thesis by simp
    qed (simp add: bit_length.simps)
    then show ?thesis using m 0 by (simp add: magnitude_units_def round_wide_def round_exponent_def)
  next
    case (Suc k)
    then have u: "magnitude_units F m = (?B + f) * 2 ^ k"
      using magnitude_units_pack[of k F "?B + f"] m by (simp add: algebra_simps)
    have "bit_length ((?B + f) * 2 ^ k) = Suc (frac_bits F + k)"
      by (rule bit_length_unique) (use m(2) in \<open>simp_all add: power_add algebra_simps\<close>)
    then have "round_exponent F (magnitude_units F m) = k" by (simp add: u round_exponent_def)
    then have "round_wide F (magnitude_units F m) = k * ?B + (?B + f)"
      by (simp add: round_wide_def u round_half_even_exact)
    then show ?thesis using m Suc by simp
  qed
qed

lemma magnitude_units_mono: "m \<le> m' \<longleftrightarrow> magnitude_units F m \<le> magnitude_units F m'"
proof
  have less: "magnitude_units F a < magnitude_units F b" if "a < b" for a b
    using that round_wide_mono[of "magnitude_units F b" "magnitude_units F a" F] by (force simp: round_wide_units)
  show "m \<le> m' \<Longrightarrow> magnitude_units F m \<le> magnitude_units F m'" using less[of m m'] by (cases "m = m'") auto
  show "magnitude_units F m \<le> magnitude_units F m' \<Longrightarrow> m \<le> m'" using less[of m' m] by force
qed

text \<open>A ratio whose significand is in range rounds without a look at its exponent.\<close>

lemma round_half_even_scale: "0 < c \<Longrightarrow> round_half_even (a * c) (b * c) = round_half_even a b"
proof -
  assume c: "0 < c"
  then have q: "a * c div (b * c) = a div b" "a * c mod (b * c) = a mod b * c" by (simp_all add: mod_mult_mult2)
  have "2 * (a mod b * c) < b * c \<longleftrightarrow> 2 * (a mod b) < b" "2 * (a mod b * c) = b * c \<longleftrightarrow> 2 * (a mod b) = b"
    using c by (simp_all flip: mult.assoc)
  then show ?thesis by (simp only: round_half_even_def q Let_def)
qed

lemma round_ratio:
  assumes "0 < d" and "2 ^ frac_bits F * d \<le> a" and "a < 2 ^ Suc (frac_bits F) * d"
  shows "fl_round F (a * 2 ^ k) d = min (fl_infinity F) (k * 2 ^ frac_bits F + round_half_even a d)"
proof -
  have "2 ^ (frac_bits F + k) * d \<le> a * 2 ^ k" "a * 2 ^ k < 2 ^ Suc (frac_bits F + k) * d"
    using assms(2,3) by (simp_all add: power_add algebra_simps)
  then have "2 ^ (frac_bits F + k) \<le> a * 2 ^ k div d" "a * 2 ^ k div d < 2 ^ Suc (frac_bits F + k)"
    using assms(1) by (simp_all only: less_eq_div_iff_mult_less_eq div_less_iff_less_mult)
  then have "bit_length (a * 2 ^ k div d) = Suc (frac_bits F + k)" by (rule bit_length_unique)
  then show ?thesis by (simp add: fl_round_def round_half_even_scale)
qed

section \<open>Numbers as integers\<close>

text \<open>The value of a finite \<open>f64\<close>, in units of the least subnormal, and the rounding of an integer to such a value.\<close>

definition f64_value :: "f64 \<Rightarrow> int" where "f64_value x = fl_signed Binary64 (unat x)"

definition round64 :: "int \<Rightarrow> int" where
  "round64 s = (if s < 0 then - int (magnitude_units Binary64 (round_wide Binary64 (nat (- s))))
     else int (magnitude_units Binary64 (round_wide Binary64 (nat s))))"

text \<open>Integers that are far from overflow: a magnitude below \<open>2 ^ 900\<close> whole numbers.\<close>

definition moderate :: "int \<Rightarrow> bool" where "moderate s \<longleftrightarrow> \<bar>s\<bar> \<le> 2 ^ 1974"

lemma round_zero [simp]: "magnitude_units F (round_wide F 0) = 0"
  by (simp add: round_wide_def round_exponent_def bit_length.simps[of 0] magnitude_units_def round_half_even_def)

lemma round64_zero [simp]: "round64 0 = 0"
  by (simp add: round64_def)

lemma round64_minus: "round64 (- s) = - round64 s"
  by (cases "s = 0") (auto simp: round64_def)

lemma round64_mono: "s \<le> t \<Longrightarrow> round64 s \<le> round64 t"
proof -
  have pos: "round64 s \<le> round64 t" if "0 \<le> s" "s \<le> t" for s t
    using that by (auto simp: round64_def round_wide_mono nat_mono simp flip: magnitude_units_mono)
  have sign: "0 \<le> round64 t" if "0 \<le> t" for t using that by (simp add: round64_def)
  assume "s \<le> t"
  then consider "0 \<le> s" | "s < 0" "0 \<le> t" | "t < 0" by linarith
  then show "round64 s \<le> round64 t"
  proof cases
    case 1
    then show ?thesis using pos \<open>s \<le> t\<close> by blast
  next
    case 2
    then show ?thesis using sign[of "- s"] sign[of t] by (simp add: round64_minus)
  next
    case 3
    then show ?thesis using pos[of "- t" "- s"] \<open>s \<le> t\<close> by (simp add: round64_minus)
  qed
qed

lemma round64_sign: "0 \<le> s \<Longrightarrow> 0 \<le> round64 s" "s \<le> 0 \<Longrightarrow> round64 s \<le> 0"
  using round64_mono[of 0 s] round64_mono[of s 0] by simp_all

lemma near_abs:
  fixes p u n :: nat
  assumes "p * u \<le> (p + 1) * n" and "p * n \<le> p * u + n"
  shows "int p * \<bar>int u - int n\<bar> \<le> int n"
proof -
  have "int (p * u) \<le> int ((p + 1) * n)" "int (p * n) \<le> int (p * u + n)" using assms by (simp_all only: zle_int)
  then show ?thesis by (cases "n \<le> u") (simp_all add: algebra_simps)
qed

lemma round64_near: "2 ^ 53 * \<bar>round64 s - s\<bar> \<le> \<bar>s\<bar>"
proof -
  have "Suc (frac_bits Binary64) = 53" by simp
  then have near: "int (2 ^ 53) * \<bar>int (magnitude_units Binary64 (round_wide Binary64 n)) - int n\<bar> \<le> int n" for n
    using near_abs[OF round_wide_near[of Binary64 n]] by (simp only:)
  have pos: "int (2 ^ 53) * \<bar>round64 t - t\<bar> \<le> \<bar>t\<bar>" if "0 \<le> t" for t
    using near[of "nat t"] that by (simp only: round64_def if_False not_less[symmetric] nat_0_le abs_of_nonneg)
  have flip: "\<bar>- r - - t\<bar> = \<bar>r - t\<bar>" for r t :: int by linarith
  have "int (2 ^ 53) * \<bar>round64 s - s\<bar> \<le> \<bar>s\<bar>"
  proof (cases "0 \<le> s")
    case False
    then have "int (2 ^ 53) * \<bar>round64 (- s) - - s\<bar> \<le> \<bar>- s\<bar>" by (intro pos) simp
    then show ?thesis by (simp only: round64_minus flip abs_minus_cancel)
  qed (rule pos)
  then show ?thesis by (simp only: of_nat_power of_nat_numeral)
qed

lemma f64_magnitude: "fl_abs Binary64 (unat x) < 2 ^ 63"
  by (simp add: fl_abs_def fl_sign_def)

lemma unat_f64: "n < 2 ^ 64 \<Longrightarrow> unat (of_nat n :: f64) = n"
  by (simp add: unsigned_of_nat take_bit_nat_eq_self)

lemma f64_finite: "f64_is_finite x \<longleftrightarrow> fl_abs Binary64 (unat x) < fl_infinity Binary64"
  by (simp add: f64_is_finite_def fl_is_finite_def)

lemma fl_key_le: "fl_key F a \<le> fl_key F b \<longleftrightarrow> fl_signed F a \<le> fl_signed F b"
proof -
  have zero: "magnitude_units F 0 = 0" by (simp add: magnitude_units_def)
  have mono: "fl_units F x \<le> fl_units F y \<longleftrightarrow> fl_abs F x \<le> fl_abs F y" for x y
    by (simp add: fl_units_magnitude flip: magnitude_units_mono)
  have pos: "fl_units F x = 0 \<longleftrightarrow> fl_abs F x = 0" for x
    using magnitude_units_mono[of "fl_abs F x" 0 F] by (simp add: fl_units_magnitude zero)
  show ?thesis using mono[of a b] mono[of b a] pos[of a] pos[of b] by (auto simp: fl_key_def fl_signed_def)
qed

lemma f64_not_nan: "f64_is_finite x \<Longrightarrow> \<not> fl_is_nan Binary64 (unat x) \<and> \<not> fl_is_infinite Binary64 (unat x)"
  by (simp add: f64_finite fl_is_nan_def fl_is_infinite_def)

lemma f64_compare:
  assumes "f64_is_finite a" and "f64_is_finite b"
  shows "f64_less a b \<longleftrightarrow> f64_value a < f64_value b" and "f64_less_eq a b \<longleftrightarrow> f64_value a \<le> f64_value b"
    and "f64_equal a b \<longleftrightarrow> f64_value a = f64_value b"
  using assms fl_key_le[of Binary64 "unat a" "unat b"] fl_key_le[of Binary64 "unat b" "unat a"]
  by (auto simp: f64_less_def fl_less_def f64_less_eq_def fl_less_eq_def f64_equal_def fl_equal_def f64_not_nan f64_value_def)

lemma round64_value [simp]: "round64 (f64_value x) = f64_value x"
  by (auto simp: round64_def f64_value_def fl_signed_def fl_units_magnitude round_wide_units)

text \<open>A magnitude below infinity with a sign is a word with that value.\<close>

lemma packed:
  assumes "m < fl_infinity Binary64"
  shows "f64_is_finite (of_nat (fl_pack Binary64 neg m))"
    and "f64_value (of_nat (fl_pack Binary64 neg m)) =
      (if neg then - int (magnitude_units Binary64 m) else int (magnitude_units Binary64 m))"
proof -
  have m: "m < 2 ^ 63" using assms by (simp add: fl_infinity_def)
  have u: "unat (of_nat (fl_pack Binary64 neg m) :: f64) = fl_pack Binary64 neg m"
    using m by (intro unat_f64) (simp add: fl_pack_def fl_sign_def)
  have "fl_abs Binary64 (fl_pack Binary64 neg m) = m" "fl_neg Binary64 (fl_pack Binary64 neg m) = neg"
    using m by (auto simp: fl_abs_def fl_pack_def fl_sign_def fl_neg_def)
  then show "f64_is_finite (of_nat (fl_pack Binary64 neg m))"
    "f64_value (of_nat (fl_pack Binary64 neg m)) =
      (if neg then - int (magnitude_units Binary64 m) else int (magnitude_units Binary64 m))"
    using assms by (auto simp: f64_finite u f64_value_def fl_signed_def fl_units_magnitude)
qed

lemma moderate_round:
  assumes "moderate s"
  shows "round_wide Binary64 (nat \<bar>s\<bar>) < fl_infinity Binary64"
proof -
  have "nat \<bar>s\<bar> \<le> 2 ^ 1974" using assms by (simp add: moderate_def nat_le_iff)
  then have "round_wide Binary64 (nat \<bar>s\<bar>) \<le> round_wide Binary64 (2 ^ 1974)" by (rule round_wide_mono)
  also have "bit_length (2 ^ 1974) = Suc 1974" by (rule bit_length_unique) simp_all
  then have "round_wide Binary64 (2 ^ 1974) < fl_infinity Binary64"
    by (simp add: round_wide_def round_exponent_def round_half_even_def fl_infinity_def)
  finally show ?thesis .
qed

lemma f64_of_moderate:
  assumes "moderate s"
  shows "f64_is_finite (of_nat (fl_of_signed Binary64 s))" and "f64_value (of_nat (fl_of_signed Binary64 s)) = round64 s"
proof -
  have "fl_of_signed Binary64 s = fl_pack Binary64 (s < 0) (round_wide Binary64 (nat \<bar>s\<bar>))"
    using moderate_round[OF assms] by (simp add: fl_of_signed_def fl_round_wide flip: One_nat_def)
  then show "f64_is_finite (of_nat (fl_of_signed Binary64 s))" "f64_value (of_nat (fl_of_signed Binary64 s)) = round64 s"
    using packed[OF moderate_round[OF assms], of "s < 0"] by (auto simp: round64_def)
qed

lemma f64_add_value:
  assumes "f64_is_finite a" and "f64_is_finite b" and "moderate (f64_value a + f64_value b)"
  shows "f64_is_finite (f64_add a b)" and "f64_value (f64_add a b) = round64 (f64_value a + f64_value b)"
proof -
  note numbers = f64_not_nan[OF assms(1)] f64_not_nan[OF assms(2)]
  have "f64_is_finite (f64_add a b) \<and> f64_value (f64_add a b) = round64 (f64_value a + f64_value b)"
  proof (cases "f64_value a + f64_value b = 0")
    case True
    then have "f64_add a b = of_nat (fl_pack Binary64 (fl_neg Binary64 (unat a) \<and> fl_neg Binary64 (unat b)) 0)"
      using numbers by (simp add: f64_add_def f64_op_def fl_add_def f64_value_def)
    with True show ?thesis
      using packed[of 0 "fl_neg Binary64 (unat a) \<and> fl_neg Binary64 (unat b)"]
      by (simp add: fl_infinity_def magnitude_units_def)
  next
    case False
    then have "f64_add a b = of_nat (fl_of_signed Binary64 (f64_value a + f64_value b))"
      using numbers by (simp add: f64_add_def f64_op_def fl_add_def f64_value_def)
    then show ?thesis using f64_of_moderate[OF assms(3)] by simp
  qed
  then show "f64_is_finite (f64_add a b)" "f64_value (f64_add a b) = round64 (f64_value a + f64_value b)" by simp_all
qed

lemma fl_opposite_value:
  "fl_abs Binary64 (fl_opposite Binary64 (unat (x :: f64))) = fl_abs Binary64 (unat x)"
  "fl_signed Binary64 (fl_opposite Binary64 (unat x)) = - fl_signed Binary64 (unat x)"
proof -
  have "fl_abs Binary64 (unat x) < 2 ^ 63" by (rule f64_magnitude)
  then have a: "fl_abs Binary64 (fl_opposite Binary64 (unat x)) = fl_abs Binary64 (unat x)"
    and n: "fl_neg Binary64 (fl_opposite Binary64 (unat x)) = (\<not> fl_neg Binary64 (unat x))"
    by (auto simp: fl_opposite_def fl_pack_def fl_abs_def fl_sign_def fl_neg_def)
  show "fl_abs Binary64 (fl_opposite Binary64 (unat (x :: f64))) = fl_abs Binary64 (unat x)" by (fact a)
  show "fl_signed Binary64 (fl_opposite Binary64 (unat x)) = - fl_signed Binary64 (unat x)"
    using a n by (simp add: fl_signed_def fl_units_magnitude)
qed

end
