(* ===== verification/Block_Environment.thy ===== *)
theory Block_Environment
  imports Ieee Game_Data
begin

text \<open>
  \<open>cubic-world/src/environment.rs\<close>: what a block state means to movement beyond its shape: its fluid, whether it is
  climbed, how its surface acts. A path is the part of an identifier after its namespace.
\<close>

section \<open>Fluids and surfaces\<close>

datatype fluid_kind = Water | Lava

record fluid_state =
  fluid_kind :: fluid_kind
  fluid_level :: nat
  fluid_falling :: bool

definition own_height :: "fluid_state \<Rightarrow> f64" where
  "own_height f = f64_div (f64_of_int (int (8 - min (fluid_level f) 7))) (f64_of_int 9)"

datatype special_surface = Ordinary | Ice | PackedIce | BlueIce | FrostedIce | Slime | Honey | Bed

record block_environment =
  env_fluid :: "fluid_state option"
  env_climbable :: bool
  env_scaffolding :: bool
  env_surface :: special_surface
  env_emissive :: bool

definition default_environment :: block_environment where
  "default_environment =
     \<lparr>env_fluid = None, env_climbable = False, env_scaffolding = False, env_surface = Ordinary, env_emissive = False\<rparr>"

section \<open>Rules\<close>

text \<open>\<open>str::parse::<u8>\<close>: an optional plus sign and decimal digits.\<close>

definition u8_from_str :: "rust_str \<Rightarrow> nat option" where
  "u8_from_str s =
     (let digits = (if s \<noteq> [] \<and> hd s = 43 then tl s else s);
          n = foldl (\<lambda>acc c. acc * 10 + (c - 48)) 0 digits in
      if digits = [] \<or> \<not> list_all (\<lambda>c. 48 \<le> c \<and> c \<le> 57) digits \<or> 255 < n then None else Some n)"

definition property :: "(rust_str, rust_str) btree_map \<Rightarrow> string \<Rightarrow> rust_str option" where
  "property ps name = bt_get (as_str name) ps"

definition property_is :: "(rust_str, rust_str) btree_map \<Rightarrow> string \<Rightarrow> string \<Rightarrow> bool" where
  "property_is ps name v \<longleftrightarrow> property ps name = Some (as_str v)"

definition property_number :: "(rust_str, rust_str) btree_map \<Rightarrow> string \<Rightarrow> nat option" where
  "property_number ps name = (case property ps name of None \<Rightarrow> None | Some v \<Rightarrow> u8_from_str v)"

definition block_fluid_state :: "fluid_kind \<Rightarrow> (rust_str, rust_str) btree_map \<Rightarrow> fluid_state" where
  "block_fluid_state kind ps =
     (let raw = (case property_number ps ''level'' of None \<Rightarrow> 0 | Some n \<Rightarrow> n) in
      \<lparr>fluid_kind = kind, fluid_level = (if 8 \<le> raw then 0 else raw), fluid_falling = (8 \<le> raw)\<rparr>)"

datatype environment_rule_set = Environment_Java26_1_2 | Environment_Conservative

definition environment_for_version :: "rust_str \<Rightarrow> environment_rule_set" where
  "environment_for_version version =
     (if version = as_str ''26.1.2'' then Environment_Java26_1_2 else Environment_Conservative)"

definition WATER_FILLED :: "string list" where
  "WATER_FILLED = [''seagrass'', ''tall_seagrass'', ''kelp'', ''kelp_plant'', ''bubble_column'']"

definition CLIMBABLE :: "string list" where
  "CLIMBABLE = [''ladder'', ''vine'', ''weeping_vines'', ''weeping_vines_plant'', ''twisting_vines'',
     ''twisting_vines_plant'', ''cave_vines'', ''cave_vines_plant'']"

definition resolve_environment ::
  "environment_rule_set \<Rightarrow> string \<Rightarrow> (rust_str, rust_str) btree_map \<Rightarrow> block_environment" where
  "resolve_environment rules path ps =
     (if rules = Environment_Conservative then default_environment
      else
        \<lparr>env_fluid =
           (if path = ''water'' \<or> property_is ps ''waterlogged'' ''true'' \<or> path \<in> set WATER_FILLED
            then Some (block_fluid_state Water ps)
            else if path = ''lava'' then Some (block_fluid_state Lava ps) else None),
         env_climbable = (path \<in> set CLIMBABLE),
         env_scaffolding = (path = ''scaffolding''),
         env_surface =
           (if path = ''ice'' then Ice else if path = ''packed_ice'' then PackedIce
            else if path = ''blue_ice'' then BlueIce else if path = ''frosted_ice'' then FrostedIce
            else if path = ''slime_block'' then Slime else if path = ''honey_block'' then Honey
            else if ends_with path ''_bed'' then Bed else Ordinary),
         env_emissive = (path \<in> set [''lava'', ''fire'', ''soul_fire'', ''glowstone''])\<rparr>)"

section \<open>The profile of a version\<close>

definition block_path :: "minecraft_identifier \<Rightarrow> string" where
  "block_path i = (case split_once CHR '':'' i of None \<Rightarrow> i | Some (_, path) \<Rightarrow> path)"

type_synonym environment_profile = "block_environment list"

definition environment_of :: "environment_profile \<Rightarrow> nat \<Rightarrow> block_environment" where
  "environment_of states state = (if state < length states then states ! state else default_environment)"

definition set_environment :: "environment_rule_set \<Rightarrow> block_definition \<Rightarrow> environment_profile \<Rightarrow> environment_profile" where
  "set_environment rules b states =
     foldl (\<lambda>states s. states[unat (bs_state_id s) := resolve_environment rules (block_path (bd_identifier b)) (bs_properties s)])
       states (bd_states b)"

definition environment_from_game_data :: "rust_str \<Rightarrow> game_data_artifact \<Rightarrow> environment_profile" where
  "environment_from_game_data version data =
     (let ids = concat (map (\<lambda>b. map (\<lambda>s. unat (bs_state_id s)) (bd_states b)) (ga_blocks data));
          capacity = (if ids = [] then 0 else Max (set ids) + 1) in
      foldl (\<lambda>states b. set_environment (environment_for_version version) b states)
        (replicate capacity default_environment) (ga_blocks data))"

end
