(* ===== verification/Block_Shapes.thy ===== *)
theory Block_Shapes
  imports Block_Environment World_Model
begin

unbundle bit_operations_syntax

text \<open>
  The boxes of \<open>cubic-world/src/movement.rs\<close> and the shapes of blocks: the rules of \<open>collision_vanilla.rs\<close>, which derive
  a shape from the path and the properties of a block, and \<open>cubic-version/src/shape_data.rs\<close>, the generated shapes. The
  text of a generated file is parsed by \<open>serde_json\<close>, a parameter.
\<close>

section \<open>Boxes\<close>

record aabb =
  box_min :: vec3d
  box_max :: vec3d

definition aabb_new :: "vec3d \<Rightarrow> vec3d \<Rightarrow> aabb" where "aabb_new lo hi = \<lparr>box_min = lo, box_max = hi\<rparr>"

definition integral :: "int \<Rightarrow> f64" where "integral n = f64_of_int n"
definition sixteenths :: "int \<Rightarrow> f64" where "sixteenths n = f64_div (integral n) (integral 16)"
definition half :: f64 where "half = f64_literal 5 1"
definition three_halves :: f64 where "three_halves = f64_literal 15 1"

definition vec3d_default :: vec3d where "vec3d_default = vec3d_new 0 0 0"

definition translated :: "f64 \<Rightarrow> f64 \<Rightarrow> f64 \<Rightarrow> aabb \<Rightarrow> aabb" where
  "translated x y z b =
     aabb_new
       (vec3d_new (f64_add (vec_x (box_min b)) x) (f64_add (vec_y (box_min b)) y) (f64_add (vec_z (box_min b)) z))
       (vec3d_new (f64_add (vec_x (box_max b)) x) (f64_add (vec_y (box_max b)) y) (f64_add (vec_z (box_max b)) z))"

definition full_cube_bounds :: aabb where
  "full_cube_bounds = aabb_new (vec3d_new 0 0 0) (vec3d_new (integral 1) (integral 1) (integral 1))"

datatype collision_shape = Shape_Empty | Shape_FullCube | Shape_Boxes "aabb list"

definition box6 :: "f64 \<Rightarrow> f64 \<Rightarrow> f64 \<Rightarrow> f64 \<Rightarrow> f64 \<Rightarrow> f64 \<Rightarrow> aabb" where
  "box6 x0 y0 z0 x1 y1 z1 = aabb_new (vec3d_new x0 y0 z0) (vec3d_new x1 y1 z1)"

definition cuboid :: "f64 \<Rightarrow> f64 \<Rightarrow> f64 \<Rightarrow> f64 \<Rightarrow> f64 \<Rightarrow> f64 \<Rightarrow> collision_shape" where
  "cuboid x0 y0 z0 x1 y1 z1 = Shape_Boxes [box6 x0 y0 z0 x1 y1 z1]"

definition centered_column :: "f64 \<Rightarrow> f64 \<Rightarrow> f64 \<Rightarrow> aabb" where
  "centered_column width y0 y1 =
     (let inset = f64_div (f64_sub (integral 1) width) (integral 2) in
      box6 inset y0 inset (f64_sub (integral 1) inset) y1 (f64_sub (integral 1) inset))"

definition column :: "f64 \<Rightarrow> f64 \<Rightarrow> f64 \<Rightarrow> collision_shape" where
  "column width y0 y1 = Shape_Boxes [centered_column width y0 y1]"

section \<open>Offsets\<close>

datatype collision_offset = Offset_None | Offset_Horizontal nat

text \<open>The arithmetic wraps, as that of Java does; \<open>>>\<close> keeps the sign.\<close>

definition offset_seed :: "int \<Rightarrow> int \<Rightarrow> i64" where
  "offset_seed x z =
     (let mixed = (of_int (i32_wrap (x * 3129871)) :: i64) XOR (of_int z * 116129781) in
      signed_drop_bit 16 (mixed * mixed * 42317861 + mixed * 11))"

definition offset_component :: "nat \<Rightarrow> i64 \<Rightarrow> f64" where
  "offset_component shift seed =
     f64_mul (f64_sub (f64_div (f64_of_int (int (unat (signed_drop_bit shift seed AND 15)))) (integral 15)) half) half"

definition offset_at :: "collision_offset \<Rightarrow> int \<Rightarrow> int \<Rightarrow> vec3d" where
  "offset_at offset x z =
     (case offset of
        Offset_None \<Rightarrow> vec3d_default
      | Offset_Horizontal m \<Rightarrow>
          let seed = offset_seed x z; maximum = f64_div (f64_of_int (int m)) (integral 16) in
          vec3d_new (f64_clamp (f64_neg maximum) maximum (offset_component 0 seed)) 0
            (f64_clamp (f64_neg maximum) maximum (offset_component 8 seed)))"

definition maximum_horizontal :: "collision_offset \<Rightarrow> f64" where
  "maximum_horizontal offset =
     (case offset of Offset_None \<Rightarrow> 0 | Offset_Horizontal m \<Rightarrow> f64_div (f64_of_int (int m)) (integral 16))"

section \<open>The families of shapes\<close>

definition enabled :: "(rust_str, rust_str) btree_map \<Rightarrow> string \<Rightarrow> bool" where
  "enabled ps name =
     (case property ps name of None \<Rightarrow> False | Some v \<Rightarrow> v \<noteq> as_str ''false'' \<and> v \<noteq> as_str ''none'')"

text \<open>The value of a property among the names a match lists; \<open>None\<close> is every other value and absence.\<close>

definition property_among :: "(rust_str, rust_str) btree_map \<Rightarrow> string \<Rightarrow> string list \<Rightarrow> string option" where
  "property_among ps name choices = find (\<lambda>v. property_is ps name v) choices"

abbreviation facings :: "string list" where "facings \<equiv> [''north'', ''south'', ''west'', ''east'']"

definition facing_of :: "(rust_str, rust_str) btree_map \<Rightarrow> string option" where
  "facing_of ps = property_among ps ''facing'' facings"

definition is_pane :: "string \<Rightarrow> bool" where
  "is_pane path \<longleftrightarrow> path \<in> set [''iron_bars'', ''glass_pane''] \<or> ends_with path ''_stained_glass_pane''"

definition cocoa_shape :: "(rust_str, rust_str) btree_map \<Rightarrow> collision_shape" where
  "cocoa_shape ps =
     (case property_number ps ''age'' of
        None \<Rightarrow> Shape_FullCube
      | Some age \<Rightarrow>
          if 2 < age then Shape_FullCube
          else
            let width = sixteenths (4 + int age * 2); min_y = sixteenths (7 - int age * 2); max_y = sixteenths 12;
                side_min = f64_div (f64_sub (integral 1) width) (integral 2); side_max = f64_sub (integral 1) side_min;
                outward_min = sixteenths 1; outward_max = sixteenths (5 + int age * 2) in
            case facing_of ps of
              None \<Rightarrow> Shape_FullCube
            | Some facing \<Rightarrow>
                if facing = ''north'' then cuboid side_min min_y outward_min side_max max_y outward_max
                else if facing = ''south''
                then cuboid side_min min_y (f64_sub (integral 1) outward_max) side_max max_y (f64_sub (integral 1) outward_min)
                else if facing = ''west'' then cuboid outward_min min_y side_min outward_max max_y side_max
                else cuboid (f64_sub (integral 1) outward_max) min_y side_min (f64_sub (integral 1) outward_min) max_y side_max)"

definition pitcher_crop_shape :: "(rust_str, rust_str) btree_map \<Rightarrow> collision_shape" where
  "pitcher_crop_shape ps =
     (if property_is ps ''half'' ''upper'' then Shape_Empty
      else if \<not> property_is ps ''half'' ''lower'' then Shape_FullCube
      else if property_is ps ''age'' ''0'' then column (sixteenths 6) (sixteenths (- 1)) (sixteenths 3)
      else if property_among ps ''age'' [''1'', ''2'', ''3'', ''4''] \<noteq> None
      then column (sixteenths 10) (sixteenths (- 1)) (sixteenths 5)
      else Shape_FullCube)"

text \<open>The boxes of the sides that are connected, in the order the code pushes them.\<close>

definition connected_boxes :: "(rust_str, rust_str) btree_map \<Rightarrow> (string \<times> aabb) list \<Rightarrow> aabb list" where
  "connected_boxes ps sides = map snd (filter (\<lambda>(side, _). enabled ps side) sides)"

definition chorus_plant_shape :: "(rust_str, rust_str) btree_map \<Rightarrow> collision_shape" where
  "chorus_plant_shape ps =
     (let lo = sixteenths 3; hi = sixteenths 13; one = integral 1 in
      Shape_Boxes (box6 lo lo lo hi hi hi # connected_boxes ps
        [(''north'', box6 lo lo 0 hi hi lo), (''south'', box6 lo lo hi hi hi one),
         (''west'', box6 0 lo lo lo hi hi), (''east'', box6 hi lo lo one hi hi),
         (''down'', box6 lo 0 lo hi lo hi), (''up'', box6 lo hi lo hi one hi)]))"

text \<open>The side of a double chest that joins its other half; the outer \<open>None\<close> is a pair the code does not know.\<close>

definition chest_connection :: "(rust_str, rust_str) btree_map \<Rightarrow> string option option" where
  "chest_connection ps =
     (let facing = facing_of ps; left = property_is ps ''type'' ''left''; right = property_is ps ''type'' ''right'' in
      if (left \<and> facing = Some ''north'') \<or> (right \<and> facing = Some ''south'') then Some (Some ''east'')
      else if (left \<and> facing = Some ''east'') \<or> (right \<and> facing = Some ''west'') then Some (Some ''south'')
      else if (left \<and> facing = Some ''south'') \<or> (right \<and> facing = Some ''north'') then Some (Some ''west'')
      else if (left \<and> facing = Some ''west'') \<or> (right \<and> facing = Some ''east'') then Some (Some ''north'')
      else if property_is ps ''type'' ''single'' \<or> property ps ''type'' = None then Some None
      else None)"

definition chest_shape :: "(rust_str, rust_str) btree_map \<Rightarrow> collision_shape" where
  "chest_shape ps =
     (let b = centered_column (sixteenths 14) 0 (sixteenths 14) in
      case chest_connection ps of
        None \<Rightarrow> Shape_FullCube
      | Some None \<Rightarrow> Shape_Boxes [b]
      | Some (Some side) \<Rightarrow>
          if side = ''north'' then Shape_Boxes [b\<lparr>box_min := (box_min b)\<lparr>vec_z := 0\<rparr>\<rparr>]
          else if side = ''south'' then Shape_Boxes [b\<lparr>box_max := (box_max b)\<lparr>vec_z := integral 1\<rparr>\<rparr>]
          else if side = ''west'' then Shape_Boxes [b\<lparr>box_min := (box_min b)\<lparr>vec_x := 0\<rparr>\<rparr>]
          else if side = ''east'' then Shape_Boxes [b\<lparr>box_max := (box_max b)\<lparr>vec_x := integral 1\<rparr>\<rparr>]
          else Shape_FullCube)"

text \<open>The end of a bed that stands on legs: its facing at the head, the opposite at the foot; absent, it faces north.\<close>

definition bed_outer :: "(rust_str, rust_str) btree_map \<Rightarrow> string option" where
  "bed_outer ps =
     (let facing = (if property ps ''facing'' = None then Some ''north'' else facing_of ps) in
      if property_is ps ''part'' ''head'' then facing
      else if facing = Some ''north'' then Some ''south''
      else if facing = Some ''south'' then Some ''north''
      else if facing = Some ''west'' then Some ''east''
      else Some ''west'')"

definition bed_leg :: "f64 \<Rightarrow> f64 \<Rightarrow> aabb" where
  "bed_leg x z = box6 x 0 z (f64_add x (sixteenths 3)) (sixteenths 3) (f64_add z (sixteenths 3))"

definition bed_shape :: "(rust_str, rust_str) btree_map \<Rightarrow> collision_shape" where
  "bed_shape ps =
     (let legs = (\<lambda>a b. Shape_Boxes
        (box6 0 (sixteenths 3) 0 (integral 1) (sixteenths 9) (integral 1) # map (\<lambda>(x, z). bed_leg x z) [a, b])) in
      case bed_outer ps of
        None \<Rightarrow> Shape_FullCube
      | Some side \<Rightarrow>
          if side = ''north'' then legs (0, 0) (sixteenths 13, 0)
          else if side = ''south'' then legs (0, sixteenths 13) (sixteenths 13, sixteenths 13)
          else if side = ''west'' then legs (0, 0) (0, sixteenths 13)
          else legs (sixteenths 13, 0) (sixteenths 13, sixteenths 13))"

definition hopper_bowl :: "aabb list" where
  "hopper_bowl =
     [box6 0 (sixteenths 10) 0 (integral 1) (sixteenths 11) (integral 1),
      box6 0 (sixteenths 11) 0 (sixteenths 2) (integral 1) (integral 1),
      box6 (sixteenths 14) (sixteenths 11) 0 (integral 1) (integral 1) (integral 1),
      box6 (sixteenths 2) (sixteenths 11) 0 (sixteenths 14) (integral 1) (sixteenths 2),
      box6 (sixteenths 2) (sixteenths 11) (sixteenths 14) (sixteenths 14) (integral 1) (integral 1),
      centered_column (sixteenths 8) (sixteenths 4) (sixteenths 10)]"

definition hopper_shape :: "(rust_str, rust_str) btree_map \<Rightarrow> collision_shape" where
  "hopper_shape ps =
     (let s = sixteenths; spout = (\<lambda>b. Shape_Boxes (hopper_bowl @ [b])) in
      if property_is ps ''facing'' ''north'' then spout (box6 (s 6) (s 4) 0 (s 10) (s 8) (s 8))
      else if property_is ps ''facing'' ''south'' then spout (box6 (s 6) (s 4) (s 8) (s 10) (s 8) (integral 1))
      else if property_is ps ''facing'' ''west'' then spout (box6 0 (s 4) (s 6) (s 8) (s 8) (s 10))
      else if property_is ps ''facing'' ''east'' then spout (box6 (s 8) (s 4) (s 6) (integral 1) (s 8) (s 10))
      else if property_is ps ''facing'' ''down'' \<or> property ps ''facing'' = None then spout (box6 (s 6) 0 (s 6) (s 10) (s 8) (s 10))
      else Shape_FullCube)"

definition bell_shape :: "(rust_str, rust_str) btree_map \<Rightarrow> collision_shape" where
  "bell_shape ps =
     (let s = sixteenths; one = integral 1; facing = facing_of ps;
          bell0 = centered_column (s 6) (s 6) (s 13); bell1 = centered_column (s 8) (s 4) (s 6);
          hung = (\<lambda>support. Shape_Boxes [bell0, bell1, support]) in
      if property_is ps ''attachment'' ''floor'' then
        (if facing = Some ''north'' \<or> facing = Some ''south'' then cuboid 0 0 (s 4) one one (s 12)
         else if facing = Some ''east'' \<or> facing = Some ''west'' then cuboid (s 4) 0 0 (s 12) one one
         else Shape_FullCube)
      else if property_is ps ''attachment'' ''ceiling'' then hung (centered_column (s 2) (s 13) one)
      else if property_is ps ''attachment'' ''double_wall'' then
        (if facing = Some ''north'' \<or> facing = Some ''south'' then hung (box6 (s 7) (s 13) 0 (s 9) (s 15) one)
         else if facing = Some ''east'' \<or> facing = Some ''west'' then hung (box6 0 (s 13) (s 7) one (s 15) (s 9))
         else Shape_FullCube)
      else if property_is ps ''attachment'' ''single_wall'' then
        (if facing = Some ''north'' then hung (box6 (s 7) (s 13) 0 (s 9) (s 15) (s 13))
         else if facing = Some ''east'' then hung (box6 (s 3) (s 13) (s 7) one (s 15) (s 9))
         else if facing = Some ''south'' then hung (box6 (s 7) (s 13) (s 3) (s 9) (s 15) one)
         else if facing = Some ''west'' then hung (box6 0 (s 13) (s 7) (s 13) (s 15) (s 9))
         else Shape_FullCube)
      else Shape_FullCube)"

section \<open>Stairs, doors and connected blocks\<close>

text \<open>Any facing but north, south and west is read as east, any other shape as straight.\<close>

definition by_facing :: "(rust_str, rust_str) btree_map \<Rightarrow> 'a \<Rightarrow> 'a \<Rightarrow> 'a \<Rightarrow> 'a \<Rightarrow> 'a" where
  "by_facing ps north south west other =
     (if property_is ps ''facing'' ''north'' then north
      else if property_is ps ''facing'' ''south'' then south
      else if property_is ps ''facing'' ''west'' then west
      else other)"

definition stair_quadrants :: "(rust_str, rust_str) btree_map \<Rightarrow> (int \<times> int) list" where
  "stair_quadrants ps =
     (let forward = by_facing ps [(0, 0), (1, 0)] [(0, 1), (1, 1)] [(0, 0), (0, 1)] [(1, 0), (1, 1)];
          left = by_facing ps (0, 1) (1, 0) (1, 1) (0, 0);
          right = by_facing ps (1, 1) (0, 0) (1, 0) (0, 1);
          forward_left = by_facing ps (0, 0) (1, 1) (0, 1) (1, 0);
          forward_right = by_facing ps (1, 0) (0, 1) (0, 0) (1, 1) in
      if property_is ps ''shape'' ''outer_left'' then [forward_left]
      else if property_is ps ''shape'' ''outer_right'' then [forward_right]
      else if property_is ps ''shape'' ''inner_left'' then forward @ [left]
      else if property_is ps ''shape'' ''inner_right'' then forward @ [right]
      else forward)"

definition stair_shape :: "(rust_str, rust_str) btree_map \<Rightarrow> collision_shape" where
  "stair_shape ps =
     (let (base_min, base_max, step_min, step_max) =
            (if property_is ps ''half'' ''top'' then (half, integral 1, 0, half) else (0, half, half, integral 1)) in
      Shape_Boxes (box6 0 base_min 0 (integral 1) base_max (integral 1) #
        map (\<lambda>(x, z). box6 (f64_mul (integral x) half) step_min (f64_mul (integral z) half)
                        (f64_mul (integral (x + 1)) half) step_max (f64_mul (integral (z + 1)) half)) (stair_quadrants ps)))"

definition boundary_plane :: "nat \<Rightarrow> f64 \<Rightarrow> f64 \<Rightarrow> collision_shape" where
  "boundary_plane plane thickness tall =
     (if plane = 0 then cuboid 0 0 0 thickness tall (integral 1)
      else if plane = 1 then cuboid 0 0 0 (integral 1) tall thickness
      else if plane = 2 then cuboid (f64_sub (integral 1) thickness) 0 0 (integral 1) tall (integral 1)
      else cuboid 0 0 (f64_sub (integral 1) thickness) (integral 1) tall (integral 1))"

definition door_shape :: "(rust_str, rust_str) btree_map \<Rightarrow> collision_shape" where
  "door_shape ps =
     (let t = sixteenths 3; facing = facing_of ps; right_hinge = property_is ps ''hinge'' ''right'';
          plane = (\<lambda>n. boundary_plane n t (integral 1)) in
      if \<not> property_is ps ''open'' ''true'' then
        (if facing = Some ''east'' then plane 0
         else if facing = Some ''south'' then plane 1
         else if facing = Some ''west'' then plane 2
         else if facing = Some ''north'' then plane 3
         else Shape_FullCube)
      else if facing = Some ''east'' then plane (if right_hinge then 3 else 1)
      else if facing = Some ''west'' then plane (if right_hinge then 1 else 3)
      else if facing = Some ''north'' then plane (if right_hinge then 2 else 0)
      else if facing = Some ''south'' then plane (if right_hinge then 0 else 2)
      else Shape_FullCube)"

definition trapdoor_shape :: "(rust_str, rust_str) btree_map \<Rightarrow> collision_shape" where
  "trapdoor_shape ps =
     (let t = sixteenths 3; one = integral 1 in
      if property_is ps ''open'' ''true'' then
        (case facing_of ps of
           None \<Rightarrow> Shape_FullCube
         | Some facing \<Rightarrow>
             boundary_plane (if facing = ''north'' then 3 else if facing = ''south'' then 1
                             else if facing = ''west'' then 2 else 0) t one)
      else if property_is ps ''half'' ''top'' then cuboid 0 (f64_sub one t) 0 one one one
      else cuboid 0 0 0 one t one)"

definition fence_gate_shape :: "(rust_str, rust_str) btree_map \<Rightarrow> collision_shape" where
  "fence_gate_shape ps =
     (let t = sixteenths 4; lo = f64_sub half (f64_div t (integral 2)); hi = f64_add half (f64_div t (integral 2)); one = integral 1;
          facing = facing_of ps in
      if property_is ps ''open'' ''true'' then Shape_Empty
      else if facing = Some ''north'' \<or> facing = Some ''south'' then cuboid 0 0 lo one three_halves hi
      else if facing = Some ''east'' \<or> facing = Some ''west'' then cuboid lo 0 0 hi three_halves one
      else Shape_FullCube)"

definition cross_shape :: "(rust_str, rust_str) btree_map \<Rightarrow> f64 \<Rightarrow> f64 \<Rightarrow> collision_shape" where
  "cross_shape ps width tall =
     (let lo = f64_sub half (f64_div width (integral 2)); hi = f64_add half (f64_div width (integral 2)); one = integral 1 in
      Shape_Boxes (box6 lo 0 lo hi tall hi # connected_boxes ps
        [(''north'', box6 lo 0 0 hi tall lo), (''south'', box6 lo 0 hi hi tall one),
         (''west'', box6 0 0 lo lo tall hi), (''east'', box6 hi 0 lo one tall hi)]))"

definition wall_shape :: "(rust_str, rust_str) btree_map \<Rightarrow> collision_shape" where
  "wall_shape ps =
     (let lo = sixteenths 5; hi = sixteenths 11; y = three_halves; one = integral 1;
          parts = connected_boxes ps
            [(''up'', box6 (sixteenths 4) 0 (sixteenths 4) (sixteenths 12) y (sixteenths 12)),
             (''north'', box6 lo 0 0 hi y half), (''south'', box6 lo 0 half hi y one),
             (''west'', box6 0 0 lo half y hi), (''east'', box6 half 0 lo one y hi)] in
      if parts = [] then Shape_Empty else Shape_Boxes parts)"

section \<open>Collision and outline\<close>

definition is_empty_block_entity_shape :: "string \<Rightarrow> bool" where
  "is_empty_block_entity_shape path \<longleftrightarrow>
     list_ex (ends_with path) [''_sign'', ''_hanging_sign'', ''_banner'', ''_head'', ''_skull'']"

definition EMPTY_PLANTS :: "string list" where
  "EMPTY_PLANTS =
     [''air'', ''cave_air'', ''void_air'', ''water'', ''lava'', ''wheat'', ''carrots'', ''potatoes'', ''beetroots'',
      ''nether_wart'', ''pumpkin_stem'', ''melon_stem'', ''attached_pumpkin_stem'', ''attached_melon_stem'',
      ''torchflower_crop'', ''pitcher_plant'', ''sweet_berry_bush'', ''sugar_cane'', ''brown_mushroom'', ''red_mushroom'',
      ''crimson_fungus'', ''warped_fungus'', ''crimson_roots'', ''warped_roots'', ''nether_sprouts'', ''hanging_roots'',
      ''pale_hanging_moss'', ''mangrove_propagule'', ''small_dripleaf'', ''big_dripleaf_stem'', ''cave_vines'',
      ''cave_vines_plant'', ''twisting_vines'', ''twisting_vines_plant'', ''weeping_vines'', ''weeping_vines_plant'',
      ''cobweb'', ''frogspawn'', ''short_grass'', ''tall_grass'', ''short_dry_grass'', ''tall_dry_grass'', ''fern'',
      ''large_fern'', ''dead_bush'', ''leaf_litter'', ''wildflowers'', ''pink_petals'', ''sunflower'', ''torchflower'',
      ''spore_blossom'', ''dandelion'', ''poppy'', ''blue_orchid'', ''allium'', ''azure_bluet'', ''oxeye_daisy'',
      ''cornflower'', ''lily_of_the_valley'', ''wither_rose'', ''closed_eyeblossom'', ''open_eyeblossom'', ''bush'',
      ''firefly_bush'', ''lilac'', ''peony'', ''rose_bush'', ''vine'', ''glow_lichen'', ''sculk_vein'', ''resin_clump'',
      ''torch'', ''wall_torch'', ''redstone_torch'', ''redstone_wall_torch'', ''redstone_wire'', ''tripwire'', ''fire'',
      ''soul_fire'', ''seagrass'', ''tall_seagrass'', ''kelp'', ''kelp_plant'']"

definition is_empty_plant_collision :: "string \<Rightarrow> bool" where
  "is_empty_plant_collision path \<longleftrightarrow>
     is_empty_block_entity_shape path \<or> path \<in> set EMPTY_PLANTS \<or>
     list_ex (ends_with path) [''_sapling'', ''_flower'', ''_coral'', ''_coral_fan'', ''_wall_coral_fan'']"

datatype plant_collision_family =
    Plant_Empty | Azalea | Bamboo | BambooSapling | BigDripleaf | ChorusPlant | ChorusFlower | Cocoa | FlowerPot
  | PitcherCrop | SeaPickle | SnifferEgg | TurtleEgg

definition starts_with :: "string \<Rightarrow> string \<Rightarrow> bool" where
  "starts_with s prefix \<longleftrightarrow> take (length prefix) s = prefix"

definition PLANT_FAMILIES :: "(string \<times> plant_collision_family) list" where
  "PLANT_FAMILIES =
     [(''azalea'', Azalea), (''flowering_azalea'', Azalea), (''bamboo'', Bamboo), (''bamboo_sapling'', BambooSapling),
      (''big_dripleaf'', BigDripleaf), (''chorus_plant'', ChorusPlant), (''chorus_flower'', ChorusFlower),
      (''cocoa'', Cocoa), (''flower_pot'', FlowerPot), (''pitcher_crop'', PitcherCrop), (''sea_pickle'', SeaPickle),
      (''sniffer_egg'', SnifferEgg), (''turtle_egg'', TurtleEgg)]"

definition plant_family_of :: "string \<Rightarrow> plant_collision_family option" where
  "plant_family_of path =
     (case map_of PLANT_FAMILIES path of
        Some family \<Rightarrow> Some family
      | None \<Rightarrow>
          if starts_with path ''potted_'' then Some FlowerPot
          else if is_empty_plant_collision path then Some Plant_Empty else None)"

definition sea_pickle_shape :: "(rust_str, rust_str) btree_map \<Rightarrow> collision_shape" where
  "sea_pickle_shape ps =
     (let pickles = (case property_number ps ''pickles'' of None \<Rightarrow> 1 | Some n \<Rightarrow> n);
          shape = (\<lambda>width tall. column (sixteenths width) 0 (sixteenths tall)) in
      if pickles = 1 then shape 4 6
      else if pickles = 2 then shape 10 6
      else if pickles = 3 then shape 12 6
      else if pickles = 4 then shape 12 7
      else Shape_FullCube)"

definition plant_collision_shape :: "plant_collision_family \<Rightarrow> (rust_str, rust_str) btree_map \<Rightarrow> collision_shape" where
  "plant_collision_shape family ps =
     (let s = sixteenths; one = integral 1 in
      case family of
        Plant_Empty \<Rightarrow> Shape_Empty
      | Azalea \<Rightarrow> Shape_Boxes [centered_column one (s 8) one, centered_column (s 4) 0 (s 8)]
      | Bamboo \<Rightarrow> column (s 3) 0 one
      | BambooSapling \<Rightarrow> column (s 8) 0 (s 12)
      | BigDripleaf \<Rightarrow>
          if property_is ps ''tilt'' ''full'' then Shape_Empty
          else if property_is ps ''tilt'' ''partial'' then cuboid 0 (s 11) 0 one (s 13) one
          else if property_is ps ''tilt'' ''none'' \<or> property_is ps ''tilt'' ''unstable'' then cuboid 0 (s 11) 0 one (s 15) one
          else Shape_FullCube
      | ChorusPlant \<Rightarrow> chorus_plant_shape ps
      | ChorusFlower \<Rightarrow> Shape_FullCube
      | Cocoa \<Rightarrow> cocoa_shape ps
      | FlowerPot \<Rightarrow> column (s 6) 0 (s 6)
      | PitcherCrop \<Rightarrow> pitcher_crop_shape ps
      | SeaPickle \<Rightarrow> sea_pickle_shape ps
      | SnifferEgg \<Rightarrow> cuboid (s 1) 0 (s 2) (s 15) one (s 14)
      | TurtleEgg \<Rightarrow>
          if property_is ps ''eggs'' ''1'' then cuboid (s 3) 0 (s 3) (s 12) (s 7) (s 12) else column (s 14) 0 (s 7))"

definition slab_shape :: "(rust_str, rust_str) btree_map \<Rightarrow> collision_shape" where
  "slab_shape ps =
     (if property_is ps ''type'' ''bottom'' then cuboid 0 0 0 (integral 1) half (integral 1)
      else if property_is ps ''type'' ''top'' then cuboid 0 half 0 (integral 1) (integral 1) (integral 1)
      else Shape_FullCube)"

definition ladder_shape :: "(rust_str, rust_str) btree_map \<Rightarrow> collision_shape" where
  "ladder_shape ps =
     (let s = sixteenths; one = integral 1 in
      case facing_of ps of
        None \<Rightarrow> Shape_FullCube
      | Some facing \<Rightarrow>
          if facing = ''north'' then cuboid 0 0 (s 13) one one one
          else if facing = ''south'' then cuboid 0 0 0 one one (s 3)
          else if facing = ''west'' then cuboid (s 13) 0 0 one one one
          else cuboid 0 0 0 (s 3) one one)"

definition snow_shape :: "(rust_str, rust_str) btree_map \<Rightarrow> collision_shape" where
  "snow_shape ps =
     (let layers = max 1 (min 8 (case property_number ps ''layers'' of None \<Rightarrow> 1 | Some n \<Rightarrow> n));
          tall = f64_div (f64_of_int (int (layers - 1))) (integral 8) in
      if f64_equal tall 0 then Shape_Empty else cuboid 0 0 0 (integral 1) tall (integral 1))"

text \<open>The blocks that the last \<open>match\<close> of \<open>classify_shape\<close> names.\<close>

definition named_shape :: "string \<Rightarrow> collision_shape" where
  "named_shape path =
     (let s = sixteenths; one = integral 1 in
      if path = ''brewing_stand'' then Shape_Boxes [centered_column (s 2) (s 2) (s 14), centered_column (s 14) 0 (s 2)]
      else if path = ''lectern'' then Shape_Boxes [centered_column one 0 (s 2), centered_column (s 8) (s 2) (s 14)]
      else if path = ''decorated_pot'' then column (s 14) 0 one
      else if path = ''enchanting_table'' then column one 0 (s 12)
      else if path = ''campfire'' \<or> path = ''soul_campfire'' then column one 0 (s 7)
      else if path = ''farmland'' \<or> path = ''dirt_path'' then cuboid 0 0 0 one (s 15) one
      else if path = ''soul_sand'' then cuboid 0 0 0 one (s 14) one
      else if path = ''lily_pad'' then cuboid 0 0 0 one (s 1) one
      else if path = ''cactus'' then cuboid (s 1) 0 (s 1) (s 15) one (s 15)
      else Shape_FullCube)"

definition classify_shape :: "string \<Rightarrow> (rust_str, rust_str) btree_map \<Rightarrow> collision_shape" where
  "classify_shape path ps =
     (let s = sixteenths; one = integral 1; ends = ends_with path in
      if path = ''lever'' \<or> ends ''_button'' then Shape_Empty
      else case plant_family_of path of
        Some family \<Rightarrow> plant_collision_shape family ps
      | None \<Rightarrow>
          if ends ''_slab'' then slab_shape ps
          else if path = ''ladder'' then ladder_shape ps
          else if path = ''honey_block'' then cuboid (s 1) 0 (s 1) (s 15) (s 15) (s 15)
          else if path = ''scaffolding'' then Shape_Empty
          else if path = ''pale_moss_carpet'' \<and> property_is ps ''bottom'' ''false'' then Shape_Empty
          else if ends ''_carpet'' \<or> path = ''moss_carpet'' then cuboid 0 0 0 one (s 1) one
          else if path = ''snow'' then snow_shape ps
          else if ends ''_stairs'' then stair_shape ps
          else if ends ''_trapdoor'' then trapdoor_shape ps
          else if ends ''_door'' then door_shape ps
          else if ends ''_fence_gate'' then fence_gate_shape ps
          else if ends ''_fence'' then cross_shape ps (s 4) (s 24)
          else if ends ''_wall'' then wall_shape ps
          else if is_pane path then cross_shape ps (s 2) one
          else if path = ''chest'' \<or> path = ''trapped_chest'' then chest_shape ps
          else if path = ''ender_chest'' then column (s 14) 0 (s 14)
          else if ends ''_bed'' then bed_shape ps
          else if path = ''hopper'' then hopper_shape ps
          else if path = ''bell'' then bell_shape ps
          else named_shape path)"

text \<open>A quarter turn about the x axis, then one about the y axis, of a point relative to the centre of the block.\<close>

definition turn_x :: "vec3d \<Rightarrow> vec3d" where "turn_x p = vec3d_new (vec_x p) (f64_neg (vec_z p)) (vec_y p)"
definition turn_y :: "vec3d \<Rightarrow> vec3d" where "turn_y p = vec3d_new (f64_neg (vec_z p)) (vec_y p) (vec_x p)"

definition turned_corner :: "nat \<Rightarrow> nat \<Rightarrow> vec3d \<Rightarrow> vec3d" where
  "turned_corner x_turns y_turns p =
     (let centred = vec3d_new (f64_sub (vec_x p) half) (f64_sub (vec_y p) half) (f64_sub (vec_z p) half);
          q = (turn_y ^^ y_turns) ((turn_x ^^ x_turns) centred) in
      vec3d_new (f64_add (vec_x q) half) (f64_add (vec_y q) half) (f64_add (vec_z q) half))"

definition corners :: "aabb \<Rightarrow> vec3d list" where
  "corners b =
     (let lo = box_min b; hi = box_max b in
      concat (map (\<lambda>x. concat (map (\<lambda>y. map (\<lambda>z. vec3d_new x y z) [vec_z lo, vec_z hi])
        [vec_y lo, vec_y hi])) [vec_x lo, vec_x hi]))"

definition rotate_attachment_box :: "aabb \<Rightarrow> nat \<Rightarrow> nat \<Rightarrow> aabb" where
  "rotate_attachment_box b x_turns y_turns =
     (let inf = f64_infinity; minf = f64_neg f64_infinity in
      foldl (\<lambda>acc p. aabb_new
          (vec3d_new (f64_min (vec_x (box_min acc)) (vec_x p)) (f64_min (vec_y (box_min acc)) (vec_y p))
             (f64_min (vec_z (box_min acc)) (vec_z p)))
          (vec3d_new (f64_max (vec_x (box_max acc)) (vec_x p)) (f64_max (vec_y (box_max acc)) (vec_y p))
             (f64_max (vec_z (box_max acc)) (vec_z p))))
        (aabb_new (vec3d_new inf inf inf) (vec3d_new minf minf minf))
        (map (turned_corner x_turns y_turns) (corners b)))"

definition attached_control_shape :: "(rust_str, rust_str) btree_map \<Rightarrow> bool \<Rightarrow> collision_shape" where
  "attached_control_shape ps button =
     (let s = sixteenths; one = integral 1; depth = (if property_is ps ''powered'' ''true'' then s 1 else s 2);
          base = (if button then box6 (s 5) (s 6) (f64_sub one depth) (s 11) (s 10) one
                  else box6 (s 5) (s 4) (s 10) (s 11) (s 12) one);
          x_turns = (if property_is ps ''face'' ''wall'' then Some 0
                     else if property_is ps ''face'' ''floor'' then Some 1
                     else if property_is ps ''face'' ''ceiling'' then Some 3 else None);
          y_turns = (if property_is ps ''facing'' ''north'' then Some 0
                     else if property_is ps ''facing'' ''east'' then Some 1
                     else if property_is ps ''facing'' ''south'' then Some 2
                     else if property_is ps ''facing'' ''west'' then Some 3 else None) in
      case (x_turns, y_turns) of
        (Some x, Some y) \<Rightarrow> Shape_Boxes [rotate_attachment_box base x y]
      | _ \<Rightarrow> Shape_Empty)"

definition scaffolding_outline :: "(rust_str, rust_str) btree_map \<Rightarrow> collision_shape" where
  "scaffolding_outline ps =
     (let t = sixteenths 2; one = integral 1; far = f64_sub one t in
      Shape_Boxes ([box6 0 (sixteenths 14) 0 one one one, box6 0 0 0 t one t, box6 far 0 0 one one t, box6 0 0 far t one one,
        box6 far 0 far one one one] @ (if property_is ps ''bottom'' ''true'' then [box6 0 0 0 one t one] else [])))"

definition classify_outline_shape :: "string \<Rightarrow> (rust_str, rust_str) btree_map \<Rightarrow> collision_shape" where
  "classify_outline_shape path ps =
     (let s = sixteenths in
      if path = ''short_grass'' then cuboid (s 2) 0 (s 2) (s 14) (s 13) (s 14)
      else if ends_with path ''_fence'' then cross_shape ps (s 4) (integral 1)
      else if ends_with path ''_button'' then attached_control_shape ps True
      else if path = ''lever'' then attached_control_shape ps False
      else if path = ''scaffolding'' then scaffolding_outline ps
      else case classify_shape path ps of Shape_Empty \<Rightarrow> Shape_FullCube | shape \<Rightarrow> shape)"

section \<open>Breaking blocks\<close>

datatype tool_kind = Pickaxe | Axe | Shovel | Hoe | Shears

text \<open>The kind of a tool and its speed.\<close>

definition tool_properties :: "string \<Rightarrow> (tool_kind \<times> f32) option" where
  "tool_properties identifier =
     (let path = block_path identifier;
          kind = (if ends_with path ''_pickaxe'' then Some Pickaxe
                  else if ends_with path ''_axe'' then Some Axe
                  else if ends_with path ''_shovel'' then Some Shovel
                  else if ends_with path ''_hoe'' then Some Hoe
                  else if path = ''shears'' then Some Shears else None);
          speed = (if starts_with path ''wooden_'' then 2 else if starts_with path ''stone_'' then 4
                   else if starts_with path ''iron_'' then 6 else if starts_with path ''diamond_'' then 8
                   else if starts_with path ''netherite_'' then 9 else if starts_with path ''golden_'' then 12
                   else if kind = Some Shears then 15 else 1) in
      map_option (\<lambda>k. (k, f32_of_int speed)) kind)"

definition tool_effective_for :: "tool_kind \<Rightarrow> string \<Rightarrow> bool" where
  "tool_effective_for kind path =
     (case kind of
        Pickaxe \<Rightarrow> path \<in> set [''stone'', ''cobblestone''] \<or>
          list_ex (contains path) [''ore'', ''copper'', ''iron'', ''gold'', ''brick'', ''anvil'']
      | Axe \<Rightarrow> list_ex (ends_with path) [''_planks'', ''_log'', ''_wood'']
      | Shovel \<Rightarrow> path \<in> set [''dirt'', ''sand'', ''clay'', ''gravel'', ''grass_block'', ''podzol'', ''mycelium'']
      | Hoe \<Rightarrow> ends_with path ''_leaves'' \<or> contains path ''wart_block''
      | Shears \<Rightarrow> ends_with path ''_leaves'')"

text \<open>Hardness, in tenths before it is rounded to an \<open>f32\<close>, and whether only the right tool breaks it properly.\<close>

definition f32_tenths :: "int \<Rightarrow> f32" where
  "f32_tenths n = of_nat (fl_pack Binary32 (n < 0) (fl_round Binary32 (nat \<bar>n\<bar> * 2 ^ unit_exponent Binary32) 10))"

definition destroy_properties :: "string \<Rightarrow> (f32 \<times> bool) option" where
  "destroy_properties path =
     (if path \<in> set [''bedrock'', ''barrier'', ''end_portal'', ''end_portal_frame''] then Some (f32_tenths (- 10), True)
      else if path \<in> set [''dirt'', ''sand'', ''clay'', ''gravel''] then Some (f32_tenths 5, False)
      else if path \<in> set [''grass_block'', ''podzol'', ''mycelium''] then Some (f32_tenths 6, False)
      else if ends_with path ''_leaves'' then Some (f32_tenths 2, False)
      else if contains path ''glass'' then Some (f32_tenths 3, False)
      else if list_ex (ends_with path) [''_planks'', ''_log'', ''_wood''] then Some (f32_tenths 20, False)
      else if path = ''stone'' \<or> path = ''cobblestone'' then Some (f32_tenths 15, True)
      else if ends_with path ''_button'' \<or> path = ''lever'' then Some (f32_tenths 5, False)
      else None)"

section \<open>The rules of a version\<close>

datatype collision_rule_set = Collision_Java26_1_2 | Collision_Conservative

definition collision_for_version :: "rust_str \<Rightarrow> collision_rule_set" where
  "collision_for_version version = (if version = as_str ''26.1.2'' then Collision_Java26_1_2 else Collision_Conservative)"

definition rule_shape :: "collision_rule_set \<Rightarrow> string \<Rightarrow> (rust_str, rust_str) btree_map \<Rightarrow> collision_shape" where
  "rule_shape rules path ps =
     (case rules of
        Collision_Java26_1_2 \<Rightarrow> classify_shape path ps
      | Collision_Conservative \<Rightarrow>
          if path \<in> set [''air'', ''cave_air'', ''void_air''] then Shape_Empty else Shape_FullCube)"

definition outline_shape :: "collision_rule_set \<Rightarrow> string \<Rightarrow> (rust_str, rust_str) btree_map \<Rightarrow> collision_shape" where
  "outline_shape rules path ps =
     (case rules of
        Collision_Java26_1_2 \<Rightarrow> classify_outline_shape path ps
      | Collision_Conservative \<Rightarrow> rule_shape rules path ps)"

definition rule_offset :: "collision_rule_set \<Rightarrow> string \<Rightarrow> collision_offset" where
  "rule_offset rules path =
     (if rules = Collision_Java26_1_2 \<and> path \<in> set [''bamboo'', ''bamboo_sapling''] then Offset_Horizontal 4 else Offset_None)"

definition destroy_progress :: "string \<Rightarrow> string option \<Rightarrow> f32" where
  "destroy_progress path held_item =
     (case destroy_properties path of
        None \<Rightarrow> 0
      | Some (hardness, requires_correct_tool) \<Rightarrow>
          if f32_less hardness 0 then 0
          else
            let tool = (case held_item of None \<Rightarrow> None | Some i \<Rightarrow> tool_properties i);
                effective = (case tool of None \<Rightarrow> False | Some (kind, _) \<Rightarrow> tool_effective_for kind path);
                correct = (\<not> requires_correct_tool \<or> effective);
                speed = (if effective then (case tool of None \<Rightarrow> f32_of_int 1 | Some (_, s) \<Rightarrow> s) else f32_of_int 1) in
            f32_div (f32_div speed hardness) (f32_of_int (if correct then 30 else 100)))"

definition bare_hand_destroy_progress :: "string \<Rightarrow> f32" where
  "bare_hand_destroy_progress path = destroy_progress path None"

end
