(* ===== verification/Player_Collision.thy ===== *)
theory Player_Collision
  imports Block_Shapes
begin

text \<open>
  The collision part of \<open>cubic-world/src/movement.rs\<close>: the profile that gives every block state its shape, the obstacles
  around a box, how far a box moves along each axis, stepping up, and the guard that keeps a sneaking player from walking
  off an edge. Block coordinates are \<open>i32\<close> as integers whose sums wrap; a loop of the code that may not end is a
  partial function, whose value \<open>None\<close> is not returning.
\<close>

section \<open>Generated shapes\<close>

definition SHAPE_DATA_SCHEMA_VERSION :: u32 where "SHAPE_DATA_SCHEMA_VERSION = 1"
definition MAX_SHAPE_DATA_BYTES :: nat where "MAX_SHAPE_DATA_BYTES = 16 * 1024 * 1024"
definition MAX_SHAPE_STATES :: nat where "MAX_SHAPE_STATES = 65536"
definition MAX_SHAPES :: nat where "MAX_SHAPES = 4096"
definition MAX_BOXES_PER_SHAPE :: nat where "MAX_BOXES_PER_SHAPE = 256"

text \<open>A box of the file: the lower corner, then the upper one.\<close>

type_synonym shape_data_box = "vec3d \<times> vec3d"

datatype dynamic_collision_kind = Dynamic_Scaffolding | Dynamic_PowderSnow | Dynamic_MovingPistonBlockEntity

record block_state_shape =
  bss_runtime_id :: nat
  bss_block :: rust_str
  bss_properties :: "(rust_str, rust_str) btree_map"
  bss_collision_shape :: nat
  bss_outline_shape :: nat
  bss_dynamic_context :: "dynamic_collision_kind option"

record shape_data =
  sd_schema_version :: u32
  sd_minecraft_version :: rust_str
  sd_state_count :: nat
  sd_shapes :: "shape_data_box list list"
  sd_states :: "block_state_shape list"

datatype shape_data_error =
    ShapeData_Malformed nat nat
  | ShapeData_Invalid string
  | ShapeData_UnsupportedFormat u32 u32

definition shape_data_state :: "shape_data \<Rightarrow> nat \<Rightarrow> block_state_shape option" where
  "shape_data_state d i = binary_search bss_runtime_id i (sd_states d)"

definition shape_data_shape :: "shape_data \<Rightarrow> nat \<Rightarrow> shape_data_box list option" where
  "shape_data_shape d i = nth_opt (sd_shapes d) i"

definition box_is_bad :: "shape_data_box \<Rightarrow> bool" where
  "box_is_bad b =
     (let (lo, hi) = b; pairs = [(vec_x lo, vec_x hi), (vec_y lo, vec_y hi), (vec_z lo, vec_z hi)] in
      list_ex (\<lambda>(l, h). \<not> f64_is_finite l \<or> \<not> f64_is_finite h) pairs \<or> list_ex (\<lambda>(l, h). f64_less_eq h l) pairs)"

text \<open>The states in turn, with the id before; the set of ids that the code keeps adds nothing to their order.\<close>

fun states_are_bad :: "nat \<Rightarrow> nat option \<Rightarrow> block_state_shape list \<Rightarrow> bool" where
  "states_are_bad shapes previous [] = False"
| "states_are_bad shapes previous (s # ss) =
     ((case previous of None \<Rightarrow> False | Some prior \<Rightarrow> bss_runtime_id s \<le> prior) \<or>
      shapes \<le> bss_collision_shape s \<or> shapes \<le> bss_outline_shape s \<or> bss_block s = [] \<or> 256 < str_len (bss_block s) \<or>
      states_are_bad shapes (Some (bss_runtime_id s)) ss)"

definition parse_shape_data ::
  "(u8 list \<Rightarrow> (nat \<times> nat) + shape_data) \<Rightarrow> u8 list \<Rightarrow> shape_data_error + shape_data" where
  "parse_shape_data json bytes =
     (if MAX_SHAPE_DATA_BYTES < length bytes then Inl (ShapeData_Invalid ''shape artifact exceeds its byte limit'')
      else case json bytes of
        Inl (line, col) \<Rightarrow> Inl (ShapeData_Malformed line col)
      | Inr d \<Rightarrow>
          if sd_schema_version d \<noteq> SHAPE_DATA_SCHEMA_VERSION
          then Inl (ShapeData_UnsupportedFormat (sd_schema_version d) SHAPE_DATA_SCHEMA_VERSION)
          else if sd_state_count d \<noteq> length (sd_states d) \<or> MAX_SHAPE_STATES < length (sd_states d) \<or>
                  MAX_SHAPES < length (sd_shapes d)
          then Inl (ShapeData_Invalid ''shape artifact has invalid state or shape counts'')
          else if list_ex (\<lambda>shape. MAX_BOXES_PER_SHAPE < length shape) (sd_shapes d)
          then Inl (ShapeData_Invalid ''shape contains too many boxes'')
          else if list_ex (list_ex box_is_bad) (sd_shapes d)
          then Inl (ShapeData_Invalid ''shape contains non-finite or inverted bounds'')
          else if states_are_bad (length (sd_shapes d)) None (sd_states d)
          then Inl (ShapeData_Invalid ''shape state is unsorted or references invalid data'')
          else Inr d)"

text \<open>The file that is compiled in is a parameter.\<close>

definition shape_data_for ::
  "(u8 list \<Rightarrow> (nat \<times> nat) + shape_data) \<Rightarrow> u8 list \<Rightarrow> rust_str \<Rightarrow> shape_data_error + shape_data option" where
  "shape_data_for json included version =
     (if version = as_str ''26.1.2'' then and_also (parse_shape_data json included) (\<lambda>d. Inr (Some d)) else Inr None)"

section \<open>The profile\<close>

definition MAX_COLLISION_BOXES_PER_STATE :: nat where "MAX_COLLISION_BOXES_PER_STATE = 8"
definition STEP_HEIGHT :: f64 where "STEP_HEIGHT = f64_literal 6 1"
definition COLLISION_EPSILON :: f64 where "COLLISION_EPSILON = f64_literal 1 7"

record block_collision_profile =
  cp_states :: "(nat, collision_shape) btree_map"
  cp_offsets :: "(nat, collision_offset) btree_map"
  cp_slipperiness :: "(nat, f64) btree_map"
  cp_approximate_states :: "nat set"
  cp_environment :: environment_profile
  cp_source_shape_bounds :: aabb

definition is_unit_box :: "shape_data_box \<Rightarrow> bool" where
  "is_unit_box b =
     (let (lo, hi) = b in
      f64_equal (vec_x lo) 0 \<and> f64_equal (vec_y lo) 0 \<and> f64_equal (vec_z lo) 0 \<and>
      f64_equal (vec_x hi) (integral 1) \<and> f64_equal (vec_y hi) (integral 1) \<and> f64_equal (vec_z hi) (integral 1))"

definition collision_shape_from_data :: "shape_data_box list \<Rightarrow> collision_shape" where
  "collision_shape_from_data bs =
     (if bs = [] then Shape_Empty
      else if length bs = 1 \<and> is_unit_box (hd bs) then Shape_FullCube
      else Shape_Boxes (map (\<lambda>(lo, hi). aabb_new lo hi) bs))"

definition widen :: "aabb \<Rightarrow> aabb \<Rightarrow> aabb" where
  "widen e b =
     aabb_new
       (vec3d_new (f64_min (vec_x (box_min e)) (vec_x (box_min b))) (f64_min (vec_y (box_min e)) (vec_y (box_min b)))
          (f64_min (vec_z (box_min e)) (vec_z (box_min b))))
       (vec3d_new (f64_max (vec_x (box_max e)) (vec_x (box_max b))) (f64_max (vec_y (box_max e)) (vec_y (box_max b)))
          (f64_max (vec_z (box_max e)) (vec_z (box_max b))))"

definition shape_boxes :: "collision_shape \<Rightarrow> aabb list" where
  "shape_boxes shape = (case shape of Shape_Boxes bs \<Rightarrow> take MAX_COLLISION_BOXES_PER_STATE bs | _ \<Rightarrow> [])"

definition collision_shape_envelope :: "collision_shape list \<Rightarrow> f64 \<Rightarrow> aabb" where
  "collision_shape_envelope shapes offset =
     (let e = foldl widen full_cube_bounds (concat (map shape_boxes shapes)); lo = box_min e; hi = box_max e in
      aabb_new (lo\<lparr>vec_x := f64_sub (vec_x lo) offset, vec_z := f64_sub (vec_z lo) offset\<rparr>)
        (hi\<lparr>vec_x := f64_add (vec_x hi) offset, vec_z := f64_add (vec_z hi) offset\<rparr>))"

definition classify_slipperiness :: "special_surface \<Rightarrow> f64" where
  "classify_slipperiness surface =
     (case surface of
        Ice \<Rightarrow> f64_literal 98 2 | PackedIce \<Rightarrow> f64_literal 98 2 | FrostedIce \<Rightarrow> f64_literal 98 2
      | BlueIce \<Rightarrow> f64_literal 989 3 | Slime \<Rightarrow> f64_literal 8 1 | _ \<Rightarrow> f64_literal 6 1)"

text \<open>The generated state of a runtime id, when it describes the same block with the same properties.\<close>

definition generated_state_of :: "shape_data option \<Rightarrow> block_definition \<Rightarrow> block_state \<Rightarrow> block_state_shape option" where
  "generated_state_of generated b s =
     (case generated of
        None \<Rightarrow> None
      | Some data \<Rightarrow>
          (case shape_data_state data (unat (bs_state_id s)) of
             None \<Rightarrow> None
           | Some candidate \<Rightarrow>
               if bss_block candidate = as_str (bd_identifier b) \<and> bss_properties candidate = bs_properties s
               then Some candidate else None))"

definition state_shape ::
  "collision_rule_set \<Rightarrow> shape_data option \<Rightarrow> environment_profile \<Rightarrow> block_definition \<Rightarrow> block_state \<Rightarrow> collision_shape" where
  "state_shape rules generated environment b s =
     (if env_scaffolding (environment_of environment (unat (bs_state_id s))) then Shape_Empty
      else case (generated, generated_state_of generated b s) of
        (Some data, Some candidate) \<Rightarrow>
          collision_shape_from_data (case shape_data_shape data (bss_collision_shape candidate) of None \<Rightarrow> [] | Some bs \<Rightarrow> bs)
      | _ \<Rightarrow> rule_shape rules (block_path (bd_identifier b)) (bs_properties s))"

definition profile_state ::
  "collision_rule_set \<Rightarrow> shape_data option \<Rightarrow> block_definition \<Rightarrow> block_state \<Rightarrow> block_collision_profile \<Rightarrow> block_collision_profile" where
  "profile_state rules generated b s p =
     (let i = unat (bs_state_id s) in
      p\<lparr>cp_states := bt_insert i (state_shape rules generated (cp_environment p) b s) (cp_states p),
        cp_offsets := bt_insert i (rule_offset rules (block_path (bd_identifier b))) (cp_offsets p),
        cp_slipperiness := bt_insert i (classify_slipperiness (env_surface (environment_of (cp_environment p) i))) (cp_slipperiness p),
        cp_approximate_states :=
          (if generated_state_of generated b s = None then insert i (cp_approximate_states p) else cp_approximate_states p)\<rparr>)"

definition profile_from_game_data ::
  "(u8 list \<Rightarrow> (nat \<times> nat) + shape_data) \<Rightarrow> u8 list \<Rightarrow> rust_str \<Rightarrow> game_data_artifact \<Rightarrow> block_collision_profile" where
  "profile_from_game_data json included version data =
     (let rules = collision_for_version version;
          generated = (case shape_data_for json included version of Inl _ \<Rightarrow> None | Inr g \<Rightarrow> g);
          p = foldl (\<lambda>p b. foldl (\<lambda>p s. profile_state rules generated b s p) p (bd_states b))
                \<lparr>cp_states = [], cp_offsets = [], cp_slipperiness = [], cp_approximate_states = {},
                 cp_environment = environment_from_game_data version data, cp_source_shape_bounds = full_cube_bounds\<rparr>
                (ga_blocks data) in
      p\<lparr>cp_source_shape_bounds :=
          collision_shape_envelope (map snd (cp_states p)) (foldl f64_max 0 (map (maximum_horizontal \<circ> snd) (cp_offsets p)))\<rparr>)"

definition synthetic_profile :: "(nat \<times> collision_shape) list \<Rightarrow> block_collision_profile" where
  "synthetic_profile entries =
     (let states = foldl (\<lambda>m (i, shape). bt_insert i shape m) [] entries in
      \<lparr>cp_states = states,
       cp_offsets = foldl (\<lambda>m (i, _). bt_insert i Offset_None m) [] entries,
       cp_slipperiness = foldl (\<lambda>m (i, _). bt_insert i (f64_literal 6 1) m) [] entries,
       cp_approximate_states = {}, cp_environment = [],
       cp_source_shape_bounds = collision_shape_envelope (map snd states) 0\<rparr>)"

definition profile_shape :: "block_collision_profile \<Rightarrow> nat \<Rightarrow> collision_shape" where
  "profile_shape p state = (case bt_get state (cp_states p) of None \<Rightarrow> Shape_FullCube | Some shape \<Rightarrow> shape)"

definition profile_slipperiness :: "block_collision_profile \<Rightarrow> nat \<Rightarrow> f64" where
  "profile_slipperiness p state = (case bt_get state (cp_slipperiness p) of None \<Rightarrow> f64_literal 6 1 | Some s \<Rightarrow> s)"

definition profile_environment :: "block_collision_profile \<Rightarrow> nat \<Rightarrow> block_environment" where
  "profile_environment p state = environment_of (cp_environment p) state"

definition is_approximate :: "block_collision_profile \<Rightarrow> nat \<Rightarrow> bool" where
  "is_approximate p state \<longleftrightarrow> \<not> bt_contains state (cp_states p) \<or> state \<in> cp_approximate_states p"

definition profile_offset :: "block_collision_profile \<Rightarrow> nat \<Rightarrow> int \<Rightarrow> int \<Rightarrow> vec3d" where
  "profile_offset p state x z =
     offset_at (case bt_get state (cp_offsets p) of None \<Rightarrow> Offset_None | Some offset \<Rightarrow> offset) x z"

section \<open>Overlaps\<close>

definition overlaps :: "f64 \<Rightarrow> f64 \<Rightarrow> f64 \<Rightarrow> f64 \<Rightarrow> bool" where
  "overlaps lo hi other_lo other_hi \<longleftrightarrow>
     f64_less (f64_add other_lo COLLISION_EPSILON) hi \<and> f64_less lo (f64_sub other_hi COLLISION_EPSILON)"

definition overlaps_x :: "aabb \<Rightarrow> aabb \<Rightarrow> bool" where
  "overlaps_x a b = overlaps (vec_x (box_min a)) (vec_x (box_max a)) (vec_x (box_min b)) (vec_x (box_max b))"
definition overlaps_y :: "aabb \<Rightarrow> aabb \<Rightarrow> bool" where
  "overlaps_y a b = overlaps (vec_y (box_min a)) (vec_y (box_max a)) (vec_y (box_min b)) (vec_y (box_max b))"
definition overlaps_z :: "aabb \<Rightarrow> aabb \<Rightarrow> bool" where
  "overlaps_z a b = overlaps (vec_z (box_min a)) (vec_z (box_max a)) (vec_z (box_min b)) (vec_z (box_max b))"

definition overlaps_yz :: "aabb \<Rightarrow> aabb \<Rightarrow> bool" where "overlaps_yz a b \<longleftrightarrow> overlaps_y a b \<and> overlaps_z a b"
definition overlaps_xz :: "aabb \<Rightarrow> aabb \<Rightarrow> bool" where "overlaps_xz a b \<longleftrightarrow> overlaps_x a b \<and> overlaps_z a b"
definition overlaps_xy :: "aabb \<Rightarrow> aabb \<Rightarrow> bool" where "overlaps_xy a b \<longleftrightarrow> overlaps_x a b \<and> overlaps_y a b"

definition aabbs_overlap :: "aabb \<Rightarrow> aabb \<Rightarrow> bool" where
  "aabbs_overlap a b \<longleftrightarrow> overlaps_x a b \<and> overlaps_y a b \<and> overlaps_z a b"

definition strict_overlaps :: "f64 \<Rightarrow> f64 \<Rightarrow> f64 \<Rightarrow> f64 \<Rightarrow> bool" where
  "strict_overlaps lo hi other_lo other_hi \<longleftrightarrow> f64_less other_lo hi \<and> f64_less lo other_hi"

definition expanded_toward :: "vec3d \<Rightarrow> aabb \<Rightarrow> aabb" where
  "expanded_toward m b =
     (let lo = box_min b; hi = box_max b in
      aabb_new
        (vec3d_new (f64_add (vec_x lo) (f64_min (vec_x m) 0)) (f64_add (vec_y lo) (f64_min (vec_y m) 0))
           (f64_add (vec_z lo) (f64_min (vec_z m) 0)))
        (vec3d_new (f64_add (vec_x hi) (f64_max (vec_x m) 0)) (f64_add (vec_y hi) (f64_max (vec_y m) 0))
           (f64_add (vec_z hi) (f64_max (vec_z m) 0))))"

definition moved :: "vec3d \<Rightarrow> aabb \<Rightarrow> aabb" where "moved m b = translated (vec_x m) (vec_y m) (vec_z m) b"

definition cell_at :: "int \<Rightarrow> int \<Rightarrow> int \<Rightarrow> aabb" where
  "cell_at x y z =
     box6 (f64_of_int x) (f64_of_int y) (f64_of_int z)
       (f64_add (f64_of_int x) (integral 1)) (f64_add (f64_of_int y) (integral 1)) (f64_add (f64_of_int z) (integral 1))"

definition overlaps_block :: "block_collision_profile \<Rightarrow> aabb \<Rightarrow> nat \<Rightarrow> int \<Rightarrow> int \<Rightarrow> int \<Rightarrow> bool" where
  "overlaps_block p b state x y z =
     (let ob = profile_offset p state x z;
          hit = (\<lambda>shape. aabbs_overlap b (translated (f64_add (f64_of_int x) (vec_x ob)) (f64_add (f64_of_int y) (vec_y ob))
                   (f64_add (f64_of_int z) (vec_z ob)) shape)) in
      case profile_shape p state of
        Shape_Empty \<Rightarrow> False | Shape_FullCube \<Rightarrow> hit full_cube_bounds | Shape_Boxes bs \<Rightarrow> list_ex hit bs)"

section \<open>Obstacles\<close>

datatype simulation_error = NonFinite string | BroadphaseTooLarge

definition block_state_at :: "loaded_chunks \<Rightarrow> dimension_geometry \<Rightarrow> int \<Rightarrow> int \<Rightarrow> int \<Rightarrow> nat option" where
  "block_state_at chunks geometry x y z =
     (let section = y div 16 - min_section_y geometry in
      if section < 0 then None
      else case bt_get (Chunk_Coordinate (x div 16) (z div 16)) chunks of
        None \<Rightarrow> None
      | Some c \<Rightarrow>
          (case nth_opt (chunk_sections c) (nat section) of
             None \<Rightarrow> None
           | Some s \<Rightarrow> section_block s (nat (x mod 16)) (nat (y mod 16)) (nat (z mod 16))))"

text \<open>The first layer above the world; a height beyond \<open>i32\<close> counts as the greatest.\<close>

definition world_top :: "dimension_geometry \<Rightarrow> int" where
  "world_top geometry = i32_wrap (min_y geometry + min (int (height geometry)) (2 ^ 31 - 1))"

text \<open>Below the world and in a chunk that is not loaded the ground is solid, above it there is nothing.\<close>

definition shape_at ::
  "loaded_chunks \<Rightarrow> dimension_geometry \<Rightarrow> block_collision_profile \<Rightarrow> int \<Rightarrow> int \<Rightarrow> int \<Rightarrow> collision_shape \<times> vec3d" where
  "shape_at chunks geometry profile x y z =
     (if y < min_y geometry then (Shape_FullCube, vec3d_default)
      else if world_top geometry \<le> y then (Shape_Empty, vec3d_default)
      else case block_state_at chunks geometry x y z of
        Some state \<Rightarrow> (profile_shape profile state, profile_offset profile state x z)
      | None \<Rightarrow> (Shape_FullCube, vec3d_default))"

definition cell_obstacles ::
  "loaded_chunks \<Rightarrow> dimension_geometry \<Rightarrow> block_collision_profile \<Rightarrow> int \<Rightarrow> int \<Rightarrow> int \<Rightarrow> aabb list" where
  "cell_obstacles chunks geometry profile x y z =
     (case shape_at chunks geometry profile x y z of (shape, off) \<Rightarrow>
        (case shape of
           Shape_Empty \<Rightarrow> []
         | Shape_FullCube \<Rightarrow> [cell_at x y z]
         | Shape_Boxes bs \<Rightarrow>
             map (translated (f64_add (f64_of_int x) (vec_x off)) (f64_add (f64_of_int y) (vec_y off))
                    (f64_add (f64_of_int z) (vec_z off))) (take MAX_COLLISION_BOXES_PER_STATE bs)))"

definition source_cell_range :: "f64 \<Rightarrow> f64 \<Rightarrow> f64 \<Rightarrow> f64 \<Rightarrow> int \<times> int" where
  "source_cell_range lo hi local_lo local_hi =
     (let negative = f64_max (f64_neg local_lo) 0; positive = f64_max (f64_sub local_hi (integral 1)) 0 in
      (f64_to_i32 (f64_floor (f64_sub (f64_sub lo positive) COLLISION_EPSILON)),
       f64_to_i32 (f64_floor (f64_add (f64_add hi negative) COLLISION_EPSILON))))"

text \<open>The number of layers of a range, an \<open>i32\<close>.\<close>

definition range_len :: "int \<times> int \<Rightarrow> int" where
  "range_len r = i32_wrap (snd r - fst r + 1)"

definition broadphase_cells :: "int \<times> int \<Rightarrow> int \<times> int \<Rightarrow> int \<times> int \<Rightarrow> int" where
  "broadphase_cells xs ys zs = i64_saturate (i64_saturate (range_len xs * range_len ys) * range_len zs)"

text \<open>The cells of a box of cells, layer by layer.\<close>

definition cells_of :: "int \<times> int \<Rightarrow> int \<times> int \<Rightarrow> int \<times> int \<Rightarrow> (int \<times> int \<times> int) list" where
  "cells_of xs ys zs =
     concat (map (\<lambda>y. concat (map (\<lambda>z. map (\<lambda>x. (x, y, z)) [fst xs..snd xs]) [fst zs..snd zs])) [fst ys..snd ys])"

definition collect_obstacles ::
  "aabb \<Rightarrow> loaded_chunks \<Rightarrow> dimension_geometry \<Rightarrow> block_collision_profile \<Rightarrow> simulation_error + aabb list" where
  "collect_obstacles broadphase chunks geometry profile =
     (let lo = box_min broadphase; hi = box_max broadphase;
          source_lo = box_min (cp_source_shape_bounds profile); source_hi = box_max (cp_source_shape_bounds profile);
          xs = source_cell_range (vec_x lo) (vec_x hi) (vec_x source_lo) (vec_x source_hi);
          ys = source_cell_range (vec_y lo) (vec_y hi) (vec_y source_lo) (vec_y source_hi);
          zs = source_cell_range (vec_z lo) (vec_z hi) (vec_z source_lo) (vec_z source_hi) in
      if 4096 < broadphase_cells xs ys zs then Inl BroadphaseTooLarge
      else Inr (concat (map (\<lambda>(x, y, z). cell_obstacles chunks geometry profile x y z) (cells_of xs ys zs))))"

section \<open>Moving along an axis\<close>

text \<open>
  \<open>resolve_x\<close>, \<open>resolve_y\<close> and \<open>resolve_z\<close> are one loop on the extent of the box along the axis and the extents of the
  obstacles that overlap it on the other two.
\<close>

definition limit_delta :: "f64 \<times> f64 \<Rightarrow> f64 \<times> f64 \<Rightarrow> f64 \<Rightarrow> f64" where
  "limit_delta box obstacle delta =
     (let (lo, hi) = box; (olo, ohi) = obstacle in
      if f64_less 0 delta \<and> f64_less lo olo \<and> f64_less_eq hi (f64_add olo COLLISION_EPSILON)
      then f64_min delta (f64_sub olo hi)
      else if f64_less delta 0 \<and> f64_less ohi hi \<and> f64_less_eq (f64_sub ohi COLLISION_EPSILON) lo
      then f64_max delta (f64_sub ohi lo)
      else delta)"

definition resolve_axis :: "f64 \<times> f64 \<Rightarrow> f64 \<Rightarrow> (f64 \<times> f64) list \<Rightarrow> f64" where
  "resolve_axis box delta obstacles = foldl (\<lambda>d ob. limit_delta box ob d) delta obstacles"

definition extent_x :: "aabb \<Rightarrow> f64 \<times> f64" where "extent_x b = (vec_x (box_min b), vec_x (box_max b))"
definition extent_y :: "aabb \<Rightarrow> f64 \<times> f64" where "extent_y b = (vec_y (box_min b), vec_y (box_max b))"
definition extent_z :: "aabb \<Rightarrow> f64 \<times> f64" where "extent_z b = (vec_z (box_min b), vec_z (box_max b))"

definition resolve_x :: "aabb \<Rightarrow> f64 \<Rightarrow> aabb list \<Rightarrow> f64" where
  "resolve_x b delta obstacles = resolve_axis (extent_x b) delta (map extent_x (filter (overlaps_yz b) obstacles))"

definition resolve_y :: "aabb \<Rightarrow> f64 \<Rightarrow> aabb list \<Rightarrow> f64" where
  "resolve_y b delta obstacles = resolve_axis (extent_y b) delta (map extent_y (filter (overlaps_xz b) obstacles))"

definition resolve_z :: "aabb \<Rightarrow> f64 \<Rightarrow> aabb list \<Rightarrow> f64" where
  "resolve_z b delta obstacles = resolve_axis (extent_z b) delta (map extent_z (filter (overlaps_xy b) obstacles))"

definition resolve_horizontal :: "aabb \<Rightarrow> f64 \<Rightarrow> f64 \<Rightarrow> aabb list \<Rightarrow> f64 \<times> f64" where
  "resolve_horizontal b x z obstacles =
     (if f64_less_eq (f64_abs z) (f64_abs x) then
        let x' = resolve_x b x obstacles in (x', resolve_z (moved (vec3d_new x' 0 0) b) z obstacles)
      else
        let z' = resolve_z b z obstacles in (resolve_x (moved (vec3d_new 0 0 z') b) x obstacles, z'))"

definition resolve_axes :: "aabb \<Rightarrow> vec3d \<Rightarrow> aabb list \<Rightarrow> vec3d" where
  "resolve_axes b requested obstacles =
     (let y = resolve_y b (vec_y requested) obstacles;
          (x, z) = resolve_horizontal (moved (vec3d_new 0 y 0) b) (vec_x requested) (vec_z requested) obstacles in
      vec3d_new x y z)"

text \<open>The square of a horizontal displacement.\<close>

definition horizontal_square :: "vec3d \<Rightarrow> f64" where
  "horizontal_square v = f64_mul_add (vec_x v) (vec_x v) (f64_mul (vec_z v) (vec_z v))"

definition step_over :: "aabb \<Rightarrow> vec3d \<Rightarrow> f64 \<Rightarrow> aabb list \<Rightarrow> vec3d" where
  "step_over b requested up obstacles =
     (let raised = moved (vec3d_new 0 up 0) b;
          (x, z) = resolve_horizontal raised (vec_x requested) (vec_z requested) obstacles;
          down = resolve_y (moved (vec3d_new x 0 z) raised) (f64_sub (vec_y requested) up) obstacles in
      vec3d_new x (f64_add up down) z)"

definition collide ::
  "aabb \<Rightarrow> vec3d \<Rightarrow> loaded_chunks \<Rightarrow> dimension_geometry \<Rightarrow> block_collision_profile \<Rightarrow> bool \<Rightarrow> simulation_error + vec3d \<times> bool" where
  "collide b requested chunks geometry profile was_on_ground =
     (let e = expanded_toward requested b;
          broadphase = e\<lparr>box_max := (box_max e)\<lparr>vec_y := f64_add (vec_y (box_max e)) STEP_HEIGHT\<rparr>\<rparr> in
      and_also (collect_obstacles broadphase chunks geometry profile) (\<lambda>obstacles.
      let direct = resolve_axes b requested obstacles;
          blocked = (\<not> f64_equal (vec_x direct) (vec_x requested) \<or> \<not> f64_equal (vec_z direct) (vec_z requested)) in
      if \<not> blocked \<or>
         \<not> (was_on_ground \<or> (f64_less (vec_y requested) 0 \<and> \<not> f64_equal (vec_y direct) (vec_y requested)))
      then Inr (direct, False)
      else
        let up = resolve_y b STEP_HEIGHT obstacles in
        if f64_less_eq up COLLISION_EPSILON then Inr (direct, False)
        else
          let stepped = step_over b requested up obstacles in
          if f64_less (horizontal_square direct) (horizontal_square stepped) then Inr (stepped, True)
          else Inr (direct, False)))"

section \<open>Edges\<close>

definition can_fall_at_least ::
  "aabb \<Rightarrow> f64 \<Rightarrow> f64 \<Rightarrow> f64 \<Rightarrow> loaded_chunks \<Rightarrow> dimension_geometry \<Rightarrow> block_collision_profile \<Rightarrow> simulation_error + bool" where
  "can_fall_at_least b x z distance chunks geometry profile =
     (let lo = box_min b; hi = box_max b; eps = COLLISION_EPSILON;
          probe = aabb_new
            (vec3d_new (f64_add (f64_add (vec_x lo) eps) x) (f64_sub (f64_sub (vec_y lo) distance) eps)
               (f64_add (f64_add (vec_z lo) eps) z))
            (vec3d_new (f64_add (f64_sub (vec_x hi) eps) x) (vec_y lo) (f64_add (f64_sub (vec_z hi) eps) z));
          plo = box_min probe; phi = box_max probe in
      and_also (collect_obstacles probe chunks geometry profile) (\<lambda>obstacles.
      Inr (\<not> list_ex (\<lambda>ob.
        strict_overlaps (vec_x plo) (vec_x phi) (vec_x (box_min ob)) (vec_x (box_max ob)) \<and>
        strict_overlaps (vec_y plo) (vec_y phi) (vec_y (box_min ob)) (vec_y (box_max ob)) \<and>
        strict_overlaps (vec_z plo) (vec_z phi) (vec_z (box_min ob)) (vec_z (box_max ob))) obstacles)))"

definition reduce_toward_zero :: "f64 \<Rightarrow> f64 \<Rightarrow> f64 \<Rightarrow> f64" where
  "reduce_toward_zero v increment threshold =
     (if f64_less_eq (f64_abs v) threshold then 0 else f64_sub v increment)"

definition EDGE_INCREMENT :: f64 where "EDGE_INCREMENT = f64_literal 5 2"

text \<open>A \<open>while\<close> loop whose condition can fail; it has no value when it does not end.\<close>

partial_function (option) loop_while ::
  "('a \<Rightarrow> 'e + bool) \<Rightarrow> ('a \<Rightarrow> 'a) \<Rightarrow> 'a \<Rightarrow> ('e + 'a) option" where
  "loop_while test step v =
     (case test v of
        Inl e \<Rightarrow> Some (Inl e)
      | Inr continue \<Rightarrow> if continue then loop_while test step (step v) else Some (Inr v))"

text \<open>After something that may not return and may fail.\<close>

definition then_on :: "('e + 'a) option \<Rightarrow> ('a \<Rightarrow> ('e + 'b) option) \<Rightarrow> ('e + 'b) option" where
  "then_on m f = (case m of None \<Rightarrow> None | Some (Inl e) \<Rightarrow> Some (Inl e) | Some (Inr v) \<Rightarrow> f v)"

definition back_off_from_edge ::
  "aabb \<Rightarrow> vec3d \<Rightarrow> loaded_chunks \<Rightarrow> dimension_geometry \<Rightarrow> block_collision_profile \<Rightarrow> (simulation_error + vec3d) option" where
  "back_off_from_edge b requested chunks geometry profile =
     (let falls = (\<lambda>x z. can_fall_at_least b x z STEP_HEIGHT chunks geometry profile);
          nonzero = (\<lambda>v. \<not> f64_equal v 0);
          dx = f64_mul (f64_signum (vec_x requested)) EDGE_INCREMENT;
          dz = f64_mul (f64_signum (vec_z requested)) EDGE_INCREMENT;
          reduce = (\<lambda>d v. reduce_toward_zero v d EDGE_INCREMENT) in
      then_on (loop_while (\<lambda>x. if nonzero x then falls x 0 else Inr False) (reduce dx) (vec_x requested)) (\<lambda>x.
      then_on (loop_while (\<lambda>z. if nonzero z then falls 0 z else Inr False) (reduce dz) (vec_z requested)) (\<lambda>z.
      then_on (loop_while (\<lambda>(x, z). if nonzero x \<and> nonzero z then falls x z else Inr False)
                 (\<lambda>(x, z). (reduce dx x, reduce dz z)) (x, z)) (\<lambda>(x, z).
      Some (Inr (vec3d_new x (vec_y requested) z))))))"

section \<open>Diagnostics\<close>

definition MAX_DIAGNOSTIC_CANDIDATES :: nat where "MAX_DIAGNOSTIC_CANDIDATES = 24"

datatype collision_shape_kind = Kind_FullCube | Kind_Boxes

record collision_candidate =
  cc_block_x :: int
  cc_block_y :: int
  cc_block_z :: int
  cc_state :: "nat option"
  cc_shape :: collision_shape_kind
  cc_approximate :: bool

record collision_diagnostics =
  cd_player_bounds :: aabb
  cd_candidates :: "collision_candidate list"
  cd_truncated :: bool

definition cell_candidate ::
  "loaded_chunks \<Rightarrow> dimension_geometry \<Rightarrow> block_collision_profile \<Rightarrow> int \<times> int \<times> int \<Rightarrow> collision_candidate option" where
  "cell_candidate chunks geometry profile cell =
     (let (x, y, z) = cell;
          state = block_state_at chunks geometry x y z;
          (shape, approximate) =
            (if y < min_y geometry then (Shape_FullCube, True)
             else if world_top geometry \<le> y then (Shape_Empty, False)
             else case state of Some s \<Rightarrow> (profile_shape profile s, is_approximate profile s) | None \<Rightarrow> (Shape_FullCube, True));
          candidate = (\<lambda>kind. Some \<lparr>cc_block_x = x, cc_block_y = y, cc_block_z = z, cc_state = state, cc_shape = kind,
                                     cc_approximate = approximate\<rparr>) in
      case shape of Shape_Empty \<Rightarrow> None | Shape_FullCube \<Rightarrow> candidate Kind_FullCube | Shape_Boxes _ \<Rightarrow> candidate Kind_Boxes)"

text \<open>The loop over the cells, which leaves off at the first candidate beyond the limit.\<close>

fun take_candidates ::
  "(int \<times> int \<times> int \<Rightarrow> collision_candidate option) \<Rightarrow> (int \<times> int \<times> int) list \<Rightarrow> collision_candidate list \<Rightarrow>
   collision_candidate list \<times> bool" where
  "take_candidates f [] candidates = (candidates, False)"
| "take_candidates f (cell # cells) candidates =
     (case f cell of
        None \<Rightarrow> take_candidates f cells candidates
      | Some c \<Rightarrow>
          if length candidates = MAX_DIAGNOSTIC_CANDIDATES then (candidates, True)
          else take_candidates f cells (candidates @ [c]))"

text \<open>The cells of an extent that is widened by \<open>e\<close> at both ends.\<close>

definition widened_range :: "f64 \<Rightarrow> f64 \<times> f64 \<Rightarrow> int \<times> int" where
  "widened_range e extent = (f64_to_i32 (f64_floor (f64_sub (fst extent) e)), f64_to_i32 (f64_floor (f64_add (snd extent) e)))"

definition collision_diagnostics_of ::
  "aabb \<Rightarrow> loaded_chunks \<Rightarrow> dimension_geometry \<Rightarrow> block_collision_profile \<Rightarrow> collision_diagnostics" where
  "collision_diagnostics_of b chunks geometry profile =
     (let eps = COLLISION_EPSILON;
          (candidates, truncated) = take_candidates (cell_candidate chunks geometry profile)
            (cells_of (widened_range eps (extent_x b)) (widened_range eps (extent_y b)) (widened_range eps (extent_z b))) [] in
      \<lparr>cd_player_bounds = b, cd_candidates = candidates, cd_truncated = truncated\<rparr>)"

end
