(* ===== verification/Collision_Props.thy ===== *)
theory Collision_Props
  imports Ieee_Rounding Player_Collision
begin

text \<open>
  Collision is sound in the arithmetic of \<open>f64\<close>: a box that is clear of all obstacles is moved, axis by axis, to a place
  where it overlaps none of them, never further than requested and never the other way.
\<close>

section \<open>Values\<close>

text \<open>A coordinate within \<open>2 ^ 26\<close> blocks of the origin, which is beyond the border of every world.\<close>

definition in_world :: "f64 \<Rightarrow> bool" where
  "in_world x \<longleftrightarrow> f64_is_finite x \<and> \<bar>f64_value x\<bar> \<le> 2 ^ 1100"

lemma in_world_finite: "in_world x \<Longrightarrow> f64_is_finite x" by (simp add: in_world_def)

lemma moderate_wide: "\<bar>s\<bar> \<le> 2 ^ 1102 \<Longrightarrow> moderate s"
proof -
  assume "\<bar>s\<bar> \<le> 2 ^ 1102"
  also have "(2::int) ^ 1102 \<le> 2 ^ 1974" by (rule power_increasing) simp_all
  finally show ?thesis by (simp only: moderate_def)
qed

lemma COLLISION_EPSILON_word: "COLLISION_EPSILON = 0x3E7AD7F29ABCAF48"
proof -
  have "fl_round Binary64 (2 ^ 76 * 2 ^ 998) (10 ^ 7) = min (fl_infinity Binary64) (998 * 2 ^ 52 + round_half_even (2 ^ 76) (10 ^ 7))"
    using round_ratio[of "10 ^ 7" Binary64 "2 ^ 76" 998] by simp
  then have "fl_round Binary64 (2 ^ 1074) (10 ^ 7) = 0x3E7AD7F29ABCAF48"
    by (simp add: fl_infinity_def round_half_even_def flip: power_add)
  then show ?thesis by (simp add: COLLISION_EPSILON_def f64_literal_def fl_pack_def)
qed

definition epsilon_value :: int where "epsilon_value = f64_value COLLISION_EPSILON"

lemma epsilon_bounds: "f64_is_finite COLLISION_EPSILON" "2 ^ 1050 \<le> epsilon_value" "epsilon_value \<le> 2 ^ 1051"
  by (simp_all add: epsilon_value_def COLLISION_EPSILON_word f64_is_finite_def fl_is_finite_def fl_abs_def fl_sign_def
      fl_infinity_def f64_value_def fl_signed_def fl_neg_def fl_units_def Let_def)

lemma f64_sub_value:
  assumes "f64_is_finite a" and "f64_is_finite b" and "moderate (f64_value a - f64_value b)"
  shows "f64_is_finite (f64_sub a b)" and "f64_value (f64_sub a b) = round64 (f64_value a - f64_value b)"
proof -
  let ?n = "of_nat (fl_opposite Binary64 (unat b)) :: f64"
  have u: "unat ?n = fl_opposite Binary64 (unat b)"
    using f64_magnitude[of b] by (intro unat_f64) (simp add: fl_opposite_def fl_pack_def fl_sign_def)
  have n: "f64_is_finite ?n" "f64_value ?n = - f64_value b"
    using assms(2) by (simp_all add: f64_finite u fl_opposite_value f64_value_def)
  have "f64_sub a b = f64_add a ?n" by (simp add: f64_sub_def f64_add_def f64_op_def fl_sub_def u)
  then show "f64_is_finite (f64_sub a b)" "f64_value (f64_sub a b) = round64 (f64_value a - f64_value b)"
    using f64_add_value[OF assms(1) n(1)] n(2) assms(3) by simp_all
qed

lemma f64_zero [simp]: "f64_is_finite 0" "f64_value 0 = 0"
  by (simp_all add: f64_is_finite_def fl_is_finite_def fl_abs_def fl_infinity_def f64_value_def fl_signed_def fl_units_def)

lemma f64_min_value:
  assumes "f64_is_finite a" and "f64_is_finite b"
  shows "f64_is_finite (f64_min a b)" and "f64_value (f64_min a b) = min (f64_value a) (f64_value b)"
  using assms by (auto simp: f64_min_def f64_not_nan f64_compare)

lemma f64_max_value:
  assumes "f64_is_finite a" and "f64_is_finite b"
  shows "f64_is_finite (f64_max a b)" and "f64_value (f64_max a b) = max (f64_value a) (f64_value b)"
  using assms by (auto simp: f64_max_def f64_not_nan f64_compare)

section \<open>One axis\<close>

text \<open>An extent of positive length, within the world.\<close>

definition proper :: "f64 \<times> f64 \<Rightarrow> bool" where
  "proper e \<longleftrightarrow> in_world (fst e) \<and> in_world (snd e) \<and> f64_value (fst e) < f64_value (snd e)"

text \<open>One extent ends before the other begins.\<close>

definition separated :: "f64 \<times> f64 \<Rightarrow> f64 \<times> f64 \<Rightarrow> bool" where
  "separated e ob \<longleftrightarrow> f64_less_eq (snd e) (fst ob) \<or> f64_less_eq (snd ob) (fst e)"

definition overlapping :: "f64 \<times> f64 \<Rightarrow> f64 \<times> f64 \<Rightarrow> bool" where
  "overlapping e ob = overlaps (fst e) (snd e) (fst ob) (snd ob)"

definition shifted :: "f64 \<Rightarrow> f64 \<times> f64 \<Rightarrow> f64 \<times> f64" where
  "shifted d e = (f64_add (fst e) d, f64_add (snd e) d)"

text \<open>Not beyond \<open>d\<close>, and not to the other side of zero.\<close>

definition within :: "f64 \<Rightarrow> f64 \<Rightarrow> bool" where
  "within d r \<longleftrightarrow> f64_is_finite r \<and> (0 \<le> f64_value r \<and> f64_value r \<le> f64_value d \<or> f64_value d \<le> f64_value r \<and> f64_value r \<le> 0)"

lemma bounded_sum: "\<bar>a\<bar> \<le> 2 ^ 1100 \<Longrightarrow> \<bar>b\<bar> \<le> 2 ^ 1100 \<Longrightarrow> moderate (a + b) \<and> moderate (a - b)" for a b :: int
proof -
  assume "\<bar>a\<bar> \<le> 2 ^ 1100" "\<bar>b\<bar> \<le> 2 ^ 1100"
  moreover have "(2::int) ^ 1100 + 2 ^ 1100 \<le> 2 ^ 1102" by simp
  ultimately have "\<bar>a + b\<bar> \<le> 2 ^ 1102" "\<bar>a - b\<bar> \<le> 2 ^ 1102" by (simp_all only: abs_le_iff) linarith+
  then show ?thesis by (blast intro: moderate_wide)
qed

lemma in_world_sum:
  assumes "in_world a" and "in_world b"
  shows "f64_is_finite (f64_add a b)" and "f64_value (f64_add a b) = round64 (f64_value a + f64_value b)"
    and "f64_is_finite (f64_sub a b)" and "f64_value (f64_sub a b) = round64 (f64_value a - f64_value b)"
  using assms bounded_sum[of "f64_value a" "f64_value b"]
  by (auto simp: in_world_def f64_add_value f64_sub_value)

lemma epsilon_pos: "0 < epsilon_value"
  using epsilon_bounds(2) by (rule less_le_trans[rotated]) simp

lemma epsilon_in_world: "in_world COLLISION_EPSILON"
proof -
  have "(2::int) ^ 1051 \<le> 2 ^ 1100" by (rule power_increasing) simp_all
  with epsilon_bounds(3) have "epsilon_value \<le> 2 ^ 1100" by (rule order_trans)
  then show ?thesis using epsilon_bounds(1) epsilon_pos by (simp add: in_world_def flip: epsilon_value_def)
qed

text \<open>What overlapping means for the values; two extents that are separated do not overlap.\<close>

lemma overlapping_value:
  assumes "f64_is_finite (fst e)" and "f64_is_finite (snd e)" and "in_world (fst ob)" and "in_world (snd ob)"
  shows "overlapping e ob \<longleftrightarrow>
    round64 (f64_value (fst ob) + epsilon_value) < f64_value (snd e) \<and>
    f64_value (fst e) < round64 (f64_value (snd ob) - epsilon_value)"
  using assms in_world_sum[OF assms(3) epsilon_in_world] in_world_sum[OF assms(4) epsilon_in_world]
  by (simp add: overlapping_def overlaps_def f64_compare epsilon_value_def)

lemma round64_above: "round64 s \<le> f64_value x" if "s \<le> f64_value x"
  using round64_mono[OF that] by simp

lemma round64_below: "f64_value x \<le> round64 s" if "f64_value x \<le> s"
  using round64_mono[OF that] by simp

text \<open>A gap between two numbers, rounded, closes it up to less than the tolerance.\<close>

lemma gap_within_tolerance:
  assumes "\<bar>m\<bar> \<le> 2 ^ 1100" and "\<bar>t\<bar> \<le> 2 ^ 1100" and "m \<le> t" and "r \<le> round64 (t - m)"
  shows "round64 (m + r) \<le> round64 (t + epsilon_value)"
proof (rule round64_mono)
  have "\<bar>t - m\<bar> \<le> 2 ^ 1101"
  proof -
    have "(2::int) ^ 1101 = 2 ^ 1100 + 2 ^ 1100" by (simp only: flip: mult_2 power_Suc) simp
    then show ?thesis using assms(1,2) by linarith
  qed
  then have "2 ^ 53 * \<bar>round64 (t - m) - (t - m)\<bar> \<le> 2 ^ 1101" using round64_near[of "t - m"] by linarith
  also have "(2::int) ^ 1101 = 2 ^ 53 * 2 ^ 1048" by (simp only: flip: power_add) simp
  finally have "\<bar>round64 (t - m) - (t - m)\<bar> \<le> 2 ^ 1048" by (simp only: mult_le_cancel_left_pos zero_less_power zero_less_numeral)
  moreover have "(2::int) ^ 1048 \<le> 2 ^ 1050" by (rule power_increasing) simp_all
  ultimately show "m + r \<le> t + epsilon_value" using assms(4) epsilon_bounds(2) by linarith
qed

lemma overlapping_not_separated:
  assumes "proper e" and "proper ob" and "overlapping e ob"
  shows "\<not> separated e ob"
proof -
  have fin: "f64_is_finite (fst e)" "f64_is_finite (snd e)" "f64_is_finite (fst ob)" "f64_is_finite (snd ob)"
    "in_world (fst ob)" "in_world (snd ob)"
    using assms(1,2) by (simp_all add: proper_def in_world_def)
  have "f64_value (fst ob) \<le> round64 (f64_value (fst ob) + epsilon_value)"
    "round64 (f64_value (snd ob) - epsilon_value) \<le> f64_value (snd ob)"
    using epsilon_pos by (simp_all add: round64_above round64_below)
  then show ?thesis using assms(3) fin by (simp add: overlapping_value separated_def f64_compare)
qed

text \<open>The loop over the obstacles keeps the sign of the displacement and closes no gap.\<close>

definition closes_no_gap :: "f64 \<times> f64 \<Rightarrow> f64 \<times> f64 \<Rightarrow> f64 \<Rightarrow> bool" where
  "closes_no_gap e ob r \<longleftrightarrow>
     (f64_value (snd e) \<le> f64_value (fst ob) \<longrightarrow> f64_value r \<le> round64 (f64_value (fst ob) - f64_value (snd e))) \<and>
     (f64_value (snd ob) \<le> f64_value (fst e) \<longrightarrow> round64 (f64_value (snd ob) - f64_value (fst e)) \<le> f64_value r)"

lemma limit_delta_step:
  assumes "proper e" and "proper ob" and "separated e ob" and "f64_is_finite d"
  shows "within d (limit_delta e ob d) \<and> closes_no_gap e ob (limit_delta e ob d)"
proof -
  obtain lo hi olo ohi where e: "e = (lo, hi)" "ob = (olo, ohi)" by (cases e, cases ob)
  have w: "in_world lo" "in_world hi" "in_world olo" "in_world ohi" and
    less: "f64_value lo < f64_value hi" "f64_value olo < f64_value ohi"
    using assms(1,2) by (simp_all add: e proper_def)
  have fin: "f64_is_finite lo" "f64_is_finite hi" "f64_is_finite olo" "f64_is_finite ohi" using w by (simp_all add: in_world_def)
  note sums = in_world_sum[OF w(3) epsilon_in_world] in_world_sum[OF w(4) epsilon_in_world]
    in_world_sum[OF w(3) w(2)] in_world_sum[OF w(4) w(1)]
  define ahead where "ahead = round64 (f64_value olo - f64_value hi)"
  define behind where "behind = round64 (f64_value ohi - f64_value lo)"
  have tol: "f64_value olo \<le> round64 (f64_value olo + epsilon_value)" "round64 (f64_value ohi - epsilon_value) \<le> f64_value ohi"
    using epsilon_pos by (simp_all add: round64_above round64_below)
  have cmp: "f64_less 0 d \<longleftrightarrow> 0 < f64_value d" "f64_less d 0 \<longleftrightarrow> f64_value d < 0"
    using assms(4) by (simp_all add: f64_compare)
  have sep: "f64_value hi \<le> f64_value olo \<or> f64_value ohi \<le> f64_value lo"
    using assms(3) fin by (simp add: separated_def e f64_compare)
  then show ?thesis
  proof
    assume s: "f64_value hi \<le> f64_value olo"
    then have "0 \<le> ahead" by (simp add: ahead_def round64_sign)
    moreover have "f64_less_eq hi (f64_add olo COLLISION_EPSILON)" "f64_less lo olo" "\<not> f64_less ohi hi"
      using s less tol sums fin by (simp_all add: f64_compare flip: epsilon_value_def)
    ultimately show ?thesis
      using s less assms(4) f64_min_value[OF assms(4) sums(11)] sums(12)
      by (auto simp: limit_delta_def e cmp within_def closes_no_gap_def simp flip: ahead_def)
  next
    assume s: "f64_value ohi \<le> f64_value lo"
    then have "behind \<le> 0" by (simp add: behind_def round64_sign)
    moreover have "f64_less_eq (f64_sub ohi COLLISION_EPSILON) lo" "f64_less ohi hi" "\<not> f64_less lo olo"
      using s less tol sums fin by (simp_all add: f64_compare flip: epsilon_value_def)
    ultimately show ?thesis
      using s less assms(4) f64_max_value[OF assms(4) sums(15)] sums(16)
      by (auto simp: limit_delta_def e cmp within_def closes_no_gap_def simp flip: behind_def)
  qed
qed

lemma within_trans: "within d r \<Longrightarrow> within r r' \<Longrightarrow> within d r'"
  by (auto simp: within_def)

lemma closes_no_gap_within:
  assumes "closes_no_gap e ob d" and "within d r"
  shows "closes_no_gap e ob r"
proof -
  have "f64_value (snd e) \<le> f64_value (fst ob) \<Longrightarrow> 0 \<le> round64 (f64_value (fst ob) - f64_value (snd e))"
    "f64_value (snd ob) \<le> f64_value (fst e) \<Longrightarrow> round64 (f64_value (snd ob) - f64_value (fst e)) \<le> 0"
    by (simp_all add: round64_sign)
  then show ?thesis using assms by (auto simp: closes_no_gap_def within_def)
qed

lemma resolve_axis_closes_no_gap:
  assumes "proper e" and "\<forall>ob \<in> set obs. proper ob \<and> separated e ob" and "f64_is_finite d"
  shows "within d (resolve_axis e d obs) \<and> (\<forall>ob \<in> set obs. closes_no_gap e ob (resolve_axis e d obs))"
  using assms(2,3)
proof (induction obs arbitrary: d)
  case Nil
  then show ?case by (auto simp: resolve_axis_def within_def)
next
  case (Cons ob obs)
  let ?d = "limit_delta e ob d"
  have one: "within d ?d \<and> closes_no_gap e ob ?d" using limit_delta_step[OF assms(1)] Cons.prems by simp
  then have "f64_is_finite ?d" by (simp add: within_def)
  with Cons have rest: "within ?d (resolve_axis e ?d obs) \<and> (\<forall>ob \<in> set obs. closes_no_gap e ob (resolve_axis e ?d obs))" by simp
  have "resolve_axis e d (ob # obs) = resolve_axis e ?d obs" by (simp add: resolve_axis_def)
  moreover have "closes_no_gap e ob (resolve_axis e ?d obs)" using one rest closes_no_gap_within by blast
  moreover have "within d (resolve_axis e ?d obs)" using one rest within_trans by blast
  ultimately show ?case using rest by simp
qed

text \<open>The same numbers, up to the sign of zero.\<close>

definition same :: "f64 \<times> f64 \<Rightarrow> f64 \<times> f64 \<Rightarrow> bool" where
  "same e e' \<longleftrightarrow> f64_is_finite (fst e) \<and> f64_is_finite (snd e) \<and> f64_is_finite (fst e') \<and> f64_is_finite (snd e') \<and>
     f64_value (fst e) = f64_value (fst e') \<and> f64_value (snd e) = f64_value (snd e')"

lemma round64_double: "\<bar>round64 s\<bar> \<le> 2 * \<bar>s\<bar>"
proof -
  have "\<bar>round64 s - s\<bar> \<le> 2 ^ 53 * \<bar>round64 s - s\<bar>" by simp
  also have "\<dots> \<le> \<bar>s\<bar>" by (rule round64_near)
  finally show ?thesis by linarith
qed

lemma add_zero: "f64_is_finite x \<Longrightarrow> \<bar>f64_value x\<bar> \<le> 2 ^ 1102 \<Longrightarrow> f64_is_finite (f64_add x 0) \<and> f64_value (f64_add x 0) = f64_value x"
  using f64_add_value[of x 0] moderate_wide[of "f64_value x"] by simp

lemma in_world_small: "in_world x \<Longrightarrow> \<bar>f64_value x\<bar> \<le> 2 ^ 1102"
proof -
  have "(2::int) ^ 1100 \<le> 2 ^ 1102" by (rule power_increasing) simp_all
  then show "in_world x \<Longrightarrow> ?thesis" unfolding in_world_def by (elim conjE) (rule order_trans)
qed

lemma shifted_value:
  assumes "proper e" and "in_world r"
  shows "f64_is_finite (fst (shifted r e))" "f64_is_finite (snd (shifted r e))"
    "f64_value (fst (shifted r e)) = round64 (f64_value (fst e) + f64_value r)"
    "f64_value (snd (shifted r e)) = round64 (f64_value (snd e) + f64_value r)"
  using assms in_world_sum[of "fst e" r] in_world_sum[of "snd e" r] by (simp_all add: shifted_def proper_def)

lemma sum_small:
  assumes "\<bar>a\<bar> \<le> 2 ^ 1100" and "\<bar>b\<bar> \<le> 2 ^ 1100"
  shows "\<bar>round64 (a + b)\<bar> \<le> 2 ^ 1102"
proof -
  define p :: int where "p = 2 ^ 1100"
  have "\<bar>a + b\<bar> \<le> 2 * p" using assms by (simp only: flip: p_def)
  then have "2 * \<bar>a + b\<bar> \<le> 2 * (2 * p)" by (rule mult_left_mono) simp
  with round64_double[of "a + b"] have "\<bar>round64 (a + b)\<bar> \<le> 2 * (2 * p)" by (rule order_trans)
  also have "2 * (2 * p) = 4 * p" by simp
  also have "4 * p = 2 ^ 1102" by (simp add: p_def)
  finally show ?thesis .
qed

lemma same_shifted_zero: "proper e \<Longrightarrow> same e (shifted 0 e)"
  using add_zero[of "fst e"] add_zero[of "snd e"] in_world_small[of "fst e"] in_world_small[of "snd e"]
  by (simp add: same_def shifted_def proper_def in_world_finite)

lemma same_shifted_again: "proper e \<Longrightarrow> in_world r \<Longrightarrow> same (shifted r e) (shifted 0 (shifted r e))"
  using shifted_value[of e r] add_zero[of "fst (shifted r e)"] add_zero[of "snd (shifted r e)"]
    sum_small[of "f64_value (fst e)" "f64_value r"] sum_small[of "f64_value (snd e)" "f64_value r"]
  by (simp add: same_def shifted_def[of 0] proper_def in_world_def)

lemma same_trans: "same e e' \<Longrightarrow> same e' e'' \<Longrightarrow> same e e''"
  by (simp add: same_def)

lemma overlapping_same: "same e e' \<Longrightarrow> proper ob \<Longrightarrow> overlapping e ob \<longleftrightarrow> overlapping e' ob"
  by (simp add: same_def proper_def overlapping_value)

lemma proper_same: "same e e' \<Longrightarrow> proper e \<Longrightarrow> proper e'"
  by (simp add: same_def proper_def in_world_def)

lemma separated_same: "same e e' \<Longrightarrow> proper ob \<Longrightarrow> separated e ob \<longleftrightarrow> separated e' ob"
  by (simp add: same_def proper_def separated_def f64_compare in_world_def)

lemma shifted_same: "same e e' \<Longrightarrow> proper e \<Longrightarrow> in_world r \<Longrightarrow> same (shifted r e) (shifted r e')"
  using shifted_value[of e r] shifted_value[of e' r] proper_same[of e e'] by (simp add: same_def)

lemma shifted_clear:
  assumes "proper e" and "proper ob" and "separated e ob" and "in_world r" and "closes_no_gap e ob r"
  shows "\<not> overlapping (shifted r e) ob"
proof -
  have w: "\<bar>f64_value (fst e)\<bar> \<le> 2 ^ 1100" "\<bar>f64_value (snd e)\<bar> \<le> 2 ^ 1100" "\<bar>f64_value (fst ob)\<bar> \<le> 2 ^ 1100"
    "\<bar>f64_value (snd ob)\<bar> \<le> 2 ^ 1100" using assms(1,2) by (simp_all add: proper_def in_world_def)
  have ov: "overlapping (shifted r e) ob \<longleftrightarrow>
      round64 (f64_value (fst ob) + epsilon_value) < round64 (f64_value (snd e) + f64_value r) \<and>
      round64 (f64_value (fst e) + f64_value r) < round64 (f64_value (snd ob) - epsilon_value)"
    using shifted_value[OF assms(1,4)] assms(2) by (simp add: overlapping_value proper_def)
  have "f64_value (snd e) \<le> f64_value (fst ob) \<or> f64_value (snd ob) \<le> f64_value (fst e)"
    using assms(1,2,3) by (simp add: separated_def proper_def in_world_def f64_compare)
  then show ?thesis
  proof
    assume "f64_value (snd e) \<le> f64_value (fst ob)"
    then show ?thesis
      using gap_within_tolerance[OF w(2) w(3), of "f64_value r"] assms(5) ov by (simp add: closes_no_gap_def)
  next
    assume s: "f64_value (snd ob) \<le> f64_value (fst e)"
    have "- f64_value r \<le> round64 (- f64_value (snd ob) - - f64_value (fst e))"
      using s assms(5) round64_minus[of "f64_value (snd ob) - f64_value (fst e)"] by (simp add: closes_no_gap_def)
    then have "round64 (- f64_value (fst e) + - f64_value r) \<le> round64 (- f64_value (snd ob) + epsilon_value)"
      using gap_within_tolerance[of "- f64_value (fst e)" "- f64_value (snd ob)" "- f64_value r"] w s by simp
    then have "round64 (f64_value (snd ob) - epsilon_value) \<le> round64 (f64_value (fst e) + f64_value r)"
      using round64_minus[of "f64_value (fst e) + f64_value r"] round64_minus[of "f64_value (snd ob) - epsilon_value"] by simp
    then show ?thesis using ov by simp
  qed
qed

lemma within_in_world: "in_world d \<Longrightarrow> within d r \<Longrightarrow> in_world r"
  by (auto simp: within_def in_world_def)

lemma resolve_stage:
  assumes "proper e" and "same e e'" and "in_world d" and "\<forall>ob \<in> set obs. proper ob \<and> separated e ob"
  shows "within d (resolve_axis e' d obs)" and "\<forall>ob \<in> set obs. \<not> overlapping (shifted (resolve_axis e' d obs) e) ob"
proof -
  have e': "proper e'" "\<forall>ob \<in> set obs. proper ob \<and> separated e' ob"
    using assms(4) proper_same[OF assms(2,1)] separated_same[OF assms(2)] by auto
  have r: "within d (resolve_axis e' d obs) \<and> (\<forall>ob \<in> set obs. closes_no_gap e' ob (resolve_axis e' d obs))"
    using resolve_axis_closes_no_gap[OF e'] assms(3) by (simp add: in_world_def)
  then show "within d (resolve_axis e' d obs)" by blast
  have w: "in_world (resolve_axis e' d obs)" using r within_in_world[OF assms(3)] by blast
  show "\<forall>ob \<in> set obs. \<not> overlapping (shifted (resolve_axis e' d obs) e) ob"
    using shifted_clear[OF e'(1) _ _ w] e'(2) r overlapping_same[OF shifted_same[OF assms(2,1) w]] by auto
qed

section \<open>Three axes\<close>

text \<open>
  How a box lies to an obstacle before it moves: on every axis it ends before the obstacle or overlaps it by more than the
  tolerance, and on some axis it ends before it.
\<close>

definition proper_box :: "aabb \<Rightarrow> bool" where
  "proper_box b \<longleftrightarrow> proper (extent_x b) \<and> proper (extent_y b) \<and> proper (extent_z b)"

definition crisp_to :: "aabb \<Rightarrow> aabb \<Rightarrow> bool" where
  "crisp_to b ob \<longleftrightarrow>
     (separated (extent_x b) (extent_x ob) \<or> overlaps_x b ob) \<and>
     (separated (extent_y b) (extent_y ob) \<or> overlaps_y b ob) \<and>
     (separated (extent_z b) (extent_z ob) \<or> overlaps_z b ob)"

definition clear_of :: "aabb \<Rightarrow> aabb \<Rightarrow> bool" where
  "clear_of b ob \<longleftrightarrow>
     separated (extent_x b) (extent_x ob) \<or> separated (extent_y b) (extent_y ob) \<or> separated (extent_z b) (extent_z ob)"

lemma resolve_stages:
  fixes a1 a2 a3 :: "aabb \<Rightarrow> f64 \<times> f64" and obs :: "aabb list"
  assumes box: "proper (a1 b)" "proper (a2 b)" "proper (a3 b)"
    and obstacles: "\<forall>ob \<in> set obs. proper (a1 ob) \<and> proper (a2 ob) \<and> proper (a3 ob)"
    and crisp: "\<forall>ob \<in> set obs. (separated (a1 b) (a1 ob) \<or> overlapping (a1 b) (a1 ob)) \<and>
      (separated (a2 b) (a2 ob) \<or> overlapping (a2 b) (a2 ob)) \<and> (separated (a3 b) (a3 ob) \<or> overlapping (a3 b) (a3 ob))"
    and clear: "\<forall>ob \<in> set obs. separated (a1 b) (a1 ob) \<or> separated (a2 b) (a2 ob) \<or> separated (a3 b) (a3 ob)"
    and world: "in_world d1" "in_world d2" "in_world d3"
    and e: "same (a1 b) e1" "same (a2 b) e2" "same (a3 b) e3"
    and r1: "r1 = resolve_axis e1 d1 (map a1 (filter P1 obs))"
    and P1: "\<forall>ob \<in> set obs. P1 ob \<longleftrightarrow> overlapping (a2 b) (a2 ob) \<and> overlapping (a3 b) (a3 ob)"
    and r2: "r2 = resolve_axis e2 d2 (map a2 (filter P2 obs))"
    and P2: "in_world r1 \<Longrightarrow> \<forall>ob \<in> set obs. P2 ob \<longleftrightarrow> overlapping (shifted r1 (a1 b)) (a1 ob) \<and> overlapping (a3 b) (a3 ob)"
    and r3: "r3 = resolve_axis e3 d3 (map a3 (filter P3 obs))"
    and P3: "in_world r1 \<Longrightarrow> in_world r2 \<Longrightarrow> \<forall>ob \<in> set obs. P3 ob \<longleftrightarrow> overlapping (shifted r1 (a1 b)) (a1 ob) \<and> overlapping (shifted r2 (a2 b)) (a2 ob)"
  shows "within d1 r1" "within d2 r2" "within d3 r3"
    "\<forall>ob \<in> set obs. \<not> (overlapping (shifted r1 (a1 b)) (a1 ob) \<and> overlapping (shifted r2 (a2 b)) (a2 ob) \<and>
      overlapping (shifted r3 (a3 b)) (a3 ob))"
proof -
  have apart: "\<not> overlapping (a1 b) (a1 ob) \<or> \<not> overlapping (a2 b) (a2 ob) \<or> \<not> overlapping (a3 b) (a3 ob)" if "ob \<in> set obs" for ob
    using that clear obstacles box overlapping_not_separated by blast
  have "\<forall>x \<in> set (map a1 (filter P1 obs)). proper x \<and> separated (a1 b) x"
    using obstacles crisp P1 apart by auto
  note s1 = resolve_stage[OF box(1) e(1) world(1) this, folded r1]
  have w1: "in_world r1" using within_in_world[OF world(1) s1(1)] .
  have clear1: "\<not> overlapping (shifted r1 (a1 b)) (a1 ob)" if "ob \<in> set obs" "overlapping (a2 b) (a2 ob)" "overlapping (a3 b) (a3 ob)" for ob
    using s1(2) that P1 by simp
  have "\<forall>x \<in> set (map a2 (filter P2 obs)). proper x \<and> separated (a2 b) x"
    using obstacles crisp P2[OF w1] clear1 by auto
  note s2 = resolve_stage[OF box(2) e(2) world(2) this, folded r2]
  have w2: "in_world r2" using within_in_world[OF world(2) s2(1)] .
  have clear2: "\<not> overlapping (shifted r2 (a2 b)) (a2 ob)"
    if "ob \<in> set obs" "overlapping (shifted r1 (a1 b)) (a1 ob)" "overlapping (a3 b) (a3 ob)" for ob
    using s2(2) that P2[OF w1] by simp
  have "\<forall>x \<in> set (map a3 (filter P3 obs)). proper x \<and> separated (a3 b) x"
    using obstacles crisp P3[OF w1 w2] clear2 by auto
  note s3 = resolve_stage[OF box(3) e(3) world(3) this, folded r3]
  show "within d1 r1" "within d2 r2" "within d3 r3" by (fact s1(1) s2(1) s3(1))+
  show "\<forall>ob \<in> set obs. \<not> (overlapping (shifted r1 (a1 b)) (a1 ob) \<and> overlapping (shifted r2 (a2 b)) (a2 ob) \<and>
      overlapping (shifted r3 (a3 b)) (a3 ob))"
    using s3(2) P3[OF w1 w2] by simp
qed

lemma overlaps_extents:
  "overlaps_x b ob = overlapping (extent_x b) (extent_x ob)" "overlaps_y b ob = overlapping (extent_y b) (extent_y ob)"
  "overlaps_z b ob = overlapping (extent_z b) (extent_z ob)"
  by (simp_all add: overlaps_x_def overlaps_y_def overlaps_z_def overlapping_def extent_x_def extent_y_def extent_z_def)

lemma extents_moved:
  "extent_x (moved v b) = shifted (vec_x v) (extent_x b)" "extent_y (moved v b) = shifted (vec_y v) (extent_y b)"
  "extent_z (moved v b) = shifted (vec_z v) (extent_z b)"
  by (simp_all add: moved_def translated_def extent_x_def extent_y_def extent_z_def shifted_def aabb_new_def vec3d_new_def)

lemma same_refl: "proper e \<Longrightarrow> same e e"
  by (simp add: same_def proper_def in_world_def)

text \<open>A box after two moves, of which this axis takes part in one.\<close>

lemma overlapping_moved_twice:
  assumes "proper e" and "in_world r" and "proper ob"
  shows "overlapping (shifted 0 (shifted r e)) ob \<longleftrightarrow> overlapping (shifted r e) ob"
    and "overlapping (shifted r (shifted 0 e)) ob \<longleftrightarrow> overlapping (shifted r e) ob"
    and "overlapping (shifted 0 e) ob \<longleftrightarrow> overlapping e ob"
    and "overlapping (shifted 0 (shifted 0 e)) ob \<longleftrightarrow> overlapping e ob"
  using overlapping_same[OF same_shifted_again[OF assms(1,2)] assms(3)]
    overlapping_same[OF shifted_same[OF same_shifted_zero[OF assms(1)] assms(1,2)] assms(3)]
    overlapping_same[OF same_shifted_zero[OF assms(1)] assms(3)]
    overlapping_same[OF same_trans[OF same_shifted_zero[OF assms(1)]
      same_shifted_zero[OF proper_same[OF same_shifted_zero[OF assms(1)] assms(1)]]] assms(3)]
  by simp_all

lemma same_shifted_zero_twice: "proper e \<Longrightarrow> same e (shifted 0 (shifted 0 e))"
  using same_trans same_shifted_zero proper_same by blast

lemma resolve_axes_sound:
  assumes b: "proper_box b" and obs: "\<forall>ob \<in> set obs. proper_box ob \<and> crisp_to b ob \<and> clear_of b ob"
    and d: "in_world (vec_x d)" "in_world (vec_y d)" "in_world (vec_z d)"
  shows "within (vec_x d) (vec_x (resolve_axes b d obs)) \<and> within (vec_y d) (vec_y (resolve_axes b d obs)) \<and>
    within (vec_z d) (vec_z (resolve_axes b d obs)) \<and> (\<forall>ob \<in> set obs. \<not> aabbs_overlap (moved (resolve_axes b d obs) b) ob)"
proof -
  let ?x = "extent_x b" and ?y = "extent_y b" and ?z = "extent_z b"
  have p: "proper ?x" "proper ?y" "proper ?z" using b by (simp_all add: proper_box_def)
  have o: "proper (extent_x ob)" "proper (extent_y ob)" "proper (extent_z ob)" if "ob \<in> set obs" for ob
    using obs that by (simp_all add: proper_box_def)
  note extents = extents_moved vec3d_new_def select_convs
  define y where "y = resolve_y b (vec_y d) obs"
  let ?b1 = "moved (vec3d_new 0 y 0) b"
  note twice = overlapping_moved_twice
  show ?thesis
  proof (cases "f64_less_eq (f64_abs (vec_z d)) (f64_abs (vec_x d))")
    case True
    define x where "x = resolve_x ?b1 (vec_x d) obs"
    let ?b2 = "moved (vec3d_new x 0 0) ?b1"
    define z where "z = resolve_z ?b2 (vec_z d) obs"
    have r: "resolve_axes b d obs = vec3d_new x y z"
      using True by (simp add: resolve_axes_def resolve_horizontal_def Let_def x_def z_def y_def)
    have "within (vec_y d) y" "within (vec_x d) x" "within (vec_z d) z"
      "\<forall>ob \<in> set obs. \<not> (overlapping (shifted y ?y) (extent_y ob) \<and> overlapping (shifted x ?x) (extent_x ob) \<and>
        overlapping (shifted z ?z) (extent_z ob))"
      by (rule resolve_stages[of extent_y b extent_x extent_z obs "vec_y d" "vec_x d" "vec_z d" ?y "extent_x ?b1" "extent_z ?b2"
            y "overlaps_xz b" x "overlaps_yz ?b1" z "overlaps_xy ?b2"];
          use p o obs d same_refl[OF p(2)] same_shifted_zero[OF p(1)] same_shifted_zero_twice[OF p(3)] twice in
            \<open>auto simp: y_def x_def z_def resolve_y_def resolve_x_def resolve_z_def overlaps_xz_def overlaps_yz_def
              overlaps_xy_def overlaps_extents extents crisp_to_def clear_of_def\<close>)+
    then show ?thesis by (auto simp: r aabbs_overlap_def overlaps_extents extents)
  next
    case False
    define z where "z = resolve_z ?b1 (vec_z d) obs"
    let ?b2 = "moved (vec3d_new 0 0 z) ?b1"
    define x where "x = resolve_x ?b2 (vec_x d) obs"
    have r: "resolve_axes b d obs = vec3d_new x y z"
      using False by (simp add: resolve_axes_def resolve_horizontal_def Let_def x_def z_def y_def)
    have "within (vec_y d) y" "within (vec_z d) z" "within (vec_x d) x"
      "\<forall>ob \<in> set obs. \<not> (overlapping (shifted y ?y) (extent_y ob) \<and> overlapping (shifted z ?z) (extent_z ob) \<and>
        overlapping (shifted x ?x) (extent_x ob))"
      by (rule resolve_stages[of extent_y b extent_z extent_x obs "vec_y d" "vec_z d" "vec_x d" ?y "extent_z ?b1" "extent_x ?b2"
            y "overlaps_xz b" z "overlaps_xy ?b1" x "overlaps_yz ?b2"];
          use p o obs d same_refl[OF p(2)] same_shifted_zero[OF p(3)] same_shifted_zero_twice[OF p(1)] twice in
            \<open>auto simp: y_def x_def z_def resolve_y_def resolve_x_def resolve_z_def overlaps_xz_def overlaps_yz_def
              overlaps_xy_def overlaps_extents extents crisp_to_def clear_of_def\<close>)+
    then show ?thesis by (auto simp: r aabbs_overlap_def overlaps_extents extents)
  qed
qed

section \<open>Products and literals\<close>

lemma round_cancel: "0 < d \<Longrightarrow> fl_round F (u * d) d = fl_round F u 1"
  using round_half_even_scale[of d u] by (simp add: fl_round_def Let_def mult.commute[of d])

lemma fl_round_wide_Suc: "fl_round F n (Suc 0) = min (fl_infinity F) (round_wide F n)"
  using fl_round_wide by simp

lemma one_word: "unat (f64_of_int 1) = 0x3FF0000000000000" and minus_one_word: "unat (f64_of_int (- 1)) = 0xBFF0000000000000"
proof -
  have "bit_length (2 ^ 1074) = Suc 1074" by (rule bit_length_unique) simp_all
  then have "round_wide Binary64 (2 ^ 1074) = 0x3FF0000000000000"
    by (simp add: round_wide_def round_exponent_def round_half_even_def)
  then have r: "fl_round Binary64 (2 ^ 1074) 1 = 0x3FF0000000000000" by (simp add: fl_round_wide_Suc fl_infinity_def)
  have n: "nat \<bar>2 ^ 1074\<bar> = 2 ^ 1074" "nat \<bar>- (2 ^ 1074)\<bar> = 2 ^ 1074" by (simp_all add: nat_power_eq)
  show "unat (f64_of_int 1) = 0x3FF0000000000000"
    using r n by (simp only: f64_of_int_def fl_of_int_def fl_of_signed_def unit_exponent.simps mult_1) (simp add: fl_pack_def)
  show "unat (f64_of_int (- 1)) = 0xBFF0000000000000"
    using r n by (simp only: f64_of_int_def fl_of_int_def fl_of_signed_def unit_exponent.simps mult_minus1)
      (simp add: fl_pack_def fl_sign_def)
qed

lemma f64_mul_one:
  assumes "f64_is_finite x"
  shows "f64_is_finite (f64_mul (f64_of_int 1) x)" "f64_value (f64_mul (f64_of_int 1) x) = f64_value x"
    "f64_is_finite (f64_mul (f64_of_int (- 1)) x)" "f64_value (f64_mul (f64_of_int (- 1)) x) = - f64_value x"
proof -
  let ?m = "fl_abs Binary64 (unat x)"
  have m: "?m < fl_infinity Binary64" using assms by (simp add: f64_finite)
  have r: "fl_round Binary64 (2 ^ 1074 * fl_units Binary64 (unat x)) (2 ^ 1074) = ?m"
    using round_cancel[of "2 ^ 1074" Binary64 "fl_units Binary64 (unat x)"] m
    by (simp add: mult.commute fl_round_wide_Suc fl_units_magnitude round_wide_units)
  have one: "fl_units Binary64 0x3FF0000000000000 = 2 ^ 1074" "fl_units Binary64 0xBFF0000000000000 = 2 ^ 1074"
    by (simp_all add: fl_units_def fl_abs_def fl_sign_def)
  have special: "\<not> fl_is_nan Binary64 0x3FF0000000000000" "\<not> fl_is_infinite Binary64 0x3FF0000000000000"
    "\<not> fl_is_nan Binary64 0xBFF0000000000000" "\<not> fl_is_infinite Binary64 0xBFF0000000000000"
    "\<not> fl_neg Binary64 0x3FF0000000000000" "fl_neg Binary64 0xBFF0000000000000"
    by (simp_all add: fl_is_nan_def fl_is_infinite_def fl_infinity_def fl_abs_def fl_sign_def fl_neg_def)
  have "f64_mul (f64_of_int 1) x = of_nat (fl_pack Binary64 (fl_neg Binary64 (unat x)) ?m)"
    "f64_mul (f64_of_int (- 1)) x = of_nat (fl_pack Binary64 (\<not> fl_neg Binary64 (unat x)) ?m)"
    using f64_not_nan[OF assms]
    by (simp_all only: f64_mul_def f64_op_def fl_mul_def one_word minus_one_word special one unit_exponent.simps r if_False simp_thms)
  then show "f64_is_finite (f64_mul (f64_of_int 1) x)" "f64_value (f64_mul (f64_of_int 1) x) = f64_value x"
    "f64_is_finite (f64_mul (f64_of_int (- 1)) x)" "f64_value (f64_mul (f64_of_int (- 1)) x) = - f64_value x"
    using packed[OF m] by (simp_all add: f64_value_def[of x] fl_signed_def fl_units_magnitude)
qed

lemma f64_signum_value:
  assumes "f64_is_finite x" and "f64_is_finite y"
  shows "f64_is_finite (f64_mul (f64_signum x) y) \<and>
    f64_value (f64_mul (f64_signum x) y) = (if fl_neg Binary64 (unat x) then - f64_value y else f64_value y)"
  using f64_mul_one[OF assms(2)] f64_not_nan[OF assms(1)] by (simp add: f64_signum_def)

lemma f64_value_sign: "fl_neg Binary64 (unat x) \<Longrightarrow> f64_value x \<le> 0" "\<not> fl_neg Binary64 (unat x) \<Longrightarrow> 0 \<le> f64_value x"
  by (simp_all add: f64_value_def fl_signed_def)

lemma f64_abs_value:
  assumes "f64_is_finite x"
  shows "f64_is_finite (f64_abs x)" and "f64_value (f64_abs x) = \<bar>f64_value x\<bar>"
proof -
  have "f64_abs x = of_nat (fl_pack Binary64 False (fl_abs Binary64 (unat x)))" by (simp add: f64_abs_def fl_pack_def)
  then show "f64_is_finite (f64_abs x)" "f64_value (f64_abs x) = \<bar>f64_value x\<bar>"
    using packed[of "fl_abs Binary64 (unat x)" False] assms
    by (simp_all add: f64_finite f64_value_def[of x] fl_signed_def fl_units_magnitude)
qed

section \<open>The guard of edges returns\<close>

lemma EDGE_INCREMENT_word: "EDGE_INCREMENT = 0x3FA999999999999A"
proof -
  have "fl_round Binary64 (5 * 2 ^ 57 * 2 ^ 1017) (10 ^ 2) = min (fl_infinity Binary64) (1017 * 2 ^ 52 + round_half_even (5 * 2 ^ 57) (10 ^ 2))"
    using round_ratio[of "10 ^ 2" Binary64 "5 * 2 ^ 57" 1017] by simp
  moreover have "(5::nat) * 2 ^ 57 * 2 ^ 1017 = 5 * 2 ^ 1074" by (simp only: mult.assoc flip: power_add) simp
  ultimately have "fl_round Binary64 (5 * 2 ^ 1074) (10 ^ 2) = 0x3FA999999999999A"
    by (simp only:) (simp add: fl_infinity_def round_half_even_def)
  then show ?thesis by (simp add: EDGE_INCREMENT_def f64_literal_def fl_pack_def)
qed

lemma EDGE_INCREMENT_bounds:
  "f64_is_finite EDGE_INCREMENT" "2 ^ 1069 \<le> f64_value EDGE_INCREMENT" "f64_value EDGE_INCREMENT \<le> 2 ^ 1070"
  by (simp_all add: EDGE_INCREMENT_word f64_is_finite_def fl_is_finite_def fl_abs_def fl_sign_def fl_infinity_def
      f64_value_def fl_signed_def fl_neg_def fl_units_def Let_def)

text \<open>A loop whose test succeeds only where a measure falls returns.\<close>

lemma loop_while_returns:
  fixes measure :: "'a \<Rightarrow> nat"
  assumes "good v" and "\<And>v. good v \<Longrightarrow> test v = Inr True \<Longrightarrow> good (step v) \<and> measure (step v) < measure v"
  shows "\<exists>r. loop_while test step v = Some r \<and> (\<forall>w. r = Inr w \<longrightarrow> good w)"
  using assms(1)
proof (induction "measure v" arbitrary: v rule: less_induct)
  case less
  show ?case
  proof (cases "test v = Inr True")
    case True
    then have "\<exists>r. loop_while test step (step v) = Some r \<and> (\<forall>w. r = Inr w \<longrightarrow> good w)"
      using less assms(2)[OF less.prems True] by blast
    then show ?thesis using True by (simp add: loop_while.simps[of test step v])
  next
    case False
    then show ?thesis using less.prems by (subst loop_while.simps) (auto split: sum.splits)
  qed
qed

text \<open>A displacement of at most \<open>2 ^ 20\<close> blocks on the side of zero that the sign of \<open>x\<close> names.\<close>

definition reducible :: "f64 \<Rightarrow> f64 \<Rightarrow> bool" where
  "reducible x v \<longleftrightarrow> f64_is_finite v \<and> \<bar>f64_value v\<bar> \<le> 2 ^ 1094 \<and>
     (if fl_neg Binary64 (unat x) then f64_value v \<le> 0 else 0 \<le> f64_value v)"

lemma reduction_strict:
  assumes "i < v" and "v \<le> 2 ^ 1094" and "2 ^ 1069 \<le> i"
  shows "0 \<le> round64 (v - i) \<and> round64 (v - i) < v"
proof -
  have "2 ^ 53 * \<bar>round64 (v - i) - (v - i)\<bar> \<le> \<bar>v - i\<bar>" by (rule round64_near)
  also have pos: "0 < i" using assms(3) by (rule less_le_trans[rotated]) simp
  then have "\<bar>v - i\<bar> \<le> 2 ^ 1094" using assms(1,2) by linarith
  also have "(2::int) ^ 1094 = 2 ^ 53 * 2 ^ 1041" by (simp only: flip: power_add) simp
  finally have "\<bar>round64 (v - i) - (v - i)\<bar> \<le> 2 ^ 1041" by (simp only: mult_le_cancel_left_pos zero_less_power zero_less_numeral)
  also have "(2::int) ^ 1041 < 2 ^ 1069" by (rule power_strict_increasing) simp_all
  finally have "\<bar>round64 (v - i) - (v - i)\<bar> < i" using assms(3) by (rule less_le_trans)
  then show ?thesis using assms(1) round64_sign(1)[of "v - i"] by linarith
qed

lemma reduce_reducible:
  assumes "f64_is_finite x" and "reducible x v" and "\<not> f64_equal v 0"
  defines "r \<equiv> reduce_toward_zero v (f64_mul (f64_signum x) EDGE_INCREMENT) EDGE_INCREMENT"
  shows "reducible x r \<and> nat \<bar>f64_value r\<bar> < nat \<bar>f64_value v\<bar>"
proof -
  let ?i = "f64_value EDGE_INCREMENT" and ?d = "f64_mul (f64_signum x) EDGE_INCREMENT"
  have v: "f64_is_finite v" "\<bar>f64_value v\<bar> \<le> 2 ^ 1094" "f64_value v \<noteq> 0"
    using assms(2,3) by (simp_all add: reducible_def f64_compare)
  note inc = f64_signum_value[OF assms(1) EDGE_INCREMENT_bounds(1)]
  note small = f64_compare(2)[OF f64_abs_value(1)[OF v(1)] EDGE_INCREMENT_bounds(1)]
  show ?thesis
  proof (cases "\<bar>f64_value v\<bar> \<le> ?i")
    case True
    then have "r = 0" using small v(1) by (simp add: r_def reduce_toward_zero_def f64_abs_value)
    then show ?thesis using v(3) by (simp add: reducible_def)
  next
    case False
    then have r: "r = f64_sub v ?d" using small v(1) by (simp add: r_def reduce_toward_zero_def f64_abs_value)
    have "(2::int) ^ 1070 \<le> 2 ^ 1100" "(2::int) ^ 1094 \<le> 2 ^ 1100" by (rule power_increasing; simp)+
    then have b: "\<bar>?i\<bar> \<le> 2 ^ 1100" "\<bar>f64_value v\<bar> \<le> 2 ^ 1100"
      using EDGE_INCREMENT_bounds(2,3) v(2) by (auto intro: order_trans)
    have i: "2 ^ 1069 \<le> ?i" by (rule EDGE_INCREMENT_bounds(2))
    show ?thesis
    proof (cases "fl_neg Binary64 (unat x)")
      case neg: True
      then have d: "f64_is_finite ?d" "f64_value ?d = - ?i" using inc by simp_all
      have "f64_value v \<le> 0" using assms(2) neg by (simp add: reducible_def)
      then have "?i < - f64_value v" using False by simp
      from reduction_strict[OF this _ i] have s: "0 \<le> round64 (- f64_value v - ?i) \<and> round64 (- f64_value v - ?i) < - f64_value v"
        using v(2) by simp
      have "f64_is_finite r \<and> f64_value r = round64 (f64_value v + ?i)"
        using f64_sub_value[OF v(1) d(1)] bounded_sum[OF b(2) b(1)] by (simp add: r d(2))
      moreover have "round64 (f64_value v + ?i) = - round64 (- f64_value v - ?i)"
        using round64_minus[of "f64_value v + ?i"] by simp
      ultimately show ?thesis using s v(2) neg by (simp add: reducible_def)
    next
      case pos: False
      then have d: "f64_is_finite ?d" "f64_value ?d = ?i" using inc by simp_all
      have "0 \<le> f64_value v" using assms(2) pos by (simp add: reducible_def)
      then have "?i < f64_value v" using False by simp
      from reduction_strict[OF this _ i] have s: "0 \<le> round64 (f64_value v - ?i) \<and> round64 (f64_value v - ?i) < f64_value v"
        using v(2) by simp
      have "f64_is_finite r \<and> f64_value r = round64 (f64_value v - ?i)"
        using f64_sub_value[OF v(1) d(1)] bounded_sum[OF b(2) b(1)] by (simp add: r d(2))
      then show ?thesis using s v(2) pos by (simp add: reducible_def)
    qed
  qed
qed

text \<open>A displacement of at most \<open>2 ^ 20\<close> blocks along an axis.\<close>

definition short_move :: "f64 \<Rightarrow> bool" where
  "short_move x \<longleftrightarrow> f64_is_finite x \<and> \<bar>f64_value x\<bar> \<le> 2 ^ 1094"

definition reduced_from :: "f64 \<Rightarrow> f64 \<Rightarrow> bool" where
  "reduced_from x v \<longleftrightarrow> reducible x v \<and> within x v"

lemma reduced_from_self: "short_move x \<Longrightarrow> reduced_from x x"
  using f64_value_sign[of x] by (auto simp: short_move_def reduced_from_def reducible_def within_def)

lemma reduce_reduced:
  assumes "short_move x" and "reduced_from x v" and "\<not> f64_equal v 0"
  shows "reduced_from x (reduce_toward_zero v (f64_mul (f64_signum x) EDGE_INCREMENT) EDGE_INCREMENT) \<and>
    nat \<bar>f64_value (reduce_toward_zero v (f64_mul (f64_signum x) EDGE_INCREMENT) EDGE_INCREMENT)\<bar> < nat \<bar>f64_value v\<bar>"
proof -
  have "reducible x v" "within x v" "f64_is_finite x" using assms(1,2) by (simp_all add: short_move_def reduced_from_def)
  from reduce_reducible[OF this(3,1) assms(3)] this show ?thesis
    by (auto simp: reduced_from_def reducible_def within_def split: if_splits)
qed

lemma then_on_returns:
  assumes "\<exists>r. m = Some r \<and> (\<forall>w. r = Inr w \<longrightarrow> good w)" and "\<And>w. good w \<Longrightarrow> \<exists>r. f w = Some r \<and> (\<forall>u. r = Inr u \<longrightarrow> fine u)"
  shows "\<exists>r. then_on m f = Some r \<and> (\<forall>u. r = Inr u \<longrightarrow> fine u)"
  using assms by (fastforce simp: then_on_def split: sum.splits)

lemma back_off_reduces:
  assumes "short_move (vec_x d)" and "short_move (vec_z d)"
  shows "\<exists>r. back_off_from_edge b d chunks geometry profile = Some r \<and>
    (\<forall>u. r = Inr u \<longrightarrow> vec_y u = vec_y d \<and> within (vec_x d) (vec_x u) \<and> within (vec_z d) (vec_z u))"
proof -
  let ?x = "vec_x d" and ?z = "vec_z d"
  let ?rx = "\<lambda>v. reduce_toward_zero v (f64_mul (f64_signum ?x) EDGE_INCREMENT) EDGE_INCREMENT"
  let ?rz = "\<lambda>v. reduce_toward_zero v (f64_mul (f64_signum ?z) EDGE_INCREMENT) EDGE_INCREMENT"
  note reduce = reduce_reduced[OF assms(1)] reduce_reduced[OF assms(2)]
  show ?thesis
    unfolding back_off_from_edge_def Let_def
  proof (rule then_on_returns[where good = "reduced_from ?x"], goal_cases)
    case 1
    show ?case
      by (rule loop_while_returns[where measure = "\<lambda>v. nat \<bar>f64_value v\<bar>"])
        (use reduced_from_self[OF assms(1)] reduce(1) in \<open>auto split: if_splits\<close>)
  next
    case (2 x)
    note x = 2
    show ?case
    proof (rule then_on_returns[where good = "reduced_from ?z"], goal_cases)
      case 1
      show ?case
        by (rule loop_while_returns[where measure = "\<lambda>v. nat \<bar>f64_value v\<bar>"])
          (use reduced_from_self[OF assms(2)] reduce(2) in \<open>auto split: if_splits\<close>)
    next
      case (2 z)
      show ?case
      proof (rule then_on_returns[where good = "\<lambda>(x, z). reduced_from ?x x \<and> reduced_from ?z z"], goal_cases)
        case 1
        show ?case
          by (rule loop_while_returns[where measure = "\<lambda>(x, z). nat \<bar>f64_value x\<bar> + nat \<bar>f64_value z\<bar>"])
            (use x 2 reduce in \<open>fastforce split: if_splits prod.splits intro: add_strict_mono\<close>)+
      next
        case (2 w)
        then show ?case by (auto simp: reduced_from_def vec3d_new_def split: prod.splits)
      qed
    qed
  qed
qed

section \<open>Shapes\<close>

text \<open>At least one box, and no more than the code looks at.\<close>

definition fits_limit :: "collision_shape \<Rightarrow> bool" where
  "fits_limit shape = (case shape of Shape_Boxes bs \<Rightarrow> bs \<noteq> [] \<and> length bs \<le> MAX_COLLISION_BOXES_PER_STATE | _ \<Rightarrow> True)"

lemma fits_simps [simp]: "fits_limit Shape_Empty" "fits_limit Shape_FullCube" "fits_limit (Shape_Boxes bs) \<longleftrightarrow> bs \<noteq> [] \<and> length bs \<le> 8"
  by (simp_all add: fits_limit_def MAX_COLLISION_BOXES_PER_STATE_def)

lemma fits_boxes [simp]: "fits_limit (cuboid a b c d e f)" "fits_limit (column w y0 y1)" "fits_limit (boundary_plane n t h)"
  by (simp_all add: cuboid_def column_def boundary_plane_def)

lemma connected_length: "length (connected_boxes ps sides) \<le> length sides"
  by (simp add: connected_boxes_def)

lemma stair_quadrants_length: "length (stair_quadrants ps) \<le> 3"
  by (simp add: stair_quadrants_def by_facing_def Let_def)

lemma fits_families:
  "fits_limit (cocoa_shape ps)" "fits_limit (pitcher_crop_shape ps)" "fits_limit (chest_shape ps)" "fits_limit (bed_shape ps)" "fits_limit (hopper_shape ps)"
  "fits_limit (bell_shape ps)" "fits_limit (door_shape ps)" "fits_limit (trapdoor_shape ps)" "fits_limit (fence_gate_shape ps)"
  "fits_limit (slab_shape ps)" "fits_limit (ladder_shape ps)" "fits_limit (snow_shape ps)" "fits_limit (sea_pickle_shape ps)" "fits_limit (named_shape path)"
  by (simp_all add: cocoa_shape_def pitcher_crop_shape_def chest_shape_def bed_shape_def hopper_shape_def hopper_bowl_def
      bell_shape_def door_shape_def trapdoor_shape_def fence_gate_shape_def slab_shape_def ladder_shape_def snow_shape_def
      sea_pickle_shape_def named_shape_def Let_def split: option.splits)

lemma fits_connected:
  "fits_limit (chorus_plant_shape ps)" "fits_limit (cross_shape ps w h)" "fits_limit (wall_shape ps)" "fits_limit (stair_shape ps)"
  using connected_length[of ps] stair_quadrants_length[of ps]
  by (auto simp: chorus_plant_shape_def cross_shape_def wall_shape_def stair_shape_def Let_def
      intro: order_trans[OF connected_length])

lemma fits_if: "fits_limit a \<Longrightarrow> fits_limit b \<Longrightarrow> fits_limit (if c then a else b)"
  by simp

lemma fits_plant: "fits_limit (plant_collision_shape family ps)"
  by (cases family) (simp_all add: plant_collision_shape_def Let_def fits_families fits_connected)

lemma fits_classify: "fits_limit (classify_shape path ps)"
  unfolding classify_shape_def Let_def
  by (cases "plant_family_of path"; simp only: option.case)
    (intro fits_if fits_simps fits_boxes fits_families fits_connected fits_plant)+

lemma fits_outline: "fits_limit (classify_outline_shape path ps)"
proof -
  have controls: "fits_limit (attached_control_shape ps button)" "fits_limit (scaffolding_outline ps)" for button
    by (simp_all add: attached_control_shape_def scaffolding_outline_def Let_def)
  have "fits_limit (case classify_shape path ps of Shape_Empty \<Rightarrow> Shape_FullCube | shape \<Rightarrow> shape)"
    using fits_classify[of path ps] by (cases "classify_shape path ps") simp_all
  then show ?thesis
    unfolding classify_outline_shape_def Let_def by (intro fits_if fits_boxes fits_connected controls)
qed

lemma fits_rules: "fits_limit (rule_shape rules path ps)" "fits_limit (outline_shape rules path ps)"
proof -
  show rule: "fits_limit (rule_shape rules path ps)" for rules
    unfolding rule_shape_def by (cases rules; simp only: collision_rule_set.case) (intro fits_classify fits_if fits_simps)+
  show "fits_limit (outline_shape rules path ps)"
    unfolding outline_shape_def by (cases rules; simp only: collision_rule_set.case) (rule fits_outline rule)+
qed

section \<open>Properties\<close>

text \<open>
  C7: a collision never lets a box into an obstacle, in the arithmetic of the machine: a box within \<open>2 ^ 26\<close> blocks of the
  origin that is clear of every obstacle, and on each axis either ends before the obstacle or overlaps it by more than the
  tolerance, is moved to a place where it overlaps none of them; on every axis it moves no further than requested and not
  the other way.
\<close>

theorem collision_never_enters_obstacles:
  assumes "proper_box b" and "list_all (\<lambda>ob. proper_box ob \<and> crisp_to b ob \<and> clear_of b ob) obstacles"
    and "in_world (vec_x requested)" and "in_world (vec_y requested)" and "in_world (vec_z requested)"
  shows "list_all (\<lambda>ob. \<not> aabbs_overlap (moved (resolve_axes b requested obstacles) b) ob) obstacles \<and>
    within (vec_x requested) (vec_x (resolve_axes b requested obstacles)) \<and>
    within (vec_y requested) (vec_y (resolve_axes b requested obstacles)) \<and>
    within (vec_z requested) (vec_z (resolve_axes b requested obstacles))"
  using resolve_axes_sound[of b obstacles requested] assms by (simp add: list_all_iff)

text \<open>A box that falls onto a full cube.\<close>

lemma unit_values:
  "f64_is_finite 0x3FF0000000000000" "f64_value 0x3FF0000000000000 = 2 ^ 1074"
  "f64_is_finite 0x4000000000000000" "f64_value 0x4000000000000000 = 2 ^ 1075"
  "f64_is_finite 0xBFF0000000000000" "f64_value 0xBFF0000000000000 = - (2 ^ 1074)"
  by (simp_all add: f64_is_finite_def fl_is_finite_def fl_abs_def fl_sign_def fl_infinity_def f64_value_def fl_signed_def
      fl_neg_def fl_units_def Let_def)

lemma unit_extents:
  "proper (0, 0x3FF0000000000000)" "proper (0x3FF0000000000000, 0x4000000000000000)"
  "overlapping (0, 0x3FF0000000000000) (0, 0x3FF0000000000000)" "separated (0x3FF0000000000000, 0x4000000000000000) (0, 0x3FF0000000000000)"
  "in_world 0" "in_world 0xBFF0000000000000"
proof -
  show w: "in_world 0" "in_world 0xBFF0000000000000" by (simp_all add: in_world_def unit_values)
  show p: "proper (0, 0x3FF0000000000000)" "proper (0x3FF0000000000000, 0x4000000000000000)"
    by (simp_all add: proper_def in_world_def unit_values)
  show "separated (0x3FF0000000000000, 0x4000000000000000) (0, 0x3FF0000000000000)"
    by (simp add: separated_def f64_compare unit_values)
  have "2 ^ 1073 \<le> round64 (2 ^ 1074 - epsilon_value)"
  proof -
    have "f64_value 0x3FE0000000000000 = 2 ^ 1073"
      by (simp add: f64_value_def fl_signed_def fl_neg_def fl_sign_def fl_units_def fl_abs_def Let_def)
    moreover have "2 ^ 1073 \<le> 2 ^ 1074 - epsilon_value"
    proof -
      have "(2::int) ^ 1051 \<le> 2 ^ 1073" by (rule power_increasing) simp_all
      with epsilon_bounds(3) have "epsilon_value \<le> 2 ^ 1073" by (rule order_trans)
      moreover have "(2::int) ^ 1074 = 2 ^ 1073 + 2 ^ 1073" by simp
      ultimately show ?thesis by linarith
    qed
    ultimately show ?thesis using round64_below[of "0x3FE0000000000000"] by metis
  qed
  moreover have "(0::int) < 2 ^ 1073" by simp
  ultimately have "0 < round64 (2 ^ 1074 - epsilon_value)" by (rule less_le_trans[rotated])
  moreover have "round64 (0 + epsilon_value) < 2 ^ 1074"
  proof -
    have "(2::int) ^ 1051 < 2 ^ 1074" by (rule power_strict_increasing) simp_all
    with epsilon_bounds(3) have "epsilon_value < 2 ^ 1074" by (rule le_less_trans)
    then show ?thesis by (simp add: epsilon_value_def)
  qed
  ultimately show "overlapping (0, 0x3FF0000000000000) (0, 0x3FF0000000000000)"
    using p(1) by (simp add: overlapping_value proper_def in_world_def unit_values)
qed

lemma collision_never_enters_obstacles_witness:
  "\<not> aabbs_overlap
     (moved (resolve_axes (box6 0 0x3FF0000000000000 0 0x3FF0000000000000 0x4000000000000000 0x3FF0000000000000)
        (vec3d_new 0 0xBFF0000000000000 0) [box6 0 0 0 0x3FF0000000000000 0x3FF0000000000000 0x3FF0000000000000])
       (box6 0 0x3FF0000000000000 0 0x3FF0000000000000 0x4000000000000000 0x3FF0000000000000))
     (box6 0 0 0 0x3FF0000000000000 0x3FF0000000000000 0x3FF0000000000000)"
  using collision_never_enters_obstacles[of "box6 0 0x3FF0000000000000 0 0x3FF0000000000000 0x4000000000000000 0x3FF0000000000000"
      "[box6 0 0 0 0x3FF0000000000000 0x3FF0000000000000 0x3FF0000000000000]" "vec3d_new 0 0xBFF0000000000000 0"] unit_extents
  by (simp add: proper_box_def crisp_to_def clear_of_def overlaps_extents extent_x_def extent_y_def extent_z_def box6_def
      aabb_new_def vec3d_new_def)

text \<open>
  C38: the guard that keeps a sneaking player on an edge always returns for a displacement of at most \<open>2 ^ 20\<close> blocks along
  each horizontal axis: its three loops, which take a twentieth of a block off until the player is supported, end, and what
  they leave is no longer than requested, on the same side of zero, with the vertical part untouched.
\<close>

theorem edge_guard_returns:
  assumes "short_move (vec_x requested)" and "short_move (vec_z requested)"
  shows "case back_off_from_edge b requested chunks geometry profile of
      None \<Rightarrow> False
    | Some (Inl e) \<Rightarrow> True
    | Some (Inr u) \<Rightarrow> vec_y u = vec_y requested \<and> within (vec_x requested) (vec_x u) \<and> within (vec_z requested) (vec_z u)"
  using back_off_reduces[OF assms, of b chunks geometry profile] by (auto split: sum.splits)

lemma edge_guard_returns_witness:
  "back_off_from_edge full_cube_bounds (vec3d_new EDGE_INCREMENT 0 EDGE_INCREMENT) [] \<lparr>min_y = 0, height = 16\<rparr>
     (synthetic_profile []) \<noteq> None"
proof -
  have "(2::int) ^ 1070 \<le> 2 ^ 1094" by (rule power_increasing) simp_all
  with EDGE_INCREMENT_bounds(3) have "f64_value EDGE_INCREMENT \<le> 2 ^ 1094" by (rule order_trans)
  moreover have "0 \<le> f64_value EDGE_INCREMENT" using EDGE_INCREMENT_bounds(2) by (rule order_trans[rotated]) simp
  ultimately have "short_move EDGE_INCREMENT" using EDGE_INCREMENT_bounds(1) by (simp add: short_move_def)
  then show ?thesis
    using edge_guard_returns[of "vec3d_new EDGE_INCREMENT 0 EDGE_INCREMENT" full_cube_bounds "[]" "\<lparr>min_y = 0, height = 16\<rparr>"
        "synthetic_profile []"]
    by (auto simp: vec3d_new_def split: option.splits)
qed

text \<open>
  C39: the boxes of a shape that the rules give a block are all looked at: a shape that has boxes has at least one and at
  most as many as the obstacles of a cell are limited to, as a solid and as an outline, whatever the block and its
  properties.
\<close>

theorem rule_shapes_within_limit:
  "fits_limit (rule_shape rules path ps) \<and> fits_limit (outline_shape rules path ps)"
  by (simp add: fits_rules)

text \<open>A generated shape may have more boxes; those beyond the limit stop nothing.\<close>

lemma long_shapes_are_cut:
  assumes "shape_at chunks geometry profile x y z = (Shape_Boxes bs, off)"
  shows "length (cell_obstacles chunks geometry profile x y z) = min (length bs) 8"
  using assms by (simp add: cell_obstacles_def MAX_COLLISION_BOXES_PER_STATE_def)

end
