(* ===== verification/Player_Movement.thy ===== *)
theory Player_Movement
  imports Player_Collision
begin

text \<open>
  The simulation of the local player in \<open>cubic-world/src/movement.rs\<close>: its state, what it senses of the world around it,
  and one tick. An operation that fails leaves the state as it is at that point, as \<open>&mut self\<close> does.
\<close>

section \<open>Constants\<close>

definition PLAYER_WIDTH :: f64 where "PLAYER_WIDTH = f64_literal 6 1"
definition STANDING_HEIGHT :: f64 where "STANDING_HEIGHT = f64_literal 18 1"
definition CROUCHING_HEIGHT :: f64 where "CROUCHING_HEIGHT = f64_literal 15 1"
definition STANDING_EYE_HEIGHT :: f64 where "STANDING_EYE_HEIGHT = f64_literal 162 2"
definition CROUCHING_EYE_HEIGHT :: f64 where "CROUCHING_EYE_HEIGHT = f64_literal 127 2"
definition SWIMMING_HEIGHT :: f64 where "SWIMMING_HEIGHT = f64_literal 6 1"
definition SWIMMING_EYE_HEIGHT :: f64 where "SWIMMING_EYE_HEIGHT = f64_literal 4 1"
definition GRAVITY :: f64 where "GRAVITY = f64_literal 8 2"
definition VERTICAL_DRAG :: f64 where "VERTICAL_DRAG = f64_literal 98 2"
definition AIR_DRAG :: f64 where "AIR_DRAG = f64_literal 91 2"
definition AIR_ACCELERATION :: f64 where "AIR_ACCELERATION = f64_literal 2 2"
definition GROUND_DRAG_SCALE :: f64 where "GROUND_DRAG_SCALE = f64_literal 91 2"
definition GROUND_ACCELERATION_SCALE :: f64 where "GROUND_ACCELERATION_SCALE = f64_literal 21600002 8"
definition BASE_MOVEMENT_SPEED :: f64 where "BASE_MOVEMENT_SPEED = f64_literal 1 1"
definition SPRINT_MULTIPLIER :: f64 where "SPRINT_MULTIPLIER = f64_literal 13 1"
definition SPRINT_JUMP_IMPULSE :: f64 where "SPRINT_JUMP_IMPULSE = f64_literal 2 1"
definition SNEAK_MULTIPLIER :: f64 where "SNEAK_MULTIPLIER = f64_literal 3 1"
definition JUMP_VELOCITY :: f64 where "JUMP_VELOCITY = f64_literal 42 2"
definition DEFAULT_FLYING_SPEED :: f64 where "DEFAULT_FLYING_SPEED = f64_literal 5 2"
definition FLYING_SPRINT_MULTIPLIER :: f64 where "FLYING_SPRINT_MULTIPLIER = integral 2"
definition FLYING_VERTICAL_INPUT_MULTIPLIER :: f64 where "FLYING_VERTICAL_INPUT_MULTIPLIER = integral 3"
definition FLYING_VERTICAL_DRAG :: f64 where "FLYING_VERTICAL_DRAG = f64_literal 6 1"
definition WATER_ACCELERATION :: f64 where "WATER_ACCELERATION = f64_literal 2 2"
definition WATER_DRAG :: f64 where "WATER_DRAG = f64_literal 8 1"
definition WATER_SPRINT_DRAG :: f64 where "WATER_SPRINT_DRAG = f64_literal 9 1"
definition WATER_GRAVITY :: f64 where "WATER_GRAVITY = f64_div GRAVITY (integral 16)"
definition LAVA_DRAG :: f64 where "LAVA_DRAG = f64_literal 5 1"
definition FLUID_VERTICAL_INPUT :: f64 where "FLUID_VERTICAL_INPUT = f64_literal 4 2"
definition CLIMB_HORIZONTAL_LIMIT :: f64 where "CLIMB_HORIZONTAL_LIMIT = f64_literal 15 2"
definition CLIMB_FALL_LIMIT :: f64 where "CLIMB_FALL_LIMIT = f64_literal (- 15) 2"
definition CLIMB_UP_SPEED :: f64 where "CLIMB_UP_SPEED = f64_literal 2 1"
definition HONEY_SLIDE_SPEED :: f64 where "HONEY_SLIDE_SPEED = f64_literal (- 5) 2"

section \<open>State\<close>

record movement_input =
  mi_forward :: bool
  mi_backward :: bool
  mi_left :: bool
  mi_right :: bool
  mi_jump :: bool
  mi_sneak :: bool
  mi_sprint :: bool

datatype player_pose_kind = Standing | Sneaking | Swimming

record player_dimensions =
  dim_width :: f64
  dim_height :: f64
  dim_eye_height :: f64

fun pose_dimensions :: "player_pose_kind \<Rightarrow> player_dimensions" where
  "pose_dimensions Standing = \<lparr>dim_width = PLAYER_WIDTH, dim_height = STANDING_HEIGHT, dim_eye_height = STANDING_EYE_HEIGHT\<rparr>"
| "pose_dimensions Sneaking = \<lparr>dim_width = PLAYER_WIDTH, dim_height = CROUCHING_HEIGHT, dim_eye_height = CROUCHING_EYE_HEIGHT\<rparr>"
| "pose_dimensions Swimming = \<lparr>dim_width = PLAYER_WIDTH, dim_height = SWIMMING_HEIGHT, dim_eye_height = SWIMMING_EYE_HEIGHT\<rparr>"

record local_player_pose =
  lp_x :: f64
  lp_y :: f64
  lp_z :: f64
  lp_yaw :: f32
  lp_pitch :: f32
  lp_eye_height :: f64

definition local_player_pose_new :: "f64 \<Rightarrow> f64 \<Rightarrow> f64 \<Rightarrow> f32 \<Rightarrow> f32 \<Rightarrow> local_player_pose" where
  "local_player_pose_new x y z yaw pitch =
     \<lparr>lp_x = x, lp_y = y, lp_z = z, lp_yaw = yaw, lp_pitch = pitch, lp_eye_height = STANDING_EYE_HEIGHT\<rparr>"

definition pose_is_finite :: "local_player_pose \<Rightarrow> bool" where
  "pose_is_finite p \<longleftrightarrow> f64_is_finite (lp_x p) \<and> f64_is_finite (lp_y p) \<and> f64_is_finite (lp_z p) \<and>
     f32_is_finite (lp_yaw p) \<and> f32_is_finite (lp_pitch p) \<and> f64_is_finite (lp_eye_height p)"

record player_movement_state =
  pm_pose :: local_player_pose
  pm_velocity :: vec3d
  pm_on_ground :: bool
  pm_horizontal_collision :: bool
  pm_sprinting :: bool
  pm_pose_kind :: player_pose_kind
  pm_may_fly :: bool
  pm_flying :: bool
  pm_flying_speed :: f64
  pm_swimming :: bool
  pm_in_water :: bool
  pm_in_lava :: bool
  pm_climbing :: bool
  pm_fall_distance :: f64

record simulation_result =
  sr_requested :: vec3d
  sr_applied :: vec3d
  sr_stepped :: bool
  sr_approximate_collision :: bool
  sr_flight_changed :: "bool option"
  sr_jumped :: bool
  sr_grounded_at_start :: bool
  sr_horizontal_acceleration :: f64
  sr_horizontal_drag :: f64
  sr_sprint_jump_impulse :: f64

type_synonym 'a movement_step = "(player_movement_state, simulation_error, 'a) fallible"

definition from_authoritative :: "local_player_pose \<Rightarrow> vec3d \<Rightarrow> simulation_error + player_movement_state" where
  "from_authoritative pose v =
     (if \<not> pose_is_finite pose then Inl (NonFinite ''pose'')
      else if \<not> vec3d_is_finite v then Inl (NonFinite ''velocity'')
      else Inr \<lparr>pm_pose = pose, pm_velocity = v, pm_on_ground = False, pm_horizontal_collision = False, pm_sprinting = False,
        pm_pose_kind = Standing, pm_may_fly = False, pm_flying = False, pm_flying_speed = DEFAULT_FLYING_SPEED,
        pm_swimming = False, pm_in_water = False, pm_in_lava = False, pm_climbing = False, pm_fall_distance = 0\<rparr>)"

definition reconcile :: "local_player_pose \<Rightarrow> vec3d \<Rightarrow> unit movement_step" where
  "reconcile pose v s =
     (if \<not> pose_is_finite pose \<or> \<not> vec3d_is_finite v then (Inl (NonFinite ''authoritative correction''), s)
      else (Inr (), s\<lparr>pm_pose := pose, pm_velocity := v, pm_on_ground := False, pm_horizontal_collision := False,
              pm_fall_distance := 0, pm_in_water := False, pm_in_lava := False, pm_climbing := False\<rparr>))"

definition rotate_to :: "f32 \<Rightarrow> f32 \<Rightarrow> player_movement_state \<Rightarrow> player_movement_state" where
  "rotate_to yaw pitch s =
     s\<lparr>pm_pose := (pm_pose s)\<lparr>lp_yaw := f32_rem_euclid yaw (f32_of_int 360),
                              lp_pitch := f32_clamp (f32_of_int (- 90)) (f32_of_int 90) pitch\<rparr>\<rparr>"

definition rotate_player :: "f32 \<Rightarrow> f32 \<Rightarrow> unit movement_step" where
  "rotate_player yaw_delta pitch_delta s =
     (if \<not> f32_is_finite yaw_delta \<or> \<not> f32_is_finite pitch_delta then (Inl (NonFinite ''look delta''), s)
      else (Inr (), rotate_to (f32_add (lp_yaw (pm_pose s)) yaw_delta) (f32_add (lp_pitch (pm_pose s)) pitch_delta) s))"

definition set_rotation :: "f32 \<Rightarrow> f32 \<Rightarrow> unit movement_step" where
  "set_rotation yaw pitch s =
     (if \<not> f32_is_finite yaw \<or> \<not> f32_is_finite pitch then (Inl (NonFinite ''look intent''), s)
      else (Inr (), rotate_to yaw pitch s))"

definition stand_up :: "player_movement_state \<Rightarrow> player_movement_state" where
  "stand_up s = s\<lparr>pm_pose_kind := Standing, pm_pose := (pm_pose s)\<lparr>lp_eye_height := STANDING_EYE_HEIGHT\<rparr>\<rparr>"

definition apply_flight_abilities :: "bool \<Rightarrow> bool \<Rightarrow> f32 \<Rightarrow> unit movement_step" where
  "apply_flight_abilities may_fly flying flying_speed s =
     (if \<not> f32_is_finite flying_speed \<or> f32_less flying_speed 0 then (Inl (NonFinite ''flying speed''), s)
      else
        let s = s\<lparr>pm_may_fly := may_fly, pm_flying := may_fly \<and> flying, pm_flying_speed := f32_to_f64 flying_speed\<rparr> in
        (Inr (), if pm_flying s then (stand_up s)\<lparr>pm_fall_distance := 0\<rparr> else s))"

definition set_flying :: "bool \<Rightarrow> player_movement_state \<Rightarrow> bool \<times> player_movement_state" where
  "set_flying flying s =
     (let resolved = pm_may_fly s \<and> flying in
      if pm_flying s = resolved then (False, s)
      else
        let s = s\<lparr>pm_flying := resolved\<rparr> in
        if \<not> resolved then (True, s)
        else
          let s = s\<lparr>pm_fall_distance := 0\<rparr>;
              s = (if pm_on_ground s
                   then s\<lparr>pm_velocity := (pm_velocity s)\<lparr>vec_y := JUMP_VELOCITY\<rparr>, pm_on_ground := False\<rparr> else s) in
          (True, stand_up s))"

definition bounding_box :: "player_movement_state \<Rightarrow> aabb" where
  "bounding_box s =
     (let dimensions = pose_dimensions (pm_pose_kind s); w = f64_mul (dim_width dimensions) (f64_literal 5 1); p = pm_pose s in
      box6 (f64_sub (lp_x p) w) (lp_y p) (f64_sub (lp_z p) w)
        (f64_add (lp_x p) w) (f64_add (lp_y p) (dim_height dimensions)) (f64_add (lp_z p) w))"

section \<open>What surrounds the player\<close>

record movement_environment =
  me_water_immersion :: f64
  me_water_at_eye :: bool
  me_water_at_swim_ascent_probe :: bool
  me_lava_immersion :: f64
  me_flow :: vec3d
  me_climbable :: bool
  me_scaffolding :: bool
  me_supported_on_scaffolding_top :: bool
  me_support_surface :: special_surface
  me_honey_side_contact :: bool

definition floor_i32 :: "f64 \<Rightarrow> int" where "floor_i32 x = f64_to_i32 (f64_floor x)"

text \<open>The cells of an extent that is narrowed by \<open>e\<close> at both ends.\<close>

definition narrowed_range :: "f64 \<Rightarrow> f64 \<times> f64 \<Rightarrow> int \<times> int" where
  "narrowed_range e extent = (floor_i32 (f64_add (fst extent) e), floor_i32 (f64_sub (snd extent) e))"

definition centre_of :: "f64 \<times> f64 \<Rightarrow> f64" where
  "centre_of extent = f64_mul (f64_add (fst extent) (snd extent)) (f64_literal 5 1)"

definition environment_at ::
  "loaded_chunks \<Rightarrow> dimension_geometry \<Rightarrow> block_collision_profile \<Rightarrow> int \<Rightarrow> int \<Rightarrow> int \<Rightarrow> block_environment option" where
  "environment_at chunks geometry profile x y z =
     map_option (profile_environment profile) (block_state_at chunks geometry x y z)"

definition fluid_semantic_at ::
  "loaded_chunks \<Rightarrow> dimension_geometry \<Rightarrow> block_collision_profile \<Rightarrow> int \<Rightarrow> int \<Rightarrow> int \<Rightarrow> fluid_state option" where
  "fluid_semantic_at chunks geometry profile x y z =
     (case environment_at chunks geometry profile x y z of None \<Rightarrow> None | Some e \<Rightarrow> env_fluid e)"

definition same_fluid :: "fluid_state \<Rightarrow> fluid_state option \<Rightarrow> fluid_state option" where
  "same_fluid center f = (case f of None \<Rightarrow> None | Some g \<Rightarrow> if fluid_kind g = fluid_kind center then Some g else None)"

text \<open>How much lower the fluid is in a neighbouring cell; \<open>None\<close> when nothing flows there.\<close>

definition fluid_difference ::
  "loaded_chunks \<Rightarrow> dimension_geometry \<Rightarrow> block_collision_profile \<Rightarrow> fluid_state \<Rightarrow> int \<Rightarrow> int \<Rightarrow> int \<Rightarrow> f64 option" where
  "fluid_difference chunks geometry profile center x y z =
     (case same_fluid center (fluid_semantic_at chunks geometry profile x y z) of
        Some neighbor \<Rightarrow> Some (f64_sub (own_height center) (own_height neighbor))
      | None \<Rightarrow>
          (case block_state_at chunks geometry x y z of
             None \<Rightarrow> None
           | Some state \<Rightarrow>
               if profile_shape profile state \<noteq> Shape_Empty then None
               else case same_fluid center (fluid_semantic_at chunks geometry profile x (i32_wrap (y - 1)) z) of
                 None \<Rightarrow> None
               | Some below \<Rightarrow>
                   Some (f64_sub (own_height center) (f64_sub (own_height below) (f64_div (integral 8) (integral 9))))))"

definition fluid_flow ::
  "float_library \<Rightarrow> loaded_chunks \<Rightarrow> dimension_geometry \<Rightarrow> block_collision_profile \<Rightarrow> int \<Rightarrow> int \<Rightarrow> int \<Rightarrow> vec3d" where
  "fluid_flow lib chunks geometry profile x y z =
     (case fluid_semantic_at chunks geometry profile x y z of
        None \<Rightarrow> vec3d_default
      | Some center \<Rightarrow>
          let flow = foldl (\<lambda>flow (dx, dz).
                case fluid_difference chunks geometry profile center (i32_wrap (x + dx)) y (i32_wrap (z + dz)) of
                  None \<Rightarrow> flow
                | Some difference \<Rightarrow>
                    flow\<lparr>vec_x := f64_add (vec_x flow) (f64_mul (f64_of_int dx) difference),
                         vec_z := f64_add (vec_z flow) (f64_mul (f64_of_int dz) difference)\<rparr>)
                vec3d_default [(- 1, 0), (1, 0), (0, - 1), (0, 1)];
              len = lib_hypot lib (vec_x flow) (vec_z flow) in
          if f64_less COLLISION_EPSILON len
          then flow\<lparr>vec_x := f64_div (vec_x flow) len, vec_z := f64_div (vec_z flow) len\<rparr> else flow)"

definition averaged_player_fluid_flow :: "vec3d list \<Rightarrow> f64 \<Rightarrow> vec3d" where
  "averaged_player_fluid_flow currents immersion =
     (if currents = [] then vec3d_default
      else
        let t = foldl (\<lambda>sum v. vec3d_new (f64_add (vec_x sum) (vec_x v)) (f64_add (vec_y sum) (vec_y v))
                   (f64_add (vec_z sum) (vec_z v))) vec3d_default currents in
        if f64_less (f64_mul_add (vec_x t) (vec_x t) (f64_mul (vec_z t) (vec_z t))) (f64_literal 1 5) then vec3d_default
        else
          let scale = f64_div (f64_min immersion (f64_literal 4 1)) (f64_literal 4 1); n = f64_of_int (int (length currents)) in
          t\<lparr>vec_x := f64_mul (f64_div (vec_x t) n) scale, vec_z := f64_mul (f64_div (vec_z t) n) scale\<rparr>)"

definition player_fluid_current :: "float_library \<Rightarrow> vec3d \<Rightarrow> vec3d \<Rightarrow> vec3d" where
  "player_fluid_current lib flow v =
     (let x = f64_mul (vec_x flow) (f64_literal 14 3); z = f64_mul (vec_z flow) (f64_literal 14 3);
          len = lib_hypot lib x z; slow = f64_literal 3 3; least = f64_literal 45 4 in
      if f64_less (f64_abs (vec_x v)) slow \<and> f64_less (f64_abs (vec_z v)) slow \<and> f64_less F64_EPSILON len \<and> f64_less len least
      then vec3d_new (f64_mul (f64_div x len) least) 0 (f64_mul (f64_div z len) least)
      else vec3d_new x 0 z)"

text \<open>One cell of the volume of the player; the currents of water are collected.\<close>

definition sense_cell ::
  "float_library \<Rightarrow> aabb \<Rightarrow> loaded_chunks \<Rightarrow> dimension_geometry \<Rightarrow> block_collision_profile \<Rightarrow>
   movement_environment \<times> vec3d list \<Rightarrow> int \<times> int \<times> int \<Rightarrow> movement_environment \<times> vec3d list" where
  "sense_cell lib b chunks geometry profile acc cell =
     (let (me, currents) = acc; (x, y, z) = cell in
      case environment_at chunks geometry profile x y z of
        None \<Rightarrow> (me, currents)
      | Some semantic \<Rightarrow>
          let feet = vec_y (box_min b);
              (me, currents) =
                (case env_fluid semantic of
                   None \<Rightarrow> (me, currents)
                 | Some fluid \<Rightarrow>
                     let surface = f64_add (f64_of_int y) (own_height fluid) in
                     if \<not> f64_less (f64_add feet COLLISION_EPSILON) surface then (me, currents)
                     else
                       let immersion = f64_clamp 0 (integral 1) (f64_div (f64_sub surface feet)
                             (f64_max (f64_sub (vec_y (box_max b)) feet) COLLISION_EPSILON)) in
                       (case fluid_kind fluid of
                          Water \<Rightarrow>
                            (me\<lparr>me_water_immersion := f64_max (me_water_immersion me) immersion,
                                me_water_at_eye :=
                                  (me_water_at_eye me \<or> f64_less (f64_add feet STANDING_EYE_HEIGHT) surface)\<rparr>,
                             currents @ [fluid_flow lib chunks geometry profile x y z])
                        | Lava \<Rightarrow> (me\<lparr>me_lava_immersion := f64_max (me_lava_immersion me) immersion\<rparr>, currents))) in
          (me\<lparr>me_scaffolding := (me_scaffolding me \<or> env_scaffolding semantic)\<rparr>, currents))"

definition touches_climbing_cell ::
  "aabb \<Rightarrow> loaded_chunks \<Rightarrow> dimension_geometry \<Rightarrow> block_collision_profile \<Rightarrow> bool \<times> bool" where
  "touches_climbing_cell b chunks geometry profile =
     (let eps = COLLISION_EPSILON; feet = floor_i32 (vec_y (box_min b));
          climbable =
            (case environment_at chunks geometry profile (floor_i32 (centre_of (extent_x b))) feet (floor_i32 (centre_of (extent_z b))) of
               None \<Rightarrow> False | Some e \<Rightarrow> env_climbable e);
          scaffolding = list_ex (\<lambda>(x, y, z).
            (case environment_at chunks geometry profile x y z of None \<Rightarrow> False | Some e \<Rightarrow> env_scaffolding e) \<and>
            aabbs_overlap b (cell_at x y z))
            (cells_of (widened_range eps (extent_x b)) (feet, floor_i32 (f64_sub (vec_y (box_max b)) eps)) (widened_range eps (extent_z b))) in
      (climbable, scaffolding))"

definition scaffolding_support_y ::
  "aabb \<Rightarrow> f64 \<Rightarrow> loaded_chunks \<Rightarrow> dimension_geometry \<Rightarrow> block_collision_profile \<Rightarrow> f64 option" where
  "scaffolding_support_y b vertical_movement chunks geometry profile =
     (let eps = COLLISION_EPSILON; feet = vec_y (box_min b); final_feet = f64_add feet vertical_movement;
          xs = narrowed_range eps (extent_x b); zs = narrowed_range eps (extent_z b);
          layer_top = (\<lambda>y. f64_of_int (i32_wrap (y + 1))) in
      foldl (\<lambda>support (x, y, z).
          let t = layer_top y in
          if f64_less feet (f64_sub t eps) \<or> f64_less (f64_sub t eps) final_feet then support
          else if (case environment_at chunks geometry profile x y z of None \<Rightarrow> False | Some e \<Rightarrow> env_scaffolding e)
          then Some (case support of None \<Rightarrow> t | Some current \<Rightarrow> f64_max current t)
          else support)
        None (cells_of xs (i32_wrap (floor_i32 final_feet - 1), floor_i32 feet) zs))"

text \<open>The last special surface below the box, unless there is honey.\<close>

fun scan_surfaces :: "special_surface option list \<Rightarrow> special_surface \<Rightarrow> special_surface" where
  "scan_surfaces [] surface = surface"
| "scan_surfaces (None # cs) surface = scan_surfaces cs surface"
| "scan_surfaces (Some c # cs) surface =
     (if c = Honey then Honey else scan_surfaces cs (if c \<noteq> Ordinary then c else surface))"

definition support_surface_at ::
  "aabb \<Rightarrow> loaded_chunks \<Rightarrow> dimension_geometry \<Rightarrow> block_collision_profile \<Rightarrow> special_surface" where
  "support_surface_at b chunks geometry profile =
     (let eps = COLLISION_EPSILON; y = floor_i32 (f64_sub (vec_y (box_min b)) (f64_literal 1 2)) in
      scan_surfaces (map (\<lambda>(x, y, z). map_option env_surface (environment_at chunks geometry profile x y z))
        (cells_of (narrowed_range eps (extent_x b)) (y, y) (narrowed_range eps (extent_z b)))) Ordinary)"

definition environment_cells :: "aabb \<Rightarrow> (int \<times> int \<times> int) list" where
  "environment_cells b =
     (let range = (\<lambda>e. (floor_i32 (fst e), floor_i32 (snd e))) in
      cells_of (range (extent_x b)) (range (extent_y b)) (range (extent_z b)))"

definition honey_side_contact ::
  "aabb \<Rightarrow> loaded_chunks \<Rightarrow> dimension_geometry \<Rightarrow> block_collision_profile \<Rightarrow> bool" where
  "honey_side_contact b chunks geometry profile =
     (let lo = box_min b; hi = box_max b; t = f64_div (integral 1) (integral 16);
          probe = box6 (f64_sub (vec_x lo) t) (vec_y lo) (f64_sub (vec_z lo) t)
                       (f64_add (vec_x hi) t) (vec_y hi) (f64_add (vec_z hi) t);
          half_width = f64_mul (f64_sub (vec_x hi) (vec_x lo)) (f64_literal 5 1);
          reach = f64_add (f64_div (integral 7) (integral 16)) half_width;
          beside = (\<lambda>centre c. f64_less reach
            (f64_add (f64_abs (f64_sub centre (f64_add (f64_of_int c) (f64_literal 5 1)))) COLLISION_EPSILON)) in
      list_ex (\<lambda>(x, y, z).
        (case environment_at chunks geometry profile x y z of None \<Rightarrow> False | Some e \<Rightarrow> env_surface e = Honey) \<and>
        f64_less_eq (vec_y lo) (f64_sub (f64_add (f64_of_int y) (f64_div (integral 15) (integral 16))) COLLISION_EPSILON) \<and>
        (beside (centre_of (extent_x b)) x \<or> beside (centre_of (extent_z b)) z)) (environment_cells probe))"

definition movement_environment_of ::
  "float_library \<Rightarrow> aabb \<Rightarrow> loaded_chunks \<Rightarrow> dimension_geometry \<Rightarrow> block_collision_profile \<Rightarrow> movement_environment" where
  "movement_environment_of lib b chunks geometry profile =
     (let eps = COLLISION_EPSILON;
          nothing = \<lparr>me_water_immersion = 0, me_water_at_eye = False, me_water_at_swim_ascent_probe = False,
            me_lava_immersion = 0, me_flow = vec3d_default, me_climbable = False, me_scaffolding = False,
            me_supported_on_scaffolding_top = False, me_support_surface = Ordinary, me_honey_side_contact = False\<rparr>;
          (me, currents) = foldl (sense_cell lib b chunks geometry profile) (nothing, [])
            (cells_of (narrowed_range eps (extent_x b)) (narrowed_range eps (extent_y b)) (narrowed_range eps (extent_z b)));
          (climbable, scaffolding) = touches_climbing_cell b chunks geometry profile in
      me\<lparr>me_flow := averaged_player_fluid_flow currents (me_water_immersion me),
         me_water_at_swim_ascent_probe :=
           (case fluid_semantic_at chunks geometry profile (floor_i32 (centre_of (extent_x b)))
                   (floor_i32 (f64_add (vec_y (box_min b)) (f64_literal 9 1))) (floor_i32 (centre_of (extent_z b))) of
              None \<Rightarrow> False | Some f \<Rightarrow> fluid_kind f = Water),
         me_climbable := (me_climbable me \<or> climbable),
         me_scaffolding := (me_scaffolding me \<or> scaffolding),
         me_supported_on_scaffolding_top :=
           (scaffolding_support_y b (f64_neg COLLISION_EPSILON) chunks geometry profile \<noteq> None),
         me_support_surface := support_surface_at b chunks geometry profile,
         me_honey_side_contact := honey_side_contact b chunks geometry profile\<rparr>)"

text \<open>\<open>ceil\<close>, and one layer less, saturating.\<close>

definition last_layer :: "f64 \<Rightarrow> int" where
  "last_layer x = max (- (2 ^ 31)) (f64_to_i32 (f64_ceil x) - 1)"

definition contains_any_fluid :: "aabb \<Rightarrow> loaded_chunks \<Rightarrow> dimension_geometry \<Rightarrow> block_collision_profile \<Rightarrow> bool" where
  "contains_any_fluid b chunks geometry profile =
     (let range = (\<lambda>e. (floor_i32 (fst e), last_layer (snd e))) in
      list_ex (\<lambda>(x, y, z). fluid_semantic_at chunks geometry profile x y z \<noteq> None)
        (cells_of (range (extent_x b)) (range (extent_y b)) (range (extent_z b))))"

definition fluid_exit_clearance ::
  "aabb \<Rightarrow> vec3d \<Rightarrow> f64 \<Rightarrow> loaded_chunks \<Rightarrow> dimension_geometry \<Rightarrow> block_collision_profile \<Rightarrow> simulation_error + bool" where
  "fluid_exit_clearance b v applied_y chunks geometry profile =
     (let probe = vec3d_new (vec_x v) (f64_sub (f64_add (vec_y v) (f64_literal 6000000238418579 16)) applied_y) (vec_z v);
          near = (\<lambda>p q. f64_less_eq (f64_abs (f64_sub p q)) COLLISION_EPSILON) in
      and_also (collide b probe chunks geometry profile False) (\<lambda>(applied, _).
      Inr (\<not> contains_any_fluid (moved probe b) chunks geometry profile \<and>
           near (vec_x applied) (vec_x probe) \<and> near (vec_y applied) (vec_y probe) \<and> near (vec_z applied) (vec_z probe))))"

end
