(* ===== verification/Player_Tick.thy ===== *)
theory Player_Tick
  imports Player_Movement
begin

text \<open>
  One tick of the simulation of the local player, \<open>PlayerMovementState::tick\<close>, in the parts of its text: sensing, input,
  acceleration, vertical control, the requested displacement and its limits, the move, and what follows from it.
\<close>

definition bool_int :: "bool \<Rightarrow> int" where "bool_int b = (if b then 1 else 0)"

definition with_velocity :: "(vec3d \<Rightarrow> vec3d) \<Rightarrow> player_movement_state \<Rightarrow> player_movement_state" where
  "with_velocity f s = s\<lparr>pm_velocity := f (pm_velocity s)\<rparr>"

definition vertical_velocity :: "player_movement_state \<Rightarrow> f64" where
  "vertical_velocity s = vec_y (pm_velocity s)"

definition set_vertical :: "f64 \<Rightarrow> player_movement_state \<Rightarrow> player_movement_state" where
  "set_vertical y = with_velocity (\<lambda>v. v\<lparr>vec_y := y\<rparr>)"

definition scale_horizontal :: "f64 \<Rightarrow> vec3d \<Rightarrow> vec3d" where
  "scale_horizontal drag v = v\<lparr>vec_x := f64_mul (vec_x v) drag, vec_z := f64_mul (vec_z v) drag\<rparr>"

section \<open>Sensing and input\<close>

definition sense :: "movement_environment \<Rightarrow> movement_input \<Rightarrow> player_movement_state \<Rightarrow> player_movement_state" where
  "sense me i s =
     (let s = s\<lparr>pm_in_water := f64_less 0 (me_water_immersion me), pm_in_lava := f64_less 0 (me_lava_immersion me),
                pm_climbing := (me_climbable me \<or> me_scaffolding me)\<rparr>;
          swims = \<not> pm_flying s \<and> (pm_sprinting s \<or> mi_sprint i) \<and>
                  (if pm_swimming s then pm_in_water s else me_water_at_eye me \<and> mi_forward i);
          kind = (if swims then Swimming else if mi_sneak i \<and> \<not> pm_flying s then Sneaking else Standing) in
      s\<lparr>pm_swimming := swims, pm_pose_kind := kind,
        pm_pose := (pm_pose s)\<lparr>lp_eye_height := dim_eye_height (pose_dimensions kind)\<rparr>\<rparr>)"

text \<open>Forward and sideways, at most of length one.\<close>

definition input_direction :: "float_library \<Rightarrow> movement_input \<Rightarrow> f64 \<times> f64" where
  "input_direction lib i =
     (let forward = f64_of_int (bool_int (mi_forward i) - bool_int (mi_backward i));
          strafe = f64_of_int (bool_int (mi_right i) - bool_int (mi_left i));
          len = lib_hypot lib forward strafe in
      if f64_less (integral 1) len then (f64_div forward len, f64_div strafe len) else (forward, strafe))"

definition update_sprint ::
  "movement_environment \<Rightarrow> movement_input \<Rightarrow> f64 \<Rightarrow> player_movement_state \<Rightarrow> player_movement_state" where
  "update_sprint me i forward s =
     (let impulse = f64_less (f64_literal 1 5) forward; shallow = pm_in_water s \<and> \<not> me_water_at_eye me in
      if pm_sprinting s then
        (if \<not> impulse \<or> (pm_horizontal_collision s \<and> \<not> pm_swimming s) \<or> (shallow \<and> \<not> pm_swimming s)
         then s\<lparr>pm_sprinting := False\<rparr> else s)
      else if mi_sprint i \<and> impulse \<and> \<not> mi_sneak i \<and> (\<not> pm_in_water s \<or> me_water_at_eye me)
      then s\<lparr>pm_sprinting := True\<rparr> else s)"

definition slowed_direction ::
  "movement_environment \<Rightarrow> movement_input \<Rightarrow> player_movement_state \<Rightarrow> f64 \<times> f64 \<Rightarrow> f64 \<times> f64" where
  "slowed_direction me i s d =
     (let times = (\<lambda>k (f, r). (f64_mul f k, f64_mul r k));
          d = (if mi_sneak i \<and> \<not> pm_flying s \<and> \<not> pm_in_water s \<and> \<not> pm_in_lava s then times SNEAK_MULTIPLIER d else d) in
      if me_support_surface me = Honey \<and> \<not> pm_flying s then times (f64_literal 4 1) d else d)"

section \<open>Acceleration\<close>

definition ground_slipperiness ::
  "loaded_chunks \<Rightarrow> dimension_geometry \<Rightarrow> block_collision_profile \<Rightarrow> player_movement_state \<Rightarrow> f64" where
  "ground_slipperiness chunks geometry profile s =
     (let p = pm_pose s in
      case block_state_at chunks geometry (floor_i32 (lp_x p)) (floor_i32 (f64_sub (lp_y p) (f64_literal 1 2))) (floor_i32 (lp_z p)) of
        None \<Rightarrow> f64_literal 6 1 | Some state \<Rightarrow> profile_slipperiness profile state)"

definition horizontal_acceleration :: "float_library \<Rightarrow> bool \<Rightarrow> f64 \<Rightarrow> player_movement_state \<Rightarrow> f64" where
  "horizontal_acceleration lib grounded slipperiness s =
     (let speed =
        (if pm_flying s then f64_mul (pm_flying_speed s) (if pm_sprinting s then FLYING_SPRINT_MULTIPLIER else integral 1)
         else f64_mul BASE_MOVEMENT_SPEED (if pm_sprinting s then SPRINT_MULTIPLIER else integral 1)) in
      if pm_flying s then speed
      else if pm_in_water s \<or> pm_in_lava s then WATER_ACCELERATION
      else if grounded then f64_mul speed (f64_div GROUND_ACCELERATION_SCALE (lib_powi lib slipperiness 3))
      else AIR_ACCELERATION)"

definition player_yaw :: "player_movement_state \<Rightarrow> f64" where
  "player_yaw s = to_radians (f32_to_f64 (lp_yaw (pm_pose s)))"

definition accelerate :: "float_library \<Rightarrow> f64 \<times> f64 \<Rightarrow> f64 \<Rightarrow> player_movement_state \<Rightarrow> player_movement_state" where
  "accelerate lib d acceleration s =
     (let (forward, strafe) = d; yaw = player_yaw s; sin_yaw = lib_sin lib yaw; cos_yaw = lib_cos lib yaw in
      with_velocity (\<lambda>v. v\<lparr>
        vec_x := f64_add (vec_x v)
          (f64_mul (f64_sub (f64_mul (f64_neg sin_yaw) forward) (f64_mul cos_yaw strafe)) acceleration),
        vec_z := f64_add (vec_z v)
          (f64_mul (f64_sub (f64_mul cos_yaw forward) (f64_mul sin_yaw strafe)) acceleration)\<rparr>) s)"

definition drift :: "float_library \<Rightarrow> movement_environment \<Rightarrow> player_movement_state \<Rightarrow> player_movement_state" where
  "drift lib me s =
     (if pm_in_water s then
        let current = player_fluid_current lib (me_flow me) (pm_velocity s) in
        with_velocity (\<lambda>v. v\<lparr>vec_x := f64_add (vec_x v) (vec_x current), vec_z := f64_add (vec_z v) (vec_z current)\<rparr>) s
      else s)"

definition swim_steering ::
  "float_library \<Rightarrow> movement_environment \<Rightarrow> movement_input \<Rightarrow> player_movement_state \<Rightarrow> player_movement_state" where
  "swim_steering lib me i s =
     (if pm_swimming s then
        let look_y = f64_neg (lib_sin lib (to_radians (f32_to_f64 (lp_pitch (pm_pose s)))));
            coefficient = (if f64_less look_y (f64_literal (- 2) 1) then f64_literal 85 3 else f64_literal 6 2) in
        if f64_less_eq look_y 0 \<or> mi_jump i \<or> me_water_at_swim_ascent_probe me
        then set_vertical (f64_add (vertical_velocity s) (f64_mul (f64_sub look_y (vertical_velocity s)) coefficient)) s
        else s
      else s)"

section \<open>Vertical control\<close>

definition clamp_climbing :: "player_movement_state \<Rightarrow> player_movement_state" where
  "clamp_climbing =
     with_velocity (\<lambda>v. let limit = CLIMB_HORIZONTAL_LIMIT in
       v\<lparr>vec_x := f64_clamp (f64_neg limit) limit (vec_x v), vec_z := f64_clamp (f64_neg limit) limit (vec_z v)\<rparr>)"

text \<open>Also whether the player jumped, and the impulse of a sprinting jump.\<close>

definition jumps :: "bool \<Rightarrow> movement_input \<Rightarrow> player_movement_state \<Rightarrow> bool" where
  "jumps grounded i s \<longleftrightarrow> \<not> pm_flying s \<and> \<not> pm_in_water s \<and> \<not> pm_in_lava s \<and> \<not> pm_climbing s \<and> mi_jump i \<and> grounded"

definition sprint_impulse :: "float_library \<Rightarrow> player_movement_state \<Rightarrow> player_movement_state" where
  "sprint_impulse lib s =
     (let yaw = player_yaw s in
      with_velocity (\<lambda>v. v\<lparr>vec_x := f64_add (vec_x v) (f64_mul (f64_neg (lib_sin lib yaw)) SPRINT_JUMP_IMPULSE),
                           vec_z := f64_add (vec_z v) (f64_mul (lib_cos lib yaw) SPRINT_JUMP_IMPULSE)\<rparr>) s)"

definition control_vertical ::
  "float_library \<Rightarrow> movement_environment \<Rightarrow> movement_input \<Rightarrow> bool \<Rightarrow> player_movement_state \<Rightarrow> f64 \<times> player_movement_state" where
  "control_vertical lib me i grounded s =
     (let y = vertical_velocity s; up = f64_of_int (bool_int (mi_jump i) - bool_int (mi_sneak i)) in
      if pm_flying s then
        (0, set_vertical (f64_add y (f64_mul (f64_mul up (pm_flying_speed s)) FLYING_VERTICAL_INPUT_MULTIPLIER)) s)
      else if pm_in_water s \<or> pm_in_lava s then (0, set_vertical (f64_add y (f64_mul up FLUID_VERTICAL_INPUT)) s)
      else if me_scaffolding me then
        (0, clamp_climbing (set_vertical
           (if mi_jump i \<and> \<not> mi_sneak i then f64_max y CLIMB_UP_SPEED
            else if mi_sneak i then f64_min y CLIMB_FALL_LIMIT else f64_max y CLIMB_FALL_LIMIT) s))
      else if pm_climbing s then
        (let s = clamp_climbing s; y = f64_max y CLIMB_FALL_LIMIT in
         (0, set_vertical (if me_scaffolding me \<and> mi_sneak i then f64_min y CLIMB_FALL_LIMIT
                           else if mi_sneak i then 0 else y) s))
      else if jumps grounded i s then
        (let s = set_vertical (f64_max y (f64_mul JUMP_VELOCITY
                   (if me_support_surface me = Honey then f64_literal 5 1 else integral 1))) s in
         if pm_sprinting s then (SPRINT_JUMP_IMPULSE, sprint_impulse lib s) else (0, s))
      else (0, s))"

section \<open>The displacement\<close>

definition requested_displacement :: "player_movement_state \<Rightarrow> vec3d" where
  "requested_displacement s =
     (let v = pm_velocity s in
      v\<lparr>vec_y := f64_sub (vec_y v) (if \<not> pm_flying s \<and> f64_less_eq (vec_y v) 0 then COLLISION_EPSILON else 0)\<rparr>)"

definition should_back_off ::
  "movement_environment \<Rightarrow> movement_input \<Rightarrow> bool \<Rightarrow> vec3d \<Rightarrow> loaded_chunks \<Rightarrow> dimension_geometry \<Rightarrow>
   block_collision_profile \<Rightarrow> player_movement_state \<Rightarrow> simulation_error + bool" where
  "should_back_off me i grounded requested chunks geometry profile s =
     (if mi_sneak i \<and> \<not> pm_flying s \<and> \<not> (me_scaffolding me \<or> me_supported_on_scaffolding_top me) \<and>
         f64_less_eq (vec_y requested) 0 then
        (if grounded then Inr True
         else if f64_less (pm_fall_distance s) STEP_HEIGHT then
           and_also (can_fall_at_least (bounding_box s) 0 0 (f64_sub STEP_HEIGHT (pm_fall_distance s)) chunks geometry profile)
             (\<lambda>falls. Inr (\<not> falls))
         else Inr False)
      else Inr False)"

definition differ :: "f64 \<Rightarrow> f64 \<Rightarrow> bool" where
  "differ a b \<longleftrightarrow> f64_less COLLISION_EPSILON (f64_abs (f64_sub a b))"

section \<open>After the move\<close>

text \<open>The new place, and whether a wall was in the way, which ends a sprint.\<close>

definition move_pose :: "vec3d \<Rightarrow> player_movement_state \<Rightarrow> player_movement_state" where
  "move_pose applied s =
     (let p = pm_pose s in
      s\<lparr>pm_pose := p\<lparr>lp_x := f64_add (lp_x p) (vec_x applied), lp_y := f64_add (lp_y p) (vec_y applied),
                         lp_z := f64_add (lp_z p) (vec_z applied)\<rparr>\<rparr>)"

definition touch_walls :: "vec3d \<Rightarrow> vec3d \<Rightarrow> player_movement_state \<Rightarrow> player_movement_state" where
  "touch_walls requested applied s =
     (let hit = differ (vec_x requested) (vec_x applied) \<or> differ (vec_z requested) (vec_z applied);
          s = s\<lparr>pm_horizontal_collision := hit\<rparr> in
      if hit \<and> \<not> pm_swimming s then s\<lparr>pm_sprinting := False\<rparr> else s)"

text \<open>Contact with the ground, and the distance fallen.\<close>

definition touch_ground :: "vec3d \<Rightarrow> vec3d \<Rightarrow> player_movement_state \<Rightarrow> player_movement_state" where
  "touch_ground requested applied s =
     (let grounded = f64_less (vec_y requested) 0 \<and>
            f64_less_eq COLLISION_EPSILON (f64_abs (f64_sub (vec_y requested) (vec_y applied)));
          fallen = (if pm_flying s then 0
                    else if f64_less (vec_y applied) 0 then f64_sub (pm_fall_distance s) (vec_y applied)
                    else pm_fall_distance s) in
      s\<lparr>pm_on_ground := grounded, pm_fall_distance := (if grounded then 0 else fallen)\<rparr>)"

text \<open>The velocity along an axis is lost to a wall or to the edge that was not stepped over.\<close>

definition stop_at_walls :: "vec3d \<Rightarrow> vec3d \<Rightarrow> vec3d \<Rightarrow> vec3d \<Rightarrow> vec3d" where
  "stop_at_walls before requested applied v =
     v\<lparr>vec_x := (if differ (vec_x before) (vec_x requested) \<or> differ (vec_x requested) (vec_x applied) then 0 else vec_x v),
       vec_z := (if differ (vec_z before) (vec_z requested) \<or> differ (vec_z requested) (vec_z applied) then 0 else vec_z v)\<rparr>"

definition apply_move :: "vec3d \<Rightarrow> vec3d \<Rightarrow> vec3d \<Rightarrow> player_movement_state \<Rightarrow> player_movement_state" where
  "apply_move before requested applied s =
     with_velocity (stop_at_walls before requested applied)
       (touch_ground requested applied (touch_walls requested applied (move_pose applied s)))"

text \<open>What a floor or ceiling makes of the vertical velocity, and whether it throws the player back.\<close>

definition bounce :: "movement_input \<Rightarrow> special_surface \<Rightarrow> vec3d \<Rightarrow> vec3d \<Rightarrow> player_movement_state \<Rightarrow> bool \<times> player_movement_state" where
  "bounce i surface requested applied s =
     (if \<not> differ (vec_y requested) (vec_y applied) then (False, s)
      else if f64_less (vec_y requested) 0 \<and> surface = Slime \<and> \<not> mi_sneak i then
        (let y = f64_neg (vec_y requested); least = f64_literal 1 1 in
         (f64_less_eq least y, set_vertical (if f64_less y least then 0 else y) s))
      else if f64_less (vec_y requested) 0 \<and> surface = Bed \<and> \<not> mi_sneak i then
        (let y = f64_mul (f64_neg (vec_y requested)) (f64_literal 6600000262260437 16) in (f64_less 0 y, set_vertical y s))
      else (False, set_vertical 0 s))"

definition drag_of :: "bool \<Rightarrow> f64 \<Rightarrow> player_movement_state \<Rightarrow> f64" where
  "drag_of grounded ground_drag s =
     (if pm_in_water s then (if pm_sprinting s then WATER_SPRINT_DRAG else WATER_DRAG)
      else if pm_in_lava s then LAVA_DRAG
      else if \<not> pm_flying s \<and> grounded then ground_drag
      else AIR_DRAG)"

definition fall :: "player_movement_state \<Rightarrow> f64" where
  "fall s = f64_mul (f64_sub (vertical_velocity s) GRAVITY) VERTICAL_DRAG"

text \<open>Gravity and drag; flying ends on the ground, which is the change it reports.\<close>

definition settle_vertical ::
  "movement_environment \<Rightarrow> bool \<Rightarrow> player_movement_state \<Rightarrow> bool option \<times> player_movement_state" where
  "settle_vertical me rebound s =
     (let y = vertical_velocity s in
      if pm_flying s \<and> pm_on_ground s then (Some False, set_vertical 0 (s\<lparr>pm_flying := False\<rparr>))
      else if pm_flying s then (None, set_vertical (f64_mul y FLYING_VERTICAL_DRAG) s)
      else if pm_in_water s then
        (let y = f64_mul y WATER_DRAG in (None, set_vertical (if pm_sprinting s then y else f64_sub y WATER_GRAVITY) s))
      else if pm_in_lava s then
        (let vertical_drag = (if f64_less_eq (me_lava_immersion me) (f64_literal 4 1) then WATER_DRAG else LAVA_DRAG) in
         (None, set_vertical (f64_sub (f64_mul y vertical_drag) WATER_GRAVITY) s))
      else if pm_climbing s then (None, set_vertical (f64_max (fall s) CLIMB_FALL_LIMIT) s)
      else if me_honey_side_contact me \<and> f64_less y HONEY_SLIDE_SPEED then (None, set_vertical HONEY_SLIDE_SPEED s)
      else if rebound then (None, set_vertical (fall s) (s\<lparr>pm_fall_distance := 0\<rparr>))
      else if pm_on_ground s then (None, set_vertical 0 s)
      else (None, set_vertical (fall s) s))"

definition after_move ::
  "movement_environment \<Rightarrow> movement_input \<Rightarrow> bool \<Rightarrow> f64 \<Rightarrow> vec3d \<Rightarrow> vec3d \<Rightarrow> loaded_chunks \<Rightarrow> dimension_geometry \<Rightarrow>
   block_collision_profile \<Rightarrow> player_movement_state \<Rightarrow> (f64 \<times> bool option) \<times> player_movement_state" where
  "after_move me i grounded ground_drag requested applied chunks geometry profile s =
     (let (climbable, scaffolding) = touches_climbing_cell (bounding_box s) chunks geometry profile;
          s = s\<lparr>pm_climbing := (pm_climbing s \<or> climbable \<or> scaffolding)\<rparr>;
          climb_assist = pm_climbing s \<and> \<not> me_scaffolding me \<and> \<not> scaffolding \<and>
            (mi_jump i \<or> (pm_horizontal_collision s \<and> mi_forward i));
          (rebound, s) = bounce i (support_surface_at (bounding_box s) chunks geometry profile) requested applied s;
          s = (if climb_assist then set_vertical CLIMB_UP_SPEED s else s);
          drag = drag_of grounded ground_drag s;
          s = with_velocity (scale_horizontal drag) s;
          (flight_changed, s) = settle_vertical me rebound s in
      ((drag, flight_changed), s))"

definition simulation_is_finite :: "player_movement_state \<Rightarrow> bool" where
  "simulation_is_finite s \<longleftrightarrow>
     pose_is_finite (pm_pose s) \<and> vec3d_is_finite (pm_velocity s) \<and> f64_is_finite (pm_fall_distance s)"

text \<open>The scaffolding that holds a player who does not sneak.\<close>

definition on_scaffolding ::
  "movement_input \<Rightarrow> aabb \<Rightarrow> vec3d \<Rightarrow> loaded_chunks \<Rightarrow> dimension_geometry \<Rightarrow> block_collision_profile \<Rightarrow> vec3d \<Rightarrow> vec3d" where
  "on_scaffolding i b requested chunks geometry profile applied =
     (if \<not> mi_sneak i \<and> f64_less_eq (vec_y requested) 0 then
        case scaffolding_support_y (translated (vec_x applied) 0 (vec_z applied) b) (vec_y applied) chunks geometry profile of
          None \<Rightarrow> applied | Some support_y \<Rightarrow> applied\<lparr>vec_y := f64_sub support_y (vec_y (box_min b))\<rparr>
      else applied)"

definition leave_fluid ::
  "bool \<Rightarrow> vec3d \<Rightarrow> loaded_chunks \<Rightarrow> dimension_geometry \<Rightarrow> block_collision_profile \<Rightarrow> unit movement_step" where
  "leave_fluid probe applied chunks geometry profile s =
     (if \<not> probe then (Inr (), s)
      else case fluid_exit_clearance (bounding_box s) (pm_velocity s) (vec_y applied) chunks geometry profile of
        Inl e \<Rightarrow> (Inl e, s)
      | Inr clear \<Rightarrow> (Inr (), if clear then set_vertical (f64_literal 30000001192092896 17) s else s))"

text \<open>The tick until it decides how far to move: the state, the acceleration, the ground drag, the impulse and the jump.\<close>

record tick_start =
  ts_environment :: movement_environment
  ts_acceleration :: f64
  ts_ground_drag :: f64
  ts_impulse :: f64
  ts_jumped :: bool

definition begin_tick ::
  "float_library \<Rightarrow> movement_input \<Rightarrow> loaded_chunks \<Rightarrow> dimension_geometry \<Rightarrow> block_collision_profile \<Rightarrow>
   player_movement_state \<Rightarrow> tick_start \<times> player_movement_state" where
  "begin_tick lib i chunks geometry profile s =
     (let grounded = pm_on_ground s;
          me = movement_environment_of lib (bounding_box s) chunks geometry profile;
          s = sense me i s;
          direction = input_direction lib i;
          s = update_sprint me i (fst direction) s;
          direction = slowed_direction me i s direction;
          slipperiness = ground_slipperiness chunks geometry profile s;
          acceleration = horizontal_acceleration lib grounded slipperiness s;
          s = swim_steering lib me i (drift lib me (accelerate lib direction acceleration s));
          jumped = jumps grounded i s;
          (impulse, s) = control_vertical lib me i grounded s in
      (\<lparr>ts_environment = me, ts_acceleration = acceleration, ts_ground_drag = f64_mul slipperiness GROUND_DRAG_SCALE,
        ts_impulse = impulse, ts_jumped = jumped\<rparr>, s))"

definition finish_tick ::
  "tick_start \<Rightarrow> movement_input \<Rightarrow> bool \<Rightarrow> vec3d \<Rightarrow> vec3d \<Rightarrow> vec3d \<Rightarrow> bool \<Rightarrow> loaded_chunks \<Rightarrow> dimension_geometry \<Rightarrow>
   block_collision_profile \<Rightarrow> simulation_result movement_step" where
  "finish_tick t i grounded before requested applied stepped chunks geometry profile s =
     (let s = apply_move before requested applied s;
          probe = (pm_in_water s \<or> pm_in_lava s) \<and> pm_horizontal_collision s;
          ((drag, flight_changed), s) =
            after_move (ts_environment t) i grounded (ts_ground_drag t) requested applied chunks geometry profile s in
      case leave_fluid probe applied chunks geometry profile s of
        (Inl e, s) \<Rightarrow> (Inl e, s)
      | (Inr _, s) \<Rightarrow>
          if \<not> simulation_is_finite s then (Inl (NonFinite ''simulation result''), s)
          else
            let had_collision = differ (vec_x requested) (vec_x applied) \<or> differ (vec_y requested) (vec_y applied) \<or>
                  differ (vec_z requested) (vec_z applied) in
            (Inr \<lparr>sr_requested = requested, sr_applied = applied, sr_stepped = stepped,
               sr_approximate_collision = (had_collision \<and>
                 list_ex cc_approximate (cd_candidates (collision_diagnostics_of (bounding_box s) chunks geometry profile))),
               sr_flight_changed = flight_changed, sr_jumped = ts_jumped t, sr_grounded_at_start = grounded,
               sr_horizontal_acceleration = ts_acceleration t, sr_horizontal_drag = drag,
               sr_sprint_jump_impulse = ts_impulse t\<rparr>, s))"

text \<open>\<open>None\<close> when the guard of edges does not end.\<close>

definition tick ::
  "float_library \<Rightarrow> movement_input \<Rightarrow> loaded_chunks \<Rightarrow> dimension_geometry \<Rightarrow> block_collision_profile \<Rightarrow>
   player_movement_state \<Rightarrow> ((simulation_error + simulation_result) \<times> player_movement_state) option" where
  "tick lib i chunks geometry profile s0 =
     (let grounded = pm_on_ground s0;
          (t, s) = begin_tick lib i chunks geometry profile s0;
          b = bounding_box s; before = requested_displacement s in
      case should_back_off (ts_environment t) i grounded before chunks geometry profile s of
        Inl e \<Rightarrow> Some (Inl e, s)
      | Inr back_off \<Rightarrow>
          (case (if back_off then back_off_from_edge b before chunks geometry profile else Some (Inr before)) of
             None \<Rightarrow> None
           | Some (Inl e) \<Rightarrow> Some (Inl e, s)
           | Some (Inr requested) \<Rightarrow>
               (case collide b requested chunks geometry profile grounded of
                  Inl e \<Rightarrow> Some (Inl e, s)
                | Inr (direct, stepped) \<Rightarrow>
                    Some (finish_tick t i grounded before requested
                      (on_scaffolding i b requested chunks geometry profile direct) stepped chunks geometry profile s))))"

definition collision_diagnostics_player ::
  "loaded_chunks \<Rightarrow> dimension_geometry \<Rightarrow> block_collision_profile \<Rightarrow> player_movement_state \<Rightarrow> collision_diagnostics" where
  "collision_diagnostics_player chunks geometry profile s = collision_diagnostics_of (bounding_box s) chunks geometry profile"

end
