(* ===== verification/Player_Props.thy ===== *)
theory Player_Props
  imports Player_Tick
begin

text \<open>
  What every operation on the local player keeps, and what holds after a tick: a player flies only when the server allows
  it, the pose fits what the player does, and a result is made of numbers.
\<close>

section \<open>What a tick leaves alone\<close>

text \<open>After it has sensed the world, a tick changes place and motion, not how the player looks, stands or may move.\<close>

definition same_manner :: "player_movement_state \<Rightarrow> player_movement_state \<Rightarrow> bool" where
  "same_manner s s' \<longleftrightarrow>
     pm_may_fly s' = pm_may_fly s \<and> pm_flying s' = pm_flying s \<and> pm_flying_speed s' = pm_flying_speed s \<and>
     pm_swimming s' = pm_swimming s \<and> pm_pose_kind s' = pm_pose_kind s \<and>
     lp_eye_height (pm_pose s') = lp_eye_height (pm_pose s) \<and> lp_yaw (pm_pose s') = lp_yaw (pm_pose s) \<and>
     lp_pitch (pm_pose s') = lp_pitch (pm_pose s)"

lemma same_manner_refl [intro]: "same_manner s s" by (simp add: same_manner_def)

lemma same_manner_trans: "same_manner s s' \<Longrightarrow> same_manner s' s'' \<Longrightarrow> same_manner s s''"
  by (simp add: same_manner_def)

lemma same_manner_velocity: "same_manner s (with_velocity f s)"
  by (simp add: same_manner_def with_velocity_def)

lemma same_manner_vertical: "same_manner s (set_vertical y s)"
  by (simp add: set_vertical_def same_manner_velocity)

lemmas velocity_fields = with_velocity_def set_vertical_def

lemma same_manner_fields:
  "same_manner s (s\<lparr>pm_sprinting := b\<rparr>)" "same_manner s (s\<lparr>pm_on_ground := b\<rparr>)" "same_manner s (s\<lparr>pm_climbing := b\<rparr>)"
  "same_manner s (s\<lparr>pm_horizontal_collision := b\<rparr>)" "same_manner s (s\<lparr>pm_fall_distance := d\<rparr>)"
  by (simp_all add: same_manner_def)

lemma same_manner_update_sprint: "same_manner s (update_sprint me i forward s)"
  by (simp add: update_sprint_def Let_def same_manner_fields same_manner_refl)

lemma same_manner_accelerate: "same_manner s (accelerate lib d acceleration s)"
  by (cases d) (simp add: accelerate_def Let_def same_manner_velocity)

lemma same_manner_drift: "same_manner s (drift lib me s)"
  by (simp add: drift_def Let_def same_manner_velocity same_manner_refl)

lemma same_manner_swim_steering: "same_manner s (swim_steering lib me i s)"
  by (simp add: swim_steering_def Let_def same_manner_vertical same_manner_refl)

lemma same_manner_clamp: "same_manner s (clamp_climbing s)"
  by (simp add: clamp_climbing_def same_manner_velocity)

lemma same_manner_impulse: "same_manner s (sprint_impulse lib s)"
  by (simp add: sprint_impulse_def Let_def same_manner_velocity)

lemma same_manner_control_vertical: "same_manner s (snd (control_vertical lib me i grounded s))"
proof -
  have "same_manner s (clamp_climbing (set_vertical y s))" "same_manner s (set_vertical y (clamp_climbing s))"
    "same_manner s (sprint_impulse lib (set_vertical y s))" for y
    using same_manner_trans[OF same_manner_vertical same_manner_clamp] same_manner_trans[OF same_manner_clamp same_manner_vertical]
      same_manner_trans[OF same_manner_vertical same_manner_impulse] by blast+
  then show ?thesis by (simp add: control_vertical_def Let_def same_manner_vertical same_manner_refl)
qed

lemma same_manner_apply_move: "same_manner s (apply_move before requested applied s)"
proof -
  have "same_manner s (move_pose applied s)" "same_manner s (touch_walls requested applied s)"
    "same_manner s (touch_ground requested applied s)" for s
    by (simp_all add: move_pose_def touch_walls_def touch_ground_def same_manner_def Let_def)
  then show ?thesis
    unfolding apply_move_def by (intro same_manner_trans[OF _ same_manner_velocity]) (blast intro: same_manner_trans)
qed

lemma same_manner_bounce: "same_manner s (snd (bounce i surface requested applied s))"
  by (simp add: bounce_def Let_def same_manner_vertical same_manner_refl)

text \<open>Gravity ends a flight on the ground and leaves the rest.\<close>

definition manner_kept :: "player_movement_state \<Rightarrow> player_movement_state \<Rightarrow> bool" where
  "manner_kept s s' \<longleftrightarrow>
     pm_may_fly s' = pm_may_fly s \<and> (pm_flying s' \<longrightarrow> pm_flying s) \<and> pm_flying_speed s' = pm_flying_speed s \<and>
     pm_swimming s' = pm_swimming s \<and> pm_pose_kind s' = pm_pose_kind s \<and>
     lp_eye_height (pm_pose s') = lp_eye_height (pm_pose s) \<and> lp_yaw (pm_pose s') = lp_yaw (pm_pose s) \<and>
     lp_pitch (pm_pose s') = lp_pitch (pm_pose s)"

lemma manner_kept_same: "same_manner s s' \<Longrightarrow> manner_kept s s'"
  by (simp add: same_manner_def manner_kept_def)

lemma manner_kept_trans: "manner_kept s s' \<Longrightarrow> manner_kept s' s'' \<Longrightarrow> manner_kept s s''"
  by (auto simp: manner_kept_def)

lemma settle_vertical_kept:
  "manner_kept s (snd (settle_vertical me rebound s))"
  "fst (settle_vertical me rebound s) =
     (if pm_flying s \<and> pm_on_ground s then Some False else None)"
  "pm_flying (snd (settle_vertical me rebound s)) = (pm_flying s \<and> \<not> pm_on_ground s)"
  by (auto simp: settle_vertical_def manner_kept_def velocity_fields Let_def)

lemma after_move_kept:
  assumes "after_move me i grounded ground_drag requested applied chunks geometry profile s = ((drag, changed), s')"
  shows "manner_kept s s'" and "changed \<noteq> None \<longleftrightarrow> pm_flying s \<and> \<not> pm_flying s'"
proof -
  obtain climbable scaffolding where touch: "touches_climbing_cell (bounding_box s) chunks geometry profile = (climbable, scaffolding)"
    by fastforce
  define s1 where "s1 = s\<lparr>pm_climbing := (pm_climbing s \<or> climbable \<or> scaffolding)\<rparr>"
  obtain rebound s2 where bounced:
    "bounce i (support_surface_at (bounding_box s1) chunks geometry profile) requested applied s1 = (rebound, s2)" by fastforce
  obtain assist where settle: "settle_vertical me rebound
      (with_velocity (scale_horizontal drag) (if assist then set_vertical CLIMB_UP_SPEED s2 else s2)) = (changed, s')"
    using assms by (auto simp: after_move_def touch Let_def bounced simp flip: s1_def split: prod.splits)
  define s4 where "s4 = with_velocity (scale_horizontal drag) (if assist then set_vertical CLIMB_UP_SPEED s2 else s2)"
  have "same_manner s s1" by (simp add: s1_def same_manner_fields)
  moreover have "same_manner s1 s2" using same_manner_bounce[of s1] bounced by (metis snd_conv)
  moreover have "same_manner s2 s4"
    by (simp add: s4_def same_manner_velocity same_manner_trans[OF same_manner_vertical same_manner_velocity])
  ultimately have same: "same_manner s s4" using same_manner_trans by blast
  have settle4: "settle_vertical me rebound s4 = (changed, s')" using settle by (simp add: s4_def)
  show "manner_kept s s'"
    using manner_kept_trans[OF manner_kept_same[OF same] settle_vertical_kept(1)[of s4 me rebound]] settle4 by simp
  show "changed \<noteq> None \<longleftrightarrow> pm_flying s \<and> \<not> pm_flying s'"
    using settle_vertical_kept(2,3)[of me rebound s4] settle4 same by (auto simp: same_manner_def split: if_splits)
qed

section \<open>The whole tick\<close>

text \<open>The pose fits what the player does.\<close>

definition pose_fits :: "player_movement_state \<Rightarrow> bool" where
  "pose_fits s \<longleftrightarrow> lp_eye_height (pm_pose s) = dim_eye_height (pose_dimensions (pm_pose_kind s)) \<and>
     (pm_swimming s \<longleftrightarrow> pm_pose_kind s = Swimming) \<and> (pm_swimming s \<longrightarrow> \<not> pm_flying s)"

lemma pose_fits_kept: "manner_kept s s' \<Longrightarrow> pose_fits s \<Longrightarrow> pose_fits s'"
  by (auto simp: manner_kept_def pose_fits_def)

lemma sense_fits:
  "pose_fits (sense me i s)" "pm_may_fly (sense me i s) = pm_may_fly s" "pm_flying (sense me i s) = pm_flying s"
  "lp_yaw (pm_pose (sense me i s)) = lp_yaw (pm_pose s)" "lp_pitch (pm_pose (sense me i s)) = lp_pitch (pm_pose s)"
  by (auto simp: sense_def Let_def pose_fits_def)

lemma begin_tick_kept:
  assumes "begin_tick lib i chunks geometry profile s = (t, s')"
  shows "pose_fits s'" and "pm_may_fly s' = pm_may_fly s" and "pm_flying s' = pm_flying s"
    and "lp_yaw (pm_pose s') = lp_yaw (pm_pose s)" and "lp_pitch (pm_pose s') = lp_pitch (pm_pose s)"
proof -
  define me where "me = movement_environment_of lib (bounding_box s) chunks geometry profile"
  define s1 where "s1 = update_sprint me i (fst (input_direction lib i)) (sense me i s)"
  define d where "d = slowed_direction me i s1 (input_direction lib i)"
  define a where "a = horizontal_acceleration lib (pm_on_ground s) (ground_slipperiness chunks geometry profile s1) s1"
  have s': "s' = snd (control_vertical lib me i (pm_on_ground s) (swim_steering lib me i (drift lib me (accelerate lib d a s1))))"
    using assms by (auto simp: begin_tick_def Let_def simp flip: me_def s1_def d_def a_def split: prod.splits)
  have same: "same_manner (sense me i s) s'"
    unfolding s' s1_def
    by (rule same_manner_trans[OF _ same_manner_control_vertical], rule same_manner_trans[OF _ same_manner_swim_steering],
        rule same_manner_trans[OF _ same_manner_drift], rule same_manner_trans[OF _ same_manner_accelerate],
        rule same_manner_update_sprint)
  show "pose_fits s'" by (rule pose_fits_kept[OF manner_kept_same[OF same] sense_fits(1)])
  show "pm_may_fly s' = pm_may_fly s" "pm_flying s' = pm_flying s" "lp_yaw (pm_pose s') = lp_yaw (pm_pose s)"
    "lp_pitch (pm_pose s') = lp_pitch (pm_pose s)"
    using same sense_fits(2-)[of me i s] by (simp_all add: same_manner_def)
qed

lemma leave_fluid_same: "leave_fluid probe applied chunks geometry profile s = (r, s') \<Longrightarrow> same_manner s s'"
  by (auto simp: leave_fluid_def same_manner_vertical same_manner_refl split: if_splits sum.splits)

lemma finish_tick_kept:
  assumes "finish_tick t i grounded before requested applied stepped chunks geometry profile s = (r, s')"
  shows "manner_kept s s'" and "r = Inr res \<Longrightarrow> simulation_is_finite s' \<and>
    (sr_flight_changed res \<noteq> None \<longleftrightarrow> pm_flying s \<and> \<not> pm_flying s')"
proof -
  define s1 where "s1 = apply_move before requested applied s"
  obtain drag changed s2 where after: "after_move (ts_environment t) i grounded (ts_ground_drag t) requested applied chunks geometry profile s1 =
      ((drag, changed), s2)" by (metis surj_pair)
  obtain q s3 where leave:
    "leave_fluid ((pm_in_water s1 \<or> pm_in_lava s1) \<and> pm_horizontal_collision s1) applied chunks geometry profile s2 = (q, s3)" by fastforce
  have s3: "s' = s3" "r = Inr res \<Longrightarrow> simulation_is_finite s3 \<and> sr_flight_changed res = changed"
    using assms by (auto simp: finish_tick_def Let_def leave after simp flip: s1_def split: sum.splits if_splits)
  have first: "manner_kept s s1" unfolding s1_def by (rule manner_kept_same[OF same_manner_apply_move])
  have last: "same_manner s2 s3" by (rule leave_fluid_same[OF leave])
  show kept: "manner_kept s s'"
    using manner_kept_trans[OF manner_kept_trans[OF first after_move_kept(1)[OF after]] manner_kept_same[OF last]] s3 by simp
  have "pm_flying s1 = pm_flying s" using same_manner_apply_move[of s] by (simp add: s1_def same_manner_def)
  then show "r = Inr res \<Longrightarrow> simulation_is_finite s' \<and> (sr_flight_changed res \<noteq> None \<longleftrightarrow> pm_flying s \<and> \<not> pm_flying s')"
    using s3 after_move_kept(2)[OF after] last by (simp add: same_manner_def)
qed

lemma tick_kept:
  assumes "tick lib i chunks geometry profile s = Some (r, s')"
  shows "pose_fits s'" and "pm_may_fly s' = pm_may_fly s" and "pm_flying s' \<Longrightarrow> pm_flying s"
    and "lp_yaw (pm_pose s') = lp_yaw (pm_pose s)" and "lp_pitch (pm_pose s') = lp_pitch (pm_pose s)"
    and "r = Inr res \<Longrightarrow> simulation_is_finite s' \<and> (sr_flight_changed res \<noteq> None \<longleftrightarrow> pm_flying s \<and> \<not> pm_flying s')"
proof -
  obtain t s1 where b: "begin_tick lib i chunks geometry profile s = (t, s1)" by fastforce
  note start = begin_tick_kept[OF b]
  have "(\<exists>e. r = Inl e \<and> s' = s1) \<or> (\<exists>before requested applied stepped.
      finish_tick t i (pm_on_ground s) before requested applied stepped chunks geometry profile s1 = (r, s'))"
    using assms by (auto simp: tick_def Let_def b split: sum.splits option.splits prod.splits)
  then have all: "manner_kept s1 s' \<and> (r = Inr res \<longrightarrow> simulation_is_finite s' \<and>
      (sr_flight_changed res \<noteq> None \<longleftrightarrow> pm_flying s1 \<and> \<not> pm_flying s'))"
  proof
    assume "\<exists>e. r = Inl e \<and> s' = s1"
    then show ?thesis using manner_kept_same[OF same_manner_refl] by auto
  next
    assume "\<exists>before requested applied stepped.
      finish_tick t i (pm_on_ground s) before requested applied stepped chunks geometry profile s1 = (r, s')"
    then obtain before requested applied stepped where
      f: "finish_tick t i (pm_on_ground s) before requested applied stepped chunks geometry profile s1 = (r, s')" by blast
    show ?thesis using finish_tick_kept(1)[OF f] finish_tick_kept(2)[OF f] by blast
  qed
  show "pose_fits s'" using pose_fits_kept all start(1) by blast
  show "pm_may_fly s' = pm_may_fly s" "pm_flying s' \<Longrightarrow> pm_flying s" "lp_yaw (pm_pose s') = lp_yaw (pm_pose s)"
    "lp_pitch (pm_pose s') = lp_pitch (pm_pose s)"
    using all start by (auto simp: manner_kept_def)
  show "r = Inr res \<Longrightarrow> simulation_is_finite s' \<and> (sr_flight_changed res \<noteq> None \<longleftrightarrow> pm_flying s \<and> \<not> pm_flying s')"
    using all start(3) by simp
qed

lemma standing_tick_returns: "\<not> mi_sneak i \<Longrightarrow> tick lib i chunks geometry profile s \<noteq> None"
  by (auto simp: tick_def Let_def should_back_off_def split: sum.splits prod.splits)

section \<open>Properties\<close>

text \<open>
  C40: a tick returns unless the player sneaks, and whatever it returns, a player flies only if he flew before and his
  permission is what it was, his eyes are at the height of his pose, he swims exactly in the swimming pose and never while
  flying, and his view is not turned; when it succeeds, place, velocity and fall distance are numbers, and it reports a
  change of flight exactly when the flight ended.
\<close>

theorem tick_result_sound:
  "case tick lib i chunks geometry profile s of
     None \<Rightarrow> mi_sneak i
   | Some (r, s') \<Rightarrow> pose_fits s' \<and> pm_may_fly s' = pm_may_fly s \<and> pm_flying s' \<in> {False, pm_flying s} \<and>
       lp_yaw (pm_pose s') = lp_yaw (pm_pose s) \<and> lp_pitch (pm_pose s') = lp_pitch (pm_pose s) \<and>
       (case r of
          Inl e \<Rightarrow> True
        | Inr result \<Rightarrow> simulation_is_finite s' \<and> (sr_flight_changed result \<noteq> None) = (pm_flying s \<and> \<not> pm_flying s'))"
proof (cases "tick lib i chunks geometry profile s")
  case None
  then show ?thesis using standing_tick_returns[of i lib chunks geometry profile s] by auto
next
  case (Some rs)
  then obtain r s' where t: "tick lib i chunks geometry profile s = Some (r, s')" by (cases rs) auto
  then show ?thesis using tick_kept[OF t] by (auto split: sum.splits)
qed

end
