(* ===== verification/Spec2Isabelle.thy ===== *)
theory Spec2Isabelle
  imports Framing Bitset Block_Position Transport Status Chunk_Props Inventory_Props World_Props Entity_Props Bootstrap_Send_Props Section_Updates Receive_Props Game_Data_Props Item_Valid Session_Items_Props World_Adapter_Props Secure_Chat_Props Session_Frames_Props Session_Arms Session_Replies Address Online_Login_Props Status_Query Version_Props Collision_Props Player_Props
begin

text \<open>
  Cubic is a Minecraft client in Rust. This development models the part that decides what the client
  makes of a server, and how the player moves in the world it builds from that: the wire codecs and
  packets of protocol 775 (\<open>crates/cubic-protocol\<close>), the connection, the logins and the play session
  (\<open>crates/cubic-network\<close>), the data of a version (\<open>crates/cubic-version\<close>) and the state of inventory,
  entities, world and player (\<open>crates/cubic-world\<close>).

  The parts and how they interact, from the bytes up.
  \<^item> Values on the wire. \<open>Codec_Reader\<close>, \<open>Codec_Writer\<close>, \<open>Varint\<close>, \<open>Utf8\<close>, \<open>Codec_Strings\<close>,
    \<open>Bitset\<close>, \<open>Block_Position\<close> are \<open>reader.rs\<close>, \<open>writer.rs\<close>, \<open>varint.rs\<close>, \<open>bitset.rs\<close>, \<open>position.rs\<close>
    and \<open>uuid.rs\<close>. A reader is its input and a position, an operation a function from the reader to a
    value or an error and the reader it leaves (\<open>fallible\<close> of \<open>Cubic_Prelude\<close>); \<open>?\<close> is \<open>and_then\<close>.
    \<open>decodes m bs v\<close> states what a read makes of given bytes and composes over \<open>and_then\<close>, \<open>appends\<close>
    states what a write adds, \<open>advances\<close> that a read stays inside its input on arbitrary bytes.
  \<^item> NBT (\<open>Nbt_Tag\<close>, \<open>Nbt_Decode\<close>, \<open>Nbt_Encode\<close>, \<open>Nbt_Documents\<close>, \<open>Nbt_Bounds\<close>): \<open>nbt/*.rs\<close>, trees with
    bounded depth, number of values and memory.
  \<^item> Frames and transport (\<open>Framing\<close>, \<open>Transport\<close>): \<open>frame.rs\<close>, \<open>transforms.rs\<close>, \<open>connection.rs\<close>.
    Reads of the socket are a list of chunks, compression and encryption are parameters with the laws
    their crates document.
  \<^item> Packets. \<open>Status\<close> is the handshake and the server list ping; \<open>Chunk_Decode\<close> is \<open>v775/chunk.rs\<close>;
    \<open>Bootstrap\<close>, \<open>Bootstrap_Send\<close>, \<open>Bootstrap_Receive\<close> and \<open>Bootstrap_Play\<close> are \<open>v775.rs\<close>, one
    definition per encoder and decoder; \<open>Item_Codec\<close> and \<open>Item_Packets\<close> are \<open>v775/inventory.rs\<close>,
    item stacks with their components; \<open>Entity_Packets\<close> is \<open>v775/entity.rs\<close> and \<open>entity/metadata.rs\<close>.
  \<^item> Data of a version. \<open>Game_Data\<close> is \<open>game_data.rs\<close>, the registries and block states and their lookups;
    \<open>Version_Store\<close> is \<open>identity.rs\<close>, \<open>model.rs\<close> and \<open>store.rs\<close>, the installed versions over a file
    system that is the record \<open>file_system\<close>.
  \<^item> State. \<open>Item_Stack\<close>, \<open>Container\<close>, \<open>Inventory\<close> are \<open>cubic-world/src/inventory.rs\<close>, \<open>World_Chunk\<close>,
    \<open>World_Model\<close>, \<open>World_State\<close> are \<open>chunk.rs\<close>, \<open>model.rs\<close>, \<open>state.rs\<close>, \<open>Entity_Store\<close> is \<open>entity.rs\<close>.
    Maps of the code (\<open>BTreeMap\<close>) are sorted association lists with the interface \<open>finite_map\<close>
    (\<open>Ordered_Map\<close>).
  \<^item> Before a session. \<open>Address\<close>, \<open>Status_Query\<close>, \<open>Login\<close>, \<open>Server_Hash\<close> and \<open>Online_Login\<close> are
    \<open>address.rs\<close>, \<open>status.rs\<close>, \<open>development_login\<close>, \<open>online_crypto.rs\<close> and \<open>online_login.rs\<close>: each drives the
    connection of \<open>Transport\<close> through the packets above.
  \<^item> The session. \<open>Session_Frames\<close> is the frame loop of \<open>chat_session.rs\<close>; it hands packets to
    \<open>World_Adapter\<close> (\<open>world_adapter.rs\<close>), \<open>Session_Items\<close> and \<open>Session_Entities\<close> (the inventory and
    entity branches of the loop) and \<open>Secure_Chat\<close> (\<open>secure_chat.rs\<close>), which update the states above.
  \<^item> Movement. \<open>Block_Environment\<close> and \<open>Block_Shapes\<close> are \<open>environment.rs\<close> and \<open>collision_vanilla.rs\<close>, what
    the blocks of a version are to the player; \<open>Player_Collision\<close>, \<open>Player_Movement\<close> and \<open>Player_Tick\<close> are
    \<open>movement.rs\<close> (with \<open>shape_data.rs\<close> in the first): the obstacles near a box, the sweep along the axes,
    what the player touches, and one tick. Floats are their bit patterns with the arithmetic of \<open>Ieee\<close>,
    rounding included; \<open>sin\<close>, \<open>cos\<close>, \<open>hypot\<close> and \<open>powi\<close> of the platform are parameters. Sums of \<open>i32\<close> in the
    search for obstacles wrap, as in a release build.

  What the lemmas show. Beside the theories of the model stand those of its properties.
  \<^item> Round trips of every encoding the client writes (\<open>Codec_Strings\<close>, \<open>Nbt_Documents\<close>, \<open>Bootstrap_Send_Props\<close>,
    \<open>Section_Updates\<close>, \<open>Address\<close>, \<open>Version_Props\<close>), and that frames arrive however they are split (\<open>Framing\<close>,
    \<open>Transport\<close>).
  \<^item> On arbitrary input, what was decoded satisfies the invariants of its kind and no run panics: \<open>Nbt_Bounds\<close>,
    \<open>Chunk_Valid\<close>, \<open>Receive_Valid\<close>, \<open>Item_Valid\<close>, \<open>Entity_Valid\<close>, \<open>Text_Bounds\<close>, with the properties in
    \<open>Chunk_Props\<close> and \<open>Receive_Props\<close>; where a run does panic, exactly when (\<open>Session_Items_Props\<close>).
  \<^item> Invariants of the inventory, the entity store and the world under every sequence of operations, conservation
    of items by clicks, refinement of block updates (\<open>Container_Props\<close>, \<open>Inventory_Props\<close>, \<open>Entity_Props\<close>,
    \<open>World_Props\<close>), and of a whole session (\<open>Session_Invariant\<close>, \<open>Session_Entities_Props\<close>,
    \<open>World_Adapter_Props\<close>, \<open>Session_Frames_Props\<close>); the arms of its loop that are dead and the replies it
    owes the server (\<open>Session_Arms\<close>, \<open>Session_Replies\<close>); the numbering and acknowledgement of signed
    messages (\<open>Secure_Chat_Props\<close>).
  \<^item> Logins and queries reach their end with a server that keeps to the protocol, and a login that succeeds was
    confirmed (\<open>Login_Props\<close>, \<open>Online_Login_Props\<close>, \<open>Status_Query\<close>); lookups of game data are exact
    (\<open>Game_Data_Props\<close>).
  \<^item> A sweep never enters an obstacle, in machine arithmetic, the guard of edges ends, the written shapes are within
    the limit of boxes, and a tick keeps the state of the player sound (\<open>Ieee_Rounding\<close>, \<open>Collision_Props\<close>,
    \<open>Player_Props\<close>).

  Bounds. Recursion is structural or on the remaining input; no fuel is needed except in the NBT decoder,
  whose depth bound is the one of the code. The loops of the guard of edges may run forever on huge numbers,
  so they are partial and \<open>None\<close> is not returning. \<open>usize\<close> is 64 bits wide. A panic of the code is a value of
  the model (\<open>Panicked\<close>, \<open>Boot_Panic\<close>). Allocation of a bounded buffer is a parameter where the code
  handles its failure (\<open>try_reserve\<close>) and succeeds otherwise.

  Not modelled: the user interface, rendering and meshing, the launcher and sign-in flows, resource packs
  and their JSON, platform glue and logging; they are drawing, I/O and calls of libraries. The lists of
  packet facts that the build compares with Mojang's generated reports are data. Of the session, the control
  loop of World Mode that feeds the ticks (\<open>world_movement.rs\<close>) with its inventory commands, and the snapshots
  for the renderer (\<open>world_render.rs\<close>) are left out; of the world, ray casts and block outlines
  (\<open>interaction.rs\<close>) and \<open>render.rs\<close>; of the version data, the downloads, the creative tabs and the dimensions of
  entities (\<open>official.rs\<close>, \<open>creative.rs\<close>, \<open>entity_data.rs\<close>); and a write of the version store that fails after
  its file was created.
\<close>

end
